(* ===== verification/Prelude.thy ===== *)
theory Prelude
  imports Main "HOL-Library.Word" "HOL-Library.AList"
begin

unbundle bit_operations_syntax

text \<open>
  Shared vocabulary of the development: Python values the components exchange (bytes, exception
  classes, results), a state-and-exception computation type for methods that mutate an object and
  may raise, loops and sequencing over it, the preservation calculus used for invariants, and
  generic facts on words, bit operations and association lists.
\<close>

section \<open>Bytes\<close>

type_synonym byte = "8 word"
type_synonym bytes = "byte list"
type_synonym u32 = "32 word"

definition byte_of :: "int \<Rightarrow> byte" where
  "byte_of i = word_of_int i"

lemma uint_byte_of [simp]: "0 \<le> i \<Longrightarrow> i < 256 \<Longrightarrow> uint (byte_of i) = i"
  by (simp add: byte_of_def uint_word_of_int)

lemma uint_byte_bounds [simp]: "0 \<le> uint (b :: byte)" "uint (b :: byte) < 256"
  using uint_bounded [of b] by simp_all

lemma uint_byte_le [simp]: "uint (b :: byte) \<le> 255"
  using uint_byte_bounds(2) [of b] by linarith

lemma byte_of_uint [simp]: "byte_of (uint b) = b"
  by (simp add: byte_of_def)

section \<open>Exception classes\<close>

text \<open>
  An exception class is the record of the class attributes the code reads; \<open>cls_mro\<close> is the
  method resolution order, by class name.  A py_subclass copies the attributes of its base, so an
  attribute the class body does not assign is inherited, and \<open>isinstance\<close> is membership in the
  resolution order.  Messages of raised instances are not modelled: a raised exception is
  identified by its class.
\<close>

record exn_class =
  cls_name :: string
  cls_mro :: "string list"
  cls_errno :: "int option"
  cls_message :: "string option"
  cls_retriable :: bool
  cls_invalid_metadata :: bool

definition BaseException :: exn_class where
  "BaseException = \<lparr>cls_name = ''BaseException'', cls_mro = [''BaseException''], cls_errno = None,
     cls_message = None, cls_retriable = False, cls_invalid_metadata = False\<rparr>"

definition py_subclass :: "string \<Rightarrow> exn_class \<Rightarrow> exn_class" where
  "py_subclass n b = b\<lparr>cls_name := n, cls_mro := n # cls_mro b\<rparr>"

definition issubclass :: "exn_class \<Rightarrow> exn_class \<Rightarrow> bool" where
  "issubclass c d \<longleftrightarrow> cls_name d \<in> set (cls_mro c)"

definition Exception :: exn_class where "Exception = py_subclass ''Exception'' BaseException"
definition RuntimeError :: exn_class where "RuntimeError = py_subclass ''RuntimeError'' Exception"
definition ValueError :: exn_class where "ValueError = py_subclass ''ValueError'' Exception"
definition TypeError :: exn_class where "TypeError = py_subclass ''TypeError'' Exception"
definition LookupError :: exn_class where "LookupError = py_subclass ''LookupError'' Exception"
definition KeyError :: exn_class where "KeyError = py_subclass ''KeyError'' LookupError"
definition IndexError :: exn_class where "IndexError = py_subclass ''IndexError'' LookupError"
definition AssertionError :: exn_class where "AssertionError = py_subclass ''AssertionError'' Exception"
definition AttributeError :: exn_class where "AttributeError = py_subclass ''AttributeError'' Exception"
definition StopIteration :: exn_class where "StopIteration = py_subclass ''StopIteration'' Exception"
definition struct_error :: exn_class where "struct_error = py_subclass ''error'' Exception"

lemmas builtin_exn_defs =
  BaseException_def py_subclass_def Exception_def RuntimeError_def ValueError_def TypeError_def
  LookupError_def KeyError_def IndexError_def AssertionError_def AttributeError_def
  StopIteration_def struct_error_def

section \<open>Results\<close>

type_synonym 'a res = "exn_class + 'a"

definition res_bind :: "'a res \<Rightarrow> ('a \<Rightarrow> 'b res) \<Rightarrow> 'b res" where
  "res_bind r f = (case r of Inl e \<Rightarrow> Inl e | Inr a \<Rightarrow> f a)"

definition res_map :: "('a \<Rightarrow> 'b) \<Rightarrow> 'a res \<Rightarrow> 'b res" where
  "res_map f r = (case r of Inl e \<Rightarrow> Inl e | Inr a \<Rightarrow> Inr (f a))"

definition require :: "bool \<Rightarrow> exn_class \<Rightarrow> unit res" where
  "require b e = (if b then Inr () else Inl e)"

lemma res_bind_simps [simp]:
  "res_bind (Inl e) f = Inl e"
  "res_bind (Inr a) f = f a"
  by (simp_all add: res_bind_def)

lemma res_map_simps [simp]:
  "res_map f (Inl e) = Inl e"
  "res_map f (Inr a) = Inr (f a)"
  by (simp_all add: res_map_def)

lemma res_bind_eq_Inr:
  "res_bind r f = Inr b \<longleftrightarrow> (\<exists>a. r = Inr a \<and> f a = Inr b)"
  by (cases r) simp_all

lemma res_map_eq_Inr:
  "res_map f r = Inr b \<longleftrightarrow> (\<exists>a. r = Inr a \<and> b = f a)"
  by (cases r) auto

lemmas res_eq_Inr = res_bind_eq_Inr res_map_eq_Inr

lemma require_eq_Inr [simp]: "require b e = Inr u \<longleftrightarrow> b"
  by (simp add: require_def)

primrec res_list :: "'a res list \<Rightarrow> 'a list res" where
  "res_list [] = Inr []"
| "res_list (r # rs) = res_bind r (\<lambda>a. res_map (\<lambda>as. a # as) (res_list rs))"

lemma res_list_map_Inr: "(\<And>x. x \<in> set xs \<Longrightarrow> f x = Inr (g x)) \<Longrightarrow> res_list (map f xs) = Inr (map g xs)"
  by (induction xs) simp_all

section \<open>Methods: state and exceptions\<close>

text \<open>
  A method of a mutable object is a function from the object's state to a result and a new state.
  A raised exception keeps the mutations made before it, as in Python.
\<close>

type_synonym ('s, 'a) py = "'s \<Rightarrow> 'a res \<times> 's"

definition py_return :: "'a \<Rightarrow> ('s, 'a) py" where
  "py_return a s = (Inr a, s)"

definition py_raise :: "exn_class \<Rightarrow> ('s, 'a) py" where
  "py_raise e s = (Inl e, s)"

definition py_bind :: "('s, 'a) py \<Rightarrow> ('a \<Rightarrow> ('s, 'b) py) \<Rightarrow> ('s, 'b) py" where
  "py_bind m f s = (case m s of (Inl e, t) \<Rightarrow> (Inl e, t) | (Inr a, t) \<Rightarrow> f a t)"

definition py_get :: "('s \<Rightarrow> 'a) \<Rightarrow> ('s, 'a) py" where
  "py_get f s = (Inr (f s), s)"

definition py_set :: "('s \<Rightarrow> 's) \<Rightarrow> ('s, unit) py" where
  "py_set f s = (Inr (), f s)"

definition py_lift :: "'a res \<Rightarrow> ('s, 'a) py" where
  "py_lift r s = (r, s)"

definition py_when :: "('s \<Rightarrow> bool) \<Rightarrow> ('s, unit) py \<Rightarrow> ('s, unit) py" where
  "py_when b m s = (if b s then m s else (Inr (), s))"

definition py_if :: "('s \<Rightarrow> bool) \<Rightarrow> ('s, 'a) py \<Rightarrow> ('s, 'a) py \<Rightarrow> ('s, 'a) py" where
  "py_if b m n s = (if b s then m s else n s)"

definition py_assert :: "('s \<Rightarrow> bool) \<Rightarrow> ('s, unit) py" where
  "py_assert b s = (if b s then (Inr (), s) else (Inl AssertionError, s))"

text \<open>A block of statements, and a \<open>for\<close> loop over a list.\<close>

primrec py_do :: "('s, unit) py list \<Rightarrow> ('s, unit) py" where
  "py_do [] = py_return ()"
| "py_do (m # ms) = py_bind m (\<lambda>_. py_do ms)"

primrec py_for :: "('a \<Rightarrow> ('s, unit) py) \<Rightarrow> 'a list \<Rightarrow> ('s, unit) py" where
  "py_for f [] = py_return ()"
| "py_for f (x # xs) = py_bind (f x) (\<lambda>_. py_for f xs)"

definition py_then :: "('s, unit) py \<Rightarrow> ('s, 'a) py \<Rightarrow> ('s, 'a) py" where
  "py_then m n = py_bind m (\<lambda>_. n)"

lemmas py_defs =
  py_return_def py_raise_def py_bind_def py_get_def py_set_def py_lift_def py_when_def
  py_if_def py_assert_def py_then_def

lemma py_bind_Inr: "py_bind m f s = (Inr b, u) \<longleftrightarrow> (\<exists>a t. m s = (Inr a, t) \<and> f a t = (Inr b, u))"
  by (auto simp: py_bind_def split: prod.splits sum.splits)

lemma py_return_Inr: "py_return a s = (Inr b, t) \<longleftrightarrow> b = a \<and> t = s"
  by (auto simp: py_return_def)

lemma py_raise_Inr: "py_raise e s \<noteq> (Inr b, t)"
  by (simp add: py_raise_def)

lemma py_get_Inr: "py_get f s = (Inr b, t) \<longleftrightarrow> b = f s \<and> t = s"
  by (auto simp: py_get_def)

lemma py_set_Inr: "py_set f s = (Inr u, t) \<longleftrightarrow> t = f s"
  by (auto simp: py_set_def)

lemma py_lift_Inr: "py_lift r s = (Inr b, t) \<longleftrightarrow> r = Inr b \<and> t = s"
  by (auto simp: py_lift_def)

lemma py_when_Inr: "py_when b m s = (Inr u, t) \<longleftrightarrow> (if b s then m s = (Inr u, t) else t = s)"
  by (auto simp: py_when_def)

lemma py_if_Inr: "py_if b m n s = (Inr u, t) \<longleftrightarrow> (if b s then m s = (Inr u, t) else n s = (Inr u, t))"
  by (simp add: py_if_def)

lemma py_assert_Inr: "py_assert b s = (Inr u, t) \<longleftrightarrow> b s \<and> t = s"
  by (auto simp: py_assert_def)

lemma py_then_Inr: "py_then m n s = (Inr b, u) \<longleftrightarrow> (\<exists>t. m s = (Inr (), t) \<and> n t = (Inr b, u))"
  by (simp add: py_then_def py_bind_Inr)

text \<open>What a method did when it returned, one rule per way of building it.\<close>

lemmas py_Inr = py_bind_Inr py_return_Inr py_raise_Inr py_get_Inr py_set_Inr py_lift_Inr py_when_Inr
  py_if_Inr py_assert_Inr py_then_Inr

lemma py_bind_return_left: "py_bind (py_return a) f = f a"
  by (rule ext) (simp add: py_defs)

lemma py_bind_return_right: "py_bind m py_return = m"
  by (rule ext) (auto simp: py_defs split: prod.splits sum.splits)

lemma py_bind_assoc: "py_bind (py_bind m f) g = py_bind m (\<lambda>a. py_bind (f a) g)"
  by (rule ext) (auto simp: py_defs split: prod.splits sum.splits)

lemma py_for_append: "py_for f (xs @ ys) = py_then (py_for f xs) (py_for f ys)"
  by (induction xs) (simp_all add: py_then_def py_bind_return_left py_bind_assoc)

subsection \<open>Invariants of methods\<close>

text \<open>
  \<open>keeps I m\<close>: a call of \<open>m\<close> in a state with \<open>I\<close> leaves a state with \<open>I\<close>, whether it
  returns or raises.  The rules follow the structure of a method body.
\<close>

definition keeps :: "('s \<Rightarrow> bool) \<Rightarrow> ('s, 'a) py \<Rightarrow> bool" where
  "keeps I m \<longleftrightarrow> (\<forall>s. I s \<longrightarrow> I (snd (m s)))"

named_theorems keeps_rules \<open>introduction rules for keeps, one per way of building a method\<close>

lemma keepsD: "keeps I m \<Longrightarrow> I s \<Longrightarrow> m s = (r, t) \<Longrightarrow> I t"
  by (auto simp: keeps_def dest: spec [of _ s])

lemma keepsI: "(\<And>s. I s \<Longrightarrow> I (snd (m s))) \<Longrightarrow> keeps I m"
  by (simp add: keeps_def)

lemma keeps_return [keeps_rules, simp]: "keeps I (py_return a)"
  by (simp add: keeps_def py_defs)

lemma keeps_raise [keeps_rules, simp]: "keeps I (py_raise e)"
  by (simp add: keeps_def py_defs)

lemma keeps_lift [keeps_rules, simp]: "keeps I (py_lift r)"
  by (simp add: keeps_def py_defs)

lemma keeps_get [keeps_rules, simp]: "keeps I (py_get f)"
  by (simp add: keeps_def py_defs)

lemma keeps_assert [keeps_rules, simp]: "keeps I (py_assert b)"
  by (simp add: keeps_def py_defs)

lemma keeps_set [keeps_rules]: "(\<And>s. I s \<Longrightarrow> I (f s)) \<Longrightarrow> keeps I (py_set f)"
  by (simp add: keeps_def py_defs)

lemma keeps_bind [keeps_rules]:
  "keeps I m \<Longrightarrow> (\<And>a. keeps I (f a)) \<Longrightarrow> keeps I (py_bind m f)"
  by (auto simp: keeps_def py_defs split: prod.splits sum.splits)

lemma keeps_then [keeps_rules]: "keeps I m \<Longrightarrow> keeps I n \<Longrightarrow> keeps I (py_then m n)"
  by (simp add: py_then_def keeps_bind)

lemma keeps_when [keeps_rules]: "keeps I m \<Longrightarrow> keeps I (py_when b m)"
  by (simp add: keeps_def py_defs)

lemma keeps_py_if [keeps_rules]: "keeps I m \<Longrightarrow> keeps I n \<Longrightarrow> keeps I (py_if b m n)"
  by (simp add: keeps_def py_defs)

lemma keeps_if [keeps_rules]: "(b \<Longrightarrow> keeps I m) \<Longrightarrow> (\<not> b \<Longrightarrow> keeps I n) \<Longrightarrow> keeps I (if b then m else n)"
  by simp

lemma keeps_case_option:
  "keeps I a \<Longrightarrow> (\<And>x. o' = Some x \<Longrightarrow> keeps I (b x)) \<Longrightarrow> keeps I (case o' of None \<Rightarrow> a | Some x \<Rightarrow> b x)"
  by (cases o') simp_all

lemma keeps_do [keeps_rules]: "(\<And>m. m \<in> set ms \<Longrightarrow> keeps I m) \<Longrightarrow> keeps I (py_do ms)"
  by (induction ms) (simp_all add: keeps_bind)

lemma keeps_for [keeps_rules]: "(\<And>x. x \<in> set xs \<Longrightarrow> keeps I (f x)) \<Longrightarrow> keeps I (py_for f xs)"
  by (induction xs) (simp_all add: keeps_bind)

subsection \<open>Guarantees of methods\<close>

text \<open>
  \<open>guarantees R m\<close>: the states before and after a call of \<open>m\<close> are related by \<open>R\<close>, whether the
  call returns or raises.  For a reflexive and transitive \<open>R\<close> the rules follow the structure of a
  method body; an interpretation of the locale instantiates them.
\<close>

definition guarantees :: "('s \<Rightarrow> 's \<Rightarrow> bool) \<Rightarrow> ('s, 'a) py \<Rightarrow> bool" where
  "guarantees R m \<longleftrightarrow> (\<forall>s. R s (snd (m s)))"

lemma guaranteesI: "(\<And>s. R s (snd (m s))) \<Longrightarrow> guarantees R m"
  by (simp add: guarantees_def)

lemma guaranteesD: "guarantees R m \<Longrightarrow> m s = (r, t) \<Longrightarrow> R s t"
  by (auto simp: guarantees_def dest: spec [of _ s])

locale guarantee =
  fixes R :: "'s \<Rightarrow> 's \<Rightarrow> bool"
  assumes R_refl: "R s s"
    and R_trans: "R s t \<Longrightarrow> R t u \<Longrightarrow> R s u"
begin

lemma g_return: "guarantees R (py_return a)"
  by (simp add: guarantees_def py_defs R_refl)

lemma g_raise: "guarantees R (py_raise e)"
  by (simp add: guarantees_def py_defs R_refl)

lemma g_lift: "guarantees R (py_lift r)"
  by (simp add: guarantees_def py_defs R_refl)

lemma g_get: "guarantees R (py_get f)"
  by (simp add: guarantees_def py_defs R_refl)

lemma g_assert: "guarantees R (py_assert b)"
  by (simp add: guarantees_def py_defs R_refl)

lemma g_set: "(\<And>s. R s (f s)) \<Longrightarrow> guarantees R (py_set f)"
  by (simp add: guarantees_def py_defs)

lemma g_bind:
  assumes "guarantees R m" "\<And>a. guarantees R (f a)"
  shows "guarantees R (py_bind m f)"
proof (rule guaranteesI)
  fix s
  obtain r t where m: "m s = (r, t)" by (cases "m s")
  have "R s t" by (rule guaranteesD [OF assms(1) m])
  moreover have "R t (snd (f a t))" for a using assms(2) [of a] by (simp add: guarantees_def)
  ultimately show "R s (snd (py_bind m f s))"
    by (cases r) (auto simp: py_bind_def m intro: R_trans)
qed

lemma g_then: "guarantees R m \<Longrightarrow> guarantees R n \<Longrightarrow> guarantees R (py_then m n)"
  by (simp add: py_then_def g_bind)

lemma g_when: "guarantees R m \<Longrightarrow> guarantees R (py_when b m)"
  by (simp add: guarantees_def py_defs R_refl)

lemma g_py_if: "guarantees R m \<Longrightarrow> guarantees R n \<Longrightarrow> guarantees R (py_if b m n)"
  by (simp add: guarantees_def py_defs)

lemma g_if: "(b \<Longrightarrow> guarantees R m) \<Longrightarrow> (\<not> b \<Longrightarrow> guarantees R n) \<Longrightarrow> guarantees R (if b then m else n)"
  by simp

lemma g_for: "(\<And>x. guarantees R (f x)) \<Longrightarrow> guarantees R (py_for f xs)"
  by (induction xs) (simp_all add: g_return g_bind)

lemmas g_rules = g_return g_raise g_lift g_get g_assert g_set g_bind g_then g_when g_py_if g_if g_for

end

section \<open>Bit operations of Python integers\<close>

named_theorems bit_arith \<open>bit operations on integers as arithmetic\<close>

lemma and_127 [bit_arith]: "(v :: int) AND 127 = v mod 128"
  using take_bit_eq_mask [of 7 v] by (simp add: take_bit_eq_mod mask_eq_exp_minus_1)

lemma and_255 [bit_arith]: "(v :: int) AND 255 = v mod 256"
  using take_bit_eq_mask [of 8 v] by (simp add: take_bit_eq_mod mask_eq_exp_minus_1)

lemma and_mask32 [bit_arith]: "(v :: int) AND 4294967295 = v mod 4294967296"
  using take_bit_eq_mask [of 32 v] by (simp add: take_bit_eq_mod mask_eq_exp_minus_1)

lemma drop_bit_div [bit_arith]: "drop_bit n (v :: int) = v div 2 ^ n"
  by (rule drop_bit_eq_div)

lemma push_bit_mult [bit_arith]: "push_bit n (v :: int) = v * 2 ^ n"
  by (rule push_bit_eq_mult)

lemma or_shifted:
  fixes a b :: int
  assumes "0 \<le> a" "a < 2 ^ n"
  shows "a OR push_bit n b = a + push_bit n b"
proof -
  have tb: "take_bit n a = a" using assms by (simp add: take_bit_int_eq_self)
  have hi: "\<not> bit a i" if "n \<le> i" for i
    using tb that by (metis bit_take_bit_iff not_le)
  have "a AND push_bit n b = 0"
    by (rule bit_eqI) (simp add: bit_and_iff bit_push_bit_iff hi)
  then show ?thesis by (simp add: disjunctive_add_eq_or)
qed

text \<open>Comparison of version tuples.\<close>

fun version_ge :: "int list \<Rightarrow> int list \<Rightarrow> bool" where
  "version_ge xs [] = True"
| "version_ge [] (y # ys) = False"
| "version_ge (x # xs) (y # ys) = (x > y \<or> (x = y \<and> version_ge xs ys))"

end
