(* ===== verification/Errors.thy ===== *)
theory Errors
  imports Prelude
begin

text \<open>
  \<^verbatim>\<open>kafka/errors.py\<close>: the exception hierarchy of the client.  One definition per class, with the
  attributes its body assigns; the others are inherited.  The human-readable \<open>description\<close>
  strings are not part of the model.  \<open>for_code\<close> maps an error code of a broker response to a
  class.  The theorems show that no error code is ever lost or confused with another.
\<close>

section \<open>The classes\<close>

definition KafkaError :: exn_class where
  "KafkaError = (py_subclass ''KafkaError'' RuntimeError)\<lparr>cls_retriable := False, cls_invalid_metadata := False\<rparr>"

definition Cancelled :: exn_class where
  "Cancelled = (py_subclass ''Cancelled'' KafkaError)\<lparr>cls_retriable := True\<rparr>"

definition CommitFailedError :: exn_class where
  "CommitFailedError = py_subclass ''CommitFailedError'' KafkaError"

definition IllegalArgumentError :: exn_class where
  "IllegalArgumentError = py_subclass ''IllegalArgumentError'' KafkaError"

definition IllegalStateError :: exn_class where
  "IllegalStateError = py_subclass ''IllegalStateError'' KafkaError"

definition IncompatibleBrokerVersion :: exn_class where
  "IncompatibleBrokerVersion = py_subclass ''IncompatibleBrokerVersion'' KafkaError"

definition KafkaConfigurationError :: exn_class where
  "KafkaConfigurationError = py_subclass ''KafkaConfigurationError'' KafkaError"

definition KafkaConnectionError :: exn_class where
  "KafkaConnectionError = (py_subclass ''KafkaConnectionError'' KafkaError)\<lparr>cls_retriable := True, cls_invalid_metadata := True\<rparr>"

definition KafkaProtocolError :: exn_class where
  "KafkaProtocolError = (py_subclass ''KafkaProtocolError'' KafkaError)\<lparr>cls_retriable := True\<rparr>"

definition CorrelationIdError :: exn_class where
  "CorrelationIdError = (py_subclass ''CorrelationIdError'' KafkaProtocolError)\<lparr>cls_retriable := True\<rparr>"

definition KafkaTimeoutError :: exn_class where
  "KafkaTimeoutError = (py_subclass ''KafkaTimeoutError'' KafkaError)\<lparr>cls_retriable := True\<rparr>"

definition MetadataEmptyBrokerList :: exn_class where
  "MetadataEmptyBrokerList = (py_subclass ''MetadataEmptyBrokerList'' KafkaError)\<lparr>cls_retriable := True\<rparr>"

definition NoBrokersAvailable :: exn_class where
  "NoBrokersAvailable = (py_subclass ''NoBrokersAvailable'' KafkaError)\<lparr>cls_retriable := True, cls_invalid_metadata := True\<rparr>"

definition NoOffsetForPartitionError :: exn_class where
  "NoOffsetForPartitionError = py_subclass ''NoOffsetForPartitionError'' KafkaError"

definition NodeNotReadyError :: exn_class where
  "NodeNotReadyError = (py_subclass ''NodeNotReadyError'' KafkaError)\<lparr>cls_retriable := True\<rparr>"

definition QuotaViolationError :: exn_class where
  "QuotaViolationError = py_subclass ''QuotaViolationError'' KafkaError"

definition StaleMetadata :: exn_class where
  "StaleMetadata = (py_subclass ''StaleMetadata'' KafkaError)\<lparr>cls_retriable := True, cls_invalid_metadata := True\<rparr>"

definition TooManyInFlightRequests :: exn_class where
  "TooManyInFlightRequests = (py_subclass ''TooManyInFlightRequests'' KafkaError)\<lparr>cls_retriable := True\<rparr>"

definition UnrecognizedBrokerVersion :: exn_class where
  "UnrecognizedBrokerVersion = py_subclass ''UnrecognizedBrokerVersion'' KafkaError"

definition UnsupportedCodecError :: exn_class where
  "UnsupportedCodecError = py_subclass ''UnsupportedCodecError'' KafkaError"

definition BrokerResponseError :: exn_class where
  "BrokerResponseError = (py_subclass ''BrokerResponseError'' KafkaError)\<lparr>cls_errno := None, cls_message := None\<rparr>"

definition AuthorizationError :: exn_class where
  "AuthorizationError = py_subclass ''AuthorizationError'' BrokerResponseError"

definition NoError :: exn_class where
  "NoError = (py_subclass ''NoError'' BrokerResponseError)\<lparr>cls_errno := Some 0, cls_message := Some ''NO_ERROR''\<rparr>"

definition UnknownError :: exn_class where
  "UnknownError = (py_subclass ''UnknownError'' BrokerResponseError)\<lparr>cls_errno := Some (-1), cls_message := Some ''UNKNOWN''\<rparr>"

definition OffsetOutOfRangeError :: exn_class where
  "OffsetOutOfRangeError = (py_subclass ''OffsetOutOfRangeError'' BrokerResponseError)\<lparr>cls_errno := Some 1, cls_message := Some ''OFFSET_OUT_OF_RANGE''\<rparr>"

definition CorruptRecordError :: exn_class where
  "CorruptRecordError = (py_subclass ''CorruptRecordError'' BrokerResponseError)\<lparr>cls_errno := Some 2, cls_message := Some ''CORRUPT_MESSAGE''\<rparr>"

definition UnknownTopicOrPartitionError :: exn_class where
  "UnknownTopicOrPartitionError = (py_subclass ''UnknownTopicOrPartitionError'' BrokerResponseError)\<lparr>cls_errno := Some 3, cls_message := Some ''UNKNOWN_TOPIC_OR_PARTITION'', cls_retriable := True, cls_invalid_metadata := True\<rparr>"

definition InvalidFetchRequestError :: exn_class where
  "InvalidFetchRequestError = (py_subclass ''InvalidFetchRequestError'' BrokerResponseError)\<lparr>cls_errno := Some 4, cls_message := Some ''INVALID_FETCH_SIZE''\<rparr>"

definition LeaderNotAvailableError :: exn_class where
  "LeaderNotAvailableError = (py_subclass ''LeaderNotAvailableError'' BrokerResponseError)\<lparr>cls_errno := Some 5, cls_message := Some ''LEADER_NOT_AVAILABLE'', cls_retriable := True, cls_invalid_metadata := True\<rparr>"

definition NotLeaderForPartitionError :: exn_class where
  "NotLeaderForPartitionError = (py_subclass ''NotLeaderForPartitionError'' BrokerResponseError)\<lparr>cls_errno := Some 6, cls_message := Some ''NOT_LEADER_FOR_PARTITION'', cls_retriable := True, cls_invalid_metadata := True\<rparr>"

definition RequestTimedOutError :: exn_class where
  "RequestTimedOutError = (py_subclass ''RequestTimedOutError'' BrokerResponseError)\<lparr>cls_errno := Some 7, cls_message := Some ''REQUEST_TIMED_OUT'', cls_retriable := True\<rparr>"

definition BrokerNotAvailableError :: exn_class where
  "BrokerNotAvailableError = (py_subclass ''BrokerNotAvailableError'' BrokerResponseError)\<lparr>cls_errno := Some 8, cls_message := Some ''BROKER_NOT_AVAILABLE''\<rparr>"

definition ReplicaNotAvailableError :: exn_class where
  "ReplicaNotAvailableError = (py_subclass ''ReplicaNotAvailableError'' BrokerResponseError)\<lparr>cls_errno := Some 9, cls_message := Some ''REPLICA_NOT_AVAILABLE'', cls_retriable := True, cls_invalid_metadata := True\<rparr>"

definition MessageSizeTooLargeError :: exn_class where
  "MessageSizeTooLargeError = (py_subclass ''MessageSizeTooLargeError'' BrokerResponseError)\<lparr>cls_errno := Some 10, cls_message := Some ''MESSAGE_SIZE_TOO_LARGE''\<rparr>"

definition StaleControllerEpochError :: exn_class where
  "StaleControllerEpochError = (py_subclass ''StaleControllerEpochError'' BrokerResponseError)\<lparr>cls_errno := Some 11, cls_message := Some ''STALE_CONTROLLER_EPOCH''\<rparr>"

definition OffsetMetadataTooLargeError :: exn_class where
  "OffsetMetadataTooLargeError = (py_subclass ''OffsetMetadataTooLargeError'' BrokerResponseError)\<lparr>cls_errno := Some 12, cls_message := Some ''OFFSET_METADATA_TOO_LARGE''\<rparr>"

definition NetworkExceptionError :: exn_class where
  "NetworkExceptionError = (py_subclass ''NetworkExceptionError'' BrokerResponseError)\<lparr>cls_errno := Some 13, cls_message := Some ''NETWORK_EXCEPTION'', cls_retriable := True, cls_invalid_metadata := True\<rparr>"

definition CoordinatorLoadInProgressError :: exn_class where
  "CoordinatorLoadInProgressError = (py_subclass ''CoordinatorLoadInProgressError'' BrokerResponseError)\<lparr>cls_errno := Some 14, cls_message := Some ''COORDINATOR_LOAD_IN_PROGRESS'', cls_retriable := True\<rparr>"

definition CoordinatorNotAvailableError :: exn_class where
  "CoordinatorNotAvailableError = (py_subclass ''CoordinatorNotAvailableError'' BrokerResponseError)\<lparr>cls_errno := Some 15, cls_message := Some ''COORDINATOR_NOT_AVAILABLE'', cls_retriable := True\<rparr>"

definition NotCoordinatorError :: exn_class where
  "NotCoordinatorError = (py_subclass ''NotCoordinatorError'' BrokerResponseError)\<lparr>cls_errno := Some 16, cls_message := Some ''NOT_COORDINATOR'', cls_retriable := True\<rparr>"

definition InvalidTopicError :: exn_class where
  "InvalidTopicError = (py_subclass ''InvalidTopicError'' BrokerResponseError)\<lparr>cls_errno := Some 17, cls_message := Some ''INVALID_TOPIC''\<rparr>"

definition RecordListTooLargeError :: exn_class where
  "RecordListTooLargeError = (py_subclass ''RecordListTooLargeError'' BrokerResponseError)\<lparr>cls_errno := Some 18, cls_message := Some ''RECORD_LIST_TOO_LARGE''\<rparr>"

definition NotEnoughReplicasError :: exn_class where
  "NotEnoughReplicasError = (py_subclass ''NotEnoughReplicasError'' BrokerResponseError)\<lparr>cls_errno := Some 19, cls_message := Some ''NOT_ENOUGH_REPLICAS'', cls_retriable := True\<rparr>"

definition NotEnoughReplicasAfterAppendError :: exn_class where
  "NotEnoughReplicasAfterAppendError = (py_subclass ''NotEnoughReplicasAfterAppendError'' BrokerResponseError)\<lparr>cls_errno := Some 20, cls_message := Some ''NOT_ENOUGH_REPLICAS_AFTER_APPEND'', cls_retriable := True\<rparr>"

definition InvalidRequiredAcksError :: exn_class where
  "InvalidRequiredAcksError = (py_subclass ''InvalidRequiredAcksError'' BrokerResponseError)\<lparr>cls_errno := Some 21, cls_message := Some ''INVALID_REQUIRED_ACKS''\<rparr>"

definition IllegalGenerationError :: exn_class where
  "IllegalGenerationError = (py_subclass ''IllegalGenerationError'' BrokerResponseError)\<lparr>cls_errno := Some 22, cls_message := Some ''ILLEGAL_GENERATION''\<rparr>"

definition InconsistentGroupProtocolError :: exn_class where
  "InconsistentGroupProtocolError = (py_subclass ''InconsistentGroupProtocolError'' BrokerResponseError)\<lparr>cls_errno := Some 23, cls_message := Some ''INCONSISTENT_GROUP_PROTOCOL''\<rparr>"

definition InvalidGroupIdError :: exn_class where
  "InvalidGroupIdError = (py_subclass ''InvalidGroupIdError'' BrokerResponseError)\<lparr>cls_errno := Some 24, cls_message := Some ''INVALID_GROUP_ID''\<rparr>"

definition UnknownMemberIdError :: exn_class where
  "UnknownMemberIdError = (py_subclass ''UnknownMemberIdError'' BrokerResponseError)\<lparr>cls_errno := Some 25, cls_message := Some ''UNKNOWN_MEMBER_ID''\<rparr>"

definition InvalidSessionTimeoutError :: exn_class where
  "InvalidSessionTimeoutError = (py_subclass ''InvalidSessionTimeoutError'' BrokerResponseError)\<lparr>cls_errno := Some 26, cls_message := Some ''INVALID_SESSION_TIMEOUT''\<rparr>"

definition RebalanceInProgressError :: exn_class where
  "RebalanceInProgressError = (py_subclass ''RebalanceInProgressError'' BrokerResponseError)\<lparr>cls_errno := Some 27, cls_message := Some ''REBALANCE_IN_PROGRESS''\<rparr>"

definition InvalidCommitOffsetSizeError :: exn_class where
  "InvalidCommitOffsetSizeError = (py_subclass ''InvalidCommitOffsetSizeError'' BrokerResponseError)\<lparr>cls_errno := Some 28, cls_message := Some ''INVALID_COMMIT_OFFSET_SIZE''\<rparr>"

definition TopicAuthorizationFailedError :: exn_class where
  "TopicAuthorizationFailedError = (py_subclass ''TopicAuthorizationFailedError'' AuthorizationError)\<lparr>cls_errno := Some 29, cls_message := Some ''TOPIC_AUTHORIZATION_FAILED''\<rparr>"

definition GroupAuthorizationFailedError :: exn_class where
  "GroupAuthorizationFailedError = (py_subclass ''GroupAuthorizationFailedError'' AuthorizationError)\<lparr>cls_errno := Some 30, cls_message := Some ''GROUP_AUTHORIZATION_FAILED''\<rparr>"

definition ClusterAuthorizationFailedError :: exn_class where
  "ClusterAuthorizationFailedError = (py_subclass ''ClusterAuthorizationFailedError'' AuthorizationError)\<lparr>cls_errno := Some 31, cls_message := Some ''CLUSTER_AUTHORIZATION_FAILED''\<rparr>"

definition InvalidTimestampError :: exn_class where
  "InvalidTimestampError = (py_subclass ''InvalidTimestampError'' BrokerResponseError)\<lparr>cls_errno := Some 32, cls_message := Some ''INVALID_TIMESTAMP''\<rparr>"

definition UnsupportedSaslMechanismError :: exn_class where
  "UnsupportedSaslMechanismError = (py_subclass ''UnsupportedSaslMechanismError'' BrokerResponseError)\<lparr>cls_errno := Some 33, cls_message := Some ''UNSUPPORTED_SASL_MECHANISM''\<rparr>"

definition IllegalSaslStateError :: exn_class where
  "IllegalSaslStateError = (py_subclass ''IllegalSaslStateError'' BrokerResponseError)\<lparr>cls_errno := Some 34, cls_message := Some ''ILLEGAL_SASL_STATE''\<rparr>"

definition UnsupportedVersionError :: exn_class where
  "UnsupportedVersionError = (py_subclass ''UnsupportedVersionError'' BrokerResponseError)\<lparr>cls_errno := Some 35, cls_message := Some ''UNSUPPORTED_VERSION''\<rparr>"

definition TopicAlreadyExistsError :: exn_class where
  "TopicAlreadyExistsError = (py_subclass ''TopicAlreadyExistsError'' BrokerResponseError)\<lparr>cls_errno := Some 36, cls_message := Some ''TOPIC_ALREADY_EXISTS''\<rparr>"

definition InvalidPartitionsError :: exn_class where
  "InvalidPartitionsError = (py_subclass ''InvalidPartitionsError'' BrokerResponseError)\<lparr>cls_errno := Some 37, cls_message := Some ''INVALID_PARTITIONS''\<rparr>"

definition InvalidReplicationFactorError :: exn_class where
  "InvalidReplicationFactorError = (py_subclass ''InvalidReplicationFactorError'' BrokerResponseError)\<lparr>cls_errno := Some 38, cls_message := Some ''INVALID_REPLICATION_FACTOR''\<rparr>"

definition InvalidReplicationAssignmentError :: exn_class where
  "InvalidReplicationAssignmentError = (py_subclass ''InvalidReplicationAssignmentError'' BrokerResponseError)\<lparr>cls_errno := Some 39, cls_message := Some ''INVALID_REPLICATION_ASSIGNMENT''\<rparr>"

definition InvalidConfigurationError :: exn_class where
  "InvalidConfigurationError = (py_subclass ''InvalidConfigurationError'' BrokerResponseError)\<lparr>cls_errno := Some 40, cls_message := Some ''INVALID_CONFIG''\<rparr>"

definition NotControllerError :: exn_class where
  "NotControllerError = (py_subclass ''NotControllerError'' BrokerResponseError)\<lparr>cls_errno := Some 41, cls_message := Some ''NOT_CONTROLLER'', cls_retriable := True\<rparr>"

definition InvalidRequestError :: exn_class where
  "InvalidRequestError = (py_subclass ''InvalidRequestError'' BrokerResponseError)\<lparr>cls_errno := Some 42, cls_message := Some ''INVALID_REQUEST''\<rparr>"

definition UnsupportedForMessageFormatError :: exn_class where
  "UnsupportedForMessageFormatError = (py_subclass ''UnsupportedForMessageFormatError'' BrokerResponseError)\<lparr>cls_errno := Some 43, cls_message := Some ''UNSUPPORTED_FOR_MESSAGE_FORMAT''\<rparr>"

definition PolicyViolationError :: exn_class where
  "PolicyViolationError = (py_subclass ''PolicyViolationError'' BrokerResponseError)\<lparr>cls_errno := Some 44, cls_message := Some ''POLICY_VIOLATION'', cls_retriable := False\<rparr>"

definition OutOfOrderSequenceNumberError :: exn_class where
  "OutOfOrderSequenceNumberError = (py_subclass ''OutOfOrderSequenceNumberError'' BrokerResponseError)\<lparr>cls_errno := Some 45, cls_message := Some ''OUT_OF_ORDER_SEQUENCE_NUMBER'', cls_retriable := False\<rparr>"

definition DuplicateSequenceNumberError :: exn_class where
  "DuplicateSequenceNumberError = (py_subclass ''DuplicateSequenceNumberError'' BrokerResponseError)\<lparr>cls_errno := Some 46, cls_message := Some ''DUPLICATE_SEQUENCE_NUMBER'', cls_retriable := False\<rparr>"

definition InvalidProducerEpochError :: exn_class where
  "InvalidProducerEpochError = (py_subclass ''InvalidProducerEpochError'' BrokerResponseError)\<lparr>cls_errno := Some 47, cls_message := Some ''INVALID_PRODUCER_EPOCH'', cls_retriable := False\<rparr>"

definition InvalidTxnStateError :: exn_class where
  "InvalidTxnStateError = (py_subclass ''InvalidTxnStateError'' BrokerResponseError)\<lparr>cls_errno := Some 48, cls_message := Some ''INVALID_TXN_STATE'', cls_retriable := False\<rparr>"

definition InvalidProducerIdMappingError :: exn_class where
  "InvalidProducerIdMappingError = (py_subclass ''InvalidProducerIdMappingError'' BrokerResponseError)\<lparr>cls_errno := Some 49, cls_message := Some ''INVALID_PRODUCER_ID_MAPPING'', cls_retriable := False\<rparr>"

definition InvalidTransactionTimeoutError :: exn_class where
  "InvalidTransactionTimeoutError = (py_subclass ''InvalidTransactionTimeoutError'' BrokerResponseError)\<lparr>cls_errno := Some 50, cls_message := Some ''INVALID_TRANSACTION_TIMEOUT'', cls_retriable := False\<rparr>"

definition ConcurrentTransactionsError :: exn_class where
  "ConcurrentTransactionsError = (py_subclass ''ConcurrentTransactionsError'' BrokerResponseError)\<lparr>cls_errno := Some 51, cls_message := Some ''CONCURRENT_TRANSACTIONS'', cls_retriable := True\<rparr>"

definition TransactionCoordinatorFencedError :: exn_class where
  "TransactionCoordinatorFencedError = (py_subclass ''TransactionCoordinatorFencedError'' BrokerResponseError)\<lparr>cls_errno := Some 52, cls_message := Some ''TRANSACTION_COORDINATOR_FENCED'', cls_retriable := False\<rparr>"

definition TransactionalIdAuthorizationFailedError :: exn_class where
  "TransactionalIdAuthorizationFailedError = (py_subclass ''TransactionalIdAuthorizationFailedError'' AuthorizationError)\<lparr>cls_errno := Some 53, cls_message := Some ''TRANSACTIONAL_ID_AUTHORIZATION_FAILED'', cls_retriable := False\<rparr>"

definition SecurityDisabledError :: exn_class where
  "SecurityDisabledError = (py_subclass ''SecurityDisabledError'' BrokerResponseError)\<lparr>cls_errno := Some 54, cls_message := Some ''SECURITY_DISABLED'', cls_retriable := False\<rparr>"

definition OperationNotAttemptedError :: exn_class where
  "OperationNotAttemptedError = (py_subclass ''OperationNotAttemptedError'' BrokerResponseError)\<lparr>cls_errno := Some 55, cls_message := Some ''OPERATION_NOT_ATTEMPTED'', cls_retriable := False\<rparr>"

definition KafkaStorageError :: exn_class where
  "KafkaStorageError = (py_subclass ''KafkaStorageError'' BrokerResponseError)\<lparr>cls_errno := Some 56, cls_message := Some ''KAFKA_STORAGE_ERROR'', cls_retriable := True, cls_invalid_metadata := True\<rparr>"

definition LogDirNotFoundError :: exn_class where
  "LogDirNotFoundError = (py_subclass ''LogDirNotFoundError'' BrokerResponseError)\<lparr>cls_errno := Some 57, cls_message := Some ''LOG_DIR_NOT_FOUND'', cls_retriable := False\<rparr>"

definition SaslAuthenticationFailedError :: exn_class where
  "SaslAuthenticationFailedError = (py_subclass ''SaslAuthenticationFailedError'' BrokerResponseError)\<lparr>cls_errno := Some 58, cls_message := Some ''SASL_AUTHENTICATION_FAILED'', cls_retriable := False\<rparr>"

definition UnknownProducerIdError :: exn_class where
  "UnknownProducerIdError = (py_subclass ''UnknownProducerIdError'' BrokerResponseError)\<lparr>cls_errno := Some 59, cls_message := Some ''UNKNOWN_PRODUCER_ID'', cls_retriable := False\<rparr>"

definition ReassignmentInProgressError :: exn_class where
  "ReassignmentInProgressError = (py_subclass ''ReassignmentInProgressError'' BrokerResponseError)\<lparr>cls_errno := Some 60, cls_message := Some ''REASSIGNMENT_IN_PROGRESS'', cls_retriable := False\<rparr>"

definition DelegationTokenAuthDisabledError :: exn_class where
  "DelegationTokenAuthDisabledError = (py_subclass ''DelegationTokenAuthDisabledError'' BrokerResponseError)\<lparr>cls_errno := Some 61, cls_message := Some ''DELEGATION_TOKEN_AUTH_DISABLED'', cls_retriable := False\<rparr>"

definition DelegationTokenNotFoundError :: exn_class where
  "DelegationTokenNotFoundError = (py_subclass ''DelegationTokenNotFoundError'' BrokerResponseError)\<lparr>cls_errno := Some 62, cls_message := Some ''DELEGATION_TOKEN_NOT_FOUND'', cls_retriable := False\<rparr>"

definition DelegationTokenOwnerMismatchError :: exn_class where
  "DelegationTokenOwnerMismatchError = (py_subclass ''DelegationTokenOwnerMismatchError'' BrokerResponseError)\<lparr>cls_errno := Some 63, cls_message := Some ''DELEGATION_TOKEN_OWNER_MISMATCH'', cls_retriable := False\<rparr>"

definition DelegationTokenRequestNotAllowedError :: exn_class where
  "DelegationTokenRequestNotAllowedError = (py_subclass ''DelegationTokenRequestNotAllowedError'' BrokerResponseError)\<lparr>cls_errno := Some 64, cls_message := Some ''DELEGATION_TOKEN_REQUEST_NOT_ALLOWED'', cls_retriable := False\<rparr>"

definition DelegationTokenAuthorizationFailedError :: exn_class where
  "DelegationTokenAuthorizationFailedError = (py_subclass ''DelegationTokenAuthorizationFailedError'' AuthorizationError)\<lparr>cls_errno := Some 65, cls_message := Some ''DELEGATION_TOKEN_AUTHORIZATION_FAILED'', cls_retriable := False\<rparr>"

definition DelegationTokenExpiredError :: exn_class where
  "DelegationTokenExpiredError = (py_subclass ''DelegationTokenExpiredError'' BrokerResponseError)\<lparr>cls_errno := Some 66, cls_message := Some ''DELEGATION_TOKEN_EXPIRED'', cls_retriable := False\<rparr>"

definition InvalidPrincipalTypeError :: exn_class where
  "InvalidPrincipalTypeError = (py_subclass ''InvalidPrincipalTypeError'' BrokerResponseError)\<lparr>cls_errno := Some 67, cls_message := Some ''INVALID_PRINCIPAL_TYPE'', cls_retriable := False\<rparr>"

definition NonEmptyGroupError :: exn_class where
  "NonEmptyGroupError = (py_subclass ''NonEmptyGroupError'' BrokerResponseError)\<lparr>cls_errno := Some 68, cls_message := Some ''NON_EMPTY_GROUP'', cls_retriable := False\<rparr>"

definition GroupIdNotFoundError :: exn_class where
  "GroupIdNotFoundError = (py_subclass ''GroupIdNotFoundError'' BrokerResponseError)\<lparr>cls_errno := Some 69, cls_message := Some ''GROUP_ID_NOT_FOUND'', cls_retriable := False\<rparr>"

definition FetchSessionIdNotFoundError :: exn_class where
  "FetchSessionIdNotFoundError = (py_subclass ''FetchSessionIdNotFoundError'' BrokerResponseError)\<lparr>cls_errno := Some 70, cls_message := Some ''FETCH_SESSION_ID_NOT_FOUND'', cls_retriable := True\<rparr>"

definition InvalidFetchSessionEpochError :: exn_class where
  "InvalidFetchSessionEpochError = (py_subclass ''InvalidFetchSessionEpochError'' BrokerResponseError)\<lparr>cls_errno := Some 71, cls_message := Some ''INVALID_FETCH_SESSION_EPOCH'', cls_retriable := True\<rparr>"

definition ListenerNotFoundError :: exn_class where
  "ListenerNotFoundError = (py_subclass ''ListenerNotFoundError'' BrokerResponseError)\<lparr>cls_errno := Some 72, cls_message := Some ''LISTENER_NOT_FOUND'', cls_retriable := True, cls_invalid_metadata := True\<rparr>"

definition TopicDeletionDisabledError :: exn_class where
  "TopicDeletionDisabledError = (py_subclass ''TopicDeletionDisabledError'' BrokerResponseError)\<lparr>cls_errno := Some 73, cls_message := Some ''TOPIC_DELETION_DISABLED'', cls_retriable := False\<rparr>"

definition FencedLeaderEpochError :: exn_class where
  "FencedLeaderEpochError = (py_subclass ''FencedLeaderEpochError'' BrokerResponseError)\<lparr>cls_errno := Some 74, cls_message := Some ''FENCED_LEADER_EPOCH'', cls_retriable := True, cls_invalid_metadata := True\<rparr>"

definition UnknownLeaderEpochError :: exn_class where
  "UnknownLeaderEpochError = (py_subclass ''UnknownLeaderEpochError'' BrokerResponseError)\<lparr>cls_errno := Some 75, cls_message := Some ''UNKNOWN_LEADER_EPOCH'', cls_retriable := True, cls_invalid_metadata := True\<rparr>"

definition UnsupportedCompressionTypeError :: exn_class where
  "UnsupportedCompressionTypeError = (py_subclass ''UnsupportedCompressionTypeError'' BrokerResponseError)\<lparr>cls_errno := Some 76, cls_message := Some ''UNSUPPORTED_COMPRESSION_TYPE'', cls_retriable := False\<rparr>"

definition StaleBrokerEpochError :: exn_class where
  "StaleBrokerEpochError = (py_subclass ''StaleBrokerEpochError'' BrokerResponseError)\<lparr>cls_errno := Some 77, cls_message := Some ''STALE_BROKER_EPOCH'', cls_retriable := False\<rparr>"

definition OffsetNotAvailableError :: exn_class where
  "OffsetNotAvailableError = (py_subclass ''OffsetNotAvailableError'' BrokerResponseError)\<lparr>cls_errno := Some 78, cls_message := Some ''OFFSET_NOT_AVAILABLE'', cls_retriable := True\<rparr>"

definition MemberIdRequiredError :: exn_class where
  "MemberIdRequiredError = (py_subclass ''MemberIdRequiredError'' BrokerResponseError)\<lparr>cls_errno := Some 79, cls_message := Some ''MEMBER_ID_REQUIRED'', cls_retriable := False\<rparr>"

definition PreferredLeaderNotAvailableError :: exn_class where
  "PreferredLeaderNotAvailableError = (py_subclass ''PreferredLeaderNotAvailableError'' BrokerResponseError)\<lparr>cls_errno := Some 80, cls_message := Some ''PREFERRED_LEADER_NOT_AVAILABLE'', cls_retriable := True, cls_invalid_metadata := True\<rparr>"

definition GroupMaxSizeReachedError :: exn_class where
  "GroupMaxSizeReachedError = (py_subclass ''GroupMaxSizeReachedError'' BrokerResponseError)\<lparr>cls_errno := Some 81, cls_message := Some ''GROUP_MAX_SIZE_REACHED'', cls_retriable := False\<rparr>"

definition FencedInstanceIdError :: exn_class where
  "FencedInstanceIdError = (py_subclass ''FencedInstanceIdError'' BrokerResponseError)\<lparr>cls_errno := Some 82, cls_message := Some ''FENCED_INSTANCE_ID'', cls_retriable := False\<rparr>"

definition EligibleLeadersNotAvailableError :: exn_class where
  "EligibleLeadersNotAvailableError = (py_subclass ''EligibleLeadersNotAvailableError'' BrokerResponseError)\<lparr>cls_errno := Some 83, cls_message := Some ''ELIGIBLE_LEADERS_NOT_AVAILABLE'', cls_retriable := True, cls_invalid_metadata := True\<rparr>"

definition ElectionNotNeededError :: exn_class where
  "ElectionNotNeededError = (py_subclass ''ElectionNotNeededError'' BrokerResponseError)\<lparr>cls_errno := Some 84, cls_message := Some ''ELECTION_NOT_NEEDED'', cls_retriable := True, cls_invalid_metadata := True\<rparr>"

definition NoReassignmentInProgressError :: exn_class where
  "NoReassignmentInProgressError = (py_subclass ''NoReassignmentInProgressError'' BrokerResponseError)\<lparr>cls_errno := Some 85, cls_message := Some ''NO_REASSIGNMENT_IN_PROGRESS'', cls_retriable := False\<rparr>"

definition GroupSubscribedToTopicError :: exn_class where
  "GroupSubscribedToTopicError = (py_subclass ''GroupSubscribedToTopicError'' BrokerResponseError)\<lparr>cls_errno := Some 86, cls_message := Some ''GROUP_SUBSCRIBED_TO_TOPIC'', cls_retriable := False\<rparr>"

definition InvalidRecordError :: exn_class where
  "InvalidRecordError = (py_subclass ''InvalidRecordError'' BrokerResponseError)\<lparr>cls_errno := Some 87, cls_message := Some ''INVALID_RECORD'', cls_retriable := False\<rparr>"

definition UnstableOffsetCommitError :: exn_class where
  "UnstableOffsetCommitError = (py_subclass ''UnstableOffsetCommitError'' BrokerResponseError)\<lparr>cls_errno := Some 88, cls_message := Some ''UNSTABLE_OFFSET_COMMIT'', cls_retriable := True\<rparr>"

definition ThrottlingQuotaExceededError :: exn_class where
  "ThrottlingQuotaExceededError = (py_subclass ''ThrottlingQuotaExceededError'' BrokerResponseError)\<lparr>cls_errno := Some 89, cls_message := Some ''THROTTLING_QUOTA_EXCEEDED'', cls_retriable := True\<rparr>"

definition ProducerFencedError :: exn_class where
  "ProducerFencedError = (py_subclass ''ProducerFencedError'' BrokerResponseError)\<lparr>cls_errno := Some 90, cls_message := Some ''PRODUCER_FENCED'', cls_retriable := False\<rparr>"

definition ResourceNotFoundError :: exn_class where
  "ResourceNotFoundError = (py_subclass ''ResourceNotFoundError'' BrokerResponseError)\<lparr>cls_errno := Some 91, cls_message := Some ''RESOURCE_NOT_FOUND'', cls_retriable := False\<rparr>"

definition DuplicateResourceError :: exn_class where
  "DuplicateResourceError = (py_subclass ''DuplicateResourceError'' BrokerResponseError)\<lparr>cls_errno := Some 92, cls_message := Some ''DUPLICATE_RESOURCE'', cls_retriable := False\<rparr>"

definition UnacceptableCredentialError :: exn_class where
  "UnacceptableCredentialError = (py_subclass ''UnacceptableCredentialError'' BrokerResponseError)\<lparr>cls_errno := Some 93, cls_message := Some ''UNACCEPTABLE_CREDENTIAL'', cls_retriable := False\<rparr>"

definition InconsistentVoterSetError :: exn_class where
  "InconsistentVoterSetError = (py_subclass ''InconsistentVoterSetError'' BrokerResponseError)\<lparr>cls_errno := Some 94, cls_message := Some ''INCONSISTENT_VOTER_SET'', cls_retriable := False\<rparr>"

definition InvalidUpdateVersionError :: exn_class where
  "InvalidUpdateVersionError = (py_subclass ''InvalidUpdateVersionError'' BrokerResponseError)\<lparr>cls_errno := Some 95, cls_message := Some ''INVALID_UPDATE_VERSION'', cls_retriable := False\<rparr>"

definition FeatureUpdateFailedError :: exn_class where
  "FeatureUpdateFailedError = (py_subclass ''FeatureUpdateFailedError'' BrokerResponseError)\<lparr>cls_errno := Some 96, cls_message := Some ''FEATURE_UPDATE_FAILED'', cls_retriable := False\<rparr>"

definition PrincipalDeserializationFailureError :: exn_class where
  "PrincipalDeserializationFailureError = (py_subclass ''PrincipalDeserializationFailureError'' BrokerResponseError)\<lparr>cls_errno := Some 97, cls_message := Some ''PRINCIPAL_DESERIALIZATION_FAILURE'', cls_retriable := False\<rparr>"

definition SnapshotNotFoundError :: exn_class where
  "SnapshotNotFoundError = (py_subclass ''SnapshotNotFoundError'' BrokerResponseError)\<lparr>cls_errno := Some 98, cls_message := Some ''SNAPSHOT_NOT_FOUND'', cls_retriable := False\<rparr>"

definition PositionOutOfRangeError :: exn_class where
  "PositionOutOfRangeError = (py_subclass ''PositionOutOfRangeError'' BrokerResponseError)\<lparr>cls_errno := Some 99, cls_message := Some ''POSITION_OUT_OF_RANGE'', cls_retriable := False\<rparr>"

definition UnknownTopicIdError :: exn_class where
  "UnknownTopicIdError = (py_subclass ''UnknownTopicIdError'' BrokerResponseError)\<lparr>cls_errno := Some 100, cls_message := Some ''UNKNOWN_TOPIC_ID'', cls_retriable := True, cls_invalid_metadata := True\<rparr>"

definition DuplicateBrokerRegistrationError :: exn_class where
  "DuplicateBrokerRegistrationError = (py_subclass ''DuplicateBrokerRegistrationError'' BrokerResponseError)\<lparr>cls_errno := Some 101, cls_message := Some ''DUPLICATE_BROKER_REGISTRATION'', cls_retriable := False\<rparr>"

definition BrokerIdNotRegisteredError :: exn_class where
  "BrokerIdNotRegisteredError = (py_subclass ''BrokerIdNotRegisteredError'' BrokerResponseError)\<lparr>cls_errno := Some 102, cls_message := Some ''BROKER_ID_NOT_REGISTERED'', cls_retriable := False\<rparr>"

definition InconsistentTopicIdError :: exn_class where
  "InconsistentTopicIdError = (py_subclass ''InconsistentTopicIdError'' BrokerResponseError)\<lparr>cls_errno := Some 103, cls_message := Some ''INCONSISTENT_TOPIC_ID'', cls_retriable := True, cls_invalid_metadata := True\<rparr>"

definition InconsistentClusterIdError :: exn_class where
  "InconsistentClusterIdError = (py_subclass ''InconsistentClusterIdError'' BrokerResponseError)\<lparr>cls_errno := Some 104, cls_message := Some ''INCONSISTENT_CLUSTER_ID'', cls_retriable := False\<rparr>"

definition TransactionalIdNotFoundError :: exn_class where
  "TransactionalIdNotFoundError = (py_subclass ''TransactionalIdNotFoundError'' BrokerResponseError)\<lparr>cls_errno := Some 105, cls_message := Some ''TRANSACTIONAL_ID_NOT_FOUND'', cls_retriable := False\<rparr>"

definition FetchSessionTopicIdError :: exn_class where
  "FetchSessionTopicIdError = (py_subclass ''FetchSessionTopicIdError'' BrokerResponseError)\<lparr>cls_errno := Some 106, cls_message := Some ''FETCH_SESSION_TOPIC_ID_ERROR'', cls_retriable := True\<rparr>"

definition IneligibleReplicaError :: exn_class where
  "IneligibleReplicaError = (py_subclass ''IneligibleReplicaError'' BrokerResponseError)\<lparr>cls_errno := Some 107, cls_message := Some ''INELIGIBLE_REPLICA'', cls_retriable := False\<rparr>"

definition NewLeaderElectedError :: exn_class where
  "NewLeaderElectedError = (py_subclass ''NewLeaderElectedError'' BrokerResponseError)\<lparr>cls_errno := Some 108, cls_message := Some ''NEW_LEADER_ELECTED'', cls_retriable := False\<rparr>"

definition OffsetMovedToTieredStorageError :: exn_class where
  "OffsetMovedToTieredStorageError = (py_subclass ''OffsetMovedToTieredStorageError'' BrokerResponseError)\<lparr>cls_errno := Some 109, cls_message := Some ''OFFSET_MOVED_TO_TIERED_STORAGE'', cls_retriable := False\<rparr>"

definition FencedMemberEpochError :: exn_class where
  "FencedMemberEpochError = (py_subclass ''FencedMemberEpochError'' BrokerResponseError)\<lparr>cls_errno := Some 110, cls_message := Some ''FENCED_MEMBER_EPOCH'', cls_retriable := False\<rparr>"

definition UnreleasedInstanceIdError :: exn_class where
  "UnreleasedInstanceIdError = (py_subclass ''UnreleasedInstanceIdError'' BrokerResponseError)\<lparr>cls_errno := Some 111, cls_message := Some ''UNRELEASED_INSTANCE_ID'', cls_retriable := False\<rparr>"

definition UnsupportedAssignorError :: exn_class where
  "UnsupportedAssignorError = (py_subclass ''UnsupportedAssignorError'' BrokerResponseError)\<lparr>cls_errno := Some 112, cls_message := Some ''UNSUPPORTED_ASSIGNOR'', cls_retriable := False\<rparr>"

definition StaleMemberEpochError :: exn_class where
  "StaleMemberEpochError = (py_subclass ''StaleMemberEpochError'' BrokerResponseError)\<lparr>cls_errno := Some 113, cls_message := Some ''STALE_MEMBER_EPOCH'', cls_retriable := False\<rparr>"

definition MismatchedEndpointTypeError :: exn_class where
  "MismatchedEndpointTypeError = (py_subclass ''MismatchedEndpointTypeError'' BrokerResponseError)\<lparr>cls_errno := Some 114, cls_message := Some ''MISMATCHED_ENDPOINT_TYPE'', cls_retriable := False\<rparr>"

definition UnsupportedEndpointTypeError :: exn_class where
  "UnsupportedEndpointTypeError = (py_subclass ''UnsupportedEndpointTypeError'' BrokerResponseError)\<lparr>cls_errno := Some 115, cls_message := Some ''UNSUPPORTED_ENDPOINT_TYPE'', cls_retriable := False\<rparr>"

definition UnknownControllerIdError :: exn_class where
  "UnknownControllerIdError = (py_subclass ''UnknownControllerIdError'' BrokerResponseError)\<lparr>cls_errno := Some 116, cls_message := Some ''UNKNOWN_CONTROLLER_ID'', cls_retriable := False\<rparr>"

definition UnknownSubscriptionIdError :: exn_class where
  "UnknownSubscriptionIdError = (py_subclass ''UnknownSubscriptionIdError'' BrokerResponseError)\<lparr>cls_errno := Some 117, cls_message := Some ''UNKNOWN_SUBSCRIPTION_ID'', cls_retriable := False\<rparr>"

definition TelemetryTooLargeError :: exn_class where
  "TelemetryTooLargeError = (py_subclass ''TelemetryTooLargeError'' BrokerResponseError)\<lparr>cls_errno := Some 118, cls_message := Some ''TELEMETRY_TOO_LARGE'', cls_retriable := False\<rparr>"

definition InvalidRegistrationError :: exn_class where
  "InvalidRegistrationError = (py_subclass ''InvalidRegistrationError'' BrokerResponseError)\<lparr>cls_errno := Some 119, cls_message := Some ''INVALID_REGISTRATION'', cls_retriable := False\<rparr>"

definition TransactionAbortableError :: exn_class where
  "TransactionAbortableError = (py_subclass ''TransactionAbortableError'' BrokerResponseError)\<lparr>cls_errno := Some 120, cls_message := Some ''TRANSACTION_ABORTABLE'', cls_retriable := False\<rparr>"

definition InvalidRecordStateError :: exn_class where
  "InvalidRecordStateError = (py_subclass ''InvalidRecordStateError'' BrokerResponseError)\<lparr>cls_errno := Some 121, cls_message := Some ''INVALID_RECORD_STATE'', cls_retriable := False\<rparr>"

definition ShareSessionNotFoundError :: exn_class where
  "ShareSessionNotFoundError = (py_subclass ''ShareSessionNotFoundError'' BrokerResponseError)\<lparr>cls_errno := Some 122, cls_message := Some ''SHARE_SESSION_NOT_FOUND'', cls_retriable := True\<rparr>"

definition InvalidShareSessionEpochError :: exn_class where
  "InvalidShareSessionEpochError = (py_subclass ''InvalidShareSessionEpochError'' BrokerResponseError)\<lparr>cls_errno := Some 123, cls_message := Some ''INVALID_SHARE_SESSION_EPOCH'', cls_retriable := True\<rparr>"

definition FencedStateEpochError :: exn_class where
  "FencedStateEpochError = (py_subclass ''FencedStateEpochError'' BrokerResponseError)\<lparr>cls_errno := Some 124, cls_message := Some ''FENCED_STATE_EPOCH'', cls_retriable := False\<rparr>"

definition InvalidVoterKeyError :: exn_class where
  "InvalidVoterKeyError = (py_subclass ''InvalidVoterKeyError'' BrokerResponseError)\<lparr>cls_errno := Some 125, cls_message := Some ''INVALID_VOTER_KEY'', cls_retriable := False\<rparr>"

definition DuplicateVoterError :: exn_class where
  "DuplicateVoterError = (py_subclass ''DuplicateVoterError'' BrokerResponseError)\<lparr>cls_errno := Some 126, cls_message := Some ''DUPLICATE_VOTER'', cls_retriable := False\<rparr>"

definition VoterNotFoundError :: exn_class where
  "VoterNotFoundError = (py_subclass ''VoterNotFoundError'' BrokerResponseError)\<lparr>cls_errno := Some 127, cls_message := Some ''VOTER_NOT_FOUND'', cls_retriable := False\<rparr>"

definition iter_broker_errors :: "exn_class list" where
  "iter_broker_errors = [
    AuthorizationError, BrokerIdNotRegisteredError, BrokerNotAvailableError,
    ClusterAuthorizationFailedError, ConcurrentTransactionsError,
    CoordinatorLoadInProgressError, CoordinatorNotAvailableError, CorruptRecordError,
    CorruptRecordError, DelegationTokenAuthDisabledError,
    DelegationTokenAuthorizationFailedError, DelegationTokenExpiredError,
    DelegationTokenNotFoundError, DelegationTokenOwnerMismatchError,
    DelegationTokenRequestNotAllowedError, DuplicateBrokerRegistrationError,
    DuplicateResourceError, DuplicateSequenceNumberError, DuplicateVoterError,
    ElectionNotNeededError, EligibleLeadersNotAvailableError, FeatureUpdateFailedError,
    FencedInstanceIdError, FencedLeaderEpochError, FencedMemberEpochError,
    FencedStateEpochError, FetchSessionIdNotFoundError, FetchSessionTopicIdError,
    GroupAuthorizationFailedError, GroupIdNotFoundError, GroupMaxSizeReachedError,
    GroupSubscribedToTopicError, IllegalGenerationError, IllegalSaslStateError,
    InconsistentClusterIdError, InconsistentGroupProtocolError, InconsistentTopicIdError,
    InconsistentVoterSetError, IneligibleReplicaError, InvalidCommitOffsetSizeError,
    InvalidConfigurationError, InvalidFetchRequestError, InvalidFetchSessionEpochError,
    InvalidGroupIdError, InvalidPartitionsError, InvalidPrincipalTypeError,
    InvalidProducerEpochError, InvalidProducerIdMappingError, InvalidRecordError,
    InvalidRecordStateError, InvalidRegistrationError, InvalidReplicationAssignmentError,
    InvalidReplicationFactorError, InvalidRequestError, InvalidRequiredAcksError,
    InvalidSessionTimeoutError, InvalidShareSessionEpochError, InvalidTimestampError,
    InvalidTopicError, InvalidTransactionTimeoutError, InvalidTxnStateError,
    InvalidUpdateVersionError, InvalidVoterKeyError, KafkaStorageError, LeaderNotAvailableError,
    ListenerNotFoundError, LogDirNotFoundError, MemberIdRequiredError, MessageSizeTooLargeError,
    MismatchedEndpointTypeError, NetworkExceptionError, NewLeaderElectedError, NoError,
    NoReassignmentInProgressError, NonEmptyGroupError, NotControllerError, NotCoordinatorError,
    NotEnoughReplicasAfterAppendError, NotEnoughReplicasError, NotLeaderForPartitionError,
    OffsetMetadataTooLargeError, OffsetMovedToTieredStorageError, OffsetNotAvailableError,
    OffsetOutOfRangeError, OperationNotAttemptedError, OutOfOrderSequenceNumberError,
    PolicyViolationError, PositionOutOfRangeError, PreferredLeaderNotAvailableError,
    PrincipalDeserializationFailureError, ProducerFencedError, ReassignmentInProgressError,
    RebalanceInProgressError, RecordListTooLargeError, ReplicaNotAvailableError,
    RequestTimedOutError, ResourceNotFoundError, SaslAuthenticationFailedError,
    SecurityDisabledError, ShareSessionNotFoundError, SnapshotNotFoundError,
    StaleBrokerEpochError, StaleControllerEpochError, StaleMemberEpochError,
    TelemetryTooLargeError, ThrottlingQuotaExceededError, TopicAlreadyExistsError,
    TopicAuthorizationFailedError, TopicDeletionDisabledError, TransactionAbortableError,
    TransactionCoordinatorFencedError, TransactionalIdAuthorizationFailedError,
    TransactionalIdNotFoundError, UnacceptableCredentialError, UnknownControllerIdError,
    UnknownError, UnknownLeaderEpochError, UnknownMemberIdError, UnknownProducerIdError,
    UnknownSubscriptionIdError, UnknownTopicIdError, UnknownTopicOrPartitionError,
    UnreleasedInstanceIdError, UnstableOffsetCommitError, UnsupportedAssignorError,
    UnsupportedCompressionTypeError, UnsupportedEndpointTypeError,
    UnsupportedForMessageFormatError, UnsupportedSaslMechanismError, UnsupportedVersionError,
    VoterNotFoundError]"

definition client_errors :: "exn_class list" where
  "client_errors = [
    KafkaError, Cancelled, CommitFailedError, IllegalArgumentError, IllegalStateError,
    IncompatibleBrokerVersion, KafkaConfigurationError, KafkaConnectionError,
    KafkaProtocolError, CorrelationIdError, KafkaTimeoutError, MetadataEmptyBrokerList,
    NoBrokersAvailable, NoOffsetForPartitionError, NodeNotReadyError, QuotaViolationError,
    StaleMetadata, TooManyInFlightRequests, UnrecognizedBrokerVersion, UnsupportedCodecError,
    BrokerResponseError]"

lemmas error_class_defs =
    KafkaError_def Cancelled_def CommitFailedError_def IllegalArgumentError_def
    IllegalStateError_def IncompatibleBrokerVersion_def KafkaConfigurationError_def
    KafkaConnectionError_def KafkaProtocolError_def CorrelationIdError_def
    KafkaTimeoutError_def MetadataEmptyBrokerList_def NoBrokersAvailable_def
    NoOffsetForPartitionError_def NodeNotReadyError_def QuotaViolationError_def
    StaleMetadata_def TooManyInFlightRequests_def UnrecognizedBrokerVersion_def
    UnsupportedCodecError_def BrokerResponseError_def AuthorizationError_def NoError_def
    UnknownError_def OffsetOutOfRangeError_def CorruptRecordError_def
    UnknownTopicOrPartitionError_def InvalidFetchRequestError_def LeaderNotAvailableError_def
    NotLeaderForPartitionError_def RequestTimedOutError_def BrokerNotAvailableError_def
    ReplicaNotAvailableError_def MessageSizeTooLargeError_def StaleControllerEpochError_def
    OffsetMetadataTooLargeError_def NetworkExceptionError_def
    CoordinatorLoadInProgressError_def CoordinatorNotAvailableError_def
    NotCoordinatorError_def InvalidTopicError_def RecordListTooLargeError_def
    NotEnoughReplicasError_def NotEnoughReplicasAfterAppendError_def
    InvalidRequiredAcksError_def IllegalGenerationError_def
    InconsistentGroupProtocolError_def InvalidGroupIdError_def UnknownMemberIdError_def
    InvalidSessionTimeoutError_def RebalanceInProgressError_def
    InvalidCommitOffsetSizeError_def TopicAuthorizationFailedError_def
    GroupAuthorizationFailedError_def ClusterAuthorizationFailedError_def
    InvalidTimestampError_def UnsupportedSaslMechanismError_def IllegalSaslStateError_def
    UnsupportedVersionError_def TopicAlreadyExistsError_def InvalidPartitionsError_def
    InvalidReplicationFactorError_def InvalidReplicationAssignmentError_def
    InvalidConfigurationError_def NotControllerError_def InvalidRequestError_def
    UnsupportedForMessageFormatError_def PolicyViolationError_def
    OutOfOrderSequenceNumberError_def DuplicateSequenceNumberError_def
    InvalidProducerEpochError_def InvalidTxnStateError_def InvalidProducerIdMappingError_def
    InvalidTransactionTimeoutError_def ConcurrentTransactionsError_def
    TransactionCoordinatorFencedError_def TransactionalIdAuthorizationFailedError_def
    SecurityDisabledError_def OperationNotAttemptedError_def KafkaStorageError_def
    LogDirNotFoundError_def SaslAuthenticationFailedError_def UnknownProducerIdError_def
    ReassignmentInProgressError_def DelegationTokenAuthDisabledError_def
    DelegationTokenNotFoundError_def DelegationTokenOwnerMismatchError_def
    DelegationTokenRequestNotAllowedError_def DelegationTokenAuthorizationFailedError_def
    DelegationTokenExpiredError_def InvalidPrincipalTypeError_def NonEmptyGroupError_def
    GroupIdNotFoundError_def FetchSessionIdNotFoundError_def
    InvalidFetchSessionEpochError_def ListenerNotFoundError_def
    TopicDeletionDisabledError_def FencedLeaderEpochError_def UnknownLeaderEpochError_def
    UnsupportedCompressionTypeError_def StaleBrokerEpochError_def OffsetNotAvailableError_def
    MemberIdRequiredError_def PreferredLeaderNotAvailableError_def
    GroupMaxSizeReachedError_def FencedInstanceIdError_def
    EligibleLeadersNotAvailableError_def ElectionNotNeededError_def
    NoReassignmentInProgressError_def GroupSubscribedToTopicError_def InvalidRecordError_def
    UnstableOffsetCommitError_def ThrottlingQuotaExceededError_def ProducerFencedError_def
    ResourceNotFoundError_def DuplicateResourceError_def UnacceptableCredentialError_def
    InconsistentVoterSetError_def InvalidUpdateVersionError_def FeatureUpdateFailedError_def
    PrincipalDeserializationFailureError_def SnapshotNotFoundError_def
    PositionOutOfRangeError_def UnknownTopicIdError_def DuplicateBrokerRegistrationError_def
    BrokerIdNotRegisteredError_def InconsistentTopicIdError_def
    InconsistentClusterIdError_def TransactionalIdNotFoundError_def
    FetchSessionTopicIdError_def IneligibleReplicaError_def NewLeaderElectedError_def
    OffsetMovedToTieredStorageError_def FencedMemberEpochError_def
    UnreleasedInstanceIdError_def UnsupportedAssignorError_def StaleMemberEpochError_def
    MismatchedEndpointTypeError_def UnsupportedEndpointTypeError_def
    UnknownControllerIdError_def UnknownSubscriptionIdError_def TelemetryTooLargeError_def
    InvalidRegistrationError_def TransactionAbortableError_def InvalidRecordStateError_def
    ShareSessionNotFoundError_def InvalidShareSessionEpochError_def FencedStateEpochError_def
    InvalidVoterKeyError_def DuplicateVoterError_def VoterNotFoundError_def

lemma errno_simps [simp]:
  "cls_errno KafkaError = None"
  "cls_errno Cancelled = None"
  "cls_errno CommitFailedError = None"
  "cls_errno IllegalArgumentError = None"
  "cls_errno IllegalStateError = None"
  "cls_errno IncompatibleBrokerVersion = None"
  "cls_errno KafkaConfigurationError = None"
  "cls_errno KafkaConnectionError = None"
  "cls_errno KafkaProtocolError = None"
  "cls_errno CorrelationIdError = None"
  "cls_errno KafkaTimeoutError = None"
  "cls_errno MetadataEmptyBrokerList = None"
  "cls_errno NoBrokersAvailable = None"
  "cls_errno NoOffsetForPartitionError = None"
  "cls_errno NodeNotReadyError = None"
  "cls_errno QuotaViolationError = None"
  "cls_errno StaleMetadata = None"
  "cls_errno TooManyInFlightRequests = None"
  "cls_errno UnrecognizedBrokerVersion = None"
  "cls_errno UnsupportedCodecError = None"
  "cls_errno BrokerResponseError = None"
  "cls_errno AuthorizationError = None"
  "cls_errno NoError = Some 0"
  "cls_errno UnknownError = Some (-1)"
  "cls_errno OffsetOutOfRangeError = Some 1"
  "cls_errno CorruptRecordError = Some 2"
  "cls_errno UnknownTopicOrPartitionError = Some 3"
  "cls_errno InvalidFetchRequestError = Some 4"
  "cls_errno LeaderNotAvailableError = Some 5"
  "cls_errno NotLeaderForPartitionError = Some 6"
  "cls_errno RequestTimedOutError = Some 7"
  "cls_errno BrokerNotAvailableError = Some 8"
  "cls_errno ReplicaNotAvailableError = Some 9"
  "cls_errno MessageSizeTooLargeError = Some 10"
  "cls_errno StaleControllerEpochError = Some 11"
  "cls_errno OffsetMetadataTooLargeError = Some 12"
  "cls_errno NetworkExceptionError = Some 13"
  "cls_errno CoordinatorLoadInProgressError = Some 14"
  "cls_errno CoordinatorNotAvailableError = Some 15"
  "cls_errno NotCoordinatorError = Some 16"
  "cls_errno InvalidTopicError = Some 17"
  "cls_errno RecordListTooLargeError = Some 18"
  "cls_errno NotEnoughReplicasError = Some 19"
  "cls_errno NotEnoughReplicasAfterAppendError = Some 20"
  "cls_errno InvalidRequiredAcksError = Some 21"
  "cls_errno IllegalGenerationError = Some 22"
  "cls_errno InconsistentGroupProtocolError = Some 23"
  "cls_errno InvalidGroupIdError = Some 24"
  "cls_errno UnknownMemberIdError = Some 25"
  "cls_errno InvalidSessionTimeoutError = Some 26"
  "cls_errno RebalanceInProgressError = Some 27"
  "cls_errno InvalidCommitOffsetSizeError = Some 28"
  "cls_errno TopicAuthorizationFailedError = Some 29"
  "cls_errno GroupAuthorizationFailedError = Some 30"
  "cls_errno ClusterAuthorizationFailedError = Some 31"
  "cls_errno InvalidTimestampError = Some 32"
  "cls_errno UnsupportedSaslMechanismError = Some 33"
  "cls_errno IllegalSaslStateError = Some 34"
  "cls_errno UnsupportedVersionError = Some 35"
  "cls_errno TopicAlreadyExistsError = Some 36"
  "cls_errno InvalidPartitionsError = Some 37"
  "cls_errno InvalidReplicationFactorError = Some 38"
  "cls_errno InvalidReplicationAssignmentError = Some 39"
  "cls_errno InvalidConfigurationError = Some 40"
  "cls_errno NotControllerError = Some 41"
  "cls_errno InvalidRequestError = Some 42"
  "cls_errno UnsupportedForMessageFormatError = Some 43"
  "cls_errno PolicyViolationError = Some 44"
  "cls_errno OutOfOrderSequenceNumberError = Some 45"
  "cls_errno DuplicateSequenceNumberError = Some 46"
  "cls_errno InvalidProducerEpochError = Some 47"
  "cls_errno InvalidTxnStateError = Some 48"
  "cls_errno InvalidProducerIdMappingError = Some 49"
  "cls_errno InvalidTransactionTimeoutError = Some 50"
  "cls_errno ConcurrentTransactionsError = Some 51"
  "cls_errno TransactionCoordinatorFencedError = Some 52"
  "cls_errno TransactionalIdAuthorizationFailedError = Some 53"
  "cls_errno SecurityDisabledError = Some 54"
  "cls_errno OperationNotAttemptedError = Some 55"
  "cls_errno KafkaStorageError = Some 56"
  "cls_errno LogDirNotFoundError = Some 57"
  "cls_errno SaslAuthenticationFailedError = Some 58"
  "cls_errno UnknownProducerIdError = Some 59"
  "cls_errno ReassignmentInProgressError = Some 60"
  "cls_errno DelegationTokenAuthDisabledError = Some 61"
  "cls_errno DelegationTokenNotFoundError = Some 62"
  "cls_errno DelegationTokenOwnerMismatchError = Some 63"
  "cls_errno DelegationTokenRequestNotAllowedError = Some 64"
  "cls_errno DelegationTokenAuthorizationFailedError = Some 65"
  "cls_errno DelegationTokenExpiredError = Some 66"
  "cls_errno InvalidPrincipalTypeError = Some 67"
  "cls_errno NonEmptyGroupError = Some 68"
  "cls_errno GroupIdNotFoundError = Some 69"
  "cls_errno FetchSessionIdNotFoundError = Some 70"
  "cls_errno InvalidFetchSessionEpochError = Some 71"
  "cls_errno ListenerNotFoundError = Some 72"
  "cls_errno TopicDeletionDisabledError = Some 73"
  "cls_errno FencedLeaderEpochError = Some 74"
  "cls_errno UnknownLeaderEpochError = Some 75"
  "cls_errno UnsupportedCompressionTypeError = Some 76"
  "cls_errno StaleBrokerEpochError = Some 77"
  "cls_errno OffsetNotAvailableError = Some 78"
  "cls_errno MemberIdRequiredError = Some 79"
  "cls_errno PreferredLeaderNotAvailableError = Some 80"
  "cls_errno GroupMaxSizeReachedError = Some 81"
  "cls_errno FencedInstanceIdError = Some 82"
  "cls_errno EligibleLeadersNotAvailableError = Some 83"
  "cls_errno ElectionNotNeededError = Some 84"
  "cls_errno NoReassignmentInProgressError = Some 85"
  "cls_errno GroupSubscribedToTopicError = Some 86"
  "cls_errno InvalidRecordError = Some 87"
  "cls_errno UnstableOffsetCommitError = Some 88"
  "cls_errno ThrottlingQuotaExceededError = Some 89"
  "cls_errno ProducerFencedError = Some 90"
  "cls_errno ResourceNotFoundError = Some 91"
  "cls_errno DuplicateResourceError = Some 92"
  "cls_errno UnacceptableCredentialError = Some 93"
  "cls_errno InconsistentVoterSetError = Some 94"
  "cls_errno InvalidUpdateVersionError = Some 95"
  "cls_errno FeatureUpdateFailedError = Some 96"
  "cls_errno PrincipalDeserializationFailureError = Some 97"
  "cls_errno SnapshotNotFoundError = Some 98"
  "cls_errno PositionOutOfRangeError = Some 99"
  "cls_errno UnknownTopicIdError = Some 100"
  "cls_errno DuplicateBrokerRegistrationError = Some 101"
  "cls_errno BrokerIdNotRegisteredError = Some 102"
  "cls_errno InconsistentTopicIdError = Some 103"
  "cls_errno InconsistentClusterIdError = Some 104"
  "cls_errno TransactionalIdNotFoundError = Some 105"
  "cls_errno FetchSessionTopicIdError = Some 106"
  "cls_errno IneligibleReplicaError = Some 107"
  "cls_errno NewLeaderElectedError = Some 108"
  "cls_errno OffsetMovedToTieredStorageError = Some 109"
  "cls_errno FencedMemberEpochError = Some 110"
  "cls_errno UnreleasedInstanceIdError = Some 111"
  "cls_errno UnsupportedAssignorError = Some 112"
  "cls_errno StaleMemberEpochError = Some 113"
  "cls_errno MismatchedEndpointTypeError = Some 114"
  "cls_errno UnsupportedEndpointTypeError = Some 115"
  "cls_errno UnknownControllerIdError = Some 116"
  "cls_errno UnknownSubscriptionIdError = Some 117"
  "cls_errno TelemetryTooLargeError = Some 118"
  "cls_errno InvalidRegistrationError = Some 119"
  "cls_errno TransactionAbortableError = Some 120"
  "cls_errno InvalidRecordStateError = Some 121"
  "cls_errno ShareSessionNotFoundError = Some 122"
  "cls_errno InvalidShareSessionEpochError = Some 123"
  "cls_errno FencedStateEpochError = Some 124"
  "cls_errno InvalidVoterKeyError = Some 125"
  "cls_errno DuplicateVoterError = Some 126"
  "cls_errno VoterNotFoundError = Some 127"
  by (simp_all add: error_class_defs builtin_exn_defs)

lemma retriable_simps [simp]:
  "cls_retriable KafkaError = False"
  "cls_retriable Cancelled = True"
  "cls_retriable CommitFailedError = False"
  "cls_retriable IllegalArgumentError = False"
  "cls_retriable IllegalStateError = False"
  "cls_retriable IncompatibleBrokerVersion = False"
  "cls_retriable KafkaConfigurationError = False"
  "cls_retriable KafkaConnectionError = True"
  "cls_retriable KafkaProtocolError = True"
  "cls_retriable CorrelationIdError = True"
  "cls_retriable KafkaTimeoutError = True"
  "cls_retriable MetadataEmptyBrokerList = True"
  "cls_retriable NoBrokersAvailable = True"
  "cls_retriable NoOffsetForPartitionError = False"
  "cls_retriable NodeNotReadyError = True"
  "cls_retriable QuotaViolationError = False"
  "cls_retriable StaleMetadata = True"
  "cls_retriable TooManyInFlightRequests = True"
  "cls_retriable UnrecognizedBrokerVersion = False"
  "cls_retriable UnsupportedCodecError = False"
  "cls_retriable BrokerResponseError = False"
  "cls_retriable AuthorizationError = False"
  "cls_retriable NoError = False"
  "cls_retriable UnknownError = False"
  "cls_retriable OffsetOutOfRangeError = False"
  "cls_retriable CorruptRecordError = False"
  "cls_retriable UnknownTopicOrPartitionError = True"
  "cls_retriable InvalidFetchRequestError = False"
  "cls_retriable LeaderNotAvailableError = True"
  "cls_retriable NotLeaderForPartitionError = True"
  "cls_retriable RequestTimedOutError = True"
  "cls_retriable BrokerNotAvailableError = False"
  "cls_retriable ReplicaNotAvailableError = True"
  "cls_retriable MessageSizeTooLargeError = False"
  "cls_retriable StaleControllerEpochError = False"
  "cls_retriable OffsetMetadataTooLargeError = False"
  "cls_retriable NetworkExceptionError = True"
  "cls_retriable CoordinatorLoadInProgressError = True"
  "cls_retriable CoordinatorNotAvailableError = True"
  "cls_retriable NotCoordinatorError = True"
  "cls_retriable InvalidTopicError = False"
  "cls_retriable RecordListTooLargeError = False"
  "cls_retriable NotEnoughReplicasError = True"
  "cls_retriable NotEnoughReplicasAfterAppendError = True"
  "cls_retriable InvalidRequiredAcksError = False"
  "cls_retriable IllegalGenerationError = False"
  "cls_retriable InconsistentGroupProtocolError = False"
  "cls_retriable InvalidGroupIdError = False"
  "cls_retriable UnknownMemberIdError = False"
  "cls_retriable InvalidSessionTimeoutError = False"
  "cls_retriable RebalanceInProgressError = False"
  "cls_retriable InvalidCommitOffsetSizeError = False"
  "cls_retriable TopicAuthorizationFailedError = False"
  "cls_retriable GroupAuthorizationFailedError = False"
  "cls_retriable ClusterAuthorizationFailedError = False"
  "cls_retriable InvalidTimestampError = False"
  "cls_retriable UnsupportedSaslMechanismError = False"
  "cls_retriable IllegalSaslStateError = False"
  "cls_retriable UnsupportedVersionError = False"
  "cls_retriable TopicAlreadyExistsError = False"
  "cls_retriable InvalidPartitionsError = False"
  "cls_retriable InvalidReplicationFactorError = False"
  "cls_retriable InvalidReplicationAssignmentError = False"
  "cls_retriable InvalidConfigurationError = False"
  "cls_retriable NotControllerError = True"
  "cls_retriable InvalidRequestError = False"
  "cls_retriable UnsupportedForMessageFormatError = False"
  "cls_retriable PolicyViolationError = False"
  "cls_retriable OutOfOrderSequenceNumberError = False"
  "cls_retriable DuplicateSequenceNumberError = False"
  "cls_retriable InvalidProducerEpochError = False"
  "cls_retriable InvalidTxnStateError = False"
  "cls_retriable InvalidProducerIdMappingError = False"
  "cls_retriable InvalidTransactionTimeoutError = False"
  "cls_retriable ConcurrentTransactionsError = True"
  "cls_retriable TransactionCoordinatorFencedError = False"
  "cls_retriable TransactionalIdAuthorizationFailedError = False"
  "cls_retriable SecurityDisabledError = False"
  "cls_retriable OperationNotAttemptedError = False"
  "cls_retriable KafkaStorageError = True"
  "cls_retriable LogDirNotFoundError = False"
  "cls_retriable SaslAuthenticationFailedError = False"
  "cls_retriable UnknownProducerIdError = False"
  "cls_retriable ReassignmentInProgressError = False"
  "cls_retriable DelegationTokenAuthDisabledError = False"
  "cls_retriable DelegationTokenNotFoundError = False"
  "cls_retriable DelegationTokenOwnerMismatchError = False"
  "cls_retriable DelegationTokenRequestNotAllowedError = False"
  "cls_retriable DelegationTokenAuthorizationFailedError = False"
  "cls_retriable DelegationTokenExpiredError = False"
  "cls_retriable InvalidPrincipalTypeError = False"
  "cls_retriable NonEmptyGroupError = False"
  "cls_retriable GroupIdNotFoundError = False"
  "cls_retriable FetchSessionIdNotFoundError = True"
  "cls_retriable InvalidFetchSessionEpochError = True"
  "cls_retriable ListenerNotFoundError = True"
  "cls_retriable TopicDeletionDisabledError = False"
  "cls_retriable FencedLeaderEpochError = True"
  "cls_retriable UnknownLeaderEpochError = True"
  "cls_retriable UnsupportedCompressionTypeError = False"
  "cls_retriable StaleBrokerEpochError = False"
  "cls_retriable OffsetNotAvailableError = True"
  "cls_retriable MemberIdRequiredError = False"
  "cls_retriable PreferredLeaderNotAvailableError = True"
  "cls_retriable GroupMaxSizeReachedError = False"
  "cls_retriable FencedInstanceIdError = False"
  "cls_retriable EligibleLeadersNotAvailableError = True"
  "cls_retriable ElectionNotNeededError = True"
  "cls_retriable NoReassignmentInProgressError = False"
  "cls_retriable GroupSubscribedToTopicError = False"
  "cls_retriable InvalidRecordError = False"
  "cls_retriable UnstableOffsetCommitError = True"
  "cls_retriable ThrottlingQuotaExceededError = True"
  "cls_retriable ProducerFencedError = False"
  "cls_retriable ResourceNotFoundError = False"
  "cls_retriable DuplicateResourceError = False"
  "cls_retriable UnacceptableCredentialError = False"
  "cls_retriable InconsistentVoterSetError = False"
  "cls_retriable InvalidUpdateVersionError = False"
  "cls_retriable FeatureUpdateFailedError = False"
  "cls_retriable PrincipalDeserializationFailureError = False"
  "cls_retriable SnapshotNotFoundError = False"
  "cls_retriable PositionOutOfRangeError = False"
  "cls_retriable UnknownTopicIdError = True"
  "cls_retriable DuplicateBrokerRegistrationError = False"
  "cls_retriable BrokerIdNotRegisteredError = False"
  "cls_retriable InconsistentTopicIdError = True"
  "cls_retriable InconsistentClusterIdError = False"
  "cls_retriable TransactionalIdNotFoundError = False"
  "cls_retriable FetchSessionTopicIdError = True"
  "cls_retriable IneligibleReplicaError = False"
  "cls_retriable NewLeaderElectedError = False"
  "cls_retriable OffsetMovedToTieredStorageError = False"
  "cls_retriable FencedMemberEpochError = False"
  "cls_retriable UnreleasedInstanceIdError = False"
  "cls_retriable UnsupportedAssignorError = False"
  "cls_retriable StaleMemberEpochError = False"
  "cls_retriable MismatchedEndpointTypeError = False"
  "cls_retriable UnsupportedEndpointTypeError = False"
  "cls_retriable UnknownControllerIdError = False"
  "cls_retriable UnknownSubscriptionIdError = False"
  "cls_retriable TelemetryTooLargeError = False"
  "cls_retriable InvalidRegistrationError = False"
  "cls_retriable TransactionAbortableError = False"
  "cls_retriable InvalidRecordStateError = False"
  "cls_retriable ShareSessionNotFoundError = True"
  "cls_retriable InvalidShareSessionEpochError = True"
  "cls_retriable FencedStateEpochError = False"
  "cls_retriable InvalidVoterKeyError = False"
  "cls_retriable DuplicateVoterError = False"
  "cls_retriable VoterNotFoundError = False"
  by (simp_all add: error_class_defs builtin_exn_defs)

lemma invalid_metadata_simps [simp]:
  "cls_invalid_metadata KafkaError = False"
  "cls_invalid_metadata Cancelled = False"
  "cls_invalid_metadata CommitFailedError = False"
  "cls_invalid_metadata IllegalArgumentError = False"
  "cls_invalid_metadata IllegalStateError = False"
  "cls_invalid_metadata IncompatibleBrokerVersion = False"
  "cls_invalid_metadata KafkaConfigurationError = False"
  "cls_invalid_metadata KafkaConnectionError = True"
  "cls_invalid_metadata KafkaProtocolError = False"
  "cls_invalid_metadata CorrelationIdError = False"
  "cls_invalid_metadata KafkaTimeoutError = False"
  "cls_invalid_metadata MetadataEmptyBrokerList = False"
  "cls_invalid_metadata NoBrokersAvailable = True"
  "cls_invalid_metadata NoOffsetForPartitionError = False"
  "cls_invalid_metadata NodeNotReadyError = False"
  "cls_invalid_metadata QuotaViolationError = False"
  "cls_invalid_metadata StaleMetadata = True"
  "cls_invalid_metadata TooManyInFlightRequests = False"
  "cls_invalid_metadata UnrecognizedBrokerVersion = False"
  "cls_invalid_metadata UnsupportedCodecError = False"
  "cls_invalid_metadata BrokerResponseError = False"
  "cls_invalid_metadata AuthorizationError = False"
  "cls_invalid_metadata NoError = False"
  "cls_invalid_metadata UnknownError = False"
  "cls_invalid_metadata OffsetOutOfRangeError = False"
  "cls_invalid_metadata CorruptRecordError = False"
  "cls_invalid_metadata UnknownTopicOrPartitionError = True"
  "cls_invalid_metadata InvalidFetchRequestError = False"
  "cls_invalid_metadata LeaderNotAvailableError = True"
  "cls_invalid_metadata NotLeaderForPartitionError = True"
  "cls_invalid_metadata RequestTimedOutError = False"
  "cls_invalid_metadata BrokerNotAvailableError = False"
  "cls_invalid_metadata ReplicaNotAvailableError = True"
  "cls_invalid_metadata MessageSizeTooLargeError = False"
  "cls_invalid_metadata StaleControllerEpochError = False"
  "cls_invalid_metadata OffsetMetadataTooLargeError = False"
  "cls_invalid_metadata NetworkExceptionError = True"
  "cls_invalid_metadata CoordinatorLoadInProgressError = False"
  "cls_invalid_metadata CoordinatorNotAvailableError = False"
  "cls_invalid_metadata NotCoordinatorError = False"
  "cls_invalid_metadata InvalidTopicError = False"
  "cls_invalid_metadata RecordListTooLargeError = False"
  "cls_invalid_metadata NotEnoughReplicasError = False"
  "cls_invalid_metadata NotEnoughReplicasAfterAppendError = False"
  "cls_invalid_metadata InvalidRequiredAcksError = False"
  "cls_invalid_metadata IllegalGenerationError = False"
  "cls_invalid_metadata InconsistentGroupProtocolError = False"
  "cls_invalid_metadata InvalidGroupIdError = False"
  "cls_invalid_metadata UnknownMemberIdError = False"
  "cls_invalid_metadata InvalidSessionTimeoutError = False"
  "cls_invalid_metadata RebalanceInProgressError = False"
  "cls_invalid_metadata InvalidCommitOffsetSizeError = False"
  "cls_invalid_metadata TopicAuthorizationFailedError = False"
  "cls_invalid_metadata GroupAuthorizationFailedError = False"
  "cls_invalid_metadata ClusterAuthorizationFailedError = False"
  "cls_invalid_metadata InvalidTimestampError = False"
  "cls_invalid_metadata UnsupportedSaslMechanismError = False"
  "cls_invalid_metadata IllegalSaslStateError = False"
  "cls_invalid_metadata UnsupportedVersionError = False"
  "cls_invalid_metadata TopicAlreadyExistsError = False"
  "cls_invalid_metadata InvalidPartitionsError = False"
  "cls_invalid_metadata InvalidReplicationFactorError = False"
  "cls_invalid_metadata InvalidReplicationAssignmentError = False"
  "cls_invalid_metadata InvalidConfigurationError = False"
  "cls_invalid_metadata NotControllerError = False"
  "cls_invalid_metadata InvalidRequestError = False"
  "cls_invalid_metadata UnsupportedForMessageFormatError = False"
  "cls_invalid_metadata PolicyViolationError = False"
  "cls_invalid_metadata OutOfOrderSequenceNumberError = False"
  "cls_invalid_metadata DuplicateSequenceNumberError = False"
  "cls_invalid_metadata InvalidProducerEpochError = False"
  "cls_invalid_metadata InvalidTxnStateError = False"
  "cls_invalid_metadata InvalidProducerIdMappingError = False"
  "cls_invalid_metadata InvalidTransactionTimeoutError = False"
  "cls_invalid_metadata ConcurrentTransactionsError = False"
  "cls_invalid_metadata TransactionCoordinatorFencedError = False"
  "cls_invalid_metadata TransactionalIdAuthorizationFailedError = False"
  "cls_invalid_metadata SecurityDisabledError = False"
  "cls_invalid_metadata OperationNotAttemptedError = False"
  "cls_invalid_metadata KafkaStorageError = True"
  "cls_invalid_metadata LogDirNotFoundError = False"
  "cls_invalid_metadata SaslAuthenticationFailedError = False"
  "cls_invalid_metadata UnknownProducerIdError = False"
  "cls_invalid_metadata ReassignmentInProgressError = False"
  "cls_invalid_metadata DelegationTokenAuthDisabledError = False"
  "cls_invalid_metadata DelegationTokenNotFoundError = False"
  "cls_invalid_metadata DelegationTokenOwnerMismatchError = False"
  "cls_invalid_metadata DelegationTokenRequestNotAllowedError = False"
  "cls_invalid_metadata DelegationTokenAuthorizationFailedError = False"
  "cls_invalid_metadata DelegationTokenExpiredError = False"
  "cls_invalid_metadata InvalidPrincipalTypeError = False"
  "cls_invalid_metadata NonEmptyGroupError = False"
  "cls_invalid_metadata GroupIdNotFoundError = False"
  "cls_invalid_metadata FetchSessionIdNotFoundError = False"
  "cls_invalid_metadata InvalidFetchSessionEpochError = False"
  "cls_invalid_metadata ListenerNotFoundError = True"
  "cls_invalid_metadata TopicDeletionDisabledError = False"
  "cls_invalid_metadata FencedLeaderEpochError = True"
  "cls_invalid_metadata UnknownLeaderEpochError = True"
  "cls_invalid_metadata UnsupportedCompressionTypeError = False"
  "cls_invalid_metadata StaleBrokerEpochError = False"
  "cls_invalid_metadata OffsetNotAvailableError = False"
  "cls_invalid_metadata MemberIdRequiredError = False"
  "cls_invalid_metadata PreferredLeaderNotAvailableError = True"
  "cls_invalid_metadata GroupMaxSizeReachedError = False"
  "cls_invalid_metadata FencedInstanceIdError = False"
  "cls_invalid_metadata EligibleLeadersNotAvailableError = True"
  "cls_invalid_metadata ElectionNotNeededError = True"
  "cls_invalid_metadata NoReassignmentInProgressError = False"
  "cls_invalid_metadata GroupSubscribedToTopicError = False"
  "cls_invalid_metadata InvalidRecordError = False"
  "cls_invalid_metadata UnstableOffsetCommitError = False"
  "cls_invalid_metadata ThrottlingQuotaExceededError = False"
  "cls_invalid_metadata ProducerFencedError = False"
  "cls_invalid_metadata ResourceNotFoundError = False"
  "cls_invalid_metadata DuplicateResourceError = False"
  "cls_invalid_metadata UnacceptableCredentialError = False"
  "cls_invalid_metadata InconsistentVoterSetError = False"
  "cls_invalid_metadata InvalidUpdateVersionError = False"
  "cls_invalid_metadata FeatureUpdateFailedError = False"
  "cls_invalid_metadata PrincipalDeserializationFailureError = False"
  "cls_invalid_metadata SnapshotNotFoundError = False"
  "cls_invalid_metadata PositionOutOfRangeError = False"
  "cls_invalid_metadata UnknownTopicIdError = True"
  "cls_invalid_metadata DuplicateBrokerRegistrationError = False"
  "cls_invalid_metadata BrokerIdNotRegisteredError = False"
  "cls_invalid_metadata InconsistentTopicIdError = True"
  "cls_invalid_metadata InconsistentClusterIdError = False"
  "cls_invalid_metadata TransactionalIdNotFoundError = False"
  "cls_invalid_metadata FetchSessionTopicIdError = False"
  "cls_invalid_metadata IneligibleReplicaError = False"
  "cls_invalid_metadata NewLeaderElectedError = False"
  "cls_invalid_metadata OffsetMovedToTieredStorageError = False"
  "cls_invalid_metadata FencedMemberEpochError = False"
  "cls_invalid_metadata UnreleasedInstanceIdError = False"
  "cls_invalid_metadata UnsupportedAssignorError = False"
  "cls_invalid_metadata StaleMemberEpochError = False"
  "cls_invalid_metadata MismatchedEndpointTypeError = False"
  "cls_invalid_metadata UnsupportedEndpointTypeError = False"
  "cls_invalid_metadata UnknownControllerIdError = False"
  "cls_invalid_metadata UnknownSubscriptionIdError = False"
  "cls_invalid_metadata TelemetryTooLargeError = False"
  "cls_invalid_metadata InvalidRegistrationError = False"
  "cls_invalid_metadata TransactionAbortableError = False"
  "cls_invalid_metadata InvalidRecordStateError = False"
  "cls_invalid_metadata ShareSessionNotFoundError = False"
  "cls_invalid_metadata InvalidShareSessionEpochError = False"
  "cls_invalid_metadata FencedStateEpochError = False"
  "cls_invalid_metadata InvalidVoterKeyError = False"
  "cls_invalid_metadata DuplicateVoterError = False"
  "cls_invalid_metadata VoterNotFoundError = False"
  by (simp_all add: error_class_defs builtin_exn_defs)

lemma cls_name_simps [simp]:
  "cls_name KafkaError = ''KafkaError''"
  "cls_name Cancelled = ''Cancelled''"
  "cls_name CommitFailedError = ''CommitFailedError''"
  "cls_name IllegalArgumentError = ''IllegalArgumentError''"
  "cls_name IllegalStateError = ''IllegalStateError''"
  "cls_name IncompatibleBrokerVersion = ''IncompatibleBrokerVersion''"
  "cls_name KafkaConfigurationError = ''KafkaConfigurationError''"
  "cls_name KafkaConnectionError = ''KafkaConnectionError''"
  "cls_name KafkaProtocolError = ''KafkaProtocolError''"
  "cls_name CorrelationIdError = ''CorrelationIdError''"
  "cls_name KafkaTimeoutError = ''KafkaTimeoutError''"
  "cls_name MetadataEmptyBrokerList = ''MetadataEmptyBrokerList''"
  "cls_name NoBrokersAvailable = ''NoBrokersAvailable''"
  "cls_name NoOffsetForPartitionError = ''NoOffsetForPartitionError''"
  "cls_name NodeNotReadyError = ''NodeNotReadyError''"
  "cls_name QuotaViolationError = ''QuotaViolationError''"
  "cls_name StaleMetadata = ''StaleMetadata''"
  "cls_name TooManyInFlightRequests = ''TooManyInFlightRequests''"
  "cls_name UnrecognizedBrokerVersion = ''UnrecognizedBrokerVersion''"
  "cls_name UnsupportedCodecError = ''UnsupportedCodecError''"
  "cls_name BrokerResponseError = ''BrokerResponseError''"
  "cls_name AuthorizationError = ''AuthorizationError''"
  "cls_name NoError = ''NoError''"
  "cls_name UnknownError = ''UnknownError''"
  "cls_name OffsetOutOfRangeError = ''OffsetOutOfRangeError''"
  "cls_name CorruptRecordError = ''CorruptRecordError''"
  "cls_name UnknownTopicOrPartitionError = ''UnknownTopicOrPartitionError''"
  "cls_name InvalidFetchRequestError = ''InvalidFetchRequestError''"
  "cls_name LeaderNotAvailableError = ''LeaderNotAvailableError''"
  "cls_name NotLeaderForPartitionError = ''NotLeaderForPartitionError''"
  "cls_name RequestTimedOutError = ''RequestTimedOutError''"
  "cls_name BrokerNotAvailableError = ''BrokerNotAvailableError''"
  "cls_name ReplicaNotAvailableError = ''ReplicaNotAvailableError''"
  "cls_name MessageSizeTooLargeError = ''MessageSizeTooLargeError''"
  "cls_name StaleControllerEpochError = ''StaleControllerEpochError''"
  "cls_name OffsetMetadataTooLargeError = ''OffsetMetadataTooLargeError''"
  "cls_name NetworkExceptionError = ''NetworkExceptionError''"
  "cls_name CoordinatorLoadInProgressError = ''CoordinatorLoadInProgressError''"
  "cls_name CoordinatorNotAvailableError = ''CoordinatorNotAvailableError''"
  "cls_name NotCoordinatorError = ''NotCoordinatorError''"
  "cls_name InvalidTopicError = ''InvalidTopicError''"
  "cls_name RecordListTooLargeError = ''RecordListTooLargeError''"
  "cls_name NotEnoughReplicasError = ''NotEnoughReplicasError''"
  "cls_name NotEnoughReplicasAfterAppendError = ''NotEnoughReplicasAfterAppendError''"
  "cls_name InvalidRequiredAcksError = ''InvalidRequiredAcksError''"
  "cls_name IllegalGenerationError = ''IllegalGenerationError''"
  "cls_name InconsistentGroupProtocolError = ''InconsistentGroupProtocolError''"
  "cls_name InvalidGroupIdError = ''InvalidGroupIdError''"
  "cls_name UnknownMemberIdError = ''UnknownMemberIdError''"
  "cls_name InvalidSessionTimeoutError = ''InvalidSessionTimeoutError''"
  "cls_name RebalanceInProgressError = ''RebalanceInProgressError''"
  "cls_name InvalidCommitOffsetSizeError = ''InvalidCommitOffsetSizeError''"
  "cls_name TopicAuthorizationFailedError = ''TopicAuthorizationFailedError''"
  "cls_name GroupAuthorizationFailedError = ''GroupAuthorizationFailedError''"
  "cls_name ClusterAuthorizationFailedError = ''ClusterAuthorizationFailedError''"
  "cls_name InvalidTimestampError = ''InvalidTimestampError''"
  "cls_name UnsupportedSaslMechanismError = ''UnsupportedSaslMechanismError''"
  "cls_name IllegalSaslStateError = ''IllegalSaslStateError''"
  "cls_name UnsupportedVersionError = ''UnsupportedVersionError''"
  "cls_name TopicAlreadyExistsError = ''TopicAlreadyExistsError''"
  "cls_name InvalidPartitionsError = ''InvalidPartitionsError''"
  "cls_name InvalidReplicationFactorError = ''InvalidReplicationFactorError''"
  "cls_name InvalidReplicationAssignmentError = ''InvalidReplicationAssignmentError''"
  "cls_name InvalidConfigurationError = ''InvalidConfigurationError''"
  "cls_name NotControllerError = ''NotControllerError''"
  "cls_name InvalidRequestError = ''InvalidRequestError''"
  "cls_name UnsupportedForMessageFormatError = ''UnsupportedForMessageFormatError''"
  "cls_name PolicyViolationError = ''PolicyViolationError''"
  "cls_name OutOfOrderSequenceNumberError = ''OutOfOrderSequenceNumberError''"
  "cls_name DuplicateSequenceNumberError = ''DuplicateSequenceNumberError''"
  "cls_name InvalidProducerEpochError = ''InvalidProducerEpochError''"
  "cls_name InvalidTxnStateError = ''InvalidTxnStateError''"
  "cls_name InvalidProducerIdMappingError = ''InvalidProducerIdMappingError''"
  "cls_name InvalidTransactionTimeoutError = ''InvalidTransactionTimeoutError''"
  "cls_name ConcurrentTransactionsError = ''ConcurrentTransactionsError''"
  "cls_name TransactionCoordinatorFencedError = ''TransactionCoordinatorFencedError''"
  "cls_name TransactionalIdAuthorizationFailedError = ''TransactionalIdAuthorizationFailedError''"
  "cls_name SecurityDisabledError = ''SecurityDisabledError''"
  "cls_name OperationNotAttemptedError = ''OperationNotAttemptedError''"
  "cls_name KafkaStorageError = ''KafkaStorageError''"
  "cls_name LogDirNotFoundError = ''LogDirNotFoundError''"
  "cls_name SaslAuthenticationFailedError = ''SaslAuthenticationFailedError''"
  "cls_name UnknownProducerIdError = ''UnknownProducerIdError''"
  "cls_name ReassignmentInProgressError = ''ReassignmentInProgressError''"
  "cls_name DelegationTokenAuthDisabledError = ''DelegationTokenAuthDisabledError''"
  "cls_name DelegationTokenNotFoundError = ''DelegationTokenNotFoundError''"
  "cls_name DelegationTokenOwnerMismatchError = ''DelegationTokenOwnerMismatchError''"
  "cls_name DelegationTokenRequestNotAllowedError = ''DelegationTokenRequestNotAllowedError''"
  "cls_name DelegationTokenAuthorizationFailedError = ''DelegationTokenAuthorizationFailedError''"
  "cls_name DelegationTokenExpiredError = ''DelegationTokenExpiredError''"
  "cls_name InvalidPrincipalTypeError = ''InvalidPrincipalTypeError''"
  "cls_name NonEmptyGroupError = ''NonEmptyGroupError''"
  "cls_name GroupIdNotFoundError = ''GroupIdNotFoundError''"
  "cls_name FetchSessionIdNotFoundError = ''FetchSessionIdNotFoundError''"
  "cls_name InvalidFetchSessionEpochError = ''InvalidFetchSessionEpochError''"
  "cls_name ListenerNotFoundError = ''ListenerNotFoundError''"
  "cls_name TopicDeletionDisabledError = ''TopicDeletionDisabledError''"
  "cls_name FencedLeaderEpochError = ''FencedLeaderEpochError''"
  "cls_name UnknownLeaderEpochError = ''UnknownLeaderEpochError''"
  "cls_name UnsupportedCompressionTypeError = ''UnsupportedCompressionTypeError''"
  "cls_name StaleBrokerEpochError = ''StaleBrokerEpochError''"
  "cls_name OffsetNotAvailableError = ''OffsetNotAvailableError''"
  "cls_name MemberIdRequiredError = ''MemberIdRequiredError''"
  "cls_name PreferredLeaderNotAvailableError = ''PreferredLeaderNotAvailableError''"
  "cls_name GroupMaxSizeReachedError = ''GroupMaxSizeReachedError''"
  "cls_name FencedInstanceIdError = ''FencedInstanceIdError''"
  "cls_name EligibleLeadersNotAvailableError = ''EligibleLeadersNotAvailableError''"
  "cls_name ElectionNotNeededError = ''ElectionNotNeededError''"
  "cls_name NoReassignmentInProgressError = ''NoReassignmentInProgressError''"
  "cls_name GroupSubscribedToTopicError = ''GroupSubscribedToTopicError''"
  "cls_name InvalidRecordError = ''InvalidRecordError''"
  "cls_name UnstableOffsetCommitError = ''UnstableOffsetCommitError''"
  "cls_name ThrottlingQuotaExceededError = ''ThrottlingQuotaExceededError''"
  "cls_name ProducerFencedError = ''ProducerFencedError''"
  "cls_name ResourceNotFoundError = ''ResourceNotFoundError''"
  "cls_name DuplicateResourceError = ''DuplicateResourceError''"
  "cls_name UnacceptableCredentialError = ''UnacceptableCredentialError''"
  "cls_name InconsistentVoterSetError = ''InconsistentVoterSetError''"
  "cls_name InvalidUpdateVersionError = ''InvalidUpdateVersionError''"
  "cls_name FeatureUpdateFailedError = ''FeatureUpdateFailedError''"
  "cls_name PrincipalDeserializationFailureError = ''PrincipalDeserializationFailureError''"
  "cls_name SnapshotNotFoundError = ''SnapshotNotFoundError''"
  "cls_name PositionOutOfRangeError = ''PositionOutOfRangeError''"
  "cls_name UnknownTopicIdError = ''UnknownTopicIdError''"
  "cls_name DuplicateBrokerRegistrationError = ''DuplicateBrokerRegistrationError''"
  "cls_name BrokerIdNotRegisteredError = ''BrokerIdNotRegisteredError''"
  "cls_name InconsistentTopicIdError = ''InconsistentTopicIdError''"
  "cls_name InconsistentClusterIdError = ''InconsistentClusterIdError''"
  "cls_name TransactionalIdNotFoundError = ''TransactionalIdNotFoundError''"
  "cls_name FetchSessionTopicIdError = ''FetchSessionTopicIdError''"
  "cls_name IneligibleReplicaError = ''IneligibleReplicaError''"
  "cls_name NewLeaderElectedError = ''NewLeaderElectedError''"
  "cls_name OffsetMovedToTieredStorageError = ''OffsetMovedToTieredStorageError''"
  "cls_name FencedMemberEpochError = ''FencedMemberEpochError''"
  "cls_name UnreleasedInstanceIdError = ''UnreleasedInstanceIdError''"
  "cls_name UnsupportedAssignorError = ''UnsupportedAssignorError''"
  "cls_name StaleMemberEpochError = ''StaleMemberEpochError''"
  "cls_name MismatchedEndpointTypeError = ''MismatchedEndpointTypeError''"
  "cls_name UnsupportedEndpointTypeError = ''UnsupportedEndpointTypeError''"
  "cls_name UnknownControllerIdError = ''UnknownControllerIdError''"
  "cls_name UnknownSubscriptionIdError = ''UnknownSubscriptionIdError''"
  "cls_name TelemetryTooLargeError = ''TelemetryTooLargeError''"
  "cls_name InvalidRegistrationError = ''InvalidRegistrationError''"
  "cls_name TransactionAbortableError = ''TransactionAbortableError''"
  "cls_name InvalidRecordStateError = ''InvalidRecordStateError''"
  "cls_name ShareSessionNotFoundError = ''ShareSessionNotFoundError''"
  "cls_name InvalidShareSessionEpochError = ''InvalidShareSessionEpochError''"
  "cls_name FencedStateEpochError = ''FencedStateEpochError''"
  "cls_name InvalidVoterKeyError = ''InvalidVoterKeyError''"
  "cls_name DuplicateVoterError = ''DuplicateVoterError''"
  "cls_name VoterNotFoundError = ''VoterNotFoundError''"
  by (simp_all add: error_class_defs builtin_exn_defs)

section \<open>Error codes\<close>

text \<open>
  \<open>iter_broker_errors\<close> lists the module members that are proper subclasses of
  \<open>BrokerResponseError\<close> in the order of \<open>inspect.getmembers\<close> (by member name; the alias
  \<open>CorruptRecordException\<close> is a member too).  \<open>kafka_errors\<close> is the dict built from it.
\<close>

definition kafka_errors :: "(int option \<times> exn_class) list" where
  "kafka_errors = fold (\<lambda>x d. AList.update (cls_errno x) x d) iter_broker_errors []"

definition for_code :: "int \<Rightarrow> exn_class" where
  "for_code error_code =
     (case map_of kafka_errors (Some error_code) of
        Some c \<Rightarrow> c
      | None \<Rightarrow> (py_subclass ''UnrecognizedBrokerError'' UnknownError)\<lparr>cls_errno := Some error_code\<rparr>)"

section \<open>Properties\<close>

lemma fold_update_keys:
  "(\<forall>(k, x) \<in> set d. f x = k) \<Longrightarrow>
   (\<forall>(k, x) \<in> set (fold (\<lambda>x d. AList.update (f x) x d) xs d). f x = k)"
proof (induction xs arbitrary: d)
  case (Cons a xs)
  have "set (AList.update (f a) a d) \<subseteq> insert (f a, a) (set d)"
    by (induction d) auto
  then have "\<forall>(k, x) \<in> set (AList.update (f a) a d). f x = k" using Cons.prems by auto
  then show ?case using Cons.IH by simp
qed simp

lemma kafka_errors_errno: "(k, x) \<in> set kafka_errors \<Longrightarrow> cls_errno x = k"
  unfolding kafka_errors_def using fold_update_keys [of "[]" cls_errno iter_broker_errors] by auto

text \<open>Whatever error code a broker sends, known or not, the class \<open>for_code\<close> returns carries
  exactly that code as its \<open>errno\<close>: an unrecognised code is not dropped.\<close>

theorem for_code_errno: "cls_errno (for_code c) = Some c"
  by (auto simp: for_code_def split: option.split dest: map_of_SomeD kafka_errors_errno)

lemma map_of_fold_update_notin:
  "f x \<notin> f ` set xs \<Longrightarrow> map_of (fold (\<lambda>x d. AList.update (f x) x d) xs d) (f x) = map_of d (f x)"
  by (induction xs arbitrary: d) (auto simp: update_conv')

lemma map_of_fold_update:
  "inj_on f (set xs) \<Longrightarrow> x \<in> set xs \<Longrightarrow>
   map_of (fold (\<lambda>x d. AList.update (f x) x d) xs d) (f x) = Some x"
proof (induction xs arbitrary: d)
  case (Cons a xs)
  show ?case
  proof (cases "x \<in> set xs")
    case True
    with Cons show ?thesis by simp
  next
    case False
    with Cons.prems have "x = a" "f x \<notin> f ` set xs" by (auto simp: inj_on_def)
    then show ?thesis by (simp add: map_of_fold_update_notin update_conv')
  qed
qed simp

lemma set_drop_repeated:
  assumes "Suc i < length xs" "xs ! i = xs ! Suc i"
  shows "set xs = set (take i xs @ drop (Suc i) xs)"
proof -
  have "xs = take i xs @ xs ! i # drop (Suc i) xs"
    using assms(1) by (simp add: id_take_nth_drop)
  moreover have "xs ! i \<in> set (drop (Suc i) xs)"
    using assms by (simp add: Cons_nth_drop_Suc [symmetric])
  ultimately show ?thesis by (metis insert_absorb list.simps(15) set_append Un_iff sup.assoc Un_insert_right)
qed

lemma broker_errnos_distinct:
  "distinct (map cls_errno (take 7 iter_broker_errors @ drop (Suc 7) iter_broker_errors))"
  by (simp add: iter_broker_errors_def)

lemma inj_on_broker_errno: "inj_on cls_errno (set iter_broker_errors)"
proof -
  have "set iter_broker_errors =
        set (take 7 iter_broker_errors @ drop (Suc 7) iter_broker_errors)"
    by (rule set_drop_repeated) (simp_all add: iter_broker_errors_def)
  then show ?thesis using broker_errnos_distinct by (metis distinct_map)
qed

lemma kafka_errors_lookup:
  "x \<in> set iter_broker_errors \<Longrightarrow> map_of kafka_errors (cls_errno x) = Some x"
  unfolding kafka_errors_def by (rule map_of_fold_update [OF inj_on_broker_errno])

lemma for_code_broker_error:
  "x \<in> set iter_broker_errors \<Longrightarrow> cls_errno x = Some c \<Longrightarrow> for_code c = x"
  using kafka_errors_lookup [of x] by (simp add: for_code_def)

lemma for_code_NoError [simp]: "for_code 0 = NoError"
  by (rule for_code_broker_error) (simp_all add: iter_broker_errors_def errno_simps)

text \<open>\<open>for_code\<close> inverts \<open>errno\<close>: for every broker error class of the module that has a code,
  looking its code up gives back that class and no other.\<close>

theorem for_code_of_errno:
  "x \<in> set iter_broker_errors \<Longrightarrow> cls_errno x = Some c \<Longrightarrow> for_code c = x"
  by (rule for_code_broker_error)

theorem for_code_of_errno_witness:
  "NotCoordinatorError \<in> set iter_broker_errors \<and> for_code 16 = NotCoordinatorError"
proof -
  have "NotCoordinatorError \<in> set iter_broker_errors" by (simp add: iter_broker_errors_def)
  then show ?thesis using for_code_of_errno [of NotCoordinatorError 16] by simp
qed

text \<open>Every class of the module that asks for a metadata refresh is also retriable, so a
  refresh is never requested for an error the client gives up on.\<close>

theorem invalid_metadata_retriable:
  "\<forall>x \<in> set (client_errors @ iter_broker_errors). cls_invalid_metadata x \<longrightarrow> cls_retriable x"
  by (simp add: client_errors_def iter_broker_errors_def)

theorem invalid_metadata_retriable_witness:
  "NotLeaderForPartitionError \<in> set (client_errors @ iter_broker_errors) \<and>
   cls_invalid_metadata NotLeaderForPartitionError \<and> cls_retriable NotLeaderForPartitionError"
proof -
  have "NotLeaderForPartitionError \<in> set (client_errors @ iter_broker_errors)"
    by (simp add: iter_broker_errors_def)
  moreover have "cls_invalid_metadata NotLeaderForPartitionError" by simp
  ultimately show ?thesis using invalid_metadata_retriable by blast
qed

end
