(* ===== verification/Varint.thy ===== *)
theory Varint
  imports Prelude
begin

text \<open>
  \<^verbatim>\<open>kafka/record/util.py\<close>: the zig-zag variable-length integers of the v2 record format.
  \<open>encode_varint\<close> returns the integers passed to the \<open>write\<close> callback, in order, and the value
  the function returns; \<open>decode_varint\<close> reads a byte buffer at a position.  The reference
  encoding \<open>leb128\<close> is the base-128 expansion; the unrolled fast paths of the source are shown
  equal to it, and decoding is shown to invert encoding on the whole int64 range.
\<close>

section \<open>The code\<close>

definition zigzag :: "int \<Rightarrow> int" where
  "zigzag v = push_bit 1 v XOR drop_bit 63 v"

text \<open>
  The general loop of \<open>encode_varint\<close>.  It is entered with a positive value, and shifting keeps
  it non-negative, so the loop variable is a natural number.
\<close>

fun encode_varint_loop :: "int \<Rightarrow> nat \<Rightarrow> int \<Rightarrow> int list \<times> int" where
  "encode_varint_loop bits v i =
     (if v \<noteq> 0 then
        (case encode_varint_loop (int v AND 0x7f) (v div 128) (i + 1) of
           (ws, n) \<Rightarrow> ((0x80 OR bits) # ws, n))
      else ([bits], i))"

declare encode_varint_loop.simps [simp del]

definition encode_varint :: "int \<Rightarrow> int list \<times> int" where
  "encode_varint v0 = (let v = zigzag v0 in
     if v \<le> 0x7f then ([v], 1)
     else if v \<le> 0x3fff then ([0x80 OR (v AND 0x7f), drop_bit 7 v], 2)
     else if v \<le> 0x1fffff then
       ([0x80 OR (v AND 0x7f), 0x80 OR (drop_bit 7 v AND 0x7f), drop_bit 14 v], 3)
     else if v \<le> 0xfffffff then
       ([0x80 OR (v AND 0x7f), 0x80 OR (drop_bit 7 v AND 0x7f), 0x80 OR (drop_bit 14 v AND 0x7f),
         drop_bit 21 v], 4)
     else if v \<le> 0x7ffffffff then
       ([0x80 OR (v AND 0x7f), 0x80 OR (drop_bit 7 v AND 0x7f), 0x80 OR (drop_bit 14 v AND 0x7f),
         0x80 OR (drop_bit 21 v AND 0x7f), drop_bit 28 v], 5)
     else encode_varint_loop (v AND 0x7f) (nat (drop_bit 7 v)) 0)"

definition size_of_varint :: "int \<Rightarrow> int" where
  "size_of_varint v0 = (let v = zigzag v0 in
     if v \<le> 0x7f then 1
     else if v \<le> 0x3fff then 2
     else if v \<le> 0x1fffff then 3
     else if v \<le> 0xfffffff then 4
     else if v \<le> 0x7ffffffff then 5
     else if v \<le> 0x3ffffffffff then 6
     else if v \<le> 0x1ffffffffffff then 7
     else if v \<le> 0xffffffffffffff then 8
     else if v \<le> 0x7fffffffffffffff then 9
     else 10)"

text \<open>Python's \<open>buffer[pos]\<close> for a non-negative position.\<close>

definition byte_at :: "bytes \<Rightarrow> nat \<Rightarrow> int res" where
  "byte_at buffer pos = (if pos < length buffer then Inr (uint (buffer ! pos)) else Inl IndexError)"

function decode_varint_loop :: "bytes \<Rightarrow> nat \<Rightarrow> nat \<Rightarrow> int \<Rightarrow> (int \<times> nat) res" where
  "decode_varint_loop buffer pos shift result =
     res_bind (byte_at buffer pos) (\<lambda>b.
       let result = result OR push_bit shift (b AND 0x7f) in
       if b AND 0x80 = 0 then Inr (drop_bit 1 result XOR - (result AND 1), pos + 1)
       else if shift + 7 \<ge> 64 then Inl ValueError
       else decode_varint_loop buffer (pos + 1) (shift + 7) result)"
  by pat_completeness auto
termination
  by (relation "measure (\<lambda>(buffer, pos, shift, result). 64 - shift)") auto

declare decode_varint_loop.simps [simp del]

definition decode_varint :: "bytes \<Rightarrow> nat \<Rightarrow> (int \<times> nat) res" where
  "decode_varint buffer pos =
     res_bind (byte_at buffer pos) (\<lambda>result.
       if result AND 0x81 = 0 then Inr (drop_bit 1 result, pos + 1)
       else if result AND 0x80 = 0 then Inr (drop_bit 1 result XOR NOT 0, pos + 1)
       else decode_varint_loop buffer (pos + 1) 7 (result AND 0x7f))"

section \<open>The reference encoding\<close>

function leb128 :: "int \<Rightarrow> int list" where
  "leb128 z = (if z < 128 then [z] else (z mod 128 + 128) # leb128 (z div 128))"
  by pat_completeness auto
termination
  by (relation "measure nat") auto

declare leb128.simps [simp del]

lemma leb128_small: "z < 128 \<Longrightarrow> leb128 z = [z]"
  by (simp add: leb128.simps)

lemma leb128_big: "128 \<le> z \<Longrightarrow> leb128 z = (z mod 128 + 128) # leb128 (z div 128)"
  by (subst leb128.simps) simp

lemma leb128_bytes: "0 \<le> z \<Longrightarrow> w \<in> set (leb128 z) \<Longrightarrow> 0 \<le> w \<and> w < 256"
proof (induction z rule: leb128.induct)
  case (1 z)
  show ?case
  proof (cases "z < 128")
    case True
    with 1 show ?thesis by (simp add: leb128_small)
  next
    case False
    with 1 show ?thesis by (auto simp: leb128_big pos_imp_zdiv_nonneg_iff)
  qed
qed

lemma length_leb128: "length (leb128 z) = (if z < 128 then 1 else Suc (length (leb128 (z div 128))))"
  by (subst leb128.simps) simp

section \<open>Zig-zag\<close>

lemma not_arith [bit_arith]: "NOT (x :: int) = - x - 1"
  by (simp add: not_int_def)

lemma zigzag_eq:
  assumes "- (2 ^ 63) \<le> v" "v < 2 ^ 63"
  shows "zigzag v = (if 0 \<le> v then 2 * v else - 2 * v - 1)"
proof (cases "0 \<le> v")
  case True
  with assms have "drop_bit 63 v = 0" by (simp add: bit_arith)
  with True show ?thesis by (simp add: zigzag_def bit_arith)
next
  case False
  with assms have "v div 2 ^ 63 = -1"
    by (intro int_div_pos_eq [of v "2 ^ 63" "-1" "v + 2 ^ 63"]) simp_all
  with False show ?thesis by (simp add: zigzag_def bit_arith)
qed

lemma zigzag_range:
  assumes "- (2 ^ 63) \<le> v" "v < 2 ^ 63"
  shows "0 \<le> zigzag v" "zigzag v < 2 ^ 64"
  using assms by (simp_all add: zigzag_eq)

lemma zigzag_inverse:
  assumes "- (2 ^ 63) \<le> v" "v < 2 ^ 63"
  shows "drop_bit 1 (zigzag v) XOR - (zigzag v AND 1) = v"
proof (cases "0 \<le> v")
  case True
  with assms show ?thesis by (simp add: zigzag_eq bit_arith and_one_eq)
next
  case False
  have "(- 2 * v - 1) div 2 = - v - 1" "(- 2 * v - 1) mod 2 = (1 :: int)" by presburger+
  with False assms show ?thesis by (simp add: zigzag_eq bit_arith and_one_eq)
qed

section \<open>Encoding\<close>

lemma or_128 [bit_arith]: "128 OR (a mod 128) = a mod 128 + (128 :: int)"
  using or_shifted [of "a mod 128" 7 1] by (simp add: push_bit_eq_mult or.commute)

lemma encode_varint_loop_leb128:
  "0 \<le> bits \<Longrightarrow> bits < 128 \<Longrightarrow>
   encode_varint_loop bits v i =
     (leb128 (bits + 128 * int v), i + int (length (leb128 (bits + 128 * int v))) - 1)"
proof (induction bits v i rule: encode_varint_loop.induct)
  case (1 bits v i)
  show ?case
  proof (cases "v = 0")
    case True
    with 1 show ?thesis by (simp add: encode_varint_loop.simps leb128_small)
  next
    case False
    have dm: "int v mod 128 + 128 * int (v div 128) = int v" by (simp add: of_nat_mod of_nat_div)
    have "encode_varint_loop (int v AND 0x7f) (v div 128) (i + 1) =
          (leb128 (int v), i + 1 + int (length (leb128 (int v))) - 1)"
      using "1.IH" [OF False] dm by (simp add: bit_arith)
    moreover have "leb128 (bits + 128 * int v) = (0x80 OR bits) # leb128 (int v)"
      using False "1.prems" or_128 [of bits] by (simp add: leb128_big)
    ultimately show ?thesis using False by (subst encode_varint_loop.simps) simp
  qed
qed

lemma leb128_unroll:
  "z < 128 \<Longrightarrow> leb128 z = [z]"
  "128 \<le> z \<Longrightarrow> z < 16384 \<Longrightarrow> leb128 z = [z mod 128 + 128, z div 128]"
  "16384 \<le> z \<Longrightarrow> z < 2097152 \<Longrightarrow>
     leb128 z = [z mod 128 + 128, z div 128 mod 128 + 128, z div 16384]"
  "2097152 \<le> z \<Longrightarrow> z < 268435456 \<Longrightarrow>
     leb128 z = [z mod 128 + 128, z div 128 mod 128 + 128, z div 16384 mod 128 + 128, z div 2097152]"
  "268435456 \<le> z \<Longrightarrow> z < 34359738368 \<Longrightarrow>
     leb128 z = [z mod 128 + 128, z div 128 mod 128 + 128, z div 16384 mod 128 + 128,
       z div 2097152 mod 128 + 128, z div 268435456]"
  by (simp_all add: leb128_big leb128_small flip: zdiv_zmult2_eq)

theorem encode_varint_leb128:
  assumes "- (2 ^ 63) \<le> v" "v < 2 ^ 63"
  shows "fst (encode_varint v) = leb128 (zigzag v)"
proof -
  let ?z = "zigzag v"
  have z: "0 \<le> ?z" by (rule zigzag_range [OF assms])
  have loop: "(?z AND 0x7f) + 128 * int (nat (drop_bit 7 ?z)) = ?z"
    using z by (simp add: bit_arith pos_imp_zdiv_nonneg_iff)
  show ?thesis
    using encode_varint_loop_leb128 [of "?z AND 0x7f" "nat (drop_bit 7 ?z)" 0] loop
    by (auto simp: encode_varint_def Let_def leb128_unroll bit_arith)
qed

text \<open>Every value handed to the \<open>write\<close> callback fits a byte, whatever the int64 value: the
  \<open>bytearray\<close> the callers write to never rejects one.\<close>

theorem encode_varint_bytes:
  assumes "- (2 ^ 63) \<le> v" "v < 2 ^ 63" "w \<in> set (fst (encode_varint v))"
  shows "0 \<le> w \<and> w < 256"
  using assms leb128_bytes zigzag_range by (auto simp: encode_varint_leb128)

section \<open>Decoding\<close>

lemma byte_at_append [simp]: "byte_at (pre @ b # suf) (length pre) = Inr (uint b)"
  by (simp add: byte_at_def nth_append)

lemma and_128 [bit_arith]: "0 \<le> b \<Longrightarrow> b < 256 \<Longrightarrow> ((b :: int) AND 128 = 0) = (b < 128)"
  using bit_iff_odd [of b 7] and_exp_eq_0_iff_not_bit [of b 7]
  by (simp add: zdiv_eq_0_iff) presburger

lemma pow_128: "(2 :: int) ^ (7 + n) = 128 * 2 ^ n"
  by (simp add: power_add)

text \<open>Adding the next base-128 digit above \<open>s\<close> bits.\<close>

lemma shifted_digit_bounds:
  fixes r z :: int
  assumes "0 \<le> r" "r < 2 ^ s"
  shows "0 \<le> r + z mod 128 * 2 ^ s" "r + z mod 128 * 2 ^ s < 2 ^ (s + 7)"
proof -
  have "z mod 128 \<le> 127" using pos_mod_bound [of 128 z] by simp
  then have "z mod 128 * 2 ^ s \<le> 127 * 2 ^ s" by (rule mult_right_mono) simp
  moreover have "(2 :: int) ^ (s + 7) = 128 * 2 ^ s" by (simp add: power_add)
  ultimately show "0 \<le> r + z mod 128 * 2 ^ s" "r + z mod 128 * 2 ^ s < 2 ^ (s + 7)"
    using assms by (simp, linarith)
qed

lemma shifted_digit_sum: "r + z mod 128 * 2 ^ s + z div 128 * 2 ^ (s + 7) = r + z * (2 :: int) ^ s"
  using mult_div_mod_eq [of 128 z] by (simp add: power_add algebra_simps flip: distrib_left)

lemma decode_varint_loop_leb128:
  assumes "0 \<le> z" "z < 2 ^ (64 - shift)" "shift < 64" "0 \<le> r" "r < 2 ^ shift"
  shows "decode_varint_loop (pre @ map byte_of (leb128 z) @ suf) (length pre) shift r =
         (let t = r + z * 2 ^ shift in
          Inr (drop_bit 1 t XOR - (t AND 1), length pre + length (leb128 z)))"
  using assms
proof (induction z arbitrary: pre shift r rule: leb128.induct)
  case (1 z)
  show ?case
  proof (cases "z < 128")
    case True
    then have "r OR push_bit shift (z AND 127) = r + z * 2 ^ shift"
      using or_shifted [OF "1.prems"(4,5), of z] "1.prems"(1) by (simp add: bit_arith)
    with True "1.prems" show ?thesis
      by (subst decode_varint_loop.simps) (simp add: leb128_small and_128)
  next
    case False
    let ?b = "z mod 128 + 128" and ?z = "z div 128"
    let ?r = "r + z mod 128 * 2 ^ shift" and ?pre = "pre @ [byte_of ?b]"
    have "128 < (2 :: int) ^ (64 - shift)" using False "1.prems"(2) by linarith
    then have "(2 :: int) ^ 7 < 2 ^ (64 - shift)" by simp
    then have s7: "shift + 7 < 64" by (simp only: power_strict_increasing_iff)
    have or: "r OR push_bit shift (?b AND 127) = ?r"
      using or_shifted [OF "1.prems"(4,5), of "z mod 128"] by (simp add: bit_arith)
    have "64 - shift = 7 + (64 - (shift + 7))" using s7 by simp
    then have "(2 :: int) ^ (64 - shift) = 128 * 2 ^ (64 - (shift + 7))"
      by (metis pow_128)
    then have z2: "?z < 2 ^ (64 - (shift + 7))" using "1.prems"(2) by (simp add: div_less_iff_less_mult mult.commute)
    have r2: "0 \<le> ?r" "?r < 2 ^ (shift + 7)" by (rule shifted_digit_bounds [OF "1.prems"(4,5)])+
    have total: "?r + ?z * 2 ^ (shift + 7) = r + z * 2 ^ shift" by (rule shifted_digit_sum)
    have "decode_varint_loop (?pre @ map byte_of (leb128 ?z) @ suf) (length ?pre) (shift + 7) ?r =
          (let t = r + z * 2 ^ shift in
           Inr (drop_bit 1 t XOR - (t AND 1), length ?pre + length (leb128 ?z)))"
      using "1.IH" [of "shift + 7" ?r ?pre] False z2 r2 s7 "1.prems"(1) total
      by (simp add: pos_imp_zdiv_nonneg_iff)
    moreover have "\<not> z mod 128 < 0" "leb128 z = ?b # leb128 ?z"
      using False by (simp_all add: leb128_big)
    ultimately show ?thesis
      using s7 or by (subst decode_varint_loop.simps) (simp add: Let_def and_128)
  qed
qed

lemma and_129 [bit_arith]:
  assumes "0 \<le> b" "b < 256"
  shows "((b :: int) AND 129 = 0) = (b < 128 \<and> even b)"
proof -
  have "b AND 129 = (b AND 128) OR (b AND 1)" by (simp flip: bit.conj_disj_distrib)
  then show ?thesis using and_128 [OF assms] by (auto simp: or_eq_0_iff and_one_eq even_iff_mod_2_eq_zero)
qed

lemma decode_varint_leb128:
  assumes "0 \<le> z" "z < 2 ^ 64"
  shows "decode_varint (pre @ map byte_of (leb128 z) @ suf) (length pre) =
         Inr (drop_bit 1 z XOR - (z AND 1), length pre + length (leb128 z))"
proof (cases "z < 128")
  case True
  with assms show ?thesis
    by (simp add: decode_varint_def leb128_small and_128 and_129 bit_arith and_one_eq
        even_iff_mod_2_eq_zero)
next
  case False
  let ?b = "z mod 128 + 128" and ?z = "z div 128"
  have "decode_varint_loop ((pre @ [byte_of ?b]) @ map byte_of (leb128 ?z) @ suf)
          (length (pre @ [byte_of ?b])) 7 (z mod 128) =
        (let t = z mod 128 + ?z * 2 ^ 7 in
         Inr (drop_bit 1 t XOR - (t AND 1), length (pre @ [byte_of ?b]) + length (leb128 ?z)))"
    by (rule decode_varint_loop_leb128) (use False assms in simp_all)
  moreover have "z mod 128 + ?z * 2 ^ 7 = z" "\<not> z mod 128 < 0" by simp_all
  ultimately show ?thesis
    using False by (simp add: decode_varint_def leb128_big and_128 and_129 and_127)
qed

lemma varint_enc_dec:
  assumes "- (2 ^ 63) \<le> v" "v < 2 ^ 63"
  shows "decode_varint (pre @ map byte_of (fst (encode_varint v)) @ suf) (length pre) =
         Inr (v, length pre + length (fst (encode_varint v)))"
  using decode_varint_leb128 [OF zigzag_range [OF assms]]
  by (simp only: encode_varint_leb128 [OF assms] zigzag_inverse [OF assms])

text \<open>C34. Decoding inverts encoding: for every int64 value, the bytes \<open>encode_varint\<close> writes,
  wherever they stand in a buffer, are decoded to that value, and the position returned is the
  one just after them.\<close>

theorem varint_roundtrip:
  assumes "- (2 ^ 63) \<le> v" "v < 2 ^ 63"
  shows "decode_varint (pre @ map byte_of (fst (encode_varint v)) @ suf) (length pre) =
         Inr (v, length pre + length (fst (encode_varint v)))"
  by (rule varint_enc_dec [OF assms])

theorem varint_roundtrip_witness:
  "decode_varint (map byte_of (fst (encode_varint (- 300)))) 0 = Inr (- 300, 2)"
  using varint_roundtrip [of "- 300" "[]" "[]"] by (simp add: encode_varint_def zigzag_def)

theorem encode_varint_bytes_witness:
  "172 \<in> set (fst (encode_varint 150)) \<and> 0 \<le> (172 :: int) \<and> (172 :: int) < 256"
proof -
  have "172 \<in> set (fst (encode_varint 150))" by (simp add: encode_varint_def zigzag_def)
  then show ?thesis using encode_varint_bytes [of 150 172] by simp
qed

section \<open>Sizes\<close>

lemma length_leb128_le: "length (leb128 z) \<le> Suc n \<longleftrightarrow> z < 128 ^ Suc n"
proof (induction n arbitrary: z)
  case 0
  show ?case by (cases "z < 128") (auto simp: leb128_small leb128_big length_leb128 [of "z div 128"])
next
  case (Suc n)
  have "z < 128 ^ Suc (Suc n)" if "z < 128"
    using that one_le_power [of "128 :: int" "Suc n"] by simp
  with Suc [of "z div 128"] show ?case
    by (cases "z < 128") (auto simp: leb128_small leb128_big div_less_iff_less_mult mult.commute)
qed

lemma length_leb128_bound: "0 < k \<Longrightarrow> m + 1 = 128 ^ k \<Longrightarrow> length (leb128 z) \<le> k \<longleftrightarrow> z \<le> m"
  using length_leb128_le [of z "k - 1"] by (cases k) auto

lemma size_of_varint_length:
  assumes "- (2 ^ 63) \<le> v" "v < 2 ^ 63"
  shows "size_of_varint v = int (length (fst (encode_varint v)))"
proof -
  let ?z = "zigzag v" and ?n = "length (leb128 (zigzag v))"
  have "?n \<noteq> 0" by (simp add: length_leb128 [of ?z])
  moreover have "?n \<le> 10"
    using zigzag_range [OF assms] by (simp add: length_leb128_bound [of 10 "2 ^ 70 - 1"])
  ultimately have n: "?n \<in> {1, 2, 3, 4, 5, 6, 7, 8, 9, 10}"
    by (simp only: insert_iff empty_iff) presburger
  have bounds: "?n \<le> 1 \<longleftrightarrow> ?z \<le> 0x7f" "?n \<le> 2 \<longleftrightarrow> ?z \<le> 0x3fff"
    "?n \<le> 3 \<longleftrightarrow> ?z \<le> 0x1fffff" "?n \<le> 4 \<longleftrightarrow> ?z \<le> 0xfffffff" "?n \<le> 5 \<longleftrightarrow> ?z \<le> 0x7ffffffff"
    "?n \<le> 6 \<longleftrightarrow> ?z \<le> 0x3ffffffffff" "?n \<le> 7 \<longleftrightarrow> ?z \<le> 0x1ffffffffffff"
    "?n \<le> 8 \<longleftrightarrow> ?z \<le> 0xffffffffffffff" "?n \<le> 9 \<longleftrightarrow> ?z \<le> 0x7fffffffffffffff"
    by (rule length_leb128_bound, simp, simp)+
  have "size_of_varint v =
    (if ?n \<le> 1 then 1 else if ?n \<le> 2 then 2 else if ?n \<le> 3 then 3 else if ?n \<le> 4 then 4
     else if ?n \<le> 5 then 5 else if ?n \<le> 6 then 6 else if ?n \<le> 7 then 7 else if ?n \<le> 8 then 8
     else if ?n \<le> 9 then 9 else 10)"
    by (simp only: size_of_varint_def Let_def bounds)
  with n show ?thesis unfolding encode_varint_leb128 [OF assms] by (elim insertE) simp_all
qed

text \<open>\<open>size_of_varint\<close> is the exact number of bytes \<open>encode_varint\<close> writes, for every int64
  value: the size estimates of the record builder are right.\<close>

theorem size_of_varint_correct:
  assumes "- (2 ^ 63) \<le> v" "v < 2 ^ 63"
  shows "size_of_varint v = int (length (fst (encode_varint v)))"
  by (rule size_of_varint_length [OF assms])

theorem size_of_varint_correct_witness:
  "size_of_varint 1000000 = int (length (fst (encode_varint 1000000)))"
  by (rule size_of_varint_correct) simp_all

text \<open>The value \<open>encode_varint\<close> returns, documented as the number of bytes written, is that
  number on the unrolled paths (at most five bytes) and one less on the general path.\<close>

theorem encode_varint_count:
  assumes "- (2 ^ 63) \<le> v" "v < 2 ^ 63"
  shows "snd (encode_varint v) =
         int (length (fst (encode_varint v))) - (if zigzag v \<le> 0x7ffffffff then 0 else 1)"
proof -
  let ?z = "zigzag v"
  have "0 \<le> ?z AND 0x7f \<and> ?z AND 0x7f < 128" by (simp add: bit_arith)
  then show ?thesis
    using encode_varint_loop_leb128 [of "?z AND 0x7f" "nat (drop_bit 7 ?z)" 0]
    by (simp add: encode_varint_def Let_def)
qed

theorem encode_varint_count_witness:
  "snd (encode_varint (2 ^ 40)) = int (length (fst (encode_varint (2 ^ 40)))) - 1"
  using encode_varint_count [of "2 ^ 40"] by (simp add: zigzag_def)

end
