(* ===== verification/Murmur2.thy ===== *)
theory Murmur2
  imports Prelude
begin

text \<open>
  \<^verbatim>\<open>kafka/partitioner/default.py\<close>: the default partitioner and its pure-Python murmur2 hash.  The
  source computes on unbounded integers and masks to 32 bits after every step; the reference
  \<open>murmur2_ref\<close> is the hash of the Java client on 32-bit words, where the wrap-around is the
  arithmetic's own.  The two are shown equal, so both clients place a key in the same partition.
\<close>

section \<open>The code\<close>

definition m_const :: int where "m_const = 0x5bd1e995"
definition seed_const :: int where "seed_const = 0x9747b28c"

text \<open>One iteration of the loop over 4-byte blocks: the block starts at byte \<open>i4\<close>.\<close>

definition murmur2_block :: "bytes \<Rightarrow> int \<Rightarrow> nat \<Rightarrow> int" where
  "murmur2_block data h i = (let
     i4 = i * 4;
     k = (uint (data ! (i4 + 0)) AND 0xff) + push_bit 8 (uint (data ! (i4 + 1)) AND 0xff) +
         push_bit 16 (uint (data ! (i4 + 2)) AND 0xff) + push_bit 24 (uint (data ! (i4 + 3)) AND 0xff);
     k = k AND 0xffffffff;
     k = k * m_const;
     k = k AND 0xffffffff;
     k = k XOR drop_bit 24 (k mod 0x100000000);
     k = k AND 0xffffffff;
     k = k * m_const;
     k = k AND 0xffffffff;
     h = h * m_const;
     h = h AND 0xffffffff;
     h = h XOR k;
     h = h AND 0xffffffff
   in h)"

text \<open>The last one to three bytes; \<open>length & ~3\<close> is the index of the first of them.\<close>

definition murmur2_tail :: "bytes \<Rightarrow> int \<Rightarrow> int" where
  "murmur2_tail data h = (let
     len = length data;
     extra_bytes = len mod 4;
     base = len - len mod 4;
     h = (if extra_bytes \<ge> 3
          then (h XOR push_bit 16 (uint (data ! (base + 2)) AND 0xff)) AND 0xffffffff else h);
     h = (if extra_bytes \<ge> 2
          then (h XOR push_bit 8 (uint (data ! (base + 1)) AND 0xff)) AND 0xffffffff else h);
     h = (if extra_bytes \<ge> 1
          then ((((h XOR (uint (data ! base) AND 0xff)) AND 0xffffffff) * m_const) AND 0xffffffff)
          else h)
   in h)"

definition murmur2 :: "bytes \<Rightarrow> int" where
  "murmur2 data = (let
     len = length data;
     h = seed_const XOR int len;
     h = fold (\<lambda>i h. murmur2_block data h i) [0 ..< len div 4] h;
     h = murmur2_tail data h;
     h = h XOR drop_bit 13 (h mod 0x100000000);
     h = h AND 0xffffffff;
     h = h * m_const;
     h = h AND 0xffffffff;
     h = h XOR drop_bit 15 (h mod 0x100000000);
     h = h AND 0xffffffff
   in h)"

text \<open>
  \<open>DefaultPartitioner.__call__\<close>.  \<open>random.choice\<close> is the parameter \<open>choice\<close>: it picks an
  index of a non-empty list, and raises IndexError on an empty one.  Reducing modulo an empty
  partition list raises ZeroDivisionError.
\<close>

definition ZeroDivisionError :: exn_class where
  "ZeroDivisionError = py_subclass ''ZeroDivisionError'' (py_subclass ''ArithmeticError'' Exception)"

definition random_choice :: "('a list \<Rightarrow> nat) \<Rightarrow> 'a list \<Rightarrow> 'a res" where
  "random_choice choice xs = (if xs = [] then Inl IndexError else Inr (xs ! (choice xs mod length xs)))"

definition default_partitioner ::
    "('a list \<Rightarrow> nat) \<Rightarrow> bytes option \<Rightarrow> 'a list \<Rightarrow> 'a list \<Rightarrow> 'a res" where
  "default_partitioner choice key all_partitions available =
     (case key of
        None \<Rightarrow> if available \<noteq> [] then random_choice choice available
                else random_choice choice all_partitions
      | Some k \<Rightarrow>
          if length all_partitions = 0 then Inl ZeroDivisionError
          else Inr (all_partitions !
                 nat ((murmur2 k AND 0x7fffffff) mod int (length all_partitions))))"

section \<open>The reference: 32-bit words\<close>

definition ref_block :: "bytes \<Rightarrow> u32 \<Rightarrow> nat \<Rightarrow> u32" where
  "ref_block data h i = (let
     k = ucast (data ! (i * 4)) + push_bit 8 (ucast (data ! (i * 4 + 1))) +
         push_bit 16 (ucast (data ! (i * 4 + 2))) + push_bit 24 (ucast (data ! (i * 4 + 3)));
     k = k * 0x5bd1e995;
     k = k XOR drop_bit 24 k;
     k = k * 0x5bd1e995
   in (h * 0x5bd1e995) XOR k)"

definition ref_tail :: "bytes \<Rightarrow> u32 \<Rightarrow> u32" where
  "ref_tail data h = (let
     r = length data mod 4; base = length data - r;
     h = (if r \<ge> 3 then h XOR push_bit 16 (ucast (data ! (base + 2))) else h);
     h = (if r \<ge> 2 then h XOR push_bit 8 (ucast (data ! (base + 1))) else h)
   in if r \<ge> 1 then (h XOR ucast (data ! base)) * 0x5bd1e995 else h)"

definition murmur2_ref :: "bytes \<Rightarrow> u32" where
  "murmur2_ref data = (let
     h = 0x9747b28c XOR word_of_nat (length data);
     h = fold (\<lambda>i h. ref_block data h i) [0 ..< length data div 4] h;
     h = ref_tail data h;
     h = h XOR drop_bit 13 h;
     h = h * 0x5bd1e995
   in h XOR drop_bit 15 h)"

section \<open>Equality\<close>

text \<open>\<open>agrees i w\<close>: the integer's low 32 bits are the word.\<close>

definition agrees :: "int \<Rightarrow> u32 \<Rightarrow> bool" where
  "agrees i w \<longleftrightarrow> word_of_int i = w"

named_theorems agrees_rules \<open>congruence of agreement with the operations of the hash\<close>

lemma agrees_mask [agrees_rules]: "agrees i w \<Longrightarrow> agrees (i AND 0xffffffff) w"
  by (auto simp: agrees_def and_mask32 word_of_int_eq_iff take_bit_eq_mod)

lemma agrees_const [agrees_rules]:
  "agrees m_const 0x5bd1e995" "agrees seed_const 0x9747b28c"
  by (simp_all add: agrees_def m_const_def seed_const_def)

lemma agrees_arith [agrees_rules]:
  assumes "agrees i v" "agrees j w"
  shows "agrees (i + j) (v + w)" "agrees (i * j) (v * w)" "agrees (i XOR j) (v XOR w)"
  using assms by (auto simp: agrees_def intro: bit_word_eqI simp: bit_simps)

lemma agrees_push_bit [agrees_rules]: "agrees i w \<Longrightarrow> agrees (push_bit n i) (push_bit n w)"
  by (auto simp: agrees_def push_bit_eq_mult)

lemma agrees_byte [agrees_rules]: "agrees (uint (b :: byte) AND 0xff) (ucast b)"
  by (simp add: agrees_def bit_arith)

lemma agrees_if [agrees_rules]:
  "(b \<Longrightarrow> agrees i v) \<Longrightarrow> (\<not> b \<Longrightarrow> agrees j w) \<Longrightarrow> agrees (if b then i else j) (if b then v else w)"
  by simp

lemma agrees_nat [agrees_rules]: "agrees (int n) (word_of_nat n)"
  by (simp add: agrees_def)

lemma agrees_drop_bit [agrees_rules]:
  assumes "agrees i w"
  shows "agrees (drop_bit n (i mod 0x100000000)) (drop_bit n w)"
proof -
  have "i mod 0x100000000 = uint w"
    using assms uint_word_of_int [of i, where ?'a = 32] by (auto simp: agrees_def)
  moreover have "word_of_int (drop_bit n (uint w)) = drop_bit n w"
    by (rule bit_word_eqI) (simp add: bit_simps)
  ultimately show ?thesis by (simp add: agrees_def)
qed

lemma agrees_block: "agrees h w \<Longrightarrow> agrees (murmur2_block data h i) (ref_block data w i)"
  unfolding murmur2_block_def ref_block_def Let_def add_0_right by (intro agrees_rules)

lemma agrees_fold:
  "agrees h w \<Longrightarrow> agrees (fold (\<lambda>i h. murmur2_block data h i) is h) (fold (\<lambda>i h. ref_block data h i) is w)"
  by (induction "is" arbitrary: h w) (simp_all add: agrees_block)

lemma agrees_tail: "agrees h w \<Longrightarrow> agrees (murmur2_tail data h) (ref_tail data w)"
  unfolding murmur2_tail_def ref_tail_def Let_def by (intro agrees_rules)

lemma agrees_murmur2: "agrees (murmur2 data) (murmur2_ref data)"
  unfolding murmur2_def murmur2_ref_def Let_def
  by (intro agrees_rules agrees_tail agrees_fold)

lemma murmur2_range: "0 \<le> murmur2 data" "murmur2 data < 2 ^ 32"
  by (simp_all add: murmur2_def Let_def and_mask32)

text \<open>C36. The Python hash is the 32-bit murmur2 of the Java client: on every byte string, the
  masked arithmetic on unbounded integers computes the same 32-bit value as word arithmetic.\<close>

theorem murmur2_correct: "murmur2 data = uint (murmur2_ref data)"
proof -
  have "uint (murmur2_ref data) = murmur2 data mod 2 ^ 32"
    using agrees_murmur2 [of data] uint_word_of_int [of "murmur2 data", where ?'a = 32]
    by (simp add: agrees_def)
  then show ?thesis using murmur2_range [of data] by simp
qed

text \<open>With a key, the partitioner returns a member of \<open>all_partitions\<close>, the same one for every
  call with that key, whatever is available and whatever the random choice.\<close>

theorem default_partitioner_keyed:
  assumes "all_partitions \<noteq> []"
  shows "\<exists>p \<in> set all_partitions. \<forall>choice available.
           default_partitioner choice (Some key) all_partitions available = Inr p"
proof -
  let ?i = "nat ((murmur2 key AND 0x7fffffff) mod int (length all_partitions))"
  have "?i < length all_partitions" using assms by (simp add: nat_less_iff)
  then show ?thesis using assms by (auto simp: default_partitioner_def)
qed

theorem default_partitioner_keyed_witness:
  "\<exists>p \<in> set [0, 1, 2 :: int]. \<forall>choice available.
     default_partitioner choice (Some [97]) [0, 1, 2] available = Inr p"
  by (rule default_partitioner_keyed) simp

text \<open>Without a key, the partitioner picks among the available partitions when there are any,
  otherwise among all of them, and fails only when there is no partition at all.\<close>

theorem default_partitioner_unkeyed:
  "default_partitioner choice None all_partitions available =
     (if available = [] \<and> all_partitions = [] then Inl IndexError
      else Inr ((if available = [] then all_partitions else available) !
             (choice (if available = [] then all_partitions else available) mod
              length (if available = [] then all_partitions else available))))"
  by (simp add: default_partitioner_def random_choice_def)

end
