(* ===== verification/Crc32c.thy ===== *)
theory Crc32c
  imports Prelude
begin

text \<open>
  \<^verbatim>\<open>kafka/record/_crc32c.py\<close>: the table-driven CRC-32C of record batches.  All values of the
  source are 32-bit (it masks after every step), so they are 32-bit words here, with the masks
  kept.  The 256-entry table is shown to be the bitwise division by the Castagnoli polynomial,
  the table-driven loop to be the bitwise one, and the checksum to detect every change of one byte.
\<close>

section \<open>The code\<close>

definition CRC_TABLE :: "u32 list" where
  "CRC_TABLE = [
    0x00000000, 0xf26b8303, 0xe13b70f7, 0x1350f3f4, 0xc79a971f, 0x35f1141c, 0x26a1e7e8, 0xd4ca64eb,
    0x8ad958cf, 0x78b2dbcc, 0x6be22838, 0x9989ab3b, 0x4d43cfd0, 0xbf284cd3, 0xac78bf27, 0x5e133c24,
    0x105ec76f, 0xe235446c, 0xf165b798, 0x030e349b, 0xd7c45070, 0x25afd373, 0x36ff2087, 0xc494a384,
    0x9a879fa0, 0x68ec1ca3, 0x7bbcef57, 0x89d76c54, 0x5d1d08bf, 0xaf768bbc, 0xbc267848, 0x4e4dfb4b,
    0x20bd8ede, 0xd2d60ddd, 0xc186fe29, 0x33ed7d2a, 0xe72719c1, 0x154c9ac2, 0x061c6936, 0xf477ea35,
    0xaa64d611, 0x580f5512, 0x4b5fa6e6, 0xb93425e5, 0x6dfe410e, 0x9f95c20d, 0x8cc531f9, 0x7eaeb2fa,
    0x30e349b1, 0xc288cab2, 0xd1d83946, 0x23b3ba45, 0xf779deae, 0x05125dad, 0x1642ae59, 0xe4292d5a,
    0xba3a117e, 0x4851927d, 0x5b016189, 0xa96ae28a, 0x7da08661, 0x8fcb0562, 0x9c9bf696, 0x6ef07595,
    0x417b1dbc, 0xb3109ebf, 0xa0406d4b, 0x522bee48, 0x86e18aa3, 0x748a09a0, 0x67dafa54, 0x95b17957,
    0xcba24573, 0x39c9c670, 0x2a993584, 0xd8f2b687, 0x0c38d26c, 0xfe53516f, 0xed03a29b, 0x1f682198,
    0x5125dad3, 0xa34e59d0, 0xb01eaa24, 0x42752927, 0x96bf4dcc, 0x64d4cecf, 0x77843d3b, 0x85efbe38,
    0xdbfc821c, 0x2997011f, 0x3ac7f2eb, 0xc8ac71e8, 0x1c661503, 0xee0d9600, 0xfd5d65f4, 0x0f36e6f7,
    0x61c69362, 0x93ad1061, 0x80fde395, 0x72966096, 0xa65c047d, 0x5437877e, 0x4767748a, 0xb50cf789,
    0xeb1fcbad, 0x197448ae, 0x0a24bb5a, 0xf84f3859, 0x2c855cb2, 0xdeeedfb1, 0xcdbe2c45, 0x3fd5af46,
    0x7198540d, 0x83f3d70e, 0x90a324fa, 0x62c8a7f9, 0xb602c312, 0x44694011, 0x5739b3e5, 0xa55230e6,
    0xfb410cc2, 0x092a8fc1, 0x1a7a7c35, 0xe811ff36, 0x3cdb9bdd, 0xceb018de, 0xdde0eb2a, 0x2f8b6829,
    0x82f63b78, 0x709db87b, 0x63cd4b8f, 0x91a6c88c, 0x456cac67, 0xb7072f64, 0xa457dc90, 0x563c5f93,
    0x082f63b7, 0xfa44e0b4, 0xe9141340, 0x1b7f9043, 0xcfb5f4a8, 0x3dde77ab, 0x2e8e845f, 0xdce5075c,
    0x92a8fc17, 0x60c37f14, 0x73938ce0, 0x81f80fe3, 0x55326b08, 0xa759e80b, 0xb4091bff, 0x466298fc,
    0x1871a4d8, 0xea1a27db, 0xf94ad42f, 0x0b21572c, 0xdfeb33c7, 0x2d80b0c4, 0x3ed04330, 0xccbbc033,
    0xa24bb5a6, 0x502036a5, 0x4370c551, 0xb11b4652, 0x65d122b9, 0x97baa1ba, 0x84ea524e, 0x7681d14d,
    0x2892ed69, 0xdaf96e6a, 0xc9a99d9e, 0x3bc21e9d, 0xef087a76, 0x1d63f975, 0x0e330a81, 0xfc588982,
    0xb21572c9, 0x407ef1ca, 0x532e023e, 0xa145813d, 0x758fe5d6, 0x87e466d5, 0x94b49521, 0x66df1622,
    0x38cc2a06, 0xcaa7a905, 0xd9f75af1, 0x2b9cd9f2, 0xff56bd19, 0x0d3d3e1a, 0x1e6dcdee, 0xec064eed,
    0xc38d26c4, 0x31e6a5c7, 0x22b65633, 0xd0ddd530, 0x0417b1db, 0xf67c32d8, 0xe52cc12c, 0x1747422f,
    0x49547e0b, 0xbb3ffd08, 0xa86f0efc, 0x5a048dff, 0x8ecee914, 0x7ca56a17, 0x6ff599e3, 0x9d9e1ae0,
    0xd3d3e1ab, 0x21b862a8, 0x32e8915c, 0xc083125f, 0x144976b4, 0xe622f5b7, 0xf5720643, 0x07198540,
    0x590ab964, 0xab613a67, 0xb831c993, 0x4a5a4a90, 0x9e902e7b, 0x6cfbad78, 0x7fab5e8c, 0x8dc0dd8f,
    0xe330a81a, 0x115b2b19, 0x020bd8ed, 0xf0605bee, 0x24aa3f05, 0xd6c1bc06, 0xc5914ff2, 0x37faccf1,
    0x69e9f0d5, 0x9b8273d6, 0x88d28022, 0x7ab90321, 0xae7367ca, 0x5c18e4c9, 0x4f48173d, 0xbd23943e,
    0xf36e6f75, 0x0105ec76, 0x12551f82, 0xe03e9c81, 0x34f4f86a, 0xc69f7b69, 0xd5cf889d, 0x27a40b9e,
    0x79b737ba, 0x8bdcb4b9, 0x988c474d, 0x6ae7c44e, 0xbe2da0a5, 0x4c4623a6, 0x5f16d052, 0xad7d5351]"

definition CRC_INIT :: u32 where "CRC_INIT = 0"

definition CRC_MASK :: u32 where "CRC_MASK = 0xFFFFFFFF"

lemma CRC_MASK_eq: "CRC_MASK = NOT 0"
  by (simp add: CRC_MASK_def)

definition crc_byte :: "byte \<Rightarrow> u32 \<Rightarrow> u32" where
  "crc_byte b crc =
     (let table_index = (crc XOR ucast b) AND 0xff
      in (CRC_TABLE ! unat table_index XOR drop_bit 8 crc) AND CRC_MASK)"

definition crc_update :: "u32 \<Rightarrow> bytes \<Rightarrow> u32" where
  "crc_update crc data = fold crc_byte data (crc XOR CRC_MASK) XOR CRC_MASK"

definition crc_finalize :: "u32 \<Rightarrow> u32" where
  "crc_finalize crc = crc AND CRC_MASK"

definition crc :: "bytes \<Rightarrow> u32" where
  "crc data = crc_finalize (crc_update CRC_INIT data)"

text \<open>\<open>calc_crc32c\<close> of \<^verbatim>\<open>kafka/record/util.py\<close>, with the pure-Python implementation.\<close>

definition calc_crc32c :: "bytes \<Rightarrow> int" where
  "calc_crc32c memview = uint (crc memview)"

section \<open>The reference: bitwise division\<close>

definition crc_step :: "u32 \<Rightarrow> u32" where
  "crc_step c = (if bit c 0 then drop_bit 1 c XOR 0x82f63b78 else drop_bit 1 c)"

definition crc_step8 :: "u32 \<Rightarrow> u32" where
  "crc_step8 c = crc_step (crc_step (crc_step (crc_step (crc_step (crc_step (crc_step (crc_step c)))))))"

lemma crc_step_xor: "crc_step (a XOR b) = crc_step a XOR crc_step b"
  unfolding crc_step_def by (auto simp: bit_simps intro!: bit_word_eqI)

lemma crc_step8_xor: "crc_step8 (a XOR b) = crc_step8 a XOR crc_step8 b"
  by (simp add: crc_step8_def crc_step_xor)

text \<open>The table doubles eight times: the entries of bytes with one more bit are the earlier ones,
  xored with the entry of that bit.\<close>

primrec crc_expand :: "u32 list \<Rightarrow> u32 list \<Rightarrow> u32 list" where
  "crc_expand [] acc = acc"
| "crc_expand (p # ps) acc = crc_expand ps (acc @ map (\<lambda>x. x XOR p) acc)"

lemma crc_table_expand:
  "CRC_TABLE = crc_expand (map crc_step8 [1, 2, 4, 8, 16, 32, 64, 128]) [0]"
  by (simp add: CRC_TABLE_def crc_step8_def crc_step_def bit_numeral_word_iff)

lemma word_of_nat_top_bit:
  assumes "k < 32" "2 ^ k \<le> n" "n < 2 ^ Suc k"
  shows "(word_of_nat n :: u32) = word_of_nat (n - 2 ^ k) XOR push_bit k 1"
proof -
  have "\<not> bit (n - 2 ^ k) k" using assms(2,3) by (simp add: bit_iff_odd)
  then have "(word_of_nat (n - 2 ^ k) :: u32) AND push_bit k 1 = 0"
    by (intro bit_word_eqI) (auto simp: bit_simps)
  moreover have "(word_of_nat n :: u32) = word_of_nat (n - 2 ^ k) + push_bit k 1"
    using assms(2) by (simp add: push_bit_eq_mult of_nat_diff)
  ultimately show ?thesis by (simp add: disjunctive_add_eq_xor)
qed

lemma nth_crc_expand:
  assumes "length acc = 2 ^ k" "\<And>n. n < 2 ^ k \<Longrightarrow> acc ! n = crc_step8 (word_of_nat n)"
    "k + m \<le> 32" "n < 2 ^ (k + m)"
  shows "crc_expand (map (\<lambda>j. crc_step8 (push_bit j 1)) [k ..< k + m]) acc ! n = crc_step8 (word_of_nat n)"
  using assms
proof (induction m arbitrary: k acc)
  case (Suc m)
  let ?p = "crc_step8 (push_bit k 1)" and ?acc = "acc @ map (\<lambda>x. x XOR crc_step8 (push_bit k 1)) acc"
  have acc: "?acc ! n = crc_step8 (word_of_nat n)" if "n < 2 ^ Suc k" for n
  proof (cases "n < 2 ^ k")
    case True
    with Suc.prems show ?thesis by (simp add: nth_append)
  next
    case False
    with that have "n - 2 ^ k < 2 ^ k" by simp
    moreover have "crc_step8 (word_of_nat n) = crc_step8 (word_of_nat (n - 2 ^ k)) XOR ?p"
      using False that Suc.prems word_of_nat_top_bit [of k n] by (simp only: crc_step8_xor)
    ultimately show ?thesis using False Suc.prems by (simp add: nth_append)
  qed
  have "[k ..< k + Suc m] = k # [Suc k ..< Suc k + m]" by (simp add: upt_rec)
  with Suc.IH [of ?acc "Suc k"] Suc.prems acc show ?case by (simp add: upt_rec)
qed simp

lemma crc_table_correct: "n < 256 \<Longrightarrow> CRC_TABLE ! n = crc_step8 (word_of_nat n)"
  using nth_crc_expand [of "[0]" 0 8 n]
  by (simp add: crc_table_expand upt_rec crc_step8_def crc_step_def)

section \<open>Table-driven and bitwise agree\<close>

lemma crc_step_even: "\<not> bit c 0 \<Longrightarrow> crc_step c = drop_bit 1 c"
  by (simp add: crc_step_def)

lemma crc_step8_shift: "(\<And>n. n < 8 \<Longrightarrow> \<not> bit c n) \<Longrightarrow> crc_step8 c = drop_bit 8 c"
  by (simp add: crc_step8_def crc_step_even bit_drop_bit_eq) (simp add: eval_nat_numeral)

lemma ff_mask: "(0xff :: u32) = mask 8"
  by (simp add: mask_eq_exp_minus_1)

lemma crc_step8_split: "crc_step8 c = crc_step8 (c AND 0xff) XOR drop_bit 8 c"
proof -
  have "c = (c AND 0xff) XOR (c AND NOT 0xff)" by (rule bit_word_eqI) (auto simp: bit_simps)
  then have "crc_step8 c = crc_step8 (c AND 0xff) XOR crc_step8 (c AND NOT 0xff)"
    by (metis crc_step8_xor)
  moreover have "\<not> bit (c AND NOT 0xff) n" if "n < 8" for n
    using that by (simp add: bit_simps ff_mask)
  then have "crc_step8 (c AND NOT 0xff) = drop_bit 8 (c AND NOT 0xff)" by (rule crc_step8_shift)
  moreover have "drop_bit 8 (c AND NOT 0xff) = drop_bit 8 c"
    by (rule bit_word_eqI) (auto simp: bit_simps ff_mask dest: bit_imp_le_length)
  ultimately show ?thesis by simp
qed

lemma crc_byte_bitwise: "crc_byte b c = crc_step8 (c XOR ucast b)"
proof -
  let ?x = "c XOR ucast b" and ?i = "unat ((c XOR ucast b) AND 0xff)"
  have "?i < 256"
  proof -
    have "?i \<le> unat (0xff :: u32)" by (rule word_le_nat_alt [THEN iffD1, OF word_and_le1])
    then show ?thesis by simp
  qed
  then have "CRC_TABLE ! ?i = crc_step8 (?x AND 0xff)" by (simp add: crc_table_correct)
  moreover have "drop_bit 8 ?x = drop_bit 8 c"
    by (rule bit_word_eqI) (auto simp: bit_simps dest: bit_imp_le_length)
  ultimately show ?thesis
    using crc_step8_split [of ?x] by (simp add: crc_byte_def Let_def CRC_MASK_eq)
qed

text \<open>The bitwise checksum: eight division steps per byte.\<close>

definition crc_ref :: "bytes \<Rightarrow> u32" where
  "crc_ref data = NOT (fold (\<lambda>b c. crc_step8 (c XOR ucast b)) data (NOT 0))"

text \<open>C35. The table-driven checksum of the source is bitwise CRC-32C: every entry of the 256-word
  table is eight polynomial division steps, and the loop composes them, on every byte string.\<close>

theorem crc_correct: "crc data = crc_ref data"
proof -
  have "crc_byte = (\<lambda>b c. crc_step8 (c XOR ucast b))" by (intro ext) (rule crc_byte_bitwise)
  then show ?thesis
    by (simp add: crc_def crc_finalize_def crc_update_def crc_ref_def CRC_INIT_def CRC_MASK_eq)
qed

section \<open>Error detection\<close>

lemma no_bit_32: "\<not> bit (c :: u32) 32"
  by (auto dest: bit_imp_le_length)

lemma xor_cancel_right:
  assumes "(a :: u32) XOR c = b XOR c"
  shows "a = b"
proof -
  have "a = (a XOR c) XOR c" by (simp add: xor.assoc)
  also have "\<dots> = b" unfolding assms by (simp add: xor.assoc)
  finally show ?thesis .
qed

lemma ucast_byte_inj:
  assumes "(ucast (a :: byte) :: u32) = ucast b"
  shows "a = b"
proof (rule bit_word_eqI)
  fix n assume "n < LENGTH(8)"
  moreover have "bit (ucast a :: u32) n = bit (ucast b :: u32) n" by (simp add: assms)
  ultimately show "bit a n = bit b n" by (simp add: bit_ucast_iff)
qed

lemma crc_step_top: "bit (crc_step c) 31 = bit c 0"
  by (simp add: crc_step_def bit_simps no_bit_32)

lemma inj_crc_step: "inj crc_step"
proof (rule injI)
  fix c d assume eq: "crc_step c = crc_step d"
  then have low: "bit c 0 = bit d 0" by (metis crc_step_top)
  with eq have "drop_bit 1 c = drop_bit 1 d" by (auto simp: crc_step_def dest: xor_cancel_right split: if_splits)
  then have "bit c (Suc n) = bit d (Suc n)" for n by (metis bit_drop_bit_eq comp_apply plus_1_eq_Suc)
  with low show "c = d" by (intro bit_word_eqI) (metis not0_implies_Suc)
qed

lemma inj_crc_step8: "inj crc_step8"
  using inj_crc_step by (auto simp: inj_def crc_step8_def)

lemma fold_crc_inj:
  "fold (\<lambda>b c. crc_step8 (c XOR ucast b)) data c = fold (\<lambda>b c. crc_step8 (c XOR ucast b)) data d \<Longrightarrow> c = d"
proof (induction data arbitrary: c d)
  case (Cons b data)
  then have "crc_step8 (c XOR ucast b) = crc_step8 (d XOR ucast b)" by simp
  then have "c XOR ucast b = d XOR ucast b" using inj_crc_step8 by (simp add: inj_def)
  then show ?case by (rule xor_cancel_right)
qed simp

text \<open>The checksum detects every corruption of a single byte: two byte strings that differ in
  exactly one byte have different checksums.\<close>

theorem crc_detects_byte_change:
  assumes "a \<noteq> b"
  shows "crc (xs @ a # ys) \<noteq> crc (xs @ b # ys)"
proof
  let ?f = "\<lambda>b c. crc_step8 (c XOR ucast (b :: byte))"
  let ?c = "fold ?f xs (NOT 0)"
  assume "crc (xs @ a # ys) = crc (xs @ b # ys)"
  then have "fold ?f ys (?f a ?c) = fold ?f ys (?f b ?c)" by (simp add: crc_correct crc_ref_def)
  then have "?f a ?c = ?f b ?c" by (rule fold_crc_inj)
  then have "ucast a XOR ?c = ucast b XOR ?c" using inj_crc_step8 by (simp add: inj_def xor.commute)
  then have "a = b" by (intro ucast_byte_inj) (rule xor_cancel_right)
  with assms show False by simp
qed

theorem crc_detects_byte_change_witness: "crc ([1, 2] @ 3 # [4]) \<noteq> crc ([1, 2] @ 7 # [4])"
  by (rule crc_detects_byte_change) simp

end
