(* ===== verification/Struct_Pack.thy ===== *)
theory Struct_Pack
  imports Prelude
begin

text \<open>
  What the source uses of Python's \<open>struct\<close> module and of byte streams: big-endian fixed-width
  integers, packed with a range check (\<open>struct.error\<close>) and unpacked from exactly their width,
  and \<open>read(n)\<close>, which returns at most \<open>n\<close> bytes.  Also UTF-8, for \<open>str.encode\<close> and
  \<open>bytes.decode\<close>; a Python string is the list of its code points.
\<close>

section \<open>Big-endian integers\<close>

primrec be_bytes :: "nat \<Rightarrow> int \<Rightarrow> bytes" where
  "be_bytes 0 v = []"
| "be_bytes (Suc n) v = be_bytes n (v div 256) @ [byte_of (v mod 256)]"

definition be_uint :: "bytes \<Rightarrow> int" where
  "be_uint bs = foldl (\<lambda>a b. a * 256 + uint b) 0 bs"

definition to_signed :: "nat \<Rightarrow> int \<Rightarrow> int" where
  "to_signed n u = (if u < 256 ^ n div 2 then u else u - 256 ^ n)"

lemma length_be_bytes [simp]: "length (be_bytes n v) = n"
  by (induction n arbitrary: v) simp_all

lemma be_uint_snoc [simp]: "be_uint (bs @ [b]) = be_uint bs * 256 + uint b"
  by (simp add: be_uint_def)

lemma be_uint_Nil [simp]: "be_uint [] = 0"
  by (simp add: be_uint_def)

lemma be_uint_be_bytes [simp]: "be_uint (be_bytes n v) = v mod 256 ^ n"
proof (induction n arbitrary: v)
  case (Suc n)
  then show ?case
    using mod_mult2_eq' [of v 256 "256 ^ n"] zmod_zmult2_eq [of "256 ^ n" v 256]
    by (simp add: mult.commute)
qed simp

lemma be_uint_range: "0 \<le> be_uint bs \<and> be_uint bs < 256 ^ length bs"
proof (induction bs rule: rev_induct)
  case (snoc b bs)
  then have "256 * (be_uint bs + 1) \<le> 256 * 256 ^ length bs" by simp
  then have "be_uint bs * 256 + uint b < 256 * 256 ^ length bs"
    using uint_byte_bounds [of b] by (simp only: distrib_left)
  with snoc show ?case by simp
qed simp

lemma to_signed_mod:
  assumes "0 < n" "- (256 ^ n div 2) \<le> v" "v < 256 ^ n div 2"
  shows "to_signed n (v mod 256 ^ n) = v"
proof -
  have ev: "(256 :: int) ^ n div 2 * 2 = 256 ^ n" using assms(1) by (cases n) simp_all
  show ?thesis
  proof (cases "0 \<le> v")
    case True
    then have "v mod 256 ^ n = v" using assms(3) ev by (intro mod_pos_pos_trivial) linarith+
    with True assms show ?thesis by (simp add: to_signed_def)
  next
    case False
    then have "v mod 256 ^ n = v + 256 ^ n"
      using assms(2) ev by (intro int_mod_pos_eq [of _ _ "-1"]) (simp, linarith+)
    with False assms ev show ?thesis unfolding to_signed_def by (simp split: if_split)
  qed
qed

section \<open>struct.pack and struct.unpack\<close>

definition pack_int :: "nat \<Rightarrow> int \<Rightarrow> bytes res" where
  "pack_int n v =
     (if - (256 ^ n div 2) \<le> v \<and> v < 256 ^ n div 2 then Inr (be_bytes n v) else Inl struct_error)"

definition pack_uint :: "nat \<Rightarrow> int \<Rightarrow> bytes res" where
  "pack_uint n v = (if 0 \<le> v \<and> v < 256 ^ n then Inr (be_bytes n v) else Inl struct_error)"

definition unpack_int :: "nat \<Rightarrow> bytes \<Rightarrow> int res" where
  "unpack_int n bs = (if length bs = n then Inr (to_signed n (be_uint bs)) else Inl struct_error)"

definition unpack_uint :: "nat \<Rightarrow> bytes \<Rightarrow> int res" where
  "unpack_uint n bs = (if length bs = n then Inr (be_uint bs) else Inl struct_error)"

definition read_bytes :: "nat \<Rightarrow> bytes \<Rightarrow> bytes \<times> bytes" where
  "read_bytes n data = (take n data, drop n data)"

lemma unpack_pack_int: "0 < n \<Longrightarrow> pack_int n v = Inr bs \<Longrightarrow> unpack_int n bs = Inr v"
  by (auto simp: pack_int_def unpack_int_def to_signed_mod split: if_splits)

lemma unpack_pack_uint: "pack_uint n v = Inr bs \<Longrightarrow> unpack_uint n bs = Inr v"
  by (auto simp: pack_uint_def unpack_uint_def split: if_splits)

lemma length_pack_int: "pack_int n v = Inr bs \<Longrightarrow> length bs = n"
  by (auto simp: pack_int_def split: if_splits)

lemma length_pack_uint: "pack_uint n v = Inr bs \<Longrightarrow> length bs = n"
  by (auto simp: pack_uint_def split: if_splits)

lemma read_bytes_append [simp]: "length xs = n \<Longrightarrow> read_bytes n (xs @ ys) = (xs, ys)"
  by (simp add: read_bytes_def)

section \<open>UTF-8\<close>

type_synonym pystr = "int list"

definition UnicodeDecodeError :: exn_class where
  "UnicodeDecodeError = py_subclass ''UnicodeDecodeError'' (py_subclass ''UnicodeError'' ValueError)"

definition UnicodeEncodeError :: exn_class where
  "UnicodeEncodeError = py_subclass ''UnicodeEncodeError'' (py_subclass ''UnicodeError'' ValueError)"

definition surrogate :: "int \<Rightarrow> bool" where
  "surrogate c \<longleftrightarrow> 0xD800 \<le> c \<and> c \<le> 0xDFFF"

definition is_code_point :: "int \<Rightarrow> bool" where
  "is_code_point c \<longleftrightarrow> 0 \<le> c \<and> c < 0x110000 \<and> \<not> surrogate c"

definition utf8_char :: "int \<Rightarrow> bytes" where
  "utf8_char c =
     (if c < 0x80 then [byte_of c]
      else if c < 0x800 then [byte_of (0xC0 + c div 64), byte_of (0x80 + c mod 64)]
      else if c < 0x10000 then
        [byte_of (0xE0 + c div 4096), byte_of (0x80 + c div 64 mod 64), byte_of (0x80 + c mod 64)]
      else [byte_of (0xF0 + c div 262144), byte_of (0x80 + c div 4096 mod 64),
            byte_of (0x80 + c div 64 mod 64), byte_of (0x80 + c mod 64)])"

definition utf8_encode :: "pystr \<Rightarrow> bytes res" where
  "utf8_encode s = (if list_all is_code_point s then Inr (concat (map utf8_char s))
                    else Inl UnicodeEncodeError)"

definition cont :: "byte \<Rightarrow> bool" where
  "cont b \<longleftrightarrow> 0x80 \<le> uint b \<and> uint b < 0xC0"

text \<open>One character off the front: continuation bytes are required, and overlong forms,
  surrogates and values past U+10FFFF are refused.\<close>

definition utf8_next :: "bytes \<Rightarrow> (int \<times> bytes) option" where
  "utf8_next bs =
     (case bs of
        [] \<Rightarrow> None
      | b0 # r0 \<Rightarrow>
          if uint b0 < 0x80 then Some (uint b0, r0)
          else (case r0 of
             [] \<Rightarrow> None
           | b1 # r1 \<Rightarrow>
               if \<not> cont b1 then None
               else if 0xC0 \<le> uint b0 \<and> uint b0 < 0xE0 then
                 let c = (uint b0 - 0xC0) * 64 + (uint b1 - 0x80)
                 in if 0x80 \<le> c then Some (c, r1) else None
               else (case r1 of
                  [] \<Rightarrow> None
                | b2 # r2 \<Rightarrow>
                    if \<not> cont b2 then None
                    else if 0xE0 \<le> uint b0 \<and> uint b0 < 0xF0 then
                      let c = (uint b0 - 0xE0) * 4096 + (uint b1 - 0x80) * 64 + (uint b2 - 0x80)
                      in if 0x800 \<le> c \<and> \<not> surrogate c then Some (c, r2) else None
                    else (case r2 of
                       [] \<Rightarrow> None
                     | b3 # r3 \<Rightarrow>
                         if \<not> cont b3 \<or> uint b0 < 0xF0 then None
                         else let c = (uint b0 - 0xF0) * 262144 + (uint b1 - 0x80) * 4096 +
                                      (uint b2 - 0x80) * 64 + (uint b3 - 0x80)
                              in if 0x10000 \<le> c \<and> c < 0x110000 then Some (c, r3) else None))))"

lemma utf8_next_shorter: "utf8_next bs = Some (c, r) \<Longrightarrow> length r < length bs"
  by (auto simp: utf8_next_def Let_def split: list.splits if_splits)

function utf8_decode :: "bytes \<Rightarrow> pystr res" where
  "utf8_decode bs =
     (if bs = [] then Inr []
      else case utf8_next bs of
             None \<Rightarrow> Inl UnicodeDecodeError
           | Some (c, r) \<Rightarrow> res_map (\<lambda>s. c # s) (utf8_decode r))"
  by pat_completeness auto
termination
  by (relation "measure length") (auto dest: utf8_next_shorter)

declare utf8_decode.simps [simp del]

lemma base64_digits:
  fixes c :: int
  shows "c = c div 64 * 64 + c mod 64" "c div 64 = c div 4096 * 64 + c div 64 mod 64"
    "c div 4096 = c div 262144 * 64 + c div 4096 mod 64"
  using div_mult_mod_eq [of c 64] div_mult_mod_eq [of "c div 64" 64] div_mult_mod_eq [of "c div 4096" 64]
    zdiv_zmult2_eq [of 64 c 64] zdiv_zmult2_eq [of 64 c 4096] by simp_all

lemma base64_sum:
  fixes c :: int
  assumes "c = q1 * 64 + d0" "q1 = q2 * 64 + d1"
  shows "q2 * 4096 + d1 * 64 + d0 = c" "q2 = q3 * 64 + d2 \<Longrightarrow> q3 * 262144 + d2 * 4096 + d1 * 64 + d0 = c"
  using assms by simp_all

lemma utf8_next_4:
  assumes "0 \<le> a" "a < 5" "0 \<le> b" "b < 64" "0 \<le> c" "c < 64" "0 \<le> d" "d < 64"
    "a * 262144 + b * 4096 + c * 64 + d = x" "0x10000 \<le> x" "x < 0x110000"
  shows "utf8_next (byte_of (0xF0 + a) # byte_of (0x80 + b) # byte_of (0x80 + c) # byte_of (0x80 + d) # r) =
    Some (x, r)"
  using assms by (simp add: utf8_next_def cont_def)

lemma utf8_next_char:
  assumes "is_code_point c"
  shows "utf8_next (utf8_char c @ r) = Some (c, r)"
proof -
  from assms have "0 \<le> c" "c < 0x110000" "\<not> surrogate c" by (auto simp: is_code_point_def)
  consider "c < 0x80" | "0x80 \<le> c" "c < 0x800" | "0x800 \<le> c" "c < 0x10000" | "0x10000 \<le> c"
    by linarith
  then show ?thesis
  proof cases
    case 1
    then show ?thesis using \<open>0 \<le> c\<close> by (simp add: utf8_char_def utf8_next_def)
  next
    case 2
    then have "0 \<le> c div 64" "c div 64 < 32" by (simp_all add: div_less_iff_less_mult)
    with 2 show ?thesis by (simp add: utf8_char_def utf8_next_def cont_def)
  next
    case 3
    then have "0 \<le> c div 4096" "c div 4096 < 16" by (simp_all add: div_less_iff_less_mult)
    moreover have "c div 4096 * 4096 + c div 64 mod 64 * 64 + c mod 64 = c"
      by (rule base64_sum(1) [OF base64_digits(1,2)])
    ultimately show ?thesis
      using 3 \<open>\<not> surrogate c\<close> by (simp add: utf8_char_def utf8_next_def cont_def)
  next
    case 4
    with \<open>c < 0x110000\<close> have "0 \<le> c div 262144" "c div 262144 < 5"
      by (simp_all add: div_less_iff_less_mult)
    then have "utf8_next (byte_of (0xF0 + c div 262144) # byte_of (0x80 + c div 4096 mod 64) #
        byte_of (0x80 + c div 64 mod 64) # byte_of (0x80 + c mod 64) # r) = Some (c, r)"
      using 4 \<open>c < 0x110000\<close> base64_sum(2) [OF base64_digits] by (intro utf8_next_4) simp_all
    with 4 show ?thesis by (simp add: utf8_char_def)
  qed
qed

lemma utf8_roundtrip: "utf8_encode s = Inr bs \<Longrightarrow> utf8_decode bs = Inr s"
proof (induction s arbitrary: bs)
  case Nil
  then show ?case by (simp add: utf8_encode_def utf8_decode.simps)
next
  case (Cons c s)
  then have c: "is_code_point c" and s: "utf8_encode s = Inr (concat (map utf8_char s))"
    and bs: "bs = utf8_char c @ concat (map utf8_char s)"
    by (auto simp: utf8_encode_def split: if_splits)
  have "bs \<noteq> []" using bs by (simp add: utf8_char_def)
  then show ?case
    using Cons.IH [OF s] utf8_next_char [OF c] bs by (subst utf8_decode.simps) simp
qed

lemma utf8_decode_error: "utf8_decode bs = Inl e \<Longrightarrow> e = UnicodeDecodeError"
proof (induction bs rule: utf8_decode.induct)
  case (1 bs)
  then show ?case
    by (subst (asm) utf8_decode.simps) (auto split: if_splits option.splits sum.splits simp: res_map_def)
qed

end
