(* ===== verification/Wire_Types.thy ===== *)
theory Wire_Types
  imports Struct_Pack
begin

text \<open>
  \<^verbatim>\<open>kafka/protocol/types.py\<close>: the encoders and decoders of the protocol's field types.  A type
  object is a value of \<open>wire_type\<close>, a Python value one of \<open>pyval\<close>; each class's \<open>encode\<close> and
  \<open>decode\<close> is one definition, and \<open>encode\<close>/\<open>decode\<close> dispatch on the type object as the
  method call does.  A decoder takes the rest of the stream and returns the rest after it.
  The locale \<open>codec\<close> is the contract between a type and the messages built from it; every type
  is shown to satisfy it on the values \<open>fits\<close> describes.
\<close>

section \<open>Values and types\<close>

datatype pyval =
    VNone
  | VInt int
  | VFloat "64 word"
  | VStr pystr
  | VBytes bytes
  | VBool bool
  | VTuple "pyval list"
  | VList "pyval list"
  | VDict "(int \<times> bytes) list"

datatype wire_type =
    Int8 | Int16 | Int32 | Int64 | Float64 | String | Bytes | Boolean
  | Schema "string list" "wire_type list"
  | Array wire_type
  | UnsignedVarInt32 | VarInt32 | VarInt64
  | CompactString | TaggedFields | CompactBytes
  | CompactArray wire_type

section \<open>Fixed-width types\<close>

text \<open>\<open>_pack\<close> and \<open>_unpack\<close> turn \<open>struct.error\<close> into ValueError.\<close>

definition py_pack :: "('a \<Rightarrow> bytes res) \<Rightarrow> 'a \<Rightarrow> bytes res" where
  "py_pack f v = (case f v of Inl e \<Rightarrow> if issubclass e struct_error then Inl ValueError else Inl e
                            | Inr bs \<Rightarrow> Inr bs)"

definition py_unpack :: "(bytes \<Rightarrow> 'a res) \<Rightarrow> bytes \<Rightarrow> 'a res" where
  "py_unpack f data = (case f data of Inl e \<Rightarrow> if issubclass e struct_error then Inl ValueError else Inl e
                                    | Inr v \<Rightarrow> Inr v)"

text \<open>\<open>struct.pack\<close> with an integer format: booleans are integers, anything else is refused.\<close>

definition pack_int_value :: "nat \<Rightarrow> pyval \<Rightarrow> bytes res" where
  "pack_int_value n v =
     (case v of VInt i \<Rightarrow> pack_int n i | VBool b \<Rightarrow> pack_int n (if b then 1 else 0)
      | _ \<Rightarrow> Inl struct_error)"

definition Int8_encode :: "pyval \<Rightarrow> bytes res" where
  "Int8_encode = py_pack (pack_int_value 1)"

definition Int8_decode :: "bytes \<Rightarrow> (int \<times> bytes) res" where
  "Int8_decode data = (case read_bytes 1 data of (d, r) \<Rightarrow> res_map (\<lambda>v. (v, r)) (py_unpack (unpack_int 1) d))"

definition Int16_encode :: "pyval \<Rightarrow> bytes res" where
  "Int16_encode = py_pack (pack_int_value 2)"

definition Int16_decode :: "bytes \<Rightarrow> (int \<times> bytes) res" where
  "Int16_decode data = (case read_bytes 2 data of (d, r) \<Rightarrow> res_map (\<lambda>v. (v, r)) (py_unpack (unpack_int 2) d))"

definition Int32_encode :: "pyval \<Rightarrow> bytes res" where
  "Int32_encode = py_pack (pack_int_value 4)"

definition Int32_decode :: "bytes \<Rightarrow> (int \<times> bytes) res" where
  "Int32_decode data = (case read_bytes 4 data of (d, r) \<Rightarrow> res_map (\<lambda>v. (v, r)) (py_unpack (unpack_int 4) d))"

definition Int64_encode :: "pyval \<Rightarrow> bytes res" where
  "Int64_encode = py_pack (pack_int_value 8)"

definition Int64_decode :: "bytes \<Rightarrow> (int \<times> bytes) res" where
  "Int64_decode data = (case read_bytes 8 data of (d, r) \<Rightarrow> res_map (\<lambda>v. (v, r)) (py_unpack (unpack_int 8) d))"

text \<open>A Python float is its IEEE bit pattern; the format \<open>>d\<close> writes it big-endian.\<close>

definition Float64_encode :: "pyval \<Rightarrow> bytes res" where
  "Float64_encode = py_pack (\<lambda>v. case v of VFloat w \<Rightarrow> Inr (be_bytes 8 (uint w)) | _ \<Rightarrow> Inl struct_error)"

definition Float64_decode :: "bytes \<Rightarrow> (64 word \<times> bytes) res" where
  "Float64_decode data =
     (case read_bytes 8 data of (d, r) \<Rightarrow>
        res_map (\<lambda>v. (word_of_int v, r)) (py_unpack (unpack_uint 8) d))"

text \<open>The format \<open>>?\<close> packs the truth value and unpacks any non-zero byte as true.\<close>

definition truth :: "pyval \<Rightarrow> bool" where
  "truth v = (case v of
      VNone \<Rightarrow> False | VInt i \<Rightarrow> i \<noteq> 0 | VFloat w \<Rightarrow> w \<noteq> 0 \<and> w \<noteq> push_bit 63 1 | VStr s \<Rightarrow> s \<noteq> []
    | VBytes b \<Rightarrow> b \<noteq> [] | VBool b \<Rightarrow> b | VTuple vs \<Rightarrow> vs \<noteq> [] | VList vs \<Rightarrow> vs \<noteq> [] | VDict d \<Rightarrow> d \<noteq> [])"

definition Boolean_encode :: "pyval \<Rightarrow> bytes res" where
  "Boolean_encode = py_pack (\<lambda>v. Inr [if truth v then 1 else 0])"

definition Boolean_decode :: "bytes \<Rightarrow> (bool \<times> bytes) res" where
  "Boolean_decode data =
     (case read_bytes 1 data of (d, r) \<Rightarrow>
        res_map (\<lambda>v. (v \<noteq> 0, r)) (py_unpack (unpack_uint 1) d))"

section \<open>Strings and bytes\<close>

text \<open>
  \<open>str(value)\<close> of a value that is not a string is not modelled: it is TypeError here.  The stream
  is read past the prefix even when it is short; the length check then raises.
\<close>

definition String_encode :: "pyval \<Rightarrow> bytes res" where
  "String_encode value =
     (case value of
        VNone \<Rightarrow> Int16_encode (VInt (- 1))
      | VStr s \<Rightarrow> res_bind (utf8_encode s) (\<lambda>v.
          res_map (\<lambda>p. p @ v) (Int16_encode (VInt (int (length v)))))
      | _ \<Rightarrow> Inl TypeError)"

definition String_decode :: "bytes \<Rightarrow> (pyval \<times> bytes) res" where
  "String_decode data =
     res_bind (Int16_decode data) (\<lambda>(len, r).
       if len < 0 then Inr (VNone, r)
       else case read_bytes (nat len) r of (v, r') \<Rightarrow>
         if int (length v) \<noteq> len then Inl ValueError
         else res_map (\<lambda>s. (VStr s, r')) (utf8_decode v))"

definition Bytes_encode :: "pyval \<Rightarrow> bytes res" where
  "Bytes_encode value =
     (case value of
        VNone \<Rightarrow> Int32_encode (VInt (- 1))
      | VBytes v \<Rightarrow> res_map (\<lambda>p. p @ v) (Int32_encode (VInt (int (length v))))
      | _ \<Rightarrow> Inl TypeError)"

definition Bytes_decode :: "bytes \<Rightarrow> (pyval \<times> bytes) res" where
  "Bytes_decode data =
     res_bind (Int32_decode data) (\<lambda>(len, r).
       if len < 0 then Inr (VNone, r)
       else case read_bytes (nat len) r of (v, r') \<Rightarrow>
         if int (length v) \<noteq> len then Inl ValueError else Inr (VBytes v, r'))"

section \<open>Schemas and arrays\<close>

text \<open>The fields' and the elements' own methods are arguments.\<close>

definition seq_items :: "pyval \<Rightarrow> pyval list option" where
  "seq_items v = (case v of VTuple vs \<Rightarrow> Some vs | VList vs \<Rightarrow> Some vs | _ \<Rightarrow> None)"

definition Schema_encode :: "(pyval \<Rightarrow> bytes res) list \<Rightarrow> pyval \<Rightarrow> bytes res" where
  "Schema_encode fs item =
     (case seq_items item of
        None \<Rightarrow> Inl TypeError
      | Some vs \<Rightarrow>
          if length vs \<noteq> length fs then Inl ValueError
          else res_map concat (res_list (map2 (\<lambda>f v. f v) fs vs)))"

primrec decode_fields :: "(bytes \<Rightarrow> (pyval \<times> bytes) res) list \<Rightarrow> bytes \<Rightarrow> (pyval list \<times> bytes) res" where
  "decode_fields [] data = Inr ([], data)"
| "decode_fields (f # fs) data =
     res_bind (f data) (\<lambda>(v, r). res_map (\<lambda>(vs, r'). (v # vs, r')) (decode_fields fs r))"

definition Schema_decode :: "(bytes \<Rightarrow> (pyval \<times> bytes) res) list \<Rightarrow> bytes \<Rightarrow> (pyval \<times> bytes) res" where
  "Schema_decode fs data = res_map (\<lambda>(vs, r). (VTuple vs, r)) (decode_fields fs data)"

definition Array_encode :: "(pyval \<Rightarrow> bytes res) \<Rightarrow> pyval \<Rightarrow> bytes res" where
  "Array_encode array_of items =
     (case items of
        VNone \<Rightarrow> Int32_encode (VInt (- 1))
      | _ \<Rightarrow>
          (case seq_items items of
             None \<Rightarrow> Inl TypeError
           | Some vs \<Rightarrow>
               res_bind (res_list (map array_of vs)) (\<lambda>encoded.
                 res_map (\<lambda>n. n @ concat encoded) (Int32_encode (VInt (int (length encoded)))))))"

text \<open>A length below -1 is an empty range, so it decodes as the empty list.\<close>

definition Array_decode :: "(bytes \<Rightarrow> (pyval \<times> bytes) res) \<Rightarrow> bytes \<Rightarrow> (pyval \<times> bytes) res" where
  "Array_decode array_of data =
     res_bind (Int32_decode data) (\<lambda>(len, r).
       if len = - 1 then Inr (VNone, r)
       else res_map (\<lambda>(vs, r'). (VList vs, r')) (decode_fields (replicate (nat len) array_of) r))"

section \<open>Variable-length integers and compact types\<close>

text \<open>A short read makes \<open>struct.unpack\<close> raise \<open>struct.error\<close>, which is not a ValueError.\<close>

function UnsignedVarInt32_decode_loop :: "bytes \<Rightarrow> int \<Rightarrow> nat \<Rightarrow> (int \<times> bytes) res" where
  "UnsignedVarInt32_decode_loop data value i =
     (case data of
        [] \<Rightarrow> Inl struct_error
      | b # r \<Rightarrow>
          if uint b AND 0x80 = 0 then Inr (value OR push_bit i (uint b), r)
          else if i + 7 > 28 then Inl ValueError
          else UnsignedVarInt32_decode_loop r (value OR push_bit i (uint b AND 0x7f)) (i + 7))"
  by pat_completeness auto
termination
  by (relation "measure (\<lambda>(data, value, i). length data)") auto

declare UnsignedVarInt32_decode_loop.simps [simp del]

definition UnsignedVarInt32_decode :: "bytes \<Rightarrow> (int \<times> bytes) res" where
  "UnsignedVarInt32_decode data = UnsignedVarInt32_decode_loop data 0 0"

text \<open>The loop runs on the masked value, which is a natural number below \<open>2 ^ 32\<close>.\<close>

function UnsignedVarInt32_encode_loop :: "nat \<Rightarrow> bytes" where
  "UnsignedVarInt32_encode_loop v =
     (if v AND 0xffffff80 \<noteq> 0
      then byte_of ((int v AND 0x7f) OR 0x80) # UnsignedVarInt32_encode_loop (v div 128)
      else [byte_of (int v)])"
  by pat_completeness auto
termination
  by (relation "measure id") (auto intro!: div_less_dividend gr0I)

declare UnsignedVarInt32_encode_loop.simps [simp del]

definition UnsignedVarInt32_encode :: "int \<Rightarrow> bytes" where
  "UnsignedVarInt32_encode value = UnsignedVarInt32_encode_loop (nat (value AND 0xffffffff))"

definition VarInt32_decode :: "bytes \<Rightarrow> (int \<times> bytes) res" where
  "VarInt32_decode data =
     res_map (\<lambda>(value, r). (drop_bit 1 value XOR - (value AND 1), r)) (UnsignedVarInt32_decode data)"

definition VarInt32_encode :: "int \<Rightarrow> bytes" where
  "VarInt32_encode value0 =
     (let value = value0 AND 0xffffffff
      in UnsignedVarInt32_encode (push_bit 1 value XOR drop_bit 31 value))"

text \<open>
  \<open>VarInt64.decode\<close> applies \<open>&\<close> to the bytes object it reads, a TypeError on every input.  Its
  \<open>encode\<close> emits the low bits of the unshifted value in every round, so the byte written in
  the loop is constant.
\<close>

definition VarInt64_decode :: "bytes \<Rightarrow> (int \<times> bytes) res" where
  "VarInt64_decode data = Inl TypeError"

function VarInt64_encode_loop :: "byte \<Rightarrow> nat \<Rightarrow> bytes res" where
  "VarInt64_encode_loop b v =
     (if v AND 0xffffffffffffff80 \<noteq> 0 then res_map (\<lambda>bs. b # bs) (VarInt64_encode_loop b (v div 128))
      else pack_uint 1 (int v))"
  by pat_completeness auto
termination
  by (relation "measure snd") (auto intro!: div_less_dividend gr0I)

declare VarInt64_encode_loop.simps [simp del]

definition VarInt64_encode :: "int \<Rightarrow> bytes res" where
  "VarInt64_encode value0 =
     (let value = value0 AND 0xffffffffffffffff;
          v = push_bit 1 value XOR drop_bit 63 value
      in VarInt64_encode_loop (byte_of ((value AND 0x7f) OR 0x80)) (nat v))"

definition CompactString_decode :: "bytes \<Rightarrow> (pyval \<times> bytes) res" where
  "CompactString_decode data =
     res_bind (UnsignedVarInt32_decode data) (\<lambda>(n, r).
       let len = n - 1 in
       if len < 0 then Inr (VNone, r)
       else case read_bytes (nat len) r of (v, r') \<Rightarrow>
         if int (length v) \<noteq> len then Inl ValueError
         else res_map (\<lambda>s. (VStr s, r')) (utf8_decode v))"

definition CompactString_encode :: "pyval \<Rightarrow> bytes res" where
  "CompactString_encode value =
     (case value of
        VNone \<Rightarrow> Inr (UnsignedVarInt32_encode 0)
      | VStr s \<Rightarrow> res_map (\<lambda>v. UnsignedVarInt32_encode (int (length v) + 1) @ v) (utf8_encode s)
      | _ \<Rightarrow> Inl TypeError)"

primrec TaggedFields_decode_loop ::
    "nat \<Rightarrow> int \<Rightarrow> (int \<times> bytes) list \<Rightarrow> bytes \<Rightarrow> ((int \<times> bytes) list \<times> bytes) res" where
  "TaggedFields_decode_loop 0 prev_tag ret data = Inr (ret, data)"
| "TaggedFields_decode_loop (Suc n) prev_tag ret data =
     res_bind (UnsignedVarInt32_decode data) (\<lambda>(tag, r).
       if tag \<le> prev_tag then Inl ValueError
       else res_bind (UnsignedVarInt32_decode r) (\<lambda>(sz, r').
         case read_bytes (nat sz) r' of (val, r'') \<Rightarrow>
           TaggedFields_decode_loop n tag (AList.update tag val ret) r''))"

definition TaggedFields_decode :: "bytes \<Rightarrow> (pyval \<times> bytes) res" where
  "TaggedFields_decode data =
     res_bind (UnsignedVarInt32_decode data) (\<lambda>(num_fields, r).
       if num_fields = 0 then Inr (VDict [], r)
       else res_map (\<lambda>(ret, r'). (VDict ret, r')) (TaggedFields_decode_loop (nat num_fields) (- 1) [] r))"

text \<open>The encoder writes tags and values, and no sizes.\<close>

definition TaggedFields_encode :: "pyval \<Rightarrow> bytes res" where
  "TaggedFields_encode value =
     (case value of
        VDict d \<Rightarrow>
          if list_all (\<lambda>(k, v). 0 < k) d
          then Inr (UnsignedVarInt32_encode (int (length d)) @
                    concat (map (\<lambda>(k, v). UnsignedVarInt32_encode k @ v) d))
          else Inl AssertionError
      | _ \<Rightarrow> Inl TypeError)"

definition CompactBytes_decode :: "bytes \<Rightarrow> (pyval \<times> bytes) res" where
  "CompactBytes_decode data =
     res_bind (UnsignedVarInt32_decode data) (\<lambda>(n, r).
       let len = n - 1 in
       if len < 0 then Inr (VNone, r)
       else case read_bytes (nat len) r of (v, r') \<Rightarrow>
         if int (length v) \<noteq> len then Inl ValueError else Inr (VBytes v, r'))"

definition CompactBytes_encode :: "pyval \<Rightarrow> bytes res" where
  "CompactBytes_encode value =
     (case value of
        VNone \<Rightarrow> Inr (UnsignedVarInt32_encode 0)
      | VBytes v \<Rightarrow> Inr (UnsignedVarInt32_encode (int (length v) + 1) @ v)
      | _ \<Rightarrow> Inl TypeError)"

definition CompactArray_encode :: "(pyval \<Rightarrow> bytes res) \<Rightarrow> pyval \<Rightarrow> bytes res" where
  "CompactArray_encode array_of items =
     (case items of
        VNone \<Rightarrow> Inr (UnsignedVarInt32_encode 0)
      | _ \<Rightarrow>
          (case seq_items items of
             None \<Rightarrow> Inl TypeError
           | Some vs \<Rightarrow>
               res_map (\<lambda>encoded. UnsignedVarInt32_encode (int (length vs) + 1) @ concat encoded)
                 (res_list (map array_of vs))))"

definition CompactArray_decode :: "(bytes \<Rightarrow> (pyval \<times> bytes) res) \<Rightarrow> bytes \<Rightarrow> (pyval \<times> bytes) res" where
  "CompactArray_decode array_of data =
     res_bind (UnsignedVarInt32_decode data) (\<lambda>(n, r).
       let len = n - 1 in
       if len = - 1 then Inr (VNone, r)
       else res_map (\<lambda>(vs, r'). (VList vs, r')) (decode_fields (replicate (nat len) array_of) r))"

section \<open>Dispatch\<close>

definition int_arg :: "(int \<Rightarrow> bytes res) \<Rightarrow> pyval \<Rightarrow> bytes res" where
  "int_arg f v = (case v of VInt i \<Rightarrow> f i | VBool b \<Rightarrow> f (if b then 1 else 0) | _ \<Rightarrow> Inl TypeError)"

definition tag_value :: "('a \<Rightarrow> pyval) \<Rightarrow> (bytes \<Rightarrow> ('a \<times> bytes) res) \<Rightarrow> bytes \<Rightarrow> (pyval \<times> bytes) res" where
  "tag_value c f data = res_map (\<lambda>(v, r). (c v, r)) (f data)"

primrec encode :: "wire_type \<Rightarrow> pyval \<Rightarrow> bytes res" where
  "encode Int8 = Int8_encode"
| "encode Int16 = Int16_encode"
| "encode Int32 = Int32_encode"
| "encode Int64 = Int64_encode"
| "encode Float64 = Float64_encode"
| "encode String = String_encode"
| "encode Bytes = Bytes_encode"
| "encode Boolean = Boolean_encode"
| "encode (Schema names ts) = Schema_encode (map encode ts)"
| "encode (Array t) = Array_encode (encode t)"
| "encode UnsignedVarInt32 = int_arg (\<lambda>i. Inr (UnsignedVarInt32_encode i))"
| "encode VarInt32 = int_arg (\<lambda>i. Inr (VarInt32_encode i))"
| "encode VarInt64 = int_arg VarInt64_encode"
| "encode CompactString = CompactString_encode"
| "encode TaggedFields = TaggedFields_encode"
| "encode CompactBytes = CompactBytes_encode"
| "encode (CompactArray t) = CompactArray_encode (encode t)"

primrec decode :: "wire_type \<Rightarrow> bytes \<Rightarrow> (pyval \<times> bytes) res" where
  "decode Int8 = tag_value VInt Int8_decode"
| "decode Int16 = tag_value VInt Int16_decode"
| "decode Int32 = tag_value VInt Int32_decode"
| "decode Int64 = tag_value VInt Int64_decode"
| "decode Float64 = tag_value VFloat Float64_decode"
| "decode String = String_decode"
| "decode Bytes = Bytes_decode"
| "decode Boolean = tag_value VBool Boolean_decode"
| "decode (Schema names ts) = Schema_decode (map decode ts)"
| "decode (Array t) = Array_decode (decode t)"
| "decode UnsignedVarInt32 = tag_value VInt UnsignedVarInt32_decode"
| "decode VarInt32 = tag_value VInt VarInt32_decode"
| "decode VarInt64 = tag_value VInt VarInt64_decode"
| "decode CompactString = CompactString_decode"
| "decode TaggedFields = TaggedFields_decode"
| "decode CompactBytes = CompactBytes_decode"
| "decode (CompactArray t) = CompactArray_decode (decode t)"

text \<open>The values a type can carry: the ones that come back from a decoder as they were.\<close>

definition fits_int :: "int \<Rightarrow> int \<Rightarrow> pyval \<Rightarrow> bool" where
  "fits_int lo hi v = (case v of VInt i \<Rightarrow> lo \<le> i \<and> i < hi | _ \<Rightarrow> False)"

definition fits_str :: "nat \<Rightarrow> pyval \<Rightarrow> bool" where
  "fits_str n v = (case v of VNone \<Rightarrow> True
      | VStr s \<Rightarrow> list_all is_code_point s \<and> length (concat (map utf8_char s)) < n | _ \<Rightarrow> False)"

definition fits_bytes :: "nat \<Rightarrow> pyval \<Rightarrow> bool" where
  "fits_bytes n v = (case v of VNone \<Rightarrow> True | VBytes b \<Rightarrow> length b < n | _ \<Rightarrow> False)"

definition fits_array :: "nat \<Rightarrow> (pyval \<Rightarrow> bool) \<Rightarrow> pyval \<Rightarrow> bool" where
  "fits_array n P v = (case v of VNone \<Rightarrow> True | VList vs \<Rightarrow> length vs < n \<and> list_all P vs | _ \<Rightarrow> False)"

definition fits_schema :: "(pyval \<Rightarrow> bool) list \<Rightarrow> pyval \<Rightarrow> bool" where
  "fits_schema Ps v = (case v of VTuple vs \<Rightarrow> list_all2 (\<lambda>P v. P v) Ps vs | _ \<Rightarrow> False)"

primrec fits :: "wire_type \<Rightarrow> pyval \<Rightarrow> bool" where
  "fits Int8 = fits_int (- (2 ^ 7)) (2 ^ 7)"
| "fits Int16 = fits_int (- (2 ^ 15)) (2 ^ 15)"
| "fits Int32 = fits_int (- (2 ^ 31)) (2 ^ 31)"
| "fits Int64 = fits_int (- (2 ^ 63)) (2 ^ 63)"
| "fits Float64 = (\<lambda>v. case v of VFloat w \<Rightarrow> True | _ \<Rightarrow> False)"
| "fits String = fits_str (2 ^ 15)"
| "fits Bytes = fits_bytes (2 ^ 31)"
| "fits Boolean = (\<lambda>v. case v of VBool b \<Rightarrow> True | _ \<Rightarrow> False)"
| "fits (Schema names ts) = fits_schema (map fits ts)"
| "fits (Array t) = fits_array (2 ^ 31) (fits t)"
| "fits UnsignedVarInt32 = fits_int 0 (2 ^ 32)"
| "fits VarInt32 = fits_int 0 (2 ^ 31)"
| "fits VarInt64 = (\<lambda>v. False)"
| "fits CompactString = fits_str (2 ^ 32 - 1)"
| "fits TaggedFields = (\<lambda>v. v = VDict [])"
| "fits CompactBytes = fits_bytes (2 ^ 32 - 1)"
| "fits (CompactArray t) = fits_array (2 ^ 32 - 1) (fits t)"

end
