(* ===== verification/Wire_Codec.thy ===== *)
theory Wire_Codec
  imports Wire_Types Varint
begin

text \<open>
  The contract of a field type, as the locale \<open>codec\<close>: a value that fits is encoded, and its bytes,
  followed by anything, are decoded to that value and exactly what followed.  The contract is closed
  under arrays and schemas, so it holds for every type of \<^verbatim>\<open>kafka/protocol/types.py\<close> and
  for every message built from them.  The types whose encoder and decoder disagree are shown with
  the values on which they do.
\<close>

section \<open>The contract\<close>

locale codec =
  fixes enc :: "'v \<Rightarrow> bytes res" and dec :: "bytes \<Rightarrow> ('v \<times> bytes) res" and ok :: "'v \<Rightarrow> bool"
  assumes enc_dec: "ok v \<Longrightarrow> \<exists>bs. enc v = Inr bs \<and> (\<forall>rest. dec (bs @ rest) = Inr (v, rest))"
begin

lemma enc_total: "ok v \<Longrightarrow> \<exists>bs. enc v = Inr bs"
  using enc_dec by blast

lemma dec_enc: "ok v \<Longrightarrow> enc v = Inr bs \<Longrightarrow> dec (bs @ rest) = Inr (v, rest)"
  using enc_dec [of v] by auto

lemma dec_enc_exact: "ok v \<Longrightarrow> enc v = Inr bs \<Longrightarrow> dec bs = Inr (v, [])"
  using dec_enc [of v bs "[]"] by simp

lemma enc_inj: "ok v \<Longrightarrow> ok w \<Longrightarrow> enc v = enc w \<Longrightarrow> v = w"
  using enc_total [of v] dec_enc_exact [of v] dec_enc_exact [of w] by auto

lemma prefix_free:
  "ok v \<Longrightarrow> ok w \<Longrightarrow> enc v = Inr bs \<Longrightarrow> enc w = Inr (bs @ rest) \<Longrightarrow> w = v \<and> rest = []"
  using dec_enc [of v bs rest] dec_enc_exact [of w "bs @ rest"] by simp

text \<open>A run of values of one type, written one after the other.\<close>

lemma enc_list:
  "list_all ok vs \<Longrightarrow> \<exists>bss. res_list (map enc vs) = Inr bss \<and> length bss = length vs"
  by (induction vs) (auto dest: enc_total)

end

section \<open>Fixed-width types\<close>

lemma codec_int:
  assumes "0 < n" "hi = 256 ^ n div 2"
    "\<And>v. e v = py_pack (pack_int_value n) v"
    "\<And>data. d data = (case read_bytes n data of (x, r) \<Rightarrow> res_map (\<lambda>v. (v, r)) (py_unpack (unpack_int n) x))"
  shows "codec e (tag_value VInt d) (fits_int (- hi) hi)"
proof
  fix v assume "fits_int (- hi) hi v"
  then obtain i where v: "v = VInt i" "- hi \<le> i" "i < hi"
    by (auto simp: fits_int_def split: pyval.splits)
  then have "pack_int n i = Inr (be_bytes n i)" using assms(2) by (simp add: pack_int_def)
  with v assms show "\<exists>bs. e v = Inr bs \<and> (\<forall>rest. tag_value VInt d (bs @ rest) = Inr (v, rest))"
    by (simp add: py_pack_def pack_int_value_def tag_value_def py_unpack_def unpack_int_def to_signed_mod)
qed

lemma codec_Int8: "codec (encode Int8) (decode Int8) (fits Int8)"
  by (simp, rule codec_int [of 1]) (simp_all add: Int8_encode_def Int8_decode_def)

lemma codec_Int16: "codec (encode Int16) (decode Int16) (fits Int16)"
  by (simp, rule codec_int [of 2]) (simp_all add: Int16_encode_def Int16_decode_def)

lemma codec_Int32: "codec (encode Int32) (decode Int32) (fits Int32)"
  by (simp, rule codec_int [of 4]) (simp_all add: Int32_encode_def Int32_decode_def)

lemma codec_Int64: "codec (encode Int64) (decode Int64) (fits Int64)"
  by (simp, rule codec_int [of 8]) (simp_all add: Int64_encode_def Int64_decode_def)

lemma codec_Float64: "codec (encode Float64) (decode Float64) (fits Float64)"
proof
  fix v assume "fits Float64 v"
  then obtain w where v: "v = VFloat w" by (auto split: pyval.splits)
  have "uint w < 256 ^ 8" using uint_bounded [of w] by simp
  then have "uint w mod 256 ^ 8 = uint w" by simp
  with v show "\<exists>bs. encode Float64 v = Inr bs \<and> (\<forall>rest. decode Float64 (bs @ rest) = Inr (v, rest))"
    by (simp add: Float64_encode_def Float64_decode_def py_pack_def py_unpack_def tag_value_def
        unpack_uint_def del: be_bytes.simps)
qed

lemma codec_Boolean: "codec (encode Boolean) (decode Boolean) (fits Boolean)"
  by standard (auto simp: Boolean_encode_def Boolean_decode_def py_pack_def py_unpack_def tag_value_def
      read_bytes_def unpack_uint_def truth_def be_uint_def split: pyval.splits)

section \<open>Length-prefixed types\<close>

lemma Int16_prefix:
  "- (2 ^ 15) \<le> i \<Longrightarrow> i < 2 ^ 15 \<Longrightarrow>
   \<exists>p. Int16_encode (VInt i) = Inr p \<and> (\<forall>rest. Int16_decode (p @ rest) = Inr (i, rest))"
  using codec.enc_dec [OF codec_Int16, of "VInt i"]
  by (fastforce simp: fits_int_def tag_value_def res_map_eq_Inr)

lemma Int32_prefix:
  "- (2 ^ 31) \<le> i \<Longrightarrow> i < 2 ^ 31 \<Longrightarrow>
   \<exists>p. Int32_encode (VInt i) = Inr p \<and> (\<forall>rest. Int32_decode (p @ rest) = Inr (i, rest))"
  using codec.enc_dec [OF codec_Int32, of "VInt i"]
  by (fastforce simp: fits_int_def tag_value_def res_map_eq_Inr)

lemma codec_String: "codec (encode String) (decode String) (fits String)"
proof
  fix v assume ok: "fits String v"
  show "\<exists>bs. encode String v = Inr bs \<and> (\<forall>rest. decode String (bs @ rest) = Inr (v, rest))"
  proof (cases "v = VNone")
    case True
    with Int16_prefix [of "- 1"] show ?thesis by (auto simp: String_encode_def String_decode_def)
  next
    case False
    with ok obtain s where v: "v = VStr s" and s: "list_all is_code_point s"
      and len: "length (concat (map utf8_char s)) < 2 ^ 15"
      by (auto simp: fits_str_def split: pyval.splits)
    let ?b = "concat (map utf8_char s)"
    have b: "utf8_encode s = Inr ?b" using s by (simp add: utf8_encode_def)
    obtain p where "Int16_encode (VInt (int (length ?b))) = Inr p"
      "\<And>rest. Int16_decode (p @ rest) = Inr (int (length ?b), rest)"
      using Int16_prefix [of "int (length ?b)"] len by auto
    with v b utf8_roundtrip [OF b] show ?thesis by (simp add: String_encode_def String_decode_def)
  qed
qed

lemma codec_Bytes: "codec (encode Bytes) (decode Bytes) (fits Bytes)"
proof
  fix v assume ok: "fits Bytes v"
  show "\<exists>bs. encode Bytes v = Inr bs \<and> (\<forall>rest. decode Bytes (bs @ rest) = Inr (v, rest))"
  proof (cases "v = VNone")
    case True
    with Int32_prefix [of "- 1"] show ?thesis by (auto simp: Bytes_encode_def Bytes_decode_def)
  next
    case False
    with ok obtain b where v: "v = VBytes b" and len: "length b < 2 ^ 31"
      by (auto simp: fits_bytes_def split: pyval.splits)
    obtain p where "Int32_encode (VInt (int (length b))) = Inr p"
      "\<And>rest. Int32_decode (p @ rest) = Inr (int (length b), rest)"
      using Int32_prefix [of "int (length b)"] len by auto
    with v show ?thesis by (simp add: Bytes_encode_def Bytes_decode_def)
  qed
qed

section \<open>Unsigned variable-length integers\<close>

lemma and_hi_bits: "v < 2 ^ 32 \<Longrightarrow> ((v :: nat) AND 0xffffff80 = 0) = (v < 128)"
proof -
  assume v: "v < 2 ^ 32"
  have m: "(0xffffff80 :: nat) = push_bit 7 (mask 25)" by (simp add: push_bit_eq_mult mask_eq_exp_minus_1)
  have "v AND push_bit 7 (mask 25) = push_bit 7 (drop_bit 7 v AND mask 25)"
    by (rule bit_eqI) (auto simp: bit_simps)
  also have "drop_bit 7 v AND mask 25 = drop_bit 7 v"
    using v by (simp add: drop_bit_eq_div take_bit_nat_eq_self_iff flip: take_bit_eq_mask)
  finally show ?thesis by (simp add: m drop_bit_eq_div push_bit_eq_mult div_eq_0_iff)
qed

lemma UnsignedVarInt32_encode_loop_leb128:
  "v < 2 ^ 32 \<Longrightarrow> UnsignedVarInt32_encode_loop v = map byte_of (leb128 (int v))"
proof (induction v rule: UnsignedVarInt32_encode_loop.induct)
  case (1 v)
  show ?case
  proof (cases "v < 128")
    case True
    with 1 show ?thesis by (subst UnsignedVarInt32_encode_loop.simps) (simp add: and_hi_bits leb128_small)
  next
    case False
    moreover have "UnsignedVarInt32_encode_loop (v div 128) = map byte_of (leb128 (int v div 128))"
      using 1 False and_hi_bits [of v] by (simp add: zdiv_int)
    ultimately show ?thesis
      using "1.prems" or_128 [of "int v"]
      by (subst UnsignedVarInt32_encode_loop.simps) (simp add: and_hi_bits leb128_big bit_arith or.commute)
  qed
qed

lemma UnsignedVarInt32_decode_loop_leb128:
  assumes "0 \<le> z" "z < 2 ^ (35 - i)" "i \<le> 28" "7 dvd i" "0 \<le> r" "r < 2 ^ i"
  shows "UnsignedVarInt32_decode_loop (map byte_of (leb128 z) @ rest) r i = Inr (r + z * 2 ^ i, rest)"
  using assms
proof (induction z arbitrary: i r rule: leb128.induct)
  case (1 z)
  show ?case
  proof (cases "z < 128")
    case True
    with "1.prems" or_shifted [of r i z] show ?thesis
      by (subst UnsignedVarInt32_decode_loop.simps) (simp add: leb128_small and_128 push_bit_mult)
  next
    case False
    let ?b = "z mod 128 + 128" and ?z = "z div 128" and ?r = "r + z mod 128 * 2 ^ i"
    have "(2 :: int) ^ 7 < 2 ^ (35 - i)" using False "1.prems"(2) by simp
    then have "i < 28" by (simp only: power_strict_increasing_iff)
    with \<open>7 dvd i\<close> have i7: "i + 7 \<le> 28" by presburger
    then have "35 - i = 7 + (35 - (i + 7))" by simp
    then have "(2 :: int) ^ (35 - i) = 128 * 2 ^ (35 - (i + 7))" by (metis pow_128)
    then have z2: "?z < 2 ^ (35 - (i + 7))"
      using "1.prems"(2) by (simp add: div_less_iff_less_mult mult.commute)
    have r2: "0 \<le> ?r" "?r < 2 ^ (i + 7)" by (rule shifted_digit_bounds [OF "1.prems"(5,6)])+
    have or: "r OR push_bit i (?b AND 127) = ?r"
      using or_shifted [OF "1.prems"(5,6), of "z mod 128"] by (simp add: bit_arith)
    have total: "?r + ?z * 2 ^ (i + 7) = r + z * 2 ^ i" by (rule shifted_digit_sum)
    have "UnsignedVarInt32_decode_loop (map byte_of (leb128 ?z) @ rest) ?r (i + 7) =
          Inr (?r + ?z * 2 ^ (i + 7), rest)"
      using "1.IH" [of "i + 7" ?r] False z2 r2 i7 "1.prems"(1,4) by (simp add: pos_imp_zdiv_nonneg_iff)
    moreover have "\<not> z mod 128 < 0" "leb128 z = ?b # leb128 ?z"
      using False by (simp_all add: leb128_big)
    ultimately show ?thesis
      using i7 or total by (subst UnsignedVarInt32_decode_loop.simps) (simp add: and_128)
  qed
qed

lemma UnsignedVarInt32_roundtrip:
  assumes "0 \<le> i" "i < 2 ^ 32"
  shows "UnsignedVarInt32_decode (UnsignedVarInt32_encode i @ rest) = Inr (i, rest)"
proof -
  have "UnsignedVarInt32_encode i = map byte_of (leb128 i)"
    using assms UnsignedVarInt32_encode_loop_leb128 [of "nat i"]
    by (simp add: UnsignedVarInt32_encode_def and_mask32)
  then show ?thesis
    using UnsignedVarInt32_decode_loop_leb128 [of i 0 0] assms by (simp add: UnsignedVarInt32_decode_def)
qed

lemma UnsignedVarInt32_encode_small: "0 \<le> i \<Longrightarrow> i < 128 \<Longrightarrow> UnsignedVarInt32_encode i = [byte_of i]"
  using UnsignedVarInt32_encode_loop_leb128 [of "nat i"]
  by (simp add: UnsignedVarInt32_encode_def and_mask32 leb128_small)

lemma UnsignedVarInt32_decode_small: "uint b < 128 \<Longrightarrow> UnsignedVarInt32_decode (b # r) = Inr (uint b, r)"
  by (simp add: UnsignedVarInt32_decode_def UnsignedVarInt32_decode_loop.simps and_128)

lemma codec_UnsignedVarInt32: "codec (encode UnsignedVarInt32) (decode UnsignedVarInt32) (fits UnsignedVarInt32)"
  by standard (auto simp: fits_int_def int_arg_def tag_value_def UnsignedVarInt32_roundtrip split: pyval.splits)

lemma codec_VarInt32: "codec (encode VarInt32) (decode VarInt32) (fits VarInt32)"
proof
  fix v assume "fits VarInt32 v"
  then obtain i where v: "v = VInt i" "0 \<le> i" "i < 2 ^ 31" by (auto simp: fits_int_def split: pyval.splits)
  have "VarInt32_encode i = UnsignedVarInt32_encode (2 * i)"
    using v by (simp add: VarInt32_encode_def and_mask32 drop_bit_div push_bit_mult mult.commute)
  then show "\<exists>bs. encode VarInt32 v = Inr bs \<and> (\<forall>rest. decode VarInt32 (bs @ rest) = Inr (v, rest))"
    using v UnsignedVarInt32_roundtrip [of "2 * i"]
    by (simp add: int_arg_def tag_value_def VarInt32_decode_def drop_bit_div and_one_eq)
qed

lemma codec_CompactString: "codec (encode CompactString) (decode CompactString) (fits CompactString)"
proof
  fix v assume ok: "fits CompactString v"
  show "\<exists>bs. encode CompactString v = Inr bs \<and> (\<forall>rest. decode CompactString (bs @ rest) = Inr (v, rest))"
  proof (cases "v = VNone")
    case True
    with UnsignedVarInt32_roundtrip [of 0] show ?thesis
      by (simp add: CompactString_encode_def CompactString_decode_def)
  next
    case False
    with ok obtain s where v: "v = VStr s" and s: "list_all is_code_point s"
      and len: "length (concat (map utf8_char s)) < 2 ^ 32 - 1"
      by (auto simp: fits_str_def split: pyval.splits)
    let ?b = "concat (map utf8_char s)"
    have b: "utf8_encode s = Inr ?b" using s by (simp add: utf8_encode_def)
    show ?thesis
      using v b len utf8_roundtrip [OF b] UnsignedVarInt32_roundtrip [of "int (length ?b) + 1"]
      by (simp add: CompactString_encode_def CompactString_decode_def)
  qed
qed

lemma codec_CompactBytes: "codec (encode CompactBytes) (decode CompactBytes) (fits CompactBytes)"
proof
  fix v assume ok: "fits CompactBytes v"
  show "\<exists>bs. encode CompactBytes v = Inr bs \<and> (\<forall>rest. decode CompactBytes (bs @ rest) = Inr (v, rest))"
  proof (cases "v = VNone")
    case True
    with UnsignedVarInt32_roundtrip [of 0] show ?thesis
      by (simp add: CompactBytes_encode_def CompactBytes_decode_def)
  next
    case False
    with ok obtain b where "v = VBytes b" "length b < 2 ^ 32 - 1"
      by (auto simp: fits_bytes_def split: pyval.splits)
    with UnsignedVarInt32_roundtrip [of "int (length b) + 1"] show ?thesis
      by (simp add: CompactBytes_encode_def CompactBytes_decode_def)
  qed
qed

lemma codec_TaggedFields: "codec (encode TaggedFields) (decode TaggedFields) (fits TaggedFields)"
  by standard (simp add: TaggedFields_encode_def TaggedFields_decode_def UnsignedVarInt32_roundtrip)

section \<open>Schemas and arrays\<close>

text \<open>Fields with their own encoder, decoder and domain, written one after the other.\<close>

lemma fields_enc_dec:
  assumes "\<And>t. t \<in> set ts \<Longrightarrow> codec (encode t) (decode t) (fits t)"
    "list_all2 (\<lambda>P v. P v) (map fits ts) vs"
  shows "\<exists>bss. res_list (map2 (\<lambda>f v. f v) (map encode ts) vs) = Inr bss \<and> length bss = length vs \<and>
          (\<forall>rest. decode_fields (map decode ts) (concat bss @ rest) = Inr (vs, rest))"
  using assms
proof (induction ts arbitrary: vs)
  case (Cons t ts)
  then obtain v ws where vs: "vs = v # ws" "fits t v" "list_all2 (\<lambda>P v. P v) (map fits ts) ws"
    by (cases vs) auto
  obtain bs where bs: "encode t v = Inr bs" "\<And>rest. decode t (bs @ rest) = Inr (v, rest)"
    using codec.enc_dec [OF Cons.prems(1) vs(2)] by auto
  obtain bss where "res_list (map2 (\<lambda>f v. f v) (map encode ts) ws) = Inr bss" "length bss = length ws"
    "\<And>rest. decode_fields (map decode ts) (concat bss @ rest) = Inr (ws, rest)"
    using Cons.IH [OF _ vs(3)] Cons.prems(1) by auto
  with vs bs show ?case by simp
qed simp

lemma codec_Schema:
  assumes "\<And>t. t \<in> set ts \<Longrightarrow> codec (encode t) (decode t) (fits t)"
  shows "codec (encode (Schema names ts)) (decode (Schema names ts)) (fits (Schema names ts))"
proof
  fix v assume "fits (Schema names ts) v"
  then obtain vs where v: "v = VTuple vs" and ok: "list_all2 (\<lambda>P v. P v) (map fits ts) vs"
    by (auto simp: fits_schema_def split: pyval.splits)
  obtain bss where "res_list (map2 (\<lambda>f v. f v) (map encode ts) vs) = Inr bss"
    "\<And>rest. decode_fields (map decode ts) (concat bss @ rest) = Inr (vs, rest)"
    using fields_enc_dec [OF assms ok] by auto
  with v list_all2_lengthD [OF ok]
  show "\<exists>bs. encode (Schema names ts) v = Inr bs \<and>
      (\<forall>rest. decode (Schema names ts) (bs @ rest) = Inr (v, rest))"
    by (simp add: Schema_encode_def Schema_decode_def seq_items_def)
qed

lemma elements_enc_dec:
  assumes "codec (encode t) (decode t) (fits t)" "list_all (fits t) vs"
  shows "\<exists>bss. res_list (map (encode t) vs) = Inr bss \<and> length bss = length vs \<and>
          (\<forall>rest. decode_fields (replicate (length vs) (decode t)) (concat bss @ rest) = Inr (vs, rest))"
proof -
  have "list_all2 (\<lambda>P v. P v) (map fits (replicate (length vs) t)) vs"
    using assms(2) by (induction vs) auto
  moreover have "map2 (\<lambda>f v. f v) (map encode (replicate (length vs) t)) vs = map (encode t) vs"
    by (induction vs) auto
  ultimately show ?thesis
    using fields_enc_dec [of "replicate (length vs) t" vs] assms(1) by auto
qed

lemma codec_Array:
  assumes "codec (encode t) (decode t) (fits t)"
  shows "codec (encode (Array t)) (decode (Array t)) (fits (Array t))"
proof
  fix v assume ok: "fits (Array t) v"
  show "\<exists>bs. encode (Array t) v = Inr bs \<and> (\<forall>rest. decode (Array t) (bs @ rest) = Inr (v, rest))"
  proof (cases "v = VNone")
    case True
    with Int32_prefix [of "- 1"] show ?thesis by (auto simp: Array_encode_def Array_decode_def)
  next
    case False
    with ok obtain vs where v: "v = VList vs" "length vs < 2 ^ 31" "list_all (fits t) vs"
      by (auto simp: fits_array_def split: pyval.splits)
    obtain bss where "res_list (map (encode t) vs) = Inr bss" "length bss = length vs"
      "\<And>rest. decode_fields (replicate (length vs) (decode t)) (concat bss @ rest) = Inr (vs, rest)"
      using elements_enc_dec [OF assms v(3)] by auto
    moreover obtain p where "Int32_encode (VInt (int (length vs))) = Inr p"
      "\<And>rest. Int32_decode (p @ rest) = Inr (int (length vs), rest)"
      using Int32_prefix [of "int (length vs)"] v(2) by auto
    ultimately show ?thesis using v by (simp add: Array_encode_def Array_decode_def seq_items_def)
  qed
qed

lemma codec_CompactArray:
  assumes "codec (encode t) (decode t) (fits t)"
  shows "codec (encode (CompactArray t)) (decode (CompactArray t)) (fits (CompactArray t))"
proof
  fix v assume ok: "fits (CompactArray t) v"
  show "\<exists>bs. encode (CompactArray t) v = Inr bs \<and> (\<forall>rest. decode (CompactArray t) (bs @ rest) = Inr (v, rest))"
  proof (cases "v = VNone")
    case True
    with UnsignedVarInt32_roundtrip [of 0] show ?thesis
      by (simp add: CompactArray_encode_def CompactArray_decode_def)
  next
    case False
    with ok obtain vs where v: "v = VList vs" "length vs < 2 ^ 32 - 1" "list_all (fits t) vs"
      by (auto simp: fits_array_def split: pyval.splits)
    obtain bss where "res_list (map (encode t) vs) = Inr bss" "length bss = length vs"
      "\<And>rest. decode_fields (replicate (length vs) (decode t)) (concat bss @ rest) = Inr (vs, rest)"
      using elements_enc_dec [OF assms v(3)] by auto
    with UnsignedVarInt32_roundtrip [of "int (length vs) + 1"] v show ?thesis
      by (simp add: CompactArray_encode_def CompactArray_decode_def seq_items_def)
  qed
qed

lemma codec_wire: "codec (encode t) (decode t) (fits t)"
proof (induction t)
  case VarInt64
  show ?case by standard simp
qed (rule codec_Int8 codec_Int16 codec_Int32 codec_Int64 codec_Float64 codec_String codec_Bytes
    codec_Boolean codec_UnsignedVarInt32 codec_VarInt32 codec_CompactString codec_TaggedFields
    codec_CompactBytes codec_Schema codec_Array codec_CompactArray | assumption)+

interpretation wire: codec "encode t" "decode t" "fits t" for t
  by (rule codec_wire)

section \<open>Properties\<close>

lemma even_xor_1: "(2 * k :: int) XOR 1 = 2 * k + 1"
  by (simp add: xor_one_eq)

text \<open>C14. Every field type round-trips: a value that fits a type is encoded without error, and
  decoding its bytes, whatever follows them on the stream, gives the value back and leaves exactly
  what followed.  Types are arbitrary nestings of schemas and arrays, so this covers every message.\<close>

theorem wire_roundtrip:
  assumes "fits t v"
  shows "\<exists>bs. encode t v = Inr bs \<and> (\<forall>rest. decode t (bs @ rest) = Inr (v, rest))"
  by (rule wire.enc_dec [OF assms])

theorem wire_roundtrip_witness:
  "\<exists>bs. encode (Schema [''topic'', ''partitions''] [String, Array Int32])
           (VTuple [VStr [116, 233], VList [VInt 0, VInt (- 7)]]) = Inr bs \<and>
     (\<forall>rest. decode (Schema [''topic'', ''partitions''] [String, Array Int32]) (bs @ rest) =
        Inr (VTuple [VStr [116, 233], VList [VInt 0, VInt (- 7)]], rest))"
  by (rule wire_roundtrip)
    (simp add: fits_schema_def fits_str_def fits_array_def fits_int_def is_code_point_def surrogate_def
      utf8_char_def)

text \<open>Encodings of one type are unambiguous: two values that fit have the same bytes only if they
  are equal, and the bytes of one are never a proper prefix of the bytes of another.\<close>

theorem wire_prefix_free:
  assumes "fits t v" "fits t w" "encode t v = Inr bs" "encode t w = Inr (bs @ rest)"
  shows "w = v \<and> rest = []"
  by (rule wire.prefix_free [OF assms])

theorem wire_prefix_free_witness:
  "encode Int8 (VInt 5) = Inr ([5] @ []) \<and> VInt 5 = VInt 5 \<and> ([] :: bytes) = []"
proof -
  have enc: "encode Int8 (VInt 5) = Inr [5]"
    by (simp add: Int8_encode_def py_pack_def pack_int_value_def pack_int_def byte_of_def)
  show ?thesis
    using wire_prefix_free [of Int8 "VInt 5" "VInt 5" "[5]" "[]"] by (simp add: enc fits_int_def del: encode.simps)
qed

text \<open>\<open>VarInt32\<close> does not round-trip negative numbers: the sign shift is done on the masked,
  non-negative value, so every negative \<open>v\<close> comes back as \<open>- 2 ^ 31 - v - 1\<close>.\<close>

theorem VarInt32_negative:
  assumes "- (2 ^ 31) \<le> v" "v < 0"
  shows "VarInt32_decode (VarInt32_encode v @ rest) = Inr (- (2 ^ 31) - v - 1, rest)
       \<and> - (2 ^ 31) - v - 1 \<noteq> v"
proof -
  let ?m = "v + 2 ^ 32" and ?i = "2 * v + 1 + 2 ^ 32"
  have m: "v AND 0xffffffff = ?m"
    using assms by (simp add: and_mask32 int_mod_pos_eq [of v 4294967296 "- 1" "v + 4294967296"])
  have "?m div 2 ^ 31 = 1" using assms by (intro int_div_pos_eq [of _ _ _ "?m - 2 ^ 31"]) simp_all
  then have "drop_bit 31 ?m = 1" by (simp add: drop_bit_div)
  moreover have "push_bit 1 ?m = 2 * ?m" by (simp add: push_bit_mult)
  ultimately have "push_bit 1 ?m XOR drop_bit 31 ?m = 2 * ?m + 1" by (simp only: even_xor_1)
  moreover have "(2 * ?m + 1) AND 0xffffffff = ?i AND 0xffffffff"
  proof -
    have "2 * ?m + 1 = ?i + 4294967296" by simp
    then show ?thesis by (simp only: and_mask32 mod_add_self2)
  qed
  ultimately have "VarInt32_encode v = UnsignedVarInt32_encode ?i"
    by (simp add: VarInt32_encode_def m UnsignedVarInt32_encode_def)
  then have "VarInt32_decode (VarInt32_encode v @ rest) = Inr (drop_bit 1 ?i XOR - (?i AND 1), rest)"
    using assms UnsignedVarInt32_roundtrip [of ?i] by (simp add: VarInt32_decode_def)
  moreover have "drop_bit 1 ?i XOR - (?i AND 1) = - (2 ^ 31) - v - 1"
  proof -
    have "?i = 2 * (v + 2 ^ 31) + 1" by simp
    then have "?i div 2 = v + 2 ^ 31" "?i mod 2 = 1" by (simp_all only:) simp_all
    then have "drop_bit 1 ?i = v + 2 ^ 31" "?i AND 1 = 1" by (simp_all add: drop_bit_div and_one_eq)
    then show ?thesis by (simp only: not_arith bit.xor_one_right)
  qed
  moreover have "- (2 ^ 31) - v - 1 \<noteq> v"
  proof -
    have "2 * v \<noteq> - 2147483649" by presburger
    then show ?thesis by simp
  qed
  ultimately show ?thesis by simp
qed

theorem VarInt32_negative_witness:
  "VarInt32_decode (VarInt32_encode (- 1) @ []) = Inr (- (2 ^ 31) - (- 1) - 1, []) \<and>
   - (2 ^ 31) - (- 1) - 1 \<noteq> (- 1 :: int)"
  by (rule VarInt32_negative) simp_all

text \<open>\<open>TaggedFields\<close> with a field does not round-trip: the encoder writes no sizes, so the
  decoder takes the first byte of the first value for its size.\<close>

theorem TaggedFields_no_roundtrip:
  "encode TaggedFields (VDict [(1, [2, 7])]) = Inr [1, 1, 2, 7] \<and>
   decode TaggedFields [1, 1, 2, 7] = Inr (VDict [(1, [7])], [])"
  by (simp add: TaggedFields_encode_def TaggedFields_decode_def UnsignedVarInt32_encode_small
      UnsignedVarInt32_decode_small byte_of_def read_bytes_def)

section \<open>Errors\<close>

text \<open>The types of the protocol before its flexible versions.\<close>

primrec classic :: "wire_type \<Rightarrow> bool" where
  "classic Int8 = True" | "classic Int16 = True" | "classic Int32 = True" | "classic Int64 = True"
| "classic Float64 = True" | "classic String = True" | "classic Bytes = True" | "classic Boolean = True"
| "classic (Schema names ts) = list_all (\<lambda>b. b) (map classic ts)"
| "classic (Array t) = classic t"
| "classic UnsignedVarInt32 = False" | "classic VarInt32 = False" | "classic VarInt64 = False"
| "classic CompactString = False" | "classic TaggedFields = False" | "classic CompactBytes = False"
| "classic (CompactArray t) = False"

lemma py_unpack_int_error: "py_unpack (unpack_int n) d = Inl e \<Longrightarrow> e = ValueError"
  by (auto simp: py_unpack_def unpack_int_def issubclass_def builtin_exn_defs split: if_splits)

lemma py_unpack_uint_error: "py_unpack (unpack_uint n) d = Inl e \<Longrightarrow> e = ValueError"
  by (auto simp: py_unpack_def unpack_uint_def issubclass_def builtin_exn_defs split: if_splits)

lemma ValueError_sub [simp]:
  "issubclass ValueError ValueError" "issubclass UnicodeDecodeError ValueError"
  "\<not> issubclass struct_error ValueError"
  by (simp_all add: issubclass_def UnicodeDecodeError_def builtin_exn_defs)

lemma fixed_decode_errors:
  "Int8_decode d = Inl e \<Longrightarrow> e = ValueError" "Int16_decode d = Inl e \<Longrightarrow> e = ValueError"
  "Int32_decode d = Inl e \<Longrightarrow> e = ValueError" "Int64_decode d = Inl e \<Longrightarrow> e = ValueError"
  "Float64_decode d = Inl e \<Longrightarrow> e = ValueError" "Boolean_decode d = Inl e \<Longrightarrow> e = ValueError"
  by (auto simp: Int8_decode_def Int16_decode_def Int32_decode_def Int64_decode_def Float64_decode_def
      Boolean_decode_def read_bytes_def res_map_def dest: py_unpack_int_error py_unpack_uint_error
      split: sum.splits)

lemma decode_fields_error:
  "(\<And>f d e. f \<in> set fs \<Longrightarrow> f d = Inl e \<Longrightarrow> P e) \<Longrightarrow> decode_fields fs d = Inl e \<Longrightarrow> P e"
  by (induction fs arbitrary: d) (force simp: res_bind_def res_map_def split: sum.splits)+

text \<open>Decoding a message of the protocol's classic types fails only with a ValueError, the
  exception the response parser turns into a protocol error: no other exception escapes.\<close>

theorem classic_decode_error:
  assumes "classic t" "decode t data = Inl e"
  shows "issubclass e ValueError"
  using assms
proof (induction t arbitrary: data e)
  case String
  then show ?case
    by (auto simp: String_decode_def res_bind_def res_map_def read_bytes_def
        dest!: fixed_decode_errors utf8_decode_error split: sum.splits if_splits)
next
  case Bytes
  then show ?case
    by (auto simp: Bytes_decode_def res_bind_def read_bytes_def dest: fixed_decode_errors
        split: sum.splits if_splits)
next
  case (Schema names ts)
  then have "decode_fields (map decode ts) data = Inl e"
    by (auto simp: Schema_decode_def res_map_def split: sum.splits)
  then show ?case
    by (rule decode_fields_error [rotated]) (use Schema in \<open>auto simp: list_all_iff\<close>)
next
  case (Array t)
  consider "Int32_decode data = Inl e" | n r where "decode_fields (replicate n (decode t)) r = Inl e"
    using Array.prems(2)
    by (auto simp: Array_decode_def res_bind_def res_map_def split: sum.splits if_splits)
  then show ?case
  proof cases
    case 1
    then have "e = ValueError" by (rule fixed_decode_errors)
    then show ?thesis by simp
  next
    case 2
    then show ?thesis by (rule decode_fields_error [rotated]) (use Array in auto)
  qed
qed (auto simp: tag_value_def res_map_def dest: fixed_decode_errors split: sum.splits)

theorem classic_decode_error_witness:
  "decode (Array Int32) [1] = Inl ValueError \<and> issubclass ValueError ValueError"
proof -
  have "decode (Array Int32) [1] = Inl ValueError"
    by (simp add: Array_decode_def Int32_decode_def read_bytes_def py_unpack_def unpack_int_def
        issubclass_def builtin_exn_defs)
  then show ?thesis using classic_decode_error [of "Array Int32" "[1]" ValueError] by simp
qed

text \<open>A truncated unsigned varint, and so a truncated message of a flexible version, raises
  \<open>struct.error\<close>, which is not a ValueError: a parser that catches only ValueError lets it escape.\<close>

theorem UnsignedVarInt32_truncated:
  assumes "\<forall>b \<in> set data. 128 \<le> uint b" "length data \<le> 4"
  shows "UnsignedVarInt32_decode data = Inl struct_error \<and> \<not> issubclass struct_error ValueError"
proof -
  have "UnsignedVarInt32_decode_loop data r i = Inl struct_error" if "i + 7 * length data \<le> 28" for r i
    using assms(1) that
  proof (induction data arbitrary: r i)
    case (Cons b data)
    then show ?case by (subst UnsignedVarInt32_decode_loop.simps) (simp add: and_128)
  qed (simp add: UnsignedVarInt32_decode_loop.simps)
  with assms(2) show ?thesis by (simp add: UnsignedVarInt32_decode_def)
qed

theorem UnsignedVarInt32_truncated_witness:
  "UnsignedVarInt32_decode [200, 129] = Inl struct_error \<and> \<not> issubclass struct_error ValueError"
  by (rule UnsignedVarInt32_truncated) simp_all

end
