(* ===== verification/Struct_Class.thy ===== *)
theory Struct_Class
  imports Wire_Codec
begin

text \<open>
  \<^verbatim>\<open>kafka/protocol/struct.py\<close> and \<^verbatim>\<open>kafka/protocol/api.py\<close>: message classes, their instances, and
  the request and response headers.  A message class is the record of its class attributes; an
  instance is its class and its \<open>__dict__\<close>, an association list from field names to values.
\<close>

section \<open>Message classes\<close>

record message_class =
  mc_name :: string
  mc_base :: string
  API_KEY :: int
  API_VERSION :: int
  FLEXIBLE_VERSION :: bool
  SCHEMA :: wire_type

record request_class = message_class +
  RESPONSE_TYPE :: message_class

definition schema_names :: "wire_type \<Rightarrow> string list" where
  "schema_names t = (case t of Schema names ts \<Rightarrow> names | _ \<Rightarrow> [])"

definition schema_fields :: "wire_type \<Rightarrow> wire_type list" where
  "schema_fields t = (case t of Schema names ts \<Rightarrow> ts | _ \<Rightarrow> [])"

lemma schema_parts [simp]:
  "schema_names (Schema ns ts) = ns" "schema_fields (Schema ns ts) = ts"
  by (simp_all add: schema_names_def schema_fields_def)

text \<open>\<open>Schema(*fields)\<close> and \<open>Array(*array_of)\<close>: several pairs make an array of a schema.\<close>

definition Schema_of :: "(string \<times> wire_type) list \<Rightarrow> wire_type" where
  "Schema_of fs = Schema (map fst fs) (map snd fs)"

section \<open>Instances\<close>

record struct_obj =
  so_schema :: wire_type
  so_dict :: "(string \<times> pyval) list"

text \<open>\<open>__init__(*args, **kwargs)\<close>: positional arguments mirror the schema, or keywords fill it.\<close>

primrec pop_names :: "string list \<Rightarrow> (string \<times> pyval) list \<Rightarrow> (string \<times> pyval) list \<Rightarrow>
    (string \<times> pyval) list \<times> (string \<times> pyval) list" where
  "pop_names [] d kwargs = (d, kwargs)"
| "pop_names (n # ns) d kwargs =
     pop_names ns (AList.update n (case map_of kwargs n of None \<Rightarrow> VNone | Some v \<Rightarrow> v) d)
       (AList.delete n kwargs)"

definition Struct_init :: "wire_type \<Rightarrow> pyval list \<Rightarrow> (string \<times> pyval) list \<Rightarrow> struct_obj res" where
  "Struct_init schema args kwargs =
     (if length args = length (schema_fields schema)
      then Inr \<lparr>so_schema = schema,
                so_dict = fold (\<lambda>(n, v). AList.update n v) (zip (schema_names schema) args) []\<rparr>
      else if args \<noteq> [] then Inl ValueError
      else (case pop_names (schema_names schema) [] kwargs of
              (d, rest) \<Rightarrow> if rest \<noteq> [] then Inl ValueError
                          else Inr \<lparr>so_schema = schema, so_dict = d\<rparr>))"

definition get_item :: "struct_obj \<Rightarrow> string \<Rightarrow> pyval res" where
  "get_item obj name =
     (if name \<notin> set (schema_names (so_schema obj)) then Inl KeyError
      else case map_of (so_dict obj) name of None \<Rightarrow> Inl KeyError | Some v \<Rightarrow> Inr v)"

definition Struct_encode_self :: "struct_obj \<Rightarrow> bytes res" where
  "Struct_encode_self obj =
     res_bind (res_list (map (\<lambda>n. case map_of (so_dict obj) n of None \<Rightarrow> Inl KeyError | Some v \<Rightarrow> Inr v)
                 (schema_names (so_schema obj))))
       (\<lambda>vs. encode (so_schema obj) (VList vs))"

text \<open>The class method \<open>decode\<close> reads the fields in order and builds an instance from them; it
  returns the rest of the stream too.\<close>

definition Struct_decode :: "wire_type \<Rightarrow> bytes \<Rightarrow> (struct_obj \<times> bytes) res" where
  "Struct_decode schema data =
     res_bind (decode_fields (map decode (schema_fields schema)) data)
       (\<lambda>(vs, rest). res_map (\<lambda>obj. (obj, rest)) (Struct_init schema vs []))"

text \<open>A string argument that may be None.\<close>

definition opt_str :: "pystr option \<Rightarrow> pyval" where
  "opt_str o' = (case o' of None \<Rightarrow> VNone | Some x \<Rightarrow> VStr x)"

section \<open>Headers\<close>

definition RequestHeader_SCHEMA :: wire_type where
  "RequestHeader_SCHEMA = Schema_of [(''api_key'', Int16), (''api_version'', Int16),
     (''correlation_id'', Int32), (''client_id'', String)]"

definition RequestHeaderV2_SCHEMA :: wire_type where
  "RequestHeaderV2_SCHEMA = Schema_of [(''api_key'', Int16), (''api_version'', Int16),
     (''correlation_id'', Int32), (''client_id'', String), (''tags'', TaggedFields)]"

definition ResponseHeader_SCHEMA :: wire_type where
  "ResponseHeader_SCHEMA = Schema_of [(''correlation_id'', Int32)]"

definition ResponseHeaderV2_SCHEMA :: wire_type where
  "ResponseHeaderV2_SCHEMA = Schema_of [(''correlation_id'', Int32), (''tags'', TaggedFields)]"

definition RequestHeader :: "'a message_class_scheme \<Rightarrow> int \<Rightarrow> pystr \<Rightarrow> struct_obj res" where
  "RequestHeader request correlation_id client_id =
     Struct_init RequestHeader_SCHEMA
       [VInt (API_KEY request), VInt (API_VERSION request), VInt correlation_id, VStr client_id] []"

definition RequestHeaderV2 :: "'a message_class_scheme \<Rightarrow> int \<Rightarrow> pystr \<Rightarrow> struct_obj res" where
  "RequestHeaderV2 request correlation_id client_id =
     Struct_init RequestHeaderV2_SCHEMA
       [VInt (API_KEY request), VInt (API_VERSION request), VInt correlation_id, VStr client_id, VDict []] []"

definition build_header :: "'a message_class_scheme \<Rightarrow> int \<Rightarrow> pystr \<Rightarrow> struct_obj res" where
  "build_header request correlation_id client_id =
     (if FLEXIBLE_VERSION request then RequestHeaderV2 request correlation_id client_id
      else RequestHeader request correlation_id client_id)"

definition parse_header :: "message_class \<Rightarrow> bytes \<Rightarrow> (struct_obj \<times> bytes) res" where
  "parse_header cls data =
     (if FLEXIBLE_VERSION cls then Struct_decode ResponseHeaderV2_SCHEMA data
      else Struct_decode ResponseHeader_SCHEMA data)"

section \<open>Round trips\<close>

lemma fold_update_map_of:
  "distinct ns \<Longrightarrow> length ns = length vs \<Longrightarrow> n \<in> set ns \<Longrightarrow>
   map_of (fold (\<lambda>(n, v). AList.update n v) (zip ns vs) d) n = map_of (zip ns vs) n"
proof (induction ns vs arbitrary: d rule: list_induct2')
  case (4 m ns v vs)
  have other: "m \<notin> set ns \<Longrightarrow> map_of (fold (\<lambda>(n, v). AList.update n v) (zip ns vs) e) m = map_of e m" for e
    by (induction ns vs arbitrary: e rule: list_induct2') (auto simp: update_conv')
  from 4 other show ?case by (cases "n = m") (auto simp: update_conv')
qed simp_all

lemma map_map_of_zip:
  "distinct ns \<Longrightarrow> length ns = length vs \<Longrightarrow> map (\<lambda>n. the (map_of (zip ns vs) n)) ns = vs"
proof (induction ns vs rule: list_induct2')
  case (4 n ns v vs)
  have "map (\<lambda>m. the (map_of (zip (n # ns) (v # vs)) m)) ns = map (\<lambda>m. the (map_of (zip ns vs) m)) ns"
    using 4 by (intro map_cong) auto
  with 4 show ?case by simp
qed simp_all

text \<open>The values an instance was built from are the ones its encoder reads.\<close>

lemma Struct_init_values:
  assumes "distinct ns" "length ns = length ts" "length vs = length ts"
    and "Struct_init (Schema ns ts) vs [] = Inr obj"
  shows "so_schema obj = Schema ns ts \<and>
    res_list (map (\<lambda>n. case map_of (so_dict obj) n of None \<Rightarrow> Inl KeyError | Some v \<Rightarrow> Inr v) ns) = Inr vs"
proof -
  let ?d = "fold (\<lambda>(n, v). AList.update n v) (zip ns vs) []"
  have obj: "obj = \<lparr>so_schema = Schema ns ts, so_dict = ?d\<rparr>"
    using assms by (simp add: Struct_init_def)
  have "(case map_of ?d n of None \<Rightarrow> Inl KeyError | Some v \<Rightarrow> Inr v) = Inr (the (map_of (zip ns vs) n))"
    if "n \<in> set ns" for n
  proof -
    have "map_of (zip ns vs) n \<noteq> None" using that assms(2,3) by (simp add: map_of_zip_is_None)
    then show ?thesis using that assms by (simp add: fold_update_map_of option.case_eq_if)
  qed
  then have "res_list (map (\<lambda>n. case map_of ?d n of None \<Rightarrow> Inl KeyError | Some v \<Rightarrow> Inr v) ns) =
      Inr (map (\<lambda>n. the (map_of (zip ns vs) n)) ns)"
    by (rule res_list_map_Inr)
  with assms show ?thesis by (simp add: obj map_map_of_zip)
qed

lemma encode_Schema_VList: "encode (Schema ns ts) (VList vs) = encode (Schema ns ts) (VTuple vs)"
  by (simp add: Schema_encode_def seq_items_def)

lemma decode_Schema_fields:
  "decode (Schema ns ts) data = Inr (VTuple vs, rest) \<Longrightarrow> decode_fields (map decode ts) data = Inr (vs, rest)"
  by (auto simp: Schema_decode_def res_map_eq_Inr)

text \<open>Encoding an instance built from values that fit, and decoding it as the same class.\<close>

lemma struct_enc_dec:
  assumes "distinct ns" "length ns = length ts" "fits (Schema ns ts) (VTuple vs)"
    and "Struct_init (Schema ns ts) vs [] = Inr obj"
  shows "\<exists>bs. Struct_encode_self obj = Inr bs \<and>
    (\<forall>rest. Struct_decode (Schema ns ts) (bs @ rest) = Inr (obj, rest))"
proof -
  have len: "length vs = length ts"
    using assms(3) by (auto simp: fits_schema_def dest: list_all2_lengthD)
  note vals = Struct_init_values [OF assms(1,2) len assms(4)]
  obtain bs where bs: "encode (Schema ns ts) (VTuple vs) = Inr bs"
    and dec: "\<And>rest. decode (Schema ns ts) (bs @ rest) = Inr (VTuple vs, rest)"
    using wire.enc_dec [OF assms(3)] by blast
  have "Struct_encode_self obj = Inr bs"
    unfolding Struct_encode_self_def using vals bs by (simp add: encode_Schema_VList del: encode.simps)
  moreover have "Struct_decode (Schema ns ts) (bs @ rest) = Inr (obj, rest)" for rest
    unfolding Struct_decode_def using decode_Schema_fields [OF dec] assms(4) by simp
  ultimately show ?thesis by blast
qed

end
