(* ===== verification/Messages.thy ===== *)
theory Messages
  imports Struct_Class
begin

text \<open>
  The request and response classes of the client protocol, one definition per class of
  \<^verbatim>\<open>kafka/protocol/*.py\<close> (the admin requests are in \<open>Admin_Messages\<close>), and the version-indexed
  lists through which the client picks a class.  The lemmas check the tables the client
  relies on: the class at index \<open>i\<close> has version \<open>i\<close> and names the response class of the same
  version, and every schema is well formed, so every message round-trips.
\<close>

section \<open>\<^verbatim>\<open>find_coordinator.py\<close>\<close>

definition FindCoordinatorResponse_v0 :: message_class where
  "FindCoordinatorResponse_v0 = \<lparr>mc_name = ''FindCoordinatorResponse_v0'', mc_base =
     ''Response'', API_KEY = 10, API_VERSION = 0, FLEXIBLE_VERSION = False, SCHEMA = Schema_of
     [(''error_code'', Int16), (''coordinator_id'', Int32), (''host'', String), (''port'',
     Int32)]\<rparr>"

definition FindCoordinatorResponse_v1 :: message_class where
  "FindCoordinatorResponse_v1 = \<lparr>mc_name = ''FindCoordinatorResponse_v1'', mc_base =
     ''Response'', API_KEY = 10, API_VERSION = 1, FLEXIBLE_VERSION = False, SCHEMA = Schema_of
     [(''throttle_time_ms'', Int32), (''error_code'', Int16), (''error_message'', String),
     (''coordinator_id'', Int32), (''host'', String), (''port'', Int32)]\<rparr>"

definition FindCoordinatorResponse_v2 :: message_class where
  "FindCoordinatorResponse_v2 = \<lparr>mc_name = ''FindCoordinatorResponse_v2'', mc_base =
     ''Response'', API_KEY = 10, API_VERSION = 2, FLEXIBLE_VERSION = False, SCHEMA = SCHEMA
     FindCoordinatorResponse_v1\<rparr>"

definition FindCoordinatorRequest_v0 :: request_class where
  "FindCoordinatorRequest_v0 = \<lparr>mc_name = ''FindCoordinatorRequest_v0'', mc_base =
     ''Request'', API_KEY = 10, API_VERSION = 0, FLEXIBLE_VERSION = False, SCHEMA = Schema_of
     [(''consumer_group'', String)], RESPONSE_TYPE = FindCoordinatorResponse_v0\<rparr>"

definition FindCoordinatorRequest_v1 :: request_class where
  "FindCoordinatorRequest_v1 = \<lparr>mc_name = ''FindCoordinatorRequest_v1'', mc_base =
     ''Request'', API_KEY = 10, API_VERSION = 1, FLEXIBLE_VERSION = False, SCHEMA = Schema_of
     [(''coordinator_key'', String), (''coordinator_type'', Int8)], RESPONSE_TYPE =
     FindCoordinatorResponse_v1\<rparr>"

definition FindCoordinatorRequest_v2 :: request_class where
  "FindCoordinatorRequest_v2 = \<lparr>mc_name = ''FindCoordinatorRequest_v2'', mc_base =
     ''Request'', API_KEY = 10, API_VERSION = 2, FLEXIBLE_VERSION = False, SCHEMA = SCHEMA
     FindCoordinatorRequest_v1, RESPONSE_TYPE = FindCoordinatorResponse_v2\<rparr>"

definition FindCoordinatorRequest :: "request_class list" where
  "FindCoordinatorRequest = [FindCoordinatorRequest_v0, FindCoordinatorRequest_v1,
     FindCoordinatorRequest_v2]"

definition FindCoordinatorResponse :: "message_class list" where
  "FindCoordinatorResponse = [FindCoordinatorResponse_v0, FindCoordinatorResponse_v1,
     FindCoordinatorResponse_v2]"

section \<open>\<^verbatim>\<open>api_versions.py\<close>\<close>

definition ApiVersionsResponse_v0 :: message_class where
  "ApiVersionsResponse_v0 = \<lparr>mc_name = ''ApiVersionsResponse_v0'', mc_base =
     ''Response'', API_KEY = 18, API_VERSION = 0, FLEXIBLE_VERSION = False, SCHEMA = Schema_of
     [(''error_code'', Int16), (''api_versions'', Array (Schema_of [(''api_key'', Int16),
     (''min_version'', Int16), (''max_version'', Int16)]))]\<rparr>"

definition ApiVersionsResponse_v1 :: message_class where
  "ApiVersionsResponse_v1 = \<lparr>mc_name = ''ApiVersionsResponse_v1'', mc_base =
     ''BaseApiVersionsResponse'', API_KEY = 18, API_VERSION = 1, FLEXIBLE_VERSION = False,
     SCHEMA = Schema_of [(''error_code'', Int16), (''api_versions'', Array (Schema_of
     [(''api_key'', Int16), (''min_version'', Int16), (''max_version'', Int16)])),
     (''throttle_time_ms'', Int32)]\<rparr>"

definition ApiVersionsResponse_v2 :: message_class where
  "ApiVersionsResponse_v2 = \<lparr>mc_name = ''ApiVersionsResponse_v2'', mc_base =
     ''BaseApiVersionsResponse'', API_KEY = 18, API_VERSION = 2, FLEXIBLE_VERSION = False,
     SCHEMA = SCHEMA ApiVersionsResponse_v1\<rparr>"

definition ApiVersionsResponse_v3 :: message_class where
  "ApiVersionsResponse_v3 = \<lparr>mc_name = ''ApiVersionsResponse_v3'', mc_base =
     ''BaseApiVersionsResponse'', API_KEY = 18, API_VERSION = 3, FLEXIBLE_VERSION = False,
     SCHEMA = Schema_of [(''error_code'', Int16), (''api_versions'', CompactArray (Schema_of
     [(''api_key'', Int16), (''min_version'', Int16), (''max_version'', Int16),
     (''_tagged_fields'', TaggedFields)])), (''throttle_time_ms'', Int32), (''_tagged_fields'',
     TaggedFields)]\<rparr>"

definition ApiVersionsResponse_v4 :: message_class where
  "ApiVersionsResponse_v4 = \<lparr>mc_name = ''ApiVersionsResponse_v4'', mc_base =
     ''BaseApiVersionsResponse'', API_KEY = 18, API_VERSION = 4, FLEXIBLE_VERSION = False,
     SCHEMA = SCHEMA ApiVersionsResponse_v3\<rparr>"

definition ApiVersionsRequest_v0 :: request_class where
  "ApiVersionsRequest_v0 = \<lparr>mc_name = ''ApiVersionsRequest_v0'', mc_base = ''Request'',
     API_KEY = 18, API_VERSION = 0, FLEXIBLE_VERSION = False, SCHEMA = Schema_of [],
     RESPONSE_TYPE = ApiVersionsResponse_v0\<rparr>"

definition ApiVersionsRequest_v1 :: request_class where
  "ApiVersionsRequest_v1 = \<lparr>mc_name = ''ApiVersionsRequest_v1'', mc_base = ''Request'',
     API_KEY = 18, API_VERSION = 1, FLEXIBLE_VERSION = False, SCHEMA = SCHEMA
     ApiVersionsRequest_v0, RESPONSE_TYPE = ApiVersionsResponse_v1\<rparr>"

definition ApiVersionsRequest_v2 :: request_class where
  "ApiVersionsRequest_v2 = \<lparr>mc_name = ''ApiVersionsRequest_v2'', mc_base = ''Request'',
     API_KEY = 18, API_VERSION = 2, FLEXIBLE_VERSION = False, SCHEMA = SCHEMA
     ApiVersionsRequest_v1, RESPONSE_TYPE = ApiVersionsResponse_v2\<rparr>"

definition ApiVersionsRequest_v3 :: request_class where
  "ApiVersionsRequest_v3 = \<lparr>mc_name = ''ApiVersionsRequest_v3'', mc_base = ''Request'',
     API_KEY = 18, API_VERSION = 3, FLEXIBLE_VERSION = True, SCHEMA = Schema_of
     [(''client_software_name'', CompactString), (''client_software_version'', CompactString),
     (''_tagged_fields'', TaggedFields)], RESPONSE_TYPE = ApiVersionsResponse_v3\<rparr>"

definition ApiVersionsRequest_v4 :: request_class where
  "ApiVersionsRequest_v4 = \<lparr>mc_name = ''ApiVersionsRequest_v4'', mc_base = ''Request'',
     API_KEY = 18, API_VERSION = 4, FLEXIBLE_VERSION = True, SCHEMA = SCHEMA
     ApiVersionsRequest_v3, RESPONSE_TYPE = ApiVersionsResponse_v4\<rparr>"

definition ApiVersionsRequest :: "request_class list" where
  "ApiVersionsRequest = [ApiVersionsRequest_v0, ApiVersionsRequest_v1, ApiVersionsRequest_v2,
     ApiVersionsRequest_v3, ApiVersionsRequest_v4]"

definition ApiVersionsResponse :: "message_class list" where
  "ApiVersionsResponse = [ApiVersionsResponse_v0, ApiVersionsResponse_v1,
     ApiVersionsResponse_v2, ApiVersionsResponse_v3, ApiVersionsResponse_v4]"

section \<open>\<^verbatim>\<open>produce.py\<close>\<close>

definition ProduceResponse_v0 :: message_class where
  "ProduceResponse_v0 = \<lparr>mc_name = ''ProduceResponse_v0'', mc_base = ''Response'',
     API_KEY = 0, API_VERSION = 0, FLEXIBLE_VERSION = False, SCHEMA = Schema_of [(''topics'',
     Array (Schema_of [(''topic'', String), (''partitions'', Array (Schema_of [(''partition'',
     Int32), (''error_code'', Int16), (''offset'', Int64)]))]))]\<rparr>"

definition ProduceResponse_v1 :: message_class where
  "ProduceResponse_v1 = \<lparr>mc_name = ''ProduceResponse_v1'', mc_base = ''Response'',
     API_KEY = 0, API_VERSION = 1, FLEXIBLE_VERSION = False, SCHEMA = Schema_of [(''topics'',
     Array (Schema_of [(''topic'', String), (''partitions'', Array (Schema_of [(''partition'',
     Int32), (''error_code'', Int16), (''offset'', Int64)]))])), (''throttle_time_ms'',
     Int32)]\<rparr>"

definition ProduceResponse_v2 :: message_class where
  "ProduceResponse_v2 = \<lparr>mc_name = ''ProduceResponse_v2'', mc_base = ''Response'',
     API_KEY = 0, API_VERSION = 2, FLEXIBLE_VERSION = False, SCHEMA = Schema_of [(''topics'',
     Array (Schema_of [(''topic'', String), (''partitions'', Array (Schema_of [(''partition'',
     Int32), (''error_code'', Int16), (''offset'', Int64), (''timestamp'', Int64)]))])),
     (''throttle_time_ms'', Int32)]\<rparr>"

definition ProduceResponse_v3 :: message_class where
  "ProduceResponse_v3 = \<lparr>mc_name = ''ProduceResponse_v3'', mc_base = ''Response'',
     API_KEY = 0, API_VERSION = 3, FLEXIBLE_VERSION = False, SCHEMA = SCHEMA
     ProduceResponse_v2\<rparr>"

definition ProduceResponse_v4 :: message_class where
  "ProduceResponse_v4 = \<lparr>mc_name = ''ProduceResponse_v4'', mc_base = ''Response'',
     API_KEY = 0, API_VERSION = 4, FLEXIBLE_VERSION = False, SCHEMA = SCHEMA
     ProduceResponse_v3\<rparr>"

definition ProduceResponse_v5 :: message_class where
  "ProduceResponse_v5 = \<lparr>mc_name = ''ProduceResponse_v5'', mc_base = ''Response'',
     API_KEY = 0, API_VERSION = 5, FLEXIBLE_VERSION = False, SCHEMA = Schema_of [(''topics'',
     Array (Schema_of [(''topic'', String), (''partitions'', Array (Schema_of [(''partition'',
     Int32), (''error_code'', Int16), (''offset'', Int64), (''timestamp'', Int64),
     (''log_start_offset'', Int64)]))])), (''throttle_time_ms'', Int32)]\<rparr>"

definition ProduceResponse_v6 :: message_class where
  "ProduceResponse_v6 = \<lparr>mc_name = ''ProduceResponse_v6'', mc_base = ''Response'',
     API_KEY = 0, API_VERSION = 6, FLEXIBLE_VERSION = False, SCHEMA = SCHEMA
     ProduceResponse_v5\<rparr>"

definition ProduceResponse_v7 :: message_class where
  "ProduceResponse_v7 = \<lparr>mc_name = ''ProduceResponse_v7'', mc_base = ''Response'',
     API_KEY = 0, API_VERSION = 7, FLEXIBLE_VERSION = False, SCHEMA = SCHEMA
     ProduceResponse_v6\<rparr>"

text \<open>A misplaced parenthesis makes the \<open>partitions\<close> entry of the source a tuple of four; \<open>Schema\<close>
  builds its names and fields with \<open>zip(*fields)\<close>, which stops at the shortest tuple, so the last two
  components (\<open>record_errors\<close> and \<open>error_message\<close>) are dropped.\<close>

definition ProduceResponse_v8 :: message_class where
  "ProduceResponse_v8 = \<lparr>mc_name = ''ProduceResponse_v8'', mc_base = ''Response'',
     API_KEY = 0, API_VERSION = 8, FLEXIBLE_VERSION = False, SCHEMA = Schema_of [(''topics'',
     Array (Schema_of [(''topic'', String), (''partitions'', Array (Schema_of [(''partition'',
     Int32), (''error_code'', Int16), (''offset'', Int64), (''timestamp'', Int64),
     (''log_start_offset'', Int64)]))])), (''throttle_time_ms'', Int32)]\<rparr>"

definition ProduceRequest_v0 :: request_class where
  "ProduceRequest_v0 = \<lparr>mc_name = ''ProduceRequest_v0'', mc_base = ''ProduceRequest'',
     API_KEY = 0, API_VERSION = 0, FLEXIBLE_VERSION = False, SCHEMA = Schema_of
     [(''required_acks'', Int16), (''timeout'', Int32), (''topics'', Array (Schema_of
     [(''topic'', String), (''partitions'', Array (Schema_of [(''partition'', Int32),
     (''records'', Bytes)]))]))], RESPONSE_TYPE = ProduceResponse_v0\<rparr>"

definition ProduceRequest_v1 :: request_class where
  "ProduceRequest_v1 = \<lparr>mc_name = ''ProduceRequest_v1'', mc_base = ''ProduceRequest'',
     API_KEY = 0, API_VERSION = 1, FLEXIBLE_VERSION = False, SCHEMA = SCHEMA ProduceRequest_v0,
     RESPONSE_TYPE = ProduceResponse_v1\<rparr>"

definition ProduceRequest_v2 :: request_class where
  "ProduceRequest_v2 = \<lparr>mc_name = ''ProduceRequest_v2'', mc_base = ''ProduceRequest'',
     API_KEY = 0, API_VERSION = 2, FLEXIBLE_VERSION = False, SCHEMA = SCHEMA ProduceRequest_v1,
     RESPONSE_TYPE = ProduceResponse_v2\<rparr>"

definition ProduceRequest_v3 :: request_class where
  "ProduceRequest_v3 = \<lparr>mc_name = ''ProduceRequest_v3'', mc_base = ''ProduceRequest'',
     API_KEY = 0, API_VERSION = 3, FLEXIBLE_VERSION = False, SCHEMA = Schema_of
     [(''transactional_id'', String), (''required_acks'', Int16), (''timeout'', Int32),
     (''topics'', Array (Schema_of [(''topic'', String), (''partitions'', Array (Schema_of
     [(''partition'', Int32), (''records'', Bytes)]))]))], RESPONSE_TYPE =
     ProduceResponse_v3\<rparr>"

definition ProduceRequest_v4 :: request_class where
  "ProduceRequest_v4 = \<lparr>mc_name = ''ProduceRequest_v4'', mc_base = ''ProduceRequest'',
     API_KEY = 0, API_VERSION = 4, FLEXIBLE_VERSION = False, SCHEMA = SCHEMA ProduceRequest_v3,
     RESPONSE_TYPE = ProduceResponse_v4\<rparr>"

definition ProduceRequest_v5 :: request_class where
  "ProduceRequest_v5 = \<lparr>mc_name = ''ProduceRequest_v5'', mc_base = ''ProduceRequest'',
     API_KEY = 0, API_VERSION = 5, FLEXIBLE_VERSION = False, SCHEMA = SCHEMA ProduceRequest_v4,
     RESPONSE_TYPE = ProduceResponse_v5\<rparr>"

definition ProduceRequest_v6 :: request_class where
  "ProduceRequest_v6 = \<lparr>mc_name = ''ProduceRequest_v6'', mc_base = ''ProduceRequest'',
     API_KEY = 0, API_VERSION = 6, FLEXIBLE_VERSION = False, SCHEMA = SCHEMA ProduceRequest_v5,
     RESPONSE_TYPE = ProduceResponse_v6\<rparr>"

definition ProduceRequest_v7 :: request_class where
  "ProduceRequest_v7 = \<lparr>mc_name = ''ProduceRequest_v7'', mc_base = ''ProduceRequest'',
     API_KEY = 0, API_VERSION = 7, FLEXIBLE_VERSION = False, SCHEMA = SCHEMA ProduceRequest_v6,
     RESPONSE_TYPE = ProduceResponse_v7\<rparr>"

definition ProduceRequest_v8 :: request_class where
  "ProduceRequest_v8 = \<lparr>mc_name = ''ProduceRequest_v8'', mc_base = ''ProduceRequest'',
     API_KEY = 0, API_VERSION = 8, FLEXIBLE_VERSION = False, SCHEMA = SCHEMA ProduceRequest_v7,
     RESPONSE_TYPE = ProduceResponse_v8\<rparr>"

definition ProduceRequest :: "request_class list" where
  "ProduceRequest = [ProduceRequest_v0, ProduceRequest_v1, ProduceRequest_v2, ProduceRequest_v3,
     ProduceRequest_v4, ProduceRequest_v5, ProduceRequest_v6, ProduceRequest_v7,
     ProduceRequest_v8]"

definition ProduceResponse :: "message_class list" where
  "ProduceResponse = [ProduceResponse_v0, ProduceResponse_v1, ProduceResponse_v2,
     ProduceResponse_v3, ProduceResponse_v4, ProduceResponse_v5, ProduceResponse_v6,
     ProduceResponse_v7, ProduceResponse_v8]"

section \<open>\<^verbatim>\<open>fetch.py\<close>\<close>

definition FetchResponse_v0 :: message_class where
  "FetchResponse_v0 = \<lparr>mc_name = ''FetchResponse_v0'', mc_base = ''Response'', API_KEY =
     1, API_VERSION = 0, FLEXIBLE_VERSION = False, SCHEMA = Schema_of [(''topics'', Array
     (Schema_of [(''topics'', String), (''partitions'', Array (Schema_of [(''partition'',
     Int32), (''error_code'', Int16), (''highwater_offset'', Int64), (''records'',
     Bytes)]))]))]\<rparr>"

definition FetchResponse_v1 :: message_class where
  "FetchResponse_v1 = \<lparr>mc_name = ''FetchResponse_v1'', mc_base = ''Response'', API_KEY =
     1, API_VERSION = 1, FLEXIBLE_VERSION = False, SCHEMA = Schema_of [(''throttle_time_ms'',
     Int32), (''topics'', Array (Schema_of [(''topics'', String), (''partitions'', Array
     (Schema_of [(''partition'', Int32), (''error_code'', Int16), (''highwater_offset'', Int64),
     (''records'', Bytes)]))]))]\<rparr>"

definition FetchResponse_v2 :: message_class where
  "FetchResponse_v2 = \<lparr>mc_name = ''FetchResponse_v2'', mc_base = ''Response'', API_KEY =
     1, API_VERSION = 2, FLEXIBLE_VERSION = False, SCHEMA = SCHEMA FetchResponse_v1\<rparr>"

definition FetchResponse_v3 :: message_class where
  "FetchResponse_v3 = \<lparr>mc_name = ''FetchResponse_v3'', mc_base = ''Response'', API_KEY =
     1, API_VERSION = 3, FLEXIBLE_VERSION = False, SCHEMA = SCHEMA FetchResponse_v2\<rparr>"

definition FetchResponse_v4 :: message_class where
  "FetchResponse_v4 = \<lparr>mc_name = ''FetchResponse_v4'', mc_base = ''Response'', API_KEY =
     1, API_VERSION = 4, FLEXIBLE_VERSION = False, SCHEMA = Schema_of [(''throttle_time_ms'',
     Int32), (''topics'', Array (Schema_of [(''topics'', String), (''partitions'', Array
     (Schema_of [(''partition'', Int32), (''error_code'', Int16), (''highwater_offset'', Int64),
     (''last_stable_offset'', Int64), (''aborted_transactions'', Array (Schema_of
     [(''producer_id'', Int64), (''first_offset'', Int64)])), (''records'',
     Bytes)]))]))]\<rparr>"

definition FetchResponse_v5 :: message_class where
  "FetchResponse_v5 = \<lparr>mc_name = ''FetchResponse_v5'', mc_base = ''Response'', API_KEY =
     1, API_VERSION = 5, FLEXIBLE_VERSION = False, SCHEMA = Schema_of [(''throttle_time_ms'',
     Int32), (''topics'', Array (Schema_of [(''topics'', String), (''partitions'', Array
     (Schema_of [(''partition'', Int32), (''error_code'', Int16), (''highwater_offset'', Int64),
     (''last_stable_offset'', Int64), (''log_start_offset'', Int64), (''aborted_transactions'',
     Array (Schema_of [(''producer_id'', Int64), (''first_offset'', Int64)])), (''records'',
     Bytes)]))]))]\<rparr>"

definition FetchResponse_v6 :: message_class where
  "FetchResponse_v6 = \<lparr>mc_name = ''FetchResponse_v6'', mc_base = ''Response'', API_KEY =
     1, API_VERSION = 6, FLEXIBLE_VERSION = False, SCHEMA = SCHEMA FetchResponse_v5\<rparr>"

definition FetchResponse_v7 :: message_class where
  "FetchResponse_v7 = \<lparr>mc_name = ''FetchResponse_v7'', mc_base = ''Response'', API_KEY =
     1, API_VERSION = 7, FLEXIBLE_VERSION = False, SCHEMA = Schema_of [(''throttle_time_ms'',
     Int32), (''error_code'', Int16), (''session_id'', Int32), (''topics'', Array (Schema_of
     [(''topics'', String), (''partitions'', Array (Schema_of [(''partition'', Int32),
     (''error_code'', Int16), (''highwater_offset'', Int64), (''last_stable_offset'', Int64),
     (''log_start_offset'', Int64), (''aborted_transactions'', Array (Schema_of
     [(''producer_id'', Int64), (''first_offset'', Int64)])), (''records'',
     Bytes)]))]))]\<rparr>"

definition FetchResponse_v8 :: message_class where
  "FetchResponse_v8 = \<lparr>mc_name = ''FetchResponse_v8'', mc_base = ''Response'', API_KEY =
     1, API_VERSION = 8, FLEXIBLE_VERSION = False, SCHEMA = SCHEMA FetchResponse_v7\<rparr>"

definition FetchResponse_v9 :: message_class where
  "FetchResponse_v9 = \<lparr>mc_name = ''FetchResponse_v9'', mc_base = ''Response'', API_KEY =
     1, API_VERSION = 9, FLEXIBLE_VERSION = False, SCHEMA = SCHEMA FetchResponse_v7\<rparr>"

definition FetchResponse_v10 :: message_class where
  "FetchResponse_v10 = \<lparr>mc_name = ''FetchResponse_v10'', mc_base = ''Response'', API_KEY
     = 1, API_VERSION = 10, FLEXIBLE_VERSION = False, SCHEMA = SCHEMA FetchResponse_v7\<rparr>"

definition FetchResponse_v11 :: message_class where
  "FetchResponse_v11 = \<lparr>mc_name = ''FetchResponse_v11'', mc_base = ''Response'', API_KEY
     = 1, API_VERSION = 11, FLEXIBLE_VERSION = False, SCHEMA = Schema_of [(''throttle_time_ms'',
     Int32), (''error_code'', Int16), (''session_id'', Int32), (''topics'', Array (Schema_of
     [(''topics'', String), (''partitions'', Array (Schema_of [(''partition'', Int32),
     (''error_code'', Int16), (''highwater_offset'', Int64), (''last_stable_offset'', Int64),
     (''log_start_offset'', Int64), (''aborted_transactions'', Array (Schema_of
     [(''producer_id'', Int64), (''first_offset'', Int64)])), (''preferred_read_replica'',
     Int32), (''records'', Bytes)]))]))]\<rparr>"

definition FetchRequest_v0 :: request_class where
  "FetchRequest_v0 = \<lparr>mc_name = ''FetchRequest_v0'', mc_base = ''Request'', API_KEY = 1,
     API_VERSION = 0, FLEXIBLE_VERSION = False, SCHEMA = Schema_of [(''replica_id'', Int32),
     (''max_wait_time'', Int32), (''min_bytes'', Int32), (''topics'', Array (Schema_of
     [(''topic'', String), (''partitions'', Array (Schema_of [(''partition'', Int32),
     (''offset'', Int64), (''max_bytes'', Int32)]))]))], RESPONSE_TYPE =
     FetchResponse_v0\<rparr>"

definition FetchRequest_v1 :: request_class where
  "FetchRequest_v1 = \<lparr>mc_name = ''FetchRequest_v1'', mc_base = ''Request'', API_KEY = 1,
     API_VERSION = 1, FLEXIBLE_VERSION = False, SCHEMA = SCHEMA FetchRequest_v0, RESPONSE_TYPE =
     FetchResponse_v1\<rparr>"

definition FetchRequest_v2 :: request_class where
  "FetchRequest_v2 = \<lparr>mc_name = ''FetchRequest_v2'', mc_base = ''Request'', API_KEY = 1,
     API_VERSION = 2, FLEXIBLE_VERSION = False, SCHEMA = SCHEMA FetchRequest_v1, RESPONSE_TYPE =
     FetchResponse_v2\<rparr>"

definition FetchRequest_v3 :: request_class where
  "FetchRequest_v3 = \<lparr>mc_name = ''FetchRequest_v3'', mc_base = ''Request'', API_KEY = 1,
     API_VERSION = 3, FLEXIBLE_VERSION = False, SCHEMA = Schema_of [(''replica_id'', Int32),
     (''max_wait_time'', Int32), (''min_bytes'', Int32), (''max_bytes'', Int32), (''topics'',
     Array (Schema_of [(''topic'', String), (''partitions'', Array (Schema_of [(''partition'',
     Int32), (''offset'', Int64), (''max_bytes'', Int32)]))]))], RESPONSE_TYPE =
     FetchResponse_v3\<rparr>"

definition FetchRequest_v4 :: request_class where
  "FetchRequest_v4 = \<lparr>mc_name = ''FetchRequest_v4'', mc_base = ''Request'', API_KEY = 1,
     API_VERSION = 4, FLEXIBLE_VERSION = False, SCHEMA = Schema_of [(''replica_id'', Int32),
     (''max_wait_time'', Int32), (''min_bytes'', Int32), (''max_bytes'', Int32),
     (''isolation_level'', Int8), (''topics'', Array (Schema_of [(''topic'', String),
     (''partitions'', Array (Schema_of [(''partition'', Int32), (''offset'', Int64),
     (''max_bytes'', Int32)]))]))], RESPONSE_TYPE = FetchResponse_v4\<rparr>"

definition FetchRequest_v5 :: request_class where
  "FetchRequest_v5 = \<lparr>mc_name = ''FetchRequest_v5'', mc_base = ''Request'', API_KEY = 1,
     API_VERSION = 5, FLEXIBLE_VERSION = False, SCHEMA = Schema_of [(''replica_id'', Int32),
     (''max_wait_time'', Int32), (''min_bytes'', Int32), (''max_bytes'', Int32),
     (''isolation_level'', Int8), (''topics'', Array (Schema_of [(''topic'', String),
     (''partitions'', Array (Schema_of [(''partition'', Int32), (''fetch_offset'', Int64),
     (''log_start_offset'', Int64), (''max_bytes'', Int32)]))]))], RESPONSE_TYPE =
     FetchResponse_v5\<rparr>"

definition FetchRequest_v6 :: request_class where
  "FetchRequest_v6 = \<lparr>mc_name = ''FetchRequest_v6'', mc_base = ''Request'', API_KEY = 1,
     API_VERSION = 6, FLEXIBLE_VERSION = False, SCHEMA = SCHEMA FetchRequest_v5, RESPONSE_TYPE =
     FetchResponse_v6\<rparr>"

definition FetchRequest_v7 :: request_class where
  "FetchRequest_v7 = \<lparr>mc_name = ''FetchRequest_v7'', mc_base = ''Request'', API_KEY = 1,
     API_VERSION = 7, FLEXIBLE_VERSION = False, SCHEMA = Schema_of [(''replica_id'', Int32),
     (''max_wait_time'', Int32), (''min_bytes'', Int32), (''max_bytes'', Int32),
     (''isolation_level'', Int8), (''session_id'', Int32), (''session_epoch'', Int32),
     (''topics'', Array (Schema_of [(''topic'', String), (''partitions'', Array (Schema_of
     [(''partition'', Int32), (''fetch_offset'', Int64), (''log_start_offset'', Int64),
     (''max_bytes'', Int32)]))])), (''forgotten_topics_data'', Array (Schema_of [(''topic'',
     String), (''partitions'', Array Int32)]))], RESPONSE_TYPE = FetchResponse_v7\<rparr>"

definition FetchRequest_v8 :: request_class where
  "FetchRequest_v8 = \<lparr>mc_name = ''FetchRequest_v8'', mc_base = ''Request'', API_KEY = 1,
     API_VERSION = 8, FLEXIBLE_VERSION = False, SCHEMA = SCHEMA FetchRequest_v7, RESPONSE_TYPE =
     FetchResponse_v8\<rparr>"

definition FetchRequest_v9 :: request_class where
  "FetchRequest_v9 = \<lparr>mc_name = ''FetchRequest_v9'', mc_base = ''Request'', API_KEY = 1,
     API_VERSION = 9, FLEXIBLE_VERSION = False, SCHEMA = Schema_of [(''replica_id'', Int32),
     (''max_wait_time'', Int32), (''min_bytes'', Int32), (''max_bytes'', Int32),
     (''isolation_level'', Int8), (''session_id'', Int32), (''session_epoch'', Int32),
     (''topics'', Array (Schema_of [(''topic'', String), (''partitions'', Array (Schema_of
     [(''partition'', Int32), (''current_leader_epoch'', Int32), (''fetch_offset'', Int64),
     (''log_start_offset'', Int64), (''max_bytes'', Int32)]))])), (''forgotten_topics_data'',
     Array (Schema_of [(''topic'', String), (''partitions'', Array Int32)]))], RESPONSE_TYPE =
     FetchResponse_v9\<rparr>"

definition FetchRequest_v10 :: request_class where
  "FetchRequest_v10 = \<lparr>mc_name = ''FetchRequest_v10'', mc_base = ''Request'', API_KEY =
     1, API_VERSION = 10, FLEXIBLE_VERSION = False, SCHEMA = SCHEMA FetchRequest_v9,
     RESPONSE_TYPE = FetchResponse_v10\<rparr>"

definition FetchRequest_v11 :: request_class where
  "FetchRequest_v11 = \<lparr>mc_name = ''FetchRequest_v11'', mc_base = ''Request'', API_KEY =
     1, API_VERSION = 11, FLEXIBLE_VERSION = False, SCHEMA = Schema_of [(''replica_id'', Int32),
     (''max_wait_time'', Int32), (''min_bytes'', Int32), (''max_bytes'', Int32),
     (''isolation_level'', Int8), (''session_id'', Int32), (''session_epoch'', Int32),
     (''topics'', Array (Schema_of [(''topic'', String), (''partitions'', Array (Schema_of
     [(''partition'', Int32), (''current_leader_epoch'', Int32), (''fetch_offset'', Int64),
     (''log_start_offset'', Int64), (''max_bytes'', Int32)]))])), (''forgotten_topics_data'',
     Array (Schema_of [(''topic'', String), (''partitions'', Array Int32)])), (''rack_id'',
     String)], RESPONSE_TYPE = FetchResponse_v11\<rparr>"

definition FetchRequest :: "request_class list" where
  "FetchRequest = [FetchRequest_v0, FetchRequest_v1, FetchRequest_v2, FetchRequest_v3,
     FetchRequest_v4, FetchRequest_v5, FetchRequest_v6, FetchRequest_v7, FetchRequest_v8,
     FetchRequest_v9, FetchRequest_v10, FetchRequest_v11]"

definition FetchResponse :: "message_class list" where
  "FetchResponse = [FetchResponse_v0, FetchResponse_v1, FetchResponse_v2, FetchResponse_v3,
     FetchResponse_v4, FetchResponse_v5, FetchResponse_v6, FetchResponse_v7, FetchResponse_v8,
     FetchResponse_v9, FetchResponse_v10, FetchResponse_v11]"

section \<open>\<^verbatim>\<open>list_offsets.py\<close>\<close>

definition ListOffsetsResponse_v0 :: message_class where
  "ListOffsetsResponse_v0 = \<lparr>mc_name = ''ListOffsetsResponse_v0'', mc_base =
     ''Response'', API_KEY = 2, API_VERSION = 0, FLEXIBLE_VERSION = False, SCHEMA = Schema_of
     [(''topics'', Array (Schema_of [(''topic'', String), (''partitions'', Array (Schema_of
     [(''partition'', Int32), (''error_code'', Int16), (''offsets'', Array
     Int64)]))]))]\<rparr>"

definition ListOffsetsResponse_v1 :: message_class where
  "ListOffsetsResponse_v1 = \<lparr>mc_name = ''ListOffsetsResponse_v1'', mc_base =
     ''Response'', API_KEY = 2, API_VERSION = 1, FLEXIBLE_VERSION = False, SCHEMA = Schema_of
     [(''topics'', Array (Schema_of [(''topic'', String), (''partitions'', Array (Schema_of
     [(''partition'', Int32), (''error_code'', Int16), (''timestamp'', Int64), (''offset'',
     Int64)]))]))]\<rparr>"

definition ListOffsetsResponse_v2 :: message_class where
  "ListOffsetsResponse_v2 = \<lparr>mc_name = ''ListOffsetsResponse_v2'', mc_base =
     ''Response'', API_KEY = 2, API_VERSION = 2, FLEXIBLE_VERSION = False, SCHEMA = Schema_of
     [(''throttle_time_ms'', Int32), (''topics'', Array (Schema_of [(''topic'', String),
     (''partitions'', Array (Schema_of [(''partition'', Int32), (''error_code'', Int16),
     (''timestamp'', Int64), (''offset'', Int64)]))]))]\<rparr>"

definition ListOffsetsResponse_v3 :: message_class where
  "ListOffsetsResponse_v3 = \<lparr>mc_name = ''ListOffsetsResponse_v3'', mc_base =
     ''Response'', API_KEY = 2, API_VERSION = 3, FLEXIBLE_VERSION = False, SCHEMA = SCHEMA
     ListOffsetsResponse_v2\<rparr>"

definition ListOffsetsResponse_v4 :: message_class where
  "ListOffsetsResponse_v4 = \<lparr>mc_name = ''ListOffsetsResponse_v4'', mc_base =
     ''Response'', API_KEY = 2, API_VERSION = 4, FLEXIBLE_VERSION = False, SCHEMA = Schema_of
     [(''throttle_time_ms'', Int32), (''topics'', Array (Schema_of [(''topic'', String),
     (''partitions'', Array (Schema_of [(''partition'', Int32), (''error_code'', Int16),
     (''timestamp'', Int64), (''offset'', Int64), (''leader_epoch'', Int32)]))]))]\<rparr>"

definition ListOffsetsResponse_v5 :: message_class where
  "ListOffsetsResponse_v5 = \<lparr>mc_name = ''ListOffsetsResponse_v5'', mc_base =
     ''Response'', API_KEY = 2, API_VERSION = 5, FLEXIBLE_VERSION = False, SCHEMA = SCHEMA
     ListOffsetsResponse_v4\<rparr>"

definition ListOffsetsRequest_v0 :: request_class where
  "ListOffsetsRequest_v0 = \<lparr>mc_name = ''ListOffsetsRequest_v0'', mc_base = ''Request'',
     API_KEY = 2, API_VERSION = 0, FLEXIBLE_VERSION = False, SCHEMA = Schema_of
     [(''replica_id'', Int32), (''topics'', Array (Schema_of [(''topic'', String),
     (''partitions'', Array (Schema_of [(''partition'', Int32), (''timestamp'', Int64),
     (''max_offsets'', Int32)]))]))], RESPONSE_TYPE = ListOffsetsResponse_v0\<rparr>"

definition ListOffsetsRequest_v1 :: request_class where
  "ListOffsetsRequest_v1 = \<lparr>mc_name = ''ListOffsetsRequest_v1'', mc_base = ''Request'',
     API_KEY = 2, API_VERSION = 1, FLEXIBLE_VERSION = False, SCHEMA = Schema_of
     [(''replica_id'', Int32), (''topics'', Array (Schema_of [(''topic'', String),
     (''partitions'', Array (Schema_of [(''partition'', Int32), (''timestamp'', Int64)]))]))],
     RESPONSE_TYPE = ListOffsetsResponse_v1\<rparr>"

definition ListOffsetsRequest_v2 :: request_class where
  "ListOffsetsRequest_v2 = \<lparr>mc_name = ''ListOffsetsRequest_v2'', mc_base = ''Request'',
     API_KEY = 2, API_VERSION = 2, FLEXIBLE_VERSION = False, SCHEMA = Schema_of
     [(''replica_id'', Int32), (''isolation_level'', Int8), (''topics'', Array (Schema_of
     [(''topic'', String), (''partitions'', Array (Schema_of [(''partition'', Int32),
     (''timestamp'', Int64)]))]))], RESPONSE_TYPE = ListOffsetsResponse_v2\<rparr>"

definition ListOffsetsRequest_v3 :: request_class where
  "ListOffsetsRequest_v3 = \<lparr>mc_name = ''ListOffsetsRequest_v3'', mc_base = ''Request'',
     API_KEY = 2, API_VERSION = 3, FLEXIBLE_VERSION = False, SCHEMA = SCHEMA
     ListOffsetsRequest_v2, RESPONSE_TYPE = ListOffsetsResponse_v3\<rparr>"

definition ListOffsetsRequest_v4 :: request_class where
  "ListOffsetsRequest_v4 = \<lparr>mc_name = ''ListOffsetsRequest_v4'', mc_base = ''Request'',
     API_KEY = 2, API_VERSION = 4, FLEXIBLE_VERSION = False, SCHEMA = Schema_of
     [(''replica_id'', Int32), (''isolation_level'', Int8), (''topics'', Array (Schema_of
     [(''topic'', String), (''partitions'', Array (Schema_of [(''partition'', Int32),
     (''current_leader_epoch'', Int32), (''timestamp'', Int64)]))]))], RESPONSE_TYPE =
     ListOffsetsResponse_v4\<rparr>"

definition ListOffsetsRequest_v5 :: request_class where
  "ListOffsetsRequest_v5 = \<lparr>mc_name = ''ListOffsetsRequest_v5'', mc_base = ''Request'',
     API_KEY = 2, API_VERSION = 5, FLEXIBLE_VERSION = False, SCHEMA = SCHEMA
     ListOffsetsRequest_v4, RESPONSE_TYPE = ListOffsetsResponse_v5\<rparr>"

definition ListOffsetsRequest :: "request_class list" where
  "ListOffsetsRequest = [ListOffsetsRequest_v0, ListOffsetsRequest_v1, ListOffsetsRequest_v2,
     ListOffsetsRequest_v3, ListOffsetsRequest_v4, ListOffsetsRequest_v5]"

definition ListOffsetsResponse :: "message_class list" where
  "ListOffsetsResponse = [ListOffsetsResponse_v0, ListOffsetsResponse_v1,
     ListOffsetsResponse_v2, ListOffsetsResponse_v3, ListOffsetsResponse_v4,
     ListOffsetsResponse_v5]"

section \<open>\<^verbatim>\<open>metadata.py\<close>\<close>

definition MetadataResponse_v0 :: message_class where
  "MetadataResponse_v0 = \<lparr>mc_name = ''MetadataResponse_v0'', mc_base = ''Response'',
     API_KEY = 3, API_VERSION = 0, FLEXIBLE_VERSION = False, SCHEMA = Schema_of [(''brokers'',
     Array (Schema_of [(''node_id'', Int32), (''host'', String), (''port'', Int32)])),
     (''topics'', Array (Schema_of [(''error_code'', Int16), (''topic'', String),
     (''partitions'', Array (Schema_of [(''error_code'', Int16), (''partition'', Int32),
     (''leader'', Int32), (''replicas'', Array Int32), (''isr'', Array Int32)]))]))]\<rparr>"

definition MetadataResponse_v1 :: message_class where
  "MetadataResponse_v1 = \<lparr>mc_name = ''MetadataResponse_v1'', mc_base = ''Response'',
     API_KEY = 3, API_VERSION = 1, FLEXIBLE_VERSION = False, SCHEMA = Schema_of [(''brokers'',
     Array (Schema_of [(''node_id'', Int32), (''host'', String), (''port'', Int32), (''rack'',
     String)])), (''controller_id'', Int32), (''topics'', Array (Schema_of [(''error_code'',
     Int16), (''topic'', String), (''is_internal'', Boolean), (''partitions'', Array (Schema_of
     [(''error_code'', Int16), (''partition'', Int32), (''leader'', Int32), (''replicas'', Array
     Int32), (''isr'', Array Int32)]))]))]\<rparr>"

definition MetadataResponse_v2 :: message_class where
  "MetadataResponse_v2 = \<lparr>mc_name = ''MetadataResponse_v2'', mc_base = ''Response'',
     API_KEY = 3, API_VERSION = 2, FLEXIBLE_VERSION = False, SCHEMA = Schema_of [(''brokers'',
     Array (Schema_of [(''node_id'', Int32), (''host'', String), (''port'', Int32), (''rack'',
     String)])), (''cluster_id'', String), (''controller_id'', Int32), (''topics'', Array
     (Schema_of [(''error_code'', Int16), (''topic'', String), (''is_internal'', Boolean),
     (''partitions'', Array (Schema_of [(''error_code'', Int16), (''partition'', Int32),
     (''leader'', Int32), (''replicas'', Array Int32), (''isr'', Array Int32)]))]))]\<rparr>"

definition MetadataResponse_v3 :: message_class where
  "MetadataResponse_v3 = \<lparr>mc_name = ''MetadataResponse_v3'', mc_base = ''Response'',
     API_KEY = 3, API_VERSION = 3, FLEXIBLE_VERSION = False, SCHEMA = Schema_of
     [(''throttle_time_ms'', Int32), (''brokers'', Array (Schema_of [(''node_id'', Int32),
     (''host'', String), (''port'', Int32), (''rack'', String)])), (''cluster_id'', String),
     (''controller_id'', Int32), (''topics'', Array (Schema_of [(''error_code'', Int16),
     (''topic'', String), (''is_internal'', Boolean), (''partitions'', Array (Schema_of
     [(''error_code'', Int16), (''partition'', Int32), (''leader'', Int32), (''replicas'', Array
     Int32), (''isr'', Array Int32)]))]))]\<rparr>"

definition MetadataResponse_v4 :: message_class where
  "MetadataResponse_v4 = \<lparr>mc_name = ''MetadataResponse_v4'', mc_base = ''Response'',
     API_KEY = 3, API_VERSION = 4, FLEXIBLE_VERSION = False, SCHEMA = SCHEMA
     MetadataResponse_v3\<rparr>"

definition MetadataResponse_v5 :: message_class where
  "MetadataResponse_v5 = \<lparr>mc_name = ''MetadataResponse_v5'', mc_base = ''Response'',
     API_KEY = 3, API_VERSION = 5, FLEXIBLE_VERSION = False, SCHEMA = Schema_of
     [(''throttle_time_ms'', Int32), (''brokers'', Array (Schema_of [(''node_id'', Int32),
     (''host'', String), (''port'', Int32), (''rack'', String)])), (''cluster_id'', String),
     (''controller_id'', Int32), (''topics'', Array (Schema_of [(''error_code'', Int16),
     (''topic'', String), (''is_internal'', Boolean), (''partitions'', Array (Schema_of
     [(''error_code'', Int16), (''partition'', Int32), (''leader'', Int32), (''replicas'', Array
     Int32), (''isr'', Array Int32), (''offline_replicas'', Array Int32)]))]))]\<rparr>"

definition MetadataResponse_v6 :: message_class where
  "MetadataResponse_v6 = \<lparr>mc_name = ''MetadataResponse_v6'', mc_base = ''Response'',
     API_KEY = 3, API_VERSION = 6, FLEXIBLE_VERSION = False, SCHEMA = SCHEMA
     MetadataResponse_v5\<rparr>"

definition MetadataResponse_v7 :: message_class where
  "MetadataResponse_v7 = \<lparr>mc_name = ''MetadataResponse_v7'', mc_base = ''Response'',
     API_KEY = 3, API_VERSION = 7, FLEXIBLE_VERSION = False, SCHEMA = Schema_of
     [(''throttle_time_ms'', Int32), (''brokers'', Array (Schema_of [(''node_id'', Int32),
     (''host'', String), (''port'', Int32), (''rack'', String)])), (''cluster_id'', String),
     (''controller_id'', Int32), (''topics'', Array (Schema_of [(''error_code'', Int16),
     (''topic'', String), (''is_internal'', Boolean), (''partitions'', Array (Schema_of
     [(''error_code'', Int16), (''partition'', Int32), (''leader'', Int32), (''leader_epoch'',
     Int32), (''replicas'', Array Int32), (''isr'', Array Int32), (''offline_replicas'', Array
     Int32)]))]))]\<rparr>"

definition MetadataRequest_v0 :: request_class where
  "MetadataRequest_v0 = \<lparr>mc_name = ''MetadataRequest_v0'', mc_base = ''Request'', API_KEY
     = 3, API_VERSION = 0, FLEXIBLE_VERSION = False, SCHEMA = Schema_of [(''topics'', Array
     String)], RESPONSE_TYPE = MetadataResponse_v0\<rparr>"

definition MetadataRequest_v1 :: request_class where
  "MetadataRequest_v1 = \<lparr>mc_name = ''MetadataRequest_v1'', mc_base = ''Request'', API_KEY
     = 3, API_VERSION = 1, FLEXIBLE_VERSION = False, SCHEMA = SCHEMA MetadataRequest_v0,
     RESPONSE_TYPE = MetadataResponse_v1\<rparr>"

definition MetadataRequest_v2 :: request_class where
  "MetadataRequest_v2 = \<lparr>mc_name = ''MetadataRequest_v2'', mc_base = ''Request'', API_KEY
     = 3, API_VERSION = 2, FLEXIBLE_VERSION = False, SCHEMA = SCHEMA MetadataRequest_v1,
     RESPONSE_TYPE = MetadataResponse_v2\<rparr>"

definition MetadataRequest_v3 :: request_class where
  "MetadataRequest_v3 = \<lparr>mc_name = ''MetadataRequest_v3'', mc_base = ''Request'', API_KEY
     = 3, API_VERSION = 3, FLEXIBLE_VERSION = False, SCHEMA = SCHEMA MetadataRequest_v1,
     RESPONSE_TYPE = MetadataResponse_v3\<rparr>"

definition MetadataRequest_v4 :: request_class where
  "MetadataRequest_v4 = \<lparr>mc_name = ''MetadataRequest_v4'', mc_base = ''Request'', API_KEY
     = 3, API_VERSION = 4, FLEXIBLE_VERSION = False, SCHEMA = Schema_of [(''topics'', Array
     String), (''allow_auto_topic_creation'', Boolean)], RESPONSE_TYPE =
     MetadataResponse_v4\<rparr>"

definition MetadataRequest_v5 :: request_class where
  "MetadataRequest_v5 = \<lparr>mc_name = ''MetadataRequest_v5'', mc_base = ''Request'', API_KEY
     = 3, API_VERSION = 5, FLEXIBLE_VERSION = False, SCHEMA = SCHEMA MetadataRequest_v4,
     RESPONSE_TYPE = MetadataResponse_v5\<rparr>"

definition MetadataRequest_v6 :: request_class where
  "MetadataRequest_v6 = \<lparr>mc_name = ''MetadataRequest_v6'', mc_base = ''Request'', API_KEY
     = 3, API_VERSION = 6, FLEXIBLE_VERSION = False, SCHEMA = SCHEMA MetadataRequest_v5,
     RESPONSE_TYPE = MetadataResponse_v6\<rparr>"

definition MetadataRequest_v7 :: request_class where
  "MetadataRequest_v7 = \<lparr>mc_name = ''MetadataRequest_v7'', mc_base = ''Request'', API_KEY
     = 3, API_VERSION = 7, FLEXIBLE_VERSION = False, SCHEMA = SCHEMA MetadataRequest_v6,
     RESPONSE_TYPE = MetadataResponse_v7\<rparr>"

definition MetadataRequest :: "request_class list" where
  "MetadataRequest = [MetadataRequest_v0, MetadataRequest_v1, MetadataRequest_v2,
     MetadataRequest_v3, MetadataRequest_v4, MetadataRequest_v5, MetadataRequest_v6,
     MetadataRequest_v7]"

definition MetadataResponse :: "message_class list" where
  "MetadataResponse = [MetadataResponse_v0, MetadataResponse_v1, MetadataResponse_v2,
     MetadataResponse_v3, MetadataResponse_v4, MetadataResponse_v5, MetadataResponse_v6,
     MetadataResponse_v7]"

section \<open>\<^verbatim>\<open>commit.py\<close>\<close>

definition OffsetCommitResponse_v0 :: message_class where
  "OffsetCommitResponse_v0 = \<lparr>mc_name = ''OffsetCommitResponse_v0'', mc_base =
     ''Response'', API_KEY = 8, API_VERSION = 0, FLEXIBLE_VERSION = False, SCHEMA = Schema_of
     [(''topics'', Array (Schema_of [(''topic'', String), (''partitions'', Array (Schema_of
     [(''partition'', Int32), (''error_code'', Int16)]))]))]\<rparr>"

definition OffsetCommitResponse_v1 :: message_class where
  "OffsetCommitResponse_v1 = \<lparr>mc_name = ''OffsetCommitResponse_v1'', mc_base =
     ''Response'', API_KEY = 8, API_VERSION = 1, FLEXIBLE_VERSION = False, SCHEMA = SCHEMA
     OffsetCommitResponse_v0\<rparr>"

definition OffsetCommitResponse_v2 :: message_class where
  "OffsetCommitResponse_v2 = \<lparr>mc_name = ''OffsetCommitResponse_v2'', mc_base =
     ''Response'', API_KEY = 8, API_VERSION = 2, FLEXIBLE_VERSION = False, SCHEMA = SCHEMA
     OffsetCommitResponse_v1\<rparr>"

definition OffsetCommitResponse_v3 :: message_class where
  "OffsetCommitResponse_v3 = \<lparr>mc_name = ''OffsetCommitResponse_v3'', mc_base =
     ''Response'', API_KEY = 8, API_VERSION = 3, FLEXIBLE_VERSION = False, SCHEMA = Schema_of
     [(''throttle_time_ms'', Int32), (''topics'', Array (Schema_of [(''topic'', String),
     (''partitions'', Array (Schema_of [(''partition'', Int32), (''error_code'',
     Int16)]))]))]\<rparr>"

definition OffsetCommitResponse_v4 :: message_class where
  "OffsetCommitResponse_v4 = \<lparr>mc_name = ''OffsetCommitResponse_v4'', mc_base =
     ''Response'', API_KEY = 8, API_VERSION = 4, FLEXIBLE_VERSION = False, SCHEMA = SCHEMA
     OffsetCommitResponse_v3\<rparr>"

definition OffsetCommitResponse_v5 :: message_class where
  "OffsetCommitResponse_v5 = \<lparr>mc_name = ''OffsetCommitResponse_v5'', mc_base =
     ''Response'', API_KEY = 8, API_VERSION = 5, FLEXIBLE_VERSION = False, SCHEMA = SCHEMA
     OffsetCommitResponse_v4\<rparr>"

definition OffsetCommitResponse_v6 :: message_class where
  "OffsetCommitResponse_v6 = \<lparr>mc_name = ''OffsetCommitResponse_v6'', mc_base =
     ''Response'', API_KEY = 8, API_VERSION = 6, FLEXIBLE_VERSION = False, SCHEMA = SCHEMA
     OffsetCommitResponse_v5\<rparr>"

definition OffsetCommitRequest_v0 :: request_class where
  "OffsetCommitRequest_v0 = \<lparr>mc_name = ''OffsetCommitRequest_v0'', mc_base = ''Request'',
     API_KEY = 8, API_VERSION = 0, FLEXIBLE_VERSION = False, SCHEMA = Schema_of
     [(''consumer_group'', String), (''topics'', Array (Schema_of [(''topic'', String),
     (''partitions'', Array (Schema_of [(''partition'', Int32), (''offset'', Int64),
     (''metadata'', String)]))]))], RESPONSE_TYPE = OffsetCommitResponse_v0\<rparr>"

definition OffsetCommitRequest_v1 :: request_class where
  "OffsetCommitRequest_v1 = \<lparr>mc_name = ''OffsetCommitRequest_v1'', mc_base = ''Request'',
     API_KEY = 8, API_VERSION = 1, FLEXIBLE_VERSION = False, SCHEMA = Schema_of
     [(''consumer_group'', String), (''consumer_group_generation_id'', Int32), (''consumer_id'',
     String), (''topics'', Array (Schema_of [(''topic'', String), (''partitions'', Array
     (Schema_of [(''partition'', Int32), (''offset'', Int64), (''timestamp'', Int64),
     (''metadata'', String)]))]))], RESPONSE_TYPE = OffsetCommitResponse_v1\<rparr>"

definition OffsetCommitRequest_v2 :: request_class where
  "OffsetCommitRequest_v2 = \<lparr>mc_name = ''OffsetCommitRequest_v2'', mc_base = ''Request'',
     API_KEY = 8, API_VERSION = 2, FLEXIBLE_VERSION = False, SCHEMA = Schema_of
     [(''consumer_group'', String), (''consumer_group_generation_id'', Int32), (''consumer_id'',
     String), (''retention_time'', Int64), (''topics'', Array (Schema_of [(''topic'', String),
     (''partitions'', Array (Schema_of [(''partition'', Int32), (''offset'', Int64),
     (''metadata'', String)]))]))], RESPONSE_TYPE = OffsetCommitResponse_v2\<rparr>"

definition OffsetCommitRequest_v3 :: request_class where
  "OffsetCommitRequest_v3 = \<lparr>mc_name = ''OffsetCommitRequest_v3'', mc_base = ''Request'',
     API_KEY = 8, API_VERSION = 3, FLEXIBLE_VERSION = False, SCHEMA = SCHEMA
     OffsetCommitRequest_v2, RESPONSE_TYPE = OffsetCommitResponse_v3\<rparr>"

definition OffsetCommitRequest_v4 :: request_class where
  "OffsetCommitRequest_v4 = \<lparr>mc_name = ''OffsetCommitRequest_v4'', mc_base = ''Request'',
     API_KEY = 8, API_VERSION = 4, FLEXIBLE_VERSION = False, SCHEMA = SCHEMA
     OffsetCommitRequest_v3, RESPONSE_TYPE = OffsetCommitResponse_v4\<rparr>"

definition OffsetCommitRequest_v5 :: request_class where
  "OffsetCommitRequest_v5 = \<lparr>mc_name = ''OffsetCommitRequest_v5'', mc_base = ''Request'',
     API_KEY = 8, API_VERSION = 5, FLEXIBLE_VERSION = False, SCHEMA = Schema_of
     [(''consumer_group'', String), (''consumer_group_generation_id'', Int32), (''consumer_id'',
     String), (''topics'', Array (Schema_of [(''topic'', String), (''partitions'', Array
     (Schema_of [(''partition'', Int32), (''offset'', Int64), (''metadata'', String)]))]))],
     RESPONSE_TYPE = OffsetCommitResponse_v5\<rparr>"

definition OffsetCommitRequest_v6 :: request_class where
  "OffsetCommitRequest_v6 = \<lparr>mc_name = ''OffsetCommitRequest_v6'', mc_base = ''Request'',
     API_KEY = 8, API_VERSION = 6, FLEXIBLE_VERSION = False, SCHEMA = Schema_of
     [(''consumer_group'', String), (''consumer_group_generation_id'', Int32), (''consumer_id'',
     String), (''topics'', Array (Schema_of [(''topic'', String), (''partitions'', Array
     (Schema_of [(''partition'', Int32), (''offset'', Int64), (''leader_epoch'', Int32),
     (''metadata'', String)]))]))], RESPONSE_TYPE = OffsetCommitResponse_v6\<rparr>"

definition OffsetCommitRequest :: "request_class list" where
  "OffsetCommitRequest = [OffsetCommitRequest_v0, OffsetCommitRequest_v1,
     OffsetCommitRequest_v2, OffsetCommitRequest_v3, OffsetCommitRequest_v4,
     OffsetCommitRequest_v5, OffsetCommitRequest_v6]"

definition OffsetCommitResponse :: "message_class list" where
  "OffsetCommitResponse = [OffsetCommitResponse_v0, OffsetCommitResponse_v1,
     OffsetCommitResponse_v2, OffsetCommitResponse_v3, OffsetCommitResponse_v4,
     OffsetCommitResponse_v5, OffsetCommitResponse_v6]"

definition OffsetFetchResponse_v0 :: message_class where
  "OffsetFetchResponse_v0 = \<lparr>mc_name = ''OffsetFetchResponse_v0'', mc_base =
     ''Response'', API_KEY = 9, API_VERSION = 0, FLEXIBLE_VERSION = False, SCHEMA = Schema_of
     [(''topics'', Array (Schema_of [(''topic'', String), (''partitions'', Array (Schema_of
     [(''partition'', Int32), (''offset'', Int64), (''metadata'', String), (''error_code'',
     Int16)]))]))]\<rparr>"

definition OffsetFetchResponse_v1 :: message_class where
  "OffsetFetchResponse_v1 = \<lparr>mc_name = ''OffsetFetchResponse_v1'', mc_base =
     ''Response'', API_KEY = 9, API_VERSION = 1, FLEXIBLE_VERSION = False, SCHEMA = SCHEMA
     OffsetFetchResponse_v0\<rparr>"

definition OffsetFetchResponse_v2 :: message_class where
  "OffsetFetchResponse_v2 = \<lparr>mc_name = ''OffsetFetchResponse_v2'', mc_base =
     ''Response'', API_KEY = 9, API_VERSION = 2, FLEXIBLE_VERSION = False, SCHEMA = Schema_of
     [(''topics'', Array (Schema_of [(''topic'', String), (''partitions'', Array (Schema_of
     [(''partition'', Int32), (''offset'', Int64), (''metadata'', String), (''error_code'',
     Int16)]))])), (''error_code'', Int16)]\<rparr>"

definition OffsetFetchResponse_v3 :: message_class where
  "OffsetFetchResponse_v3 = \<lparr>mc_name = ''OffsetFetchResponse_v3'', mc_base =
     ''Response'', API_KEY = 9, API_VERSION = 3, FLEXIBLE_VERSION = False, SCHEMA = Schema_of
     [(''throttle_time_ms'', Int32), (''topics'', Array (Schema_of [(''topic'', String),
     (''partitions'', Array (Schema_of [(''partition'', Int32), (''offset'', Int64),
     (''metadata'', String), (''error_code'', Int16)]))])), (''error_code'', Int16)]\<rparr>"

definition OffsetFetchResponse_v4 :: message_class where
  "OffsetFetchResponse_v4 = \<lparr>mc_name = ''OffsetFetchResponse_v4'', mc_base =
     ''Response'', API_KEY = 9, API_VERSION = 4, FLEXIBLE_VERSION = False, SCHEMA = SCHEMA
     OffsetFetchResponse_v3\<rparr>"

definition OffsetFetchResponse_v5 :: message_class where
  "OffsetFetchResponse_v5 = \<lparr>mc_name = ''OffsetFetchResponse_v5'', mc_base =
     ''Response'', API_KEY = 9, API_VERSION = 5, FLEXIBLE_VERSION = False, SCHEMA = Schema_of
     [(''throttle_time_ms'', Int32), (''topics'', Array (Schema_of [(''topic'', String),
     (''partitions'', Array (Schema_of [(''partition'', Int32), (''offset'', Int64),
     (''leader_epoch'', Int32), (''metadata'', String), (''error_code'', Int16)]))])),
     (''error_code'', Int16)]\<rparr>"

definition OffsetFetchRequest_v0 :: request_class where
  "OffsetFetchRequest_v0 = \<lparr>mc_name = ''OffsetFetchRequest_v0'', mc_base = ''Request'',
     API_KEY = 9, API_VERSION = 0, FLEXIBLE_VERSION = False, SCHEMA = Schema_of
     [(''consumer_group'', String), (''topics'', Array (Schema_of [(''topic'', String),
     (''partitions'', Array Int32)]))], RESPONSE_TYPE = OffsetFetchResponse_v0\<rparr>"

definition OffsetFetchRequest_v1 :: request_class where
  "OffsetFetchRequest_v1 = \<lparr>mc_name = ''OffsetFetchRequest_v1'', mc_base = ''Request'',
     API_KEY = 9, API_VERSION = 1, FLEXIBLE_VERSION = False, SCHEMA = SCHEMA
     OffsetFetchRequest_v0, RESPONSE_TYPE = OffsetFetchResponse_v1\<rparr>"

definition OffsetFetchRequest_v2 :: request_class where
  "OffsetFetchRequest_v2 = \<lparr>mc_name = ''OffsetFetchRequest_v2'', mc_base = ''Request'',
     API_KEY = 9, API_VERSION = 2, FLEXIBLE_VERSION = False, SCHEMA = SCHEMA
     OffsetFetchRequest_v1, RESPONSE_TYPE = OffsetFetchResponse_v2\<rparr>"

definition OffsetFetchRequest_v3 :: request_class where
  "OffsetFetchRequest_v3 = \<lparr>mc_name = ''OffsetFetchRequest_v3'', mc_base = ''Request'',
     API_KEY = 9, API_VERSION = 3, FLEXIBLE_VERSION = False, SCHEMA = SCHEMA
     OffsetFetchRequest_v2, RESPONSE_TYPE = OffsetFetchResponse_v3\<rparr>"

definition OffsetFetchRequest_v4 :: request_class where
  "OffsetFetchRequest_v4 = \<lparr>mc_name = ''OffsetFetchRequest_v4'', mc_base = ''Request'',
     API_KEY = 9, API_VERSION = 4, FLEXIBLE_VERSION = False, SCHEMA = SCHEMA
     OffsetFetchRequest_v3, RESPONSE_TYPE = OffsetFetchResponse_v4\<rparr>"

definition OffsetFetchRequest_v5 :: request_class where
  "OffsetFetchRequest_v5 = \<lparr>mc_name = ''OffsetFetchRequest_v5'', mc_base = ''Request'',
     API_KEY = 9, API_VERSION = 5, FLEXIBLE_VERSION = False, SCHEMA = SCHEMA
     OffsetFetchRequest_v4, RESPONSE_TYPE = OffsetFetchResponse_v5\<rparr>"

definition OffsetFetchRequest :: "request_class list" where
  "OffsetFetchRequest = [OffsetFetchRequest_v0, OffsetFetchRequest_v1, OffsetFetchRequest_v2,
     OffsetFetchRequest_v3, OffsetFetchRequest_v4, OffsetFetchRequest_v5]"

definition OffsetFetchResponse :: "message_class list" where
  "OffsetFetchResponse = [OffsetFetchResponse_v0, OffsetFetchResponse_v1,
     OffsetFetchResponse_v2, OffsetFetchResponse_v3, OffsetFetchResponse_v4,
     OffsetFetchResponse_v5]"

section \<open>\<^verbatim>\<open>group.py\<close>\<close>

definition JoinGroupResponse_v0 :: message_class where
  "JoinGroupResponse_v0 = \<lparr>mc_name = ''JoinGroupResponse_v0'', mc_base = ''Response'',
     API_KEY = 11, API_VERSION = 0, FLEXIBLE_VERSION = False, SCHEMA = Schema_of
     [(''error_code'', Int16), (''generation_id'', Int32), (''group_protocol'', String),
     (''leader_id'', String), (''member_id'', String), (''members'', Array (Schema_of
     [(''member_id'', String), (''member_metadata'', Bytes)]))]\<rparr>"

definition JoinGroupResponse_v1 :: message_class where
  "JoinGroupResponse_v1 = \<lparr>mc_name = ''JoinGroupResponse_v1'', mc_base = ''Response'',
     API_KEY = 11, API_VERSION = 1, FLEXIBLE_VERSION = False, SCHEMA = SCHEMA
     JoinGroupResponse_v0\<rparr>"

definition JoinGroupResponse_v2 :: message_class where
  "JoinGroupResponse_v2 = \<lparr>mc_name = ''JoinGroupResponse_v2'', mc_base = ''Response'',
     API_KEY = 11, API_VERSION = 2, FLEXIBLE_VERSION = False, SCHEMA = Schema_of
     [(''throttle_time_ms'', Int32), (''error_code'', Int16), (''generation_id'', Int32),
     (''group_protocol'', String), (''leader_id'', String), (''member_id'', String),
     (''members'', Array (Schema_of [(''member_id'', String), (''member_metadata'',
     Bytes)]))]\<rparr>"

definition JoinGroupResponse_v3 :: message_class where
  "JoinGroupResponse_v3 = \<lparr>mc_name = ''JoinGroupResponse_v3'', mc_base = ''Response'',
     API_KEY = 11, API_VERSION = 3, FLEXIBLE_VERSION = False, SCHEMA = SCHEMA
     JoinGroupResponse_v2\<rparr>"

definition JoinGroupResponse_v4 :: message_class where
  "JoinGroupResponse_v4 = \<lparr>mc_name = ''JoinGroupResponse_v4'', mc_base = ''Response'',
     API_KEY = 11, API_VERSION = 4, FLEXIBLE_VERSION = False, SCHEMA = SCHEMA
     JoinGroupResponse_v3\<rparr>"

definition JoinGroupRequest_v0 :: request_class where
  "JoinGroupRequest_v0 = \<lparr>mc_name = ''JoinGroupRequest_v0'', mc_base = ''Request'',
     API_KEY = 11, API_VERSION = 0, FLEXIBLE_VERSION = False, SCHEMA = Schema_of [(''group'',
     String), (''session_timeout'', Int32), (''member_id'', String), (''protocol_type'',
     String), (''group_protocols'', Array (Schema_of [(''protocol_name'', String),
     (''protocol_metadata'', Bytes)]))], RESPONSE_TYPE = JoinGroupResponse_v0\<rparr>"

definition JoinGroupRequest_v1 :: request_class where
  "JoinGroupRequest_v1 = \<lparr>mc_name = ''JoinGroupRequest_v1'', mc_base = ''Request'',
     API_KEY = 11, API_VERSION = 1, FLEXIBLE_VERSION = False, SCHEMA = Schema_of [(''group'',
     String), (''session_timeout'', Int32), (''rebalance_timeout'', Int32), (''member_id'',
     String), (''protocol_type'', String), (''group_protocols'', Array (Schema_of
     [(''protocol_name'', String), (''protocol_metadata'', Bytes)]))], RESPONSE_TYPE =
     JoinGroupResponse_v1\<rparr>"

definition JoinGroupRequest_v2 :: request_class where
  "JoinGroupRequest_v2 = \<lparr>mc_name = ''JoinGroupRequest_v2'', mc_base = ''Request'',
     API_KEY = 11, API_VERSION = 2, FLEXIBLE_VERSION = False, SCHEMA = SCHEMA
     JoinGroupRequest_v1, RESPONSE_TYPE = JoinGroupResponse_v2\<rparr>"

definition JoinGroupRequest_v3 :: request_class where
  "JoinGroupRequest_v3 = \<lparr>mc_name = ''JoinGroupRequest_v3'', mc_base = ''Request'',
     API_KEY = 11, API_VERSION = 3, FLEXIBLE_VERSION = False, SCHEMA = SCHEMA
     JoinGroupRequest_v2, RESPONSE_TYPE = JoinGroupResponse_v3\<rparr>"

definition JoinGroupRequest_v4 :: request_class where
  "JoinGroupRequest_v4 = \<lparr>mc_name = ''JoinGroupRequest_v4'', mc_base = ''Request'',
     API_KEY = 11, API_VERSION = 4, FLEXIBLE_VERSION = False, SCHEMA = SCHEMA
     JoinGroupRequest_v3, RESPONSE_TYPE = JoinGroupResponse_v4\<rparr>"

definition JoinGroupRequest :: "request_class list" where
  "JoinGroupRequest = [JoinGroupRequest_v0, JoinGroupRequest_v1, JoinGroupRequest_v2,
     JoinGroupRequest_v3, JoinGroupRequest_v4]"

definition JoinGroupResponse :: "message_class list" where
  "JoinGroupResponse = [JoinGroupResponse_v0, JoinGroupResponse_v1, JoinGroupResponse_v2,
     JoinGroupResponse_v3, JoinGroupResponse_v4]"

definition ProtocolMetadata_SCHEMA :: wire_type where
  "ProtocolMetadata_SCHEMA = Schema_of [(''version'', Int16), (''subscription'', Array String),
     (''user_data'', Bytes)]"

definition SyncGroupResponse_v0 :: message_class where
  "SyncGroupResponse_v0 = \<lparr>mc_name = ''SyncGroupResponse_v0'', mc_base = ''Response'',
     API_KEY = 14, API_VERSION = 0, FLEXIBLE_VERSION = False, SCHEMA = Schema_of
     [(''error_code'', Int16), (''member_assignment'', Bytes)]\<rparr>"

definition SyncGroupResponse_v1 :: message_class where
  "SyncGroupResponse_v1 = \<lparr>mc_name = ''SyncGroupResponse_v1'', mc_base = ''Response'',
     API_KEY = 14, API_VERSION = 1, FLEXIBLE_VERSION = False, SCHEMA = Schema_of
     [(''throttle_time_ms'', Int32), (''error_code'', Int16), (''member_assignment'',
     Bytes)]\<rparr>"

definition SyncGroupResponse_v2 :: message_class where
  "SyncGroupResponse_v2 = \<lparr>mc_name = ''SyncGroupResponse_v2'', mc_base = ''Response'',
     API_KEY = 14, API_VERSION = 2, FLEXIBLE_VERSION = False, SCHEMA = SCHEMA
     SyncGroupResponse_v1\<rparr>"

definition SyncGroupRequest_v0 :: request_class where
  "SyncGroupRequest_v0 = \<lparr>mc_name = ''SyncGroupRequest_v0'', mc_base = ''Request'',
     API_KEY = 14, API_VERSION = 0, FLEXIBLE_VERSION = False, SCHEMA = Schema_of [(''group'',
     String), (''generation_id'', Int32), (''member_id'', String), (''group_assignment'', Array
     (Schema_of [(''member_id'', String), (''member_metadata'', Bytes)]))], RESPONSE_TYPE =
     SyncGroupResponse_v0\<rparr>"

definition SyncGroupRequest_v1 :: request_class where
  "SyncGroupRequest_v1 = \<lparr>mc_name = ''SyncGroupRequest_v1'', mc_base = ''Request'',
     API_KEY = 14, API_VERSION = 1, FLEXIBLE_VERSION = False, SCHEMA = SCHEMA
     SyncGroupRequest_v0, RESPONSE_TYPE = SyncGroupResponse_v1\<rparr>"

definition SyncGroupRequest_v2 :: request_class where
  "SyncGroupRequest_v2 = \<lparr>mc_name = ''SyncGroupRequest_v2'', mc_base = ''Request'',
     API_KEY = 14, API_VERSION = 2, FLEXIBLE_VERSION = False, SCHEMA = SCHEMA
     SyncGroupRequest_v1, RESPONSE_TYPE = SyncGroupResponse_v2\<rparr>"

definition SyncGroupRequest :: "request_class list" where
  "SyncGroupRequest = [SyncGroupRequest_v0, SyncGroupRequest_v1, SyncGroupRequest_v2]"

definition SyncGroupResponse :: "message_class list" where
  "SyncGroupResponse = [SyncGroupResponse_v0, SyncGroupResponse_v1, SyncGroupResponse_v2]"

definition MemberAssignment_SCHEMA :: wire_type where
  "MemberAssignment_SCHEMA = Schema_of [(''version'', Int16), (''assignment'', Array (Schema_of
     [(''topic'', String), (''partitions'', Array Int32)])), (''user_data'', Bytes)]"

definition HeartbeatResponse_v0 :: message_class where
  "HeartbeatResponse_v0 = \<lparr>mc_name = ''HeartbeatResponse_v0'', mc_base = ''Response'',
     API_KEY = 12, API_VERSION = 0, FLEXIBLE_VERSION = False, SCHEMA = Schema_of
     [(''error_code'', Int16)]\<rparr>"

definition HeartbeatResponse_v1 :: message_class where
  "HeartbeatResponse_v1 = \<lparr>mc_name = ''HeartbeatResponse_v1'', mc_base = ''Response'',
     API_KEY = 12, API_VERSION = 1, FLEXIBLE_VERSION = False, SCHEMA = Schema_of
     [(''throttle_time_ms'', Int32), (''error_code'', Int16)]\<rparr>"

definition HeartbeatResponse_v2 :: message_class where
  "HeartbeatResponse_v2 = \<lparr>mc_name = ''HeartbeatResponse_v2'', mc_base = ''Response'',
     API_KEY = 12, API_VERSION = 2, FLEXIBLE_VERSION = False, SCHEMA = SCHEMA
     HeartbeatResponse_v1\<rparr>"

definition HeartbeatRequest_v0 :: request_class where
  "HeartbeatRequest_v0 = \<lparr>mc_name = ''HeartbeatRequest_v0'', mc_base = ''Request'',
     API_KEY = 12, API_VERSION = 0, FLEXIBLE_VERSION = False, SCHEMA = Schema_of [(''group'',
     String), (''generation_id'', Int32), (''member_id'', String)], RESPONSE_TYPE =
     HeartbeatResponse_v0\<rparr>"

definition HeartbeatRequest_v1 :: request_class where
  "HeartbeatRequest_v1 = \<lparr>mc_name = ''HeartbeatRequest_v1'', mc_base = ''Request'',
     API_KEY = 12, API_VERSION = 1, FLEXIBLE_VERSION = False, SCHEMA = SCHEMA
     HeartbeatRequest_v0, RESPONSE_TYPE = HeartbeatResponse_v1\<rparr>"

definition HeartbeatRequest_v2 :: request_class where
  "HeartbeatRequest_v2 = \<lparr>mc_name = ''HeartbeatRequest_v2'', mc_base = ''Request'',
     API_KEY = 12, API_VERSION = 2, FLEXIBLE_VERSION = False, SCHEMA = SCHEMA
     HeartbeatRequest_v1, RESPONSE_TYPE = HeartbeatResponse_v2\<rparr>"

definition HeartbeatRequest :: "request_class list" where
  "HeartbeatRequest = [HeartbeatRequest_v0, HeartbeatRequest_v1, HeartbeatRequest_v2]"

definition HeartbeatResponse :: "message_class list" where
  "HeartbeatResponse = [HeartbeatResponse_v0, HeartbeatResponse_v1, HeartbeatResponse_v2]"

definition LeaveGroupResponse_v0 :: message_class where
  "LeaveGroupResponse_v0 = \<lparr>mc_name = ''LeaveGroupResponse_v0'', mc_base = ''Response'',
     API_KEY = 13, API_VERSION = 0, FLEXIBLE_VERSION = False, SCHEMA = Schema_of
     [(''error_code'', Int16)]\<rparr>"

definition LeaveGroupResponse_v1 :: message_class where
  "LeaveGroupResponse_v1 = \<lparr>mc_name = ''LeaveGroupResponse_v1'', mc_base = ''Response'',
     API_KEY = 13, API_VERSION = 1, FLEXIBLE_VERSION = False, SCHEMA = Schema_of
     [(''throttle_time_ms'', Int32), (''error_code'', Int16)]\<rparr>"

definition LeaveGroupResponse_v2 :: message_class where
  "LeaveGroupResponse_v2 = \<lparr>mc_name = ''LeaveGroupResponse_v2'', mc_base = ''Response'',
     API_KEY = 13, API_VERSION = 2, FLEXIBLE_VERSION = False, SCHEMA = SCHEMA
     LeaveGroupResponse_v1\<rparr>"

definition LeaveGroupRequest_v0 :: request_class where
  "LeaveGroupRequest_v0 = \<lparr>mc_name = ''LeaveGroupRequest_v0'', mc_base = ''Request'',
     API_KEY = 13, API_VERSION = 0, FLEXIBLE_VERSION = False, SCHEMA = Schema_of [(''group'',
     String), (''member_id'', String)], RESPONSE_TYPE = LeaveGroupResponse_v0\<rparr>"

definition LeaveGroupRequest_v1 :: request_class where
  "LeaveGroupRequest_v1 = \<lparr>mc_name = ''LeaveGroupRequest_v1'', mc_base = ''Request'',
     API_KEY = 13, API_VERSION = 1, FLEXIBLE_VERSION = False, SCHEMA = SCHEMA
     LeaveGroupRequest_v0, RESPONSE_TYPE = LeaveGroupResponse_v1\<rparr>"

definition LeaveGroupRequest_v2 :: request_class where
  "LeaveGroupRequest_v2 = \<lparr>mc_name = ''LeaveGroupRequest_v2'', mc_base = ''Request'',
     API_KEY = 13, API_VERSION = 2, FLEXIBLE_VERSION = False, SCHEMA = SCHEMA
     LeaveGroupRequest_v1, RESPONSE_TYPE = LeaveGroupResponse_v2\<rparr>"

definition LeaveGroupRequest :: "request_class list" where
  "LeaveGroupRequest = [LeaveGroupRequest_v0, LeaveGroupRequest_v1, LeaveGroupRequest_v2]"

definition LeaveGroupResponse :: "message_class list" where
  "LeaveGroupResponse = [LeaveGroupResponse_v0, LeaveGroupResponse_v1, LeaveGroupResponse_v2]"

section \<open>\<^verbatim>\<open>offset_for_leader_epoch.py\<close>\<close>

definition OffsetForLeaderEpochResponse_v0 :: message_class where
  "OffsetForLeaderEpochResponse_v0 = \<lparr>mc_name = ''OffsetForLeaderEpochResponse_v0'',
     mc_base = ''Response'', API_KEY = 23, API_VERSION = 0, FLEXIBLE_VERSION = False, SCHEMA =
     Schema_of [(''topics'', Array (Schema_of [(''topic'', String), (''partitions'', Array
     (Schema_of [(''error_code'', Int16), (''partition'', Int32), (''end_offset'',
     Int64)]))]))]\<rparr>"

definition OffsetForLeaderEpochResponse_v1 :: message_class where
  "OffsetForLeaderEpochResponse_v1 = \<lparr>mc_name = ''OffsetForLeaderEpochResponse_v1'',
     mc_base = ''Response'', API_KEY = 23, API_VERSION = 1, FLEXIBLE_VERSION = False, SCHEMA =
     Schema_of [(''topics'', Array (Schema_of [(''topic'', String), (''partitions'', Array
     (Schema_of [(''error_code'', Int16), (''partition'', Int32), (''leader_epoch'', Int32),
     (''end_offset'', Int64)]))]))]\<rparr>"

definition OffsetForLeaderEpochResponse_v2 :: message_class where
  "OffsetForLeaderEpochResponse_v2 = \<lparr>mc_name = ''OffsetForLeaderEpochResponse_v2'',
     mc_base = ''Response'', API_KEY = 23, API_VERSION = 2, FLEXIBLE_VERSION = False, SCHEMA =
     Schema_of [(''throttle_time_ms'', Int32), (''topics'', Array (Schema_of [(''topic'',
     String), (''partitions'', Array (Schema_of [(''error_code'', Int16), (''partition'',
     Int32), (''leader_epoch'', Int32), (''end_offset'', Int64)]))]))]\<rparr>"

definition OffsetForLeaderEpochResponse_v3 :: message_class where
  "OffsetForLeaderEpochResponse_v3 = \<lparr>mc_name = ''OffsetForLeaderEpochResponse_v3'',
     mc_base = ''Response'', API_KEY = 23, API_VERSION = 3, FLEXIBLE_VERSION = False, SCHEMA =
     SCHEMA OffsetForLeaderEpochResponse_v2\<rparr>"

definition OffsetForLeaderEpochResponse_v4 :: message_class where
  "OffsetForLeaderEpochResponse_v4 = \<lparr>mc_name = ''OffsetForLeaderEpochResponse_v4'',
     mc_base = ''Response'', API_KEY = 23, API_VERSION = 4, FLEXIBLE_VERSION = False, SCHEMA =
     Schema_of [(''throttle_time_ms'', Int32), (''topics'', CompactArray (Schema_of [(''topic'',
     CompactString), (''partitions'', CompactArray (Schema_of [(''error_code'', Int16),
     (''partition'', Int32), (''leader_epoch'', Int32), (''end_offset'', Int64), (''tags'',
     TaggedFields)])), (''tags'', TaggedFields)])), (''tags'', TaggedFields)]\<rparr>"

definition OffsetForLeaderEpochRequest_v0 :: request_class where
  "OffsetForLeaderEpochRequest_v0 = \<lparr>mc_name = ''OffsetForLeaderEpochRequest_v0'',
     mc_base = ''Request'', API_KEY = 23, API_VERSION = 0, FLEXIBLE_VERSION = False, SCHEMA =
     Schema_of [(''topics'', Array (Schema_of [(''topic'', String), (''partitions'', Array
     (Schema_of [(''partition'', Int32), (''leader_epoch'', Int32)]))]))], RESPONSE_TYPE =
     OffsetForLeaderEpochResponse_v0\<rparr>"

definition OffsetForLeaderEpochRequest_v1 :: request_class where
  "OffsetForLeaderEpochRequest_v1 = \<lparr>mc_name = ''OffsetForLeaderEpochRequest_v1'',
     mc_base = ''Request'', API_KEY = 23, API_VERSION = 1, FLEXIBLE_VERSION = False, SCHEMA =
     SCHEMA OffsetForLeaderEpochRequest_v0, RESPONSE_TYPE =
     OffsetForLeaderEpochResponse_v1\<rparr>"

definition OffsetForLeaderEpochRequest_v2 :: request_class where
  "OffsetForLeaderEpochRequest_v2 = \<lparr>mc_name = ''OffsetForLeaderEpochRequest_v2'',
     mc_base = ''Request'', API_KEY = 23, API_VERSION = 2, FLEXIBLE_VERSION = False, SCHEMA =
     Schema_of [(''topics'', Array (Schema_of [(''topic'', String), (''partitions'', Array
     (Schema_of [(''partition'', Int32), (''current_leader_epoch'', Int32), (''leader_epoch'',
     Int32)]))]))], RESPONSE_TYPE = OffsetForLeaderEpochResponse_v2\<rparr>"

definition OffsetForLeaderEpochRequest_v3 :: request_class where
  "OffsetForLeaderEpochRequest_v3 = \<lparr>mc_name = ''OffsetForLeaderEpochRequest_v3'',
     mc_base = ''Request'', API_KEY = 23, API_VERSION = 3, FLEXIBLE_VERSION = False, SCHEMA =
     Schema_of [(''replica_id'', Int32), (''topics'', Array (Schema_of [(''topic'', String),
     (''partitions'', Array (Schema_of [(''partition'', Int32), (''current_leader_epoch'',
     Int32), (''leader_epoch'', Int32)]))]))], RESPONSE_TYPE =
     OffsetForLeaderEpochResponse_v3\<rparr>"

definition OffsetForLeaderEpochRequest_v4 :: request_class where
  "OffsetForLeaderEpochRequest_v4 = \<lparr>mc_name = ''OffsetForLeaderEpochRequest_v4'',
     mc_base = ''Request'', API_KEY = 23, API_VERSION = 4, FLEXIBLE_VERSION = False, SCHEMA =
     Schema_of [(''replica_id'', Int32), (''topics'', CompactArray (Schema_of [(''topic'',
     CompactString), (''partitions'', CompactArray (Schema_of [(''partition'', Int32),
     (''current_leader_epoch'', Int32), (''leader_epoch'', Int32), (''tags'', TaggedFields)])),
     (''tags'', TaggedFields)])), (''tags'', TaggedFields)], RESPONSE_TYPE =
     OffsetForLeaderEpochResponse_v4\<rparr>"

definition OffsetForLeaderEpochRequest :: "request_class list" where
  "OffsetForLeaderEpochRequest = [OffsetForLeaderEpochRequest_v0,
     OffsetForLeaderEpochRequest_v1, OffsetForLeaderEpochRequest_v2,
     OffsetForLeaderEpochRequest_v3, OffsetForLeaderEpochRequest_v4]"

definition OffsetForLeaderEpochResponse :: "message_class list" where
  "OffsetForLeaderEpochResponse = [OffsetForLeaderEpochResponse_v0,
     OffsetForLeaderEpochResponse_v1, OffsetForLeaderEpochResponse_v2,
     OffsetForLeaderEpochResponse_v3, OffsetForLeaderEpochResponse_v4]"

section \<open>\<^verbatim>\<open>sasl_handshake.py\<close>\<close>

definition SaslHandshakeResponse_v0 :: message_class where
  "SaslHandshakeResponse_v0 = \<lparr>mc_name = ''SaslHandshakeResponse_v0'', mc_base =
     ''Response'', API_KEY = 17, API_VERSION = 0, FLEXIBLE_VERSION = False, SCHEMA = Schema_of
     [(''error_code'', Int16), (''enabled_mechanisms'', Array String)]\<rparr>"

definition SaslHandshakeResponse_v1 :: message_class where
  "SaslHandshakeResponse_v1 = \<lparr>mc_name = ''SaslHandshakeResponse_v1'', mc_base =
     ''Response'', API_KEY = 17, API_VERSION = 1, FLEXIBLE_VERSION = False, SCHEMA = SCHEMA
     SaslHandshakeResponse_v0\<rparr>"

definition SaslHandshakeRequest_v0 :: request_class where
  "SaslHandshakeRequest_v0 = \<lparr>mc_name = ''SaslHandshakeRequest_v0'', mc_base =
     ''Request'', API_KEY = 17, API_VERSION = 0, FLEXIBLE_VERSION = False, SCHEMA = Schema_of
     [(''mechanism'', String)], RESPONSE_TYPE = SaslHandshakeResponse_v0\<rparr>"

definition SaslHandshakeRequest_v1 :: request_class where
  "SaslHandshakeRequest_v1 = \<lparr>mc_name = ''SaslHandshakeRequest_v1'', mc_base =
     ''Request'', API_KEY = 17, API_VERSION = 1, FLEXIBLE_VERSION = False, SCHEMA = SCHEMA
     SaslHandshakeRequest_v0, RESPONSE_TYPE = SaslHandshakeResponse_v1\<rparr>"

definition SaslHandshakeRequest :: "request_class list" where
  "SaslHandshakeRequest = [SaslHandshakeRequest_v0, SaslHandshakeRequest_v1]"

definition SaslHandshakeResponse :: "message_class list" where
  "SaslHandshakeResponse = [SaslHandshakeResponse_v0, SaslHandshakeResponse_v1]"

section \<open>\<^verbatim>\<open>sasl_authenticate.py\<close>\<close>

definition SaslAuthenticateResponse_v0 :: message_class where
  "SaslAuthenticateResponse_v0 = \<lparr>mc_name = ''SaslAuthenticateResponse_v0'', mc_base =
     ''Response'', API_KEY = 36, API_VERSION = 0, FLEXIBLE_VERSION = False, SCHEMA = Schema_of
     [(''error_code'', Int16), (''error_message'', String), (''auth_bytes'', Bytes)]\<rparr>"

definition SaslAuthenticateResponse_v1 :: message_class where
  "SaslAuthenticateResponse_v1 = \<lparr>mc_name = ''SaslAuthenticateResponse_v1'', mc_base =
     ''Response'', API_KEY = 36, API_VERSION = 1, FLEXIBLE_VERSION = False, SCHEMA = Schema_of
     [(''error_code'', Int16), (''error_message'', String), (''auth_bytes'', Bytes),
     (''session_lifetime_ms'', Int64)]\<rparr>"

definition SaslAuthenticateRequest_v0 :: request_class where
  "SaslAuthenticateRequest_v0 = \<lparr>mc_name = ''SaslAuthenticateRequest_v0'', mc_base =
     ''Request'', API_KEY = 36, API_VERSION = 0, FLEXIBLE_VERSION = False, SCHEMA = Schema_of
     [(''auth_bytes'', Bytes)], RESPONSE_TYPE = SaslAuthenticateResponse_v0\<rparr>"

definition SaslAuthenticateRequest_v1 :: request_class where
  "SaslAuthenticateRequest_v1 = \<lparr>mc_name = ''SaslAuthenticateRequest_v1'', mc_base =
     ''Request'', API_KEY = 36, API_VERSION = 1, FLEXIBLE_VERSION = False, SCHEMA = SCHEMA
     SaslAuthenticateRequest_v0, RESPONSE_TYPE = SaslAuthenticateResponse_v1\<rparr>"

definition SaslAuthenticateRequest :: "request_class list" where
  "SaslAuthenticateRequest = [SaslAuthenticateRequest_v0, SaslAuthenticateRequest_v1]"

definition SaslAuthenticateResponse :: "message_class list" where
  "SaslAuthenticateResponse = [SaslAuthenticateResponse_v0, SaslAuthenticateResponse_v1]"

section \<open>\<^verbatim>\<open>init_producer_id.py\<close>\<close>

definition InitProducerIdResponse_v0 :: message_class where
  "InitProducerIdResponse_v0 = \<lparr>mc_name = ''InitProducerIdResponse_v0'', mc_base =
     ''Response'', API_KEY = 22, API_VERSION = 0, FLEXIBLE_VERSION = False, SCHEMA = Schema_of
     [(''throttle_time_ms'', Int32), (''error_code'', Int16), (''producer_id'', Int64),
     (''producer_epoch'', Int16)]\<rparr>"

definition InitProducerIdResponse_v1 :: message_class where
  "InitProducerIdResponse_v1 = \<lparr>mc_name = ''InitProducerIdResponse_v1'', mc_base =
     ''Response'', API_KEY = 22, API_VERSION = 1, FLEXIBLE_VERSION = False, SCHEMA = SCHEMA
     InitProducerIdResponse_v0\<rparr>"

definition InitProducerIdRequest_v0 :: request_class where
  "InitProducerIdRequest_v0 = \<lparr>mc_name = ''InitProducerIdRequest_v0'', mc_base =
     ''Request'', API_KEY = 22, API_VERSION = 0, FLEXIBLE_VERSION = False, SCHEMA = Schema_of
     [(''transactional_id'', String), (''transaction_timeout_ms'', Int32)], RESPONSE_TYPE =
     InitProducerIdResponse_v0\<rparr>"

definition InitProducerIdRequest_v1 :: request_class where
  "InitProducerIdRequest_v1 = \<lparr>mc_name = ''InitProducerIdRequest_v1'', mc_base =
     ''Request'', API_KEY = 22, API_VERSION = 1, FLEXIBLE_VERSION = False, SCHEMA = SCHEMA
     InitProducerIdRequest_v0, RESPONSE_TYPE = InitProducerIdResponse_v1\<rparr>"

definition InitProducerIdRequest :: "request_class list" where
  "InitProducerIdRequest = [InitProducerIdRequest_v0, InitProducerIdRequest_v1]"

definition InitProducerIdResponse :: "message_class list" where
  "InitProducerIdResponse = [InitProducerIdResponse_v0, InitProducerIdResponse_v1]"

section \<open>\<^verbatim>\<open>add_partitions_to_txn.py\<close>\<close>

definition AddPartitionsToTxnResponse_v0 :: message_class where
  "AddPartitionsToTxnResponse_v0 = \<lparr>mc_name = ''AddPartitionsToTxnResponse_v0'', mc_base
     = ''Response'', API_KEY = 24, API_VERSION = 0, FLEXIBLE_VERSION = False, SCHEMA = Schema_of
     [(''throttle_time_ms'', Int32), (''results'', Array (Schema_of [(''topic'', String),
     (''partitions'', Array (Schema_of [(''partition'', Int32), (''error_code'',
     Int16)]))]))]\<rparr>"

definition AddPartitionsToTxnResponse_v1 :: message_class where
  "AddPartitionsToTxnResponse_v1 = \<lparr>mc_name = ''AddPartitionsToTxnResponse_v1'', mc_base
     = ''Response'', API_KEY = 24, API_VERSION = 1, FLEXIBLE_VERSION = False, SCHEMA = SCHEMA
     AddPartitionsToTxnResponse_v0\<rparr>"

definition AddPartitionsToTxnResponse_v2 :: message_class where
  "AddPartitionsToTxnResponse_v2 = \<lparr>mc_name = ''AddPartitionsToTxnResponse_v2'', mc_base
     = ''Response'', API_KEY = 24, API_VERSION = 2, FLEXIBLE_VERSION = False, SCHEMA = SCHEMA
     AddPartitionsToTxnResponse_v1\<rparr>"

definition AddPartitionsToTxnRequest_v0 :: request_class where
  "AddPartitionsToTxnRequest_v0 = \<lparr>mc_name = ''AddPartitionsToTxnRequest_v0'', mc_base =
     ''Request'', API_KEY = 24, API_VERSION = 0, FLEXIBLE_VERSION = False, SCHEMA = Schema_of
     [(''transactional_id'', String), (''producer_id'', Int64), (''producer_epoch'', Int16),
     (''topics'', Array (Schema_of [(''topic'', String), (''partitions'', Array Int32)]))],
     RESPONSE_TYPE = AddPartitionsToTxnResponse_v0\<rparr>"

definition AddPartitionsToTxnRequest_v1 :: request_class where
  "AddPartitionsToTxnRequest_v1 = \<lparr>mc_name = ''AddPartitionsToTxnRequest_v1'', mc_base =
     ''Request'', API_KEY = 24, API_VERSION = 1, FLEXIBLE_VERSION = False, SCHEMA = SCHEMA
     AddPartitionsToTxnRequest_v0, RESPONSE_TYPE = AddPartitionsToTxnResponse_v1\<rparr>"

definition AddPartitionsToTxnRequest_v2 :: request_class where
  "AddPartitionsToTxnRequest_v2 = \<lparr>mc_name = ''AddPartitionsToTxnRequest_v2'', mc_base =
     ''Request'', API_KEY = 24, API_VERSION = 2, FLEXIBLE_VERSION = False, SCHEMA = SCHEMA
     AddPartitionsToTxnRequest_v1, RESPONSE_TYPE = AddPartitionsToTxnResponse_v2\<rparr>"

definition AddPartitionsToTxnRequest :: "request_class list" where
  "AddPartitionsToTxnRequest = [AddPartitionsToTxnRequest_v0, AddPartitionsToTxnRequest_v1,
     AddPartitionsToTxnRequest_v2]"

definition AddPartitionsToTxnResponse :: "message_class list" where
  "AddPartitionsToTxnResponse = [AddPartitionsToTxnResponse_v0, AddPartitionsToTxnResponse_v1,
     AddPartitionsToTxnResponse_v2]"

section \<open>\<^verbatim>\<open>add_offsets_to_txn.py\<close>\<close>

definition AddOffsetsToTxnResponse_v0 :: message_class where
  "AddOffsetsToTxnResponse_v0 = \<lparr>mc_name = ''AddOffsetsToTxnResponse_v0'', mc_base =
     ''Response'', API_KEY = 25, API_VERSION = 0, FLEXIBLE_VERSION = False, SCHEMA = Schema_of
     [(''throttle_time_ms'', Int32), (''error_code'', Int16)]\<rparr>"

definition AddOffsetsToTxnResponse_v1 :: message_class where
  "AddOffsetsToTxnResponse_v1 = \<lparr>mc_name = ''AddOffsetsToTxnResponse_v1'', mc_base =
     ''Response'', API_KEY = 25, API_VERSION = 1, FLEXIBLE_VERSION = False, SCHEMA = SCHEMA
     AddOffsetsToTxnResponse_v0\<rparr>"

definition AddOffsetsToTxnResponse_v2 :: message_class where
  "AddOffsetsToTxnResponse_v2 = \<lparr>mc_name = ''AddOffsetsToTxnResponse_v2'', mc_base =
     ''Response'', API_KEY = 25, API_VERSION = 2, FLEXIBLE_VERSION = False, SCHEMA = SCHEMA
     AddOffsetsToTxnResponse_v1\<rparr>"

definition AddOffsetsToTxnRequest_v0 :: request_class where
  "AddOffsetsToTxnRequest_v0 = \<lparr>mc_name = ''AddOffsetsToTxnRequest_v0'', mc_base =
     ''Request'', API_KEY = 25, API_VERSION = 0, FLEXIBLE_VERSION = False, SCHEMA = Schema_of
     [(''transactional_id'', String), (''producer_id'', Int64), (''producer_epoch'', Int16),
     (''group_id'', String)], RESPONSE_TYPE = AddOffsetsToTxnResponse_v0\<rparr>"

definition AddOffsetsToTxnRequest_v1 :: request_class where
  "AddOffsetsToTxnRequest_v1 = \<lparr>mc_name = ''AddOffsetsToTxnRequest_v1'', mc_base =
     ''Request'', API_KEY = 25, API_VERSION = 1, FLEXIBLE_VERSION = False, SCHEMA = SCHEMA
     AddOffsetsToTxnRequest_v0, RESPONSE_TYPE = AddOffsetsToTxnResponse_v1\<rparr>"

definition AddOffsetsToTxnRequest_v2 :: request_class where
  "AddOffsetsToTxnRequest_v2 = \<lparr>mc_name = ''AddOffsetsToTxnRequest_v2'', mc_base =
     ''Request'', API_KEY = 25, API_VERSION = 2, FLEXIBLE_VERSION = False, SCHEMA = SCHEMA
     AddOffsetsToTxnRequest_v1, RESPONSE_TYPE = AddOffsetsToTxnResponse_v2\<rparr>"

definition AddOffsetsToTxnRequest :: "request_class list" where
  "AddOffsetsToTxnRequest = [AddOffsetsToTxnRequest_v0, AddOffsetsToTxnRequest_v1,
     AddOffsetsToTxnRequest_v2]"

definition AddOffsetsToTxnResponse :: "message_class list" where
  "AddOffsetsToTxnResponse = [AddOffsetsToTxnResponse_v0, AddOffsetsToTxnResponse_v1,
     AddOffsetsToTxnResponse_v2]"

section \<open>\<^verbatim>\<open>end_txn.py\<close>\<close>

definition EndTxnResponse_v0 :: message_class where
  "EndTxnResponse_v0 = \<lparr>mc_name = ''EndTxnResponse_v0'', mc_base = ''Response'', API_KEY
     = 26, API_VERSION = 0, FLEXIBLE_VERSION = False, SCHEMA = Schema_of [(''throttle_time_ms'',
     Int32), (''error_code'', Int16)]\<rparr>"

definition EndTxnResponse_v1 :: message_class where
  "EndTxnResponse_v1 = \<lparr>mc_name = ''EndTxnResponse_v1'', mc_base = ''Response'', API_KEY
     = 26, API_VERSION = 1, FLEXIBLE_VERSION = False, SCHEMA = SCHEMA EndTxnResponse_v0\<rparr>"

definition EndTxnResponse_v2 :: message_class where
  "EndTxnResponse_v2 = \<lparr>mc_name = ''EndTxnResponse_v2'', mc_base = ''Response'', API_KEY
     = 26, API_VERSION = 2, FLEXIBLE_VERSION = False, SCHEMA = SCHEMA EndTxnResponse_v1\<rparr>"

definition EndTxnRequest_v0 :: request_class where
  "EndTxnRequest_v0 = \<lparr>mc_name = ''EndTxnRequest_v0'', mc_base = ''Request'', API_KEY =
     26, API_VERSION = 0, FLEXIBLE_VERSION = False, SCHEMA = Schema_of [(''transactional_id'',
     String), (''producer_id'', Int64), (''producer_epoch'', Int16), (''committed'', Boolean)],
     RESPONSE_TYPE = EndTxnResponse_v0\<rparr>"

definition EndTxnRequest_v1 :: request_class where
  "EndTxnRequest_v1 = \<lparr>mc_name = ''EndTxnRequest_v1'', mc_base = ''Request'', API_KEY =
     26, API_VERSION = 1, FLEXIBLE_VERSION = False, SCHEMA = SCHEMA EndTxnRequest_v0,
     RESPONSE_TYPE = EndTxnResponse_v1\<rparr>"

definition EndTxnRequest_v2 :: request_class where
  "EndTxnRequest_v2 = \<lparr>mc_name = ''EndTxnRequest_v2'', mc_base = ''Request'', API_KEY =
     26, API_VERSION = 2, FLEXIBLE_VERSION = False, SCHEMA = SCHEMA EndTxnRequest_v1,
     RESPONSE_TYPE = EndTxnResponse_v2\<rparr>"

definition EndTxnRequest :: "request_class list" where
  "EndTxnRequest = [EndTxnRequest_v0, EndTxnRequest_v1, EndTxnRequest_v2]"

definition EndTxnResponse :: "message_class list" where
  "EndTxnResponse = [EndTxnResponse_v0, EndTxnResponse_v1, EndTxnResponse_v2]"

section \<open>\<^verbatim>\<open>txn_offset_commit.py\<close>\<close>

definition TxnOffsetCommitResponse_v0 :: message_class where
  "TxnOffsetCommitResponse_v0 = \<lparr>mc_name = ''TxnOffsetCommitResponse_v0'', mc_base =
     ''Response'', API_KEY = 28, API_VERSION = 0, FLEXIBLE_VERSION = False, SCHEMA = Schema_of
     [(''throttle_time_ms'', Int32), (''topics'', Array (Schema_of [(''topic'', String),
     (''partitions'', Array (Schema_of [(''partition'', Int32), (''error_code'',
     Int16)]))]))]\<rparr>"

definition TxnOffsetCommitResponse_v1 :: message_class where
  "TxnOffsetCommitResponse_v1 = \<lparr>mc_name = ''TxnOffsetCommitResponse_v1'', mc_base =
     ''Response'', API_KEY = 28, API_VERSION = 1, FLEXIBLE_VERSION = False, SCHEMA = SCHEMA
     TxnOffsetCommitResponse_v0\<rparr>"

definition TxnOffsetCommitResponse_v2 :: message_class where
  "TxnOffsetCommitResponse_v2 = \<lparr>mc_name = ''TxnOffsetCommitResponse_v2'', mc_base =
     ''Response'', API_KEY = 28, API_VERSION = 2, FLEXIBLE_VERSION = False, SCHEMA = SCHEMA
     TxnOffsetCommitResponse_v1\<rparr>"

definition TxnOffsetCommitRequest_v0 :: request_class where
  "TxnOffsetCommitRequest_v0 = \<lparr>mc_name = ''TxnOffsetCommitRequest_v0'', mc_base =
     ''Request'', API_KEY = 28, API_VERSION = 0, FLEXIBLE_VERSION = False, SCHEMA = Schema_of
     [(''transactional_id'', String), (''group_id'', String), (''producer_id'', Int64),
     (''producer_epoch'', Int16), (''topics'', Array (Schema_of [(''topic'', String),
     (''partitions'', Array (Schema_of [(''partition'', Int32), (''offset'', Int64),
     (''metadata'', String)]))]))], RESPONSE_TYPE = TxnOffsetCommitResponse_v0\<rparr>"

definition TxnOffsetCommitRequest_v1 :: request_class where
  "TxnOffsetCommitRequest_v1 = \<lparr>mc_name = ''TxnOffsetCommitRequest_v1'', mc_base =
     ''Request'', API_KEY = 28, API_VERSION = 1, FLEXIBLE_VERSION = False, SCHEMA = SCHEMA
     TxnOffsetCommitRequest_v0, RESPONSE_TYPE = TxnOffsetCommitResponse_v1\<rparr>"

definition TxnOffsetCommitRequest_v2 :: request_class where
  "TxnOffsetCommitRequest_v2 = \<lparr>mc_name = ''TxnOffsetCommitRequest_v2'', mc_base =
     ''Request'', API_KEY = 28, API_VERSION = 2, FLEXIBLE_VERSION = False, SCHEMA = Schema_of
     [(''transactional_id'', String), (''group_id'', String), (''producer_id'', Int64),
     (''producer_epoch'', Int16), (''topics'', Array (Schema_of [(''topic'', String),
     (''partitions'', Array (Schema_of [(''partition'', Int32), (''offset'', Int64),
     (''leader_epoch'', Int32), (''metadata'', String)]))]))], RESPONSE_TYPE =
     TxnOffsetCommitResponse_v2\<rparr>"

definition TxnOffsetCommitRequest :: "request_class list" where
  "TxnOffsetCommitRequest = [TxnOffsetCommitRequest_v0, TxnOffsetCommitRequest_v1,
     TxnOffsetCommitRequest_v2]"

definition TxnOffsetCommitResponse :: "message_class list" where
  "TxnOffsetCommitResponse = [TxnOffsetCommitResponse_v0, TxnOffsetCommitResponse_v1,
     TxnOffsetCommitResponse_v2]"

section \<open>The version tables\<close>

definition versioned :: "request_class list \<Rightarrow> message_class list \<Rightarrow> bool" where
  "versioned reqs resps \<longleftrightarrow>
     map API_VERSION reqs = map int [0..<length reqs] \<and> map RESPONSE_TYPE reqs = resps \<and>
     map API_KEY resps = map API_KEY reqs \<and> map API_VERSION resps = map API_VERSION reqs"

fun schema_wf :: "wire_type \<Rightarrow> bool" where
  "schema_wf (Schema ns ts) \<longleftrightarrow> distinct ns \<and> length ns = length ts \<and> list_all schema_wf ts"
| "schema_wf (Array t) \<longleftrightarrow> schema_wf t"
| "schema_wf (CompactArray t) \<longleftrightarrow> schema_wf t"
| "schema_wf t \<longleftrightarrow> True"

definition is_schema :: "wire_type \<Rightarrow> bool" where
  "is_schema t \<longleftrightarrow> (case t of Schema ns ts \<Rightarrow> True | _ \<Rightarrow> False)"

definition core_apis :: "(request_class list \<times> message_class list) list" where
  "core_apis =
    [(FindCoordinatorRequest, FindCoordinatorResponse), (ApiVersionsRequest,
     ApiVersionsResponse), (ProduceRequest, ProduceResponse), (FetchRequest, FetchResponse),
     (ListOffsetsRequest, ListOffsetsResponse), (MetadataRequest, MetadataResponse),
     (OffsetCommitRequest, OffsetCommitResponse), (OffsetFetchRequest, OffsetFetchResponse),
     (JoinGroupRequest, JoinGroupResponse), (SyncGroupRequest, SyncGroupResponse),
     (HeartbeatRequest, HeartbeatResponse), (LeaveGroupRequest, LeaveGroupResponse),
     (OffsetForLeaderEpochRequest, OffsetForLeaderEpochResponse), (SaslHandshakeRequest,
     SaslHandshakeResponse), (SaslAuthenticateRequest, SaslAuthenticateResponse),
     (InitProducerIdRequest, InitProducerIdResponse), (AddPartitionsToTxnRequest,
     AddPartitionsToTxnResponse), (AddOffsetsToTxnRequest, AddOffsetsToTxnResponse),
     (EndTxnRequest, EndTxnResponse), (TxnOffsetCommitRequest, TxnOffsetCommitResponse)]"

lemmas core_api_defs = core_apis_def
  FindCoordinatorResponse_v0_def FindCoordinatorResponse_v1_def FindCoordinatorResponse_v2_def
  FindCoordinatorRequest_v0_def FindCoordinatorRequest_v1_def FindCoordinatorRequest_v2_def
  FindCoordinatorRequest_def FindCoordinatorResponse_def ApiVersionsResponse_v0_def
  ApiVersionsResponse_v1_def ApiVersionsResponse_v2_def ApiVersionsResponse_v3_def
  ApiVersionsResponse_v4_def ApiVersionsRequest_v0_def ApiVersionsRequest_v1_def
  ApiVersionsRequest_v2_def ApiVersionsRequest_v3_def ApiVersionsRequest_v4_def
  ApiVersionsRequest_def ApiVersionsResponse_def ProduceResponse_v0_def ProduceResponse_v1_def
  ProduceResponse_v2_def ProduceResponse_v3_def ProduceResponse_v4_def ProduceResponse_v5_def
  ProduceResponse_v6_def ProduceResponse_v7_def ProduceResponse_v8_def ProduceRequest_v0_def
  ProduceRequest_v1_def ProduceRequest_v2_def ProduceRequest_v3_def ProduceRequest_v4_def
  ProduceRequest_v5_def ProduceRequest_v6_def ProduceRequest_v7_def ProduceRequest_v8_def
  ProduceRequest_def ProduceResponse_def FetchResponse_v0_def FetchResponse_v1_def
  FetchResponse_v2_def FetchResponse_v3_def FetchResponse_v4_def FetchResponse_v5_def
  FetchResponse_v6_def FetchResponse_v7_def FetchResponse_v8_def FetchResponse_v9_def
  FetchResponse_v10_def FetchResponse_v11_def FetchRequest_v0_def FetchRequest_v1_def
  FetchRequest_v2_def FetchRequest_v3_def FetchRequest_v4_def FetchRequest_v5_def
  FetchRequest_v6_def FetchRequest_v7_def FetchRequest_v8_def FetchRequest_v9_def
  FetchRequest_v10_def FetchRequest_v11_def FetchRequest_def FetchResponse_def
  ListOffsetsResponse_v0_def ListOffsetsResponse_v1_def ListOffsetsResponse_v2_def
  ListOffsetsResponse_v3_def ListOffsetsResponse_v4_def ListOffsetsResponse_v5_def
  ListOffsetsRequest_v0_def ListOffsetsRequest_v1_def ListOffsetsRequest_v2_def
  ListOffsetsRequest_v3_def ListOffsetsRequest_v4_def ListOffsetsRequest_v5_def
  ListOffsetsRequest_def ListOffsetsResponse_def MetadataResponse_v0_def MetadataResponse_v1_def
  MetadataResponse_v2_def MetadataResponse_v3_def MetadataResponse_v4_def
  MetadataResponse_v5_def MetadataResponse_v6_def MetadataResponse_v7_def MetadataRequest_v0_def
  MetadataRequest_v1_def MetadataRequest_v2_def MetadataRequest_v3_def MetadataRequest_v4_def
  MetadataRequest_v5_def MetadataRequest_v6_def MetadataRequest_v7_def MetadataRequest_def
  MetadataResponse_def OffsetCommitResponse_v0_def OffsetCommitResponse_v1_def
  OffsetCommitResponse_v2_def OffsetCommitResponse_v3_def OffsetCommitResponse_v4_def
  OffsetCommitResponse_v5_def OffsetCommitResponse_v6_def OffsetCommitRequest_v0_def
  OffsetCommitRequest_v1_def OffsetCommitRequest_v2_def OffsetCommitRequest_v3_def
  OffsetCommitRequest_v4_def OffsetCommitRequest_v5_def OffsetCommitRequest_v6_def
  OffsetCommitRequest_def OffsetCommitResponse_def OffsetFetchResponse_v0_def
  OffsetFetchResponse_v1_def OffsetFetchResponse_v2_def OffsetFetchResponse_v3_def
  OffsetFetchResponse_v4_def OffsetFetchResponse_v5_def OffsetFetchRequest_v0_def
  OffsetFetchRequest_v1_def OffsetFetchRequest_v2_def OffsetFetchRequest_v3_def
  OffsetFetchRequest_v4_def OffsetFetchRequest_v5_def OffsetFetchRequest_def
  OffsetFetchResponse_def JoinGroupResponse_v0_def JoinGroupResponse_v1_def
  JoinGroupResponse_v2_def JoinGroupResponse_v3_def JoinGroupResponse_v4_def
  JoinGroupRequest_v0_def JoinGroupRequest_v1_def JoinGroupRequest_v2_def
  JoinGroupRequest_v3_def JoinGroupRequest_v4_def JoinGroupRequest_def JoinGroupResponse_def
  ProtocolMetadata_SCHEMA_def SyncGroupResponse_v0_def SyncGroupResponse_v1_def
  SyncGroupResponse_v2_def SyncGroupRequest_v0_def SyncGroupRequest_v1_def
  SyncGroupRequest_v2_def SyncGroupRequest_def SyncGroupResponse_def MemberAssignment_SCHEMA_def
  HeartbeatResponse_v0_def HeartbeatResponse_v1_def HeartbeatResponse_v2_def
  HeartbeatRequest_v0_def HeartbeatRequest_v1_def HeartbeatRequest_v2_def HeartbeatRequest_def
  HeartbeatResponse_def LeaveGroupResponse_v0_def LeaveGroupResponse_v1_def
  LeaveGroupResponse_v2_def LeaveGroupRequest_v0_def LeaveGroupRequest_v1_def
  LeaveGroupRequest_v2_def LeaveGroupRequest_def LeaveGroupResponse_def
  OffsetForLeaderEpochResponse_v0_def OffsetForLeaderEpochResponse_v1_def
  OffsetForLeaderEpochResponse_v2_def OffsetForLeaderEpochResponse_v3_def
  OffsetForLeaderEpochResponse_v4_def OffsetForLeaderEpochRequest_v0_def
  OffsetForLeaderEpochRequest_v1_def OffsetForLeaderEpochRequest_v2_def
  OffsetForLeaderEpochRequest_v3_def OffsetForLeaderEpochRequest_v4_def
  OffsetForLeaderEpochRequest_def OffsetForLeaderEpochResponse_def SaslHandshakeResponse_v0_def
  SaslHandshakeResponse_v1_def SaslHandshakeRequest_v0_def SaslHandshakeRequest_v1_def
  SaslHandshakeRequest_def SaslHandshakeResponse_def SaslAuthenticateResponse_v0_def
  SaslAuthenticateResponse_v1_def SaslAuthenticateRequest_v0_def SaslAuthenticateRequest_v1_def
  SaslAuthenticateRequest_def SaslAuthenticateResponse_def InitProducerIdResponse_v0_def
  InitProducerIdResponse_v1_def InitProducerIdRequest_v0_def InitProducerIdRequest_v1_def
  InitProducerIdRequest_def InitProducerIdResponse_def AddPartitionsToTxnResponse_v0_def
  AddPartitionsToTxnResponse_v1_def AddPartitionsToTxnResponse_v2_def
  AddPartitionsToTxnRequest_v0_def AddPartitionsToTxnRequest_v1_def
  AddPartitionsToTxnRequest_v2_def AddPartitionsToTxnRequest_def AddPartitionsToTxnResponse_def
  AddOffsetsToTxnResponse_v0_def AddOffsetsToTxnResponse_v1_def AddOffsetsToTxnResponse_v2_def
  AddOffsetsToTxnRequest_v0_def AddOffsetsToTxnRequest_v1_def AddOffsetsToTxnRequest_v2_def
  AddOffsetsToTxnRequest_def AddOffsetsToTxnResponse_def EndTxnResponse_v0_def
  EndTxnResponse_v1_def EndTxnResponse_v2_def EndTxnRequest_v0_def EndTxnRequest_v1_def
  EndTxnRequest_v2_def EndTxnRequest_def EndTxnResponse_def TxnOffsetCommitResponse_v0_def
  TxnOffsetCommitResponse_v1_def TxnOffsetCommitResponse_v2_def TxnOffsetCommitRequest_v0_def
  TxnOffsetCommitRequest_v1_def TxnOffsetCommitRequest_v2_def TxnOffsetCommitRequest_def
  TxnOffsetCommitResponse_def

definition expect_response :: "request_class \<Rightarrow> struct_obj \<Rightarrow> bool" where
  "expect_response cls obj \<longleftrightarrow>
     \<not> (mc_base cls = ''ProduceRequest'' \<and> map_of (so_dict obj) ''required_acks'' \<in> {Some (VInt 0), Some (VBool False)})"

text \<open>\<open>response_type.decode(read_buffer)\<close>: \<open>ApiVersionsResponse\<close> overrides it, to read an error
  response as version 0 whatever version was asked for.\<close>

definition BaseApiVersionsResponse_decode :: "message_class \<Rightarrow> bytes \<Rightarrow> (struct_obj \<times> bytes) res" where
  "BaseApiVersionsResponse_decode cls data =
     res_bind (Int16_decode data) (\<lambda>(err, _).
       if err \<noteq> 0 then Struct_decode (SCHEMA ApiVersionsResponse_v0) data
       else Struct_decode (SCHEMA cls) data)"

definition response_decode :: "message_class \<Rightarrow> bytes \<Rightarrow> (struct_obj \<times> bytes) res" where
  "response_decode cls data =
     (if mc_base cls = ''BaseApiVersionsResponse'' then BaseApiVersionsResponse_decode cls data
      else Struct_decode (SCHEMA cls) data)"

lemma core_versioned: "list_all (\<lambda>(reqs, resps). versioned reqs resps) core_apis"
  by code_simp

definition schemas_wf :: "(request_class list \<times> message_class list) list \<Rightarrow> bool" where
  "schemas_wf apis \<longleftrightarrow>
     list_all (\<lambda>(reqs, resps). list_all (\<lambda>c. is_schema (SCHEMA c) \<and> schema_wf (SCHEMA c)) reqs \<and>
       list_all (\<lambda>c. is_schema (SCHEMA c) \<and> schema_wf (SCHEMA c)) resps) apis"

lemma core_schemas_wf: "schemas_wf core_apis"
  by code_simp

text \<open>The schemas of a table: of its requests and of its responses.\<close>

definition api_schemas :: "(request_class list \<times> message_class list) list \<Rightarrow> wire_type list" where
  "api_schemas apis = concat (map (\<lambda>(reqs, resps). map SCHEMA reqs @ map SCHEMA resps) apis)"

lemma versioned_entry:
  assumes "list_all (\<lambda>(reqs, resps). versioned reqs resps) apis" "(reqs, resps) \<in> set apis"
    and "i < length reqs"
  shows "length resps = length reqs \<and> API_VERSION (reqs ! i) = int i \<and>
    RESPONSE_TYPE (reqs ! i) = resps ! i \<and> API_KEY (resps ! i) = API_KEY (reqs ! i) \<and>
    API_VERSION (resps ! i) = int i"
proof -
  have v: "versioned reqs resps" using assms(1,2) by (auto simp: list_all_iff)
  then have len: "length resps = length reqs" by (auto simp: versioned_def)
  from v have "map API_VERSION reqs ! i = map int [0..<length reqs] ! i"
    "map RESPONSE_TYPE reqs ! i = resps ! i" "map API_KEY resps ! i = map API_KEY reqs ! i"
    "map API_VERSION resps ! i = map API_VERSION reqs ! i"
    by (simp_all add: versioned_def)
  with assms(3) len show ?thesis by simp
qed

lemma schema_roundtrip:
  assumes "schemas_wf apis" "schema \<in> set (api_schemas apis)"
    and "fits schema (VTuple vs)" "Struct_init schema vs [] = Inr obj"
  shows "\<exists>bs. Struct_encode_self obj = Inr bs \<and>
    (\<forall>rest. Struct_decode schema (bs @ rest) = Inr (obj, rest))"
proof -
  have "is_schema schema" "schema_wf schema"
    using assms(1,2) by (auto simp: schemas_wf_def api_schemas_def list_all_iff)
  then obtain ns ts where s: "schema = Schema ns ts" "distinct ns" "length ns = length ts"
    by (cases schema) (auto simp: is_schema_def)
  show ?thesis using struct_enc_dec [OF s(2,3)] assms(3,4) by (simp add: s(1))
qed

text \<open>The version tables of the client's requests are consistent: the class the client picks by
  indexing a request list with a negotiated version carries that version on the wire, and the
  response class it will be decoded with is the one of the same API and version.\<close>

theorem api_version_table:
  assumes "(reqs, resps) \<in> set core_apis" "i < length reqs"
  shows "length resps = length reqs \<and> API_VERSION (reqs ! i) = int i \<and>
    RESPONSE_TYPE (reqs ! i) = resps ! i \<and> API_KEY (resps ! i) = API_KEY (reqs ! i) \<and>
    API_VERSION (resps ! i) = int i"
  by (rule versioned_entry [OF core_versioned assms])

theorem api_version_table_witness:
  "API_VERSION (FetchRequest ! 10) = 10 \<and> RESPONSE_TYPE (FetchRequest ! 10) = FetchResponse ! 10"
  using api_version_table [of FetchRequest FetchResponse 10]
  by (simp add: core_apis_def FetchRequest_def)


definition example_heartbeat :: struct_obj where
  "example_heartbeat = \<lparr>so_schema = SCHEMA HeartbeatResponse_v0, so_dict = [(''error_code'', VInt 27)]\<rparr>"


text \<open>Version 8 of the produce response has the schema of version 7: the \<open>record_errors\<close> and
  \<open>error_message\<close> fields that version 8 adds to each partition are not part of it.\<close>

theorem produce_response_v8_schema:
  "SCHEMA ProduceResponse_v8 = SCHEMA ProduceResponse_v7 \<and>
   SCHEMA ProduceResponse_v8 = Schema_of [(''topics'', Array (Schema_of [(''topic'', String),
     (''partitions'', Array (Schema_of [(''partition'', Int32), (''error_code'', Int16),
       (''offset'', Int64), (''timestamp'', Int64), (''log_start_offset'', Int64)]))])),
     (''throttle_time_ms'', Int32)]"
  by (simp add: ProduceResponse_v8_def ProduceResponse_v7_def ProduceResponse_v6_def
      ProduceResponse_v5_def)

lemma Int16_decode_of_v0:
  assumes "decode_fields (map decode (schema_fields (SCHEMA ApiVersionsResponse_v0))) data =
    Inr (VInt err # vs, rest)"
  shows "\<exists>r. Int16_decode data = Inr (err, r)"
  using assms
  by (auto simp: ApiVersionsResponse_v0_def Schema_of_def res_eq_Inr tag_value_def
      split: prod.splits)

text \<open>An ApiVersions error response is understood whatever version the client asked for: the
  bytes of a version 0 response with a non-zero error code decode, as each later version, to that
  version 0 response.\<close>

theorem api_versions_error_fallback:
  assumes "cls \<in> set (tl ApiVersionsResponse)" "err \<noteq> 0"
    and "Struct_init (SCHEMA ApiVersionsResponse_v0) [VInt err, apis] [] = Inr obj"
    and "fits (SCHEMA ApiVersionsResponse_v0) (VTuple [VInt err, apis])"
  shows "\<exists>bs. Struct_encode_self obj = Inr bs \<and> (\<forall>rest. response_decode cls (bs @ rest) = Inr (obj, rest))"
proof -
  let ?s = "SCHEMA ApiVersionsResponse_v0"
  have "?s \<in> set (api_schemas core_apis)"
    by (simp add: api_schemas_def core_apis_def ApiVersionsResponse_def)
  from schema_roundtrip [OF core_schemas_wf this assms(4,3)] obtain bs
    where enc: "Struct_encode_self obj = Inr bs"
      and dec: "\<And>rest. Struct_decode ?s (bs @ rest) = Inr (obj, rest)" by blast
  obtain b where b: "encode ?s (VTuple [VInt err, apis]) = Inr b"
    and d: "\<And>rest. decode ?s (b @ rest) = Inr (VTuple [VInt err, apis], rest)"
    using wire.enc_dec [OF assms(4)] by blast
  have "bs = b"
  proof -
    have "?s = Schema (schema_names ?s) (schema_fields ?s)"
      by (simp add: ApiVersionsResponse_v0_def Schema_of_def)
    then show ?thesis
      using Struct_init_values [of "schema_names ?s" "schema_fields ?s" "[VInt err, apis]" obj] assms(3) enc b
      by (simp add: Struct_encode_self_def ApiVersionsResponse_v0_def Schema_of_def
          Schema_encode_def seq_items_def del: encode.simps(1-8))
  qed
  have "\<exists>r. Int16_decode (bs @ rest) = Inr (err, r)" for rest
    using d [of rest] \<open>bs = b\<close>
    by (intro Int16_decode_of_v0 [of _ _ "[apis]" rest] decode_Schema_fields [of "schema_names ?s"])
      (simp add: ApiVersionsResponse_v0_def Schema_of_def)
  note err = this
  have base: "mc_base cls = ''BaseApiVersionsResponse''"
    using assms(1)
    by (auto simp: ApiVersionsResponse_def ApiVersionsResponse_v1_def ApiVersionsResponse_v2_def
        ApiVersionsResponse_v3_def ApiVersionsResponse_v4_def)
  have "response_decode cls (bs @ rest) = Inr (obj, rest)" for rest
  proof -
    from err [of rest] obtain r where "Int16_decode (bs @ rest) = Inr (err, r)" by blast
    then show ?thesis
      using assms(2) dec [of rest]
      by (simp add: response_decode_def base BaseApiVersionsResponse_decode_def)
  qed
  with enc show ?thesis by blast
qed

definition example_api_versions :: struct_obj where
  "example_api_versions = \<lparr>so_schema = SCHEMA ApiVersionsResponse_v0,
     so_dict = [(''error_code'', VInt 35), (''api_versions'', VList [])]\<rparr>"

theorem api_versions_error_fallback_witness:
  "\<exists>bs. Struct_encode_self example_api_versions = Inr bs \<and>
     (\<forall>rest. response_decode ApiVersionsResponse_v3 (bs @ rest) = Inr (example_api_versions, rest))"
  by (rule api_versions_error_fallback [of _ 35 "VList []"])
    (simp_all add: ApiVersionsResponse_def example_api_versions_def ApiVersionsResponse_v0_def
      Schema_of_def Struct_init_def fits_schema_def fits_int_def fits_array_def)

end
