(* ===== verification/Admin_Messages.thy ===== *)
theory Admin_Messages
  imports Messages
begin

text \<open>
  \<^verbatim>\<open>kafka/protocol/admin.py\<close>: the request and response classes of the admin client, and which of
  their version tables satisfy the contract of \<open>Messages\<close>.
\<close>

section \<open>\<^verbatim>\<open>admin.py\<close>\<close>

definition CreateTopicsResponse_v0 :: message_class where
  "CreateTopicsResponse_v0 = \<lparr>mc_name = ''CreateTopicsResponse_v0'', mc_base =
     ''Response'', API_KEY = 19, API_VERSION = 0, FLEXIBLE_VERSION = False, SCHEMA = Schema_of
     [(''topic_errors'', Array (Schema_of [(''topic'', String), (''error_code'',
     Int16)]))]\<rparr>"

definition CreateTopicsResponse_v1 :: message_class where
  "CreateTopicsResponse_v1 = \<lparr>mc_name = ''CreateTopicsResponse_v1'', mc_base =
     ''Response'', API_KEY = 19, API_VERSION = 1, FLEXIBLE_VERSION = False, SCHEMA = Schema_of
     [(''topic_errors'', Array (Schema_of [(''topic'', String), (''error_code'', Int16),
     (''error_message'', String)]))]\<rparr>"

definition CreateTopicsResponse_v2 :: message_class where
  "CreateTopicsResponse_v2 = \<lparr>mc_name = ''CreateTopicsResponse_v2'', mc_base =
     ''Response'', API_KEY = 19, API_VERSION = 2, FLEXIBLE_VERSION = False, SCHEMA = Schema_of
     [(''throttle_time_ms'', Int32), (''topic_errors'', Array (Schema_of [(''topic'', String),
     (''error_code'', Int16), (''error_message'', String)]))]\<rparr>"

definition CreateTopicsResponse_v3 :: message_class where
  "CreateTopicsResponse_v3 = \<lparr>mc_name = ''CreateTopicsResponse_v3'', mc_base =
     ''Response'', API_KEY = 19, API_VERSION = 3, FLEXIBLE_VERSION = False, SCHEMA = SCHEMA
     CreateTopicsResponse_v2\<rparr>"

definition CreateTopicsRequest_v0 :: request_class where
  "CreateTopicsRequest_v0 = \<lparr>mc_name = ''CreateTopicsRequest_v0'', mc_base = ''Request'',
     API_KEY = 19, API_VERSION = 0, FLEXIBLE_VERSION = False, SCHEMA = Schema_of
     [(''create_topic_requests'', Array (Schema_of [(''topic'', String), (''num_partitions'',
     Int32), (''replication_factor'', Int16), (''replica_assignment'', Array (Schema_of
     [(''partition_id'', Int32), (''replicas'', Array Int32)])), (''configs'', Array (Schema_of
     [(''config_key'', String), (''config_value'', String)]))])), (''timeout'', Int32)],
     RESPONSE_TYPE = CreateTopicsResponse_v0\<rparr>"

definition CreateTopicsRequest_v1 :: request_class where
  "CreateTopicsRequest_v1 = \<lparr>mc_name = ''CreateTopicsRequest_v1'', mc_base = ''Request'',
     API_KEY = 19, API_VERSION = 1, FLEXIBLE_VERSION = False, SCHEMA = Schema_of
     [(''create_topic_requests'', Array (Schema_of [(''topic'', String), (''num_partitions'',
     Int32), (''replication_factor'', Int16), (''replica_assignment'', Array (Schema_of
     [(''partition_id'', Int32), (''replicas'', Array Int32)])), (''configs'', Array (Schema_of
     [(''config_key'', String), (''config_value'', String)]))])), (''timeout'', Int32),
     (''validate_only'', Boolean)], RESPONSE_TYPE = CreateTopicsResponse_v1\<rparr>"

definition CreateTopicsRequest_v2 :: request_class where
  "CreateTopicsRequest_v2 = \<lparr>mc_name = ''CreateTopicsRequest_v2'', mc_base = ''Request'',
     API_KEY = 19, API_VERSION = 2, FLEXIBLE_VERSION = False, SCHEMA = SCHEMA
     CreateTopicsRequest_v1, RESPONSE_TYPE = CreateTopicsResponse_v2\<rparr>"

definition CreateTopicsRequest_v3 :: request_class where
  "CreateTopicsRequest_v3 = \<lparr>mc_name = ''CreateTopicsRequest_v3'', mc_base = ''Request'',
     API_KEY = 19, API_VERSION = 3, FLEXIBLE_VERSION = False, SCHEMA = SCHEMA
     CreateTopicsRequest_v1, RESPONSE_TYPE = CreateTopicsResponse_v3\<rparr>"

definition CreateTopicsRequest :: "request_class list" where
  "CreateTopicsRequest = [CreateTopicsRequest_v0, CreateTopicsRequest_v1,
     CreateTopicsRequest_v2, CreateTopicsRequest_v3]"

definition CreateTopicsResponse :: "message_class list" where
  "CreateTopicsResponse = [CreateTopicsResponse_v0, CreateTopicsResponse_v1,
     CreateTopicsResponse_v2, CreateTopicsResponse_v3]"

definition DeleteTopicsResponse_v0 :: message_class where
  "DeleteTopicsResponse_v0 = \<lparr>mc_name = ''DeleteTopicsResponse_v0'', mc_base =
     ''Response'', API_KEY = 20, API_VERSION = 0, FLEXIBLE_VERSION = False, SCHEMA = Schema_of
     [(''topic_error_codes'', Array (Schema_of [(''topic'', String), (''error_code'',
     Int16)]))]\<rparr>"

definition DeleteTopicsResponse_v1 :: message_class where
  "DeleteTopicsResponse_v1 = \<lparr>mc_name = ''DeleteTopicsResponse_v1'', mc_base =
     ''Response'', API_KEY = 20, API_VERSION = 1, FLEXIBLE_VERSION = False, SCHEMA = Schema_of
     [(''throttle_time_ms'', Int32), (''topic_error_codes'', Array (Schema_of [(''topic'',
     String), (''error_code'', Int16)]))]\<rparr>"

definition DeleteTopicsResponse_v2 :: message_class where
  "DeleteTopicsResponse_v2 = \<lparr>mc_name = ''DeleteTopicsResponse_v2'', mc_base =
     ''Response'', API_KEY = 20, API_VERSION = 2, FLEXIBLE_VERSION = False, SCHEMA = SCHEMA
     DeleteTopicsResponse_v1\<rparr>"

definition DeleteTopicsResponse_v3 :: message_class where
  "DeleteTopicsResponse_v3 = \<lparr>mc_name = ''DeleteTopicsResponse_v3'', mc_base =
     ''Response'', API_KEY = 20, API_VERSION = 3, FLEXIBLE_VERSION = False, SCHEMA = SCHEMA
     DeleteTopicsResponse_v1\<rparr>"

definition DeleteTopicsRequest_v0 :: request_class where
  "DeleteTopicsRequest_v0 = \<lparr>mc_name = ''DeleteTopicsRequest_v0'', mc_base = ''Request'',
     API_KEY = 20, API_VERSION = 0, FLEXIBLE_VERSION = False, SCHEMA = Schema_of [(''topics'',
     Array String), (''timeout'', Int32)], RESPONSE_TYPE = DeleteTopicsResponse_v0\<rparr>"

definition DeleteTopicsRequest_v1 :: request_class where
  "DeleteTopicsRequest_v1 = \<lparr>mc_name = ''DeleteTopicsRequest_v1'', mc_base = ''Request'',
     API_KEY = 20, API_VERSION = 1, FLEXIBLE_VERSION = False, SCHEMA = SCHEMA
     DeleteTopicsRequest_v0, RESPONSE_TYPE = DeleteTopicsResponse_v1\<rparr>"

definition DeleteTopicsRequest_v2 :: request_class where
  "DeleteTopicsRequest_v2 = \<lparr>mc_name = ''DeleteTopicsRequest_v2'', mc_base = ''Request'',
     API_KEY = 20, API_VERSION = 2, FLEXIBLE_VERSION = False, SCHEMA = SCHEMA
     DeleteTopicsRequest_v0, RESPONSE_TYPE = DeleteTopicsResponse_v2\<rparr>"

definition DeleteTopicsRequest_v3 :: request_class where
  "DeleteTopicsRequest_v3 = \<lparr>mc_name = ''DeleteTopicsRequest_v3'', mc_base = ''Request'',
     API_KEY = 20, API_VERSION = 3, FLEXIBLE_VERSION = False, SCHEMA = SCHEMA
     DeleteTopicsRequest_v0, RESPONSE_TYPE = DeleteTopicsResponse_v3\<rparr>"

definition DeleteTopicsRequest :: "request_class list" where
  "DeleteTopicsRequest = [DeleteTopicsRequest_v0, DeleteTopicsRequest_v1,
     DeleteTopicsRequest_v2, DeleteTopicsRequest_v3]"

definition DeleteTopicsResponse :: "message_class list" where
  "DeleteTopicsResponse = [DeleteTopicsResponse_v0, DeleteTopicsResponse_v1,
     DeleteTopicsResponse_v2, DeleteTopicsResponse_v3]"

definition DeleteRecordsResponse_v0 :: message_class where
  "DeleteRecordsResponse_v0 = \<lparr>mc_name = ''DeleteRecordsResponse_v0'', mc_base =
     ''Response'', API_KEY = 21, API_VERSION = 0, FLEXIBLE_VERSION = False, SCHEMA = Schema_of
     [(''throttle_time_ms'', Int32), (''topics'', Array (Schema_of [(''name'', String),
     (''partitions'', Array (Schema_of [(''partition_index'', Int32), (''low_watermark'',
     Int64), (''error_code'', Int16)]))]))]\<rparr>"

definition DeleteRecordsRequest_v0 :: request_class where
  "DeleteRecordsRequest_v0 = \<lparr>mc_name = ''DeleteRecordsRequest_v0'', mc_base =
     ''Request'', API_KEY = 21, API_VERSION = 0, FLEXIBLE_VERSION = False, SCHEMA = Schema_of
     [(''topics'', Array (Schema_of [(''name'', String), (''partitions'', Array (Schema_of
     [(''partition_index'', Int32), (''offset'', Int64)]))])), (''timeout_ms'', Int32)],
     RESPONSE_TYPE = DeleteRecordsResponse_v0\<rparr>"

definition DeleteRecordsResponse :: "message_class list" where
  "DeleteRecordsResponse = [DeleteRecordsResponse_v0]"

definition DeleteRecordsRequest :: "request_class list" where
  "DeleteRecordsRequest = [DeleteRecordsRequest_v0]"

definition ListGroupsResponse_v0 :: message_class where
  "ListGroupsResponse_v0 = \<lparr>mc_name = ''ListGroupsResponse_v0'', mc_base = ''Response'',
     API_KEY = 16, API_VERSION = 0, FLEXIBLE_VERSION = False, SCHEMA = Schema_of
     [(''error_code'', Int16), (''groups'', Array (Schema_of [(''group'', String),
     (''protocol_type'', String)]))]\<rparr>"

definition ListGroupsResponse_v1 :: message_class where
  "ListGroupsResponse_v1 = \<lparr>mc_name = ''ListGroupsResponse_v1'', mc_base = ''Response'',
     API_KEY = 16, API_VERSION = 1, FLEXIBLE_VERSION = False, SCHEMA = Schema_of
     [(''throttle_time_ms'', Int32), (''error_code'', Int16), (''groups'', Array (Schema_of
     [(''group'', String), (''protocol_type'', String)]))]\<rparr>"

definition ListGroupsResponse_v2 :: message_class where
  "ListGroupsResponse_v2 = \<lparr>mc_name = ''ListGroupsResponse_v2'', mc_base = ''Response'',
     API_KEY = 16, API_VERSION = 2, FLEXIBLE_VERSION = False, SCHEMA = SCHEMA
     ListGroupsResponse_v1\<rparr>"

definition ListGroupsRequest_v0 :: request_class where
  "ListGroupsRequest_v0 = \<lparr>mc_name = ''ListGroupsRequest_v0'', mc_base = ''Request'',
     API_KEY = 16, API_VERSION = 0, FLEXIBLE_VERSION = False, SCHEMA = Schema_of [],
     RESPONSE_TYPE = ListGroupsResponse_v0\<rparr>"

definition ListGroupsRequest_v1 :: request_class where
  "ListGroupsRequest_v1 = \<lparr>mc_name = ''ListGroupsRequest_v1'', mc_base = ''Request'',
     API_KEY = 16, API_VERSION = 1, FLEXIBLE_VERSION = False, SCHEMA = SCHEMA
     ListGroupsRequest_v0, RESPONSE_TYPE = ListGroupsResponse_v1\<rparr>"

definition ListGroupsRequest_v2 :: request_class where
  "ListGroupsRequest_v2 = \<lparr>mc_name = ''ListGroupsRequest_v2'', mc_base = ''Request'',
     API_KEY = 16, API_VERSION = 1, FLEXIBLE_VERSION = False, SCHEMA = SCHEMA
     ListGroupsRequest_v0, RESPONSE_TYPE = ListGroupsResponse_v2\<rparr>"

definition ListGroupsRequest :: "request_class list" where
  "ListGroupsRequest = [ListGroupsRequest_v0, ListGroupsRequest_v1, ListGroupsRequest_v2]"

definition ListGroupsResponse :: "message_class list" where
  "ListGroupsResponse = [ListGroupsResponse_v0, ListGroupsResponse_v1, ListGroupsResponse_v2]"

definition DescribeGroupsResponse_v0 :: message_class where
  "DescribeGroupsResponse_v0 = \<lparr>mc_name = ''DescribeGroupsResponse_v0'', mc_base =
     ''Response'', API_KEY = 15, API_VERSION = 0, FLEXIBLE_VERSION = False, SCHEMA = Schema_of
     [(''groups'', Array (Schema_of [(''error_code'', Int16), (''group'', String), (''state'',
     String), (''protocol_type'', String), (''protocol'', String), (''members'', Array
     (Schema_of [(''member_id'', String), (''client_id'', String), (''client_host'', String),
     (''member_metadata'', Bytes), (''member_assignment'', Bytes)]))]))]\<rparr>"

definition DescribeGroupsResponse_v1 :: message_class where
  "DescribeGroupsResponse_v1 = \<lparr>mc_name = ''DescribeGroupsResponse_v1'', mc_base =
     ''Response'', API_KEY = 15, API_VERSION = 1, FLEXIBLE_VERSION = False, SCHEMA = Schema_of
     [(''throttle_time_ms'', Int32), (''groups'', Array (Schema_of [(''error_code'', Int16),
     (''group'', String), (''state'', String), (''protocol_type'', String), (''protocol'',
     String), (''members'', Array (Schema_of [(''member_id'', String), (''client_id'', String),
     (''client_host'', String), (''member_metadata'', Bytes), (''member_assignment'',
     Bytes)]))]))]\<rparr>"

definition DescribeGroupsResponse_v2 :: message_class where
  "DescribeGroupsResponse_v2 = \<lparr>mc_name = ''DescribeGroupsResponse_v2'', mc_base =
     ''Response'', API_KEY = 15, API_VERSION = 2, FLEXIBLE_VERSION = False, SCHEMA = SCHEMA
     DescribeGroupsResponse_v1\<rparr>"

text \<open>As in \<open>ProduceResponse_v8\<close>: the \<open>groups\<close> entry is a tuple of three and \<open>zip\<close> drops its last
  component, \<open>authorized_operations\<close>.\<close>

definition DescribeGroupsResponse_v3 :: message_class where
  "DescribeGroupsResponse_v3 = \<lparr>mc_name = ''DescribeGroupsResponse_v3'', mc_base =
     ''Response'', API_KEY = 15, API_VERSION = 3, FLEXIBLE_VERSION = False, SCHEMA = Schema_of
     [(''throttle_time_ms'', Int32), (''groups'', Array (Schema_of [(''error_code'', Int16),
     (''group'', String), (''state'', String), (''protocol_type'', String), (''protocol'',
     String), (''members'', Array (Schema_of [(''member_id'', String), (''client_id'', String),
     (''client_host'', String), (''member_metadata'', Bytes), (''member_assignment'',
     Bytes)]))]))]\<rparr>"

definition DescribeGroupsRequest_v0 :: request_class where
  "DescribeGroupsRequest_v0 = \<lparr>mc_name = ''DescribeGroupsRequest_v0'', mc_base =
     ''Request'', API_KEY = 15, API_VERSION = 0, FLEXIBLE_VERSION = False, SCHEMA = Schema_of
     [(''groups'', Array String)], RESPONSE_TYPE = DescribeGroupsResponse_v0\<rparr>"

definition DescribeGroupsRequest_v1 :: request_class where
  "DescribeGroupsRequest_v1 = \<lparr>mc_name = ''DescribeGroupsRequest_v1'', mc_base =
     ''Request'', API_KEY = 15, API_VERSION = 1, FLEXIBLE_VERSION = False, SCHEMA = SCHEMA
     DescribeGroupsRequest_v0, RESPONSE_TYPE = DescribeGroupsResponse_v1\<rparr>"

definition DescribeGroupsRequest_v2 :: request_class where
  "DescribeGroupsRequest_v2 = \<lparr>mc_name = ''DescribeGroupsRequest_v2'', mc_base =
     ''Request'', API_KEY = 15, API_VERSION = 2, FLEXIBLE_VERSION = False, SCHEMA = SCHEMA
     DescribeGroupsRequest_v0, RESPONSE_TYPE = DescribeGroupsResponse_v2\<rparr>"

definition DescribeGroupsRequest_v3 :: request_class where
  "DescribeGroupsRequest_v3 = \<lparr>mc_name = ''DescribeGroupsRequest_v3'', mc_base =
     ''Request'', API_KEY = 15, API_VERSION = 3, FLEXIBLE_VERSION = False, SCHEMA = Schema_of
     [(''groups'', Array String), (''include_authorized_operations'', Boolean)], RESPONSE_TYPE =
     DescribeGroupsResponse_v2\<rparr>"

definition DescribeGroupsRequest :: "request_class list" where
  "DescribeGroupsRequest = [DescribeGroupsRequest_v0, DescribeGroupsRequest_v1,
     DescribeGroupsRequest_v2, DescribeGroupsRequest_v3]"

definition DescribeGroupsResponse :: "message_class list" where
  "DescribeGroupsResponse = [DescribeGroupsResponse_v0, DescribeGroupsResponse_v1,
     DescribeGroupsResponse_v2, DescribeGroupsResponse_v3]"

definition DescribeAclsResponse_v0 :: message_class where
  "DescribeAclsResponse_v0 = \<lparr>mc_name = ''DescribeAclsResponse_v0'', mc_base =
     ''Response'', API_KEY = 29, API_VERSION = 0, FLEXIBLE_VERSION = False, SCHEMA = Schema_of
     [(''throttle_time_ms'', Int32), (''error_code'', Int16), (''error_message'', String),
     (''resources'', Array (Schema_of [(''resource_type'', Int8), (''resource_name'', String),
     (''acls'', Array (Schema_of [(''principal'', String), (''host'', String), (''operation'',
     Int8), (''permission_type'', Int8)]))]))]\<rparr>"

definition DescribeAclsResponse_v1 :: message_class where
  "DescribeAclsResponse_v1 = \<lparr>mc_name = ''DescribeAclsResponse_v1'', mc_base =
     ''Response'', API_KEY = 29, API_VERSION = 1, FLEXIBLE_VERSION = False, SCHEMA = Schema_of
     [(''throttle_time_ms'', Int32), (''error_code'', Int16), (''error_message'', String),
     (''resources'', Array (Schema_of [(''resource_type'', Int8), (''resource_name'', String),
     (''resource_pattern_type'', Int8), (''acls'', Array (Schema_of [(''principal'', String),
     (''host'', String), (''operation'', Int8), (''permission_type'', Int8)]))]))]\<rparr>"

definition DescribeAclsResponse_v2 :: message_class where
  "DescribeAclsResponse_v2 = \<lparr>mc_name = ''DescribeAclsResponse_v2'', mc_base =
     ''Response'', API_KEY = 29, API_VERSION = 2, FLEXIBLE_VERSION = False, SCHEMA = SCHEMA
     DescribeAclsResponse_v1\<rparr>"

definition DescribeAclsRequest_v0 :: request_class where
  "DescribeAclsRequest_v0 = \<lparr>mc_name = ''DescribeAclsRequest_v0'', mc_base = ''Request'',
     API_KEY = 29, API_VERSION = 0, FLEXIBLE_VERSION = False, SCHEMA = Schema_of
     [(''resource_type'', Int8), (''resource_name'', String), (''principal'', String),
     (''host'', String), (''operation'', Int8), (''permission_type'', Int8)], RESPONSE_TYPE =
     DescribeAclsResponse_v0\<rparr>"

definition DescribeAclsRequest_v1 :: request_class where
  "DescribeAclsRequest_v1 = \<lparr>mc_name = ''DescribeAclsRequest_v1'', mc_base = ''Request'',
     API_KEY = 29, API_VERSION = 1, FLEXIBLE_VERSION = False, SCHEMA = Schema_of
     [(''resource_type'', Int8), (''resource_name'', String), (''resource_pattern_type_filter'',
     Int8), (''principal'', String), (''host'', String), (''operation'', Int8),
     (''permission_type'', Int8)], RESPONSE_TYPE = DescribeAclsResponse_v1\<rparr>"

definition DescribeAclsRequest_v2 :: request_class where
  "DescribeAclsRequest_v2 = \<lparr>mc_name = ''DescribeAclsRequest_v2'', mc_base = ''Request'',
     API_KEY = 29, API_VERSION = 2, FLEXIBLE_VERSION = False, SCHEMA = SCHEMA
     DescribeAclsRequest_v1, RESPONSE_TYPE = DescribeAclsResponse_v2\<rparr>"

definition DescribeAclsRequest :: "request_class list" where
  "DescribeAclsRequest = [DescribeAclsRequest_v0, DescribeAclsRequest_v1,
     DescribeAclsRequest_v2]"

definition DescribeAclsResponse :: "message_class list" where
  "DescribeAclsResponse = [DescribeAclsResponse_v0, DescribeAclsResponse_v1,
     DescribeAclsResponse_v2]"

definition CreateAclsResponse_v0 :: message_class where
  "CreateAclsResponse_v0 = \<lparr>mc_name = ''CreateAclsResponse_v0'', mc_base = ''Response'',
     API_KEY = 30, API_VERSION = 0, FLEXIBLE_VERSION = False, SCHEMA = Schema_of
     [(''throttle_time_ms'', Int32), (''creation_responses'', Array (Schema_of [(''error_code'',
     Int16), (''error_message'', String)]))]\<rparr>"

definition CreateAclsResponse_v1 :: message_class where
  "CreateAclsResponse_v1 = \<lparr>mc_name = ''CreateAclsResponse_v1'', mc_base = ''Response'',
     API_KEY = 30, API_VERSION = 1, FLEXIBLE_VERSION = False, SCHEMA = SCHEMA
     CreateAclsResponse_v0\<rparr>"

definition CreateAclsRequest_v0 :: request_class where
  "CreateAclsRequest_v0 = \<lparr>mc_name = ''CreateAclsRequest_v0'', mc_base = ''Request'',
     API_KEY = 30, API_VERSION = 0, FLEXIBLE_VERSION = False, SCHEMA = Schema_of
     [(''creations'', Array (Schema_of [(''resource_type'', Int8), (''resource_name'', String),
     (''principal'', String), (''host'', String), (''operation'', Int8), (''permission_type'',
     Int8)]))], RESPONSE_TYPE = CreateAclsResponse_v0\<rparr>"

definition CreateAclsRequest_v1 :: request_class where
  "CreateAclsRequest_v1 = \<lparr>mc_name = ''CreateAclsRequest_v1'', mc_base = ''Request'',
     API_KEY = 30, API_VERSION = 1, FLEXIBLE_VERSION = False, SCHEMA = Schema_of
     [(''creations'', Array (Schema_of [(''resource_type'', Int8), (''resource_name'', String),
     (''resource_pattern_type'', Int8), (''principal'', String), (''host'', String),
     (''operation'', Int8), (''permission_type'', Int8)]))], RESPONSE_TYPE =
     CreateAclsResponse_v1\<rparr>"

definition CreateAclsRequest :: "request_class list" where
  "CreateAclsRequest = [CreateAclsRequest_v0, CreateAclsRequest_v1]"

definition CreateAclsResponse :: "message_class list" where
  "CreateAclsResponse = [CreateAclsResponse_v0, CreateAclsResponse_v1]"

definition DeleteAclsResponse_v0 :: message_class where
  "DeleteAclsResponse_v0 = \<lparr>mc_name = ''DeleteAclsResponse_v0'', mc_base = ''Response'',
     API_KEY = 31, API_VERSION = 0, FLEXIBLE_VERSION = False, SCHEMA = Schema_of
     [(''throttle_time_ms'', Int32), (''filter_responses'', Array (Schema_of [(''error_code'',
     Int16), (''error_message'', String), (''matching_acls'', Array (Schema_of [(''error_code'',
     Int16), (''error_message'', String), (''resource_type'', Int8), (''resource_name'',
     String), (''principal'', String), (''host'', String), (''operation'', Int8),
     (''permission_type'', Int8)]))]))]\<rparr>"

definition DeleteAclsResponse_v1 :: message_class where
  "DeleteAclsResponse_v1 = \<lparr>mc_name = ''DeleteAclsResponse_v1'', mc_base = ''Response'',
     API_KEY = 31, API_VERSION = 1, FLEXIBLE_VERSION = False, SCHEMA = Schema_of
     [(''throttle_time_ms'', Int32), (''filter_responses'', Array (Schema_of [(''error_code'',
     Int16), (''error_message'', String), (''matching_acls'', Array (Schema_of [(''error_code'',
     Int16), (''error_message'', String), (''resource_type'', Int8), (''resource_name'',
     String), (''resource_pattern_type'', Int8), (''principal'', String), (''host'', String),
     (''operation'', Int8), (''permission_type'', Int8)]))]))]\<rparr>"

definition DeleteAclsRequest_v0 :: request_class where
  "DeleteAclsRequest_v0 = \<lparr>mc_name = ''DeleteAclsRequest_v0'', mc_base = ''Request'',
     API_KEY = 31, API_VERSION = 0, FLEXIBLE_VERSION = False, SCHEMA = Schema_of [(''filters'',
     Array (Schema_of [(''resource_type'', Int8), (''resource_name'', String), (''principal'',
     String), (''host'', String), (''operation'', Int8), (''permission_type'', Int8)]))],
     RESPONSE_TYPE = DeleteAclsResponse_v0\<rparr>"

definition DeleteAclsRequest_v1 :: request_class where
  "DeleteAclsRequest_v1 = \<lparr>mc_name = ''DeleteAclsRequest_v1'', mc_base = ''Request'',
     API_KEY = 31, API_VERSION = 1, FLEXIBLE_VERSION = False, SCHEMA = Schema_of [(''filters'',
     Array (Schema_of [(''resource_type'', Int8), (''resource_name'', String),
     (''resource_pattern_type_filter'', Int8), (''principal'', String), (''host'', String),
     (''operation'', Int8), (''permission_type'', Int8)]))], RESPONSE_TYPE =
     DeleteAclsResponse_v1\<rparr>"

definition DeleteAclsRequest :: "request_class list" where
  "DeleteAclsRequest = [DeleteAclsRequest_v0, DeleteAclsRequest_v1]"

definition DeleteAclsResponse :: "message_class list" where
  "DeleteAclsResponse = [DeleteAclsResponse_v0, DeleteAclsResponse_v1]"

definition AlterConfigsResponse_v0 :: message_class where
  "AlterConfigsResponse_v0 = \<lparr>mc_name = ''AlterConfigsResponse_v0'', mc_base =
     ''Response'', API_KEY = 33, API_VERSION = 0, FLEXIBLE_VERSION = False, SCHEMA = Schema_of
     [(''throttle_time_ms'', Int32), (''resources'', Array (Schema_of [(''error_code'', Int16),
     (''error_message'', String), (''resource_type'', Int8), (''resource_name'',
     String)]))]\<rparr>"

definition AlterConfigsResponse_v1 :: message_class where
  "AlterConfigsResponse_v1 = \<lparr>mc_name = ''AlterConfigsResponse_v1'', mc_base =
     ''Response'', API_KEY = 33, API_VERSION = 1, FLEXIBLE_VERSION = False, SCHEMA = SCHEMA
     AlterConfigsResponse_v0\<rparr>"

definition AlterConfigsRequest_v0 :: request_class where
  "AlterConfigsRequest_v0 = \<lparr>mc_name = ''AlterConfigsRequest_v0'', mc_base = ''Request'',
     API_KEY = 33, API_VERSION = 0, FLEXIBLE_VERSION = False, SCHEMA = Schema_of
     [(''resources'', Array (Schema_of [(''resource_type'', Int8), (''resource_name'', String),
     (''config_entries'', Array (Schema_of [(''config_name'', String), (''config_value'',
     String)]))])), (''validate_only'', Boolean)], RESPONSE_TYPE =
     AlterConfigsResponse_v0\<rparr>"

definition AlterConfigsRequest_v1 :: request_class where
  "AlterConfigsRequest_v1 = \<lparr>mc_name = ''AlterConfigsRequest_v1'', mc_base = ''Request'',
     API_KEY = 33, API_VERSION = 1, FLEXIBLE_VERSION = False, SCHEMA = SCHEMA
     AlterConfigsRequest_v0, RESPONSE_TYPE = AlterConfigsResponse_v1\<rparr>"

definition AlterConfigsRequest :: "request_class list" where
  "AlterConfigsRequest = [AlterConfigsRequest_v0, AlterConfigsRequest_v1]"

definition AlterConfigsResponse :: "message_class list" where
  "AlterConfigsResponse = [AlterConfigsResponse_v0, message_class.truncate
     AlterConfigsRequest_v1]"

definition DescribeConfigsResponse_v0 :: message_class where
  "DescribeConfigsResponse_v0 = \<lparr>mc_name = ''DescribeConfigsResponse_v0'', mc_base =
     ''Response'', API_KEY = 32, API_VERSION = 0, FLEXIBLE_VERSION = False, SCHEMA = Schema_of
     [(''throttle_time_ms'', Int32), (''resources'', Array (Schema_of [(''error_code'', Int16),
     (''error_message'', String), (''resource_type'', Int8), (''resource_name'', String),
     (''config_entries'', Array (Schema_of [(''config_names'', String), (''config_value'',
     String), (''read_only'', Boolean), (''is_default'', Boolean), (''is_sensitive'',
     Boolean)]))]))]\<rparr>"

definition DescribeConfigsResponse_v1 :: message_class where
  "DescribeConfigsResponse_v1 = \<lparr>mc_name = ''DescribeConfigsResponse_v1'', mc_base =
     ''Response'', API_KEY = 32, API_VERSION = 1, FLEXIBLE_VERSION = False, SCHEMA = Schema_of
     [(''throttle_time_ms'', Int32), (''resources'', Array (Schema_of [(''error_code'', Int16),
     (''error_message'', String), (''resource_type'', Int8), (''resource_name'', String),
     (''config_entries'', Array (Schema_of [(''config_names'', String), (''config_value'',
     String), (''read_only'', Boolean), (''config_source'', Int8), (''is_sensitive'', Boolean),
     (''config_synonyms'', Array (Schema_of [(''config_name'', String), (''config_value'',
     String), (''config_source'', Int8)]))]))]))]\<rparr>"

definition DescribeConfigsResponse_v2 :: message_class where
  "DescribeConfigsResponse_v2 = \<lparr>mc_name = ''DescribeConfigsResponse_v2'', mc_base =
     ''Response'', API_KEY = 32, API_VERSION = 2, FLEXIBLE_VERSION = False, SCHEMA = Schema_of
     [(''throttle_time_ms'', Int32), (''resources'', Array (Schema_of [(''error_code'', Int16),
     (''error_message'', String), (''resource_type'', Int8), (''resource_name'', String),
     (''config_entries'', Array (Schema_of [(''config_names'', String), (''config_value'',
     String), (''read_only'', Boolean), (''config_source'', Int8), (''is_sensitive'', Boolean),
     (''config_synonyms'', Array (Schema_of [(''config_name'', String), (''config_value'',
     String), (''config_source'', Int8)]))]))]))]\<rparr>"

definition DescribeConfigsRequest_v0 :: request_class where
  "DescribeConfigsRequest_v0 = \<lparr>mc_name = ''DescribeConfigsRequest_v0'', mc_base =
     ''Request'', API_KEY = 32, API_VERSION = 0, FLEXIBLE_VERSION = False, SCHEMA = Schema_of
     [(''resources'', Array (Schema_of [(''resource_type'', Int8), (''resource_name'', String),
     (''config_names'', Array String)]))], RESPONSE_TYPE = DescribeConfigsResponse_v0\<rparr>"

definition DescribeConfigsRequest_v1 :: request_class where
  "DescribeConfigsRequest_v1 = \<lparr>mc_name = ''DescribeConfigsRequest_v1'', mc_base =
     ''Request'', API_KEY = 32, API_VERSION = 1, FLEXIBLE_VERSION = False, SCHEMA = Schema_of
     [(''resources'', Array (Schema_of [(''resource_type'', Int8), (''resource_name'', String),
     (''config_names'', Array String)])), (''include_synonyms'', Boolean)], RESPONSE_TYPE =
     DescribeConfigsResponse_v1\<rparr>"

definition DescribeConfigsRequest_v2 :: request_class where
  "DescribeConfigsRequest_v2 = \<lparr>mc_name = ''DescribeConfigsRequest_v2'', mc_base =
     ''Request'', API_KEY = 32, API_VERSION = 2, FLEXIBLE_VERSION = False, SCHEMA = SCHEMA
     DescribeConfigsRequest_v1, RESPONSE_TYPE = DescribeConfigsResponse_v2\<rparr>"

definition DescribeConfigsRequest :: "request_class list" where
  "DescribeConfigsRequest = [DescribeConfigsRequest_v0, DescribeConfigsRequest_v1,
     DescribeConfigsRequest_v2]"

definition DescribeConfigsResponse :: "message_class list" where
  "DescribeConfigsResponse = [DescribeConfigsResponse_v0, DescribeConfigsResponse_v1,
     DescribeConfigsResponse_v2]"

definition DescribeLogDirsResponse_v0 :: message_class where
  "DescribeLogDirsResponse_v0 = \<lparr>mc_name = ''DescribeLogDirsResponse_v0'', mc_base =
     ''Response'', API_KEY = 35, API_VERSION = 0, FLEXIBLE_VERSION = False, SCHEMA = Schema_of
     [(''throttle_time_ms'', Int32), (''log_dirs'', Array (Schema_of [(''error_code'', Int16),
     (''log_dir'', String), (''topics'', Array (Schema_of [(''name'', String), (''partitions'',
     Array (Schema_of [(''partition_index'', Int32), (''partition_size'', Int64),
     (''offset_lag'', Int64), (''is_future_key'', Boolean)]))]))]))]\<rparr>"

definition DescribeLogDirsRequest_v0 :: request_class where
  "DescribeLogDirsRequest_v0 = \<lparr>mc_name = ''DescribeLogDirsRequest_v0'', mc_base =
     ''Request'', API_KEY = 35, API_VERSION = 0, FLEXIBLE_VERSION = False, SCHEMA = Schema_of
     [(''topics'', Array (Schema_of [(''topic'', String), (''partitions'', Int32)]))],
     RESPONSE_TYPE = DescribeLogDirsResponse_v0\<rparr>"

definition DescribeLogDirsResponse :: "message_class list" where
  "DescribeLogDirsResponse = [DescribeLogDirsResponse_v0]"

definition DescribeLogDirsRequest :: "request_class list" where
  "DescribeLogDirsRequest = [DescribeLogDirsRequest_v0]"

definition admin_SaslAuthenticateResponse_v0 :: message_class where
  "admin_SaslAuthenticateResponse_v0 = \<lparr>mc_name = ''SaslAuthenticateResponse_v0'',
     mc_base = ''Response'', API_KEY = 36, API_VERSION = 0, FLEXIBLE_VERSION = False, SCHEMA =
     Schema_of [(''error_code'', Int16), (''error_message'', String), (''sasl_auth_bytes'',
     Bytes)]\<rparr>"

definition admin_SaslAuthenticateResponse_v1 :: message_class where
  "admin_SaslAuthenticateResponse_v1 = \<lparr>mc_name = ''SaslAuthenticateResponse_v1'',
     mc_base = ''Response'', API_KEY = 36, API_VERSION = 1, FLEXIBLE_VERSION = False, SCHEMA =
     Schema_of [(''error_code'', Int16), (''error_message'', String), (''sasl_auth_bytes'',
     Bytes), (''session_lifetime_ms'', Int64)]\<rparr>"

definition admin_SaslAuthenticateRequest_v0 :: request_class where
  "admin_SaslAuthenticateRequest_v0 = \<lparr>mc_name = ''SaslAuthenticateRequest_v0'', mc_base
     = ''Request'', API_KEY = 36, API_VERSION = 0, FLEXIBLE_VERSION = False, SCHEMA = Schema_of
     [(''sasl_auth_bytes'', Bytes)], RESPONSE_TYPE = admin_SaslAuthenticateResponse_v0\<rparr>"

definition admin_SaslAuthenticateRequest_v1 :: request_class where
  "admin_SaslAuthenticateRequest_v1 = \<lparr>mc_name = ''SaslAuthenticateRequest_v1'', mc_base
     = ''Request'', API_KEY = 36, API_VERSION = 1, FLEXIBLE_VERSION = False, SCHEMA = SCHEMA
     admin_SaslAuthenticateRequest_v0, RESPONSE_TYPE =
     admin_SaslAuthenticateResponse_v1\<rparr>"

definition admin_SaslAuthenticateRequest :: "request_class list" where
  "admin_SaslAuthenticateRequest = [admin_SaslAuthenticateRequest_v0,
     admin_SaslAuthenticateRequest_v1]"

definition admin_SaslAuthenticateResponse :: "message_class list" where
  "admin_SaslAuthenticateResponse = [admin_SaslAuthenticateResponse_v0,
     admin_SaslAuthenticateResponse_v1]"

definition CreatePartitionsResponse_v0 :: message_class where
  "CreatePartitionsResponse_v0 = \<lparr>mc_name = ''CreatePartitionsResponse_v0'', mc_base =
     ''Response'', API_KEY = 37, API_VERSION = 0, FLEXIBLE_VERSION = False, SCHEMA = Schema_of
     [(''throttle_time_ms'', Int32), (''topic_errors'', Array (Schema_of [(''topic'', String),
     (''error_code'', Int16), (''error_message'', String)]))]\<rparr>"

definition CreatePartitionsResponse_v1 :: message_class where
  "CreatePartitionsResponse_v1 = \<lparr>mc_name = ''CreatePartitionsResponse_v1'', mc_base =
     ''Response'', API_KEY = 37, API_VERSION = 1, FLEXIBLE_VERSION = False, SCHEMA = SCHEMA
     CreatePartitionsResponse_v0\<rparr>"

definition CreatePartitionsRequest_v0 :: request_class where
  "CreatePartitionsRequest_v0 = \<lparr>mc_name = ''CreatePartitionsRequest_v0'', mc_base =
     ''Request'', API_KEY = 37, API_VERSION = 0, FLEXIBLE_VERSION = False, SCHEMA = Schema_of
     [(''topic_partitions'', Array (Schema_of [(''topic'', String), (''new_partitions'',
     Schema_of [(''count'', Int32), (''assignment'', Array (Array Int32))])])), (''timeout'',
     Int32), (''validate_only'', Boolean)], RESPONSE_TYPE = CreatePartitionsResponse_v0\<rparr>"

definition CreatePartitionsRequest_v1 :: request_class where
  "CreatePartitionsRequest_v1 = \<lparr>mc_name = ''CreatePartitionsRequest_v1'', mc_base =
     ''Request'', API_KEY = 37, API_VERSION = 1, FLEXIBLE_VERSION = False, SCHEMA = SCHEMA
     CreatePartitionsRequest_v0, RESPONSE_TYPE = CreatePartitionsResponse_v1\<rparr>"

definition CreatePartitionsRequest :: "request_class list" where
  "CreatePartitionsRequest = [CreatePartitionsRequest_v0, CreatePartitionsRequest_v1]"

definition CreatePartitionsResponse :: "message_class list" where
  "CreatePartitionsResponse = [CreatePartitionsResponse_v0, CreatePartitionsResponse_v1]"

definition DeleteGroupsResponse_v0 :: message_class where
  "DeleteGroupsResponse_v0 = \<lparr>mc_name = ''DeleteGroupsResponse_v0'', mc_base =
     ''Response'', API_KEY = 42, API_VERSION = 0, FLEXIBLE_VERSION = False, SCHEMA = Schema_of
     [(''throttle_time_ms'', Int32), (''results'', Array (Schema_of [(''group_id'', String),
     (''error_code'', Int16)]))]\<rparr>"

definition DeleteGroupsResponse_v1 :: message_class where
  "DeleteGroupsResponse_v1 = \<lparr>mc_name = ''DeleteGroupsResponse_v1'', mc_base =
     ''Response'', API_KEY = 42, API_VERSION = 1, FLEXIBLE_VERSION = False, SCHEMA = SCHEMA
     DeleteGroupsResponse_v0\<rparr>"

definition DeleteGroupsRequest_v0 :: request_class where
  "DeleteGroupsRequest_v0 = \<lparr>mc_name = ''DeleteGroupsRequest_v0'', mc_base = ''Request'',
     API_KEY = 42, API_VERSION = 0, FLEXIBLE_VERSION = False, SCHEMA = Schema_of
     [(''groups_names'', Array String)], RESPONSE_TYPE = DeleteGroupsResponse_v0\<rparr>"

definition DeleteGroupsRequest_v1 :: request_class where
  "DeleteGroupsRequest_v1 = \<lparr>mc_name = ''DeleteGroupsRequest_v1'', mc_base = ''Request'',
     API_KEY = 42, API_VERSION = 1, FLEXIBLE_VERSION = False, SCHEMA = SCHEMA
     DeleteGroupsRequest_v0, RESPONSE_TYPE = DeleteGroupsResponse_v1\<rparr>"

definition DeleteGroupsRequest :: "request_class list" where
  "DeleteGroupsRequest = [DeleteGroupsRequest_v0, DeleteGroupsRequest_v1]"

definition DeleteGroupsResponse :: "message_class list" where
  "DeleteGroupsResponse = [DeleteGroupsResponse_v0, DeleteGroupsResponse_v1]"

definition DescribeClientQuotasResponse_v0 :: message_class where
  "DescribeClientQuotasResponse_v0 = \<lparr>mc_name = ''DescribeClientQuotasResponse_v0'',
     mc_base = ''Response'', API_KEY = 48, API_VERSION = 0, FLEXIBLE_VERSION = False, SCHEMA =
     Schema_of [(''throttle_time_ms'', Int32), (''error_code'', Int16), (''error_message'',
     String), (''entries'', Array (Schema_of [(''entity'', Array (Schema_of [(''entity_type'',
     String), (''entity_name'', String)])), (''values'', Array (Schema_of [(''name'', String),
     (''value'', Float64)]))]))]\<rparr>"

definition DescribeClientQuotasRequest_v0 :: request_class where
  "DescribeClientQuotasRequest_v0 = \<lparr>mc_name = ''DescribeClientQuotasRequest_v0'',
     mc_base = ''Request'', API_KEY = 48, API_VERSION = 0, FLEXIBLE_VERSION = False, SCHEMA =
     Schema_of [(''components'', Array (Schema_of [(''entity_type'', String), (''match_type'',
     Int8), (''match'', String)])), (''strict'', Boolean)], RESPONSE_TYPE =
     DescribeClientQuotasResponse_v0\<rparr>"

definition DescribeClientQuotasRequest :: "request_class list" where
  "DescribeClientQuotasRequest = [DescribeClientQuotasRequest_v0]"

definition DescribeClientQuotasResponse :: "message_class list" where
  "DescribeClientQuotasResponse = [DescribeClientQuotasResponse_v0]"

definition AlterPartitionReassignmentsResponse_v0 :: message_class where
  "AlterPartitionReassignmentsResponse_v0 = \<lparr>mc_name =
     ''AlterPartitionReassignmentsResponse_v0'', mc_base = ''Response'', API_KEY = 45,
     API_VERSION = 0, FLEXIBLE_VERSION = True, SCHEMA = Schema_of [(''throttle_time_ms'',
     Int32), (''error_code'', Int16), (''error_message'', CompactString), (''responses'',
     CompactArray (Schema_of [(''name'', CompactString), (''partitions'', CompactArray
     (Schema_of [(''partition_index'', Int32), (''error_code'', Int16), (''error_message'',
     CompactString), (''tags'', TaggedFields)])), (''tags'', TaggedFields)])), (''tags'',
     TaggedFields)]\<rparr>"

definition AlterPartitionReassignmentsRequest_v0 :: request_class where
  "AlterPartitionReassignmentsRequest_v0 = \<lparr>mc_name =
     ''AlterPartitionReassignmentsRequest_v0'', mc_base = ''Request'', API_KEY = 45, API_VERSION
     = 0, FLEXIBLE_VERSION = True, SCHEMA = Schema_of [(''timeout_ms'', Int32), (''topics'',
     CompactArray (Schema_of [(''name'', CompactString), (''partitions'', CompactArray
     (Schema_of [(''partition_index'', Int32), (''replicas'', CompactArray Int32), (''tags'',
     TaggedFields)])), (''tags'', TaggedFields)])), (''tags'', TaggedFields)], RESPONSE_TYPE =
     AlterPartitionReassignmentsResponse_v0\<rparr>"

definition AlterPartitionReassignmentsRequest :: "request_class list" where
  "AlterPartitionReassignmentsRequest = [AlterPartitionReassignmentsRequest_v0]"

definition AlterPartitionReassignmentsResponse :: "message_class list" where
  "AlterPartitionReassignmentsResponse = [AlterPartitionReassignmentsResponse_v0]"

definition ListPartitionReassignmentsResponse_v0 :: message_class where
  "ListPartitionReassignmentsResponse_v0 = \<lparr>mc_name =
     ''ListPartitionReassignmentsResponse_v0'', mc_base = ''Response'', API_KEY = 46,
     API_VERSION = 0, FLEXIBLE_VERSION = True, SCHEMA = Schema_of [(''throttle_time_ms'',
     Int32), (''error_code'', Int16), (''error_message'', CompactString), (''topics'',
     CompactArray (Schema_of [(''name'', CompactString), (''partitions'', CompactArray
     (Schema_of [(''partition_index'', Int32), (''replicas'', CompactArray Int32),
     (''adding_replicas'', CompactArray Int32), (''removing_replicas'', CompactArray Int32),
     (''tags'', TaggedFields)])), (''tags'', TaggedFields)])), (''tags'',
     TaggedFields)]\<rparr>"

definition ListPartitionReassignmentsRequest_v0 :: request_class where
  "ListPartitionReassignmentsRequest_v0 = \<lparr>mc_name =
     ''ListPartitionReassignmentsRequest_v0'', mc_base = ''Request'', API_KEY = 46, API_VERSION
     = 0, FLEXIBLE_VERSION = True, SCHEMA = Schema_of [(''timeout_ms'', Int32), (''topics'',
     CompactArray (Schema_of [(''name'', CompactString), (''partition_index'', CompactArray
     Int32), (''tags'', TaggedFields)])), (''tags'', TaggedFields)], RESPONSE_TYPE =
     ListPartitionReassignmentsResponse_v0\<rparr>"

definition ListPartitionReassignmentsRequest :: "request_class list" where
  "ListPartitionReassignmentsRequest = [ListPartitionReassignmentsRequest_v0]"

definition ListPartitionReassignmentsResponse :: "message_class list" where
  "ListPartitionReassignmentsResponse = [ListPartitionReassignmentsResponse_v0]"

definition ElectLeadersResponse_v0 :: message_class where
  "ElectLeadersResponse_v0 = \<lparr>mc_name = ''ElectLeadersResponse_v0'', mc_base =
     ''Response'', API_KEY = 43, API_VERSION = 1, FLEXIBLE_VERSION = False, SCHEMA = Schema_of
     [(''throttle_time_ms'', Int32), (''error_code'', Int16), (''replication_election_results'',
     Array (Schema_of [(''topic'', String), (''partition_result'', Array (Schema_of
     [(''partition_id'', Int32), (''error_code'', Int16), (''error_message'',
     String)]))]))]\<rparr>"

definition ElectLeadersRequest_v0 :: request_class where
  "ElectLeadersRequest_v0 = \<lparr>mc_name = ''ElectLeadersRequest_v0'', mc_base = ''Request'',
     API_KEY = 43, API_VERSION = 1, FLEXIBLE_VERSION = False, SCHEMA = Schema_of
     [(''election_type'', Int8), (''topic_partitions'', Array (Schema_of [(''topic'', String),
     (''partition_ids'', Array Int32)])), (''timeout'', Int32)], RESPONSE_TYPE =
     ElectLeadersResponse_v0\<rparr>"

definition ElectLeadersResponse_v1 :: message_class where
  "ElectLeadersResponse_v1 = \<lparr>mc_name = ''ElectLeadersResponse_v1'', mc_base =
     ''Response'', API_KEY = 43, API_VERSION = 1, FLEXIBLE_VERSION = False, SCHEMA = Schema_of
     [(''throttle_time_ms'', Int32), (''error_code'', Int16), (''replication_election_results'',
     Array (Schema_of [(''topic'', String), (''partition_result'', Array (Schema_of
     [(''partition_id'', Int32), (''error_code'', Int16), (''error_message'',
     String)]))]))]\<rparr>"

definition ElectLeadersRequest_v1 :: request_class where
  "ElectLeadersRequest_v1 = \<lparr>mc_name = ''ElectLeadersRequest_v1'', mc_base = ''Request'',
     API_KEY = 43, API_VERSION = 1, FLEXIBLE_VERSION = False, SCHEMA = Schema_of
     [(''election_type'', Int8), (''topic_partitions'', Array (Schema_of [(''topic'', String),
     (''partition_ids'', Array Int32)])), (''timeout'', Int32)], RESPONSE_TYPE =
     ElectLeadersResponse_v1\<rparr>"

definition ElectLeadersRequest :: "request_class list" where
  "ElectLeadersRequest = [ElectLeadersRequest_v0, ElectLeadersRequest_v1]"

definition ElectLeadersResponse :: "message_class list" where
  "ElectLeadersResponse = [ElectLeadersResponse_v0, ElectLeadersResponse_v1]"

section \<open>The version tables\<close>

definition admin_apis :: "(request_class list \<times> message_class list) list" where
  "admin_apis =
    [(CreateTopicsRequest, CreateTopicsResponse), (DeleteTopicsRequest, DeleteTopicsResponse),
     (DeleteRecordsRequest, DeleteRecordsResponse), (DescribeAclsRequest,
     DescribeAclsResponse), (CreateAclsRequest, CreateAclsResponse), (DeleteAclsRequest,
     DeleteAclsResponse), (DescribeConfigsRequest, DescribeConfigsResponse),
     (DescribeLogDirsRequest, DescribeLogDirsResponse), (admin_SaslAuthenticateRequest,
     admin_SaslAuthenticateResponse), (CreatePartitionsRequest, CreatePartitionsResponse),
     (DeleteGroupsRequest, DeleteGroupsResponse), (DescribeClientQuotasRequest,
     DescribeClientQuotasResponse), (AlterPartitionReassignmentsRequest,
     AlterPartitionReassignmentsResponse), (ListPartitionReassignmentsRequest,
     ListPartitionReassignmentsResponse)]"

text \<open>The tables with an entry that breaks the contract.\<close>

definition irregular_admin_apis :: "(request_class list \<times> message_class list) list" where
  "irregular_admin_apis =
    [(ListGroupsRequest, ListGroupsResponse), (DescribeGroupsRequest, DescribeGroupsResponse),
     (AlterConfigsRequest, AlterConfigsResponse), (ElectLeadersRequest, ElectLeadersResponse)]"

lemmas admin_api_defs = admin_apis_def irregular_admin_apis_def
  CreateTopicsResponse_v0_def CreateTopicsResponse_v1_def CreateTopicsResponse_v2_def
  CreateTopicsResponse_v3_def CreateTopicsRequest_v0_def CreateTopicsRequest_v1_def
  CreateTopicsRequest_v2_def CreateTopicsRequest_v3_def CreateTopicsRequest_def
  CreateTopicsResponse_def DeleteTopicsResponse_v0_def DeleteTopicsResponse_v1_def
  DeleteTopicsResponse_v2_def DeleteTopicsResponse_v3_def DeleteTopicsRequest_v0_def
  DeleteTopicsRequest_v1_def DeleteTopicsRequest_v2_def DeleteTopicsRequest_v3_def
  DeleteTopicsRequest_def DeleteTopicsResponse_def DeleteRecordsResponse_v0_def
  DeleteRecordsRequest_v0_def DeleteRecordsResponse_def DeleteRecordsRequest_def
  ListGroupsResponse_v0_def ListGroupsResponse_v1_def ListGroupsResponse_v2_def
  ListGroupsRequest_v0_def ListGroupsRequest_v1_def ListGroupsRequest_v2_def
  ListGroupsRequest_def ListGroupsResponse_def DescribeGroupsResponse_v0_def
  DescribeGroupsResponse_v1_def DescribeGroupsResponse_v2_def DescribeGroupsResponse_v3_def
  DescribeGroupsRequest_v0_def DescribeGroupsRequest_v1_def DescribeGroupsRequest_v2_def
  DescribeGroupsRequest_v3_def DescribeGroupsRequest_def DescribeGroupsResponse_def
  DescribeAclsResponse_v0_def DescribeAclsResponse_v1_def DescribeAclsResponse_v2_def
  DescribeAclsRequest_v0_def DescribeAclsRequest_v1_def DescribeAclsRequest_v2_def
  DescribeAclsRequest_def DescribeAclsResponse_def CreateAclsResponse_v0_def
  CreateAclsResponse_v1_def CreateAclsRequest_v0_def CreateAclsRequest_v1_def
  CreateAclsRequest_def CreateAclsResponse_def DeleteAclsResponse_v0_def
  DeleteAclsResponse_v1_def DeleteAclsRequest_v0_def DeleteAclsRequest_v1_def
  DeleteAclsRequest_def DeleteAclsResponse_def AlterConfigsResponse_v0_def
  AlterConfigsResponse_v1_def AlterConfigsRequest_v0_def AlterConfigsRequest_v1_def
  AlterConfigsRequest_def AlterConfigsResponse_def DescribeConfigsResponse_v0_def
  DescribeConfigsResponse_v1_def DescribeConfigsResponse_v2_def DescribeConfigsRequest_v0_def
  DescribeConfigsRequest_v1_def DescribeConfigsRequest_v2_def DescribeConfigsRequest_def
  DescribeConfigsResponse_def DescribeLogDirsResponse_v0_def DescribeLogDirsRequest_v0_def
  DescribeLogDirsResponse_def DescribeLogDirsRequest_def admin_SaslAuthenticateResponse_v0_def
  admin_SaslAuthenticateResponse_v1_def admin_SaslAuthenticateRequest_v0_def
  admin_SaslAuthenticateRequest_v1_def admin_SaslAuthenticateRequest_def
  admin_SaslAuthenticateResponse_def CreatePartitionsResponse_v0_def
  CreatePartitionsResponse_v1_def CreatePartitionsRequest_v0_def CreatePartitionsRequest_v1_def
  CreatePartitionsRequest_def CreatePartitionsResponse_def DeleteGroupsResponse_v0_def
  DeleteGroupsResponse_v1_def DeleteGroupsRequest_v0_def DeleteGroupsRequest_v1_def
  DeleteGroupsRequest_def DeleteGroupsResponse_def DescribeClientQuotasResponse_v0_def
  DescribeClientQuotasRequest_v0_def DescribeClientQuotasRequest_def
  DescribeClientQuotasResponse_def AlterPartitionReassignmentsResponse_v0_def
  AlterPartitionReassignmentsRequest_v0_def AlterPartitionReassignmentsRequest_def
  AlterPartitionReassignmentsResponse_def ListPartitionReassignmentsResponse_v0_def
  ListPartitionReassignmentsRequest_v0_def ListPartitionReassignmentsRequest_def
  ListPartitionReassignmentsResponse_def ElectLeadersResponse_v0_def ElectLeadersRequest_v0_def
  ElectLeadersResponse_v1_def ElectLeadersRequest_v1_def ElectLeadersRequest_def
  ElectLeadersResponse_def

lemma admin_versioned: "list_all (\<lambda>(reqs, resps). versioned reqs resps) admin_apis"
  by code_simp

lemma admin_schemas_wf: "schemas_wf (admin_apis @ irregular_admin_apis)"
  by code_simp

text \<open>The version tables of the admin requests are consistent, the four irregular ones apart.\<close>

theorem admin_version_table:
  assumes "(reqs, resps) \<in> set admin_apis" "i < length reqs"
  shows "length resps = length reqs \<and> API_VERSION (reqs ! i) = int i \<and>
    RESPONSE_TYPE (reqs ! i) = resps ! i \<and> API_KEY (resps ! i) = API_KEY (reqs ! i) \<and>
    API_VERSION (resps ! i) = int i"
  by (rule versioned_entry [OF admin_versioned assms])

theorem admin_version_table_witness:
  "API_VERSION (CreateTopicsRequest ! 2) = 2 \<and>
   RESPONSE_TYPE (CreateTopicsRequest ! 2) = CreateTopicsResponse ! 2"
  using admin_version_table [of CreateTopicsRequest CreateTopicsResponse 2]
  by (simp add: admin_apis_def CreateTopicsRequest_def)

text \<open>Four admin tables break the contract: \<open>ListGroupsRequest[2]\<close> is sent as version 1,
  \<open>DescribeGroupsRequest[3]\<close> decodes its response as version 2, \<open>AlterConfigsResponse[1]\<close> is a
  request class and not the response class of version 1, and \<open>ElectLeadersRequest[0]\<close> is sent as
  version 1.\<close>

theorem irregular_admin_tables:
  "API_VERSION (ListGroupsRequest ! 2) = 1 \<and>
   API_VERSION (DescribeGroupsRequest ! 3) = 3 \<and> API_VERSION (RESPONSE_TYPE (DescribeGroupsRequest ! 3)) = 2 \<and>
   mc_name (AlterConfigsResponse ! 1) = ''AlterConfigsRequest_v1'' \<and>
   AlterConfigsResponse ! 1 \<noteq> RESPONSE_TYPE (AlterConfigsRequest ! 1) \<and>
   API_VERSION (ElectLeadersRequest ! 0) = 1"
  by code_simp

text \<open>Every admin message survives the wire, the irregular versions included.\<close>

theorem admin_message_roundtrip:
  assumes "schema \<in> set (api_schemas (admin_apis @ irregular_admin_apis))" "fits schema (VTuple vs)"
    and "Struct_init schema vs [] = Inr obj"
  shows "\<exists>bs. Struct_encode_self obj = Inr bs \<and>
    (\<forall>rest. Struct_decode schema (bs @ rest) = Inr (obj, rest))"
  by (rule schema_roundtrip [OF admin_schemas_wf assms])

definition example_delete_groups :: struct_obj where
  "example_delete_groups = \<lparr>so_schema = SCHEMA DeleteGroupsRequest_v0,
     so_dict = [(''groups_names'', VList [VStr [103]])]\<rparr>"

theorem admin_message_roundtrip_witness:
  "\<exists>bs. Struct_encode_self example_delete_groups = Inr bs \<and>
    (\<forall>rest. Struct_decode (SCHEMA DeleteGroupsRequest_v0) (bs @ rest) = Inr (example_delete_groups, rest))"
  by (rule admin_message_roundtrip [where vs = "[VList [VStr [103]]]"])
    (simp_all add: api_schemas_def admin_apis_def DeleteGroupsRequest_def DeleteGroupsRequest_v0_def
      example_delete_groups_def Schema_of_def Struct_init_def fits_schema_def fits_array_def fits_str_def
      is_code_point_def surrogate_def utf8_char_def)

end
