(* ===== verification/Parser.thy ===== *)
theory Parser
  imports Errors Messages
begin

text \<open>
  \<^verbatim>\<open>kafka/protocol/frame.py\<close> and \<^verbatim>\<open>kafka/protocol/parser.py\<close>: the byte buffer and the protocol
  object of a connection, which frames requests, keeps the queue of requests in flight and
  reassembles responses from whatever chunks the network delivers.  The state is the record
  \<open>kafka_protocol\<close>; every method is a state-and-exception function.  Offsets are natural numbers:
  \<open>4 - self._header.tell()\<close> and \<open>total_bytes - staged_bytes\<close> are negative only in states the two
  "should not happen" branches raise in.
\<close>

section \<open>KafkaBytes\<close>

record kafka_bytes =
  kb_data :: bytes
  kb_idx :: nat

definition KafkaBytes :: "int \<Rightarrow> kafka_bytes res" where
  "KafkaBytes sz = (if sz < 0 then Inl ValueError else Inr \<lparr>kb_data = replicate (nat sz) 0, kb_idx = 0\<rparr>)"

definition kb_read :: "nat option \<Rightarrow> kafka_bytes \<Rightarrow> bytes \<times> kafka_bytes" where
  "kb_read nbytes b =
     (let n = (case nbytes of None \<Rightarrow> length (kb_data b) - kb_idx b | Some n \<Rightarrow> n);
          start = kb_idx b;
          idx = (if start + n > length (kb_data b) then length (kb_data b) else start + n)
      in (take (idx - start) (drop start (kb_data b)), b\<lparr>kb_idx := idx\<rparr>))"

definition kb_write :: "bytes \<Rightarrow> kafka_bytes \<Rightarrow> kafka_bytes" where
  "kb_write data b =
     (let start = kb_idx b; idx = start + length data
      in b\<lparr>kb_data := take start (kb_data b) @ data @ drop idx (kb_data b), kb_idx := idx\<rparr>)"

definition kb_seek :: "nat \<Rightarrow> kafka_bytes \<Rightarrow> kafka_bytes" where
  "kb_seek idx b = b\<lparr>kb_idx := idx\<rparr>"

definition kb_tell :: "kafka_bytes \<Rightarrow> nat" where
  "kb_tell b = kb_idx b"

section \<open>KafkaProtocol\<close>

record request =
  rq_class :: request_class
  rq_obj :: struct_obj

record kafka_protocol =
  client_id :: pystr
  kp_api_version :: "int list option"
  correlation_id :: int
  header :: kafka_bytes
  rbuffer :: "kafka_bytes option"
  receiving :: bool
  in_flight_requests :: "(int \<times> request) list"
  bytes_to_send :: "bytes list"

definition pystr_of :: "string \<Rightarrow> pystr" where
  "pystr_of s = map of_char s"

definition gen_client_id :: "string \<Rightarrow> pystr" where
  "gen_client_id version = pystr_of (''kafka-python'' @ version)"

definition KafkaProtocol :: "string \<Rightarrow> pystr option \<Rightarrow> int list option \<Rightarrow> kafka_protocol" where
  "KafkaProtocol version client api_version =
     \<lparr>client_id = (case client of None \<Rightarrow> gen_client_id version | Some c \<Rightarrow> c),
      kp_api_version = api_version, correlation_id = 0,
      header = \<lparr>kb_data = replicate 4 0, kb_idx = 0\<rparr>, rbuffer = None, receiving = False,
      in_flight_requests = [], bytes_to_send = []\<rparr>"

definition next_correlation_id :: "(kafka_protocol, int) py" where
  "next_correlation_id =
     py_then (py_set (\<lambda>s. s\<lparr>correlation_id := (correlation_id s + 1) mod 2 ^ 31\<rparr>))
       (py_get correlation_id)"

definition send_request :: "request \<Rightarrow> int option \<Rightarrow> (kafka_protocol, int) py" where
  "send_request request given =
     py_bind (case given of None \<Rightarrow> next_correlation_id | Some c \<Rightarrow> py_return c) (\<lambda>cid.
     py_bind (py_get client_id) (\<lambda>client.
     py_bind (py_lift (res_bind (build_header (rq_class request) cid client) Struct_encode_self)) (\<lambda>hdr.
     py_bind (py_lift (Struct_encode_self (rq_obj request))) (\<lambda>body.
     py_bind (py_lift (Int32_encode (VInt (int (length (hdr @ body)))))) (\<lambda>size.
     py_then (py_set (\<lambda>s. s\<lparr>bytes_to_send := bytes_to_send s @ [size @ hdr @ body]\<rparr>))
    (py_then (py_when (\<lambda>_. expect_response (rq_class request) (rq_obj request))
                (py_set (\<lambda>s. s\<lparr>in_flight_requests := in_flight_requests s @ [(cid, request)]\<rparr>)))
       (py_return cid)))))))"

definition send_bytes :: "(kafka_protocol, bytes) py" where
  "send_bytes =
     py_bind (py_get (\<lambda>s. concat (bytes_to_send s))) (\<lambda>data.
       py_then (py_set (\<lambda>s. s\<lparr>bytes_to_send := []\<rparr>)) (py_return data))"

definition header_correlation_id :: "struct_obj \<Rightarrow> int res" where
  "header_correlation_id h =
     (case map_of (so_dict h) ''correlation_id'' of Some (VInt i) \<Rightarrow> Inr i | _ \<Rightarrow> Inl AttributeError)"

text \<open>The 0.8.2 quirk: the one response allowed to carry correlation id 0.\<close>

definition quirk_082 :: "int list option \<Rightarrow> int \<Rightarrow> int \<Rightarrow> message_class \<Rightarrow> bool" where
  "quirk_082 api_version cid recv_cid response_type \<longleftrightarrow>
     recv_cid = 0 \<and> cid \<noteq> 0 \<and> response_type = FindCoordinatorResponse ! 0 \<and>
     (api_version = Some [0, 8, 2] \<or> api_version = None)"

definition decode_response :: "int list option \<Rightarrow> int \<times> request \<Rightarrow> bytes \<Rightarrow> (int \<times> struct_obj) res" where
  "decode_response api_version = (\<lambda>(cid, request) read_buffer.
     (let response_type = RESPONSE_TYPE (rq_class request) in
      res_bind (parse_header response_type read_buffer) (\<lambda>(response_header, body).
      res_bind (header_correlation_id response_header) (\<lambda>recv_cid.
      if \<not> quirk_082 api_version cid recv_cid response_type \<and> cid \<noteq> recv_cid
      then Inl CorrelationIdError
      else case response_decode response_type body of
             Inl e \<Rightarrow> if issubclass e ValueError then Inl KafkaProtocolError else Inl e
           | Inr (response, _) \<Rightarrow> Inr (cid, response)))))"

definition process_response :: "bytes \<Rightarrow> (kafka_protocol, int \<times> struct_obj) py" where
  "process_response read_buffer s =
     (case in_flight_requests s of
        [] \<Rightarrow> (Inl CorrelationIdError, s)
      | ifr # rest \<Rightarrow>
          (decode_response (kp_api_version s) ifr read_buffer, s\<lparr>in_flight_requests := rest\<rparr>))"

definition reset_buffer :: "kafka_protocol \<Rightarrow> kafka_protocol" where
  "reset_buffer s = s\<lparr>receiving := False, header := kb_seek 0 (header s), rbuffer := None\<rparr>"

text \<open>One iteration of \<open>receive_bytes\<close> is \<open>read_header\<close> and then, when a payload is being received,
  \<open>read_payload\<close>, which returns nothing for the \<open>break\<close>; both return the unread data.\<close>

definition read_header :: "bytes \<Rightarrow> (kafka_protocol, bytes) py" where
  "read_header data s =
     (if receiving s then (Inr data, s)
      else
        let bytes_to_read = min (4 - kb_tell (header s)) (length data);
            h = kb_write (take bytes_to_read data) (header s);
            rest = drop bytes_to_read data
        in if kb_tell h = 4 then
             (case kb_read (Some 4) (kb_seek 0 h) of (four, h') \<Rightarrow>
                case res_bind (Int32_decode four) (\<lambda>(nbytes, _). KafkaBytes nbytes) of
                  Inl e \<Rightarrow> (Inl e, s\<lparr>header := h'\<rparr>)
                | Inr buf \<Rightarrow> (Inr rest, s\<lparr>header := h', rbuffer := Some buf, receiving := True\<rparr>))
           else if kb_tell h > 4 then (Inl KafkaError, s\<lparr>header := h\<rparr>)
           else (Inr rest, s\<lparr>header := h\<rparr>))"

definition finish_payload ::
  "nat \<Rightarrow> kafka_bytes \<Rightarrow> bytes \<Rightarrow> (kafka_protocol, ((int \<times> struct_obj) \<times> bytes) option) py" where
  "finish_payload total_bytes buf rest s =
     (let s' = s\<lparr>rbuffer := Some buf\<rparr>
      in if kb_tell buf > total_bytes then (Inl KafkaError, s')
         else if kb_tell buf \<noteq> total_bytes then (Inr None, s')
         else
           (case process_response (kb_data buf)
                   (s'\<lparr>receiving := False, rbuffer := Some (kb_seek 0 buf)\<rparr>) of
              (Inl e, t) \<Rightarrow> (Inl e, t)
            | (Inr resp, t) \<Rightarrow> (Inr (Some (resp, rest)), reset_buffer t)))"

definition read_payload :: "bytes \<Rightarrow> (kafka_protocol, ((int \<times> struct_obj) \<times> bytes) option) py" where
  "read_payload data s =
     (case rbuffer s of
        None \<Rightarrow> (Inl TypeError, s)
      | Some buf \<Rightarrow>
          let total_bytes = length (kb_data buf);
              bytes_to_read = min (total_bytes - kb_tell buf) (length data)
          in finish_payload total_bytes (kb_write (take bytes_to_read data) buf)
               (drop bytes_to_read data) s)"

lemma read_header_progress:
  "read_header data s = (Inr rest, t) \<Longrightarrow> data \<noteq> [] \<Longrightarrow>
     length rest \<le> length data \<and>
     (length rest = length data \<longrightarrow> receiving t \<and> (receiving s \<or> 4 \<le> kb_tell (header s)))"
  by (auto simp: read_header_def Let_def kb_write_def kb_tell_def split: if_splits sum.splits prod.splits)

lemma read_payload_progress:
  "read_payload data s = (Inr (Some (r, rest)), t) \<Longrightarrow>
     length rest \<le> length data \<and> \<not> receiving t \<and> kb_tell (header t) = 0"
  by (auto simp: read_payload_def finish_payload_def Let_def reset_buffer_def kb_seek_def kb_tell_def
      split: if_splits option.splits sum.splits prod.splits)

function receive_loop :: "bytes \<Rightarrow> (int \<times> struct_obj) list \<Rightarrow> (kafka_protocol, (int \<times> struct_obj) list) py" where
  "receive_loop data responses s =
     (if data = [] then (Inr responses, s)
      else case read_header data s of
             (Inl e, t) \<Rightarrow> (Inl e, t)
           | (Inr rest, t) \<Rightarrow>
               if \<not> receiving t then receive_loop rest responses t
               else case read_payload rest t of
                      (Inl e, u) \<Rightarrow> (Inl e, u)
                    | (Inr None, u) \<Rightarrow> (Inr responses, u)
                    | (Inr (Some (resp, rest')), u) \<Rightarrow> receive_loop rest' (responses @ [resp]) u)"
  by pat_completeness auto
termination
proof (relation "measure (\<lambda>(data, responses, s).
    2 * length data + (if receiving s \<or> 4 \<le> kb_tell (header s) then 1 else 0))",
    goal_cases)
  case (2 data responses s ra t rest)
  then show ?case using read_header_progress [of data s rest t] by auto
next
  case (3 data responses s ra t rest rp u o' p resp rest')
  then show ?case
    using read_header_progress [of data s rest t] read_payload_progress [of rest t resp rest' u]
    by auto
qed simp

declare receive_loop.simps [simp del]

definition receive_bytes :: "bytes \<Rightarrow> (kafka_protocol, (int \<times> struct_obj) list) py" where
  "receive_bytes data = receive_loop data []"

section \<open>Chunk independence\<close>

lemma kb_write_append: "kb_write ys (kb_write xs b) = kb_write (xs @ ys) b"
  by (cases b) (auto simp: kb_write_def Let_def min_def ac_simps)

lemma kb_tell_write [simp]: "kb_tell (kb_write xs b) = kb_tell b + length xs"
  by (simp add: kb_write_def kb_tell_def Let_def)

lemma length_kb_write:
  "kb_tell b + length xs \<le> length (kb_data b) \<Longrightarrow> length (kb_data (kb_write xs b)) = length (kb_data b)"
  by (simp add: kb_write_def kb_tell_def Let_def)

text \<open>A header that fits in the first chunk is read as if the second were not there; one that does
  not is finished by the second chunk.\<close>

lemma read_header_append:
  assumes "4 - kb_tell (header s) \<le> length a"
  shows "read_header (a @ b) s =
    (case read_header a s of (Inl e, t) \<Rightarrow> (Inl e, t) | (Inr rest, t) \<Rightarrow> (Inr (rest @ b), t))"
  using assms by (auto simp: read_header_def Let_def min_def split: prod.splits sum.splits)

lemma read_header_receiving: "receiving s \<Longrightarrow> read_header a s = (Inr a, s)"
  by (simp add: read_header_def)

lemma read_header_partial:
  assumes "length a < 4 - kb_tell (header s)" "\<not> receiving s"
  shows "read_header a s = (Inr [], s\<lparr>header := kb_write a (header s)\<rparr>)"
    and "read_header (a @ b) s = read_header b (s\<lparr>header := kb_write a (header s)\<rparr>)"
proof -
  let ?i = "kb_tell (header s)"
  have lt: "?i + length a < 4" using assms(1) by linarith
  show "read_header a s = (Inr [], s\<lparr>header := kb_write a (header s)\<rparr>)"
    using assms lt by (simp add: read_header_def min_def Let_def)
  have m: "min (4 - ?i) (length a + length b) = length a + min (4 - (?i + length a)) (length b)"
    using lt by linarith
  show "read_header (a @ b) s = read_header b (s\<lparr>header := kb_write a (header s)\<rparr>)"
    unfolding read_header_def using assms by (simp add: m kb_write_append Let_def split: prod.splits sum.splits)
qed

lemma read_payload_full:
  assumes "rbuffer s = Some buf" "length (kb_data buf) - kb_tell buf \<le> length a"
  shows "read_payload (a @ b) s =
    (case read_payload a s of (Inl e, t) \<Rightarrow> (Inl e, t) | (Inr None, t) \<Rightarrow> (Inr None, t)
     | (Inr (Some (r, rest)), t) \<Rightarrow> (Inr (Some (r, rest @ b)), t))"
    and "read_payload a s \<noteq> (Inr None, t)"
  using assms by (auto simp: read_payload_def finish_payload_def Let_def min_def split: prod.splits sum.splits)

lemma read_payload_partial:
  assumes "rbuffer s = Some buf" "length a < length (kb_data buf) - kb_tell buf"
  shows "read_payload a s = (Inr None, s\<lparr>rbuffer := Some (kb_write a buf)\<rparr>)"
    and "read_payload (a @ b) s = read_payload b (s\<lparr>rbuffer := Some (kb_write a buf)\<rparr>)"
proof -
  let ?n = "length (kb_data buf)" and ?i = "kb_tell buf"
  have lt: "?i + length a < ?n" using assms(2) by linarith
  show "read_payload a s = (Inr None, s\<lparr>rbuffer := Some (kb_write a buf)\<rparr>)"
    using assms lt by (simp add: read_payload_def finish_payload_def min_def Let_def)
  define k where "k = min (?n - (?i + length a)) (length b)"
  have m: "min (?n - ?i) (length (a @ b)) = length a + k"
    using lt unfolding k_def length_append by linarith
  have n: "length (kb_data (kb_write a buf)) = ?n" using assms(2) by (intro length_kb_write) simp
  have "finish_payload total buf' rest (s\<lparr>rbuffer := Some b'\<rparr>) = finish_payload total buf' rest s"
    for total buf' rest b'
    by (simp add: finish_payload_def Let_def)
  then show "read_payload (a @ b) s = read_payload b (s\<lparr>rbuffer := Some (kb_write a buf)\<rparr>)"
    using assms(1) m by (simp add: read_payload_def k_def n kb_write_append Let_def)
qed

lemma receive_loop_Nil [simp]: "receive_loop [] acc s = (Inr acc, s)"
  by (simp add: receive_loop.simps)

lemma receive_loop_receiving:
  "receiving s \<Longrightarrow> data \<noteq> [] \<Longrightarrow>
   receive_loop data acc s =
     (case read_payload data s of
        (Inl e, u) \<Rightarrow> (Inl e, u) | (Inr None, u) \<Rightarrow> (Inr acc, u)
      | (Inr (Some (resp, rest')), u) \<Rightarrow> receive_loop rest' (acc @ [resp]) u)"
  by (simp add: receive_loop.simps [of data] read_header_receiving)

text \<open>The payload part of an iteration, split in the same way.\<close>

lemma payload_append:
  assumes "receiving t" "b \<noteq> []"
    and IH: "\<And>resp rest' u. read_payload rest t = (Inr (Some (resp, rest')), u) \<Longrightarrow>
      receive_loop (rest' @ b) (acc @ [resp]) u =
      (case receive_loop rest' (acc @ [resp]) u of (Inl e, v) \<Rightarrow> (Inl e, v) | (Inr r, v) \<Rightarrow> receive_loop b r v)"
  shows "(case read_payload (rest @ b) t of (Inl e, u) \<Rightarrow> (Inl e, u) | (Inr None, u) \<Rightarrow> (Inr acc, u)
      | (Inr (Some (resp, rest')), u) \<Rightarrow> receive_loop rest' (acc @ [resp]) u) =
    (case (case read_payload rest t of (Inl e, u) \<Rightarrow> (Inl e, u) | (Inr None, u) \<Rightarrow> (Inr acc, u)
      | (Inr (Some (resp, rest')), u) \<Rightarrow> receive_loop rest' (acc @ [resp]) u) of
      (Inl e, v) \<Rightarrow> (Inl e, v) | (Inr r, v) \<Rightarrow> receive_loop b r v)"
proof (cases "rbuffer t")
  case None
  then show ?thesis by (simp add: read_payload_def)
next
  case (Some buf)
  show ?thesis
  proof (cases "length rest < length (kb_data buf) - kb_tell buf")
    case True
    note p = read_payload_partial [OF Some True]
    show ?thesis using assms(1,2) by (simp add: p receive_loop_receiving)
  next
    case False
    then have le: "length (kb_data buf) - kb_tell buf \<le> length rest" by simp
    show ?thesis
      using read_payload_full(2) [OF Some le] IH
      by (auto simp: read_payload_full(1) [OF Some le] split: prod.splits sum.splits option.splits)
  qed
qed

lemma receive_loop_append:
  "receive_loop (a @ b) acc s =
     (case receive_loop a acc s of (Inl e, t) \<Rightarrow> (Inl e, t) | (Inr r, t) \<Rightarrow> receive_loop b r t)"
proof (induction a acc s rule: receive_loop.induct)
  case (1 a acc s)
  consider "a = [] \<or> b = []" | "a \<noteq> []" "b \<noteq> []" "\<not> receiving s" "length a < 4 - kb_tell (header s)"
    | "a \<noteq> []" "b \<noteq> []" "receiving s \<or> 4 - kb_tell (header s) \<le> length a" by force
  then show ?case
  proof cases
    case 1
    then show ?thesis by (cases "receive_loop a acc s"; cases "fst (receive_loop a acc s)") auto
  next
    case 2
    note h = read_header_partial [OF 2(4,3)]
    have "receive_loop a acc s = (Inr acc, s\<lparr>header := kb_write a (header s)\<rparr>)"
      using 2 by (simp add: receive_loop.simps [of a] h(1))
    moreover have "receive_loop (a @ b) acc s = receive_loop b acc (s\<lparr>header := kb_write a (header s)\<rparr>)"
      using 2 by (simp add: receive_loop.simps [of "a @ b"] receive_loop.simps [of b] h(2))
    ultimately show ?thesis by simp
  next
    case 3
    have hdr: "read_header (a @ b) s =
        (case read_header a s of (Inl e, t) \<Rightarrow> (Inl e, t) | (Inr rest, t) \<Rightarrow> (Inr (rest @ b), t))"
      using 3(3) by (auto simp: read_header_receiving read_header_append)
    show ?thesis
    proof (cases "read_header a s")
      case (Pair r t)
      show ?thesis
      proof (cases r)
        case (Inl e)
        with 3 Pair show ?thesis by (simp add: receive_loop.simps [of a] receive_loop.simps [of "a @ b"] hdr)
      next
        case (Inr rest)
        show ?thesis
        proof (cases "receiving t")
          case True
          have "receive_loop (rest' @ b) (acc @ [resp]) u =
              (case receive_loop rest' (acc @ [resp]) u of (Inl e, v) \<Rightarrow> (Inl e, v)
               | (Inr r, v) \<Rightarrow> receive_loop b r v)"
            if "read_payload rest t = (Inr (Some (resp, rest')), u)" for resp rest' u
            using "1.IH"(2) [of r t rest "Inr (Some (resp, rest'))" u "Some (resp, rest')" "(resp, rest')" resp rest']
              3(1) Pair Inr True that by simp
          from payload_append [OF True 3(2) this, of rest] show ?thesis
            using 3 Pair Inr True by (simp add: receive_loop.simps [of a] receive_loop.simps [of "a @ b"] hdr)
        next
          case False
          then have "receive_loop (rest @ b) acc t =
              (case receive_loop rest acc t of (Inl e, t) \<Rightarrow> (Inl e, t) | (Inr r, t) \<Rightarrow> receive_loop b r t)"
            using "1.IH"(1) [of r t rest] 3(1) Pair Inr by simp
          then show ?thesis
            using 3 Pair Inr False by (simp add: receive_loop.simps [of a] receive_loop.simps [of "a @ b"] hdr)
        qed
      qed
    qed
  qed
qed

lemma receive_loop_acc:
  "receive_loop data (pre @ acc) s =
     (case receive_loop data acc s of (Inl e, t) \<Rightarrow> (Inl e, t) | (Inr r, t) \<Rightarrow> (Inr (pre @ r), t))"
proof (induction data acc s rule: receive_loop.induct)
  case (1 data acc s)
  then show ?case
    by (simp add: receive_loop.simps [of data] split: prod.splits sum.splits option.splits)
qed

lemma chunk_append:
  "receive_bytes (a @ b) =
     py_bind (receive_bytes a) (\<lambda>ra. py_bind (receive_bytes b) (\<lambda>rb. py_return (ra @ rb)))"
proof (rule ext)
  fix s
  have acc: "receive_loop b ra t =
      (case receive_loop b [] t of (Inl e, u) \<Rightarrow> (Inl e, u) | (Inr r, u) \<Rightarrow> (Inr (ra @ r), u))" for ra t
    using receive_loop_acc [of b ra "[]" t] by simp
  show "receive_bytes (a @ b) s =
      py_bind (receive_bytes a) (\<lambda>ra. py_bind (receive_bytes b) (\<lambda>rb. py_return (ra @ rb))) s"
  proof (cases "receive_loop a [] s")
    case (Pair r t)
    show ?thesis
    proof (cases r)
      case (Inl e)
      with Pair show ?thesis by (simp add: receive_bytes_def receive_loop_append py_bind_def)
    next
      case (Inr ra)
      have "receive_loop (a @ b) [] s = receive_loop b ra t"
        by (simp add: receive_loop_append Pair Inr)
      also note acc
      finally show ?thesis
        using Pair Inr
        by (simp add: receive_bytes_def py_bind_def py_return_def split: prod.splits sum.splits)
    qed
  qed
qed

text \<open>C31. Responses do not depend on how the network cuts the stream: receiving \<open>a @ b\<close> in one call
  is receiving \<open>a\<close> and then \<open>b\<close>, with the same responses, the same exception and the same state of
  the protocol object.\<close>

theorem receive_bytes_append:
  "receive_bytes (a @ b) =
     py_bind (receive_bytes a) (\<lambda>ra. py_bind (receive_bytes b) (\<lambda>rb. py_return (ra @ rb)))"
  by (rule chunk_append)

section \<open>Delivery of a response stream\<close>

text \<open>What a broker writes for one response, and a protocol object between two responses.\<close>

definition frame :: "bytes \<Rightarrow> bytes" where
  "frame payload = be_bytes 4 (int (length payload)) @ payload"

definition idle :: "kafka_protocol \<Rightarrow> bool" where
  "idle s \<longleftrightarrow> \<not> receiving s \<and> kb_idx (header s) = 0 \<and> length (kb_data (header s)) = 4"

primrec receive_chunks :: "bytes list \<Rightarrow> (kafka_protocol, (int \<times> struct_obj) list) py" where
  "receive_chunks [] = py_return []"
| "receive_chunks (c # cs) =
     py_bind (receive_bytes c) (\<lambda>r. py_bind (receive_chunks cs) (\<lambda>rs. py_return (r @ rs)))"

lemma Int32_decode_be_bytes:
  "n < 2 ^ 31 \<Longrightarrow> Int32_decode (be_bytes 4 (int n)) = Inr (int n, [])"
  using Int32_prefix [of "int n"]
  by (auto simp: Int32_encode_def py_pack_def pack_int_value_def pack_int_def
      split: if_splits dest: spec [of _ "[]"])

lemma read_header_frame:
  assumes "idle s" "length p < 2 ^ 31"
  shows "read_header (frame p @ rest) s =
    (Inr (p @ rest), s\<lparr>header := \<lparr>kb_data = be_bytes 4 (int (length p)), kb_idx = 4\<rparr>,
       rbuffer := Some \<lparr>kb_data = replicate (length p) 0, kb_idx = 0\<rparr>, receiving := True\<rparr>)"
proof -
  have w: "kb_write (be_bytes 4 (int (length p))) (header s) =
      \<lparr>kb_data = be_bytes 4 (int (length p)), kb_idx = 4\<rparr>"
    using assms(1) by (cases "header s") (simp add: kb_write_def idle_def Let_def)
  have "read_header (frame p @ rest) s =
      (case kb_read (Some 4) (kb_seek 0 (kb_write (be_bytes 4 (int (length p))) (header s))) of (four, h') \<Rightarrow>
         case res_bind (Int32_decode four) (\<lambda>(nbytes, _). KafkaBytes nbytes) of
           Inl e \<Rightarrow> (Inl e, s\<lparr>header := h'\<rparr>)
         | Inr buf \<Rightarrow> (Inr (p @ rest), s\<lparr>header := h', rbuffer := Some buf, receiving := True\<rparr>))"
    using assms(1) by (simp add: read_header_def frame_def idle_def kb_tell_def [of "header s"])
  then show ?thesis
    using assms(2) by (simp add: w kb_read_def kb_seek_def Int32_decode_be_bytes KafkaBytes_def)
qed

lemma read_payload_frame:
  assumes "rbuffer s = Some \<lparr>kb_data = replicate (length p) 0, kb_idx = 0\<rparr>"
    and "in_flight_requests s = ifr # later" "decode_response (kp_api_version s) ifr p = Inr r"
  shows "read_payload (p @ rest) s =
    (Inr (Some (r, rest)), s\<lparr>in_flight_requests := later, receiving := False,
       header := kb_seek 0 (header s), rbuffer := None\<rparr>)"
  using assms
  by (simp add: read_payload_def finish_payload_def Let_def kb_write_def kb_tell_def process_response_def
      reset_buffer_def)

text \<open>One response consumes exactly its frame and the oldest request in flight.\<close>

lemma receive_loop_frame:
  assumes "idle s" "length p < 2 ^ 31" "in_flight_requests s = ifr # later"
    and "decode_response (kp_api_version s) ifr p = Inr r"
  shows "\<exists>t. receive_loop (frame p @ rest) acc s = receive_loop rest (acc @ [r]) t \<and> idle t \<and>
    t = s\<lparr>in_flight_requests := later, header := header t, rbuffer := None\<rparr>"
proof -
  let ?u = "s\<lparr>header := \<lparr>kb_data = be_bytes 4 (int (length p)), kb_idx = 4\<rparr>,
       rbuffer := Some \<lparr>kb_data = replicate (length p) 0, kb_idx = 0\<rparr>, receiving := True\<rparr>"
  let ?t = "?u\<lparr>in_flight_requests := later, receiving := False, header := kb_seek 0 (header ?u), rbuffer := None\<rparr>"
  have ne: "frame p @ rest \<noteq> []"
  proof -
    have "0 < length (frame p @ rest)" by (simp add: frame_def)
    then show ?thesis by blast
  qed
  have "read_payload (p @ rest) ?u = (Inr (Some (r, rest)), ?t)"
    by (rule read_payload_frame) (use assms in simp_all)
  then have "receive_loop (frame p @ rest) acc s = receive_loop rest (acc @ [r]) ?t"
    using ne read_header_frame [OF assms(1,2), of rest]
    by (simp add: receive_loop.simps [of "frame p @ rest"])
  moreover have "idle ?t" by (simp add: idle_def kb_seek_def)
  moreover have "?t = s\<lparr>in_flight_requests := later, header := header ?t, rbuffer := None\<rparr>"
    using assms(1) by (cases s) (simp add: idle_def)
  ultimately show ?thesis by blast
qed

lemma receive_loop_frames:
  assumes "idle s" "in_flight_requests s = map fst xs @ later"
    and "\<And>ifr p r. (ifr, p, r) \<in> set xs \<Longrightarrow>
      length p < 2 ^ 31 \<and> decode_response (kp_api_version s) ifr p = Inr r"
  shows "\<exists>t. receive_loop (concat (map (\<lambda>(ifr, p, r). frame p) xs)) acc s =
      (Inr (acc @ map (\<lambda>(ifr, p, r). r) xs), t) \<and> idle t \<and> in_flight_requests t = later"
  using assms
proof (induction xs arbitrary: s acc)
  case (Cons x xs)
  obtain ifr p r where x: "x = (ifr, p, r)" by (cases x)
  have "\<exists>t. receive_loop (frame p @ concat (map (\<lambda>(ifr, p, r). frame p) xs)) acc s =
      receive_loop (concat (map (\<lambda>(ifr, p, r). frame p) xs)) (acc @ [r]) t \<and> idle t \<and>
      t = s\<lparr>in_flight_requests := map fst xs @ later, header := header t, rbuffer := None\<rparr>"
    using Cons.prems(1,2) Cons.prems(3) [of ifr p r] x by (intro receive_loop_frame) auto
  then obtain t where t: "receive_loop (frame p @ concat (map (\<lambda>(ifr, p, r). frame p) xs)) acc s =
      receive_loop (concat (map (\<lambda>(ifr, p, r). frame p) xs)) (acc @ [r]) t" "idle t"
      "t = s\<lparr>in_flight_requests := map fst xs @ later, header := header t, rbuffer := None\<rparr>" by blast
  have "in_flight_requests t = map fst xs @ later" "kp_api_version t = kp_api_version s"
    by (subst t(3), simp)+
  then show ?case using Cons.IH [OF t(2), of "acc @ [r]"] Cons.prems(3) t(1) x by force
qed (simp add: idle_def)

lemma receive_chunks_concat: "receive_chunks cs s = receive_bytes (concat cs) s"
proof (induction cs arbitrary: s)
  case (Cons c cs)
  have "receive_chunks (c # cs) s =
      py_bind (receive_bytes c) (\<lambda>ra. py_bind (receive_bytes (concat cs)) (\<lambda>rb. py_return (ra @ rb))) s"
    by (simp add: py_bind_def Cons split: prod.splits sum.splits)
  then show ?case by (simp add: chunk_append)
qed (simp add: receive_bytes_def py_return_def)

subsection \<open>Answers of a broker\<close>

text \<open>The broker's side of the contract: the response to a request in flight carries its
  correlation id in a header of the class's kind, then the encoded response.\<close>

definition response_header :: "message_class \<Rightarrow> int \<Rightarrow> struct_obj res" where
  "response_header c cid =
     (if FLEXIBLE_VERSION c then Struct_init ResponseHeaderV2_SCHEMA [VInt cid, VDict []] []
      else Struct_init ResponseHeader_SCHEMA [VInt cid] [])"

definition broker_answer :: "(int \<times> request) \<Rightarrow> pyval list \<Rightarrow> (bytes \<times> struct_obj) res" where
  "broker_answer ifr vs =
     (let c = RESPONSE_TYPE (rq_class (snd ifr)) in
      res_bind (res_bind (response_header c (fst ifr)) Struct_encode_self) (\<lambda>hdr.
      res_bind (Struct_init (SCHEMA c) vs []) (\<lambda>obj.
      res_map (\<lambda>body. (hdr @ body, obj)) (Struct_encode_self obj))))"

definition answerable :: "(int \<times> request) \<Rightarrow> pyval list \<Rightarrow> bool" where
  "answerable ifr vs \<longleftrightarrow>
     (let c = RESPONSE_TYPE (rq_class (snd ifr)) in
      0 \<le> fst ifr \<and> fst ifr < 2 ^ 31 \<and> mc_base c \<noteq> ''BaseApiVersionsResponse'' \<and>
      SCHEMA c \<in> set (api_schemas core_apis) \<and> fits (SCHEMA c) (VTuple vs))"

lemma header_roundtrip:
  assumes "0 \<le> cid" "cid < 2 ^ 31" "res_bind (response_header c cid) Struct_encode_self = Inr hdr"
  shows "\<exists>h. parse_header c (hdr @ rest) = Inr (h, rest) \<and> header_correlation_id h = Inr cid"
proof -
  obtain h where h: "response_header c cid = Inr h" "Struct_encode_self h = Inr hdr"
    using assms(3) by (auto simp: res_bind_eq_Inr)
  have "header_correlation_id h = Inr cid"
    using h(1) by (auto simp: response_header_def Struct_init_def ResponseHeader_SCHEMA_def
        ResponseHeaderV2_SCHEMA_def Schema_of_def header_correlation_id_def split: if_splits)
  moreover have "parse_header c (hdr @ rest) = Inr (h, rest)"
  proof (cases "FLEXIBLE_VERSION c")
    case True
    have "\<exists>bs. Struct_encode_self h = Inr bs \<and>
        (\<forall>rest. Struct_decode ResponseHeaderV2_SCHEMA (bs @ rest) = Inr (h, rest))"
      unfolding ResponseHeaderV2_SCHEMA_def Schema_of_def
      by (rule struct_enc_dec [where vs = "[VInt cid, VDict []]"])
        (use assms h(1) True in \<open>simp_all add: response_header_def ResponseHeaderV2_SCHEMA_def
           Schema_of_def fits_schema_def fits_int_def\<close>)
    with h(2) True show ?thesis by (simp add: parse_header_def)
  next
    case False
    have "\<exists>bs. Struct_encode_self h = Inr bs \<and>
        (\<forall>rest. Struct_decode ResponseHeader_SCHEMA (bs @ rest) = Inr (h, rest))"
      unfolding ResponseHeader_SCHEMA_def Schema_of_def
      by (rule struct_enc_dec [where vs = "[VInt cid]"])
        (use assms h(1) False in \<open>simp_all add: response_header_def ResponseHeader_SCHEMA_def
           Schema_of_def fits_schema_def fits_int_def\<close>)
    with h(2) False show ?thesis by (simp add: parse_header_def)
  qed
  ultimately show ?thesis by blast
qed

lemma decode_answer:
  assumes "answerable ifr vs" "broker_answer ifr vs = Inr (p, obj)"
  shows "decode_response api ifr p = Inr (fst ifr, obj)"
proof -
  let ?c = "RESPONSE_TYPE (rq_class (snd ifr))"
  obtain hdr body where ans: "res_bind (response_header ?c (fst ifr)) Struct_encode_self = Inr hdr"
      "Struct_init (SCHEMA ?c) vs [] = Inr obj" "Struct_encode_self obj = Inr body" "p = hdr @ body"
    using assms(2) by (auto simp: broker_answer_def Let_def res_eq_Inr)
  obtain h where h: "parse_header ?c (hdr @ body) = Inr (h, body)" "header_correlation_id h = Inr (fst ifr)"
    using header_roundtrip [OF _ _ ans(1)] assms(1) by (auto simp: answerable_def Let_def)
  have "Struct_decode (SCHEMA ?c) (body @ []) = Inr (obj, [])"
    using schema_roundtrip [OF core_schemas_wf _ _ ans(2)] assms(1) ans(3)
    by (auto simp: answerable_def Let_def dest: spec [of _ "[]"])
  then have "response_decode ?c body = Inr (obj, [])"
    using assms(1) by (simp add: response_decode_def answerable_def Let_def)
  with h show ?thesis by (cases ifr) (simp add: decode_response_def ans(4) quirk_082_def)
qed

text \<open>C1. Whatever chunks the network cuts it into, a stream of broker answers to the oldest requests
  in flight is returned to the caller as exactly those responses, in order, each paired with the
  correlation id of its request; the remaining requests stay in flight and the protocol object is
  ready for the next response.\<close>

theorem stream_delivery:
  assumes "idle s" "in_flight_requests s = map fst xs @ later"
    and "\<forall>(ifr, vs, p, obj) \<in> set xs. answerable ifr vs \<and> broker_answer ifr vs = Inr (p, obj) \<and> length p < 2 ^ 31"
    and "concat chunks = concat (map (\<lambda>(ifr, vs, p, obj). frame p) xs)"
  shows "\<exists>t. receive_chunks chunks s = (Inr (map (\<lambda>(ifr, vs, p, obj). (fst ifr, obj)) xs), t) \<and> idle t \<and>
    in_flight_requests t = later"
proof -
  let ?ys = "map (\<lambda>(ifr, vs, p, obj). (ifr, p, fst ifr, obj)) xs"
  have "\<exists>t. receive_loop (concat (map (\<lambda>(ifr, p, r). frame p) ?ys)) [] s =
      (Inr ([] @ map (\<lambda>(ifr, p, r). r) ?ys), t) \<and> idle t \<and> in_flight_requests t = later"
  proof (rule receive_loop_frames [OF assms(1)])
    show "in_flight_requests s = map fst ?ys @ later"
      using assms(2) by (simp add: comp_def case_prod_unfold)
    show "length p < 2 ^ 31 \<and> decode_response (kp_api_version s) ifr p = Inr r"
      if "(ifr, p, r) \<in> set ?ys" for ifr p r
      using that assms(3) decode_answer by fastforce
  qed
  then show ?thesis
    using assms(4) by (simp add: receive_chunks_concat receive_bytes_def comp_def case_prod_unfold)
qed

definition example_request :: request where
  "example_request = \<lparr>rq_class = HeartbeatRequest_v0,
     rq_obj = \<lparr>so_schema = SCHEMA HeartbeatRequest_v0, so_dict = []\<rparr>\<rparr>"

definition example_protocol :: kafka_protocol where
  "example_protocol = (KafkaProtocol ''2.2.10'' None None)\<lparr>in_flight_requests := [(7, example_request)]\<rparr>"

lemma be_bytes_4: "be_bytes 4 v = [byte_of (v div 256 div 256 div 256 mod 256), byte_of (v div 256 div 256 mod 256),
    byte_of (v div 256 mod 256), byte_of (v mod 256)]"
  by (simp add: eval_nat_numeral)

lemma be_bytes_2: "be_bytes 2 v = [byte_of (v div 256 mod 256), byte_of (v mod 256)]"
  by (simp add: eval_nat_numeral)

lemma example_answer:
  "broker_answer (7, example_request) [VInt 27] = Inr ([0, 0, 0, 7, 0, 27], example_heartbeat)"
  by (simp add: broker_answer_def example_request_def example_heartbeat_def HeartbeatRequest_v0_def
      HeartbeatResponse_v0_def response_header_def ResponseHeader_SCHEMA_def Schema_of_def Struct_init_def
      Struct_encode_self_def Schema_encode_def seq_items_def Int32_encode_def Int16_encode_def py_pack_def
      pack_int_value_def pack_int_def be_bytes_4 be_bytes_2 byte_of_def)

theorem stream_delivery_witness:
  "\<exists>t. receive_chunks [[0, 0], [0, 6, 0, 0, 0], [7, 0, 27]] example_protocol =
     (Inr [(7, example_heartbeat)], t) \<and> idle t \<and> in_flight_requests t = []"
proof -
  have "answerable (7, example_request) [VInt 27]"
    by (simp add: answerable_def example_request_def HeartbeatRequest_v0_def api_schemas_def core_apis_def
        HeartbeatResponse_def) (simp add: HeartbeatResponse_v0_def Schema_of_def fits_schema_def fits_int_def)
  then show ?thesis
    using stream_delivery [of example_protocol
      "[((7, example_request), [VInt 27], [0, 0, 0, 7, 0, 27], example_heartbeat)]" "[]"
      "[[0, 0], [0, 6, 0, 0, 0], [7, 0, 27]]"] example_answer
    by (simp add: example_protocol_def KafkaProtocol_def idle_def frame_def be_bytes_4 byte_of_def)
qed

section \<open>Responses that cannot be delivered\<close>

text \<open>C37. A response is never handed to the wrong request: what \<open>process_response\<close> returns carries the
  id of the oldest request in flight, which it removes; with none in flight, or with another
  correlation id in the header (the 0.8.2 quirk apart), it raises CorrelationIdError.\<close>

theorem process_response_correlation:
  assumes "process_response buf s = (r, t)"
  shows "(in_flight_requests s = [] \<longrightarrow> r = Inl CorrelationIdError \<and> t = s) \<and>
    (\<forall>cid rq later. in_flight_requests s = (cid, rq) # later \<longrightarrow>
       in_flight_requests t = later \<and> (\<forall>resp. r = Inr resp \<longrightarrow> fst resp = cid) \<and>
       (\<forall>h body recv. parse_header (RESPONSE_TYPE (rq_class rq)) buf = Inr (h, body) \<longrightarrow>
          header_correlation_id h = Inr recv \<longrightarrow> recv \<noteq> cid \<longrightarrow>
          \<not> quirk_082 (kp_api_version s) cid recv (RESPONSE_TYPE (rq_class rq)) \<longrightarrow>
          r = Inl CorrelationIdError))"
  using assms
  by (auto simp: process_response_def decode_response_def Let_def res_eq_Inr
      split: list.splits if_splits sum.splits)

lemma example_header:
  "parse_header HeartbeatResponse_v0 [0, 0, 0, 8, 0, 27] =
     Inr (\<lparr>so_schema = ResponseHeader_SCHEMA, so_dict = [(''correlation_id'', VInt 8)]\<rparr>, [0, 27])"
  by (simp add: parse_header_def HeartbeatResponse_v0_def Struct_decode_def ResponseHeader_SCHEMA_def
      Schema_of_def Struct_init_def Int32_decode_def tag_value_def read_bytes_def py_unpack_def
      unpack_int_def to_signed_def be_uint_def)

theorem process_response_correlation_witness:
  "fst (process_response [0, 0, 0, 8, 0, 27] example_protocol) = Inl CorrelationIdError"
proof -
  obtain r t where rt: "process_response [0, 0, 0, 8, 0, 27] example_protocol = (r, t)" by fastforce
  have "in_flight_requests example_protocol = [(7, example_request)]"
    "RESPONSE_TYPE (rq_class example_request) = HeartbeatResponse_v0"
    by (simp_all add: example_protocol_def example_request_def HeartbeatRequest_v0_def)
  then have "r = Inl CorrelationIdError"
    using process_response_correlation [OF rt] example_header
    by (simp add: quirk_082_def header_correlation_id_def)
  with rt show ?thesis by simp
qed

section \<open>Sending\<close>

text \<open>A request is queued as one size-prefixed frame of header and body, and is remembered as the
  youngest in flight under the id it was sent with exactly when it expects a response; the id is the
  successor of the last one modulo \<open>2 ^ 31\<close>, so it always fits the header's Int32 field.\<close>

theorem send_request_frame:
  assumes "send_request rq None s = (Inr cid, t)"
  shows "cid = (correlation_id s + 1) mod 2 ^ 31 \<and> 0 \<le> cid \<and> cid < 2 ^ 31 \<and> correlation_id t = cid \<and>
    (\<exists>h hdr body. build_header (rq_class rq) cid (client_id s) = Inr h \<and> Struct_encode_self h = Inr hdr \<and>
       Struct_encode_self (rq_obj rq) = Inr body \<and>
       bytes_to_send t = bytes_to_send s @ [frame (hdr @ body)]) \<and>
    in_flight_requests t = in_flight_requests s @
      (if expect_response (rq_class rq) (rq_obj rq) then [(cid, rq)] else [])"
proof -
  have pack: "frame x = size @ x" if "Int32_encode (VInt (int (length x))) = Inr size" for x size
    using that by (auto simp: frame_def Int32_encode_def py_pack_def pack_int_value_def pack_int_def
        split: if_splits)
  show ?thesis
    using assms
    by (auto simp: send_request_def next_correlation_id_def py_Inr res_eq_Inr pack split: if_splits)
qed

definition example_api_versions_request :: request where
  "example_api_versions_request = \<lparr>rq_class = ApiVersionsRequest_v0,
     rq_obj = \<lparr>so_schema = SCHEMA ApiVersionsRequest_v0, so_dict = []\<rparr>\<rparr>"

lemma example_send:
  "\<exists>t. send_request example_api_versions_request None (KafkaProtocol ''2.2.10'' (Some [120]) None) = (Inr 1, t)"
  by (simp add: send_request_def next_correlation_id_def py_Inr KafkaProtocol_def build_header_def
      example_api_versions_request_def ApiVersionsRequest_v0_def RequestHeader_def RequestHeader_SCHEMA_def
      Schema_of_def Struct_init_def Struct_encode_self_def Schema_encode_def seq_items_def Int32_encode_def
      Int16_encode_def String_encode_def py_pack_def pack_int_value_def pack_int_def utf8_encode_def
      utf8_char_def is_code_point_def surrogate_def expect_response_def)

theorem send_request_frame_witness:
  "\<exists>t. send_request example_api_versions_request None (KafkaProtocol ''2.2.10'' (Some [120]) None) = (Inr 1, t) \<and>
    correlation_id t = 1 \<and> in_flight_requests t = [(1, example_api_versions_request)]"
proof -
  obtain t where t: "send_request example_api_versions_request None
      (KafkaProtocol ''2.2.10'' (Some [120]) None) = (Inr 1, t)"
    using example_send by blast
  have "expect_response (rq_class example_api_versions_request) (rq_obj example_api_versions_request)"
    by (simp add: expect_response_def example_api_versions_request_def ApiVersionsRequest_v0_def)
  moreover have "in_flight_requests (KafkaProtocol ''2.2.10'' (Some [120]) None) = []"
    by (simp add: KafkaProtocol_def)
  ultimately show ?thesis using send_request_frame [OF t] t by auto
qed

end
