(* ===== verification/Cluster.thy ===== *)
theory Cluster
  imports Errors Messages
begin

text \<open>
  \<^verbatim>\<open>kafka/cluster.py\<close>: the cluster metadata a client keeps.  The state is the record \<open>cluster\<close>; the
  dictionaries are association lists and the sets distinct lists.  A metadata response is the
  record of the fields \<open>update_metadata\<close> reads, its broker, topic and partition entries being the
  tuples the decoder of that version produces; unpacking a tuple of the wrong shape raises
  ValueError.  Futures live in a store inside the record, clock readings are arguments, and the
  effect of a listener on the cluster object is an argument of \<open>update_metadata\<close>.
\<close>

section \<open>Structs\<close>

type_synonym topic_partition = "pystr \<times> int"

datatype node_id = Node int | CoordinatorNode int | BootstrapNode nat

record broker_metadata =
  bm_node_id :: node_id
  bm_host :: pystr
  bm_port :: int
  bm_rack :: "pystr option"

record partition_metadata =
  pm_topic :: pystr
  pm_partition :: int
  pm_leader :: int
  pm_leader_epoch :: int
  pm_replicas :: pyval
  pm_isr :: pyval
  pm_offline_replicas :: pyval
  pm_error :: int

record offset_and_metadata =
  om_offset :: int
  om_metadata :: pystr
  om_leader_epoch :: int

datatype future_status = Pending | Succeeded | Failed exn_class

type_synonym coordinator_key = "string \<times> pystr option"

record cluster =
  brokers :: "(node_id \<times> broker_metadata) list"
  partitions :: "(pystr \<times> (int \<times> partition_metadata) list) list"
  broker_partitions :: "(node_id \<times> topic_partition list) list"
  coordinators :: "(coordinator_key \<times> node_id) list"
  last_refresh_ms :: int
  last_successful_refresh_ms :: int
  need_update :: bool
  cl_future :: "nat option"
  cl_futures :: "future_status list"
  listeners :: "nat list"
  need_all_topic_metadata :: bool
  unauthorized_topics :: "pystr list"
  internal_topics :: "pystr list"
  controller :: "broker_metadata option"
  cluster_id :: pyval
  cfg_retry_backoff_ms :: int
  cfg_metadata_max_age_ms :: int
  bootstrap_brokers :: "(node_id \<times> broker_metadata) list"
  coordinator_brokers :: "(node_id \<times> broker_metadata) list"

definition generate_bootstrap_brokers :: "(pystr \<times> int) list \<Rightarrow> (node_id \<times> broker_metadata) list" where
  "generate_bootstrap_brokers hosts =
     map (\<lambda>(i, host, port). (BootstrapNode i,
            \<lparr>bm_node_id = BootstrapNode i, bm_host = host, bm_port = port, bm_rack = None\<rparr>))
       (enumerate 0 hosts)"

definition ClusterMetadata :: "int \<Rightarrow> int \<Rightarrow> (pystr \<times> int) list \<Rightarrow> cluster" where
  "ClusterMetadata retry_backoff_ms metadata_max_age_ms hosts =
     \<lparr>brokers = [], partitions = [], broker_partitions = [], coordinators = [], last_refresh_ms = 0,
      last_successful_refresh_ms = 0, need_update = True, cl_future = None, cl_futures = [], listeners = [],
      need_all_topic_metadata = False, unauthorized_topics = [], internal_topics = [], controller = None,
      cluster_id = VNone, cfg_retry_backoff_ms = retry_backoff_ms,
      cfg_metadata_max_age_ms = metadata_max_age_ms,
      bootstrap_brokers = generate_bootstrap_brokers hosts, coordinator_brokers = []\<rparr>"

section \<open>Queries\<close>

definition is_bootstrap :: "cluster \<Rightarrow> node_id \<Rightarrow> bool" where
  "is_bootstrap c n \<longleftrightarrow> n \<in> set (map fst (bootstrap_brokers c))"

definition get_brokers :: "cluster \<Rightarrow> broker_metadata set" where
  "get_brokers c =
     (if brokers c \<noteq> [] then set (map snd (brokers c)) else set (map snd (bootstrap_brokers c)))"

definition get_broker_metadata :: "cluster \<Rightarrow> node_id \<Rightarrow> broker_metadata option" where
  "get_broker_metadata c n =
     (case map_of (brokers c) n of Some b \<Rightarrow> Some b | None \<Rightarrow>
       (case map_of (bootstrap_brokers c) n of Some b \<Rightarrow> Some b | None \<Rightarrow>
          map_of (coordinator_brokers c) n))"

definition partitions_for_topic :: "cluster \<Rightarrow> pystr \<Rightarrow> int set option" where
  "partitions_for_topic c topic = map_option (\<lambda>ps. set (map fst ps)) (map_of (partitions c) topic)"

definition available_partitions_for_topic :: "cluster \<Rightarrow> pystr \<Rightarrow> int set option" where
  "available_partitions_for_topic c topic =
     map_option (\<lambda>ps. set (map fst (filter (\<lambda>(p, md). pm_leader md \<noteq> - 1) ps))) (map_of (partitions c) topic)"

definition leader_for_partition :: "cluster \<Rightarrow> topic_partition \<Rightarrow> int option" where
  "leader_for_partition c = (\<lambda>(topic, partition).
     case map_of (partitions c) topic of None \<Rightarrow> None
     | Some ps \<Rightarrow> map_option pm_leader (map_of ps partition))"

definition leader_epoch_for_partition :: "cluster \<Rightarrow> topic_partition \<Rightarrow> int res" where
  "leader_epoch_for_partition c = (\<lambda>(topic, partition).
     case map_of (partitions c) topic of None \<Rightarrow> Inl KeyError
     | Some ps \<Rightarrow> (case map_of ps partition of None \<Rightarrow> Inl KeyError | Some md \<Rightarrow> Inr (pm_leader_epoch md)))"

definition partitions_for_broker :: "cluster \<Rightarrow> node_id \<Rightarrow> topic_partition list option" where
  "partitions_for_broker c n = map_of (broker_partitions c) n"

definition coordinator_for_group :: "cluster \<Rightarrow> pystr \<Rightarrow> node_id option" where
  "coordinator_for_group c grp = map_of (coordinators c) (''group'', Some grp)"

definition ttl :: "int \<Rightarrow> cluster \<Rightarrow> int" where
  "ttl now c =
     (let ttl = (if need_update c then 0
                 else cfg_metadata_max_age_ms c - (now - last_successful_refresh_ms c));
          next_retry = cfg_retry_backoff_ms c - (now - last_refresh_ms c)
      in max ttl (max next_retry 0))"

definition refresh_backoff :: "cluster \<Rightarrow> int" where
  "refresh_backoff c = cfg_retry_backoff_ms c"

definition topics :: "bool \<Rightarrow> cluster \<Rightarrow> pystr set" where
  "topics exclude_internal c =
     (if exclude_internal then set (map fst (partitions c)) - set (internal_topics c)
      else set (map fst (partitions c)))"

section \<open>Updates\<close>

definition future_is_done :: "cluster \<Rightarrow> nat \<Rightarrow> bool" where
  "future_is_done c f \<longleftrightarrow> f < length (cl_futures c) \<and> cl_futures c ! f \<noteq> Pending"

definition request_update :: "(cluster, nat) py" where
  "request_update c =
     (let c = c\<lparr>need_update := True\<rparr> in
      case cl_future c of
        Some f \<Rightarrow> if future_is_done c f
                  then (Inr (length (cl_futures c)),
                        c\<lparr>cl_future := Some (length (cl_futures c)), cl_futures := cl_futures c @ [Pending]\<rparr>)
                  else (Inr f, c)
      | None \<Rightarrow> (Inr (length (cl_futures c)),
                 c\<lparr>cl_future := Some (length (cl_futures c)), cl_futures := cl_futures c @ [Pending]\<rparr>))"

text \<open>\<open>f.success(self)\<close> and \<open>f.failure(exc)\<close> assert that the future is still pending.\<close>

definition resolve_future :: "nat \<Rightarrow> future_status \<Rightarrow> (cluster, unit) py" where
  "resolve_future f st =
     py_then (py_assert (\<lambda>c. \<not> future_is_done c f))
       (py_set (\<lambda>c. c\<lparr>cl_futures := (cl_futures c)[f := st]\<rparr>))"

definition resolve_optional :: "nat option \<Rightarrow> future_status \<Rightarrow> (cluster, unit) py" where
  "resolve_optional f st = (case f of None \<Rightarrow> py_return () | Some i \<Rightarrow> resolve_future i st)"

definition failed_update :: "int \<Rightarrow> exn_class \<Rightarrow> (cluster, unit) py" where
  "failed_update now exc =
     py_bind (py_get cl_future) (\<lambda>f.
     py_then (py_set (\<lambda>c. c\<lparr>cl_future := None\<rparr>))
    (py_then (resolve_optional f (Failed exc))
       (py_set (\<lambda>c. c\<lparr>last_refresh_ms := now\<rparr>))))"

record metadata_response =
  md_API_VERSION :: int
  md_brokers :: "pyval list"
  md_controller_id :: int
  md_cluster_id :: pyval
  md_topics :: "pyval list"

definition unpack_broker :: "int \<Rightarrow> pyval \<Rightarrow> (int \<times> broker_metadata) res" where
  "unpack_broker v b =
     (if v = 0 then
        (case b of VTuple [VInt n, VStr h, VInt p] \<Rightarrow>
           Inr (n, \<lparr>bm_node_id = Node n, bm_host = h, bm_port = p, bm_rack = None\<rparr>)
         | _ \<Rightarrow> Inl ValueError)
      else
        (case b of VTuple [VInt n, VStr h, VInt p, VStr r] \<Rightarrow>
           Inr (n, \<lparr>bm_node_id = Node n, bm_host = h, bm_port = p, bm_rack = Some r\<rparr>)
         | VTuple [VInt n, VStr h, VInt p, VNone] \<Rightarrow>
           Inr (n, \<lparr>bm_node_id = Node n, bm_host = h, bm_port = p, bm_rack = None\<rparr>)
         | _ \<Rightarrow> Inl ValueError))"

definition unpack_topic :: "int \<Rightarrow> pyval \<Rightarrow> (int \<times> pystr \<times> bool \<times> pyval list) res" where
  "unpack_topic v t =
     (if v = 0 then
        (case t of VTuple [VInt e, VStr topic, VList ps] \<Rightarrow> Inr (e, topic, False, ps) | _ \<Rightarrow> Inl ValueError)
      else
        (case t of VTuple [VInt e, VStr topic, VBool internal, VList ps] \<Rightarrow> Inr (e, topic, internal, ps)
         | _ \<Rightarrow> Inl ValueError))"

definition unpack_partition :: "int \<Rightarrow> pystr \<Rightarrow> pyval \<Rightarrow> partition_metadata res" where
  "unpack_partition v topic d =
     (if v \<ge> 7 then
        (case d of VTuple [VInt e, VInt p, VInt leader, VInt epoch, replicas, isr, offline] \<Rightarrow>
           Inr \<lparr>pm_topic = topic, pm_partition = p, pm_leader = leader, pm_leader_epoch = epoch,
                pm_replicas = replicas, pm_isr = isr, pm_offline_replicas = offline, pm_error = e\<rparr>
         | _ \<Rightarrow> Inl ValueError)
      else if v \<ge> 5 then
        (case d of VTuple [VInt e, VInt p, VInt leader, replicas, isr, offline] \<Rightarrow>
           Inr \<lparr>pm_topic = topic, pm_partition = p, pm_leader = leader, pm_leader_epoch = - 1,
                pm_replicas = replicas, pm_isr = isr, pm_offline_replicas = offline, pm_error = e\<rparr>
         | _ \<Rightarrow> Inl ValueError)
      else
        (case d of VTuple [VInt e, VInt p, VInt leader, replicas, isr] \<Rightarrow>
           Inr \<lparr>pm_topic = topic, pm_partition = p, pm_leader = leader, pm_leader_epoch = - 1,
                pm_replicas = replicas, pm_isr = isr, pm_offline_replicas = VList [], pm_error = e\<rparr>
         | _ \<Rightarrow> Inl ValueError))"

record new_metadata =
  nm_partitions :: "(pystr \<times> (int \<times> partition_metadata) list) list"
  nm_broker_partitions :: "(node_id \<times> topic_partition list) list"
  nm_unauthorized :: "pystr list"
  nm_internal :: "pystr list"

text \<open>\<open>d[k].add(x)\<close> on a \<open>defaultdict(set)\<close>.\<close>

definition defaultdict_add :: "'k \<Rightarrow> 'a \<Rightarrow> ('k \<times> 'a list) list \<Rightarrow> ('k \<times> 'a list) list" where
  "defaultdict_add k x d = AList.update k (List.insert x (case map_of d k of None \<Rightarrow> [] | Some xs \<Rightarrow> xs)) d"

definition add_partition :: "pystr \<Rightarrow> partition_metadata \<Rightarrow> new_metadata \<Rightarrow> new_metadata" where
  "add_partition topic md nm =
     (let nm = nm\<lparr>nm_partitions := AList.update topic
            (AList.update (pm_partition md) md (the (map_of (nm_partitions nm) topic))) (nm_partitions nm)\<rparr>
      in if pm_leader md \<noteq> - 1
         then nm\<lparr>nm_broker_partitions :=
                 defaultdict_add (Node (pm_leader md)) (topic, pm_partition md) (nm_broker_partitions nm)\<rparr>
         else nm)"

definition add_topic :: "bool \<Rightarrow> int \<Rightarrow> pyval \<Rightarrow> new_metadata \<Rightarrow> new_metadata res" where
  "add_topic all_topics v topic_data nm =
     res_bind (unpack_topic v topic_data) (\<lambda>(error_code, topic, is_internal, ps).
       let nm = (if is_internal then nm\<lparr>nm_internal := List.insert topic (nm_internal nm)\<rparr> else nm);
           error_type = for_code error_code
       in if error_type = NoError then
            res_map (\<lambda>mds. fold (add_partition topic) mds
                       (nm\<lparr>nm_partitions := AList.update topic [] (nm_partitions nm)\<rparr>))
              (res_list (map (unpack_partition v topic) ps))
          else if all_topics then Inr nm
          else if error_type = TopicAuthorizationFailedError
          then Inr (nm\<lparr>nm_unauthorized := List.insert topic (nm_unauthorized nm)\<rparr>)
          else Inr nm)"

primrec add_topics :: "bool \<Rightarrow> int \<Rightarrow> pyval list \<Rightarrow> new_metadata \<Rightarrow> new_metadata res" where
  "add_topics all_topics v [] nm = Inr nm"
| "add_topics all_topics v (t # ts) nm = res_bind (add_topic all_topics v t nm) (add_topics all_topics v ts)"

definition single_topic_error :: "metadata_response \<Rightarrow> exn_class option" where
  "single_topic_error md =
     (case md_topics md of
        [VTuple (VInt e # VStr t # _)] \<Rightarrow> if Some e \<noteq> cls_errno NoError then Some (for_code e) else None
      | _ \<Rightarrow> None)"

definition empty_metadata :: new_metadata where
  "empty_metadata = \<lparr>nm_partitions = [], nm_broker_partitions = [], nm_unauthorized = [], nm_internal = []\<rparr>"

definition install_metadata ::
  "metadata_response \<Rightarrow> (int \<times> broker_metadata) list \<Rightarrow> new_metadata \<Rightarrow> (cluster, unit) py" where
  "install_metadata md new_brokers nm =
     (let bs = fold (\<lambda>(n, b). AList.update (Node n) b) new_brokers [] in
      py_set (\<lambda>c. c\<lparr>brokers := bs,
        controller := (if md_API_VERSION md = 0 then None else map_of bs (Node (md_controller_id md))),
        cluster_id := (if md_API_VERSION md < 2 then VNone else md_cluster_id md),
        partitions := nm_partitions nm, broker_partitions := nm_broker_partitions nm,
        unauthorized_topics := nm_unauthorized nm, internal_topics := nm_internal nm,
        cl_future := None, need_update := False\<rparr>))"

text \<open>After the lock is released: timestamps, the future, the listeners.\<close>

definition finish_update :: "(nat \<Rightarrow> cluster \<Rightarrow> cluster) \<Rightarrow> int \<Rightarrow> nat option \<Rightarrow> (cluster, unit) py" where
  "finish_update call_listener now f =
     py_then (py_set (\<lambda>c. c\<lparr>last_refresh_ms := now, last_successful_refresh_ms := now\<rparr>))
    (py_then (resolve_optional f Succeeded)
    (py_bind (py_get listeners) (\<lambda>ls.
       py_then (py_for (\<lambda>l. py_set (call_listener l)) ls)
         (py_when need_all_topic_metadata (py_set (\<lambda>c. c\<lparr>need_update := False\<rparr>))))))"

definition update_metadata ::
  "(nat \<Rightarrow> cluster \<Rightarrow> cluster) \<Rightarrow> int \<Rightarrow> metadata_response \<Rightarrow> (cluster, unit) py" where
  "update_metadata call_listener now md =
     (case single_topic_error md of
        Some e \<Rightarrow> failed_update now e
      | None \<Rightarrow>
          if md_brokers md = [] then failed_update now MetadataEmptyBrokerList
          else
            py_bind (py_lift (res_list (map (unpack_broker (md_API_VERSION md)) (md_brokers md)))) (\<lambda>new_brokers.
            py_bind (py_get need_all_topic_metadata) (\<lambda>all_topics.
            py_bind (py_lift (add_topics all_topics (md_API_VERSION md) (md_topics md) empty_metadata)) (\<lambda>nm.
            py_bind (py_get cl_future) (\<lambda>f.
            py_then (install_metadata md new_brokers nm) (finish_update call_listener now f))))))"

definition add_listener :: "nat \<Rightarrow> (cluster, unit) py" where
  "add_listener l = py_set (\<lambda>c. c\<lparr>listeners := List.insert l (listeners c)\<rparr>)"

definition remove_listener :: "nat \<Rightarrow> (cluster, unit) py" where
  "remove_listener l =
     py_if (\<lambda>c. l \<in> set (listeners c)) (py_set (\<lambda>c. c\<lparr>listeners := remove1 l (listeners c)\<rparr>)) (py_raise KeyError)"

record coordinator_response =
  cr_error_code :: int
  cr_coordinator_id :: int
  cr_host :: pystr
  cr_port :: int

definition add_coordinator ::
  "coordinator_response \<Rightarrow> string \<Rightarrow> pystr option \<Rightarrow> (cluster, node_id option) py" where
  "add_coordinator response coord_type coord_key c =
     (if for_code (cr_error_code response) \<noteq> NoError
      then (Inr None, c\<lparr>coordinators := AList.update (coord_type, coord_key) (Node (- 1)) (coordinators c)\<rparr>)
      else
        let node = CoordinatorNode (cr_coordinator_id response);
            coordinator = \<lparr>bm_node_id = node, bm_host = cr_host response, bm_port = cr_port response, bm_rack = None\<rparr>
        in (Inr (Some node),
            c\<lparr>coordinator_brokers := AList.update node coordinator (coordinator_brokers c),
              coordinators := AList.update (coord_type, coord_key) node (coordinators c)\<rparr>))"

section \<open>Leadership is indexed consistently\<close>

text \<open>The partitions filed under a broker, and the leader of a partition, in a state being built.\<close>

definition nm_leader :: "new_metadata \<Rightarrow> topic_partition \<Rightarrow> int option" where
  "nm_leader nm = (\<lambda>(topic, partition).
     case map_of (nm_partitions nm) topic of None \<Rightarrow> None
     | Some ps \<Rightarrow> map_option pm_leader (map_of ps partition))"

definition nm_filed :: "new_metadata \<Rightarrow> int \<Rightarrow> topic_partition set" where
  "nm_filed nm b = (case map_of (nm_broker_partitions nm) (Node b) of None \<Rightarrow> {} | Some tps \<Rightarrow> set tps)"

definition nm_consistent :: "new_metadata \<Rightarrow> bool" where
  "nm_consistent nm \<longleftrightarrow> (\<forall>b tp. tp \<in> nm_filed nm b \<longleftrightarrow> b \<noteq> - 1 \<and> nm_leader nm tp = Some b)"

lemma nm_filed_add:
  "nm_broker_partitions nm' = defaultdict_add (Node l) tp (nm_broker_partitions nm) \<Longrightarrow>
   nm_filed nm' b = (if b = l then insert tp (nm_filed nm b) else nm_filed nm b)"
  by (auto simp: nm_filed_def defaultdict_add_def update_conv' split: option.splits)

lemma add_partition_consistent:
  assumes "nm_consistent nm" "map_of (nm_partitions nm) topic = Some ps" "pm_partition md \<notin> set (map fst ps)"
  shows "nm_consistent (add_partition topic md nm)"
    and "map_of (nm_partitions (add_partition topic md nm)) topic = Some (AList.update (pm_partition md) md ps)"
proof -
  let ?nm = "nm\<lparr>nm_partitions := AList.update topic (AList.update (pm_partition md) md ps) (nm_partitions nm)\<rparr>"
  have new: "nm_leader nm (topic, pm_partition md) = None"
    using assms(2,3) by (simp add: nm_leader_def map_of_eq_None_iff)
  have lead: "nm_leader ?nm tp = (if tp = (topic, pm_partition md) then Some (pm_leader md) else nm_leader nm tp)" for tp
    using assms(2) by (auto simp: nm_leader_def update_conv' split: prod.splits option.splits)
  have filed: "nm_filed ?nm b = nm_filed nm b" for b by (simp add: nm_filed_def)
  have add: "add_partition topic md nm =
      (if pm_leader md \<noteq> - 1
       then ?nm\<lparr>nm_broker_partitions :=
              defaultdict_add (Node (pm_leader md)) (topic, pm_partition md) (nm_broker_partitions ?nm)\<rparr>
       else ?nm)"
    using assms(2) by (simp add: add_partition_def Let_def)
  have lead': "nm_leader (add_partition topic md nm) tp = nm_leader ?nm tp" for tp
    unfolding add by (simp add: nm_leader_def)
  have filed': "nm_filed (add_partition topic md nm) b =
      (if b = pm_leader md \<and> b \<noteq> - 1 then insert (topic, pm_partition md) (nm_filed nm b) else nm_filed nm b)" for b
    unfolding add
    by (cases "pm_leader md = - 1") (auto simp: filed nm_filed_add [where nm = nm and l = "pm_leader md"])
  show "nm_consistent (add_partition topic md nm)"
    using assms(1) new unfolding nm_consistent_def lead' filed' lead by auto
  show "map_of (nm_partitions (add_partition topic md nm)) topic = Some (AList.update (pm_partition md) md ps)"
    unfolding add by (simp add: update_conv')
qed

lemma add_partition_topics:
  assumes "map_of (nm_partitions nm) topic = Some ps"
  shows "fst ` set (nm_partitions (add_partition topic md nm)) = fst ` set (nm_partitions nm)"
proof -
  have "topic \<in> fst ` set (nm_partitions nm)" using assms by (force dest: map_of_SomeD)
  then show ?thesis by (auto simp: add_partition_def Let_def dom_update)
qed

lemma fold_add_partition:
  assumes "nm_consistent nm" "map_of (nm_partitions nm) topic = Some ps"
    and "distinct (map pm_partition mds)" "set (map pm_partition mds) \<inter> set (map fst ps) = {}"
  shows "nm_consistent (fold (add_partition topic) mds nm) \<and>
    fst ` set (nm_partitions (fold (add_partition topic) mds nm)) = fst ` set (nm_partitions nm)"
  using assms
proof (induction mds arbitrary: nm ps)
  case (Cons md mds)
  have new: "pm_partition md \<notin> set (map fst ps)" using Cons.prems(4) by auto
  note step = add_partition_consistent [OF Cons.prems(1,2) new]
  have "set (map pm_partition mds) \<inter> set (map fst (AList.update (pm_partition md) md ps)) = {}"
    using Cons.prems(3,4) by (auto simp: dom_update)
  from Cons.IH [OF step _ this] Cons.prems(3) add_partition_topics [OF Cons.prems(2)] show ?case by simp
qed simp

lemma nm_consistent_new_topic:
  assumes "nm_consistent nm" "topic \<notin> fst ` set (nm_partitions nm)"
  shows "nm_consistent (nm\<lparr>nm_partitions := AList.update topic [] (nm_partitions nm)\<rparr>)"
proof -
  have none: "map_of (nm_partitions nm) topic = None" using assms(2) by (simp add: map_of_eq_None_iff)
  have "nm_leader (nm\<lparr>nm_partitions := AList.update topic [] (nm_partitions nm)\<rparr>) tp = nm_leader nm tp" for tp
    using none by (auto simp: nm_leader_def update_conv' split: prod.splits)
  then show ?thesis using assms(1) by (simp add: nm_consistent_def nm_filed_def)
qed

definition topic_name :: "int \<Rightarrow> pyval \<Rightarrow> pystr option" where
  "topic_name v t = (case unpack_topic v t of Inl e \<Rightarrow> None | Inr (e, topic, i, ps) \<Rightarrow> Some topic)"

definition distinct_partitions :: "int \<Rightarrow> pyval \<Rightarrow> bool" where
  "distinct_partitions v t =
     (case unpack_topic v t of Inl e \<Rightarrow> True | Inr (e, topic, i, ps) \<Rightarrow>
        (case res_list (map (unpack_partition v topic) ps) of Inl e \<Rightarrow> True
         | Inr mds \<Rightarrow> distinct (map pm_partition mds)))"

lemma nm_consistent_other [simp]:
  "nm_consistent (nm\<lparr>nm_internal := x\<rparr>) = nm_consistent nm"
  "nm_consistent (nm\<lparr>nm_unauthorized := y\<rparr>) = nm_consistent nm"
  by (simp_all add: nm_consistent_def nm_filed_def nm_leader_def)

lemma add_topic_consistent:
  assumes "nm_consistent nm" "add_topic all_topics v t nm = Inr nm'" "distinct_partitions v t"
    and "topic_name v t = Some topic" "topic \<notin> fst ` set (nm_partitions nm)"
  shows "nm_consistent nm' \<and> fst ` set (nm_partitions nm') \<subseteq> insert topic (fst ` set (nm_partitions nm))"
proof -
  obtain e i ps where t: "unpack_topic v t = Inr (e, topic, i, ps)"
    using assms(4) by (auto simp: topic_name_def split: sum.splits prod.splits)
  define nmi where "nmi = (if i then nm\<lparr>nm_internal := List.insert topic (nm_internal nm)\<rparr> else nm)"
  have nmi: "nm_consistent nmi" "nm_partitions nmi = nm_partitions nm"
    using assms(1) by (simp_all add: nmi_def)
  let ?n0 = "nmi\<lparr>nm_partitions := AList.update topic [] (nm_partitions nmi)\<rparr>"
  show ?thesis
  proof (cases "for_code e = NoError")
    case True
    then obtain mds where mds: "res_list (map (unpack_partition v topic) ps) = Inr mds"
        "nm' = fold (add_partition topic) mds ?n0"
      using assms(2) t by (auto simp: add_topic_def nmi_def [symmetric] res_map_eq_Inr)
    have "nm_consistent ?n0" using nm_consistent_new_topic [of nmi topic] nmi assms(5) by simp
    moreover have "map_of (nm_partitions ?n0) topic = Some []" by (simp add: update_conv')
    moreover have "distinct (map pm_partition mds)"
      using assms(3) t mds(1) by (simp add: distinct_partitions_def)
    ultimately show ?thesis
      using fold_add_partition [of ?n0 topic "[]" mds] nmi(2) by (auto simp: mds(2) dom_update)
  next
    case False
    then show ?thesis
      using assms(2) t nmi by (auto simp: add_topic_def nmi_def [symmetric] split: if_splits)
  qed
qed

lemma add_topics_consistent:
  assumes "nm_consistent nm" "add_topics all_topics v ts nm = Inr nm'" "list_all (distinct_partitions v) ts"
    and "distinct (map (topic_name v) ts)" "Some ` fst ` set (nm_partitions nm) \<inter> set (map (topic_name v) ts) = {}"
  shows "nm_consistent nm'"
  using assms
proof (induction ts arbitrary: nm)
  case (Cons t ts)
  obtain nm1 where nm1: "add_topic all_topics v t nm = Inr nm1" "add_topics all_topics v ts nm1 = Inr nm'"
    using Cons.prems(2) by (auto simp: res_bind_eq_Inr)
  then obtain topic where topic: "topic_name v t = Some topic"
    by (auto simp: add_topic_def topic_name_def res_bind_eq_Inr split: prod.splits)
  have "topic \<notin> fst ` set (nm_partitions nm)" using Cons.prems(5) topic by auto
  from add_topic_consistent [OF Cons.prems(1) nm1(1) _ topic this] Cons.prems(3)
  have step: "nm_consistent nm1" "fst ` set (nm_partitions nm1) \<subseteq> insert topic (fst ` set (nm_partitions nm))"
    by simp_all
  show ?case
  proof (rule Cons.IH [OF step(1) nm1(2)])
    have "Some ` fst ` set (nm_partitions nm1) \<subseteq> insert (Some topic) (Some ` fst ` set (nm_partitions nm))"
      using step(2) by blast
    moreover have "Some topic \<notin> set (map (topic_name v) ts)" using Cons.prems(4) topic by simp
    moreover have "Some ` fst ` set (nm_partitions nm) \<inter> set (map (topic_name v) ts) = {}"
      using Cons.prems(5) by auto
    ultimately show "Some ` fst ` set (nm_partitions nm1) \<inter> set (map (topic_name v) ts) = {}" by blast
  qed (use Cons.prems(3,4) in simp_all)
qed simp

lemma listeners_keep:
  assumes "\<And>l c. partitions (call l c) = partitions c \<and> broker_partitions (call l c) = broker_partitions c"
  shows "py_for (\<lambda>l. py_set (call l)) ls c = (Inr (), c') \<Longrightarrow>
    partitions c' = partitions c \<and> broker_partitions c' = broker_partitions c"
  by (induction ls arbitrary: c) (auto simp: py_Inr assms)

lemma finish_update_keeps:
  assumes "\<And>l c. partitions (call l c) = partitions c \<and> broker_partitions (call l c) = broker_partitions c"
    and "finish_update call now f c = (Inr u, c')"
  shows "partitions c' = partitions c \<and> broker_partitions c' = broker_partitions c"
proof -
  obtain d e where "resolve_optional f Succeeded (c\<lparr>last_refresh_ms := now, last_successful_refresh_ms := now\<rparr>) = (Inr (), d)"
      and e: "py_for (\<lambda>l. py_set (call l)) (listeners d) d = (Inr (), e)"
        "c' = (if need_all_topic_metadata e then e\<lparr>need_update := False\<rparr> else e)"
    using assms(2) by (auto simp: finish_update_def py_Inr split: if_splits)
  moreover from this(1) have "partitions d = partitions c \<and> broker_partitions d = broker_partitions c"
    by (auto simp: resolve_optional_def resolve_future_def py_Inr split: option.splits)
  ultimately show ?thesis using listeners_keep [OF assms(1) e(1)] by simp
qed


definition example_metadata :: metadata_response where
  "example_metadata = \<lparr>md_API_VERSION = 0, md_brokers = [VTuple [VInt 1, VStr [104], VInt 9092]],
     md_controller_id = - 1, md_cluster_id = VNone,
     md_topics = [VTuple [VInt 0, VStr [116], VList [VTuple [VInt 0, VInt 3, VInt 1, VList [], VList []]]]]\<rparr>"


section \<open>Coordinators\<close>

text \<open>The keys of the three broker dictionaries never overlap.\<close>

definition cluster_wf :: "cluster \<Rightarrow> bool" where
  "cluster_wf c \<longleftrightarrow> (\<forall>n \<in> fst ` set (brokers c). \<exists>i. n = Node i) \<and>
     (\<forall>n \<in> fst ` set (bootstrap_brokers c). \<exists>i. n = BootstrapNode i)"

lemma cluster_wf_init: "cluster_wf (ClusterMetadata r m hosts)"
  by (auto simp: cluster_wf_def ClusterMetadata_def generate_bootstrap_brokers_def)

lemma fold_update_broker_keys:
  "fst ` set (fold (\<lambda>(n, b). AList.update (Node n) b) bs d) \<subseteq> fst ` set d \<union> range Node"
proof (induction bs arbitrary: d)
  case (Cons nb bs)
  obtain n b where nb: "nb = (n, b)" by (cases nb)
  from Cons.IH [of "AList.update (Node n) b d"] show ?case by (auto simp: nb dom_update)
qed simp

lemma cluster_wf_update [simp]:
  "cluster_wf (c\<lparr>last_refresh_ms := t\<rparr>) = cluster_wf c"
  "cluster_wf (c\<lparr>last_refresh_ms := t, last_successful_refresh_ms := u\<rparr>) = cluster_wf c"
  "cluster_wf (c\<lparr>need_update := b\<rparr>) = cluster_wf c"
  "cluster_wf (c\<lparr>cl_future := f\<rparr>) = cluster_wf c"
  "cluster_wf (c\<lparr>cl_futures := fs\<rparr>) = cluster_wf c"
  by (simp_all add: cluster_wf_def)

lemma resolve_optional_wf [keeps_rules]: "keeps cluster_wf (resolve_optional f st)"
  unfolding resolve_optional_def resolve_future_def
  by (cases f; simp; intro keeps_rules) simp_all

lemma failed_update_wf [keeps_rules]: "keeps cluster_wf (failed_update now e)"
  unfolding failed_update_def by (intro keeps_rules) simp_all

lemma install_metadata_wf [keeps_rules]: "keeps cluster_wf (install_metadata md bs nm)"
  unfolding install_metadata_def Let_def
  using fold_update_broker_keys [of bs "[]"] by (intro keeps_rules) (fastforce simp: cluster_wf_def)

lemma finish_update_wf [keeps_rules]:
  "(\<And>l c. cluster_wf c \<Longrightarrow> cluster_wf (call l c)) \<Longrightarrow> keeps cluster_wf (finish_update call now f)"
  unfolding finish_update_def by (intro keeps_rules) simp_all

lemma update_metadata_wf:
  "(\<And>l c. cluster_wf c \<Longrightarrow> cluster_wf (call l c)) \<Longrightarrow> keeps cluster_wf (update_metadata call now md)"
  unfolding update_metadata_def by (cases "single_topic_error md"; simp; intro keeps_rules conjI impI; simp)

lemma request_update_wf: "keeps cluster_wf request_update"
  by (rule keepsI) (auto simp: request_update_def Let_def cluster_wf_def split: option.splits)

lemma add_coordinator_wf: "keeps cluster_wf (add_coordinator r t k)"
  by (rule keepsI) (auto simp: add_coordinator_def Let_def cluster_wf_def)

text \<open>A coordinator found for a group is the one the group is then sent to: the lookup gives its
  dedicated node id, that id resolves to the host and port of the response, and no broker or bootstrap
  entry shadows it; every other group keeps its coordinator.\<close>

theorem add_coordinator_lookup:
  assumes "cluster_wf c" "for_code (cr_error_code r) = NoError"
    and "add_coordinator r ''group'' (Some g) c = (Inr n, c')"
  shows "n = Some (CoordinatorNode (cr_coordinator_id r)) \<and> coordinator_for_group c' g = n \<and>
    get_broker_metadata c' (CoordinatorNode (cr_coordinator_id r)) =
      Some \<lparr>bm_node_id = CoordinatorNode (cr_coordinator_id r), bm_host = cr_host r, bm_port = cr_port r, bm_rack = None\<rparr> \<and>
    (\<forall>h. h \<noteq> g \<longrightarrow> coordinator_for_group c' h = coordinator_for_group c h)"
proof -
  have "map_of (brokers c) (CoordinatorNode i) = None" "map_of (bootstrap_brokers c) (CoordinatorNode i) = None" for i
    using assms(1) by (fastforce simp: cluster_wf_def map_of_eq_None_iff)+
  then show ?thesis
    using assms(2,3)
    by (auto simp: add_coordinator_def Let_def coordinator_for_group_def get_broker_metadata_def update_conv')
qed

theorem add_coordinator_lookup_witness:
  "coordinator_for_group (snd (add_coordinator \<lparr>cr_error_code = 0, cr_coordinator_id = 4, cr_host = [104], cr_port = 1\<rparr>
     ''group'' (Some [103]) (ClusterMetadata 100 300000 []))) [103] = Some (CoordinatorNode 4)"
proof -
  let ?r = "\<lparr>cr_error_code = 0, cr_coordinator_id = 4, cr_host = [104], cr_port = 1\<rparr>"
  obtain n c' where "add_coordinator ?r ''group'' (Some [103]) (ClusterMetadata 100 300000 []) = (Inr n, c')"
    by (simp add: add_coordinator_def Let_def)
  with add_coordinator_lookup [OF cluster_wf_init _ this] show ?thesis by simp
qed

end
