(* ===== verification/Txn_Manager.thy ===== *)
theory Txn_Manager
  imports Parser Cluster
begin

text \<open>
  \<^verbatim>\<open>kafka/producer/transaction_manager.py\<close>: the transaction manager of an idempotent or transactional
  producer and its request handlers.  The state is the record \<open>txn_manager\<close>; a handler is a record
  value, since it is only ever in one place (queued or in flight), while the results that callers
  wait on are shared between handlers and live in a store.  The heap of pending requests is kept as
  a sorted list.  Methods are state-and-exception functions; the lock is not modelled, calls being
  atomic under it.
\<close>

section \<open>Data\<close>

definition NO_PRODUCER_ID :: int where "NO_PRODUCER_ID = - 1"
definition NO_PRODUCER_EPOCH :: int where "NO_PRODUCER_EPOCH = - 1"
definition NO_INFLIGHT_REQUEST_CORRELATION_ID :: int where "NO_INFLIGHT_REQUEST_CORRELATION_ID = - 1"
definition ADD_PARTITIONS_RETRY_BACKOFF_MS :: int where "ADD_PARTITIONS_RETRY_BACKOFF_MS = 20"

record producer_id_and_epoch =
  pe_producer_id :: int
  pe_epoch :: int

definition pe_is_valid :: "producer_id_and_epoch \<Rightarrow> bool" where
  "pe_is_valid p \<longleftrightarrow> NO_PRODUCER_ID < pe_producer_id p"

definition no_producer :: producer_id_and_epoch where
  "no_producer = \<lparr>pe_producer_id = NO_PRODUCER_ID, pe_epoch = NO_PRODUCER_EPOCH\<rparr>"

datatype txn_state =
    UNINITIALIZED | INITIALIZING | READY | IN_TRANSACTION | COMMITTING_TRANSACTION
  | ABORTING_TRANSACTION | ABORTABLE_ERROR | FATAL_ERROR

fun is_transition_valid :: "txn_state \<Rightarrow> txn_state \<Rightarrow> bool" where
  "is_transition_valid source INITIALIZING = (source = UNINITIALIZED)"
| "is_transition_valid source READY =
     (source \<in> {INITIALIZING, COMMITTING_TRANSACTION, ABORTING_TRANSACTION})"
| "is_transition_valid source IN_TRANSACTION = (source = READY)"
| "is_transition_valid source COMMITTING_TRANSACTION = (source = IN_TRANSACTION)"
| "is_transition_valid source ABORTING_TRANSACTION = (source \<in> {IN_TRANSACTION, ABORTABLE_ERROR})"
| "is_transition_valid source ABORTABLE_ERROR =
     (source \<in> {IN_TRANSACTION, COMMITTING_TRANSACTION, ABORTABLE_ERROR})"
| "is_transition_valid source UNINITIALIZED = False"
| "is_transition_valid source FATAL_ERROR = True"

type_synonym offsets = "(topic_partition \<times> offset_and_metadata) list"

datatype handler_kind =
    InitProducerIdHandler
  | AddPartitionsToTxnHandler
  | FindCoordinatorHandler string "pystr option"
  | EndTxnHandler
  | AddOffsetsToTxnHandler pystr offsets
  | TxnOffsetCommitHandler pystr

record handler =
  h_kind :: handler_kind
  h_retry_backoff_ms :: int
  h_request :: request
  h_result :: nat
  h_is_retry :: bool

fun h_priority :: "handler_kind \<Rightarrow> nat" where
  "h_priority (FindCoordinatorHandler t k) = 0"
| "h_priority InitProducerIdHandler = 1"
| "h_priority AddPartitionsToTxnHandler = 2"
| "h_priority (AddOffsetsToTxnHandler g os) = 2"
| "h_priority (TxnOffsetCommitHandler g) = 2"
| "h_priority EndTxnHandler = 3"

record txn_result =
  tr_done :: bool
  tr_error :: "exn_class option"

record txn_manager =
  tm_api_version :: "int list"
  tm_metadata :: cluster
  sequence_numbers :: "(topic_partition \<times> int) list"
  transactional_id :: "pystr option"
  transaction_timeout_ms :: int
  transaction_coordinator :: "node_id option"
  consumer_group_coordinator :: "node_id option"
  new_partitions_in_transaction :: "topic_partition list"
  pending_partitions_in_transaction :: "topic_partition list"
  partitions_in_transaction :: "topic_partition list"
  pending_txn_offset_commits :: offsets
  current_state :: txn_state
  last_error :: "exn_class option"
  tm_producer_id_and_epoch :: producer_id_and_epoch
  transaction_started :: bool
  pending_requests :: "(nat \<times> nat \<times> handler) list"
  pending_requests_sort_id :: nat
  in_flight_request_correlation_id :: int
  tm_retry_backoff_ms :: int
  tm_results :: "txn_result list"

definition TransactionManager :: "pystr option \<Rightarrow> int \<Rightarrow> int \<Rightarrow> int list \<Rightarrow> cluster \<Rightarrow> txn_manager" where
  "TransactionManager tid timeout_ms retry_backoff_ms api_version metadata =
     \<lparr>tm_api_version = api_version, tm_metadata = metadata, sequence_numbers = [], transactional_id = tid,
      transaction_timeout_ms = timeout_ms, transaction_coordinator = None, consumer_group_coordinator = None,
      new_partitions_in_transaction = [], pending_partitions_in_transaction = [], partitions_in_transaction = [],
      pending_txn_offset_commits = [], current_state = UNINITIALIZED, last_error = None,
      tm_producer_id_and_epoch = no_producer, transaction_started = False, pending_requests = [],
      pending_requests_sort_id = 0,
      in_flight_request_correlation_id = NO_INFLIGHT_REQUEST_CORRELATION_ID,
      tm_retry_backoff_ms = retry_backoff_ms, tm_results = []\<rparr>"

section \<open>Queries\<close>

definition has_producer_id :: "int option \<Rightarrow> txn_manager \<Rightarrow> bool" where
  "has_producer_id pid s =
     (case pid of None \<Rightarrow> pe_is_valid (tm_producer_id_and_epoch s)
      | Some p \<Rightarrow> pe_producer_id (tm_producer_id_and_epoch s) = p)"

definition is_transactional :: "txn_manager \<Rightarrow> bool" where
  "is_transactional s \<longleftrightarrow> transactional_id s \<noteq> None"

definition has_partitions_to_add :: "txn_manager \<Rightarrow> bool" where
  "has_partitions_to_add s \<longleftrightarrow>
     new_partitions_in_transaction s \<noteq> [] \<or> pending_partitions_in_transaction s \<noteq> []"

definition is_completing :: "txn_manager \<Rightarrow> bool" where
  "is_completing s \<longleftrightarrow> current_state s \<in> {COMMITTING_TRANSACTION, ABORTING_TRANSACTION}"

definition has_error :: "txn_manager \<Rightarrow> bool" where
  "has_error s \<longleftrightarrow> current_state s \<in> {ABORTABLE_ERROR, FATAL_ERROR}"

definition is_aborting :: "txn_manager \<Rightarrow> bool" where
  "is_aborting s \<longleftrightarrow> current_state s = ABORTING_TRANSACTION"

definition has_fatal_error :: "txn_manager \<Rightarrow> bool" where
  "has_fatal_error s \<longleftrightarrow> current_state s = FATAL_ERROR"

definition has_abortable_error :: "txn_manager \<Rightarrow> bool" where
  "has_abortable_error s \<longleftrightarrow> current_state s = ABORTABLE_ERROR"

definition is_partition_added :: "topic_partition \<Rightarrow> txn_manager \<Rightarrow> bool" where
  "is_partition_added tp s \<longleftrightarrow> tp \<in> set (partitions_in_transaction s)"

definition is_partition_pending_add :: "topic_partition \<Rightarrow> txn_manager \<Rightarrow> bool" where
  "is_partition_pending_add tp s \<longleftrightarrow>
     tp \<in> set (new_partitions_in_transaction s) \<or> tp \<in> set (pending_partitions_in_transaction s)"

definition has_producer_id_and_epoch :: "int \<Rightarrow> int \<Rightarrow> txn_manager \<Rightarrow> bool" where
  "has_producer_id_and_epoch pid ep s \<longleftrightarrow>
     pe_producer_id (tm_producer_id_and_epoch s) = pid \<and> pe_epoch (tm_producer_id_and_epoch s) = ep"

definition is_send_to_partition_allowed :: "topic_partition \<Rightarrow> txn_manager \<Rightarrow> bool" where
  "is_send_to_partition_allowed tp s =
     (if has_fatal_error s then False
      else \<not> is_transactional s \<or> tp \<in> set (partitions_in_transaction s))"

definition has_in_flight_transactional_request :: "txn_manager \<Rightarrow> bool" where
  "has_in_flight_transactional_request s \<longleftrightarrow>
     in_flight_request_correlation_id s \<noteq> NO_INFLIGHT_REQUEST_CORRELATION_ID"

definition coordinator :: "string \<Rightarrow> txn_manager \<Rightarrow> node_id option res" where
  "coordinator coord_type s =
     (if coord_type = ''group'' then Inr (consumer_group_coordinator s)
      else if coord_type = ''transaction'' then Inr (transaction_coordinator s)
      else Inl IllegalStateError)"

section \<open>State transitions\<close>

definition transition_to :: "txn_state \<Rightarrow> exn_class option \<Rightarrow> (txn_manager, unit) py" where
  "transition_to target error =
     py_if (\<lambda>s. \<not> is_transition_valid (current_state s) target) (py_raise KafkaError)
    (py_then
      (if target \<in> {FATAL_ERROR, ABORTABLE_ERROR}
       then (if error = None then py_raise IllegalArgumentError else py_set (\<lambda>s. s\<lparr>last_error := error\<rparr>))
       else py_set (\<lambda>s. s\<lparr>last_error := None\<rparr>))
      (py_set (\<lambda>s. s\<lparr>current_state := target\<rparr>)))"

definition ensure_transactional :: "(txn_manager, unit) py" where
  "ensure_transactional = py_when (\<lambda>s. \<not> is_transactional s) (py_raise IllegalStateError)"

definition maybe_fail_with_error :: "(txn_manager, unit) py" where
  "maybe_fail_with_error = py_when has_error (py_raise KafkaError)"

definition transition_to_abortable_error :: "exn_class \<Rightarrow> (txn_manager, unit) py" where
  "transition_to_abortable_error exc =
     py_if (\<lambda>s. current_state s = ABORTING_TRANSACTION) (py_return ())
       (transition_to ABORTABLE_ERROR (Some exc))"

definition transition_to_fatal_error :: "exn_class \<Rightarrow> (txn_manager, unit) py" where
  "transition_to_fatal_error exc = transition_to FATAL_ERROR (Some exc)"

definition set_producer_id_and_epoch :: "producer_id_and_epoch \<Rightarrow> (txn_manager, unit) py" where
  "set_producer_id_and_epoch p = py_set (\<lambda>s. s\<lparr>tm_producer_id_and_epoch := p\<rparr>)"

definition complete_transaction :: "(txn_manager, unit) py" where
  "complete_transaction =
     py_then (transition_to READY None)
       (py_set (\<lambda>s. s\<lparr>transaction_started := False, new_partitions_in_transaction := [],
          pending_partitions_in_transaction := [], partitions_in_transaction := []\<rparr>))"

section \<open>The queue of pending requests\<close>

text \<open>\<open>heapq\<close> on tuples (priority, sort id, handler); sort ids are unique, so two entries are never
  compared by their handlers.\<close>

definition entry_less :: "nat \<times> nat \<times> 'a \<Rightarrow> nat \<times> nat \<times> 'a \<Rightarrow> bool" where
  "entry_less x y \<longleftrightarrow> fst x < fst y \<or> (fst x = fst y \<and> fst (snd x) < fst (snd y))"

primrec heappush :: "nat \<times> nat \<times> 'a \<Rightarrow> (nat \<times> nat \<times> 'a) list \<Rightarrow> (nat \<times> nat \<times> 'a) list" where
  "heappush x [] = [x]"
| "heappush x (y # ys) = (if entry_less x y then x # y # ys else y # heappush x ys)"

definition enqueue_request :: "handler \<Rightarrow> (txn_manager, unit) py" where
  "enqueue_request h =
     py_then (py_set (\<lambda>s. s\<lparr>pending_requests_sort_id := pending_requests_sort_id s + 1\<rparr>))
       (py_set (\<lambda>s. s\<lparr>pending_requests :=
          heappush (h_priority (h_kind h), pending_requests_sort_id s, h) (pending_requests s)\<rparr>))"

section \<open>Results\<close>

definition result_done :: "nat \<Rightarrow> exn_class option \<Rightarrow> (txn_manager, unit) py" where
  "result_done r error =
     py_set (\<lambda>s. s\<lparr>tm_results := (tm_results s)[r := \<lparr>tr_done = True, tr_error = error\<rparr>]\<rparr>)"

text \<open>\<open>wait(timeout_ms)\<close>, given whether the latch is set when the wait ends.\<close>

definition result_wait :: "bool \<Rightarrow> txn_result \<Rightarrow> bool res" where
  "result_wait latched r = (case tr_error r of Some e \<Rightarrow> Inl e | None \<Rightarrow> Inr latched)"

definition result_succeeded :: "txn_result \<Rightarrow> bool" where
  "result_succeeded r \<longleftrightarrow> tr_done r \<and> tr_error r = None"

definition result_failed :: "txn_result \<Rightarrow> bool" where
  "result_failed r \<longleftrightarrow> tr_done r \<and> tr_error r \<noteq> None"

section \<open>Building handlers\<close>

definition build_request :: "request_class \<Rightarrow> (string \<times> pyval) list \<Rightarrow> request res" where
  "build_request cls kwargs =
     res_map (\<lambda>obj. \<lparr>rq_class = cls, rq_obj = obj\<rparr>) (Struct_init (SCHEMA cls) [] kwargs)"

text \<open>\<open>TxnRequestHandler.__init__\<close> and then the request; a result is created unless one is passed.\<close>

definition new_handler :: "handler_kind \<Rightarrow> (txn_manager \<Rightarrow> request res) \<Rightarrow> nat option \<Rightarrow> (txn_manager, handler) py" where
  "new_handler kind request result =
     py_bind (case result of
         Some r \<Rightarrow> py_return r
       | None \<Rightarrow> py_bind (py_get (\<lambda>s. length (tm_results s))) (\<lambda>r.
           py_then (py_set (\<lambda>s. s\<lparr>tm_results := tm_results s @ [\<lparr>tr_done = False, tr_error = None\<rparr>]\<rparr>))
             (py_return r))) (\<lambda>r.
     py_bind (py_get request) (\<lambda>req_res.
     py_bind (py_lift req_res) (\<lambda>req.
     py_bind (py_get tm_retry_backoff_ms) (\<lambda>backoff.
       py_return \<lparr>h_kind = kind, h_retry_backoff_ms = backoff, h_request = req, h_result = r, h_is_retry = False\<rparr>))))"

definition new_InitProducerIdHandler :: "int \<Rightarrow> (txn_manager, handler) py" where
  "new_InitProducerIdHandler timeout_ms =
     new_handler InitProducerIdHandler (\<lambda>s.
       build_request (InitProducerIdRequest ! (if version_ge (tm_api_version s) [2, 0] then 1 else 0))
         [(''transactional_id'', opt_str (transactional_id s)),
          (''transaction_timeout_ms'', VInt timeout_ms)]) None"

text \<open>\<open>topic_data[tp.topic].append(x)\<close> over the items of a set or dictionary.\<close>

definition topic_data :: "(topic_partition \<times> pyval) list \<Rightarrow> pyval" where
  "topic_data items =
     VList (map (\<lambda>(t, xs). VTuple [VStr t, VList xs])
       (fold (\<lambda>(tp, x) d. AList.update (fst tp) ((case map_of d (fst tp) of None \<Rightarrow> [] | Some xs \<Rightarrow> xs) @ [x]) d) items []))"

definition new_AddPartitionsToTxnHandler :: "topic_partition list \<Rightarrow> (txn_manager, handler) py" where
  "new_AddPartitionsToTxnHandler tps =
     new_handler AddPartitionsToTxnHandler (\<lambda>s.
       build_request (AddPartitionsToTxnRequest !
           (if version_ge (tm_api_version s) [2, 7] then 2 else if version_ge (tm_api_version s) [2, 0] then 1 else 0))
         [(''transactional_id'', opt_str (transactional_id s)),
          (''producer_id'', VInt (pe_producer_id (tm_producer_id_and_epoch s))),
          (''producer_epoch'', VInt (pe_epoch (tm_producer_id_and_epoch s))),
          (''topics'', topic_data (map (\<lambda>tp. (tp, VInt (snd tp))) tps))]) None"

definition new_FindCoordinatorHandler :: "string \<Rightarrow> pystr option \<Rightarrow> (txn_manager, handler) py" where
  "new_FindCoordinatorHandler coord_type coord_key =
     new_handler (FindCoordinatorHandler coord_type coord_key) (\<lambda>s.
       res_bind (if coord_type = ''group'' then Inr 0 else if coord_type = ''transaction'' then Inr 1
                 else Inl ValueError) (\<lambda>coord_type_int8.
         build_request (FindCoordinatorRequest ! (if version_ge (tm_api_version s) [2, 0] then 2 else 1))
           [(''coordinator_key'', opt_str coord_key), (''coordinator_type'', VInt coord_type_int8)])) None"

definition new_EndTxnHandler :: "bool \<Rightarrow> (txn_manager, handler) py" where
  "new_EndTxnHandler committed =
     new_handler EndTxnHandler (\<lambda>s.
       build_request (EndTxnRequest !
           (if version_ge (tm_api_version s) [2, 7] then 2 else if version_ge (tm_api_version s) [2, 0] then 1 else 0))
         [(''transactional_id'', opt_str (transactional_id s)),
          (''producer_id'', VInt (pe_producer_id (tm_producer_id_and_epoch s))),
          (''producer_epoch'', VInt (pe_epoch (tm_producer_id_and_epoch s))),
          (''committed'', VBool committed)]) None"

definition new_AddOffsetsToTxnHandler :: "pystr \<Rightarrow> offsets \<Rightarrow> (txn_manager, handler) py" where
  "new_AddOffsetsToTxnHandler consumer_group_id offs =
     new_handler (AddOffsetsToTxnHandler consumer_group_id offs) (\<lambda>s.
       build_request (AddOffsetsToTxnRequest !
           (if version_ge (tm_api_version s) [2, 7] then 2 else if version_ge (tm_api_version s) [2, 0] then 1 else 0))
         [(''transactional_id'', opt_str (transactional_id s)),
          (''producer_id'', VInt (pe_producer_id (tm_producer_id_and_epoch s))),
          (''producer_epoch'', VInt (pe_epoch (tm_producer_id_and_epoch s))),
          (''group_id'', VStr consumer_group_id)]) None"

text \<open>\<open>TxnOffsetCommitHandler._build_request\<close>, on the offsets pending when it is called.\<close>

definition build_offset_commit :: "pystr \<Rightarrow> txn_manager \<Rightarrow> request res" where
  "build_offset_commit consumer_group_id s =
     (let version = (if version_ge (tm_api_version s) [2, 1] then 2
                     else if version_ge (tm_api_version s) [2, 0] then 1 else 0);
          entry = (\<lambda>(tp, om). (tp, VTuple (if version \<ge> 2
             then [VInt (snd tp), VInt (om_offset om), VInt (om_leader_epoch om), VStr (om_metadata om)]
             else [VInt (snd tp), VInt (om_offset om), VStr (om_metadata om)])))
      in build_request (TxnOffsetCommitRequest ! version)
         [(''transactional_id'', opt_str (transactional_id s)), (''group_id'', VStr consumer_group_id),
          (''producer_id'', VInt (pe_producer_id (tm_producer_id_and_epoch s))),
          (''producer_epoch'', VInt (pe_epoch (tm_producer_id_and_epoch s))),
          (''topics'', topic_data (map entry (pending_txn_offset_commits s)))])"

definition new_TxnOffsetCommitHandler :: "pystr \<Rightarrow> nat \<Rightarrow> (txn_manager, handler) py" where
  "new_TxnOffsetCommitHandler consumer_group_id result =
     new_handler (TxnOffsetCommitHandler consumer_group_id) (build_offset_commit consumer_group_id) (Some result)"

section \<open>Operations of the producer\<close>

definition enqueue_new :: "(txn_manager, handler) py \<Rightarrow> (txn_manager, nat) py" where
  "enqueue_new mk = py_bind mk (\<lambda>h. py_then (enqueue_request h) (py_return (h_result h)))"

definition initialize_transactions :: "(txn_manager, nat) py" where
  "initialize_transactions =
     py_then ensure_transactional
    (py_then (transition_to INITIALIZING None)
    (py_then (set_producer_id_and_epoch no_producer)
    (py_then (py_set (\<lambda>s. s\<lparr>sequence_numbers := []\<rparr>))
    (py_bind (py_get transaction_timeout_ms) (\<lambda>t. enqueue_new (new_InitProducerIdHandler t))))))"

definition begin_transaction :: "(txn_manager, unit) py" where
  "begin_transaction =
     py_then ensure_transactional (py_then maybe_fail_with_error (transition_to IN_TRANSACTION None))"

definition add_partitions_to_transaction_handler :: "(txn_manager, handler) py" where
  "add_partitions_to_transaction_handler =
     py_then (py_set (\<lambda>s. s\<lparr>pending_partitions_in_transaction :=
          fold List.insert (new_partitions_in_transaction s) (pending_partitions_in_transaction s),
        new_partitions_in_transaction := []\<rparr>))
    (py_bind (py_get pending_partitions_in_transaction) new_AddPartitionsToTxnHandler)"

definition enqueue_new_partitions :: "(txn_manager, unit) py" where
  "enqueue_new_partitions =
     py_when (\<lambda>s. new_partitions_in_transaction s \<noteq> [])
       (py_bind add_partitions_to_transaction_handler enqueue_request)"

definition begin_completing_transaction :: "bool \<Rightarrow> (txn_manager, nat) py" where
  "begin_completing_transaction committed =
     py_then enqueue_new_partitions (enqueue_new (new_EndTxnHandler committed))"

definition begin_commit :: "(txn_manager, nat) py" where
  "begin_commit =
     py_then ensure_transactional
    (py_then maybe_fail_with_error
    (py_then (transition_to COMMITTING_TRANSACTION None)
       (begin_completing_transaction True)))"

definition begin_abort :: "(txn_manager, nat) py" where
  "begin_abort =
     py_then ensure_transactional
    (py_then (py_when (\<lambda>s. current_state s \<noteq> ABORTABLE_ERROR) maybe_fail_with_error)
    (py_then (transition_to ABORTING_TRANSACTION None)
    (py_then (py_set (\<lambda>s. s\<lparr>new_partitions_in_transaction := []\<rparr>))
       (begin_completing_transaction False))))"

definition send_offsets_to_transaction :: "offsets \<Rightarrow> pystr \<Rightarrow> (txn_manager, nat) py" where
  "send_offsets_to_transaction offs consumer_group_id =
     py_then ensure_transactional
    (py_then maybe_fail_with_error
    (py_then (py_when (\<lambda>s. current_state s \<noteq> IN_TRANSACTION) (py_raise KafkaError))
       (enqueue_new (new_AddOffsetsToTxnHandler consumer_group_id offs))))"

definition fail_if_not_ready_for_send :: "(txn_manager, unit) py" where
  "fail_if_not_ready_for_send =
     py_then (py_when has_error (py_raise KafkaError))
       (py_when is_transactional
         (py_then (py_when (\<lambda>s. \<not> has_producer_id None s) (py_raise IllegalStateError))
           (py_when (\<lambda>s. current_state s \<noteq> IN_TRANSACTION) (py_raise IllegalStateError))))"

definition maybe_add_partition_to_transaction :: "topic_partition \<Rightarrow> (txn_manager, unit) py" where
  "maybe_add_partition_to_transaction tp =
     py_then fail_if_not_ready_for_send
       (py_if (\<lambda>s. is_partition_added tp s \<or> is_partition_pending_add tp s) (py_return ())
         (py_set (\<lambda>s. s\<lparr>new_partitions_in_transaction := List.insert tp (new_partitions_in_transaction s)\<rparr>)))"

definition reset_producer_id :: "(txn_manager, unit) py" where
  "reset_producer_id =
     py_then (py_when is_transactional (py_raise IllegalStateError))
    (py_then (set_producer_id_and_epoch no_producer) (py_set (\<lambda>s. s\<lparr>sequence_numbers := []\<rparr>)))"

text \<open>Sequence numbers are a \<open>defaultdict\<close>: reading a missing entry inserts 0.\<close>

definition sequence_number :: "topic_partition \<Rightarrow> (txn_manager, int) py" where
  "sequence_number tp s =
     (case map_of (sequence_numbers s) tp of
        Some n \<Rightarrow> (Inr n, s)
      | None \<Rightarrow> (Inr 0, s\<lparr>sequence_numbers := AList.update tp 0 (sequence_numbers s)\<rparr>))"

definition increment_sequence_number :: "topic_partition \<Rightarrow> int \<Rightarrow> (txn_manager, unit) py" where
  "increment_sequence_number tp increment s =
     (case map_of (sequence_numbers s) tp of
        None \<Rightarrow> (Inl IllegalStateError, s)
      | Some base \<Rightarrow>
          (Inr (), s\<lparr>sequence_numbers := AList.update tp
             (if base > 2147483647 - increment then increment - (2147483647 - base) - 1 else base + increment)
             (sequence_numbers s)\<rparr>))"

section \<open>Operations of the sender\<close>

definition maybe_terminate_request_with_error :: "handler \<Rightarrow> (txn_manager, bool) py" where
  "maybe_terminate_request_with_error h =
     py_if has_error
       (py_if (\<lambda>s. has_abortable_error s \<and> (case h_kind h of FindCoordinatorHandler t k \<Rightarrow> True | _ \<Rightarrow> False))
         (py_return False)
         (py_bind (py_get last_error) (\<lambda>e. py_then (result_done (h_result h) e) (py_return True))))
       (py_return False)"

definition heappop_request :: "(txn_manager, handler option) py" where
  "heappop_request s =
     (case pending_requests s of
        [] \<Rightarrow> (Inr None, s)
      | (p, i, h) # rest \<Rightarrow> (Inr (Some h), s\<lparr>pending_requests := rest\<rparr>))"

text \<open>What happens to the request at the head of the heap once it is popped.\<close>

definition dispatch_request :: "handler \<Rightarrow> (txn_manager, handler option) py" where
  "dispatch_request h =
     py_bind (maybe_terminate_request_with_error h) (\<lambda>terminated.
       if terminated then py_return None
       else py_if (\<lambda>s. h_kind h = EndTxnHandler \<and> \<not> transaction_started s)
              (py_then (result_done (h_result h) None)
              (py_then (py_when (\<lambda>s. current_state s \<noteq> FATAL_ERROR) complete_transaction)
                 heappop_request))
              (py_return (Some h)))"

definition next_request_handler :: "bool \<Rightarrow> (txn_manager, handler option) py" where
  "next_request_handler has_incomplete_batches =
     py_then enqueue_new_partitions
       (\<lambda>s. case pending_requests s of
              [] \<Rightarrow> (Inr None, s)
            | (p, i, h) # rest \<Rightarrow>
                if h_kind h = EndTxnHandler \<and> has_incomplete_batches then (Inr None, s)
                else dispatch_request h (s\<lparr>pending_requests := rest\<rparr>))"

definition retry :: "handler \<Rightarrow> (txn_manager, unit) py" where
  "retry h = enqueue_request (h\<lparr>h_is_retry := True\<rparr>)"

text \<open>\<open>fatal_error\<close> and \<open>abortable_error\<close> of a handler call \<open>_transition_to_fatal_error\<close> and
  \<open>_transition_to_abortable_error\<close>; the manager's methods have no leading underscore, so the
  attribute lookup raises and neither the state nor the result changes.\<close>

definition fatal_error :: "handler \<Rightarrow> exn_class \<Rightarrow> (txn_manager, 'a) py" where
  "fatal_error h exc = py_raise AttributeError"

definition abortable_error :: "handler \<Rightarrow> exn_class \<Rightarrow> (txn_manager, 'a) py" where
  "abortable_error h exc = py_raise AttributeError"

definition fail :: "handler \<Rightarrow> exn_class \<Rightarrow> (txn_manager, unit) py" where
  "fail h exc = result_done (h_result h) (Some exc)"

definition reenqueue :: "handler \<Rightarrow> (txn_manager, unit) py" where
  "reenqueue h = enqueue_request (h\<lparr>h_is_retry := True\<rparr>)"

definition authentication_failed :: "exn_class \<Rightarrow> (txn_manager, unit) py" where
  "authentication_failed exc =
     py_bind (py_get pending_requests) (\<lambda>reqs. py_for (\<lambda>(p, i, h). fatal_error h exc) reqs)"

definition lookup_coordinator :: "string option \<Rightarrow> pystr option \<Rightarrow> (txn_manager, unit) py" where
  "lookup_coordinator coord_type coord_key =
     (case coord_type of
        None \<Rightarrow> py_raise IllegalStateError
      | Some t \<Rightarrow>
          py_then
            (if t = ''group'' then py_set (\<lambda>s. s\<lparr>consumer_group_coordinator := None\<rparr>)
             else if t = ''transaction'' then py_set (\<lambda>s. s\<lparr>transaction_coordinator := None\<rparr>)
             else py_raise IllegalStateError)
            (py_bind (new_FindCoordinatorHandler t coord_key) enqueue_request))"

fun coordinator_type :: "handler_kind \<Rightarrow> string option" where
  "coordinator_type (FindCoordinatorHandler t k) = None"
| "coordinator_type (TxnOffsetCommitHandler g) = Some ''group''"
| "coordinator_type k = Some ''transaction''"

fun coordinator_key_of :: "handler_kind \<Rightarrow> txn_manager \<Rightarrow> pystr option" where
  "coordinator_key_of (FindCoordinatorHandler t k) s = None"
| "coordinator_key_of (TxnOffsetCommitHandler g) s = Some g"
| "coordinator_key_of k s = transactional_id s"

definition needs_coordinator :: "handler \<Rightarrow> bool" where
  "needs_coordinator h \<longleftrightarrow> coordinator_type (h_kind h) \<noteq> None"

definition lookup_coordinator_for_request :: "handler \<Rightarrow> (txn_manager, unit) py" where
  "lookup_coordinator_for_request h =
     py_bind (py_get (coordinator_key_of (h_kind h))) (lookup_coordinator (coordinator_type (h_kind h)))"

definition next_in_flight_request_correlation_id :: "(txn_manager, int) py" where
  "next_in_flight_request_correlation_id =
     py_then (py_set (\<lambda>s. s\<lparr>in_flight_request_correlation_id := in_flight_request_correlation_id s + 1\<rparr>))
       (py_get in_flight_request_correlation_id)"

definition clear_in_flight_transactional_request_correlation_id :: "(txn_manager, unit) py" where
  "clear_in_flight_transactional_request_correlation_id =
     py_set (\<lambda>s. s\<lparr>in_flight_request_correlation_id := NO_INFLIGHT_REQUEST_CORRELATION_ID\<rparr>)"

section \<open>Responses\<close>

text \<open>The attributes of a decoded response that the handlers read.\<close>

record txn_response =
  rsp_error_code :: int
  rsp_producer_id :: int
  rsp_producer_epoch :: int
  rsp_results :: "(pystr \<times> (int \<times> int) list) list"
  rsp_topics :: "(pystr \<times> (int \<times> int) list) list"
  rsp_coordinator_id :: int
  rsp_host :: pystr
  rsp_port :: int

definition lookup_transaction_coordinator :: "(txn_manager, unit) py" where
  "lookup_transaction_coordinator =
     py_bind (py_get transactional_id) (lookup_coordinator (Some ''transaction''))"

definition InitProducerId_handle_response :: "handler \<Rightarrow> txn_response \<Rightarrow> (txn_manager, unit) py" where
  "InitProducerId_handle_response h response =
     (let error = for_code (rsp_error_code response) in
      if error = NoError then
        py_then (set_producer_id_and_epoch
                  \<lparr>pe_producer_id = rsp_producer_id response, pe_epoch = rsp_producer_epoch response\<rparr>)
       (py_then (transition_to READY None) (result_done (h_result h) None))
      else if error \<in> {NotCoordinatorError, CoordinatorNotAvailableError} then
        py_then lookup_transaction_coordinator (reenqueue h)
      else if error \<in> {CoordinatorLoadInProgressError, ConcurrentTransactionsError} then reenqueue h
      else if error = TransactionalIdAuthorizationFailedError then fatal_error h error
      else fatal_error h KafkaError)"

definition partition_errors :: "(pystr \<times> (int \<times> int) list) list \<Rightarrow> (topic_partition \<times> exn_class) list" where
  "partition_errors rs =
     fold (\<lambda>(topic, ps). fold (\<lambda>(partition, code). AList.update (topic, partition) (for_code code)) ps) rs []"

text \<open>The loop over the results: an early return, or the topics not authorized and whether any
  partition failed.\<close>

datatype add_partitions_outcome =
    LookupAndRetry | RetryWithOverride | Retry | Fatal exn_class
  | Finished "pystr list" bool

primrec scan_add_partitions :: "(topic_partition \<times> exn_class) list \<Rightarrow> pystr list \<Rightarrow> bool \<Rightarrow> add_partitions_outcome" where
  "scan_add_partitions [] unauthorized has_errors = Finished unauthorized has_errors"
| "scan_add_partitions (r # rs) unauthorized has_errors =
     (let error = snd r in
      if error = NoError then scan_add_partitions rs unauthorized has_errors
      else if error \<in> {CoordinatorNotAvailableError, NotCoordinatorError} then LookupAndRetry
      else if error = ConcurrentTransactionsError then RetryWithOverride
      else if error \<in> {CoordinatorLoadInProgressError, UnknownTopicOrPartitionError} then Retry
      else if error = InvalidProducerEpochError then Fatal error
      else if error = TransactionalIdAuthorizationFailedError then Fatal error
      else if error \<in> {InvalidProducerIdMappingError, InvalidTxnStateError} then Fatal KafkaError
      else if error = TopicAuthorizationFailedError
      then scan_add_partitions rs (List.insert (fst (fst r)) unauthorized) has_errors
      else scan_add_partitions rs unauthorized True)"

definition override_retry_backoff_ms :: "handler \<Rightarrow> txn_manager \<Rightarrow> handler" where
  "override_retry_backoff_ms h s =
     (if partitions_in_transaction s = []
      then h\<lparr>h_retry_backoff_ms := min ADD_PARTITIONS_RETRY_BACKOFF_MS (h_retry_backoff_ms h)\<rparr> else h)"

definition AddPartitions_handle_response :: "handler \<Rightarrow> txn_response \<Rightarrow> (txn_manager, unit) py" where
  "AddPartitions_handle_response h0 response =
     py_bind (py_get (\<lambda>s. h0\<lparr>h_retry_backoff_ms := tm_retry_backoff_ms s\<rparr>)) (\<lambda>h.
       let results = partition_errors (rsp_results response) in
       case scan_add_partitions results [] False of
         LookupAndRetry \<Rightarrow> py_then lookup_transaction_coordinator (reenqueue h)
       | RetryWithOverride \<Rightarrow> py_bind (py_get (override_retry_backoff_ms h)) reenqueue
       | Retry \<Rightarrow> reenqueue h
       | Fatal e \<Rightarrow> fatal_error h e
       | Finished unauthorized has_errors \<Rightarrow>
           py_then (py_set (\<lambda>s. s\<lparr>pending_partitions_in_transaction :=
               filter (\<lambda>tp. tp \<notin> set (map fst results)) (pending_partitions_in_transaction s)\<rparr>))
             (if unauthorized \<noteq> [] then abortable_error h TopicAuthorizationFailedError
              else if has_errors then abortable_error h KafkaError
              else
                py_then (py_set (\<lambda>s. s\<lparr>partitions_in_transaction :=
                    fold List.insert (map fst results) (partitions_in_transaction s), transaction_started := True\<rparr>))
                  (result_done (h_result h) None)))"

definition FindCoordinator_handle_response ::
  "string \<Rightarrow> pystr option \<Rightarrow> handler \<Rightarrow> txn_response \<Rightarrow> (txn_manager, unit) py" where
  "FindCoordinator_handle_response coord_type coord_key h response =
     (let error = for_code (rsp_error_code response) in
      if error = NoError then
        py_bind (\<lambda>s. case add_coordinator \<lparr>cr_error_code = rsp_error_code response,
                        cr_coordinator_id = rsp_coordinator_id response, cr_host = rsp_host response,
                        cr_port = rsp_port response\<rparr> coord_type coord_key (tm_metadata s) of
                       (r, c) \<Rightarrow> (r, s\<lparr>tm_metadata := c\<rparr>)) (\<lambda>coordinator_id.
        py_then (py_set (\<lambda>s.
            if coord_type = ''group'' then s\<lparr>consumer_group_coordinator := coordinator_id\<rparr>
            else if coord_type = ''transaction'' then s\<lparr>transaction_coordinator := coordinator_id\<rparr> else s))
          (result_done (h_result h) None))
      else if error = CoordinatorNotAvailableError then reenqueue h
      else if error = TransactionalIdAuthorizationFailedError then fatal_error h error
      else if error = GroupAuthorizationFailedError then abortable_error h error
      else fatal_error h KafkaError)"

definition EndTxn_handle_response :: "handler \<Rightarrow> txn_response \<Rightarrow> (txn_manager, unit) py" where
  "EndTxn_handle_response h response =
     (let error = for_code (rsp_error_code response) in
      if error = NoError then py_then complete_transaction (result_done (h_result h) None)
      else if error \<in> {CoordinatorNotAvailableError, NotCoordinatorError} then
        py_then lookup_transaction_coordinator (reenqueue h)
      else if error \<in> {CoordinatorLoadInProgressError, ConcurrentTransactionsError} then reenqueue h
      else if error = InvalidProducerEpochError then fatal_error h error
      else if error = TransactionalIdAuthorizationFailedError then fatal_error h error
      else if error = InvalidTxnStateError then fatal_error h error
      else fatal_error h KafkaError)"

definition AddOffsets_handle_response ::
  "pystr \<Rightarrow> offsets \<Rightarrow> handler \<Rightarrow> txn_response \<Rightarrow> (txn_manager, unit) py" where
  "AddOffsets_handle_response consumer_group_id offs h response =
     (let error = for_code (rsp_error_code response) in
      if error = NoError then
        py_then (py_set (\<lambda>s. s\<lparr>pending_txn_offset_commits :=
            fold (\<lambda>(tp, om). AList.update tp om) offs (pending_txn_offset_commits s)\<rparr>))
       (py_then (py_bind (new_TxnOffsetCommitHandler consumer_group_id (h_result h)) enqueue_request)
          (py_set (\<lambda>s. s\<lparr>transaction_started := True\<rparr>)))
      else if error \<in> {CoordinatorNotAvailableError, NotCoordinatorError} then
        py_then lookup_transaction_coordinator (reenqueue h)
      else if error \<in> {CoordinatorLoadInProgressError, ConcurrentTransactionsError} then reenqueue h
      else if error = InvalidProducerEpochError then fatal_error h error
      else if error = TransactionalIdAuthorizationFailedError then fatal_error h error
      else if error = GroupAuthorizationFailedError then abortable_error h error
      else fatal_error h KafkaError)"

text \<open>In \<open>TxnOffsetCommitHandler.handle_response\<close> the first \<open>elif\<close> reads
  \<open>errors.CoordinatorNotAvailableError\<close>, an attribute of the local dictionary \<open>errors\<close>: any result
  other than NoError raises AttributeError there, so the later branches, and the retry after the
  loop, are never reached.\<close>

definition commit_offset_result :: "topic_partition \<times> exn_class \<Rightarrow> (txn_manager, unit) py" where
  "commit_offset_result r =
     (if snd r = NoError then
        py_if (\<lambda>s. map_of (pending_txn_offset_commits s) (fst r) = None) (py_raise KeyError)
          (py_set (\<lambda>s. s\<lparr>pending_txn_offset_commits := AList.delete (fst r) (pending_txn_offset_commits s)\<rparr>))
      else py_raise AttributeError)"

definition TxnOffsetCommit_handle_response :: "handler \<Rightarrow> txn_response \<Rightarrow> (txn_manager, unit) py" where
  "TxnOffsetCommit_handle_response h response =
     py_then (py_for commit_offset_result (partition_errors (rsp_topics response)))
       (result_done (h_result h) None)"

definition handle_response :: "handler \<Rightarrow> txn_response \<Rightarrow> (txn_manager, unit) py" where
  "handle_response h response =
     (case h_kind h of
        InitProducerIdHandler \<Rightarrow> InitProducerId_handle_response h response
      | AddPartitionsToTxnHandler \<Rightarrow> AddPartitions_handle_response h response
      | FindCoordinatorHandler t k \<Rightarrow> FindCoordinator_handle_response t k h response
      | EndTxnHandler \<Rightarrow> EndTxn_handle_response h response
      | AddOffsetsToTxnHandler g offs \<Rightarrow> AddOffsets_handle_response g offs h response
      | TxnOffsetCommitHandler g \<Rightarrow> TxnOffsetCommit_handle_response h response)"

datatype completion = Response txn_response | Raised exn_class | NoResponse

definition on_complete :: "handler \<Rightarrow> int \<Rightarrow> completion \<Rightarrow> (txn_manager, unit) py" where
  "on_complete h cid response_or_exc =
     py_if (\<lambda>s. cid \<noteq> in_flight_request_correlation_id s) (fatal_error h RuntimeError)
    (py_then clear_in_flight_transactional_request_correlation_id
      (case response_or_exc of
         Raised e \<Rightarrow>
           if issubclass e KafkaConnectionError then
             py_then (py_when (\<lambda>_. needs_coordinator h) (lookup_coordinator_for_request h)) (reenqueue h)
           else if issubclass e UnsupportedVersionError then fatal_error h e
           else fatal_error h KafkaError
       | Response r \<Rightarrow> handle_response h r
       | NoResponse \<Rightarrow> fatal_error h KafkaError))"

end
