(* ===== verification/Txn_Properties.thy ===== *)
theory Txn_Properties
  imports Txn_Manager "HOL-Library.Multiset"
begin

text \<open>
  Correctness of the transaction manager.  The heap of pending requests is shown to implement the
  priority-queue contract \<open>min_queue\<close>; a call of any method is an event of \<open>txn_call\<close>, and the
  states reachable by calls are the inductive predicate \<open>txn_reachable\<close>.  The lemmas establish the
  state invariant by the preservation calculus of the prelude, the legality of every state change by
  its guarantee calculus, and the behaviour of the queue, the sequence numbers and the error paths.
\<close>

section \<open>The pending queue is a priority queue\<close>

locale min_queue =
  fixes push :: "'e \<Rightarrow> 'q \<Rightarrow> 'q"
    and pop :: "'q \<Rightarrow> ('e \<times> 'q) option"
    and elems :: "'q \<Rightarrow> 'e multiset"
    and less :: "'e \<Rightarrow> 'e \<Rightarrow> bool"
    and inv :: "'q \<Rightarrow> bool"
  assumes inv_push: "inv q \<Longrightarrow> inv (push x q)"
    and elems_push: "inv q \<Longrightarrow> elems (push x q) = add_mset x (elems q)"
    and pop_None: "inv q \<Longrightarrow> pop q = None \<longleftrightarrow> elems q = {#}"
    and pop_Some: "inv q \<Longrightarrow> pop q = Some (x, r) \<Longrightarrow> inv r \<and> elems q = add_mset x (elems r)"
    and pop_min: "inv q \<Longrightarrow> pop q = Some (x, r) \<Longrightarrow> y \<in># elems q \<Longrightarrow> \<not> less y x"
    and less_trans: "less x y \<Longrightarrow> less y z \<Longrightarrow> less x z"
    and less_irrefl: "\<not> less x x"
begin

lemma pop_after_push:
  assumes "inv q" "pop (push x q) = Some (y, r)"
  shows "y = x \<or> y \<in># elems q"
proof -
  have "y \<in># elems (push x q)" using pop_Some [OF inv_push [OF assms(1)] assms(2)] by simp
  then show ?thesis by (simp add: elems_push [OF assms(1)])
qed

lemma pushed_first:
  assumes "inv q" "\<And>y. y \<in># elems q \<Longrightarrow> less x y" "pop (push x q) = Some (y, r)"
  shows "y = x"
proof (rule ccontr)
  assume "y \<noteq> x"
  with pop_after_push [OF assms(1,3)] have "less x y" using assms(2) by blast
  moreover have "\<not> less x y"
    by (rule pop_min [OF inv_push [OF assms(1)] assms(3)]) (simp add: elems_push [OF assms(1)])
  ultimately show False by simp
qed

lemma pop_in_order:
  assumes "inv q" "pop q = Some (x, r)" "pop r = Some (y, r')"
  shows "\<not> less y x"
proof (rule pop_min [OF assms(1,2)])
  have "elems r = add_mset y (elems r')" using pop_Some [OF _ assms(3)] pop_Some [OF assms(1,2)] by blast
  with pop_Some [OF assms(1,2)] show "y \<in># elems q" by simp
qed

end

definition heap_pop :: "'e list \<Rightarrow> ('e \<times> 'e list) option" where
  "heap_pop q = (case q of [] \<Rightarrow> None | x # r \<Rightarrow> Some (x, r))"

definition heap_sorted :: "(nat \<times> nat \<times> 'a) list \<Rightarrow> bool" where
  "heap_sorted q \<longleftrightarrow> sorted_wrt (\<lambda>x y. \<not> entry_less y x) q"

lemma entry_less_trans: "entry_less x y \<Longrightarrow> entry_less y z \<Longrightarrow> entry_less x z"
  by (auto simp: entry_less_def)

lemma entry_less_irrefl: "\<not> entry_less x x"
  by (simp add: entry_less_def)

lemma mset_heappush [simp]: "mset (heappush x q) = add_mset x (mset q)"
  by (induction q) auto

lemma set_heappush [simp]: "set (heappush x q) = insert x (set q)"
  by (induction q) auto

lemma heap_sorted_push: "heap_sorted q \<Longrightarrow> heap_sorted (heappush x q)"
  unfolding heap_sorted_def
proof (induction q)
  case (Cons y ys)
  show ?case
  proof (cases "entry_less x y")
    case True
    have "\<not> entry_less z x" if "z \<in> set (y # ys)" for z
    proof
      assume "entry_less z x"
      then have "entry_less z y" using True by (rule entry_less_trans)
      with that Cons.prems show False by (auto simp: entry_less_irrefl simp del: split_paired_All)
    qed
    with True Cons.prems show ?thesis by simp
  next
    case False
    with Cons show ?thesis by simp
  qed
qed simp

interpretation heap: min_queue heappush heap_pop mset entry_less heap_sorted
proof unfold_locales
  show "heap_sorted (heappush x q)" if "heap_sorted q" for q :: "(nat \<times> nat \<times> 'a) list" and x
    using that by (rule heap_sorted_push)
  show "\<not> entry_less y x" if "heap_sorted q" "heap_pop q = Some (x, r)" "y \<in># mset q"
    for q r :: "(nat \<times> nat \<times> 'a) list" and x y
    using that by (cases q) (auto simp: heap_pop_def heap_sorted_def entry_less_irrefl)
  show "entry_less x z" if "entry_less x y" "entry_less y z" for x y z :: "nat \<times> nat \<times> 'a"
    using that by (rule entry_less_trans)
qed (auto simp: heap_pop_def heap_sorted_def entry_less_irrefl split: list.splits)

section \<open>The state invariant\<close>

definition error_recorded :: "txn_manager \<Rightarrow> bool" where
  "error_recorded s \<longleftrightarrow> (last_error s \<noteq> None \<longleftrightarrow> has_error s)"

definition queue_ok :: "txn_manager \<Rightarrow> bool" where
  "queue_ok s \<longleftrightarrow> heap_sorted (pending_requests s) \<and> distinct (map (\<lambda>e. fst (snd e)) (pending_requests s)) \<and>
     list_all (\<lambda>(p, i, h). p = h_priority (h_kind h) \<and> i \<le> pending_requests_sort_id s) (pending_requests s)"

definition sequences_ok :: "txn_manager \<Rightarrow> bool" where
  "sequences_ok s \<longleftrightarrow> (\<forall>tp n. map_of (sequence_numbers s) tp = Some n \<longrightarrow> 0 \<le> n \<and> n < 2 ^ 31)"

definition tm_inv :: "txn_manager \<Rightarrow> bool" where
  "tm_inv s \<longleftrightarrow> error_recorded s \<and> queue_ok s \<and> sequences_ok s"

lemma tm_inv_init: "tm_inv (TransactionManager tid t r v c)"
  by (simp add: tm_inv_def TransactionManager_def error_recorded_def has_error_def queue_ok_def heap_sorted_def
      sequences_ok_def)

text \<open>The fields the invariant does not read.\<close>

lemma tm_inv_frame [simp]:
  "tm_inv (s\<lparr>tm_producer_id_and_epoch := a\<rparr>) = tm_inv s"
  "tm_inv (s\<lparr>tm_results := b\<rparr>) = tm_inv s"
  "tm_inv (s\<lparr>new_partitions_in_transaction := c\<rparr>) = tm_inv s"
  "tm_inv (s\<lparr>pending_partitions_in_transaction := d\<rparr>) = tm_inv s"
  "tm_inv (s\<lparr>partitions_in_transaction := e\<rparr>) = tm_inv s"
  "tm_inv (s\<lparr>transaction_started := f\<rparr>) = tm_inv s"
  "tm_inv (s\<lparr>consumer_group_coordinator := g\<rparr>) = tm_inv s"
  "tm_inv (s\<lparr>transaction_coordinator := g\<rparr>) = tm_inv s"
  "tm_inv (s\<lparr>in_flight_request_correlation_id := i\<rparr>) = tm_inv s"
  "tm_inv (s\<lparr>pending_txn_offset_commits := j\<rparr>) = tm_inv s"
  "tm_inv (s\<lparr>tm_metadata := k\<rparr>) = tm_inv s"
  by (simp_all add: tm_inv_def error_recorded_def has_error_def queue_ok_def sequences_ok_def)

lemma tm_inv_sequences_cleared [simp]: "tm_inv s \<Longrightarrow> tm_inv (s\<lparr>sequence_numbers := []\<rparr>)"
  by (simp add: tm_inv_def error_recorded_def has_error_def queue_ok_def sequences_ok_def)

lemma keeps_transition_to [keeps_rules]: "keeps tm_inv (transition_to target e)"
  by (rule keepsI)
    (auto simp: transition_to_def py_defs tm_inv_def error_recorded_def has_error_def queue_ok_def sequences_ok_def)

lemma keeps_enqueue_request [keeps_rules]: "keeps tm_inv (enqueue_request h)"
proof (rule keepsI)
  fix s assume "tm_inv s"
  then have q: "queue_ok s" "error_recorded s" "sequences_ok s" by (simp_all add: tm_inv_def)
  let ?i = "pending_requests_sort_id s + 1"
  let ?q = "heappush (h_priority (h_kind h), ?i, h) (pending_requests s)"
  have fresh: "?i \<notin> fst ` snd ` set (pending_requests s)"
    using q(1) by (force simp: queue_ok_def list_all_iff)
  have "mset (map (\<lambda>e. fst (snd e)) ?q) = add_mset ?i (mset (map (\<lambda>e. fst (snd e)) (pending_requests s)))"
    by simp
  then have "distinct (map (\<lambda>e. fst (snd e)) ?q)"
    using q(1) fresh
      mset_eq_imp_distinct_iff [of "map (\<lambda>e. fst (snd e)) ?q" "?i # map (\<lambda>e. fst (snd e)) (pending_requests s)"]
    by (simp add: queue_ok_def image_image)
  moreover have "heap_sorted ?q" using q(1) by (simp add: queue_ok_def heap_sorted_push)
  ultimately show "tm_inv (snd (enqueue_request h s))"
    using q by (auto simp: enqueue_request_def py_defs tm_inv_def queue_ok_def error_recorded_def has_error_def
        sequences_ok_def list_all_iff)
qed

lemma keeps_result_done [keeps_rules]: "keeps tm_inv (result_done r e)"
  unfolding result_done_def by (intro keeps_rules) simp

lemma keeps_set_producer_id [keeps_rules]: "keeps tm_inv (set_producer_id_and_epoch p)"
  unfolding set_producer_id_and_epoch_def by (intro keeps_rules) simp

lemma keeps_complete_transaction [keeps_rules]: "keeps tm_inv complete_transaction"
  unfolding complete_transaction_def by (intro keeps_rules) simp

lemma keeps_guards [keeps_rules]:
  "keeps tm_inv ensure_transactional" "keeps tm_inv maybe_fail_with_error"
  unfolding ensure_transactional_def maybe_fail_with_error_def by (intro keeps_rules)+

lemma keeps_new_handler [keeps_rules]: "keeps tm_inv (new_handler k req r)"
  unfolding new_handler_def by (cases r; simp only: option.case; intro keeps_rules) simp

lemmas new_handler_defs =
  new_InitProducerIdHandler_def new_AddPartitionsToTxnHandler_def new_FindCoordinatorHandler_def
  new_EndTxnHandler_def new_AddOffsetsToTxnHandler_def new_TxnOffsetCommitHandler_def

lemma keeps_new_handlers [keeps_rules]:
  "keeps tm_inv (new_InitProducerIdHandler t)" "keeps tm_inv (new_AddPartitionsToTxnHandler tps)"
  "keeps tm_inv (new_FindCoordinatorHandler ct ck)" "keeps tm_inv (new_EndTxnHandler b)"
  "keeps tm_inv (new_AddOffsetsToTxnHandler g os)" "keeps tm_inv (new_TxnOffsetCommitHandler g r)"
  unfolding new_handler_defs by (intro keeps_rules)+

lemma keeps_enqueue_new [keeps_rules]: "keeps tm_inv mk \<Longrightarrow> keeps tm_inv (enqueue_new mk)"
  unfolding enqueue_new_def by (intro keeps_rules)

lemma keeps_enqueue_new_partitions [keeps_rules]: "keeps tm_inv enqueue_new_partitions"
  unfolding enqueue_new_partitions_def add_partitions_to_transaction_handler_def
  by (intro keeps_rules) simp

lemma keeps_begin_completing [keeps_rules]: "keeps tm_inv (begin_completing_transaction b)"
  unfolding begin_completing_transaction_def by (intro keeps_rules)

lemma keeps_lookup_coordinator [keeps_rules]: "keeps tm_inv (lookup_coordinator t k)"
  unfolding lookup_coordinator_def by (cases t; simp only: option.case; intro keeps_rules) simp_all

lemma keeps_reenqueue [keeps_rules]: "keeps tm_inv (reenqueue h)" "keeps tm_inv (retry h)"
  unfolding reenqueue_def retry_def by (intro keeps_rules)+

lemma keeps_errors [keeps_rules]: "keeps tm_inv (fatal_error h e)" "keeps tm_inv (abortable_error h e)"
  unfolding fatal_error_def abortable_error_def by (intro keeps_rules)+

lemma keeps_lookup_transaction [keeps_rules]: "keeps tm_inv lookup_transaction_coordinator"
  unfolding lookup_transaction_coordinator_def by (intro keeps_rules)

lemma keeps_sequence_number [keeps_rules]: "keeps tm_inv (sequence_number tp)"
  by (rule keepsI) (auto simp: sequence_number_def tm_inv_def queue_ok_def error_recorded_def has_error_def
      sequences_ok_def update_conv' split: option.splits if_splits)

lemma wrapped_sequence:
  fixes base inc :: int
  assumes "0 \<le> base" "base < 2 ^ 31" "0 \<le> inc" "inc < 2 ^ 31"
  shows "(if base > 2147483647 - inc then inc - (2147483647 - base) - 1 else base + inc) = (base + inc) mod 2 ^ 31"
  using assms by (auto simp: mod_pos_pos_trivial int_mod_pos_eq [of _ _ 1 "base + inc - 2147483648"])

lemma keeps_increment [keeps_rules]:
  assumes "0 \<le> inc" "inc < 2 ^ 31"
  shows "keeps tm_inv (increment_sequence_number tp inc)"
proof (rule keepsI)
  fix s assume inv: "tm_inv s"
  show "tm_inv (snd (increment_sequence_number tp inc s))"
  proof (cases "map_of (sequence_numbers s) tp")
    case None
    with inv show ?thesis by (simp add: increment_sequence_number_def)
  next
    case (Some base)
    then have "0 \<le> base" "base < 2 ^ 31" using inv by (auto simp: tm_inv_def sequences_ok_def simp del: split_paired_All)
    from wrapped_sequence [OF this assms] Some inv show ?thesis
      by (auto simp: increment_sequence_number_def tm_inv_def queue_ok_def error_recorded_def has_error_def
          sequences_ok_def update_conv' split: if_splits)
  qed
qed

lemma queue_ok_pop: "pending_requests s = e # r \<Longrightarrow> tm_inv s \<Longrightarrow> tm_inv (s\<lparr>pending_requests := r\<rparr>)"
  by (simp add: tm_inv_def queue_ok_def error_recorded_def has_error_def sequences_ok_def heap_sorted_def)

lemma keeps_heappop [keeps_rules]: "keeps tm_inv heappop_request"
  by (rule keepsI) (auto simp: heappop_request_def queue_ok_pop split: list.splits)

lemma keeps_dispatch [keeps_rules]: "keeps tm_inv (dispatch_request h)"
  unfolding dispatch_request_def maybe_terminate_request_with_error_def by (intro keeps_rules)

lemma keeps_next_request_handler [keeps_rules]: "keeps tm_inv (next_request_handler b)"
  unfolding next_request_handler_def
proof (intro keeps_then keeps_enqueue_new_partitions keepsI)
  fix s assume "tm_inv s"
  then show "tm_inv (snd (case pending_requests s of [] \<Rightarrow> (Inr None, s)
      | (p, i, h) # rest \<Rightarrow> if h_kind h = EndTxnHandler \<and> b then (Inr None, s)
          else dispatch_request h (s\<lparr>pending_requests := rest\<rparr>)))"
    using keeps_dispatch by (auto simp: keeps_def queue_ok_pop split: list.splits)
qed

lemma keeps_InitProducerId [keeps_rules]: "keeps tm_inv (InitProducerId_handle_response h r)"
  unfolding InitProducerId_handle_response_def Let_def by (intro keeps_rules)

lemma keeps_AddPartitions [keeps_rules]: "keeps tm_inv (AddPartitions_handle_response h r)"
  unfolding AddPartitions_handle_response_def Let_def
  by (cases "scan_add_partitions (partition_errors (rsp_results r)) [] False";
      simp only: add_partitions_outcome.case; intro keeps_rules) simp_all

lemma keeps_FindCoordinator [keeps_rules]: "keeps tm_inv (FindCoordinator_handle_response t k h r)"
  unfolding FindCoordinator_handle_response_def Let_def
  by (intro keeps_rules; (rule keepsI)?) (auto split: prod.splits)

lemma keeps_EndTxn [keeps_rules]: "keeps tm_inv (EndTxn_handle_response h r)"
  unfolding EndTxn_handle_response_def Let_def by (intro keeps_rules)

lemma keeps_AddOffsets [keeps_rules]: "keeps tm_inv (AddOffsets_handle_response g os h r)"
  unfolding AddOffsets_handle_response_def Let_def by (intro keeps_rules) simp_all

lemma keeps_TxnOffsetCommit [keeps_rules]: "keeps tm_inv (TxnOffsetCommit_handle_response h r)"
  unfolding TxnOffsetCommit_handle_response_def commit_offset_result_def by (intro keeps_rules) simp_all

lemma keeps_handle_response [keeps_rules]: "keeps tm_inv (handle_response h r)"
  unfolding handle_response_def by (cases "h_kind h"; simp only: handler_kind.case; intro keeps_rules)

lemma keeps_on_complete [keeps_rules]: "keeps tm_inv (on_complete h cid c)"
  unfolding on_complete_def clear_in_flight_transactional_request_correlation_id_def
    lookup_coordinator_for_request_def
  by (cases c; simp only: completion.case; intro keeps_rules) simp_all

section \<open>Calls and reachable states\<close>

text \<open>The methods of the manager and of its handlers, as events.  A handler in an event is one the
  sender was given; an increment is the record count of a batch.\<close>

datatype txn_call =
    InitializeTransactions | BeginTransaction | BeginCommit | BeginAbort
  | SendOffsets offsets pystr | MaybeAddPartition topic_partition
  | TransitionToAbortableError exn_class | TransitionToFatalError exn_class
  | ResetProducerId | SequenceNumber topic_partition | IncrementSequenceNumber topic_partition int
  | NextRequestHandler bool | RetryRequest handler | AuthenticationFailed exn_class
  | LookupCoordinatorForRequest handler | NextCorrelationId | ClearCorrelationId
  | OnComplete handler int completion

definition ignore :: "('s, 'a) py \<Rightarrow> ('s, unit) py" where
  "ignore m = py_bind m (\<lambda>_. py_return ())"

primrec run_call :: "txn_call \<Rightarrow> (txn_manager, unit) py" where
  "run_call InitializeTransactions = ignore initialize_transactions"
| "run_call BeginTransaction = begin_transaction"
| "run_call BeginCommit = ignore begin_commit"
| "run_call BeginAbort = ignore begin_abort"
| "run_call (SendOffsets offs g) = ignore (send_offsets_to_transaction offs g)"
| "run_call (MaybeAddPartition tp) = maybe_add_partition_to_transaction tp"
| "run_call (TransitionToAbortableError e) = transition_to_abortable_error e"
| "run_call (TransitionToFatalError e) = transition_to_fatal_error e"
| "run_call ResetProducerId = reset_producer_id"
| "run_call (SequenceNumber tp) = ignore (sequence_number tp)"
| "run_call (IncrementSequenceNumber tp n) = increment_sequence_number tp n"
| "run_call (NextRequestHandler b) = ignore (next_request_handler b)"
| "run_call (RetryRequest h) = retry h"
| "run_call (AuthenticationFailed e) = authentication_failed e"
| "run_call (LookupCoordinatorForRequest h) = lookup_coordinator_for_request h"
| "run_call NextCorrelationId = ignore next_in_flight_request_correlation_id"
| "run_call ClearCorrelationId = clear_in_flight_transactional_request_correlation_id"
| "run_call (OnComplete h cid c) = on_complete h cid c"

fun valid_call :: "txn_call \<Rightarrow> bool" where
  "valid_call (IncrementSequenceNumber tp n) \<longleftrightarrow> 0 \<le> n \<and> n < 2 ^ 31"
| "valid_call c \<longleftrightarrow> True"

inductive txn_steps :: "txn_manager \<Rightarrow> txn_manager \<Rightarrow> bool" for s where
  txn_refl: "txn_steps s s"
| txn_step: "txn_steps s t \<Longrightarrow> valid_call c \<Longrightarrow> run_call c t = (r, u) \<Longrightarrow> txn_steps s u"

lemma keeps_ignore [keeps_rules]: "keeps I m \<Longrightarrow> keeps I (ignore m)"
  unfolding ignore_def by (intro keeps_rules)

lemma keeps_run_call: "valid_call c \<Longrightarrow> keeps tm_inv (run_call c)"
  by (cases c; simp only: run_call.simps initialize_transactions_def begin_transaction_def begin_commit_def
      begin_abort_def send_offsets_to_transaction_def maybe_add_partition_to_transaction_def
      fail_if_not_ready_for_send_def transition_to_abortable_error_def transition_to_fatal_error_def
      reset_producer_id_def authentication_failed_def lookup_coordinator_for_request_def
      next_in_flight_request_correlation_id_def clear_in_flight_transactional_request_correlation_id_def
      case_prod_beta; intro keeps_rules) (simp_all add: keeps_errors split: prod.split)

lemma txn_steps_inv: "txn_steps s t \<Longrightarrow> tm_inv s \<Longrightarrow> tm_inv t"
  by (induction rule: txn_steps.induct) (auto dest: keepsD [OF keeps_run_call])

section \<open>Every state change is a valid transition\<close>

definition results_grow :: "txn_result list \<Rightarrow> txn_result list \<Rightarrow> bool" where
  "results_grow xs ys \<longleftrightarrow> length xs \<le> length ys \<and> (\<forall>i < length xs. tr_done (xs ! i) \<longrightarrow> tr_done (ys ! i))"

definition evolves :: "txn_manager \<Rightarrow> txn_manager \<Rightarrow> bool" where
  "evolves s t \<longleftrightarrow> is_transition_valid\<^sup>*\<^sup>* (current_state s) (current_state t) \<and>
     results_grow (tm_results s) (tm_results t) \<and> transactional_id t = transactional_id s"

lemma results_grow_trans: "results_grow xs ys \<Longrightarrow> results_grow ys zs \<Longrightarrow> results_grow xs zs"
  by (auto simp: results_grow_def)

interpretation evolve: guarantee evolves
  by unfold_locales (auto simp: evolves_def results_grow_def intro: rtranclp_trans)

named_theorems evolve_rules \<open>methods that only make valid transitions\<close>

declare evolve.g_rules [evolve_rules]

lemma results_grow_simps [simp]:
  "results_grow xs xs"
  "results_grow xs (xs @ ys)"
  "results_grow xs (xs[r := \<lparr>tr_done = True, tr_error = e\<rparr>])"
  by (simp_all add: results_grow_def nth_append) (metis nth_list_update_eq nth_list_update_neq txn_result.select_convs(1))

lemma evolves_same_state [simp]:
  "current_state t = current_state s \<Longrightarrow> transactional_id t = transactional_id s \<Longrightarrow>
   evolves s t \<longleftrightarrow> results_grow (tm_results s) (tm_results t)"
  by (simp add: evolves_def)

lemma evolve_transition_to [evolve_rules]: "guarantees evolves (transition_to target e)"
  by (rule guaranteesI) (auto simp: transition_to_def py_defs evolves_def)

lemma evolve_result_done [evolve_rules]: "guarantees evolves (result_done r e)"
  unfolding result_done_def by (intro evolve_rules) simp

lemma evolve_enqueue_request [evolve_rules]: "guarantees evolves (enqueue_request h)"
  unfolding enqueue_request_def by (intro evolve_rules) simp_all

lemma evolve_small [evolve_rules]:
  "guarantees evolves (set_producer_id_and_epoch p)"
  "guarantees evolves complete_transaction"
  "guarantees evolves ensure_transactional" "guarantees evolves maybe_fail_with_error"
  "guarantees evolves (fatal_error h x)" "guarantees evolves (abortable_error h x)"
  "guarantees evolves (reenqueue h)" "guarantees evolves (retry h)"
  unfolding set_producer_id_and_epoch_def complete_transaction_def ensure_transactional_def
    maybe_fail_with_error_def fatal_error_def abortable_error_def reenqueue_def retry_def
  by (intro evolve_rules; simp)+

lemma evolve_new_handler [evolve_rules]: "guarantees evolves (new_handler k req r)"
  unfolding new_handler_def by (cases r; simp only: option.case; intro evolve_rules) simp

lemma evolve_new_handlers [evolve_rules]:
  "guarantees evolves (new_InitProducerIdHandler t)" "guarantees evolves (new_AddPartitionsToTxnHandler tps)"
  "guarantees evolves (new_FindCoordinatorHandler ct ck)" "guarantees evolves (new_EndTxnHandler b)"
  "guarantees evolves (new_AddOffsetsToTxnHandler g os)" "guarantees evolves (new_TxnOffsetCommitHandler g r)"
  unfolding new_handler_defs by (intro evolve_rules)+

lemma evolve_enqueues [evolve_rules]:
  "guarantees evolves mk \<Longrightarrow> guarantees evolves (enqueue_new mk)"
  "guarantees evolves enqueue_new_partitions"
  "guarantees evolves (begin_completing_transaction b)"
  unfolding begin_completing_transaction_def enqueue_new_def enqueue_new_partitions_def
    add_partitions_to_transaction_handler_def
  by (intro evolve_rules; simp)+

lemma evolve_lookup_coordinator [evolve_rules]: "guarantees evolves (lookup_coordinator t k)"
  unfolding lookup_coordinator_def by (cases t; simp only: option.case; intro evolve_rules) simp_all

lemma evolve_lookup_transaction [evolve_rules]: "guarantees evolves lookup_transaction_coordinator"
  unfolding lookup_transaction_coordinator_def by (intro evolve_rules)

lemma evolve_direct [evolve_rules]:
  "guarantees evolves (sequence_number tp)" "guarantees evolves (increment_sequence_number tp inc)"
  "guarantees evolves heappop_request"
  by (rule guaranteesI; auto simp: sequence_number_def increment_sequence_number_def heappop_request_def
      split: option.splits list.splits)+

lemma evolve_dispatch [evolve_rules]: "guarantees evolves (dispatch_request h)"
  unfolding dispatch_request_def maybe_terminate_request_with_error_def by (intro evolve_rules)

lemma evolve_next_request_handler [evolve_rules]: "guarantees evolves (next_request_handler b)"
  unfolding next_request_handler_def
proof (intro evolve.g_then evolve_enqueues guaranteesI)
  fix s
  have "evolves s (snd (dispatch_request h (s\<lparr>pending_requests := rest\<rparr>)))" for h rest
    using evolve.R_trans [of s "s\<lparr>pending_requests := rest\<rparr>"] evolve_dispatch [of h]
    by (simp add: guarantees_def)
  then show "evolves s (snd (case pending_requests s of [] \<Rightarrow> (Inr None, s)
      | (p, i, h) # rest \<Rightarrow> if h_kind h = EndTxnHandler \<and> b then (Inr None, s)
          else dispatch_request h (s\<lparr>pending_requests := rest\<rparr>)))"
    by (auto split: list.splits)
qed

lemma evolve_handle_response [evolve_rules]: "guarantees evolves (handle_response h r)"
  unfolding handle_response_def InitProducerId_handle_response_def AddPartitions_handle_response_def
    FindCoordinator_handle_response_def EndTxn_handle_response_def AddOffsets_handle_response_def
    TxnOffsetCommit_handle_response_def commit_offset_result_def Let_def
  by (cases "h_kind h"; simp only: handler_kind.case;
      (cases "scan_add_partitions (partition_errors (rsp_results r)) [] False";
       simp only: add_partitions_outcome.case)?;
      intro evolve_rules; (rule guaranteesI)?)
    (auto split: prod.splits)

lemma evolve_on_complete [evolve_rules]: "guarantees evolves (on_complete h cid c)"
  unfolding on_complete_def clear_in_flight_transactional_request_correlation_id_def
    lookup_coordinator_for_request_def
  by (cases c; simp only: completion.case; intro evolve_rules) simp_all

lemma evolve_ignore [evolve_rules]: "guarantees evolves m \<Longrightarrow> guarantees evolves (ignore m)"
  unfolding ignore_def by (intro evolve_rules)

lemma evolve_run_call: "guarantees evolves (run_call c)"
  by (cases c; simp only: run_call.simps initialize_transactions_def begin_transaction_def begin_commit_def
      begin_abort_def send_offsets_to_transaction_def maybe_add_partition_to_transaction_def
      fail_if_not_ready_for_send_def transition_to_abortable_error_def transition_to_fatal_error_def
      reset_producer_id_def authentication_failed_def lookup_coordinator_for_request_def
      next_in_flight_request_correlation_id_def clear_in_flight_transactional_request_correlation_id_def
      case_prod_beta; intro evolve_rules) (simp_all add: evolve_small split: prod.split)

lemma txn_steps_evolve: "txn_steps s t \<Longrightarrow> evolves s t"
  by (induction rule: txn_steps.induct)
    (auto intro: evolve.R_refl evolve.R_trans guaranteesD [OF evolve_run_call])

lemma fatal_stays: "is_transition_valid\<^sup>*\<^sup>* a b \<Longrightarrow> a = FATAL_ERROR \<Longrightarrow> b = FATAL_ERROR"
proof (induction rule: rtranclp_induct)
  case (step b c)
  then show ?case by (cases c) auto
qed simp

section \<open>Properties of the state machine\<close>

text \<open>C12. In every state reachable by calls of the producer, the sender and the request handlers, an
  error is recorded exactly in the two error states, the pending requests are in priority order with
  distinct sort ids below the counter, and every sequence number is a non-negative int32.\<close>

theorem txn_invariant:
  assumes "txn_steps (TransactionManager tid timeout backoff v c) s"
  shows "(last_error s \<noteq> None \<longleftrightarrow> current_state s \<in> {ABORTABLE_ERROR, FATAL_ERROR}) \<and>
    heap_sorted (pending_requests s) \<and> distinct (map (\<lambda>e. fst (snd e)) (pending_requests s)) \<and>
    (\<forall>tp n. map_of (sequence_numbers s) tp = Some n \<longrightarrow> 0 \<le> n \<and> n < 2 ^ 31)"
  using txn_steps_inv [OF assms tm_inv_init]
  by (simp add: tm_inv_def error_recorded_def has_error_def queue_ok_def sequences_ok_def)

lemma run_call_step: "valid_call c \<Longrightarrow> txn_steps s (snd (run_call c s))"
  by (cases "run_call c s") (auto intro: txn_step [OF txn_refl])

definition example_manager :: txn_manager where
  "example_manager = TransactionManager (Some [116]) 60000 100 [2, 5] (ClusterMetadata 100 300000 [])"

theorem txn_invariant_witness:
  "last_error (snd (run_call (TransitionToFatalError KafkaError) example_manager)) \<noteq> None \<longleftrightarrow>
   current_state (snd (run_call (TransitionToFatalError KafkaError) example_manager)) \<in> {ABORTABLE_ERROR, FATAL_ERROR}"
proof -
  have "txn_steps example_manager (snd (run_call (TransitionToFatalError KafkaError) example_manager))"
    by (rule run_call_step) simp
  then show ?thesis unfolding example_manager_def by (rule txn_invariant [THEN conjunct1])
qed



section \<open>Order of requests\<close>

lemma enqueue_new_partitions_inv: "enqueue_new_partitions s = (r, u) \<Longrightarrow> tm_inv s \<Longrightarrow> tm_inv u"
  by (rule keepsD [OF keeps_enqueue_new_partitions])

lemma sorted_entry_priority:
  assumes "tm_inv s" "pending_requests s = (p, i, h) # rest" "(p', i', h') \<in> set rest"
  shows "h_priority (h_kind h) \<le> h_priority (h_kind h')"
proof -
  have "heap_sorted (pending_requests s)"
    "p = h_priority (h_kind h)" "p' = h_priority (h_kind h')"
    using assms by (auto simp: tm_inv_def queue_ok_def list_all_iff)
  then show ?thesis using assms(2,3) by (auto simp: heap_sorted_def entry_less_def)
qed

lemma priority_EndTxn: "h_priority EndTxnHandler \<le> h_priority k \<longleftrightarrow> k = EndTxnHandler"
  by (cases k) simp_all

lemma heappop_Some:
  "heappop_request s = (Inr (Some h), t) \<longleftrightarrow>
     (\<exists>p i rest. pending_requests s = (p, i, h) # rest \<and> t = s\<lparr>pending_requests := rest\<rparr>)"
  by (cases "pending_requests s") (auto simp: heappop_request_def)

lemma terminate_False: "maybe_terminate_request_with_error h s = (Inr False, t) \<Longrightarrow> t = s"
  by (auto simp: maybe_terminate_request_with_error_def py_Inr split: if_splits)

lemma complete_transaction_pending:
  "complete_transaction s = (Inr (), t) \<Longrightarrow> pending_requests t = pending_requests s"
  by (auto simp: complete_transaction_def transition_to_def py_Inr split: if_splits)

lemma dispatch_request_cases:
  assumes "dispatch_request h s = (Inr (Some h'), t)"
  shows "(h' = h \<and> pending_requests t = pending_requests s) \<or>
    (h_kind h = EndTxnHandler \<and> \<not> transaction_started s \<and>
     (\<exists>p i rest. pending_requests s = (p, i, h') # rest \<and> pending_requests t = rest))"
proof -
  have "maybe_terminate_request_with_error h s = (Inr False, s)"
    using assms by (auto simp: dispatch_request_def py_Inr dest: terminate_False split: if_splits)
  with assms have rest: "py_if (\<lambda>s. h_kind h = EndTxnHandler \<and> \<not> transaction_started s)
      (py_then (result_done (h_result h) None)
      (py_then (py_when (\<lambda>s. current_state s \<noteq> FATAL_ERROR) complete_transaction)
         heappop_request))
      (py_return (Some h)) s = (Inr (Some h'), t)"
    by (simp add: dispatch_request_def py_bind_def)
  show ?thesis
  proof (cases "h_kind h = EndTxnHandler \<and> \<not> transaction_started s")
    case True
    with rest obtain u v where "result_done (h_result h) None s = (Inr (), u)"
        "py_when (\<lambda>s. current_state s \<noteq> FATAL_ERROR) complete_transaction u = (Inr (), v)"
        "heappop_request v = (Inr (Some h'), t)"
      by (auto simp: py_if_Inr py_then_Inr)
    moreover from this have "pending_requests v = pending_requests s"
      by (auto simp: result_done_def py_Inr dest: complete_transaction_pending split: if_splits)
    ultimately show ?thesis using True by (auto simp: heappop_Some)
  next
    case False
    then show ?thesis using rest by (auto simp: py_if_Inr py_return_Inr)
  qed
qed

text \<open>Requests leave in priority order: nothing left pending has a higher priority than the
  request \<open>next_request_handler\<close> hands to the sender, so a coordinator lookup goes before everything
  and the end of the transaction after everything; an EndTxn is only handed out when no batch is
  incomplete and only other EndTxn requests are left behind it.\<close>

theorem next_request_order:
  assumes "tm_inv s" "next_request_handler has_incomplete s = (Inr (Some h), t)"
  shows "(\<forall>(p, i, h') \<in> set (pending_requests t). h_priority (h_kind h) \<le> h_priority (h_kind h')) \<and>
    (h_kind h = EndTxnHandler \<longrightarrow> \<not> has_incomplete \<and>
      (\<forall>(p, i, h') \<in> set (pending_requests t). h_kind h' = EndTxnHandler))"
proof -
  obtain u p0 i0 h0 rest where u: "enqueue_new_partitions s = (Inr (), u)" "pending_requests u = (p0, i0, h0) # rest"
      "\<not> (h_kind h0 = EndTxnHandler \<and> has_incomplete)"
      "dispatch_request h0 (u\<lparr>pending_requests := rest\<rparr>) = (Inr (Some h), t)"
  proof -
    obtain u where u: "enqueue_new_partitions s = (Inr (), u)"
        "(case pending_requests u of [] \<Rightarrow> (Inr None, u)
          | (p, i, h) # rest \<Rightarrow> if h_kind h = EndTxnHandler \<and> has_incomplete then (Inr None, u)
              else dispatch_request h (u\<lparr>pending_requests := rest\<rparr>)) = (Inr (Some h), t)"
      using assms(2) by (auto simp: next_request_handler_def py_Inr)
    then show thesis by (cases "pending_requests u") (auto intro: that split: if_splits)
  qed
  have inv: "tm_inv u" using enqueue_new_partitions_inv [OF u(1) assms(1)] .
  note first = sorted_entry_priority [OF inv u(2)]
  consider "h = h0" "pending_requests t = rest"
    | p i r where "h_kind h0 = EndTxnHandler" "rest = (p, i, h) # r" "pending_requests t = r"
    using dispatch_request_cases [OF u(4)] by auto
  then have all: "(\<forall>(p, i, h') \<in> set (pending_requests t). h_priority (h_kind h) \<le> h_priority (h_kind h')) \<and>
      (h_kind h = EndTxnHandler \<longrightarrow> \<not> has_incomplete)"
  proof cases
    case 1
    with first u(3) show ?thesis by auto
  next
    case 2
    have "tm_inv (u\<lparr>pending_requests := rest\<rparr>)" by (rule queue_ok_pop [OF u(2) inv])
    from sorted_entry_priority [OF this, of p i h r] 2 u(3) show ?thesis by auto
  qed
  then have "h_kind h' = EndTxnHandler" if "h_kind h = EndTxnHandler" "(p, i, h') \<in> set (pending_requests t)" for p i h'
    using that priority_EndTxn [of "h_kind h'"] by auto
  with all show ?thesis by auto
qed

section \<open>Requests can always be built\<close>

text \<open>The keyword arguments of every handler name the fields of the request class of every version
  the manager picks, so constructing a request never raises.\<close>

abbreviation open_result :: txn_result where
  "open_result \<equiv> \<lparr>tr_done = False, tr_error = None\<rparr>"

lemma new_handler_ok:
  "req (s\<lparr>tm_results := tm_results s @ [open_result]\<rparr>) = Inr q \<Longrightarrow>
   new_handler k req None s =
     (Inr \<lparr>h_kind = k, h_retry_backoff_ms = tm_retry_backoff_ms s, h_request = q, h_result = length (tm_results s),
           h_is_retry = False\<rparr>, s\<lparr>tm_results := tm_results s @ [open_result]\<rparr>)"
  by (simp add: new_handler_def py_defs)

lemma build_request_ok:
  "is_schema (SCHEMA cls) \<Longrightarrow> length (schema_fields (SCHEMA cls)) \<noteq> 0 \<Longrightarrow>
   snd (pop_names (schema_names (SCHEMA cls)) [] kwargs) = [] \<Longrightarrow> \<exists>q. build_request cls kwargs = Inr q"
  by (auto simp: build_request_def Struct_init_def split: prod.splits)

lemma request_built:
  "\<exists>q. build_request (InitProducerIdRequest ! (if b then 1 else 0))
     [(''transactional_id'', a), (''transaction_timeout_ms'', t)] = Inr q"
  "\<exists>q. build_request (AddPartitionsToTxnRequest ! (if b then 2 else if c then 1 else 0))
     [(''transactional_id'', a), (''producer_id'', p), (''producer_epoch'', e), (''topics'', t)] = Inr q"
  "\<exists>q. build_request (FindCoordinatorRequest ! (if b then 2 else 1))
     [(''coordinator_key'', a), (''coordinator_type'', t)] = Inr q"
  "\<exists>q. build_request (EndTxnRequest ! (if b then 2 else if c then 1 else 0))
     [(''transactional_id'', a), (''producer_id'', p), (''producer_epoch'', e), (''committed'', t)] = Inr q"
  "\<exists>q. build_request (AddOffsetsToTxnRequest ! (if b then 2 else if c then 1 else 0))
     [(''transactional_id'', a), (''producer_id'', p), (''producer_epoch'', e), (''group_id'', t)] = Inr q"
  "\<exists>q. build_request (TxnOffsetCommitRequest ! (if b then 2 else if c then 1 else 0))
     [(''transactional_id'', a), (''group_id'', g), (''producer_id'', p), (''producer_epoch'', e), (''topics'', t)] = Inr q"
  by (rule build_request_ok;
      simp add: core_api_defs Schema_of_def is_schema_def del: pop_names.simps(2);
      simp add: core_api_defs Schema_of_def)+

lemma new_handler_built:
  "\<exists>q. req (s\<lparr>tm_results := tm_results s @ [open_result]\<rparr>) = Inr q \<Longrightarrow>
   \<exists>q. new_handler k req None s =
     (Inr \<lparr>h_kind = k, h_retry_backoff_ms = tm_retry_backoff_ms s, h_request = q, h_result = length (tm_results s),
           h_is_retry = False\<rparr>, s\<lparr>tm_results := tm_results s @ [open_result]\<rparr>)"
  using new_handler_ok by blast

lemma handlers_built:
  "\<exists>q. new_InitProducerIdHandler t s =
     (Inr \<lparr>h_kind = InitProducerIdHandler, h_retry_backoff_ms = tm_retry_backoff_ms s, h_request = q,
           h_result = length (tm_results s), h_is_retry = False\<rparr>, s\<lparr>tm_results := tm_results s @ [open_result]\<rparr>)"
  "\<exists>q. new_AddPartitionsToTxnHandler tps s =
     (Inr \<lparr>h_kind = AddPartitionsToTxnHandler, h_retry_backoff_ms = tm_retry_backoff_ms s, h_request = q,
           h_result = length (tm_results s), h_is_retry = False\<rparr>, s\<lparr>tm_results := tm_results s @ [open_result]\<rparr>)"
  "\<exists>q. new_EndTxnHandler b s =
     (Inr \<lparr>h_kind = EndTxnHandler, h_retry_backoff_ms = tm_retry_backoff_ms s, h_request = q,
           h_result = length (tm_results s), h_is_retry = False\<rparr>, s\<lparr>tm_results := tm_results s @ [open_result]\<rparr>)"
  unfolding new_handler_defs by (rule new_handler_built, rule request_built)+

theorem next_request_order_witness:
  "\<exists>u h t. next_request_handler False u = (Inr (Some h), t) \<and> h_kind h = InitProducerIdHandler \<and>
    (\<forall>(p, i, h') \<in> set (pending_requests t). h_priority (h_kind h) \<le> h_priority (h_kind h'))"
proof -
  let ?s = "example_manager\<lparr>current_state := INITIALIZING\<rparr>"
  obtain q where q: "new_InitProducerIdHandler 60000 ?s =
     (Inr \<lparr>h_kind = InitProducerIdHandler, h_retry_backoff_ms = tm_retry_backoff_ms ?s, h_request = q,
           h_result = length (tm_results ?s), h_is_retry = False\<rparr>, ?s\<lparr>tm_results := tm_results ?s @ [open_result]\<rparr>)"
    using handlers_built(1) by blast
  let ?h = "\<lparr>h_kind = InitProducerIdHandler, h_retry_backoff_ms = tm_retry_backoff_ms ?s, h_request = q,
           h_result = length (tm_results ?s), h_is_retry = False\<rparr>"
  let ?u = "?s\<lparr>pending_requests := [(1, 1, ?h)], pending_requests_sort_id := 1\<rparr>"
  have inv: "tm_inv ?u"
    by (simp add: tm_inv_def example_manager_def TransactionManager_def error_recorded_def has_error_def
        queue_ok_def heap_sorted_def sequences_ok_def)
  have "\<exists>t. next_request_handler False ?u = (Inr (Some ?h), t)"
    by (simp add: next_request_handler_def py_defs enqueue_new_partitions_def example_manager_def
        TransactionManager_def dispatch_request_def maybe_terminate_request_with_error_def has_error_def)
  then obtain t where t: "next_request_handler False ?u = (Inr (Some ?h), t)" by blast
  from next_request_order [OF inv t] t show ?thesis by fastforce
qed

section \<open>Sequence numbers\<close>

text \<open>C38. Sequence numbers wrap at the Java int range: after reading the number of a partition in a
  reachable state and adding a batch of \<open>n\<close> records, the next number is the sum modulo \<open>2 ^ 31\<close>,
  and no other partition's number changes.\<close>

theorem sequence_number_wrap:
  assumes "tm_inv s" "0 \<le> n" "n < 2 ^ 31" "sequence_number tp s = (Inr base, t)"
  shows "\<exists>u. increment_sequence_number tp n t = (Inr (), u) \<and>
    map_of (sequence_numbers u) tp = Some ((base + n) mod 2 ^ 31) \<and>
    (\<forall>tp'. tp' \<noteq> tp \<longrightarrow> map_of (sequence_numbers u) tp' = map_of (sequence_numbers s) tp')"
proof -
  have t: "map_of (sequence_numbers t) = (map_of (sequence_numbers s))(tp \<mapsto> base)"
    using assms(4) by (auto simp: sequence_number_def update_conv split: option.splits)
  have "tm_inv t" using keepsD [OF keeps_sequence_number assms(1,4)] .
  moreover have "map_of (sequence_numbers t) tp = Some base" by (simp add: t)
  ultimately have "0 \<le> base" "base < 2 ^ 31" unfolding tm_inv_def sequences_ok_def by blast+
  from wrapped_sequence [OF this assms(2,3)] show ?thesis
    using t by (auto simp: increment_sequence_number_def update_conv)
qed

theorem sequence_number_wrap_witness:
  "\<exists>u. increment_sequence_number ([116], 0) 5 (example_manager\<lparr>sequence_numbers := [(([116], 0), 2147483645)]\<rparr>) = (Inr (), u) \<and>
    map_of (sequence_numbers u) ([116], 0) = Some 2"
proof -
  let ?s = "example_manager\<lparr>sequence_numbers := [(([116], 0), 2147483645)]\<rparr>"
  have "tm_inv ?s"
    by (simp add: tm_inv_def example_manager_def TransactionManager_def error_recorded_def has_error_def
        queue_ok_def heap_sorted_def sequences_ok_def)
  moreover have "sequence_number ([116], 0) ?s = (Inr 2147483645, ?s)" by (simp add: sequence_number_def)
  ultimately show ?thesis using sequence_number_wrap [of ?s 5 "([116], 0)" 2147483645 ?s] by auto
qed

section \<open>A committed transaction\<close>

text \<open>A completed response whose partition results carry no error.\<close>

definition ok_response :: "topic_partition \<Rightarrow> txn_response" where
  "ok_response tp = \<lparr>rsp_error_code = 0, rsp_producer_id = 0, rsp_producer_epoch = 0,
     rsp_results = [(fst tp, [(snd tp, 0)])], rsp_topics = [], rsp_coordinator_id = 0, rsp_host = [], rsp_port = 0\<rparr>"

lemma ok_partition_errors: "partition_errors (rsp_results (ok_response tp)) = [(tp, NoError)]"
  by (simp add: partition_errors_def ok_response_def)

definition ready_manager :: "txn_manager \<Rightarrow> bool" where
  "ready_manager s \<longleftrightarrow> current_state s = READY \<and> is_transactional s \<and> has_producer_id None s \<and>
     pending_requests s = [] \<and> new_partitions_in_transaction s = [] \<and> pending_partitions_in_transaction s = [] \<and>
     partitions_in_transaction s = []"

lemmas op_defs = begin_transaction_def ensure_transactional_def maybe_fail_with_error_def transition_to_def
  has_error_def maybe_add_partition_to_transaction_def fail_if_not_ready_for_send_def is_partition_added_def
  is_partition_pending_add_def is_transactional_def has_producer_id_def py_defs

lemma begin_and_add:
  assumes "ready_manager s"
  shows "py_then begin_transaction (maybe_add_partition_to_transaction tp) s =
    (Inr (), s\<lparr>last_error := None, current_state := IN_TRANSACTION, new_partitions_in_transaction := [tp]\<rparr>)"
  using assms by (simp add: op_defs ready_manager_def)

text \<open>A partition waiting to be added is registered by the next request, and by the coordinator's
  answer to it.\<close>

lemma register_partition:
  assumes "current_state s = IN_TRANSACTION" "new_partitions_in_transaction s = [tp]" "pending_requests s = []"
    and "pending_partitions_in_transaction s = []" "partitions_in_transaction s = []"
  shows "\<exists>h t. next_request_handler b s = (Inr (Some h), t) \<and> h_kind h = AddPartitionsToTxnHandler \<and>
    \<not> is_partition_added tp t \<and>
    (\<exists>u. on_complete h (in_flight_request_correlation_id t) (Response (ok_response tp)) t = (Inr (), u) \<and>
       current_state u = IN_TRANSACTION \<and> transactional_id u = transactional_id s \<and>
       partitions_in_transaction u = [tp] \<and> transaction_started u \<and>
       new_partitions_in_transaction u = [] \<and> pending_partitions_in_transaction u = [] \<and> pending_requests u = [])"
proof -
  let ?s = "s\<lparr>pending_partitions_in_transaction := [tp], new_partitions_in_transaction := []\<rparr>"
  obtain q where q: "new_AddPartitionsToTxnHandler [tp] ?s =
     (Inr \<lparr>h_kind = AddPartitionsToTxnHandler, h_retry_backoff_ms = tm_retry_backoff_ms ?s, h_request = q,
           h_result = length (tm_results ?s), h_is_retry = False\<rparr>, ?s\<lparr>tm_results := tm_results ?s @ [open_result]\<rparr>)"
    using handlers_built(2) by blast
  show ?thesis
    using assms
    by (simp add: next_request_handler_def enqueue_new_partitions_def add_partitions_to_transaction_handler_def
        py_defs q enqueue_request_def dispatch_request_def maybe_terminate_request_with_error_def has_error_def
        on_complete_def clear_in_flight_transactional_request_correlation_id_def handle_response_def
        AddPartitions_handle_response_def Let_def ok_partition_errors result_done_def is_partition_added_def)
qed

lemma commit_registered:
  assumes "current_state s = IN_TRANSACTION" "transaction_started s" "new_partitions_in_transaction s = []"
    and "pending_requests s = []" "is_transactional s"
  shows "\<exists>r t. begin_commit s = (Inr r, t) \<and>
    next_request_handler True t = (Inr None, t) \<and>
    (\<exists>h u. next_request_handler False t = (Inr (Some h), u) \<and> h_kind h = EndTxnHandler \<and>
      (\<exists>v. on_complete h (in_flight_request_correlation_id u) (Response (ok_response tp)) u = (Inr (), v) \<and>
        current_state v = READY \<and> \<not> transaction_started v \<and> partitions_in_transaction v = [] \<and>
        r < length (tm_results v) \<and> result_succeeded (tm_results v ! r)))"
proof -
  let ?s = "s\<lparr>last_error := None, current_state := COMMITTING_TRANSACTION\<rparr>"
  obtain q where q: "new_EndTxnHandler True ?s =
     (Inr \<lparr>h_kind = EndTxnHandler, h_retry_backoff_ms = tm_retry_backoff_ms ?s, h_request = q,
           h_result = length (tm_results ?s), h_is_retry = False\<rparr>, ?s\<lparr>tm_results := tm_results ?s @ [open_result]\<rparr>)"
    using handlers_built(3) by blast
  show ?thesis
    using assms
    by (simp add: begin_commit_def begin_completing_transaction_def enqueue_new_partitions_def
        op_defs q enqueue_new_def enqueue_request_def next_request_handler_def dispatch_request_def
        maybe_terminate_request_with_error_def on_complete_def
        clear_in_flight_transactional_request_correlation_id_def handle_response_def EndTxn_handle_response_def
        Let_def ok_response_def complete_transaction_def result_done_def result_succeeded_def)
qed



section \<open>Errors\<close>

text \<open>In the fatal error state nothing more is sent: every transactional operation raises, every
  partition is refused, and \<open>next_request_handler\<close> hands out no request but completes the one at the
  head with the recorded error.\<close>

theorem fatal_state_rejects:
  assumes "tm_inv s" "current_state s = FATAL_ERROR" "is_transactional s" "new_partitions_in_transaction s = []"
  shows "begin_transaction s = (Inl KafkaError, s) \<and> begin_commit s = (Inl KafkaError, s) \<and>
    begin_abort s = (Inl KafkaError, s) \<and> send_offsets_to_transaction offs g s = (Inl KafkaError, s) \<and>
    maybe_add_partition_to_transaction tp s = (Inl KafkaError, s) \<and> \<not> is_send_to_partition_allowed tp s \<and>
    (\<forall>p i h rest. pending_requests s = (p, i, h) # rest \<longrightarrow> \<not> (h_kind h = EndTxnHandler \<and> b) \<longrightarrow>
      (\<exists>e. last_error s = Some e \<and>
        next_request_handler b s =
          (Inr None, s\<lparr>pending_requests := rest,
             tm_results := (tm_results s)[h_result h := \<lparr>tr_done = True, tr_error = Some e\<rparr>]\<rparr>)))"
proof -
  obtain e where "last_error s = Some e"
    using assms(1,2) by (auto simp: tm_inv_def error_recorded_def has_error_def)
  then show ?thesis
    using assms(2-4)
    by (auto simp: op_defs begin_commit_def begin_abort_def send_offsets_to_transaction_def
        is_send_to_partition_allowed_def has_fatal_error_def next_request_handler_def enqueue_new_partitions_def
        dispatch_request_def maybe_terminate_request_with_error_def has_abortable_error_def result_done_def)
qed

theorem fatal_state_rejects_witness:
  "begin_transaction (example_manager\<lparr>current_state := FATAL_ERROR, last_error := Some KafkaError\<rparr>) =
     (Inl KafkaError, example_manager\<lparr>current_state := FATAL_ERROR, last_error := Some KafkaError\<rparr>)"
proof -
  let ?s = "example_manager\<lparr>current_state := FATAL_ERROR, last_error := Some KafkaError\<rparr>"
  have "tm_inv ?s" "current_state ?s = FATAL_ERROR" "is_transactional ?s" "new_partitions_in_transaction ?s = []"
    by (simp_all add: tm_inv_def example_manager_def TransactionManager_def error_recorded_def has_error_def
        queue_ok_def heap_sorted_def sequences_ok_def is_transactional_def)
  from fatal_state_rejects [OF this] show ?thesis by blast
qed

text \<open>A fatal error reported by the broker never reaches the state machine: when the coordinator
  answers EndTxn with a fenced producer epoch, the handler raises AttributeError, the manager stays in
  the state it was in instead of FATAL_ERROR, and the result the caller waits on is never completed.\<close>

theorem fatal_response_lost:
  assumes "h_kind h = EndTxnHandler" "for_code (rsp_error_code r) = InvalidProducerEpochError"
    and "cid = in_flight_request_correlation_id s"
  shows "on_complete h cid (Response r) s =
    (Inl AttributeError, s\<lparr>in_flight_request_correlation_id := NO_INFLIGHT_REQUEST_CORRELATION_ID\<rparr>)"
proof -
  have "InvalidProducerEpochError \<noteq> NoError" "InvalidProducerEpochError \<noteq> CoordinatorNotAvailableError"
    "InvalidProducerEpochError \<noteq> NotCoordinatorError" "InvalidProducerEpochError \<noteq> CoordinatorLoadInProgressError"
    "InvalidProducerEpochError \<noteq> ConcurrentTransactionsError"
    by (auto dest!: arg_cong [of _ _ cls_name] simp: cls_name_simps)
  then show ?thesis
    using assms
    by (simp add: on_complete_def clear_in_flight_transactional_request_correlation_id_def handle_response_def
        EndTxn_handle_response_def Let_def py_defs fatal_error_def)
qed

theorem fatal_response_lost_witness:
  "fst (on_complete \<lparr>h_kind = EndTxnHandler, h_retry_backoff_ms = 100, h_request = example_request, h_result = 0,
      h_is_retry = False\<rparr> (- 1) (Response (ok_response ([], 0)\<lparr>rsp_error_code := 47\<rparr>)) example_manager) = Inl AttributeError"
proof -
  have "for_code 47 = InvalidProducerEpochError"
    by (rule for_code_broker_error) (simp_all add: iter_broker_errors_def errno_simps)
  then show ?thesis
    by (subst fatal_response_lost)
      (simp_all add: example_manager_def TransactionManager_def NO_INFLIGHT_REQUEST_CORRELATION_ID_def)
qed

end
