(* ===== verification/Subscription.thy ===== *)
theory Subscription
  imports Cluster
begin

text \<open>
  \<^verbatim>\<open>kafka/consumer/subscription_state.py\<close>: what a consumer is subscribed to, the partitions assigned to
  it and the fetch state of each.  The state is the record \<open>subscription_state\<close>; the ordered dictionary
  of assignments is an association list whose order is the fetch order.  Sets are distinct lists,
  compared as sets.  Shuffling, the regular-expression compiler and the clock are arguments.
\<close>

section \<open>Topic names\<close>

definition TOPIC_MAX_LENGTH :: nat where "TOPIC_MAX_LENGTH = 249"

definition legal_char :: "int \<Rightarrow> bool" where
  "legal_char c \<longleftrightarrow> (97 \<le> c \<and> c \<le> 122) \<or> (65 \<le> c \<and> c \<le> 90) \<or> (48 \<le> c \<and> c \<le> 57) \<or> c = 46 \<or> c = 95 \<or> c = 45"

text \<open>\<open>re.match\<close> of \<open>^[a-zA-Z0-9._-]+$\<close>: a dollar matches at the end and before a final newline.\<close>

definition TOPIC_LEGAL_CHARS_match :: "pystr \<Rightarrow> bool" where
  "TOPIC_LEGAL_CHARS_match t \<longleftrightarrow>
     (t \<noteq> [] \<and> list_all legal_char t) \<or>
     (t \<noteq> [] \<and> last t = 10 \<and> butlast t \<noteq> [] \<and> list_all legal_char (butlast t))"

definition ensure_valid_topic_name :: "pyval \<Rightarrow> unit res" where
  "ensure_valid_topic_name topic =
     (case topic of
        VStr t \<Rightarrow>
          if length t = 0 then Inl ValueError
          else if t = [46] \<or> t = [46, 46] then Inl ValueError
          else if length t > TOPIC_MAX_LENGTH then Inl ValueError
          else if \<not> TOPIC_LEGAL_CHARS_match t then Inl ValueError
          else Inr ()
      | _ \<Rightarrow> Inl TypeError)"

section \<open>The state of one partition\<close>

definition STRATEGY_LATEST :: int where "STRATEGY_LATEST = - 1"
definition STRATEGY_EARLIEST :: int where "STRATEGY_EARLIEST = - 2"
definition STRATEGY_NONE :: int where "STRATEGY_NONE = 0"

record tp_state =
  paused :: bool
  reset_strategy :: "int option"
  tp_position :: "offset_and_metadata option"
  highwater :: "int option"
  drop_pending_record_batch :: bool
  next_allowed_retry_time :: "int option"

definition TopicPartitionState :: tp_state where
  "TopicPartitionState = \<lparr>paused = False, reset_strategy = None, tp_position = None, highwater = None,
     drop_pending_record_batch = False, next_allowed_retry_time = None\<rparr>"

definition tp_has_valid_position :: "tp_state \<Rightarrow> bool" where
  "tp_has_valid_position s \<longleftrightarrow> tp_position s \<noteq> None"

definition awaiting_reset :: "tp_state \<Rightarrow> bool" where
  "awaiting_reset s \<longleftrightarrow> reset_strategy s \<noteq> None"

definition tp_set_position :: "offset_and_metadata \<Rightarrow> tp_state \<Rightarrow> tp_state res" where
  "tp_set_position om s = (if tp_has_valid_position s then Inr (s\<lparr>tp_position := Some om\<rparr>) else Inl AssertionError)"

definition tp_reset :: "int option \<Rightarrow> tp_state \<Rightarrow> tp_state res" where
  "tp_reset strategy s =
     (case strategy of None \<Rightarrow> Inl AssertionError
      | Some st \<Rightarrow> Inr (s\<lparr>reset_strategy := Some st, tp_position := None, next_allowed_retry_time := None\<rparr>))"

definition is_reset_allowed :: "int \<Rightarrow> tp_state \<Rightarrow> bool" where
  "is_reset_allowed now s = (case next_allowed_retry_time s of None \<Rightarrow> True | Some t \<Rightarrow> t < now)"

definition tp_set_reset_pending :: "int \<Rightarrow> tp_state \<Rightarrow> tp_state" where
  "tp_set_reset_pending t s = s\<lparr>next_allowed_retry_time := Some t\<rparr>"

definition tp_reset_failed :: "int \<Rightarrow> tp_state \<Rightarrow> tp_state" where
  "tp_reset_failed t s = s\<lparr>next_allowed_retry_time := Some t\<rparr>"

definition is_missing_position :: "tp_state \<Rightarrow> bool" where
  "is_missing_position s \<longleftrightarrow> \<not> tp_has_valid_position s \<and> \<not> awaiting_reset s"

text \<open>An offset to seek to is a number or an OffsetAndMetadata.\<close>

datatype seek_offset = OffsetInt int | OffsetMeta offset_and_metadata | OffsetOther

definition tp_seek :: "offset_and_metadata \<Rightarrow> tp_state \<Rightarrow> tp_state" where
  "tp_seek om s = s\<lparr>tp_position := Some om, reset_strategy := None, drop_pending_record_batch := True,
     next_allowed_retry_time := None\<rparr>"

definition tp_is_fetchable :: "tp_state \<Rightarrow> bool" where
  "tp_is_fetchable s \<longleftrightarrow> \<not> paused s \<and> tp_has_valid_position s"

section \<open>The subscription\<close>

datatype subscription_type = SUB_NONE | AUTO_TOPICS | AUTO_PATTERN | USER_ASSIGNED

record subscription_state =
  default_offset_reset_strategy :: int
  subscription :: "pystr list option"
  sub_type :: subscription_type
  subscribed_pattern :: "pystr option"
  group_subscription :: "pystr list"
  user_assignment :: "topic_partition list"
  assignment :: "(topic_partition \<times> tp_state) list"
  rebalance_listener :: "nat option"

text \<open>\<open>getattr(OffsetResetStrategy, offset_reset_strategy.upper())\<close>, given the upper-cased name.\<close>

definition reset_strategy_of :: "string \<Rightarrow> int" where
  "reset_strategy_of name =
     (if name = ''LATEST'' then STRATEGY_LATEST else if name = ''EARLIEST'' then STRATEGY_EARLIEST
      else STRATEGY_NONE)"

definition SubscriptionState :: "string \<Rightarrow> subscription_state" where
  "SubscriptionState strategy =
     \<lparr>default_offset_reset_strategy = reset_strategy_of strategy, subscription = None, sub_type = SUB_NONE,
      subscribed_pattern = None, group_subscription = [], user_assignment = [], assignment = [],
      rebalance_listener = None\<rparr>"

definition set_subscription_type :: "subscription_type \<Rightarrow> (subscription_state, unit) py" where
  "set_subscription_type t =
     py_if (\<lambda>s. sub_type s = SUB_NONE) (py_set (\<lambda>s. s\<lparr>sub_type := t\<rparr>))
       (py_when (\<lambda>s. sub_type s \<noteq> t) (py_raise IllegalStateError))"

definition partitions_auto_assigned :: "subscription_state \<Rightarrow> bool" where
  "partitions_auto_assigned s \<longleftrightarrow> sub_type s \<in> {AUTO_TOPICS, AUTO_PATTERN}"

definition ensure_auto_assigned :: "(subscription_state, unit) py" where
  "ensure_auto_assigned = py_when (\<lambda>s. \<not> partitions_auto_assigned s) (py_raise IllegalStateError)"

text \<open>The topics of a call: a string, a list or tuple, or some other iterable.\<close>

datatype topics_arg = TopicsStr pystr | TopicsSeq "pyval list" | TopicsOther "pyval list"

primrec topic_items :: "topics_arg \<Rightarrow> pyval list" where
  "topic_items (TopicsStr t) = [VStr t]"
| "topic_items (TopicsSeq ts) = ts"
| "topic_items (TopicsOther ts) = ts"

definition topics_given :: "topics_arg \<Rightarrow> bool" where
  "topics_given a \<longleftrightarrow> (case a of TopicsStr t \<Rightarrow> t \<noteq> [] | TopicsSeq ts \<Rightarrow> ts \<noteq> [] | TopicsOther ts \<Rightarrow> ts \<noteq> [])"

definition str_of :: "pyval \<Rightarrow> pystr" where
  "str_of v = (case v of VStr s \<Rightarrow> s | _ \<Rightarrow> [])"

definition change_subscription :: "topics_arg \<Rightarrow> (subscription_state, unit) py" where
  "change_subscription arg =
     py_then ensure_auto_assigned
       (let items = topic_items arg in
        py_if (\<lambda>s. map_option (\<lambda>ts. VStr ` set ts) (subscription s) = Some (set items)) (py_return ())
          (py_then (py_for (\<lambda>t. py_lift (ensure_valid_topic_name t)) items)
            (py_set (\<lambda>s. s\<lparr>subscription := Some (remdups (map str_of items)),
               group_subscription := fold List.insert (map str_of items) (group_subscription s)\<rparr>))))"

text \<open>A listener argument: its identity and whether it is a ConsumerRebalanceListener.\<close>

definition subscribe ::
  "(pystr \<Rightarrow> unit res) \<Rightarrow> topics_arg \<Rightarrow> pystr option \<Rightarrow> (nat \<times> bool) option \<Rightarrow> (subscription_state, unit) py" where
  "subscribe re_compile arg pattern listener =
     (let has_pattern = (case pattern of None \<Rightarrow> False | Some p \<Rightarrow> p \<noteq> []) in
      py_then (py_assert (\<lambda>_. topics_given arg \<or> has_pattern))
     (py_then
       (if topics_given arg \<and> has_pattern then py_raise IllegalStateError
        else if has_pattern then
          py_then (set_subscription_type AUTO_PATTERN)
         (py_then (py_set (\<lambda>s. s\<lparr>subscription := Some []\<rparr>))
         (py_then (py_lift (re_compile (the pattern)))
            (py_set (\<lambda>s. s\<lparr>subscribed_pattern := pattern\<rparr>))))
        else
          py_then (case arg of TopicsSeq ts \<Rightarrow> py_return () | _ \<Rightarrow> py_raise TypeError)
         (py_then (set_subscription_type AUTO_TOPICS) (change_subscription arg)))
       (case listener of
          None \<Rightarrow> py_set (\<lambda>s. s\<lparr>rebalance_listener := None\<rparr>)
        | Some (l, is_listener) \<Rightarrow>
            if is_listener then py_set (\<lambda>s. s\<lparr>rebalance_listener := Some l\<rparr>) else py_raise TypeError)))"

definition group_subscribe :: "pystr list \<Rightarrow> (subscription_state, unit) py" where
  "group_subscribe ts =
     py_then ensure_auto_assigned
       (py_set (\<lambda>s. s\<lparr>group_subscription := fold List.insert ts (group_subscription s)\<rparr>))"

definition reset_group_subscription :: "(subscription_state, unit) py" where
  "reset_group_subscription =
     py_then ensure_auto_assigned
    (py_then (py_assert (\<lambda>s. subscription s \<noteq> None))
       (py_set (\<lambda>s. s\<lparr>group_subscription := filter (\<lambda>t. t \<in> set (the (subscription s))) (group_subscription s)\<rparr>)))"

text \<open>\<open>_set_assignment\<close>: partitions are batched by topic, in the order of \<open>topic_order\<close>, which is the
  topics of the given partitions, shuffled when asked for.\<close>

definition group_by_topic :: "pystr list \<Rightarrow> topic_partition list \<Rightarrow> topic_partition list" where
  "group_by_topic topic_order tps = concat (map (\<lambda>t. filter (\<lambda>tp. fst tp = t) tps) topic_order)"

fun first_occurrences :: "'a list \<Rightarrow> 'a list" where
  "first_occurrences [] = []"
| "first_occurrences (x # xs) = x # filter (\<lambda>y. y \<noteq> x) (first_occurrences xs)"

definition set_assignment ::
  "(pystr list \<Rightarrow> pystr list) \<Rightarrow> (topic_partition \<times> tp_state) list \<Rightarrow> (subscription_state, unit) py" where
  "set_assignment shuffle partition_states =
     (let tps = map fst partition_states;
          topic_order = first_occurrences (shuffle (map fst tps))
      in py_set (\<lambda>s. s\<lparr>assignment :=
           map (\<lambda>tp. (tp, the (map_of partition_states tp))) (group_by_topic topic_order tps)\<rparr>))"

definition assign_from_user :: "topic_partition list \<Rightarrow> (subscription_state, unit) py" where
  "assign_from_user tps =
     py_then (set_subscription_type USER_ASSIGNED)
       (py_when (\<lambda>s. set (user_assignment s) \<noteq> set tps)
         (py_then (py_set (\<lambda>s. s\<lparr>user_assignment := remdups tps\<rparr>))
           (py_bind (py_get assignment) (\<lambda>old.
              set_assignment (\<lambda>ts. ts)
                (map (\<lambda>tp. (tp, case map_of old tp of Some st \<Rightarrow> st | None \<Rightarrow> TopicPartitionState))
                  (first_occurrences tps))))))"

definition assign_from_subscribed ::
  "(pystr list \<Rightarrow> pystr list) \<Rightarrow> topic_partition list \<Rightarrow> (subscription_state, unit) py" where
  "assign_from_subscribed shuffle assignments =
     py_then ensure_auto_assigned
    (py_then (py_for (\<lambda>tp s. case subscription s of
                 None \<Rightarrow> (Inl TypeError, s)
               | Some ts \<Rightarrow> if fst tp \<notin> set ts then (Inl ValueError, s) else (Inr (), s)) assignments)
       (set_assignment shuffle (map (\<lambda>tp. (tp, TopicPartitionState)) (first_occurrences assignments))))"

definition unsubscribe :: "(subscription_state, unit) py" where
  "unsubscribe = py_set (\<lambda>s. s\<lparr>subscription := None, user_assignment := [], assignment := [],
     subscribed_pattern := None, sub_type := SUB_NONE\<rparr>)"

section \<open>Operations on assigned partitions\<close>

text \<open>\<open>self.assignment[partition].f()\<close>: KeyError when the partition is not assigned.\<close>

definition on_partition :: "topic_partition \<Rightarrow> (tp_state \<Rightarrow> tp_state res) \<Rightarrow> (subscription_state, unit) py" where
  "on_partition tp f s =
     (case map_of (assignment s) tp of
        None \<Rightarrow> (Inl KeyError, s)
      | Some st \<Rightarrow> (case f st of Inl e \<Rightarrow> (Inl e, s)
                    | Inr st' \<Rightarrow> (Inr (), s\<lparr>assignment := AList.update tp st' (assignment s)\<rparr>)))"

definition seek :: "topic_partition \<Rightarrow> seek_offset \<Rightarrow> (subscription_state, unit) py" where
  "seek tp off =
     (case off of
        OffsetInt i \<Rightarrow> on_partition tp (\<lambda>st. Inr (tp_seek \<lparr>om_offset = i, om_metadata = [], om_leader_epoch = - 1\<rparr> st))
      | OffsetMeta om \<Rightarrow> on_partition tp (\<lambda>st. Inr (tp_seek om st))
      | OffsetOther \<Rightarrow> py_raise TypeError)"

definition assigned_partitions :: "subscription_state \<Rightarrow> topic_partition set" where
  "assigned_partitions s = set (map fst (assignment s))"

definition is_assigned :: "subscription_state \<Rightarrow> topic_partition \<Rightarrow> bool" where
  "is_assigned s tp \<longleftrightarrow> map_of (assignment s) tp \<noteq> None"

definition is_paused :: "subscription_state \<Rightarrow> topic_partition \<Rightarrow> bool" where
  "is_paused s tp = (case map_of (assignment s) tp of None \<Rightarrow> False | Some st \<Rightarrow> paused st)"

definition is_fetchable :: "subscription_state \<Rightarrow> topic_partition \<Rightarrow> bool" where
  "is_fetchable s tp = (case map_of (assignment s) tp of None \<Rightarrow> False | Some st \<Rightarrow> tp_is_fetchable st)"

definition paused_partitions :: "subscription_state \<Rightarrow> topic_partition set" where
  "paused_partitions s = set (filter (is_paused s) (map fst (assignment s)))"

definition fetchable_partitions :: "subscription_state \<Rightarrow> topic_partition list" where
  "fetchable_partitions s = map fst (filter (\<lambda>(tp, st). tp_is_fetchable st) (assignment s))"

definition all_consumed_offsets :: "subscription_state \<Rightarrow> (topic_partition \<times> offset_and_metadata) list" where
  "all_consumed_offsets s =
     map (\<lambda>(tp, st). (tp, the (tp_position st))) (filter (\<lambda>(tp, st). tp_has_valid_position st) (assignment s))"

definition request_offset_reset :: "topic_partition \<Rightarrow> int option \<Rightarrow> (subscription_state, unit) py" where
  "request_offset_reset tp strategy =
     py_bind (py_get (\<lambda>s. case strategy of None \<Rightarrow> default_offset_reset_strategy s | Some st \<Rightarrow> st)) (\<lambda>st.
       on_partition tp (tp_reset (Some st)))"

definition set_reset_pending :: "topic_partition list \<Rightarrow> int \<Rightarrow> (subscription_state, unit) py" where
  "set_reset_pending tps t = py_for (\<lambda>tp. on_partition tp (\<lambda>st. Inr (tp_set_reset_pending t st))) tps"

definition reset_failed :: "topic_partition list \<Rightarrow> int \<Rightarrow> (subscription_state, unit) py" where
  "reset_failed tps t = py_for (\<lambda>tp. on_partition tp (\<lambda>st. Inr (tp_reset_failed t st))) tps"

definition has_default_offset_reset_policy :: "subscription_state \<Rightarrow> bool" where
  "has_default_offset_reset_policy s \<longleftrightarrow> default_offset_reset_strategy s \<noteq> STRATEGY_NONE"

definition is_offset_reset_needed :: "subscription_state \<Rightarrow> topic_partition \<Rightarrow> bool res" where
  "is_offset_reset_needed s tp =
     (case map_of (assignment s) tp of None \<Rightarrow> Inl KeyError | Some st \<Rightarrow> Inr (awaiting_reset st))"

definition has_all_fetch_positions :: "subscription_state \<Rightarrow> bool" where
  "has_all_fetch_positions s \<longleftrightarrow> list_all (\<lambda>(tp, st). tp_has_valid_position st) (assignment s)"

definition missing_fetch_positions :: "subscription_state \<Rightarrow> topic_partition list" where
  "missing_fetch_positions s = map fst (filter (\<lambda>(tp, st). is_missing_position st) (assignment s))"

definition has_valid_position :: "subscription_state \<Rightarrow> topic_partition \<Rightarrow> bool" where
  "has_valid_position s tp = (case map_of (assignment s) tp of None \<Rightarrow> False | Some st \<Rightarrow> tp_has_valid_position st)"

definition reset_missing_positions :: "(subscription_state, unit) py" where
  "reset_missing_positions s =
     (if default_offset_reset_strategy s = STRATEGY_NONE
      then (if missing_fetch_positions s \<noteq> [] then (Inl NoOffsetForPartitionError, s) else (Inr (), s))
      else (Inr (), s\<lparr>assignment := map (\<lambda>(tp, st).
              (tp, if is_missing_position st
                   then st\<lparr>reset_strategy := Some (default_offset_reset_strategy s), tp_position := None,
                           next_allowed_retry_time := None\<rparr> else st)) (assignment s)\<rparr>))"

definition partitions_needing_reset :: "int \<Rightarrow> subscription_state \<Rightarrow> topic_partition list" where
  "partitions_needing_reset now s =
     map fst (filter (\<lambda>(tp, st). awaiting_reset st \<and> is_reset_allowed now st) (assignment s))"

definition pause :: "topic_partition \<Rightarrow> (subscription_state, unit) py" where
  "pause tp = on_partition tp (\<lambda>st. Inr (st\<lparr>paused := True\<rparr>))"

definition resume :: "topic_partition \<Rightarrow> (subscription_state, unit) py" where
  "resume tp = on_partition tp (\<lambda>st. Inr (st\<lparr>paused := False\<rparr>))"

definition move_partition_to_end :: "topic_partition \<Rightarrow> (subscription_state, unit) py" where
  "move_partition_to_end tp =
     py_set (\<lambda>s. case map_of (assignment s) tp of None \<Rightarrow> s
       | Some st \<Rightarrow> s\<lparr>assignment := AList.delete tp (assignment s) @ [(tp, st)]\<rparr>)"

definition position :: "subscription_state \<Rightarrow> topic_partition \<Rightarrow> offset_and_metadata option res" where
  "position s tp = (case map_of (assignment s) tp of None \<Rightarrow> Inl KeyError | Some st \<Rightarrow> Inr (tp_position st))"

text \<open>\<open>self.assignment[partition].position = offset\<close>, as the fetcher does after returning records.\<close>

definition set_partition_position :: "topic_partition \<Rightarrow> offset_and_metadata \<Rightarrow> (subscription_state, unit) py" where
  "set_partition_position tp om = on_partition tp (tp_set_position om)"

section \<open>Assigned partitions\<close>

lemma first_occurrences_set [simp]: "set (first_occurrences xs) = set xs"
  by (induction xs) auto

lemma first_occurrences_distinct [simp]: "distinct (first_occurrences xs)"
  by (induction xs) simp_all

lemma group_by_topic_set: "fst ` set tps \<subseteq> set ts \<Longrightarrow> set (group_by_topic ts tps) = set tps"
  by (auto simp: group_by_topic_def)

lemma group_by_topic_distinct: "distinct ts \<Longrightarrow> distinct tps \<Longrightarrow> distinct (group_by_topic ts tps)"
  by (induction ts) (auto simp: group_by_topic_def)

lemma map_fst_Pair [simp]: "map (\<lambda>x. fst (x, f x)) xs = xs"
  by (induction xs) simp_all

text \<open>What a shuffle has to do for the assignment to be complete.\<close>

definition shuffles :: "(pystr list \<Rightarrow> pystr list) \<Rightarrow> bool" where
  "shuffles f \<longleftrightarrow> (\<forall>xs. set (f xs) = set xs)"

lemma shuffles_id [simp]: "shuffles (\<lambda>xs. xs)"
  by (simp add: shuffles_def)

definition assigned_by :: "(pystr list \<Rightarrow> pystr list) \<Rightarrow> (topic_partition \<times> tp_state) list \<Rightarrow> (topic_partition \<times> tp_state) list"
  where
  "assigned_by shuffle pss =
     map (\<lambda>tp. (tp, the (map_of pss tp)))
       (group_by_topic (first_occurrences (shuffle (map fst (map fst pss)))) (map fst pss))"

lemma set_assignment_eq: "set_assignment shuffle pss s = (Inr (), s\<lparr>assignment := assigned_by shuffle pss\<rparr>)"
  by (simp add: set_assignment_def assigned_by_def py_defs Let_def)

lemma assigned_by_keys:
  "map fst (assigned_by shuffle pss) =
     group_by_topic (first_occurrences (shuffle (map fst (map fst pss)))) (map fst pss)"
  by (simp add: assigned_by_def comp_def)

lemma grouped_keys:
  assumes "shuffles shuffle"
  shows "set (group_by_topic (first_occurrences (shuffle (map fst (map fst pss)))) (map fst pss)) = fst ` set pss"
  using assms group_by_topic_set [of "map fst pss" "first_occurrences (shuffle (map fst (map fst pss)))"]
  by (simp add: shuffles_def image_image)

lemma assigned_by_key_set:
  "shuffles shuffle \<Longrightarrow> fst ` set (assigned_by shuffle pss) = fst ` set pss"
  by (simp only: set_map [symmetric] assigned_by_keys) (simp only: grouped_keys set_map)

lemma assigned_by_distinct:
  "distinct (map fst pss) \<Longrightarrow> distinct (map fst (assigned_by shuffle pss))"
  by (simp add: assigned_by_keys group_by_topic_distinct)

lemma assigned_by_map_of:
  assumes "shuffles shuffle"
  shows "map_of (assigned_by shuffle pss) = map_of pss"
proof
  fix tp
  let ?ks = "group_by_topic (first_occurrences (shuffle (map fst (map fst pss)))) (map fst pss)"
  have ks: "set ?ks = fst ` set pss"
    by (rule grouped_keys [OF assms])
  have "map_of (assigned_by shuffle pss) tp = (if tp \<in> set ?ks then Some (the (map_of pss tp)) else None)"
    unfolding assigned_by_def by (simp add: map_of_map_restrict restrict_map_def)
  then show "map_of (assigned_by shuffle pss) tp = map_of pss tp"
    unfolding ks using map_of_eq_None_iff [of pss tp] by (cases "map_of pss tp") auto
qed

section \<open>The invariant\<close>

text \<open>
  Every partition is assigned once; a partition that awaits a reset has no position, so that it is
  not fetchable; the way of subscribing decides which other fields are in use.
\<close>

definition tp_inv :: "tp_state \<Rightarrow> bool" where
  "tp_inv st \<longleftrightarrow> (awaiting_reset st \<longrightarrow> \<not> tp_has_valid_position st)"

definition mode_inv :: "subscription_state \<Rightarrow> bool" where
  "mode_inv s \<longleftrightarrow>
     (case sub_type s of
        SUB_NONE \<Rightarrow> subscription s = None \<and> subscribed_pattern s = None \<and> user_assignment s = [] \<and> assignment s = []
      | USER_ASSIGNED \<Rightarrow> subscription s = None \<and> subscribed_pattern s = None \<and>
          assigned_partitions s = set (user_assignment s)
      | AUTO_TOPICS \<Rightarrow> subscribed_pattern s = None \<and> user_assignment s = []
      | AUTO_PATTERN \<Rightarrow> user_assignment s = [])"

definition sub_inv :: "subscription_state \<Rightarrow> bool" where
  "sub_inv s \<longleftrightarrow> distinct (map fst (assignment s)) \<and> (\<forall>st \<in> snd ` set (assignment s). tp_inv st) \<and> mode_inv s"

lemmas sub_inv_defs = sub_inv_def mode_inv_def assigned_partitions_def

lemma sub_inv_assignment:
  assumes "sub_inv s" "distinct (map fst as)" "\<forall>st \<in> snd ` set as. tp_inv st"
    "fst ` set as = fst ` set (assignment s)"
  shows "sub_inv (s\<lparr>assignment := as\<rparr>)"
  using assms by (cases "sub_type s") (auto simp: sub_inv_defs simp del: split_paired_All)

lemma sub_inv_update:
  assumes "sub_inv s" "map_of (assignment s) tp = Some st" "tp_inv st'"
  shows "sub_inv (s\<lparr>assignment := AList.update tp st' (assignment s)\<rparr>)"
proof -
  have mem: "tp \<in> fst ` set (assignment s)"
    using assms(2) by (metis domI dom_map_of_conv_image_fst)
  have keys: "map fst (AList.update tp st' (assignment s)) = map fst (assignment s)"
    using mem by (simp add: update_keys)
  have keys': "fst ` set (AList.update tp st' (assignment s)) = fst ` set (assignment s)"
    using keys by (metis set_map)
  have vals: "snd ` set (AList.update tp st' (assignment s)) \<subseteq> insert st' (snd ` set (assignment s))"
    using assms(1) keys by (auto simp: sub_inv_def image_iff dest!: map_of_is_SomeI [rotated]
      simp: update_conv split: if_splits dest: map_of_SomeD)
  have "\<forall>x \<in> snd ` set (AList.update tp st' (assignment s)). tp_inv x"
    using assms(1,3) vals by (auto simp only: sub_inv_def)
  then show ?thesis using assms(1) keys keys' by (intro sub_inv_assignment) (simp_all add: sub_inv_def)
qed

lemma keeps_on_partition [keeps_rules]:
  assumes "\<And>st st'. tp_inv st \<Longrightarrow> f st = Inr st' \<Longrightarrow> tp_inv st'"
  shows "keeps sub_inv (on_partition tp f)"
proof (rule keepsI)
  fix s assume inv: "sub_inv s"
  have "tp_inv st" if "map_of (assignment s) tp = Some st" for st
    using inv map_of_SomeD [OF that] by (force simp: sub_inv_def)
  then show "sub_inv (snd (on_partition tp f s))"
    using inv assms by (auto simp: on_partition_def sub_inv_update split: option.splits sum.splits)
qed

lemmas tp_inv_defs = tp_inv_def awaiting_reset_def tp_has_valid_position_def tp_seek_def tp_reset_def
  tp_set_position_def tp_set_reset_pending_def tp_reset_failed_def

lemma tp_inv_new [simp]: "tp_inv TopicPartitionState"
  by (simp add: tp_inv_defs TopicPartitionState_def)

lemma assigned_by_tp_inv:
  assumes "shuffles shuffle" "\<forall>st \<in> snd ` set pss. tp_inv st"
  shows "\<forall>st \<in> snd ` set (assigned_by shuffle pss). tp_inv st"
proof
  fix st assume "st \<in> snd ` set (assigned_by shuffle pss)"
  then obtain tp where "tp \<in> set (group_by_topic (first_occurrences (shuffle (map fst (map fst pss)))) (map fst pss))"
    and tp: "st = the (map_of pss tp)"
    unfolding assigned_by_def set_map image_image by (auto simp del: split_paired_All)
  then have "tp \<in> fst ` set pss" by (simp only: grouped_keys [OF assms(1)])
  with tp have "map_of pss tp = Some st"
    using map_of_eq_None_iff [of pss tp] by (cases "map_of pss tp") auto
  then show "tp_inv st" using assms(2) by (auto dest!: map_of_SomeD)
qed

text \<open>After the guards of a method, the rest of its body runs in one mode.\<close>

lemma keeps_auto_guard:
  assumes "keeps (\<lambda>s. sub_inv s \<and> partitions_auto_assigned s) m"
  shows "keeps sub_inv (py_then ensure_auto_assigned m)"
  using assms by (auto simp: keeps_def ensure_auto_assigned_def py_defs)

lemma keeps_type_guard:
  assumes "keeps (\<lambda>s. sub_inv s \<and> sub_type s = t) m" "t \<noteq> SUB_NONE"
  shows "keeps sub_inv (py_then (set_subscription_type t) m)"
proof (rule keepsI)
  fix s assume inv: "sub_inv s"
  have "sub_inv (s\<lparr>sub_type := t\<rparr>)" if "sub_type s = SUB_NONE"
    using inv that assms(2) by (cases t) (auto simp: sub_inv_defs)
  then show "sub_inv (snd (py_then (set_subscription_type t) m s))"
    using inv assms(1) by (auto simp: keeps_def set_subscription_type_def py_defs split: prod.splits sum.splits)
qed

lemma sub_inv_frame:
  assumes "sub_inv s" "assignment t = assignment s" "sub_type t = sub_type s" "user_assignment t = user_assignment s"
    "subscription t = subscription s" "subscribed_pattern t = subscribed_pattern s"
  shows "sub_inv t"
  using assms by (cases "sub_type s") (simp_all add: sub_inv_defs)

lemma keeps_change_subscription: "keeps sub_inv (change_subscription arg)"
  unfolding change_subscription_def Let_def
  by (intro keeps_auto_guard keeps_rules) (auto simp: sub_inv_defs partitions_auto_assigned_def)

lemma keeps_change_subscription_type:
  "keeps (\<lambda>s. sub_inv s \<and> sub_type s = t) (change_subscription arg)"
proof -
  have "keeps (\<lambda>s. sub_type s = t) (change_subscription arg)"
    unfolding change_subscription_def ensure_auto_assigned_def Let_def by (intro keeps_rules) auto
  then show ?thesis using keeps_change_subscription [of arg] by (auto simp: keeps_def)
qed

lemma keeps_listener:
  "keeps sub_inv (case listener of
      None \<Rightarrow> py_set (\<lambda>s. s\<lparr>rebalance_listener := None\<rparr>)
    | Some (l, is_listener) \<Rightarrow>
        if is_listener then py_set (\<lambda>s. s\<lparr>rebalance_listener := Some l\<rparr>) else py_raise TypeError)"
  by (auto simp: keeps_def py_defs elim: sub_inv_frame split: option.splits)

lemma keeps_subscribe: "keeps sub_inv (subscribe re_compile arg pattern listener)"
proof -
  have a: "keeps sub_inv (py_then (set_subscription_type AUTO_PATTERN)
         (py_then (py_set (\<lambda>s. s\<lparr>subscription := Some []\<rparr>))
         (py_then (py_lift (re_compile (the pattern)))
            (py_set (\<lambda>s. s\<lparr>subscribed_pattern := pattern\<rparr>)))))"
    by (intro keeps_type_guard keeps_rules) (auto simp: sub_inv_defs)
  have b: "keeps sub_inv (py_then (set_subscription_type AUTO_TOPICS) (change_subscription arg))"
    by (intro keeps_type_guard keeps_change_subscription_type) simp
  have c: "keeps sub_inv (case arg of TopicsSeq ts \<Rightarrow> py_return () | _ \<Rightarrow> py_raise TypeError)"
    by (cases arg) simp_all
  show ?thesis
    unfolding subscribe_def Let_def
    by (rule keeps_then [OF keeps_assert keeps_then [OF keeps_if [OF keeps_raise keeps_if [OF a keeps_then [OF c b]]]
          keeps_listener]])
qed

lemma keeps_set_assignment:
  assumes "shuffles shuffle" "distinct (map fst pss)" "\<forall>st \<in> snd ` set pss. tp_inv st"
    and "\<And>s. I s \<Longrightarrow> sub_inv s" "\<And>s. I s \<Longrightarrow> partitions_auto_assigned s"
    and "\<And>s as. I s \<Longrightarrow> sub_inv (s\<lparr>assignment := as\<rparr>) \<Longrightarrow> I (s\<lparr>assignment := as\<rparr>)"
  shows "keeps I (set_assignment shuffle pss)"
proof (rule keepsI)
  fix s assume "I s"
  moreover from this have "sub_inv s" "partitions_auto_assigned s" by (rule assms(4,5))+
  then have "sub_inv (s\<lparr>assignment := assigned_by shuffle pss\<rparr>)"
    using assigned_by_distinct [OF assms(2), of shuffle] assigned_by_tp_inv [OF assms(1,3)]
    by (auto simp: sub_inv_defs partitions_auto_assigned_def)
  ultimately show "I (snd (set_assignment shuffle pss s))"
    by (simp add: set_assignment_eq assms(6))
qed

lemma keeps_assign_from_subscribed:
  assumes "shuffles shuffle"
  shows "keeps sub_inv (assign_from_subscribed shuffle tps)"
proof -
  have "keeps (\<lambda>s. sub_inv s \<and> partitions_auto_assigned s)
      (py_for (\<lambda>tp s. case subscription s of None \<Rightarrow> (Inl TypeError, s)
         | Some ts \<Rightarrow> if fst tp \<notin> set ts then (Inl ValueError, s) else (Inr (), s)) tps)"
    by (intro keeps_for keepsI) (auto split: option.splits)
  moreover have "keeps (\<lambda>s. sub_inv s \<and> partitions_auto_assigned s)
      (set_assignment shuffle (map (\<lambda>tp. (tp, TopicPartitionState)) (first_occurrences tps)))"
    by (rule keeps_set_assignment [OF assms]) (auto simp: comp_def partitions_auto_assigned_def)
  ultimately show ?thesis
    unfolding assign_from_subscribed_def by (intro keeps_auto_guard keeps_then)
qed

lemma keeps_assign_from_user: "keeps sub_inv (assign_from_user tps)"
  unfolding assign_from_user_def
proof (intro keeps_type_guard keeps_when keepsI)
  fix s assume s: "sub_inv s \<and> sub_type s = USER_ASSIGNED"
  define pss where "pss = map (\<lambda>tp. (tp, case map_of (assignment s) tp of Some st \<Rightarrow> st | None \<Rightarrow> TopicPartitionState))
      (first_occurrences tps)"
  let ?t = "s\<lparr>user_assignment := remdups tps, assignment := assigned_by (\<lambda>ts. ts) pss\<rparr>"
  have dist: "distinct (map fst pss)" by (simp add: pss_def comp_def)
  have keys: "fst ` set pss = set tps" by (force simp: pss_def)
  have inv: "\<forall>st \<in> snd ` set pss. tp_inv st"
    using s by (force simp: pss_def sub_inv_def split: option.splits dest: map_of_SomeD)
  have "sub_inv ?t"
    using s assigned_by_distinct [OF dist, of "\<lambda>ts. ts"] assigned_by_tp_inv [OF shuffles_id inv]
      assigned_by_key_set [OF shuffles_id, of pss] keys
    by (elim conjE) (simp add: sub_inv_defs)
  moreover have "py_then (py_set (\<lambda>s. s\<lparr>user_assignment := remdups tps\<rparr>)) (py_bind (py_get assignment) (\<lambda>old.
      set_assignment (\<lambda>ts. ts) (map (\<lambda>tp. (tp, case map_of old tp of Some st \<Rightarrow> st | None \<Rightarrow> TopicPartitionState))
        (first_occurrences tps)))) s = (Inr (), ?t)"
    by (simp add: py_defs set_assignment_eq pss_def)
  ultimately show "(\<lambda>t. sub_inv t \<and> sub_type t = USER_ASSIGNED) (snd (py_then (py_set (\<lambda>s. s\<lparr>user_assignment := remdups tps\<rparr>))
      (py_bind (py_get assignment) (\<lambda>old.
      set_assignment (\<lambda>ts. ts) (map (\<lambda>tp. (tp, case map_of old tp of Some st \<Rightarrow> st | None \<Rightarrow> TopicPartitionState))
        (first_occurrences tps)))) s))"
    using s by simp
qed simp

lemma map_snd_keys [simp]: "map fst (map (\<lambda>(k, v). (k, f v)) xs) = map fst xs"
  by (induction xs) auto

lemma keeps_reset_missing_positions: "keeps sub_inv reset_missing_positions"
proof (rule keepsI)
  fix s assume inv: "sub_inv s"
  define f where "f st = (if is_missing_position st
      then st\<lparr>reset_strategy := Some (default_offset_reset_strategy s), tp_position := None,
             next_allowed_retry_time := None\<rparr> else st)" for st
  let ?as = "map (\<lambda>(tp, st). (tp, f st)) (assignment s)"
  have keys: "map fst ?as = map fst (assignment s)" by (rule map_snd_keys)
  have "\<forall>st \<in> snd ` set ?as. tp_inv st"
    using inv by (force simp: f_def sub_inv_def tp_inv_defs)
  then have "sub_inv (s\<lparr>assignment := ?as\<rparr>)"
    using inv keys arg_cong [OF keys, of set] unfolding set_map [symmetric]
    by (intro sub_inv_assignment [OF inv]) (simp_all only: sub_inv_def set_map [symmetric])
  then show "sub_inv (snd (reset_missing_positions s))"
    using inv by (simp add: reset_missing_positions_def f_def)
qed

lemma keeps_move_partition_to_end: "keeps sub_inv (move_partition_to_end tp)"
proof (unfold move_partition_to_end_def, rule keeps_set)
  fix s assume inv: "sub_inv s"
  have "sub_inv (s\<lparr>assignment := AList.delete tp (assignment s) @ [(tp, st)]\<rparr>)"
    if st: "map_of (assignment s) tp = Some st" for st
  proof (rule sub_inv_assignment [OF inv])
    have mem: "(tp, st) \<in> set (assignment s)" using st by (rule map_of_SomeD)
    then show "fst ` set (AList.delete tp (assignment s) @ [(tp, st)]) = fst ` set (assignment s)"
      by (force simp: AList.delete_eq)
    show "\<forall>x \<in> snd ` set (AList.delete tp (assignment s) @ [(tp, st)]). tp_inv x"
      using inv mem by (force simp: sub_inv_def AList.delete_eq)
    show "distinct (map fst (AList.delete tp (assignment s) @ [(tp, st)]))"
      using inv distinct_delete [of "assignment s" tp] by (auto simp: sub_inv_def AList.delete_eq)
  qed
  then show "sub_inv (case map_of (assignment s) tp of None \<Rightarrow> s
      | Some st \<Rightarrow> s\<lparr>assignment := AList.delete tp (assignment s) @ [(tp, st)]\<rparr>)"
    using inv by (simp split: option.splits)
qed

section \<open>Calls\<close>

text \<open>Every method of SubscriptionState that changes it, and sequences of calls.\<close>

datatype sub_call =
    CSubscribe "pystr \<Rightarrow> unit res" topics_arg "pystr option" "(nat \<times> bool) option"
  | CChangeSubscription topics_arg
  | CGroupSubscribe "pystr list"
  | CResetGroupSubscription
  | CAssignFromUser "topic_partition list"
  | CAssignFromSubscribed "pystr list \<Rightarrow> pystr list" "topic_partition list"
  | CUnsubscribe
  | CSeek topic_partition seek_offset
  | CRequestOffsetReset topic_partition "int option"
  | CSetResetPending "topic_partition list" int
  | CResetFailed "topic_partition list" int
  | CResetMissingPositions
  | CPause topic_partition
  | CResume topic_partition
  | CMoveToEnd topic_partition
  | CSetPosition topic_partition offset_and_metadata

primrec sub_run :: "sub_call \<Rightarrow> (subscription_state, unit) py" where
  "sub_run (CSubscribe re ts pat l) = subscribe re ts pat l"
| "sub_run (CChangeSubscription ts) = change_subscription ts"
| "sub_run (CGroupSubscribe ts) = group_subscribe ts"
| "sub_run CResetGroupSubscription = reset_group_subscription"
| "sub_run (CAssignFromUser tps) = assign_from_user tps"
| "sub_run (CAssignFromSubscribed sh tps) = assign_from_subscribed sh tps"
| "sub_run CUnsubscribe = unsubscribe"
| "sub_run (CSeek tp off) = seek tp off"
| "sub_run (CRequestOffsetReset tp st) = request_offset_reset tp st"
| "sub_run (CSetResetPending tps t) = set_reset_pending tps t"
| "sub_run (CResetFailed tps t) = reset_failed tps t"
| "sub_run CResetMissingPositions = reset_missing_positions"
| "sub_run (CPause tp) = pause tp"
| "sub_run (CResume tp) = resume tp"
| "sub_run (CMoveToEnd tp) = move_partition_to_end tp"
| "sub_run (CSetPosition tp om) = set_partition_position tp om"

definition sub_call_ok :: "sub_call \<Rightarrow> bool" where
  "sub_call_ok c = (case c of CAssignFromSubscribed sh tps \<Rightarrow> shuffles sh | _ \<Rightarrow> True)"

definition sub_runs :: "sub_call list \<Rightarrow> subscription_state \<Rightarrow> subscription_state" where
  "sub_runs cs s = fold (\<lambda>c t. snd (sub_run c t)) cs s"

lemma keeps_sub_run:
  assumes "sub_call_ok c"
  shows "keeps sub_inv (sub_run c)"
proof (cases c)
  case (CGroupSubscribe ts)
  have "keeps sub_inv (group_subscribe ts)"
    unfolding group_subscribe_def ensure_auto_assigned_def
    by (intro keeps_rules) (auto elim: sub_inv_frame)
  then show ?thesis using CGroupSubscribe by simp
next
  case CResetGroupSubscription
  have "keeps sub_inv reset_group_subscription"
    unfolding reset_group_subscription_def ensure_auto_assigned_def
    by (intro keeps_rules) (auto elim: sub_inv_frame)
  then show ?thesis using CResetGroupSubscription by simp
next
  case CUnsubscribe
  have "keeps sub_inv unsubscribe"
    unfolding unsubscribe_def by (intro keeps_rules) (simp add: sub_inv_defs)
  then show ?thesis using CUnsubscribe by simp
next
  case (CSeek tp off)
  then show ?thesis by (cases off) (auto simp: seek_def tp_inv_defs intro!: keeps_on_partition)
qed (use assms in \<open>auto simp: sub_call_ok_def request_offset_reset_def set_reset_pending_def reset_failed_def
       pause_def resume_def set_partition_position_def tp_inv_defs keeps_subscribe keeps_change_subscription
       keeps_assign_from_user keeps_assign_from_subscribed keeps_reset_missing_positions
       keeps_move_partition_to_end intro!: keeps_rules split: if_splits\<close>)

lemma sub_runs_inv:
  assumes "list_all sub_call_ok cs" "sub_inv s"
  shows "sub_inv (sub_runs cs s)"
  using assms
proof (induction cs arbitrary: s)
  case (Cons c cs)
  then have "sub_inv (snd (sub_run c s))" using keeps_sub_run [of c] by (simp add: keeps_def)
  then show ?case using Cons by (simp add: sub_runs_def)
qed (simp add: sub_runs_def)

lemma sub_inv_init: "sub_inv (SubscriptionState strategy)"
  by (simp add: sub_inv_defs SubscriptionState_def)

text \<open>The way of subscribing, once chosen, is only given up by \<open>unsubscribe\<close>.\<close>

definition same_mode :: "subscription_state \<Rightarrow> subscription_state \<Rightarrow> bool" where
  "same_mode s t \<longleftrightarrow> sub_type s \<noteq> SUB_NONE \<longrightarrow> sub_type t = sub_type s"

interpretation mode: guarantee same_mode
  by unfold_locales (auto simp: same_mode_def)

lemma mode_on_partition: "guarantees same_mode (on_partition tp f)"
  by (rule guaranteesI) (auto simp: on_partition_def same_mode_def split: option.splits sum.splits)

lemma mode_set_type: "guarantees same_mode (set_subscription_type t)"
  by (rule guaranteesI) (auto simp: set_subscription_type_def py_defs same_mode_def)

lemma mode_set_assignment: "guarantees same_mode (set_assignment sh pss)"
  by (rule guaranteesI) (simp add: set_assignment_eq same_mode_def)

lemma mode_set: "(\<And>s. sub_type (f s) = sub_type s) \<Longrightarrow> guarantees same_mode (py_set f)"
  by (rule mode.g_set) (simp add: same_mode_def)

lemmas mode_rules = mode_on_partition mode_set_type mode_set_assignment mode_set mode.g_return mode.g_raise
  mode.g_lift mode.g_get mode.g_assert mode.g_bind mode.g_then mode.g_when mode.g_py_if mode.g_if mode.g_for

lemma mode_change_subscription: "guarantees same_mode (change_subscription arg)"
  unfolding change_subscription_def ensure_auto_assigned_def Let_def by (intro mode_rules) simp

lemma mode_subscribe: "guarantees same_mode (subscribe re arg pat l)"
proof -
  have "guarantees same_mode (case arg of TopicsSeq ts \<Rightarrow> py_return () | _ \<Rightarrow> py_raise TypeError)"
    by (cases arg) (simp_all add: mode_rules)
  moreover have "guarantees same_mode (case l of None \<Rightarrow> py_set (\<lambda>s. s\<lparr>rebalance_listener := None\<rparr>)
      | Some (l, ok) \<Rightarrow> if ok then py_set (\<lambda>s. s\<lparr>rebalance_listener := Some l\<rparr>) else py_raise TypeError)"
    by (auto simp: mode_rules split: option.splits)
  ultimately show ?thesis
    unfolding subscribe_def Let_def by (intro mode_rules mode_change_subscription; simp)
qed

lemma mode_sub_run:
  assumes "c \<noteq> CUnsubscribe"
  shows "guarantees same_mode (sub_run c)"
proof (cases c)
  case (CAssignFromSubscribed sh tps)
  have "guarantees same_mode (py_for (\<lambda>tp s. case subscription s of None \<Rightarrow> (Inl TypeError, s)
         | Some ts \<Rightarrow> if fst tp \<notin> set ts then (Inl ValueError, s) else (Inr (), s)) tps)"
    by (intro mode.g_for guaranteesI) (simp add: mode.R_refl split: option.splits)
  then show ?thesis using CAssignFromSubscribed
    by (simp add: assign_from_subscribed_def ensure_auto_assigned_def mode_rules)
next
  case (CAssignFromUser tps)
  then show ?thesis by (simp add: assign_from_user_def mode_rules)
next
  case CResetMissingPositions
  then show ?thesis
    by (auto simp: guarantees_def reset_missing_positions_def same_mode_def)
next
  case (CSeek tp off)
  then show ?thesis by (cases off) (simp_all add: seek_def mode_rules)
next
  case (CMoveToEnd tp)
  then show ?thesis by (auto simp: move_partition_to_end_def intro: mode_set split: option.splits)
qed (use assms in \<open>auto simp: mode_subscribe mode_change_subscription group_subscribe_def reset_group_subscription_def
      ensure_auto_assigned_def request_offset_reset_def set_reset_pending_def reset_failed_def pause_def
      resume_def set_partition_position_def intro!: mode_rules\<close>)

lemma mode_sub_runs:
  assumes "CUnsubscribe \<notin> set cs"
  shows "same_mode s (sub_runs cs s)"
  using assms
proof (induction cs arbitrary: s)
  case (Cons c cs)
  then have "same_mode s (snd (sub_run c s))" using mode_sub_run [of c] by (auto simp: guarantees_def)
  moreover have "same_mode (snd (sub_run c s)) (sub_runs cs (snd (sub_run c s)))" using Cons by simp
  ultimately show ?case by (auto simp: sub_runs_def intro: mode.R_trans)
qed (simp add: sub_runs_def mode.R_refl)

section \<open>Properties\<close>

text \<open>C28. Whatever sequence of calls a consumer makes on a new SubscriptionState (each returning or
  raising), every partition is assigned at most once; a partition waiting for an offset reset has no
  position and is not in \<open>fetchable_partitions\<close>; without a subscription nothing is assigned; after a
  manual assignment exactly the partitions the user gave are assigned.
\<close>

theorem subscription_invariant:
  assumes "list_all sub_call_ok cs" and t: "t = sub_runs cs (SubscriptionState strategy)"
  shows "distinct (map fst (assignment t)) \<and>
    (\<forall>tp st. map_of (assignment t) tp = Some st \<and> awaiting_reset st \<longrightarrow>
       tp_position st = None \<and> tp \<notin> set (fetchable_partitions t)) \<and>
    (sub_type t = SUB_NONE \<longrightarrow> assignment t = [] \<and> subscription t = None) \<and>
    (sub_type t = USER_ASSIGNED \<longrightarrow> assigned_partitions t = set (user_assignment t) \<and> subscription t = None)"
proof -
  have inv: "sub_inv t" using sub_runs_inv [OF assms(1) sub_inv_init] t by simp
  then have dist: "distinct (map fst (assignment t))" by (simp add: sub_inv_def)
  have "tp_position st = None \<and> tp \<notin> set (fetchable_partitions t)"
    if st: "map_of (assignment t) tp = Some st" and aw: "awaiting_reset st" for tp st
  proof -
    have "tp_inv st" using inv map_of_SomeD [OF st] by (force simp: sub_inv_def)
    with aw have none: "tp_position st = None" by (simp add: tp_inv_defs)
    have "st' = st" if "(tp, st') \<in> set (assignment t)" for st'
      using map_of_is_SomeI [OF dist that] st by simp
    with none show ?thesis
      by (auto simp: fetchable_partitions_def tp_is_fetchable_def tp_has_valid_position_def)
  qed
  moreover have "sub_type t = SUB_NONE \<longrightarrow> assignment t = [] \<and> subscription t = None"
    "sub_type t = USER_ASSIGNED \<longrightarrow> assigned_partitions t = set (user_assignment t) \<and> subscription t = None"
    using inv by (auto simp: sub_inv_def mode_inv_def)
  ultimately show ?thesis using dist by blast
qed

definition example_calls :: "sub_call list" where
  "example_calls =
     [CAssignFromUser [([97], 0), ([98], 0), ([97], 1)], CSeek ([97], 0) (OffsetInt 5),
      CRequestOffsetReset ([98], 0) (Some STRATEGY_EARLIEST), CMoveToEnd ([97], 0)]"

theorem subscription_invariant_witness:
  "map fst (assignment (sub_runs example_calls (SubscriptionState ''LATEST''))) = [([97], 1), ([98], 0), ([97], 0)] \<and>
   fetchable_partitions (sub_runs example_calls (SubscriptionState ''LATEST'')) = [([97], 0)] \<and>
   distinct (map fst (assignment (sub_runs example_calls (SubscriptionState ''LATEST''))))"
proof -
  have "list_all sub_call_ok example_calls" by (simp add: example_calls_def sub_call_ok_def)
  then have "distinct (map fst (assignment (sub_runs example_calls (SubscriptionState ''LATEST''))))"
    using subscription_invariant by blast
  moreover have "map fst (assignment (sub_runs example_calls (SubscriptionState ''LATEST''))) =
      [([97], 1), ([98], 0), ([97], 0)]"
    "fetchable_partitions (sub_runs example_calls (SubscriptionState ''LATEST'')) = [([97], 0)]"
    by code_simp+
  ultimately show ?thesis by blast
qed

text \<open>The ways of subscribing exclude each other: once topics or a pattern have been subscribed, and
  until \<open>unsubscribe\<close>, assigning partitions by hand raises IllegalStateError and changes nothing;
  once partitions have been assigned by hand, the operations of group subscription do the same.
\<close>

theorem subscription_exclusive:
  assumes "CUnsubscribe \<notin> set cs" and t: "t = sub_runs cs s" and "ns \<noteq> []" and "p \<noteq> []"
  shows "(partitions_auto_assigned s \<longrightarrow> assign_from_user tps t = (Inl IllegalStateError, t)) \<and>
    (sub_type s = USER_ASSIGNED \<longrightarrow>
       assign_from_subscribed sh tps t = (Inl IllegalStateError, t) \<and>
       change_subscription arg t = (Inl IllegalStateError, t) \<and>
       group_subscribe ts t = (Inl IllegalStateError, t) \<and>
       subscribe re (TopicsSeq ns) None l t = (Inl IllegalStateError, t) \<and>
       subscribe re (TopicsSeq []) (Some p) l t = (Inl IllegalStateError, t))"
proof -
  have m: "same_mode s t" using mode_sub_runs [OF assms(1)] t by simp
  have "assign_from_user tps t = (Inl IllegalStateError, t)" if "partitions_auto_assigned s"
    using that m
    by (auto simp: partitions_auto_assigned_def same_mode_def assign_from_user_def set_subscription_type_def py_defs)
  moreover have "sub_type t = USER_ASSIGNED" if "sub_type s = USER_ASSIGNED"
    using that m by (simp add: same_mode_def)
  ultimately show ?thesis using assms(3,4)
    by (simp add: assign_from_subscribed_def change_subscription_def group_subscribe_def subscribe_def
        ensure_auto_assigned_def partitions_auto_assigned_def set_subscription_type_def topics_given_def py_defs)
qed

theorem subscription_exclusive_witness:
  "fst (assign_from_user [([97], 0)]
     (snd (subscribe (\<lambda>_. Inr ()) (TopicsSeq [VStr [97]]) None None (SubscriptionState ''LATEST'')))) =
   Inl IllegalStateError"
proof -
  let ?s = "snd (subscribe (\<lambda>_. Inr ()) (TopicsSeq [VStr [97]]) None None (SubscriptionState ''LATEST''))"
  have "partitions_auto_assigned ?s" by code_simp
  moreover have "?s = sub_runs [] ?s" by (simp add: sub_runs_def)
  ultimately have "assign_from_user [([97], 0)] ?s = (Inl IllegalStateError, ?s)"
    using subscription_exclusive [of "[]" ?s ?s "[VStr [97]]" "[97]"] by (simp del: split_paired_All)
  then show ?thesis by simp
qed

lemma py_for_all_return: "(\<And>x. x \<in> set xs \<Longrightarrow> f x s = (Inr (), s)) \<Longrightarrow> py_for f xs s = (Inr (), s)"
  by (induction xs) (simp_all add: py_defs)

text \<open>When the coordinator assigns partitions of subscribed topics, the new assignment consists of
  exactly those partitions, each once and in a fresh state (not paused, no position), listed topic by
  topic, whatever order the shuffle gives the topics.
\<close>

theorem assign_from_subscribed_result:
  assumes "partitions_auto_assigned s" "subscription s = Some ts" "fst ` set tps \<subseteq> set ts" "shuffles sh"
  shows "\<exists>t topic_order. assign_from_subscribed sh tps s = (Inr (), t) \<and>
    assigned_partitions t = set tps \<and> distinct (map fst (assignment t)) \<and>
    (\<forall>st \<in> snd ` set (assignment t). st = TopicPartitionState) \<and> distinct topic_order \<and>
    map fst (assignment t) = concat (map (\<lambda>top. filter (\<lambda>tp. fst tp = top) (first_occurrences tps)) topic_order)"
proof -
  let ?pss = "map (\<lambda>tp. (tp, TopicPartitionState)) (first_occurrences tps)"
  let ?order = "first_occurrences (sh (map fst (map fst ?pss)))"
  let ?t = "s\<lparr>assignment := assigned_by sh ?pss\<rparr>"
  have "py_for (\<lambda>tp s. case subscription s of None \<Rightarrow> (Inl TypeError, s)
         | Some ts \<Rightarrow> if fst tp \<notin> set ts then (Inl ValueError, s) else (Inr (), s)) tps s = (Inr (), s)"
    using assms(2,3) by (intro py_for_all_return) auto
  then have run: "assign_from_subscribed sh tps s = (Inr (), ?t)"
    using assms(1) by (simp add: assign_from_subscribed_def ensure_auto_assigned_def py_defs set_assignment_eq)
  have keys: "map fst ?pss = first_occurrences tps" by (simp add: comp_def)
  have "st = TopicPartitionState" if "(tp, st) \<in> set (assigned_by sh ?pss)" for tp st
    using that map_of_is_SomeI [OF assigned_by_distinct that] keys
    by (auto simp: assigned_by_map_of [OF assms(4)] dest!: map_of_SomeD)
  then have "\<forall>st \<in> snd ` set (assignment ?t). st = TopicPartitionState" by auto
  moreover have "distinct (map fst (assignment ?t))"
    using assigned_by_distinct [of ?pss sh] keys by simp
  moreover have "assigned_partitions ?t = set tps"
    using assigned_by_key_set [OF assms(4), of ?pss] by (simp add: assigned_partitions_def image_image)
  moreover have "map fst (assignment ?t) =
      concat (map (\<lambda>top. filter (\<lambda>tp. fst tp = top) (first_occurrences tps)) ?order)"
    using assigned_by_keys [of sh ?pss] unfolding keys by (simp add: group_by_topic_def)
  ultimately show ?thesis
    using run first_occurrences_distinct by blast
qed

theorem assign_from_subscribed_result_witness:
  "assigned_partitions (snd (assign_from_subscribed rev [([97], 0), ([98], 0), ([97], 1)]
     (sub_runs [CSubscribe (\<lambda>_. Inr ()) (TopicsSeq [VStr [97], VStr [98]]) None None] (SubscriptionState ''LATEST'')))) =
   {([97], 0), ([97], 1), ([98], 0)}"
proof -
  let ?s = "sub_runs [CSubscribe (\<lambda>_. Inr ()) (TopicsSeq [VStr [97], VStr [98]]) None None] (SubscriptionState ''LATEST'')"
  have "partitions_auto_assigned ?s" "subscription ?s = Some [[97], [98]]" by code_simp+
  from assign_from_subscribed_result [OF this, of "[([97], 0), ([98], 0), ([97], 1)]" rev]
  obtain t where "assign_from_subscribed rev [([97], 0), ([98], 0), ([97], 1)] ?s = (Inr (), t)"
    "assigned_partitions t = {([97], 0), ([98], 0), ([97], 1)}"
    by (auto simp: shuffles_def simp del: split_paired_All)
  then show ?thesis by auto
qed

text \<open>A partition that the user assigns again keeps its state: position, pause flag and pending reset
  survive \<open>assign_from_user\<close>, and only partitions that were not assigned before start afresh.
\<close>

theorem assign_from_user_keeps_state:
  assumes "sub_inv s" "sub_type s \<in> {SUB_NONE, USER_ASSIGNED}" "tp \<in> set tps"
  shows "\<exists>t. assign_from_user tps s = (Inr (), t) \<and> assigned_partitions t = set tps \<and>
    map_of (assignment t) tp =
      Some (case map_of (assignment s) tp of Some st \<Rightarrow> st | None \<Rightarrow> TopicPartitionState)"
proof -
  let ?old = "\<lambda>tp. case map_of (assignment s) tp of Some st \<Rightarrow> st | None \<Rightarrow> TopicPartitionState"
  let ?pss = "map (\<lambda>tp. (tp, ?old tp)) (first_occurrences tps)"
  have pss: "fst ` set ?pss = set tps" by force
  have old: "map_of ?pss tp = Some (?old tp)"
    using assms(3) by (simp add: map_of_map_restrict)
  show ?thesis
  proof (cases "set (user_assignment s) = set tps")
    case True
    then have ass: "assigned_partitions s = set tps" "sub_type s = USER_ASSIGNED"
      using assms by (auto simp: sub_inv_def mode_inv_def)
    moreover from this assms(3) obtain st where "map_of (assignment s) tp = Some st"
      using map_of_eq_None_iff [of "assignment s" tp] by (cases "map_of (assignment s) tp") (auto simp: assigned_partitions_def)
    ultimately show ?thesis
      using True by (simp add: assign_from_user_def set_subscription_type_def py_defs)
  next
    case False
    let ?t = "s\<lparr>sub_type := USER_ASSIGNED, user_assignment := remdups tps, assignment := assigned_by (\<lambda>ts. ts) ?pss\<rparr>"
    have "s\<lparr>sub_type := USER_ASSIGNED\<rparr> = s" if "sub_type s = USER_ASSIGNED" using that by simp
    then have "assign_from_user tps s = (Inr (), ?t)"
      using False assms(2) by (auto simp: assign_from_user_def set_subscription_type_def py_defs set_assignment_eq)
    then show ?thesis
      using pss old assigned_by_key_set [OF shuffles_id, of ?pss] assigned_by_map_of [OF shuffles_id, of ?pss]
      by (intro exI [of _ ?t]) (simp add: assigned_partitions_def)
  qed
qed

theorem assign_from_user_keeps_state_witness:
  "map_of (assignment (snd (assign_from_user [([97], 0), ([99], 0)]
     (sub_runs example_calls (SubscriptionState ''LATEST''))))) ([97], 0) =
   Some (tp_seek \<lparr>om_offset = 5, om_metadata = [], om_leader_epoch = - 1\<rparr> TopicPartitionState)"
proof -
  let ?s = "sub_runs example_calls (SubscriptionState ''LATEST'')"
  have "sub_inv ?s" by (rule sub_runs_inv [OF _ sub_inv_init]) (simp add: example_calls_def sub_call_ok_def)
  moreover have "sub_type ?s = USER_ASSIGNED" by code_simp
  ultimately obtain t where t: "assign_from_user [([97], 0), ([99], 0)] ?s = (Inr (), t)"
    "map_of (assignment t) ([97], 0) =
       Some (case map_of (assignment ?s) ([97], 0) of Some st \<Rightarrow> st | None \<Rightarrow> TopicPartitionState)"
    using assign_from_user_keeps_state [of ?s "([97], 0)" "[([97], 0), ([99], 0)]"] by auto
  moreover have "map_of (assignment ?s) ([97], 0) =
      Some (tp_seek \<lparr>om_offset = 5, om_metadata = [], om_leader_epoch = - 1\<rparr> TopicPartitionState)"
    by code_simp
  ultimately show ?thesis by simp
qed

end
