(* ===== verification/Struct_Format.thy ===== *)
theory Struct_Format
  imports Struct_Pack
begin

text \<open>
  Python's \<open>struct\<close> module on the big-endian formats the record layer uses, and slices of byte
  buffers.  A format is a list of field sizes with a sign; \<open>pack_into\<close> and \<open>unpack_from\<close> work on a
  buffer at a position, a negative position counting from the end as in Python.
\<close>

section \<open>Formats\<close>

datatype fmt = Sint nat | Uint nat

primrec fmt_size :: "fmt \<Rightarrow> nat" where
  "fmt_size (Sint n) = n"
| "fmt_size (Uint n) = n"

primrec fmt_pack :: "fmt \<Rightarrow> int \<Rightarrow> bytes res" where
  "fmt_pack (Sint n) = pack_int n"
| "fmt_pack (Uint n) = pack_uint n"

primrec fmt_unpack :: "fmt \<Rightarrow> bytes \<Rightarrow> int res" where
  "fmt_unpack (Sint n) = unpack_int n"
| "fmt_unpack (Uint n) = unpack_uint n"

text \<open>The values a field can hold.\<close>

primrec fmt_fits :: "fmt \<Rightarrow> int \<Rightarrow> bool" where
  "fmt_fits (Sint n) v \<longleftrightarrow> - (256 ^ n div 2) \<le> v \<and> v < 256 ^ n div 2"
| "fmt_fits (Uint n) v \<longleftrightarrow> 0 \<le> v \<and> v < 256 ^ n"

definition struct_size :: "fmt list \<Rightarrow> nat" where
  "struct_size fs = sum_list (map fmt_size fs)"

fun struct_pack :: "fmt list \<Rightarrow> int list \<Rightarrow> bytes res" where
  "struct_pack [] [] = Inr []"
| "struct_pack (f # fs) (v # vs) = res_bind (fmt_pack f v) (\<lambda>b. res_map (\<lambda>bs. b @ bs) (struct_pack fs vs))"
| "struct_pack _ _ = Inl struct_error"

primrec struct_fields :: "fmt list \<Rightarrow> bytes \<Rightarrow> int list res" where
  "struct_fields [] bs = Inr []"
| "struct_fields (f # fs) bs =
     res_bind (fmt_unpack f (take (fmt_size f) bs)) (\<lambda>v.
       res_map (\<lambda>vs. v # vs) (struct_fields fs (drop (fmt_size f) bs)))"

definition struct_unpack :: "fmt list \<Rightarrow> bytes \<Rightarrow> int list res" where
  "struct_unpack fs bs = (if length bs = struct_size fs then struct_fields fs bs else Inl struct_error)"

definition unpack_from :: "fmt list \<Rightarrow> bytes \<Rightarrow> int \<Rightarrow> int list res" where
  "unpack_from fs buf pos =
     (let off = (if pos < 0 then pos + int (length buf) else pos) in
      if off < 0 \<or> int (length buf) - off < int (struct_size fs) then Inl struct_error
      else struct_fields fs (drop (nat off) buf))"

definition pack_into :: "fmt list \<Rightarrow> bytes \<Rightarrow> nat \<Rightarrow> int list \<Rightarrow> bytes res" where
  "pack_into fs buf pos vs =
     res_bind (struct_pack fs vs) (\<lambda>bs.
       if pos + struct_size fs \<le> length buf
       then Inr (take pos buf @ bs @ drop (pos + struct_size fs) buf) else Inl struct_error)"

section \<open>Slices\<close>

text \<open>\<open>xs[i:j]\<close>: negative bounds count from the end, and bounds are clipped.\<close>

definition slice_index :: "'a list \<Rightarrow> int \<Rightarrow> nat" where
  "slice_index xs i = nat (if i < 0 then max 0 (i + int (length xs)) else min i (int (length xs)))"

definition py_slice :: "'a list \<Rightarrow> int \<Rightarrow> int \<Rightarrow> 'a list" where
  "py_slice xs i j = take (slice_index xs j - slice_index xs i) (drop (slice_index xs i) xs)"

lemma slice_index_nonneg: "0 \<le> i \<Longrightarrow> slice_index xs i = min (nat i) (length xs)"
  by (simp add: slice_index_def)

lemma py_slice_nat: "py_slice xs (int i) (int i + int n) = take n (drop i xs)"
  by (simp add: py_slice_def slice_index_nonneg flip: of_nat_add) (auto simp: min_def)

lemma py_slice_from: "0 \<le> i \<Longrightarrow> i \<le> j \<Longrightarrow> py_slice xs i j = take (nat (j - i)) (drop (nat i) xs)"
  using py_slice_nat [of xs "nat i" "nat (j - i)"] by simp

section \<open>Laws\<close>

lemma fmt_pack_Inr: "fmt_fits f v \<Longrightarrow> \<exists>bs. fmt_pack f v = Inr bs \<and> length bs = fmt_size f"
  by (cases f) (auto simp: pack_int_def pack_uint_def)

lemma fmt_pack_fits: "fmt_pack f v = Inr bs \<Longrightarrow> fmt_fits f v"
  by (cases f) (auto simp: pack_int_def pack_uint_def split: if_splits)

lemma length_fmt_pack: "fmt_pack f v = Inr bs \<Longrightarrow> length bs = fmt_size f"
  by (cases f) (auto simp: length_pack_int length_pack_uint)

lemma fmt_unpack_pack: "0 < fmt_size f \<Longrightarrow> fmt_pack f v = Inr bs \<Longrightarrow> fmt_unpack f bs = Inr v"
  by (cases f) (auto simp: unpack_pack_int unpack_pack_uint)

lemma struct_pack_Inr:
  "list_all2 fmt_fits fs vs \<Longrightarrow> \<exists>bs. struct_pack fs vs = Inr bs \<and> length bs = struct_size fs"
proof (induction fs vs rule: list_all2_induct)
  case (Cons f fs v vs)
  then show ?case using fmt_pack_Inr [of f v] by (auto simp: struct_size_def)
qed (simp add: struct_size_def)

lemma length_struct_pack: "struct_pack fs vs = Inr bs \<Longrightarrow> length bs = struct_size fs"
  by (induction fs vs arbitrary: bs rule: struct_pack.induct)
    (auto simp: struct_size_def res_eq_Inr length_fmt_pack)

lemma struct_pack_fits: "struct_pack fs vs = Inr bs \<Longrightarrow> list_all2 fmt_fits fs vs"
  by (induction fs vs arbitrary: bs rule: struct_pack.induct) (auto simp: res_eq_Inr fmt_pack_fits)

lemma struct_fields_pack:
  assumes "struct_pack fs vs = Inr bs" "\<forall>f \<in> set fs. 0 < fmt_size f"
  shows "struct_fields fs (bs @ rest) = Inr vs"
  using assms
  by (induction fs vs arbitrary: bs rule: struct_pack.induct)
    (auto simp: res_eq_Inr length_fmt_pack fmt_unpack_pack)

lemma unpack_from_pack:
  assumes "struct_pack fs vs = Inr bs" "\<forall>f \<in> set fs. 0 < fmt_size f"
  shows "unpack_from fs (pre @ bs @ rest) (int (length pre)) = Inr vs"
  using struct_fields_pack [OF assms] length_struct_pack [OF assms(1)]
  by (simp add: unpack_from_def Let_def)

lemma unpack_from_pack_0:
  assumes "struct_pack fs vs = Inr bs" "\<forall>f \<in> set fs. 0 < fmt_size f"
  shows "unpack_from fs (bs @ rest) 0 = Inr vs"
  using unpack_from_pack [OF assms, of "[]"] by simp

lemma struct_fields_error: "struct_fields fs bs = Inl e \<Longrightarrow> e = struct_error"
proof (induction fs arbitrary: bs)
  case (Cons f fs)
  then show ?case
    by (cases f) (auto simp: res_bind_def res_map_def unpack_int_def unpack_uint_def split: sum.splits if_splits)
qed simp

lemma unpack_from_error: "unpack_from fs bs i = Inl e \<Longrightarrow> e = struct_error"
  by (auto simp: unpack_from_def Let_def split: if_splits dest: struct_fields_error)

lemma struct_fields_Inr: "struct_size fs \<le> length bs \<Longrightarrow> \<exists>vs. struct_fields fs bs = Inr vs \<and> length vs = length fs"
proof (induction fs arbitrary: bs)
  case (Cons f fs)
  obtain v where v: "fmt_unpack f (take (fmt_size f) bs) = Inr v"
    using Cons.prems by (cases f) (auto simp: struct_size_def unpack_int_def unpack_uint_def)
  obtain vs where vs: "struct_fields fs (drop (fmt_size f) bs) = Inr vs" "length vs = length fs"
    using Cons.IH [of "drop (fmt_size f) bs"] Cons.prems by (force simp: struct_size_def)
  show ?case using v vs by simp
qed simp

lemma length_struct_fields: "struct_fields fs bs = Inr vs \<Longrightarrow> length vs = length fs"
  by (induction fs arbitrary: bs vs) (auto simp: res_eq_Inr)

end
