(* ===== verification/Default_Records.thy ===== *)
theory Default_Records
  imports Struct_Format Varint Crc32c Errors Wire_Types
begin

text \<open>
  \<^verbatim>\<open>kafka/record/default_records.py\<close>: record batches of message format v2.  A batch is a fixed header
  (packed with the struct module) followed by records made of varints, optionally compressed.  The
  builder and the reader are records of their attributes; the compression functions of
  \<^verbatim>\<open>kafka/codec.py\<close> are the argument \<open>cs\<close>, and the clock is the argument \<open>now\<close>.
\<close>

section \<open>Constants\<close>

definition HEADER_STRUCT :: "fmt list" where
  "HEADER_STRUCT = [Sint 8, Sint 4, Sint 4, Sint 1, Uint 4, Sint 2, Sint 4, Sint 8, Sint 8, Sint 8, Sint 2,
     Sint 4, Sint 4]"

definition HEADER_SIZE :: nat where "HEADER_SIZE = struct_size HEADER_STRUCT"
definition ATTRIBUTES_OFFSET :: nat where "ATTRIBUTES_OFFSET = struct_size [Sint 8, Sint 4, Sint 4, Sint 1, Uint 4]"
definition CRC_OFFSET :: nat where "CRC_OFFSET = struct_size [Sint 8, Sint 4, Sint 4, Sint 1]"
definition AFTER_LEN_OFFSET :: nat where "AFTER_LEN_OFFSET = struct_size [Sint 8, Sint 4]"

definition CODEC_MASK :: int where "CODEC_MASK = 0x07"
definition CODEC_NONE :: int where "CODEC_NONE = 0x00"
definition CODEC_GZIP :: int where "CODEC_GZIP = 0x01"
definition CODEC_SNAPPY :: int where "CODEC_SNAPPY = 0x02"
definition CODEC_LZ4 :: int where "CODEC_LZ4 = 0x03"
definition CODEC_ZSTD :: int where "CODEC_ZSTD = 0x04"
definition TIMESTAMP_TYPE_MASK :: int where "TIMESTAMP_TYPE_MASK = 0x08"
definition TRANSACTIONAL_MASK :: int where "TRANSACTIONAL_MASK = 0x10"
definition CONTROL_MASK :: int where "CONTROL_MASK = 0x20"
definition LOG_APPEND_TIME :: int where "LOG_APPEND_TIME = 1"
definition NO_SEQUENCE :: int where "NO_SEQUENCE = - 1"
definition MAX_INT :: int where "MAX_INT = 2147483647"
definition MAX_RECORD_OVERHEAD :: nat where "MAX_RECORD_OVERHEAD = 21"

lemmas codec_defs = CODEC_MASK_def CODEC_NONE_def CODEC_GZIP_def CODEC_SNAPPY_def CODEC_LZ4_def CODEC_ZSTD_def
lemmas offset_defs = HEADER_SIZE_def ATTRIBUTES_OFFSET_def CRC_OFFSET_def AFTER_LEN_OFFSET_def HEADER_STRUCT_def
  struct_size_def

text \<open>What the record layer uses of \<^verbatim>\<open>kafka/codec.py\<close>.\<close>

record codecs =
  has_gzip :: bool
  has_snappy :: bool
  has_lz4 :: bool
  has_zstd :: bool
  gzip_encode :: "bytes \<Rightarrow> bytes res"
  gzip_decode :: "bytes \<Rightarrow> bytes res"
  snappy_encode :: "bytes \<Rightarrow> bytes res"
  snappy_decode :: "bytes \<Rightarrow> bytes res"
  lz4_encode :: "bytes \<Rightarrow> bytes res"
  lz4_decode :: "bytes \<Rightarrow> bytes res"
  lz4_encode_old_kafka :: "bytes \<Rightarrow> bytes res"
  lz4_decode_old_kafka :: "bytes \<Rightarrow> bytes res"
  zstd_encode :: "bytes \<Rightarrow> bytes res"
  zstd_decode :: "bytes \<Rightarrow> bytes res"

definition assert_has_codec :: "codecs \<Rightarrow> int \<Rightarrow> unit res" where
  "assert_has_codec cs compression_type =
     (if compression_type = CODEC_GZIP then require (has_gzip cs) UnsupportedCodecError
      else if compression_type = CODEC_SNAPPY then require (has_snappy cs) UnsupportedCodecError
      else if compression_type = CODEC_LZ4 then require (has_lz4 cs) UnsupportedCodecError
      else if compression_type = CODEC_ZSTD then require (has_zstd cs) UnsupportedCodecError
      else Inl UnsupportedCodecError)"

section \<open>The reader\<close>

record default_batch =
  db_buffer :: bytes
  db_header_data :: "int list"
  db_pos :: nat
  db_num_records :: int
  db_next_record_index :: int
  db_decompressed :: bool

definition DefaultRecordBatch :: "bytes \<Rightarrow> default_batch res" where
  "DefaultRecordBatch buffer =
     res_map (\<lambda>header_data.
       \<lparr>db_buffer = buffer, db_header_data = header_data, db_pos = HEADER_SIZE, db_num_records = header_data ! 12,
        db_next_record_index = 0, db_decompressed = False\<rparr>) (unpack_from HEADER_STRUCT buffer 0)"

definition base_offset :: "default_batch \<Rightarrow> int" where "base_offset b = db_header_data b ! 0"
definition batch_size_in_bytes :: "default_batch \<Rightarrow> int" where
  "batch_size_in_bytes b = db_header_data b ! 1 + int AFTER_LEN_OFFSET"
definition leader_epoch :: "default_batch \<Rightarrow> int" where "leader_epoch b = db_header_data b ! 2"
definition batch_magic :: "default_batch \<Rightarrow> int" where "batch_magic b = db_header_data b ! 3"
definition batch_crc :: "default_batch \<Rightarrow> int" where "batch_crc b = db_header_data b ! 4"
definition attributes :: "default_batch \<Rightarrow> int" where "attributes b = db_header_data b ! 5"
definition last_offset_delta :: "default_batch \<Rightarrow> int" where "last_offset_delta b = db_header_data b ! 6"
definition last_offset :: "default_batch \<Rightarrow> int" where "last_offset b = base_offset b + last_offset_delta b"
definition batch_next_offset :: "default_batch \<Rightarrow> int" where "batch_next_offset b = last_offset b + 1"
definition compression_type :: "default_batch \<Rightarrow> int" where "compression_type b = attributes b AND CODEC_MASK"
definition timestamp_type :: "default_batch \<Rightarrow> int" where
  "timestamp_type b = (if attributes b AND TIMESTAMP_TYPE_MASK \<noteq> 0 then 1 else 0)"
definition is_transactional_batch :: "default_batch \<Rightarrow> bool" where
  "is_transactional_batch b \<longleftrightarrow> attributes b AND TRANSACTIONAL_MASK \<noteq> 0"
definition is_control_batch :: "default_batch \<Rightarrow> bool" where
  "is_control_batch b \<longleftrightarrow> attributes b AND CONTROL_MASK \<noteq> 0"
definition first_timestamp :: "default_batch \<Rightarrow> int" where "first_timestamp b = db_header_data b ! 7"
definition max_timestamp :: "default_batch \<Rightarrow> int" where "max_timestamp b = db_header_data b ! 8"
definition batch_producer_id :: "default_batch \<Rightarrow> int" where "batch_producer_id b = db_header_data b ! 9"
definition batch_has_producer_id :: "default_batch \<Rightarrow> bool" where
  "batch_has_producer_id b \<longleftrightarrow> batch_producer_id b > - 1"
definition batch_producer_epoch :: "default_batch \<Rightarrow> int" where "batch_producer_epoch b = db_header_data b ! 10"
definition base_sequence :: "default_batch \<Rightarrow> int" where "base_sequence b = db_header_data b ! 11"
definition has_sequence :: "default_batch \<Rightarrow> bool" where "has_sequence b \<longleftrightarrow> db_header_data b ! 11 \<noteq> - 1"
definition records_count :: "default_batch \<Rightarrow> int" where "records_count b = db_header_data b ! 12"

definition increment_sequence :: "int \<Rightarrow> int \<Rightarrow> int" where
  "increment_sequence base increment =
     (if base > MAX_INT - increment then increment - (MAX_INT - base) - 1 else base + increment)"

definition last_sequence :: "default_batch \<Rightarrow> int" where
  "last_sequence b =
     (if base_sequence b = NO_SEQUENCE then NO_SEQUENCE
      else increment_sequence (base_sequence b) (last_offset_delta b))"

definition uncompress :: "codecs \<Rightarrow> int \<Rightarrow> bytes \<Rightarrow> bytes res" where
  "uncompress cs ct data =
     (if ct = CODEC_GZIP then gzip_decode cs data
      else if ct = CODEC_SNAPPY then snappy_decode cs data
      else if ct = CODEC_LZ4 then lz4_decode cs data
      else zstd_decode cs data)"

definition maybe_uncompress :: "codecs \<Rightarrow> (default_batch, unit) py" where
  "maybe_uncompress cs =
     py_then
       (py_when (\<lambda>b. \<not> db_decompressed b \<and> compression_type b \<noteq> CODEC_NONE)
         (py_bind (py_get (\<lambda>b. (compression_type b, drop (db_pos b) (db_buffer b)))) (\<lambda>(ct, data).
          py_bind (py_lift (assert_has_codec cs ct)) (\<lambda>_.
          py_bind (py_lift (uncompress cs ct data)) (\<lambda>uncompressed.
            py_set (\<lambda>b. b\<lparr>db_buffer := uncompressed, db_pos := 0\<rparr>))))))
       (py_set (\<lambda>b. b\<lparr>db_decompressed := True\<rparr>))"

text \<open>A record, and the version and type of a control record.\<close>

type_synonym record_headers = "(pystr \<times> bytes option) list"

record default_record =
  dr_size_in_bytes :: int
  dr_offset :: int
  dr_timestamp :: int
  dr_timestamp_type :: int
  dr_key :: "bytes option"
  dr_value :: "bytes option"
  dr_headers :: record_headers
  dr_control :: "(int \<times> int) option"

definition CONTROL_KEY_STRUCT :: "fmt list" where "CONTROL_KEY_STRUCT = [Sint 2, Sint 2]"

definition ControlRecord :: "default_record \<Rightarrow> default_record res" where
  "ControlRecord r =
     (case dr_key r of
        None \<Rightarrow> Inl TypeError
      | Some k \<Rightarrow> res_map (\<lambda>vs. r\<lparr>dr_control := Some (vs ! 0, vs ! 1)\<rparr>) (struct_unpack CONTROL_KEY_STRUCT k))"

definition control_abort :: "default_record \<Rightarrow> bool" where
  "control_abort r \<longleftrightarrow> map_option snd (dr_control r) = Some 0"

definition control_commit :: "default_record \<Rightarrow> bool" where
  "control_commit r \<longleftrightarrow> map_option snd (dr_control r) = Some 1"

text \<open>A length-prefixed field: \<open>bytes(buffer[pos: pos + n])\<close>, or None for a negative length.\<close>

definition read_nullable :: "bytes \<Rightarrow> nat \<Rightarrow> (bytes option \<times> nat) res" where
  "read_nullable buffer pos =
     res_map (\<lambda>(n, pos). if n \<ge> 0 then (Some (take (nat n) (drop pos buffer)), pos + nat n) else (None, pos))
       (decode_varint buffer pos)"

definition read_header_key :: "bytes \<Rightarrow> nat \<Rightarrow> (pystr \<times> nat) res" where
  "read_header_key buffer pos =
     res_bind (decode_varint buffer pos) (\<lambda>(n, pos).
       if n < 0 then Inl CorruptRecordError
       else res_map (\<lambda>k. (k, pos + nat n)) (utf8_decode (take (nat n) (drop pos buffer))))"

primrec read_headers :: "bytes \<Rightarrow> nat \<Rightarrow> nat \<Rightarrow> (record_headers \<times> nat) res" where
  "read_headers buffer 0 pos = Inr ([], pos)"
| "read_headers buffer (Suc header_count) pos =
     res_bind (read_header_key buffer pos) (\<lambda>(h_key, pos).
     res_bind (read_nullable buffer pos) (\<lambda>(h_value, pos).
     res_map (\<lambda>(hs, pos). ((h_key, h_value) # hs, pos)) (read_headers buffer header_count pos)))"

definition read_msg_at :: "default_batch \<Rightarrow> (default_record \<times> nat) res" where
  "read_msg_at b =
     (let buffer = db_buffer b in
      res_bind (decode_varint buffer (db_pos b)) (\<lambda>(len, start_pos).
      res_bind (decode_varint buffer start_pos) (\<lambda>(_, pos).
      res_bind (decode_varint buffer pos) (\<lambda>(ts_delta, pos).
      let timestamp = (if timestamp_type b = LOG_APPEND_TIME then max_timestamp b else first_timestamp b + ts_delta) in
      res_bind (decode_varint buffer pos) (\<lambda>(offset_delta, pos).
      res_bind (read_nullable buffer pos) (\<lambda>(key, pos).
      res_bind (read_nullable buffer pos) (\<lambda>(value, pos).
      res_bind (decode_varint buffer pos) (\<lambda>(header_count, pos).
      if header_count < 0 then Inl CorruptRecordError
      else
      res_bind (read_headers buffer (nat header_count) pos) (\<lambda>(headers, pos).
      if int pos - int start_pos \<noteq> len then Inl CorruptRecordError
      else Inr (\<lparr>dr_size_in_bytes = len, dr_offset = base_offset b + offset_delta, dr_timestamp = timestamp,
              dr_timestamp_type = timestamp_type b, dr_key = key, dr_value = value, dr_headers = headers,
              dr_control = None\<rparr>, pos))))))))))"

definition read_msg :: "(default_batch, default_record) py" where
  "read_msg b =
     (case read_msg_at b of
        Inl e \<Rightarrow> (Inl e, b)
      | Inr (r, pos) \<Rightarrow>
          (if is_control_batch b then ControlRecord r else Inr r, b\<lparr>db_pos := pos\<rparr>))"

definition batch_next :: "(default_batch, default_record) py" where
  "batch_next b =
     (if db_next_record_index b \<ge> db_num_records b
      then (if db_pos b \<noteq> length (db_buffer b) then (Inl CorruptRecordError, b) else (Inl StopIteration, b))
      else
        case read_msg b of
          (Inl e, c) \<Rightarrow>
            (if issubclass e ValueError \<or> issubclass e IndexError then (Inl CorruptRecordError, c) else (Inl e, c))
        | (Inr r, c) \<Rightarrow> (Inr r, c\<lparr>db_next_record_index := db_next_record_index c + 1\<rparr>))"

text \<open>A \<open>for\<close> loop over a batch: the records up to \<open>StopIteration\<close>, or the exception that ended it.\<close>

lemma batch_next_index:
  "(Inr r, c) = batch_next b \<Longrightarrow>
     db_next_record_index c = db_next_record_index b + 1 \<and> db_num_records c = db_num_records b \<and>
     db_next_record_index b < db_num_records b"
  by (auto simp: batch_next_def read_msg_def split: if_splits sum.splits prod.splits)

function batch_records :: "default_batch \<Rightarrow> default_record list \<times> exn_class" where
  "batch_records b =
     (case batch_next b of
        (Inl e, c) \<Rightarrow> ([], e)
      | (Inr r, c) \<Rightarrow> (case batch_records c of (rs, e) \<Rightarrow> (r # rs, e)))"
  by pat_completeness auto
termination
  by (relation "measure (\<lambda>b. nat (db_num_records b - db_next_record_index b))") (auto dest!: batch_next_index)

declare batch_records.simps [simp del]

definition validate_crc :: "default_batch \<Rightarrow> bool res" where
  "validate_crc b =
     (if db_decompressed b then Inl AssertionError
      else Inr (batch_crc b = calc_crc32c (drop ATTRIBUTES_OFFSET (db_buffer b))))"

section \<open>The builder\<close>

record default_builder =
  bd_magic :: int
  bd_compression_type :: int
  bd_batch_size :: int
  bd_is_transactional :: bool
  bd_producer_id :: int
  bd_producer_epoch :: int
  bd_base_sequence :: int
  bd_first_timestamp :: "int option"
  bd_max_timestamp :: "int option"
  bd_last_offset :: int
  bd_num_records :: int
  bd_buffer :: bytes

definition DefaultRecordBatchBuilder ::
  "int \<Rightarrow> int \<Rightarrow> bool \<Rightarrow> int \<Rightarrow> int \<Rightarrow> int \<Rightarrow> int \<Rightarrow> default_builder res" where
  "DefaultRecordBatchBuilder magic ct transactional pid epoch base_seq batch_size =
     (if \<not> magic \<ge> 2 then Inl AssertionError
      else Inr \<lparr>bd_magic = magic, bd_compression_type = ct AND CODEC_MASK, bd_batch_size = batch_size,
        bd_is_transactional = transactional, bd_producer_id = pid, bd_producer_epoch = epoch,
        bd_base_sequence = base_seq, bd_first_timestamp = None, bd_max_timestamp = None, bd_last_offset = 0,
        bd_num_records = 0, bd_buffer = replicate HEADER_SIZE 0\<rparr>)"

definition set_producer_state :: "int \<Rightarrow> int \<Rightarrow> int \<Rightarrow> bool \<Rightarrow> (default_builder, unit) py" where
  "set_producer_state pid epoch base_seq transactional =
     py_then (py_assert (\<lambda>_. \<not> transactional \<or> pid \<noteq> - 1))
    (py_then (py_assert (\<lambda>_. pid = - 1 \<or> epoch \<noteq> - 1))
    (py_then (py_assert (\<lambda>_. pid = - 1 \<or> base_seq \<noteq> - 1))
       (py_set (\<lambda>s. s\<lparr>bd_producer_id := pid, bd_producer_epoch := epoch, bd_base_sequence := base_seq,
          bd_is_transactional := transactional\<rparr>))))"

definition get_attributes :: "bool \<Rightarrow> default_builder \<Rightarrow> int" where
  "get_attributes include_compression_type s =
     (let attrs = (if include_compression_type then 0 OR bd_compression_type s else 0)
      in if bd_is_transactional s then attrs OR TRANSACTIONAL_MASK else attrs)"

text \<open>\<open>encode_varint(v, buffer.append)\<close>: the bytes appended.\<close>

definition varint_bytes :: "int \<Rightarrow> bytes" where
  "varint_bytes v = map byte_of (fst (encode_varint v))"

definition write_nullable :: "bytes option \<Rightarrow> bytes" where
  "write_nullable v = (case v of None \<Rightarrow> [byte_of 1] | Some bs \<Rightarrow> varint_bytes (int (length bs)) @ bs)"

primrec write_headers :: "record_headers \<Rightarrow> bytes res" where
  "write_headers [] = Inr []"
| "write_headers (h # hs) =
     res_bind (utf8_encode (fst h)) (\<lambda>k.
       res_map (\<lambda>rest. varint_bytes (int (length k)) @ k @ write_nullable (snd h) @ rest) (write_headers hs))"

definition message_buffer :: "int \<Rightarrow> int \<Rightarrow> bytes option \<Rightarrow> bytes option \<Rightarrow> record_headers \<Rightarrow> bytes res" where
  "message_buffer timestamp_delta offset key value headers =
     res_map (\<lambda>hs. [0] @ varint_bytes timestamp_delta @ varint_bytes offset @ write_nullable key @
       write_nullable value @ varint_bytes (int (length headers)) @ hs) (write_headers headers)"

text \<open>The type checks of \<open>append\<close>: offset, timestamp (the clock when None), key and value.\<close>

definition bytes_arg :: "pyval \<Rightarrow> bytes option res" where
  "bytes_arg v = (case v of VNone \<Rightarrow> Inr None | VBytes b \<Rightarrow> Inr (Some b) | _ \<Rightarrow> Inl TypeError)"

definition int_arg :: "pyval \<Rightarrow> int res" where
  "int_arg v = (case v of VInt i \<Rightarrow> Inr i | _ \<Rightarrow> Inl TypeError)"

definition timestamp_arg :: "int \<Rightarrow> pyval \<Rightarrow> int res" where
  "timestamp_arg now v = (case v of VNone \<Rightarrow> Inr now | _ \<Rightarrow> int_arg v)"

record record_metadata =
  rm_offset :: int
  rm_size :: int
  rm_timestamp :: int

definition append_record ::
  "int \<Rightarrow> int \<Rightarrow> bytes option \<Rightarrow> bytes option \<Rightarrow> record_headers \<Rightarrow> (default_builder, record_metadata option) py" where
  "append_record offset timestamp key value headers s =
     (let first_message = (bd_first_timestamp s = None);
          s1 = (if first_message then s\<lparr>bd_first_timestamp := Some timestamp, bd_max_timestamp := Some timestamp\<rparr> else s);
          timestamp_delta = (case bd_first_timestamp s of None \<Rightarrow> 0 | Some ts \<Rightarrow> timestamp - ts)
      in case message_buffer timestamp_delta offset key value headers of
           Inl e \<Rightarrow> (Inl e, s1)
         | Inr msg \<Rightarrow>
             let message_len = int (length msg);
                 required_size = message_len + size_of_varint message_len
             in if required_size + int (length (bd_buffer s)) > bd_batch_size s \<and> \<not> first_message then (Inr None, s1)
                else (Inr (Some \<lparr>rm_offset = offset, rm_size = required_size, rm_timestamp = timestamp\<rparr>),
                      s1\<lparr>bd_max_timestamp := (if the (bd_max_timestamp s1) < timestamp then Some timestamp
                                              else bd_max_timestamp s1),
                         bd_num_records := bd_num_records s1 + 1, bd_last_offset := offset,
                         bd_buffer := bd_buffer s1 @ varint_bytes message_len @ msg\<rparr>))"

definition default_append ::
  "int \<Rightarrow> pyval \<Rightarrow> pyval \<Rightarrow> pyval \<Rightarrow> pyval \<Rightarrow> record_headers \<Rightarrow> (default_builder, record_metadata option) py" where
  "default_append now offset timestamp key value headers =
     py_bind (py_lift (int_arg offset)) (\<lambda>offset.
     py_bind (py_lift (timestamp_arg now timestamp)) (\<lambda>timestamp.
     py_bind (py_lift (bytes_arg key)) (\<lambda>key.
     py_bind (py_lift (bytes_arg value)) (\<lambda>value.
       append_record offset timestamp key value headers))))"

definition header_values :: "bool \<Rightarrow> default_builder \<Rightarrow> int list" where
  "header_values use_compression_type s =
     [0, int (length (bd_buffer s)) - int AFTER_LEN_OFFSET, 0, bd_magic s, 0, get_attributes use_compression_type s,
      bd_last_offset s, (case bd_first_timestamp s of None \<Rightarrow> 0 | Some ts \<Rightarrow> ts),
      (case bd_max_timestamp s of None \<Rightarrow> 0 | Some ts \<Rightarrow> ts), bd_producer_id s, bd_producer_epoch s,
      bd_base_sequence s, bd_num_records s]"

definition write_header :: "bool \<Rightarrow> (default_builder, unit) py" where
  "write_header use_compression_type s =
     (case pack_into HEADER_STRUCT (bd_buffer s) 0 (header_values use_compression_type s) of
        Inl e \<Rightarrow> (Inl e, s)
      | Inr buf \<Rightarrow>
          case pack_into [Uint 4] buf CRC_OFFSET [calc_crc32c (drop ATTRIBUTES_OFFSET buf)] of
            Inl e \<Rightarrow> (Inl e, s\<lparr>bd_buffer := buf\<rparr>)
          | Inr buf' \<Rightarrow> (Inr (), s\<lparr>bd_buffer := buf'\<rparr>))"

definition compress :: "codecs \<Rightarrow> int \<Rightarrow> bytes \<Rightarrow> bytes res" where
  "compress cs ct data =
     (if ct = CODEC_GZIP then gzip_encode cs data
      else if ct = CODEC_SNAPPY then snappy_encode cs data
      else if ct = CODEC_LZ4 then lz4_encode cs data
      else zstd_encode cs data)"

definition maybe_compress :: "codecs \<Rightarrow> (default_builder, bool) py" where
  "maybe_compress cs =
     py_if (\<lambda>s. bd_compression_type s \<noteq> CODEC_NONE)
       (py_bind (py_get (\<lambda>s. (bd_compression_type s, drop HEADER_SIZE (bd_buffer s)))) (\<lambda>(ct, data).
        py_bind (py_lift (assert_has_codec cs ct)) (\<lambda>_.
        py_bind (py_lift (compress cs ct data)) (\<lambda>compressed.
          if length data \<le> length compressed then py_return False
          else py_then (py_set (\<lambda>s. s\<lparr>bd_buffer := take HEADER_SIZE (bd_buffer s) @ compressed\<rparr>))
                 (py_return True)))))
       (py_return False)"

definition default_build :: "codecs \<Rightarrow> (default_builder, bytes) py" where
  "default_build cs =
     py_bind (maybe_compress cs) (\<lambda>send_compressed.
     py_then (write_header send_compressed) (py_get bd_buffer))"

definition builder_size :: "default_builder \<Rightarrow> int" where "builder_size s = int (length (bd_buffer s))"

definition size_of_nullable :: "bytes option \<Rightarrow> int" where
  "size_of_nullable v = (case v of None \<Rightarrow> 1 | Some bs \<Rightarrow> size_of_varint (int (length bs)) + int (length bs))"

primrec size_of_headers :: "record_headers \<Rightarrow> int res" where
  "size_of_headers [] = Inr 0"
| "size_of_headers (h # hs) =
     res_bind (utf8_encode (fst h)) (\<lambda>k.
       res_map (\<lambda>rest. size_of_varint (int (length k)) + int (length k) + size_of_nullable (snd h) + rest)
         (size_of_headers hs))"

definition size_of :: "bytes option \<Rightarrow> bytes option \<Rightarrow> record_headers \<Rightarrow> int res" where
  "size_of key value headers =
     res_map (\<lambda>hs. size_of_nullable key + size_of_nullable value + size_of_varint (int (length headers)) + hs)
       (size_of_headers headers)"

definition size_in_bytes :: "int \<Rightarrow> int \<Rightarrow> bytes option \<Rightarrow> bytes option \<Rightarrow> record_headers \<Rightarrow> int res" where
  "size_in_bytes offset_delta timestamp_delta key value headers =
     res_map (\<lambda>sz. let size_of_body = 1 + size_of_varint offset_delta + size_of_varint timestamp_delta + sz
                   in size_of_body + size_of_varint size_of_body) (size_of key value headers)"

definition estimate_size_in_bytes :: "bytes option \<Rightarrow> bytes option \<Rightarrow> record_headers \<Rightarrow> int res" where
  "estimate_size_in_bytes key value headers =
     res_map (\<lambda>sz. int HEADER_SIZE + int MAX_RECORD_OVERHEAD + sz) (size_of key value headers)"

end
