(* ===== verification/Record_Batches.thy ===== *)
theory Record_Batches
  imports Default_Records
begin

text \<open>
  What the builder of v2 record batches writes is what the reader reads.  The locale \<open>positional\<close> is
  the contract between a writer of a field and its reader at a position of a buffer; it is
  interpreted for varints and nullable byte strings.  The builder is related to the list of records
  it holds; appending refines adding to that list, and building then reading returns it.
\<close>

section \<open>Fields at a position\<close>

definition at :: "bytes \<Rightarrow> nat \<Rightarrow> bytes \<Rightarrow> bool" where
  "at buf n xs \<longleftrightarrow> n \<le> length buf \<and> drop n buf = xs"

lemma at_length: "at (pre @ xs) (length pre) xs"
  by (simp add: at_def)

lemma at_split: "at buf n xs \<Longrightarrow> \<exists>pre. buf = pre @ xs \<and> n = length pre"
  by (metis append_take_drop_id at_def length_take min.absorb2)

lemma at_skip: "at buf n (xs @ ys) \<Longrightarrow> at buf (n + length xs) ys"
  by (drule at_split) (auto simp: at_def)

lemma at_take: "at buf n (xs @ ys) \<Longrightarrow> take (length xs) (drop n buf) = xs"
  by (simp add: at_def)

locale positional =
  fixes put :: "'a \<Rightarrow> bytes" and get :: "bytes \<Rightarrow> nat \<Rightarrow> ('a \<times> nat) res" and ok :: "'a \<Rightarrow> bool"
  assumes get_put: "ok x \<Longrightarrow> get (pre @ put x @ suf) (length pre) = Inr (x, length pre + length (put x))"
begin

lemma get_at: "at buf n (put x @ suf) \<Longrightarrow> ok x \<Longrightarrow> get buf n = Inr (x, n + length (put x))"
  using get_put [of x _ suf] by (auto dest!: at_split)

lemma get_then: "at buf n (put x @ suf) \<Longrightarrow> ok x \<Longrightarrow> res_bind (get buf n) f = f (x, n + length (put x))"
  by (simp add: get_at)

end

definition int64 :: "int \<Rightarrow> bool" where
  "int64 v \<longleftrightarrow> - (2 ^ 63) \<le> v \<and> v < 2 ^ 63"

interpretation vi: positional varint_bytes decode_varint int64
  by unfold_locales (simp add: varint_bytes_def varint_enc_dec int64_def)

lemma varint_bytes_size: "int64 v \<Longrightarrow> int (length (varint_bytes v)) = size_of_varint v"
  by (simp add: varint_bytes_def size_of_varint_length int64_def)

lemma varint_minus_one: "varint_bytes (- 1) = [byte_of 1]"
  by (simp add: varint_bytes_def encode_varint_def zigzag_def)

definition nullable_ok :: "bytes option \<Rightarrow> bool" where
  "nullable_ok v \<longleftrightarrow> (case v of None \<Rightarrow> True | Some b \<Rightarrow> int64 (int (length b)))"

interpretation nu: positional write_nullable read_nullable nullable_ok
proof unfold_locales
  fix v :: "bytes option" and pre suf
  assume ok: "nullable_ok v"
  show "read_nullable (pre @ write_nullable v @ suf) (length pre) = Inr (v, length pre + length (write_nullable v))"
  proof (cases v)
    case None
    have "decode_varint (pre @ varint_bytes (- 1) @ suf) (length pre) = Inr (- 1, length pre + 1)"
      using vi.get_put [of "- 1" pre suf] by (simp add: int64_def varint_minus_one)
    then show ?thesis using None by (simp add: read_nullable_def write_nullable_def varint_minus_one)
  next
    case (Some b)
    then have "int64 (int (length b))" using ok by (simp add: nullable_ok_def)
    then have "decode_varint (pre @ varint_bytes (int (length b)) @ b @ suf) (length pre) =
        Inr (int (length b), length pre + length (varint_bytes (int (length b))))"
      using vi.get_put [of "int (length b)" pre "b @ suf"] by simp
    then show ?thesis using Some by (simp add: read_nullable_def write_nullable_def)
  qed
qed

lemma write_nullable_size: "nullable_ok v \<Longrightarrow> int (length (write_nullable v)) = size_of_nullable v"
  by (cases v) (simp_all add: write_nullable_def size_of_nullable_def nullable_ok_def varint_bytes_size)

definition headers_ok :: "record_headers \<Rightarrow> bool" where
  "headers_ok hs \<longleftrightarrow> int64 (int (length hs)) \<and>
     (\<forall>(k, v) \<in> set hs. nullable_ok v \<and> (\<forall>b. utf8_encode k = Inr b \<longrightarrow> int64 (int (length b))))"

lemma read_headers_at:
  assumes "write_headers hs = Inr bs" "at buf n (bs @ suf)"
    and "\<forall>(k, v) \<in> set hs. nullable_ok v \<and> (\<forall>b. utf8_encode k = Inr b \<longrightarrow> int64 (int (length b)))"
  shows "read_headers buf (length hs) n = Inr (hs, n + length bs)"
  using assms
proof (induction hs arbitrary: bs n)
  case (Cons h hs)
  obtain k v where h: "h = (k, v)" by (cases h)
  obtain kb rest where kb: "utf8_encode k = Inr kb" and rest: "write_headers hs = Inr rest"
    and bs: "bs = varint_bytes (int (length kb)) @ kb @ write_nullable v @ rest"
    using Cons.prems(1) by (auto simp: h res_eq_Inr)
  have ok: "int64 (int (length kb))" "nullable_ok v" using Cons.prems(3) kb by (auto simp: h)
  let ?n1 = "n + length (varint_bytes (int (length kb)))"
  have at1: "at buf ?n1 (kb @ write_nullable v @ rest @ suf)"
    using Cons.prems(2) by (intro at_skip) (simp add: bs)
  have key: "read_header_key buf n = Inr (k, ?n1 + length kb)"
    using Cons.prems(2) ok(1) at_take [OF at1]
    by (simp add: read_header_key_def bs vi.get_at utf8_roundtrip [OF kb])
  have at2: "at buf (?n1 + length kb) (write_nullable v @ rest @ suf)" using at_skip [OF at1] .
  have at3: "at buf (?n1 + length kb + length (write_nullable v)) (rest @ suf)" using at_skip [OF at2] .
  show ?case
    using key nu.get_at [OF at2 ok(2)] Cons.IH [OF rest at3] Cons.prems(3) by (simp add: h bs add.assoc)
qed simp

section \<open>A record\<close>

record entry =
  e_offset :: int
  e_timestamp :: int
  e_key :: "bytes option"
  e_value :: "bytes option"
  e_headers :: record_headers

definition entry_bytes :: "int \<Rightarrow> entry \<Rightarrow> bytes res" where
  "entry_bytes base_ts e = message_buffer (e_timestamp e - base_ts) (e_offset e) (e_key e) (e_value e) (e_headers e)"

definition entry_ok :: "int \<Rightarrow> entry \<Rightarrow> bool" where
  "entry_ok base_ts e \<longleftrightarrow> int64 (e_offset e) \<and> int64 (e_timestamp e - base_ts) \<and> nullable_ok (e_key e) \<and>
     nullable_ok (e_value e) \<and> headers_ok (e_headers e) \<and>
     (\<forall>msg. entry_bytes base_ts e = Inr msg \<longrightarrow> int64 (int (length msg)))"

text \<open>The record the reader returns for an entry.\<close>

definition entry_record :: "default_batch \<Rightarrow> nat \<Rightarrow> entry \<Rightarrow> default_record" where
  "entry_record b n e =
     \<lparr>dr_size_in_bytes = int n, dr_offset = base_offset b + e_offset e, dr_timestamp = e_timestamp e,
      dr_timestamp_type = 0, dr_key = e_key e, dr_value = e_value e, dr_headers = e_headers e, dr_control = None\<rparr>"

lemma read_msg_at_entry:
  assumes msg: "entry_bytes (first_timestamp b) e = Inr msg" and ok: "entry_ok (first_timestamp b) e"
    and at: "at (db_buffer b) (db_pos b) (varint_bytes (int (length msg)) @ msg @ suf)"
    and ty: "timestamp_type b = 0"
  shows "read_msg_at b =
    Inr (entry_record b (length msg) e, db_pos b + length (varint_bytes (int (length msg))) + length msg)"
proof -
  obtain hs where hs: "write_headers (e_headers e) = Inr hs"
    and msg': "msg = varint_bytes 0 @ varint_bytes (e_timestamp e - first_timestamp b) @ varint_bytes (e_offset e) @
      write_nullable (e_key e) @ write_nullable (e_value e) @ varint_bytes (int (length (e_headers e))) @ hs"
    using msg by (auto simp: entry_bytes_def message_buffer_def res_eq_Inr varint_bytes_def encode_varint_def zigzag_def byte_of_def)
  let ?p0 = "db_pos b + length (varint_bytes (int (length msg)))"
  let ?p1 = "?p0 + length (varint_bytes 0)"
  let ?p2 = "?p1 + length (varint_bytes (e_timestamp e - first_timestamp b))"
  let ?p3 = "?p2 + length (varint_bytes (e_offset e))"
  let ?p4 = "?p3 + length (write_nullable (e_key e))"
  let ?p5 = "?p4 + length (write_nullable (e_value e))"
  let ?p6 = "?p5 + length (varint_bytes (int (length (e_headers e))))"
  have at0: "at (db_buffer b) ?p0 (msg @ suf)" by (rule at_skip [OF at])
  have body: "msg @ suf = varint_bytes 0 @ varint_bytes (e_timestamp e - first_timestamp b) @ varint_bytes (e_offset e) @
      write_nullable (e_key e) @ write_nullable (e_value e) @ varint_bytes (int (length (e_headers e))) @ hs @ suf"
    using msg' by simp
  have at0': "at (db_buffer b) ?p0 (varint_bytes 0 @ varint_bytes (e_timestamp e - first_timestamp b) @ varint_bytes (e_offset e) @
      write_nullable (e_key e) @ write_nullable (e_value e) @ varint_bytes (int (length (e_headers e))) @ hs @ suf)"
    using at0 unfolding body .
  have at1: "at (db_buffer b) ?p1 (varint_bytes (e_timestamp e - first_timestamp b) @ varint_bytes (e_offset e) @
      write_nullable (e_key e) @ write_nullable (e_value e) @ varint_bytes (int (length (e_headers e))) @ hs @ suf)"
    by (rule at_skip [OF at0'])
  note at2 = at_skip [OF at1] note at3 = at_skip [OF at2] note at4 = at_skip [OF at3]
  note at5 = at_skip [OF at4] note at6 = at_skip [OF at5]
  have end_pos: "?p6 + length hs = ?p0 + length msg"
    using arg_cong [OF body, of length] by simp
  have "int64 0" by (simp add: int64_def)
  have oks: "int64 (int (length msg))" "int64 (e_timestamp e - first_timestamp b)" "int64 (e_offset e)"
    "nullable_ok (e_key e)" "nullable_ok (e_value e)" "int64 (int (length (e_headers e)))"
    using ok msg by (auto simp: entry_ok_def headers_ok_def)
  have hdrs: "read_headers (db_buffer b) (length (e_headers e)) ?p6 = Inr (e_headers e, ?p6 + length hs)"
    using ok by (intro read_headers_at [OF hs at6]) (auto simp: entry_ok_def headers_ok_def)
  have d1: "decode_varint (db_buffer b) ?p0 = Inr (0, ?p1)"
    by (rule vi.get_at [OF at0' \<open>int64 0\<close>])
  show ?thesis
    unfolding read_msg_at_def Let_def
    using d1 hdrs end_pos ty
    by (simp add: vi.get_at [OF at oks(1)] vi.get_at [OF at1 oks(2)] vi.get_at [OF at2 oks(3)]
        nu.get_at [OF at3 oks(4)] nu.get_at [OF at4 oks(5)] vi.get_at [OF at5 oks(6)]
        entry_record_def LOG_APPEND_TIME_def)
qed

section \<open>A batch of records\<close>

definition framed :: "bytes \<Rightarrow> bytes" where
  "framed msg = varint_bytes (int (length msg)) @ msg"

lemma batch_next_entry:
  assumes "entry_bytes (first_timestamp b) e = Inr msg" "entry_ok (first_timestamp b) e"
    and "at (db_buffer b) (db_pos b) (framed msg @ suf)"
    and "timestamp_type b = 0" "\<not> is_control_batch b" "db_next_record_index b < db_num_records b"
  shows "batch_next b = (Inr (entry_record b (length msg) e),
    b\<lparr>db_pos := db_pos b + length (framed msg), db_next_record_index := db_next_record_index b + 1\<rparr>)"
proof -
  have "at (db_buffer b) (db_pos b) (varint_bytes (int (length msg)) @ msg @ suf)"
    using assms(3) by (simp add: framed_def)
  from read_msg_at_entry [OF assms(1,2) this assms(4)]
  show ?thesis using assms(5,6) by (simp add: batch_next_def read_msg_def framed_def add.assoc)
qed

lemma batch_records_entries:
  assumes "list_all2 (\<lambda>e msg. entry_bytes (first_timestamp b) e = Inr msg \<and> entry_ok (first_timestamp b) e) es msgs"
    and "at (db_buffer b) (db_pos b) (concat (map framed msgs))"
    and "timestamp_type b = 0" "\<not> is_control_batch b" "db_num_records b = db_next_record_index b + int (length es)"
  shows "batch_records b = (map2 (\<lambda>e msg. entry_record b (length msg) e) es msgs, StopIteration)"
  using assms
proof (induction es arbitrary: b msgs)
  case Nil
  then show ?case by (simp add: batch_records.simps batch_next_def at_def)
next
  case (Cons e es)
  obtain msg ms where msgs: "msgs = msg # ms" using Cons.prems(1) by (auto simp: list_all2_Cons1)
  let ?c = "b\<lparr>db_pos := db_pos b + length (framed msg), db_next_record_index := db_next_record_index b + 1\<rparr>"
  have same: "first_timestamp ?c = first_timestamp b" "timestamp_type ?c = timestamp_type b"
    "is_control_batch ?c = is_control_batch b" "entry_record ?c = entry_record b"
    by (auto simp: first_timestamp_def timestamp_type_def is_control_batch_def attributes_def entry_record_def
        base_offset_def fun_eq_iff)
  have next_ok: "batch_next b = (Inr (entry_record b (length msg) e), ?c)"
    using Cons.prems by (intro batch_next_entry) (auto simp: msgs)
  have "at (db_buffer ?c) (db_pos ?c) (concat (map framed ms))"
    using Cons.prems(2) at_skip [of "db_buffer b" "db_pos b" "framed msg"] by (simp add: msgs)
  then have "batch_records ?c = (map2 (\<lambda>e msg. entry_record b (length msg) e) es ms, StopIteration)"
    using Cons.IH [of ?c ms] Cons.prems unfolding same by (simp add: msgs)
  then show ?case by (subst batch_records.simps) (simp add: next_ok msgs)
qed

section \<open>The builder\<close>

definition first_ts :: "entry list \<Rightarrow> int" where
  "first_ts es = (case es of [] \<Rightarrow> 0 | e # _ \<Rightarrow> e_timestamp e)"

text \<open>The builder holds the entries: the abstraction of its state.\<close>

definition holds :: "default_builder \<Rightarrow> entry list \<Rightarrow> bool" where
  "holds s es \<longleftrightarrow>
     0 \<le> bd_compression_type s \<and> bd_compression_type s < 8 \<and> bd_num_records s = int (length es) \<and>
     HEADER_SIZE \<le> length (bd_buffer s) \<and>
     (if es = [] then bd_first_timestamp s = None \<and> bd_max_timestamp s = None \<and> bd_last_offset s = 0
      else bd_first_timestamp s = Some (first_ts es) \<and> bd_max_timestamp s = Some (Max (e_timestamp ` set es)) \<and>
           bd_last_offset s = e_offset (last es)) \<and>
     (\<exists>msgs. list_all2 (\<lambda>e msg. entry_bytes (first_ts es) e = Inr msg) es msgs \<and>
        drop HEADER_SIZE (bd_buffer s) = concat (map framed msgs))"

lemma new_builder_holds:
  assumes "DefaultRecordBatchBuilder magic ct tx pid epoch seq bs = Inr s"
  shows "holds s []"
proof -
  have "ct AND 7 = ct mod 8" using take_bit_eq_mask [of 3 ct] by (simp add: take_bit_eq_mod mask_eq_exp_minus_1)
  then show ?thesis using assms
    by (auto simp: holds_def DefaultRecordBatchBuilder_def CODEC_MASK_def split: if_splits)
qed

lemma first_ts_snoc: "es \<noteq> [] \<Longrightarrow> first_ts (es @ [e]) = first_ts es"
  by (cases es) (simp_all add: first_ts_def)

lemma append_holds:
  assumes "holds s es"
    and "append_record (e_offset e) (e_timestamp e) (e_key e) (e_value e) (e_headers e) s = (Inr (Some md), t)"
  shows "holds t (es @ [e])"
proof -
  obtain msgs where msgs: "list_all2 (\<lambda>e msg. entry_bytes (first_ts es) e = Inr msg) es msgs"
    "drop HEADER_SIZE (bd_buffer s) = concat (map framed msgs)" using assms(1) by (auto simp: holds_def)
  let ?base = "first_ts (es @ [e])"
  have base: "(case bd_first_timestamp s of None \<Rightarrow> 0 | Some ts \<Rightarrow> e_timestamp e - ts) = e_timestamp e - ?base"
    using assms(1) by (cases es) (auto simp: holds_def first_ts_def)
  obtain msg where msg: "entry_bytes ?base e = Inr msg" and t: "bd_buffer t = bd_buffer s @ framed msg"
    "bd_num_records t = bd_num_records s + 1" "bd_last_offset t = e_offset e"
    "bd_compression_type t = bd_compression_type s"
    "bd_first_timestamp t = (if es = [] then Some (e_timestamp e) else bd_first_timestamp s)"
    "bd_max_timestamp t = (if es = [] then Some (e_timestamp e)
       else if the (bd_max_timestamp s) < e_timestamp e then Some (e_timestamp e) else bd_max_timestamp s)"
    using assms unfolding append_record_def Let_def base
    by (auto simp: entry_bytes_def framed_def holds_def split: sum.splits if_splits)
  have "list_all2 (\<lambda>e msg. entry_bytes ?base e = Inr msg) (es @ [e]) (msgs @ [msg])"
    using msgs(1) msg by (cases "es = []") (auto simp: first_ts_snoc list_all2_appendI)
  moreover have "drop HEADER_SIZE (bd_buffer t) = concat (map framed (msgs @ [msg]))"
    using msgs(2) assms(1) by (simp add: t holds_def)
  moreover have "bd_max_timestamp t = Some (Max (e_timestamp ` set (es @ [e])))"
  proof (cases "es = []")
    case False
    define M where "M = Max (e_timestamp ` set es)"
    have "Max (e_timestamp ` set (es @ [e])) = max (e_timestamp e) M" using False by (simp add: M_def)
    moreover have "bd_max_timestamp s = Some M" using False assms(1) by (simp add: holds_def M_def)
    ultimately show ?thesis using False by (simp add: t max_def)
  qed (simp add: t)
  ultimately show ?thesis
    using assms(1) by (auto simp: holds_def t first_ts_snoc first_ts_def split: list.splits)
qed

lemma append_refused:
  assumes "holds s es"
    and "append_record (e_offset e) (e_timestamp e) (e_key e) (e_value e) (e_headers e) s = (Inr None, t)"
  shows "t = s \<and> es \<noteq> []"
  using assms by (auto simp: append_record_def Let_def holds_def split: sum.splits if_splits)

lemma append_size:
  assumes "holds s es"
    and "append_record (e_offset e) (e_timestamp e) (e_key e) (e_value e) (e_headers e) s = (Inr (Some md), t)"
    and "entry_ok (first_ts (es @ [e])) e"
  shows "int (length (bd_buffer t)) = int (length (bd_buffer s)) + rm_size md \<and>
    rm_offset md = e_offset e \<and> rm_timestamp md = e_timestamp e \<and>
    (es \<noteq> [] \<longrightarrow> int (length (bd_buffer t)) \<le> bd_batch_size s)"
proof -
  let ?base = "first_ts (es @ [e])"
  have base: "(case bd_first_timestamp s of None \<Rightarrow> 0 | Some ts \<Rightarrow> e_timestamp e - ts) = e_timestamp e - ?base"
    using assms(1) by (cases es) (auto simp: holds_def first_ts_def)
  obtain msg where msg: "entry_bytes ?base e = Inr msg"
    using assms(2) unfolding append_record_def Let_def base by (auto simp: entry_bytes_def split: sum.splits)
  then have sz: "int (length (varint_bytes (int (length msg)))) = size_of_varint (int (length msg))"
    using assms(3) by (intro varint_bytes_size) (simp add: entry_ok_def)
  show ?thesis
    using assms(1,2) msg sz unfolding append_record_def Let_def base
    by (auto simp: entry_bytes_def holds_def split: if_splits)
qed

section \<open>Building\<close>

lemma struct_pack_append:
  "length fs = length vs \<Longrightarrow>
   struct_pack (fs @ gs) (vs @ ws) = res_bind (struct_pack fs vs) (\<lambda>a. res_map (\<lambda>b. a @ b) (struct_pack gs ws))"
proof (induction fs vs rule: list_induct2)
  case Nil
  then show ?case by (cases "struct_pack gs ws") simp_all
next
  case (Cons f fs v vs)
  then show ?case by (cases "fmt_pack f v"; cases "struct_pack fs vs"; cases "struct_pack gs ws") simp_all
qed

definition HEADER_PRE :: "fmt list" where "HEADER_PRE = [Sint 8, Sint 4, Sint 4, Sint 1]"
definition HEADER_POST :: "fmt list" where
  "HEADER_POST = [Sint 2, Sint 4, Sint 8, Sint 8, Sint 8, Sint 2, Sint 4, Sint 4]"

lemma HEADER_STRUCT_parts: "HEADER_STRUCT = HEADER_PRE @ [Uint 4] @ HEADER_POST"
  by (simp add: HEADER_STRUCT_def HEADER_PRE_def HEADER_POST_def)

lemma header_sizes: "HEADER_SIZE = 61" "CRC_OFFSET = 17" "ATTRIBUTES_OFFSET = 21" "AFTER_LEN_OFFSET = 12"
  "struct_size HEADER_PRE = 17" "struct_size HEADER_POST = 40" "struct_size HEADER_STRUCT = 61" "struct_size [Uint 4] = 4"
  by (simp_all add: offset_defs HEADER_PRE_def HEADER_POST_def)

lemma calc_crc32c_range: "0 \<le> calc_crc32c d \<and> calc_crc32c d < 256 ^ 4"
  using uint_range_size [of "crc d"] by (simp add: calc_crc32c_def word_size)

text \<open>What \<open>write_header\<close> leaves in the buffer: the header with its CRC in place, and the body.\<close>

lemma write_header_buffer:
  assumes "write_header c s = (Inr (), t)" "HEADER_SIZE \<le> length (bd_buffer s)"
  shows "\<exists>hdr. struct_pack HEADER_STRUCT
      ((header_values c s)[4 := calc_crc32c (drop ATTRIBUTES_OFFSET (bd_buffer t))]) = Inr hdr \<and>
    bd_buffer t = hdr @ drop HEADER_SIZE (bd_buffer s) \<and> t = s\<lparr>bd_buffer := bd_buffer t\<rparr>"
proof -
  let ?vs = "header_values c s"
  obtain pre post where vs: "?vs = pre @ [0] @ post" and pre: "length pre = 4"
  proof
    show "?vs = take 4 ?vs @ [0] @ drop 5 ?vs" "length (take 4 ?vs) = 4"
      by (simp_all add: header_values_def numeral_eq_Suc)
  qed
  have upd: "?vs[4 := x] = pre @ [x] @ post" for x using pre by (simp add: vs list_update_append)
  have len: "length HEADER_PRE = length pre" by (simp add: HEADER_PRE_def pre)
  obtain buf where buf: "pack_into HEADER_STRUCT (bd_buffer s) 0 ?vs = Inr buf"
    and buf': "pack_into [Uint 4] buf CRC_OFFSET [calc_crc32c (drop ATTRIBUTES_OFFSET buf)] = Inr (bd_buffer t)"
    and t: "t = s\<lparr>bd_buffer := bd_buffer t\<rparr>"
    using assms(1) by (auto simp: write_header_def split: sum.splits)
  obtain h where h: "struct_pack HEADER_STRUCT ?vs = Inr h" "buf = h @ drop HEADER_SIZE (bd_buffer s)"
    using buf by (auto simp: pack_into_def res_eq_Inr header_sizes split: if_splits)
  obtain a z d where az: "struct_pack HEADER_PRE pre = Inr a" "struct_pack [Uint 4] [0] = Inr z"
    "struct_pack HEADER_POST post = Inr d" "h = a @ z @ d"
    using h(1) unfolding HEADER_STRUCT_parts vs struct_pack_append [OF len]
    by (auto simp: res_eq_Inr)
  have lens: "length a = 17" "length z = 4" "length d = 40"
    using length_struct_pack [OF az(1)] length_struct_pack [OF az(2)] length_struct_pack [OF az(3)]
    by (simp_all only: header_sizes)
  define v where "v = calc_crc32c (drop ATTRIBUTES_OFFSET buf)"
  obtain k where k: "struct_pack [Uint 4] [v] = Inr k"
    and bt': "bd_buffer t = take CRC_OFFSET buf @ k @ drop (CRC_OFFSET + struct_size [Uint 4]) buf"
    using buf' by (auto simp: pack_into_def res_eq_Inr v_def [symmetric] simp del: struct_pack.simps split: if_splits)
  have "length k = 4" using length_struct_pack [OF k] by (simp only: header_sizes)
  have bt: "bd_buffer t = a @ k @ d @ drop HEADER_SIZE (bd_buffer s)"
    using lens by (simp add: bt' header_sizes h(2) az(4))
  have "drop ATTRIBUTES_OFFSET (bd_buffer t) = drop ATTRIBUTES_OFFSET buf"
    using lens \<open>length k = 4\<close> by (simp add: bt h(2) az(4) header_sizes)
  moreover have "struct_pack HEADER_STRUCT (?vs[4 := v]) = Inr (a @ k @ d)"
    unfolding HEADER_STRUCT_parts upd struct_pack_append [OF len] using az k by (auto simp: res_eq_Inr)
  ultimately show ?thesis using bt t by (auto simp: v_def)
qed

lemma attribute_bits:
  assumes "0 \<le> bd_compression_type s" "bd_compression_type s < 8"
  shows "get_attributes c s AND CODEC_MASK = (if c then bd_compression_type s else 0)"
    "get_attributes c s AND TIMESTAMP_TYPE_MASK = 0" "get_attributes c s AND CONTROL_MASK = 0"
    "get_attributes c s AND TRANSACTIONAL_MASK \<noteq> 0 \<longleftrightarrow> bd_is_transactional s"
proof -
  have "bd_compression_type s \<in> {0, 1, 2, 3, 4, 5, 6, 7}" using assms by auto
  then show "get_attributes c s AND CODEC_MASK = (if c then bd_compression_type s else 0)"
    "get_attributes c s AND TIMESTAMP_TYPE_MASK = 0" "get_attributes c s AND CONTROL_MASK = 0"
    "get_attributes c s AND TRANSACTIONAL_MASK \<noteq> 0 \<longleftrightarrow> bd_is_transactional s"
    by (auto simp: get_attributes_def Let_def CODEC_MASK_def TIMESTAMP_TYPE_MASK_def CONTROL_MASK_def
        TRANSACTIONAL_MASK_def)
qed

text \<open>What the batch format needs of a compression library.\<close>

definition codec_inverse :: "codecs \<Rightarrow> int \<Rightarrow> bool" where
  "codec_inverse cs ct \<longleftrightarrow> (\<forall>data out. compress cs ct data = Inr out \<longrightarrow> uncompress cs ct out = Inr data)"

lemma maybe_compress_cases:
  assumes "maybe_compress cs s = (Inr c, t)"
  obtains "\<not> c" "t = s"
  | out where "c" "bd_compression_type s \<noteq> CODEC_NONE" "assert_has_codec cs (bd_compression_type s) = Inr ()"
      "compress cs (bd_compression_type s) (drop HEADER_SIZE (bd_buffer s)) = Inr out"
      "t = s\<lparr>bd_buffer := take HEADER_SIZE (bd_buffer s) @ out\<rparr>"
  using assms by (auto simp: maybe_compress_def py_Inr split: if_splits)

text \<open>Opening a built batch: the header is read back with a valid CRC, and decompression restores the
  body the builder held.\<close>

lemma open_built_batch:
  assumes build: "default_build cs s = (Inr buf, t)" and hs: "HEADER_SIZE \<le> length (bd_buffer s)"
    and ct: "0 \<le> bd_compression_type s" "bd_compression_type s < 8"
    and inv: "codec_inverse cs (bd_compression_type s) \<or> bd_compression_type s = CODEC_NONE"
  obtains b b' c u where "DefaultRecordBatch buf = Inr b" "validate_crc b = Inr True" "maybe_uncompress cs b = (Inr (), b')"
    "at (db_buffer b') (db_pos b') (drop HEADER_SIZE (bd_buffer s))"
    "\<exists>crc. db_header_data b' = (header_values c u)[4 := crc]" "u = s\<lparr>bd_buffer := bd_buffer u\<rparr>"
    "db_num_records b' = bd_num_records s" "db_next_record_index b' = 0" "db_header_data b = db_header_data b'"
proof -
  obtain c u where c: "maybe_compress cs s = (Inr c, u)" and wh: "write_header c u = (Inr (), t)" and bt: "buf = bd_buffer t"
    using build by (auto simp: default_build_def py_Inr)
  have u: "u = s\<lparr>bd_buffer := bd_buffer u\<rparr>" and uh: "HEADER_SIZE \<le> length (bd_buffer u)"
    using c hs by (auto elim!: maybe_compress_cases)
  have cu: "bd_compression_type u = bd_compression_type s" "bd_num_records u = bd_num_records s"
    by (subst u, simp)+
  define v where "v = calc_crc32c (drop ATTRIBUTES_OFFSET buf)"
  let ?vals = "(header_values c u)[4 := v]"
  obtain hdr where hdr: "struct_pack HEADER_STRUCT ?vals = Inr hdr" and buf: "buf = hdr @ drop HEADER_SIZE (bd_buffer u)"
    using write_header_buffer [OF wh uh] bt by (auto simp: v_def)
  have len: "length hdr = HEADER_SIZE" using length_struct_pack [OF hdr] by (simp add: HEADER_SIZE_def)
  have "\<forall>f \<in> set HEADER_STRUCT. 0 < fmt_size f" by (simp add: HEADER_STRUCT_def)
  then have read: "unpack_from HEADER_STRUCT buf 0 = Inr ?vals"
    using unpack_from_pack_0 [OF hdr] by (simp add: buf)
  define b where "b = \<lparr>db_buffer = buf, db_header_data = ?vals, db_pos = HEADER_SIZE, db_num_records = ?vals ! 12,
      db_next_record_index = 0, db_decompressed = False\<rparr>"
  have b: "DefaultRecordBatch buf = Inr b" by (simp add: DefaultRecordBatch_def read b_def)
  have crc: "validate_crc b = Inr True" by (simp add: validate_crc_def batch_crc_def b_def header_values_def v_def)
  have cty: "compression_type b = (if c then bd_compression_type s else 0)"
    using attribute_bits(1) [of u c] ct
    by (simp add: compression_type_def attributes_def b_def header_values_def cu numeral_eq_Suc)
  have num: "db_num_records b = bd_num_records s" using cu by (simp add: b_def header_values_def numeral_eq_Suc)
  have body: "drop (db_pos b) (db_buffer b) = drop HEADER_SIZE (bd_buffer u)" by (simp add: b_def buf len)
  have "\<exists>b'. maybe_uncompress cs b = (Inr (), b') \<and> at (db_buffer b') (db_pos b') (drop HEADER_SIZE (bd_buffer s)) \<and>
      b' = b\<lparr>db_buffer := db_buffer b', db_pos := db_pos b', db_decompressed := True\<rparr>"
    using c
  proof (cases rule: maybe_compress_cases)
    case 1
    then show ?thesis
      using cty body hs buf len by (auto simp: maybe_uncompress_def py_defs CODEC_NONE_def at_def b_def)
  next
    case (2 out)
    have out: "drop (db_pos b) (db_buffer b) = out" using 2(5) hs body by simp
    have "uncompress cs (bd_compression_type s) out = Inr (drop HEADER_SIZE (bd_buffer s))"
      using inv 2(2,4) by (auto simp: codec_inverse_def)
    moreover have "compression_type b = bd_compression_type s" using cty 2(1) by simp
    moreover have "\<not> db_decompressed b" by (simp add: b_def)
    ultimately show ?thesis using 2(2,3) out by (auto simp: maybe_uncompress_def py_defs at_def)
  qed
  then obtain b' where b': "maybe_uncompress cs b = (Inr (), b')"
    "at (db_buffer b') (db_pos b') (drop HEADER_SIZE (bd_buffer s))"
    "b' = b\<lparr>db_buffer := db_buffer b', db_pos := db_pos b', db_decompressed := True\<rparr>" by blast
  have "db_header_data b' = ?vals" "db_num_records b' = bd_num_records s" "db_next_record_index b' = 0"
    using num by (subst b'(3), simp add: b_def)+
  then show ?thesis
    using that [of b b' c u] b crc b'(1,2) u by (auto simp: b_def)
qed

text \<open>The header fields are within their formats, and the codec of the batch is there and works.\<close>

definition header_fits :: "default_builder \<Rightarrow> bool" where
  "header_fits s \<longleftrightarrow> list_all2 fmt_fits HEADER_STRUCT (header_values True s)"

definition codec_works :: "codecs \<Rightarrow> int \<Rightarrow> bool" where
  "codec_works cs ct \<longleftrightarrow> ct = CODEC_NONE \<or>
     assert_has_codec cs ct = Inr () \<and> (\<forall>data. \<exists>out. compress cs ct data = Inr out) \<and> codec_inverse cs ct"

lemma header_fits_smaller:
  assumes "header_fits s" "0 \<le> bd_compression_type s" "bd_compression_type s < 8"
    "HEADER_SIZE \<le> length buf" "length buf \<le> length (bd_buffer s)"
  shows "list_all2 fmt_fits HEADER_STRUCT (header_values c (s\<lparr>bd_buffer := buf\<rparr>))"
proof -
  have "bd_compression_type s \<in> {0, 1, 2, 3, 4, 5, 6, 7}" using assms(2,3) by auto
  then have "0 \<le> get_attributes c s \<and> get_attributes c s < 32"
    by (auto simp: get_attributes_def Let_def TRANSACTIONAL_MASK_def)
  moreover have "get_attributes c (s\<lparr>bd_buffer := buf\<rparr>) = get_attributes c s" by (simp add: get_attributes_def)
  ultimately show ?thesis
    using assms(1,4,5) by (simp add: header_fits_def HEADER_STRUCT_def header_values_def header_sizes)
qed

lemma write_header_returns:
  assumes "list_all2 fmt_fits HEADER_STRUCT (header_values c s)" "HEADER_SIZE \<le> length (bd_buffer s)"
  shows "\<exists>t. write_header c s = (Inr (), t)"
proof -
  obtain h where h: "struct_pack HEADER_STRUCT (header_values c s) = Inr h" "length h = HEADER_SIZE"
    using struct_pack_Inr [OF assms(1)] by (auto simp: HEADER_SIZE_def)
  let ?buf = "h @ drop HEADER_SIZE (bd_buffer s)"
  have buf: "pack_into HEADER_STRUCT (bd_buffer s) 0 (header_values c s) = Inr ?buf"
    using h(1) assms(2) by (simp add: pack_into_def HEADER_SIZE_def)
  define v where "v = calc_crc32c (drop ATTRIBUTES_OFFSET ?buf)"
  have "list_all2 fmt_fits [Uint 4] [v]" using calc_crc32c_range [of "drop ATTRIBUTES_OFFSET ?buf"] by (simp add: v_def)
  then obtain k where "struct_pack [Uint 4] [v] = Inr k" using struct_pack_Inr by blast
  then have "\<exists>buf'. pack_into [Uint 4] ?buf CRC_OFFSET [v] = Inr buf'"
    using h(2) by (simp add: pack_into_def header_sizes del: struct_pack.simps)
  then obtain buf' where "pack_into [Uint 4] ?buf CRC_OFFSET [calc_crc32c (drop ATTRIBUTES_OFFSET ?buf)] = Inr buf'"
    unfolding v_def by blast
  then show ?thesis by (simp only: write_header_def buf sum.case prod.inject simp_thms ex_simps)
qed

lemma build_returns:
  assumes "header_fits s" "0 \<le> bd_compression_type s" "bd_compression_type s < 8"
    "HEADER_SIZE \<le> length (bd_buffer s)" "codec_works cs (bd_compression_type s)"
  shows "\<exists>buf t. default_build cs s = (Inr buf, t)"
proof -
  have "\<exists>c u. maybe_compress cs s = (Inr c, u)"
  proof (cases "bd_compression_type s = CODEC_NONE")
    case False
    then obtain out where "compress cs (bd_compression_type s) (drop HEADER_SIZE (bd_buffer s)) = Inr out"
      "assert_has_codec cs (bd_compression_type s) = Inr ()" using assms(5) unfolding codec_works_def by blast
    then show ?thesis using False by (auto simp: maybe_compress_def py_defs)
  qed (auto simp: maybe_compress_def py_defs)
  then obtain c u where c: "maybe_compress cs s = (Inr c, u)" by blast
  then have "list_all2 fmt_fits HEADER_STRUCT (header_values c u) \<and> HEADER_SIZE \<le> length (bd_buffer u)"
  proof (cases rule: maybe_compress_cases)
    case 1
    then show ?thesis using header_fits_smaller [OF assms(1-3), of "bd_buffer s" c] assms(4) by simp
  next
    case (2 out)
    have "length out < length (drop HEADER_SIZE (bd_buffer s))"
      using c 2 by (auto simp: maybe_compress_def py_defs split: if_splits)
    then show ?thesis
      using header_fits_smaller [OF assms(1-3), of "bd_buffer u" c] assms(4) 2(5) by simp
  qed
  then obtain t where "write_header c u = (Inr (), t)" using write_header_returns by blast
  then show ?thesis using c by (auto simp: default_build_def py_defs)
qed

text \<open>One field of a packed header.\<close>

lemma unpack_field:
  assumes "struct_pack (fs @ [f] @ gs) (vs @ [v] @ ws) = Inr bs" "length fs = length vs" "0 < fmt_size f"
  shows "unpack_from [f] (bs @ rest) (int (struct_size fs)) = Inr [v]"
proof -
  obtain a m d where "struct_pack fs vs = Inr a" "struct_pack [f] [v] = Inr m" "bs = a @ m @ d"
    using assms(1) unfolding struct_pack_append [OF assms(2)] by (auto simp: res_eq_Inr)
  moreover from this have "struct_size fs = length a" by (simp add: length_struct_pack)
  ultimately show ?thesis using unpack_from_pack [of "[f]" "[v]" m a "d @ rest"] assms(3) by simp
qed

lemma built_length_magic:
  assumes "default_build cs s = (Inr buf, t)" "HEADER_SIZE \<le> length (bd_buffer s)"
  shows "unpack_from [Sint 4] buf 8 = Inr [int (length buf) - 12]" "unpack_from [Sint 1] buf 16 = Inr [bd_magic s]"
    "HEADER_SIZE \<le> length buf"
proof -
  obtain c u where c: "maybe_compress cs s = (Inr c, u)" and wh: "write_header c u = (Inr (), t)" and bt: "buf = bd_buffer t"
    using assms(1) by (auto simp: default_build_def py_Inr)
  have u: "bd_magic u = bd_magic s" "HEADER_SIZE \<le> length (bd_buffer u)"
    using c assms(2) by (auto elim!: maybe_compress_cases)
  obtain hdr k where hdr: "struct_pack HEADER_STRUCT ((header_values c u)[4 := k]) = Inr hdr"
    and buf: "buf = hdr @ drop HEADER_SIZE (bd_buffer u)"
    using write_header_buffer [OF wh u(2)] bt by auto
  have len: "length buf = length (bd_buffer u)"
    using length_struct_pack [OF hdr] u(2) by (simp add: buf header_sizes)
  let ?vs = "(header_values c u)[4 := k]"
  have v1: "?vs = [0] @ [int (length buf) - 12] @ drop 2 ?vs" "?vs = take 3 ?vs @ [bd_magic s] @ drop 4 ?vs"
    by (simp_all add: header_values_def numeral_eq_Suc len header_sizes u(1))
  have f1: "HEADER_STRUCT = [Sint 8] @ [Sint 4] @ drop 2 HEADER_STRUCT"
    "HEADER_STRUCT = [Sint 8, Sint 4, Sint 4] @ [Sint 1] @ drop 4 HEADER_STRUCT"
    by (simp_all add: HEADER_STRUCT_def)
  have "struct_pack ([Sint 8] @ [Sint 4] @ drop 2 HEADER_STRUCT) ([0] @ [int (length buf) - 12] @ drop 2 ?vs) = Inr hdr"
    using hdr v1(1) f1(1) by metis
  from unpack_field [OF this, of "drop HEADER_SIZE (bd_buffer u)"]
  show "unpack_from [Sint 4] buf 8 = Inr [int (length buf) - 12]" by (simp add: buf [symmetric] struct_size_def)
  have "struct_pack ([Sint 8, Sint 4, Sint 4] @ [Sint 1] @ drop 4 HEADER_STRUCT) (take 3 ?vs @ [bd_magic s] @ drop 4 ?vs) = Inr hdr"
    using hdr v1(2) f1(2) by metis
  from unpack_field [OF this, of "drop HEADER_SIZE (bd_buffer u)"]
  show "unpack_from [Sint 1] buf 16 = Inr [bd_magic s]"
    by (simp add: buf [symmetric] struct_size_def header_values_def)
  show "HEADER_SIZE \<le> length buf" using len u(2) by simp
qed

section \<open>Sizes\<close>

lemma write_headers_size:
  "write_headers hs = Inr bs \<Longrightarrow> headers_ok hs \<Longrightarrow> size_of_headers hs = Inr (int (length bs))"
proof -
  have "write_headers hs = Inr bs \<Longrightarrow>
      \<forall>(k, v) \<in> set hs. nullable_ok v \<and> (\<forall>b. utf8_encode k = Inr b \<longrightarrow> int64 (int (length b))) \<Longrightarrow>
      size_of_headers hs = Inr (int (length bs))"
    by (induction hs arbitrary: bs) (auto simp: res_eq_Inr varint_bytes_size write_nullable_size)
  then show "write_headers hs = Inr bs \<Longrightarrow> headers_ok hs \<Longrightarrow> ?thesis" by (simp add: headers_ok_def)
qed

lemma message_size:
  assumes "entry_ok base e" "entry_bytes base e = Inr msg"
  shows "\<exists>sz. size_of (e_key e) (e_value e) (e_headers e) = Inr sz \<and>
    int (length msg) = 1 + size_of_varint (e_offset e) + size_of_varint (e_timestamp e - base) + sz"
proof -
  obtain hs where hs: "write_headers (e_headers e) = Inr hs" and msg: "msg = [0] @ varint_bytes (e_timestamp e - base) @
      varint_bytes (e_offset e) @ write_nullable (e_key e) @ write_nullable (e_value e) @
      varint_bytes (int (length (e_headers e))) @ hs"
    using assms(2) by (auto simp: entry_bytes_def message_buffer_def res_eq_Inr)
  then show ?thesis
    using assms(1) write_headers_size [OF hs]
    by (auto simp: entry_ok_def headers_ok_def size_of_def varint_bytes_size write_nullable_size)
qed

lemma size_of_varint_int64: "int64 v \<Longrightarrow> size_of_varint v \<le> 10"
  by (simp add: size_of_varint_def Let_def)

lemma size_of_varint_int32: "- (2 ^ 31) \<le> v \<Longrightarrow> v < 2 ^ 31 \<Longrightarrow> size_of_varint v \<le> 5"
  by (simp add: size_of_varint_def Let_def zigzag_eq)

section \<open>Corrupt input\<close>

definition read_error :: "exn_class \<Rightarrow> bool" where
  "read_error e \<longleftrightarrow> e \<in> {IndexError, ValueError, UnicodeDecodeError, CorruptRecordError}"

lemma decode_varint_loop_error: "decode_varint_loop buf pos sh r = Inl e \<Longrightarrow> e \<in> {IndexError, ValueError}"
proof (induction buf pos sh r rule: decode_varint_loop.induct)
  case (1 buf pos sh r)
  then show ?case
    by (subst (asm) (2) decode_varint_loop.simps)
      (auto simp: byte_at_def Let_def split: if_splits)
qed

lemma decode_varint_error: "decode_varint buf pos = Inl e \<Longrightarrow> read_error e"
  by (auto simp: decode_varint_def byte_at_def read_error_def split: if_splits dest!: decode_varint_loop_error)

lemma res_bind_error: "res_bind r f = Inl e \<longleftrightarrow> r = Inl e \<or> (\<exists>a. r = Inr a \<and> f a = Inl e)"
  by (cases r) auto

lemma res_map_error: "res_map f r = Inl e \<longleftrightarrow> r = Inl e"
  by (cases r) auto

lemmas res_error = res_bind_error res_map_error

lemma read_nullable_error: "read_nullable buf pos = Inl e \<Longrightarrow> read_error e"
  by (auto simp: read_nullable_def res_error dest: decode_varint_error)

lemma read_headers_error: "read_headers buf n pos = Inl e \<Longrightarrow> read_error e"
  by (induction n arbitrary: pos)
    (auto simp: read_header_key_def res_error dest: decode_varint_error read_nullable_error
      split: if_splits dest!: utf8_decode_error, auto simp: read_error_def)

lemma read_msg_at_error: "read_msg_at b = Inl e \<Longrightarrow> read_error e"
  by (auto simp: read_msg_at_def Let_def res_error dest: decode_varint_error read_nullable_error read_headers_error
      split: if_splits) (auto simp: read_error_def)

lemma read_error_class: "read_error e \<Longrightarrow> e \<noteq> CorruptRecordError \<Longrightarrow> issubclass e ValueError \<or> issubclass e IndexError"
  by (auto simp: read_error_def issubclass_def UnicodeDecodeError_def builtin_exn_defs)

lemma batch_next_error:
  assumes "batch_next b = (Inl e, c)" "\<not> is_control_batch b"
  shows "e \<in> {CorruptRecordError, StopIteration}"
  using assms read_msg_at_error [of b] read_error_class
  by (auto simp: batch_next_def read_msg_def split: if_splits sum.splits prod.splits)

lemma batch_next_control: "batch_next b = (Inr r, c) \<Longrightarrow> is_control_batch c = is_control_batch b"
  by (auto simp: batch_next_def read_msg_def is_control_batch_def attributes_def
      split: if_splits sum.splits prod.splits)

lemma batch_records_error: "\<not> is_control_batch b \<Longrightarrow> snd (batch_records b) \<in> {CorruptRecordError, StopIteration}"
proof (induction b rule: batch_records.induct)
  case (1 b)
  obtain r c where n: "batch_next b = (r, c)" by (cases "batch_next b")
  show ?case
  proof (cases r)
    case (Inl e)
    then show ?thesis using n 1(2) batch_next_error [of b e c] by (subst batch_records.simps) simp
  next
    case (Inr x)
    then have "snd (batch_records c) \<in> {CorruptRecordError, StopIteration}"
      using 1 n batch_next_control [of b x c] by simp
    then show ?thesis using n Inr by (subst batch_records.simps) (auto split: prod.splits)
  qed
qed

section \<open>Properties\<close>

text \<open>The arguments of \<open>append\<close> for an entry.\<close>

definition opt_bytes :: "bytes option \<Rightarrow> pyval" where
  "opt_bytes v = (case v of None \<Rightarrow> VNone | Some b \<Rightarrow> VBytes b)"

definition append_entry :: "int \<Rightarrow> entry \<Rightarrow> (default_builder, record_metadata option) py" where
  "append_entry now e =
     default_append now (VInt (e_offset e)) (VInt (e_timestamp e)) (opt_bytes (e_key e)) (opt_bytes (e_value e)) (e_headers e)"

lemma append_entry_record:
  "append_entry now e = append_record (e_offset e) (e_timestamp e) (e_key e) (e_value e) (e_headers e)"
  by (rule ext) (auto simp: append_entry_def default_append_def py_defs int_arg_def timestamp_arg_def bytes_arg_def
      opt_bytes_def split: option.splits)

lemma batch_enc_dec:
  assumes "holds s es" "\<forall>e \<in> set es. entry_ok (first_ts es) e" "codec_works cs (bd_compression_type s)" "header_fits s"
  shows "\<exists>buf t b b' rs. default_build cs s = (Inr buf, t) \<and> DefaultRecordBatch buf = Inr b \<and> validate_crc b = Inr True \<and> records_count b = int (length es) \<and>
    maybe_uncompress cs b = (Inr (), b') \<and> batch_records b' = (rs, StopIteration) \<and>
    map (\<lambda>r. (dr_offset r, dr_timestamp r, dr_key r, dr_value r, dr_headers r)) rs =
    map (\<lambda>e. (e_offset e, e_timestamp e, e_key e, e_value e, e_headers e)) es"
proof -
  have ct: "HEADER_SIZE \<le> length (bd_buffer s)" "0 \<le> bd_compression_type s" "bd_compression_type s < 8"
    using assms(1) by (simp_all add: holds_def)
  obtain buf t where build: "default_build cs s = (Inr buf, t)"
    using build_returns [OF assms(4) ct(2,3,1) assms(3)] by blast
  have "codec_inverse cs (bd_compression_type s) \<or> bd_compression_type s = CODEC_NONE"
    using assms(3) by (auto simp: codec_works_def)
  from build ct this obtain b b' c u crc where b: "DefaultRecordBatch buf = Inr b" "validate_crc b = Inr True"
    "maybe_uncompress cs b = (Inr (), b')" and at: "at (db_buffer b') (db_pos b') (drop HEADER_SIZE (bd_buffer s))"
    and hd: "db_header_data b' = (header_values c u)[4 := crc]" and u: "u = s\<lparr>bd_buffer := bd_buffer u\<rparr>"
    and num: "db_num_records b' = bd_num_records s" "db_next_record_index b' = 0" and hdb: "db_header_data b = db_header_data b'"
    by (rule open_built_batch) blast
  obtain msgs where msgs: "list_all2 (\<lambda>e msg. entry_bytes (first_ts es) e = Inr msg) es msgs"
    and body: "drop HEADER_SIZE (bd_buffer s) = concat (map framed msgs)" using assms(1) by (auto simp: holds_def)
  have us: "bd_first_timestamp u = bd_first_timestamp s" "bd_compression_type u = bd_compression_type s"
    "bd_num_records u = bd_num_records s"
    by (subst u, simp)+
  have ft: "first_timestamp b' = first_ts es"
    using assms(1) us by (auto simp: first_timestamp_def hd header_values_def holds_def first_ts_def numeral_eq_Suc split: if_splits)
  have at': "attributes b' = get_attributes c u" by (simp add: attributes_def hd header_values_def numeral_eq_Suc)
  have ty: "timestamp_type b' = 0" "\<not> is_control_batch b'"
    using attribute_bits [of u c] us ct by (simp_all add: timestamp_type_def is_control_batch_def at')
  have "list_all2 (\<lambda>e msg. entry_bytes (first_timestamp b') e = Inr msg \<and> entry_ok (first_timestamp b') e) es msgs"
    using msgs assms(2) ft by (auto simp: list_all2_conv_all_nth)
  then have recs: "batch_records b' = (map2 (\<lambda>e msg. entry_record b' (length msg) e) es msgs, StopIteration)"
    using at ty num assms(1) by (intro batch_records_entries) (simp_all add: body holds_def)
  have "base_offset b' = 0" by (simp add: base_offset_def hd header_values_def)
  then have fields: "map (\<lambda>r. (dr_offset r, dr_timestamp r, dr_key r, dr_value r, dr_headers r))
      (map2 (\<lambda>e msg. entry_record b' (length msg) e) es msgs) =
      map (\<lambda>e. (e_offset e, e_timestamp e, e_key e, e_value e, e_headers e)) es"
    using list_all2_lengthD [OF msgs] by (intro nth_equalityI) (auto simp: entry_record_def)
  have "records_count b = int (length es)"
    using us assms(1) by (simp add: records_count_def hdb hd header_values_def holds_def numeral_eq_Suc)
  then show ?thesis using build b recs fields by blast
qed

text \<open>What is built is what is read: for a builder that holds some records, the buffer \<open>build\<close>
  returns, compressed or not, is accepted by the reader with a valid checksum, and iterating over it
  yields exactly those records in order (offset, timestamp, key, value and headers) and then stops.\<close>

theorem batch_roundtrip:
  assumes "holds s es" "\<forall>e \<in> set es. entry_ok (first_ts es) e" "codec_works cs (bd_compression_type s)" "header_fits s"
  shows "\<exists>buf t b b' rs. default_build cs s = (Inr buf, t) \<and> DefaultRecordBatch buf = Inr b \<and> validate_crc b = Inr True \<and> records_count b = int (length es) \<and>
    maybe_uncompress cs b = (Inr (), b') \<and> batch_records b' = (rs, StopIteration) \<and>
    map (\<lambda>r. (dr_offset r, dr_timestamp r, dr_key r, dr_value r, dr_headers r)) rs =
    map (\<lambda>e. (e_offset e, e_timestamp e, e_key e, e_value e, e_headers e)) es"
  by (rule batch_enc_dec [OF assms])

text \<open>An example: a transactional batch with two records.\<close>

definition example_entries :: "entry list" where
  "example_entries =
     [\<lparr>e_offset = 0, e_timestamp = 1000, e_key = Some [1, 2], e_value = None, e_headers = [([104], Some [9])]\<rparr>,
      \<lparr>e_offset = 1, e_timestamp = 990, e_key = None, e_value = Some [7], e_headers = []\<rparr>]"

definition example_builder :: default_builder where
  "example_builder = \<lparr>bd_magic = 2, bd_compression_type = 0, bd_batch_size = 100, bd_is_transactional = True,
     bd_producer_id = 5, bd_producer_epoch = 0, bd_base_sequence = 0, bd_first_timestamp = None,
     bd_max_timestamp = None, bd_last_offset = 0, bd_num_records = 0, bd_buffer = replicate 61 0\<rparr>"

definition no_codecs :: codecs where
  "no_codecs = \<lparr>has_gzip = False, has_snappy = False, has_lz4 = False, has_zstd = False,
     gzip_encode = (\<lambda>_. Inl RuntimeError), gzip_decode = (\<lambda>_. Inl RuntimeError),
     snappy_encode = (\<lambda>_. Inl RuntimeError), snappy_decode = (\<lambda>_. Inl RuntimeError),
     lz4_encode = (\<lambda>_. Inl RuntimeError), lz4_decode = (\<lambda>_. Inl RuntimeError),
     lz4_encode_old_kafka = (\<lambda>_. Inl RuntimeError), lz4_decode_old_kafka = (\<lambda>_. Inl RuntimeError),
     zstd_encode = (\<lambda>_. Inl RuntimeError), zstd_decode = (\<lambda>_. Inl RuntimeError)\<rparr>"

definition example_built :: default_builder where
  "example_built = snd (append_entry 0 (example_entries ! 1) (snd (append_entry 0 (example_entries ! 0) example_builder)))"

lemma example_new: "holds example_builder []"
  by (rule new_builder_holds [of 2 0 True 5 0 0 100])
    (simp add: DefaultRecordBatchBuilder_def example_builder_def CODEC_MASK_def header_sizes)

lemma example_append:
  "append_entry 0 (example_entries ! 0) example_builder =
     (Inr (Some \<lparr>rm_offset = 0, rm_size = 13, rm_timestamp = 1000\<rparr>), snd (append_entry 0 (example_entries ! 0) example_builder))"
  "append_entry 0 (example_entries ! 1) (snd (append_entry 0 (example_entries ! 0) example_builder)) =
     (Inr (Some \<lparr>rm_offset = 1, rm_size = 8, rm_timestamp = 990\<rparr>), example_built)"
  by (rule prod_eqI, code_simp, simp add: example_built_def)+

lemma example_holds: "holds example_built example_entries"
proof -
  have "holds example_built ([] @ [example_entries ! 0] @ [example_entries ! 1])"
    using append_holds [OF append_holds [OF example_new example_append(1) [unfolded append_entry_record]]
        example_append(2) [unfolded append_entry_record]]
    unfolding append_assoc .
  then show ?thesis by (simp add: example_entries_def)
qed

lemma example_ok: "\<forall>e \<in> set example_entries. entry_ok (first_ts example_entries) e"
  by (auto simp: example_entries_def entry_ok_def first_ts_def int64_def nullable_ok_def headers_ok_def
      utf8_encode_def utf8_char_def is_code_point_def entry_bytes_def message_buffer_def varint_bytes_def
      encode_varint_def zigzag_def write_nullable_def res_eq_Inr split: if_splits)

theorem batch_roundtrip_witness:
  "\<exists>buf t b b' rs. default_build no_codecs example_built = (Inr buf, t) \<and> DefaultRecordBatch buf = Inr b \<and>
     validate_crc b = Inr True \<and> maybe_uncompress no_codecs b = (Inr (), b') \<and> batch_records b' = (rs, StopIteration) \<and>
     map (\<lambda>r. (dr_offset r, dr_key r)) rs = [(0, Some [1, 2]), (1, None)]"
proof -
  have ct: "bd_compression_type example_built = 0" by code_simp
  have "codec_works no_codecs (bd_compression_type example_built)" by (simp add: ct codec_works_def CODEC_NONE_def)
  moreover have "header_fits example_built" by code_simp
  ultimately obtain buf t b b' rs where "default_build no_codecs example_built = (Inr buf, t)" "DefaultRecordBatch buf = Inr b"
    "validate_crc b = Inr True" "maybe_uncompress no_codecs b = (Inr (), b')" "batch_records b' = (rs, StopIteration)"
    and rs: "map (\<lambda>r. (dr_offset r, dr_timestamp r, dr_key r, dr_value r, dr_headers r)) rs =
      map (\<lambda>e. (e_offset e, e_timestamp e, e_key e, e_value e, e_headers e)) example_entries"
    using batch_roundtrip [OF example_holds example_ok] by blast
  moreover have "map (\<lambda>r. (dr_offset r, dr_key r)) rs = [(0, Some [1, 2]), (1, None)]"
    using arg_cong [OF rs, of "map (\<lambda>(off, ts, k, v, h). (off, k))"] by (simp add: example_entries_def comp_def)
  ultimately show ?thesis by - (intro exI conjI)
qed



text \<open>\<open>estimate_size_in_bytes\<close> is an upper bound: a batch with one record (of an int32 offset and
  length) is never larger than the estimate for it, and \<open>size_in_bytes\<close> is the exact size of a record.\<close>

theorem estimate_upper_bound:
  assumes "holds s es" "entry_ok (first_ts (es @ [e])) e" "append_entry now e s = (Inr (Some md), t)"
    and "- (2 ^ 31) \<le> e_offset e" "e_offset e < 2 ^ 31" "rm_size md < 2 ^ 31"
    and "estimate_size_in_bytes (e_key e) (e_value e) (e_headers e) = Inr n"
  shows "size_in_bytes (e_offset e) (e_timestamp e - first_ts (es @ [e])) (e_key e) (e_value e) (e_headers e) =
      Inr (rm_size md) \<and> int HEADER_SIZE + rm_size md \<le> n"
proof -
  let ?base = "first_ts (es @ [e])"
  have base: "(case bd_first_timestamp s of None \<Rightarrow> 0 | Some ts \<Rightarrow> e_timestamp e - ts) = e_timestamp e - ?base"
    using assms(1) by (cases es) (auto simp: holds_def first_ts_def)
  obtain msg where msg: "entry_bytes ?base e = Inr msg"
    and size: "rm_size md = int (length msg) + size_of_varint (int (length msg))"
    using assms(3) unfolding append_entry_record append_record_def Let_def base
    by (auto simp: entry_bytes_def split: sum.splits if_splits)
  obtain sz where sz: "size_of (e_key e) (e_value e) (e_headers e) = Inr sz"
    "int (length msg) = 1 + size_of_varint (e_offset e) + size_of_varint (e_timestamp e - ?base) + sz"
    using message_size [OF assms(2) msg] by auto
  have "0 < size_of_varint (int (length msg))" by (simp add: size_of_varint_def Let_def)
  then have "size_of_varint (int (length msg)) \<le> 5" using size assms(6) by (intro size_of_varint_int32) simp_all
  moreover have "size_of_varint (e_offset e) \<le> 5" using assms(4,5) by (rule size_of_varint_int32)
  moreover have "size_of_varint (e_timestamp e - ?base) \<le> 10"
    using assms(2) by (intro size_of_varint_int64) (simp add: entry_ok_def)
  ultimately show ?thesis
    using sz size assms(7)
    by (simp add: size_in_bytes_def estimate_size_in_bytes_def Let_def MAX_RECORD_OVERHEAD_def)
qed

theorem estimate_upper_bound_witness:
  "size_in_bytes 0 0 (Some [1, 2]) None [([104], Some [9])] = Inr 13 \<and> int HEADER_SIZE + 13 \<le> 91"
proof -
  have est: "estimate_size_in_bytes (Some [1, 2]) None [([104], Some [9])] = Inr 91" by code_simp
  have "entry_ok (first_ts ([] @ [example_entries ! 0])) (example_entries ! 0)"
    using example_ok by (simp add: example_entries_def first_ts_def)
  from estimate_upper_bound [OF example_new this example_append(1), of 91] est
  show ?thesis by (simp add: example_entries_def first_ts_def)
qed

text \<open>Whatever bytes it is given, iterating over a batch that is not a control batch ends either
  normally or with CorruptRecordError; the loop always ends.\<close>

theorem corrupt_batch_error:
  assumes "DefaultRecordBatch buf = Inr b0" "maybe_uncompress cs b0 = (Inr (), b)" "\<not> is_control_batch b0"
  shows "snd (batch_records b) \<in> {CorruptRecordError, StopIteration}"
proof (rule batch_records_error)
  show "\<not> is_control_batch b"
    using assms(2,3) by (auto simp: maybe_uncompress_def py_Inr is_control_batch_def attributes_def split: if_splits)
qed

definition corrupt_batch :: default_batch where
  "corrupt_batch = \<lparr>db_buffer = replicate 57 0 @ [0, 0, 0, 1] @ [20], db_header_data = [0, 0, 0, 0, 0, 0, 0, 0, 0, 0, 0, 0, 1],
     db_pos = 61, db_num_records = 1, db_next_record_index = 0, db_decompressed = False\<rparr>"

theorem corrupt_batch_error_witness:
  "batch_next (corrupt_batch\<lparr>db_decompressed := True\<rparr>) = (Inl CorruptRecordError, corrupt_batch\<lparr>db_decompressed := True\<rparr>) \<and>
   snd (batch_records (corrupt_batch\<lparr>db_decompressed := True\<rparr>)) \<in> {CorruptRecordError, StopIteration}"
proof -
  have "DefaultRecordBatch (db_buffer corrupt_batch) = Inr corrupt_batch" by code_simp
  moreover have "maybe_uncompress no_codecs corrupt_batch = (Inr (), corrupt_batch\<lparr>db_decompressed := True\<rparr>)" by code_simp
  moreover have "\<not> is_control_batch corrupt_batch" by code_simp
  ultimately have "snd (batch_records (corrupt_batch\<lparr>db_decompressed := True\<rparr>)) \<in> {CorruptRecordError, StopIteration}"
    by (rule corrupt_batch_error)
  moreover have "batch_next (corrupt_batch\<lparr>db_decompressed := True\<rparr>) =
      (Inl CorruptRecordError, corrupt_batch\<lparr>db_decompressed := True\<rparr>)" by code_simp
  ultimately show ?thesis by simp
qed

end
