(* ===== verification/Legacy_Records.thy ===== *)
theory Legacy_Records
  imports Default_Records
begin

text \<open>
  \<^verbatim>\<open>kafka/record/legacy_records.py\<close>: message sets of formats v0 and v1.  Every message carries its own
  CRC-32; a compressed set is a message whose value holds the inner set.  The scan of the inner
  headers follows the lengths it reads, so it may run forever on corrupt data: it is a partial function
  whose value None means that it does not return.
\<close>

section \<open>CRC-32 of binascii\<close>

definition crc32_step :: "u32 \<Rightarrow> u32" where
  "crc32_step c = (if bit c 0 then drop_bit 1 c XOR 0xEDB88320 else drop_bit 1 c)"

definition crc32_byte :: "byte \<Rightarrow> u32 \<Rightarrow> u32" where
  "crc32_byte b c = (crc32_step ^^ 8) (c XOR ucast b)"

definition binascii_crc32 :: "bytes \<Rightarrow> u32" where
  "binascii_crc32 data = fold crc32_byte data 0xFFFFFFFF XOR 0xFFFFFFFF"

definition calc_crc32 :: "bytes \<Rightarrow> int" where
  "calc_crc32 memview = uint (binascii_crc32 memview) AND 0xffffffff"

section \<open>Constants\<close>

definition HEADER_STRUCT_V0 :: "fmt list" where "HEADER_STRUCT_V0 = [Sint 8, Sint 4, Uint 4, Sint 1, Sint 1]"
definition HEADER_STRUCT_V1 :: "fmt list" where "HEADER_STRUCT_V1 = [Sint 8, Sint 4, Uint 4, Sint 1, Sint 1, Sint 8]"
definition LOG_OVERHEAD :: nat where "LOG_OVERHEAD = struct_size [Sint 8, Sint 4]"
definition LEGACY_CRC_OFFSET :: nat where "LEGACY_CRC_OFFSET = LOG_OVERHEAD"
definition MAGIC_OFFSET :: nat where "MAGIC_OFFSET = LOG_OVERHEAD + struct_size [Uint 4]"
definition RECORD_OVERHEAD_V0 :: nat where "RECORD_OVERHEAD_V0 = struct_size [Uint 4, Sint 1, Sint 1, Sint 4, Sint 4]"
definition RECORD_OVERHEAD_V1 :: nat where
  "RECORD_OVERHEAD_V1 = struct_size [Uint 4, Sint 1, Sint 1, Sint 8, Sint 4, Sint 4]"
definition KEY_OFFSET_V0 :: nat where "KEY_OFFSET_V0 = struct_size HEADER_STRUCT_V0"
definition KEY_OFFSET_V1 :: nat where "KEY_OFFSET_V1 = struct_size HEADER_STRUCT_V1"
definition KEY_LENGTH :: nat where "KEY_LENGTH = struct_size [Sint 4]"
definition VALUE_LENGTH :: nat where "VALUE_LENGTH = struct_size [Sint 4]"
definition NO_TIMESTAMP :: int where "NO_TIMESTAMP = - 1"

definition UnboundLocalError :: exn_class where
  "UnboundLocalError = py_subclass ''UnboundLocalError'' (py_subclass ''NameError'' Exception)"

text \<open>For any other type the name \<open>checker\<close> is unbound.\<close>

definition legacy_assert_has_codec :: "codecs \<Rightarrow> int \<Rightarrow> unit res" where
  "legacy_assert_has_codec cs ct =
     (if ct = CODEC_GZIP then require (has_gzip cs) UnsupportedCodecError
      else if ct = CODEC_SNAPPY then require (has_snappy cs) UnsupportedCodecError
      else if ct = CODEC_LZ4 then require (has_lz4 cs) UnsupportedCodecError
      else Inl UnboundLocalError)"

section \<open>The reader\<close>

record legacy_header =
  lh_offset :: int
  lh_length :: int
  lh_crc :: int
  lh_magic :: int
  lh_attrs :: int
  lh_timestamp :: "int option"

record legacy_batch =
  lb_buffer :: bytes
  lb_magic :: int
  lb_offset :: int
  lb_length :: int
  lb_crc :: int
  lb_timestamp :: "int option"
  lb_attributes :: int
  lb_decompressed :: bool

definition legacy_read_header :: "int \<Rightarrow> bytes \<Rightarrow> int \<Rightarrow> legacy_header res" where
  "legacy_read_header magic buffer pos =
     (if magic = 0
      then res_map (\<lambda>vs. \<lparr>lh_offset = vs ! 0, lh_length = vs ! 1, lh_crc = vs ! 2, lh_magic = vs ! 3,
             lh_attrs = vs ! 4, lh_timestamp = None\<rparr>) (unpack_from HEADER_STRUCT_V0 buffer pos)
      else res_map (\<lambda>vs. \<lparr>lh_offset = vs ! 0, lh_length = vs ! 1, lh_crc = vs ! 2, lh_magic = vs ! 3,
             lh_attrs = vs ! 4, lh_timestamp = Some (vs ! 5)\<rparr>) (unpack_from HEADER_STRUCT_V1 buffer pos))"

definition LegacyRecordBatch :: "bytes \<Rightarrow> int \<Rightarrow> legacy_batch res" where
  "LegacyRecordBatch buffer magic =
     res_bind (legacy_read_header magic buffer 0) (\<lambda>h.
     if lh_length h \<noteq> int (length buffer) - int LOG_OVERHEAD then Inl AssertionError
     else if magic \<noteq> lh_magic h then Inl AssertionError
     else Inr \<lparr>lb_buffer = buffer, lb_magic = magic, lb_offset = lh_offset h, lb_length = lh_length h,
       lb_crc = lh_crc h, lb_timestamp = lh_timestamp h, lb_attributes = lh_attrs h, lb_decompressed = False\<rparr>)"

definition legacy_size_in_bytes :: "legacy_batch \<Rightarrow> int" where
  "legacy_size_in_bytes b = lb_length b + int LOG_OVERHEAD"

definition legacy_timestamp_type :: "legacy_batch \<Rightarrow> int option" where
  "legacy_timestamp_type b =
     (if lb_magic b = 0 then None else if lb_attributes b AND TIMESTAMP_TYPE_MASK \<noteq> 0 then Some 1 else Some 0)"

definition legacy_compression_type :: "legacy_batch \<Rightarrow> int" where
  "legacy_compression_type b = lb_attributes b AND CODEC_MASK"

definition legacy_validate_crc :: "legacy_batch \<Rightarrow> bool" where
  "legacy_validate_crc b \<longleftrightarrow> lb_crc b = calc_crc32 (drop MAGIC_OFFSET (lb_buffer b))"

definition legacy_uncompress :: "codecs \<Rightarrow> int \<Rightarrow> int \<Rightarrow> bytes \<Rightarrow> bytes res" where
  "legacy_uncompress cs magic ct data =
     (if ct = CODEC_GZIP then gzip_decode cs data
      else if ct = CODEC_SNAPPY then snappy_decode cs data
      else if magic = 0 then lz4_decode_old_kafka cs data else lz4_decode cs data)"

definition unpack_int32_from :: "bytes \<Rightarrow> int \<Rightarrow> int res" where
  "unpack_int32_from buffer pos = res_map (\<lambda>vs. vs ! 0) (unpack_from [Sint 4] buffer pos)"

definition decompress :: "codecs \<Rightarrow> nat \<Rightarrow> legacy_batch \<Rightarrow> bytes res" where
  "decompress cs key_offset b =
     res_bind (unpack_int32_from (lb_buffer b) (int key_offset)) (\<lambda>key_size.
     let pos = int key_offset + int KEY_LENGTH + (if key_size \<noteq> - 1 then key_size else 0) in
     res_bind (unpack_int32_from (lb_buffer b) pos) (\<lambda>value_size.
     let pos = pos + int VALUE_LENGTH in
     if value_size = - 1 then Inl CorruptRecordError
     else res_bind (legacy_assert_has_codec cs (legacy_compression_type b)) (\<lambda>_.
       legacy_uncompress cs (lb_magic b) (legacy_compression_type b) (py_slice (lb_buffer b) pos (pos + value_size)))))"

definition read_key_value :: "bytes \<Rightarrow> int \<Rightarrow> (bytes option \<times> bytes option) res" where
  "read_key_value buffer pos =
     res_bind (unpack_int32_from buffer pos) (\<lambda>key_size.
     let pos = pos + int KEY_LENGTH;
         key = (if key_size = - 1 then None else Some (py_slice buffer pos (pos + key_size)));
         pos = (if key_size = - 1 then pos else pos + key_size) in
     res_map (\<lambda>value_size.
       let pos = pos + int VALUE_LENGTH in
       (key, if value_size = - 1 then None else Some (py_slice buffer pos (pos + value_size))))
       (unpack_int32_from buffer pos))"

definition crc_bytes :: "bytes \<Rightarrow> int \<Rightarrow> int \<Rightarrow> bytes" where
  "crc_bytes buffer msg_pos len = py_slice buffer (msg_pos + int MAGIC_OFFSET) (msg_pos + int LOG_OVERHEAD + len)"

record legacy_record =
  lr_magic :: int
  lr_offset :: int
  lr_timestamp :: "int option"
  lr_timestamp_type :: "int option"
  lr_key :: "bytes option"
  lr_value :: "bytes option"
  lr_crc :: int
  lr_crc_bytes :: bytes

definition legacy_record_validate_crc :: "legacy_record \<Rightarrow> bool" where
  "legacy_record_validate_crc r \<longleftrightarrow> lr_crc r = calc_crc32 (lr_crc_bytes r)"

text \<open>\<open>_read_all_headers\<close>.\<close>

partial_function (option) read_all_headers :: "int \<Rightarrow> bytes \<Rightarrow> int \<Rightarrow> (legacy_header \<times> int) list res option" where
  "read_all_headers magic buffer pos =
     (if pos < int (length buffer) then
        (case legacy_read_header magic buffer pos of
           Inl e \<Rightarrow> Some (Inl e)
         | Inr h \<Rightarrow> Option.bind (read_all_headers magic buffer (pos + int LOG_OVERHEAD + lh_length h))
                      (\<lambda>r. Some (res_map (\<lambda>msgs. (h, pos) # msgs) r)))
      else Some (Inr []))"

definition key_offset_of :: "legacy_batch \<Rightarrow> nat" where
  "key_offset_of b = (if lb_magic b = 1 then KEY_OFFSET_V1 else KEY_OFFSET_V0)"

text \<open>One inner message of a compressed set.\<close>

definition inner_record :: "legacy_batch \<Rightarrow> int \<Rightarrow> legacy_header \<times> int \<Rightarrow> legacy_record res" where
  "inner_record b absolute_base_offset = (\<lambda>(h, msg_pos).
     if lh_attrs h AND CODEC_MASK \<noteq> 0 then Inl AssertionError
     else res_map (\<lambda>(key, value).
       \<lparr>lr_magic = lb_magic b,
        lr_offset = (if absolute_base_offset \<ge> 0 then lh_offset h + absolute_base_offset else lh_offset h),
        lr_timestamp = (if legacy_timestamp_type b = Some LOG_APPEND_TIME then lb_timestamp b else lh_timestamp h),
        lr_timestamp_type = legacy_timestamp_type b, lr_key = key, lr_value = value, lr_crc = lh_crc h,
        lr_crc_bytes = crc_bytes (lb_buffer b) msg_pos (lh_length h)\<rparr>)
       (read_key_value (lb_buffer b) (msg_pos + int (key_offset_of b))))"

text \<open>A generator: the values it yields, then the exception that ends it (StopIteration at its end).\<close>

primrec yield_all :: "('a \<Rightarrow> 'b res) \<Rightarrow> 'a list \<Rightarrow> 'b list \<times> exn_class" where
  "yield_all f [] = ([], StopIteration)"
| "yield_all f (x # xs) =
     (case f x of Inl e \<Rightarrow> ([], e) | Inr y \<Rightarrow> (case yield_all f xs of (ys, e) \<Rightarrow> (y # ys, e)))"

definition legacy_decompress_once :: "codecs \<Rightarrow> (legacy_batch, unit) py" where
  "legacy_decompress_once cs =
     py_when (\<lambda>b. legacy_compression_type b \<noteq> 0 \<and> \<not> lb_decompressed b)
       (py_bind (py_get (\<lambda>b. decompress cs (key_offset_of b) b)) (\<lambda>r.
        py_bind (py_lift r) (\<lambda>data. py_set (\<lambda>b. b\<lparr>lb_buffer := data, lb_decompressed := True\<rparr>))))"

definition legacy_yield :: "legacy_batch \<Rightarrow> (legacy_record list \<times> exn_class) option" where
  "legacy_yield b =
     (if legacy_compression_type b \<noteq> 0 then
        Option.bind (read_all_headers (lb_magic b) (lb_buffer b) 0) (\<lambda>r.
          Some (case r of
              Inl e \<Rightarrow> ([], e)
            | Inr headers \<Rightarrow>
                if lb_magic b > 0 \<and> headers = [] then ([], IndexError)
                else yield_all (inner_record b (if lb_magic b > 0 then lb_offset b - lh_offset (fst (last headers)) else - 1))
                       headers))
      else Some (case read_key_value (lb_buffer b) (int (key_offset_of b)) of
          Inl e \<Rightarrow> ([], e)
        | Inr (key, value) \<Rightarrow>
            ([\<lparr>lr_magic = lb_magic b, lr_offset = lb_offset b, lr_timestamp = lb_timestamp b,
               lr_timestamp_type = legacy_timestamp_type b, lr_key = key, lr_value = value, lr_crc = lb_crc b,
               lr_crc_bytes = crc_bytes (lb_buffer b) 0 (int (length (lb_buffer b)) - int LOG_OVERHEAD)\<rparr>],
             StopIteration)))"

definition legacy_iter :: "codecs \<Rightarrow> legacy_batch \<Rightarrow> (legacy_record list \<times> exn_class) option" where
  "legacy_iter cs b =
     (case legacy_decompress_once cs b of (Inl e, _) \<Rightarrow> Some ([], e) | (Inr _, c) \<Rightarrow> legacy_yield c)"

section \<open>The builder\<close>

record legacy_builder =
  lbd_magic :: int
  lbd_compression_type :: int
  lbd_batch_size :: int
  lbd_buffer :: bytes

definition LegacyRecordBatchBuilder :: "int \<Rightarrow> int \<Rightarrow> int \<Rightarrow> legacy_builder" where
  "LegacyRecordBatchBuilder magic ct batch_size =
     \<lparr>lbd_magic = magic, lbd_compression_type = ct, lbd_batch_size = batch_size, lbd_buffer = []\<rparr>"

definition record_overhead :: "int \<Rightarrow> nat res" where
  "record_overhead magic =
     (if magic \<notin> {0, 1} then Inl AssertionError
      else Inr (if magic = 0 then RECORD_OVERHEAD_V0 else RECORD_OVERHEAD_V1))"

definition opt_length :: "bytes option \<Rightarrow> nat" where
  "opt_length v = (case v of None \<Rightarrow> 0 | Some b \<Rightarrow> length b)"

definition record_size :: "int \<Rightarrow> bytes option \<Rightarrow> bytes option \<Rightarrow> nat res" where
  "record_size magic key value = res_map (\<lambda>n. n + opt_length key + opt_length value) (record_overhead magic)"

definition legacy_message_size :: "int \<Rightarrow> bytes option \<Rightarrow> bytes option \<Rightarrow> nat res" where
  "legacy_message_size magic key value = res_map (\<lambda>n. LOG_OVERHEAD + n) (record_size magic key value)"

definition legacy_estimate_size_in_bytes :: "int \<Rightarrow> int \<Rightarrow> bytes option \<Rightarrow> bytes option \<Rightarrow> nat res" where
  "legacy_estimate_size_in_bytes magic ct key value =
     (if magic \<notin> {0, 1} then Inl AssertionError
      else if ct \<noteq> 0 then
        res_bind (record_overhead magic) (\<lambda>over. res_map (\<lambda>n. LOG_OVERHEAD + over + n) (record_size magic key value))
      else res_map (\<lambda>n. LOG_OVERHEAD + n) (record_size magic key value))"

text \<open>\<open>buf[pos: pos + len(bs)] = bs\<close>.\<close>

definition put_slice :: "bytes \<Rightarrow> nat \<Rightarrow> bytes \<Rightarrow> bytes" where
  "put_slice buf pos bs = take pos buf @ bs @ drop (pos + length bs) buf"

text \<open>Writing a nullable field: the buffer and the position after it.\<close>

definition put_nullable :: "bytes option \<Rightarrow> bytes \<times> nat \<Rightarrow> (bytes \<times> nat) res" where
  "put_nullable v = (\<lambda>(buf, pos).
     case v of
       None \<Rightarrow> res_map (\<lambda>buf. (buf, pos + 4)) (pack_into [Sint 4] buf pos [- 1])
     | Some b \<Rightarrow> res_map (\<lambda>buf. (put_slice buf (pos + 4) b, pos + 4 + length b))
                   (pack_into [Sint 4] buf pos [int (length b)]))"

definition encode_msg ::
  "int \<Rightarrow> bytes \<Rightarrow> nat \<Rightarrow> int \<Rightarrow> int \<Rightarrow> bytes option \<Rightarrow> bytes option \<Rightarrow> int \<Rightarrow> (int \<times> bytes) res" where
  "encode_msg magic buf start_pos offset timestamp key value attrs =
     res_bind (put_nullable key (buf, start_pos + (if magic = 0 then KEY_OFFSET_V0 else KEY_OFFSET_V1))) (\<lambda>bp.
     res_bind (put_nullable value bp) (\<lambda>(buf, pos).
     let len = int (pos - start_pos) - int LOG_OVERHEAD in
     res_bind (if magic = 0 then pack_into HEADER_STRUCT_V0 buf start_pos [offset, len, 0, magic, attrs]
               else pack_into HEADER_STRUCT_V1 buf start_pos [offset, len, 0, magic, attrs, timestamp]) (\<lambda>buf.
     let c32 = calc_crc32 (drop (start_pos + MAGIC_OFFSET) buf) in
     res_map (\<lambda>buf. (c32, buf)) (pack_into [Uint 4] buf (start_pos + LEGACY_CRC_OFFSET) [c32]))))"

record legacy_metadata =
  lm_offset :: int
  lm_crc :: int
  lm_size :: int
  lm_timestamp :: int

definition legacy_timestamp_arg :: "int \<Rightarrow> int \<Rightarrow> pyval \<Rightarrow> int res" where
  "legacy_timestamp_arg now magic timestamp = (if magic = 0 then Inr NO_TIMESTAMP else timestamp_arg now timestamp)"

definition legacy_append ::
  "int \<Rightarrow> pyval \<Rightarrow> pyval \<Rightarrow> pyval \<Rightarrow> pyval \<Rightarrow> record_headers \<Rightarrow> (legacy_builder, legacy_metadata option) py" where
  "legacy_append now offset timestamp key value headers =
     py_then (py_assert (\<lambda>_. headers = []))
    (py_bind (py_lift (int_arg offset)) (\<lambda>offset.
     py_bind (\<lambda>s. (legacy_timestamp_arg now (lbd_magic s) timestamp, s)) (\<lambda>timestamp.
     py_bind (py_lift (bytes_arg key)) (\<lambda>key.
     py_bind (py_lift (bytes_arg value)) (\<lambda>value.
     py_bind (\<lambda>s. (legacy_message_size (lbd_magic s) key value, s)) (\<lambda>sz.
     py_if (\<lambda>s. offset \<noteq> 0 \<and> int (length (lbd_buffer s)) + int sz \<ge> lbd_batch_size s) (py_return None)
       (\<lambda>s. let pos = length (lbd_buffer s); s1 = s\<lparr>lbd_buffer := lbd_buffer s @ replicate sz 0\<rparr> in
            case encode_msg (lbd_magic s) (lbd_buffer s1) pos offset timestamp key value 0 of
              Inl e \<Rightarrow> (Inl e, s1)
            | Inr (c32, buf) \<Rightarrow>
                (Inr (Some \<lparr>lm_offset = offset, lm_crc = c32, lm_size = int sz, lm_timestamp = timestamp\<rparr>),
                 s1\<lparr>lbd_buffer := buf\<rparr>))))))))"

definition legacy_compress :: "codecs \<Rightarrow> int \<Rightarrow> int \<Rightarrow> bytes \<Rightarrow> bytes res" where
  "legacy_compress cs magic ct data =
     (if ct = CODEC_GZIP then gzip_encode cs data
      else if ct = CODEC_SNAPPY then snappy_encode cs data
      else if magic = 0 then lz4_encode_old_kafka cs data else lz4_encode cs data)"

definition legacy_build :: "codecs \<Rightarrow> (legacy_builder, bytes) py" where
  "legacy_build cs =
     py_then
       (py_when (\<lambda>s. lbd_compression_type s \<noteq> 0)
         (py_bind (py_get (\<lambda>s. s)) (\<lambda>s.
          py_bind (py_lift (legacy_assert_has_codec cs (lbd_compression_type s))) (\<lambda>_.
          py_bind (py_lift (legacy_compress cs (lbd_magic s) (lbd_compression_type s) (lbd_buffer s))) (\<lambda>compressed.
          py_bind (py_lift (legacy_message_size (lbd_magic s) None (Some compressed))) (\<lambda>sz.
          let buf = (if sz > length (lbd_buffer s) then replicate sz 0 else take sz (lbd_buffer s)) in
          py_then (py_set (\<lambda>s. s\<lparr>lbd_buffer := buf\<rparr>))
         (py_bind (py_lift (encode_msg (lbd_magic s) buf 0 0 0 None (Some compressed) (lbd_compression_type s)))
           (\<lambda>(c32, buf). py_set (\<lambda>s. s\<lparr>lbd_buffer := buf\<rparr>)))))))))
       (py_get lbd_buffer)"

end
