(* ===== verification/Memory_Records.thy ===== *)
theory Memory_Records
  imports Legacy_Records Record_Batches
begin

text \<open>
  \<^verbatim>\<open>kafka/record/memory_records.py\<close>: a buffer of batches cut into slices by their lengths, and the
  builder that hides the message format.  \<open>valid_bytes\<close> follows the lengths in the buffer, so it is a
  partial function: None means that it does not return.
\<close>

section \<open>MemoryRecords\<close>

definition MR_LENGTH_OFFSET :: nat where "MR_LENGTH_OFFSET = struct_size [Sint 8]"
definition MR_LOG_OVERHEAD :: nat where "MR_LOG_OVERHEAD = struct_size [Sint 8, Sint 4]"
definition MR_MAGIC_OFFSET :: nat where "MR_MAGIC_OFFSET = struct_size [Sint 8, Sint 4, Sint 4]"
definition MIN_SLICE :: nat where "MIN_SLICE = MR_LOG_OVERHEAD + RECORD_OVERHEAD_V0"

record memory_records =
  mr_buffer :: bytes
  mr_pos :: int
  mr_next_slice :: "bytes option"
  mr_remaining_bytes :: "int option"

definition cache_next :: "(memory_records, unit) py" where
  "cache_next s =
     (let buffer = mr_buffer s; buffer_len = int (length buffer); pos = mr_pos s; remaining = buffer_len - pos in
      if remaining < int MR_LOG_OVERHEAD then (Inr (), s\<lparr>mr_remaining_bytes := Some remaining, mr_next_slice := None\<rparr>)
      else case unpack_from [Sint 4] buffer (pos + int MR_LENGTH_OFFSET) of
          Inl e \<Rightarrow> (Inl e, s)
        | Inr vs \<Rightarrow>
            let slice_end = pos + int MR_LOG_OVERHEAD + vs ! 0 in
            if slice_end > buffer_len then (Inr (), s\<lparr>mr_remaining_bytes := Some remaining, mr_next_slice := None\<rparr>)
            else (Inr (), s\<lparr>mr_next_slice := Some (py_slice buffer pos slice_end), mr_pos := slice_end\<rparr>))"

definition MemoryRecords :: "bytes \<Rightarrow> memory_records res" where
  "MemoryRecords bytes_data =
     (case cache_next \<lparr>mr_buffer = bytes_data, mr_pos = 0, mr_next_slice = None, mr_remaining_bytes = None\<rparr> of
        (Inl e, _) \<Rightarrow> Inl e | (Inr _, s) \<Rightarrow> Inr s)"

definition mr_size_in_bytes :: "memory_records \<Rightarrow> nat" where
  "mr_size_in_bytes s = length (mr_buffer s)"

partial_function (option) cache_until_end :: "memory_records \<Rightarrow> (unit res \<times> memory_records) option" where
  "cache_until_end s =
     (if mr_remaining_bytes s \<noteq> None then Some (Inr (), s)
      else case cache_next s of (Inl e, t) \<Rightarrow> Some (Inl e, t) | (Inr _, t) \<Rightarrow> cache_until_end t)"

definition valid_bytes :: "memory_records \<Rightarrow> (int res \<times> memory_records) option" where
  "valid_bytes s =
     Option.bind (cache_until_end s) (\<lambda>(r, t). Some (case r of
         Inl e \<Rightarrow> (Inl e, t)
       | Inr _ \<Rightarrow>
           (Inr (int (length (mr_buffer t)) - the (mr_remaining_bytes t)),
            if mr_remaining_bytes s = None then t\<lparr>mr_next_slice := mr_next_slice s, mr_pos := mr_pos s\<rparr> else t)))"

definition has_next :: "memory_records \<Rightarrow> bool" where
  "has_next s \<longleftrightarrow> mr_next_slice s \<noteq> None"

datatype record_batch = LegacyBatch legacy_batch | DefaultBatch default_batch

definition next_batch :: "(memory_records, record_batch option) py" where
  "next_batch s =
     (case mr_next_slice s of
        None \<Rightarrow> (Inr None, s)
      | Some next_slice \<Rightarrow>
          if length next_slice < MIN_SLICE then (Inl CorruptRecordError, s)
          else
            py_then cache_next
              (py_lift (res_bind (unpack_from [Sint 1] next_slice (int MR_MAGIC_OFFSET)) (\<lambda>vs.
                 if vs ! 0 \<le> 1 then res_map (\<lambda>b. Some (LegacyBatch b)) (LegacyRecordBatch next_slice (vs ! 0))
                 else res_map (\<lambda>b. Some (DefaultBatch b)) (DefaultRecordBatch next_slice)))) s)"

definition mr_next :: "(memory_records, record_batch option) py" where
  "mr_next = py_if (\<lambda>s. \<not> has_next s) (py_raise StopIteration) next_batch"

section \<open>MemoryRecordsBuilder\<close>

datatype batch_builder = LegacyBuilder legacy_builder | DefaultBuilder default_builder

datatype append_metadata = LegacyMetadata legacy_metadata | DefaultMetadata record_metadata

record memory_builder =
  mb_builder :: "batch_builder option"
  mb_batch_size :: int
  mb_buffer :: "bytes option"
  mb_next_offset :: int
  mb_closed :: bool
  mb_magic :: int
  mb_bytes_written :: int
  mb_producer_id :: "int option"
  mb_producer_epoch :: "int option"

definition MemoryRecordsBuilder ::
  "int \<Rightarrow> int \<Rightarrow> int \<Rightarrow> int \<Rightarrow> bool \<Rightarrow> int \<Rightarrow> int \<Rightarrow> int \<Rightarrow> memory_builder res" where
  "MemoryRecordsBuilder magic ct batch_size offset transactional pid epoch base_seq =
     (if magic \<notin> {0, 1, 2} then Inl AssertionError
      else if ct \<notin> {0, 1, 2, 3, 4} then Inl AssertionError
      else res_map (\<lambda>(b, pid, epoch).
             \<lparr>mb_builder = Some b, mb_batch_size = batch_size, mb_buffer = None, mb_next_offset = offset,
              mb_closed = False, mb_magic = magic, mb_bytes_written = 0, mb_producer_id = pid, mb_producer_epoch = epoch\<rparr>)
        (if magic \<ge> 2 then
           (if \<not> (\<not> transactional \<or> pid \<noteq> - 1) then Inl AssertionError
            else if \<not> (pid = - 1 \<or> epoch \<noteq> - 1) then Inl AssertionError
            else if \<not> (pid = - 1 \<or> base_seq \<noteq> - 1) then Inl AssertionError
            else res_map (\<lambda>b. (DefaultBuilder b, Some pid, Some epoch))
                   (DefaultRecordBatchBuilder magic ct transactional pid epoch base_seq batch_size))
         else if \<not> (\<not> transactional \<and> pid = - 1) then Inl AssertionError
         else Inr (LegacyBuilder (LegacyRecordBatchBuilder magic ct batch_size), None, None)))"

definition skip :: "int \<Rightarrow> (memory_builder, unit) py" where
  "skip n = py_set (\<lambda>s. s\<lparr>mb_next_offset := mb_next_offset s + n\<rparr>)"

definition append_inner ::
  "int \<Rightarrow> pyval \<Rightarrow> pyval \<Rightarrow> pyval \<Rightarrow> pyval \<Rightarrow> record_headers \<Rightarrow> batch_builder \<Rightarrow>
     append_metadata option res \<times> batch_builder" where
  "append_inner now offset timestamp key value headers b =
     (case b of
        LegacyBuilder lb \<Rightarrow>
          (case legacy_append now offset timestamp key value headers lb of
             (r, lb') \<Rightarrow> (res_map (map_option LegacyMetadata) r, LegacyBuilder lb'))
      | DefaultBuilder db \<Rightarrow>
          (case default_append now offset timestamp key value headers db of
             (r, db') \<Rightarrow> (res_map (map_option DefaultMetadata) r, DefaultBuilder db')))"

definition mb_append ::
  "int \<Rightarrow> pyval \<Rightarrow> pyval \<Rightarrow> pyval \<Rightarrow> record_headers \<Rightarrow> (memory_builder, append_metadata option) py" where
  "mb_append now timestamp key value headers s =
     (if mb_closed s then (Inr None, s)
      else case mb_builder s of
          None \<Rightarrow> (Inl AttributeError, s)
        | Some b \<Rightarrow>
            (case append_inner now (VInt (mb_next_offset s)) timestamp key value headers b of
               (Inl e, b') \<Rightarrow> (Inl e, s\<lparr>mb_builder := Some b'\<rparr>)
             | (Inr None, b') \<Rightarrow> (Inr None, s\<lparr>mb_builder := Some b'\<rparr>)
             | (Inr (Some md), b') \<Rightarrow>
                 (Inr (Some md), s\<lparr>mb_builder := Some b', mb_next_offset := mb_next_offset s + 1\<rparr>)))"

definition mb_set_producer_state :: "int \<Rightarrow> int \<Rightarrow> int \<Rightarrow> bool \<Rightarrow> (memory_builder, unit) py" where
  "mb_set_producer_state pid epoch base_seq transactional s =
     (if mb_magic s < 2 then (Inl UnsupportedVersionError, s)
      else if mb_closed s then (Inl IllegalStateError, s)
      else case mb_builder s of
          Some (DefaultBuilder db) \<Rightarrow>
            (case set_producer_state pid epoch base_seq transactional db of
               (Inl e, db') \<Rightarrow> (Inl e, s\<lparr>mb_builder := Some (DefaultBuilder db')\<rparr>)
             | (Inr _, db') \<Rightarrow> (Inr (), s\<lparr>mb_builder := Some (DefaultBuilder db'), mb_producer_id := Some pid\<rparr>))
        | _ \<Rightarrow> (Inl AttributeError, s))"

definition inner_size :: "batch_builder \<Rightarrow> int" where
  "inner_size b = (case b of LegacyBuilder lb \<Rightarrow> int (length (lbd_buffer lb)) | DefaultBuilder db \<Rightarrow> builder_size db)"

definition inner_build :: "codecs \<Rightarrow> batch_builder \<Rightarrow> bytes res \<times> batch_builder" where
  "inner_build cs b =
     (case b of
        LegacyBuilder lb \<Rightarrow> (case legacy_build cs lb of (r, lb') \<Rightarrow> (r, LegacyBuilder lb'))
      | DefaultBuilder db \<Rightarrow> (case default_build cs db of (r, db') \<Rightarrow> (r, DefaultBuilder db')))"

definition mb_close :: "codecs \<Rightarrow> (memory_builder, unit) py" where
  "mb_close cs s =
     (if mb_closed s then (Inr (), s)
      else case mb_builder s of
          None \<Rightarrow> (Inl AttributeError, s)
        | Some b \<Rightarrow>
            let s1 = s\<lparr>mb_bytes_written := inner_size b\<rparr> in
            (case inner_build cs b of
               (Inl e, b') \<Rightarrow> (Inl e, s1\<lparr>mb_builder := Some b'\<rparr>)
             | (Inr buf, b') \<Rightarrow>
                 (Inr (), s1\<lparr>mb_buffer := Some buf, mb_builder := None, mb_closed := True,
                    mb_producer_id := (if mb_magic s = 2 then (case b' of DefaultBuilder db \<Rightarrow> Some (bd_producer_id db)
                                         | _ \<Rightarrow> mb_producer_id s) else mb_producer_id s),
                    mb_producer_epoch := (if mb_magic s = 2 then (case b' of DefaultBuilder db \<Rightarrow> Some (bd_producer_epoch db)
                                            | _ \<Rightarrow> mb_producer_epoch s) else mb_producer_epoch s)\<rparr>)))"

definition mb_records :: "memory_builder \<Rightarrow> memory_records res" where
  "mb_records s = (if \<not> mb_closed s then Inl AssertionError else MemoryRecords (the (mb_buffer s)))"

definition mb_size_in_bytes :: "memory_builder \<Rightarrow> int" where
  "mb_size_in_bytes s = (if \<not> mb_closed s then inner_size (the (mb_builder s)) else int (length (the (mb_buffer s))))"

definition is_full :: "memory_builder \<Rightarrow> bool" where
  "is_full s \<longleftrightarrow> (if mb_closed s then True else inner_size (the (mb_builder s)) \<ge> mb_batch_size s)"

definition mb_get_buffer :: "memory_builder \<Rightarrow> bytes res" where
  "mb_get_buffer s = (if mb_closed s then Inr (the (mb_buffer s)) else Inl AssertionError)"

section \<open>Cutting a buffer into batches\<close>

lemma mr_sizes: "MR_LENGTH_OFFSET = 8" "MR_LOG_OVERHEAD = 12" "MR_MAGIC_OFFSET = 16" "MIN_SLICE = 26"
  by (simp_all add: MR_LENGTH_OFFSET_def MR_LOG_OVERHEAD_def MR_MAGIC_OFFSET_def MIN_SLICE_def RECORD_OVERHEAD_V0_def
      struct_size_def)

text \<open>A slice whose length field is right, and a tail that holds no complete batch.\<close>

definition well_slice :: "bytes \<Rightarrow> bool" where
  "well_slice sl \<longleftrightarrow> 12 \<le> length sl \<and> unpack_from [Sint 4] sl 8 = Inr [int (length sl) - 12]"

definition partial_tail :: "bytes \<Rightarrow> bool" where
  "partial_tail xs \<longleftrightarrow> length xs < 12 \<or> (\<exists>n. unpack_from [Sint 4] xs 8 = Inr [n] \<and> int (length xs) < 12 + n)"

lemma unpack_from_append:
  assumes "unpack_from [Sint 4] xs 8 = Inr vs"
  shows "unpack_from [Sint 4] (pre @ xs @ rest) (int (length pre) + 8) = Inr vs"
proof -
  have "12 \<le> length xs" using assms by (auto simp: unpack_from_def struct_size_def split: if_splits)
  moreover from this have "nat (int (length pre) + 8) = length pre + 8" by simp
  ultimately show ?thesis using assms by (simp add: unpack_from_def struct_size_def)
qed

lemma cache_next_slice:
  assumes "mr_buffer s = pre @ sl @ rest" "mr_pos s = int (length pre)" "well_slice sl"
  shows "cache_next s = (Inr (), s\<lparr>mr_next_slice := Some sl, mr_pos := int (length (pre @ sl))\<rparr>)"
proof -
  have "unpack_from [Sint 4] (mr_buffer s) (mr_pos s + 8) = Inr [int (length sl) - 12]"
    using unpack_from_append [of sl _ pre rest] assms by (simp add: well_slice_def)
  moreover have "py_slice (pre @ sl @ rest) (int (length pre)) (int (length pre) + int (length sl)) = sl"
    unfolding py_slice_nat by simp
  ultimately show ?thesis
    using assms by (simp add: cache_next_def Let_def mr_sizes well_slice_def)
qed

lemma cache_next_tail:
  assumes "mr_buffer s = pre @ xs" "mr_pos s = int (length pre)" "partial_tail xs"
  shows "cache_next s = (Inr (), s\<lparr>mr_remaining_bytes := Some (int (length xs)), mr_next_slice := None\<rparr>)"
proof (cases "length xs < 12")
  case True
  then show ?thesis using assms by (simp add: cache_next_def Let_def mr_sizes)
next
  case False
  then obtain n where "unpack_from [Sint 4] xs 8 = Inr [n]" "int (length xs) < 12 + n"
    using assms(3) by (auto simp: partial_tail_def)
  then show ?thesis
    using unpack_from_append [of xs "[n]" pre "[]"] assms(1,2) False by (simp add: cache_next_def Let_def mr_sizes)
qed

lemma cache_until_end_slices:
  assumes "list_all well_slice sls" "partial_tail rest" "mr_buffer s = pre @ concat sls @ rest"
    "mr_pos s = int (length pre)" "mr_remaining_bytes s = None"
  shows "\<exists>t. cache_until_end s = Some (Inr (), t) \<and> mr_remaining_bytes t = Some (int (length rest)) \<and>
    mr_buffer t = mr_buffer s"
  using assms
proof (induction sls arbitrary: s pre)
  case Nil
  let ?t = "s\<lparr>mr_remaining_bytes := Some (int (length rest)), mr_next_slice := None\<rparr>"
  have "cache_next s = (Inr (), ?t)" using cache_next_tail [of s pre rest] Nil by simp
  moreover have "cache_until_end ?t = Some (Inr (), ?t)" by (subst cache_until_end.simps) simp
  ultimately show ?case using Nil.prems(5) by (subst cache_until_end.simps) simp
next
  case (Cons sl sls)
  let ?t = "s\<lparr>mr_next_slice := Some sl, mr_pos := int (length (pre @ sl))\<rparr>"
  have "cache_next s = (Inr (), ?t)"
    using cache_next_slice [of s pre sl "concat sls @ rest"] Cons.prems by simp
  then show ?case
    using Cons.IH [of ?t "pre @ sl"] Cons.prems by (subst cache_until_end.simps) simp
qed

text \<open>Iterating: what \<open>next_batch\<close> makes of one slice.\<close>

definition slice_batch :: "bytes \<Rightarrow> record_batch option res" where
  "slice_batch sl =
     (if length sl < MIN_SLICE then Inl CorruptRecordError
      else res_bind (unpack_from [Sint 1] sl (int MR_MAGIC_OFFSET)) (\<lambda>vs.
        if vs ! 0 \<le> 1 then res_map (\<lambda>b. Some (LegacyBatch b)) (LegacyRecordBatch sl (vs ! 0))
        else res_map (\<lambda>b. Some (DefaultBatch b)) (DefaultRecordBatch sl)))"

lemma next_batch_slice:
  assumes "mr_next_slice s = Some sl" "cache_next s = (Inr (), t)" "MIN_SLICE \<le> length sl"
  shows "next_batch s = (slice_batch sl, t)"
  using assms by (simp add: next_batch_def slice_batch_def py_defs)

text \<open>The state after construction or after some batches have been taken: the slices to come.\<close>

definition mr_ready :: "memory_records \<Rightarrow> bytes list \<Rightarrow> bytes \<Rightarrow> bool" where
  "mr_ready s sls rest \<longleftrightarrow>
     (case sls of
        [] \<Rightarrow> mr_next_slice s = None
      | sl # sls' \<Rightarrow> mr_next_slice s = Some sl \<and>
          (\<exists>pre. mr_buffer s = pre @ concat sls' @ rest \<and> mr_pos s = int (length pre)))"

lemma mr_ready_advance:
  assumes "list_all well_slice sls" "partial_tail rest" "mr_buffer s = pre @ concat sls @ rest" "mr_pos s = int (length pre)"
  shows "\<exists>t. cache_next s = (Inr (), t) \<and> mr_ready t sls rest"
proof (cases sls)
  case Nil
  then show ?thesis using cache_next_tail [of s pre rest] assms by (simp add: mr_ready_def)
next
  case (Cons sl sls')
  then have "cache_next s = (Inr (), s\<lparr>mr_next_slice := Some sl, mr_pos := int (length (pre @ sl))\<rparr>)"
    using cache_next_slice [of s pre sl "concat sls' @ rest"] assms by simp
  then show ?thesis
    using Cons assms(3) by (intro exI conjI) (auto simp: mr_ready_def intro: exI [of _ "pre @ sl"])
qed

lemma memory_records_ready:
  assumes "list_all well_slice sls" "partial_tail rest"
  shows "\<exists>s. MemoryRecords (concat sls @ rest) = Inr s \<and> mr_ready s sls rest"
  using mr_ready_advance [OF assms, of "\<lparr>mr_buffer = concat sls @ rest, mr_pos = 0, mr_next_slice = None,
    mr_remaining_bytes = None\<rparr>" "[]"] by (auto simp: MemoryRecords_def)

lemma next_batch_ready:
  assumes "mr_ready s (sl # sls) rest" "list_all well_slice sls" "partial_tail rest" "MIN_SLICE \<le> length sl"
  shows "\<exists>t. next_batch s = (slice_batch sl, t) \<and> mr_ready t sls rest"
proof -
  obtain pre where "mr_buffer s = pre @ concat sls @ rest" "mr_pos s = int (length pre)" "mr_next_slice s = Some sl"
    using assms(1) by (auto simp: mr_ready_def)
  then show ?thesis using mr_ready_advance [OF assms(2,3), of s pre] next_batch_slice [of s sl] assms(4) by auto
qed

text \<open>All batches of a buffer, in order.\<close>

fun take_batches :: "nat \<Rightarrow> memory_records \<Rightarrow> record_batch option res list \<times> memory_records" where
  "take_batches 0 s = ([], s)"
| "take_batches (Suc n) s = (case next_batch s of (r, t) \<Rightarrow> case take_batches n t of (rs, u) \<Rightarrow> (r # rs, u))"

lemma take_batches_ready:
  assumes "mr_ready s sls rest" "list_all well_slice sls" "partial_tail rest" "\<forall>sl \<in> set sls. MIN_SLICE \<le> length sl"
  shows "\<exists>t. take_batches (length sls) s = (map slice_batch sls, t) \<and> mr_next_slice t = None"
  using assms
proof (induction sls arbitrary: s)
  case Nil
  then show ?case by (simp add: mr_ready_def)
next
  case (Cons sl sls)
  then obtain t where t: "next_batch s = (slice_batch sl, t)" "mr_ready t sls rest"
    using next_batch_ready [of s sl sls rest] by auto
  then show ?case using Cons.IH [of t] Cons.prems by auto
qed

section \<open>Properties\<close>

text \<open>A buffer of complete batches, followed by a truncated one as brokers send at the end of a
  fetch, is cut exactly at the batch boundaries: successive calls of \<open>next_batch\<close> return each batch in
  order and then None, and the truncated rest is never returned.\<close>

theorem memory_records_split:
  assumes "list_all well_slice sls" "partial_tail rest" "\<forall>sl \<in> set sls. MIN_SLICE \<le> length sl"
  shows "\<exists>s t. MemoryRecords (concat sls @ rest) = Inr s \<and> take_batches (length sls) s = (map slice_batch sls, t) \<and>
    next_batch t = (Inr None, t)"
proof -
  obtain s where "MemoryRecords (concat sls @ rest) = Inr s" "mr_ready s sls rest"
    using memory_records_ready [OF assms(1,2)] by blast
  moreover from this obtain t where "take_batches (length sls) s = (map slice_batch sls, t)" "mr_next_slice t = None"
    using take_batches_ready [OF _ assms(1,2,3)] by blast
  ultimately show ?thesis by (auto simp: next_batch_def)
qed

text \<open>A one-record v0 message of 26 bytes, and the first 13 bytes of another.\<close>

definition example_slice :: bytes where
  "example_slice = replicate 8 0 @ [0, 0, 0, 14] @ replicate 6 0 @ replicate 8 255"

lemma example_slice_well: "list_all well_slice [example_slice]" "partial_tail (take 13 example_slice)"
    "\<forall>sl \<in> set [example_slice]. MIN_SLICE \<le> length sl"
proof -
  have "unpack_from [Sint 4] example_slice 8 = Inr [14]" "unpack_from [Sint 4] (take 13 example_slice) 8 = Inr [14]"
    by code_simp+
  moreover have "length example_slice = 26" by code_simp
  ultimately show "list_all well_slice [example_slice]" "partial_tail (take 13 example_slice)"
    "\<forall>sl \<in> set [example_slice]. MIN_SLICE \<le> length sl"
    by (auto simp: well_slice_def partial_tail_def mr_sizes)
qed

theorem memory_records_split_witness:
  "\<exists>s t. MemoryRecords (example_slice @ take 13 example_slice) = Inr s \<and>
     take_batches 1 s = ([slice_batch example_slice], t) \<and> next_batch t = (Inr None, t)"
  using memory_records_split [OF example_slice_well] by simp

text \<open>C40. \<open>valid_bytes\<close> returns, on every such buffer, the number of bytes of the complete batches, and
  leaves the iteration where it was.\<close>

theorem valid_bytes_total:
  assumes "list_all well_slice sls" "partial_tail rest"
  shows "\<exists>s t. MemoryRecords (concat sls @ rest) = Inr s \<and> valid_bytes s = Some (Inr (int (length (concat sls))), t) \<and>
    mr_next_slice t = mr_next_slice s \<and> mr_pos t = mr_pos s"
proof -
  let ?buf = "concat sls @ rest"
  let ?init = "\<lparr>mr_buffer = ?buf, mr_pos = 0, mr_next_slice = None, mr_remaining_bytes = None\<rparr>"
  show ?thesis
  proof (cases sls)
    case Nil
    let ?s = "?init\<lparr>mr_remaining_bytes := Some (int (length rest))\<rparr>"
    have "MemoryRecords ?buf = Inr ?s" using cache_next_tail [of ?init "[]" rest] assms(2) Nil by (simp add: MemoryRecords_def)
    moreover have "cache_until_end ?s = Some (Inr (), ?s)" by (subst cache_until_end.simps) simp
    ultimately show ?thesis using Nil by (simp add: valid_bytes_def)
  next
    case (Cons sl sls')
    let ?s = "?init\<lparr>mr_next_slice := Some sl, mr_pos := int (length sl)\<rparr>"
    have "MemoryRecords ?buf = Inr ?s"
      using cache_next_slice [of ?init "[]" sl "concat sls' @ rest"] assms(1) Cons by (simp add: MemoryRecords_def)
    moreover obtain t where "cache_until_end ?s = Some (Inr (), t)" "mr_remaining_bytes t = Some (int (length rest))"
      "mr_buffer t = ?buf"
      using cache_until_end_slices [of sls' rest ?s sl] assms Cons by auto
    ultimately show ?thesis by (simp add: valid_bytes_def)
  qed
qed

theorem valid_bytes_total_witness:
  "\<exists>s t. MemoryRecords (example_slice @ take 13 example_slice) = Inr s \<and> valid_bytes s = Some (Inr 26, t)"
proof -
  have "length example_slice = 26" by code_simp
  then show ?thesis using valid_bytes_total [OF example_slice_well(1,2)] by auto
qed

lemma cache_until_end_stuck:
  assumes "cache_next s = (Inr (), s)" "mr_remaining_bytes s = None"
  shows "cache_until_end s = None"
proof -
  have "cache_until_end u = Some y \<Longrightarrow> u \<noteq> s" for u y
    by (rule cache_until_end.raw_induct [of "\<lambda>u y. u \<noteq> s"])
      (auto simp: assms split: if_splits sum.splits prod.splits, blast)
  then show ?thesis by (cases "cache_until_end s") auto
qed

text \<open>A length field of -12 makes \<open>valid_bytes\<close> run forever: the slice is empty and the position
  never moves, while \<open>next_batch\<close> raises CorruptRecordError again and again.\<close>

theorem valid_bytes_diverges:
  assumes "unpack_from [Sint 4] buf 8 = Inr [- 12]"
  shows "\<exists>s. MemoryRecords buf = Inr s \<and> valid_bytes s = None \<and> next_batch s = (Inl CorruptRecordError, s)"
proof -
  let ?init = "\<lparr>mr_buffer = buf, mr_pos = 0, mr_next_slice = None, mr_remaining_bytes = None\<rparr>"
  let ?s = "?init\<lparr>mr_next_slice := Some []\<rparr>"
  have len: "12 \<le> length buf" using assms by (auto simp: unpack_from_def struct_size_def split: if_splits)
  have "py_slice buf 0 0 = []" by (simp add: py_slice_def)
  then have "cache_next ?init = (Inr (), ?s)" "cache_next ?s = (Inr (), ?s)"
    using assms len by (simp_all add: cache_next_def Let_def mr_sizes)
  then show ?thesis
    using cache_until_end_stuck [of ?s] by (simp add: MemoryRecords_def valid_bytes_def next_batch_def mr_sizes)
qed

theorem valid_bytes_diverges_witness:
  "\<exists>s. MemoryRecords (replicate 8 0 @ [255, 255, 255, 244]) = Inr s \<and> valid_bytes s = None"
proof -
  have "unpack_from [Sint 4] (replicate 8 0 @ [255, 255, 255, 244]) 8 = Inr [- 12]" by code_simp
  from valid_bytes_diverges [OF this] show ?thesis by blast
qed

text \<open>C2. From builder to consumer: closing a v2 builder that holds some records and reading its buffer
  through MemoryRecords gives one batch with a valid checksum and nothing after it, and the batch
  yields exactly the records appended.\<close>

theorem records_roundtrip:
  assumes "mb_builder m = Some (DefaultBuilder s)" "\<not> mb_closed m" "bd_magic s = 2"
    and "holds s es" "\<forall>e \<in> set es. entry_ok (first_ts es) e" "codec_works cs (bd_compression_type s)" "header_fits s"
  shows "\<exists>m' r r' b b' rs. mb_close cs m = (Inr (), m') \<and> mb_records m' = Inr r \<and>
    next_batch r = (Inr (Some (DefaultBatch b)), r') \<and> \<not> has_next r' \<and> validate_crc b = Inr True \<and>
    maybe_uncompress cs b = (Inr (), b') \<and> batch_records b' = (rs, StopIteration) \<and>
    map (\<lambda>r. (dr_offset r, dr_timestamp r, dr_key r, dr_value r, dr_headers r)) rs =
    map (\<lambda>e. (e_offset e, e_timestamp e, e_key e, e_value e, e_headers e)) es"
proof -
  obtain buf t b b' rs where build: "default_build cs s = (Inr buf, t)" and b: "DefaultRecordBatch buf = Inr b"
    and rest: "validate_crc b = Inr True" "maybe_uncompress cs b = (Inr (), b')" "batch_records b' = (rs, StopIteration)"
      "map (\<lambda>r. (dr_offset r, dr_timestamp r, dr_key r, dr_value r, dr_headers r)) rs =
       map (\<lambda>e. (e_offset e, e_timestamp e, e_key e, e_value e, e_headers e)) es"
    using batch_enc_dec [OF assms(4-7)] by blast
  have "HEADER_SIZE \<le> length (bd_buffer s)" using assms(4) by (simp add: holds_def)
  note built = built_length_magic [OF build this]
  then have well: "well_slice buf" "MIN_SLICE \<le> length buf" by (simp_all add: well_slice_def header_sizes mr_sizes)
  have batch: "slice_batch buf = Inr (Some (DefaultBatch b))"
    using well(2) built(2) b assms(3) by (simp add: slice_batch_def mr_sizes)
  obtain r where r: "MemoryRecords buf = Inr r" "mr_ready r [buf] []"
    using memory_records_ready [of "[buf]" "[]"] well(1) by (auto simp: partial_tail_def)
  obtain r' where r': "next_batch r = (slice_batch buf, r')" "mr_ready r' [] []"
    using next_batch_ready [of r buf "[]" "[]"] r(2) well(2) by (auto simp: partial_tail_def)
  obtain m' where m': "mb_close cs m = (Inr (), m')" "mb_closed m'" "mb_buffer m' = Some buf"
    using assms(1,2) build by (simp add: mb_close_def inner_build_def)
  have "mb_records m' = Inr r" using m' r by (simp add: mb_records_def)
  moreover have "next_batch r = (Inr (Some (DefaultBatch b)), r')" "\<not> has_next r'"
    using r' batch by (simp_all add: mr_ready_def has_next_def)
  ultimately show ?thesis using m'(1) rest by blast
qed

definition example_memory_builder :: memory_builder where
  "example_memory_builder = \<lparr>mb_builder = Some (DefaultBuilder example_built), mb_batch_size = 100, mb_buffer = None,
     mb_next_offset = 2, mb_closed = False, mb_magic = 2, mb_bytes_written = 0, mb_producer_id = Some 5,
     mb_producer_epoch = Some 0\<rparr>"

theorem records_roundtrip_witness:
  "\<exists>m' r r' b b' rs. mb_close no_codecs example_memory_builder = (Inr (), m') \<and> mb_records m' = Inr r \<and>
     next_batch r = (Inr (Some (DefaultBatch b)), r') \<and> maybe_uncompress no_codecs b = (Inr (), b') \<and>
     batch_records b' = (rs, StopIteration) \<and> map dr_value rs = [None, Some [7]]"
proof -
  have ct: "bd_compression_type example_built = 0" "bd_magic example_built = 2" by code_simp+
  have "codec_works no_codecs (bd_compression_type example_built)" by (simp add: ct codec_works_def CODEC_NONE_def)
  moreover have "header_fits example_built" by code_simp
  ultimately obtain m' r r' b b' rs where w: "mb_close no_codecs example_memory_builder = (Inr (), m')" "mb_records m' = Inr r"
    "next_batch r = (Inr (Some (DefaultBatch b)), r')" "maybe_uncompress no_codecs b = (Inr (), b')"
    "batch_records b' = (rs, StopIteration)"
    and rs: "map (\<lambda>r. (dr_offset r, dr_timestamp r, dr_key r, dr_value r, dr_headers r)) rs =
      map (\<lambda>e. (e_offset e, e_timestamp e, e_key e, e_value e, e_headers e)) example_entries"
    using records_roundtrip [of example_memory_builder, OF _ _ ct(2) example_holds example_ok]
    by (fastforce simp: example_memory_builder_def)
  have "map dr_value rs = [None, Some [7]]"
    using arg_cong [OF rs, of "map (\<lambda>(off, ts, k, v, h). v)"] by (simp add: example_entries_def comp_def)
  then show ?thesis using w by - (intro exI conjI)
qed

end
