(* ===== verification/Futures.thy ===== *)
theory Futures
  imports Cluster
begin

text \<open>
  \<^verbatim>\<open>kafka/future.py\<close> and \<^verbatim>\<open>kafka/producer/future.py\<close>.  A future is a record of its attributes; callbacks are
  identified by their type parameter \<open>'c\<close>.  An operation returns the calls it makes, in order: since
  \<open>error_on_callbacks\<close> is off, an exception of a callback is logged and dropped, so every call in the
  list is made.  A second part models the futures the producer hands out for records.
\<close>

section \<open>Future\<close>

record ('v, 'c) future =
  f_is_done :: bool
  f_value :: "'v option"
  f_exception :: "exn_class option"
  f_callbacks :: "'c list"
  f_errbacks :: "'c list"

datatype ('v, 'c) callback_call = Callback 'c 'v | Errback 'c exn_class

definition Future :: "('v, 'c) future" where
  "Future = \<lparr>f_is_done = False, f_value = None, f_exception = None, f_callbacks = [], f_errbacks = []\<rparr>"

definition f_succeeded :: "('v, 'c) future \<Rightarrow> bool" where
  "f_succeeded f \<longleftrightarrow> f_is_done f \<and> f_exception f = None"

definition f_failed :: "('v, 'c) future \<Rightarrow> bool" where
  "f_failed f \<longleftrightarrow> f_is_done f \<and> f_exception f \<noteq> None"

definition f_retriable :: "('v, 'c) future \<Rightarrow> bool" where
  "f_retriable f = (case f_exception f of None \<Rightarrow> False | Some e \<Rightarrow> cls_retriable e)"

definition f_success :: "'v \<Rightarrow> (('v, 'c) future, ('v, 'c) callback_call list) py" where
  "f_success v =
     py_then (py_assert (\<lambda>f. \<not> f_is_done f))
    (py_then (py_set (\<lambda>f. f\<lparr>f_value := Some v, f_is_done := True\<rparr>))
       (py_get (\<lambda>f. map (\<lambda>c. Callback c v) (f_callbacks f))))"

definition f_failure :: "exn_class \<Rightarrow> (('v, 'c) future, ('v, 'c) callback_call list) py" where
  "f_failure e =
     py_then (py_assert (\<lambda>f. \<not> f_is_done f))
    (py_then (py_assert (\<lambda>_. issubclass e BaseException))
    (py_then (py_set (\<lambda>f. f\<lparr>f_exception := Some e, f_is_done := True\<rparr>))
       (py_get (\<lambda>f. map (\<lambda>c. Errback c e) (f_errbacks f)))))"

definition f_add_callback :: "'c \<Rightarrow> (('v, 'c) future, ('v, 'c) callback_call list) py" where
  "f_add_callback c =
     py_if (\<lambda>f. \<not> f_is_done f)
       (py_then (py_set (\<lambda>f. f\<lparr>f_callbacks := f_callbacks f @ [c]\<rparr>)) (py_return []))
       (py_get (\<lambda>f. if f_succeeded f then [Callback c (the (f_value f))] else []))"

definition f_add_errback :: "'c \<Rightarrow> (('v, 'c) future, ('v, 'c) callback_call list) py" where
  "f_add_errback c =
     py_if (\<lambda>f. \<not> f_is_done f)
       (py_then (py_set (\<lambda>f. f\<lparr>f_errbacks := f_errbacks f @ [c]\<rparr>)) (py_return []))
       (py_get (\<lambda>f. if f_failed f then [Errback c (the (f_exception f))] else []))"

definition f_add_both :: "'c \<Rightarrow> (('v, 'c) future, ('v, 'c) callback_call list) py" where
  "f_add_both c = py_bind (f_add_callback c) (\<lambda>a. py_bind (f_add_errback c) (\<lambda>b. py_return (a @ b)))"

section \<open>Every callback is called exactly once\<close>

datatype ('v, 'c) future_op = OSuccess 'v | OFailure exn_class | OAddCallback 'c | OAddErrback 'c | OAddBoth 'c

primrec run_future_op :: "('v, 'c) future_op \<Rightarrow> (('v, 'c) future, ('v, 'c) callback_call list) py" where
  "run_future_op (OSuccess v) = f_success v"
| "run_future_op (OFailure e) = f_failure e"
| "run_future_op (OAddCallback c) = f_add_callback c"
| "run_future_op (OAddErrback c) = f_add_errback c"
| "run_future_op (OAddBoth c) = f_add_both c"

text \<open>The calls made by a sequence of operations; an operation that raises makes none.\<close>

primrec future_calls :: "('v, 'c) future_op list \<Rightarrow> ('v, 'c) future \<Rightarrow> ('v, 'c) callback_call list \<times> ('v, 'c) future" where
  "future_calls [] f = ([], f)"
| "future_calls (x # xs) f =
     (case run_future_op x f of (r, g) \<Rightarrow>
        case future_calls xs g of (cs, h) \<Rightarrow> ((case r of Inl _ \<Rightarrow> [] | Inr ds \<Rightarrow> ds) @ cs, h))"

text \<open>The callbacks and errbacks registered by a sequence of operations, in order.\<close>

fun op_callbacks :: "('v, 'c) future_op \<Rightarrow> 'c list" where
  "op_callbacks (OAddCallback c) = [c]"
| "op_callbacks (OAddBoth c) = [c]"
| "op_callbacks _ = []"

fun op_errbacks :: "('v, 'c) future_op \<Rightarrow> 'c list" where
  "op_errbacks (OAddErrback c) = [c]"
| "op_errbacks (OAddBoth c) = [c]"
| "op_errbacks _ = []"

definition outcome_calls :: "('v, 'c) future \<Rightarrow> 'c list \<Rightarrow> 'c list \<Rightarrow> ('v, 'c) callback_call list" where
  "outcome_calls f cbs ebs =
     (if \<not> f_is_done f then []
      else case f_exception f of
          None \<Rightarrow> map (\<lambda>c. Callback c (the (f_value f))) cbs
        | Some e \<Rightarrow> map (\<lambda>c. Errback c e) ebs)"

lemmas future_defs = f_success_def f_failure_def f_add_callback_def f_add_errback_def f_add_both_def
  f_succeeded_def f_failed_def outcome_calls_def py_defs

lemma future_op_done:
  assumes "f_is_done f"
  shows "snd (run_future_op x f) = f"
    "(case fst (run_future_op x f) of Inl _ \<Rightarrow> [] | Inr ds \<Rightarrow> ds) = outcome_calls f (op_callbacks x) (op_errbacks x)"
  using assms by (cases x; simp add: future_defs split: option.splits)+

lemma outcome_append: "outcome_calls f (a @ c) (b @ d) = outcome_calls f a b @ outcome_calls f c d"
  by (simp add: outcome_calls_def split: option.splits)

lemma future_calls_done:
  assumes "f_is_done f"
  shows "future_calls xs f = (outcome_calls f (concat (map op_callbacks xs)) (concat (map op_errbacks xs)), f)"
proof (induction xs)
  case (Cons x xs)
  then show ?case
    using future_op_done [OF assms, of x] by (cases "run_future_op x f") (simp add: outcome_append)
qed (simp add: outcome_calls_def split: option.splits)

text \<open>A pending future: its value and exception are unset.\<close>

definition pending :: "('v, 'c) future \<Rightarrow> bool" where
  "pending f \<longleftrightarrow> \<not> f_is_done f \<and> f_value f = None \<and> f_exception f = None"

lemma future_op_pending:
  assumes "pending f" "run_future_op x f = (r, g)"
  shows "pending g \<and> f_callbacks g = f_callbacks f @ op_callbacks x \<and> f_errbacks g = f_errbacks f @ op_errbacks x \<and>
      (case r of Inl _ \<Rightarrow> [] | Inr ds \<Rightarrow> ds) = [] \<or>
    f_is_done g \<and> op_callbacks x = [] \<and> op_errbacks x = [] \<and>
      (case r of Inl _ \<Rightarrow> [] | Inr ds \<Rightarrow> ds) = outcome_calls g (f_callbacks f) (f_errbacks f)"
  using assms by (cases x) (auto simp: pending_def future_defs split: if_splits)

lemma future_calls_pending:
  assumes "pending f" "future_calls xs f = (cs, g)"
  shows "cs = outcome_calls g (f_callbacks f @ concat (map op_callbacks xs)) (f_errbacks f @ concat (map op_errbacks xs))"
  using assms
proof (induction xs arbitrary: f cs)
  case Nil
  then show ?case by (simp add: outcome_calls_def pending_def)
next
  case (Cons x xs)
  obtain r h where op: "run_future_op x f = (r, h)" by (cases "run_future_op x f")
  obtain ds where ds: "future_calls xs h = (ds, g)" "cs = (case r of Inl _ \<Rightarrow> [] | Inr ds \<Rightarrow> ds) @ ds"
    using Cons.prems(2) op by (auto split: prod.splits)
  consider "pending h" "f_callbacks h = f_callbacks f @ op_callbacks x" "f_errbacks h = f_errbacks f @ op_errbacks x"
      "(case r of Inl _ \<Rightarrow> [] | Inr ds \<Rightarrow> ds) = []"
    | "f_is_done h" "op_callbacks x = []" "op_errbacks x = []"
      "(case r of Inl _ \<Rightarrow> [] | Inr ds \<Rightarrow> ds) = outcome_calls h (f_callbacks f) (f_errbacks f)"
    using future_op_pending [OF Cons.prems(1) op] by blast
  then show ?case
  proof cases
    case 1
    then show ?thesis using Cons.IH [OF 1(1) ds(1)] ds(2) by simp
  next
    case 2
    then show ?thesis using future_calls_done [OF 2(1), of xs] ds by (simp add: outcome_append)
  qed
qed

section \<open>Futures of the producer\<close>

record record_metadata_args =
  ra_relative_offset :: "int option"
  ra_timestamp_ms :: int
  ra_checksum :: "int option"
  ra_serialized_key_size :: int
  ra_serialized_value_size :: int
  ra_serialized_header_size :: int

record record_metadata_value =
  rv_topic_partition :: topic_partition
  rv_offset :: int
  rv_timestamp :: int
  rv_checksum :: "int option"
  rv_serialized_key_size :: int
  rv_serialized_value_size :: int
  rv_serialized_header_size :: int

text \<open>\<open>_produce_success\<close>: the value the future of a record is completed with.\<close>

definition produce_success :: "topic_partition \<Rightarrow> record_metadata_args \<Rightarrow> int \<times> int option \<Rightarrow> record_metadata_value" where
  "produce_success tp a = (\<lambda>(offset, produce_timestamp_ms).
     \<lparr>rv_topic_partition = tp,
      rv_offset = (if offset \<noteq> - 1 \<and> ra_relative_offset a \<noteq> None then offset + the (ra_relative_offset a) else offset),
      rv_timestamp = (case produce_timestamp_ms of Some ts \<Rightarrow> if ts \<noteq> - 1 then ts else ra_timestamp_ms a
                      | None \<Rightarrow> ra_timestamp_ms a),
      rv_checksum = ra_checksum a, rv_serialized_key_size = ra_serialized_key_size a,
      rv_serialized_value_size = ra_serialized_value_size a, rv_serialized_header_size = ra_serialized_header_size a\<rparr>)"

text \<open>The future of a record follows the produce future of its batch, on which it registers when it is
  created; \<open>latch_set\<close> is what waiting for the batch returns.\<close>

definition FutureRecordMetadata ::
  "topic_partition \<Rightarrow> record_metadata_args \<Rightarrow> (int \<times> int option, 'c) future \<Rightarrow> (record_metadata_value, 'c) future" where
  "FutureRecordMetadata tp a pf =
     (if \<not> f_is_done pf then Future
      else case f_exception pf of
          None \<Rightarrow> Future\<lparr>f_value := Some (produce_success tp a (the (f_value pf))), f_is_done := True\<rparr>
        | Some e \<Rightarrow> Future\<lparr>f_exception := Some e, f_is_done := True\<rparr>)"

definition frm_get :: "bool \<Rightarrow> (record_metadata_value, 'c) future \<Rightarrow> record_metadata_value res" where
  "frm_get latch_set f =
     (if \<not> f_is_done f \<and> \<not> latch_set then Inl KafkaTimeoutError
      else if \<not> f_is_done f then Inl AssertionError
      else if f_failed f then Inl (the (f_exception f))
      else Inr (the (f_value f)))"

section \<open>Properties\<close>

text \<open>Whatever the order of registrations and completions, and whether callbacks are added before or
  after the future is completed, the calls made are: none while the future is pending; when it has
  succeeded, every registered callback once, in the order of registration, with its value, and no
  errback; when it has failed, every errback once with its exception, and no callback.\<close>

theorem future_callbacks_once:
  fixes f :: "('v, 'c) future"
  assumes "future_calls xs Future = (cs, f)"
  shows "cs =
    (if \<not> f_is_done f then []
     else case f_exception f of
         None \<Rightarrow> map (\<lambda>c. Callback c (the (f_value f))) (concat (map op_callbacks xs))
       | Some e \<Rightarrow> map (\<lambda>c. Errback c e) (concat (map op_errbacks xs)))"
proof -
  have "pending (Future :: ('v, 'c) future)" by (simp add: pending_def Future_def)
  from future_calls_pending [OF this assms] show ?thesis by (simp add: outcome_calls_def Future_def)
qed

theorem future_callbacks_once_witness:
  "fst (future_calls [OAddBoth (1 :: nat), OSuccess (7 :: int), OAddCallback 2, OSuccess 8, OAddErrback 3] Future) =
   [Callback 1 7, Callback 2 7]"
proof -
  obtain cs f where r: "future_calls [OAddBoth (1 :: nat), OSuccess (7 :: int), OAddCallback 2, OSuccess 8, OAddErrback 3] Future =
      (cs, f)" by (cases "future_calls [OAddBoth (1 :: nat), OSuccess (7 :: int), OAddCallback 2, OSuccess 8, OAddErrback 3] Future")
  have "f_is_done f \<and> f_exception f = None \<and> f_value f = Some 7"
    using r by (auto simp: future_defs Future_def)
  then show ?thesis using future_callbacks_once [OF r] r by simp
qed

end
