(* ===== verification/Accumulator.thy ===== *)
theory Accumulator
  imports Memory_Records Futures Txn_Manager
begin

text \<open>
  \<^verbatim>\<open>kafka/producer/record_accumulator.py\<close>: the queues of batches waiting to be sent, one per partition.
  Batches are shared between the queues, the set of incomplete batches and the sender, so they live in
  a store and are named by their index in it.  The transaction manager, which the accumulator and the
  sender share, is part of the state.  Clock readings are integers in milliseconds (the code divides
  by 1000 to compare in seconds); a lock is not modelled, a method being one step.
\<close>

section \<open>ProducerBatch\<close>

datatype final_state = ABORTED | FAILED | SUCCEEDED

record producer_batch =
  pb_max_record_size :: int
  pb_created :: int
  pb_drained :: "int option"
  pb_attempts :: int
  pb_last_attempt :: int
  pb_last_append :: int
  pb_records :: memory_builder
  pb_topic_partition :: topic_partition
  pb_produce_future :: "(int \<times> int option, nat) future"
  pb_record_futures :: "record_metadata_args list"
  pb_retry :: bool
  pb_final_state :: "final_state option"

definition ProducerBatch :: "topic_partition \<Rightarrow> memory_builder \<Rightarrow> int \<Rightarrow> producer_batch" where
  "ProducerBatch tp records now =
     \<lparr>pb_max_record_size = 0, pb_created = now, pb_drained = None, pb_attempts = 0, pb_last_attempt = now,
      pb_last_append = now, pb_records = records, pb_topic_partition = tp, pb_produce_future = Future,
      pb_record_futures = [], pb_retry = False, pb_final_state = None\<rparr>"

definition record_count :: "producer_batch \<Rightarrow> int" where
  "record_count b = mb_next_offset (pb_records b)"

definition md_size :: "append_metadata \<Rightarrow> int" where
  "md_size md = (case md of LegacyMetadata m \<Rightarrow> lm_size m | DefaultMetadata m \<Rightarrow> rm_size m)"

definition md_offset :: "append_metadata \<Rightarrow> int" where
  "md_offset md = (case md of LegacyMetadata m \<Rightarrow> lm_offset m | DefaultMetadata m \<Rightarrow> rm_offset m)"

definition md_timestamp :: "append_metadata \<Rightarrow> int" where
  "md_timestamp md = (case md of LegacyMetadata m \<Rightarrow> lm_timestamp m | DefaultMetadata m \<Rightarrow> rm_timestamp m)"

definition md_crc :: "append_metadata \<Rightarrow> int option" where
  "md_crc md = (case md of LegacyMetadata m \<Rightarrow> Some (lm_crc m) | DefaultMetadata m \<Rightarrow> None)"

text \<open>\<open>len(v) if v is not None else -1\<close>, and the size of the headers; \<open>len(None)\<close> is a TypeError.\<close>

definition arg_size :: "pyval \<Rightarrow> int" where
  "arg_size v = (case v of VBytes b \<Rightarrow> int (length b) | _ \<Rightarrow> - 1)"

primrec header_sizes_sum :: "record_headers \<Rightarrow> int res" where
  "header_sizes_sum [] = Inr 0"
| "header_sizes_sum (h # hs) =
     res_bind (utf8_encode (fst h)) (\<lambda>k.
       case snd h of None \<Rightarrow> Inl TypeError
       | Some v \<Rightarrow> res_map (\<lambda>n. int (length k) + int (length v) + n) (header_sizes_sum hs))"

definition headers_size :: "record_headers \<Rightarrow> int res" where
  "headers_size hs = (if hs \<noteq> [] then header_sizes_sum hs else Inr (- 1))"

definition try_append ::
  "int \<Rightarrow> pyval \<Rightarrow> pyval \<Rightarrow> pyval \<Rightarrow> record_headers \<Rightarrow> (producer_batch, nat option) py" where
  "try_append now timestamp_ms key value headers b =
     (case mb_append now timestamp_ms key value headers (pb_records b) of
        (Inl e, r) \<Rightarrow> (Inl e, b\<lparr>pb_records := r\<rparr>)
      | (Inr None, r) \<Rightarrow> (Inr None, b\<lparr>pb_records := r\<rparr>)
      | (Inr (Some md), r) \<Rightarrow>
          let b1 = b\<lparr>pb_records := r, pb_max_record_size := max (pb_max_record_size b) (md_size md),
                     pb_last_append := now\<rparr> in
          (case headers_size headers of
             Inl e \<Rightarrow> (Inl e, b1)
           | Inr hsz \<Rightarrow>
               (Inr (Some (length (pb_record_futures b))),
                b1\<lparr>pb_record_futures := pb_record_futures b @
                    [\<lparr>ra_relative_offset = Some (md_offset md), ra_timestamp_ms = md_timestamp md, ra_checksum = md_crc md,
                      ra_serialized_key_size = arg_size key, ra_serialized_value_size = arg_size value,
                      ra_serialized_header_size = hsz\<rparr>]\<rparr>)))"

definition complete_future :: "int \<Rightarrow> int option \<Rightarrow> exn_class option \<Rightarrow> (producer_batch, unit) py" where
  "complete_future boff timestamp_ms exception b =
     (if f_is_done (pb_produce_future b) then (Inl IllegalStateError, b)
      else case (case exception of None \<Rightarrow> f_success (boff, timestamp_ms) (pb_produce_future b)
                 | Some e \<Rightarrow> f_failure e (pb_produce_future b)) of
          (Inl e, f) \<Rightarrow> (Inl e, b\<lparr>pb_produce_future := f\<rparr>)
        | (Inr _, f) \<Rightarrow> (Inr (), b\<lparr>pb_produce_future := f\<rparr>))"

definition batch_abort :: "exn_class \<Rightarrow> (producer_batch, unit) py" where
  "batch_abort exception =
     py_then (py_when (\<lambda>b. pb_final_state b \<noteq> None) (py_raise IllegalStateError))
    (py_then (py_set (\<lambda>b. b\<lparr>pb_final_state := Some ABORTED\<rparr>))
       (complete_future (- 1) (Some (- 1)) (Some exception)))"

definition batch_done :: "int \<Rightarrow> int option \<Rightarrow> exn_class option \<Rightarrow> (producer_batch, bool) py" where
  "batch_done boff timestamp_ms exception =
     (let final_state = (if exception = None then SUCCEEDED else FAILED) in
      py_if (\<lambda>b. pb_final_state b = None)
        (py_then (py_set (\<lambda>b. b\<lparr>pb_final_state := Some final_state\<rparr>))
        (py_then (complete_future boff timestamp_ms exception) (py_return True)))
        (py_if (\<lambda>b. pb_final_state b \<noteq> Some SUCCEEDED) (py_return False) (py_raise IllegalStateError)))"

definition has_reached_delivery_timeout :: "int \<Rightarrow> int \<Rightarrow> producer_batch \<Rightarrow> bool" where
  "has_reached_delivery_timeout delivery_timeout_ms now b \<longleftrightarrow> delivery_timeout_ms \<le> now - pb_created b"

definition batch_retry :: "int \<Rightarrow> producer_batch \<Rightarrow> producer_batch" where
  "batch_retry now b =
     b\<lparr>pb_retry := True, pb_attempts := pb_attempts b + 1, pb_last_attempt := now, pb_last_append := now\<rparr>"

definition batch_is_done :: "producer_batch \<Rightarrow> bool" where
  "batch_is_done b = f_is_done (pb_produce_future b)"

section \<open>RecordAccumulator\<close>

record accumulator =
  cfg_batch_size :: int
  cfg_compression_attrs :: int
  cfg_linger_ms :: int
  cfg_request_timeout_ms :: int
  cfg_delivery_timeout_ms :: int
  cfg_retry_backoff_ms :: int
  cfg_message_version :: int
  ac_transaction_manager :: "txn_manager option"
  ac_closed :: bool
  ac_flushes_in_progress :: int
  ac_appends_in_progress :: int
  ac_batches :: "(topic_partition \<times> nat list) list"
  ac_incomplete :: "nat list"
  ac_muted :: "topic_partition list"
  ac_drain_index :: nat
  ac_next_batch_expiry_time_ms :: "int option"
  ac_store :: "producer_batch list"

definition RecordAccumulator ::
  "int \<Rightarrow> int \<Rightarrow> int \<Rightarrow> int \<Rightarrow> int \<Rightarrow> int \<Rightarrow> int \<Rightarrow> txn_manager option \<Rightarrow> accumulator res" where
  "RecordAccumulator batch_size compression linger request_timeout delivery_timeout retry_backoff version tm =
     (if delivery_timeout < linger + request_timeout then Inl KafkaConfigurationError
      else Inr \<lparr>cfg_batch_size = batch_size, cfg_compression_attrs = compression, cfg_linger_ms = linger,
        cfg_request_timeout_ms = request_timeout, cfg_delivery_timeout_ms = delivery_timeout,
        cfg_retry_backoff_ms = retry_backoff, cfg_message_version = version, ac_transaction_manager = tm,
        ac_closed = False, ac_flushes_in_progress = 0, ac_appends_in_progress = 0, ac_batches = [],
        ac_incomplete = [], ac_muted = [], ac_drain_index = 0, ac_next_batch_expiry_time_ms = None, ac_store = []\<rparr>)"

text \<open>\<open>self._batches[tp]\<close> of a defaultdict, and the effect of looking a key up.\<close>

definition dq_of :: "accumulator \<Rightarrow> topic_partition \<Rightarrow> nat list" where
  "dq_of s tp = (case map_of (ac_batches s) tp of None \<Rightarrow> [] | Some q \<Rightarrow> q)"

definition set_dq :: "topic_partition \<Rightarrow> nat list \<Rightarrow> accumulator \<Rightarrow> accumulator" where
  "set_dq tp q s = s\<lparr>ac_batches := AList.update tp q (ac_batches s)\<rparr>"

definition on_batch :: "nat \<Rightarrow> (producer_batch, 'a) py \<Rightarrow> (accumulator, 'a) py" where
  "on_batch i m s = (case m (ac_store s ! i) of (r, b) \<Rightarrow> (r, s\<lparr>ac_store := (ac_store s)[i := b]\<rparr>))"

text \<open>The body under the partition lock that appends to the last batch of the queue, when it can.\<close>

definition append_to_last ::
  "topic_partition \<Rightarrow> int \<Rightarrow> pyval \<Rightarrow> pyval \<Rightarrow> pyval \<Rightarrow> record_headers \<Rightarrow>
     (accumulator, ((nat \<times> nat) \<times> bool \<times> bool) option) py" where
  "append_to_last tp now timestamp_ms key value headers s =
     (let dq = dq_of s tp in
      if dq = [] then (Inr None, s)
      else let i = last dq in
        case on_batch i (try_append now timestamp_ms key value headers) s of
          (Inl e, t) \<Rightarrow> (Inl e, t)
        | (Inr None, t) \<Rightarrow> (Inr None, t)
        | (Inr (Some fut), t) \<Rightarrow>
            (Inr (Some ((i, fut), length dq > 1 \<or> is_full (pb_records (ac_store t ! i)), False)), t))"

definition append_new_batch ::
  "topic_partition \<Rightarrow> int \<Rightarrow> pyval \<Rightarrow> pyval \<Rightarrow> pyval \<Rightarrow> record_headers \<Rightarrow>
     (accumulator, (nat \<times> nat) \<times> bool \<times> bool) py" where
  "append_new_batch tp now timestamp_ms key value headers s =
     (if ac_transaction_manager s \<noteq> None \<and> cfg_message_version s < 2 then (Inl UnsupportedVersionError, s)
      else case MemoryRecordsBuilder (cfg_message_version s) (cfg_compression_attrs s) (cfg_batch_size s) 0 False (- 1) (- 1) (- 1) of
          Inl e \<Rightarrow> (Inl e, s)
        | Inr records \<Rightarrow>
            (case try_append now timestamp_ms key value headers (ProducerBatch tp records now) of
               (Inl e, _) \<Rightarrow> (Inl e, s)
             | (Inr None, _) \<Rightarrow> (Inl Exception, s)
             | (Inr (Some fut), b) \<Rightarrow>
                 let i = length (ac_store s); dq = dq_of s tp @ [i];
                     t = set_dq tp dq (s\<lparr>ac_store := ac_store s @ [b], ac_incomplete := ac_incomplete s @ [i]\<rparr>)
                 in (Inr ((i, fut), length dq > 1 \<or> is_full (pb_records b), True), t)))"

definition acc_append ::
  "topic_partition \<Rightarrow> int \<Rightarrow> pyval \<Rightarrow> pyval \<Rightarrow> pyval \<Rightarrow> record_headers \<Rightarrow>
     (accumulator, (nat \<times> nat) \<times> bool \<times> bool) py" where
  "acc_append tp now timestamp_ms key value headers =
     py_then (py_assert (\<lambda>s. \<not> ac_closed s))
    (py_then (py_set (\<lambda>s. set_dq tp (dq_of s tp) s))
    (py_bind (append_to_last tp now timestamp_ms key value headers) (\<lambda>first.
       case first of
         Some res \<Rightarrow> py_return res
       | None \<Rightarrow>
           py_then (py_assert (\<lambda>s. \<not> ac_closed s))
          (py_bind (append_to_last tp now timestamp_ms key value headers) (\<lambda>second.
             case second of
               Some res \<Rightarrow> py_return res
             | None \<Rightarrow> append_new_batch tp now timestamp_ms key value headers)))))"

definition reset_next_batch_expiry_time :: "(accumulator, unit) py" where
  "reset_next_batch_expiry_time = py_set (\<lambda>s. s\<lparr>ac_next_batch_expiry_time_ms := None\<rparr>)"

definition maybe_update_next_batch_expiry_time :: "producer_batch \<Rightarrow> (accumulator, unit) py" where
  "maybe_update_next_batch_expiry_time b =
     py_set (\<lambda>s. let t = pb_created b + cfg_delivery_timeout_ms s in
       s\<lparr>ac_next_batch_expiry_time_ms :=
           Some (case ac_next_batch_expiry_time_ms s of None \<Rightarrow> t | Some u \<Rightarrow> min u t)\<rparr>)"

definition close_records :: "codecs \<Rightarrow> (producer_batch, unit) py" where
  "close_records cs b = (case mb_close cs (pb_records b) of (r, m) \<Rightarrow> (r, b\<lparr>pb_records := m\<rparr>))"

text \<open>Expiry of one queue: the \<open>while dq\<close> loop.\<close>

primrec expire_queue :: "codecs \<Rightarrow> int \<Rightarrow> topic_partition \<Rightarrow> nat list \<Rightarrow> (accumulator, nat list) py" where
  "expire_queue cs now tp [] = py_return []"
| "expire_queue cs now tp (i # dq) =
     py_bind (py_get (\<lambda>s. has_reached_delivery_timeout (cfg_delivery_timeout_ms s) now (ac_store s ! i))) (\<lambda>late.
       if late then
         py_then (py_set (set_dq tp dq))
        (py_then (on_batch i (close_records cs))
        (py_bind (expire_queue cs now tp dq) (\<lambda>rest. py_return (i # rest))))
       else py_then (\<lambda>s. maybe_update_next_batch_expiry_time (ac_store s ! i) s) (py_return []))"

primrec expire_queues :: "codecs \<Rightarrow> int \<Rightarrow> topic_partition list \<Rightarrow> (accumulator, nat list) py" where
  "expire_queues cs now [] = py_return []"
| "expire_queues cs now (tp # tps) =
     py_bind (\<lambda>s. expire_queue cs now tp (dq_of s tp) s) (\<lambda>a.
     py_bind (expire_queues cs now tps) (\<lambda>b. py_return (a @ b)))"

definition expired_batches :: "codecs \<Rightarrow> int \<Rightarrow> (accumulator, nat list) py" where
  "expired_batches cs now = (\<lambda>s. expire_queues cs now (map fst (ac_batches s)) s)"

definition acc_reenqueue :: "int \<Rightarrow> nat \<Rightarrow> (accumulator, unit) py" where
  "acc_reenqueue now i =
     py_set (\<lambda>s. let s1 = s\<lparr>ac_store := (ac_store s)[i := batch_retry now (ac_store s ! i)]\<rparr>;
                     tp = pb_topic_partition (ac_store s ! i)
                 in set_dq tp (i # dq_of s1 tp) s1)"

definition flush_in_progress :: "accumulator \<Rightarrow> bool" where
  "flush_in_progress s \<longleftrightarrow> ac_flushes_in_progress s > 0"

text \<open>\<open>ready\<close>: the head of a queue is sendable, or the time left until it is.\<close>

definition backing_off :: "accumulator \<Rightarrow> int \<Rightarrow> producer_batch \<Rightarrow> bool" where
  "backing_off s now b \<longleftrightarrow> pb_attempts b > 0 \<and> pb_last_attempt b + cfg_retry_backoff_ms s > now"

definition time_to_wait :: "accumulator \<Rightarrow> int \<Rightarrow> producer_batch \<Rightarrow> int" where
  "time_to_wait s now b = (if backing_off s now b then cfg_retry_backoff_ms s else cfg_linger_ms s)"

definition sendable :: "accumulator \<Rightarrow> int \<Rightarrow> nat list \<Rightarrow> producer_batch \<Rightarrow> bool" where
  "sendable s now dq b \<longleftrightarrow>
     (length dq > 1 \<or> is_full (pb_records b)) \<or> now - pb_last_attempt b \<ge> time_to_wait s now b \<or> ac_closed s \<or> flush_in_progress s"

definition INITIAL_READY_CHECK :: int where "INITIAL_READY_CHECK = 9999999990"

definition ready_step ::
  "cluster \<Rightarrow> int \<Rightarrow> accumulator \<Rightarrow> topic_partition \<Rightarrow> int list \<times> int \<times> bool \<Rightarrow> int list \<times> int \<times> bool" where
  "ready_step cl now s tp = (\<lambda>(ready_nodes, next_ready_check, unknown_leaders_exist).
     case leader_for_partition cl tp of
       None \<Rightarrow> (ready_nodes, next_ready_check, True)
     | Some leader \<Rightarrow>
         if leader = - 1 then (ready_nodes, next_ready_check, True)
         else if leader \<in> set ready_nodes \<or> tp \<in> set (ac_muted s) then (ready_nodes, next_ready_check, unknown_leaders_exist)
         else case dq_of s tp of
             [] \<Rightarrow> (ready_nodes, next_ready_check, unknown_leaders_exist)
           | i # _ \<Rightarrow>
               let b = ac_store s ! i;
                   time_left = max (time_to_wait s now b - (now - pb_last_attempt b)) 0 in
               if sendable s now (dq_of s tp) b \<and> \<not> backing_off s now b
               then (leader # ready_nodes, next_ready_check, unknown_leaders_exist)
               else (ready_nodes, min time_left next_ready_check, unknown_leaders_exist))"

definition acc_ready :: "cluster \<Rightarrow> int \<Rightarrow> accumulator \<Rightarrow> int list \<times> int \<times> bool" where
  "acc_ready cl now s = fold (ready_step cl now s) (map fst (ac_batches s)) ([], INITIAL_READY_CHECK, False)"

definition has_undrained :: "accumulator \<Rightarrow> bool" where
  "has_undrained s \<longleftrightarrow> list_ex (\<lambda>(tp, q). q \<noteq> []) (ac_batches s)"

definition should_stop_drain_batches_for_partition :: "accumulator \<Rightarrow> topic_partition \<Rightarrow> bool" where
  "should_stop_drain_batches_for_partition s tp =
     (case ac_transaction_manager s of
        None \<Rightarrow> False
      | Some tm \<Rightarrow> \<not> is_send_to_partition_allowed tp tm \<or> \<not> pe_is_valid (tm_producer_id_and_epoch tm))"

text \<open>Taking the head of a queue: the producer state is set unless the batch is a retry.\<close>

definition assign_producer_state :: "nat \<Rightarrow> (accumulator, unit) py" where
  "assign_producer_state i s =
     (case ac_transaction_manager s of
        None \<Rightarrow> (Inr (), s)
      | Some tm \<Rightarrow>
          if pb_retry (ac_store s ! i) then (Inr (), s)
          else case sequence_number (pb_topic_partition (ac_store s ! i)) tm of
              (Inl e, tm') \<Rightarrow> (Inl e, s\<lparr>ac_transaction_manager := Some tm'\<rparr>)
            | (Inr seqno, tm') \<Rightarrow>
                let pe = tm_producer_id_and_epoch tm'; s1 = s\<lparr>ac_transaction_manager := Some tm'\<rparr> in
                on_batch i (\<lambda>b. case mb_set_producer_state (pe_producer_id pe) (pe_epoch pe) seqno (is_transactional tm') (pb_records b) of
                               (r, m) \<Rightarrow> (r, b\<lparr>pb_records := m\<rparr>)) s1)"

definition drain_head :: "codecs \<Rightarrow> int \<Rightarrow> topic_partition \<Rightarrow> nat \<Rightarrow> (accumulator, int) py" where
  "drain_head cs now tp i =
     py_then (py_set (\<lambda>s. set_dq tp (drop 1 (dq_of s tp)) s))
    (py_then (assign_producer_state i)
    (py_then (on_batch i (close_records cs))
    (py_bind (py_get (\<lambda>s. mb_size_in_bytes (pb_records (ac_store s ! i)))) (\<lambda>sz.
     py_then (on_batch i (py_set (\<lambda>b. b\<lparr>pb_drained := Some now\<rparr>))) (py_return sz)))))"

text \<open>The loop over the partitions of a node.  It starts at the drain index and goes round once: after
  as many iterations as there are partitions the index is back where it started.\<close>

fun drain_loop ::
  "codecs \<Rightarrow> int \<Rightarrow> int \<Rightarrow> topic_partition list \<Rightarrow> nat \<Rightarrow> int \<Rightarrow> nat list \<Rightarrow> (accumulator, nat list) py" where
  "drain_loop cs now max_size ps 0 sz ready = py_return ready"
| "drain_loop cs now max_size ps (Suc k) sz ready = (\<lambda>s.
     let tp = ps ! ac_drain_index s;
         s1 = s\<lparr>ac_drain_index := (ac_drain_index s + 1) mod length ps\<rparr> in
     if tp \<in> set (ac_muted s1) then drain_loop cs now max_size ps k sz ready s1
     else case map_of (ac_batches s1) tp of
         None \<Rightarrow> drain_loop cs now max_size ps k sz ready s1
       | Some [] \<Rightarrow> drain_loop cs now max_size ps k sz ready s1
       | Some (i # _) \<Rightarrow>
           let first = ac_store s1 ! i in
           if backing_off s1 now first then drain_loop cs now max_size ps k sz ready s1
           else if sz + mb_size_in_bytes (pb_records first) > max_size \<and> ready \<noteq> [] then (Inr ready, s1)
           else if should_stop_drain_batches_for_partition s1 tp then (Inr ready, s1)
           else py_bind (drain_head cs now tp i)
                  (\<lambda>n. drain_loop cs now max_size ps k (sz + n) (ready @ [i])) s1)"

definition drain_batches_for_one_node ::
  "codecs \<Rightarrow> cluster \<Rightarrow> node_id \<Rightarrow> int \<Rightarrow> int \<Rightarrow> (accumulator, nat list) py" where
  "drain_batches_for_one_node cs cl node max_size now s =
     (case partitions_for_broker cl node of
        None \<Rightarrow> (Inl TypeError, s)
      | Some [] \<Rightarrow> (Inr [], s)
      | Some ps \<Rightarrow>
          drain_loop cs now max_size ps (length ps) 0 [] (s\<lparr>ac_drain_index := ac_drain_index s mod length ps\<rparr>))"

primrec acc_drain ::
  "codecs \<Rightarrow> cluster \<Rightarrow> node_id list \<Rightarrow> int \<Rightarrow> int \<Rightarrow> (accumulator, (node_id \<times> nat list) list) py" where
  "acc_drain cs cl [] max_size now = py_return []"
| "acc_drain cs cl (n # ns) max_size now =
     py_bind (drain_batches_for_one_node cs cl n max_size now) (\<lambda>bs.
     py_bind (acc_drain cs cl ns max_size now) (\<lambda>rest. py_return ((n, bs) # rest)))"

definition deallocate :: "nat \<Rightarrow> (accumulator, unit) py" where
  "deallocate i = py_set (\<lambda>s. s\<lparr>ac_incomplete := filter (\<lambda>j. j \<noteq> i) (ac_incomplete s)\<rparr>)"

definition begin_flush :: "(accumulator, unit) py" where
  "begin_flush = py_set (\<lambda>s. s\<lparr>ac_flushes_in_progress := ac_flushes_in_progress s + 1\<rparr>)"

text \<open>Waiting for the incomplete batches; \<open>waited i\<close> is what waiting for batch \<open>i\<close> returns.\<close>

definition await_flush_completion :: "(nat \<Rightarrow> bool) \<Rightarrow> (accumulator, unit) py" where
  "await_flush_completion waited s =
     (case py_for (\<lambda>i t. if \<not> waited i then (Inl KafkaTimeoutError, t)
                         else if \<not> batch_is_done (ac_store t ! i) then (Inl UnknownError, t)
                         else (Inr (), t)) (ac_incomplete s) s of
        (r, t) \<Rightarrow> (r, t\<lparr>ac_flushes_in_progress := ac_flushes_in_progress t - 1\<rparr>))"

definition has_incomplete :: "accumulator \<Rightarrow> bool" where
  "has_incomplete s \<longleftrightarrow> ac_incomplete s \<noteq> []"

text \<open>\<open>self._batches[tp].remove(batch)\<close>: ValueError when the batch is not in the queue.\<close>

definition remove_from_queue :: "nat \<Rightarrow> (accumulator, unit) py" where
  "remove_from_queue i s =
     (let tp = pb_topic_partition (ac_store s ! i); s1 = set_dq tp (dq_of s tp) s in
      if i \<in> set (dq_of s tp) then (Inr (), set_dq tp (remove1 i (dq_of s tp)) s1) else (Inl ValueError, s1))"

definition abort_one :: "codecs \<Rightarrow> exn_class \<Rightarrow> nat \<Rightarrow> (accumulator, unit) py" where
  "abort_one cs error i =
     py_then (on_batch i (close_records cs))
    (py_then (remove_from_queue i)
    (py_then (on_batch i (batch_abort error)) (deallocate i)))"

definition abort_batches :: "codecs \<Rightarrow> exn_class \<Rightarrow> (accumulator, unit) py" where
  "abort_batches cs error = (\<lambda>s. py_for (abort_one cs error) (ac_incomplete s) s)"

definition abort_undrained_batches :: "codecs \<Rightarrow> exn_class \<Rightarrow> (accumulator, unit) py" where
  "abort_undrained_batches cs error =
     (\<lambda>s. py_for (\<lambda>i t. if batch_is_done (ac_store t ! i) then (Inr (), t) else abort_one cs error i t) (ac_incomplete s) s)"

text \<open>The loop ends when no append is in progress; \<open>others\<close> are the steps other threads make between
  its iterations, and None means that the loop has not ended after them.\<close>

primrec abort_until_quiet ::
  "codecs \<Rightarrow> (accumulator \<Rightarrow> accumulator) list \<Rightarrow> accumulator \<Rightarrow> (unit res \<times> accumulator) option" where
  "abort_until_quiet cs [] s =
     (case abort_batches cs IllegalStateError s of
        (Inl e, t) \<Rightarrow> Some (Inl e, t)
      | (Inr _, t) \<Rightarrow> if ac_appends_in_progress t = 0 then Some (Inr (), t) else None)"
| "abort_until_quiet cs (step # others) s =
     (case abort_batches cs IllegalStateError s of
        (Inl e, t) \<Rightarrow> Some (Inl e, t)
      | (Inr _, t) \<Rightarrow> if ac_appends_in_progress t = 0 then Some (Inr (), t) else abort_until_quiet cs others (step t))"

definition abort_incomplete_batches ::
  "codecs \<Rightarrow> (accumulator \<Rightarrow> accumulator) list \<Rightarrow> accumulator \<Rightarrow> (unit res \<times> accumulator) option" where
  "abort_incomplete_batches cs others s =
     Option.bind (abort_until_quiet cs others s) (\<lambda>(r, t). Some (case r of
         Inl e \<Rightarrow> (Inl e, t)
       | Inr _ \<Rightarrow> py_then (abort_batches cs IllegalStateError) (py_set (\<lambda>u. u\<lparr>ac_batches := []\<rparr>)) t))"

definition acc_close :: "(accumulator, unit) py" where
  "acc_close = py_set (\<lambda>s. s\<lparr>ac_closed := True\<rparr>)"

end
