(* ===== verification/Accumulator_Properties.thy ===== *)
theory Accumulator_Properties
  imports Accumulator
begin

text \<open>
  The accumulator keeps records of a partition in order.  The invariant says that every queued batch
  is queued once, under its own partition, and is still incomplete; draining takes the front of each
  queue; \<open>ready\<close> returns the leaders of sendable partitions; a batch is completed once.
\<close>

section \<open>One batch\<close>

text \<open>The final state of a batch is set exactly when its future is completed.\<close>

definition batch_ok :: "producer_batch \<Rightarrow> bool" where
  "batch_ok b \<longleftrightarrow> (pb_final_state b \<noteq> None \<longleftrightarrow> f_is_done (pb_produce_future b)) \<and>
     (pb_final_state b = Some SUCCEEDED \<longleftrightarrow> f_succeeded (pb_produce_future b))"

lemma complete_future_pending:
  assumes "\<not> f_is_done (pb_produce_future b)" "case exc of None \<Rightarrow> True | Some e \<Rightarrow> issubclass e BaseException"
  shows "\<exists>f. complete_future boff ts exc b = (Inr (), b\<lparr>pb_produce_future := f\<rparr>) \<and> f_is_done f \<and>
    f_exception f = (case exc of None \<Rightarrow> f_exception (pb_produce_future b) | Some e \<Rightarrow> Some e) \<and>
    (exc = None \<longrightarrow> f_value f = Some (boff, ts))"
  using assms
  by (cases exc) (simp_all add: complete_future_def f_success_def f_failure_def py_defs, (rule exI, rule conjI, rule refl, simp)+)

section \<open>Queues\<close>

lemma dq_of_set_dq: "dq_of (set_dq tp q s) tp' = (if tp' = tp then q else dq_of s tp')"
  by (simp add: dq_of_def set_dq_def update_conv)

lemma set_dq_fields [simp]:
  "ac_store (set_dq tp q s) = ac_store s" "ac_incomplete (set_dq tp q s) = ac_incomplete s"
  "ac_muted (set_dq tp q s) = ac_muted s" "ac_transaction_manager (set_dq tp q s) = ac_transaction_manager s"
  "ac_drain_index (set_dq tp q s) = ac_drain_index s" "ac_closed (set_dq tp q s) = ac_closed s"
  by (simp_all add: set_dq_def)

definition tp_of :: "accumulator \<Rightarrow> nat \<Rightarrow> topic_partition" where
  "tp_of s i = pb_topic_partition (ac_store s ! i)"

text \<open>Every queued batch is one of the store, incomplete, queued under its own partition and only once.\<close>

definition queues_ok :: "accumulator \<Rightarrow> bool" where
  "queues_ok s \<longleftrightarrow> (\<forall>tp i. i \<in> set (dq_of s tp) \<longrightarrow> i < length (ac_store s) \<and> tp_of s i = tp \<and> i \<in> set (ac_incomplete s)) \<and>
     (\<forall>tp. distinct (dq_of s tp)) \<and> (\<forall>i \<in> set (ac_incomplete s). i < length (ac_store s))"

lemma queues_okD:
  "queues_ok s \<Longrightarrow> i \<in> set (dq_of s tp) \<Longrightarrow> i < length (ac_store s) \<and> tp_of s i = tp \<and> i \<in> set (ac_incomplete s)"
  unfolding queues_ok_def by blast

lemma queues_ok_distinct: "queues_ok s \<Longrightarrow> distinct (dq_of s tp)"
  unfolding queues_ok_def by blast

lemma queues_ok_smaller:
  assumes "queues_ok s" "set q \<subseteq> set (dq_of s tp)" "distinct q"
  shows "queues_ok (set_dq tp q s)"
proof -
  have "i < length (ac_store s) \<and> tp_of s i = tp' \<and> i \<in> set (ac_incomplete s)"
    if "i \<in> set (dq_of (set_dq tp q s) tp')" for tp' i
    using that assms(2) queues_okD [OF assms(1), of i tp'] by (auto simp: dq_of_set_dq split: if_splits)
  moreover have "distinct (dq_of (set_dq tp q s) tp')" for tp'
    using queues_ok_distinct [OF assms(1)] assms(3) by (simp add: dq_of_set_dq)
  moreover have "\<forall>i \<in> set (ac_incomplete s). i < length (ac_store s)" using assms(1) by (simp add: queues_ok_def)
  ultimately show ?thesis by (simp add: queues_ok_def tp_of_def)
qed

lemma dq_of_fields [simp]:
  "dq_of (s\<lparr>ac_store := x\<rparr>) = dq_of s" "dq_of (s\<lparr>ac_incomplete := y\<rparr>) = dq_of s" for s :: accumulator
  by (simp_all add: dq_of_def fun_eq_iff)

text \<open>A step that neither touches the queues nor changes the partition of a batch.\<close>

definition same_queues :: "accumulator \<Rightarrow> accumulator \<Rightarrow> bool" where
  "same_queues s t \<longleftrightarrow> ac_batches t = ac_batches s \<and> ac_incomplete t = ac_incomplete s \<and>
     map pb_topic_partition (ac_store t) = map pb_topic_partition (ac_store s) \<and> ac_muted t = ac_muted s \<and>
     ac_drain_index t = ac_drain_index s"

interpretation sq: guarantee same_queues
  by unfold_locales (simp_all add: same_queues_def)

lemma same_queues_dq: "same_queues s t \<Longrightarrow> dq_of t tp = dq_of s tp"
  by (simp add: same_queues_def dq_of_def)

lemma same_queues_length: "same_queues s t \<Longrightarrow> length (ac_store t) = length (ac_store s)"
  unfolding same_queues_def by (metis length_map)

lemma same_queues_tp: "same_queues s t \<Longrightarrow> i < length (ac_store s) \<Longrightarrow> tp_of t i = tp_of s i"
  unfolding same_queues_def tp_of_def by (metis length_map nth_map)

lemma queues_ok_same: "queues_ok s \<Longrightarrow> same_queues s t \<Longrightarrow> queues_ok t"
  unfolding queues_ok_def
  by (simp add: same_queues_dq same_queues_length same_queues_tp del: split_paired_All) (simp add: same_queues_def)

lemma same_queues_on_batch:
  assumes "\<And>b. pb_topic_partition (snd (m b)) = pb_topic_partition b"
  shows "guarantees same_queues (on_batch i m)"
proof (rule guaranteesI)
  fix s :: accumulator
  obtain r b where m: "m (ac_store s ! i) = (r, b)" by (cases "m (ac_store s ! i)")
  have "pb_topic_partition b = pb_topic_partition (ac_store s ! i)" using assms [of "ac_store s ! i"] m by simp
  then have "map pb_topic_partition ((ac_store s)[i := b]) = map pb_topic_partition (ac_store s)"
    by (cases "i < length (ac_store s)") (simp_all add: map_update list_update_same_conv list_update_beyond)
  then show "same_queues s (snd (on_batch i m s))" by (simp add: on_batch_def m same_queues_def)
qed

lemma close_records_tp: "pb_topic_partition (snd (close_records cs b)) = pb_topic_partition b"
  by (simp add: close_records_def split: prod.splits)

lemma same_queues_assign: "guarantees same_queues (assign_producer_state i)"
proof (rule guaranteesI)
  fix s
  have "same_queues u (snd (on_batch i (\<lambda>b. case mb_set_producer_state a e n t (pb_records b) of
      (r, m) \<Rightarrow> (r, b\<lparr>pb_records := m\<rparr>)) u))" for a e n t u
    using same_queues_on_batch [of "\<lambda>b. case mb_set_producer_state a e n t (pb_records b) of
      (r, m) \<Rightarrow> (r, b\<lparr>pb_records := m\<rparr>)" i] by (simp add: guarantees_def split: prod.splits)
  then show "same_queues s (snd (assign_producer_state i s))"
    by (auto simp: assign_producer_state_def Let_def same_queues_def split: option.splits prod.splits sum.splits)
qed

section \<open>Draining\<close>

text \<open>Taking the head of a queue: the rest of the queue stays, no other queue changes.\<close>

lemma drain_head_queues:
  assumes "drain_head cs now tp i s = (r, t)"
  shows "same_queues (set_dq tp (drop 1 (dq_of s tp)) s) t"
proof -
  define rest where "rest = py_then (assign_producer_state i) (py_then (on_batch i (close_records cs))
      (py_bind (py_get (\<lambda>s. mb_size_in_bytes (pb_records (ac_store s ! i)))) (\<lambda>sz.
        py_then (on_batch i (py_set (\<lambda>b. b\<lparr>pb_drained := Some now\<rparr>))) (py_return sz))))"
  have "guarantees same_queues rest"
    unfolding rest_def
    by (intro sq.g_rules same_queues_assign same_queues_on_batch) (simp_all add: close_records_tp py_defs)
  moreover have "drain_head cs now tp i s = rest (set_dq tp (drop 1 (dq_of s tp)) s)"
    by (simp add: drain_head_def rest_def py_defs)
  ultimately show ?thesis using assms guaranteesD by metis
qed

lemma drain_loop_spec:
  assumes "drain_loop cs now mx ps k sz rdy s = (Inr r, t)" "queues_ok s" "ac_drain_index s < length ps"
  shows "\<exists>new. r = rdy @ new \<and> length new \<le> k \<and>
    (\<forall>tp. dq_of s tp = filter (\<lambda>i. tp_of s i = tp) new @ dq_of t tp) \<and>
    (\<forall>i \<in> set new. i < length (ac_store s) \<and> tp_of s i \<in> set ps \<and> tp_of s i \<notin> set (ac_muted s)) \<and>
    ac_incomplete t = ac_incomplete s \<and> queues_ok t"
  using assms
proof (induction k arbitrary: sz rdy s)
  case 0
  then show ?case by (auto simp: py_defs)
next
  case (Suc k)
  let ?tp = "ps ! ac_drain_index s"
  define s1 where "s1 = s\<lparr>ac_drain_index := Suc (ac_drain_index s) mod length ps\<rparr>"
  have ok1: "queues_ok s1" using Suc.prems(2) by (simp add: queues_ok_def s1_def dq_of_def tp_of_def)
  have "0 < length ps" using Suc.prems(3) by linarith
  then have idx1: "ac_drain_index s1 < length ps" by (simp add: s1_def)
  have mem: "?tp \<in> set ps" using Suc.prems(3) by simp
  have st1: "ac_store s1 = ac_store s" "ac_muted s1 = ac_muted s" "ac_incomplete s1 = ac_incomplete s"
    "dq_of s1 = dq_of s" "tp_of s1 = tp_of s" "ac_batches s1 = ac_batches s"
    by (auto simp: s1_def dq_of_def tp_of_def fun_eq_iff)
  have step: "drain_loop cs now mx ps (Suc k) sz rdy s =
      (if ?tp \<in> set (ac_muted s) then drain_loop cs now mx ps k sz rdy s1
       else case map_of (ac_batches s) ?tp of
           None \<Rightarrow> drain_loop cs now mx ps k sz rdy s1
         | Some [] \<Rightarrow> drain_loop cs now mx ps k sz rdy s1
         | Some (i # _) \<Rightarrow>
             if backing_off s1 now (ac_store s1 ! i) then drain_loop cs now mx ps k sz rdy s1
             else if sz + mb_size_in_bytes (pb_records (ac_store s1 ! i)) > mx \<and> rdy \<noteq> [] then (Inr rdy, s1)
             else if should_stop_drain_batches_for_partition s1 ?tp then (Inr rdy, s1)
             else py_bind (drain_head cs now ?tp i) (\<lambda>n. drain_loop cs now mx ps k (sz + n) (rdy @ [i])) s1)"
    by (simp add: s1_def Let_def split: option.split list.split)
  have skip: ?case if "drain_loop cs now mx ps k sz rdy s1 = (Inr r, t)"
    using Suc.IH [OF that ok1 idx1] by (fastforce simp: st1 simp del: split_paired_All)
  have stop: ?case if "r = rdy" "t = s1"
    using that ok1 by (intro exI [of _ "[]"]) (simp add: st1)
  show ?case
  proof (cases "?tp \<in> set (ac_muted s) \<or> map_of (ac_batches s) ?tp = None \<or> map_of (ac_batches s) ?tp = Some []")
    case True
    then have "drain_loop cs now mx ps k sz rdy s1 = (Inr r, t)"
      using Suc.prems(1) unfolding step by (auto split: if_splits)
    then show ?thesis by (rule skip)
  next
    case False
    then obtain i q where iq: "map_of (ac_batches s) ?tp = Some (i # q)" and unmuted: "?tp \<notin> set (ac_muted s)"
      by (cases "map_of (ac_batches s) ?tp"; cases "the (map_of (ac_batches s) ?tp)") auto
    then have dq: "dq_of s ?tp = i # q" by (simp add: dq_of_def)
    have tpi: "tp_of s i = ?tp" "i < length (ac_store s)" using queues_okD [OF Suc.prems(2), of i ?tp] dq by auto
    let ?first = "ac_store s1 ! i"
    have body: "(if backing_off s1 now ?first then drain_loop cs now mx ps k sz rdy s1
       else if sz + mb_size_in_bytes (pb_records ?first) > mx \<and> rdy \<noteq> [] then (Inr rdy, s1)
       else if should_stop_drain_batches_for_partition s1 ?tp then (Inr rdy, s1)
       else py_bind (drain_head cs now ?tp i) (\<lambda>n. drain_loop cs now mx ps k (sz + n) (rdy @ [i])) s1) = (Inr r, t)"
      using Suc.prems(1) iq unmuted by (simp only: step option.case list.case if_False)
    have "drain_loop cs now mx ps k sz rdy s1 = (Inr r, t) \<or> (r = rdy \<and> t = s1) \<or>
        (\<exists>n u. drain_head cs now ?tp i s1 = (Inr n, u) \<and> drain_loop cs now mx ps k (sz + n) (rdy @ [i]) u = (Inr r, t))"
      using body by (simp only: py_bind_Inr prod.inject sum.inject split: if_splits) simp_all
    then consider "drain_loop cs now mx ps k sz rdy s1 = (Inr r, t)" | "r = rdy" "t = s1"
      | n u where "drain_head cs now ?tp i s1 = (Inr n, u)" "drain_loop cs now mx ps k (sz + n) (rdy @ [i]) u = (Inr r, t)"
      by blast
    then show ?thesis
    proof cases
      case 1
      then show ?thesis by (rule skip)
    next
      case 2
      then show ?thesis by (rule stop)
    next
      case (3 n u)
      let ?s2 = "set_dq ?tp q s1"
      have squ: "same_queues ?s2 u"
        using drain_head_queues [OF 3(1)] dq by (simp add: st1)
      have ok2: "queues_ok ?s2" using ok1 dq queues_ok_distinct [OF Suc.prems(2), of ?tp] by (intro queues_ok_smaller) (auto simp: st1)
      have oku: "queues_ok u" by (rule queues_ok_same [OF ok2 squ])
      have idxu: "ac_drain_index u < length ps" using idx1 squ by (simp add: same_queues_def)
      have su: "dq_of u tp = (if tp = ?tp then q else dq_of s tp)" for tp
        using same_queues_dq [OF squ] by (simp add: dq_of_set_dq st1)
      have tpu: "tp_of u j = tp_of s j" if "j < length (ac_store s)" for j
        using same_queues_tp [OF squ, of j] that by (simp add: tp_of_def st1)
      have lenu: "length (ac_store u) = length (ac_store s)" "ac_muted u = ac_muted s" "ac_incomplete u = ac_incomplete s"
        using same_queues_length [OF squ] squ by (simp_all add: same_queues_def st1)
      obtain new where new: "r = (rdy @ [i]) @ new" "length new \<le> k"
        "\<forall>tp. dq_of u tp = filter (\<lambda>i. tp_of u i = tp) new @ dq_of t tp"
        "\<forall>i \<in> set new. i < length (ac_store u) \<and> tp_of u i \<in> set ps \<and> tp_of u i \<notin> set (ac_muted u)"
        "ac_incomplete t = ac_incomplete u" "queues_ok t"
        using Suc.IH [OF 3(2) oku idxu] by blast
      have "filter (\<lambda>j. tp_of u j = tp) new = filter (\<lambda>j. tp_of s j = tp) new" for tp
        using new(4) tpu lenu by (intro filter_cong) auto
      moreover have "dq_of u tp = filter (\<lambda>j. tp_of u j = tp) new @ dq_of t tp" for tp using new(3) by blast
      ultimately have "dq_of s tp = filter (\<lambda>j. tp_of s j = tp) (i # new) @ dq_of t tp" for tp
        using su [of tp] dq tpi(1) by (cases "tp = ?tp") simp_all
      moreover have "\<forall>j \<in> set (i # new). j < length (ac_store s) \<and> tp_of s j \<in> set ps \<and> tp_of s j \<notin> set (ac_muted s)"
        using new(4) tpu lenu tpi mem unmuted by auto
      ultimately show ?thesis using new(1,2,5,6) lenu by (intro exI [of _ "i # new"]) simp
    qed
  qed
qed

section \<open>Readiness\<close>

definition head_ready :: "cluster \<Rightarrow> int \<Rightarrow> accumulator \<Rightarrow> topic_partition \<Rightarrow> int \<Rightarrow> bool" where
  "head_ready cl now s tp leader \<longleftrightarrow> leader_for_partition cl tp = Some leader \<and> leader \<noteq> - 1 \<and> tp \<notin> set (ac_muted s) \<and>
     (\<exists>i q. dq_of s tp = i # q \<and> sendable s now (dq_of s tp) (ac_store s ! i) \<and> \<not> backing_off s now (ac_store s ! i))"

lemma ready_step_nodes:
  "set (fst (ready_step cl now s tp acc)) = set (fst acc) \<union> {l. head_ready cl now s tp l}"
  by (cases acc) (auto simp: ready_step_def head_ready_def Let_def split: option.splits list.splits if_splits)

lemma ready_step_unknown:
  "snd (snd (ready_step cl now s tp acc)) \<longleftrightarrow>
     snd (snd acc) \<or> leader_for_partition cl tp = None \<or> leader_for_partition cl tp = Some (- 1)"
  by (cases acc) (auto simp: ready_step_def Let_def split: option.splits list.splits if_splits)

lemma ready_fold:
  "set (fst (fold (ready_step cl now s) tps acc)) = set (fst acc) \<union> {l. \<exists>tp \<in> set tps. head_ready cl now s tp l} \<and>
   (snd (snd (fold (ready_step cl now s) tps acc)) \<longleftrightarrow> snd (snd acc) \<or>
      (\<exists>tp \<in> set tps. leader_for_partition cl tp = None \<or> leader_for_partition cl tp = Some (- 1)))"
proof (induction tps arbitrary: acc)
  case (Cons tp tps)
  show ?case
    using Cons [of "ready_step cl now s tp acc"]
    by (simp only: fold_simps(2) o_apply ready_step_nodes ready_step_unknown list.set) blast
qed simp

section \<open>The queues stay well formed\<close>

definition keeps_queues :: "accumulator \<Rightarrow> accumulator \<Rightarrow> bool" where
  "keeps_queues s t \<longleftrightarrow> (queues_ok s \<longrightarrow> queues_ok t)"

interpretation kq: guarantee keeps_queues
  by unfold_locales (simp_all add: keeps_queues_def)

lemma same_queues_keeps: "guarantees same_queues m \<Longrightarrow> guarantees keeps_queues m"
  by (auto simp: guarantees_def keeps_queues_def intro: queues_ok_same)

lemma same_queues_field:
  "same_queues s (s\<lparr>ac_closed := c\<rparr>)" "same_queues s (s\<lparr>ac_flushes_in_progress := n\<rparr>)"
  "same_queues s (s\<lparr>ac_next_batch_expiry_time_ms := e\<rparr>)" for s :: accumulator
  by (simp_all add: same_queues_def)

lemma queues_ok_index: "queues_ok ((s :: accumulator)\<lparr>ac_drain_index := d\<rparr>) = queues_ok s"
  by (simp add: queues_ok_def dq_of_def tp_of_def)

lemma try_append_tp: "pb_topic_partition (snd (try_append now ts k v h b)) = pb_topic_partition b"
  by (auto simp: try_append_def Let_def split: prod.splits sum.splits option.splits)

lemma batch_abort_tp: "pb_topic_partition (snd (batch_abort e b)) = pb_topic_partition b"
  by (auto simp: batch_abort_def complete_future_def py_defs Let_def split: prod.splits sum.splits option.splits)

lemma batch_done_tp: "pb_topic_partition (snd (batch_done boff ts exc b)) = pb_topic_partition b"
  by (auto simp: batch_done_def complete_future_def py_defs Let_def split: prod.splits sum.splits option.splits)

lemma append_to_last_same: "guarantees same_queues (append_to_last tp now ts k v h)"
proof (rule guaranteesI)
  fix s
  have "same_queues s (snd (on_batch (last (dq_of s tp)) (try_append now ts k v h) s))"
    using same_queues_on_batch [of "try_append now ts k v h"] try_append_tp by (simp add: guarantees_def)
  then show "same_queues s (snd (append_to_last tp now ts k v h s))"
    by (auto simp: append_to_last_def Let_def same_queues_def split: prod.splits sum.splits option.splits)
qed

lemma queues_ok_new_batch:
  assumes "queues_ok s" "pb_topic_partition b = tp"
  shows "queues_ok (set_dq tp (dq_of s tp @ [length (ac_store s)])
    (s\<lparr>ac_store := ac_store s @ [b], ac_incomplete := ac_incomplete s @ [length (ac_store s)]\<rparr>))" (is "queues_ok ?t")
proof -
  have new: "i < length (ac_store ?t) \<and> tp_of ?t i = tp' \<and> i \<in> set (ac_incomplete ?t)" if "i \<in> set (dq_of ?t tp')" for tp' i
  proof (cases "i = length (ac_store s) \<and> tp' = tp")
    case True
    then show ?thesis using assms(2) by (simp add: tp_of_def)
  next
    case False
    then have "i \<in> set (dq_of s tp')" using that by (auto simp: dq_of_set_dq split: if_splits)
    then show ?thesis using queues_okD [OF assms(1), of i tp'] by (simp add: tp_of_def nth_append)
  qed
  have "length (ac_store s) \<notin> set (dq_of s tp)" using queues_okD [OF assms(1)] by (metis less_irrefl)
  then have "distinct (dq_of ?t tp')" for tp'
    using queues_ok_distinct [OF assms(1)] by (simp add: dq_of_set_dq)
  moreover have "\<forall>i \<in> set (ac_incomplete ?t). i < length (ac_store ?t)"
    using assms(1) by (auto simp: queues_ok_def)
  ultimately show ?thesis using new unfolding queues_ok_def by blast
qed

lemma append_new_batch_keeps: "guarantees keeps_queues (append_new_batch tp now ts k v h)"
proof (rule guaranteesI, unfold keeps_queues_def, rule impI)
  fix s
  assume ok: "queues_ok s"
  have "pb_topic_partition b = tp" if "try_append now ts k v h (ProducerBatch tp r now) = (x, b)" for r x b
    using try_append_tp [of now ts k v h "ProducerBatch tp r now"] that by (simp add: ProducerBatch_def)
  then have "queues_ok (set_dq tp (dq_of s tp @ [length (ac_store s)])
    (s\<lparr>ac_store := ac_store s @ [b], ac_incomplete := ac_incomplete s @ [length (ac_store s)]\<rparr>))"
    if "try_append now ts k v h (ProducerBatch tp r now) = (x, b)" for r x b
    using that queues_ok_new_batch [OF ok] by blast
  then show "queues_ok (snd (append_new_batch tp now ts k v h s))"
    using ok by (auto simp: append_new_batch_def Let_def split: prod.splits sum.splits option.splits)
qed

lemma set_dq_self: "queues_ok s \<Longrightarrow> queues_ok (set_dq tp (dq_of s tp) s)"
  by (rule queues_ok_smaller) (auto intro: queues_ok_distinct)

lemma acc_append_keeps: "guarantees keeps_queues (acc_append tp now ts k v h)"
proof -
  have opt: "guarantees keeps_queues (case x of None \<Rightarrow> m | Some res \<Rightarrow> py_return res)" if "guarantees keeps_queues m"
    for x :: "((nat \<times> nat) \<times> bool \<times> bool) option" and m
    using that by (cases x) (simp_all add: kq.g_return)
  show ?thesis
    unfolding acc_append_def
    by (intro kq.g_assert kq.g_set kq.g_bind kq.g_then opt append_new_batch_keeps same_queues_keeps [OF append_to_last_same])
      (auto simp: keeps_queues_def intro: set_dq_self)
qed

lemma expire_queue_keeps:
  assumes "queues_ok s" "set q \<subseteq> set (dq_of s tp)" "distinct q"
  shows "queues_ok (snd (expire_queue cs now tp q s))"
  using assms
proof (induction q arbitrary: s)
  case (Cons i q)
  let ?s = "set_dq tp q s"
  have ok: "queues_ok ?s" using Cons.prems by (intro queues_ok_smaller) auto
  obtain r u where u: "on_batch i (close_records cs) ?s = (r, u)" by (cases "on_batch i (close_records cs) ?s")
  have squ: "same_queues ?s u" using same_queues_on_batch [of "close_records cs" i] close_records_tp u by (blast intro: guaranteesD)
  have oku: "queues_ok u" by (rule queues_ok_same [OF ok squ])
  have dqu: "dq_of u tp = q" using same_queues_dq [OF squ] by (simp add: dq_of_set_dq)
  have "queues_ok (snd (expire_queue cs now tp q u))" using Cons.IH [OF oku] dqu Cons.prems(3) by simp
  moreover have "queues_ok t" if "maybe_update_next_batch_expiry_time b s = (x, t)" for b x t
    using that queues_ok_same [OF Cons.prems(1) same_queues_field(3)] by (auto simp: maybe_update_next_batch_expiry_time_def py_defs Let_def)
  ultimately show ?case
    using u oku by (cases r) (auto simp: py_defs split: prod.splits sum.splits)
qed (simp add: py_defs)

lemma expired_batches_keeps: "guarantees keeps_queues (expired_batches cs now)"
proof -
  have "guarantees keeps_queues (expire_queues cs now tps)" for tps
  proof (induction tps)
    case (Cons tp tps)
    have "guarantees keeps_queues (\<lambda>s. expire_queue cs now tp (dq_of s tp) s)"
      by (rule guaranteesI) (simp add: keeps_queues_def expire_queue_keeps queues_ok_distinct)
    then show ?case using Cons by (simp add: kq.g_rules)
  qed (simp add: kq.g_return)
  then show ?thesis by (simp add: guarantees_def expired_batches_def)
qed

lemma remove_from_queue_keeps: "guarantees keeps_queues (remove_from_queue i)"
proof (rule guaranteesI)
  fix s :: accumulator
  let ?tp = "pb_topic_partition (ac_store s ! i)"
  have "queues_ok (set_dq ?tp (remove1 i (dq_of s ?tp)) (set_dq ?tp (dq_of s ?tp) s))" if "queues_ok s"
  proof (rule queues_ok_smaller [OF set_dq_self [OF that]])
    show "set (remove1 i (dq_of s ?tp)) \<subseteq> set (dq_of (set_dq ?tp (dq_of s ?tp) s) ?tp)"
      by (simp add: dq_of_set_dq set_remove1_subset)
  qed (simp add: queues_ok_distinct [OF that])
  then show "keeps_queues s (snd (remove_from_queue i s))"
    by (auto simp: remove_from_queue_def keeps_queues_def Let_def intro: set_dq_self)
qed

lemma queues_ok_deallocate:
  assumes "queues_ok s" "i \<notin> set (dq_of s (tp_of s i))"
  shows "queues_ok (snd (deallocate i s))"
proof -
  have "i \<notin> set (dq_of s tp)" for tp using queues_okD [OF assms(1), of i tp] assms(2) by blast
  then show ?thesis
    using assms(1) unfolding queues_ok_def by (simp add: deallocate_def py_defs dq_of_def tp_of_def del: split_paired_All) metis
qed

lemma abort_one_keeps: "guarantees keeps_queues (abort_one cs e i)"
proof (rule guaranteesI, unfold keeps_queues_def, rule impI)
  fix s
  assume ok: "queues_ok s"
  obtain r1 s1 where s1: "on_batch i (close_records cs) s = (r1, s1)" by (cases "on_batch i (close_records cs) s")
  have ok1: "queues_ok s1"
    by (rule queues_ok_same [OF ok guaranteesD [OF same_queues_on_batch s1]]) (simp add: close_records_tp)
  obtain r2 s2 where s2: "remove_from_queue i s1 = (r2, s2)" by (cases "remove_from_queue i s1")
  have ok2: "queues_ok s2" using guaranteesD [OF remove_from_queue_keeps s2] ok1 by (simp add: keeps_queues_def)
  have gone: "i \<notin> set (dq_of s2 (tp_of s2 i))" if "r2 = Inr ()"
    using s2 that queues_ok_distinct [OF ok1, of "pb_topic_partition (ac_store s1 ! i)"]
    by (auto simp: remove_from_queue_def Let_def tp_of_def dq_of_set_dq split: if_splits)
  obtain r3 s3 where s3: "on_batch i (batch_abort e) s2 = (r3, s3)" by (cases "on_batch i (batch_abort e) s2")
  have sq3: "same_queues s2 s3" by (rule guaranteesD [OF same_queues_on_batch s3]) (simp add: batch_abort_tp)
  have "tp_of s3 i = tp_of s2 i"
    using s3 batch_abort_tp [of e "ac_store s2 ! i"]
    by (cases "i < length (ac_store s2)") (auto simp: on_batch_def tp_of_def list_update_beyond split: prod.splits)
  then have ok3: "queues_ok s3 \<and> (r2 = Inr () \<longrightarrow> queues_ok (snd (deallocate i s3)))"
    using queues_ok_same [OF ok2 sq3] gone same_queues_dq [OF sq3, of "tp_of s2 i"] queues_ok_deallocate [of s3 i] by auto
  show "queues_ok (snd (abort_one cs e i s))"
    using s1 s2 s3 ok1 ok2 ok3 by (cases r1; cases r2; cases r3) (auto simp: abort_one_def py_defs)
qed

lemma abort_undrained_keeps: "guarantees keeps_queues (abort_undrained_batches cs e)"
proof -
  have "guarantees keeps_queues (\<lambda>t. if batch_is_done (ac_store t ! i) then (Inr (), t) else abort_one cs e i t)" for i
    using abort_one_keeps by (simp add: guarantees_def keeps_queues_def)
  then have "guarantees keeps_queues (py_for (\<lambda>i t. if batch_is_done (ac_store t ! i) then (Inr (), t) else abort_one cs e i t) is)" for "is"
    by (rule kq.g_for)
  then show ?thesis by (simp add: guarantees_def abort_undrained_batches_def)
qed

lemma abort_batches_keeps: "guarantees keeps_queues (abort_batches cs e)"
  using kq.g_for [of "abort_one cs e", OF abort_one_keeps] by (simp add: guarantees_def abort_batches_def)

lemma drain_loop_keeps: "keeps_queues s (snd (drain_loop cs now mx ps k sz rdy s))"
proof (induction k arbitrary: sz rdy s)
  case (Suc k)
  let ?s = "s\<lparr>ac_drain_index := Suc (ac_drain_index s) mod length ps\<rparr>"
  let ?tp = "ps ! ac_drain_index s"
  have head: "queues_ok t" if "queues_ok s" "drain_head cs now ?tp i ?s = (r, t)" for i r t
  proof (rule queues_ok_same [OF queues_ok_smaller drain_head_queues [OF that(2)]])
    show ok: "queues_ok ?s" using that(1) by (simp only: queues_ok_index)
    show "set (drop 1 (dq_of ?s ?tp)) \<subseteq> set (dq_of ?s ?tp)" by (rule set_drop_subset)
    show "distinct (drop 1 (dq_of ?s ?tp))" using queues_ok_distinct [OF ok] by (rule distinct_drop)
  qed
  have IH: "queues_ok (snd (drain_loop cs now mx ps k sz' rdy' t))" if "queues_ok t" for sz' rdy' t
    using Suc.IH [of t] that by (simp add: keeps_queues_def)
  have tail: "queues_ok (snd (py_bind (drain_head cs now ?tp i) (\<lambda>n. drain_loop cs now mx ps k (sz + n) (rdy @ [i])) ?s))"
    if "queues_ok s" for i
    using IH head [OF that] by (cases "drain_head cs now ?tp i ?s") (auto simp: py_bind_def split: sum.splits)
  have ok: "queues_ok ?s = queues_ok s" by (simp only: queues_ok_index)
  show ?case
    using ok IH tail unfolding keeps_queues_def drain_loop.simps Let_def add_Suc_right add_0_right
    by (auto split: option.split list.split)
qed (simp add: keeps_queues_def py_defs)

lemma drain_keeps: "guarantees keeps_queues (drain_batches_for_one_node cs cl node mx now)"
proof (rule guaranteesI)
  fix s
  have "keeps_queues s (snd (drain_loop cs now mx ps k 0 [] (s\<lparr>ac_drain_index := d\<rparr>)))" for ps k d
    using drain_loop_keeps [of "s\<lparr>ac_drain_index := d\<rparr>"] by (simp add: keeps_queues_def queues_ok_index)
  then show "keeps_queues s (snd (drain_batches_for_one_node cs cl node mx now s))"
    by (auto simp: drain_batches_for_one_node_def keeps_queues_def simp del: drain_loop.simps split: option.split list.split)
qed

lemma queues_ok_reenqueue:
  assumes "queues_ok s" "i \<in> set (ac_incomplete s)" "i \<notin> set (dq_of s (tp_of s i))"
  shows "queues_ok (snd (acc_reenqueue now i s))"
proof -
  let ?s = "s\<lparr>ac_store := (ac_store s)[i := batch_retry now (ac_store s ! i)]\<rparr>"
  have i: "i < length (ac_store s)" using assms(1,2) by (simp add: queues_ok_def)
  have same: "dq_of ?s = dq_of s" "tp_of ?s = tp_of s"
    using i by (auto simp: dq_of_def tp_of_def batch_retry_def nth_list_update fun_eq_iff)
  let ?t = "set_dq (tp_of s i) (i # dq_of s (tp_of s i)) ?s"
  have "j < length (ac_store ?t) \<and> tp_of ?t j = tp \<and> j \<in> set (ac_incomplete ?t)" if "j \<in> set (dq_of ?t tp)" for tp j
    using that i assms(2) queues_okD [OF assms(1), of j tp] same
    by (auto simp: dq_of_set_dq tp_of_def fun_eq_iff split: if_splits)
  moreover have "distinct (dq_of ?t tp)" for tp
    using queues_ok_distinct [OF assms(1)] assms(3) same by (simp add: dq_of_set_dq)
  moreover have "\<forall>j \<in> set (ac_incomplete ?t). j < length (ac_store ?t)" using assms(1) by (simp add: queues_ok_def)
  ultimately have "queues_ok ?t" unfolding queues_ok_def by blast
  then show ?thesis using same by (simp add: acc_reenqueue_def py_defs Let_def tp_of_def)
qed

text \<open>The steps of the accumulator.  The sender requeues and deallocates batches it has drained: such a
  batch is in no queue.\<close>

inductive acc_step :: "accumulator \<Rightarrow> accumulator \<Rightarrow> bool" where
  step_append: "acc_step s (snd (acc_append tp now ts k v h s))"
| step_drain: "acc_step s (snd (drain_batches_for_one_node cs cl node mx now s))"
| step_expire: "acc_step s (snd (expired_batches cs now s))"
| step_reenqueue: "i \<in> set (ac_incomplete s) \<Longrightarrow> i \<notin> set (dq_of s (tp_of s i)) \<Longrightarrow> acc_step s (snd (acc_reenqueue now i s))"
| step_deallocate: "i \<notin> set (dq_of s (tp_of s i)) \<Longrightarrow> acc_step s (snd (deallocate i s))"
| step_abort: "acc_step s (snd (abort_batches cs e s))"
| step_abort_undrained: "acc_step s (snd (abort_undrained_batches cs e s))"
| step_done: "acc_step s (snd (on_batch i (batch_done boff ts exc) s))"
| step_mute: "acc_step s (s\<lparr>ac_muted := ms\<rparr>)"
| step_flush: "acc_step s (snd (begin_flush s))"
| step_close: "acc_step s (snd (acc_close s))"

lemma acc_step_keeps: "acc_step s t \<Longrightarrow> queues_ok s \<Longrightarrow> queues_ok t"
proof (induction rule: acc_step.induct)
  case (step_mute s ms)
  then show ?case by (simp add: queues_ok_def dq_of_def tp_of_def)
next
  case (step_done s i boff ts exc)
  then show ?case
    using same_queues_on_batch [of "batch_done boff ts exc" i] batch_done_tp by (auto simp: guarantees_def intro: queues_ok_same)
qed (use acc_append_keeps drain_keeps expired_batches_keeps abort_batches_keeps abort_undrained_keeps in
  \<open>auto simp: guarantees_def keeps_queues_def queues_ok_reenqueue queues_ok_deallocate begin_flush_def acc_close_def py_defs
     intro: queues_ok_same [OF _ same_queues_field(1)] queues_ok_same [OF _ same_queues_field(2)]\<close>)

section \<open>Properties\<close>

text \<open>C16. In every state the producer can bring the accumulator to, by appending records, draining,
  expiring, requeueing, aborting and completing batches, muting partitions, flushing and closing, each
  queue holds distinct incomplete batches of its own partition.\<close>

theorem accumulator_invariant:
  assumes "RecordAccumulator bs cmp lng rt dt rb ver tm = Inr s" "acc_step\<^sup>*\<^sup>* s t"
  shows "queues_ok t"
proof -
  have "queues_ok s" using assms(1)
    by (auto simp: RecordAccumulator_def queues_ok_def dq_of_def split: if_splits)
  with assms(2) show ?thesis by induction (auto intro: acc_step_keeps)
qed

definition example_accumulator :: accumulator where
  "example_accumulator = (case RecordAccumulator 100 0 0 1000 5000 10 2 None of Inr s \<Rightarrow> s)"

theorem accumulator_invariant_witness: "queues_ok (snd (begin_flush (snd (acc_close example_accumulator))))"
proof (rule accumulator_invariant)
  show "RecordAccumulator 100 0 0 1000 5000 10 2 None = Inr example_accumulator"
    by (simp add: example_accumulator_def RecordAccumulator_def)
  show "acc_step\<^sup>*\<^sup>* example_accumulator (snd (begin_flush (snd (acc_close example_accumulator))))"
    by (meson r_into_rtranclp rtranclp.rtrancl_into_rtrancl step_close step_flush)
qed

text \<open>C13. Draining a node takes the front of each queue: for every partition, the batches drained from it
  are, in order, a prefix of its queue and the rest stays queued; no batch of a muted partition or of a
  partition of another node is taken; at most as many batches are taken as the node has partitions;
  every drained batch stays incomplete until the sender completes it.\<close>

theorem drain_takes_queue_fronts:
  assumes "queues_ok s" "partitions_for_broker cl node = Some ps" "drain_batches_for_one_node cs cl node mx now s = (Inr r, t)"
  shows "length r \<le> length ps \<and>
    (\<forall>tp. dq_of s tp = filter (\<lambda>i. tp_of s i = tp) r @ dq_of t tp) \<and>
    (\<forall>i \<in> set r. tp_of s i \<in> set ps \<and> tp_of s i \<notin> set (ac_muted s) \<and> i \<in> set (ac_incomplete t)) \<and> queues_ok t"
proof (cases ps)
  case Nil
  then show ?thesis using assms by (simp add: drain_batches_for_one_node_def)
next
  case (Cons p ps')
  let ?s = "s\<lparr>ac_drain_index := ac_drain_index s mod length ps\<rparr>"
  have same: "dq_of ?s = dq_of s" "tp_of ?s = tp_of s" by (auto simp: dq_of_def tp_of_def fun_eq_iff)
  have run: "drain_loop cs now mx ps (length ps) 0 [] ?s = (Inr r, t)"
    using assms(2,3) Cons by (simp add: drain_batches_for_one_node_def)
  have ok: "queues_ok ?s" using assms(1) unfolding queues_ok_def same by simp
  have idx: "ac_drain_index ?s < length ps" using Cons by simp
  obtain new where new: "r = [] @ new" "length new \<le> length ps"
    "\<forall>tp. dq_of ?s tp = filter (\<lambda>i. tp_of ?s i = tp) new @ dq_of t tp"
    "\<forall>i \<in> set new. i < length (ac_store ?s) \<and> tp_of ?s i \<in> set ps \<and> tp_of ?s i \<notin> set (ac_muted ?s)"
    "ac_incomplete t = ac_incomplete ?s" "queues_ok t"
    using drain_loop_spec [OF run ok idx] by blast
  have "i \<in> set (dq_of s (tp_of s i))" if "i \<in> set new" for i
  proof -
    have "dq_of s (tp_of s i) = filter (\<lambda>j. tp_of s j = tp_of s i) new @ dq_of t (tp_of s i)"
      using new(3) unfolding same by blast
    then show ?thesis using that by simp
  qed
  then have "i \<in> set (ac_incomplete t)" if "i \<in> set new" for i
    using that queues_okD [OF assms(1), of i "tp_of s i"] new(5) by simp
  then show ?thesis using new unfolding same by (simp del: split_paired_All)
qed

text \<open>A batch whose records are closed, queued for one partition whose leader is node 1.\<close>

definition example_queued :: accumulator where
  "example_queued = set_dq ([116], 0) [0] (example_accumulator\<lparr>ac_incomplete := [0], ac_store :=
     [ProducerBatch ([116], 0) (example_memory_builder\<lparr>mb_closed := True, mb_buffer := Some [1, 2, 3]\<rparr>) 7]\<rparr>)"

definition example_cluster :: cluster where
  "example_cluster = (ClusterMetadata 100 300000 [])\<lparr>broker_partitions := [(Node 1, [([116], 0), ([116], 1)])]\<rparr>"

lemmas example_queued_simps = example_queued_def example_accumulator_def RecordAccumulator_def set_dq_def

theorem drain_takes_queue_fronts_witness:
  "queues_ok example_queued \<and>
   fst (drain_batches_for_one_node no_codecs example_cluster (Node 1) 1000 9 example_queued) = Inr [0] \<and>
   dq_of example_queued ([116], 0) =
     [0] @ dq_of (snd (drain_batches_for_one_node no_codecs example_cluster (Node 1) 1000 9 example_queued)) ([116], 0)"
proof -
  have ok: "queues_ok example_queued"
    by (simp add: queues_ok_def example_queued_simps dq_of_def tp_of_def ProducerBatch_def)
  have ps: "partitions_for_broker example_cluster (Node 1) = Some [([116], 0), ([116], 1)]"
    by (simp add: partitions_for_broker_def example_cluster_def)
  have r: "fst (drain_batches_for_one_node no_codecs example_cluster (Node 1) 1000 9 example_queued) = Inr [0]" by code_simp
  have tp: "tp_of example_queued 0 = ([116], 0)" by (simp add: tp_of_def example_queued_simps ProducerBatch_def)
  obtain t where t: "drain_batches_for_one_node no_codecs example_cluster (Node 1) 1000 9 example_queued = (Inr [0], t)"
    using r by (metis prod.collapse)
  show ?thesis
    using drain_takes_queue_fronts [OF ok ps t] ok t tp by simp
qed

text \<open>\<open>ready\<close> returns exactly the leaders of the partitions that can be sent to: those that are not
  muted, whose oldest batch is not backing off and is full, has lingered, or has to go because of a
  flush or a close; and it asks for new metadata exactly when some queued partition has no known leader.\<close>

theorem ready_nodes_exact:
  "set (fst (acc_ready cl now s)) = {l. \<exists>tp \<in> fst ` set (ac_batches s). head_ready cl now s tp l} \<and>
   (snd (snd (acc_ready cl now s)) \<longleftrightarrow>
      (\<exists>tp \<in> fst ` set (ac_batches s). leader_for_partition cl tp = None \<or> leader_for_partition cl tp = Some (- 1)))"
  using ready_fold [of cl now s "map fst (ac_batches s)" "([], INITIAL_READY_CHECK, False)"]
  by (simp only: acc_ready_def fst_conv snd_conv list.set list.set_map) blast

text \<open>A batch is completed once: when it is done or aborted for the first time its future is
  completed and its final state set; a later failure or success of a failed or aborted batch is ignored,
  and completing a succeeded batch again raises IllegalStateError; neither changes the batch.\<close>

theorem batch_completed_once:
  assumes "batch_ok b" "case exc of None \<Rightarrow> True | Some e \<Rightarrow> issubclass e BaseException"
    "f_exception (pb_produce_future b) = None \<or> f_is_done (pb_produce_future b)"
  shows "case pb_final_state b of
      None \<Rightarrow> (\<exists>c. batch_done boff ts exc b = (Inr True, c) \<and> batch_ok c \<and>
                pb_final_state c = Some (if exc = None then SUCCEEDED else FAILED))
    | Some SUCCEEDED \<Rightarrow> batch_done boff ts exc b = (Inl IllegalStateError, b)
    | Some _ \<Rightarrow> batch_done boff ts exc b = (Inr False, b)"
proof (cases "pb_final_state b")
  case None
  let ?b = "b\<lparr>pb_final_state := Some (if exc = None then SUCCEEDED else FAILED)\<rparr>"
  have "\<not> f_is_done (pb_produce_future ?b)" using assms(1) None by (simp add: batch_ok_def)
  then obtain f where f: "complete_future boff ts exc ?b = (Inr (), ?b\<lparr>pb_produce_future := f\<rparr>)" "f_is_done f"
    "f_exception f = (case exc of None \<Rightarrow> f_exception (pb_produce_future ?b) | Some e \<Rightarrow> Some e)"
    using complete_future_pending [of ?b exc boff ts] assms(2) by auto
  then have "batch_done boff ts exc b = (Inr True, ?b\<lparr>pb_produce_future := f\<rparr>)"
    using None by (simp add: batch_done_def py_defs Let_def)
  moreover have "batch_ok (?b\<lparr>pb_produce_future := f\<rparr>)"
    using f assms(3) \<open>\<not> f_is_done (pb_produce_future ?b)\<close> by (cases exc) (auto simp: batch_ok_def f_succeeded_def)
  ultimately show ?thesis using None by simp
next
  case (Some st)
  then show ?thesis by (cases st) (simp_all add: batch_done_def py_defs Let_def)
qed

theorem batch_completed_once_witness:
  "\<exists>c. batch_done 5 None None (ac_store example_queued ! 0) = (Inr True, c) \<and> pb_final_state c = Some SUCCEEDED"
proof -
  let ?b = "ac_store example_queued ! 0"
  have b: "pb_final_state ?b = None" "f_exception (pb_produce_future ?b) = None" "batch_ok ?b"
    by (simp_all add: example_queued_simps ProducerBatch_def Future_def batch_ok_def f_succeeded_def)
  show ?thesis using batch_completed_once [of ?b None 5 None] b by auto
qed

text \<open>C39. Aborting while a batch is in flight fails: a drained batch is still incomplete but no longer in
  its queue, so removing it raises ValueError, and the batch is left without a result, its future pending.\<close>

theorem abort_in_flight_raises:
  assumes "ac_incomplete s = i # is" "i \<notin> set (dq_of s (tp_of s i))" "mb_closed (pb_records (ac_store s ! i))"
    "\<not> batch_is_done (ac_store s ! i)" "i < length (ac_store s)"
  shows "fst (abort_undrained_batches cs e s) = Inl ValueError \<and> fst (abort_batches cs e s) = Inl ValueError \<and>
    ac_store (snd (abort_undrained_batches cs e s)) = ac_store s"
proof -
  have "close_records cs (ac_store s ! i) = (Inr (), ac_store s ! i)"
    using assms(3) by (simp add: close_records_def mb_close_def)
  then have close: "on_batch i (close_records cs) s = (Inr (), s)" by (simp add: on_batch_def)
  have "abort_one cs e i s = (Inl ValueError, set_dq (tp_of s i) (dq_of s (tp_of s i)) s)"
    using close assms(2) by (simp add: abort_one_def py_defs remove_from_queue_def tp_of_def Let_def)
  then show ?thesis using assms(1,4) by (simp add: abort_undrained_batches_def abort_batches_def py_defs)
qed

text \<open>The batch of the example after it was drained.\<close>

theorem abort_in_flight_raises_witness:
  "fst (abort_undrained_batches no_codecs KafkaError (set_dq ([116], 0) [] example_queued)) = Inl ValueError"
proof -
  let ?s = "set_dq ([116], 0) [] example_queued"
  have "ac_incomplete ?s = 0 # []" "0 \<notin> set (dq_of ?s (tp_of ?s 0))" "mb_closed (pb_records (ac_store ?s ! 0))"
    "\<not> batch_is_done (ac_store ?s ! 0)" "0 < length (ac_store ?s)"
    by (simp_all add: example_queued_simps dq_of_def tp_of_def ProducerBatch_def batch_is_done_def Future_def)
  from abort_in_flight_raises [OF this] show ?thesis by simp
qed

end
