(* ===== verification/Heapq.thy ===== *)
theory Heapq
  imports Prelude "HOL-Library.Multiset"
begin

text \<open>
  The standard library module \<^verbatim>\<open>heapq\<close>, as its C implementation works: a binary heap kept in a list,
  sifted by swapping neighbours.  The comparison may raise, as comparing two tuples does when their
  first components are equal and the second ones have no order; the heap is then left as it is at that
  moment.  The lemmas say that no element is ever lost or duplicated.
\<close>

section \<open>Operations\<close>

definition heap_swap :: "nat \<Rightarrow> nat \<Rightarrow> 'a list \<Rightarrow> 'a list" where
  "heap_swap i j h = h[i := h ! j, j := h ! i]"

function siftdown :: "('a \<Rightarrow> 'a \<Rightarrow> bool res) \<Rightarrow> nat \<Rightarrow> nat \<Rightarrow> ('a list, unit) py" where
  "siftdown lt start pos h =
     (if pos \<le> start then (Inr (), h)
      else let parent = (pos - 1) div 2 in
        case lt (h ! pos) (h ! parent) of
          Inl e \<Rightarrow> (Inl e, h)
        | Inr lower \<Rightarrow> if lower then siftdown lt start parent (heap_swap parent pos h) else (Inr (), h))"
  by pat_completeness auto
termination by (relation "measure (\<lambda>(lt, start, pos, h). pos)") auto

function sink :: "('a \<Rightarrow> 'a \<Rightarrow> bool res) \<Rightarrow> nat \<Rightarrow> ('a list, nat) py" where
  "sink lt pos h =
     (if length h div 2 \<le> pos then (Inr pos, h)
      else let child = 2 * pos + 1 in
        if child + 1 < length h then
          (case lt (h ! child) (h ! (child + 1)) of
             Inl e \<Rightarrow> (Inl e, h)
           | Inr lower \<Rightarrow> (let c = if lower then child else child + 1 in sink lt c (heap_swap c pos h)))
        else sink lt child (heap_swap child pos h))"
  by pat_completeness auto
termination
  by (relation "measure (\<lambda>(lt, pos, h). length h - pos)") (auto simp: heap_swap_def)

declare siftdown.simps [simp del] sink.simps [simp del]

definition siftup :: "('a \<Rightarrow> 'a \<Rightarrow> bool res) \<Rightarrow> nat \<Rightarrow> ('a list, unit) py" where
  "siftup lt start = py_bind (sink lt start) (siftdown lt start)"

definition heapq_heappush :: "('a \<Rightarrow> 'a \<Rightarrow> bool res) \<Rightarrow> 'a \<Rightarrow> ('a list, unit) py" where
  "heapq_heappush lt x h = siftdown lt 0 (length h) (h @ [x])"

definition heapq_heappop :: "('a \<Rightarrow> 'a \<Rightarrow> bool res) \<Rightarrow> ('a list, 'a) py" where
  "heapq_heappop lt h =
     (if h = [] then (Inl IndexError, h)
      else if length h = 1 then (Inr (hd h), [])
      else case siftup lt 0 ((butlast h)[0 := last h]) of
          (Inl e, g) \<Rightarrow> (Inl e, g)
        | (Inr _, g) \<Rightarrow> (Inr (hd h), g))"

definition heapq_heapify :: "('a \<Rightarrow> 'a \<Rightarrow> bool res) \<Rightarrow> ('a list, unit) py" where
  "heapq_heapify lt h = py_for (siftup lt) (rev [0..<length h div 2]) h"

section \<open>The elements of a heap\<close>

lemma heap_swap_items: "i < length h \<Longrightarrow> j < length h \<Longrightarrow> mset (heap_swap i j h) = mset h"
  by (simp add: heap_swap_def mset_swap)

lemma heap_swap_length [simp]: "length (heap_swap i j h) = length h"
  by (simp add: heap_swap_def)

lemma siftdown_items: "pos < length h \<Longrightarrow> mset (snd (siftdown lt start pos h)) = mset h"
proof (induction lt start pos h rule: siftdown.induct)
  case (1 lt start pos h)
  then show ?case
    by (subst siftdown.simps) (auto simp: Let_def heap_swap_items split: sum.splits)
qed

text \<open>A step of \<open>sink\<close> swaps with one child, a position inside the heap, and goes on from there.\<close>

lemma sink_step:
  assumes "\<not> length h div 2 \<le> pos"
  shows "(\<exists>e. sink lt pos h = (Inl e, h)) \<or>
    (\<exists>c. pos < c \<and> c < length h \<and> sink lt pos h = sink lt c (heap_swap c pos h))"
proof (cases "2 * pos + 1 + 1 < length h")
  case True
  show ?thesis
  proof (cases "lt (h ! (2 * pos + 1)) (h ! (2 * pos + 1 + 1))")
    case (Inl e)
    then have "sink lt pos h = (Inl e, h)" using assms True by (subst sink.simps) (simp add: Let_def)
    then show ?thesis by blast
  next
    case (Inr b)
    let ?c = "if b then 2 * pos + 1 else 2 * pos + 1 + 1"
    have "sink lt pos h = sink lt ?c (heap_swap ?c pos h)"
      using assms True Inr by (subst sink.simps) (simp add: Let_def)
    moreover have "pos < ?c" "?c < length h" using True by auto
    ultimately show ?thesis by blast
  qed
next
  case False
  have "2 * pos + 1 < length h" using assms by linarith
  moreover have "sink lt pos h = sink lt (2 * pos + 1) (heap_swap (2 * pos + 1) pos h)"
    using assms False by (subst sink.simps) (simp add: Let_def)
  ultimately show ?thesis by (intro disjI2 exI [of _ "2 * pos + 1"]) auto
qed

lemma sink_items:
  "pos < length h \<Longrightarrow> mset (snd (sink lt pos h)) = mset h \<and> (\<forall>p. fst (sink lt pos h) = Inr p \<longrightarrow> p < length h)"
proof (induction "length h - pos" arbitrary: pos h rule: less_induct)
  case less
  show ?case
  proof (cases "length h div 2 \<le> pos")
    case True
    then have "sink lt pos h = (Inr pos, h)" by (subst sink.simps) simp
    then show ?thesis using less.prems by simp
  next
    case False
    from sink_step [OF False, of lt] show ?thesis
    proof (elim disjE exE conjE)
      fix c
      assume c: "pos < c" "c < length h" "sink lt pos h = sink lt c (heap_swap c pos h)"
      then show ?thesis using less.hyps [of "heap_swap c pos h" c] less.prems by (simp add: heap_swap_items)
    qed simp
  qed
qed

lemma siftup_items:
  assumes "start < length h"
  shows "mset (snd (siftup lt start h)) = mset h"
proof -
  obtain r g where g: "sink lt start h = (r, g)" by (cases "sink lt start h")
  have items: "mset g = mset h" "\<And>p. r = Inr p \<Longrightarrow> p < length h" using sink_items [OF assms, of lt] g by auto
  moreover have "length g = length h" using items(1) by (metis size_mset)
  ultimately show ?thesis using g by (cases r) (auto simp: siftup_def py_bind_def siftdown_items)
qed

lemma heappush_items: "mset (snd (heapq_heappush lt x h)) = add_mset x (mset h)"
  by (simp add: heapq_heappush_def siftdown_items)

lemma heappop_items:
  assumes "heapq_heappop lt h = (Inr x, g)"
  shows "mset h = add_mset x (mset g) \<and> x = hd h \<and> h \<noteq> []"
proof -
  consider "length h = 1" | a y ys where "h = a # y # ys"
    using assms by (cases h; cases "tl h") (auto simp: heapq_heappop_def)
  then show ?thesis
  proof cases
    case 1
    then show ?thesis using assms by (cases h) (auto simp: heapq_heappop_def)
  next
    case (2 a y ys)
    let ?b = "(butlast h)[0 := last h]"
    have b: "?b = last (y # ys) # butlast (y # ys)" using 2 by simp
    have "mset g = mset ?b"
      using assms 2 siftup_items [of 0 ?b lt]
      by (auto simp: heapq_heappop_def split: prod.splits sum.splits)
    moreover have "mset (y # ys) = add_mset (last (y # ys)) (mset (butlast (y # ys)))"
      by (metis append_butlast_last_id list.discI mset.simps(1) mset.simps(2) mset_append union_mset_add_mset_right add.right_neutral)
    ultimately have "mset h = add_mset a (mset g)" using 2 b by simp
    moreover have "x = a" using assms 2 by (auto simp: heapq_heappop_def split: prod.splits sum.splits)
    ultimately show ?thesis using 2 by simp
  qed
qed

lemma heapify_items: "mset (snd (heapq_heapify lt h)) = mset h"
proof -
  have "\<forall>i \<in> set is. i < length g \<Longrightarrow> mset (snd (py_for (siftup lt) is g)) = mset g" for "is" g
  proof (induction "is" arbitrary: g)
    case (Cons i "is")
    have i: "mset (snd (siftup lt i g)) = mset g" using Cons.prems by (intro siftup_items) simp
    obtain r k where k: "siftup lt i g = (r, k)" by (cases "siftup lt i g")
    have "length k = length g" using i k by (metis size_mset snd_conv)
    then show ?case using Cons i k by (cases r) (auto simp: py_bind_def)
  qed (simp add: py_defs)
  moreover have "\<forall>i \<in> set (rev [0..<length h div 2]). i < length h" by auto
  ultimately show ?thesis unfolding heapq_heapify_def by blast
qed

end
