(* ===== verification/Sender.thy ===== *)
theory Sender
  imports Accumulator_Properties Heapq
begin

text \<open>
  \<^verbatim>\<open>kafka/producer/sender.py\<close>: the thread that drains the accumulator, sends produce requests and completes
  batches.  The state holds the accumulator (with the transaction manager the two share) and the cluster
  metadata, which the transaction manager refers to as well.  The network client is a parameter for
  what the sender asks of it, and what the sender tells it is a list of actions; responses come back as
  calls of \<open>handle_produce_response\<close> and \<open>failed_produce\<close>.  Times are in milliseconds, None standing for an
  infinite delay.  Metrics are not modelled.
\<close>

section \<open>State\<close>

datatype client_action =
    AddTopic pystr
  | MaybeConnect int
  | SendProduce int request "nat list"
  | SendTransactional node_id handler int
  | SendInitProducerId request
  | Poll int
  | CloseClient

record sender =
  sd_max_request_size :: int
  sd_acks :: int
  sd_retries :: "int option"
  sd_request_timeout_ms :: int
  sd_retry_backoff_ms :: int
  sd_guarantee_message_order :: bool
  sd_transactional_id :: "pystr option"
  sd_transaction_timeout_ms :: int
  sd_metadata :: cluster
  sd_accumulator :: accumulator
  sd_running :: bool
  sd_force_close :: bool
  sd_topics_to_add :: "pystr list"
  sd_in_flight_batches :: "(topic_partition \<times> (int \<times> nat) list) list"
  sd_actions :: "client_action list"

definition Sender ::
  "int \<Rightarrow> int \<Rightarrow> int option \<Rightarrow> int \<Rightarrow> int \<Rightarrow> bool \<Rightarrow> pystr option \<Rightarrow> int \<Rightarrow> cluster \<Rightarrow>
     accumulator \<Rightarrow> sender" where
  "Sender max_request_size acks retries request_timeout_ms retry_backoff_ms guarantee_order tid txn_timeout_ms metadata acc =
     \<lparr>sd_max_request_size = max_request_size, sd_acks = acks, sd_retries = retries,
      sd_request_timeout_ms = request_timeout_ms, sd_retry_backoff_ms = retry_backoff_ms,
      sd_guarantee_message_order = guarantee_order, sd_transactional_id = tid,
      sd_transaction_timeout_ms = txn_timeout_ms, sd_metadata = metadata, sd_accumulator = acc,
      sd_running = True, sd_force_close = False, sd_topics_to_add = [], sd_in_flight_batches = [], sd_actions = []\<rparr>"

text \<open>What the sender asks the network client.\<close>

record net_client =
  nc_topics :: "pystr list"
  nc_is_ready :: "int \<Rightarrow> bool"
  nc_connection_delay :: "int \<Rightarrow> int option"
  nc_produce_version :: nat
  nc_least_loaded_node :: "node_id option res"
  nc_await_ready :: "node_id \<Rightarrow> bool res"

section \<open>Access to the parts\<close>

definition sd_batch :: "sender \<Rightarrow> nat \<Rightarrow> producer_batch" where
  "sd_batch s i = ac_store (sd_accumulator s) ! i"

definition sd_txn :: "sender \<Rightarrow> txn_manager option" where
  "sd_txn s = ac_transaction_manager (sd_accumulator s)"

definition on_acc :: "(accumulator, 'a) py \<Rightarrow> (sender, 'a) py" where
  "on_acc m s = (case m (sd_accumulator s) of (r, a) \<Rightarrow> (r, s\<lparr>sd_accumulator := a\<rparr>))"

definition on_metadata :: "(cluster, 'a) py \<Rightarrow> (sender, 'a) py" where
  "on_metadata m s = (case m (sd_metadata s) of (r, c) \<Rightarrow> (r, s\<lparr>sd_metadata := c\<rparr>))"

text \<open>A call of a method of the transaction manager, which refers to the same metadata object.\<close>

definition on_txn :: "(txn_manager, 'a) py \<Rightarrow> (sender, 'a) py" where
  "on_txn m s =
     (case sd_txn s of
        None \<Rightarrow> (Inl AttributeError, s)
      | Some tm \<Rightarrow>
          (case m (tm\<lparr>tm_metadata := sd_metadata s\<rparr>) of
             (r, tm') \<Rightarrow> (r, s\<lparr>sd_metadata := tm_metadata tm',
               sd_accumulator := (sd_accumulator s)\<lparr>ac_transaction_manager := Some tm'\<rparr>\<rparr>)))"

definition tell :: "client_action \<Rightarrow> (sender, unit) py" where
  "tell a = py_set (\<lambda>s. s\<lparr>sd_actions := sd_actions s @ [a]\<rparr>)"

section \<open>In-flight batches\<close>

text \<open>Entries are tuples of the creation time and the batch; batches have no order.\<close>

definition item_less :: "int \<times> nat \<Rightarrow> int \<times> nat \<Rightarrow> bool res" where
  "item_less a b =
     (if fst a \<noteq> fst b then Inr (fst a < fst b) else if snd a = snd b then Inr False else Inl TypeError)"

definition in_flight :: "sender \<Rightarrow> topic_partition \<Rightarrow> (int \<times> nat) list" where
  "in_flight s tp = (case map_of (sd_in_flight_batches s) tp of None \<Rightarrow> [] | Some q \<Rightarrow> q)"

definition on_in_flight :: "topic_partition \<Rightarrow> ((int \<times> nat) list, 'a) py \<Rightarrow> (sender, 'a) py" where
  "on_in_flight tp m s =
     (case m (in_flight s tp) of (r, q) \<Rightarrow>
        (r, s\<lparr>sd_in_flight_batches := AList.update tp q (sd_in_flight_batches s)\<rparr>))"

primrec index_of :: "'a \<Rightarrow> 'a list \<Rightarrow> nat option" where
  "index_of x [] = None"
| "index_of x (y # ys) = (if x = y then Some 0 else map_option Suc (index_of x ys))"

definition remove_item :: "int \<times> nat \<Rightarrow> ((int \<times> nat) list, unit) py" where
  "remove_item item q =
     (case index_of item q of
        None \<Rightarrow> (Inr (), q)
      | Some idx \<Rightarrow> heapq_heapify item_less (butlast (q[idx := last q])))"

definition maybe_remove_from_inflight_batches :: "nat \<Rightarrow> (sender, unit) py" where
  "maybe_remove_from_inflight_batches i s =
     (let b = sd_batch s i in on_in_flight (pb_topic_partition b) (remove_item (pb_created b, i)) s)"

text \<open>The loop over one queue, whose length bounds it; \<open>clock i\<close> is the time read when batch \<open>i\<close> is
  examined.  The result says whether the queue was emptied (the \<open>else\<close> of the loop).\<close>

primrec expire_in_flight ::
  "(nat \<Rightarrow> int) \<Rightarrow> topic_partition \<Rightarrow> nat \<Rightarrow> (sender, nat list \<times> bool) py" where
  "expire_in_flight clock tp 0 = py_return ([], True)"
| "expire_in_flight clock tp (Suc n) = (\<lambda>s.
     let i = snd (hd (in_flight s tp)); b = sd_batch s i in
     if has_reached_delivery_timeout (cfg_delivery_timeout_ms (sd_accumulator s)) (clock i) b then
       py_bind (on_in_flight tp (heapq_heappop item_less)) (\<lambda>_.
         if pb_final_state b = None
         then py_bind (expire_in_flight clock tp n) (\<lambda>(rest, emptied). py_return (i # rest, emptied))
         else py_raise IllegalStateError) s
     else py_then (on_acc (maybe_update_next_batch_expiry_time b)) (py_return ([], False)) s)"

primrec expire_in_flight_queues ::
  "(nat \<Rightarrow> int) \<Rightarrow> topic_partition list \<Rightarrow> (sender, nat list \<times> topic_partition list) py" where
  "expire_in_flight_queues clock [] = py_return ([], [])"
| "expire_in_flight_queues clock (tp # tps) =
     py_bind (\<lambda>s. expire_in_flight clock tp (length (in_flight s tp)) s) (\<lambda>(es, emptied).
     py_bind (expire_in_flight_queues clock tps) (\<lambda>(rest, to_remove).
       py_return (es @ rest, if emptied then tp # to_remove else to_remove)))"

definition get_expired_inflight_batches :: "(nat \<Rightarrow> int) \<Rightarrow> (sender, nat list) py" where
  "get_expired_inflight_batches clock =
     (\<lambda>s. py_bind (expire_in_flight_queues clock (map fst (sd_in_flight_batches s))) (\<lambda>(es, to_remove).
        py_then (py_set (\<lambda>t. t\<lparr>sd_in_flight_batches :=
                    filter (\<lambda>e. fst e \<notin> set to_remove) (sd_in_flight_batches t)\<rparr>))
          (py_return es)) s)"

section \<open>Completing batches\<close>

definition batch_producer :: "producer_batch \<Rightarrow> int option \<times> int option" where
  "batch_producer b = (mb_producer_id (pb_records b), mb_producer_epoch (pb_records b))"

definition pe_match :: "producer_id_and_epoch \<Rightarrow> producer_batch \<Rightarrow> bool" where
  "pe_match pe b \<longleftrightarrow> batch_producer b = (Some (pe_producer_id pe), Some (pe_epoch pe))"

definition sd_matches :: "sender \<Rightarrow> nat \<Rightarrow> bool" where
  "sd_matches s i = (case sd_txn s of None \<Rightarrow> False | Some tm \<Rightarrow> pe_match (tm_producer_id_and_epoch tm) (sd_batch s i))"

text \<open>What a failure means for the transaction manager.\<close>

definition fail_transaction :: "exn_class \<Rightarrow> nat \<Rightarrow> (sender, unit) py" where
  "fail_transaction exc i s =
     (case sd_txn s of
        None \<Rightarrow> (Inr (), s)
      | Some tm \<Rightarrow>
          if issubclass exc OutOfOrderSequenceNumberError \<and> \<not> is_transactional tm \<and>
             has_producer_id (mb_producer_id (pb_records (sd_batch s i))) tm
          then on_txn reset_producer_id s
          else if list_ex (issubclass exc)
               [ClusterAuthorizationFailedError, TransactionalIdAuthorizationFailedError, ProducerFencedError, InvalidTxnStateError]
          then on_txn (transition_to_fatal_error exc) s
          else if is_transactional tm then on_txn (transition_to_abortable_error exc) s
          else (Inr (), s))"

definition finish_batch :: "int \<Rightarrow> int option \<Rightarrow> exn_class option \<Rightarrow> nat \<Rightarrow> (sender, unit) py" where
  "finish_batch boff ts exc i =
     py_bind (on_acc (on_batch i (batch_done boff ts exc))) (\<lambda>fresh.
       if fresh then py_then (maybe_remove_from_inflight_batches i) (on_acc (deallocate i)) else py_return ())"

definition fail_batch :: "exn_class \<Rightarrow> int \<Rightarrow> int option \<Rightarrow> nat \<Rightarrow> (sender, unit) py" where
  "fail_batch exc boff ts i = py_then (fail_transaction exc i) (finish_batch boff ts (Some exc) i)"

definition can_retry :: "int \<Rightarrow> exn_class \<Rightarrow> nat \<Rightarrow> sender \<Rightarrow> bool" where
  "can_retry now error i s \<longleftrightarrow>
     \<not> has_reached_delivery_timeout (cfg_delivery_timeout_ms (sd_accumulator s)) now (sd_batch s i) \<and>
     (case sd_retries s of None \<Rightarrow> True | Some n \<Rightarrow> pb_attempts (sd_batch s i) < n) \<and>
     pb_final_state (sd_batch s i) = None \<and> cls_retriable error"

definition when_txn :: "(sender, unit) py \<Rightarrow> (sender, unit) py" where
  "when_txn m = py_when (\<lambda>s. sd_txn s \<noteq> None) m"

definition read_sequence_number :: "nat \<Rightarrow> (sender, unit) py" where
  "read_sequence_number i s = py_bind (on_txn (sequence_number (pb_topic_partition (sd_batch s i)))) (\<lambda>_. py_return ()) s"

definition retry_batch :: "int \<Rightarrow> nat \<Rightarrow> (sender, unit) py" where
  "retry_batch now i =
     py_then (when_txn (read_sequence_number i))
    (py_then (on_acc (acc_reenqueue now i)) (maybe_remove_from_inflight_batches i))"

definition handle_batch_error :: "int \<Rightarrow> exn_class \<Rightarrow> int \<Rightarrow> int option \<Rightarrow> nat \<Rightarrow> (sender, unit) py" where
  "handle_batch_error now error boff ts i =
     py_then
       (py_if (can_retry now error i)
          (py_if (\<lambda>s. sd_txn s = None \<or> sd_matches s i) (retry_batch now i) (fail_batch error boff ts i))
          (fail_batch error boff ts i))
       (py_when (\<lambda>_. cls_invalid_metadata error)
          (py_bind (on_metadata request_update) (\<lambda>_. py_return ())))"

definition handle_batch_success :: "int \<Rightarrow> int option \<Rightarrow> nat \<Rightarrow> (sender, unit) py" where
  "handle_batch_success boff ts i =
     py_then (finish_batch boff ts None i)
       (py_when (\<lambda>s. sd_matches s i)
          (py_then (\<lambda>s. on_txn (increment_sequence_number (pb_topic_partition (sd_batch s i)) (record_count (sd_batch s i))) s)
             (read_sequence_number i)))"

text \<open>\<open>muted.remove\<close> of a set raises KeyError when the partition is not muted.\<close>

definition unmute :: "nat \<Rightarrow> (sender, unit) py" where
  "unmute i s =
     (let tp = pb_topic_partition (sd_batch s i) in
      if tp \<in> set (ac_muted (sd_accumulator s))
      then on_acc (py_set (\<lambda>a. a\<lparr>ac_muted := removeAll tp (ac_muted a)\<rparr>)) s
      else (Inl KeyError, s))"

definition complete_batch :: "int \<Rightarrow> exn_class option \<Rightarrow> int \<Rightarrow> int option \<Rightarrow> nat \<Rightarrow> (sender, unit) py" where
  "complete_batch now error boff ts i =
     py_then
       (case error of
          None \<Rightarrow> handle_batch_success boff ts i
        | Some e \<Rightarrow> if e = NoError then handle_batch_success boff ts i else handle_batch_error now e boff ts i)
       (py_when sd_guarantee_message_order (unmute i))"

definition failed_produce :: "int \<Rightarrow> nat list \<Rightarrow> exn_class \<Rightarrow> (sender, unit) py" where
  "failed_produce now batches error = py_for (complete_batch now (Some error) (- 1) None) batches"

text \<open>A partition of a produce response, as many values as its version has fields.\<close>

fun partition_info :: "nat \<Rightarrow> pyval list \<Rightarrow> (int \<times> int \<times> int \<times> int option) res" where
  "partition_info v info =
     (if v < 2 then
        (case info of [VInt p, VInt error_code, VInt offset] \<Rightarrow> Inr (p, error_code, offset, None)
         | _ \<Rightarrow> Inl ValueError)
      else if v \<le> 4 then
        (case info of [VInt p, VInt error_code, VInt offset, VInt ts] \<Rightarrow> Inr (p, error_code, offset, Some ts)
         | _ \<Rightarrow> Inl ValueError)
      else if v \<le> 7 then
        (case info of [VInt p, VInt error_code, VInt offset, VInt ts, log_start] \<Rightarrow>
           Inr (p, error_code, offset, Some ts)
         | _ \<Rightarrow> Inl ValueError)
      else
        (case info of [VInt p, VInt error_code, VInt offset, VInt ts, log_start, errs, msg] \<Rightarrow>
           Inr (p, error_code, offset, Some ts)
         | _ \<Rightarrow> Inl ValueError))"

definition batches_by_partition :: "sender \<Rightarrow> nat list \<Rightarrow> (topic_partition \<times> nat) list" where
  "batches_by_partition s batches =
     fold (\<lambda>i d. AList.update (pb_topic_partition (sd_batch s i)) i d) batches []"

definition handle_partition ::
  "int \<Rightarrow> (topic_partition \<times> nat) list \<Rightarrow> nat \<Rightarrow> pystr \<times> pyval list \<Rightarrow> (sender, unit) py" where
  "handle_partition now by_partition v = (\<lambda>(topic, info).
     py_bind (py_lift (partition_info v info)) (\<lambda>(p, error_code, offset, ts).
       case map_of by_partition (topic, p) of
         None \<Rightarrow> py_raise KeyError
       | Some i \<Rightarrow> complete_batch now (Some (for_code error_code)) offset ts i))"

definition handle_produce_response ::
  "int \<Rightarrow> nat list \<Rightarrow> (nat \<times> (pystr \<times> pyval list list) list) option \<Rightarrow> (sender, unit) py" where
  "handle_produce_response now batches response =
     (case response of
        Some (v, response_topics) \<Rightarrow>
          (\<lambda>s. py_for (handle_partition now (batches_by_partition s batches) v)
                 (concat (map (\<lambda>(topic, infos). map (\<lambda>info. (topic, info)) infos) response_topics)) s)
      | None \<Rightarrow> py_for (complete_batch now None (- 1) None) batches)"

section \<open>Produce requests\<close>

primrec batch_buffers :: "sender \<Rightarrow> nat list \<Rightarrow> bytes list res" where
  "batch_buffers s [] = Inr []"
| "batch_buffers s (i # is) =
     res_bind (mb_get_buffer (pb_records (sd_batch s i))) (\<lambda>buf. res_map (\<lambda>bufs. buf # bufs) (batch_buffers s is))"

definition records_by_partition :: "sender \<Rightarrow> nat list \<Rightarrow> (pystr \<times> (int \<times> bytes) list) list res" where
  "records_by_partition s batches =
     res_map (\<lambda>bufs. fold (\<lambda>(tp, buf) d.
         AList.update (fst tp)
           (AList.update (snd tp) buf (case map_of d (fst tp) of None \<Rightarrow> [] | Some xs \<Rightarrow> xs)) d)
         (zip (map (\<lambda>i. pb_topic_partition (sd_batch s i)) batches) bufs) [])
       (batch_buffers s batches)"

definition produce_request :: "net_client \<Rightarrow> nat list \<Rightarrow> sender \<Rightarrow> request res" where
  "produce_request nc batches s =
     res_bind (records_by_partition s batches) (\<lambda>d.
       let v = nc_produce_version nc;
           tid = (case sd_txn s of None \<Rightarrow> None | Some tm \<Rightarrow> transactional_id tm);
           topic_partition_data = VList (map (\<lambda>(t, ps).
             VTuple [VStr t, VList (map (\<lambda>(p, buf). VTuple [VInt p, VBytes buf]) ps)]) d);
           common = [(''required_acks'', VInt (sd_acks s)), (''timeout'', VInt (sd_request_timeout_ms s)),
                     (''topics'', topic_partition_data)] in
       build_request (ProduceRequest ! v) (if v \<ge> 3 then (''transactional_id'', opt_str tid) # common else common))"

primrec create_produce_requests ::
  "net_client \<Rightarrow> (node_id \<times> nat list) list \<Rightarrow> sender \<Rightarrow> (node_id \<times> request) list res" where
  "create_produce_requests nc [] s = Inr []"
| "create_produce_requests nc (nb # rest) s =
     (if snd nb = [] then create_produce_requests nc rest s
      else res_bind (produce_request nc (snd nb) s) (\<lambda>req.
        res_map (\<lambda>reqs. (fst nb, req) # reqs) (create_produce_requests nc rest s)))"

section \<open>One iteration\<close>

text \<open>The minimum of delays, None being infinite.\<close>

definition min_delay :: "int option \<Rightarrow> int option \<Rightarrow> int option" where
  "min_delay a b = (case a of None \<Rightarrow> b | Some x \<Rightarrow> (case b of None \<Rightarrow> a | Some y \<Rightarrow> Some (min x y)))"

definition push_in_flight :: "nat \<Rightarrow> (sender, unit) py" where
  "push_in_flight i s =
     (let b = sd_batch s i in on_in_flight (pb_topic_partition b) (heapq_heappush item_less (pb_created b, i)) s)"

definition mute :: "nat \<Rightarrow> (sender, unit) py" where
  "mute i s = on_acc (py_set (\<lambda>a. a\<lparr>ac_muted := List.insert (pb_topic_partition (sd_batch s i)) (ac_muted a)\<rparr>)) s"

definition connect_not_ready :: "net_client \<Rightarrow> int list \<Rightarrow> (sender, int list \<times> int option) py" where
  "connect_not_ready nc nodes =
     (let waiting = filter (\<lambda>n. \<not> nc_is_ready nc n) nodes in
      py_then (py_for (\<lambda>n. tell (MaybeConnect n)) waiting)
        (py_return (filter (nc_is_ready nc) nodes,
           fold (\<lambda>n d. min_delay d (nc_connection_delay nc n)) waiting None)))"

definition expire_batches :: "int \<Rightarrow> nat list \<Rightarrow> (sender, unit) py" where
  "expire_batches now es = py_for (fail_batch KafkaTimeoutError (- 1) None) es"

definition send_requests :: "(node_id \<times> nat list) list \<Rightarrow> (node_id \<times> request) list \<Rightarrow> (sender, unit) py" where
  "send_requests by_node reqs =
     py_for (\<lambda>(n, req). tell (SendProduce (case n of Node k \<Rightarrow> k | _ \<Rightarrow> 0) req
       (case map_of by_node n of None \<Rightarrow> [] | Some bs \<Rightarrow> bs))) reqs"

definition drain_ready :: "codecs \<Rightarrow> int list \<Rightarrow> int \<Rightarrow> (sender, (node_id \<times> nat list) list) py" where
  "drain_ready cs nodes now =
     py_bind (\<lambda>s. on_acc (acc_drain cs (sd_metadata s) (map Node nodes) (sd_max_request_size s) now) s) (\<lambda>by_node.
       let drained = concat (map snd by_node) in
       py_then (py_for push_in_flight drained)
      (py_then (py_when sd_guarantee_message_order (py_for mute drained))
         (py_return by_node)))"

definition poll_timeout :: "int \<Rightarrow> int option \<Rightarrow> int \<Rightarrow> sender \<Rightarrow> int" where
  "poll_timeout next_ready_check not_ready now s =
     (let t = min_delay (Some next_ready_check)
                (min_delay not_ready (map_option (\<lambda>e. e - now) (ac_next_batch_expiry_time_ms (sd_accumulator s))))
      in max 0 (the t))"

definition send_producer_data :: "codecs \<Rightarrow> net_client \<Rightarrow> (nat \<Rightarrow> int) \<Rightarrow> int \<Rightarrow> (sender, int) py" where
  "send_producer_data cs nc clock now =
     py_bind (py_get (\<lambda>s. acc_ready (sd_metadata s) now (sd_accumulator s))) (\<lambda>(nodes, next_ready_check, unknown_leaders).
     py_then (py_when (\<lambda>_. unknown_leaders) (py_bind (on_metadata request_update) (\<lambda>_. py_return ())))
    (py_bind (connect_not_ready nc nodes) (\<lambda>(ready_nodes, not_ready).
     py_bind (drain_ready cs ready_nodes now) (\<lambda>by_node.
     py_then (on_acc reset_next_batch_expiry_time)
    (py_bind (on_acc (expired_batches cs now)) (\<lambda>expired.
     py_bind (get_expired_inflight_batches clock) (\<lambda>expired_in_flight.
     py_bind (py_get (\<lambda>s. sd_txn s \<noteq> None \<and> list_ex (\<lambda>i. pb_retry (sd_batch s i)) (expired @ expired_in_flight))) (\<lambda>needs_reset.
     py_then (expire_batches now (expired @ expired_in_flight))
       (if needs_reset then py_then (on_txn reset_producer_id) (py_return 0)
        else
          py_bind (py_get (create_produce_requests nc by_node)) (\<lambda>reqs_res.
          py_bind (py_lift reqs_res) (\<lambda>reqs.
          py_bind (py_get (poll_timeout next_ready_check not_ready now)) (\<lambda>t.
          py_then (send_requests by_node reqs)
            (py_return (if ready_nodes \<noteq> [] then 0 else t))))))))))))))"

text \<open>The name \<open>flush_in_progress\<close> does not exist in the accumulator (it is \<open>_flush_in_progress\<close>), and
  neither does \<open>abort_batches\<close>: both attribute lookups raise.\<close>

definition begin_completion_flush :: "codecs \<Rightarrow> (sender, unit) py" where
  "begin_completion_flush cs s =
     (case sd_txn s of
        None \<Rightarrow> (Inl AttributeError, s)
      | Some tm \<Rightarrow>
          if is_completing tm \<and> has_incomplete (sd_accumulator s) then
            py_then (py_when (\<lambda>_. is_aborting tm) (on_acc (abort_undrained_batches cs KafkaError)))
              (py_raise AttributeError) s
          else (Inr (), s))"

definition maybe_abort_batches :: "exn_class \<Rightarrow> (sender, unit) py" where
  "maybe_abort_batches exc = py_when (\<lambda>s. has_incomplete (sd_accumulator s)) (py_raise AttributeError)"

section \<open>Transactional requests\<close>

text \<open>The loops below ask the network until they succeed: what it answers is a list, one element per
  iteration, and None means that the loop is still running when the list is used up.\<close>

type_synonym 'a sender_run = "sender \<Rightarrow> ('a res \<times> sender) option"

definition run_of :: "(sender, 'a) py \<Rightarrow> 'a sender_run" where
  "run_of m s = Some (m s)"

definition run_bind :: "'a sender_run \<Rightarrow> ('a \<Rightarrow> 'b sender_run) \<Rightarrow> 'b sender_run" where
  "run_bind m f s =
     (case m s of None \<Rightarrow> None | Some (Inl e, t) \<Rightarrow> Some (Inl e, t) | Some (Inr a, t) \<Rightarrow> f a t)"

text \<open>The body of the try block: an exception with the value \<open>target_node\<close> has when it is raised, or
  whether to break and the target found.\<close>

definition find_target ::
  "net_client \<Rightarrow> handler \<Rightarrow> sender \<Rightarrow> ((exn_class \<times> node_id option) + (bool \<times> node_id option)) \<times> sender" where
  "find_target nc h s =
     (if needs_coordinator h then
        (case on_txn (\<lambda>tm. (coordinator (the (coordinator_type (h_kind h))) tm, tm)) s of
           (Inl e, t) \<Rightarrow> (Inl (e, None), t)
         | (Inr None, t) \<Rightarrow>
             (case on_txn (lookup_coordinator_for_request h) t of
                (Inl e, u) \<Rightarrow> (Inl (e, None), u)
              | (Inr _, u) \<Rightarrow> (Inr (True, None), u))
         | (Inr (Some n), t) \<Rightarrow>
             (case nc_await_ready nc n of
                Inl e \<Rightarrow> (Inl (e, Some n), t)
              | Inr True \<Rightarrow> (Inr (False, Some n), t)
              | Inr False \<Rightarrow>
                  (case on_txn (lookup_coordinator_for_request h) t of
                     (Inl e, u) \<Rightarrow> (Inl (e, Some n), u)
                   | (Inr _, u) \<Rightarrow> (Inr (True, None), u))))
      else
        (case nc_least_loaded_node nc of
           Inl e \<Rightarrow> (Inl (e, None), s)
         | Inr None \<Rightarrow> (Inr (False, None), s)
         | Inr (Some n) \<Rightarrow>
             (case nc_await_ready nc n of
                Inl e \<Rightarrow> (Inl (e, Some n), s)
              | Inr ready \<Rightarrow> (Inr (False, if ready then Some n else None), s))))"

text \<open>After the loop; \<open>target_node\<close> is unbound when its body never ran.\<close>

definition after_target_loop :: "handler \<Rightarrow> node_id option option \<Rightarrow> (sender, bool) py" where
  "after_target_loop h target =
     (case target of
        None \<Rightarrow> py_raise UnboundLocalError
      | Some None \<Rightarrow> py_then (on_txn (retry h)) (py_return True)
      | Some (Some n) \<Rightarrow> py_return True)"

definition send_transactional :: "handler \<Rightarrow> node_id \<Rightarrow> (sender, bool) py" where
  "send_transactional h n =
     py_bind (on_txn next_in_flight_request_correlation_id) (\<lambda>cid.
     py_then (tell (SendTransactional n h cid)) (py_return True))"

definition back_off :: "(sender, unit) py" where
  "back_off = py_bind (on_metadata request_update) (\<lambda>_. py_return ())"

primrec target_loop :: "net_client list \<Rightarrow> handler \<Rightarrow> node_id option option \<Rightarrow> bool sender_run" where
  "target_loop [] h target s = (if sd_force_close s then Some (after_target_loop h target s) else None)"
| "target_loop (nc # ncs) h target s =
     (if sd_force_close s then Some (after_target_loop h target s)
      else case find_target nc h s of
          (Inr (True, tgt), t) \<Rightarrow> Some (after_target_loop h (Some tgt) t)
        | (Inr (False, Some n), t) \<Rightarrow> Some (send_transactional h n t)
        | (Inr (False, None), t) \<Rightarrow> run_bind (run_of back_off) (\<lambda>_. target_loop ncs h (Some None)) t
        | (Inl (e, tgt), t) \<Rightarrow>
            if needs_coordinator h
            then run_bind (run_of (on_txn (lookup_coordinator_for_request h))) (\<lambda>_. run_of (after_target_loop h (Some tgt))) t
            else run_bind (run_of back_off) (\<lambda>_. target_loop ncs h (Some tgt)) t)"

definition maybe_send_transactional_request :: "codecs \<Rightarrow> net_client list \<Rightarrow> bool sender_run" where
  "maybe_send_transactional_request cs ncs =
     run_bind (run_of (begin_completion_flush cs)) (\<lambda>_.
     run_bind (run_of (\<lambda>s. on_txn (next_request_handler (has_incomplete (sd_accumulator s))) s)) (\<lambda>next_handler.
       case next_handler of
         None \<Rightarrow> run_of (py_return False)
       | Some h \<Rightarrow> target_loop ncs h None))"

datatype init_event =
    NoBroker
  | InitResponse nat int int int
  | InitRaised exn_class

definition init_request :: "nat \<Rightarrow> sender \<Rightarrow> request res" where
  "init_request v s =
     build_request (InitProducerIdRequest ! v)
       [(''transactional_id'', opt_str (sd_transactional_id s)), (''transaction_timeout_ms'', VInt (sd_transaction_timeout_ms s))]"

text \<open>One iteration of the wait; the result says whether to leave the loop.\<close>

definition init_step :: "init_event \<Rightarrow> (sender, bool) py" where
  "init_step ev =
     (case ev of
        NoBroker \<Rightarrow> py_return False
      | InitRaised e \<Rightarrow>
          if issubclass e KafkaConnectionError \<or> issubclass e RequestTimedOutError then py_return False else py_raise e
      | InitResponse v code pid epoch \<Rightarrow>
          py_bind (py_get (init_request v)) (\<lambda>req_res. py_bind (py_lift req_res) (\<lambda>req.
          py_then (tell (SendInitProducerId req))
            (let error_type = for_code code in
             if error_type = NoError then
               py_then (on_txn (set_producer_id_and_epoch \<lparr>pe_producer_id = pid, pe_epoch = epoch\<rparr>)) (py_return True)
             else if cls_retriable error_type then
               py_then (py_when (\<lambda>_. cls_invalid_metadata error_type) back_off) (py_return False)
             else py_then (on_txn (transition_to_fatal_error error_type)) (py_return True)))))"

definition sd_has_producer_id :: "sender \<Rightarrow> bool" where
  "sd_has_producer_id s = (case sd_txn s of None \<Rightarrow> False | Some tm \<Rightarrow> has_producer_id None tm)"

primrec maybe_wait_for_producer_id :: "init_event list \<Rightarrow> unit sender_run" where
  "maybe_wait_for_producer_id [] s = (if sd_has_producer_id s then Some (Inr (), s) else None)"
| "maybe_wait_for_producer_id (ev # evs) s =
     (if sd_has_producer_id s then Some (Inr (), s)
      else run_bind (run_of (init_step ev)) (\<lambda>leave. if leave then run_of (py_return ()) else maybe_wait_for_producer_id evs) s)"

section \<open>The main loop\<close>

text \<open>The part of \<open>run_once\<close> under \<open>if self._transaction_manager\<close>: whether to go on and send data.  An
  abortable error always comes with a last error (the transition to it demands one).\<close>

definition run_transactions :: "codecs \<Rightarrow> net_client list \<Rightarrow> init_event list \<Rightarrow> bool sender_run" where
  "run_transactions cs ncs evs s =
     (case sd_txn s of
        None \<Rightarrow> Some (Inr True, s)
      | Some tm \<Rightarrow>
          run_bind
            (if \<not> is_transactional tm then run_bind (maybe_wait_for_producer_id evs) (\<lambda>_. run_of (py_return False))
             else if has_in_flight_transactional_request tm then run_of (py_return True)
             else maybe_send_transactional_request cs ncs) (\<lambda>outstanding.
          run_of (\<lambda>t.
            if outstanding then py_then (tell (Poll (sd_retry_backoff_ms t))) (py_return False) t
            else case sd_txn t of
                None \<Rightarrow> (Inl AttributeError, t)
              | Some tm' \<Rightarrow>
                  if has_fatal_error tm' \<or> \<not> has_producer_id None tm' then
                    py_then (case last_error tm' of None \<Rightarrow> py_return () | Some e \<Rightarrow> maybe_abort_batches e)
                   (py_then (tell (Poll (sd_retry_backoff_ms t))) (py_return False)) t
                  else if has_abortable_error tm' then
                    py_then (case last_error tm' of None \<Rightarrow> py_raise AssertionError
                             | Some e \<Rightarrow> on_acc (abort_undrained_batches cs e)) (py_return True) t
                  else (Inr True, t))) s)"

definition add_pending_topics :: "(sender, unit) py" where
  "add_pending_topics s =
     py_then (py_for (\<lambda>t. tell (AddTopic t)) (sd_topics_to_add s)) (py_set (\<lambda>t. t\<lparr>sd_topics_to_add := []\<rparr>)) s"

definition run_once ::
  "codecs \<Rightarrow> net_client \<Rightarrow> net_client list \<Rightarrow> init_event list \<Rightarrow> (nat \<Rightarrow> int) \<Rightarrow> int \<Rightarrow> unit sender_run" where
  "run_once cs nc ncs evs clock now =
     run_bind (run_of add_pending_topics) (\<lambda>_.
     run_bind (\<lambda>s. case run_transactions cs ncs evs s of
                 None \<Rightarrow> None
               | Some (Inl e, t) \<Rightarrow>
                   if issubclass e SaslAuthenticationFailedError
                   then Some (py_then (on_txn (authentication_failed e)) (py_return True) t)
                   else Some (Inl e, t)
               | Some (Inr go, t) \<Rightarrow> Some (Inr go, t)) (\<lambda>go.
       if go then run_bind (run_of (send_producer_data cs nc clock now)) (\<lambda>t. run_of (tell (Poll t)))
       else run_of (py_return ())))"

definition initiate_close :: "(sender, unit) py" where
  "initiate_close = py_then (py_set (\<lambda>s. s\<lparr>sd_running := False\<rparr>)) (on_acc acc_close)"

definition force_close :: "(sender, unit) py" where
  "force_close = py_then (py_set (\<lambda>s. s\<lparr>sd_force_close := True\<rparr>)) initiate_close"

definition add_topic :: "net_client \<Rightarrow> pystr \<Rightarrow> (sender, unit) py" where
  "add_topic nc topic =
     py_when (\<lambda>_. topic \<notin> set (nc_topics nc)) (py_set (\<lambda>s. s\<lparr>sd_topics_to_add := List.insert topic (sd_topics_to_add s)\<rparr>))"

text \<open>\<open>run\<close>: what one iteration meets, and the steps of other threads (which close the sender) after it.\<close>

record iteration =
  it_client :: net_client
  it_transactional :: "net_client list"
  it_init :: "init_event list"
  it_clock :: "nat \<Rightarrow> int"
  it_now :: int
  it_in_flight_requests :: nat
  it_others :: "sender \<Rightarrow> sender"

definition run_iteration :: "codecs \<Rightarrow> iteration \<Rightarrow> sender \<Rightarrow> sender option" where
  "run_iteration cs it s =
     map_option (\<lambda>(r, t). it_others it t)
       (run_once cs (it_client it) (it_transactional it) (it_init it) (it_clock it) (it_now it) s)"

fun run_while :: "(iteration \<Rightarrow> sender \<Rightarrow> bool) \<Rightarrow> codecs \<Rightarrow> iteration list \<Rightarrow> sender \<Rightarrow> (iteration list \<times> sender) option" where
  "run_while cond cs [] s = None"
| "run_while cond cs (it # its) s =
     (if cond it s then Option.bind (run_iteration cs it s) (run_while cond cs its) else Some (it # its, s))"

definition sender_run :: "codecs \<Rightarrow> iteration list \<Rightarrow> (accumulator \<Rightarrow> accumulator) list \<Rightarrow> unit sender_run" where
  "sender_run cs its appends s =
     Option.bind (run_while (\<lambda>_ t. sd_running t) cs its s) (\<lambda>(rest, s1).
     Option.bind (run_while (\<lambda>it t. \<not> sd_force_close t \<and> (has_undrained (sd_accumulator t) \<or> it_in_flight_requests it > 0)) cs rest s1)
       (\<lambda>(_, s2).
         if sd_force_close s2 then
           Option.bind (abort_incomplete_batches cs appends (sd_accumulator s2)) (\<lambda>(r, a).
             Some (case r of Inl e \<Rightarrow> (Inl e, s2\<lparr>sd_accumulator := a\<rparr>)
                   | Inr _ \<Rightarrow> tell CloseClient (s2\<lparr>sd_accumulator := a\<rparr>)))
         else Some (tell CloseClient s2)))"

end
