(* ===== verification/Sender_Properties.thy ===== *)
theory Sender_Properties
  imports Sender
begin

text \<open>
  What completing a batch does, on every outcome, and two ways in which the sender stops making
  progress on a transaction.
\<close>

section \<open>Steps that leave the batches alone\<close>

definition same_batches :: "sender \<Rightarrow> sender \<Rightarrow> bool" where
  "same_batches s t \<longleftrightarrow>
     ac_batches (sd_accumulator t) = ac_batches (sd_accumulator s) \<and>
     ac_store (sd_accumulator t) = ac_store (sd_accumulator s) \<and>
     ac_incomplete (sd_accumulator t) = ac_incomplete (sd_accumulator s) \<and>
     sd_in_flight_batches t = sd_in_flight_batches s"

interpretation sb: guarantee same_batches
  by unfold_locales (simp_all add: same_batches_def)

lemma same_batches_on_txn: "guarantees same_batches (on_txn m)"
  by (auto simp: guarantees_def same_batches_def on_txn_def split: option.splits prod.splits)

lemma same_batches_on_metadata: "guarantees same_batches (on_metadata m)"
  by (auto simp: guarantees_def same_batches_def on_metadata_def split: prod.splits)

lemma same_batches_unmute: "guarantees same_batches (unmute i)"
  by (auto simp: guarantees_def same_batches_def unmute_def on_acc_def py_defs Let_def)

lemma same_batches_read: "guarantees same_batches (read_sequence_number i)"
  unfolding guarantees_def read_sequence_number_def
proof (intro allI)
  fix s
  have "guarantees same_batches (py_bind (on_txn (sequence_number (pb_topic_partition (sd_batch s i)))) (\<lambda>_. py_return ()))"
    by (intro sb.g_rules same_batches_on_txn)
  then show "same_batches s (snd (py_bind (on_txn (sequence_number (pb_topic_partition (sd_batch s i)))) (\<lambda>_. py_return ()) s))"
    by (simp add: guarantees_def)
qed

lemma same_batches_fail_transaction: "guarantees same_batches (fail_transaction e i)"
  using same_batches_on_txn
  by (auto simp: guarantees_def fail_transaction_def sb.R_refl split: option.splits)

lemmas same_batches_rules = sb.g_rules same_batches_on_txn same_batches_on_metadata same_batches_unmute
  same_batches_read same_batches_fail_transaction

lemma same_batches_views:
  assumes "same_batches s t"
  shows "sd_batch t = sd_batch s" "in_flight t = in_flight s" "dq_of (sd_accumulator t) = dq_of (sd_accumulator s)"
    "tp_of (sd_accumulator t) = tp_of (sd_accumulator s)" "queues_ok (sd_accumulator t) = queues_ok (sd_accumulator s)"
proof -
  show v: "sd_batch t = sd_batch s" "in_flight t = in_flight s" "dq_of (sd_accumulator t) = dq_of (sd_accumulator s)"
    "tp_of (sd_accumulator t) = tp_of (sd_accumulator s)"
    using assms by (auto simp: same_batches_def sd_batch_def in_flight_def dq_of_def tp_of_def fun_eq_iff)
  show "queues_ok (sd_accumulator t) = queues_ok (sd_accumulator s)"
    using assms v(3,4) by (simp add: queues_ok_def same_batches_def)
qed

section \<open>The queue of in-flight batches\<close>

lemma index_of_Some: "index_of x q = Some k \<Longrightarrow> k < length q \<and> q ! k = x"
  by (induction q arbitrary: k) (auto split: if_splits)

lemma index_of_None: "index_of x q = None \<longleftrightarrow> x \<notin> set q"
  by (induction q) auto

lemma mset_butlast_update:
  assumes "k < length q"
  shows "mset (butlast (q[k := last q])) = mset q - {#q ! k#}"
proof -
  have ne: "q[k := last q] \<noteq> []" using assms by auto
  have "last (q[k := last q]) = last q"
    using assms last_list_update [of q k "last q"] by (cases "q = []") auto
  then have "add_mset (last q) (mset (butlast (q[k := last q]))) = mset (q[k := last q])"
    using append_butlast_last_id [OF ne] by (metis mset_append mset_single_iff_right union_mset_add_mset_right mset.simps add.right_neutral)
  also have "\<dots> = add_mset (last q) (mset q - {#q ! k#})"
    using assms by (simp add: mset_update)
  finally show ?thesis by simp
qed

lemma remove_item_items:
  assumes "remove_item x q = (r, q')"
  shows "mset q' = mset q - {#x#}"
proof (cases "index_of x q")
  case None
  then have "q' = q" "x \<notin> set q" using assms by (simp_all add: remove_item_def index_of_None [symmetric])
  then show ?thesis by (simp add: diff_single_trivial)
next
  case (Some k)
  then have "q' = snd (heapq_heapify item_less (butlast (q[k := last q])))" using assms by (simp add: remove_item_def)
  then show ?thesis using index_of_Some [OF Some] by (simp add: heapify_items mset_butlast_update)
qed

lemma remove_item_set:
  assumes "remove_item x q = (r, q')" "distinct q"
  shows "distinct q' \<and> set q' = set q - {x}"
proof -
  have "mset q' = mset (remove1 x q)" using remove_item_items [OF assms(1)] by simp
  then have "mset_set (set q') = mset_set (set (remove1 x q))" "distinct q' = distinct (remove1 x q)"
    by (metis mset_eq_setD, metis mset_eq_imp_distinct_iff)
  then show ?thesis using assms(2) \<open>mset q' = _\<close> by (metis mset_eq_setD distinct_remove1 set_remove1_eq)
qed

text \<open>A batch in flight is one of the store, in its own queue of in-flight batches and not waiting to be
  sent.\<close>

definition sender_ok :: "sender \<Rightarrow> bool" where
  "sender_ok s \<longleftrightarrow> queues_ok (sd_accumulator s) \<and> (\<forall>tp. distinct (in_flight s tp)) \<and>
     (\<forall>tp e. e \<in> set (in_flight s tp) \<longrightarrow>
        snd e < length (ac_store (sd_accumulator s)) \<and> fst e = pb_created (sd_batch s (snd e)) \<and>
        tp_of (sd_accumulator s) (snd e) = tp \<and> snd e \<notin> set (dq_of (sd_accumulator s) tp))"

lemma sender_okD:
  assumes "sender_ok s" "e \<in> set (in_flight s tp)"
  shows "snd e < length (ac_store (sd_accumulator s))" "fst e = pb_created (sd_batch s (snd e))"
    "tp_of (sd_accumulator s) (snd e) = tp" "snd e \<notin> set (dq_of (sd_accumulator s) tp)"
  using assms unfolding sender_ok_def by blast+

definition settled_fields :: "producer_batch \<Rightarrow> topic_partition \<times> int" where
  "settled_fields b = (pb_topic_partition b, pb_created b)"

text \<open>The steps that settle batch \<open>i\<close> take it out of the in-flight batches, and out of or into a queue.\<close>

lemma sender_ok_settled:
  assumes ok: "sender_ok s" and q: "queues_ok (sd_accumulator t)"
    and st: "map settled_fields (ac_store (sd_accumulator t)) = map settled_fields (ac_store (sd_accumulator s))"
    and fl: "\<And>tp. distinct (in_flight t tp) \<and> set (in_flight t tp) = set (in_flight s tp) - {(pb_created (sd_batch s i), i)}"
    and dq: "\<And>tp. set (dq_of (sd_accumulator t) tp) \<subseteq> insert i (set (dq_of (sd_accumulator s) tp))"
  shows "sender_ok t"
proof -
  have len: "length (ac_store (sd_accumulator t)) = length (ac_store (sd_accumulator s))" using st by (metis length_map)
  have same: "tp_of (sd_accumulator t) j = tp_of (sd_accumulator s) j \<and> pb_created (sd_batch t j) = pb_created (sd_batch s j)"
    if "j < length (ac_store (sd_accumulator s))" for j
    using arg_cong [OF st, of "\<lambda>xs. xs ! j"] that len by (simp add: tp_of_def sd_batch_def settled_fields_def)
  have "snd e < length (ac_store (sd_accumulator t)) \<and> fst e = pb_created (sd_batch t (snd e)) \<and>
      tp_of (sd_accumulator t) (snd e) = tp \<and> snd e \<notin> set (dq_of (sd_accumulator t) tp)"
    if "e \<in> set (in_flight t tp)" for e tp
  proof -
    have e: "e \<in> set (in_flight s tp)" "e \<noteq> (pb_created (sd_batch s i), i)" using fl that by auto
    note sd = sender_okD [OF ok e(1)]
    have "snd e \<noteq> i" using e(2) sd(2) by (cases e) auto
    then show ?thesis using sd same [OF sd(1)] dq [of tp] len by auto
  qed
  then show ?thesis unfolding sender_ok_def using q fl by blast
qed

section \<open>Settling a batch\<close>

lemma in_flight_on_in_flight:
  "in_flight (snd (on_in_flight tp m s)) tp' = (if tp' = tp then snd (m (in_flight s tp)) else in_flight s tp')"
  "sd_accumulator (snd (on_in_flight tp m s)) = sd_accumulator s"
  "fst (on_in_flight tp m s) = fst (m (in_flight s tp))"
  by (simp_all add: on_in_flight_def in_flight_def update_conv split: prod.splits)

lemma maybe_remove_spec:
  assumes "maybe_remove_from_inflight_batches i s = (r, t)"
    and "\<forall>tp. distinct (in_flight s tp)"
    and "\<forall>tp. (pb_created (sd_batch s i), i) \<in> set (in_flight s tp) \<longrightarrow> tp = tp_of (sd_accumulator s) i"
  shows "sd_accumulator t = sd_accumulator s \<and>
    (\<forall>tp. distinct (in_flight t tp) \<and> set (in_flight t tp) = set (in_flight s tp) - {(pb_created (sd_batch s i), i)})"
proof -
  let ?tp = "pb_topic_partition (sd_batch s i)" and ?x = "(pb_created (sd_batch s i), i)"
  have t: "t = snd (on_in_flight ?tp (remove_item ?x) s)"
    using assms(1) by (simp add: maybe_remove_from_inflight_batches_def Let_def)
  have tp: "?tp = tp_of (sd_accumulator s) i" by (simp add: tp_of_def sd_batch_def)
  obtain r' q where q: "remove_item ?x (in_flight s ?tp) = (r', q)" by (cases "remove_item ?x (in_flight s ?tp)")
  have "distinct q \<and> set q = set (in_flight s ?tp) - {?x}" using remove_item_set [OF q] assms(2) by blast
  moreover have "set (in_flight s tp') - {?x} = set (in_flight s tp')" if "tp' \<noteq> ?tp" for tp'
  proof -
    have "?x \<notin> set (in_flight s tp')" using assms(3) that tp by metis
    then show ?thesis by simp
  qed
  ultimately show ?thesis using assms(2) by (simp add: t in_flight_on_in_flight q del: split_paired_All)
qed

lemma map_settled_update:
  "settled_fields b = settled_fields (xs ! i) \<Longrightarrow> map settled_fields (xs[i := b]) = map settled_fields xs"
  by (cases "i < length xs") (auto simp: map_update list_update_beyond intro: list_update_same_conv [THEN iffD2])

lemma batch_done_fresh:
  assumes "batch_done boff ts exc b = (Inr x, c)" "pb_final_state b = None"
  shows "x \<and> settled_fields c = settled_fields b \<and> pb_final_state c = Some (if exc = None then SUCCEEDED else FAILED)"
  using assms
  by (auto simp: batch_done_def complete_future_def settled_fields_def py_defs Let_def split: prod.splits sum.splits option.splits if_splits)

text \<open>What \<open>complete_batch\<close> leaves behind when a batch in flight is completed, and when it is retried.\<close>

definition in_flight_batch :: "sender \<Rightarrow> nat \<Rightarrow> bool" where
  "in_flight_batch s i \<longleftrightarrow> (pb_created (sd_batch s i), i) \<in> set (in_flight s (tp_of (sd_accumulator s) i))"

definition completed :: "sender \<Rightarrow> nat \<Rightarrow> final_state \<Rightarrow> sender \<Rightarrow> bool" where
  "completed s i st t \<longleftrightarrow> sender_ok t \<and> \<not> in_flight_batch t i \<and> i \<notin> set (ac_incomplete (sd_accumulator t)) \<and>
     pb_final_state (sd_batch t i) = Some st \<and> dq_of (sd_accumulator t) = dq_of (sd_accumulator s)"

definition requeued :: "sender \<Rightarrow> nat \<Rightarrow> sender \<Rightarrow> bool" where
  "requeued s i t \<longleftrightarrow> sender_ok t \<and> \<not> in_flight_batch t i \<and> i \<in> set (ac_incomplete (sd_accumulator t)) \<and>
     pb_final_state (sd_batch t i) = None \<and> pb_attempts (sd_batch t i) = pb_attempts (sd_batch s i) + 1 \<and>
     (let tp = tp_of (sd_accumulator s) i in dq_of (sd_accumulator t) tp = i # dq_of (sd_accumulator s) tp)"

lemma sender_ok_removed:
  assumes "sender_ok s" "in_flight_batch s i" "maybe_remove_from_inflight_batches i u = (r, v)"
    "in_flight u = in_flight s" "sd_batch u i = b" "settled_fields b = settled_fields (sd_batch s i)"
    "tp_of (sd_accumulator u) i = tp_of (sd_accumulator s) i"
  shows "sd_accumulator v = sd_accumulator u \<and>
    (\<forall>tp. distinct (in_flight v tp) \<and> set (in_flight v tp) = set (in_flight s tp) - {(pb_created (sd_batch s i), i)})"
proof -
  have cr: "pb_created (sd_batch u i) = pb_created (sd_batch s i)" using assms(5,6) by (simp add: settled_fields_def)
  have "distinct (in_flight u tp)" for tp using assms(1,4) by (simp add: sender_ok_def del: split_paired_All)
  moreover have "(pb_created (sd_batch u i), i) \<in> set (in_flight u tp) \<Longrightarrow> tp = tp_of (sd_accumulator u) i" for tp
    using sender_okD(3) [OF assms(1), of "(pb_created (sd_batch s i), i)" tp] assms(4,7) cr by simp
  ultimately show ?thesis using maybe_remove_spec [OF assms(3)] cr assms(4) by simp
qed

lemma finish_batch_settles:
  assumes run: "finish_batch boff ts exc i s = (Inr (), t)" and ok: "sender_ok s" and fl: "in_flight_batch s i"
    and fin: "pb_final_state (sd_batch s i) = None"
  shows "completed s i (if exc = None then SUCCEEDED else FAILED) t"
proof -
  let ?a = "sd_accumulator s"
  have i: "i < length (ac_store ?a)" "i \<notin> set (dq_of ?a (tp_of ?a i))"
    using sender_okD [OF ok fl [unfolded in_flight_batch_def]] by simp_all
  obtain x c where c: "batch_done boff ts exc (sd_batch s i) = (Inr x, c)"
    using run by (cases "batch_done boff ts exc (sd_batch s i)"; cases "fst (batch_done boff ts exc (sd_batch s i))")
      (auto simp: finish_batch_def on_acc_def on_batch_def sd_batch_def py_defs)
  note fresh = batch_done_fresh [OF c fin]
  define u where "u = s\<lparr>sd_accumulator := ?a\<lparr>ac_store := (ac_store ?a)[i := c]\<rparr>\<rparr>"
  have bu: "sd_batch u i = c" "in_flight u = in_flight s" "tp_of (sd_accumulator u) i = tp_of ?a i"
    using i fresh by (auto simp: u_def sd_batch_def in_flight_def tp_of_def settled_fields_def fun_eq_iff)
  obtain v where v: "maybe_remove_from_inflight_batches i u = (Inr (), v)" "t = snd (on_acc (deallocate i) v)"
    using run c fresh
    by (auto simp: finish_batch_def on_acc_def on_batch_def sd_batch_def py_defs u_def split: prod.splits sum.splits)
  note rem = sender_ok_removed [OF ok fl v(1) bu(2) bu(1) _ bu(3)]
  have acc_v: "sd_accumulator v = sd_accumulator u" and fl_v: "\<And>tp. distinct (in_flight v tp) \<and>
      set (in_flight v tp) = set (in_flight s tp) - {(pb_created (sd_batch s i), i)}"
    using rem fresh by auto
  have t: "sd_accumulator t = (sd_accumulator u)\<lparr>ac_incomplete := filter (\<lambda>j. j \<noteq> i) (ac_incomplete ?a)\<rparr>" "in_flight t = in_flight v"
    using acc_v v(2) by (auto simp: on_acc_def deallocate_def py_defs u_def in_flight_def fun_eq_iff)
  have dqt: "dq_of (sd_accumulator t) = dq_of ?a" by (simp add: t u_def)
  have "same_queues ?a (sd_accumulator u)"
    using i fresh by (auto simp: same_queues_def u_def settled_fields_def tp_of_def sd_batch_def map_update list_update_same_conv)
  then have "queues_ok (sd_accumulator u)" using ok queues_ok_same by (auto simp: sender_ok_def)
  then have "queues_ok (sd_accumulator t)"
    using queues_ok_deallocate [of "sd_accumulator u" i] i bu(3) by (simp add: t deallocate_def py_defs u_def)
  moreover have "map settled_fields (ac_store (sd_accumulator t)) = map settled_fields (ac_store ?a)"
    using fresh by (simp add: t u_def map_settled_update sd_batch_def)
  moreover have "set (dq_of (sd_accumulator t) tp) \<subseteq> insert i (set (dq_of ?a tp))" for tp by (auto simp: dqt)
  moreover note fl_v [folded t(2)]
  ultimately have "sender_ok t" using sender_ok_settled [OF ok, of t i] by blast
  moreover have "sd_batch t i = c" using i by (simp add: t u_def sd_batch_def)
  ultimately show ?thesis
    using fresh fl_v dqt by (auto simp: completed_def in_flight_batch_def t settled_fields_def)
qed

lemma same_batches_ok:
  assumes "same_batches s t"
  shows "sender_ok t = sender_ok s" "in_flight_batch t i = in_flight_batch s i"
  using assms unfolding sender_ok_def in_flight_batch_def same_batches_views [OF assms]
  by (simp_all add: same_batches_def)

lemma retry_batch_settles:
  assumes run: "retry_batch now i s = (Inr (), t)" and ok: "sender_ok s" and fl: "in_flight_batch s i"
    and fin: "pb_final_state (sd_batch s i) = None" and inc: "i \<in> set (ac_incomplete (sd_accumulator s))"
  shows "requeued s i t"
proof -
  have "guarantees same_batches (when_txn (read_sequence_number i))"
    unfolding when_txn_def by (intro same_batches_rules)
  then obtain s1 where s1: "same_batches s s1" "py_then (on_acc (acc_reenqueue now i)) (maybe_remove_from_inflight_batches i) s1 = (Inr (), t)"
    using run unfolding retry_batch_def py_then_def by (auto simp: py_bind_Inr dest: guaranteesD)
  note views = same_batches_views [OF s1(1)] and ok1 = same_batches_ok [OF s1(1)]
  let ?a = "sd_accumulator s1"
  define u where "u = snd (on_acc (acc_reenqueue now i) s1)"
  have i: "i < length (ac_store ?a)" "i \<notin> set (dq_of ?a (tp_of ?a i))"
    using sender_okD [OF ok fl [unfolded in_flight_batch_def]] s1(1) views by (simp_all add: same_batches_def)
  have inc1: "i \<in> set (ac_incomplete ?a)" using inc s1(1) by (simp add: same_batches_def)
  have acc_u: "sd_accumulator u = set_dq (tp_of ?a i) (i # dq_of ?a (tp_of ?a i))
      (?a\<lparr>ac_store := (ac_store ?a)[i := batch_retry now (sd_batch s1 i)]\<rparr>)"
    by (simp add: u_def on_acc_def acc_reenqueue_def py_defs Let_def tp_of_def sd_batch_def)
  have bu: "sd_batch u i = batch_retry now (sd_batch s1 i)" "in_flight u = in_flight s1" "tp_of (sd_accumulator u) i = tp_of ?a i"
    using i by (auto simp: acc_u sd_batch_def tp_of_def batch_retry_def)
      (simp add: u_def on_acc_def in_flight_def fun_eq_iff split: prod.splits)
  have kept: "settled_fields (batch_retry now (sd_batch s1 i)) = settled_fields (sd_batch s1 i)"
    by (simp add: settled_fields_def batch_retry_def)
  have run_u: "maybe_remove_from_inflight_batches i u = (Inr (), t)"
    using s1(2) by (simp add: u_def py_defs on_acc_def acc_reenqueue_def split: prod.splits)
  have acc_t: "sd_accumulator t = sd_accumulator u" and fl_t: "\<And>tp. distinct (in_flight t tp) \<and>
      set (in_flight t tp) = set (in_flight s1 tp) - {(pb_created (sd_batch s1 i), i)}"
    using sender_ok_removed [OF _ _ run_u bu(2) bu(1) kept bu(3)] ok fl ok1 by auto
  have "queues_ok (sd_accumulator t)"
    using queues_ok_reenqueue [of ?a i now] ok ok1(1) inc1 i acc_t
    by (simp add: sender_ok_def u_def on_acc_def split: prod.splits)
  moreover have "map settled_fields (ac_store (sd_accumulator t)) = map settled_fields (ac_store ?a)"
    using kept by (simp add: acc_t acc_u map_settled_update sd_batch_def)
  moreover have "set (dq_of (sd_accumulator t) tp) \<subseteq> insert i (set (dq_of ?a tp))" for tp
    by (auto simp: acc_t acc_u dq_of_set_dq)
  ultimately have "sender_ok t" using sender_ok_settled [of s1 t i] ok ok1 fl_t by blast
  moreover have "sd_batch t i = batch_retry now (sd_batch s i)" using bu(1) acc_t views(1) by (simp add: sd_batch_def)
  ultimately show ?thesis
    using fl_t inc1 views fin bu(3)
    by (simp add: requeued_def in_flight_batch_def acc_t acc_u dq_of_set_dq batch_retry_def Let_def)
qed

text \<open>Steps around the settling one that leave the batches alone do not matter.\<close>

lemma settled_transfer:
  assumes "same_batches v t"
  shows "completed s i st v \<Longrightarrow> completed s i st t" "requeued s i v \<Longrightarrow> requeued s i t"
  using assms unfolding completed_def requeued_def same_batches_ok [OF assms] same_batches_views [OF assms]
  by (simp_all add: same_batches_def)

lemma same_batches_tail: "py_then m n s = (Inr (), t) \<Longrightarrow> guarantees same_batches n \<Longrightarrow> \<exists>v. m s = (Inr (), v) \<and> same_batches v t"
  unfolding py_then_def by (auto simp: py_bind_Inr dest: guaranteesD)

lemma fail_batch_settles:
  assumes run: "fail_batch e boff ts i s = (Inr (), t)" and ok: "sender_ok s" and fl: "in_flight_batch s i"
    and fin: "pb_final_state (sd_batch s i) = None"
  shows "completed s i FAILED t"
proof -
  obtain s1 where s1: "same_batches s s1" "finish_batch boff ts (Some e) i s1 = (Inr (), t)"
    using run same_batches_fail_transaction [of e i] unfolding fail_batch_def py_then_def
    by (auto simp: py_bind_Inr dest: guaranteesD)
  have "completed s1 i FAILED t"
    using finish_batch_settles [OF s1(2)] ok fl fin same_batches_ok [OF s1(1)] same_batches_views [OF s1(1)] by simp
  then show ?thesis using same_batches_views [OF s1(1)] by (simp add: completed_def)
qed

lemma handle_batch_success_settles:
  assumes "handle_batch_success boff ts i s = (Inr (), t)" "sender_ok s" "in_flight_batch s i"
    "pb_final_state (sd_batch s i) = None"
  shows "completed s i SUCCEEDED t"
proof -
  have "guarantees same_batches (py_then (\<lambda>s. on_txn (increment_sequence_number (pb_topic_partition (sd_batch s i)) (record_count (sd_batch s i))) s)
      (read_sequence_number i))"
    by (intro same_batches_rules, rule guaranteesI) (use same_batches_on_txn in \<open>unfold guarantees_def, blast\<close>)
  from same_batches_tail [OF assms(1) [unfolded handle_batch_success_def] sb.g_when [OF this]]
  obtain v where v: "finish_batch boff ts None i s = (Inr (), v)" "same_batches v t" by blast
  then show ?thesis using finish_batch_settles [OF v(1)] assms(2-4) settled_transfer [OF v(2)] by simp
qed

lemma handle_batch_error_settles:
  assumes "handle_batch_error now e boff ts i s = (Inr (), t)" "sender_ok s" "in_flight_batch s i"
    "pb_final_state (sd_batch s i) = None" "i \<in> set (ac_incomplete (sd_accumulator s))"
  shows "if can_retry now e i s \<and> (sd_txn s = None \<or> sd_matches s i) then requeued s i t else completed s i FAILED t"
proof -
  have "guarantees same_batches (py_when (\<lambda>_. cls_invalid_metadata e) (py_bind (on_metadata request_update) (\<lambda>_. py_return ())))"
    by (intro same_batches_rules)
  from same_batches_tail [OF assms(1) [unfolded handle_batch_error_def] this]
  obtain v where "py_if (can_retry now e i)
          (py_if (\<lambda>s. sd_txn s = None \<or> sd_matches s i) (retry_batch now i) (fail_batch e boff ts i))
          (fail_batch e boff ts i) s = (Inr (), v)" and vt: "same_batches v t" by blast
  then have "if can_retry now e i s \<and> (sd_txn s = None \<or> sd_matches s i) then retry_batch now i s = (Inr (), v)
      else fail_batch e boff ts i s = (Inr (), v)"
    by (auto simp: py_if_def split: if_splits)
  then show ?thesis
    using retry_batch_settles fail_batch_settles assms(2-5) settled_transfer [OF vt] by metis
qed

section \<open>Properties\<close>


text \<open>C18. A transaction being committed while some batch is incomplete makes no progress: the iteration of
  the sender raises AttributeError before it drains or sends anything and before it polls the network,
  so every later iteration does the same.\<close>

theorem commit_blocks_sender:
  assumes "sd_txn s = Some tm" "is_transactional tm" "\<not> has_in_flight_transactional_request tm" "is_completing tm"
    "\<not> is_aborting tm" "has_incomplete (sd_accumulator s)"
  shows "\<exists>t. run_once cs nc ncs evs clock now s = Some (Inl AttributeError, t) \<and> sd_accumulator t = sd_accumulator s \<and>
    sd_in_flight_batches t = sd_in_flight_batches s \<and> sd_actions t = sd_actions s @ map AddTopic (sd_topics_to_add s)"
proof -
  have topics: "py_for (\<lambda>t. tell (AddTopic t)) xs u = (Inr (), u\<lparr>sd_actions := sd_actions u @ map AddTopic xs\<rparr>)" for xs u
    by (induction xs arbitrary: u) (simp_all add: tell_def py_defs)
  define u where "u = s\<lparr>sd_actions := sd_actions s @ map AddTopic (sd_topics_to_add s), sd_topics_to_add := []\<rparr>"
  have u: "add_pending_topics s = (Inr (), u)" by (simp add: add_pending_topics_def topics py_defs u_def)
  have txn: "sd_txn u = Some tm" "sd_accumulator u = sd_accumulator s" using assms(1) by (simp_all add: u_def sd_txn_def)
  have "begin_completion_flush cs u = (Inl AttributeError, u)"
    using assms txn by (simp add: begin_completion_flush_def py_defs)
  then have "run_transactions cs ncs evs u = Some (Inl AttributeError, u)"
    using assms txn by (simp add: run_transactions_def maybe_send_transactional_request_def run_bind_def run_of_def)
  moreover have "\<not> issubclass AttributeError SaslAuthenticationFailedError" by code_simp
  ultimately have "run_once cs nc ncs evs clock now s = Some (Inl AttributeError, u)"
    using u by (simp add: run_once_def run_bind_def run_of_def)
  then show ?thesis by (simp add: u_def)
qed

definition txn_pending :: "sender \<Rightarrow> handler set" where
  "txn_pending s = (case sd_txn s of None \<Rightarrow> {} | Some tm \<Rightarrow> (snd \<circ> snd) ` set (pending_requests tm))"

definition finds_coordinator :: "handler \<Rightarrow> bool" where
  "finds_coordinator h \<longleftrightarrow> (\<exists>t k. h_kind h = FindCoordinatorHandler t k)"

lemma needs_coordinator_finds: "needs_coordinator h \<Longrightarrow> \<not> finds_coordinator h"
  by (auto simp: needs_coordinator_def finds_coordinator_def)

text \<open>Looking up the coordinator only queues requests for a coordinator.\<close>

definition adds_lookups :: "txn_manager \<Rightarrow> txn_manager \<Rightarrow> bool" where
  "adds_lookups s t \<longleftrightarrow> (\<forall>e \<in> set (pending_requests t). e \<in> set (pending_requests s) \<or> finds_coordinator (snd (snd e)))"

interpretation al: guarantee adds_lookups
  by unfold_locales (auto simp: adds_lookups_def)

lemma set_timed_heappush: "set (heappush x h) = insert x (set h)"
  by (induction h) auto

lemma lookup_adds_lookups: "guarantees adds_lookups (lookup_coordinator ct ck)"
proof -
  have new: "h_kind h = FindCoordinatorHandler t k \<and> pending_requests v = pending_requests u"
    if "new_FindCoordinatorHandler t k u = (Inr h, v)" for t k u v h
    using that by (auto simp: new_FindCoordinatorHandler_def new_handler_def py_defs split: sum.splits prod.splits)
  have keep: "pending_requests (snd (new_FindCoordinatorHandler t k u)) = pending_requests u" for t k u
    by (auto simp: new_FindCoordinatorHandler_def new_handler_def py_defs split: sum.splits prod.splits)
  have enq: "adds_lookups u (snd (enqueue_request h v))"
    if "finds_coordinator h" "pending_requests v = pending_requests u" for h u v
    using that by (auto simp: adds_lookups_def enqueue_request_def py_defs set_timed_heappush)
  have "adds_lookups u (snd (py_bind (new_FindCoordinatorHandler t k) enqueue_request u))" for t k u
  proof -
    obtain r v where v: "new_FindCoordinatorHandler t k u = (r, v)" by (cases "new_FindCoordinatorHandler t k u")
    show ?thesis
    proof (cases r)
      case (Inl e)
      then show ?thesis using v keep [of t k u] by (simp add: py_bind_def adds_lookups_def)
    next
      case (Inr h)
      then show ?thesis using v new [of t k u h v] enq [of h v u] by (auto simp: py_bind_def finds_coordinator_def)
    qed
  qed
  then have body: "guarantees adds_lookups (py_bind (new_FindCoordinatorHandler t k) enqueue_request)" for t k
    by (rule guaranteesI)
  show ?thesis
    unfolding lookup_coordinator_def
    by (cases ct) (auto intro!: al.g_then al.g_raise al.g_set body simp: adds_lookups_def)
qed

text \<open>C21. A transactional request whose coordinator cannot be connected to is lost: when waiting for the
  coordinator raises, the loop that should send the request ends with nothing sent, and the request is
  not queued again; only a lookup of the coordinator is.\<close>

theorem coordinator_failure_drops_request:
  assumes "sd_txn s = Some tm" "\<not> sd_force_close s" "needs_coordinator h" "h \<notin> txn_pending s"
    "coordinator (the (coordinator_type (h_kind h))) tm = Inr (Some n)" "nc_await_ready nc n = Inl e"
  shows "\<exists>r t. target_loop (nc # ncs) h None s = Some (r, t) \<and> sd_actions t = sd_actions s \<and> h \<notin> txn_pending t"
proof -
  have co: "coordinator (the (coordinator_type (h_kind h))) (tm\<lparr>tm_metadata := sd_metadata s\<rparr>) = Inr (Some n)"
    using assms(5) by (simp add: coordinator_def split: if_splits)
  define u where "u = s\<lparr>sd_accumulator := (sd_accumulator s)\<lparr>ac_transaction_manager := Some (tm\<lparr>tm_metadata := sd_metadata s\<rparr>)\<rparr>\<rparr>"
  have "find_target nc h s = (Inl (e, Some n), u)"
    using assms co by (simp add: find_target_def on_txn_def u_def)
  then have loop: "target_loop (nc # ncs) h None s =
      run_bind (run_of (on_txn (lookup_coordinator_for_request h))) (\<lambda>_. run_of (after_target_loop h (Some (Some n)))) u"
    using assms(2,3) by simp
  obtain r t where t: "on_txn (lookup_coordinator_for_request h) u = (r, t)" by (cases "on_txn (lookup_coordinator_for_request h) u")
  have "target_loop (nc # ncs) h None s = Some (map_sum id (\<lambda>_. True) r, t)"
    unfolding loop by (cases r) (simp_all add: run_bind_def run_of_def t after_target_loop_def py_defs)
  moreover have "sd_actions t = sd_actions s" using t by (auto simp: on_txn_def u_def split: option.splits prod.splits)
  moreover have "h \<notin> txn_pending t"
  proof -
    have "guarantees adds_lookups (lookup_coordinator_for_request h)"
      unfolding lookup_coordinator_for_request_def by (intro al.g_rules lookup_adds_lookups)
    then have "adds_lookups (tm\<lparr>tm_metadata := sd_metadata s\<rparr>) (snd (lookup_coordinator_for_request h (tm\<lparr>tm_metadata := sd_metadata s\<rparr>)))"
      by (simp add: guarantees_def)
    then show ?thesis
      using t assms(1,4) needs_coordinator_finds [OF assms(3)]
      by (auto simp: on_txn_def u_def sd_txn_def txn_pending_def adds_lookups_def image_iff split: prod.splits)
        (metis snd_conv)
  qed
  ultimately show ?thesis by blast
qed

text \<open>Examples: the batch of \<open>example_queued\<close> in flight, and a producer committing a transaction.\<close>

definition example_sender :: sender where
  "example_sender = (Sender 1000 1 None 1000 10 False None 0 example_cluster (set_dq ([116], 0) [] example_queued))
     \<lparr>sd_in_flight_batches := [(([116], 0), [(7, 0)])]\<rparr>"

lemmas example_sender_simps = example_sender_def Sender_def example_queued_simps ProducerBatch_def

lemma example_sender_ok: "sender_ok example_sender" "in_flight_batch example_sender 0"
    "pb_final_state (sd_batch example_sender 0) = None" "0 \<in> set (ac_incomplete (sd_accumulator example_sender))"
  by (simp_all add: sender_ok_def queues_ok_def in_flight_def in_flight_batch_def dq_of_def tp_of_def sd_batch_def example_sender_simps)


definition example_manager :: txn_manager where
  "example_manager = (TransactionManager (Some [120]) 1000 10 [2, 6] example_cluster)
     \<lparr>current_state := COMMITTING_TRANSACTION, transaction_coordinator := Some (Node 3)\<rparr>"

definition example_committing :: sender where
  "example_committing = example_sender\<lparr>sd_accumulator :=
     (sd_accumulator example_sender)\<lparr>ac_transaction_manager := Some example_manager\<rparr>\<rparr>"

definition example_client :: net_client where
  "example_client = \<lparr>nc_topics = [], nc_is_ready = (\<lambda>_. True), nc_connection_delay = (\<lambda>_. None), nc_produce_version = 7,
     nc_least_loaded_node = Inr None, nc_await_ready = (\<lambda>_. Inl KafkaConnectionError)\<rparr>"

lemma example_committing_txn: "sd_txn example_committing = Some example_manager"
  by (simp add: example_committing_def sd_txn_def)

theorem commit_blocks_sender_witness:
  "\<exists>t. run_once no_codecs example_client [] [] (\<lambda>_. 9) 9 example_committing = Some (Inl AttributeError, t)"
proof -
  have "is_transactional example_manager" "\<not> has_in_flight_transactional_request example_manager" "is_completing example_manager"
    "\<not> is_aborting example_manager" "has_incomplete (sd_accumulator example_committing)"
    by code_simp+
  from commit_blocks_sender [OF example_committing_txn this] show ?thesis by blast
qed

definition example_end_txn :: handler where
  "example_end_txn = (case new_EndTxnHandler True example_manager of (Inr h, _) \<Rightarrow> h)"

theorem coordinator_failure_drops_request_witness:
  "\<exists>r t. target_loop [example_client] example_end_txn None example_committing = Some (r, t) \<and> example_end_txn \<notin> txn_pending t"
proof -
  have kind: "h_kind example_end_txn = EndTxnHandler" by code_simp
  have "\<not> sd_force_close example_committing" by code_simp
  moreover have "needs_coordinator example_end_txn" by (simp add: needs_coordinator_def kind)
  moreover have "pending_requests example_manager = []" by code_simp
  then have "example_end_txn \<notin> txn_pending example_committing" by (simp add: txn_pending_def example_committing_txn)
  moreover have "coordinator (the (coordinator_type (h_kind example_end_txn))) example_manager = Inr (Some (Node 3))"
    unfolding kind by code_simp
  moreover have "nc_await_ready example_client (Node 3) = Inl KafkaConnectionError" by (simp add: example_client_def)
  ultimately show ?thesis using coordinator_failure_drops_request [OF example_committing_txn] by blast
qed

end
