(* ===== verification/Assignors.thy ===== *)
theory Assignors
  imports Cluster "HOL-Library.List_Lexorder" "HOL-Library.Product_Lexorder"
begin

text \<open>
  \<^verbatim>\<open>kafka/coordinator/assignors/range.py\<close>, \<^verbatim>\<open>roundrobin.py\<close> and \<^verbatim>\<open>kafka/coordinator/protocol.py\<close>: the partition
  assignors of a consumer group and the structs in which subscriptions and assignments travel.  The
  members of a group are a dictionary from member id to subscription.  What the group relies on is the
  locale \<open>assignor\<close>: every partition of a subscribed topic has exactly one owner, subscribed to it.
\<close>

section \<open>Data\<close>

type_synonym members = "(pystr \<times> pystr list) list"

type_synonym member_assignment = "(pystr \<times> int list) list"

type_synonym group_assignment = "(pystr \<times> member_assignment) list"

definition subscription :: "members \<Rightarrow> pystr \<Rightarrow> pystr list" where
  "subscription ms m = (case map_of ms m of None \<Rightarrow> [] | Some ts \<Rightarrow> ts)"

text \<open>\<open>assignment[member]\<close> and \<open>assignment[member][topic]\<close> of the nested dictionaries.\<close>

definition topics_of :: "group_assignment \<Rightarrow> pystr \<Rightarrow> member_assignment" where
  "topics_of a m = (case map_of a m of None \<Rightarrow> [] | Some d \<Rightarrow> d)"

definition owned :: "group_assignment \<Rightarrow> pystr \<Rightarrow> pystr \<Rightarrow> int list" where
  "owned a m t = (case map_of (topics_of a m) t of None \<Rightarrow> [] | Some ps \<Rightarrow> ps)"

definition set_owned :: "pystr \<Rightarrow> pystr \<Rightarrow> int list \<Rightarrow> group_assignment \<Rightarrow> group_assignment" where
  "set_owned m t ps a = AList.update m (AList.update t ps (topics_of a m)) a"

text \<open>The dictionary that is returned: an entry for every member, its topics sorted.\<close>

definition protocol_assignment :: "members \<Rightarrow> group_assignment \<Rightarrow> group_assignment" where
  "protocol_assignment ms a = map (\<lambda>(m, _). (m, sort_key fst (topics_of a m))) ms"

section \<open>Range\<close>

definition consumers_per_topic :: "members \<Rightarrow> (pystr \<times> pystr list) list" where
  "consumers_per_topic ms =
     fold (\<lambda>(m, ts) d. fold (\<lambda>t e. AList.update t ((case map_of e t of None \<Rightarrow> [] | Some cs \<Rightarrow> cs) @ [m]) e) ts d) ms []"

definition range_slice :: "int list \<Rightarrow> nat \<Rightarrow> nat \<Rightarrow> int list" where
  "range_slice ps n i =
     (let per_consumer = length ps div n; with_extra = length ps mod n;
          start = per_consumer * i + min i with_extra;
          len = if \<not> i + 1 > with_extra then per_consumer + 1 else per_consumer
      in take len (drop start ps))"

definition range_topic :: "cluster \<Rightarrow> pystr \<times> pystr list \<Rightarrow> group_assignment \<Rightarrow> group_assignment" where
  "range_topic cl = (\<lambda>(t, consumers) a.
     case partitions_for_topic cl t of
       None \<Rightarrow> a
     | Some ps \<Rightarrow>
         let parts = sorted_list_of_set ps; cs = sort consumers in
         fold (\<lambda>(i, m). set_owned m t (range_slice parts (length cs) i)) (enumerate 0 cs) a)"

definition range_assign :: "cluster \<Rightarrow> members \<Rightarrow> group_assignment option" where
  "range_assign cl ms = Some (protocol_assignment ms (fold (range_topic cl) (consumers_per_topic ms) []))"

section \<open>Round robin\<close>

definition all_topic_partitions :: "cluster \<Rightarrow> members \<Rightarrow> topic_partition list" where
  "all_topic_partitions cl ms =
     sort (concat (map (\<lambda>t. case partitions_for_topic cl t of
         None \<Rightarrow> []
       | Some ps \<Rightarrow> map (\<lambda>p. (t, p)) (sorted_list_of_set ps)) (remdups (concat (map snd ms)))))"

text \<open>\<open>next(member_iter)\<close> until a member is subscribed to the topic: \<open>k\<close> is the number of members taken
  from the cycle so far.  If no member is subscribed the loop never ends; one turn of the cycle tells.\<close>

primrec next_subscribed :: "members \<Rightarrow> pystr list \<Rightarrow> pystr \<Rightarrow> nat \<Rightarrow> nat \<Rightarrow> nat option" where
  "next_subscribed ms ids t 0 k = None"
| "next_subscribed ms ids t (Suc n) k =
     (if t \<in> set (subscription ms (ids ! (k mod length ids))) then Some k else next_subscribed ms ids t n (k + 1))"

primrec roundrobin_loop ::
  "members \<Rightarrow> pystr list \<Rightarrow> topic_partition list \<Rightarrow> nat \<Rightarrow> group_assignment \<Rightarrow> group_assignment option" where
  "roundrobin_loop ms ids [] k a = Some a"
| "roundrobin_loop ms ids (tp # tps) k a =
     (case next_subscribed ms ids (fst tp) (length ids) k of
        None \<Rightarrow> None
      | Some j \<Rightarrow>
          let m = ids ! (j mod length ids) in
          roundrobin_loop ms ids tps (j + 1) (set_owned m (fst tp) (owned a m (fst tp) @ [snd tp]) a))"

definition roundrobin_assign :: "cluster \<Rightarrow> members \<Rightarrow> group_assignment option" where
  "roundrobin_assign cl ms =
     map_option (protocol_assignment ms)
       (roundrobin_loop ms (sort (map fst ms)) (all_topic_partitions cl ms) 0 [])"

section \<open>The contract of an assignor\<close>

text \<open>The members of a group: distinct ids, each subscribed to distinct topics.\<close>

definition valid_members :: "members \<Rightarrow> bool" where
  "valid_members ms \<longleftrightarrow> distinct (map fst ms) \<and> (\<forall>(m, ts) \<in> set ms. distinct ts)"

definition subscribed :: "members \<Rightarrow> pystr \<Rightarrow> pystr \<Rightarrow> bool" where
  "subscribed ms m t \<longleftrightarrow> (\<exists>ts. (m, ts) \<in> set ms \<and> t \<in> set ts)"

definition has_partition :: "cluster \<Rightarrow> pystr \<Rightarrow> int \<Rightarrow> bool" where
  "has_partition cl t p \<longleftrightarrow> (\<exists>ps. partitions_for_topic cl t = Some ps \<and> p \<in> ps)"

locale assignor =
  fixes assign :: "cluster \<Rightarrow> members \<Rightarrow> group_assignment option"
  assumes total: "valid_members ms \<Longrightarrow> \<exists>a. assign cl ms = Some a"
    and keys: "assign cl ms = Some a \<Longrightarrow> map fst a = map fst ms"
    and sound: "valid_members ms \<Longrightarrow> assign cl ms = Some a \<Longrightarrow> p \<in> set (owned a m t) \<Longrightarrow>
      subscribed ms m t \<and> has_partition cl t p"
    and complete: "valid_members ms \<Longrightarrow> assign cl ms = Some a \<Longrightarrow> subscribed ms m t \<Longrightarrow> has_partition cl t p \<Longrightarrow>
      \<exists>m'. p \<in> set (owned a m' t)"
    and unique: "valid_members ms \<Longrightarrow> assign cl ms = Some a \<Longrightarrow> p \<in> set (owned a m t) \<Longrightarrow> p \<in> set (owned a m' t) \<Longrightarrow> m = m'"
    and once: "valid_members ms \<Longrightarrow> assign cl ms = Some a \<Longrightarrow> distinct (owned a m t)"
    and topics_once: "assign cl ms = Some a \<Longrightarrow> (m, l) \<in> set a \<Longrightarrow> distinct (map fst l)"
begin

text \<open>The entry of a member lists exactly the partitions it owns.\<close>

lemma entry_owned:
  assumes "valid_members ms" "assign cl ms = Some a" "(m, l) \<in> set a"
  shows "set (concat (map (\<lambda>(t, ps). map (Pair t) ps) l)) = {tp. snd tp \<in> set (owned a m (fst tp))}"
proof -
  have "distinct (map fst a)" using keys [OF assms(2)] assms(1) by (simp add: valid_members_def)
  then have "topics_of a m = l" using assms(3) by (simp add: topics_of_def)
  moreover have "distinct (map fst l)" by (rule topics_once [OF assms(2,3)])
  ultimately show ?thesis by (force simp: owned_def split: option.splits dest: map_of_SomeD)
qed

lemma one_owner:
  assumes "valid_members ms" "assign cl ms = Some a" "subscribed ms m t" "has_partition cl t p"
  shows "\<exists>!m'. p \<in> set (owned a m' t)"
  using complete [OF assms] unique [OF assms(1,2)] by blast

text \<open>The members' shares of a topic add up to its partitions.\<close>

lemma shares:
  assumes "valid_members ms" "assign cl ms = Some a" "subscribed ms m t" "partitions_for_topic cl t = Some ps"
  shows "(\<Union>m' \<in> fst ` set ms. set (owned a m' t)) = ps \<and> (\<Sum>m' \<in> fst ` set ms. length (owned a m' t)) = card ps"
proof -
  let ?M = "fst ` set ms"
  have ps: "has_partition cl t p \<longleftrightarrow> p \<in> ps" for p using assms(4) by (simp add: has_partition_def)
  have mem: "m' \<in> ?M" if "p \<in> set (owned a m' t)" for p m'
    using sound [OF assms(1,2) that] by (force simp: subscribed_def)
  have cover: "(\<Union>m' \<in> ?M. set (owned a m' t)) = ps"
  proof (intro set_eqI iffI)
    fix p
    assume "p \<in> (\<Union>m' \<in> ?M. set (owned a m' t))"
    then obtain m' where "p \<in> set (owned a m' t)" by blast
    then show "p \<in> ps" using sound [OF assms(1,2)] ps by blast
  next
    fix p
    assume "p \<in> ps"
    then obtain m' where "p \<in> set (owned a m' t)" using complete [OF assms(1,2,3)] ps by blast
    then show "p \<in> (\<Union>m' \<in> ?M. set (owned a m' t))" using mem by blast
  qed
  have "(\<Sum>m' \<in> ?M. length (owned a m' t)) = (\<Sum>m' \<in> ?M. card (set (owned a m' t)))"
    by (simp add: distinct_card once [OF assms(1,2)])
  also have "\<dots> = card (\<Union>m' \<in> ?M. set (owned a m' t))"
    by (rule card_UN_disjoint [symmetric]) (use unique [OF assms(1,2)] in auto)
  finally show ?thesis using cover by simp
qed

end

section \<open>The nested dictionaries\<close>

definition keys_ok :: "group_assignment \<Rightarrow> bool" where
  "keys_ok a \<longleftrightarrow> (\<forall>m. distinct (map fst (topics_of a m)))"

lemma topics_of_set_owned:
  "topics_of (set_owned m t ps a) m' = (if m' = m then AList.update t ps (topics_of a m) else topics_of a m')"
  by (simp add: topics_of_def set_owned_def update_conv)

lemma owned_set_owned: "owned (set_owned m t ps a) m' t' = (if m' = m \<and> t' = t then ps else owned a m' t')"
  by (simp add: owned_def topics_of_set_owned update_conv)

lemma keys_ok_set_owned: "keys_ok a \<Longrightarrow> keys_ok (set_owned m t ps a)"
  by (simp add: keys_ok_def topics_of_set_owned distinct_update)

lemma keys_ok_Nil: "keys_ok []"
  by (simp add: keys_ok_def topics_of_def)

lemma owned_Nil: "owned [] m t = []"
  by (simp add: owned_def topics_of_def)

lemma map_of_sort_key: "distinct (map fst xs) \<Longrightarrow> map_of (sort_key fst xs) = map_of xs"
  by (subst map_of_inject_set) (simp_all add: distinct_map)

lemma protocol_assignment_keys: "map fst (protocol_assignment ms a) = map fst ms"
  by (simp add: protocol_assignment_def split_def)

lemma map_of_protocol_assignment:
  "map_of (protocol_assignment ms a) m = (if m \<in> fst ` set ms then Some (sort_key fst (topics_of a m)) else None)"
  by (induction ms) (auto simp: protocol_assignment_def split: prod.splits)

lemma owned_protocol_assignment:
  assumes "keys_ok a" "distinct (map fst ms)"
  shows "owned (protocol_assignment ms a) m t = (if m \<in> fst ` set ms then owned a m t else [])"
  using assms(1) map_of_sort_key [of "topics_of a m"] map_of_protocol_assignment [of ms a m]
  by (simp add: owned_def topics_of_def keys_ok_def)

lemma protocol_assignment_topics:
  "keys_ok b \<Longrightarrow> (m, l) \<in> set (protocol_assignment ms b) \<Longrightarrow> distinct (map fst l)"
  by (auto simp: protocol_assignment_def keys_ok_def distinct_map)

section \<open>Consumers of a topic\<close>

abbreviation consumers :: "(pystr \<times> pystr list) list \<Rightarrow> pystr \<Rightarrow> pystr list" where
  "consumers d t \<equiv> (case map_of d t of None \<Rightarrow> [] | Some cs \<Rightarrow> cs)"

lemma add_member_consumers:
  assumes "distinct ts"
  shows "consumers (fold (\<lambda>t e. AList.update t (consumers e t @ [m]) e) ts d) t =
    (if t \<in> set ts then consumers d t @ [m] else consumers d t)"
  using assms by (induction ts arbitrary: d) (auto simp: update_conv)

lemma add_member_keys:
  "distinct (map fst d) \<Longrightarrow> distinct (map fst (fold (\<lambda>t e. AList.update t (consumers e t @ [m]) e) ts d))"
  by (induction ts arbitrary: d) (simp_all add: distinct_update)

lemma consumers_per_topic_lookup:
  assumes "valid_members ms"
  shows "consumers (consumers_per_topic ms) t = map fst (filter (\<lambda>(m, ts). t \<in> set ts) ms)"
proof -
  have "\<forall>(m, ts) \<in> set xs. distinct ts \<Longrightarrow>
    consumers (fold (\<lambda>(m, ts) d. fold (\<lambda>t e. AList.update t (consumers e t @ [m]) e) ts d) xs d) t =
      consumers d t @ map fst (filter (\<lambda>(m, ts). t \<in> set ts) xs)" for xs d
    by (induction xs arbitrary: d) (auto simp: add_member_consumers)
  then show ?thesis using assms by (simp add: consumers_per_topic_def valid_members_def)
qed

lemma consumers_per_topic_keys: "distinct (map fst (consumers_per_topic ms))"
proof -
  have "distinct (map fst d) \<Longrightarrow>
    distinct (map fst (fold (\<lambda>(m, ts) d. fold (\<lambda>t e. AList.update t (consumers e t @ [m]) e) ts d) ms d))" for d
    by (induction ms arbitrary: d) (auto simp: add_member_keys)
  then show ?thesis by (simp add: consumers_per_topic_def)
qed

lemma consumers_per_topic_entry:
  assumes "valid_members ms" "map_of (consumers_per_topic ms) t = Some cs"
  shows "cs = map fst (filter (\<lambda>(m, ts). t \<in> set ts) ms) \<and> distinct cs"
proof -
  have "cs = map fst (filter (\<lambda>(m, ts). t \<in> set ts) ms)"
    using consumers_per_topic_lookup [OF assms(1), of t] assms(2) by simp
  then show ?thesis using assms(1) by (simp add: valid_members_def distinct_map_filter)
qed

section \<open>Slices of a range\<close>

definition range_start :: "nat \<Rightarrow> nat \<Rightarrow> nat \<Rightarrow> nat" where
  "range_start len n i = len div n * i + min i (len mod n)"

lemma range_start_Suc: "range_start len n (Suc i) = range_start len n i + (len div n + (if i < len mod n then 1 else 0))"
  by (auto simp: range_start_def min_def)

lemma range_slice_eq: "range_slice ps n i = map (nth ps) [range_start (length ps) n i ..< min (length ps) (range_start (length ps) n (Suc i))]"
proof -
  let ?s = "range_start (length ps) n i" and ?e = "range_start (length ps) n (Suc i)"
  have "range_slice ps n i = take (?e - ?s) (drop ?s ps)"
    by (auto simp: range_slice_def range_start_Suc Let_def) (simp_all add: range_start_def)
  also have "\<dots> = map (nth ps) [?s ..< min (length ps) ?e]"
  proof (rule nth_equalityI)
    have "?s \<le> ?e" by (simp add: range_start_Suc)
    then show "length (take (?e - ?s) (drop ?s ps)) = length (map (nth ps) [?s ..< min (length ps) ?e])" by auto
  qed (simp add: nth_upt less_diff_conv add.commute)
  finally show ?thesis .
qed

lemma range_start_ends: "0 < n \<Longrightarrow> range_start len n 0 = 0" "0 < n \<Longrightarrow> range_start len n n = len"
  using mod_less_divisor [of n len] div_mult_mod_eq [of len n] by (simp_all add: range_start_def min_absorb2 order.strict_implies_order)

lemma range_start_mono: "i \<le> j \<Longrightarrow> range_start len n i \<le> range_start len n j"
  by (simp add: range_start_def add_mono min.mono)

lemma range_start_cover: "j < range_start len n k \<Longrightarrow> range_start len n 0 = 0 \<Longrightarrow> \<exists>i < k. range_start len n i \<le> j \<and> j < range_start len n (Suc i)"
proof (induction k)
  case (Suc k)
  show ?case
  proof (cases "j < range_start len n k")
    case True
    then show ?thesis using Suc less_SucI by blast
  next
    case False
    then show ?thesis using Suc.prems(1) by (intro exI [of _ k]) simp
  qed
qed simp

text \<open>Every partition is in the slice of exactly one consumer.\<close>

lemma range_slices:
  assumes "distinct ps" "0 < n" "p \<in> set ps"
  shows "\<exists>!i. i < n \<and> p \<in> set (range_slice ps n i)"
proof -
  obtain j where j: "j < length ps" "ps ! j = p" using assms(3) by (auto simp: in_set_conv_nth)
  have iff: "p \<in> set (range_slice ps n i) \<longleftrightarrow> range_start (length ps) n i \<le> j \<and> j < range_start (length ps) n (Suc i)" for i
    using j assms(1) by (auto simp: range_slice_eq nth_eq_iff_index_eq)
  obtain i where i: "i < n" "range_start (length ps) n i \<le> j" "j < range_start (length ps) n (Suc i)"
    using range_start_cover [of j "length ps" n n] range_start_ends [OF assms(2)] j(1) by auto
  have "k = i" if "range_start (length ps) n k \<le> j" "j < range_start (length ps) n (Suc k)" for k
    using that i range_start_mono [of "Suc k" i "length ps" n] range_start_mono [of "Suc i" k "length ps" n] by (meson leD le_trans not_less_eq_eq nat_neq_iff Suc_leI)
  with i iff show ?thesis by blast
qed

lemma range_slice_subset: "set (range_slice ps n i) \<subseteq> set ps"
  by (auto simp: range_slice_def Let_def dest: in_set_takeD in_set_dropD)

lemma range_slice_distinct: "distinct ps \<Longrightarrow> distinct (range_slice ps n i)"
  by (simp add: range_slice_def Let_def)

text \<open>The shares of two consumers differ by at most one partition.\<close>

lemma range_slice_length:
  assumes "i < n"
  shows "length (range_slice ps n i) = length ps div n + (if i < length ps mod n then 1 else 0)"
proof -
  let ?s = "range_start (length ps) n"
  have "?s (Suc i) \<le> length ps"
    using range_start_mono [of "Suc i" n "length ps" n] range_start_ends(2) [of n "length ps"] assms by simp
  then show ?thesis by (simp add: range_slice_eq range_start_Suc)
qed

section \<open>The range assignor keeps the contract\<close>

definition place_of :: "'a \<Rightarrow> 'a list \<Rightarrow> nat" where
  "place_of m cs = length (takeWhile (\<lambda>x. x \<noteq> m) cs)"

lemma set_slices_owned:
  assumes "distinct cs"
  shows "owned (fold (\<lambda>(i, m). set_owned m t (f i)) (enumerate k cs) a) m' t' =
    (if t' = t \<and> m' \<in> set cs then f (k + place_of m' cs) else owned a m' t')"
  using assms
proof (induction cs arbitrary: k a)
  case (Cons c cs)
  then show ?case by (auto simp: place_of_def owned_set_owned)
qed simp

lemma set_slices_keys: "keys_ok a \<Longrightarrow> keys_ok (fold (\<lambda>(i, m). set_owned m t (f i)) ims a)"
  by (induction ims arbitrary: a) (auto simp: keys_ok_set_owned)

lemma place_of_less: "m \<in> set cs \<Longrightarrow> place_of m cs < length cs \<and> cs ! place_of m cs = m"
  unfolding place_of_def by (induction cs) auto

lemma place_of_nth: "distinct cs \<Longrightarrow> i < length cs \<Longrightarrow> place_of (cs ! i) cs = i"
  using place_of_less [of "cs ! i" cs] by (metis nth_eq_iff_index_eq nth_mem)

text \<open>The share of a member in a topic: the slice at its place_of among the topic's consumers.\<close>

definition range_share :: "cluster \<Rightarrow> members \<Rightarrow> pystr \<Rightarrow> pystr \<Rightarrow> int list" where
  "range_share cl ms m t =
     (let cs = sort (consumers (consumers_per_topic ms) t) in
      case partitions_for_topic cl t of
        None \<Rightarrow> []
      | Some ps \<Rightarrow> if m \<in> set cs then range_slice (sorted_list_of_set ps) (length cs) (place_of m cs) else [])"

lemma range_topic_owned:
  assumes "distinct cs"
  shows "owned (range_topic cl (t, cs) a) m t' =
    (case partitions_for_topic cl t of
       None \<Rightarrow> owned a m t'
     | Some ps \<Rightarrow> if t' = t \<and> m \<in> set cs then range_slice (sorted_list_of_set ps) (length cs) (place_of m (sort cs)) else owned a m t')"
  using set_slices_owned [of "sort cs"] assms
  by (auto simp: range_topic_def Let_def split: option.split)

lemma range_topics_owned:
  assumes "distinct (map fst es)" "\<forall>(t, cs) \<in> set es. distinct cs" "\<And>t. t \<in> fst ` set es \<Longrightarrow> owned a m t = []"
  shows "owned (fold (range_topic cl) es a) m t =
    (case map_of es t of
       None \<Rightarrow> owned a m t
     | Some cs \<Rightarrow> (case partitions_for_topic cl t of
           None \<Rightarrow> []
         | Some ps \<Rightarrow> if m \<in> set cs then range_slice (sorted_list_of_set ps) (length cs) (place_of m (sort cs)) else []))"
  using assms
proof (induction es arbitrary: a)
  case (Cons e es)
  obtain t0 cs0 where e: "e = (t0, cs0)" by (cases e)
  have d: "distinct cs0" using Cons.prems(2) e by simp
  have "owned (range_topic cl e a) m t' = []" if "t' \<in> fst ` set es" for t'
    using that Cons.prems e d by (auto simp: range_topic_owned split: option.split)
  then have IH: "owned (fold (range_topic cl) es (range_topic cl e a)) m t =
    (case map_of es t of
       None \<Rightarrow> owned (range_topic cl e a) m t
     | Some cs \<Rightarrow> (case partitions_for_topic cl t of
           None \<Rightarrow> []
         | Some ps \<Rightarrow> if m \<in> set cs then range_slice (sorted_list_of_set ps) (length cs) (place_of m (sort cs)) else []))"
    using Cons.prems by (intro Cons.IH) auto
  have none: "map_of es t0 = None" using Cons.prems(1) e by (simp add: map_of_eq_None_iff)
  have empty: "owned a m t0 = []" using Cons.prems(3) e by simp
  show ?case
    using IH none empty d by (cases "t = t0") (auto simp: e range_topic_owned split: option.split)
qed simp

lemma range_keys_ok: "keys_ok a \<Longrightarrow> keys_ok (fold (range_topic cl) es a)"
  by (induction es arbitrary: a) (auto simp: range_topic_def Let_def set_slices_keys split: option.splits prod.splits)

lemma consumers_subscribed:
  assumes "valid_members ms"
  shows "m \<in> set (consumers (consumers_per_topic ms) t) \<longleftrightarrow> subscribed ms m t"
  unfolding consumers_per_topic_lookup [OF assms] subscribed_def by force

lemma range_owned:
  assumes "valid_members ms" "range_assign cl ms = Some a"
  shows "owned a m t = range_share cl ms m t"
proof -
  have entries: "\<forall>(t, cs) \<in> set (consumers_per_topic ms). distinct cs"
    using consumers_per_topic_entry [OF assms(1)] consumers_per_topic_keys by (auto dest: map_of_is_SomeI)
  have "m \<in> fst ` set ms" if "m \<in> set (consumers (consumers_per_topic ms) t)"
    using that consumers_subscribed [OF assms(1)] by (force simp: subscribed_def)
  then show ?thesis
    using assms owned_protocol_assignment [OF range_keys_ok [OF keys_ok_Nil]]
      range_topics_owned [OF consumers_per_topic_keys entries owned_Nil]
    by (auto simp: range_assign_def valid_members_def range_share_def Let_def owned_Nil split: option.splits)
qed

lemma finite_partitions: "partitions_for_topic cl t = Some ps \<Longrightarrow> finite ps"
  by (auto simp: partitions_for_topic_def)

interpretation range_assignor: assignor range_assign
proof unfold_locales
  fix ms :: members and cl a m m' t p
  show "\<exists>a. range_assign cl ms = Some a" by (simp add: range_assign_def)
  show "range_assign cl ms = Some a \<Longrightarrow> map fst a = map fst ms"
    by (auto simp: range_assign_def protocol_assignment_keys)
  show "distinct (map fst l)" if "range_assign cl ms = Some a" "(m, l) \<in> set a" for l
    using that protocol_assignment_topics [OF range_keys_ok [OF keys_ok_Nil]] by (auto simp: range_assign_def)
  assume v: "valid_members ms" and a: "range_assign cl ms = Some a"
  note own = range_owned [OF v a]
  define cs where "cs = sort (consumers (consumers_per_topic ms) t)"
  have "distinct (consumers (consumers_per_topic ms) t)"
    by (cases "map_of (consumers_per_topic ms) t") (auto dest: consumers_per_topic_entry [OF v])
  then have cs: "distinct cs" "m \<in> set cs \<longleftrightarrow> subscribed ms m t" for m
    using consumers_subscribed [OF v, of m t] by (simp_all only: cs_def set_sort distinct_sort)
  have share: "owned a m t = (case partitions_for_topic cl t of None \<Rightarrow> []
      | Some ps \<Rightarrow> if m \<in> set cs then range_slice (sorted_list_of_set ps) (length cs) (place_of m cs) else [])" for m
    by (simp only: own range_share_def cs_def Let_def)
  show "distinct (owned a m t)"
    unfolding share by (cases "partitions_for_topic cl t") (simp_all add: range_slice_distinct)
  show "subscribed ms m t \<and> has_partition cl t p" if mine: "p \<in> set (owned a m t)"
  proof -
    obtain ps where ps: "partitions_for_topic cl t = Some ps" "m \<in> set cs"
      "p \<in> set (range_slice (sorted_list_of_set ps) (length cs) (place_of m cs))"
      using mine unfolding share by (cases "partitions_for_topic cl t"; cases "m \<in> set cs") simp_all
    then have "p \<in> ps" using range_slice_subset finite_partitions [OF ps(1)] by fastforce
    then show ?thesis using ps cs(2) by (simp add: has_partition_def)
  qed
  have one: "\<exists>!i. i < length cs \<and> p \<in> set (range_slice (sorted_list_of_set ps) (length cs) i)"
    if "partitions_for_topic cl t = Some ps" "p \<in> ps" "cs \<noteq> []" for ps
    using range_slices [of "sorted_list_of_set ps" "length cs" p] that finite_partitions [OF that(1)] by simp
  show "\<exists>m'. p \<in> set (owned a m' t)" if sub: "subscribed ms m t" and has: "has_partition cl t p"
  proof -
    obtain ps where ps: "partitions_for_topic cl t = Some ps" "p \<in> ps" using has by (auto simp: has_partition_def)
    have "cs \<noteq> []" using sub cs(2) by auto
    then obtain i where "i < length cs" "p \<in> set (range_slice (sorted_list_of_set ps) (length cs) i)"
      using one [OF ps] by blast
    then show ?thesis using ps place_of_nth [OF cs(1)] by (intro exI [of _ "cs ! i"]) (simp add: share)
  qed
  show "m = m'" if mine: "p \<in> set (owned a m t)" and other: "p \<in> set (owned a m' t)"
  proof -
    obtain ps where ps: "partitions_for_topic cl t = Some ps"
      using mine unfolding share by (cases "partitions_for_topic cl t") simp_all
    have mem: "m \<in> set cs" "m' \<in> set cs" "p \<in> set (range_slice (sorted_list_of_set ps) (length cs) (place_of m cs))"
      "p \<in> set (range_slice (sorted_list_of_set ps) (length cs) (place_of m' cs))"
      using mine other unfolding share by (simp_all add: ps split: if_splits)
    then have "p \<in> ps" using range_slice_subset finite_partitions [OF ps] by fastforce
    then have "place_of m cs = place_of m' cs" 
      using one [OF ps] mem place_of_less [OF mem(1)] place_of_less [OF mem(2)] by (cases "cs = []") (simp, blast)
    then show ?thesis using place_of_less mem(1,2) by metis
  qed
qed

section \<open>The round-robin assignor keeps the contract\<close>

lemma next_subscribed_Some:
  "next_subscribed ms ids t n k = Some j \<Longrightarrow> k \<le> j \<and> j < k + n \<and> t \<in> set (subscription ms (ids ! (j mod length ids)))"
  by (induction n arbitrary: k) (auto split: if_splits, force+)

lemma next_subscribed_None:
  "next_subscribed ms ids t n k = None \<Longrightarrow> j < n \<Longrightarrow> t \<notin> set (subscription ms (ids ! ((k + j) mod length ids)))"
proof (induction n arbitrary: k j)
  case (Suc n)
  show ?case
  proof (cases j)
    case 0
    then show ?thesis using Suc.prems(1) by (auto split: if_splits)
  next
    case (Suc i)
    then show ?thesis using Suc.prems Suc.IH [of "k + 1" i] by (auto split: if_splits)
  qed
qed simp

lemma mod_reaches:
  assumes "i < (n :: nat)"
  shows "\<exists>j < n. (k + j) mod n = i"
proof (intro exI conjI)
  let ?j = "(i + (n - k mod n)) mod n"
  show "?j < n" using assms by simp
  have "k + (i + (n - k mod n)) = n * (k div n) + (n + i)"
  proof -
    have "k mod n < n" using assms by simp
    then show ?thesis using mult_div_mod_eq [of n k] by linarith
  qed
  then have "(k + (i + (n - k mod n))) mod n = i" using assms by (simp add: mod_simps)
  then show "(k + ?j) mod n = i" by (simp add: mod_add_right_eq)
qed

lemma next_subscribed_finds:
  assumes "m \<in> set ids" "t \<in> set (subscription ms m)"
  shows "\<exists>j. next_subscribed ms ids t (length ids) k = Some j \<and> t \<in> set (subscription ms (ids ! (j mod length ids)))"
proof -
  obtain i where i: "i < length ids" "ids ! i = m" using assms(1) by (auto simp: in_set_conv_nth)
  obtain j where "j < length ids" "(k + j) mod length ids = i" using mod_reaches [OF i(1)] by blast
  then have "next_subscribed ms ids t (length ids) k \<noteq> None" using next_subscribed_None assms(2) i(2) by metis
  then show ?thesis using next_subscribed_Some by blast
qed

text \<open>Every partition gets one subscribed member, and a member's partitions of a topic keep their order.\<close>

lemma roundrobin_loop_spec:
  assumes "distinct tps" "\<And>tp. tp \<in> set tps \<Longrightarrow> \<exists>m \<in> set ids. fst tp \<in> set (subscription ms m)" "keys_ok a"
  shows "\<exists>b f. roundrobin_loop ms ids tps k a = Some b \<and> keys_ok b \<and>
    (\<forall>tp \<in> set tps. f tp \<in> set ids \<and> fst tp \<in> set (subscription ms (f tp))) \<and>
    (\<forall>m t. owned b m t = owned a m t @ map snd (filter (\<lambda>tp. fst tp = t \<and> f tp = m) tps))"
  using assms
proof (induction tps arbitrary: k a)
  case (Cons tp tps)
  obtain m where m: "m \<in> set ids" "fst tp \<in> set (subscription ms m)" using Cons.prems(2) [of tp] by auto
  obtain j where j: "next_subscribed ms ids (fst tp) (length ids) k = Some j"
    "fst tp \<in> set (subscription ms (ids ! (j mod length ids)))"
    using next_subscribed_finds [OF m] by blast
  define m0 where "m0 = ids ! (j mod length ids)"
  define a1 where "a1 = set_owned m0 (fst tp) (owned a m0 (fst tp) @ [snd tp]) a"
  have m0: "m0 \<in> set ids" unfolding m0_def using m(1) by (intro nth_mem mod_less_divisor length_pos_if_in_set)
  obtain b f where bf: "roundrobin_loop ms ids tps (j + 1) a1 = Some b" "keys_ok b"
    "\<forall>tp \<in> set tps. f tp \<in> set ids \<and> fst tp \<in> set (subscription ms (f tp))"
    "\<forall>m t. owned b m t = owned a1 m t @ map snd (filter (\<lambda>tp. fst tp = t \<and> f tp = m) tps)"
  proof -
    have "\<exists>m \<in> set ids. fst x \<in> set (subscription ms m)" if "x \<in> set tps" for x
      using Cons.prems(2) [of x] that by simp
    then show thesis using Cons.IH [of a1 "j + 1"] Cons.prems(1,3) that by (auto simp: a1_def keys_ok_set_owned)
  qed
  have "filter (\<lambda>x. fst x = t \<and> (f(tp := m0)) x = m) tps = filter (\<lambda>x. fst x = t \<and> f x = m) tps" for t m
    using Cons.prems(1) by (intro filter_cong) auto
  then have "owned b m t = owned a m t @ map snd (filter (\<lambda>x. fst x = t \<and> (f(tp := m0)) x = m) (tp # tps))" for m t
    using bf(4) by (auto simp: a1_def owned_set_owned)
  moreover have "roundrobin_loop ms ids (tp # tps) k a = Some b"
    using j(1) bf(1) by (simp add: Let_def m0_def a1_def)
  moreover have "\<forall>x \<in> set (tp # tps). (f(tp := m0)) x \<in> set ids \<and> fst x \<in> set (subscription ms ((f(tp := m0)) x))"
    using bf(3) m0 j(2) by (auto simp: m0_def)
  ultimately show ?case using bf(2) by (intro exI [of _ b] exI [of _ "f(tp := m0)"]) simp
qed auto

lemma subscription_subscribed: "distinct (map fst ms) \<Longrightarrow> t \<in> set (subscription ms m) \<longleftrightarrow> subscribed ms m t"
  by (auto simp: subscription_def subscribed_def split: option.splits dest: map_of_SomeD map_of_is_SomeI)

lemma set_all_topic_partitions:
  "(t, p) \<in> set (all_topic_partitions cl ms) \<longleftrightarrow> (\<exists>m. subscribed ms m t) \<and> has_partition cl t p"
proof -
  have "t \<in> \<Union> (set ` snd ` set ms) \<longleftrightarrow> (\<exists>m. subscribed ms m t)" by (force simp: subscribed_def)
  moreover have "(t, p) \<in> set (case partitions_for_topic cl t' of None \<Rightarrow> []
       | Some ps \<Rightarrow> map (\<lambda>p. (t', p)) (sorted_list_of_set ps)) \<longleftrightarrow> t' = t \<and> has_partition cl t p" for t'
    using finite_partitions [of cl t'] by (cases "partitions_for_topic cl t'") (auto simp: has_partition_def)
  ultimately show ?thesis by (simp add: all_topic_partitions_def image_image)
qed

lemma distinct_all_topic_partitions: "distinct (all_topic_partitions cl ms)"
proof -
  have "distinct ts \<Longrightarrow> distinct (concat (map (\<lambda>t. case partitions_for_topic cl t of None \<Rightarrow> []
       | Some ps \<Rightarrow> map (\<lambda>p. (t, p)) (sorted_list_of_set ps)) ts))" for ts
    by (induction ts) (auto simp: distinct_map inj_on_def split: option.splits)
  then show ?thesis by (simp add: all_topic_partitions_def)
qed

text \<open>The outcome of the assignment: a choice of one subscribed member per partition.\<close>

lemma roundrobin_outcome:
  assumes "valid_members ms"
  shows "\<exists>a f. roundrobin_assign cl ms = Some a \<and>
    (\<forall>tp \<in> set (all_topic_partitions cl ms). subscribed ms (f tp) (fst tp)) \<and>
    (\<forall>m t. owned a m t = map snd (filter (\<lambda>tp. fst tp = t \<and> f tp = m) (all_topic_partitions cl ms)))"
proof -
  let ?ids = "sort (map fst ms)" and ?tps = "all_topic_partitions cl ms"
  have d: "distinct (map fst ms)" using assms by (simp add: valid_members_def)
  have mem: "m \<in> fst ` set ms" if "subscribed ms m t" for m t using that by (force simp: subscribed_def)
  have "\<exists>m \<in> set ?ids. fst tp \<in> set (subscription ms m)" if "tp \<in> set ?tps" for tp
  proof -
    have "(fst tp, snd tp) \<in> set ?tps" using that by simp
    then obtain m where "subscribed ms m (fst tp)" unfolding set_all_topic_partitions by blast
    then show ?thesis using subscription_subscribed [OF d] mem by (intro bexI [of _ m]) simp_all
  qed
  from roundrobin_loop_spec [OF distinct_all_topic_partitions this keys_ok_Nil]
  obtain b f where b: "roundrobin_loop ms ?ids ?tps 0 [] = Some b" "keys_ok b"
    "\<forall>tp \<in> set ?tps. f tp \<in> set ?ids \<and> fst tp \<in> set (subscription ms (f tp))"
    "\<forall>m t. owned b m t = owned [] m t @ map snd (filter (\<lambda>tp. fst tp = t \<and> f tp = m) ?tps)"
    by blast
  have "filter (\<lambda>tp. fst tp = t \<and> f tp = m) ?tps = []" if "m \<notin> fst ` set ms" for m t
    using that b(3) by (auto simp: filter_empty_conv)
  then have "owned (protocol_assignment ms b) m t = map snd (filter (\<lambda>tp. fst tp = t \<and> f tp = m) ?tps)" for m t
    using owned_protocol_assignment [OF b(2) d] b(4) by (simp add: owned_Nil)
  then show ?thesis
    using b(1,3) subscription_subscribed [OF d]
    by (intro exI [of _ "protocol_assignment ms b"] exI [of _ f]) (simp add: roundrobin_assign_def)
qed

lemma roundrobin_keys_ok: "roundrobin_loop ms ids tps k a = Some b \<Longrightarrow> keys_ok a \<Longrightarrow> keys_ok b"
  by (induction tps arbitrary: k a) (auto simp: Let_def keys_ok_set_owned split: option.splits)

interpretation roundrobin_assignor: assignor roundrobin_assign
proof unfold_locales
  fix ms :: members and cl a m m' t p
  show "valid_members ms \<Longrightarrow> \<exists>a. roundrobin_assign cl ms = Some a" using roundrobin_outcome by blast
  show "roundrobin_assign cl ms = Some a \<Longrightarrow> map fst a = map fst ms"
    by (auto simp: roundrobin_assign_def protocol_assignment_keys)
  show "distinct (map fst l)" if "roundrobin_assign cl ms = Some a" "(m, l) \<in> set a" for l
    using that protocol_assignment_topics [OF roundrobin_keys_ok [OF _ keys_ok_Nil]] by (auto simp: roundrobin_assign_def)
  assume v: "valid_members ms" and a: "roundrobin_assign cl ms = Some a"
  obtain f where f: "\<forall>tp \<in> set (all_topic_partitions cl ms). subscribed ms (f tp) (fst tp)"
    "\<forall>m t. owned a m t = map snd (filter (\<lambda>tp. fst tp = t \<and> f tp = m) (all_topic_partitions cl ms))"
    using roundrobin_outcome [OF v, of cl] a by auto
  have own: "p \<in> set (owned a m t) \<longleftrightarrow> (t, p) \<in> set (all_topic_partitions cl ms) \<and> f (t, p) = m" for p m t
    by (force simp: f(2))
  show "subscribed ms m t \<and> has_partition cl t p" if "p \<in> set (owned a m t)"
  proof -
    have tp: "(t, p) \<in> set (all_topic_partitions cl ms)" "f (t, p) = m" using that own by auto
    then show ?thesis using f(1) set_all_topic_partitions [of t p] by (metis fst_conv)
  qed
  show "\<exists>m'. p \<in> set (owned a m' t)" if "subscribed ms m t" "has_partition cl t p"
    using that own set_all_topic_partitions [of t p] by blast
  show "m = m'" if "p \<in> set (owned a m t)" "p \<in> set (owned a m' t)" using that own [of p m t] own [of p m' t] by simp
  show "distinct (owned a m t)"
    using distinct_all_topic_partitions [of cl ms] by (auto simp: f(2) distinct_map inj_on_def prod_eq_iff)
qed

section \<open>Assignments on the wire\<close>

definition ConsumerProtocolMemberMetadata :: wire_type where
  "ConsumerProtocolMemberMetadata =
     Schema_of [(''version'', Int16), (''subscription'', Array String), (''user_data'', Bytes)]"

definition ConsumerProtocolMemberAssignment :: wire_type where
  "ConsumerProtocolMemberAssignment =
     Schema_of [(''version'', Int16),
       (''assignment'', Array (Schema_of [(''topic'', String), (''partitions'', Array Int32)])), (''user_data'', Bytes)]"

definition assignor_metadata :: "int \<Rightarrow> pystr list \<Rightarrow> struct_obj res" where
  "assignor_metadata version ts =
     Struct_init ConsumerProtocolMemberMetadata [VInt version, VList (map VStr ts), VBytes []] []"

definition assignment_values :: "int \<Rightarrow> member_assignment \<Rightarrow> pyval list" where
  "assignment_values version l =
     [VInt version, VList (map (\<lambda>(t, ps). VTuple [VStr t, VList (map VInt ps)]) l), VBytes []]"

definition member_assignment_struct :: "int \<Rightarrow> member_assignment \<Rightarrow> struct_obj res" where
  "member_assignment_struct version l = Struct_init ConsumerProtocolMemberAssignment (assignment_values version l) []"

text \<open>The method \<open>partitions\<close> of an assignment.\<close>

fun topic_entry :: "pyval \<Rightarrow> topic_partition list res" where
  "topic_entry (VTuple [VStr t, VList ps]) =
     res_list (map (\<lambda>p. case p of VInt i \<Rightarrow> Inr (t, i) | _ \<Rightarrow> Inl TypeError) ps)"
| "topic_entry _ = Inl TypeError"

definition assignment_partitions :: "struct_obj \<Rightarrow> topic_partition list res" where
  "assignment_partitions obj =
     (case map_of (so_dict obj) ''assignment'' of
        Some (VList entries) \<Rightarrow> res_map concat (res_list (map topic_entry entries))
      | _ \<Rightarrow> Inl TypeError)"

lemma topic_entry_value: "topic_entry (VTuple [VStr t, VList (map VInt ps)]) = Inr (map (Pair t) ps)"
  using res_list_map_Inr [of ps "\<lambda>i. Inr (t, i)" "Pair t"] by (simp add: o_def)

lemma assignment_partitions_values:
  assumes "member_assignment_struct version l = Inr obj"
  shows "assignment_partitions obj = Inr (concat (map (\<lambda>(t, ps). map (Pair t) ps) l))"
proof -
  have "map_of (so_dict obj) ''assignment'' = Some (VList (map (\<lambda>(t, ps). VTuple [VStr t, VList (map VInt ps)]) l))"
    using assms by (auto simp: member_assignment_struct_def assignment_values_def Struct_init_def
        ConsumerProtocolMemberAssignment_def Schema_of_def)
  moreover have "res_list (map (\<lambda>(t, ps). topic_entry (VTuple [VStr t, VList (map VInt ps)])) l) = Inr (map (\<lambda>(t, ps). map (Pair t) ps) l)"
    by (rule res_list_map_Inr) (auto simp: topic_entry_value simp del: topic_entry.simps)
  ultimately show ?thesis
    by (simp add: assignment_partitions_def o_def split_def del: topic_entry.simps)
qed

section \<open>Balance\<close>

text \<open>The number of partitions a member owns.\<close>

definition load :: "group_assignment \<Rightarrow> pystr \<Rightarrow> nat" where
  "load a m = sum_list (map (length \<circ> snd) (topics_of a m))"

lemma sum_list_update:
  "distinct (map fst d) \<Longrightarrow> sum_list (map (length \<circ> snd) (AList.update t (xs @ [x]) d)) = Suc (sum_list (map (length \<circ> snd) d))"
  if "xs = (case map_of d t of None \<Rightarrow> [] | Some ps \<Rightarrow> ps)"
  using that by (induction d) (auto simp: map_of_eq_None_iff split: option.splits)

lemma load_append:
  assumes "keys_ok a"
  shows "load (set_owned m t (owned a m t @ [p]) a) m' = (if m' = m then Suc (load a m) else load a m')"
  using assms sum_list_update [of "owned a m t" "topics_of a m" t p]
  by (simp add: load_def topics_of_set_owned keys_ok_def owned_def)

lemma sum_list_sort_key: "sum_list (map f (sort_key g xs)) = (sum_list (map f xs) :: nat)"
proof (induction xs)
  case (Cons x xs)
  have "sum_list (map f (insort_key g x ys)) = f x + sum_list (map f ys)" for ys by (induction ys) auto
  then show ?case using Cons by simp
qed simp

lemma next_subscribed_all:
  "0 < n \<Longrightarrow> t \<in> set (subscription ms (ids ! (k mod length ids))) \<Longrightarrow> next_subscribed ms ids t n k = Some k"
  by (cases n) auto

text \<open>When every member subscribes to every topic the members take turns.\<close>

lemma roundrobin_loop_turns:
  assumes "ids \<noteq> []" "\<And>tp m. tp \<in> set tps \<Longrightarrow> m \<in> set ids \<Longrightarrow> fst tp \<in> set (subscription ms m)" "keys_ok a"
  shows "\<exists>b. roundrobin_loop ms ids tps k a = Some b \<and> keys_ok b \<and>
    (\<forall>m. load b m = load a m + length (filter (\<lambda>i. ids ! (i mod length ids) = m) [k ..< k + length tps]))"
  using assms(2,3)
proof (induction tps arbitrary: k a)
  case (Cons tp tps)
  let ?m = "ids ! (k mod length ids)"
  have m: "?m \<in> set ids" using assms(1) by simp
  have sub: "next_subscribed ms ids (fst tp) (length ids) k = Some k"
    using next_subscribed_all [of "length ids"] assms(1) Cons.prems(1) [of tp ?m] m by simp
  define a1 where "a1 = set_owned ?m (fst tp) (owned a ?m (fst tp) @ [snd tp]) a"
  have ok: "keys_ok a1" using Cons.prems(2) by (simp add: a1_def keys_ok_set_owned)
  obtain b where b: "roundrobin_loop ms ids tps (k + 1) a1 = Some b" "keys_ok b"
    "\<forall>m. load b m = load a1 m + length (filter (\<lambda>i. ids ! (i mod length ids) = m) [k + 1 ..< k + 1 + length tps])"
    using Cons.IH [of a1 "k + 1"] Cons.prems(1) ok by (metis list.set_intros(2))
  have "load b m = load a m + length (filter (\<lambda>i. ids ! (i mod length ids) = m) [k ..< k + length (tp # tps)])" for m
    using b(3) load_append [OF Cons.prems(2), of ?m "fst tp" "snd tp" m] by (simp add: a1_def upt_rec [of k] del: upt_Suc)
  then show ?case using b(1,2) sub by (intro exI [of _ b]) (simp add: Let_def a1_def)
qed simp

lemma count_residues:
  assumes "c < (n :: nat)"
  shows "length (filter (\<lambda>i. i mod n = c) [0 ..< len]) = len div n + (if c < len mod n then 1 else 0)"
proof (induction len)
  case (Suc len)
  have "Suc len div n = (if Suc (len mod n) = n then Suc (len div n) else len div n)" by (simp add: div_Suc mod_Suc)
  moreover have "Suc len mod n = (if Suc (len mod n) = n then 0 else Suc (len mod n))" by (rule mod_Suc)
  ultimately show ?case using Suc assms mod_less_divisor [of n len] by (auto split: if_splits)
qed simp

section \<open>Properties\<close>

text \<open>C24. Both assignors always return, and every partition of a topic some member subscribes to is
  assigned to exactly one member, one that subscribes to it.\<close>

theorem assignment_one_owner:
  assumes "valid_members ms" "subscribed ms m t" "has_partition cl t p" "assign \<in> {range_assign, roundrobin_assign}"
  shows "\<exists>a. assign cl ms = Some a \<and> map fst a = map fst ms \<and> (\<exists>!m'. p \<in> set (owned a m' t)) \<and>
    (\<forall>m'. p \<in> set (owned a m' t) \<longrightarrow> subscribed ms m' t)"
proof -
  have "assign = range_assign \<or> assign = roundrobin_assign" using assms(4) by simp
  then show ?thesis
  proof
    assume asg: "assign = range_assign"
    obtain a where a: "range_assign cl ms = Some a" using range_assignor.total [OF assms(1)] by blast
    show ?thesis
      using a asg range_assignor.keys [OF a] range_assignor.one_owner [OF assms(1) a assms(2,3)] range_assignor.sound [OF assms(1) a]
      by blast
  next
    assume asg: "assign = roundrobin_assign"
    obtain a where a: "roundrobin_assign cl ms = Some a" using roundrobin_assignor.total [OF assms(1)] by blast
    show ?thesis
      using a asg roundrobin_assignor.keys [OF a] roundrobin_assignor.one_owner [OF assms(1) a assms(2,3)]
        roundrobin_assignor.sound [OF assms(1) a]
      by blast
  qed
qed

text \<open>The range assignor is balanced topic by topic: the shares of two members that subscribe to a
  topic differ by at most one partition.\<close>

theorem range_balanced:
  assumes "valid_members ms" "range_assign cl ms = Some a" "subscribed ms m t" "subscribed ms m' t"
  shows "length (owned a m t) \<le> length (owned a m' t) + 1"
proof -
  let ?cs = "sort (consumers (consumers_per_topic ms) t)"
  have mem: "m \<in> set ?cs" "m' \<in> set ?cs" using consumers_subscribed [OF assms(1)] assms(3,4) by simp_all
  show ?thesis
    unfolding range_owned [OF assms(1,2)] range_share_def Let_def
    using range_slice_length [OF place_of_less [OF mem(1), THEN conjunct1]] range_slice_length [OF place_of_less [OF mem(2), THEN conjunct1]] mem
    by (cases "partitions_for_topic cl t") simp_all
qed

text \<open>C25. As its documentation says: when all members have the same subscriptions, the round-robin
  assignor gives any two members numbers of partitions that differ by at most one.\<close>

theorem roundrobin_balanced:
  assumes "valid_members ms" "\<forall>(m, ts) \<in> set ms. set ts = T" "roundrobin_assign cl ms = Some a"
    "m \<in> fst ` set ms" "m' \<in> fst ` set ms"
  shows "load a m \<le> load a m' + 1"
proof -
  let ?ids = "sort (map fst ms)" and ?tps = "all_topic_partitions cl ms"
  have d: "distinct (map fst ms)" using assms(1) by (simp add: valid_members_def)
  have T: "set (subscription ms m) = T" if "m \<in> fst ` set ms" for m
    using that assms(2) map_of_is_SomeI [OF d] by (force simp: subscription_def)
  have "fst tp \<in> set (subscription ms m)" if "tp \<in> set ?tps" "m \<in> set ?ids" for tp m
  proof -
    have "(fst tp, snd tp) \<in> set ?tps" using that(1) by simp
    then obtain m0 where "subscribed ms m0 (fst tp)" unfolding set_all_topic_partitions by blast
    then have "fst tp \<in> T" using assms(2) by (auto simp: subscribed_def)
    then show ?thesis using T that(2) by simp
  qed
  moreover have "?ids \<noteq> []" using assms(4) by (cases ms) auto
  ultimately obtain b where b: "roundrobin_loop ms ?ids ?tps 0 [] = Some b" "keys_ok b"
    "\<forall>m. load b m = load [] m + length (filter (\<lambda>i. ?ids ! (i mod length ?ids) = m) [0 ..< length ?tps])"
    using roundrobin_loop_turns [of ?ids ?tps ms "[]" 0] keys_ok_Nil by auto
  have a: "a = protocol_assignment ms b" using assms(3) b(1) by (simp add: roundrobin_assign_def)
  have load: "load a x = length ?tps div length ?ids + (if place_of x ?ids < length ?tps mod length ?ids then 1 else 0)"
    if x: "x \<in> fst ` set ms" for x
  proof -
    have "map_of a x = Some (sort_key fst (topics_of b x))"
      using x by (simp add: a map_of_protocol_assignment)
    then have "load a x = sum_list (map (length \<circ> snd) (sort_key fst (topics_of b x)))" by (simp add: load_def topics_of_def)
    also have "\<dots> = load b x" by (simp add: load_def sum_list_sort_key)
    also have "\<dots> = length (filter (\<lambda>i. ?ids ! (i mod length ?ids) = x) [0 ..< length ?tps])"
      using b(3) by (simp add: load_def topics_of_def)
    also have "(\<lambda>i. ?ids ! (i mod length ?ids) = x) = (\<lambda>i. i mod length ?ids = place_of x ?ids)"
    proof (intro ext iffI)
      fix i
      have i: "i mod length ?ids < length ?ids" using x by (cases ms) auto
      have di: "distinct ?ids" using d by simp
      have px: "?ids ! place_of x ?ids = x" using place_of_less [of x ?ids] x by simp
      show "i mod length ?ids = place_of x ?ids" if "?ids ! (i mod length ?ids) = x"
        using place_of_nth [OF di i] that by simp
      show "?ids ! (i mod length ?ids) = x" if "i mod length ?ids = place_of x ?ids" unfolding that by (rule px)
    qed
    finally show ?thesis using count_residues place_of_less [of x ?ids] x by simp
  qed
  show ?thesis using load [OF assms(4)] load [OF assms(5)] by simp
qed

text \<open>What the leader assigns is what a member learns: the struct built for a member's assignment is
  encoded, and the bytes decode to a struct whose \<open>partitions\<close> are the assigned ones, topic by topic.\<close>

lemma assignment_enc_dec:
  assumes "fits ConsumerProtocolMemberAssignment (VTuple (assignment_values version l))"
  shows "\<exists>obj bs. member_assignment_struct version l = Inr obj \<and> Struct_encode_self obj = Inr bs \<and>
    (\<forall>rest. Struct_decode ConsumerProtocolMemberAssignment (bs @ rest) = Inr (obj, rest)) \<and>
    assignment_partitions obj = Inr (concat (map (\<lambda>(t, ps). map (Pair t) ps) l))"
proof -
  obtain obj where obj: "member_assignment_struct version l = Inr obj"
    by (simp add: member_assignment_struct_def Struct_init_def ConsumerProtocolMemberAssignment_def Schema_of_def assignment_values_def)
  have "\<exists>bs. Struct_encode_self obj = Inr bs \<and> (\<forall>rest. Struct_decode ConsumerProtocolMemberAssignment (bs @ rest) = Inr (obj, rest))"
    using struct_enc_dec [OF _ _ assms [unfolded ConsumerProtocolMemberAssignment_def Schema_of_def]]
      obj [unfolded member_assignment_struct_def ConsumerProtocolMemberAssignment_def Schema_of_def]
    by (simp add: ConsumerProtocolMemberAssignment_def Schema_of_def)
  then show ?thesis using obj assignment_partitions_values [OF obj] by blast
qed

text \<open>Two members and one topic with three partitions.\<close>

definition example_members :: members where
  "example_members = [([98], [[116]]), ([97], [[116]])]"

definition example_group_cluster :: cluster where
  "example_group_cluster = (ClusterMetadata 100 300000 [])\<lparr>partitions :=
     [([116], map (\<lambda>p. (p, \<lparr>pm_topic = [116], pm_partition = p, pm_leader = 1, pm_leader_epoch = 0,
        pm_replicas = VList [], pm_isr = VList [], pm_offline_replicas = VList [], pm_error = 0\<rparr>)) [0, 1, 2])]\<rparr>"

lemma example_members_valid:
    "valid_members example_members" "subscribed example_members [97] [116]" "subscribed example_members [98] [116]"
    "has_partition example_group_cluster [116] 2"
  by (simp_all add: valid_members_def subscribed_def has_partition_def partitions_for_topic_def example_members_def example_group_cluster_def)

theorem assignment_one_owner_witness:
  "\<exists>a. roundrobin_assign example_group_cluster example_members = Some a \<and> (\<exists>!m'. 2 \<in> set (owned a m' [116]))"
  using assignment_one_owner [OF example_members_valid(1,2,4), of roundrobin_assign] by auto

theorem range_balanced_witness:
  "\<exists>a. range_assign example_group_cluster example_members = Some a \<and>
    length (owned a [97] [116]) \<le> length (owned a [98] [116]) + 1"
proof -
  obtain a where a: "range_assign example_group_cluster example_members = Some a" by (simp add: range_assign_def)
  from range_balanced [OF example_members_valid(1) this example_members_valid(2,3)] a show ?thesis by blast
qed

theorem roundrobin_balanced_witness:
  "\<exists>a. roundrobin_assign example_group_cluster example_members = Some a \<and> load a [97] \<le> load a [98] + 1"
proof -
  obtain a where a: "roundrobin_assign example_group_cluster example_members = Some a"
    using roundrobin_assignor.total [OF example_members_valid(1)] by blast
  have "\<forall>(m, ts) \<in> set example_members. set ts = {[116]}" "[97] \<in> fst ` set example_members" "[98] \<in> fst ` set example_members"
    by (simp_all add: example_members_def)
  from roundrobin_balanced [OF example_members_valid(1) this(1) a this(2,3)] a show ?thesis by blast
qed

end
