(* ===== verification/Client_Interface.thy ===== *)
theory Client_Interface
  imports Parser
begin

text \<open>
  What the consumer's components share of the network client they send requests with: a request is built
  positionally from the class its version table gives, and may be refused at once.
\<close>

text \<open>Why the client may refuse a request at once (\<open>KafkaClient.send\<close>, \<open>BrokerConnection.send\<close>).\<close>

datatype refusal = RefusedNotReady | RefusedNotConnected | RefusedThrottled | RefusedTooManyInFlight

primrec refusal_error :: "refusal \<Rightarrow> exn_class" where
  "refusal_error RefusedNotReady = NodeNotReadyError"
| "refusal_error RefusedNotConnected = KafkaConnectionError"
| "refusal_error RefusedThrottled = ThrottlingQuotaExceededError"
| "refusal_error RefusedTooManyInFlight = TooManyInFlightRequests"

definition positional_request :: "request_class list \<Rightarrow> nat \<Rightarrow> pyval list \<Rightarrow> request res" where
  "positional_request table version args =
     (if version < length table
      then res_map (\<lambda>obj. \<lparr>rq_class = table ! version, rq_obj = obj\<rparr>) (Struct_init (SCHEMA (table ! version)) args [])
      else Inl IndexError)"

end
