(* ===== verification/Timer.thy ===== *)
theory Timer
  imports Errors Struct_Pack
begin

text \<open>
  The class \<open>Timer\<close> of \<^verbatim>\<open>kafka/util.py\<close> and \<^verbatim>\<open>kafka/coordinator/heartbeat.py\<close>: deadlines of blocking
  calls, and when a member of a group owes its coordinator a heartbeat.  The code counts in floating point
  seconds; here a time is a whole number of milliseconds, a missing limit None, and a clock reading an argument.
\<close>

section \<open>Timer\<close>

record timer =
  tr_start_at :: int
  tr_expire_at :: "int option"
  tr_timeout_ms :: "int option"

definition new_timer :: "int \<Rightarrow> int option \<Rightarrow> timer" where
  "new_timer now limit =
     \<lparr>tr_start_at = now, tr_expire_at = map_option (\<lambda>t. now + t) limit, tr_timeout_ms = limit\<rparr>"

definition timer_expired :: "int \<Rightarrow> timer \<Rightarrow> bool" where
  "timer_expired now t = (case tr_expire_at t of None \<Rightarrow> False | Some e \<Rightarrow> e \<le> now)"

definition timer_timeout_ms :: "int \<Rightarrow> timer \<Rightarrow> int option" where
  "timer_timeout_ms now t =
     (case tr_timeout_ms t of
        None \<Rightarrow> None
      | Some _ \<Rightarrow> map_option (\<lambda>e. let remaining = e - now in if remaining < 0 then 0 else remaining) (tr_expire_at t))"

definition timer_elapsed_ms :: "int \<Rightarrow> timer \<Rightarrow> int" where
  "timer_elapsed_ms now t = now - tr_start_at t"

definition timer_maybe_raise :: "int \<Rightarrow> timer \<Rightarrow> unit res" where
  "timer_maybe_raise now t = (if timer_expired now t then Inl KafkaTimeoutError else Inr ())"

lemmas timer_defs = new_timer_def timer_expired_def timer_timeout_ms_def timer_elapsed_ms_def timer_maybe_raise_def

text \<open>A nested call that is given the time left expires when the caller's own timer does.\<close>

lemma timer_nested:
  assumes "start \<le> now" "now \<le> later" "t = new_timer start (Some limit)"
    and "\<not> timer_expired now t"
  shows "timer_expired later (new_timer now (timer_timeout_ms now t)) \<longleftrightarrow> timer_expired later t"
  using assms by (auto simp: timer_defs Let_def)

lemma timer_expired_iff: "timer_expired now (new_timer start (Some limit)) \<longleftrightarrow> timer_timeout_ms now (new_timer start (Some limit)) = Some 0"
  by (auto simp: timer_defs Let_def)

lemma timer_no_limit [simp]:
  "timer_expired now (new_timer start None) = False" "timer_timeout_ms now (new_timer start None) = None"
  by (simp_all add: timer_defs)

section \<open>Heartbeat\<close>

text \<open>The configuration, the times of the last events (None before the first) and whether the last
  heartbeat failed.\<close>

record heartbeat =
  hb_group_id :: "pystr option"
  hb_interval_ms :: int
  hb_session_timeout_ms :: int
  hb_max_poll_interval_ms :: int
  hb_retry_backoff_ms :: int
  hb_last_send :: "int option"
  hb_last_receive :: "int option"
  hb_last_poll :: "int option"
  hb_last_reset :: int
  hb_failed :: "bool option"

definition Heartbeat :: "int \<Rightarrow> pystr option \<Rightarrow> int \<Rightarrow> int \<Rightarrow> int \<Rightarrow> int \<Rightarrow> heartbeat res" where
  "Heartbeat now grp interval session max_poll backoff =
     (if grp \<noteq> None \<and> interval \<ge> session then Inl KafkaConfigurationError
      else Inr \<lparr>hb_group_id = grp, hb_interval_ms = interval, hb_session_timeout_ms = session,
        hb_max_poll_interval_ms = max_poll, hb_retry_backoff_ms = backoff, hb_last_send = None,
        hb_last_receive = None, hb_last_poll = None, hb_last_reset = now, hb_failed = None\<rparr>)"

definition hb_poll :: "int \<Rightarrow> heartbeat \<Rightarrow> heartbeat" where
  "hb_poll now h = h\<lparr>hb_last_poll := Some now\<rparr>"

definition sent_heartbeat :: "int \<Rightarrow> heartbeat \<Rightarrow> heartbeat" where
  "sent_heartbeat now h = h\<lparr>hb_last_send := Some now, hb_failed := Some False\<rparr>"

definition fail_heartbeat :: "heartbeat \<Rightarrow> heartbeat" where
  "fail_heartbeat h = h\<lparr>hb_failed := Some True\<rparr>"

definition received_heartbeat :: "int \<Rightarrow> heartbeat \<Rightarrow> heartbeat" where
  "received_heartbeat now h = h\<lparr>hb_last_receive := Some now\<rparr>"

text \<open>\<open>max\<close> of a time that may be minus infinity and another time.\<close>

definition latest :: "int option \<Rightarrow> int \<Rightarrow> int" where
  "latest a b = (case a of None \<Rightarrow> b | Some x \<Rightarrow> max x b)"

definition time_to_next_heartbeat :: "int \<Rightarrow> heartbeat \<Rightarrow> int" where
  "time_to_next_heartbeat now h =
     (let time_since_last = now - latest (hb_last_send h) (hb_last_reset h);
          delay = (if hb_failed h = Some True then hb_retry_backoff_ms h else hb_interval_ms h)
      in max 0 (delay - time_since_last))"

definition should_heartbeat :: "int \<Rightarrow> heartbeat \<Rightarrow> bool" where
  "should_heartbeat now h \<longleftrightarrow> time_to_next_heartbeat now h = 0"

definition session_timeout_expired :: "int \<Rightarrow> heartbeat \<Rightarrow> bool" where
  "session_timeout_expired now h \<longleftrightarrow> now - latest (hb_last_receive h) (hb_last_reset h) > hb_session_timeout_ms h"

definition reset_timeouts :: "int \<Rightarrow> heartbeat \<Rightarrow> heartbeat" where
  "reset_timeouts now h = h\<lparr>hb_last_reset := now, hb_last_poll := Some now, hb_failed := Some False\<rparr>"

definition poll_timeout_expired :: "int \<Rightarrow> heartbeat \<Rightarrow> bool" where
  "poll_timeout_expired now h =
     (case hb_last_poll h of None \<Rightarrow> True | Some t \<Rightarrow> now - t > hb_max_poll_interval_ms h)"

lemmas heartbeat_defs = hb_poll_def sent_heartbeat_def fail_heartbeat_def received_heartbeat_def latest_def
  time_to_next_heartbeat_def should_heartbeat_def session_timeout_expired_def reset_timeouts_def
  poll_timeout_expired_def Let_def

text \<open>The configuration check makes heartbeats due before the session can expire: a member whose last heartbeat
  was answered when it was sent owes the next one strictly before its session times out.\<close>

lemma heartbeat_before_expiry:
  assumes "Heartbeat start grp interval session max_poll backoff = Inr h0" "grp \<noteq> None"
    and "h = received_heartbeat t (sent_heartbeat t h0)" "start \<le> t"
    and "session_timeout_expired now h"
  shows "should_heartbeat (now - 1) h"
  using assms by (auto simp: Heartbeat_def heartbeat_defs split: if_splits)

text \<open>After a heartbeat is sent the next is due exactly when the interval has passed, or the backoff if it failed.\<close>

lemma heartbeat_due:
  assumes "hb_last_reset h \<le> t"
  shows "should_heartbeat now (sent_heartbeat t h) \<longleftrightarrow> t + hb_interval_ms h \<le> now"
    and "should_heartbeat now (fail_heartbeat (sent_heartbeat t h)) \<longleftrightarrow> t + hb_retry_backoff_ms h \<le> now"
  using assms by (auto simp: heartbeat_defs)

end
