(* ===== verification/Coordinator_State.thy ===== *)
theory Coordinator_State
  imports Subscription Assignors Futures Client_Interface Timer
begin

text \<open>
  The state of the consumer's group coordinator, the object of the classes \<open>BaseCoordinator\<close>
  (\<^verbatim>\<open>kafka/coordinator/base.py\<close>) and \<open>ConsumerCoordinator\<close> (\<^verbatim>\<open>kafka/coordinator/consumer.py\<close>), and the operations
  that neither send nor wait.  The network client is the parameter \<open>world\<close>: every question the code asks it,
  and every reading of the clock, is answered by the view at the current tick and advances the tick, so no
  two answers need agree.  Futures live in a store; their callbacks are values of \<open>cc_callback\<close>.
\<close>

section \<open>Data\<close>

datatype member_state = UNJOINED | REBALANCING | STABLE

definition DEFAULT_GENERATION_ID :: int where "DEFAULT_GENERATION_ID = - 1"
definition UNKNOWN_MEMBER_ID :: pystr where "UNKNOWN_MEMBER_ID = []"

record generation =
  gn_generation_id :: int
  gn_member_id :: pystr
  gn_protocol :: "pystr option"

definition gn_is_valid :: "generation \<Rightarrow> bool" where
  "gn_is_valid g \<longleftrightarrow> gn_generation_id g \<noteq> DEFAULT_GENERATION_ID"

definition NO_GENERATION :: generation where
  "NO_GENERATION = \<lparr>gn_generation_id = DEFAULT_GENERATION_ID, gn_member_id = UNKNOWN_MEMBER_ID, gn_protocol = None\<rparr>"

definition UnjoinedGroupException :: exn_class where
  "UnjoinedGroupException = (py_subclass ''UnjoinedGroupException'' KafkaError)\<lparr>cls_retriable := True\<rparr>"

type_synonym committed = "(topic_partition \<times> offset_and_metadata) list"

text \<open>An assignor class: its name, its version, its metadata for a subscription and its assignment.\<close>

record assignor_class =
  as_name :: pystr
  as_version :: int
  as_metadata :: "pystr list \<Rightarrow> struct_obj res"
  as_assign :: "cluster \<Rightarrow> members \<Rightarrow> group_assignment res"

text \<open>Who is told of a completed commit: the default callback (None when it only logs), the callback of
  an automatic commit, or one of the user.\<close>

datatype commit_callback = DefaultCallback | AutoCommitCallback | UserCallback nat

datatype fut_value = FNone | FBytes bytes | FNode node_id | FOffsets committed

datatype outcome = Success fut_value | Failure exn_class

datatype cc_callback =
    HandleJoinSuccess
  | HandleJoinFailure
  | ResetFindCoordinatorFuture
  | HandleHeartbeatSuccess
  | HandleHeartbeatFailure
  | ChainTo nat
  | CommitCompleted commit_callback committed
  | CommitAfterLookup committed "commit_callback option"

text \<open>A request in flight: who handles its response, and the future that handler completes.\<close>

datatype pending_kind =
    PendingFindCoordinator nat
  | PendingJoin nat
  | PendingSync nat
  | PendingHeartbeat nat
  | PendingLeave
  | PendingCommit committed nat
  | PendingOffsetFetch nat

record pending_request =
  pq_id :: nat
  pq_node :: node_id
  pq_request :: request
  pq_kind :: pending_kind

record join_response =
  jr_error_code :: int
  jr_generation_id :: int
  jr_group_protocol :: pystr
  jr_leader_id :: pystr
  jr_member_id :: pystr
  jr_members :: "(pystr \<times> bytes) list"

text \<open>The partitions of an offset fetch response: partition, offset, metadata, error code.\<close>

record offset_fetch_response =
  of_API_VERSION :: int
  of_error_code :: int
  of_topics :: "(pystr \<times> (int \<times> int \<times> pystr \<times> int) list) list"

datatype reply =
    FindCoordinatorReply coordinator_response
  | JoinReply join_response
  | SyncReply int bytes
  | HeartbeatReply int
  | LeaveReply int
  | CommitReply "(pystr \<times> (int \<times> int) list) list"
  | OffsetFetchReply offset_fetch_response
  | RequestFailed exn_class

datatype delivery = Deliver nat reply | MetadataUpdate metadata_response | MetadataFailed exn_class

record view =
  vw_now :: int
  vw_is_disconnected :: "node_id \<Rightarrow> bool"
  vw_connection_delay :: "node_id \<Rightarrow> int"
  vw_connected :: "node_id \<Rightarrow> bool"
  vw_ready :: "node_id \<Rightarrow> bool"
  vw_least_loaded_node :: "node_id option"
  vw_in_flight_request_count :: "node_id \<Rightarrow> nat"
  vw_api_version :: "string \<Rightarrow> nat \<Rightarrow> nat res"
  vw_send :: "node_id \<Rightarrow> refusal option"
  vw_deliveries :: "pending_request list \<Rightarrow> delivery list"
  vw_thread_runs :: bool
  vw_shuffle :: "pystr list \<Rightarrow> pystr list"
  vw_pattern_match :: "pystr \<Rightarrow> pystr \<Rightarrow> bool"

type_synonym world = "nat \<Rightarrow> view"

record heartbeat_thread =
  ht_enabled :: bool
  ht_closed :: bool
  ht_failed :: "exn_class option"

text \<open>What the coordinator tells the client and the user's callbacks.\<close>

datatype cc_action =
    ActConnect node_id
  | ActSend node_id request
  | ActSetTopics "pystr list"
  | ActRevoked "topic_partition list"
  | ActAssigned "topic_partition list"
  | ActCommitCallback nat committed outcome

type_synonym snapshot = "(pystr \<times> int list) list"

record coord =
  cc_group_id :: "pystr option"
  cc_session_timeout_ms :: int
  cc_max_poll_interval_ms :: int
  cc_retry_backoff_ms :: int
  cc_api_version :: "int list"
  cc_enable_auto_commit :: bool
  cc_auto_commit_interval_ms :: int
  cc_default_callback :: "nat option"
  cc_assignors :: "assignor_class list"
  cc_exclude_internal_topics :: bool
  cc_heartbeat :: heartbeat
  cc_heartbeat_thread :: "heartbeat_thread option"
  cc_rejoin_needed :: bool
  cc_rejoining :: bool
  cc_state :: member_state
  cc_join_future :: "nat option"
  cc_coordinator_id :: "node_id option"
  cc_find_coordinator_future :: "nat option"
  cc_generation :: generation
  cc_subscription :: subscription_state
  cc_cluster :: cluster
  cc_is_leader :: bool
  cc_joined_subscription :: "pystr list"
  cc_metadata_snapshot :: snapshot
  cc_assignment_snapshot :: "snapshot option"
  cc_next_auto_commit_deadline :: "int option"
  cc_completed_offset_commits :: "(commit_callback \<times> committed \<times> outcome) list"
  cc_offset_fetch_futures :: "(topic_partition set \<times> nat) list"
  cc_futures :: "(fut_value, cc_callback) future list"
  cc_pending :: "pending_request list"
  cc_next_request :: nat
  cc_tick :: nat
  cc_actions :: "cc_action list"

section \<open>Questions and parts\<close>

definition ask :: "world \<Rightarrow> (view \<Rightarrow> 'a) \<Rightarrow> (coord, 'a) py" where
  "ask w f s = (Inr (f (w (cc_tick s))), s\<lparr>cc_tick := Suc (cc_tick s)\<rparr>)"

definition tell_client :: "cc_action \<Rightarrow> (coord, unit) py" where
  "tell_client a = py_set (\<lambda>s. s\<lparr>cc_actions := cc_actions s @ [a]\<rparr>)"

definition on_subscription :: "(subscription_state, 'a) py \<Rightarrow> (coord, 'a) py" where
  "on_subscription m s = (case m (cc_subscription s) of (r, x) \<Rightarrow> (r, s\<lparr>cc_subscription := x\<rparr>))"

definition on_cluster :: "(cluster, 'a) py \<Rightarrow> (coord, 'a) py" where
  "on_cluster m s = (case m (cc_cluster s) of (r, x) \<Rightarrow> (r, s\<lparr>cc_cluster := x\<rparr>))"

definition on_heartbeat :: "world \<Rightarrow> (int \<Rightarrow> heartbeat \<Rightarrow> heartbeat) \<Rightarrow> (coord, unit) py" where
  "on_heartbeat w f = py_bind (ask w vw_now) (\<lambda>now. py_set (\<lambda>s. s\<lparr>cc_heartbeat := f now (cc_heartbeat s)\<rparr>))"

text \<open>A callback's exception is logged and dropped by the future that calls it.\<close>

definition suppress :: "(coord, unit) py \<Rightarrow> (coord, unit) py" where
  "suppress m s = (Inr (), snd (m s))"

section \<open>Futures\<close>

definition new_future :: "(coord, nat) py" where
  "new_future s = (Inr (length (cc_futures s)), s\<lparr>cc_futures := cc_futures s @ [Future]\<rparr>)"

definition on_future :: "nat \<Rightarrow> ((fut_value, cc_callback) future, 'a) py \<Rightarrow> (coord, 'a) py" where
  "on_future i m s =
     (case m (cc_futures s ! i) of (r, f) \<Rightarrow> (r, s\<lparr>cc_futures := (cc_futures s)[i := f]\<rparr>))"

type_synonym call = "(fut_value, cc_callback) callback_call"

definition run_calls :: "(call \<Rightarrow> (coord, unit) py) \<Rightarrow> call list \<Rightarrow> (coord, unit) py" where
  "run_calls run calls = py_for (\<lambda>c. suppress (run c)) calls"

definition complete_with :: "(call \<Rightarrow> (coord, unit) py) \<Rightarrow> nat \<Rightarrow> outcome \<Rightarrow> (coord, unit) py" where
  "complete_with run i out =
     py_bind (on_future i (case out of Success v \<Rightarrow> f_success v | Failure e \<Rightarrow> f_failure e)) (run_calls run)"

definition add_callback_with :: "(call \<Rightarrow> (coord, unit) py) \<Rightarrow> nat \<Rightarrow> cc_callback \<Rightarrow> (coord, unit) py" where
  "add_callback_with run i c = py_bind (on_future i (f_add_callback c)) (run_calls run)"

definition add_errback_with :: "(call \<Rightarrow> (coord, unit) py) \<Rightarrow> nat \<Rightarrow> cc_callback \<Rightarrow> (coord, unit) py" where
  "add_errback_with run i c = py_bind (on_future i (f_add_errback c)) (run_calls run)"

definition add_both_with :: "(call \<Rightarrow> (coord, unit) py) \<Rightarrow> nat \<Rightarrow> cc_callback \<Rightarrow> (coord, unit) py" where
  "add_both_with run i c = py_then (add_callback_with run i c) (add_errback_with run i c)"

text \<open>\<open>f.chain(g)\<close> registers the two methods of \<open>g\<close> that complete it.\<close>

definition chain_with :: "(call \<Rightarrow> (coord, unit) py) \<Rightarrow> nat \<Rightarrow> nat \<Rightarrow> (coord, unit) py" where
  "chain_with run i j = py_then (add_callback_with run i (ChainTo j)) (add_errback_with run i (ChainTo j))"

text \<open>A future that is created completed, \<open>Future().success(v)\<close> or \<open>Future().failure(e)\<close>.\<close>

definition completed_future :: "outcome \<Rightarrow> (coord, nat) py" where
  "completed_future out =
     py_bind new_future (\<lambda>i. py_then (complete_with (\<lambda>_. py_return ()) i out) (py_return i))"

definition future_of :: "nat \<Rightarrow> (coord, (fut_value, cc_callback) future) py" where
  "future_of i = py_get (\<lambda>s. cc_futures s ! i)"

section \<open>Membership\<close>

definition coordinator_dead :: "(coord, unit) py" where
  "coordinator_dead =
     py_when (\<lambda>s. cc_coordinator_id s \<noteq> None) (py_set (\<lambda>s. s\<lparr>cc_coordinator_id := None\<rparr>))"

definition coordinator :: "world \<Rightarrow> (coord, node_id option) py" where
  "coordinator w =
     py_bind (py_get cc_coordinator_id) (\<lambda>c.
       case c of
         None \<Rightarrow> py_return None
       | Some n \<Rightarrow>
           py_bind (ask w (\<lambda>v. vw_is_disconnected v n)) (\<lambda>disconnected.
             if \<not> disconnected then py_return (Some n)
             else py_bind (ask w (\<lambda>v. vw_connection_delay v n)) (\<lambda>delay.
               if delay > 0 then py_then coordinator_dead (py_return None) else py_return (Some n))))"

definition coordinator_unknown :: "world \<Rightarrow> (coord, bool) py" where
  "coordinator_unknown w = py_bind (coordinator w) (\<lambda>c. py_return (c = None))"

definition connected :: "world \<Rightarrow> (coord, bool) py" where
  "connected w =
     py_bind (py_get cc_coordinator_id) (\<lambda>c.
       case c of None \<Rightarrow> py_return False | Some n \<Rightarrow> ask w (\<lambda>v. vw_connected v n))"

definition generation_if_stable :: "coord \<Rightarrow> generation option" where
  "generation_if_stable s = (if cc_state s \<noteq> STABLE then None else Some (cc_generation s))"

definition rebalance_in_progress :: "coord \<Rightarrow> bool" where
  "rebalance_in_progress s \<longleftrightarrow> cc_state s = REBALANCING"

definition reset_generation :: "pystr \<Rightarrow> (coord, unit) py" where
  "reset_generation member_id =
     py_set (\<lambda>s. s\<lparr>cc_generation := \<lparr>gn_generation_id = DEFAULT_GENERATION_ID, gn_member_id = member_id, gn_protocol = None\<rparr>,
       cc_rejoin_needed := True, cc_state := UNJOINED\<rparr>)"

definition request_rejoin :: "(coord, unit) py" where
  "request_rejoin = py_set (\<lambda>s. s\<lparr>cc_rejoin_needed := True\<rparr>)"

definition reset_join_group_future :: "(coord, unit) py" where
  "reset_join_group_future = py_set (\<lambda>s. s\<lparr>cc_join_future := None\<rparr>)"

definition coord_time_to_next_heartbeat :: "world \<Rightarrow> (coord, int option) py" where
  "coord_time_to_next_heartbeat w =
     py_if (\<lambda>s. cc_state s = UNJOINED) (py_return None)
       (py_bind (ask w vw_now) (\<lambda>now. py_get (\<lambda>s. Some (time_to_next_heartbeat now (cc_heartbeat s)))))"

section \<open>The heartbeat thread\<close>

definition HeartbeatThread :: heartbeat_thread where
  "HeartbeatThread = \<lparr>ht_enabled = False, ht_closed = False, ht_failed = None\<rparr>"

definition set_thread :: "(heartbeat_thread \<Rightarrow> heartbeat_thread) \<Rightarrow> (coord, unit) py" where
  "set_thread f = py_set (\<lambda>s. s\<lparr>cc_heartbeat_thread := map_option f (cc_heartbeat_thread s)\<rparr>)"

definition thread_enable :: "world \<Rightarrow> (coord, unit) py" where
  "thread_enable w = py_then (set_thread (\<lambda>t. t\<lparr>ht_enabled := True\<rparr>)) (on_heartbeat w reset_timeouts)"

definition thread_disable :: "(coord, unit) py" where
  "thread_disable = set_thread (\<lambda>t. t\<lparr>ht_enabled := False\<rparr>)"

definition start_heartbeat_thread :: "(coord, unit) py" where
  "start_heartbeat_thread =
     py_if (\<lambda>s. \<not> version_ge (cc_api_version s) [0, 9]) (py_raise UnsupportedVersionError)
       (py_when (\<lambda>s. cc_heartbeat_thread s = None)
         (py_set (\<lambda>s. s\<lparr>cc_heartbeat_thread := Some HeartbeatThread\<rparr>)))"

definition disable_heartbeat_thread :: "(coord, unit) py" where
  "disable_heartbeat_thread = py_when (\<lambda>s. cc_heartbeat_thread s \<noteq> None) thread_disable"

text \<open>Closing ends the thread: once closed it makes no further iteration.\<close>

definition close_heartbeat_thread :: "(coord, unit) py" where
  "close_heartbeat_thread =
     py_when (\<lambda>s. cc_heartbeat_thread s \<noteq> None)
       (py_then (set_thread (\<lambda>t. t\<lparr>ht_closed := True\<rparr>)) (py_set (\<lambda>s. s\<lparr>cc_heartbeat_thread := None\<rparr>)))"

definition poll_heartbeat :: "world \<Rightarrow> (coord, unit) py" where
  "poll_heartbeat w =
     py_bind (py_get cc_heartbeat_thread) (\<lambda>t.
       case t of
         None \<Rightarrow> py_return ()
       | Some th \<Rightarrow>
           (case ht_failed th of
              Some cause \<Rightarrow> py_then (py_set (\<lambda>s. s\<lparr>cc_heartbeat_thread := None\<rparr>)) (py_raise cause)
            | None \<Rightarrow> on_heartbeat w hb_poll))"

definition handle_join_success :: "world \<Rightarrow> (coord, unit) py" where
  "handle_join_success w =
     py_then (py_set (\<lambda>s. s\<lparr>cc_state := STABLE\<rparr>))
       (py_when (\<lambda>s. cc_heartbeat_thread s \<noteq> None) (thread_enable w))"

definition handle_join_failure :: "(coord, unit) py" where
  "handle_join_failure = py_set (\<lambda>s. s\<lparr>cc_state := UNJOINED\<rparr>)"

definition handle_heartbeat_success :: "world \<Rightarrow> (coord, unit) py" where
  "handle_heartbeat_success w = on_heartbeat w received_heartbeat"

definition handle_heartbeat_failure :: "world \<Rightarrow> exn_class \<Rightarrow> (coord, unit) py" where
  "handle_heartbeat_failure w e =
     (if issubclass e RebalanceInProgressError then on_heartbeat w received_heartbeat
      else py_set (\<lambda>s. s\<lparr>cc_heartbeat := fail_heartbeat (cc_heartbeat s)\<rparr>))"

section \<open>Leaf callbacks\<close>

text \<open>The callbacks that complete no other future: of \<open>join_future\<close>, of the coordinator lookup, of a
  heartbeat and of a commit, which is queued at the front.\<close>

definition append_completed :: "commit_callback \<Rightarrow> committed \<Rightarrow> outcome \<Rightarrow> (coord, unit) py" where
  "append_completed cb offs out =
     py_set (\<lambda>s. s\<lparr>cc_completed_offset_commits := (cb, offs, out) # cc_completed_offset_commits s\<rparr>)"

definition reset_find_coordinator_future :: "(coord, unit) py" where
  "reset_find_coordinator_future = py_set (\<lambda>s. s\<lparr>cc_find_coordinator_future := None\<rparr>)"

fun run_leaf :: "world \<Rightarrow> call \<Rightarrow> (coord, unit) py" where
  "run_leaf w (Callback HandleJoinSuccess v) = handle_join_success w"
| "run_leaf w (Errback HandleJoinFailure e) = handle_join_failure"
| "run_leaf w (Callback ResetFindCoordinatorFuture v) = reset_find_coordinator_future"
| "run_leaf w (Errback ResetFindCoordinatorFuture e) = reset_find_coordinator_future"
| "run_leaf w (Callback HandleHeartbeatSuccess v) = handle_heartbeat_success w"
| "run_leaf w (Errback HandleHeartbeatFailure e) = handle_heartbeat_failure w e"
| "run_leaf w (Callback (CommitCompleted cb offs) v) = append_completed cb offs (Success v)"
| "run_leaf w (Errback (CommitCompleted cb offs) e) = append_completed cb offs (Failure e)"
| "run_leaf w _ = py_return ()"

section \<open>Metadata and assignment\<close>

definition dict_eq :: "('k \<times> 'v) list \<Rightarrow> ('k \<times> 'v) list \<Rightarrow> bool" where
  "dict_eq a b \<longleftrightarrow> set a = set b"

definition build_metadata_snapshot :: "subscription_state \<Rightarrow> cluster \<Rightarrow> snapshot" where
  "build_metadata_snapshot sub cl =
     map (\<lambda>t. (t, case partitions_for_topic cl t of None \<Rightarrow> [] | Some ps \<Rightarrow> sorted_list_of_set ps)) (group_subscription sub)"

definition auto_assign_all_partitions :: "coord \<Rightarrow> bool" where
  "auto_assign_all_partitions s \<longleftrightarrow> \<not> version_ge (cc_api_version s) [0, 9] \<or> cc_group_id s = None"

text \<open>The topics matching the subscribed pattern, when there is one.\<close>

definition update_pattern_subscription :: "world \<Rightarrow> (coord, unit) py" where
  "update_pattern_subscription w =
     py_bind (py_get (\<lambda>s. subscribed_pattern (cc_subscription s))) (\<lambda>p.
       case p of
         None \<Rightarrow> py_return ()
       | Some pat \<Rightarrow>
           py_bind (ask w (\<lambda>v. vw_pattern_match v pat)) (\<lambda>matches.
           py_bind (py_get (\<lambda>s. sorted_list_of_set {t \<in> topics (cc_exclude_internal_topics s) (cc_cluster s). matches t})) (\<lambda>ts.
             py_when (\<lambda>s. map_option set (subscription_state.subscription (cc_subscription s)) \<noteq> Some (set ts))
               (py_then (on_subscription (change_subscription (TopicsSeq (map VStr ts))))
                 (py_bind (py_get (\<lambda>s. group_subscription (cc_subscription s))) (\<lambda>g. tell_client (ActSetTopics g)))))))"

definition handle_metadata_update :: "world \<Rightarrow> (coord, unit) py" where
  "handle_metadata_update w =
     py_if (\<lambda>s. unauthorized_topics (cc_cluster s) \<noteq> []) (py_raise TopicAuthorizationFailedError)
      (py_then (update_pattern_subscription w)
        (py_when (\<lambda>s. partitions_auto_assigned (cc_subscription s))
          (py_bind (py_get (\<lambda>s. build_metadata_snapshot (cc_subscription s) (cc_cluster s))) (\<lambda>snap.
            py_when (\<lambda>s. \<not> dict_eq (cc_metadata_snapshot s) snap)
              (py_then (py_set (\<lambda>s. s\<lparr>cc_metadata_snapshot := snap\<rparr>))
                (py_when auto_assign_all_partitions
                  (py_bind (ask w vw_shuffle) (\<lambda>shuffle s.
                     case res_bind (case subscription_state.subscription (cc_subscription s) of None \<Rightarrow> Inl TypeError | Some ts \<Rightarrow> Inr ts)
                            (\<lambda>ts. res_list (map (\<lambda>t. case map_of snap t of None \<Rightarrow> Inl KeyError | Some ps \<Rightarrow> Inr (map (Pair t) ps)) ts)) of
                       Inl e \<Rightarrow> (Inl e, s)
                     | Inr tps \<Rightarrow> on_subscription (assign_from_subscribed shuffle (concat tps)) s))))))))"

definition lookup_assignor :: "coord \<Rightarrow> pystr \<Rightarrow> assignor_class option" where
  "lookup_assignor s name = List.find (\<lambda>a. as_name a = name) (cc_assignors s)"

text \<open>\<open>ConsumerProtocol.METADATA.decode(metadata_bytes).subscription\<close>.\<close>

definition decode_subscription :: "bytes \<Rightarrow> pystr list res" where
  "decode_subscription data =
     res_bind (Struct_decode ConsumerProtocolMemberMetadata data) (\<lambda>(obj, _).
       case map_of (so_dict obj) ''subscription'' of
         Some (VList ts) \<Rightarrow> res_list (map (\<lambda>t. case t of VStr x \<Rightarrow> Inr x | _ \<Rightarrow> Inl TypeError) ts)
       | _ \<Rightarrow> Inl TypeError)"

definition decode_members :: "(pystr \<times> bytes) list \<Rightarrow> members res" where
  "decode_members ms =
     res_map (\<lambda>xs. fold (\<lambda>(m, ts). AList.update m ts) xs [])
       (res_list (map (\<lambda>(m, data). res_map (Pair m) (decode_subscription data)) ms))"

definition perform_assignment :: "pystr \<Rightarrow> (pystr \<times> bytes) list \<Rightarrow> (coord, assignor_class \<times> group_assignment) py" where
  "perform_assignment strategy members =
     py_bind (py_get (\<lambda>s. lookup_assignor s strategy)) (\<lambda>a.
       case a of
         None \<Rightarrow> py_raise AssertionError
       | Some impl \<Rightarrow>
           py_bind (py_lift (decode_members members)) (\<lambda>member_metadata.
           py_then (on_subscription (group_subscribe (concat (map snd member_metadata))))
          (py_bind (py_get (\<lambda>s. group_subscription (cc_subscription s))) (\<lambda>g.
           py_then (tell_client (ActSetTopics g))
          (py_bind (on_cluster request_update) (\<lambda>_.
           py_then (py_set (\<lambda>s. s\<lparr>cc_is_leader := True, cc_assignment_snapshot := Some (cc_metadata_snapshot s)\<rparr>))
          (py_bind (py_get (\<lambda>s. as_assign impl (cc_cluster s) member_metadata)) (\<lambda>r.
           py_bind (py_lift r) (\<lambda>assignments. py_return (impl, assignments))))))))))"

definition need_rejoin :: "coord \<Rightarrow> bool" where
  "need_rejoin s \<longleftrightarrow>
     (if \<not> partitions_auto_assigned (cc_subscription s) then False
      else if auto_assign_all_partitions s then False
      else if (\<exists>snap \<in> set_option (cc_assignment_snapshot s). \<not> dict_eq snap (cc_metadata_snapshot s)) then True
      else if Some (set (cc_joined_subscription s)) \<noteq> map_option set (subscription_state.subscription (cc_subscription s)) then True
      else cc_rejoin_needed s)"

definition group_protocols :: "(coord, (pystr \<times> struct_obj) list) py" where
  "group_protocols =
     py_bind (py_get (\<lambda>s. subscription_state.subscription (cc_subscription s))) (\<lambda>sub.
       case sub of
         None \<Rightarrow> py_raise IllegalStateError
       | Some ts \<Rightarrow>
           py_then (py_set (\<lambda>s. s\<lparr>cc_joined_subscription := ts\<rparr>))
          (py_bind (py_get (\<lambda>s. res_list (map (\<lambda>a. res_map (Pair (as_name a)) (as_metadata a ts)) (cc_assignors s)))) py_lift))"

end
