(* ===== verification/Group_Coordinator.thy ===== *)
theory Group_Coordinator
  imports Coordinator_State
begin

text \<open>
  Requests and responses of the group coordinator (\<^verbatim>\<open>kafka/coordinator/base.py\<close> and the offset requests of
  \<^verbatim>\<open>kafka/coordinator/consumer.py\<close>), \<open>poll\<close> as the delivery of the responses that arrive during it, and the
  iteration of the heartbeat thread.  A request the client refuses at once fails its future before anybody
  listens to it.  A response is delivered to the handler its request was sent with; what a handler raises is
  dropped by the future that called it.
\<close>

section \<open>Sending\<close>

text \<open>\<open>self._client.api_version(X, max_version=n)\<close>.\<close>

definition api_version :: "world \<Rightarrow> string \<Rightarrow> nat \<Rightarrow> (coord, nat) py" where
  "api_version w name max_version = py_bind (ask w (\<lambda>v. vw_api_version v name max_version)) py_lift"

definition failed_request :: "(nat \<Rightarrow> outcome \<Rightarrow> (coord, unit) py) \<Rightarrow> nat \<Rightarrow> exn_class \<Rightarrow> (coord, unit) py" where
  "failed_request complete i e =
     py_then
       (if issubclass e NodeNotReadyError \<or> issubclass e ThrottlingQuotaExceededError \<or> issubclass e TooManyInFlightRequests
        then py_return () else coordinator_dead)
       (complete i (Failure e))"

definition add_pending :: "node_id \<Rightarrow> request \<Rightarrow> pending_kind \<Rightarrow> (coord, unit) py" where
  "add_pending n req kind =
     py_set (\<lambda>s. s\<lparr>cc_pending := cc_pending s @ [\<lparr>pq_id = cc_next_request s, pq_node = n, pq_request = req, pq_kind = kind\<rparr>],
       cc_next_request := Suc (cc_next_request s), cc_actions := cc_actions s @ [ActSend n req]\<rparr>)"

text \<open>\<open>future = Future(); _f = self._client.send(node, request)\<close> and its two callbacks.\<close>

definition send_with_future :: "world \<Rightarrow> node_id \<Rightarrow> request \<Rightarrow> (nat \<Rightarrow> pending_kind) \<Rightarrow> (coord, nat) py" where
  "send_with_future w n req kind =
     py_bind new_future (\<lambda>i.
     py_bind (ask w (\<lambda>v. vw_send v n)) (\<lambda>refused.
       py_then
         (case refused of
            None \<Rightarrow> add_pending n req (kind i)
          | Some e \<Rightarrow> suppress (failed_request (complete_with (\<lambda>_. py_return ())) i (refusal_error e)))
         (py_return i)))"

text \<open>The guard of most requests: a coordinator that is known and ready.\<close>

definition with_coordinator :: "world \<Rightarrow> (node_id \<Rightarrow> (coord, nat) py) \<Rightarrow> (coord, nat) py" where
  "with_coordinator w send =
     py_bind (coordinator w) (\<lambda>c.
       case c of
         None \<Rightarrow> completed_future (Failure CoordinatorNotAvailableError)
       | Some n \<Rightarrow>
           py_bind (ask w (\<lambda>v. vw_ready v n)) (\<lambda>ready.
             if \<not> ready then completed_future (Failure NodeNotReadyError) else send n))"

definition encode_metadata :: "(pystr \<times> struct_obj) list \<Rightarrow> pyval list res" where
  "encode_metadata ps =
     res_list (map (\<lambda>(name, obj). res_map (\<lambda>bs. VTuple [VStr name, VBytes bs]) (Struct_encode_self obj)) ps)"

definition PROTOCOL_TYPE :: pystr where "PROTOCOL_TYPE = pystr_of ''consumer''"

definition send_join_group_request :: "world \<Rightarrow> (coord, nat) py" where
  "send_join_group_request w =
     with_coordinator w (\<lambda>n.
       py_bind group_protocols (\<lambda>protocols.
       py_bind (py_lift (encode_metadata protocols)) (\<lambda>member_metadata.
       py_bind (api_version w ''JoinGroupRequest'' 4) (\<lambda>version.
       py_bind (py_get (\<lambda>s. positional_request JoinGroupRequest version
           ([opt_str (cc_group_id s), VInt (cc_session_timeout_ms s)] @
            (if version = 0 then [] else [VInt (cc_max_poll_interval_ms s)]) @
            [VStr (gn_member_id (cc_generation s)), VStr PROTOCOL_TYPE, VList member_metadata]))) (\<lambda>req.
       py_bind (py_lift req) (\<lambda>request. send_with_future w n request PendingJoin))))))"

definition send_sync_group_request :: "world \<Rightarrow> request \<Rightarrow> (coord, nat) py" where
  "send_sync_group_request w request =
     py_bind (coordinator w) (\<lambda>c.
       case c of
         None \<Rightarrow> completed_future (Failure CoordinatorNotAvailableError)
       | Some n \<Rightarrow> send_with_future w n request PendingSync)"

definition sync_request :: "world \<Rightarrow> pyval list \<Rightarrow> (coord, request) py" where
  "sync_request w entries =
     py_bind (api_version w ''SyncGroupRequest'' 2) (\<lambda>version.
     py_bind (py_get (\<lambda>s. positional_request SyncGroupRequest version
         [opt_str (cc_group_id s), VInt (gn_generation_id (cc_generation s)), VStr (gn_member_id (cc_generation s)),
          VList entries])) py_lift)"

definition on_join_follower :: "world \<Rightarrow> (coord, nat) py" where
  "on_join_follower w = py_bind (sync_request w []) (send_sync_group_request w)"

definition encode_assignment :: "assignor_class \<Rightarrow> group_assignment \<Rightarrow> pyval list res" where
  "encode_assignment impl a =
     res_list (map (\<lambda>(m, l). res_bind (member_assignment_struct (as_version impl) l) (\<lambda>obj.
       res_map (\<lambda>bs. VTuple [VStr m, VBytes bs]) (Struct_encode_self obj))) a)"

text \<open>An exception of the assignment becomes a failed future.\<close>

definition on_join_leader :: "world \<Rightarrow> join_response \<Rightarrow> (coord, nat) py" where
  "on_join_leader w r s =
     (case perform_assignment (jr_group_protocol r) (jr_members r) s of
        (Inl e, t) \<Rightarrow> completed_future (Failure e) t
      | (Inr (impl, a), t) \<Rightarrow>
          py_bind (py_lift (encode_assignment impl a)) (\<lambda>entries.
          py_bind (sync_request w entries) (send_sync_group_request w)) t)"

definition send_group_coordinator_request :: "world \<Rightarrow> (coord, nat) py" where
  "send_group_coordinator_request w =
     py_bind (ask w vw_least_loaded_node) (\<lambda>node.
       py_if (\<lambda>s. case node of None \<Rightarrow> True | Some n \<Rightarrow> is_bootstrap (cc_cluster s) n)
         (completed_future (Failure NoBrokersAvailable))
         (let n = the node in
          py_bind (ask w (\<lambda>v. vw_ready v n)) (\<lambda>ready.
            if \<not> ready then completed_future (Failure NodeNotReadyError)
            else
              py_bind (api_version w ''FindCoordinatorRequest'' 2) (\<lambda>version.
              py_bind (py_get (\<lambda>s. positional_request FindCoordinatorRequest version
                (if version = 0 then [opt_str (cc_group_id s)] else [opt_str (cc_group_id s), VInt 0]))) (\<lambda>req.
              py_bind (py_lift req) (\<lambda>request. send_with_future w n request PendingFindCoordinator))))))"

definition lookup_coordinator :: "world \<Rightarrow> (coord, nat) py" where
  "lookup_coordinator w =
     py_bind (py_get cc_find_coordinator_future) (\<lambda>f.
       case f of
         Some i \<Rightarrow> py_return i
       | None \<Rightarrow>
           py_bind (send_group_coordinator_request w) (\<lambda>i.
           py_then (py_set (\<lambda>s. s\<lparr>cc_find_coordinator_future := Some i\<rparr>))
          (py_then (add_both_with (run_leaf w) i ResetFindCoordinatorFuture) (py_return i))))"

definition send_heartbeat_request :: "world \<Rightarrow> (coord, nat) py" where
  "send_heartbeat_request w =
     with_coordinator w (\<lambda>n.
       py_bind (api_version w ''HeartbeatRequest'' 2) (\<lambda>version.
       py_bind (py_get (\<lambda>s. positional_request HeartbeatRequest version
         [opt_str (cc_group_id s), VInt (gn_generation_id (cc_generation s)), VStr (gn_member_id (cc_generation s))])) (\<lambda>req.
       py_bind (py_lift req) (\<lambda>request. send_with_future w n request PendingHeartbeat))))"

section \<open>Offset requests\<close>

text \<open>The entry of one partition, per version of the request.\<close>

definition commit_entry :: "nat \<Rightarrow> topic_partition \<times> offset_and_metadata \<Rightarrow> pyval" where
  "commit_entry version = (\<lambda>(tp, om).
     VTuple ([VInt (snd tp), VInt (om_offset om)] @
       (if version = 1 then [VInt (- 1)] else if version \<ge> 6 then [VInt (om_leader_epoch om)] else []) @
       [VStr (om_metadata om)]))"

definition group_entries :: "(topic_partition \<times> pyval) list \<Rightarrow> pyval list" where
  "group_entries items =
     map (\<lambda>(t, xs). VTuple [VStr t, VList xs])
       (fold (\<lambda>(tp, x) d. AList.update (fst tp) ((case map_of d (fst tp) of None \<Rightarrow> [] | Some xs \<Rightarrow> xs) @ [x]) d) items [])"

definition offset_commit_request :: "nat \<Rightarrow> pystr option \<Rightarrow> generation \<Rightarrow> committed \<Rightarrow> request res" where
  "offset_commit_request version grp g offs =
     positional_request OffsetCommitRequest version
       ([opt_str grp] @
        (if version = 0 then [] else [VInt (gn_generation_id g), VStr (gn_member_id g)]) @
        (if 2 \<le> version \<and> version \<le> 4 then [VInt (- 1)] else []) @
        [VList (group_entries (map (\<lambda>x. (fst x, commit_entry version x)) offs))])"

definition send_offset_commit_request :: "world \<Rightarrow> committed \<Rightarrow> (coord, nat) py" where
  "send_offset_commit_request w offs =
     py_if (\<lambda>s. \<not> version_ge (cc_api_version s) [0, 8, 1]) (py_raise UnsupportedVersionError)
      (if offs = [] then completed_future (Success FNone)
       else with_coordinator w (\<lambda>n.
         py_bind (api_version w ''OffsetCommitRequest'' 6) (\<lambda>version.
         py_bind (py_get (\<lambda>s. if version > 1 \<and> partitions_auto_assigned (cc_subscription s)
                              then generation_if_stable s else Some NO_GENERATION)) (\<lambda>g.
           case g of
             None \<Rightarrow>
               py_if rebalance_in_progress (completed_future (Failure RebalanceInProgressError))
                 (completed_future (Failure CommitFailedError))
           | Some gen \<Rightarrow>
               py_bind (py_get (\<lambda>s. offset_commit_request version (cc_group_id s) gen offs)) (\<lambda>req.
               py_bind (py_lift req) (\<lambda>request. send_with_future w n request (PendingCommit offs)))))))"

definition send_offset_fetch_request :: "world \<Rightarrow> topic_partition list \<Rightarrow> (coord, nat) py" where
  "send_offset_fetch_request w tps =
     py_if (\<lambda>s. \<not> version_ge (cc_api_version s) [0, 8, 1]) (py_raise UnsupportedVersionError)
      (if tps = [] then completed_future (Success (FOffsets []))
       else with_coordinator w (\<lambda>n.
         py_bind (api_version w ''OffsetFetchRequest'' 5) (\<lambda>version.
         py_bind (py_get (\<lambda>s. positional_request OffsetFetchRequest version
           [opt_str (cc_group_id s), VList (group_entries (map (\<lambda>tp. (tp, VInt (snd tp))) (remdups tps)))])) (\<lambda>req.
         py_bind (py_lift req) (\<lambda>request. send_with_future w n request PendingOffsetFetch)))))"

text \<open>\<open>callback=None\<close> stands for the configured default.\<close>

definition do_commit_offsets_async :: "world \<Rightarrow> committed \<Rightarrow> commit_callback option \<Rightarrow> (coord, nat) py" where
  "do_commit_offsets_async w offs callback =
     py_if (\<lambda>s. \<not> version_ge (cc_api_version s) [0, 8, 1]) (py_raise UnsupportedVersionError)
      (py_bind (send_offset_commit_request w offs) (\<lambda>i.
         py_then (add_both_with (run_leaf w) i
             (CommitCompleted (case callback of None \<Rightarrow> DefaultCallback | Some c \<Rightarrow> c) offs))
           (py_return i)))"

section \<open>Completing a future\<close>

fun run_callback :: "world \<Rightarrow> call \<Rightarrow> (coord, unit) py" where
  "run_callback w (Callback (ChainTo j) v) = complete_with (run_leaf w) j (Success v)"
| "run_callback w (Errback (ChainTo j) e) = complete_with (run_leaf w) j (Failure e)"
| "run_callback w (Callback (CommitAfterLookup offs cb) v) =
     py_then (py_bind (do_commit_offsets_async w offs cb) (\<lambda>_. py_return ())) (py_return ())"
| "run_callback w (Errback (CommitAfterLookup offs cb) e) =
     (case cb of None \<Rightarrow> py_return () | Some c \<Rightarrow> append_completed c offs (Failure e))"
| "run_callback w c = run_leaf w c"

definition complete_future :: "world \<Rightarrow> nat \<Rightarrow> outcome \<Rightarrow> (coord, unit) py" where
  "complete_future w = complete_with (run_callback w)"

section \<open>Responses\<close>

definition handle_join_group_response :: "world \<Rightarrow> nat \<Rightarrow> join_response \<Rightarrow> (coord, unit) py" where
  "handle_join_group_response w i r =
     (let error_type = for_code (jr_error_code r) in
      if error_type = NoError then
        py_then
          (py_if (\<lambda>s. cc_state s \<noteq> REBALANCING) (complete_future w i (Failure UnjoinedGroupException))
            (py_set (\<lambda>s. s\<lparr>cc_generation := \<lparr>gn_generation_id = jr_generation_id r, gn_member_id = jr_member_id r,
               gn_protocol = Some (jr_group_protocol r)\<rparr>\<rparr>)))
          (py_bind (if jr_leader_id r = jr_member_id r then on_join_leader w r else on_join_follower w)
            (\<lambda>j. chain_with (run_callback w) j i))
      else if error_type = CoordinatorLoadInProgressError then complete_future w i (Failure error_type)
      else if error_type = UnknownMemberIdError then
        py_then (reset_generation UNKNOWN_MEMBER_ID) (complete_future w i (Failure error_type))
      else if error_type \<in> {CoordinatorNotAvailableError, NotCoordinatorError} then
        py_then coordinator_dead (complete_future w i (Failure error_type))
      else if error_type \<in> {InconsistentGroupProtocolError, InvalidSessionTimeoutError, InvalidGroupIdError} then
        complete_future w i (Failure error_type)
      else if error_type = GroupAuthorizationFailedError then complete_future w i (Failure error_type)
      else if error_type = MemberIdRequiredError then
        py_then (reset_generation (jr_member_id r)) (complete_future w i (Failure error_type))
      else if error_type = RebalanceInProgressError then complete_future w i (Failure error_type)
      else complete_future w i (Failure error_type))"

definition handle_sync_group_response :: "world \<Rightarrow> nat \<Rightarrow> int \<Rightarrow> bytes \<Rightarrow> (coord, unit) py" where
  "handle_sync_group_response w i code member_assignment =
     (let error_type = for_code code in
      if error_type = NoError then complete_future w i (Success (FBytes member_assignment))
      else
        py_then request_rejoin
          (if error_type = GroupAuthorizationFailedError then complete_future w i (Failure error_type)
           else if error_type = RebalanceInProgressError then complete_future w i (Failure error_type)
           else if error_type \<in> {UnknownMemberIdError, IllegalGenerationError} then
             py_then (reset_generation UNKNOWN_MEMBER_ID) (complete_future w i (Failure error_type))
           else if error_type \<in> {CoordinatorNotAvailableError, NotCoordinatorError} then
             py_then coordinator_dead (complete_future w i (Failure error_type))
           else complete_future w i (Failure error_type)))"

definition handle_group_coordinator_response :: "world \<Rightarrow> nat \<Rightarrow> coordinator_response \<Rightarrow> (coord, unit) py" where
  "handle_group_coordinator_response w i r =
     (let error_type = for_code (cr_error_code r) in
      if error_type = NoError then
        py_bind (py_get cc_group_id) (\<lambda>grp.
        py_bind (on_cluster (add_coordinator r ''group'' grp)) (\<lambda>c.
          case c of
            None \<Rightarrow> complete_future w i (Failure IllegalStateError)
          | Some n \<Rightarrow>
              py_then (py_set (\<lambda>s. s\<lparr>cc_coordinator_id := Some n\<rparr>))
             (py_then (tell_client (ActConnect n))
             (py_then (on_heartbeat w reset_timeouts)
                (complete_future w i (Success (FNode n)))))))
      else if error_type = CoordinatorNotAvailableError then complete_future w i (Failure error_type)
      else if error_type = GroupAuthorizationFailedError then complete_future w i (Failure error_type)
      else complete_future w i (Failure error_type))"

definition handle_heartbeat_response :: "world \<Rightarrow> nat \<Rightarrow> int \<Rightarrow> (coord, unit) py" where
  "handle_heartbeat_response w i code =
     (let error_type = for_code code in
      if error_type = NoError then complete_future w i (Success FNone)
      else if error_type \<in> {CoordinatorNotAvailableError, NotCoordinatorError} then
        py_bind (coordinator w) (\<lambda>_. py_then coordinator_dead (complete_future w i (Failure error_type)))
      else if error_type = RebalanceInProgressError then
        py_then request_rejoin (complete_future w i (Failure error_type))
      else if error_type = IllegalGenerationError then
        py_then (reset_generation UNKNOWN_MEMBER_ID) (complete_future w i (Failure error_type))
      else if error_type = UnknownMemberIdError then
        py_then (reset_generation UNKNOWN_MEMBER_ID) (complete_future w i (Failure error_type))
      else if error_type = GroupAuthorizationFailedError then complete_future w i (Failure error_type)
      else complete_future w i (Failure error_type))"

text \<open>The loop over the partitions of a commit response: what ends it early, or the unauthorized topics.\<close>

primrec scan_commit_response ::
  "world \<Rightarrow> committed \<Rightarrow> nat \<Rightarrow> (topic_partition \<times> int) list \<Rightarrow> pystr list \<Rightarrow> (coord, pystr list option) py" where
  "scan_commit_response w offs i [] unauthorized = py_return (Some unauthorized)"
| "scan_commit_response w offs i (x # xs) unauthorized =
     (case x of (tp, code) \<Rightarrow>
      let error_type = for_code code; stop = (\<lambda>e. py_then (complete_future w i (Failure e)) (py_return None)) in
      if map_of offs tp = None then py_raise KeyError
      else if error_type = NoError then scan_commit_response w offs i xs unauthorized
      else if error_type = GroupAuthorizationFailedError then stop error_type
      else if error_type = TopicAuthorizationFailedError then
        scan_commit_response w offs i xs (List.insert (fst tp) unauthorized)
      else if error_type \<in> {OffsetMetadataTooLargeError, InvalidCommitOffsetSizeError} then stop error_type
      else if error_type = CoordinatorLoadInProgressError then stop error_type
      else if error_type \<in> {CoordinatorNotAvailableError, NotCoordinatorError, RequestTimedOutError} then
        py_then coordinator_dead (stop error_type)
      else if error_type = RebalanceInProgressError then py_then request_rejoin (stop CommitFailedError)
      else if error_type \<in> {UnknownMemberIdError, IllegalGenerationError} then
        py_then (reset_generation UNKNOWN_MEMBER_ID) (stop CommitFailedError)
      else stop error_type)"

definition handle_offset_commit_response ::
  "world \<Rightarrow> committed \<Rightarrow> nat \<Rightarrow> (pystr \<times> (int \<times> int) list) list \<Rightarrow> (coord, unit) py" where
  "handle_offset_commit_response w offs i ts =
     py_bind (scan_commit_response w offs i (concat (map (\<lambda>(t, ps). map (\<lambda>(p, code). ((t, p), code)) ps) ts)) []) (\<lambda>r.
       case r of
         None \<Rightarrow> py_return ()
       | Some unauthorized \<Rightarrow>
           if unauthorized \<noteq> [] then complete_future w i (Failure TopicAuthorizationFailedError)
           else complete_future w i (Success FNone))"

primrec scan_fetch_response ::
  "world \<Rightarrow> nat \<Rightarrow> (topic_partition \<times> int \<times> pystr \<times> int) list \<Rightarrow> committed \<Rightarrow> (coord, unit) py" where
  "scan_fetch_response w i [] offs = complete_future w i (Success (FOffsets offs))"
| "scan_fetch_response w i (x # xs) offs =
     (case x of (tp, off, metadata, code) \<Rightarrow>
      let error_type = for_code code in
      if error_type \<noteq> NoError then
        (if error_type = CoordinatorLoadInProgressError then complete_future w i (Failure error_type)
         else if error_type = NotCoordinatorError then
           py_then coordinator_dead (complete_future w i (Failure error_type))
         else if error_type = UnknownTopicOrPartitionError then scan_fetch_response w i xs offs
         else complete_future w i (Failure error_type))
      else if off \<ge> 0 then
        scan_fetch_response w i xs
          (AList.update tp \<lparr>om_offset = off, om_metadata = metadata, om_leader_epoch = - 1\<rparr> offs)
      else scan_fetch_response w i xs offs)"

definition handle_offset_fetch_response :: "world \<Rightarrow> nat \<Rightarrow> offset_fetch_response \<Rightarrow> (coord, unit) py" where
  "handle_offset_fetch_response w i r =
     (if of_API_VERSION r \<ge> 2 \<and> Some (of_error_code r) \<noteq> cls_errno NoError then
        (let error_type = for_code (of_error_code r) in
         if error_type = CoordinatorLoadInProgressError then complete_future w i (Failure error_type)
         else if error_type = NotCoordinatorError then
           py_then coordinator_dead (complete_future w i (Failure error_type))
         else if error_type = GroupAuthorizationFailedError then complete_future w i (Failure error_type)
         else complete_future w i (Failure error_type))
      else scan_fetch_response w i (concat (map (\<lambda>(t, ps). map (\<lambda>(p, d). ((t, p), d)) ps) (of_topics r))) [])"

section \<open>Polling the client\<close>

text \<open>A response reaches the handler its request was sent with; the parser gives a request only a response of
  its own type.  An error response of a LeaveGroup request is logged.\<close>

fun handle_reply :: "world \<Rightarrow> pending_kind \<Rightarrow> reply \<Rightarrow> (coord, unit) py" where
  "handle_reply w (PendingFindCoordinator i) (FindCoordinatorReply r) = handle_group_coordinator_response w i r"
| "handle_reply w (PendingJoin i) (JoinReply r) = handle_join_group_response w i r"
| "handle_reply w (PendingSync i) (SyncReply code data) = handle_sync_group_response w i code data"
| "handle_reply w (PendingHeartbeat i) (HeartbeatReply code) = handle_heartbeat_response w i code"
| "handle_reply w (PendingCommit offs i) (CommitReply ts) = handle_offset_commit_response w offs i ts"
| "handle_reply w (PendingOffsetFetch i) (OffsetFetchReply r) = handle_offset_fetch_response w i r"
| "handle_reply w PendingLeave _ = py_return ()"
| "handle_reply w (PendingFindCoordinator i) (RequestFailed e) = failed_request (complete_future w) i e"
| "handle_reply w (PendingJoin i) (RequestFailed e) = failed_request (complete_future w) i e"
| "handle_reply w (PendingSync i) (RequestFailed e) = failed_request (complete_future w) i e"
| "handle_reply w (PendingHeartbeat i) (RequestFailed e) = failed_request (complete_future w) i e"
| "handle_reply w (PendingCommit offs i) (RequestFailed e) = failed_request (complete_future w) i e"
| "handle_reply w (PendingOffsetFetch i) (RequestFailed e) = failed_request (complete_future w) i e"
| "handle_reply w _ _ = py_return ()"

text \<open>Whether a reply is of the type of the request; a request fails with an exception.\<close>

fun reply_fits :: "pending_kind \<Rightarrow> reply \<Rightarrow> bool" where
  "reply_fits _ (RequestFailed e) = issubclass e BaseException"
| "reply_fits (PendingFindCoordinator i) (FindCoordinatorReply r) = True"
| "reply_fits (PendingJoin i) (JoinReply r) = True"
| "reply_fits (PendingSync i) (SyncReply code data) = True"
| "reply_fits (PendingHeartbeat i) (HeartbeatReply code) = True"
| "reply_fits PendingLeave (LeaveReply code) = True"
| "reply_fits (PendingCommit offs i) (CommitReply ts) = True"
| "reply_fits (PendingOffsetFetch i) (OffsetFetchReply r) = True"
| "reply_fits _ _ = False"

fun deliver :: "world \<Rightarrow> delivery \<Rightarrow> (coord, unit) py" where
  "deliver w (Deliver k r) s =
     (case List.find (\<lambda>p. pq_id p = k) (cc_pending s) of
        None \<Rightarrow> (Inr (), s)
      | Some p \<Rightarrow>
          if reply_fits (pq_kind p) r
          then suppress (handle_reply w (pq_kind p) r) (s\<lparr>cc_pending := filter (\<lambda>q. pq_id q \<noteq> k) (cc_pending s)\<rparr>)
          else (Inr (), s))"
| "deliver w (MetadataUpdate md) s =
     suppress (py_bind (ask w vw_now) (\<lambda>now.
       py_then (on_cluster (update_metadata (\<lambda>_ c. c) now md)) (handle_metadata_update w))) s"
| "deliver w (MetadataFailed e) s =
     suppress (py_bind (ask w vw_now) (\<lambda>now. on_cluster (failed_update now e))) s"

definition client_poll :: "world \<Rightarrow> (coord, unit) py" where
  "client_poll w =
     py_bind (py_get cc_pending) (\<lambda>ps.
     py_bind (ask w (\<lambda>v. vw_deliveries v ps)) (\<lambda>ds. py_for (deliver w) ds))"

section \<open>Leaving\<close>

definition send_leave_group_request :: "world \<Rightarrow> (coord, unit) py" where
  "send_leave_group_request w =
     py_bind (api_version w ''LeaveGroupRequest'' 2) (\<lambda>version.
     py_bind (py_get (\<lambda>s. positional_request LeaveGroupRequest version
       [opt_str (cc_group_id s), VStr (gn_member_id (cc_generation s))])) (\<lambda>req.
     py_bind (py_lift req) (\<lambda>request.
     py_bind (py_get cc_coordinator_id) (\<lambda>c.
       case c of
         None \<Rightarrow> py_return ()
       | Some n \<Rightarrow>
           py_bind (ask w (\<lambda>v. vw_send v n)) (\<lambda>refused.
             py_then (if refused = None then add_pending n request PendingLeave else py_return ()) (client_poll w))))))"

definition maybe_leave_group :: "world \<Rightarrow> (coord, unit) py" where
  "maybe_leave_group w =
     py_if (\<lambda>s. \<not> version_ge (cc_api_version s) [0, 9]) (py_raise UnsupportedVersionError)
      (py_bind (coordinator_unknown w) (\<lambda>unknown.
       py_then
         (py_when (\<lambda>s. \<not> unknown \<and> cc_state s \<noteq> UNJOINED \<and> gn_is_valid (cc_generation s)) (send_leave_group_request w))
         (reset_generation UNKNOWN_MEMBER_ID)))"

section \<open>The iteration of the heartbeat thread\<close>

definition heartbeat_run_once :: "world \<Rightarrow> (coord, unit) py" where
  "heartbeat_run_once w =
     py_if (\<lambda>s. \<not> (\<exists>t \<in> set_option (cc_heartbeat_thread s). ht_enabled t)) (py_return ())
    (py_if (\<lambda>s. cc_state s \<noteq> STABLE) thread_disable
    (py_then (client_poll w)
    (py_bind (coordinator_unknown w) (\<lambda>unknown.
       if unknown then py_bind (lookup_coordinator w) (\<lambda>_. py_return ())
       else py_bind (connected w) (\<lambda>conn.
         if \<not> conn then py_return ()
         else py_bind (ask w vw_now) (\<lambda>now.
           py_if (\<lambda>s. session_timeout_expired now (cc_heartbeat s)) coordinator_dead
          (py_if (\<lambda>s. poll_timeout_expired now (cc_heartbeat s)) (maybe_leave_group w)
          (py_if (\<lambda>s. \<not> should_heartbeat now (cc_heartbeat s)) (py_return ())
          (py_then (on_heartbeat w sent_heartbeat)
          (py_bind (send_heartbeat_request w) (\<lambda>i.
             py_then (add_callback_with (run_leaf w) i HandleHeartbeatSuccess)
               (add_errback_with (run_leaf w) i HandleHeartbeatFailure))))))))))))"

text \<open>The thread runs until it is closed or an exception ends it.\<close>

definition heartbeat_turn :: "world \<Rightarrow> (coord, unit) py" where
  "heartbeat_turn w s =
     (case cc_heartbeat_thread s of
        None \<Rightarrow> (Inr (), s)
      | Some t \<Rightarrow>
          if ht_closed t \<or> ht_failed t \<noteq> None then (Inr (), s)
          else (case heartbeat_run_once w s of
                  (Inl e, u) \<Rightarrow> set_thread (\<lambda>t. t\<lparr>ht_failed := Some e\<rparr>) u
                | (Inr _, u) \<Rightarrow> (Inr (), u)))"

text \<open>A poll of the main thread, which holds no lock of the coordinator, lets the heartbeat thread run.\<close>

definition main_poll :: "world \<Rightarrow> (coord, unit) py" where
  "main_poll w =
     py_then (client_poll w)
       (py_bind (ask w vw_thread_runs) (\<lambda>runs. if runs then heartbeat_turn w else py_return ()))"

end
