(* ===== verification/Consumer_Coordinator.thy ===== *)
theory Consumer_Coordinator
  imports Group_Coordinator
begin

text \<open>
  The blocking operations of the group coordinator: finding the coordinator, joining the group, committing and
  fetching offsets (\<^verbatim>\<open>kafka/coordinator/base.py\<close>, \<^verbatim>\<open>kafka/coordinator/consumer.py\<close>).  Their loops need not end, so
  each is given a number of iterations and returns None when it needs more.
\<close>

section \<open>Loops\<close>

definition py_obind :: "(coord, 'a option) py \<Rightarrow> ('a \<Rightarrow> (coord, 'b option) py) \<Rightarrow> (coord, 'b option) py" where
  "py_obind m f = py_bind m (\<lambda>r. case r of None \<Rightarrow> py_return None | Some a \<Rightarrow> f a)"

definition py_done :: "'a \<Rightarrow> (coord, 'a option) py" where
  "py_done a = py_return (Some a)"

definition expired_now :: "world \<Rightarrow> timer \<Rightarrow> (coord, bool) py" where
  "expired_now w t = ask w (\<lambda>v. timer_expired (vw_now v) t)"

definition time_left :: "world \<Rightarrow> timer \<Rightarrow> (coord, int option) py" where
  "time_left w t = ask w (\<lambda>v. timer_timeout_ms (vw_now v) t)"

definition start_timer :: "world \<Rightarrow> int option \<Rightarrow> (coord, timer) py" where
  "start_timer w limit = ask w (\<lambda>v. new_timer (vw_now v) limit)"

section \<open>Finding the coordinator\<close>

text \<open>After the lookup: wait for its future and see how it ended.  None means another round.\<close>

definition await_lookup :: "world \<Rightarrow> timer \<Rightarrow> nat \<Rightarrow> (coord, bool option) py" where
  "await_lookup w timer i =
     py_then (client_poll w)
    (py_bind (future_of i) (\<lambda>f.
       if \<not> f_is_done f then py_return (Some False)
       else
         py_bind
           (if \<not> f_failed f then py_return True
            else if \<not> f_retriable f then py_raise (the (f_exception f))
            else if cls_invalid_metadata (the (f_exception f)) then
              py_bind (on_cluster request_update) (\<lambda>u.
                py_then (client_poll w) (py_get (\<lambda>s. future_is_done (cc_cluster s) u)))
            else py_return True)
           (\<lambda>go. if \<not> go then py_return (Some False)
                 else py_bind (expired_now w timer) (\<lambda>late. py_return (if late then Some False else None)))))"

primrec ready_loop :: "world \<Rightarrow> timer \<Rightarrow> nat \<Rightarrow> (coord, bool option) py" where
  "ready_loop w timer 0 = py_return None"
| "ready_loop w timer (Suc n) =
     py_bind (coordinator_unknown w) (\<lambda>unknown.
       if \<not> unknown then py_done True
       else py_if (\<lambda>s. version_ge (cc_api_version s) [0, 8, 2])
         (py_bind (lookup_coordinator w) (\<lambda>i.
            py_bind (await_lookup w timer i) (\<lambda>r. case r of Some b \<Rightarrow> py_done b | None \<Rightarrow> ready_loop w timer n)))
         (py_bind (ask w vw_least_loaded_node) (\<lambda>node.
            py_if (\<lambda>s. case node of None \<Rightarrow> True | Some x \<Rightarrow> is_bootstrap (cc_cluster s) x)
              (py_bind (completed_future (Failure NoBrokersAvailable)) (\<lambda>i.
                 py_bind (await_lookup w timer i) (\<lambda>r. case r of Some b \<Rightarrow> py_done b | None \<Rightarrow> ready_loop w timer n)))
              (py_then (py_set (\<lambda>s. s\<lparr>cc_coordinator_id := node\<rparr>))
              (py_then (tell_client (ActConnect (the node)))
              (py_bind (expired_now w timer) (\<lambda>late. if late then py_done False else ready_loop w timer n)))))))"

definition ensure_coordinator_ready :: "world \<Rightarrow> nat \<Rightarrow> int option \<Rightarrow> (coord, bool option) py" where
  "ensure_coordinator_ready w n limit = py_bind (start_timer w limit) (\<lambda>timer. ready_loop w timer n)"

section \<open>Commits\<close>

definition default_offset_commit_callback :: "committed \<Rightarrow> outcome \<Rightarrow> (coord, unit) py" where
  "default_offset_commit_callback offs out =
     py_bind (py_get cc_default_callback) (\<lambda>u.
       case u of None \<Rightarrow> py_return () | Some c \<Rightarrow> tell_client (ActCommitCallback c offs out))"

definition commit_offsets_async_on_complete :: "world \<Rightarrow> committed \<Rightarrow> outcome \<Rightarrow> (coord, unit) py" where
  "commit_offsets_async_on_complete w offs out =
     py_then
       (if (case out of Success _ \<Rightarrow> False | Failure e \<Rightarrow> cls_retriable e) then
          py_bind (ask w vw_now) (\<lambda>now s.
            case cc_next_auto_commit_deadline s of
              None \<Rightarrow> (Inl TypeError, s)
            | Some d \<Rightarrow> (Inr (), s\<lparr>cc_next_auto_commit_deadline := Some (min (now + cc_retry_backoff_ms s) d)\<rparr>))
        else py_return ())
       (default_offset_commit_callback offs out)"

definition invoke_commit_callback :: "world \<Rightarrow> commit_callback \<times> committed \<times> outcome \<Rightarrow> (coord, unit) py" where
  "invoke_commit_callback w = (\<lambda>(cb, offs, out).
     case cb of
       DefaultCallback \<Rightarrow> default_offset_commit_callback offs out
     | AutoCommitCallback \<Rightarrow> commit_offsets_async_on_complete w offs out
     | UserCallback u \<Rightarrow> tell_client (ActCommitCallback u offs out))"

definition invoke_completed_offset_commit_callbacks :: "world \<Rightarrow> (coord, unit) py" where
  "invoke_completed_offset_commit_callbacks w =
     py_bind (py_get cc_completed_offset_commits) (py_for (\<lambda>item.
       py_then (py_set (\<lambda>s. s\<lparr>cc_completed_offset_commits := List.tl (cc_completed_offset_commits s)\<rparr>))
         (invoke_commit_callback w item)))"

definition commit_offsets_async :: "world \<Rightarrow> committed \<Rightarrow> commit_callback option \<Rightarrow> (coord, nat) py" where
  "commit_offsets_async w offs callback =
     py_then (invoke_completed_offset_commit_callbacks w)
    (py_bind (coordinator_unknown w) (\<lambda>unknown.
     py_bind
       (if \<not> unknown then do_commit_offsets_async w offs callback
        else py_bind (lookup_coordinator w) (\<lambda>i.
          py_then (add_callback_with (run_callback w) i (CommitAfterLookup offs callback))
         (py_then (if callback = None then py_return () else add_errback_with (run_callback w) i (CommitAfterLookup offs callback))
            (py_return i))))
       (\<lambda>i. py_then (main_poll w) (py_return i))))"

primrec commit_sync_loop :: "world \<Rightarrow> timer \<Rightarrow> committed \<Rightarrow> nat \<Rightarrow> (coord, unit option) py" where
  "commit_sync_loop w timer offs 0 = py_return None"
| "commit_sync_loop w timer offs (Suc n) =
     py_bind (time_left w timer) (\<lambda>left.
     py_obind (ensure_coordinator_ready w n left) (\<lambda>_.
     py_bind (send_offset_commit_request w offs) (\<lambda>i.
     py_then (main_poll w)
    (py_bind (future_of i) (\<lambda>f.
       if f_succeeded f then py_done ()
       else if f_is_done f \<and> \<not> f_retriable f then py_raise (the (f_exception f))
       else py_bind (expired_now w timer) (\<lambda>late.
         if late then py_raise KafkaTimeoutError else commit_sync_loop w timer offs n))))))"

definition commit_offsets_sync :: "world \<Rightarrow> nat \<Rightarrow> committed \<Rightarrow> int option \<Rightarrow> (coord, unit option) py" where
  "commit_offsets_sync w n offs limit =
     py_if (\<lambda>s. \<not> version_ge (cc_api_version s) [0, 8, 1]) (py_raise UnsupportedVersionError)
    (py_then (invoke_completed_offset_commit_callbacks w)
       (if offs = [] then py_done ()
        else py_bind (start_timer w limit) (\<lambda>timer. commit_sync_loop w timer offs n)))"

text \<open>Whatever a commit before a rebalance or a close raises is logged.\<close>

definition maybe_auto_commit_offsets_sync :: "world \<Rightarrow> nat \<Rightarrow> int option \<Rightarrow> (coord, unit option) py" where
  "maybe_auto_commit_offsets_sync w n limit s =
     (if cc_enable_auto_commit s then
        (case commit_offsets_sync w n (all_consumed_offsets (cc_subscription s)) limit s of
           (Inl _, t) \<Rightarrow> (Inr (Some ()), t)
         | x \<Rightarrow> x)
      else (Inr (Some ()), s))"

definition do_auto_commit_offsets_async :: "world \<Rightarrow> (coord, unit) py" where
  "do_auto_commit_offsets_async w =
     py_bind (py_get (\<lambda>s. all_consumed_offsets (cc_subscription s))) (\<lambda>offs.
       py_bind (commit_offsets_async w offs (Some AutoCommitCallback)) (\<lambda>_. py_return ()))"

definition maybe_auto_commit_offsets_async :: "world \<Rightarrow> (coord, unit) py" where
  "maybe_auto_commit_offsets_async w =
     py_when cc_enable_auto_commit
      (py_bind (coordinator_unknown w) (\<lambda>unknown.
       py_bind (ask w vw_now) (\<lambda>now.
         if unknown then py_set (\<lambda>s. s\<lparr>cc_next_auto_commit_deadline := Some (now + cc_retry_backoff_ms s)\<rparr>)
         else (\<lambda>s. case cc_next_auto_commit_deadline s of
             None \<Rightarrow> (Inl TypeError, s)
           | Some d \<Rightarrow>
               if now > d then
                 py_then (py_set (\<lambda>s. s\<lparr>cc_next_auto_commit_deadline := Some (now + cc_auto_commit_interval_ms s)\<rparr>))
                   (do_auto_commit_offsets_async w) s
               else (Inr (), s)))))"

definition maybe_auto_commit_offsets_now :: "world \<Rightarrow> (coord, unit) py" where
  "maybe_auto_commit_offsets_now w =
     py_when cc_enable_auto_commit
      (py_bind (coordinator_unknown w) (\<lambda>unknown. if unknown then py_return () else do_auto_commit_offsets_async w))"

section \<open>Committed offsets\<close>

definition offset_fetch_future :: "world \<Rightarrow> topic_partition list \<Rightarrow> (coord, nat) py" where
  "offset_fetch_future w tps =
     py_bind (py_get (\<lambda>s. map_of (cc_offset_fetch_futures s) (set tps))) (\<lambda>known.
       case known of
         Some i \<Rightarrow> py_return i
       | None \<Rightarrow>
           py_bind (send_offset_fetch_request w tps) (\<lambda>i.
             py_then (py_set (\<lambda>s. s\<lparr>cc_offset_fetch_futures := AList.update (set tps) i (cc_offset_fetch_futures s)\<rparr>))
               (py_return i)))"

primrec fetch_committed_loop :: "world \<Rightarrow> timer \<Rightarrow> topic_partition list \<Rightarrow> nat \<Rightarrow> (coord, committed option) py" where
  "fetch_committed_loop w timer tps 0 = py_return None"
| "fetch_committed_loop w timer tps (Suc n) =
     py_bind (time_left w timer) (\<lambda>left.
     py_obind (ensure_coordinator_ready w n left) (\<lambda>ready.
     py_bind (if ready then py_return False else expired_now w timer) (\<lambda>late.
     if late then py_raise KafkaTimeoutError
     else
       py_bind (offset_fetch_future w tps) (\<lambda>i.
       py_then (main_poll w)
      (py_bind (future_of i) (\<lambda>f.
       py_then
         (if f_is_done f
          then py_set (\<lambda>s. s\<lparr>cc_offset_fetch_futures := AList.delete (set tps) (cc_offset_fetch_futures s)\<rparr>)
          else py_return ())
        (if f_succeeded f then py_done (case f_value f of Some (FOffsets offs) \<Rightarrow> offs | _ \<Rightarrow> [])
         else if f_is_done f \<and> \<not> f_retriable f then py_raise (the (f_exception f))
         else py_bind (expired_now w timer) (\<lambda>late.
           if late then py_raise KafkaTimeoutError else fetch_committed_loop w timer tps n))))))))"

definition fetch_committed_offsets :: "world \<Rightarrow> nat \<Rightarrow> topic_partition list \<Rightarrow> int option \<Rightarrow> (coord, committed option) py" where
  "fetch_committed_offsets w n tps limit =
     (if tps = [] then py_done []
      else py_bind (start_timer w limit) (\<lambda>timer. fetch_committed_loop w timer tps n))"

definition refresh_committed_offsets_if_needed :: "world \<Rightarrow> nat \<Rightarrow> int option \<Rightarrow> (coord, bool option) py" where
  "refresh_committed_offsets_if_needed w n limit s =
     (case fetch_committed_offsets w n (missing_fetch_positions (cc_subscription s)) limit s of
        (Inl e, t) \<Rightarrow> if issubclass e KafkaTimeoutError then (Inr (Some False), t) else (Inl e, t)
      | (Inr None, t) \<Rightarrow> (Inr None, t)
      | (Inr (Some offs), t) \<Rightarrow>
          py_then (on_subscription (py_for (\<lambda>(tp, om). seek tp (OffsetInt (om_offset om))) offs)) (py_done True) t)"

section \<open>Joining\<close>

definition initiate_join_group :: "world \<Rightarrow> (coord, nat) py" where
  "initiate_join_group w =
     py_bind (py_get cc_join_future) (\<lambda>f.
       case f of
         Some i \<Rightarrow> py_return i
       | None \<Rightarrow>
           py_then (py_set (\<lambda>s. s\<lparr>cc_state := REBALANCING\<rparr>))
          (py_bind (send_join_group_request w) (\<lambda>i.
           py_then (py_set (\<lambda>s. s\<lparr>cc_join_future := Some i\<rparr>))
          (py_then (add_callback_with (run_leaf w) i HandleJoinSuccess)
          (py_then (add_errback_with (run_leaf w) i HandleJoinFailure) (py_return i))))))"

definition notify_revoked :: "(coord, unit) py" where
  "notify_revoked =
     py_when (\<lambda>s. rebalance_listener (cc_subscription s) \<noteq> None)
      (py_bind (py_get (\<lambda>s. map fst (assignment (cc_subscription s)))) (\<lambda>tps. tell_client (ActRevoked tps)))"

definition on_join_prepare :: "world \<Rightarrow> nat \<Rightarrow> int option \<Rightarrow> (coord, unit option) py" where
  "on_join_prepare w n limit =
     py_obind (maybe_auto_commit_offsets_sync w n limit) (\<lambda>_.
     py_then notify_revoked
    (py_then (py_set (\<lambda>s. s\<lparr>cc_is_leader := False\<rparr>))
    (py_then (on_subscription reset_group_subscription) (py_done ()))))"

text \<open>A ValueError of the assignment, a topic no longer subscribed to, asks for another join.\<close>

definition assign_or_rejoin :: "world \<Rightarrow> topic_partition list \<Rightarrow> (coord, unit) py" where
  "assign_or_rejoin w tps =
     py_bind (ask w vw_shuffle) (\<lambda>shuffle s.
       case on_subscription (assign_from_subscribed shuffle tps) s of
         (Inl e, t) \<Rightarrow> if issubclass e ValueError then request_rejoin t else (Inl e, t)
       | x \<Rightarrow> x)"

definition on_join_complete :: "world \<Rightarrow> pystr option \<Rightarrow> bytes \<Rightarrow> (coord, unit) py" where
  "on_join_complete w protocol data =
     py_then (py_when (\<lambda>s. \<not> cc_is_leader s) (py_set (\<lambda>s. s\<lparr>cc_assignment_snapshot := None\<rparr>)))
    (py_then (py_assert (\<lambda>s. (case protocol of None \<Rightarrow> False | Some p \<Rightarrow> lookup_assignor s p \<noteq> None)))
    (py_bind (py_lift (Struct_decode ConsumerProtocolMemberAssignment data)) (\<lambda>(obj, _).
     py_bind (py_lift (assignment_partitions obj)) (\<lambda>tps.
     py_then (assign_or_rejoin w tps)
    (py_bind (ask w vw_now) (\<lambda>now.
     py_then (py_set (\<lambda>s. s\<lparr>cc_next_auto_commit_deadline := Some (now + cc_auto_commit_interval_ms s)\<rparr>))
       (py_when (\<lambda>s. rebalance_listener (cc_subscription s) \<noteq> None)
         (py_bind (py_get (\<lambda>s. map fst (assignment (cc_subscription s)))) (\<lambda>assigned. tell_client (ActAssigned assigned))))))))))"

datatype join_result = Joined | NotJoined | NoResult

datatype idle_result = Idle | CoordinatorLost | TimedOut

text \<open>Wait until no request to the coordinator is in flight.\<close>

primrec await_idle :: "world \<Rightarrow> timer \<Rightarrow> nat \<Rightarrow> (coord, idle_result option) py" where
  "await_idle w timer 0 = py_return None"
| "await_idle w timer (Suc n) =
     py_bind (coordinator w) (\<lambda>c.
       case c of
         None \<Rightarrow> py_done CoordinatorLost
       | Some node \<Rightarrow>
           py_bind (ask w (\<lambda>v. vw_in_flight_request_count v node)) (\<lambda>k.
             if k = 0 then py_done Idle
             else py_then (main_poll w) (py_bind (expired_now w timer) (\<lambda>late.
               if late then py_done TimedOut else await_idle w timer n))))"

definition prepare_join :: "world \<Rightarrow> nat \<Rightarrow> timer \<Rightarrow> (coord, unit option) py" where
  "prepare_join w n timer =
     py_if cc_rejoining (py_done ())
      (py_bind (time_left w timer) (\<lambda>left.
       py_obind (on_join_prepare w n left) (\<lambda>_.
       py_then (py_set (\<lambda>s. s\<lparr>cc_rejoining := True\<rparr>)) (py_then disable_heartbeat_thread (py_done ())))))"

text \<open>The end of a JoinGroup attempt; None asks for another round.\<close>

definition join_outcome :: "world \<Rightarrow> timer \<Rightarrow> nat \<Rightarrow> (coord, join_result option) py" where
  "join_outcome w timer i =
     py_bind (future_of i) (\<lambda>f.
       if \<not> f_is_done f then py_return (Some NotJoined)
       else
         py_then reset_join_group_future
          (if f_succeeded f then
             py_then (py_set (\<lambda>s. s\<lparr>cc_rejoining := False, cc_rejoin_needed := False\<rparr>))
            (py_bind (py_get (\<lambda>s. gn_protocol (cc_generation s))) (\<lambda>protocol.
               py_then (on_join_complete w protocol (case f_value f of Some (FBytes b) \<Rightarrow> b | _ \<Rightarrow> []))
                 (py_return (Some Joined))))
           else
             let e = the (f_exception f) in
             if issubclass e UnknownMemberIdError \<or> issubclass e RebalanceInProgressError
                \<or> issubclass e IllegalGenerationError \<or> issubclass e MemberIdRequiredError
             then py_return None
             else if \<not> f_retriable f then py_raise e
             else py_bind (expired_now w timer) (\<lambda>late. py_return (if late then Some NotJoined else None))))"

definition join_attempt :: "world \<Rightarrow> timer \<Rightarrow> (coord, join_result option) py" where
  "join_attempt w timer =
     py_bind (initiate_join_group w) (\<lambda>i. py_then (main_poll w) (join_outcome w timer i))"

primrec join_loop :: "world \<Rightarrow> timer \<Rightarrow> nat \<Rightarrow> (coord, join_result option) py" where
  "join_loop w timer 0 = py_return None"
| "join_loop w timer (Suc n) =
     py_if (\<lambda>s. \<not> need_rejoin s) (py_done NoResult)
      (py_bind (time_left w timer) (\<lambda>left.
       py_obind (ensure_coordinator_ready w n left) (\<lambda>ready.
         if \<not> ready then py_done NotJoined
         else
           py_obind (prepare_join w n timer) (\<lambda>_.
           py_obind (await_idle w timer n) (\<lambda>idle.
             case idle of
               TimedOut \<Rightarrow> py_done NotJoined
             | CoordinatorLost \<Rightarrow> join_loop w timer n
             | Idle \<Rightarrow> py_bind (join_attempt w timer) (\<lambda>r. case r of Some x \<Rightarrow> py_done x | None \<Rightarrow> join_loop w timer n))))))"

definition join_group :: "world \<Rightarrow> nat \<Rightarrow> int option \<Rightarrow> (coord, join_result option) py" where
  "join_group w n limit =
     py_if (\<lambda>s. \<not> version_ge (cc_api_version s) [0, 9]) (py_raise UnsupportedVersionError)
      (py_bind (start_timer w limit) (\<lambda>timer. join_loop w timer n))"

definition ensure_active_group :: "world \<Rightarrow> nat \<Rightarrow> int option \<Rightarrow> (coord, join_result option) py" where
  "ensure_active_group w n limit =
     py_if (\<lambda>s. \<not> version_ge (cc_api_version s) [0, 9]) (py_raise UnsupportedVersionError)
      (py_bind (start_timer w limit) (\<lambda>timer.
       py_bind (time_left w timer) (\<lambda>left.
       py_obind (ensure_coordinator_ready w n left) (\<lambda>ready.
         if \<not> ready then py_done NotJoined
         else py_then start_heartbeat_thread (py_bind (time_left w timer) (\<lambda>left. join_group w n left))))))"

section \<open>Polling and closing\<close>

definition poll_body :: "world \<Rightarrow> nat \<Rightarrow> int option \<Rightarrow> (coord, bool option) py" where
  "poll_body w n limit =
     py_bind (start_timer w limit) (\<lambda>timer.
     py_then (invoke_completed_offset_commit_callbacks w)
    (py_bind (time_left w timer) (\<lambda>left.
     py_obind (ensure_coordinator_ready w n left) (\<lambda>ready.
       if \<not> ready then py_done False
       else
         py_obind
           (py_if (\<lambda>s. version_ge (cc_api_version s) [0, 9] \<and> partitions_auto_assigned (cc_subscription s))
             (py_obind
               (py_if need_rejoin
                 (py_obind
                   (py_if (\<lambda>s. subscribed_pattern (cc_subscription s) \<noteq> None)
                     (py_bind (on_cluster request_update) (\<lambda>u.
                        py_then (main_poll w) (py_get (\<lambda>s. Some (future_is_done (cc_cluster s) u)))))
                     (py_done True))
                   (\<lambda>fresh. if \<not> fresh then py_done False
                     else py_bind (time_left w timer) (\<lambda>left.
                       py_obind (ensure_active_group w n left) (\<lambda>r. py_done (r = Joined)))))
                 (py_done True))
               (\<lambda>active. if \<not> active then py_done False else py_then (poll_heartbeat w) (py_done True)))
             (py_done True))
           (\<lambda>go. if \<not> go then py_done False
                 else py_then (maybe_auto_commit_offsets_async w) (py_done True))))))"

definition coordinator_poll :: "world \<Rightarrow> nat \<Rightarrow> int option \<Rightarrow> (coord, bool option) py" where
  "coordinator_poll w n limit s =
     (if cc_group_id s = None then (Inr (Some True), s)
      else (case poll_body w n limit s of
              (Inl e, t) \<Rightarrow> if issubclass e KafkaTimeoutError then (Inr (Some False), t) else (Inl e, t)
            | x \<Rightarrow> x))"

text \<open>The time until the next call of \<open>poll\<close>, None when there is nothing to wait for.\<close>

definition time_to_next_poll :: "world \<Rightarrow> (coord, int option) py" where
  "time_to_next_poll w =
     py_if (\<lambda>s. \<not> cc_enable_auto_commit s) (coord_time_to_next_heartbeat w)
      (py_bind (ask w vw_now) (\<lambda>now s.
         case cc_next_auto_commit_deadline s of
           None \<Rightarrow> (Inl TypeError, s)
         | Some d \<Rightarrow>
             if now > d then (Inr (Some 0), s)
             else py_bind (coord_time_to_next_heartbeat w) (\<lambda>t.
               py_return (Some (case t of None \<Rightarrow> d - now | Some x \<Rightarrow> min (d - now) x))) s))"

definition base_close :: "world \<Rightarrow> (coord, unit) py" where
  "base_close w =
     py_then close_heartbeat_thread
       (py_when (\<lambda>s. version_ge (cc_api_version s) [0, 9]) (maybe_leave_group w))"

definition coordinator_close :: "world \<Rightarrow> nat \<Rightarrow> bool \<Rightarrow> int option \<Rightarrow> (coord, unit option) py" where
  "coordinator_close w n autocommit limit =
     py_obind (if autocommit then maybe_auto_commit_offsets_sync w n limit else py_done ()) (\<lambda>_.
       py_then (base_close w) (py_done ()))"

section \<open>Construction\<close>

definition ConsumerCoordinator ::
  "int \<Rightarrow> pystr option \<Rightarrow> int list \<Rightarrow> int \<Rightarrow> int \<Rightarrow> int \<Rightarrow> int \<Rightarrow> bool \<Rightarrow> int \<Rightarrow> nat option \<Rightarrow>
     assignor_class list \<Rightarrow> bool \<Rightarrow> nat \<Rightarrow> subscription_state \<Rightarrow> cluster \<Rightarrow> coord res" where
  "ConsumerCoordinator now grp version session interval max_poll backoff auto_commit auto_interval callback assignors
       exclude_internal listener sub cl =
     res_bind (require (version_ge version [0, 10, 1] \<or> max_poll = session) KafkaConfigurationError) (\<lambda>_.
     res_bind (Heartbeat now grp interval session max_poll backoff) (\<lambda>hb.
     res_bind (require (grp = None \<or> \<not> version_ge version [0, 9] \<or> assignors \<noteq> []) KafkaConfigurationError) (\<lambda>_.
     let enabled = auto_commit \<and> version_ge version [0, 8, 1] \<and> grp \<noteq> None;
         cl' = snd (add_listener listener (snd (request_update cl)))
     in Inr \<lparr>cc_group_id = grp, cc_session_timeout_ms = session, cc_max_poll_interval_ms = max_poll,
          cc_retry_backoff_ms = backoff, cc_api_version = version, cc_enable_auto_commit = enabled,
          cc_auto_commit_interval_ms = auto_interval, cc_default_callback = callback, cc_assignors = assignors,
          cc_exclude_internal_topics = exclude_internal, cc_heartbeat = hb, cc_heartbeat_thread = None,
          cc_rejoin_needed = True, cc_rejoining = False, cc_state = UNJOINED, cc_join_future = None,
          cc_coordinator_id = None, cc_find_coordinator_future = None, cc_generation = NO_GENERATION,
          cc_subscription = sub, cc_cluster = cl', cc_is_leader = False, cc_joined_subscription = [],
          cc_metadata_snapshot = build_metadata_snapshot sub cl, cc_assignment_snapshot = None,
          cc_next_auto_commit_deadline = (if enabled then Some (now + auto_interval) else None),
          cc_completed_offset_commits = [], cc_offset_fetch_futures = [], cc_futures = [], cc_pending = [],
          cc_next_request = 0, cc_tick = 0, cc_actions = []\<rparr>)))"

text \<open>The assignors whose classes are modelled.\<close>

definition range_class :: assignor_class where
  "range_class = \<lparr>as_name = pystr_of ''range'', as_version = 0, as_metadata = assignor_metadata 0,
     as_assign = (\<lambda>cl ms. case range_assign cl ms of None \<Rightarrow> Inl RuntimeError | Some a \<Rightarrow> Inr a)\<rparr>"

definition roundrobin_class :: assignor_class where
  "roundrobin_class = \<lparr>as_name = pystr_of ''roundrobin'', as_version = 0, as_metadata = assignor_metadata 0,
     as_assign = (\<lambda>cl ms. case roundrobin_assign cl ms of None \<Rightarrow> Inl RuntimeError | Some a \<Rightarrow> Inr a)\<rparr>"

end
