(* ===== verification/Coordinator_Invariant.thy ===== *)
theory Coordinator_Invariant
  imports Consumer_Coordinator
begin

text \<open>
  The invariant of the group coordinator's requests and futures: a request in flight has a future of its own
  that is not done, and a recorded coordinator lookup is in flight and will clear itself.  Every operation, in
  any world and whatever the heartbeat thread does, keeps it.
\<close>

section \<open>The invariant\<close>

fun kind_future :: "pending_kind \<Rightarrow> nat list" where
  "kind_future (PendingFindCoordinator i) = [i]"
| "kind_future (PendingJoin i) = [i]"
| "kind_future (PendingSync i) = [i]"
| "kind_future (PendingHeartbeat i) = [i]"
| "kind_future PendingLeave = []"
| "kind_future (PendingCommit offs i) = [i]"
| "kind_future (PendingOffsetFetch i) = [i]"

definition pending_futures :: "pending_request list \<Rightarrow> nat list" where
  "pending_futures ps = concat (map (\<lambda>p. kind_future (pq_kind p)) ps)"

definition chain_targets :: "(fut_value, cc_callback) future \<Rightarrow> nat set" where
  "chain_targets f = {j. ChainTo j \<in> set (f_callbacks f) \<union> set (f_errbacks f)}"

definition requests_ok :: "pending_request list \<Rightarrow> nat \<Rightarrow> (fut_value, cc_callback) future list \<Rightarrow> bool" where
  "requests_ok ps k fs \<longleftrightarrow>
     distinct (map pq_id ps) \<and> (\<forall>p \<in> set ps. pq_id p < k) \<and> distinct (pending_futures ps) \<and>
     (\<forall>i \<in> set (pending_futures ps). i < length fs \<and> \<not> f_is_done (fs ! i))"

text \<open>Futures outside of any request: given ones, and those another future is chained to.\<close>

definition detached :: "nat set \<Rightarrow> pending_request list \<Rightarrow> (fut_value, cc_callback) future list \<Rightarrow> bool" where
  "detached C ps fs \<longleftrightarrow> (\<forall>j \<in> C \<union> (\<Union>f \<in> set fs. chain_targets f). j < length fs \<and> j \<notin> set (pending_futures ps))"

definition looked_up :: "nat \<Rightarrow> pending_request list \<Rightarrow> (fut_value, cc_callback) future list \<Rightarrow> bool" where
  "looked_up k ps fs \<longleftrightarrow> PendingFindCoordinator k \<in> set (map pq_kind ps) \<and>
     ResetFindCoordinatorFuture \<in> set (f_callbacks (fs ! k)) \<and> ResetFindCoordinatorFuture \<in> set (f_errbacks (fs ! k))"

definition cinv :: "nat set \<Rightarrow> nat set \<Rightarrow> coord \<Rightarrow> bool" where
  "cinv D C s \<longleftrightarrow>
     requests_ok (cc_pending s) (cc_next_request s) (cc_futures s) \<and>
     detached C (cc_pending s) (cc_futures s) \<and>
     (\<forall>k. cc_find_coordinator_future s = Some k \<longrightarrow> k \<in> D \<or> looked_up k (cc_pending s) (cc_futures s))"

definition coord_inv :: "coord \<Rightarrow> bool" where
  "coord_inv s \<longleftrightarrow> cinv {} {} s"

lemma detachedD:
  "detached C ps fs \<Longrightarrow> j \<in> C \<Longrightarrow> j < length fs \<and> j \<notin> set (pending_futures ps)"
  "detached C ps fs \<Longrightarrow> f \<in> set fs \<Longrightarrow> j \<in> chain_targets f \<Longrightarrow> j < length fs \<and> j \<notin> set (pending_futures ps)"
  unfolding detached_def by blast+

lemma cinv_mono: "cinv D C s \<Longrightarrow> D \<subseteq> D' \<Longrightarrow> C' \<subseteq> C \<Longrightarrow> cinv D' C' s"
  by (auto simp: cinv_def detached_def)

lemma looked_up_pending: "looked_up k ps fs \<Longrightarrow> k \<in> set (pending_futures ps)"
  by (auto simp: looked_up_def pending_futures_def) (metis kind_future.simps(1) list.set_intros(1))

section \<open>Rules\<close>

declare keeps_case_option [keeps_rules]

lemma keeps_case_prod [keeps_rules]: "(\<And>a b. x = (a, b) \<Longrightarrow> keeps I (f a b)) \<Longrightarrow> keeps I (case x of (a, b) \<Rightarrow> f a b)"
  by (cases x) simp

lemma keeps_Let [keeps_rules]: "(\<And>x. x = a \<Longrightarrow> keeps I (f x)) \<Longrightarrow> keeps I (let x = a in f x)"
  by simp

lemma keeps_ask [keeps_rules]: "keeps (cinv D C) (ask w f)"
  by (simp add: keeps_def ask_def cinv_def)

lemma keeps_suppress [keeps_rules]: "keeps I m \<Longrightarrow> keeps I (suppress m)"
  by (simp add: keeps_def suppress_def)

lemma keeps_on_subscription [keeps_rules]: "keeps (cinv D C) (on_subscription m)"
  by (rule keepsI) (auto simp: on_subscription_def cinv_def split: prod.splits)

lemma keeps_on_cluster [keeps_rules]: "keeps (cinv D C) (on_cluster m)"
  by (rule keepsI) (auto simp: on_cluster_def cinv_def split: prod.splits)

lemma keeps_state_case [keeps_rules]:
  "(\<And>x. keeps I (\<lambda>s. g x s)) \<Longrightarrow> keeps I (\<lambda>s. case h s of Inl e \<Rightarrow> (Inl e, s) | Inr x \<Rightarrow> g x s)"
  by (auto simp: keeps_def split: sum.splits)

lemma keeps_tell [keeps_rules]: "keeps (cinv D C) (tell_client a)"
  by (rule keepsI) (simp add: tell_client_def py_defs cinv_def)

lemma keeps_on_heartbeat [keeps_rules]: "keeps (cinv D C) (on_heartbeat w f)"
  unfolding on_heartbeat_def by (intro keeps_rules) (simp add: cinv_def)

lemma keeps_future_of [keeps_rules]: "keeps (cinv D C) (future_of i)"
  unfolding future_of_def by (intro keeps_rules)

lemmas leaf_defs = coordinator_dead_def reset_generation_def request_rejoin_def reset_join_group_future_def
  set_thread_def thread_enable_def thread_disable_def start_heartbeat_thread_def disable_heartbeat_thread_def
  close_heartbeat_thread_def handle_join_success_def handle_join_failure_def handle_heartbeat_success_def
  append_completed_def

lemma keeps_leaves [keeps_rules]:
  "keeps (cinv D C) coordinator_dead" "keeps (cinv D C) (reset_generation m)" "keeps (cinv D C) request_rejoin"
  "keeps (cinv D C) reset_join_group_future" "keeps (cinv D C) thread_disable" "keeps (cinv D C) (thread_enable w)"
  "keeps (cinv D C) start_heartbeat_thread" "keeps (cinv D C) disable_heartbeat_thread"
  "keeps (cinv D C) close_heartbeat_thread" "keeps (cinv D C) (handle_join_success w)"
  "keeps (cinv D C) handle_join_failure" "keeps (cinv D C) (handle_heartbeat_success w)"
  "keeps (cinv D C) (append_completed cb offs out)"
  unfolding leaf_defs by (intro keeps_rules; simp add: cinv_def)+

lemma keeps_heartbeat_failure [keeps_rules]: "keeps (cinv D C) (handle_heartbeat_failure w e)"
  unfolding handle_heartbeat_failure_def by (intro keeps_rules) (simp add: cinv_def)

lemma keeps_reset_find [keeps_rules]: "keeps (cinv D C) reset_find_coordinator_future"
  unfolding reset_find_coordinator_future_def by (intro keeps_rules) (simp add: cinv_def)

lemma keeps_run_leaf [keeps_rules]: "keeps (cinv D C) (run_leaf w c)"
  by (cases "(w, c)" rule: run_leaf.cases) (simp_all, (intro keeps_rules)+)

section \<open>Futures\<close>

lemma cinv_new_future:
  assumes "cinv D C s" "chain_targets f = {}"
  shows "cinv D C (s\<lparr>cc_futures := cc_futures s @ [f]\<rparr>)"
proof -
  have d: "detached C (cc_pending s) (cc_futures s)" and r: "requests_ok (cc_pending s) (cc_next_request s) (cc_futures s)"
    using assms(1) by (auto simp: cinv_def)
  have "detached C (cc_pending s) (cc_futures s @ [f])"
    unfolding detached_def
  proof
    fix j assume "j \<in> C \<union> \<Union> (chain_targets ` set (cc_futures s @ [f]))"
    then have "j \<in> C \<union> \<Union> (chain_targets ` set (cc_futures s))" using assms(2) by simp
    then show "j < length (cc_futures s @ [f]) \<and> j \<notin> set (pending_futures (cc_pending s))"
      using d by (fastforce simp: detached_def dest: bspec)
  qed
  moreover have "requests_ok (cc_pending s) (cc_next_request s) (cc_futures s @ [f])"
    using r by (auto simp: requests_ok_def nth_append)
  moreover have "looked_up k (cc_pending s) (cc_futures s @ [f])" if "looked_up k (cc_pending s) (cc_futures s)" for k
    using that looked_up_pending [OF that] r by (auto simp: looked_up_def requests_ok_def nth_append)
  ultimately show ?thesis using assms(1) by (auto simp: cinv_def)
qed

lemma keeps_new_future [keeps_rules]: "keeps (cinv D C) new_future"
  by (rule keepsI) (auto simp: new_future_def Future_def chain_targets_def intro: cinv_new_future)

text \<open>Completing a future that belongs to no request, and what its callbacks may do.\<close>

fun call_target :: "call \<Rightarrow> nat set" where
  "call_target (Callback (ChainTo j) v) = {j}"
| "call_target (Errback (ChainTo j) e) = {j}"
| "call_target _ = {}"

definition runs_ok :: "(call \<Rightarrow> (coord, unit) py) \<Rightarrow> bool" where
  "runs_ok run \<longleftrightarrow> (\<forall>D C c. call_target c \<subseteq> C \<longrightarrow> keeps (cinv D C) (run c))"

lemma runs_ok_leaf: "runs_ok (run_leaf w)"
  by (simp add: runs_ok_def keeps_run_leaf)

lemma runs_ok_skip: "runs_ok (\<lambda>_. py_return ())"
  by (simp add: runs_ok_def)

lemma keeps_run_calls:
  assumes "runs_ok run" "\<And>c. c \<in> set calls \<Longrightarrow> call_target c \<subseteq> C"
  shows "keeps (cinv D C) (run_calls run calls)"
  unfolding run_calls_def using assms by (intro keeps_rules) (simp add: runs_ok_def)

text \<open>A step on one future keeps the invariant if it only adds callbacks, or completes a detached future.\<close>

definition grows :: "(fut_value, cc_callback) future \<Rightarrow> (fut_value, cc_callback) future \<Rightarrow> bool" where
  "grows f g \<longleftrightarrow> set (f_callbacks f) \<subseteq> set (f_callbacks g) \<and> set (f_errbacks f) \<subseteq> set (f_errbacks g)"

lemma cinv_update_future:
  assumes "cinv D C s" "grows (cc_futures s ! i) g" "chain_targets g \<subseteq> C \<union> chain_targets (cc_futures s ! i)"
    and "f_is_done g = f_is_done (cc_futures s ! i) \<or> i \<in> C"
  shows "cinv D C (s\<lparr>cc_futures := (cc_futures s)[i := g]\<rparr>)"
proof (cases "i < length (cc_futures s)")
  case True
  let ?fs = "cc_futures s" and ?gs = "(cc_futures s)[i := g]"
  have d: "detached C (cc_pending s) ?fs" and r: "requests_ok (cc_pending s) (cc_next_request s) ?fs"
    using assms(1) by (auto simp: cinv_def)
  have "(\<Union>f \<in> set ?gs. chain_targets f) \<subseteq> C \<union> (\<Union>f \<in> set ?fs. chain_targets f)"
    using assms(3) True by (fastforce simp: set_conv_nth nth_list_update split: if_splits)
  with d have "detached C (cc_pending s) ?gs" unfolding detached_def length_list_update by blast
  moreover have "requests_ok (cc_pending s) (cc_next_request s) ?gs"
  proof -
    have "i \<notin> set (pending_futures (cc_pending s))" if "i \<in> C" using d that by (auto simp: detached_def)
    then have "f_is_done (?gs ! k) = f_is_done (?fs ! k)" if "k \<in> set (pending_futures (cc_pending s))" for k
      using that assms(4) True by (cases "k = i") auto
    then show ?thesis using r by (simp add: requests_ok_def)
  qed
  moreover have "looked_up k (cc_pending s) ?gs" if "looked_up k (cc_pending s) ?fs" for k
    using that assms(2) True by (auto simp: looked_up_def nth_list_update grows_def)
  ultimately show ?thesis using assms(1) by (auto simp: cinv_def)
qed (use assms(1) in \<open>simp add: cinv_def list_update_beyond\<close>)

lemma in_call_target: "j \<in> call_target (Callback c v) \<longleftrightarrow> c = ChainTo j" "j \<in> call_target (Errback c e) \<longleftrightarrow> c = ChainTo j"
  by (cases c; auto)+

lemma future_calls_targets:
  "fst (f_success v f) = Inr cs \<Longrightarrow> c \<in> set cs \<Longrightarrow> call_target c \<subseteq> chain_targets f"
  "fst (f_failure e f) = Inr cs \<Longrightarrow> c \<in> set cs \<Longrightarrow> call_target c \<subseteq> chain_targets f"
  by (auto simp: future_defs chain_targets_def in_call_target split: if_splits)

lemma future_steps:
  "f_callbacks (snd (f_success v f)) = f_callbacks f" "f_errbacks (snd (f_success v f)) = f_errbacks f"
  "f_callbacks (snd (f_failure e f)) = f_callbacks f" "f_errbacks (snd (f_failure e f)) = f_errbacks f"
  by (simp_all add: future_defs)

definition completion :: "outcome \<Rightarrow> ((fut_value, cc_callback) future, call list) py" where
  "completion out = (case out of Success v \<Rightarrow> f_success v | Failure e \<Rightarrow> f_failure e)"

lemma completion_facts:
  "f_callbacks (snd (completion out f)) = f_callbacks f" "f_errbacks (snd (completion out f)) = f_errbacks f"
  "fst (completion out f) = Inr cs \<Longrightarrow> c \<in> set cs \<Longrightarrow> call_target c \<subseteq> chain_targets f"
  using future_calls_targets by (cases out; simp add: completion_def future_steps)+

lemma complete_with_completion:
  "complete_with run i out s = (case completion out (cc_futures s ! i) of
     (Inl e, f) \<Rightarrow> (Inl e, s\<lparr>cc_futures := (cc_futures s)[i := f]\<rparr>)
   | (Inr cs, f) \<Rightarrow> run_calls run cs (s\<lparr>cc_futures := (cc_futures s)[i := f]\<rparr>))"
  by (cases out) (auto simp: complete_with_def completion_def on_future_def py_bind_def split: prod.splits sum.splits)

lemma keeps_complete_with:
  assumes run: "runs_ok run" and "i \<in> C"
  shows "keeps (cinv D C) (complete_with run i out)"
proof (rule keepsI)
  fix s assume s: "cinv D C s"
  let ?f = "cc_futures s ! i"
  obtain r g where g: "completion out ?f = (r, g)" by (cases "completion out ?f")
  let ?s = "s\<lparr>cc_futures := (cc_futures s)[i := g]\<rparr>" and ?C = "C \<union> chain_targets ?f"
  have len: "i < length (cc_futures s)" using s assms(2) by (auto simp: cinv_def detached_def)
  have "cinv D ?C s" using s len by (auto simp: cinv_def detached_def)
  moreover have cb: "f_callbacks g = f_callbacks ?f" "f_errbacks g = f_errbacks ?f"
    using completion_facts(1,2) [of out ?f] g by simp_all
  ultimately have t: "cinv D ?C ?s"
    using assms(2) by (intro cinv_update_future) (auto simp: grows_def chain_targets_def)
  show "cinv D C (snd (complete_with run i out s))"
  proof (cases r)
    case (Inr cs)
    have "keeps (cinv D ?C) (run_calls run cs)"
      using completion_facts(3) [of out ?f cs] g Inr by (intro keeps_run_calls [OF run]) auto
    with t have "cinv D ?C (snd (run_calls run cs ?s))" by (simp add: keeps_def)
    with g Inr show ?thesis by (auto simp: complete_with_completion elim: cinv_mono)
  qed (use t g in \<open>auto simp: complete_with_completion elim: cinv_mono\<close>)
qed

lemma keeps_add_callbacks:
  assumes "runs_ok run" "\<And>j. c = ChainTo j \<Longrightarrow> j \<in> C"
  shows "keeps (cinv D C) (add_callback_with run i c)" "keeps (cinv D C) (add_errback_with run i c)"
    "keeps (cinv D C) (add_both_with run i c)"
proof -
  have calls: "keeps (cinv D C) (run_calls run cs)" if "\<And>x. x \<in> set cs \<Longrightarrow> call_target x \<subseteq> C" for cs
    by (rule keeps_run_calls [OF assms(1) that])
  have step: "cinv D C (snd (on_future i m s))"
    if "cinv D C s" "m = f_add_callback c \<or> m = f_add_errback c" for m s
    unfolding on_future_def using that assms(2)
    by (auto simp: future_defs grows_def chain_targets_def split: prod.splits if_splits intro!: cinv_update_future)
  have rt: "call_target x \<subseteq> C"
    if "fst (on_future i m s) = Inr cs" "x \<in> set cs" "m = f_add_callback c \<or> m = f_add_errback c" for m s cs x
    using that assms(2) by (auto simp: on_future_def future_defs in_call_target split: prod.splits if_splits)
  have bind: "keeps (cinv D C) (py_bind (on_future i m) (run_calls run))"
    if m: "m = f_add_callback c \<or> m = f_add_errback c" for m
  proof (rule keepsI)
    fix s assume s: "cinv D C s"
    obtain r t where on: "on_future i m s = (r, t)" by (cases "on_future i m s")
    have t: "cinv D C t" using step [OF s m] on by simp
    show "cinv D C (snd (py_bind (on_future i m) (run_calls run) s))"
    proof (cases r)
      case (Inr cs)
      have "keeps (cinv D C) (run_calls run cs)"
        by (rule calls) (rule rt [of m s], use on Inr m in auto)
      with t on Inr show ?thesis by (simp add: py_bind_def keeps_def)
    qed (use t on in \<open>simp add: py_bind_def\<close>)
  qed
  show add: "keeps (cinv D C) (add_callback_with run i c)" "keeps (cinv D C) (add_errback_with run i c)"
    unfolding add_callback_with_def add_errback_with_def by (rule bind, simp)+
  then show "keeps (cinv D C) (add_both_with run i c)" unfolding add_both_with_def by (rule keeps_then)
qed

lemma keeps_chain_with: "runs_ok run \<Longrightarrow> j \<in> C \<Longrightarrow> keeps (cinv D C) (chain_with run i j)"
  unfolding chain_with_def by (intro keeps_then keeps_add_callbacks) auto

section \<open>Requests\<close>

lemma fresh_future:
  assumes "cinv D C s"
  shows "cinv D (insert (length (cc_futures s)) C) (s\<lparr>cc_futures := cc_futures s @ [Future]\<rparr>)"
proof -
  have "cinv D C (s\<lparr>cc_futures := cc_futures s @ [Future]\<rparr>)"
    using assms by (rule cinv_new_future) (simp add: Future_def chain_targets_def)
  moreover have "length (cc_futures s) \<notin> set (pending_futures (cc_pending s))"
    using assms by (auto simp: cinv_def requests_ok_def)
  ultimately show ?thesis by (simp add: cinv_def detached_def)
qed

lemma keeps_bind_new_future:
  assumes "\<And>i. keeps (cinv D (insert i C)) (f i)"
  shows "keeps (cinv D C) (py_bind new_future f)"
proof (rule keepsI)
  fix s assume "cinv D C s"
  from fresh_future [OF this] have "cinv D (insert (length (cc_futures s)) C) (snd (py_bind new_future f s))"
    using assms [of "length (cc_futures s)"] by (auto simp: keeps_def new_future_def py_bind_def)
  then show "cinv D C (snd (py_bind new_future f s))" by (rule cinv_mono) auto
qed

lemma keeps_completed_future [keeps_rules]: "keeps (cinv D C) (completed_future out)"
  unfolding completed_future_def
  by (intro keeps_bind_new_future keeps_then keeps_complete_with runs_ok_skip keeps_return) simp

lemma keeps_failed_request:
  assumes "keeps (cinv D C) (complete i (Failure e))"
  shows "keeps (cinv D C) (failed_request complete i e)"
  unfolding failed_request_def by (intro keeps_rules assms)

lemma cinv_add_pending:
  assumes "cinv D C s" "\<not> f_is_done (cc_futures s ! i)" "kind_future kind = [i]"
    and "i < length (cc_futures s)" "i \<notin> C" "i \<notin> set (pending_futures (cc_pending s))"
    and "\<And>f. f \<in> set (cc_futures s) \<Longrightarrow> i \<notin> chain_targets f"
  shows "cinv D C (snd (add_pending n req kind s))"
proof -
  let ?p = "\<lparr>pq_id = cc_next_request s, pq_node = n, pq_request = req, pq_kind = kind\<rparr>"
  let ?ps = "cc_pending s @ [?p]"
  have fs: "pending_futures ?ps = pending_futures (cc_pending s) @ [i]"
    using assms(3) by (simp add: pending_futures_def)
  have "requests_ok ?ps (Suc (cc_next_request s)) (cc_futures s)"
    using assms by (auto simp: cinv_def requests_ok_def fs dest: bspec)
  moreover have "detached C ?ps (cc_futures s)"
    using assms(1,5,7) by (auto simp: cinv_def detached_def fs)
  moreover have "looked_up k ?ps (cc_futures s)" if "looked_up k (cc_pending s) (cc_futures s)" for k
    using that by (auto simp: looked_up_def)
  ultimately show ?thesis using assms(1) by (auto simp: cinv_def add_pending_def py_defs)
qed

definition owns_future :: "(nat \<Rightarrow> pending_kind) \<Rightarrow> bool" where
  "owns_future kind \<longleftrightarrow> (\<forall>i. kind_future (kind i) = [i])"

lemma owns_future_kinds [simp]:
  "owns_future PendingFindCoordinator" "owns_future PendingJoin" "owns_future PendingSync"
  "owns_future PendingHeartbeat" "owns_future (PendingCommit offs)" "owns_future PendingOffsetFetch"
  by (simp_all add: owns_future_def)

text \<open>The request is in flight, or its future is done already.\<close>

lemma send_with_future_result:
  assumes s: "cinv D C s" and kind: "owns_future kind"
  shows "\<exists>t. send_with_future w n req kind s = (Inr (length (cc_futures s)), t) \<and> cinv D C t \<and>
    cc_find_coordinator_future t = cc_find_coordinator_future s \<and> length (cc_futures s) < length (cc_futures t) \<and>
    (f_is_done (cc_futures t ! length (cc_futures s)) \<or> kind (length (cc_futures s)) \<in> pq_kind ` set (cc_pending t))"
proof -
  let ?i = "length (cc_futures s)"
  let ?s = "s\<lparr>cc_futures := cc_futures s @ [Future], cc_tick := Suc (cc_tick s)\<rparr>"
  have fresh: "cinv D (insert ?i C) ?s"
    using fresh_future [OF s] by (simp add: cinv_def)
  show ?thesis
  proof (cases "vw_send (w (cc_tick s)) n")
    case None
    have "f \<in> set (cc_futures s) \<Longrightarrow> ?i \<notin> chain_targets f" for f
      using detachedD(2) [of C "cc_pending s" "cc_futures s"] s unfolding cinv_def by blast
    then have "cinv D C (snd (add_pending n req (kind ?i) ?s))"
      using fresh s kind by (intro cinv_add_pending [where i = ?i])
        (auto simp: cinv_def detached_def owns_future_def Future_def chain_targets_def requests_ok_def)
    with None show ?thesis
      by (auto simp: send_with_future_def new_future_def ask_def py_defs add_pending_def)
  next
    case (Some e)
    let ?m = "failed_request (complete_with (\<lambda>_. py_return ())) ?i (refusal_error e)"
    have "keeps (cinv D (insert ?i C)) ?m"
      by (intro keeps_failed_request keeps_complete_with runs_ok_skip) simp
    with fresh have inv: "cinv D C (snd (?m ?s))" by (auto simp: keeps_def elim: cinv_mono)
    have "issubclass (refusal_error e) BaseException"
      by (cases e) (simp_all add: issubclass_def error_class_defs builtin_exn_defs)
    then have "f_is_done (cc_futures (snd (?m ?s)) ! ?i)"
      "cc_find_coordinator_future (snd (?m ?s)) = cc_find_coordinator_future s" "length (cc_futures (snd (?m ?s))) = Suc ?i"
      by (auto simp: failed_request_def complete_with_def on_future_def run_calls_def future_defs coordinator_dead_def
          Future_def nth_append)
    with Some inv show ?thesis
      by (auto simp: send_with_future_def new_future_def ask_def py_defs suppress_def)
  qed
qed

lemma keeps_send_with_future [keeps_rules]: "owns_future kind \<Longrightarrow> keeps (cinv D C) (send_with_future w n req kind)"
  by (rule keepsI) (metis send_with_future_result snd_conv)

lemma keeps_api_version [keeps_rules]: "keeps (cinv D C) (api_version w name k)"
  unfolding api_version_def by (intro keeps_rules)

lemma keeps_coordinator [keeps_rules]:
  "keeps (cinv D C) (coordinator w)" "keeps (cinv D C) (coordinator_unknown w)" "keeps (cinv D C) (connected w)"
  unfolding coordinator_unknown_def connected_def coordinator_def by (intro keeps_rules)+

lemma keeps_with_coordinator [keeps_rules]:
  "(\<And>n. keeps (cinv D C) (send n)) \<Longrightarrow> keeps (cinv D C) (with_coordinator w send)"
  unfolding with_coordinator_def by (intro keeps_rules)

lemma keeps_metadata_update [keeps_rules]: "keeps (cinv D C) (handle_metadata_update w)"
  unfolding handle_metadata_update_def update_pattern_subscription_def by (intro keeps_rules) (simp add: cinv_def)

lemma keeps_perform_assignment [keeps_rules]: "keeps (cinv D C) (perform_assignment p ms)"
  unfolding perform_assignment_def by (intro keeps_rules) (simp add: cinv_def)

lemma keeps_group_protocols [keeps_rules]: "keeps (cinv D C) group_protocols"
  unfolding group_protocols_def by (intro keeps_rules) (simp add: cinv_def)

lemma keeps_send_join [keeps_rules]: "keeps (cinv D C) (send_join_group_request w)"
  unfolding send_join_group_request_def by (intro keeps_rules owns_future_kinds)

lemma keeps_sync [keeps_rules]:
  "keeps (cinv D C) (send_sync_group_request w req)" "keeps (cinv D C) (sync_request w entries)"
  "keeps (cinv D C) (on_join_follower w)"
  unfolding on_join_follower_def send_sync_group_request_def sync_request_def by (intro keeps_rules owns_future_kinds)+

lemma keeps_on_join_leader [keeps_rules]: "keeps (cinv D C) (on_join_leader w r)"
proof (rule keepsI)
  fix s assume s: "cinv D C s"
  obtain x t where p: "perform_assignment (jr_group_protocol r) (jr_members r) s = (x, t)"
    by (cases "perform_assignment (jr_group_protocol r) (jr_members r) s")
  have t: "cinv D C t" by (rule keepsD [OF keeps_perform_assignment s p])
  have "keeps (cinv D C) (py_bind (py_lift y) (\<lambda>entries. py_bind (sync_request w entries) (send_sync_group_request w)))" for y
    by (intro keeps_rules)
  with t keeps_completed_future [of D C] show "cinv D C (snd (on_join_leader w r s))"
    by (cases x) (auto simp: on_join_leader_def p keeps_def)
qed

lemma keeps_send_heartbeat [keeps_rules]: "keeps (cinv D C) (send_heartbeat_request w)"
  unfolding send_heartbeat_request_def by (intro keeps_rules owns_future_kinds)

lemma keeps_send_offsets [keeps_rules]:
  "keeps (cinv D C) (send_offset_commit_request w offs)" "keeps (cinv D C) (send_offset_fetch_request w tps)"
  unfolding send_offset_commit_request_def send_offset_fetch_request_def by (intro keeps_rules owns_future_kinds)+

lemma keeps_do_commit [keeps_rules]: "keeps (cinv D C) (do_commit_offsets_async w offs cb)"
  unfolding do_commit_offsets_async_def by (intro keeps_rules keeps_add_callbacks runs_ok_leaf) simp_all

lemma runs_ok_callback: "runs_ok (run_callback w)"
  unfolding runs_ok_def
proof (intro allI impI)
  fix D C c assume c: "call_target c \<subseteq> C"
  then show "keeps (cinv D C) (run_callback w c)"
    by (cases "(w, c)" rule: run_callback.cases)
      (auto simp: keeps_run_leaf intro!: keeps_complete_with runs_ok_leaf keeps_then keeps_bind keeps_do_commit
        keeps_return keeps_case_option keeps_leaves simp del: run_leaf.simps)
qed

lemma keeps_complete_future: "i \<in> C \<Longrightarrow> keeps (cinv D C) (complete_future w i out)"
  unfolding complete_future_def by (rule keeps_complete_with [OF runs_ok_callback])

section \<open>Looking up the coordinator\<close>

lemma completed_future_result:
  assumes "completed_future out s = (Inr i, t)"
  shows "i = length (cc_futures s) \<and> f_is_done (cc_futures t ! i) \<and> length (cc_futures t) = Suc i \<and>
    cc_find_coordinator_future t = cc_find_coordinator_future s"
  using assms
  by (cases out) (auto simp: completed_future_def complete_with_def on_future_def run_calls_def new_future_def future_defs
      nth_append Future_def split: if_splits)

lemma send_group_coordinator_result:
  assumes s: "cinv D C s" and r: "send_group_coordinator_request w s = (Inr i, t)"
  shows "cinv D C t \<and> cc_find_coordinator_future t = cc_find_coordinator_future s \<and> i < length (cc_futures t) \<and>
    (f_is_done (cc_futures t ! i) \<or> PendingFindCoordinator i \<in> pq_kind ` set (cc_pending t))"
proof -
  have step: "cinv D C (s\<lparr>cc_tick := k\<rparr>)" for k using s by (simp add: cinv_def)
  have fut: "cinv D C t \<and> cc_find_coordinator_future t = cc_find_coordinator_future s \<and> i < length (cc_futures t) \<and>
      f_is_done (cc_futures t ! i)" if "completed_future out (s\<lparr>cc_tick := k\<rparr>) = (Inr i, t)" for out k
    using completed_future_result [OF that] keepsD [OF keeps_completed_future step that] by auto
  have snd: "cinv D C t \<and> cc_find_coordinator_future t = cc_find_coordinator_future s \<and> i < length (cc_futures t) \<and>
      (f_is_done (cc_futures t ! i) \<or> PendingFindCoordinator i \<in> pq_kind ` set (cc_pending t))"
    if "send_with_future w n req PendingFindCoordinator (s\<lparr>cc_tick := k\<rparr>) = (Inr i, t)" for n req k
    using send_with_future_result [OF step, of PendingFindCoordinator w n req k] that by auto
  show ?thesis using r
    by (auto simp: send_group_coordinator_request_def ask_def api_version_def py_bind_def py_get_def py_lift_def py_if_def Let_def
        dest: fut snd split: if_splits sum.splits)
qed

lemma keeps_send_group_coordinator [keeps_rules]: "keeps (cinv D C) (send_group_coordinator_request w)"
  unfolding send_group_coordinator_request_def by (intro keeps_rules owns_future_kinds)

lemma register_reset_done:
  assumes "f_is_done (cc_futures t ! i)"
  shows "snd (add_both_with (run_leaf w) i ResetFindCoordinatorFuture (t\<lparr>cc_find_coordinator_future := Some i\<rparr>)) =
    t\<lparr>cc_find_coordinator_future := None\<rparr>"
  using assms
  by (cases "f_exception (cc_futures t ! i)")
    (simp_all add: add_both_with_def add_callback_with_def add_errback_with_def on_future_def future_defs run_calls_def
      suppress_def reset_find_coordinator_future_def)

lemma register_reset_pending:
  assumes "\<not> f_is_done (cc_futures t ! i)" "i < length (cc_futures t)"
  shows "snd (add_both_with (run_leaf w) i ResetFindCoordinatorFuture (t\<lparr>cc_find_coordinator_future := Some i\<rparr>)) =
    t\<lparr>cc_futures := (cc_futures t)[i := (cc_futures t ! i)\<lparr>
        f_callbacks := f_callbacks (cc_futures t ! i) @ [ResetFindCoordinatorFuture],
        f_errbacks := f_errbacks (cc_futures t ! i) @ [ResetFindCoordinatorFuture]\<rparr>],
      cc_find_coordinator_future := Some i\<rparr>"
  using assms
  by (simp add: add_both_with_def add_callback_with_def add_errback_with_def on_future_def future_defs run_calls_def)

lemma keeps_coordinator_lookup [keeps_rules]: "keeps (cinv D C) (lookup_coordinator w)"
proof (rule keepsI)
  fix s assume s: "cinv D C s"
  show "cinv D C (snd (lookup_coordinator w s))"
  proof (cases "cc_find_coordinator_future s")
    case None
    obtain r t where send: "send_group_coordinator_request w s = (r, t)"
      by (cases "send_group_coordinator_request w s")
    have t: "cinv D C t" by (rule keepsD [OF keeps_send_group_coordinator s send])
    show ?thesis
    proof (cases r)
      case (Inr i)
      let ?t = "t\<lparr>cc_find_coordinator_future := Some i\<rparr>"
      have res: "cc_find_coordinator_future t = None" "i < length (cc_futures t)"
        "f_is_done (cc_futures t ! i) \<or> PendingFindCoordinator i \<in> pq_kind ` set (cc_pending t)"
        using send_group_coordinator_result [OF s] send Inr None by auto
      let ?add = "add_both_with (run_leaf w) i ResetFindCoordinatorFuture"
      have out: "snd (lookup_coordinator w s) = snd (?add ?t)"
        using None send Inr by (auto simp: lookup_coordinator_def py_defs split: prod.splits sum.splits)
      show ?thesis
      proof (cases "f_is_done (cc_futures t ! i)")
        case True
        then show ?thesis using t by (simp add: out register_reset_done cinv_def)
      next
        case False
        let ?f = "cc_futures t ! i"
        let ?g = "?f\<lparr>f_callbacks := f_callbacks ?f @ [ResetFindCoordinatorFuture],
          f_errbacks := f_errbacks ?f @ [ResetFindCoordinatorFuture]\<rparr>"
        have "cinv D C (t\<lparr>cc_futures := (cc_futures t)[i := ?g]\<rparr>)"
          by (rule cinv_update_future [OF t]) (auto simp: grows_def chain_targets_def)
        with False res show ?thesis by (auto simp: out register_reset_pending cinv_def looked_up_def)
      qed
    qed (use t None send in \<open>simp add: lookup_coordinator_def py_defs\<close>)
  qed (use s in \<open>simp add: lookup_coordinator_def py_defs\<close>)
qed

section \<open>Responses\<close>

lemma keeps_handle_join [keeps_rules]:
  assumes "i \<in> C"
  shows "keeps (cinv D C) (handle_join_group_response w i r)"
  unfolding handle_join_group_response_def
  by (intro keeps_rules keeps_complete_future [OF assms] keeps_chain_with [OF runs_ok_callback assms]) (simp add: cinv_def)

lemma keeps_handle_sync [keeps_rules]:
  "i \<in> C \<Longrightarrow> keeps (cinv D C) (handle_sync_group_response w i code data)"
  unfolding handle_sync_group_response_def by (intro keeps_rules keeps_complete_future)

lemma keeps_handle_heartbeat [keeps_rules]: "i \<in> C \<Longrightarrow> keeps (cinv D C) (handle_heartbeat_response w i code)"
  unfolding handle_heartbeat_response_def by (intro keeps_rules keeps_complete_future)

lemma keeps_scan_commit: "i \<in> C \<Longrightarrow> keeps (cinv D C) (scan_commit_response w offs i xs u)"
proof (induction xs arbitrary: u)
  case (Cons x xs)
  then show ?case
    unfolding scan_commit_response.simps by (intro keeps_rules) (auto intro!: keeps_rules keeps_complete_future)
qed simp

lemma keeps_handle_commit [keeps_rules]: "i \<in> C \<Longrightarrow> keeps (cinv D C) (handle_offset_commit_response w offs i ts)"
  unfolding handle_offset_commit_response_def by (intro keeps_rules keeps_scan_commit keeps_complete_future)

lemma keeps_scan_fetch: "i \<in> C \<Longrightarrow> keeps (cinv D C) (scan_fetch_response w i xs offs)"
proof (induction xs arbitrary: offs)
  case (Cons x xs)
  then show ?case
    unfolding scan_fetch_response.simps by (intro keeps_rules) (auto intro!: keeps_rules keeps_complete_future)
qed (simp add: keeps_complete_future)

lemma keeps_handle_fetch [keeps_rules]: "i \<in> C \<Longrightarrow> keeps (cinv D C) (handle_offset_fetch_response w i r)"
  unfolding handle_offset_fetch_response_def by (intro keeps_rules keeps_scan_fetch keeps_complete_future)

lemma keeps_handle_reply:
  assumes "set (kind_future kind) \<subseteq> C" "\<And>i. kind \<noteq> PendingFindCoordinator i"
  shows "keeps (cinv D C) (handle_reply w kind r)"
  using assms
  by (cases "(w, kind, r)" rule: handle_reply.cases)
    (auto intro!: keeps_failed_request keeps_complete_future keeps_handle_join keeps_handle_sync keeps_handle_heartbeat
      keeps_handle_commit keeps_handle_fetch)

section \<open>The end of a lookup\<close>

definition not_looking_up :: "nat \<Rightarrow> coord \<Rightarrow> bool" where
  "not_looking_up i s \<longleftrightarrow> cc_find_coordinator_future s \<noteq> Some i"

lemma keeps_on_future_nlu [keeps_rules]: "keeps (not_looking_up i) (on_future k m)"
  by (rule keepsI) (auto simp: on_future_def not_looking_up_def split: prod.splits)

lemma keeps_ask_nlu [keeps_rules]:
  "keeps (not_looking_up i) (ask w f)" "keeps (not_looking_up i) new_future" "keeps (not_looking_up i) (add_pending n req k)"
  "keeps (not_looking_up i) (on_heartbeat w g)" "keeps (not_looking_up i) reset_find_coordinator_future"
  by (auto simp: keeps_def ask_def new_future_def add_pending_def on_heartbeat_def py_defs not_looking_up_def
      reset_find_coordinator_future_def)

lemma keeps_leaves_nlu [keeps_rules]:
  "keeps (not_looking_up i) coordinator_dead" "keeps (not_looking_up i) (handle_join_success w)"
  "keeps (not_looking_up i) handle_join_failure" "keeps (not_looking_up i) (handle_heartbeat_success w)"
  "keeps (not_looking_up i) (append_completed cb offs out)" "keeps (not_looking_up i) (handle_heartbeat_failure w e)"
  unfolding leaf_defs handle_heartbeat_failure_def by (intro keeps_rules; simp add: not_looking_up_def)+

lemma keeps_run_leaf_nlu [keeps_rules]: "keeps (not_looking_up i) (run_leaf w c)"
  by (cases "(w, c)" rule: run_leaf.cases) (simp_all, (intro keeps_rules)+)

lemma keeps_run_calls_nlu [keeps_rules]:
  "(\<And>c. keeps (not_looking_up i) (run c)) \<Longrightarrow> keeps (not_looking_up i) (run_calls run cs)"
  unfolding run_calls_def by (intro keeps_rules)

lemma keeps_complete_nlu [keeps_rules]:
  "(\<And>c. keeps (not_looking_up i) (run c)) \<Longrightarrow> keeps (not_looking_up i) (complete_with run k out)"
  "(\<And>c. keeps (not_looking_up i) (run c)) \<Longrightarrow> keeps (not_looking_up i) (add_both_with run k b)"
  unfolding complete_with_def add_both_with_def add_callback_with_def add_errback_with_def by (intro keeps_rules; simp)+

lemma keeps_do_commit_nlu [keeps_rules]: "keeps (not_looking_up i) (do_commit_offsets_async w offs cb)"
  unfolding do_commit_offsets_async_def send_offset_commit_request_def with_coordinator_def coordinator_def
    completed_future_def send_with_future_def failed_request_def api_version_def
  by (intro keeps_rules)

lemma keeps_run_callback_nlu: "keeps (not_looking_up i) (run_callback w c)"
  by (cases "(w, c)" rule: run_callback.cases)
    (auto intro!: keeps_rules split: option.splits simp del: run_leaf.simps simp: keeps_run_leaf_nlu)

lemma for_establishes:
  assumes "\<And>x. x \<in> set xs \<Longrightarrow> keeps P (f x)" "\<And>x s. fst (f x s) = Inr ()" "\<exists>x \<in> set xs. \<forall>s. P (snd (f x s))"
  shows "P (snd (py_for f xs s))"
  using assms(1,3)
proof (induction xs arbitrary: s)
  case (Cons x xs)
  obtain t where f: "f x s = (Inr (), t)" using assms(2) [of x s] by (cases "f x s") auto
  have rest: "keeps P (py_for f xs)" using Cons.prems(1) by (intro keeps_for) simp
  show ?case
  proof (cases "\<forall>s. P (snd (f x s))")
    case True
    then have "P t" by (metis f snd_conv)
    with rest show ?thesis by (simp add: f py_bind_def keeps_def)
  next
    case False
    then have "\<exists>x \<in> set xs. \<forall>s. P (snd (f x s))" using Cons.prems(2) by auto
    then have "P (snd (py_for f xs t))" using Cons.prems(1) by (intro Cons.IH) auto
    then show ?thesis by (simp add: f py_bind_def)
  qed
qed simp

lemma completion_calls:
  assumes "\<not> f_is_done f" "\<And>e. out = Failure e \<Longrightarrow> issubclass e BaseException"
  shows "\<exists>g. completion out f = (Inr (case out of Success v \<Rightarrow> map (\<lambda>c. Callback c v) (f_callbacks f)
    | Failure e \<Rightarrow> map (\<lambda>c. Errback c e) (f_errbacks f)), g)"
  using assms by (cases out) (simp_all add: completion_def future_defs)

lemma complete_lookup:
  assumes s: "cinv (insert i D) (insert i C) s" and nd: "\<not> f_is_done (cc_futures s ! i)"
    and reg: "cc_find_coordinator_future s = Some i \<Longrightarrow> ResetFindCoordinatorFuture \<in> set (f_callbacks (cc_futures s ! i)) \<and>
      ResetFindCoordinatorFuture \<in> set (f_errbacks (cc_futures s ! i))"
    and out: "\<And>e. out = Failure e \<Longrightarrow> issubclass e BaseException"
  shows "cinv D C (snd (complete_future w i out s))"
proof -
  have "cinv (insert i D) (insert i C) (snd (complete_future w i out s))"
    using keeps_complete_future [of i "insert i C"] s by (simp add: keeps_def)
  moreover have "not_looking_up i (snd (complete_future w i out s))"
  proof (cases "cc_find_coordinator_future s = Some i")
    case True
    obtain g where g: "completion out (cc_futures s ! i) = (Inr (case out of
        Success v \<Rightarrow> map (\<lambda>c. Callback c v) (f_callbacks (cc_futures s ! i))
      | Failure e \<Rightarrow> map (\<lambda>c. Errback c e) (f_errbacks (cc_futures s ! i))), g)"
      using completion_calls [OF nd out] by blast
    have reset: "not_looking_up i (snd (suppress (run_callback w c) u))"
      if "c = Callback ResetFindCoordinatorFuture v \<or> c = Errback ResetFindCoordinatorFuture e" for c v e u
      using that by (auto simp: suppress_def reset_find_coordinator_future_def py_defs not_looking_up_def)
    show ?thesis
      unfolding complete_future_def complete_with_completion g prod.case sum.case run_calls_def
    proof (rule for_establishes)
      show "keeps (not_looking_up i) (suppress (run_callback w x))" for x
        by (intro keeps_suppress keeps_run_callback_nlu)
      show "\<exists>x \<in> set (case out of Success v \<Rightarrow> map (\<lambda>c. Callback c v) (f_callbacks (cc_futures s ! i))
          | Failure e \<Rightarrow> map (\<lambda>c. Errback c e) (f_errbacks (cc_futures s ! i))).
          \<forall>u. not_looking_up i (snd (suppress (run_callback w x) u))"
        using reg [OF True] reset by (cases out) force+
    qed (simp add: suppress_def)
  next
    case False
    have "keeps (not_looking_up i) (complete_future w i out)"
      unfolding complete_future_def by (intro keeps_complete_nlu keeps_run_callback_nlu)
    with False show ?thesis by (simp add: keeps_def not_looking_up_def)
  qed
  ultimately show ?thesis by (auto simp: cinv_def not_looking_up_def detached_def)
qed

text \<open>Every error code stands for an exception.\<close>

lemma broker_errors_are_exceptions: "list_all (\<lambda>c. issubclass c BaseException) iter_broker_errors"
  by (simp add: iter_broker_errors_def issubclass_def error_class_defs builtin_exn_defs)

lemma for_code_exception: "issubclass (for_code c) BaseException"
proof (cases "map_of kafka_errors (Some c)")
  case None
  then show ?thesis
    by (simp add: for_code_def issubclass_def error_class_defs builtin_exn_defs)
next
  case (Some x)
  have "x \<in> set iter_broker_errors \<or> x \<in> snd ` set d"
    if "map_of (fold (\<lambda>x d. AList.update (cls_errno x) x d) xs d) e = Some x" "set xs \<subseteq> set iter_broker_errors" for xs d e
    using that
  proof (induction xs arbitrary: d)
    case Nil
    then show ?case by (auto dest: map_of_SomeD intro: rev_image_eqI)
  next
    case (Cons y ys)
    then have "x \<in> set iter_broker_errors \<or> x \<in> snd ` set (AList.update (cls_errno y) y d)" by simp
    moreover have "snd ` set (AList.update (cls_errno y) y d) \<subseteq> insert y (snd ` set d)"
      by (induction d) auto
    ultimately show ?case using Cons.prems(2) by auto
  qed
  from this [of iter_broker_errors "[]" "Some c"] Some have "x \<in> set iter_broker_errors" by (simp add: kafka_errors_def)
  with Some broker_errors_are_exceptions show ?thesis by (simp add: for_code_def list_all_iff)
qed

text \<open>A request that leaves the list of requests in flight detaches its future.\<close>

lemma remove_pending:
  assumes "cinv D C s" "p \<in> set (cc_pending s)" "pq_id p = k"
  shows "cinv (D \<union> {i. pq_kind p = PendingFindCoordinator i}) (C \<union> set (kind_future (pq_kind p)))
      (s\<lparr>cc_pending := filter (\<lambda>q. pq_id q \<noteq> k) (cc_pending s)\<rparr>)"
proof -
  let ?ps = "cc_pending s" and ?fs = "cc_futures s"
  obtain xs ys where ps: "?ps = xs @ p # ys" using split_list [OF assms(2)] by blast
  have r: "requests_ok ?ps (cc_next_request s) ?fs" and d: "detached C ?ps ?fs" using assms(1) by (auto simp: cinv_def)
  have "k \<notin> pq_id ` set xs" "k \<notin> pq_id ` set ys" using r assms(3) by (auto simp: requests_ok_def ps)
  then have "filter (\<lambda>q. pq_id q \<noteq> k) xs = xs" "filter (\<lambda>q. pq_id q \<noteq> k) ys = ys"
    by (auto simp: filter_id_conv)
  then have f: "filter (\<lambda>q. pq_id q \<noteq> k) ?ps = xs @ ys" using assms(3) by (simp add: ps)
  have pf: "pending_futures ?ps = pending_futures xs @ kind_future (pq_kind p) @ pending_futures ys"
    "pending_futures (xs @ ys) = pending_futures xs @ pending_futures ys"
    by (simp_all add: ps pending_futures_def)
  have req: "requests_ok (xs @ ys) (cc_next_request s) ?fs" using r by (auto simp: requests_ok_def ps pf [unfolded ps])
  have det: "detached (C \<union> set (kind_future (pq_kind p))) (xs @ ys) ?fs"
    unfolding detached_def
  proof
    fix j assume j: "j \<in> C \<union> set (kind_future (pq_kind p)) \<union> \<Union> (chain_targets ` set ?fs)"
    show "j < length ?fs \<and> j \<notin> set (pending_futures (xs @ ys))"
    proof (cases "j \<in> set (kind_future (pq_kind p))")
      case True
      then show ?thesis using r by (auto simp: requests_ok_def pf)
    next
      case False
      with j have "j < length ?fs \<and> j \<notin> set (pending_futures ?ps)"
        using d unfolding detached_def by blast
      then show ?thesis by (simp add: pf)
    qed
  qed
  have look: "k' \<in> {i. pq_kind p = PendingFindCoordinator i} \<or> looked_up k' (xs @ ys) ?fs" if "looked_up k' ?ps ?fs" for k'
    using that by (auto simp: looked_up_def ps)
  show ?thesis using assms(1) req det look by (auto simp: cinv_def f)
qed

lemma remove_lookup:
  assumes "cinv D C s" "p \<in> set (cc_pending s)" "pq_kind p = PendingFindCoordinator i"
  shows "\<not> f_is_done (cc_futures s ! i)"
    "cc_find_coordinator_future s = Some i \<Longrightarrow> i \<notin> D \<Longrightarrow> ResetFindCoordinatorFuture \<in> set (f_callbacks (cc_futures s ! i)) \<and>
      ResetFindCoordinatorFuture \<in> set (f_errbacks (cc_futures s ! i))"
proof -
  have "i \<in> set (pending_futures (cc_pending s))"
    using assms(2,3) by (force simp: pending_futures_def)
  then show "\<not> f_is_done (cc_futures s ! i)" using assms(1) by (auto simp: cinv_def requests_ok_def)
qed (use assms(1) in \<open>auto simp: cinv_def looked_up_def\<close>)

text \<open>The handler of a lookup response prepares the coordinator and then completes the lookup.\<close>

lemma lookup_response_completes:
  assumes "reply_fits (PendingFindCoordinator i) r"
  shows "\<exists>t out. snd (handle_reply w (PendingFindCoordinator i) r s) = snd (complete_future w i out t) \<and>
    (\<forall>e. out = Failure e \<longrightarrow> issubclass e BaseException) \<and> cc_futures t = cc_futures s \<and> cc_pending t = cc_pending s \<and>
    cc_next_request t = cc_next_request s \<and> cc_find_coordinator_future t = cc_find_coordinator_future s"
proof (cases r)
  case (FindCoordinatorReply c)
  let ?e = "for_code (cr_error_code c)"
  show ?thesis
  proof (cases "?e = NoError")
    case True
    obtain n cl where add: "add_coordinator c ''group'' (cc_group_id s) (cc_cluster s) = (Inr (Some n), cl)"
      using True by (auto simp: add_coordinator_def Let_def)
    let ?now = "vw_now (w (cc_tick s))"
    let ?t = "s\<lparr>cc_cluster := cl, cc_coordinator_id := Some n, cc_actions := cc_actions s @ [ActConnect n],
        cc_tick := Suc (cc_tick s), cc_heartbeat := reset_timeouts ?now (cc_heartbeat s)\<rparr>"
    have "handle_reply w (PendingFindCoordinator i) r s = complete_future w i (Success (FNode n)) ?t"
      using True add
      by (simp add: FindCoordinatorReply handle_group_coordinator_response_def py_defs on_cluster_def tell_client_def
          on_heartbeat_def ask_def)
    then show ?thesis by (intro exI [of _ ?t] exI [of _ "Success (FNode n)"]) simp
  next
    case False
    then show ?thesis
      by (intro exI [of _ s] exI [of _ "Failure ?e"])
        (simp add: FindCoordinatorReply handle_group_coordinator_response_def for_code_exception Let_def)
  qed
next
  case (RequestFailed e)
  let ?quiet = "issubclass e NodeNotReadyError \<or> issubclass e ThrottlingQuotaExceededError \<or> issubclass e TooManyInFlightRequests"
  show ?thesis
    using assms
    by (intro exI [of _ "if ?quiet then s else snd (coordinator_dead s)"] exI [of _ "Failure e"])
      (auto simp: RequestFailed failed_request_def coordinator_dead_def py_defs)
qed (use assms in auto)

lemma keeps_deliver [keeps_rules]: "keeps coord_inv (deliver w d)"
proof (rule keepsI)
  fix s assume "coord_inv s"
  then have s: "cinv {} {} s" by (simp add: coord_inv_def)
  show "coord_inv (snd (deliver w d s))"
  proof (cases d)
    case (Deliver k r)
    show ?thesis
    proof (cases "List.find (\<lambda>p. pq_id p = k) (cc_pending s)")
      case (Some p)
      then have p: "p \<in> set (cc_pending s)" "pq_id p = k" by (auto simp: find_Some_iff)
      let ?s = "s\<lparr>cc_pending := filter (\<lambda>q. pq_id q \<noteq> k) (cc_pending s)\<rparr>"
      note rm = remove_pending [OF s p]
      show ?thesis
      proof (cases "reply_fits (pq_kind p) r")
        case fits: True
        have out: "snd (deliver w d s) = snd (handle_reply w (pq_kind p) r ?s)"
          using Some fits by (simp add: Deliver suppress_def)
        show ?thesis
        proof (cases "\<exists>i. pq_kind p = PendingFindCoordinator i")
          case True
          then obtain i where i: "pq_kind p = PendingFindCoordinator i" by blast
          obtain t x where t: "snd (handle_reply w (PendingFindCoordinator i) r ?s) = snd (complete_future w i x t)"
            "\<forall>e. x = Failure e \<longrightarrow> issubclass e BaseException" "cc_futures t = cc_futures ?s" "cc_pending t = cc_pending ?s"
            "cc_next_request t = cc_next_request ?s" "cc_find_coordinator_future t = cc_find_coordinator_future ?s"
            using lookup_response_completes [of i r w ?s] fits i by auto
          have "cinv {i} {i} t" using rm t(3-6) by (simp add: cinv_def i)
          then have "cinv {} {} (snd (complete_future w i x t))"
            using remove_lookup [OF s p(1) i] t by (intro complete_lookup) auto
          then show ?thesis by (simp add: coord_inv_def out i t(1))
        next
          case False
          then have "cinv {} (set (kind_future (pq_kind p))) ?s" using rm by simp
          moreover have "keeps (cinv {} (set (kind_future (pq_kind p)))) (handle_reply w (pq_kind p) r)"
            using False by (intro keeps_handle_reply) auto
          ultimately show ?thesis by (auto simp: coord_inv_def out keeps_def elim: cinv_mono)
        qed
      qed (use s Some in \<open>simp add: Deliver coord_inv_def\<close>)
    qed (use s in \<open>simp add: Deliver coord_inv_def\<close>)
  next
    case (MetadataUpdate md)
    have "keeps (cinv {} {}) (py_bind (ask w vw_now) (\<lambda>now.
       py_then (on_cluster (update_metadata (\<lambda>_ c. c) now md)) (handle_metadata_update w)))"
      by (intro keeps_rules)
    with s show ?thesis by (simp add: MetadataUpdate suppress_def keeps_def coord_inv_def)
  next
    case (MetadataFailed e)
    have "keeps (cinv {} {}) (py_bind (ask w vw_now) (\<lambda>now. on_cluster (failed_update now e)))" by (intro keeps_rules)
    with s show ?thesis by (simp add: MetadataFailed suppress_def keeps_def coord_inv_def)
  qed
qed

section \<open>Blocking operations\<close>

lemma keeps_coord_inv: "keeps (cinv {} {}) m \<Longrightarrow> keeps coord_inv m"
  by (simp add: keeps_def coord_inv_def)

lemma keeps_poll [keeps_rules]: "keeps coord_inv (client_poll w)"
  unfolding client_poll_def by (intro keeps_bind keeps_get keeps_for keeps_deliver keeps_coord_inv [OF keeps_ask])

lemma keeps_add_leave [keeps_rules]: "keeps (cinv D C) (add_pending n req PendingLeave)"
  by (rule keepsI) (auto simp: add_pending_def py_defs cinv_def requests_ok_def detached_def looked_up_def
      pending_futures_def less_SucI dest: bspec)

lemmas coord_rules [keeps_rules] =
  keeps_coord_inv [OF keeps_ask] keeps_coord_inv [OF keeps_on_cluster] keeps_coord_inv [OF keeps_on_subscription]
  keeps_coord_inv [OF keeps_tell] keeps_coord_inv [OF keeps_on_heartbeat] keeps_coord_inv [OF keeps_future_of]
  keeps_leaves [THEN keeps_coord_inv] keeps_coord_inv [OF keeps_coordinator(1)] keeps_coord_inv [OF keeps_coordinator(2)]
  keeps_coord_inv [OF keeps_coordinator(3)] keeps_coord_inv [OF keeps_coordinator_lookup]
  keeps_coord_inv [OF keeps_completed_future] keeps_coord_inv [OF keeps_send_heartbeat]
  keeps_coord_inv [OF keeps_send_join] keeps_coord_inv [OF keeps_send_offsets(1)] keeps_coord_inv [OF keeps_send_offsets(2)]
  keeps_coord_inv [OF keeps_do_commit] keeps_coord_inv [OF keeps_add_leave] keeps_coord_inv [OF keeps_api_version]

lemma keeps_add_leaf [keeps_rules]:
  assumes "\<And>j. c \<noteq> ChainTo j"
  shows "keeps coord_inv (add_callback_with (run_leaf w) i c)" "keeps coord_inv (add_errback_with (run_leaf w) i c)"
    "keeps coord_inv (add_callback_with (run_callback w) i c)" "keeps coord_inv (add_errback_with (run_callback w) i c)"
  using assms by (intro keeps_coord_inv keeps_add_callbacks runs_ok_leaf runs_ok_callback; simp)+

lemma keeps_set_coord:
  assumes "\<And>s. cc_futures (f s) = cc_futures s \<and> cc_pending (f s) = cc_pending s \<and> cc_next_request (f s) = cc_next_request s \<and>
    cc_find_coordinator_future (f s) = cc_find_coordinator_future s"
  shows "keeps coord_inv (py_set f)"
  using assms by (intro keeps_set) (simp add: coord_inv_def cinv_def)

lemma keeps_obind [keeps_rules]: "keeps I m \<Longrightarrow> (\<And>a. keeps I (f a)) \<Longrightarrow> keeps I (py_obind m f)"
  unfolding py_obind_def by (intro keeps_rules)

lemma keeps_done [keeps_rules]: "keeps I (py_done a)"
  by (simp add: py_done_def)

lemma keeps_clock [keeps_rules]:
  "keeps coord_inv (expired_now w t)" "keeps coord_inv (time_left w t)" "keeps coord_inv (start_timer w l)"
  unfolding expired_now_def time_left_def start_timer_def by (intro keeps_rules)+

lemma keeps_leave [keeps_rules]: "keeps coord_inv (maybe_leave_group w)"
  unfolding maybe_leave_group_def send_leave_group_request_def by (intro keeps_rules)

lemma keeps_heartbeat_run_once: "keeps coord_inv (heartbeat_run_once w)"
  unfolding heartbeat_run_once_def by (intro keeps_rules) simp_all

lemma keeps_heartbeat_turn [keeps_rules]: "keeps coord_inv (heartbeat_turn w)"
proof (rule keepsI)
  fix s assume s: "coord_inv s"
  have "coord_inv (snd (heartbeat_run_once w s))" using keeps_heartbeat_run_once s by (simp add: keeps_def)
  with s show "coord_inv (snd (heartbeat_turn w s))"
    by (auto simp: heartbeat_turn_def set_thread_def py_defs coord_inv_def cinv_def split: option.splits prod.splits sum.splits)
qed

lemma keeps_main_poll [keeps_rules]: "keeps coord_inv (main_poll w)"
  unfolding main_poll_def by (intro keeps_rules)

lemma keeps_await_lookup [keeps_rules]: "keeps coord_inv (await_lookup w timer i)"
  unfolding await_lookup_def by (intro keeps_rules)

lemma keeps_ready_loop [keeps_rules]: "keeps coord_inv (ready_loop w timer n)"
proof (induction n)
  case (Suc n)
  then show ?case unfolding ready_loop.simps by (intro keeps_rules keeps_set_coord) simp_all
qed simp

lemma keeps_ready [keeps_rules]: "keeps coord_inv (ensure_coordinator_ready w n l)"
  unfolding ensure_coordinator_ready_def by (intro keeps_rules)

lemma keeps_commit_callback [keeps_rules]: "keeps coord_inv (invoke_commit_callback w item)"
proof -
  have default: "keeps coord_inv (default_offset_commit_callback offs out)" for offs out
    unfolding default_offset_commit_callback_def by (intro keeps_rules)
  have deadline: "keeps coord_inv (\<lambda>s. case cc_next_auto_commit_deadline s of None \<Rightarrow> (Inl TypeError, s)
      | Some d \<Rightarrow> (Inr (), s\<lparr>cc_next_auto_commit_deadline := Some (min (now + cc_retry_backoff_ms s) d)\<rparr>))" for now
    by (rule keepsI) (auto simp: coord_inv_def cinv_def split: option.splits)
  show ?thesis
    unfolding invoke_commit_callback_def commit_offsets_async_on_complete_def
    by (cases item; cases "fst item") (auto intro!: keeps_rules default deadline)
qed

lemma keeps_invoke_completed [keeps_rules]: "keeps coord_inv (invoke_completed_offset_commit_callbacks w)"
  unfolding invoke_completed_offset_commit_callbacks_def by (intro keeps_rules keeps_set_coord) simp

lemma keeps_commit_async [keeps_rules]: "keeps coord_inv (commit_offsets_async w offs cb)"
  unfolding commit_offsets_async_def by (intro keeps_rules) simp_all

lemma keeps_commit_sync_loop [keeps_rules]: "keeps coord_inv (commit_sync_loop w timer offs n)"
proof (induction n)
  case (Suc n)
  then show ?case unfolding commit_sync_loop.simps by (intro keeps_rules) simp_all
qed simp

lemma keeps_commit_sync [keeps_rules]: "keeps coord_inv (commit_offsets_sync w n offs l)"
  unfolding commit_offsets_sync_def by (intro keeps_rules)

lemma keeps_auto_commit_sync [keeps_rules]: "keeps coord_inv (maybe_auto_commit_offsets_sync w n l)"
proof (rule keepsI)
  fix s assume s: "coord_inv s"
  have "coord_inv (snd (commit_offsets_sync w n offs l s))" for offs using keeps_commit_sync s by (simp add: keeps_def)
  with s show "coord_inv (snd (maybe_auto_commit_offsets_sync w n l s))"
    by (auto simp: maybe_auto_commit_offsets_sync_def split: prod.splits sum.splits) (metis snd_conv)+
qed

lemma keeps_do_auto_commit [keeps_rules]: "keeps coord_inv (do_auto_commit_offsets_async w)"
  unfolding do_auto_commit_offsets_async_def by (intro keeps_rules)

lemma keeps_auto_commit_async [keeps_rules]: "keeps coord_inv (maybe_auto_commit_offsets_async w)"
proof -
  have "keeps coord_inv (\<lambda>s. case cc_next_auto_commit_deadline s of None \<Rightarrow> (Inl TypeError, s)
      | Some d \<Rightarrow> if now > d
          then py_then (py_set (\<lambda>s. s\<lparr>cc_next_auto_commit_deadline := Some (now + cc_auto_commit_interval_ms s)\<rparr>))
                 (do_auto_commit_offsets_async w) s
          else (Inr (), s))" for now
  proof -
    have "keeps coord_inv (py_then (py_set (\<lambda>s. s\<lparr>cc_next_auto_commit_deadline := Some (now + cc_auto_commit_interval_ms s)\<rparr>))
        (do_auto_commit_offsets_async w))"
      by (intro keeps_rules keeps_set_coord) simp
    then show ?thesis by (auto simp: keeps_def split: option.splits)
  qed
  then show ?thesis
    unfolding maybe_auto_commit_offsets_async_def by (intro keeps_when keeps_bind keeps_if keeps_set_coord coord_rules) simp_all
qed

lemma keeps_auto_commit_now [keeps_rules]: "keeps coord_inv (maybe_auto_commit_offsets_now w)"
  unfolding maybe_auto_commit_offsets_now_def by (intro keeps_rules)

lemma keeps_fetch_future [keeps_rules]: "keeps coord_inv (offset_fetch_future w tps)"
  unfolding offset_fetch_future_def by (intro keeps_rules keeps_set_coord) simp

lemma keeps_fetch_loop [keeps_rules]: "keeps coord_inv (fetch_committed_loop w timer tps n)"
proof (induction n)
  case (Suc n)
  then show ?case unfolding fetch_committed_loop.simps by (intro keeps_rules keeps_set_coord) simp_all
qed simp

lemma keeps_fetch_committed [keeps_rules]: "keeps coord_inv (fetch_committed_offsets w n tps l)"
  unfolding fetch_committed_offsets_def by (intro keeps_rules)

lemma keeps_refresh [keeps_rules]: "keeps coord_inv (refresh_committed_offsets_if_needed w n l)"
proof (rule keepsI)
  fix s assume s: "coord_inv s"
  let ?m = "fetch_committed_offsets w n (missing_fetch_positions (cc_subscription s)) l"
  obtain r t where m: "?m s = (r, t)" by (cases "?m s")
  have t: "coord_inv t" by (rule keepsD [OF keeps_fetch_committed s m])
  have "keeps coord_inv (py_then (on_subscription (py_for (\<lambda>(tp, om). seek tp (OffsetInt (om_offset om))) offs)) (py_done True))" for offs
    by (intro keeps_rules)
  with t m show "coord_inv (snd (refresh_committed_offsets_if_needed w n l s))"
    by (auto simp: refresh_committed_offsets_if_needed_def keeps_def split: sum.splits option.splits)
qed

lemma keeps_initiate_join [keeps_rules]: "keeps coord_inv (initiate_join_group w)"
  unfolding initiate_join_group_def by (intro keeps_rules keeps_set_coord) simp_all

lemma keeps_prepare [keeps_rules]: "keeps coord_inv (prepare_join w n timer)"
  unfolding prepare_join_def on_join_prepare_def notify_revoked_def by (intro keeps_rules keeps_set_coord) simp_all

lemma keeps_assign_or_rejoin [keeps_rules]: "keeps coord_inv (assign_or_rejoin w tps)"
  unfolding assign_or_rejoin_def
proof (intro keeps_bind coord_rules keepsI)
  fix shuffle s assume s: "coord_inv s"
  obtain r t where m: "on_subscription (assign_from_subscribed shuffle tps) s = (r, t)"
    by (cases "on_subscription (assign_from_subscribed shuffle tps) s")
  have "coord_inv t" by (rule keepsD [OF keeps_coord_inv [OF keeps_on_subscription] s m])
  moreover from this have "coord_inv (snd (request_rejoin t))" by (simp add: request_rejoin_def py_defs coord_inv_def cinv_def)
  ultimately show "coord_inv (snd (case on_subscription (assign_from_subscribed shuffle tps) s of
      (Inl e, t) \<Rightarrow> if issubclass e ValueError then request_rejoin t else (Inl e, t) | (Inr b, t) \<Rightarrow> (Inr b, t)))"
    by (auto simp: m split: sum.splits)
qed

lemma keeps_join_complete [keeps_rules]: "keeps coord_inv (on_join_complete w p data)"
  unfolding on_join_complete_def by (intro keeps_rules keeps_set_coord) simp_all

lemma keeps_await_idle [keeps_rules]: "keeps coord_inv (await_idle w timer n)"
proof (induction n)
  case (Suc n)
  then show ?case unfolding await_idle.simps by (intro keeps_rules) simp_all
qed simp

lemma keeps_join_attempt [keeps_rules]: "keeps coord_inv (join_attempt w timer)"
  unfolding join_attempt_def join_outcome_def by (intro keeps_rules keeps_set_coord) simp_all

lemma keeps_join_loop [keeps_rules]: "keeps coord_inv (join_loop w timer n)"
proof (induction n)
  case (Suc n)
  have "keeps coord_inv (case r of TimedOut \<Rightarrow> py_done NotJoined | CoordinatorLost \<Rightarrow> join_loop w timer n
      | Idle \<Rightarrow> py_bind (join_attempt w timer) (\<lambda>x. case x of Some y \<Rightarrow> py_done y | None \<Rightarrow> join_loop w timer n))" for r
    using Suc by (cases r) (auto intro!: keeps_rules)
  then show ?case unfolding join_loop.simps by (intro keeps_rules) simp_all
qed simp

lemma keeps_join [keeps_rules]: "keeps coord_inv (join_group w n l)" "keeps coord_inv (ensure_active_group w n l)"
  unfolding ensure_active_group_def join_group_def by (intro keeps_rules)+

lemma keeps_poll_heartbeat [keeps_rules]: "keeps coord_inv (poll_heartbeat w)"
  unfolding poll_heartbeat_def by (intro keeps_rules keeps_set_coord) simp

lemma keeps_poll_body: "keeps coord_inv (poll_body w n l)"
  unfolding poll_body_def by (intro keeps_rules)

lemma keeps_coordinator_poll [keeps_rules]: "keeps coord_inv (coordinator_poll w n l)"
proof (rule keepsI)
  fix s assume s: "coord_inv s"
  have "coord_inv (snd (poll_body w n l s))" using keeps_poll_body s by (simp add: keeps_def)
  with s show "coord_inv (snd (coordinator_poll w n l s))"
    by (auto simp: coordinator_poll_def split: prod.splits sum.splits)
qed

lemma keeps_close [keeps_rules]: "keeps coord_inv (coordinator_close w n b l)"
  unfolding coordinator_close_def base_close_def by (intro keeps_rules)

section \<open>Every history\<close>

text \<open>The calls a consumer makes, iterations of the heartbeat thread and changes of the subscription.\<close>

datatype coord_call =
    CPoll nat "int option"
  | CCommitSync nat committed "int option"
  | CCommitAsync committed "commit_callback option"
  | CAutoCommitNow
  | CFetchCommitted nat "topic_partition list" "int option"
  | CRefresh nat "int option"
  | CLeave
  | CClose nat bool "int option"
  | CHeartbeatThread
  | CClientPoll
  | CSubscription sub_call

primrec run_coord_call :: "world \<Rightarrow> coord_call \<Rightarrow> coord \<Rightarrow> coord" where
  "run_coord_call w (CPoll n l) = (\<lambda>s. snd (coordinator_poll w n l s))"
| "run_coord_call w (CCommitSync n offs l) = (\<lambda>s. snd (commit_offsets_sync w n offs l s))"
| "run_coord_call w (CCommitAsync offs cb) = (\<lambda>s. snd (commit_offsets_async w offs cb s))"
| "run_coord_call w CAutoCommitNow = (\<lambda>s. snd (maybe_auto_commit_offsets_now w s))"
| "run_coord_call w (CFetchCommitted n tps l) = (\<lambda>s. snd (fetch_committed_offsets w n tps l s))"
| "run_coord_call w (CRefresh n l) = (\<lambda>s. snd (refresh_committed_offsets_if_needed w n l s))"
| "run_coord_call w CLeave = (\<lambda>s. snd (maybe_leave_group w s))"
| "run_coord_call w (CClose n b l) = (\<lambda>s. snd (coordinator_close w n b l s))"
| "run_coord_call w CHeartbeatThread = (\<lambda>s. snd (heartbeat_turn w s))"
| "run_coord_call w CClientPoll = (\<lambda>s. snd (client_poll w s))"
| "run_coord_call w (CSubscription c) = (\<lambda>s. snd (on_subscription (sub_run c) s))"

lemma coord_call_inv: "coord_inv s \<Longrightarrow> coord_inv (run_coord_call w c s)"
proof -
  assume s: "coord_inv s"
  have k: "coord_inv (snd (m s))" if "keeps coord_inv m" for m :: "(coord, 'a) py" using that s by (simp add: keeps_def)
  show "coord_inv (run_coord_call w c s)" by (cases c) (simp_all, (intro k keeps_rules)+)
qed

lemma coord_inv_initial:
  "ConsumerCoordinator now grp ver session interval max_poll backoff auto auto_interval cb assignors ex l sub cl = Inr s \<Longrightarrow>
    coord_inv s"
  by (auto simp: ConsumerCoordinator_def res_bind_eq_Inr Let_def coord_inv_def cinv_def requests_ok_def detached_def
      pending_futures_def)

end
