(* ===== verification/Coordinator_Properties.thy ===== *)
theory Coordinator_Properties
  imports Coordinator_Invariant
begin

text \<open>
  What a consumer group relies on: the members' assignments do not overlap and leave nothing out, a member
  whose coordinator answers joins, and two ways in which it does not.
\<close>

section \<open>Requests in flight\<close>


section \<open>Sharing the partitions\<close>

text \<open>The assignors with a proved contract, and what the leader sends for one.\<close>

definition checked_assignor :: "assignor_class \<Rightarrow> bool" where
  "checked_assignor impl \<longleftrightarrow> impl = range_class \<or> impl = roundrobin_class"

lemma checked_assignor_assigns:
  assumes "checked_assignor impl" "as_assign impl cl ms = Inr a"
  obtains assign where "assignor assign" "assign cl ms = Some a"
proof -
  have "range_assign cl ms = Some a \<or> roundrobin_assign cl ms = Some a"
    using assms by (auto simp: checked_assignor_def range_class_def roundrobin_class_def split: option.splits)
  then show thesis using that range_assignor.assignor_axioms roundrobin_assignor.assignor_axioms by blast
qed

definition assignments_fit :: "assignor_class \<Rightarrow> group_assignment \<Rightarrow> bool" where
  "assignments_fit impl a \<longleftrightarrow>
     list_all (\<lambda>(m, l). fits ConsumerProtocolMemberAssignment (VTuple (assignment_values (as_version impl) l))) a"

text \<open>The bytes the leader encodes for a member, and the partitions they stand for.\<close>

lemma encode_assignment_entries:
  assumes "assignments_fit impl a"
  shows "\<exists>entries. encode_assignment impl a = Inr entries \<and> (\<forall>(m, l) \<in> set a. \<exists>bs obj.
    VTuple [VStr m, VBytes bs] \<in> set entries \<and> Struct_decode ConsumerProtocolMemberAssignment bs = Inr (obj, []) \<and>
    assignment_partitions obj = Inr (concat (map (\<lambda>(t, ps). map (Pair t) ps) l)))"
  using assms
proof (induction a)
  case (Cons x a)
  obtain m l where x: "x = (m, l)" by (cases x)
  obtain obj bs where obj: "member_assignment_struct (as_version impl) l = Inr obj" "Struct_encode_self obj = Inr bs"
    "\<forall>rest. Struct_decode ConsumerProtocolMemberAssignment (bs @ rest) = Inr (obj, rest)"
    "assignment_partitions obj = Inr (concat (map (\<lambda>(t, ps). map (Pair t) ps) l))"
    using assignment_enc_dec [of "as_version impl" l] Cons.prems by (auto simp: assignments_fit_def x)
  have dec: "Struct_decode ConsumerProtocolMemberAssignment bs = Inr (obj, [])" using obj(3) [rule_format, of "[]"] by simp
  obtain entries where e: "encode_assignment impl a = Inr entries" "\<forall>(m, l) \<in> set a. \<exists>bs obj.
    VTuple [VStr m, VBytes bs] \<in> set entries \<and> Struct_decode ConsumerProtocolMemberAssignment bs = Inr (obj, []) \<and>
    assignment_partitions obj = Inr (concat (map (\<lambda>(t, ps). map (Pair t) ps) l))"
    using Cons by (auto simp: assignments_fit_def)
  have "encode_assignment impl (x # a) = Inr (VTuple [VStr m, VBytes bs] # entries)"
    using e(1) obj(1,2) by (simp add: encode_assignment_def x)
  then show ?case using e(2) dec obj(4) by (fastforce simp: x)
qed (simp add: encode_assignment_def)

text \<open>A member that is still subscribed to what it joined with and knows the protocol.\<close>

definition awaits_assignment :: "world \<Rightarrow> pystr \<Rightarrow> pystr list \<Rightarrow> coord \<Rightarrow> bool" where
  "awaits_assignment w protocol ts u \<longleftrightarrow>
     partitions_auto_assigned (cc_subscription u) \<and> subscription_state.subscription (cc_subscription u) = Some ts \<and>
     lookup_assignor u protocol \<noteq> None \<and> (\<forall>k. shuffles (vw_shuffle (w k)))"

lemma on_join_complete_assigns:
  assumes u: "awaits_assignment w protocol ts u"
    and dec: "Struct_decode ConsumerProtocolMemberAssignment bs = Inr (obj, [])" "assignment_partitions obj = Inr tps"
    and sub: "fst ` set tps \<subseteq> set ts"
  shows "\<exists>t. on_join_complete w (Some protocol) bs u = (Inr (), t) \<and> assigned_partitions (cc_subscription t) = set tps \<and>
    cc_state t = cc_state u \<and> cc_generation t = cc_generation u \<and> cc_rejoin_needed t = cc_rejoin_needed u"
proof -
  let ?shuffle = "vw_shuffle (w (cc_tick u))"
  obtain sub' where asg: "assign_from_subscribed ?shuffle tps (cc_subscription u) = (Inr (), sub')"
    "assigned_partitions sub' = set tps"
    using assign_from_subscribed_result [of "cc_subscription u" ts tps ?shuffle] u sub by (auto simp: awaits_assignment_def)
  have look: "lookup_assignor (u\<lparr>cc_assignment_snapshot := None\<rparr>) protocol = lookup_assignor u protocol"
    "lookup_assignor u protocol \<noteq> None"
    using u by (simp_all add: awaits_assignment_def lookup_assignor_def)
  show ?thesis
    using look dec asg
    by (auto simp: on_join_complete_def py_defs assign_or_rejoin_def ask_def on_subscription_def tell_client_def)
qed

text \<open>C5. The members of a group share the partitions out: when the leader has computed an assignment with the range
  or the round-robin assignor, every member, on receiving the bytes the leader encoded for it, is assigned exactly its
  share, and every partition of a topic somebody is subscribed to belongs to the share of exactly one member.\<close>

theorem group_shares_partitions:
  assumes "perform_assignment protocol members s = (Inr (impl, a), s')" "checked_assignor impl"
    and "decode_members members = Inr ms" "valid_members ms" "assignments_fit impl a"
  shows "\<exists>entries. encode_assignment impl a = Inr entries \<and>
    (\<forall>(m, ts) \<in> set ms. \<exists>bs. VTuple [VStr m, VBytes bs] \<in> set entries \<and>
      (\<forall>w u. awaits_assignment w protocol ts u \<longrightarrow>
        (\<exists>t. on_join_complete w (Some protocol) bs u = (Inr (), t) \<and>
          assigned_partitions (cc_subscription t) = {tp. snd tp \<in> set (owned a m (fst tp))}))) \<and>
    (\<forall>m topic p. subscribed ms m topic \<longrightarrow> has_partition (cc_cluster s') topic p \<longrightarrow>
      (\<exists>!m'. m' \<in> fst ` set ms \<and> p \<in> set (owned a m' topic)))"
proof -
  have "as_assign impl (cc_cluster s') ms = Inr a"
    using assms(1,3) by (auto simp: perform_assignment_def py_defs on_subscription_def on_cluster_def tell_client_def
        request_update_def Let_def split: option.splits prod.splits sum.splits if_splits)
  then obtain assign where asg: "assignor assign" "assign (cc_cluster s') ms = Some a"
    by (rule checked_assignor_assigns [OF assms(2)])
  note keys = assignor.keys [OF asg] and sound = assignor.sound [OF asg(1) assms(4) asg(2)]
  obtain entries where e: "encode_assignment impl a = Inr entries" "\<forall>(m, l) \<in> set a. \<exists>bs obj.
    VTuple [VStr m, VBytes bs] \<in> set entries \<and> Struct_decode ConsumerProtocolMemberAssignment bs = Inr (obj, []) \<and>
    assignment_partitions obj = Inr (concat (map (\<lambda>(t, ps). map (Pair t) ps) l))"
    using encode_assignment_entries [OF assms(5)] by blast
  have "\<exists>bs. VTuple [VStr m, VBytes bs] \<in> set entries \<and>
      (\<forall>w u. awaits_assignment w protocol ts u \<longrightarrow>
        (\<exists>t. on_join_complete w (Some protocol) bs u = (Inr (), t) \<and>
          assigned_partitions (cc_subscription t) = {tp. snd tp \<in> set (owned a m (fst tp))}))"
    if m: "(m, ts) \<in> set ms" for m ts
  proof -
    have "m \<in> fst ` set a" using m keys by (metis fst_conv image_eqI list.set_map)
    then obtain l where l: "(m, l) \<in> set a" by auto
    let ?tps = "concat (map (\<lambda>(t, ps). map (Pair t) ps) l)"
    obtain bs obj where bs: "VTuple [VStr m, VBytes bs] \<in> set entries"
      "Struct_decode ConsumerProtocolMemberAssignment bs = Inr (obj, [])" "assignment_partitions obj = Inr ?tps"
      using e(2) l by blast
    have own: "set ?tps = {tp. snd tp \<in> set (owned a m (fst tp))}"
      by (rule assignor.entry_owned [OF asg(1) assms(4) asg(2) l])
    have "fst ` set ?tps \<subseteq> set ts"
    proof (clarsimp simp only: own)
      fix topic p assume "p \<in> set (owned a m topic)"
      then obtain ts' where "(m, ts') \<in> set ms" "topic \<in> set ts'" using sound by (fastforce simp: subscribed_def)
      then show "topic \<in> set ts" using m assms(4) by (auto simp: valid_members_def dest: eq_key_imp_eq_value)
    qed
    note sub = this
    show ?thesis
    proof (intro exI [of _ bs] conjI bs(1) allI impI)
      fix w u assume "awaits_assignment w protocol ts u"
      from on_join_complete_assigns [OF this bs(2,3) sub] obtain t
        where "on_join_complete w (Some protocol) bs u = (Inr (), t)" "assigned_partitions (cc_subscription t) = set ?tps"
        by blast
      then show "\<exists>t. on_join_complete w (Some protocol) bs u = (Inr (), t) \<and>
          assigned_partitions (cc_subscription t) = {tp. snd tp \<in> set (owned a m (fst tp))}"
        unfolding own by blast
    qed
  qed
  moreover have "\<exists>!m'. m' \<in> fst ` set ms \<and> p \<in> set (owned a m' topic)"
    if "subscribed ms m topic" "has_partition (cc_cluster s') topic p" for m topic p
  proof -
    have "m' \<in> fst ` set ms" if "p \<in> set (owned a m' topic)" for m'
      using sound [OF that] by (force simp: subscribed_def)
    with assignor.one_owner [OF asg(1) assms(4) asg(2) that] show ?thesis by blast
  qed
  ultimately show ?thesis using e(1) by blast
qed

section \<open>Joining\<close>

text \<open>A client whose coordinator is connected and accepts requests, and what the poll delivers.\<close>

definition steady :: "view \<Rightarrow> node_id \<Rightarrow> bool" where
  "steady v n \<longleftrightarrow> \<not> vw_is_disconnected v n \<and> vw_ready v n \<and> vw_in_flight_request_count v n = 0 \<and> vw_send v n = None \<and>
     (\<forall>name k. \<exists>version \<le> k. vw_api_version v name k = Inr version) \<and> \<not> vw_thread_runs v"

text \<open>A member that has to join, with a known coordinator and a subscription its assignors can describe.\<close>

definition joinable :: "node_id \<Rightarrow> coord \<Rightarrow> bool" where
  "joinable n s \<longleftrightarrow> cc_coordinator_id s = Some n \<and> version_ge (cc_api_version s) [0, 9] \<and> \<not> cc_enable_auto_commit s \<and>
     need_rejoin s \<and> cc_join_future s = None \<and>
     (\<exists>ts ps mds. subscription_state.subscription (cc_subscription s) = Some ts \<and>
        res_list (map (\<lambda>a. res_map (Pair (as_name a)) (as_metadata a ts)) (cc_assignors s)) = Inr ps \<and>
        encode_metadata ps = Inr mds)"

lemma need_rejoin_updates [simp]:
  "need_rejoin (s\<lparr>cc_state := x\<rparr>) = need_rejoin s" "need_rejoin (s\<lparr>cc_tick := k\<rparr>) = need_rejoin s"
  "need_rejoin (s\<lparr>cc_rejoining := b\<rparr>) = need_rejoin s" "need_rejoin (s\<lparr>cc_is_leader := b\<rparr>) = need_rejoin s"
  "need_rejoin (s\<lparr>cc_heartbeat_thread := h\<rparr>) = need_rejoin s" "need_rejoin (s\<lparr>cc_actions := acts\<rparr>) = need_rejoin s"
  by (simp_all add: need_rejoin_def auto_assign_all_partitions_def)

abbreviation always :: "view \<Rightarrow> world" where
  "always v \<equiv> (\<lambda>_. v)"

lemma join_request_built:
  assumes "version \<le> 4"
  shows "\<exists>req. positional_request JoinGroupRequest version
    ([a, b] @ (if version = 0 then [] else [c]) @ [d, e, f]) = Inr req"
proof -
  have "version \<in> {0, 1, 2, 3, 4}" using assms by auto
  then show ?thesis
    by (auto simp: positional_request_def JoinGroupRequest_def Struct_init_def Schema_of_def
        JoinGroupRequest_v0_def JoinGroupRequest_v1_def JoinGroupRequest_v2_def JoinGroupRequest_v3_def JoinGroupRequest_v4_def)
qed

lemma sync_request_built:
  assumes "version \<le> 2"
  shows "\<exists>req. positional_request SyncGroupRequest version [a, b, c, d] = Inr req"
proof -
  have "version \<in> {0, 1, 2}" using assms by auto
  then show ?thesis
    by (auto simp: positional_request_def SyncGroupRequest_def Struct_init_def Schema_of_def
        SyncGroupRequest_v0_def SyncGroupRequest_v1_def SyncGroupRequest_v2_def)
qed

lemma coordinator_steady:
  "steady v n \<Longrightarrow> cc_coordinator_id s = Some n \<Longrightarrow>
    coordinator (always v) s = (Inr (Some n), s\<lparr>cc_tick := Suc (cc_tick s)\<rparr>)"
  by (simp add: coordinator_def steady_def ask_def py_defs)

lemma ready_steady:
  "steady v n \<Longrightarrow> cc_coordinator_id s = Some n \<Longrightarrow>
    ensure_coordinator_ready (always v) (Suc m) l s = (Inr (Some True), s\<lparr>cc_tick := cc_tick s + 2\<rparr>)"
  by (simp add: ensure_coordinator_ready_def start_timer_def ask_def coordinator_unknown_def coordinator_steady py_done_def py_defs)

lemma idle_steady:
  "steady v n \<Longrightarrow> cc_coordinator_id s = Some n \<Longrightarrow>
    await_idle (always v) timer (Suc m) s = (Inr (Some Idle), s\<lparr>cc_tick := cc_tick s + 2\<rparr>)"
  by (simp add: coordinator_steady ask_def py_done_def py_defs) (simp add: steady_def)

text \<open>Sending the JoinGroup request.\<close>

definition sent :: "node_id \<Rightarrow> request \<Rightarrow> pending_kind \<Rightarrow> coord \<Rightarrow> coord" where
  "sent n req kind s = s\<lparr>cc_futures := cc_futures s @ [Future], cc_tick := Suc (cc_tick s),
     cc_pending := cc_pending s @ [\<lparr>pq_id = cc_next_request s, pq_node = n, pq_request = req, pq_kind = kind\<rparr>],
     cc_next_request := Suc (cc_next_request s), cc_actions := cc_actions s @ [ActSend n req]\<rparr>"

lemma send_steady:
  "steady v n \<Longrightarrow> send_with_future (always v) n req kind s = (Inr (length (cc_futures s)), sent n req (kind (length (cc_futures s))) s)"
  by (simp add: send_with_future_def new_future_def steady_def ask_def add_pending_def py_defs sent_def)

lemma api_version_steady:
  assumes "steady v n"
  obtains version where "version \<le> k" "\<And>s. api_version (always v) name k s = (Inr version, s\<lparr>cc_tick := Suc (cc_tick s)\<rparr>)"
proof -
  obtain version where "version \<le> k" "vw_api_version v name k = Inr version" using assms by (auto simp: steady_def)
  then show thesis using that [of version] by (simp add: api_version_def ask_def py_defs)
qed

lemma send_join_steady:
  assumes v: "steady v n" and s: "joinable n s"
  shows "\<exists>req. send_join_group_request (always v) s = (Inr (length (cc_futures s)),
    sent n req (PendingJoin (length (cc_futures s)))
      (s\<lparr>cc_joined_subscription := the (subscription_state.subscription (cc_subscription s)), cc_tick := cc_tick s + 3\<rparr>))"
proof -
  obtain ts ps mds where sub: "subscription_state.subscription (cc_subscription s) = Some ts"
    "res_list (map (\<lambda>a. res_map (Pair (as_name a)) (as_metadata a ts)) (cc_assignors s)) = Inr ps" "encode_metadata ps = Inr mds"
    using s by (auto simp: joinable_def)
  obtain version where ver: "version \<le> 4"
    "\<And>s. api_version (always v) ''JoinGroupRequest'' 4 s = (Inr version, s\<lparr>cc_tick := Suc (cc_tick s)\<rparr>)"
    using api_version_steady [OF v] by metis
  let ?args = "\<lambda>s. [opt_str (cc_group_id s), VInt (cc_session_timeout_ms s)] @
       (if version = 0 then [] else [VInt (cc_max_poll_interval_ms s)]) @
       [VStr (gn_member_id (cc_generation s)), VStr PROTOCOL_TYPE, VList mds]"
  obtain req where req: "positional_request JoinGroupRequest version (?args s) = Inr req"
    using join_request_built [OF ver(1)] by blast
  have ready: "vw_ready v n" "cc_coordinator_id s = Some n" using v s by (simp_all add: steady_def joinable_def)
  have "send_join_group_request (always v) s =
      send_with_future (always v) n req PendingJoin (s\<lparr>cc_joined_subscription := ts, cc_tick := cc_tick s + 3\<rparr>)"
    using sub ready req
    by (cases "version = 0") (simp_all add: send_join_group_request_def with_coordinator_def coordinator_steady [OF v] ask_def
        group_protocols_def ver py_bind_def py_get_def py_set_def py_then_def py_lift_def numeral_3_eq_3)
  then show ?thesis using sub by (simp add: send_steady [OF v]) blast
qed

lemma initiate_steady:
  assumes v: "steady v n" and s: "joinable n s"
  shows "\<exists>req. let i = length (cc_futures s) in initiate_join_group (always v) s = (Inr i,
    s\<lparr>cc_state := REBALANCING, cc_tick := cc_tick s + 4, cc_joined_subscription := the (subscription_state.subscription (cc_subscription s)),
      cc_futures := cc_futures s @ [Future\<lparr>f_callbacks := [HandleJoinSuccess], f_errbacks := [HandleJoinFailure]\<rparr>],
      cc_pending := cc_pending s @ [\<lparr>pq_id = cc_next_request s, pq_node = n, pq_request = req, pq_kind = PendingJoin i\<rparr>],
      cc_next_request := Suc (cc_next_request s), cc_actions := cc_actions s @ [ActSend n req], cc_join_future := Some i\<rparr>)"
proof -
  let ?s = "s\<lparr>cc_state := REBALANCING\<rparr>"
  have "joinable n ?s"
    using s by (simp add: joinable_def)
  from send_join_steady [OF v this] obtain req where "send_join_group_request (always v) ?s = (Inr (length (cc_futures ?s)),
    sent n req (PendingJoin (length (cc_futures ?s)))
      (?s\<lparr>cc_joined_subscription := the (subscription_state.subscription (cc_subscription ?s)), cc_tick := cc_tick ?s + 3\<rparr>))"
    by blast
  moreover have "cc_join_future s = None" using s by (simp add: joinable_def)
  ultimately show ?thesis
    by (intro exI [of _ req]) (simp add: Let_def initiate_join_group_def add_callback_with_def
        add_errback_with_def on_future_def f_add_callback_def f_add_errback_def run_calls_def py_defs Future_def sent_def)
qed

text \<open>The response of the coordinator: the generation is recorded and a SyncGroup request follows, whose outcome is
  passed on to the future of the join.\<close>

definition joined_generation :: "join_response \<Rightarrow> generation" where
  "joined_generation r = \<lparr>gn_generation_id = jr_generation_id r, gn_member_id = jr_member_id r, gn_protocol = Some (jr_group_protocol r)\<rparr>"

lemma remove_last_pending:
  assumes "\<forall>q \<in> set ps. pq_id q < pq_id p"
  shows "filter (\<lambda>q. pq_id q \<noteq> pq_id p) (ps @ [p]) = ps" "List.find (\<lambda>q. pq_id q = pq_id p) (ps @ [p]) = Some p"
proof -
  show "filter (\<lambda>q. pq_id q \<noteq> pq_id p) (ps @ [p]) = ps" using assms by (auto simp: filter_id_conv)
  show "List.find (\<lambda>q. pq_id q = pq_id p) (ps @ [p]) = Some p"
    using assms by (induction ps) auto
qed

lemma deliver_join_follower:
  assumes v: "steady v n" and t: "cc_coordinator_id t = Some n" "cc_state t = REBALANCING"
    and p: "cc_pending t = ps @ [p]" "pq_kind p = PendingJoin i" "\<forall>q \<in> set ps. pq_id q < pq_id p"
    and r: "jr_error_code r = 0" "jr_leader_id r \<noteq> jr_member_id r" and i: "i < length (cc_futures t)"
  shows "\<exists>req. let j = length (cc_futures t) in deliver (always v) (Deliver (pq_id p) (JoinReply r)) t = (Inr (),
    t\<lparr>cc_pending := ps @ [\<lparr>pq_id = cc_next_request t, pq_node = n, pq_request = req, pq_kind = PendingSync j\<rparr>],
      cc_generation := joined_generation r, cc_tick := cc_tick t + 3, cc_next_request := Suc (cc_next_request t),
      cc_actions := cc_actions t @ [ActSend n req],
      cc_futures := cc_futures t @ [Future\<lparr>f_callbacks := [ChainTo i], f_errbacks := [ChainTo i]\<rparr>]\<rparr>)"
proof -
  obtain version where ver: "version \<le> 2"
    "\<And>s. api_version (always v) ''SyncGroupRequest'' 2 s = (Inr version, s\<lparr>cc_tick := Suc (cc_tick s)\<rparr>)"
    using api_version_steady [OF v] by metis
  obtain req where req: "positional_request SyncGroupRequest version
      [opt_str (cc_group_id t), VInt (jr_generation_id r), VStr (jr_member_id r), VList []] = Inr req"
    using sync_request_built [OF ver(1)] by blast
  let ?t = "t\<lparr>cc_pending := ps, cc_generation := joined_generation r, cc_tick := Suc (Suc (cc_tick t))\<rparr>"
  have "on_join_follower (always v) (t\<lparr>cc_pending := ps, cc_generation := joined_generation r\<rparr>) =
      (Inr (length (cc_futures t)), sent n req (PendingSync (length (cc_futures t))) ?t)"
    using req t
    by (simp add: on_join_follower_def sync_request_def ver send_sync_group_request_def coordinator_steady [OF v]
        send_steady [OF v] joined_generation_def py_bind_def py_get_def py_lift_def)
  then show ?thesis
    using t r remove_last_pending [OF p(3)] p(1,2)
    by (intro exI [of _ req]) (simp add: Let_def suppress_def handle_join_group_response_def joined_generation_def
        chain_with_def add_callback_with_def add_errback_with_def on_future_def f_add_callback_def f_add_errback_def
        run_calls_def py_defs Future_def sent_def)
qed

lemma deliver_sync_success:
  assumes p: "List.find (\<lambda>q. pq_id q = pq_id p) (cc_pending t) = Some p" "pq_kind p = PendingSync j"
    and j: "j < length (cc_futures t)" "cc_futures t ! j = Future\<lparr>f_callbacks := [ChainTo i], f_errbacks := [ChainTo i]\<rparr>"
    and i: "i < length (cc_futures t)" "i \<noteq> j" "cc_futures t ! i = Future\<lparr>f_callbacks := [HandleJoinSuccess], f_errbacks := [HandleJoinFailure]\<rparr>"
  shows "\<exists>u. deliver (always v) (Deliver (pq_id p) (SyncReply 0 data)) t = (Inr (), u) \<and> cc_state u = STABLE \<and>
    cc_generation u = cc_generation t \<and> cc_subscription u = cc_subscription t \<and> cc_assignors u = cc_assignors t \<and>
    f_is_done (cc_futures u ! i) \<and> f_exception (cc_futures u ! i) = None \<and> f_value (cc_futures u ! i) = Some (FBytes data)"
proof -
  let ?fs = "(cc_futures t)[j := Future\<lparr>f_is_done := True, f_value := Some (FBytes data), f_callbacks := [ChainTo i], f_errbacks := [ChainTo i]\<rparr>,
      i := Future\<lparr>f_is_done := True, f_value := Some (FBytes data), f_callbacks := [HandleJoinSuccess], f_errbacks := [HandleJoinFailure]\<rparr>]"
  let ?t = "t\<lparr>cc_pending := filter (\<lambda>q. pq_id q \<noteq> pq_id p) (cc_pending t), cc_futures := ?fs\<rparr>"
  have "deliver (always v) (Deliver (pq_id p) (SyncReply 0 data)) t = (Inr (), snd (handle_join_success (always v) ?t))"
    using p j i
    by (simp add: suppress_def handle_sync_group_response_def complete_future_def complete_with_def on_future_def f_success_def
        run_calls_def py_defs Future_def)
  then show ?thesis
    using i by (simp add: handle_join_success_def thread_enable_def set_thread_def on_heartbeat_def ask_def py_defs Future_def)
qed

text \<open>Before the request: the group subscription is reset and the heartbeat thread disabled.\<close>

lemma joinable_subscribed:
  "joinable n s \<Longrightarrow> partitions_auto_assigned (cc_subscription s) \<and> (\<exists>ts. subscription_state.subscription (cc_subscription s) = Some ts)"
  by (auto simp: joinable_def need_rejoin_def split: if_splits)

lemma prepare_steady:
  assumes s: "joinable n s" and v: "steady v n"
  shows "\<exists>u. prepare_join (always v) m timer s = (Inr (Some ()), u) \<and> joinable n u \<and> cc_futures u = cc_futures s \<and>
    cc_pending u = cc_pending s \<and> cc_next_request u = cc_next_request s \<and> cc_assignors u = cc_assignors s \<and>
    subscription_state.subscription (cc_subscription u) = subscription_state.subscription (cc_subscription s) \<and>
    cc_rejoin_needed u = cc_rejoin_needed s \<and> cc_assignment_snapshot u = cc_assignment_snapshot s \<and>
    cc_metadata_snapshot u = cc_metadata_snapshot s"
proof (cases "cc_rejoining s")
  case True
  then show ?thesis using s by (simp add: prepare_join_def py_done_def py_defs)
next
  case False
  obtain ts where sub: "partitions_auto_assigned (cc_subscription s)" "subscription_state.subscription (cc_subscription s) = Some ts"
    using joinable_subscribed [OF s] by blast
  let ?sub = "(cc_subscription s)\<lparr>group_subscription := filter (\<lambda>t. t \<in> set ts) (group_subscription (cc_subscription s))\<rparr>"
  let ?acts = "if rebalance_listener (cc_subscription s) = None then cc_actions s
    else cc_actions s @ [ActRevoked (map fst (assignment (cc_subscription s)))]"
  let ?u = "s\<lparr>cc_tick := Suc (cc_tick s), cc_actions := ?acts, cc_is_leader := False, cc_subscription := ?sub, cc_rejoining := True,
      cc_heartbeat_thread := map_option (\<lambda>t. t\<lparr>ht_enabled := False\<rparr>) (cc_heartbeat_thread s)\<rparr>"
  have "prepare_join (always v) m timer s = (Inr (Some ()), ?u)"
    using False sub s
    by (auto simp: prepare_join_def time_left_def ask_def on_join_prepare_def maybe_auto_commit_offsets_sync_def py_obind_def
        joinable_def notify_revoked_def tell_client_def on_subscription_def reset_group_subscription_def ensure_auto_assigned_def
        disable_heartbeat_thread_def thread_disable_def set_thread_def py_done_def py_defs)
  moreover have "need_rejoin ?u = need_rejoin s"
    by (simp add: need_rejoin_def auto_assign_all_partitions_def partitions_auto_assigned_def)
  ultimately show ?thesis using s by (simp add: joinable_def)
qed

text \<open>One round of the loop, up to the outcome of the JoinGroup request.\<close>

definition requested :: "view \<Rightarrow> node_id \<Rightarrow> coord \<Rightarrow> coord \<Rightarrow> bool" where
  "requested v n s t \<longleftrightarrow>
     (\<exists>p. cc_pending t = cc_pending s @ [p] \<and> pq_kind p = PendingJoin (length (cc_futures s)) \<and> pq_id p = cc_next_request s) \<and>
     cc_futures t = cc_futures s @ [Future\<lparr>f_callbacks := [HandleJoinSuccess], f_errbacks := [HandleJoinFailure]\<rparr>] \<and>
     cc_next_request t = Suc (cc_next_request s) \<and> cc_state t = REBALANCING \<and> cc_coordinator_id t = Some n \<and>
     cc_assignors t = cc_assignors s \<and> partitions_auto_assigned (cc_subscription t) \<and>
     subscription_state.subscription (cc_subscription t) = subscription_state.subscription (cc_subscription s) \<and>
     cc_joined_subscription t = the (subscription_state.subscription (cc_subscription s)) \<and>
     cc_rejoin_needed t = cc_rejoin_needed s \<and> cc_assignment_snapshot t = cc_assignment_snapshot s \<and>
     cc_metadata_snapshot t = cc_metadata_snapshot s"

lemma join_loop_requests:
  assumes s: "joinable n s" and v: "steady v n"
  shows "\<exists>t. requested v n s t \<and> join_loop (always v) timer (Suc (Suc m)) s =
    py_bind (py_then (main_poll (always v)) (join_outcome (always v) timer (length (cc_futures s))))
      (\<lambda>r. case r of Some x \<Rightarrow> py_done x | None \<Rightarrow> join_loop (always v) timer (Suc m)) t"
proof -
  let ?s = "s\<lparr>cc_tick := cc_tick s + 3\<rparr>"
  have s1: "joinable n ?s" using s by (simp add: joinable_def)
  obtain u where u: "prepare_join (always v) (Suc m) timer ?s = (Inr (Some ()), u)" "joinable n u" "cc_futures u = cc_futures s"
    "cc_pending u = cc_pending s" "cc_next_request u = cc_next_request s" "cc_assignors u = cc_assignors s"
    "subscription_state.subscription (cc_subscription u) = subscription_state.subscription (cc_subscription s)"
    "cc_rejoin_needed u = cc_rejoin_needed s" "cc_assignment_snapshot u = cc_assignment_snapshot s"
    "cc_metadata_snapshot u = cc_metadata_snapshot s"
    using prepare_steady [OF s1 v, of "Suc m" timer] by auto
  let ?u = "u\<lparr>cc_tick := cc_tick u + 2\<rparr>"
  have u2: "joinable n ?u" using u(2) by (simp add: joinable_def)
  let ?i = "length (cc_futures s)"
  obtain req where init: "initiate_join_group (always v) ?u = (Inr ?i,
    ?u\<lparr>cc_state := REBALANCING, cc_tick := cc_tick ?u + 4, cc_joined_subscription := the (subscription_state.subscription (cc_subscription ?u)),
      cc_futures := cc_futures ?u @ [Future\<lparr>f_callbacks := [HandleJoinSuccess], f_errbacks := [HandleJoinFailure]\<rparr>],
      cc_pending := cc_pending ?u @ [\<lparr>pq_id = cc_next_request ?u, pq_node = n, pq_request = req, pq_kind = PendingJoin ?i\<rparr>],
      cc_next_request := Suc (cc_next_request ?u), cc_actions := cc_actions ?u @ [ActSend n req], cc_join_future := Some ?i\<rparr>)"
    (is "_ = (_, ?t)")
    using initiate_steady [OF v u2] u(3) by (auto simp: Let_def)
  have "requested v n s ?t"
    using u joinable_subscribed [OF u(2)] by (simp add: requested_def joinable_def)
  moreover have "join_loop (always v) timer (Suc (Suc m)) s =
    py_bind (py_then (main_poll (always v)) (join_outcome (always v) timer ?i))
      (\<lambda>r. case r of Some x \<Rightarrow> py_done x | None \<Rightarrow> join_loop (always v) timer (Suc m)) ?t"
  proof -
    have known: "cc_coordinator_id s = Some n" "need_rejoin s" "cc_coordinator_id u = Some n"
      using s u(2) by (simp_all add: joinable_def)
    have left: "time_left (always v) timer s = (Inr (timer_timeout_ms (vw_now v) timer), s\<lparr>cc_tick := Suc (cc_tick s)\<rparr>)"
      by (simp add: time_left_def ask_def)
    have "ensure_coordinator_ready (always v) (Suc m) l (s\<lparr>cc_tick := Suc (cc_tick s)\<rparr>) = (Inr (Some True), ?s)" for l
      using ready_steady [OF v, of "s\<lparr>cc_tick := Suc (cc_tick s)\<rparr>"] known(1) by (simp add: eval_nat_numeral)
    then have "join_loop (always v) timer (Suc (Suc m)) s =
        py_bind (join_attempt (always v) timer) (\<lambda>r. case r of Some x \<Rightarrow> py_done x | None \<Rightarrow> join_loop (always v) timer (Suc m)) ?u"
      using known u(1) idle_steady [OF v known(3)]
      by (subst join_loop.simps) (simp add: py_obind_def py_defs left del: join_loop.simps await_idle.simps)
    also have "\<dots> = py_bind (py_then (main_poll (always v)) (join_outcome (always v) timer ?i))
      (\<lambda>r. case r of Some x \<Rightarrow> py_done x | None \<Rightarrow> join_loop (always v) timer (Suc m)) ?t"
      using init by (simp add: join_attempt_def py_bind_def)
    finally show ?thesis .
  qed
  ultimately show ?thesis by blast
qed

lemma coord_inv_tick: "coord_inv s \<Longrightarrow> coord_inv (s\<lparr>cc_tick := k\<rparr>)"
  by (simp add: coord_inv_def cinv_def)

lemma joinable_tick: "joinable n s \<Longrightarrow> joinable n (s\<lparr>cc_tick := k\<rparr>)"
  by (simp add: joinable_def)

lemma join_group_loop:
  assumes "joinable n s"
  shows "join_group (always v) k limit s = join_loop (always v) (new_timer (vw_now v) limit) k (s\<lparr>cc_tick := Suc (cc_tick s)\<rparr>)"
  using assms by (simp add: join_group_def joinable_def start_timer_def ask_def py_defs)

text \<open>A coordinator that accepts the member as a follower and sends it an assignment.\<close>

definition answers_join :: "view \<Rightarrow> join_response \<Rightarrow> bytes \<Rightarrow> bool" where
  "answers_join v r data \<longleftrightarrow> jr_error_code r = 0 \<and> jr_leader_id r \<noteq> jr_member_id r \<and>
     (\<forall>ps p i. pq_kind p = PendingJoin i \<longrightarrow>
        vw_deliveries v (ps @ [p]) = [Deliver (pq_id p) (JoinReply r), Deliver (Suc (pq_id p)) (SyncReply 0 data)])"

lemma poll_joins:
  assumes v: "steady v n" "answers_join v r data" and s: "coord_inv s" and t: "requested v n s t"
  shows "\<exists>u. main_poll (always v) t = (Inr (), u) \<and> cc_state u = STABLE \<and> cc_generation u = joined_generation r \<and>
    cc_subscription u = cc_subscription t \<and> cc_assignors u = cc_assignors t \<and>
    (let f = cc_futures u ! length (cc_futures s) in f_is_done f \<and> f_exception f = None \<and> f_value f = Some (FBytes data))"
proof -
  let ?i = "length (cc_futures s)" and ?j = "Suc (length (cc_futures s))" and ?k = "cc_next_request s"
  obtain p where p: "cc_pending t = cc_pending s @ [p]" "pq_kind p = PendingJoin ?i" "pq_id p = ?k"
    using t by (auto simp: requested_def)
  have old: "\<forall>q \<in> set (cc_pending s). pq_id q < ?k" using s by (simp add: coord_inv_def cinv_def requests_ok_def)
  have ds: "vw_deliveries v (cc_pending t) = [Deliver ?k (JoinReply r), Deliver (Suc ?k) (SyncReply 0 data)]"
    and r: "jr_error_code r = 0" "jr_leader_id r \<noteq> jr_member_id r"
    using v(2) p by (auto simp: answers_join_def)
  let ?t = "t\<lparr>cc_tick := Suc (cc_tick t)\<rparr>"
  note tf = t [unfolded requested_def]
  obtain req where del: "deliver (always v) (Deliver (pq_id p) (JoinReply r)) ?t = (Inr (),
    ?t\<lparr>cc_pending := cc_pending s @ [\<lparr>pq_id = cc_next_request ?t, pq_node = n, pq_request = req, pq_kind = PendingSync (length (cc_futures ?t))\<rparr>],
      cc_generation := joined_generation r, cc_tick := cc_tick ?t + 3, cc_next_request := Suc (cc_next_request ?t),
      cc_actions := cc_actions ?t @ [ActSend n req],
      cc_futures := cc_futures ?t @ [Future\<lparr>f_callbacks := [ChainTo ?i], f_errbacks := [ChainTo ?i]\<rparr>]\<rparr>)"
    (is "_ = (_, ?u)")
    using deliver_join_follower [OF v(1), of ?t "cc_pending s" p ?i r] tf p old r by (auto simp: Let_def)
  let ?p = "\<lparr>pq_id = Suc ?k, pq_node = n, pq_request = req, pq_kind = PendingSync ?j\<rparr>"
  have "\<exists>u. deliver (always v) (Deliver (pq_id ?p) (SyncReply 0 data)) ?u = (Inr (), u) \<and> cc_state u = STABLE \<and>
    cc_generation u = cc_generation ?u \<and> cc_subscription u = cc_subscription ?u \<and> cc_assignors u = cc_assignors ?u \<and>
    f_is_done (cc_futures u ! ?i) \<and> f_exception (cc_futures u ! ?i) = None \<and> f_value (cc_futures u ! ?i) = Some (FBytes data)"
  proof (rule deliver_sync_success [where j = ?j])
    show "List.find (\<lambda>q. pq_id q = pq_id ?p) (cc_pending ?u) = Some ?p"
    proof -
      have "\<forall>q \<in> set (cc_pending s). pq_id q < pq_id ?p" using old by auto
      from remove_last_pending(2) [OF this] tf show ?thesis by simp
    qed
  qed (use tf in \<open>auto simp: nth_append\<close>)
  then obtain u where u: "deliver (always v) (Deliver (Suc ?k) (SyncReply 0 data)) ?u = (Inr (), u)" "cc_state u = STABLE"
    "cc_generation u = joined_generation r" "cc_subscription u = cc_subscription t" "cc_assignors u = cc_assignors t"
    "f_is_done (cc_futures u ! ?i)" "f_exception (cc_futures u ! ?i) = None" "f_value (cc_futures u ! ?i) = Some (FBytes data)"
    by auto
  have "client_poll (always v) t = (Inr (), u)"
    using ds del u(1) p(3) by (simp add: client_poll_def ask_def py_bind_def py_get_def py_return_def del: deliver.simps)
  then have "main_poll (always v) t = (Inr (), u\<lparr>cc_tick := Suc (cc_tick u)\<rparr>)"
    using v(1) by (simp add: main_poll_def ask_def steady_def py_defs)
  with u show ?thesis by (simp add: Let_def)
qed


section \<open>A failed join that is forgotten\<close>

text \<open>A coordinator that is loading the group.\<close>

definition rejects_join :: "view \<Rightarrow> join_response \<Rightarrow> bool" where
  "rejects_join v r \<longleftrightarrow> for_code (jr_error_code r) = CoordinatorLoadInProgressError \<and>
     (\<forall>ps p i. pq_kind p = PendingJoin i \<longrightarrow> vw_deliveries v (ps @ [p]) = [Deliver (pq_id p) (JoinReply r)])"

lemma poll_rejected:
  assumes v: "steady v n" "rejects_join v r" and s: "coord_inv s" and t: "requested v n s t"
  shows "\<exists>u. main_poll (always v) t = (Inr (), u) \<and> cc_state u = UNJOINED \<and> cc_subscription u = cc_subscription t \<and>
    cc_joined_subscription u = cc_joined_subscription t \<and> cc_rejoin_needed u = cc_rejoin_needed t \<and>
    cc_assignment_snapshot u = cc_assignment_snapshot t \<and> cc_metadata_snapshot u = cc_metadata_snapshot t \<and>
    (let f = cc_futures u ! length (cc_futures s) in f_is_done f \<and> f_exception f = Some CoordinatorLoadInProgressError)"
proof -
  let ?i = "length (cc_futures s)" and ?k = "cc_next_request s"
  obtain p where p: "cc_pending t = cc_pending s @ [p]" "pq_kind p = PendingJoin ?i" "pq_id p = ?k"
    using t by (auto simp: requested_def)
  have old: "\<forall>q \<in> set (cc_pending s). pq_id q < pq_id p" using s p(3) by (simp add: coord_inv_def cinv_def requests_ok_def)
  have ds: "vw_deliveries v (cc_pending t) = [Deliver (pq_id p) (JoinReply r)]"
    and r: "for_code (jr_error_code r) = CoordinatorLoadInProgressError"
    using v(2) p by (auto simp: rejects_join_def)
  have exn: "issubclass CoordinatorLoadInProgressError BaseException" "CoordinatorLoadInProgressError \<noteq> NoError"
    using for_code_exception [of "jr_error_code r"] r by (simp_all add: error_class_defs builtin_exn_defs)
  let ?f = "Future\<lparr>f_is_done := True, f_exception := Some CoordinatorLoadInProgressError, f_callbacks := [HandleJoinSuccess], f_errbacks := [HandleJoinFailure]\<rparr>"
  let ?u = "t\<lparr>cc_tick := Suc (cc_tick t), cc_pending := cc_pending s, cc_futures := cc_futures s @ [?f], cc_state := UNJOINED\<rparr>"
  have "deliver (always v) (Deliver (pq_id p) (JoinReply r)) (t\<lparr>cc_tick := Suc (cc_tick t)\<rparr>) = (Inr (), ?u)"
    using remove_last_pending [OF old] p(1,2) t exn
    by (simp add: suppress_def handle_join_group_response_def r complete_future_def complete_with_def on_future_def f_failure_def
        run_calls_def requested_def handle_join_failure_def py_defs Future_def)
  then have "client_poll (always v) t = (Inr (), ?u)"
    using ds by (simp add: client_poll_def ask_def py_bind_def py_get_def py_return_def del: deliver.simps)
  then have "main_poll (always v) t = (Inr (), ?u\<lparr>cc_tick := Suc (cc_tick ?u)\<rparr>)"
    using v(1) by (simp add: main_poll_def ask_def steady_def py_defs)
  then show ?thesis by (simp add: Let_def Future_def)
qed


section \<open>A join that outlives its member\<close>

lemma leave_request_built:
  assumes "version \<le> 2"
  shows "\<exists>req. positional_request LeaveGroupRequest version [a, b] = Inr req"
proof -
  have "version \<in> {0, 1, 2}" using assms by auto
  then show ?thesis
    by (auto simp: positional_request_def LeaveGroupRequest_def Struct_init_def Schema_of_def
        LeaveGroupRequest_v0_def LeaveGroupRequest_v1_def LeaveGroupRequest_v2_def)
qed

lemma leave_steady:
  assumes v: "steady v n" "\<forall>ps. vw_deliveries v ps = []" and s: "cc_coordinator_id s = Some n" "version_ge (cc_api_version s) [0, 9]"
  shows "\<exists>t qs. maybe_leave_group (always v) s = (Inr (), t) \<and> cc_state t = UNJOINED \<and> cc_generation t = NO_GENERATION \<and>
    cc_futures t = cc_futures s \<and> cc_pending t = cc_pending s @ qs \<and> cc_join_future t = cc_join_future s"
proof -
  obtain version where ver: "version \<le> 2"
    "\<And>s. api_version (always v) ''LeaveGroupRequest'' 2 s = (Inr version, s\<lparr>cc_tick := Suc (cc_tick s)\<rparr>)"
    using api_version_steady [OF v(1)] by metis
  obtain req where req: "positional_request LeaveGroupRequest version
      [opt_str (cc_group_id s), VStr (gn_member_id (cc_generation s))] = Inr req"
    using leave_request_built [OF ver(1)] by blast
  have "vw_send v n = None" using v(1) by (simp add: steady_def)
  then show ?thesis
    using s v(2) req
    by (auto simp: maybe_leave_group_def coordinator_unknown_def coordinator_steady [OF v(1)] send_leave_group_request_def ver ask_def
        add_pending_def client_poll_def reset_generation_def NO_GENERATION_def py_defs)
qed

lemma find_pending:
  assumes "distinct (map pq_id ps)" "p \<in> set ps"
  shows "List.find (\<lambda>q. pq_id q = pq_id p) (ps @ qs) = Some p"
  using assms by (induction ps) (auto simp: image_iff)

text \<open>C23. A member that leaves the group while its SyncGroup request is in flight is turned stable by the response: it then
  believes to be in the group without having a generation, and its next attempt to join finds the old join future
  completed and raises AssertionError.\<close>

theorem left_member_turns_stable:
  assumes v: "steady v n" "\<forall>ps. vw_deliveries v ps = []" and s: "coord_inv s" "cc_coordinator_id s = Some n" "version_ge (cc_api_version s) [0, 9]"
    and p: "p \<in> set (cc_pending s)" "pq_kind p = PendingSync j" "i \<noteq> j"
    and j: "cc_futures s ! j = Future\<lparr>f_callbacks := [ChainTo i], f_errbacks := [ChainTo i]\<rparr>"
    and i: "cc_futures s ! i = Future\<lparr>f_callbacks := [HandleJoinSuccess], f_errbacks := [HandleJoinFailure]\<rparr>"
  shows "\<exists>t u. maybe_leave_group (always v) s = (Inr (), t) \<and> cc_state t = UNJOINED \<and>
    deliver (always v) (Deliver (pq_id p) (SyncReply 0 data)) t = (Inr (), u) \<and> cc_state u = STABLE \<and>
    \<not> gn_is_valid (cc_generation u) \<and> fst (join_outcome (always v) timer i u) = Inl AssertionError"
proof -
  obtain t qs where t: "maybe_leave_group (always v) s = (Inr (), t)" "cc_state t = UNJOINED" "cc_generation t = NO_GENERATION"
    "cc_futures t = cc_futures s" "cc_pending t = cc_pending s @ qs"
    using leave_steady [OF v s(2,3)] by blast
  have ok: "requests_ok (cc_pending s) (cc_next_request s) (cc_futures s)" "detached {} (cc_pending s) (cc_futures s)"
    using s(1) by (simp_all add: coord_inv_def cinv_def)
  have "j \<in> set (pending_futures (cc_pending s))" using p(1,2) by (force simp: pending_futures_def)
  then have len: "j < length (cc_futures s)" using ok(1) by (simp add: requests_ok_def)
  have "i \<in> chain_targets (cc_futures s ! j)" by (simp add: j chain_targets_def)
  then have "i < length (cc_futures s)" using detachedD(2) [OF ok(2)] len by (meson nth_mem)
  moreover have "List.find (\<lambda>q. pq_id q = pq_id p) (cc_pending t) = Some p"
    using find_pending [of "cc_pending s" p qs] ok(1) p(1) t(5) by (simp add: requests_ok_def)
  ultimately obtain u where u: "deliver (always v) (Deliver (pq_id p) (SyncReply 0 data)) t = (Inr (), u)" "cc_state u = STABLE"
    "cc_generation u = NO_GENERATION" "f_is_done (cc_futures u ! i)" "f_exception (cc_futures u ! i) = None"
    using deliver_sync_success [of p t j i v data] p(2,3) j i len t(3,4) by auto
  have "\<not> gn_is_valid (cc_generation u)" by (simp add: u(3) gn_is_valid_def NO_GENERATION_def)
  moreover have "fst (join_outcome (always v) timer i u) = Inl AssertionError"
    using u(3-5)
    by (auto simp: join_outcome_def future_of_def f_succeeded_def reset_join_group_future_def NO_GENERATION_def
        on_join_complete_def py_defs)
  ultimately show ?thesis using t(1,2) u(1,2) by blast
qed

section \<open>An example\<close>

definition example_subscription :: subscription_state where
  "example_subscription = (SubscriptionState ''LATEST'')\<lparr>subscription_state.subscription := Some [[116]], sub_type := AUTO_TOPICS,
     group_subscription := [[116]]\<rparr>"

definition example_coord :: coord where
  "example_coord =
     (case ConsumerCoordinator 0 (Some [103]) [2, 6] 10000 3000 300000 100 False 5000 None [range_class] True 0
             example_subscription example_group_cluster of
        Inr s \<Rightarrow> s\<lparr>cc_coordinator_id := Some (CoordinatorNode 1), cc_rejoin_needed := False\<rparr>)"

definition example_view :: "(pending_request list \<Rightarrow> delivery list) \<Rightarrow> view" where
  "example_view ds = \<lparr>vw_now = 0, vw_is_disconnected = (\<lambda>_. False), vw_connection_delay = (\<lambda>_. 0), vw_connected = (\<lambda>_. True),
     vw_ready = (\<lambda>_. True), vw_least_loaded_node = Some (Node 1), vw_in_flight_request_count = (\<lambda>_. 0),
     vw_api_version = (\<lambda>_ _. Inr 0), vw_send = (\<lambda>_. None), vw_deliveries = ds, vw_thread_runs = False,
     vw_shuffle = (\<lambda>xs. xs), vw_pattern_match = (\<lambda>_ _. False)\<rparr>"

definition example_join_response :: "int \<Rightarrow> join_response" where
  "example_join_response code = \<lparr>jr_error_code = code, jr_generation_id = 5, jr_group_protocol = pystr_of ''range'',
     jr_leader_id = [97], jr_member_id = [98], jr_members = []\<rparr>"

lemma example_coord_created:
  "\<exists>s0. ConsumerCoordinator 0 (Some [103]) [2, 6] 10000 3000 300000 100 False 5000 None [range_class] True 0
     example_subscription example_group_cluster = Inr s0 \<and>
     example_coord = s0\<lparr>cc_coordinator_id := Some (CoordinatorNode 1), cc_rejoin_needed := False\<rparr>"
  by (simp add: example_coord_def ConsumerCoordinator_def Heartbeat_def Let_def require_def)

lemma example_steady: "steady (example_view ds) n"
  by (auto simp: steady_def example_view_def)

lemma example_fields:
  "cc_coordinator_id example_coord = Some (CoordinatorNode 1)" "cc_api_version example_coord = [2, 6]"
  "cc_subscription example_coord = example_subscription" "cc_assignors example_coord = [range_class]"
  "cc_joined_subscription example_coord = []" "cc_group_id example_coord = Some [103]" "\<not> cc_enable_auto_commit example_coord"
  "cc_assignment_snapshot example_coord = None" "cc_join_future example_coord = None" "\<not> cc_rejoin_needed example_coord"
  "cc_pending example_coord = []" "cc_futures example_coord = []" "cc_next_request example_coord = 0"
  "cc_find_coordinator_future example_coord = None"
  by (simp_all add: example_coord_def ConsumerCoordinator_def Heartbeat_def Let_def require_def)

lemma example_coord_inv: "coord_inv example_coord"
  by (simp add: coord_inv_def cinv_def requests_ok_def detached_def pending_futures_def example_fields)

lemma example_metadata_encodes:
  "\<exists>ps mds. res_list (map (\<lambda>a. res_map (Pair (as_name a)) (as_metadata a [[116]])) [range_class]) = Inr ps \<and> encode_metadata ps = Inr mds"
proof -
  have "\<not> isl (res_bind (assignor_metadata 0 [[116]]) Struct_encode_self)" by code_simp
  moreover obtain obj where obj: "assignor_metadata 0 [[116]] = Inr obj"
    by (simp add: assignor_metadata_def Struct_init_def ConsumerProtocolMemberMetadata_def Schema_of_def)
  ultimately obtain bs where "Struct_encode_self obj = Inr bs"
    by (cases "Struct_encode_self obj") simp_all
  with obj show ?thesis by (simp add: range_class_def encode_metadata_def)
qed

lemma example_joinable: "joinable (CoordinatorNode 1) example_coord"
  using example_metadata_encodes
  by (auto simp: joinable_def example_fields need_rejoin_def auto_assign_all_partitions_def example_subscription_def
      partitions_auto_assigned_def)


lemma example_assignment_fits:
  "fits ConsumerProtocolMemberAssignment (VTuple (assignment_values 0 [([116], [0, 1, 2])]))"
  by (simp add: ConsumerProtocolMemberAssignment_def Schema_of_def assignment_values_def fits_schema_def fits_array_def
      fits_str_def fits_int_def fits_bytes_def is_code_point_def surrogate_def utf8_char_def)

definition example_member_bytes :: bytes where
  "example_member_bytes = [0, 0, 0, 0, 0, 1, 0, 1, 116, 0, 0, 0, 0]"

lemma example_decoded: "decode_members [([97], example_member_bytes)] = Inr [([97], [[116]])]"
  by code_simp

lemma example_range: "range_assign example_group_cluster [([97], [[116]])] = Some [([97], [([116], [0, 1, 2])])]"
  by code_simp

lemma example_performed:
  "\<exists>s'. perform_assignment (pystr_of ''range'') [([97], example_member_bytes)] example_coord =
    (Inr (range_class, [([97], [([116], [0, 1, 2])])]), s')"
proof -
  have cl: "partitions (cc_cluster example_coord) = partitions example_group_cluster"
    by (simp add: example_coord_def ConsumerCoordinator_def Heartbeat_def Let_def require_def add_listener_def request_update_def
        py_defs example_group_cluster_def ClusterMetadata_def)
  have "range_assign c [([97], [[116]])] = range_assign example_group_cluster [([97], [[116]])]"
    if "partitions c = partitions example_group_cluster" for c
    using that by (simp add: range_assign_def consumers_per_topic_def range_topic_def partitions_for_topic_def)
  then have "range_assign c [([97], [[116]])] = Some [([97], [([116], [0, 1, 2])])]"
    if "partitions c = partitions example_group_cluster" for c
    using that example_range by simp
  moreover have "lookup_assignor example_coord (pystr_of ''range'') = Some range_class"
    by (simp add: lookup_assignor_def example_fields range_class_def)
  ultimately show ?thesis
    using cl by (auto simp: perform_assignment_def example_decoded on_subscription_def group_subscribe_def ensure_auto_assigned_def
        example_fields example_subscription_def partitions_auto_assigned_def tell_client_def on_cluster_def request_update_def
        range_class_def py_defs Let_def split: option.splits)
qed

theorem group_shares_partitions_witness:
  "\<exists>entries bs t. encode_assignment range_class [([97], [([116], [0, 1, 2])])] = Inr entries \<and>
    VTuple [VStr [97], VBytes bs] \<in> set entries \<and>
    on_join_complete (always (example_view (\<lambda>_. []))) (Some (pystr_of ''range'')) bs example_coord = (Inr (), t) \<and>
    assigned_partitions (cc_subscription t) = {tp. snd tp \<in> set (owned [([97], [([116], [0, 1, 2])])] [97] (fst tp))}"
proof -
  obtain s' where s': "perform_assignment (pystr_of ''range'') [([97], example_member_bytes)] example_coord =
    (Inr (range_class, [([97], [([116], [0, 1, 2])])]), s')"
    using example_performed by blast
  have hyps: "checked_assignor range_class" "valid_members [([97], [[116]])]"
    "assignments_fit range_class [([97], [([116], [0, 1, 2])])]"
    using example_assignment_fits by (simp_all add: checked_assignor_def valid_members_def assignments_fit_def range_class_def)
  have "awaits_assignment (always (example_view (\<lambda>_. []))) (pystr_of ''range'') [[116]] example_coord"
    by (simp add: awaits_assignment_def example_fields example_subscription_def partitions_auto_assigned_def lookup_assignor_def
        range_class_def example_view_def)
  with group_shares_partitions [OF s' hyps(1) example_decoded hyps(2,3)] show ?thesis by fastforce
qed



definition example_syncing :: coord where
  "example_syncing = example_coord\<lparr>cc_state := REBALANCING, cc_join_future := Some 0, cc_next_request := 1,
     cc_generation := joined_generation (example_join_response 0),
     cc_futures := [Future\<lparr>f_callbacks := [HandleJoinSuccess], f_errbacks := [HandleJoinFailure]\<rparr>,
       Future\<lparr>f_callbacks := [ChainTo 0], f_errbacks := [ChainTo 0]\<rparr>],
     cc_pending := [\<lparr>pq_id = 0, pq_node = CoordinatorNode 1,
       pq_request = \<lparr>rq_class = SyncGroupRequest_v0, rq_obj = \<lparr>so_schema = SCHEMA SyncGroupRequest_v0, so_dict = []\<rparr>\<rparr>, pq_kind = PendingSync 1\<rparr>]\<rparr>"

theorem left_member_turns_stable_witness:
  "\<exists>t u. maybe_leave_group (always (example_view (\<lambda>_. []))) example_syncing = (Inr (), t) \<and> cc_state t = UNJOINED \<and>
    deliver (always (example_view (\<lambda>_. []))) (Deliver 0 (SyncReply 0 [])) t = (Inr (), u) \<and> cc_state u = STABLE \<and>
    \<not> gn_is_valid (cc_generation u)"
proof -
  have "coord_inv example_syncing"
    using example_coord_inv
    by (auto simp: example_syncing_def coord_inv_def cinv_def requests_ok_def detached_def pending_futures_def looked_up_def
        chain_targets_def example_fields Future_def)
  moreover have "\<forall>ps. vw_deliveries (example_view (\<lambda>_. [])) ps = []" by (simp add: example_view_def)
  ultimately have "\<exists>t u. maybe_leave_group (always (example_view (\<lambda>_. []))) example_syncing = (Inr (), t) \<and> cc_state t = UNJOINED \<and>
      deliver (always (example_view (\<lambda>_. []))) (Deliver (pq_id (hd (cc_pending example_syncing))) (SyncReply 0 [])) t = (Inr (), u) \<and>
      cc_state u = STABLE \<and> \<not> gn_is_valid (cc_generation u) \<and>
      fst (join_outcome (always (example_view (\<lambda>_. []))) (new_timer 0 None) 0 u) = Inl AssertionError"
    by (intro left_member_turns_stable [OF example_steady, where j = 1 and n = "CoordinatorNode 1"])
      (auto simp: example_syncing_def example_fields)
  then show ?thesis by (auto simp: example_syncing_def simp del: deliver.simps)
qed

end
