(* ===== verification/Partition_Records.thy ===== *)
theory Partition_Records
  imports Memory_Records Cluster
begin

text \<open>
  The class \<open>Fetcher.PartitionRecords\<close> of \<^verbatim>\<open>kafka/consumer/fetcher.py\<close>: the records of one partition of a fetch
  response, unpacked lazily.  The generator \<open>_unpack_records\<close> is the datatype \<open>generator\<close> of the places it can be
  suspended at, with \<open>gen_step\<close> as the code from one of them to the next; its loop over batches follows lengths
  found in the data, so it is a partial function, None meaning that it does not return.  The callback \<open>on_drain\<close>
  acts on a state of its own type.  Deserializers and compression codecs are arguments.
\<close>

section \<open>Records and batches of either format\<close>

definition READ_UNCOMMITTED :: int where "READ_UNCOMMITTED = 0"
definition READ_COMMITTED :: int where "READ_COMMITTED = 1"

record consumer_record =
  kr_topic :: pystr
  kr_partition :: int
  kr_leader_epoch :: int
  kr_offset :: int
  kr_timestamp :: "int option"
  kr_timestamp_type :: "int option"
  kr_key :: pyval
  kr_value :: pyval
  kr_headers :: record_headers
  kr_checksum :: "int option"
  kr_serialized_key_size :: int
  kr_serialized_value_size :: int
  kr_serialized_header_size :: int

text \<open>What the code reads of a record: the properties of \<open>DefaultRecord\<close> and \<open>LegacyRecord\<close>.\<close>

record fetched_record =
  fx_offset :: int
  fx_timestamp :: "int option"
  fx_timestamp_type :: "int option"
  fx_key :: "bytes option"
  fx_value :: "bytes option"
  fx_headers :: record_headers
  fx_checksum :: "int option"
  fx_crc_ok :: bool
  fx_size_in_bytes :: "int res"

definition of_default_record :: "default_record \<Rightarrow> fetched_record" where
  "of_default_record r =
     \<lparr>fx_offset = dr_offset r, fx_timestamp = Some (dr_timestamp r), fx_timestamp_type = Some (dr_timestamp_type r),
      fx_key = dr_key r, fx_value = dr_value r, fx_headers = dr_headers r, fx_checksum = None, fx_crc_ok = True,
      fx_size_in_bytes = Inr (dr_size_in_bytes r)\<rparr>"

definition of_legacy_record :: "legacy_record \<Rightarrow> fetched_record" where
  "of_legacy_record r =
     \<lparr>fx_offset = lr_offset r, fx_timestamp = lr_timestamp r, fx_timestamp_type = lr_timestamp_type r,
      fx_key = lr_key r, fx_value = lr_value r, fx_headers = [], fx_checksum = Some (lr_crc r),
      fx_crc_ok = legacy_record_validate_crc r,
      fx_size_in_bytes = res_map int (legacy_estimate_size_in_bytes (lr_magic r) 0 (lr_key r) (lr_value r))\<rparr>"

definition batch_crc_ok :: "record_batch \<Rightarrow> bool res" where
  "batch_crc_ok b = (case b of LegacyBatch lb \<Rightarrow> Inr (legacy_validate_crc lb) | DefaultBatch db \<Rightarrow> validate_crc db)"

text \<open>\<open>for record in batch\<close>: the records, and the exception that ends the loop, StopIteration at its end.\<close>

definition batch_iter :: "codecs \<Rightarrow> record_batch \<Rightarrow> (fetched_record list \<times> exn_class) option" where
  "batch_iter cs b =
     (case b of
        LegacyBatch lb \<Rightarrow> map_option (\<lambda>(rs, e). (map of_legacy_record rs, e)) (legacy_iter cs lb)
      | DefaultBatch db \<Rightarrow>
          Some (case maybe_uncompress cs db of
              (Inl e, _) \<Rightarrow> ([], e)
            | (Inr _, db') \<Rightarrow> (case batch_records db' of (rs, e) \<Rightarrow> (map of_default_record rs, e))))"

section \<open>The state\<close>

type_synonym deserializer = "(pystr \<Rightarrow> bytes option \<Rightarrow> pyval res) option"

text \<open>Where the generator is suspended: before its first statement, after yielding a record of a batch whose
  other records are given (its loop ends with the given exception), or at its end.\<close>

datatype generator =
    Created memory_records
  | Running memory_records record_batch "fetched_record list" exn_class
  | Finished

record part_records =
  pr_fetch_offset :: int
  pr_topic_partition :: topic_partition
  pr_leader_epoch :: int
  pr_next_fetch_offset :: int
  pr_bytes_read :: int
  pr_records_read :: int
  pr_isolation_level :: int
  pr_aborted_producer_ids :: "int set"
  pr_aborted_transactions :: "(int \<times> int) list"
  pr_check_crcs :: bool
  pr_record_iterator :: "(bool \<times> generator) option"
  pr_next_inline_exception :: "exn_class option"

text \<open>The iterator is \<open>itertools.dropwhile\<close> of the generator: the flag says that it is still dropping.\<close>

definition PartitionRecords ::
  "int \<Rightarrow> topic_partition \<Rightarrow> memory_records \<Rightarrow> bool \<Rightarrow> int \<Rightarrow> (int \<times> int) list option \<Rightarrow> part_records" where
  "PartitionRecords fetch_offset tp records check_crcs isolation_level aborted_transactions =
     \<lparr>pr_fetch_offset = fetch_offset, pr_topic_partition = tp, pr_leader_epoch = - 1, pr_next_fetch_offset = fetch_offset,
      pr_bytes_read = 0, pr_records_read = 0, pr_isolation_level = isolation_level, pr_aborted_producer_ids = {},
      pr_aborted_transactions = sort_key snd (case aborted_transactions of None \<Rightarrow> [] | Some ts \<Rightarrow> ts),
      pr_check_crcs = check_crcs, pr_record_iterator = Some (True, Created records), pr_next_inline_exception = None\<rparr>"

definition maybe_skip_record :: "part_records \<Rightarrow> consumer_record \<Rightarrow> bool" where
  "maybe_skip_record p r \<longleftrightarrow> kr_offset r < pr_fetch_offset p"

definition pr_bool :: "part_records \<Rightarrow> bool" where
  "pr_bool p \<longleftrightarrow> pr_record_iterator p \<noteq> None"

definition drain :: "(part_records \<Rightarrow> 's \<Rightarrow> 's) \<Rightarrow> part_records \<times> 's \<Rightarrow> part_records \<times> 's" where
  "drain on_drain = (\<lambda>(p, s).
     if pr_record_iterator p \<noteq> None
     then let p' = p\<lparr>pr_record_iterator := None, pr_next_inline_exception := None\<rparr> in (p', on_drain p' s)
     else (p, s))"

section \<open>Unpacking\<close>

definition deserialize :: "deserializer \<Rightarrow> pystr \<Rightarrow> bytes option \<Rightarrow> pyval res" where
  "deserialize f topic raw =
     (case f of
        None \<Rightarrow> Inr (case raw of None \<Rightarrow> VNone | Some b \<Rightarrow> VBytes b)
      | Some g \<Rightarrow> g topic raw)"

definition consume_aborted_transactions_up_to :: "int \<Rightarrow> (part_records, unit) py" where
  "consume_aborted_transactions_up_to offset =
     py_set (\<lambda>p. p\<lparr>
       pr_aborted_producer_ids := pr_aborted_producer_ids p \<union>
         fst ` set (takeWhile (\<lambda>t. snd t \<le> offset) (pr_aborted_transactions p)),
       pr_aborted_transactions := dropWhile (\<lambda>t. snd t \<le> offset) (pr_aborted_transactions p)\<rparr>)"

definition is_batch_aborted :: "default_batch \<Rightarrow> part_records \<Rightarrow> bool" where
  "is_batch_aborted b p \<longleftrightarrow> is_transactional_batch b \<and> batch_producer_id b \<in> pr_aborted_producer_ids p"

definition contains_abort_marker :: "default_batch \<Rightarrow> bool res" where
  "contains_abort_marker b =
     (if \<not> is_control_batch b then Inr False else res_map control_abort (fst (batch_next b)))"

text \<open>The part of the loop body for isolation level \<open>read_committed\<close>: whether the batch is skipped as aborted.\<close>

definition skip_aborted :: "default_batch \<Rightarrow> (part_records, bool) py" where
  "skip_aborted b =
     py_if (\<lambda>p. pr_isolation_level p = READ_COMMITTED \<and> batch_has_producer_id b)
       (py_then (consume_aborted_transactions_up_to (last_offset b))
         (py_bind (py_lift (contains_abort_marker b)) (\<lambda>marker.
            if marker then
              py_then (py_set (\<lambda>p. p\<lparr>pr_aborted_producer_ids := pr_aborted_producer_ids p - {batch_producer_id b}\<rparr>))
                (py_return False)
            else py_get (is_batch_aborted b))))
       (py_return False)"

definition set_next_fetch_offset :: "int \<Rightarrow> (part_records, unit) py" where
  "set_next_fetch_offset off = py_set (\<lambda>p. p\<lparr>pr_next_fetch_offset := off\<rparr>)"

text \<open>The loop body up to \<open>for record in batch\<close>: whether the records of the batch are unpacked.\<close>

definition enter_batch :: "record_batch \<Rightarrow> (part_records, bool) py" where
  "enter_batch b =
     py_then
       (py_when pr_check_crcs
         (py_bind (py_lift (batch_crc_ok b)) (\<lambda>ok. if ok then py_return () else py_raise CorruptRecordError)))
       (case b of
          LegacyBatch _ \<Rightarrow> py_return True
        | DefaultBatch db \<Rightarrow>
            if batch_magic db = 2 then
              py_then (py_set (\<lambda>p. p\<lparr>pr_leader_epoch := leader_epoch db\<rparr>))
             (py_bind (skip_aborted db) (\<lambda>aborted.
                if aborted \<or> is_control_batch db then
                  py_then (set_next_fetch_offset (batch_next_offset db)) (py_return False)
                else py_return True))
            else py_return True)"

definition opt_size :: "bytes option \<Rightarrow> int" where
  "opt_size b = (case b of None \<Rightarrow> - 1 | Some bs \<Rightarrow> int (length bs))"

primrec headers_size :: "record_headers \<Rightarrow> int res" where
  "headers_size [] = Inr 0"
| "headers_size (h # hs) =
     res_bind (utf8_encode (fst h)) (\<lambda>k.
       res_map (\<lambda>n. int (length k) + (case snd h of None \<Rightarrow> 0 | Some v \<Rightarrow> int (length v)) + n) (headers_size hs))"

text \<open>The body of \<open>for record in batch\<close>.\<close>

definition unpack_record :: "deserializer \<Rightarrow> deserializer \<Rightarrow> fetched_record \<Rightarrow> (part_records, consumer_record) py" where
  "unpack_record key_deserializer value_deserializer r =
     py_then (py_when (\<lambda>p. pr_check_crcs p \<and> \<not> fx_crc_ok r) (py_raise CorruptRecordError))
    (py_bind (py_get pr_topic_partition) (\<lambda>tp.
     py_bind (py_lift (deserialize key_deserializer (fst tp) (fx_key r))) (\<lambda>key.
     py_bind (py_lift (deserialize value_deserializer (fst tp) (fx_value r))) (\<lambda>val.
     py_bind (py_lift (if fx_headers r = [] then Inr (- 1) else headers_size (fx_headers r))) (\<lambda>header_size.
     py_then (py_set (\<lambda>p. p\<lparr>pr_records_read := pr_records_read p + 1\<rparr>))
    (py_bind (py_lift (fx_size_in_bytes r)) (\<lambda>size_in_bytes.
     py_then (py_set (\<lambda>p. p\<lparr>pr_bytes_read := pr_bytes_read p + size_in_bytes\<rparr>))
    (py_then (set_next_fetch_offset (fx_offset r + 1))
       (py_get (\<lambda>p. \<lparr>kr_topic = fst tp, kr_partition = snd tp, kr_leader_epoch = pr_leader_epoch p, kr_offset = fx_offset r,
          kr_timestamp = fx_timestamp r, kr_timestamp_type = fx_timestamp_type r, kr_key = key, kr_value = val,
          kr_headers = fx_headers r, kr_checksum = fx_checksum r, kr_serialized_key_size = opt_size (fx_key r),
          kr_serialized_value_size = opt_size (fx_value r), kr_serialized_header_size = header_size\<rparr>))))))))))"

text \<open>A StopIteration that leaves the body becomes a RuntimeError.\<close>

definition generator_error :: "exn_class \<Rightarrow> exn_class" where
  "generator_error e = (if issubclass e StopIteration then RuntimeError else e)"

text \<open>A step of the generator: to where it yields, ends or raises (\<open>Inl\<close>), or to its next place (\<open>Inr\<close>).\<close>

type_synonym gen_outcome = "(consumer_record option res \<times> generator) + generator"

definition last_batch_offset :: "record_batch option \<Rightarrow> (part_records, unit) py" where
  "last_batch_offset b =
     (case b of
        Some (DefaultBatch db) \<Rightarrow> if batch_magic db = 2 then set_next_fetch_offset (batch_next_offset db) else py_return ()
      | _ \<Rightarrow> py_return ())"

definition gen_advance ::
  "codecs \<Rightarrow> (part_records \<Rightarrow> 's \<Rightarrow> 's) \<Rightarrow> memory_records \<Rightarrow> record_batch option \<Rightarrow> part_records \<times> 's \<Rightarrow>
     (gen_outcome \<times> part_records \<times> 's) option" where
  "gen_advance cs on_drain records last_batch = (\<lambda>(p, s).
     case next_batch records of
       (Inl e, _) \<Rightarrow> Some (Inl (Inl (generator_error e), Finished), p, s)
     | (Inr None, _) \<Rightarrow> Some (Inl (Inr None, Finished), drain on_drain (snd (last_batch_offset last_batch p), s))
     | (Inr (Some b), records') \<Rightarrow>
         (case enter_batch b p of
            (Inl e, p') \<Rightarrow> Some (Inl (Inl (generator_error e), Finished), p', s)
          | (Inr False, p') \<Rightarrow> Some (Inr (Running records' b [] StopIteration), p', s)
          | (Inr True, p') \<Rightarrow>
              Option.bind (batch_iter cs b) (\<lambda>(rs, e). Some (Inr (Running records' b rs e), p', s))))"

definition gen_step ::
  "codecs \<Rightarrow> deserializer \<Rightarrow> deserializer \<Rightarrow> (part_records \<Rightarrow> 's \<Rightarrow> 's) \<Rightarrow> generator \<Rightarrow> part_records \<times> 's \<Rightarrow>
     (gen_outcome \<times> part_records \<times> 's) option" where
  "gen_step cs kd vd on_drain gen = (\<lambda>(p, s).
     case gen of
       Finished \<Rightarrow> Some (Inl (Inr None, Finished), p, s)
     | Created records \<Rightarrow> gen_advance cs on_drain records None (p, s)
     | Running records batch rs e \<Rightarrow>
         (case rs of
            [] \<Rightarrow> if e = StopIteration then gen_advance cs on_drain records (Some batch) (p, s)
                   else Some (Inl (Inl (generator_error e), Finished), p, s)
          | r # rs' \<Rightarrow>
              (case unpack_record kd vd r p of
                 (Inl x, p') \<Rightarrow> Some (Inl (Inl (generator_error x), Finished), p', s)
               | (Inr cr, p') \<Rightarrow> Some (Inl (Inr (Some cr), Running records batch rs' e), p', s))))"

partial_function (option) unpack_records ::
  "codecs \<Rightarrow> deserializer \<Rightarrow> deserializer \<Rightarrow> (part_records \<Rightarrow> 's \<Rightarrow> 's) \<Rightarrow> generator \<Rightarrow> part_records \<times> 's \<Rightarrow>
     ((consumer_record option res \<times> generator) \<times> part_records \<times> 's) option" where
  "unpack_records cs kd vd on_drain gen st =
     Option.bind (gen_step cs kd vd on_drain gen st) (\<lambda>(out, st').
       case out of Inl r \<Rightarrow> Some (r, st') | Inr gen' \<Rightarrow> unpack_records cs kd vd on_drain gen' st')"

text \<open>\<open>next\<close> of the iterator, which drops records before the fetch offset until one is not dropped.\<close>

partial_function (option) iterator_next ::
  "codecs \<Rightarrow> deserializer \<Rightarrow> deserializer \<Rightarrow> (part_records \<Rightarrow> 's \<Rightarrow> 's) \<Rightarrow> bool \<times> generator \<Rightarrow> part_records \<times> 's \<Rightarrow>
     ((consumer_record option res \<times> bool \<times> generator) \<times> part_records \<times> 's) option" where
  "iterator_next cs kd vd on_drain it st =
     Option.bind (unpack_records cs kd vd on_drain (snd it) st) (\<lambda>((r, gen'), st').
       if fst it \<and> (case r of Inr (Some cr) \<Rightarrow> maybe_skip_record (fst st') cr | _ \<Rightarrow> False)
       then iterator_next cs kd vd on_drain (True, gen') st'
       else Some ((r, (case r of Inr (Some cr) \<Rightarrow> False | _ \<Rightarrow> fst it), gen'), st'))"

text \<open>\<open>records.extend(itertools.islice(it, 0, n))\<close>: the records, and the exception that stopped it.\<close>

primrec extend_islice ::
  "codecs \<Rightarrow> deserializer \<Rightarrow> deserializer \<Rightarrow> (part_records \<Rightarrow> 's \<Rightarrow> 's) \<Rightarrow> nat \<Rightarrow> bool \<times> generator \<Rightarrow> part_records \<times> 's \<Rightarrow>
     ((consumer_record list \<times> exn_class option \<times> bool \<times> generator) \<times> part_records \<times> 's) option" where
  "extend_islice cs kd vd on_drain 0 it st = Some (([], None, it), st)"
| "extend_islice cs kd vd on_drain (Suc n) it st =
     Option.bind (iterator_next cs kd vd on_drain it st) (\<lambda>((r, it'), st').
       case r of
         Inl e \<Rightarrow> Some (([], Some e, it'), st')
       | Inr None \<Rightarrow> Some (([], None, it'), st')
       | Inr (Some cr) \<Rightarrow>
           map_option (\<lambda>((rs, e, it''), st''). ((cr # rs, e, it''), st'')) (extend_islice cs kd vd on_drain n it' st'))"

definition take_records ::
  "codecs \<Rightarrow> deserializer \<Rightarrow> deserializer \<Rightarrow> (part_records \<Rightarrow> 's \<Rightarrow> 's) \<Rightarrow> nat \<Rightarrow> part_records \<times> 's \<Rightarrow>
     (consumer_record list res \<times> part_records \<times> 's) option" where
  "take_records cs kd vd on_drain n = (\<lambda>(p, s).
     case pr_next_inline_exception p of
       Some e \<Rightarrow> Some (Inl e, p\<lparr>pr_next_inline_exception := None\<rparr>, s)
     | None \<Rightarrow>
         (case pr_record_iterator p of
            None \<Rightarrow> Some (Inl TypeError, p, s)
          | Some it \<Rightarrow>
              map_option (\<lambda>((rs, e, it'), (p', s')).
                let p1 = (if pr_record_iterator p' = None then p' else p'\<lparr>pr_record_iterator := Some it'\<rparr>) in
                case e of
                  None \<Rightarrow> (Inr rs, p1, s')
                | Some x \<Rightarrow> if rs = [] then (Inl x, p1, s') else (Inr rs, p1\<lparr>pr_next_inline_exception := Some x\<rparr>, s'))
                (extend_islice cs kd vd on_drain n it (p, s))))"

section \<open>What is to be returned\<close>

text \<open>The batches a buffer holds, as \<open>next_batch\<close> returns them.\<close>

inductive next_batches :: "memory_records \<Rightarrow> record_batch list \<Rightarrow> bool" where
  no_batch: "next_batches r []" if "next_batch r = (Inr None, r')"
| one_batch: "next_batches r (b # bs)" if "next_batch r = (Inr (Some b), r')" "next_batches r' bs"

text \<open>The consumer's view of a record.\<close>

definition consumer_record_of ::
  "deserializer \<Rightarrow> deserializer \<Rightarrow> topic_partition \<Rightarrow> int \<Rightarrow> fetched_record \<Rightarrow> consumer_record res" where
  "consumer_record_of kd vd tp epoch r =
     res_bind (deserialize kd (fst tp) (fx_key r)) (\<lambda>key.
     res_bind (deserialize vd (fst tp) (fx_value r)) (\<lambda>val.
     res_map (\<lambda>header_size.
        \<lparr>kr_topic = fst tp, kr_partition = snd tp, kr_leader_epoch = epoch, kr_offset = fx_offset r,
         kr_timestamp = fx_timestamp r, kr_timestamp_type = fx_timestamp_type r, kr_key = key, kr_value = val,
         kr_headers = fx_headers r, kr_checksum = fx_checksum r, kr_serialized_key_size = opt_size (fx_key r),
         kr_serialized_value_size = opt_size (fx_value r), kr_serialized_header_size = header_size\<rparr>)
       (if fx_headers r = [] then Inr (- 1) else headers_size (fx_headers r))))"

text \<open>A batch of format v2, and one that carries a producer id.\<close>

definition v2_batch :: "record_batch \<Rightarrow> default_batch option" where
  "v2_batch b = (case b of DefaultBatch db \<Rightarrow> if batch_magic db = 2 then Some db else None | _ \<Rightarrow> None)"

definition producer_batch :: "record_batch \<Rightarrow> default_batch option" where
  "producer_batch b = (case v2_batch b of Some db \<Rightarrow> if batch_has_producer_id db then Some db else None | None \<Rightarrow> None)"

definition abort_marker :: "default_batch \<Rightarrow> bool" where
  "abort_marker b \<longleftrightarrow> contains_abort_marker b = Inr True"

text \<open>A batch is aborted when an aborted transaction of its producer has begun by its end, and no abort marker of that
  transaction is among the batches before it.\<close>

definition in_aborted_transaction :: "(int \<times> int) list \<Rightarrow> default_batch list \<Rightarrow> default_batch \<Rightarrow> bool" where
  "in_aborted_transaction aborted prev b \<longleftrightarrow>
     is_transactional_batch b \<and>
     (\<exists>first. (batch_producer_id b, first) \<in> set aborted \<and> first \<le> last_offset b \<and>
       \<not> (\<exists>m \<in> set prev. abort_marker m \<and> batch_producer_id m = batch_producer_id b \<and> first \<le> last_offset m))"

lemma in_aborted_transaction_code [code]:
  "in_aborted_transaction aborted prev b \<longleftrightarrow>
     is_transactional_batch b \<and>
     (\<exists>(p, first) \<in> set aborted. p = batch_producer_id b \<and> first \<le> last_offset b \<and>
       \<not> (\<exists>m \<in> set prev. abort_marker m \<and> batch_producer_id m = batch_producer_id b \<and> first \<le> last_offset m))"
  by (auto simp: in_aborted_transaction_def)

definition hidden_batch :: "int \<Rightarrow> (int \<times> int) list \<Rightarrow> default_batch list \<Rightarrow> record_batch \<Rightarrow> bool" where
  "hidden_batch level aborted prev b \<longleftrightarrow>
     (case v2_batch b of
        None \<Rightarrow> False
      | Some db \<Rightarrow> is_control_batch db \<or>
          (level = READ_COMMITTED \<and> batch_has_producer_id db \<and> in_aborted_transaction aborted prev db))"

definition batch_list :: "codecs \<Rightarrow> record_batch \<Rightarrow> fetched_record list" where
  "batch_list cs b = fst (the (batch_iter cs b))"

definition epoch_after :: "record_batch \<Rightarrow> int \<Rightarrow> int" where
  "epoch_after b epoch = (case v2_batch b of None \<Rightarrow> epoch | Some db \<Rightarrow> leader_epoch db)"

definition extend_prev :: "default_batch list \<Rightarrow> record_batch \<Rightarrow> default_batch list" where
  "extend_prev prev b = prev @ (case producer_batch b of None \<Rightarrow> [] | Some db \<Rightarrow> [db])"

primrec visible_records ::
  "codecs \<Rightarrow> deserializer \<Rightarrow> deserializer \<Rightarrow> topic_partition \<Rightarrow> int \<Rightarrow> (int \<times> int) list \<Rightarrow> default_batch list \<Rightarrow> int \<Rightarrow>
     record_batch list \<Rightarrow> consumer_record list" where
  "visible_records cs kd vd tp level aborted prev epoch [] = []"
| "visible_records cs kd vd tp level aborted prev epoch (b # bs) =
     (if hidden_batch level aborted prev b then []
      else map (\<lambda>r. projr (consumer_record_of kd vd tp (epoch_after b epoch) r)) (batch_list cs b)) @
     visible_records cs kd vd tp level aborted (extend_prev prev b) (epoch_after b epoch) bs"

text \<open>An intact batch: its checksum is right, its records parse and can be deserialized.\<close>

definition intact_record :: "deserializer \<Rightarrow> deserializer \<Rightarrow> bool \<Rightarrow> topic_partition \<Rightarrow> fetched_record \<Rightarrow> bool" where
  "intact_record kd vd check tp r \<longleftrightarrow>
     (check \<longrightarrow> fx_crc_ok r) \<and> (\<exists>n. fx_size_in_bytes r = Inr n) \<and> (\<forall>epoch. \<exists>cr. consumer_record_of kd vd tp epoch r = Inr cr)"

definition intact_batch :: "codecs \<Rightarrow> deserializer \<Rightarrow> deserializer \<Rightarrow> bool \<Rightarrow> topic_partition \<Rightarrow> record_batch \<Rightarrow> bool" where
  "intact_batch cs kd vd check tp b \<longleftrightarrow>
     (check \<longrightarrow> batch_crc_ok b = Inr True) \<and>
     (case v2_batch b of None \<Rightarrow> True | Some db \<Rightarrow> is_control_batch db \<longrightarrow> (\<exists>r. fst (batch_next db) = Inr r)) \<and>
     (\<exists>rs. batch_iter cs b = Some (rs, StopIteration) \<and> (\<forall>r \<in> set rs. intact_record kd vd check tp r))"

section \<open>The generator yields it\<close>

lemma unpack_record_intact:
  assumes "intact_record kd vd (pr_check_crcs p) (pr_topic_partition p) r"
  shows "\<exists>n. unpack_record kd vd r p =
    (Inr (projr (consumer_record_of kd vd (pr_topic_partition p) (pr_leader_epoch p) r)),
     p\<lparr>pr_records_read := pr_records_read p + 1, pr_bytes_read := pr_bytes_read p + n, pr_next_fetch_offset := fx_offset r + 1\<rparr>)"
proof -
  obtain n cr where "fx_size_in_bytes r = Inr n"
    "consumer_record_of kd vd (pr_topic_partition p) (pr_leader_epoch p) r = Inr cr"
    using assms unfolding intact_record_def by blast
  then show ?thesis
    using assms by (auto simp: unpack_record_def consumer_record_of_def intact_record_def py_defs set_next_fetch_offset_def
        res_eq_Inr)
qed

text \<open>What the state knows of aborted transactions after the batches \<open>prev\<close>.\<close>

definition begun :: "default_batch list \<Rightarrow> int \<Rightarrow> bool" where
  "begun prev first \<longleftrightarrow> (\<exists>b \<in> set prev. first \<le> last_offset b)"

definition ended :: "default_batch list \<Rightarrow> int \<Rightarrow> int \<Rightarrow> bool" where
  "ended prev pid first \<longleftrightarrow> (\<exists>m \<in> set prev. abort_marker m \<and> batch_producer_id m = pid \<and> first \<le> last_offset m)"

definition aborted_state :: "(int \<times> int) list \<Rightarrow> default_batch list \<Rightarrow> part_records \<Rightarrow> bool" where
  "aborted_state aborted prev p \<longleftrightarrow>
     pr_isolation_level p = READ_COMMITTED \<longrightarrow>
       pr_aborted_producer_ids p = {pid. \<exists>first. (pid, first) \<in> set aborted \<and> begun prev first \<and> \<not> ended prev pid first} \<and>
       pr_aborted_transactions p = filter (\<lambda>t. \<not> begun prev (snd t)) (sort_key snd aborted)"

lemma ended_begun: "ended prev pid first \<Longrightarrow> begun prev first"
  by (auto simp: ended_def begun_def)

lemma dropWhile_sorted_key: "sorted (map f xs) \<Longrightarrow> dropWhile (\<lambda>x. f x \<le> k) xs = filter (\<lambda>x. \<not> f x \<le> k) xs"
  for f :: "'a \<Rightarrow> int"
proof (induction xs)
  case (Cons a xs)
  then have "\<not> f a \<le> k \<Longrightarrow> \<forall>x \<in> set xs. \<not> f x \<le> k" by force
  with Cons show ?case by (cases "f a \<le> k") simp_all
qed simp

lemma takeWhile_sorted_key: "sorted (map f xs) \<Longrightarrow> takeWhile (\<lambda>x. f x \<le> k) xs = filter (\<lambda>x. f x \<le> k) xs"
  for f :: "'a \<Rightarrow> int"
proof (induction xs)
  case (Cons a xs)
  then have "\<not> f a \<le> k \<Longrightarrow> \<forall>x \<in> set xs. \<not> f x \<le> k" by force
  with Cons show ?case by (cases "f a \<le> k") simp_all
qed simp

lemma begun_extend:
  "\<forall>m \<in> set prev. last_offset m < last_offset b \<Longrightarrow> begun (prev @ [b]) first \<longleftrightarrow> first \<le> last_offset b"
  by (auto simp: begun_def)

lemma consume_aborted:
  assumes "aborted_state aborted prev p" "pr_isolation_level p = READ_COMMITTED"
    "\<forall>m \<in> set prev. last_offset m < last_offset b" "consume_aborted_transactions_up_to (last_offset b) p = (Inr (), q)"
  shows "pr_aborted_producer_ids q = {pid. \<exists>first. (pid, first) \<in> set aborted \<and> first \<le> last_offset b \<and> \<not> ended prev pid first}"
    "pr_aborted_transactions q = filter (\<lambda>t. \<not> begun (prev @ [b]) (snd t)) (sort_key snd aborted)"
proof -
  let ?d = "filter (\<lambda>t. \<not> begun prev (snd t)) (sort_key snd aborted)"
  have sorted: "sorted (map snd ?d)" by (simp add: sorted_filter)
  have q: "q = p\<lparr>pr_aborted_producer_ids := pr_aborted_producer_ids p \<union> fst ` set (filter (\<lambda>t. snd t \<le> last_offset b) ?d),
      pr_aborted_transactions := filter (\<lambda>t. \<not> snd t \<le> last_offset b) ?d\<rparr>"
    using assms(1,2,4) takeWhile_sorted_key [OF sorted] dropWhile_sorted_key [OF sorted]
    by (simp add: consume_aborted_transactions_up_to_def py_set_def aborted_state_def)
  have le: "begun prev first \<Longrightarrow> first \<le> last_offset b" for first using assms(3) by (force simp: begun_def)
  show "pr_aborted_producer_ids q = {pid. \<exists>first. (pid, first) \<in> set aborted \<and> first \<le> last_offset b \<and> \<not> ended prev pid first}"
  proof (rule set_eqI)
    fix pid
    have "pid \<in> pr_aborted_producer_ids q \<longleftrightarrow> (\<exists>first. (pid, first) \<in> set aborted \<and>
        ((begun prev first \<and> \<not> ended prev pid first) \<or> (\<not> begun prev first \<and> first \<le> last_offset b)))"
      using assms(1,2) unfolding q by (force simp: aborted_state_def image_iff)
    then show "pid \<in> pr_aborted_producer_ids q \<longleftrightarrow>
        pid \<in> {pid. \<exists>first. (pid, first) \<in> set aborted \<and> first \<le> last_offset b \<and> \<not> ended prev pid first}"
      using le ended_begun by blast
  qed
  show "pr_aborted_transactions q = filter (\<lambda>t. \<not> begun (prev @ [b]) (snd t)) (sort_key snd aborted)"
    unfolding q using le by (auto simp: begun_extend [OF assms(3)] intro!: filter_cong)
qed

lemma ended_snoc:
  "ended (prev @ [b]) pid first \<longleftrightarrow> ended prev pid first \<or> (abort_marker b \<and> batch_producer_id b = pid \<and> first \<le> last_offset b)"
  by (auto simp: ended_def)

lemma aborted_state_snoc:
  assumes ids: "pr_aborted_producer_ids q = {pid. \<exists>first. (pid, first) \<in> set aborted \<and> first \<le> last_offset b \<and> \<not> ended prev pid first} -
      (if abort_marker b then {batch_producer_id b} else {})"
    and txns: "pr_aborted_transactions q = filter (\<lambda>t. \<not> begun (prev @ [b]) (snd t)) (sort_key snd aborted)"
    and later: "\<forall>m \<in> set prev. last_offset m < last_offset b"
  shows "aborted_state aborted (prev @ [b]) q"
  using txns unfolding aborted_state_def ids begun_extend [OF later] ended_snoc by auto

text \<open>What unpacking leaves alone.\<close>

definition same_part :: "part_records \<Rightarrow> part_records \<Rightarrow> bool" where
  "same_part p q \<longleftrightarrow> pr_fetch_offset q = pr_fetch_offset p \<and> pr_topic_partition q = pr_topic_partition p \<and>
     pr_isolation_level q = pr_isolation_level p \<and> pr_check_crcs q = pr_check_crcs p \<and>
     pr_record_iterator q = pr_record_iterator p \<and> pr_next_inline_exception q = pr_next_inline_exception p"

lemma same_part_refl [simp]: "same_part p p"
  by (simp add: same_part_def)

lemma same_part_trans: "same_part p q \<Longrightarrow> same_part q r \<Longrightarrow> same_part p r"
  by (simp add: same_part_def)

lemma skip_aborted_intact:
  assumes "aborted_state aborted prev p" "batch_has_producer_id b" "\<forall>m \<in> set prev. last_offset m < last_offset b"
    and marker: "is_control_batch b \<Longrightarrow> \<exists>r. fst (batch_next b) = Inr r"
    and level: "pr_isolation_level p = READ_COMMITTED"
  shows "\<exists>a q. skip_aborted b p = (Inr a, q) \<and> aborted_state aborted (prev @ [b]) q \<and> same_part p q \<and>
    pr_leader_epoch q = pr_leader_epoch p \<and> (a \<or> is_control_batch b \<longleftrightarrow> is_control_batch b \<or> in_aborted_transaction aborted prev b)"
proof -
  obtain q where q: "consume_aborted_transactions_up_to (last_offset b) p = (Inr (), q)"
    by (simp add: consume_aborted_transactions_up_to_def py_set_def)
  note consumed = consume_aborted [OF assms(1) level assms(3) q]
  have same: "same_part p q" "pr_leader_epoch q = pr_leader_epoch p"
    using q by (auto simp: consume_aborted_transactions_up_to_def py_set_def same_part_def)
  obtain m where m: "contains_abort_marker b = Inr m"
    using marker by (cases "is_control_batch b") (auto simp: contains_abort_marker_def)
  have aborted: "is_batch_aborted b q \<longleftrightarrow> in_aborted_transaction aborted prev b"
    by (auto simp: is_batch_aborted_def consumed(1) in_aborted_transaction_def ended_def)
  show ?thesis
  proof (cases m)
    case True
    then have "is_control_batch b" "abort_marker b"
      using m by (auto simp: contains_abort_marker_def abort_marker_def split: if_splits)
    moreover have "aborted_state aborted (prev @ [b]) (q\<lparr>pr_aborted_producer_ids := pr_aborted_producer_ids q - {batch_producer_id b}\<rparr>)"
      using calculation consumed by (intro aborted_state_snoc [OF _ _ assms(3)]) auto
    ultimately show ?thesis
      using True m q assms(2) level same by (auto simp: skip_aborted_def py_defs same_part_def)
  next
    case False
    have "\<not> abort_marker b" using False m by (simp add: abort_marker_def)
    then have "aborted_state aborted (prev @ [b]) q" using consumed by (intro aborted_state_snoc [OF _ _ assms(3)]) auto
    then show ?thesis
      using False m q assms(2) level aborted same by (auto simp: skip_aborted_def py_defs)
  qed
qed

definition later_than :: "default_batch list \<Rightarrow> record_batch \<Rightarrow> bool" where
  "later_than prev b \<longleftrightarrow> (\<forall>db. producer_batch b = Some db \<longrightarrow> (\<forall>m \<in> set prev. last_offset m < last_offset db))"

lemma enter_batch_intact:
  assumes intact: "intact_batch cs kd vd (pr_check_crcs p) (pr_topic_partition p) b"
    and st: "aborted_state aborted prev p" and later: "later_than prev b"
  shows "\<exists>q. enter_batch b p = (Inr (\<not> hidden_batch (pr_isolation_level p) aborted prev b), q) \<and>
    aborted_state aborted (extend_prev prev b) q \<and> same_part p q \<and> pr_leader_epoch q = epoch_after b (pr_leader_epoch p)"
proof (cases "v2_batch b")
  case None
  then have "enter_batch b p = (Inr True, p)"
    using intact by (auto simp: enter_batch_def v2_batch_def intact_batch_def py_defs split: record_batch.splits if_splits)
  then show ?thesis using None st by (simp add: hidden_batch_def extend_prev_def producer_batch_def epoch_after_def)
next
  case (Some db)
  let ?p = "p\<lparr>pr_leader_epoch := leader_epoch db\<rparr>"
  let ?hidden = "is_control_batch db \<or> (pr_isolation_level p = READ_COMMITTED \<and> batch_has_producer_id db \<and> in_aborted_transaction aborted prev db)"
  have st': "aborted_state aborted prev ?p" using st by (simp add: aborted_state_def)
  have "\<exists>a q. skip_aborted db ?p = (Inr a, q) \<and> aborted_state aborted (extend_prev prev b) q \<and> same_part p q \<and>
      pr_leader_epoch q = leader_epoch db \<and> (a \<or> is_control_batch db \<longleftrightarrow> ?hidden)"
  proof (cases "pr_isolation_level p = READ_COMMITTED \<and> batch_has_producer_id db")
    case True
    then have "extend_prev prev b = prev @ [db]" "\<forall>m \<in> set prev. last_offset m < last_offset db"
      using Some later by (auto simp: extend_prev_def producer_batch_def later_than_def)
    moreover have "is_control_batch db \<Longrightarrow> \<exists>r. fst (batch_next db) = Inr r"
      using intact Some by (simp add: intact_batch_def)
    ultimately show ?thesis
      using skip_aborted_intact [OF st', of db] True by (auto simp: same_part_def)
  next
    case False
    then have "aborted_state aborted (extend_prev prev b) ?p"
      using st Some by (auto simp: aborted_state_def extend_prev_def producer_batch_def)
    moreover have "skip_aborted db ?p = (Inr False, ?p)" using False by (auto simp: skip_aborted_def py_defs)
    ultimately show ?thesis using False by (auto simp: same_part_def)
  qed
  then obtain a q where q: "skip_aborted db ?p = (Inr a, q)" "aborted_state aborted (extend_prev prev b) q" "same_part p q"
      "pr_leader_epoch q = leader_epoch db" "a \<or> is_control_batch db \<longleftrightarrow> ?hidden" by blast
  have b: "b = DefaultBatch db" "batch_magic db = 2" using Some by (auto simp: v2_batch_def split: record_batch.splits if_splits)
  have "enter_batch b p = (if ?hidden then (Inr False, q\<lparr>pr_next_fetch_offset := batch_next_offset db\<rparr>) else (Inr True, q))"
    using intact q(1) unfolding q(5) [symmetric]
    by (auto simp: enter_batch_def b intact_batch_def py_defs set_next_fetch_offset_def)
  then show ?thesis using q(2-4) Some by (auto simp: hidden_batch_def epoch_after_def same_part_def aborted_state_def)
qed

primrec in_order :: "default_batch list \<Rightarrow> record_batch list \<Rightarrow> bool" where
  "in_order prev [] \<longleftrightarrow> True"
| "in_order prev (b # bs) \<longleftrightarrow> later_than prev b \<and> in_order (extend_prev prev b) bs"

text \<open>The records still to come, of a generator that is at the end of a batch, and of any generator.\<close>

definition batches_ready ::
  "codecs \<Rightarrow> deserializer \<Rightarrow> deserializer \<Rightarrow> (int \<times> int) list \<Rightarrow> memory_records \<Rightarrow> default_batch list \<Rightarrow> record_batch list \<Rightarrow>
     part_records \<Rightarrow> consumer_record list \<Rightarrow> bool" where
  "batches_ready cs kd vd aborted records prev bs p xs \<longleftrightarrow>
     next_batches records bs \<and> list_all (intact_batch cs kd vd (pr_check_crcs p) (pr_topic_partition p)) bs \<and>
     in_order prev bs \<and> aborted_state aborted prev p \<and>
     xs = visible_records cs kd vd (pr_topic_partition p) (pr_isolation_level p) aborted prev (pr_leader_epoch p) bs"

primrec gen_ready ::
  "codecs \<Rightarrow> deserializer \<Rightarrow> deserializer \<Rightarrow> (int \<times> int) list \<Rightarrow> generator \<Rightarrow> part_records \<Rightarrow> consumer_record list \<Rightarrow>
     record_batch option \<Rightarrow> bool" where
  "gen_ready cs kd vd aborted (Created records) p xs fin \<longleftrightarrow>
     (\<exists>bs. batches_ready cs kd vd aborted records [] bs p xs \<and> fin = (if bs = [] then None else Some (last bs)))"
| "gen_ready cs kd vd aborted (Running records b rs e) p xs fin \<longleftrightarrow>
     e = StopIteration \<and> list_all (intact_record kd vd (pr_check_crcs p) (pr_topic_partition p)) rs \<and>
     (\<exists>prev bs ys. batches_ready cs kd vd aborted records prev bs p ys \<and> fin = Some (last (b # bs)) \<and>
       xs = map (\<lambda>r. projr (consumer_record_of kd vd (pr_topic_partition p) (pr_leader_epoch p) r)) rs @ ys)"
| "gen_ready cs kd vd aborted Finished p xs fin \<longleftrightarrow> False"

lemma gen_ready_Running:
  "list_all (intact_record kd vd (pr_check_crcs p) (pr_topic_partition p)) rs \<Longrightarrow>
   batches_ready cs kd vd aborted records prev bs p ys \<Longrightarrow>
   gen_ready cs kd vd aborted (Running records b rs StopIteration) p
     (map (\<lambda>r. projr (consumer_record_of kd vd (pr_topic_partition p) (pr_leader_epoch p) r)) rs @ ys) (Some (last (b # bs)))"
  unfolding gen_ready.simps by blast

text \<open>What a call of the generator has to do.\<close>

definition offset_after :: "record_batch option \<Rightarrow> part_records \<Rightarrow> bool" where
  "offset_after fin p \<longleftrightarrow> (\<forall>db. Option.bind fin v2_batch = Some db \<longrightarrow> pr_next_fetch_offset p = batch_next_offset db)"

definition gen_delivers ::
  "codecs \<Rightarrow> deserializer \<Rightarrow> deserializer \<Rightarrow> (part_records \<Rightarrow> 's \<Rightarrow> 's) \<Rightarrow> (int \<times> int) list \<Rightarrow> part_records \<Rightarrow> 's \<Rightarrow>
     consumer_record list \<Rightarrow> record_batch option \<Rightarrow> ((consumer_record option res \<times> generator) \<times> part_records \<times> 's) option \<Rightarrow> bool" where
  "gen_delivers cs kd vd od aborted p s xs fin out \<longleftrightarrow>
     (case xs of
        [] \<Rightarrow> \<exists>q. out = Some ((Inr None, Finished), drain od (q, s)) \<and> same_part p q \<and> offset_after fin q
      | y # ys \<Rightarrow> \<exists>gen q. out = Some ((Inr (Some y), gen), q, s) \<and> gen_ready cs kd vd aborted gen q ys fin \<and>
          same_part p q \<and> pr_next_fetch_offset q = kr_offset y + 1)"

lemma consumer_record_offset:
  "intact_record kd vd check tp r \<Longrightarrow> kr_offset (projr (consumer_record_of kd vd tp epoch r)) = fx_offset r"
proof -
  assume "intact_record kd vd check tp r"
  then obtain cr where "consumer_record_of kd vd tp epoch r = Inr cr" unfolding intact_record_def by blast
  then show ?thesis by (auto simp: consumer_record_of_def res_eq_Inr)
qed

lemma batches_ready_update:
  "batches_ready cs kd vd aborted records prev bs
     (p\<lparr>pr_records_read := a, pr_bytes_read := b, pr_next_fetch_offset := c\<rparr>) xs = batches_ready cs kd vd aborted records prev bs p xs"
  by (simp add: batches_ready_def aborted_state_def)

lemma yield_record:
  assumes "gen_ready cs kd vd aborted (Running records b (r # rs) e) p xs fin"
  shows "gen_delivers cs kd vd od aborted p s xs fin (unpack_records cs kd vd od (Running records b (r # rs) e) (p, s))"
proof -
  let ?cr = "projr (consumer_record_of kd vd (pr_topic_partition p) (pr_leader_epoch p) r)"
  have r: "intact_record kd vd (pr_check_crcs p) (pr_topic_partition p) r" using assms by simp
  obtain n where n: "unpack_record kd vd r p = (Inr ?cr, p\<lparr>pr_records_read := pr_records_read p + 1,
      pr_bytes_read := pr_bytes_read p + n, pr_next_fetch_offset := fx_offset r + 1\<rparr>)"
    using unpack_record_intact [OF r] by blast
  let ?q = "p\<lparr>pr_records_read := pr_records_read p + 1, pr_bytes_read := pr_bytes_read p + n, pr_next_fetch_offset := fx_offset r + 1\<rparr>"
  have "unpack_records cs kd vd od (Running records b (r # rs) e) (p, s) = Some ((Inr (Some ?cr), Running records b rs e), ?q, s)"
    using n by (simp add: unpack_records.simps [of cs kd vd od "Running records b (r # rs) e"] gen_step_def)
  moreover obtain ys where "xs = ?cr # ys" "gen_ready cs kd vd aborted (Running records b rs e) ?q ys fin"
    using assms by (auto simp: batches_ready_update)
  ultimately show ?thesis by (simp add: gen_delivers_def same_part_def consumer_record_offset [OF r])
qed

lemma last_batch_offset_same: "same_part p (snd (last_batch_offset b p)) \<and> offset_after b (snd (last_batch_offset b p))"
  by (auto simp: last_batch_offset_def set_next_fetch_offset_def py_defs same_part_def offset_after_def v2_batch_def
      split: option.splits record_batch.splits if_splits)

lemma gen_delivers_same:
  "gen_delivers cs kd vd od aborted q s xs fin out \<Longrightarrow> same_part p q \<Longrightarrow> gen_delivers cs kd vd od aborted p s xs fin out"
  by (auto simp: gen_delivers_def split: list.splits intro: same_part_trans)

lemma advance_delivers:
  assumes "batches_ready cs kd vd aborted records prev bs p xs" "fin = (if bs = [] then lb else Some (last bs))"
    and "gen_step cs kd vd od gen (p, s) = gen_advance cs od records lb (p, s)"
  shows "gen_delivers cs kd vd od aborted p s xs fin (unpack_records cs kd vd od gen (p, s))"
  using assms
proof (induction bs arbitrary: records prev p xs lb gen)
  case Nil
  then obtain r' where "next_batch records = (Inr None, r')"
    by (auto simp: batches_ready_def elim: next_batches.cases)
  then show ?case
    using Nil last_batch_offset_same [of p lb]
    by (auto simp: unpack_records.simps [of cs kd vd od gen] gen_advance_def gen_delivers_def batches_ready_def)
next
  case (Cons b bs)
  let ?level = "pr_isolation_level p" and ?tp = "pr_topic_partition p"
  obtain records' where nb: "next_batch records = (Inr (Some b), records')" "next_batches records' bs"
    using Cons.prems(1) by (auto simp: batches_ready_def elim: next_batches.cases)
  have intact: "intact_batch cs kd vd (pr_check_crcs p) ?tp b" and "later_than prev b" "aborted_state aborted prev p"
    using Cons.prems(1) by (simp_all add: batches_ready_def)
  then obtain q where q: "enter_batch b p = (Inr (\<not> hidden_batch ?level aborted prev b), q)"
      "aborted_state aborted (extend_prev prev b) q" "same_part p q" "pr_leader_epoch q = epoch_after b (pr_leader_epoch p)"
    using enter_batch_intact by blast
  let ?ys = "visible_records cs kd vd ?tp ?level aborted (extend_prev prev b) (epoch_after b (pr_leader_epoch p)) bs"
  have ready: "batches_ready cs kd vd aborted records' (extend_prev prev b) bs q ?ys"
    using Cons.prems(1) nb(2) q(2-4) by (simp add: batches_ready_def same_part_def)
  have fin: "fin = Some (last (b # bs))" using Cons.prems(2) by simp
  have run: "gen_delivers cs kd vd od aborted q s
      (map (\<lambda>r. projr (consumer_record_of kd vd ?tp (pr_leader_epoch q) r)) rs @ ?ys) fin
      (unpack_records cs kd vd od (Running records' b rs StopIteration) (q, s))"
    if "list_all (intact_record kd vd (pr_check_crcs p) ?tp) rs" for rs
  proof (cases rs)
    case Nil
    then show ?thesis
      using Cons.IH [OF ready, of "Some b" "Running records' b [] StopIteration"] fin
      by (simp add: gen_step_def split: if_splits)
  next
    case (Cons r rs')
    have "gen_ready cs kd vd aborted (Running records' b rs StopIteration) q
        (map (\<lambda>r. projr (consumer_record_of kd vd ?tp (pr_leader_epoch q) r)) rs @ ?ys) fin"
      using gen_ready_Running [OF _ ready, of rs b] that q(3) unfolding fin by (simp add: same_part_def)
    then show ?thesis unfolding Cons by (rule yield_record)
  qed
  show ?case
  proof (cases "hidden_batch ?level aborted prev b")
    case True
    then have "unpack_records cs kd vd od gen (p, s) = unpack_records cs kd vd od (Running records' b [] StopIteration) (q, s)"
      using Cons.prems(3) nb(1) q(1) by (simp add: unpack_records.simps [of cs kd vd od gen] gen_advance_def)
    then show ?thesis
      using run [of "[]"] True Cons.prems(1) q(3) by (auto simp: batches_ready_def intro: gen_delivers_same)
  next
    case False
    obtain rs where rs: "batch_iter cs b = Some (rs, StopIteration)" "list_all (intact_record kd vd (pr_check_crcs p) ?tp) rs"
      using intact by (auto simp: intact_batch_def list_all_iff)
    then have "unpack_records cs kd vd od gen (p, s) = unpack_records cs kd vd od (Running records' b rs StopIteration) (q, s)"
      using Cons.prems(3) nb(1) q(1) False by (simp add: unpack_records.simps [of cs kd vd od gen] gen_advance_def)
    then show ?thesis
      using run [OF rs(2)] rs(1) False Cons.prems(1) q(3,4)
      by (auto simp: batches_ready_def batch_list_def intro: gen_delivers_same)
  qed
qed

lemma unpack_delivers:
  assumes "gen_ready cs kd vd aborted gen p xs fin"
  shows "gen_delivers cs kd vd od aborted p s xs fin (unpack_records cs kd vd od gen (p, s))"
proof (cases gen)
  case (Created records)
  then show ?thesis
    using assms by (auto intro!: advance_delivers simp: gen_step_def)
next
  case (Running records b rs e)
  show ?thesis
  proof (cases rs)
    case Nil
    then show ?thesis using assms unfolding Running by (auto intro!: advance_delivers simp: gen_step_def)
  next
    case (Cons r rs')
    show ?thesis using assms unfolding Running Cons by (rule yield_record)
  qed
qed (use assms in simp)

section \<open>Taking records\<close>

definition iter_ready ::
  "codecs \<Rightarrow> deserializer \<Rightarrow> deserializer \<Rightarrow> (int \<times> int) list \<Rightarrow> bool \<times> generator \<Rightarrow> part_records \<Rightarrow> consumer_record list \<Rightarrow>
     record_batch option \<Rightarrow> bool" where
  "iter_ready cs kd vd aborted it p xs fin \<longleftrightarrow>
     (\<exists>ys. gen_ready cs kd vd aborted (snd it) p ys fin \<and> xs = (if fst it then dropWhile (maybe_skip_record p) ys else ys))"

lemma gen_ready_iterator [simp]:
  "gen_ready cs kd vd aborted gen (p\<lparr>pr_record_iterator := i\<rparr>) xs fin = gen_ready cs kd vd aborted gen p xs fin"
  by (cases gen) (simp_all add: batches_ready_def aborted_state_def)

lemma same_part_skip: "same_part p q \<Longrightarrow> maybe_skip_record q = maybe_skip_record p"
  by (rule ext) (simp add: maybe_skip_record_def same_part_def)

lemma iter_ready_iterator [simp]:
  "iter_ready cs kd vd aborted it (p\<lparr>pr_record_iterator := i\<rparr>) xs fin = iter_ready cs kd vd aborted it p xs fin"
  by (simp add: iter_ready_def maybe_skip_record_def [abs_def])

lemma iterator_ends:
  assumes "iter_ready cs kd vd aborted it p [] fin"
  shows "\<exists>it' q. iterator_next cs kd vd od it (p, s) = Some ((Inr None, it'), drain od (q, s)) \<and> same_part p q \<and> offset_after fin q"
proof -
  obtain ys where ys: "gen_ready cs kd vd aborted (snd it) p ys fin" "[] = (if fst it then dropWhile (maybe_skip_record p) ys else ys)"
    using assms by (auto simp: iter_ready_def)
  then show ?thesis
  proof (induction ys arbitrary: it p)
    case Nil
    then show ?case
      using unpack_delivers [OF Nil(1), of od s]
      by (auto simp: gen_delivers_def iterator_next.simps [of cs kd vd od it])
  next
    case (Cons y ys)
    then have it: "fst it" "maybe_skip_record p y" by (auto split: if_splits)
    obtain gen q where q: "unpack_records cs kd vd od (snd it) (p, s) = Some ((Inr (Some y), gen), q, s)"
        "gen_ready cs kd vd aborted gen q ys fin" "same_part p q"
      using unpack_delivers [OF Cons.prems(1), of od s] by (auto simp: gen_delivers_def)
    then have "\<exists>it' r. iterator_next cs kd vd od (True, gen) (q, s) = Some ((Inr None, it'), drain od (r, s)) \<and> same_part q r \<and> offset_after fin r"
      using Cons.IH [of "(True, gen)" q] Cons.prems(2) it same_part_skip [OF q(3)] by simp
    then show ?case
      using q(1,3) it same_part_skip [OF q(3)]
      by (auto simp: iterator_next.simps [of cs kd vd od it] intro: same_part_trans)
  qed
qed

lemma iterator_yields:
  assumes "iter_ready cs kd vd aborted it p (x # xs) fin"
  shows "\<exists>it' q. iterator_next cs kd vd od it (p, s) = Some ((Inr (Some x), it'), q, s) \<and>
    iter_ready cs kd vd aborted it' q xs fin \<and> same_part p q \<and> pr_next_fetch_offset q = kr_offset x + 1"
proof -
  obtain ys where ys: "gen_ready cs kd vd aborted (snd it) p ys fin" "x # xs = (if fst it then dropWhile (maybe_skip_record p) ys else ys)"
    using assms by (auto simp: iter_ready_def)
  then show ?thesis
  proof (induction ys arbitrary: it p)
    case Nil
    then show ?case by (simp split: if_splits)
  next
    case (Cons y ys)
    obtain gen q where q: "unpack_records cs kd vd od (snd it) (p, s) = Some ((Inr (Some y), gen), q, s)"
        "gen_ready cs kd vd aborted gen q ys fin" "same_part p q" "pr_next_fetch_offset q = kr_offset y + 1"
      using unpack_delivers [OF Cons.prems(1), of od s] by (auto simp: gen_delivers_def)
    show ?case
    proof (cases "fst it \<and> maybe_skip_record p y")
      case True
      then have "\<exists>it' r. iterator_next cs kd vd od (True, gen) (q, s) = Some ((Inr (Some x), it'), r, s) \<and>
          iter_ready cs kd vd aborted it' r xs fin \<and> same_part q r \<and> pr_next_fetch_offset r = kr_offset x + 1"
        using Cons.IH [of "(True, gen)" q] Cons.prems(2) q(2) same_part_skip [OF q(3)] by simp
      then show ?thesis
        using q(1,3) True same_part_skip [OF q(3)]
        by (auto simp: iterator_next.simps [of cs kd vd od it] intro: same_part_trans)
    next
      case False
      then have "y = x" "ys = xs" using Cons.prems(2) by (auto split: if_splits)
      then show ?thesis
        using q False same_part_skip [OF q(3)]
        by (auto simp: iterator_next.simps [of cs kd vd od it] iter_ready_def)
    qed
  qed
qed

lemma islice_part:
  assumes "iter_ready cs kd vd aborted it p xs fin" "n \<le> length xs"
  shows "\<exists>it' q. extend_islice cs kd vd od n it (p, s) = Some ((take n xs, None, it'), q, s) \<and>
    iter_ready cs kd vd aborted it' q (drop n xs) fin \<and> same_part p q \<and>
    (n > 0 \<longrightarrow> pr_next_fetch_offset q = kr_offset (xs ! (n - 1)) + 1)"
  using assms
proof (induction n arbitrary: it p xs)
  case (Suc n)
  then obtain x ys where xs: "xs = x # ys" "n \<le> length ys" by (cases xs) auto
  obtain it' q where q: "iterator_next cs kd vd od it (p, s) = Some ((Inr (Some x), it'), q, s)"
      "iter_ready cs kd vd aborted it' q ys fin" "same_part p q" "pr_next_fetch_offset q = kr_offset x + 1"
    using iterator_yields [OF Suc.prems(1) [unfolded xs(1)], of od s] by blast
  obtain it'' r where "extend_islice cs kd vd od n it' (q, s) = Some ((take n ys, None, it''), r, s)"
      "iter_ready cs kd vd aborted it'' r (drop n ys) fin" "same_part q r"
      "n > 0 \<longrightarrow> pr_next_fetch_offset r = kr_offset (ys ! (n - 1)) + 1"
      "n = 0 \<longrightarrow> r = q"
    using Suc.IH [OF q(2) xs(2)] by (cases n) auto
  then show ?case using q xs(1) by (cases n) (auto intro: same_part_trans)
qed simp

lemma islice_all:
  assumes "iter_ready cs kd vd aborted it p xs fin" "length xs < n"
  shows "\<exists>it' q. extend_islice cs kd vd od n it (p, s) = Some ((xs, None, it'), drain od (q, s)) \<and> same_part p q \<and> offset_after fin q"
  using assms
proof (induction xs arbitrary: it p n)
  case Nil
  then obtain m where "n = Suc m" by (cases n) auto
  then show ?case using iterator_ends [OF Nil.prems(1), of od s] by auto
next
  case (Cons x xs)
  then obtain m where n: "n = Suc m" "length xs < m" by (cases n) auto
  obtain it' q where q: "iterator_next cs kd vd od it (p, s) = Some ((Inr (Some x), it'), q, s)"
      "iter_ready cs kd vd aborted it' q xs fin" "same_part p q"
    using iterator_yields [OF Cons.prems(1), of od s] by blast
  obtain it'' r where r: "extend_islice cs kd vd od m it' (q, s) = Some ((xs, None, it''), drain od (r, s))" "same_part q r" "offset_after fin r"
    using Cons.IH [OF q(2) n(2)] by blast
  have "extend_islice cs kd vd od n it (p, s) = Some ((x # xs, None, it''), drain od (r, s))"
    using q(1) r(1) n(1) by (cases "drain od (r, s)") simp
  then show ?case using r(2,3) same_part_trans [OF q(3)] by blast
qed

definition part_ready ::
  "codecs \<Rightarrow> deserializer \<Rightarrow> deserializer \<Rightarrow> (int \<times> int) list \<Rightarrow> part_records \<Rightarrow> consumer_record list \<Rightarrow> record_batch option \<Rightarrow> bool" where
  "part_ready cs kd vd aborted p xs fin \<longleftrightarrow> pr_next_inline_exception p = None \<and>
     (\<exists>it. pr_record_iterator p = Some it \<and> iter_ready cs kd vd aborted it p xs fin)"

lemma take_part:
  assumes "part_ready cs kd vd aborted p xs fin" "n \<le> length xs"
  shows "\<exists>q. take_records cs kd vd od n (p, s) = Some (Inr (take n xs), q, s) \<and> part_ready cs kd vd aborted q (drop n xs) fin \<and>
    pr_topic_partition q = pr_topic_partition p \<and> (n > 0 \<longrightarrow> pr_next_fetch_offset q = kr_offset (xs ! (n - 1)) + 1)"
proof -
  obtain it where it: "pr_record_iterator p = Some it" "iter_ready cs kd vd aborted it p xs fin" "pr_next_inline_exception p = None"
    using assms(1) by (auto simp: part_ready_def)
  obtain it' q where q: "extend_islice cs kd vd od n it (p, s) = Some ((take n xs, None, it'), q, s)"
      "iter_ready cs kd vd aborted it' q (drop n xs) fin" "same_part p q"
      "n > 0 \<longrightarrow> pr_next_fetch_offset q = kr_offset (xs ! (n - 1)) + 1"
    using islice_part [OF it(2) assms(2), of od s] by blast
  then have "take_records cs kd vd od n (p, s) = Some (Inr (take n xs), q\<lparr>pr_record_iterator := Some it'\<rparr>, s)"
    using it by (simp add: take_records_def same_part_def)
  with q it show ?thesis by (cases it') (auto simp: part_ready_def same_part_def)
qed

lemma take_rest:
  assumes "part_ready cs kd vd aborted p xs fin" "length xs < n"
  shows "\<exists>q. take_records cs kd vd od n (p, s) = Some (Inr xs, q, od q s) \<and> \<not> pr_bool q \<and>
    pr_topic_partition q = pr_topic_partition p \<and> offset_after fin q"
proof -
  obtain it where it: "pr_record_iterator p = Some it" "iter_ready cs kd vd aborted it p xs fin" "pr_next_inline_exception p = None"
    using assms(1) by (auto simp: part_ready_def)
  obtain it' q where q: "extend_islice cs kd vd od n it (p, s) = Some ((xs, None, it'), drain od (q, s))" "same_part p q" "offset_after fin q"
    using islice_all [OF it(2) assms(2), of od s] by blast
  then have "take_records cs kd vd od n (p, s) = Some (Inr xs, drain od (q, s))"
    using it by (simp add: take_records_def same_part_def drain_def Let_def)
  with q it show ?thesis by (auto simp: drain_def same_part_def pr_bool_def offset_after_def Let_def)
qed

lemma PartitionRecords_fields [simp]:
  "pr_topic_partition (PartitionRecords off tp records check level aborted) = tp"
  "pr_next_fetch_offset (PartitionRecords off tp records check level aborted) = off"
  "pr_next_inline_exception (PartitionRecords off tp records check level aborted) = None"
  "pr_bool (PartitionRecords off tp records check level aborted)"
  by (simp_all add: PartitionRecords_def pr_bool_def)

lemma PartitionRecords_ready:
  assumes "next_batches records bs" "list_all (intact_batch cs kd vd check tp) bs" "in_order [] bs"
  shows "part_ready cs kd vd aborted (PartitionRecords off tp records check level (Some aborted))
    (dropWhile (\<lambda>r. kr_offset r < off) (visible_records cs kd vd tp level aborted [] (- 1) bs))
    (if bs = [] then None else Some (last bs))"
  using assms by (auto simp: part_ready_def PartitionRecords_def iter_ready_def batches_ready_def aborted_state_def begun_def
      maybe_skip_record_def [abs_def])

text \<open>Repeated calls of \<open>take\<close>, as long as there is an iterator; None when one of them raises or does not return.\<close>

primrec take_all ::
  "codecs \<Rightarrow> deserializer \<Rightarrow> deserializer \<Rightarrow> (part_records \<Rightarrow> 's \<Rightarrow> 's) \<Rightarrow> nat list \<Rightarrow> part_records \<times> 's \<Rightarrow>
     (consumer_record list list \<times> part_records \<times> 's) option" where
  "take_all cs kd vd od [] st = Some ([], st)"
| "take_all cs kd vd od (n # ns) st =
     (if \<not> pr_bool (fst st) then Some ([], st)
      else case take_records cs kd vd od n st of
          Some (Inr rs, st') \<Rightarrow> map_option (\<lambda>(chunks, st''). (rs # chunks, st'')) (take_all cs kd vd od ns st')
        | _ \<Rightarrow> None)"

lemma take_all_ready:
  assumes "part_ready cs kd vd aborted p xs fin"
  shows "\<exists>chunks q s'. take_all cs kd vd od ns (p, s) = Some (chunks, q, s') \<and> concat chunks = take (sum_list ns) xs \<and>
    (length xs < sum_list ns \<longrightarrow> \<not> pr_bool q \<and> offset_after fin q)"
  using assms
proof (induction ns arbitrary: p xs s)
  case (Cons n ns)
  have it: "pr_bool p" using Cons.prems by (auto simp: part_ready_def pr_bool_def)
  show ?case
  proof (cases "n \<le> length xs")
    case True
    obtain q where q: "take_records cs kd vd od n (p, s) = Some (Inr (take n xs), q, s)" "part_ready cs kd vd aborted q (drop n xs) fin"
      using take_part [OF Cons.prems True, of od s] by blast
    obtain chunks r s' where "take_all cs kd vd od ns (q, s) = Some (chunks, r, s')" "concat chunks = take (sum_list ns) (drop n xs)"
        "length (drop n xs) < sum_list ns \<longrightarrow> \<not> pr_bool r \<and> offset_after fin r"
      using Cons.IH [OF q(2)] by blast
    then show ?thesis using q(1) it True by (auto simp: take_add)
  next
    case False
    then obtain q where q: "take_records cs kd vd od n (p, s) = Some (Inr xs, q, od q s)" "\<not> pr_bool q" "offset_after fin q"
      using take_rest [OF Cons.prems, of n od s] by auto
    then have "take_all cs kd vd od ns (q, od q s) = Some ([], q, od q s)" by (cases ns) simp_all
    then show ?thesis using q it False by auto
  qed
qed simp

text \<open>A consumer sees what it should: for a fetched buffer of intact batches in order of their offsets, and for every
  isolation level, calls of \<open>take\<close> with any counts return, in order, exactly the records from the fetch offset on of
  the batches that are neither control batches nor, with \<open>read_committed\<close>, part of an aborted transaction; when they are
  used up the next fetch continues after the last batch.\<close>

lemma take_visible_records:
  assumes "next_batches records bs" "list_all (intact_batch cs kd vd check tp) bs" "in_order [] bs"
  shows "\<exists>chunks q s'.
    take_all cs kd vd od ns (PartitionRecords off tp records check level (Some aborted), s) = Some (chunks, q, s') \<and>
    concat chunks = take (sum_list ns) (dropWhile (\<lambda>r. kr_offset r < off) (visible_records cs kd vd tp level aborted [] (- 1) bs)) \<and>
    (length (dropWhile (\<lambda>r. kr_offset r < off) (visible_records cs kd vd tp level aborted [] (- 1) bs)) < sum_list ns \<longrightarrow>
      \<not> pr_bool q \<and> (\<forall>db. bs \<noteq> [] \<longrightarrow> v2_batch (last bs) = Some db \<longrightarrow> pr_next_fetch_offset q = batch_next_offset db))"
  using take_all_ready [OF PartitionRecords_ready [OF assms, of aborted off level], of od ns s]
  by (cases "bs = []") (auto simp: offset_after_def)

end
