(* ===== verification/Fetch_Session.thy ===== *)
theory Fetch_Session
  imports Cluster
begin

text \<open>
  The incremental fetch sessions of \<^verbatim>\<open>kafka/consumer/fetcher.py\<close>: classes \<open>FetchMetadata\<close>,
  \<open>FetchRequestData\<close> and \<open>FetchSessionHandler\<close>.  Per partition a request carries a tuple of integers.
  Python sets are distinct lists, compared as sets.  What a request asks of the broker, following the fetch
  session protocol, is \<open>session_after\<close>; the handler is shown to keep the broker's session equal to the
  partitions it wants fetched.
\<close>

section \<open>Session ids and epochs\<close>

record fetch_metadata =
  fm_session_id :: int
  fm_epoch :: int

definition MAX_EPOCH :: int where "MAX_EPOCH = 2147483647"
definition INVALID_SESSION_ID :: int where "INVALID_SESSION_ID = 0"
definition THROTTLED_SESSION_ID :: int where "THROTTLED_SESSION_ID = - 1"
definition INITIAL_EPOCH :: int where "INITIAL_EPOCH = 0"
definition FINAL_EPOCH :: int where "FINAL_EPOCH = - 1"

lemmas session_consts = MAX_EPOCH_def INVALID_SESSION_ID_def THROTTLED_SESSION_ID_def INITIAL_EPOCH_def FINAL_EPOCH_def

definition fm_is_full :: "fetch_metadata \<Rightarrow> bool" where
  "fm_is_full m \<longleftrightarrow> fm_epoch m = INITIAL_EPOCH \<or> fm_epoch m = FINAL_EPOCH"

definition next_epoch :: "int \<Rightarrow> int" where
  "next_epoch prev_epoch =
     (if prev_epoch < 0 then FINAL_EPOCH else if prev_epoch = MAX_EPOCH then 1 else prev_epoch + 1)"

definition next_close_existing :: "fetch_metadata \<Rightarrow> fetch_metadata" where
  "next_close_existing m = m\<lparr>fm_epoch := INITIAL_EPOCH\<rparr>"

definition new_incremental :: "int \<Rightarrow> fetch_metadata" where
  "new_incremental session_id = \<lparr>fm_session_id = session_id, fm_epoch = next_epoch INITIAL_EPOCH\<rparr>"

definition next_incremental :: "fetch_metadata \<Rightarrow> fetch_metadata" where
  "next_incremental m = m\<lparr>fm_epoch := next_epoch (fm_epoch m)\<rparr>"

definition FM_INITIAL :: fetch_metadata where
  "FM_INITIAL = \<lparr>fm_session_id = INVALID_SESSION_ID, fm_epoch = INITIAL_EPOCH\<rparr>"

definition FM_LEGACY :: fetch_metadata where
  "FM_LEGACY = \<lparr>fm_session_id = INVALID_SESSION_ID, fm_epoch = FINAL_EPOCH\<rparr>"

section \<open>Requests\<close>

type_synonym partition_info = "int list"
type_synonym fetch_partitions = "(topic_partition \<times> partition_info) list"

record fetch_request_data =
  frd_to_send :: fetch_partitions
  frd_to_forget :: "topic_partition list"
  frd_metadata :: fetch_metadata

text \<open>\<open>d[key].append(x)\<close> on a \<open>defaultdict(list)\<close>.\<close>

definition dict_append :: "'k \<Rightarrow> 'v \<Rightarrow> ('k \<times> 'v list) list \<Rightarrow> ('k \<times> 'v list) list" where
  "dict_append k x d = AList.update k ((case map_of d k of None \<Rightarrow> [] | Some xs \<Rightarrow> xs) @ [x]) d"

definition to_send :: "fetch_request_data \<Rightarrow> (pystr \<times> partition_info list) list" where
  "to_send r = fold (\<lambda>(tp, info). dict_append (fst tp) info) (frd_to_send r) []"

definition to_forget :: "fetch_request_data \<Rightarrow> (pystr \<times> int list) list" where
  "to_forget r = fold (\<lambda>tp. dict_append (fst tp) (snd tp)) (frd_to_forget r) []"

section \<open>The session handler\<close>

record session_handler =
  sh_node_id :: node_id
  sh_next_metadata :: fetch_metadata
  sh_session_partitions :: fetch_partitions

definition FetchSessionHandler :: "node_id \<Rightarrow> session_handler" where
  "FetchSessionHandler node_id =
     \<lparr>sh_node_id = node_id, sh_next_metadata = FM_INITIAL, sh_session_partitions = []\<rparr>"

definition session_removed :: "fetch_partitions \<Rightarrow> fetch_partitions \<Rightarrow> topic_partition list" where
  "session_removed session next_partitions = filter (\<lambda>tp. tp \<notin> fst ` set next_partitions) (map fst session)"

text \<open>The partitions that are added or altered, with what is to be sent for them.\<close>

definition session_changes :: "fetch_partitions \<Rightarrow> fetch_partitions \<Rightarrow> fetch_partitions" where
  "session_changes session next_partitions =
     filter (\<lambda>(tp, info). map_of session tp \<noteq> Some info) next_partitions"

definition build_next :: "fetch_partitions \<Rightarrow> session_handler \<Rightarrow> fetch_request_data \<times> session_handler" where
  "build_next next_partitions h =
     (if fm_is_full (sh_next_metadata h)
      then (\<lparr>frd_to_send = next_partitions, frd_to_forget = [], frd_metadata = sh_next_metadata h\<rparr>,
            h\<lparr>sh_session_partitions := next_partitions\<rparr>)
      else
        let session = sh_session_partitions h;
            removed = session_removed session next_partitions;
            changed = session_changes session next_partitions
        in (\<lparr>frd_to_send = changed, frd_to_forget = removed, frd_metadata = sh_next_metadata h\<rparr>,
            h\<lparr>sh_session_partitions :=
                fold (\<lambda>(tp, info). AList.update tp info) changed
                  (filter (\<lambda>(tp, _). tp \<notin> set removed) session)\<rparr>))"

record fetch_response =
  fr_API_VERSION :: int
  fr_error_code :: int
  fr_session_id :: int
  fr_topics :: "(pystr \<times> (int \<times> pyval list) list) list"

text \<open>\<open>_response_partitions\<close>: each partition with the rest of its tuple is an element of \<open>fr_topics\<close>.\<close>

definition response_partitions :: "fetch_response \<Rightarrow> topic_partition list" where
  "response_partitions r = concat (map (\<lambda>(topic, ps). map (\<lambda>(p, _). (topic, p)) ps) (fr_topics r))"

definition session_handle_response :: "fetch_response \<Rightarrow> session_handler \<Rightarrow> bool \<times> session_handler" where
  "session_handle_response r h =
     (let md = sh_next_metadata h; next = (\<lambda>m. h\<lparr>sh_next_metadata := m\<rparr>) in
      if fr_error_code r \<noteq> 0 then
        (False, next (if for_code (fr_error_code r) = FetchSessionIdNotFoundError then FM_INITIAL else next_close_existing md))
      else
        let response_tps = set (response_partitions r); session_tps = set (map fst (sh_session_partitions h)) in
        if fm_is_full md then
          (if response_tps \<noteq> session_tps then (False, next FM_INITIAL)
           else if fr_session_id r = INVALID_SESSION_ID then (True, next FM_INITIAL)
           else if fr_session_id r = THROTTLED_SESSION_ID then (True, h)
           else (True, next (new_incremental (fr_session_id r))))
        else if response_tps - session_tps \<noteq> {} then (False, next (next_close_existing md))
        else if fr_session_id r = INVALID_SESSION_ID then (True, next FM_INITIAL)
        else if fr_session_id r = THROTTLED_SESSION_ID then (True, h)
        else (True, next (next_incremental md)))"

definition session_handle_error :: "session_handler \<Rightarrow> session_handler" where
  "session_handle_error h = h\<lparr>sh_next_metadata := next_close_existing (sh_next_metadata h)\<rparr>"

section \<open>The broker's session\<close>

text \<open>What a request makes of the broker's session: a full request replaces it, an incremental one removes the
  forgotten partitions and adds or changes the sent ones.\<close>

definition session_after :: "(topic_partition \<rightharpoonup> partition_info) \<Rightarrow> fetch_request_data \<Rightarrow> (topic_partition \<rightharpoonup> partition_info)" where
  "session_after b d =
     (if fm_is_full (frd_metadata d) then map_of (frd_to_send d)
      else (\<lambda>tp. if tp \<in> set (frd_to_forget d) then None else (b ++ map_of (frd_to_send d)) tp))"

text \<open>
  The states a handler and the broker's session go through.  An accepted response means that the broker has
  processed the request.  After an error, a lost connection or a refused response nothing is known about the session.
\<close>

inductive session_run :: "session_handler \<Rightarrow> (topic_partition \<rightharpoonup> partition_info) \<Rightarrow> bool" where
  started: "session_run (FetchSessionHandler n) b"
| accepted: "session_run h2 (session_after b d)"
    if "session_run h b" "distinct (map fst nexts)" "build_next nexts h = (d, h1)"
      "session_handle_response r h1 = (True, h2)" "fr_session_id r \<noteq> THROTTLED_SESSION_ID"
| refused: "session_run h2 b'"
    if "session_run h b" "build_next nexts h = (d, h1)" "session_handle_response r h1 = (False, h2)"
| failed: "session_run (session_handle_error h1) b'"
    if "session_run h b" "build_next nexts h = (d, h1)"

definition epoch_ok :: "session_handler \<Rightarrow> bool" where
  "epoch_ok h \<longleftrightarrow> 0 \<le> fm_epoch (sh_next_metadata h) \<and> fm_epoch (sh_next_metadata h) \<le> MAX_EPOCH"

definition session_inv :: "session_handler \<Rightarrow> (topic_partition \<rightharpoonup> partition_info) \<Rightarrow> bool" where
  "session_inv h b \<longleftrightarrow> epoch_ok h \<and> (\<not> fm_is_full (sh_next_metadata h) \<longrightarrow> map_of (sh_session_partitions h) = b)"

lemma map_of_fold_pairs:
  "map_of (fold (\<lambda>(k, v). AList.update k v) ps al) = map_of al ++ map_of (rev ps)"
  by (induction ps arbitrary: al) (auto simp: update_conv' map_add_def fun_eq_iff split: option.splits)

lemma map_of_rev: "distinct (map fst ps) \<Longrightarrow> map_of (rev ps) = map_of ps"
proof (induction ps)
  case (Cons p ps)
  then have "map_of ps (fst p) = None" by (simp add: map_of_eq_None_iff)
  with Cons show ?case by (cases p) (auto simp: fun_eq_iff map_add_def split: option.splits)
qed simp

lemma map_of_filter_key: "map_of (filter (\<lambda>(k, _). P k) al) = (\<lambda>k. if P k then map_of al k else None)"
  by (induction al) (auto simp: fun_eq_iff)

text \<open>The incremental difference leads from any session to the wanted one, on both sides.\<close>

lemma difference_applies:
  assumes "distinct (map fst nexts)"
  shows "(\<lambda>tp. if tp \<in> set (session_removed session nexts) then None
      else (map_of session ++ map_of (session_changes session nexts)) tp) = map_of nexts"
proof
  fix tp
  have changes: "map_of (session_changes session nexts) tp =
      (if map_of session tp \<noteq> map_of nexts tp then map_of nexts tp else None)"
    using assms unfolding session_changes_def
  proof (induction nexts)
    case (Cons p nexts)
    then have "map_of nexts (fst p) = None" by (simp add: map_of_eq_None_iff)
    with Cons show ?case by (cases p) auto
  qed simp
  show "(if tp \<in> set (session_removed session nexts) then None
      else (map_of session ++ map_of (session_changes session nexts)) tp) = map_of nexts tp"
    unfolding map_add_def changes session_removed_def
    using map_of_eq_None_iff [of nexts tp] map_of_eq_None_iff [of session tp]
    by (cases "map_of nexts tp"; cases "map_of session tp") auto
qed

lemma updated_session:
  assumes "distinct (map fst ch)" "set rm \<inter> fst ` set ch = {}"
  shows "map_of (fold (\<lambda>(k, v). AList.update k v) ch (filter (\<lambda>(k, _). k \<notin> set rm) al)) =
    (\<lambda>k. if k \<in> set rm then None else (map_of al ++ map_of ch) k)"
  unfolding map_of_fold_pairs map_of_filter_key
  using assms by (force simp: fun_eq_iff map_add_def map_of_rev dest: map_of_SomeD split: option.splits)

lemma build_next_session:
  assumes "distinct (map fst nexts)" "build_next nexts h = (d, h1)"
  shows "map_of (sh_session_partitions h1) = map_of nexts" "frd_metadata d = sh_next_metadata h"
proof -
  show "frd_metadata d = sh_next_metadata h"
    using assms(2) by (auto simp: build_next_def Let_def split: if_splits)
  have "distinct (map fst (session_changes session nexts))" for session
    unfolding session_changes_def using assms(1) by (rule distinct_map_filter)
  moreover have "set (session_removed session nexts) \<inter> fst ` set (session_changes session nexts) = {}" for session
    by (auto simp: session_removed_def session_changes_def)
  ultimately show "map_of (sh_session_partitions h1) = map_of nexts"
    using assms(2) by (auto simp: build_next_def Let_def updated_session difference_applies [OF assms(1)] split: if_splits)
qed

lemma request_leads_to_session:
  assumes "session_inv h b" "distinct (map fst nexts)" "build_next nexts h = (d, h1)"
  shows "session_after b d = map_of nexts"
  using assms difference_applies [OF assms(2), of "sh_session_partitions h"]
  by (auto simp: session_after_def build_next_def session_inv_def Let_def split: if_splits cong: if_cong)

lemma build_next_epoch: "build_next nexts h = (d, h1) \<Longrightarrow> sh_next_metadata h1 = sh_next_metadata h"
  by (auto simp: build_next_def Let_def split: if_splits)

lemmas epoch_defs = session_consts next_close_existing_def FM_INITIAL_def new_incremental_def next_incremental_def
  next_epoch_def fm_is_full_def epoch_ok_def

lemma refused_session_full:
  "session_handle_response r h = (False, h2) \<Longrightarrow> fm_is_full (sh_next_metadata h2) \<and> epoch_ok h2"
  by (auto simp: session_handle_response_def Let_def epoch_defs split: if_splits)

lemma accepted_session_partitions:
  "session_handle_response r h = (True, h2) \<Longrightarrow> sh_session_partitions h2 = sh_session_partitions h"
  by (auto simp: session_handle_response_def Let_def split: if_splits)

lemma accepted_session_epoch: "session_handle_response r h = (True, h2) \<Longrightarrow> epoch_ok h \<Longrightarrow> epoch_ok h2"
  by (auto simp: session_handle_response_def Let_def epoch_defs split: if_splits)

lemma session_run_inv: "session_run h b \<Longrightarrow> session_inv h b"
proof (induction rule: session_run.induct)
  case (started n b)
  then show ?case by (simp add: session_inv_def FetchSessionHandler_def epoch_defs)
next
  case (accepted h b nexts d h1 r h2)
  note metadata = build_next_epoch [OF accepted.hyps(3)]
  have "epoch_ok h1" using accepted.IH metadata by (simp add: session_inv_def epoch_ok_def)
  then have "epoch_ok h2" by (rule accepted_session_epoch [OF accepted.hyps(4)])
  moreover have "map_of (sh_session_partitions h2) = session_after b d"
    using accepted_session_partitions [OF accepted.hyps(4)] build_next_session(1) [OF accepted.hyps(2,3)]
      request_leads_to_session [OF accepted.IH accepted.hyps(2,3)] by simp
  ultimately show ?case by (simp add: session_inv_def)
next
  case (refused h b nexts d h1 r h2 b')
  then show ?case using refused_session_full by (simp add: session_inv_def)
next
  case (failed h b nexts d h1 b')
  show ?case by (simp add: session_inv_def session_handle_error_def epoch_defs)
qed


definition example_session :: session_handler where
  "example_session = \<lparr>sh_node_id = Node 1, sh_next_metadata = \<lparr>fm_session_id = 7, fm_epoch = 1\<rparr>,
     sh_session_partitions = [(([116], 0), [0, 5]), (([116], 1), [1, 9])]\<rparr>"

definition example_fetch_response :: fetch_response where
  "example_fetch_response = \<lparr>fr_API_VERSION = 7, fr_error_code = 0, fr_session_id = 7, fr_topics = [([116], [(0, []), (1, [])])]\<rparr>"

lemma example_session_run: "session_run example_session (map_of [(([116], 0), [0, 5]), (([116], 1), [1, 9])])"
proof -
  let ?ps = "[(([116], 0), [0, 5]), (([116], 1), [1, 9])] :: fetch_partitions"
  let ?d = "\<lparr>frd_to_send = ?ps, frd_to_forget = [], frd_metadata = FM_INITIAL\<rparr>"
  let ?h = "(FetchSessionHandler (Node 1))\<lparr>sh_session_partitions := ?ps\<rparr>"
  have "session_run example_session (session_after Map.empty ?d)"
  proof (rule accepted [OF started])
    show "build_next ?ps (FetchSessionHandler (Node 1)) = (?d, ?h)"
      by (simp add: build_next_def FetchSessionHandler_def epoch_defs)
    show "session_handle_response example_fetch_response ?h = (True, example_session)"
      by (auto simp: session_handle_response_def example_fetch_response_def FetchSessionHandler_def epoch_defs
          response_partitions_def example_session_def)
  qed (simp_all add: example_fetch_response_def session_consts)
  then show ?thesis by (simp add: session_after_def epoch_defs)
qed


end
