(* ===== verification/Fetcher.thy ===== *)
theory Fetcher
  imports Subscription Partition_Records Fetch_Session Client_Interface Timer
begin

text \<open>
  The class \<open>Fetcher\<close> of \<^verbatim>\<open>kafka/consumer/fetcher.py\<close>: it sends fetch requests for the partitions the subscription
  allows, keeps the answers, hands records out and moves positions, and looks offsets up to reset positions.
  The network client is the parameter \<open>fetch_world\<close>: every question and every reading of the clock is answered by
  the view at the current tick.  A request in flight is kept with what its callbacks need; its future is done when
  it is no longer in flight.  Callbacks run when a poll delivers a response, and what they raise is dropped.
\<close>

section \<open>Data\<close>

record completed_fetch =
  cf_topic_partition :: topic_partition
  cf_fetched_offset :: int
  cf_response_version :: int
  cf_partition_data :: "pyval list"

record offset_and_timestamp =
  ot_offset :: int
  ot_timestamp :: "int option"
  ot_leader_epoch :: int

definition UNKNOWN_OFFSET :: int where "UNKNOWN_OFFSET = - 1"

definition RecordTooLargeError :: exn_class where
  "RecordTooLargeError = py_subclass ''RecordTooLargeError'' KafkaError"

type_synonym timestamps = "(topic_partition \<times> int) list"
type_synonym timestamps_and_epochs = "(topic_partition \<times> int \<times> int) list"
type_synonym fetched_offsets = "(topic_partition \<times> offset_and_timestamp) list"

text \<open>Who waits for the answer of a ListOffsets request: a reset, or a lookup that aggregates several.\<close>

datatype offsets_target = ResetOffsets timestamps_and_epochs | Aggregate nat

datatype fetch_kind = FetchRequested "(topic_partition \<times> int) list" | ListOffsetsRequested offsets_target

record fetch_pending =
  fp_id :: nat
  fp_node :: node_id
  fp_request :: request
  fp_kind :: fetch_kind

text \<open>The part of a partition's ListOffsets answer after its error code, by the version of the response.\<close>

datatype offset_info = OffsetsV0 "int list" | OffsetV1 int int | OffsetV4 int int int

type_synonym list_offsets_response = "(pystr \<times> (int \<times> int \<times> offset_info) list) list"

datatype fetch_reply = FetchReply fetch_response | ListOffsetsReply list_offsets_response | FetchFailed exn_class

datatype fetch_delivery = DeliverFetch nat fetch_reply | FetchMetadataUpdate metadata_response

record fetch_view =
  fv_now :: int
  fv_api_version :: "string \<Rightarrow> nat \<Rightarrow> nat res"
  fv_connected :: "node_id \<Rightarrow> bool"
  fv_connection_delay :: "node_id \<Rightarrow> int"
  fv_throttle_delay :: "node_id \<Rightarrow> int"
  fv_ready :: "node_id \<Rightarrow> bool"
  fv_send :: "node_id \<Rightarrow> refusal option"
  fv_deliveries :: "fetch_pending list \<Rightarrow> fetch_delivery list"

type_synonym fetch_world = "nat \<Rightarrow> fetch_view"

text \<open>The future of \<open>_send_list_offsets_requests\<close> with the variables its callbacks share.\<close>

record offsets_future =
  lo_remaining :: int
  lo_fetched :: fetched_offsets
  lo_retry :: "topic_partition list"
  lo_result :: "(fetched_offsets \<times> topic_partition list) res option"

record fetcher =
  fs_key_deserializer :: deserializer
  fs_value_deserializer :: deserializer
  fs_fetch_min_bytes :: int
  fs_fetch_max_wait_ms :: int
  fs_fetch_max_bytes :: int
  fs_max_partition_fetch_bytes :: int
  fs_max_poll_records :: nat
  fs_check_crcs :: bool
  fs_request_timeout_ms :: int
  fs_retry_backoff_ms :: int
  fs_enable_incremental_fetch_sessions :: bool
  fs_isolation_level :: int
  fs_subscription :: subscription_state
  fs_cluster :: cluster
  fs_completed_fetches :: "completed_fetch list"
  fs_next_partition_records :: "part_records option"
  fs_fetch_futures :: "nat list"
  fs_session_handlers :: "(node_id \<times> session_handler) list"
  fs_nodes_with_pending_fetch_requests :: "node_id set"
  fs_cached_list_offsets_exception :: "exn_class option"
  fs_next_in_line_exception_metadata :: "(topic_partition \<times> int \<times> exn_class) option"
  fs_pending :: "fetch_pending list"
  fs_next_request :: nat
  fs_offsets_futures :: "offsets_future list"
  fs_added_topics :: "pystr list"
  fs_tick :: nat

section \<open>Questions and parts\<close>

definition f_ask :: "fetch_world \<Rightarrow> (fetch_view \<Rightarrow> 'a) \<Rightarrow> (fetcher, 'a) py" where
  "f_ask w f s = (Inr (f (w (fs_tick s))), s\<lparr>fs_tick := Suc (fs_tick s)\<rparr>)"

definition f_on_subscription :: "(subscription_state, 'a) py \<Rightarrow> (fetcher, 'a) py" where
  "f_on_subscription m s = (case m (fs_subscription s) of (r, x) \<Rightarrow> (r, s\<lparr>fs_subscription := x\<rparr>))"

definition f_on_cluster :: "(cluster, 'a) py \<Rightarrow> (fetcher, 'a) py" where
  "f_on_cluster m s = (case m (fs_cluster s) of (r, x) \<Rightarrow> (r, s\<lparr>fs_cluster := x\<rparr>))"

definition request_metadata_update :: "(fetcher, unit) py" where
  "request_metadata_update = py_bind (f_on_cluster request_update) (\<lambda>_. py_return ())"

definition f_suppress :: "(fetcher, unit) py \<Rightarrow> (fetcher, unit) py" where
  "f_suppress m s = (Inr (), snd (m s))"

text \<open>\<open>isolation_level\<close> is looked up in \<open>ISOLATION_LEVEL_CONFIG\<close>.\<close>

definition isolation_level_of :: "string \<Rightarrow> int option" where
  "isolation_level_of name =
     (if name = ''read_uncommitted'' then Some READ_UNCOMMITTED
      else if name = ''read_committed'' then Some READ_COMMITTED else None)"

definition Fetcher ::
  "deserializer \<Rightarrow> deserializer \<Rightarrow> int \<Rightarrow> int \<Rightarrow> int \<Rightarrow> int \<Rightarrow> nat \<Rightarrow> bool \<Rightarrow> int \<Rightarrow> int \<Rightarrow> bool \<Rightarrow> string \<Rightarrow>
     subscription_state \<Rightarrow> cluster \<Rightarrow> fetcher res" where
  "Fetcher kd vd min_bytes max_wait max_bytes max_partition_bytes max_poll check timeout backoff incremental level sub cl =
     (case isolation_level_of level of
        None \<Rightarrow> Inl KafkaConfigurationError
      | Some l \<Rightarrow> Inr \<lparr>fs_key_deserializer = kd, fs_value_deserializer = vd, fs_fetch_min_bytes = min_bytes,
          fs_fetch_max_wait_ms = max_wait, fs_fetch_max_bytes = max_bytes, fs_max_partition_fetch_bytes = max_partition_bytes,
          fs_max_poll_records = max_poll, fs_check_crcs = check, fs_request_timeout_ms = timeout, fs_retry_backoff_ms = backoff,
          fs_enable_incremental_fetch_sessions = incremental, fs_isolation_level = l, fs_subscription = sub, fs_cluster = cl,
          fs_completed_fetches = [], fs_next_partition_records = None, fs_fetch_futures = [], fs_session_handlers = [],
          fs_nodes_with_pending_fetch_requests = {}, fs_cached_list_offsets_exception = None,
          fs_next_in_line_exception_metadata = None, fs_pending = [], fs_next_request = 0, fs_offsets_futures = [],
          fs_added_topics = [], fs_tick = 0\<rparr>)"

section \<open>Fetch requests\<close>

definition fetcher_fetchable_partitions :: "fetcher \<Rightarrow> topic_partition list" where
  "fetcher_fetchable_partitions s =
     (let discard = cf_topic_partition ` set (fs_completed_fetches s) \<union>
            (case fs_next_partition_records s of
               Some p \<Rightarrow> if pr_bool p then {pr_topic_partition p} else {}
             | None \<Rightarrow> {})
      in filter (\<lambda>tp. tp \<notin> discard) (fetchable_partitions (fs_subscription s)))"

definition fetch_partition_info :: "nat \<Rightarrow> int \<Rightarrow> topic_partition \<Rightarrow> offset_and_metadata \<Rightarrow> partition_info" where
  "fetch_partition_info version max_bytes tp pos =
     (if version < 5 then [snd tp, om_offset pos, max_bytes]
      else if version \<le> 8 then [snd tp, om_offset pos, - 1, max_bytes]
      else [snd tp, om_leader_epoch pos, om_offset pos, - 1, max_bytes])"

type_synonym node_partitions = "(node_id \<times> fetch_partitions) list"

text \<open>The loop over the fetchable partitions: which can be asked for now, by node.\<close>

definition add_fetchable ::
  "fetch_world \<Rightarrow> nat \<Rightarrow> topic_partition \<Rightarrow> node_partitions \<Rightarrow> (fetcher, node_partitions) py" where
  "add_fetchable w version tp fetchable =
     py_bind (py_get (\<lambda>s. leader_for_partition (fs_cluster s) tp)) (\<lambda>leader.
     py_bind (py_get (\<lambda>s. position (fs_subscription s) tp)) (\<lambda>pos.
     py_bind (py_lift pos) (\<lambda>pos.
       case leader of
         None \<Rightarrow> py_then request_metadata_update (py_return fetchable)
       | Some l \<Rightarrow>
           if l = - 1 then py_then request_metadata_update (py_return fetchable)
           else
             py_bind (f_ask w (\<lambda>v. fv_connected v (Node l) \<or> fv_connection_delay v (Node l) \<le> 0)) (\<lambda>usable.
               if \<not> usable then py_return fetchable
               else py_bind (f_ask w (\<lambda>v. fv_throttle_delay v (Node l))) (\<lambda>throttle.
                 if throttle > 0 then py_return fetchable
                 else py_bind (f_ask w (\<lambda>v. fv_ready v (Node l))) (\<lambda>ready.
                   if \<not> ready then py_return fetchable
                   else py_get (\<lambda>s.
                     if Node l \<in> fs_nodes_with_pending_fetch_requests s then fetchable
                     else AList.update (Node l)
                       (AList.update tp (fetch_partition_info version (fs_max_partition_fetch_bytes s) tp (the pos))
                         (case map_of fetchable (Node l) of None \<Rightarrow> [] | Some ps \<Rightarrow> ps)) fetchable)))))))"

primrec collect_fetchable ::
  "fetch_world \<Rightarrow> nat \<Rightarrow> topic_partition list \<Rightarrow> node_partitions \<Rightarrow> (fetcher, node_partitions) py" where
  "collect_fetchable w version [] fetchable = py_return fetchable"
| "collect_fetchable w version (tp # tps) fetchable =
     py_bind (add_fetchable w version tp fetchable) (collect_fetchable w version tps)"

definition build_session :: "nat \<Rightarrow> node_id \<Rightarrow> fetch_partitions \<Rightarrow> (fetcher, fetch_request_data) py" where
  "build_session version n next_partitions s =
     (if version \<ge> 7 \<and> fs_enable_incremental_fetch_sessions s then
        (let h = (case map_of (fs_session_handlers s) n of None \<Rightarrow> FetchSessionHandler n | Some h \<Rightarrow> h) in
         case build_next next_partitions h of
           (d, h') \<Rightarrow> (Inr d, s\<lparr>fs_session_handlers := AList.update n h' (fs_session_handlers s)\<rparr>))
      else (Inr \<lparr>frd_to_send = next_partitions, frd_to_forget = [], frd_metadata = FM_LEGACY\<rparr>, s))"

definition topics_value :: "(pystr \<times> int list list) list \<Rightarrow> pyval" where
  "topics_value ts = VList (map (\<lambda>(t, ps). VTuple [VStr t, VList (map (\<lambda>info. VTuple (map VInt info)) ps)]) ts)"

definition forgotten_value :: "(pystr \<times> int list) list \<Rightarrow> pyval" where
  "forgotten_value ts = VList (map (\<lambda>(t, ps). VTuple [VStr t, VList (map VInt ps)]) ts)"

definition fetch_request :: "nat \<Rightarrow> fetch_request_data \<Rightarrow> fetcher \<Rightarrow> request res" where
  "fetch_request version session s =
     positional_request FetchRequest version
       ([VInt (- 1), VInt (fs_fetch_max_wait_ms s), VInt (fs_fetch_min_bytes s)] @
        (if version \<ge> 3 then [VInt (fs_fetch_max_bytes s)] else []) @
        (if version \<ge> 4 then [VInt (fs_isolation_level s)] else []) @
        (if version \<ge> 7 then [VInt (fm_session_id (frd_metadata session)), VInt (fm_epoch (frd_metadata session))] else []) @
        [topics_value (to_send session)] @
        (if version \<ge> 7 then [forgotten_value (to_forget session)] else []))"

definition fetch_offset_of :: "nat \<Rightarrow> partition_info \<Rightarrow> int" where
  "fetch_offset_of version info = (if version \<le> 8 then info ! 1 else info ! 2)"

type_synonym node_request = "node_id \<times> request \<times> (topic_partition \<times> int) list"

primrec build_requests :: "nat \<Rightarrow> node_partitions \<Rightarrow> (fetcher, node_request list) py" where
  "build_requests version [] = py_return []"
| "build_requests version (np # nps) =
     py_bind (build_session version (fst np) (snd np)) (\<lambda>session.
     py_bind (py_get (fetch_request version session)) (\<lambda>r.
     py_bind (py_lift r) (\<lambda>request.
     py_bind (build_requests version nps) (\<lambda>rest.
       py_return ((fst np, request, map (\<lambda>(tp, info). (tp, fetch_offset_of version info)) (snd np)) # rest)))))"

definition create_fetch_requests :: "fetch_world \<Rightarrow> (fetcher, node_request list) py" where
  "create_fetch_requests w =
     py_bind (f_ask w (\<lambda>v. fv_api_version v ''FetchRequest'' 10)) (\<lambda>r.
     py_bind (py_lift r) (\<lambda>version.
     py_bind (py_get fetcher_fetchable_partitions) (\<lambda>tps.
     py_bind (collect_fetchable w version tps []) (\<lambda>fetchable. build_requests version fetchable))))"

definition f_add_pending :: "node_id \<Rightarrow> request \<Rightarrow> fetch_kind \<Rightarrow> (fetcher, unit) py" where
  "f_add_pending n req kind =
     py_set (\<lambda>s. s\<lparr>fs_pending := fs_pending s @ [\<lparr>fp_id = fs_next_request s, fp_node = n, fp_request = req, fp_kind = kind\<rparr>]\<rparr>)"

definition handle_fetch_error :: "node_id \<Rightarrow> (fetcher, unit) py" where
  "handle_fetch_error n =
     py_set (\<lambda>s. case map_of (fs_session_handlers s) n of
         None \<Rightarrow> s
       | Some h \<Rightarrow> s\<lparr>fs_session_handlers := AList.update n (session_handle_error h) (fs_session_handlers s)\<rparr>)"

definition clear_pending_fetch_request :: "node_id \<Rightarrow> (fetcher, unit) py" where
  "clear_pending_fetch_request n =
     py_set (\<lambda>s. s\<lparr>fs_nodes_with_pending_fetch_requests := fs_nodes_with_pending_fetch_requests s - {n}\<rparr>)"

definition fetch_is_done :: "fetcher \<Rightarrow> nat \<Rightarrow> bool" where
  "fetch_is_done s i \<longleftrightarrow> i \<notin> fp_id ` set (fs_pending s)"

definition clean_done_fetch_futures :: "(fetcher, unit) py" where
  "clean_done_fetch_futures = py_set (\<lambda>s. s\<lparr>fs_fetch_futures := dropWhile (fetch_is_done s) (fs_fetch_futures s)\<rparr>)"

definition in_flight_fetches :: "(fetcher, bool) py" where
  "in_flight_fetches = py_then clean_done_fetch_futures (py_get (\<lambda>s. fs_fetch_futures s \<noteq> []))"

text \<open>One iteration of \<open>send_fetches\<close>: the future of a refused request has failed when the callbacks are added.\<close>

definition send_fetch :: "fetch_world \<Rightarrow> node_request \<Rightarrow> (fetcher, nat) py" where
  "send_fetch w = (\<lambda>(n, request, fetch_offsets).
     py_then (py_set (\<lambda>s. s\<lparr>fs_nodes_with_pending_fetch_requests := insert n (fs_nodes_with_pending_fetch_requests s)\<rparr>))
    (py_bind (f_ask w (\<lambda>v. fv_send v n)) (\<lambda>refused.
     py_then
       (if refused = None then f_add_pending n request (FetchRequested fetch_offsets)
        else py_then (handle_fetch_error n) (clear_pending_fetch_request n))
    (py_bind (py_get fs_next_request) (\<lambda>i.
     py_then (py_set (\<lambda>s. s\<lparr>fs_next_request := Suc (fs_next_request s)\<rparr>)) (py_return i))))))"

primrec send_each :: "fetch_world \<Rightarrow> node_request list \<Rightarrow> (fetcher, nat list) py" where
  "send_each w [] = py_return []"
| "send_each w (r # rs) = py_bind (send_fetch w r) (\<lambda>i. py_bind (send_each w rs) (\<lambda>is. py_return (i # is)))"

definition send_fetches :: "fetch_world \<Rightarrow> (fetcher, nat list) py" where
  "send_fetches w =
     py_bind (create_fetch_requests w) (\<lambda>requests.
     py_bind (send_each w requests) (\<lambda>futures.
     py_then (py_set (\<lambda>s. s\<lparr>fs_fetch_futures := fs_fetch_futures s @ futures\<rparr>))
    (py_then clean_done_fetch_futures (py_return futures))))"

section \<open>Fetch responses\<close>

definition session_accepts :: "node_id \<Rightarrow> fetch_response \<Rightarrow> (fetcher, bool) py" where
  "session_accepts n r s =
     (if fr_API_VERSION r \<ge> 7 \<and> fs_enable_incremental_fetch_sessions s then
        (case map_of (fs_session_handlers s) n of
           None \<Rightarrow> (Inr False, s)
         | Some h \<Rightarrow> (case session_handle_response r h of
             (ok, h') \<Rightarrow> (Inr ok, s\<lparr>fs_session_handlers := AList.update n h' (fs_session_handlers s)\<rparr>)))
      else (Inr True, s))"

definition complete_fetch ::
  "(topic_partition \<times> int) list \<Rightarrow> int \<Rightarrow> topic_partition \<times> pyval list \<Rightarrow> (fetcher, unit) py" where
  "complete_fetch fetch_offsets version = (\<lambda>(tp, data).
     case map_of fetch_offsets tp of
       None \<Rightarrow> py_raise KeyError
     | Some off \<Rightarrow> py_set (\<lambda>s. s\<lparr>fs_completed_fetches := fs_completed_fetches s @
         [\<lparr>cf_topic_partition = tp, cf_fetched_offset = off, cf_response_version = version, cf_partition_data = data\<rparr>]\<rparr>))"

definition response_entries :: "fetch_response \<Rightarrow> (topic_partition \<times> pyval list) list" where
  "response_entries r = concat (map (\<lambda>(topic, ps). map (\<lambda>(p, data). ((topic, p), data)) ps) (fr_topics r))"

definition handle_fetch_response ::
  "node_id \<Rightarrow> (topic_partition \<times> int) list \<Rightarrow> fetch_response \<Rightarrow> (fetcher, unit) py" where
  "handle_fetch_response n fetch_offsets r =
     py_bind (session_accepts n r) (\<lambda>ok.
       if ok then py_for (complete_fetch fetch_offsets (fr_API_VERSION r)) (response_entries r) else py_return ())"

text \<open>\<open>xs[-k]\<close>.\<close>

definition from_end :: "nat \<Rightarrow> 'a list \<Rightarrow> 'a res" where
  "from_end k xs = (if k \<le> length xs then Inr (xs ! (length xs - k)) else Inl IndexError)"

definition records_of :: "pyval \<Rightarrow> memory_records res" where
  "records_of v = (case v of VBytes b \<Rightarrow> MemoryRecords b | _ \<Rightarrow> Inl TypeError)"

primrec aborted_pairs :: "pyval list \<Rightarrow> (int \<times> int) list res" where
  "aborted_pairs [] = Inr []"
| "aborted_pairs (v # vs) =
     (case v of
        VTuple [VInt pid, VInt first] \<Rightarrow> res_map (\<lambda>ps. (pid, first) # ps) (aborted_pairs vs)
      | _ \<Rightarrow> Inl TypeError)"

definition aborted_of :: "int \<Rightarrow> pyval list \<Rightarrow> (int \<times> int) list option res" where
  "aborted_of version data =
     (if version < 4 then Inr None
      else res_bind (from_end (if version \<ge> 11 then 3 else 2) data) (\<lambda>v.
        case v of VNone \<Rightarrow> Inr None | VList vs \<Rightarrow> res_map Some (aborted_pairs vs) | _ \<Rightarrow> Inl TypeError))"

text \<open>The branch of a response without error: what is kept of it, if its offset is still the position.\<close>

definition parse_records :: "completed_fetch \<Rightarrow> int \<Rightarrow> (fetcher, part_records option) py" where
  "parse_records c hw =
     (let tp = cf_topic_partition c; data = cf_partition_data c; version = cf_response_version c in
      py_bind (py_get (\<lambda>s. position (fs_subscription s) tp)) (\<lambda>r.
      py_bind (py_lift r) (\<lambda>pos.
        if map_option om_offset pos \<noteq> Some (cf_fetched_offset c)
        then (if pos = None then py_raise AttributeError else py_return None)
        else
          py_bind (py_lift (res_bind (from_end 1 data) records_of)) (\<lambda>records.
          py_bind (py_lift (aborted_of version data)) (\<lambda>aborted.
            if \<not> has_next records \<and> mr_size_in_bytes records > 0
            then py_raise (if version < 3 then RecordTooLargeError else KafkaError)
            else
              py_then
                (if hw \<ge> 0 then f_on_subscription (on_partition tp (\<lambda>st. Inr (st\<lparr>highwater := Some hw\<rparr>))) else py_return ())
                (py_get (\<lambda>s. Some (PartitionRecords (cf_fetched_offset c) tp records (fs_check_crcs s) (fs_isolation_level s) aborted))))))))"

definition offset_out_of_range :: "completed_fetch \<Rightarrow> (fetcher, unit) py" where
  "offset_out_of_range c =
     (let tp = cf_topic_partition c in
      py_bind (py_get (\<lambda>s. position (fs_subscription s) tp)) (\<lambda>r.
      py_bind (py_lift r) (\<lambda>pos.
        if map_option om_offset pos \<noteq> Some (cf_fetched_offset c)
        then (if pos = None then py_raise AttributeError else py_return ())
        else py_if (\<lambda>s. has_default_offset_reset_policy (fs_subscription s))
          (f_on_subscription (request_offset_reset tp None)) (py_raise OffsetOutOfRangeError))))"

definition parse_by_error :: "completed_fetch \<Rightarrow> exn_class \<Rightarrow> int \<Rightarrow> (fetcher, part_records option) py" where
  "parse_by_error c error_type hw =
     py_if (\<lambda>s. \<not> is_fetchable (fs_subscription s) (cf_topic_partition c)) (py_return None)
      (if error_type = NoError then parse_records c hw
       else if error_type \<in> {NotLeaderForPartitionError, ReplicaNotAvailableError, UnknownTopicOrPartitionError, KafkaStorageError}
       then py_then request_metadata_update (py_return None)
       else if error_type = OffsetOutOfRangeError then py_then (offset_out_of_range c) (py_return None)
       else if error_type = TopicAuthorizationFailedError then py_raise TopicAuthorizationFailedError
       else if cls_retriable error_type then
         py_then (if cls_invalid_metadata error_type then request_metadata_update else py_return ()) (py_return None)
       else py_raise error_type)"

text \<open>\<open>error_code, highwater = partition_data[:2]\<close>, and the \<open>finally\<close> clause.\<close>

definition parse_fetched_data :: "completed_fetch \<Rightarrow> (fetcher, part_records option) py" where
  "parse_fetched_data c s =
     (case cf_partition_data c of
        VInt code # VInt hw # rest \<Rightarrow>
          (case parse_by_error c (for_code code) hw s of
             (r, s') \<Rightarrow>
               (r, if for_code code \<noteq> NoError
                   then s'\<lparr>fs_subscription := snd (move_partition_to_end (cf_topic_partition c) (fs_subscription s'))\<rparr> else s'))
      | _ \<Rightarrow> (Inl ValueError, s))"

section \<open>Handing records out\<close>

definition on_partition_records_drain :: "part_records \<Rightarrow> subscription_state \<Rightarrow> subscription_state" where
  "on_partition_records_drain p sub =
     (if pr_bytes_read p > 0 then snd (move_partition_to_end (pr_topic_partition p) sub) else sub)"

type_synonym drained = "(topic_partition \<times> consumer_record list) list"

definition dict_extend :: "'k \<Rightarrow> 'v list \<Rightarrow> ('k \<times> 'v list) list \<Rightarrow> ('k \<times> 'v list) list" where
  "dict_extend k xs d = AList.update k ((case map_of d k of None \<Rightarrow> [] | Some ys \<Rightarrow> ys) @ xs) d"

definition drain_part :: "part_records \<Rightarrow> fetcher \<Rightarrow> fetcher" where
  "drain_part p s = (case drain on_partition_records_drain (p, fs_subscription s) of
     (p', sub) \<Rightarrow> s\<lparr>fs_next_partition_records := Some p', fs_subscription := sub\<rparr>)"

text \<open>The records of a partition that is in line: the number taken, and the position moved when it is to be.\<close>

definition take_in_line ::
  "codecs \<Rightarrow> bool \<Rightarrow> nat \<Rightarrow> part_records \<Rightarrow> drained \<Rightarrow> fetcher \<Rightarrow> (nat res \<times> drained \<times> fetcher) option" where
  "take_in_line cs update_offsets max_records p drained s =
     map_option (\<lambda>(r, p', sub).
       let s' = s\<lparr>fs_next_partition_records := Some p', fs_subscription := sub\<rparr>; tp = pr_topic_partition p in
       case r of
         Inl e \<Rightarrow> (Inl e, drained, s')
       | Inr rs \<Rightarrow>
           (Inr (length rs), if rs = [] then drained else dict_extend tp rs drained,
            if update_offsets \<or> rs = []
            then snd (f_on_subscription (set_partition_position tp
                   \<lparr>om_offset = pr_next_fetch_offset p', om_metadata = [], om_leader_epoch = - 1\<rparr>) s')
            else s'))
       (take_records cs (fs_key_deserializer s) (fs_value_deserializer s) on_partition_records_drain max_records
         (p, fs_subscription s))"

definition append_records ::
  "codecs \<Rightarrow> bool \<Rightarrow> nat \<Rightarrow> part_records \<Rightarrow> drained \<Rightarrow> fetcher \<Rightarrow> (nat res \<times> drained \<times> fetcher) option" where
  "append_records cs update_offsets max_records p drained s =
     (let tp = pr_topic_partition p; sub = fs_subscription s in
      if \<not> is_assigned sub tp \<or> \<not> is_fetchable sub tp then Some (Inr 0, drained, drain_part p s)
      else if (case position sub tp of Inr (Some pos) \<Rightarrow> pr_next_fetch_offset p = om_offset pos | _ \<Rightarrow> False)
      then take_in_line cs update_offsets max_records p drained s
      else Some (Inr 0, drained, drain_part p s))"

text \<open>The loop of \<open>fetched_records\<close>: the exception that ended it, the records, where they were from, and the state.\<close>

partial_function (option) drain_fetches ::
  "codecs \<Rightarrow> bool \<Rightarrow> nat \<Rightarrow> drained \<Rightarrow> topic_partition option \<times> int \<Rightarrow> fetcher \<Rightarrow>
     (exn_class option \<times> drained \<times> (topic_partition option \<times> int) \<times> fetcher) option" where
  "drain_fetches cs update_offsets remaining drained fetched s =
     (if remaining = 0 then Some (None, drained, fetched, s)
      else case (case fs_next_partition_records s of Some p \<Rightarrow> if pr_bool p then Some p else None | None \<Rightarrow> None) of
          Some p \<Rightarrow>
            Option.bind (append_records cs update_offsets remaining p drained s) (\<lambda>(r, drained', s').
              let fetched' = (Some (pr_topic_partition p), pr_next_fetch_offset p) in
              case r of
                Inl e \<Rightarrow> Some (Some e, drained', fetched', s')
              | Inr k \<Rightarrow> drain_fetches cs update_offsets (remaining - k) drained' fetched' s')
        | None \<Rightarrow>
            (case fs_completed_fetches s of
               [] \<Rightarrow> Some (None, drained, fetched, s)
             | c # rest \<Rightarrow>
                 let fetched' = (Some (cf_topic_partition c), cf_fetched_offset c) in
                 (case parse_fetched_data c (s\<lparr>fs_completed_fetches := rest\<rparr>) of
                    (Inl e, s') \<Rightarrow> Some (Some e, drained, fetched', s')
                  | (Inr p, s') \<Rightarrow>
                      drain_fetches cs update_offsets remaining drained fetched' (s'\<lparr>fs_next_partition_records := p\<rparr>))))"

text \<open>The exception an earlier call kept back, unless its partition has moved on.\<close>

definition raise_next_in_line :: "(fetcher, unit) py" where
  "raise_next_in_line s =
     (case fs_next_in_line_exception_metadata s of
        None \<Rightarrow> (Inr (), s)
      | Some (tp, off, e) \<Rightarrow>
          (if is_fetchable (fs_subscription s) tp \<and>
              (case position (fs_subscription s) tp of Inr (Some pos) \<Rightarrow> om_offset pos = off | _ \<Rightarrow> False)
           then Inl e else Inr (), s\<lparr>fs_next_in_line_exception_metadata := None\<rparr>))"

definition fetched_records ::
  "codecs \<Rightarrow> nat option \<Rightarrow> bool \<Rightarrow> fetcher \<Rightarrow> ((drained \<times> bool) res \<times> fetcher) option" where
  "fetched_records cs max_records update_offsets s =
     (let n = (case max_records of None \<Rightarrow> fs_max_poll_records s | Some m \<Rightarrow> m) in
      if n = 0 then Some (Inl AssertionError, s)
      else case raise_next_in_line s of
          (Inl e, s') \<Rightarrow> Some (Inl e, s')
        | (Inr _, s') \<Rightarrow>
            map_option (\<lambda>(exc, drained, (tp, off), t).
              case exc of
                None \<Rightarrow> (Inr (drained, fs_completed_fetches t \<noteq> []), t)
              | Some e \<Rightarrow>
                  if drained = [] then (Inl e, t)
                  else (Inr (drained, fs_completed_fetches t \<noteq> []),
                        t\<lparr>fs_next_in_line_exception_metadata := Some (the tp, off, e)\<rparr>))
              (drain_fetches cs update_offsets n [] (None, - 1) s'))"

definition fetcher_close :: "fetcher \<Rightarrow> fetcher" where
  "fetcher_close s =
     (case fs_next_partition_records s of None \<Rightarrow> s | Some p \<Rightarrow> drain_part p s)\<lparr>fs_next_in_line_exception_metadata := None\<rparr>"

section \<open>Offsets\<close>

definition reset_offset_if_needed :: "topic_partition \<Rightarrow> int \<Rightarrow> int \<Rightarrow> (fetcher, unit) py" where
  "reset_offset_if_needed tp timestamp offset =
     py_if (\<lambda>s. \<not> is_assigned (fs_subscription s) tp) (py_return ())
    (py_bind (py_get (\<lambda>s. is_offset_reset_needed (fs_subscription s) tp)) (\<lambda>r.
     py_bind (py_lift r) (\<lambda>needed.
       if \<not> needed then py_return ()
       else py_if (\<lambda>s. timestamp \<noteq> 0 \<and>
              Option.bind (map_of (assignment (fs_subscription s)) tp) reset_strategy \<noteq> Some timestamp) (py_return ())
         (f_on_subscription (seek tp (OffsetInt offset))))))"

definition group_list_offset_request :: "topic_partition \<times> int \<Rightarrow> (node_id \<times> timestamps_and_epochs) list \<Rightarrow>
    (fetcher, (node_id \<times> timestamps_and_epochs) list) py" where
  "group_list_offset_request = (\<lambda>(tp, timestamp) by_node.
     py_bind (py_get (\<lambda>s. leader_for_partition (fs_cluster s) tp)) (\<lambda>leader.
       case leader of
         None \<Rightarrow>
           py_then (py_set (\<lambda>s. s\<lparr>fs_added_topics := fs_added_topics s @ [fst tp]\<rparr>))
             (py_then request_metadata_update (py_return by_node))
       | Some l \<Rightarrow>
           if l = - 1 then py_then request_metadata_update (py_return by_node)
           else py_return (AList.update (Node l)
             (AList.update tp (timestamp, - 1) (case map_of by_node (Node l) of None \<Rightarrow> [] | Some ts \<Rightarrow> ts)) by_node)))"

primrec group_list_offset_requests ::
  "timestamps \<Rightarrow> (node_id \<times> timestamps_and_epochs) list \<Rightarrow> (fetcher, (node_id \<times> timestamps_and_epochs) list) py" where
  "group_list_offset_requests [] by_node = py_return by_node"
| "group_list_offset_requests (t # ts) by_node =
     py_bind (group_list_offset_request t by_node) (group_list_offset_requests ts)"

definition list_offsets_request :: "nat \<Rightarrow> int \<Rightarrow> timestamps_and_epochs \<Rightarrow> request res" where
  "list_offsets_request version level tes =
     (let entry = (\<lambda>(tp, timestamp, epoch).
            if version \<ge> 4 then [snd tp, epoch, timestamp]
            else if version \<ge> 1 then [snd tp, timestamp] else [snd tp, timestamp, 1]);
          by_topic = fold (\<lambda>x. dict_append (fst (fst x)) (entry x)) tes []
      in positional_request ListOffsetsRequest version
           ([VInt (- 1)] @ (if version \<le> 1 then [] else [VInt level]) @ [topics_value by_topic]))"

text \<open>A partition of the answer: its offset if there is one, whether it is to be tried again, or a topic that is
  not authorized.\<close>

datatype partition_offsets = Found offset_and_timestamp | NotFound | Retry | Unauthorized

definition offsets_of_info :: "offset_info \<Rightarrow> (int option \<times> int \<times> int) res" where
  "offsets_of_info i =
     (case i of
        OffsetsV0 offs \<Rightarrow>
          if length offs > 1 then Inl AssertionError
          else Inr (None, if offs = [] then UNKNOWN_OFFSET else hd offs, - 1)
      | OffsetV1 ts off \<Rightarrow> Inr (Some ts, off, - 1)
      | OffsetV4 ts off epoch \<Rightarrow> Inr (Some ts, off, epoch))"

definition partition_offsets :: "int \<Rightarrow> offset_info \<Rightarrow> partition_offsets res" where
  "partition_offsets code i =
     (let error_type = for_code code in
      if error_type = NoError then
        res_map (\<lambda>(ts, off, epoch). if off \<noteq> UNKNOWN_OFFSET
           then Found \<lparr>ot_offset = off, ot_timestamp = ts, ot_leader_epoch = epoch\<rparr> else NotFound) (offsets_of_info i)
      else if error_type = UnsupportedForMessageFormatError then Inr NotFound
      else if error_type \<in> {NotLeaderForPartitionError, ReplicaNotAvailableError, KafkaStorageError} then Inr Retry
      else if error_type = UnknownTopicOrPartitionError then Inr Retry
      else if error_type = TopicAuthorizationFailedError then Inr Unauthorized
      else Inr Retry)"

type_synonym scanned_offsets = "fetched_offsets \<times> topic_partition list \<times> pystr list"

primrec scan_offsets :: "(topic_partition \<times> int \<times> offset_info) list \<Rightarrow> scanned_offsets \<Rightarrow> scanned_offsets res" where
  "scan_offsets [] acc = Inr acc"
| "scan_offsets (x # xs) acc =
     (case x of (tp, code, info) \<Rightarrow> case acc of (fetched, retry, unauthorized) \<Rightarrow>
        res_bind (partition_offsets code info) (\<lambda>po.
          scan_offsets xs
            (case po of
               Found ot \<Rightarrow> (AList.update tp ot fetched, retry, unauthorized)
             | NotFound \<Rightarrow> acc
             | Retry \<Rightarrow> (fetched, List.insert tp retry, unauthorized)
             | Unauthorized \<Rightarrow> (fetched, retry, List.insert (fst tp) unauthorized))))"

definition offsets_entries :: "list_offsets_response \<Rightarrow> (topic_partition \<times> int \<times> offset_info) list" where
  "offsets_entries r = concat (map (\<lambda>(topic, ps). map (\<lambda>(p, code, info). ((topic, p), code, info)) ps) r)"

text \<open>What \<open>_handle_list_offsets_response\<close> completes its future with.\<close>

definition handle_list_offsets_response :: "list_offsets_response \<Rightarrow> (fetched_offsets \<times> topic_partition list) res res" where
  "handle_list_offsets_response r =
     res_map (\<lambda>(fetched, retry, unauthorized).
       if unauthorized \<noteq> [] then Inl TopicAuthorizationFailedError else Inr (fetched, retry))
       (scan_offsets (offsets_entries r) ([], [], []))"

subsection \<open>Those who wait\<close>

definition on_reset_success ::
  "fetch_world \<Rightarrow> timestamps_and_epochs \<Rightarrow> fetched_offsets \<times> topic_partition list \<Rightarrow> (fetcher, unit) py" where
  "on_reset_success w tes = (\<lambda>(fetched, retry).
     py_then
       (if retry \<noteq> [] then
          py_bind (f_ask w fv_now) (\<lambda>now.
          py_bind (py_get fs_retry_backoff_ms) (\<lambda>backoff.
          py_then (f_on_subscription (reset_failed retry (now + backoff))) request_metadata_update))
        else py_return ())
       (py_for (\<lambda>(tp, ot).
          case map_of tes tp of None \<Rightarrow> py_raise KeyError | Some (ts, _) \<Rightarrow> reset_offset_if_needed tp ts (ot_offset ot)) fetched))"

definition on_reset_failure :: "fetch_world \<Rightarrow> timestamps_and_epochs \<Rightarrow> exn_class \<Rightarrow> (fetcher, unit) py" where
  "on_reset_failure w tes e =
     py_bind (f_ask w fv_now) (\<lambda>now.
     py_bind (py_get fs_retry_backoff_ms) (\<lambda>backoff.
     py_then (f_on_subscription (reset_failed (map fst tes) (now + backoff)))
    (py_then request_metadata_update
       (py_when (\<lambda>s. \<not> cls_retriable e \<and> fs_cached_list_offsets_exception s = None)
         (py_set (\<lambda>s. s\<lparr>fs_cached_list_offsets_exception := Some e\<rparr>))))))"

definition on_lookup_success :: "nat \<Rightarrow> fetched_offsets \<times> topic_partition list \<Rightarrow> (fetcher, unit) py" where
  "on_lookup_success i = (\<lambda>(fetched, retry). py_set (\<lambda>s.
     let f = fs_offsets_futures s ! i;
         f1 = f\<lparr>lo_remaining := lo_remaining f - 1,
                lo_fetched := fold (\<lambda>(tp, ot). AList.update tp ot) fetched (lo_fetched f),
                lo_retry := fold List.insert retry (lo_retry f)\<rparr>;
         f2 = (if lo_remaining f1 = 0 \<and> lo_result f1 = None then f1\<lparr>lo_result := Some (Inr (lo_fetched f1, lo_retry f1))\<rparr> else f1)
     in s\<lparr>fs_offsets_futures := (fs_offsets_futures s)[i := f2]\<rparr>))"

definition on_lookup_failure :: "nat \<Rightarrow> exn_class \<Rightarrow> (fetcher, unit) py" where
  "on_lookup_failure i e = py_set (\<lambda>s.
     let f = fs_offsets_futures s ! i in
     if lo_result f = None then s\<lparr>fs_offsets_futures := (fs_offsets_futures s)[i := f\<lparr>lo_result := Some (Inl e)\<rparr>]\<rparr> else s)"

definition complete_offsets ::
  "fetch_world \<Rightarrow> offsets_target \<Rightarrow> (fetched_offsets \<times> topic_partition list) res \<Rightarrow> (fetcher, unit) py" where
  "complete_offsets w target out =
     (case target of
        ResetOffsets tes \<Rightarrow> (case out of Inl e \<Rightarrow> on_reset_failure w tes e | Inr v \<Rightarrow> on_reset_success w tes v)
      | Aggregate i \<Rightarrow> (case out of Inl e \<Rightarrow> on_lookup_failure i e | Inr v \<Rightarrow> on_lookup_success i v))"

text \<open>A request that is refused at once fails its future before the callbacks are added to it.\<close>

definition send_list_offsets_request ::
  "fetch_world \<Rightarrow> node_id \<Rightarrow> timestamps_and_epochs \<Rightarrow> offsets_target \<Rightarrow> (fetcher, unit) py" where
  "send_list_offsets_request w n tes target =
     py_bind (f_ask w (\<lambda>v. fv_api_version v ''ListOffsetsRequest'' 4)) (\<lambda>r.
     py_bind (py_lift r) (\<lambda>version.
       py_if (\<lambda>s. fs_isolation_level s = READ_COMMITTED \<and> version < 2) (py_raise UnsupportedVersionError)
      (py_bind (py_get (\<lambda>s. list_offsets_request version (fs_isolation_level s) tes)) (\<lambda>q.
       py_bind (py_lift q) (\<lambda>request.
       py_bind (f_ask w (\<lambda>v. fv_send v n)) (\<lambda>refused.
         case refused of
           None \<Rightarrow>
             py_then (f_add_pending n request (ListOffsetsRequested target))
               (py_set (\<lambda>s. s\<lparr>fs_next_request := Suc (fs_next_request s)\<rparr>))
         | Some e \<Rightarrow> f_suppress (complete_offsets w target (Inl (refusal_error e)))))))))"

definition reset_offsets_of_node :: "fetch_world \<Rightarrow> node_id \<times> timestamps_and_epochs \<Rightarrow> (fetcher, unit) py" where
  "reset_offsets_of_node w = (\<lambda>(n, tes).
     py_bind (f_ask w (\<lambda>v. fv_ready v n)) (\<lambda>ready.
       if \<not> ready then py_return ()
       else
         py_bind (f_ask w fv_now) (\<lambda>now.
         py_bind (py_get fs_request_timeout_ms) (\<lambda>timeout.
         py_then (f_on_subscription (set_reset_pending (map fst tes) (now + timeout)))
           (send_list_offsets_request w n tes (ResetOffsets tes))))))"

definition reset_offsets_async :: "fetch_world \<Rightarrow> timestamps \<Rightarrow> (fetcher, unit) py" where
  "reset_offsets_async w ts =
     py_bind (group_list_offset_requests ts []) (\<lambda>by_node. py_for (reset_offsets_of_node w) by_node)"

definition reset_offsets_if_needed :: "fetch_world \<Rightarrow> (fetcher, bool) py" where
  "reset_offsets_if_needed w =
     py_bind (py_get fs_cached_list_offsets_exception) (\<lambda>exc.
     py_then (py_set (\<lambda>s. s\<lparr>fs_cached_list_offsets_exception := None\<rparr>))
       (case exc of
          Some e \<Rightarrow> py_raise e
        | None \<Rightarrow>
            py_bind (f_ask w fv_now) (\<lambda>now.
            py_bind (py_get (\<lambda>s. partitions_needing_reset now (fs_subscription s))) (\<lambda>tps.
              if tps = [] then py_return False
              else
                py_bind (py_get (\<lambda>s. List.map_filter (\<lambda>tp.
                   case Option.bind (map_of (assignment (fs_subscription s)) tp) reset_strategy of
                     Some ts \<Rightarrow> if ts \<noteq> 0 then Some (tp, ts) else None
                   | None \<Rightarrow> None) tps)) (\<lambda>resets.
                py_then (reset_offsets_async w resets) (py_return True))))))"

section \<open>Polling\<close>

definition handle_fetch_reply :: "fetch_world \<Rightarrow> fetch_pending \<Rightarrow> fetch_reply \<Rightarrow> (fetcher, unit) py" where
  "handle_fetch_reply w p reply =
     (case fp_kind p of
        FetchRequested offs \<Rightarrow>
          py_then
            (case reply of
               FetchReply r \<Rightarrow> f_suppress (handle_fetch_response (fp_node p) offs r)
             | FetchFailed e \<Rightarrow> f_suppress (handle_fetch_error (fp_node p))
             | ListOffsetsReply _ \<Rightarrow> py_return ())
            (clear_pending_fetch_request (fp_node p))
      | ListOffsetsRequested target \<Rightarrow>
          (case reply of
             ListOffsetsReply r \<Rightarrow>
               (case handle_list_offsets_response r of
                  Inl e \<Rightarrow> py_return ()
                | Inr out \<Rightarrow> f_suppress (complete_offsets w target out))
           | FetchFailed e \<Rightarrow> f_suppress (complete_offsets w target (Inl e))
           | FetchReply _ \<Rightarrow> py_return ()))"

text \<open>A response is of the class its request names; anything else is not delivered.\<close>

definition fetch_reply_fits :: "fetch_kind \<Rightarrow> fetch_reply \<Rightarrow> bool" where
  "fetch_reply_fits kind reply \<longleftrightarrow>
     (case reply of
        FetchFailed _ \<Rightarrow> True
      | FetchReply _ \<Rightarrow> (case kind of FetchRequested _ \<Rightarrow> True | _ \<Rightarrow> False)
      | ListOffsetsReply _ \<Rightarrow> (case kind of ListOffsetsRequested _ \<Rightarrow> True | _ \<Rightarrow> False))"

definition f_deliver :: "fetch_world \<Rightarrow> fetch_delivery \<Rightarrow> (fetcher, unit) py" where
  "f_deliver w d =
     (case d of
        DeliverFetch i reply \<Rightarrow>
          py_bind (py_get (\<lambda>s. List.find (\<lambda>p. fp_id p = i) (fs_pending s))) (\<lambda>p.
            case p of
              None \<Rightarrow> py_return ()
            | Some p \<Rightarrow>
                if \<not> fetch_reply_fits (fp_kind p) reply then py_return ()
                else
                  py_then (py_set (\<lambda>s. s\<lparr>fs_pending := filter (\<lambda>q. fp_id q \<noteq> i) (fs_pending s)\<rparr>))
                    (handle_fetch_reply w p reply))
      | FetchMetadataUpdate md \<Rightarrow> f_suppress (py_bind (f_ask w fv_now) (\<lambda>now. f_on_cluster (update_metadata (\<lambda>_ c. c) now md))))"

definition f_poll :: "fetch_world \<Rightarrow> (fetcher, unit) py" where
  "f_poll w =
     py_bind (py_get fs_pending) (\<lambda>ps.
     py_bind (f_ask w (\<lambda>v. fv_deliveries v ps)) (\<lambda>ds. py_for (f_deliver w) ds))"

section \<open>Looking offsets up\<close>

definition send_list_offsets_requests :: "fetch_world \<Rightarrow> timestamps \<Rightarrow> (fetcher, nat) py" where
  "send_list_offsets_requests w ts =
     py_bind (group_list_offset_requests ts []) (\<lambda>by_node.
     py_bind (py_get (\<lambda>s. length (fs_offsets_futures s))) (\<lambda>i.
     py_then (py_set (\<lambda>s. s\<lparr>fs_offsets_futures := fs_offsets_futures s @
         [\<lparr>lo_remaining = int (length by_node), lo_fetched = [], lo_retry = [],
           lo_result = (if by_node = [] then Some (Inl StaleMetadata) else None)\<rparr>]\<rparr>))
    (py_then (py_for (\<lambda>(n, tes). send_list_offsets_request w n tes (Aggregate i)) by_node) (py_return i))))"

text \<open>The loop of \<open>_fetch_offsets_by_times\<close>, for at most the given number of iterations; None when they are not enough.\<close>

primrec lookup_loop ::
  "fetch_world \<Rightarrow> timer \<Rightarrow> nat \<Rightarrow> timestamps \<Rightarrow> fetched_offsets \<Rightarrow> (fetcher, fetched_offsets option) py" where
  "lookup_loop w timer 0 ts fetched = py_return None"
| "lookup_loop w timer (Suc n) ts fetched =
     (if ts = [] then py_return (Some [])
      else
        py_bind (send_list_offsets_requests w ts) (\<lambda>i.
        py_then (f_poll w)
       (py_bind (py_get (\<lambda>s. lo_result (fs_offsets_futures s ! i))) (\<lambda>result.
          case result of
            None \<Rightarrow> py_raise KafkaTimeoutError
          | Some (Inr (found, retry)) \<Rightarrow>
              if retry = [] then py_return (Some (fold (\<lambda>(tp, ot). AList.update tp ot) found fetched))
              else if \<not> set retry \<subseteq> fst ` set ts then py_raise KeyError
              else py_raise AttributeError
          | Some (Inl e) \<Rightarrow>
              if \<not> cls_retriable e then py_raise e
              else
                py_then
                  (py_when (\<lambda>s. cls_invalid_metadata e \<or> need_update (fs_cluster s)) (py_then request_metadata_update (f_poll w)))
               (py_bind (f_ask w fv_now) (\<lambda>now.
                py_then (py_lift (timer_maybe_raise now timer)) (lookup_loop w timer n ts fetched)))))))"

definition fetch_offsets_by_times :: "fetch_world \<Rightarrow> nat \<Rightarrow> timestamps \<Rightarrow> int option \<Rightarrow> (fetcher, fetched_offsets option) py" where
  "fetch_offsets_by_times w n ts limit =
     (if ts = [] then py_return (Some [])
      else py_bind (f_ask w fv_now) (\<lambda>now. lookup_loop w (new_timer now limit) n ts []))"

definition offsets_by_times ::
  "fetch_world \<Rightarrow> nat \<Rightarrow> timestamps \<Rightarrow> int option \<Rightarrow> (fetcher, (topic_partition \<times> offset_and_timestamp option) list option) py" where
  "offsets_by_times w n ts limit =
     py_bind (fetch_offsets_by_times w n ts limit) (\<lambda>r.
       py_return (map_option (\<lambda>offs.
         map (\<lambda>(tp, ot). (tp, Some ot)) offs @
         map (\<lambda>tp. (tp, None)) (filter (\<lambda>tp. tp \<notin> fst ` set offs) (map fst ts))) r))"

definition beginning_or_end_offset ::
  "fetch_world \<Rightarrow> nat \<Rightarrow> topic_partition list \<Rightarrow> int \<Rightarrow> int option \<Rightarrow> (fetcher, (topic_partition \<times> int) list option) py" where
  "beginning_or_end_offset w n tps timestamp limit =
     py_bind (fetch_offsets_by_times w n (map (\<lambda>tp. (tp, timestamp)) (remdups tps)) limit) (\<lambda>r.
       case r of
         None \<Rightarrow> py_return None
       | Some offs \<Rightarrow>
           if set tps \<subseteq> fst ` set offs then py_return (Some (map (\<lambda>(tp, ot). (tp, ot_offset ot)) offs)) else py_raise KeyError)"

definition beginning_offsets where
  "beginning_offsets w n tps limit = beginning_or_end_offset w n tps STRATEGY_EARLIEST limit"

definition end_offsets where
  "end_offsets w n tps limit = beginning_or_end_offset w n tps STRATEGY_LATEST limit"

end
