(* ===== verification/Fetcher_Properties.thy ===== *)
theory Fetcher_Properties
  imports Fetcher
begin

text \<open>
  What a consumer gets from its fetcher: the visible records of a fetched buffer, once and in order, over any
  sequence of calls; and what happens after a corrupt batch.
\<close>

section \<open>Handing out in order\<close>

text \<open>The partition can be fetched, at the given position.\<close>

definition in_line :: "fetcher \<Rightarrow> topic_partition \<Rightarrow> int \<Rightarrow> bool" where
  "in_line s tp off \<longleftrightarrow> is_fetchable (fs_subscription s) tp \<and>
     (\<exists>pos. position (fs_subscription s) tp = Inr (Some pos) \<and> om_offset pos = off)"

lemma is_fetchable_assigned: "is_fetchable sub tp \<Longrightarrow> is_assigned sub tp"
  by (auto simp: is_fetchable_def is_assigned_def split: option.splits)

lemma map_of_moved [simp]:
  "map_of (assignment (snd (move_partition_to_end tp' sub))) tp = map_of (assignment sub) tp"
proof (cases "map_of (assignment sub) tp'")
  case (Some st)
  then show ?thesis
    by (cases "tp = tp'") (auto simp: move_partition_to_end_def py_set_def map_add_def delete_conv' split: option.splits)
qed (simp add: move_partition_to_end_def py_set_def)

lemma drain_map_of [simp]: "map_of (assignment (on_partition_records_drain p sub)) tp = map_of (assignment sub) tp"
  by (simp add: on_partition_records_drain_def)

lemma set_position_in_line:
  assumes "is_fetchable sub tp"
  shows "\<exists>sub'. set_partition_position tp om sub = (Inr (), sub') \<and> is_fetchable sub' tp \<and> position sub' tp = Inr (Some om)"
  using assms by (auto simp: set_partition_position_def on_partition_def is_fetchable_def position_def tp_set_position_def
      tp_is_fetchable_def tp_has_valid_position_def update_conv' split: option.splits)

text \<open>A fetcher whose next records are \<open>xs\<close>, all of one partition that is in line for them.\<close>

definition fetcher_ready :: "codecs \<Rightarrow> (int \<times> int) list \<Rightarrow> record_batch option \<Rightarrow> topic_partition \<Rightarrow> consumer_record list \<Rightarrow> fetcher \<Rightarrow> bool" where
  "fetcher_ready cs aborted fin tp xs s \<longleftrightarrow>
     fs_next_in_line_exception_metadata s = None \<and> fs_completed_fetches s = [] \<and>
     (\<exists>p. fs_next_partition_records s = Some p \<and> pr_topic_partition p = tp \<and>
        part_ready cs (fs_key_deserializer s) (fs_value_deserializer s) aborted p xs fin \<and> in_line s tp (pr_next_fetch_offset p))"

text \<open>A fetcher that has handed everything out.\<close>

definition fetcher_idle :: "topic_partition \<Rightarrow> record_batch option \<Rightarrow> fetcher \<Rightarrow> bool" where
  "fetcher_idle tp fin s \<longleftrightarrow>
     fs_next_in_line_exception_metadata s = None \<and> fs_completed_fetches s = [] \<and>
     (\<exists>p. fs_next_partition_records s = Some p \<and> \<not> pr_bool p) \<and>
     (\<forall>db. Option.bind fin v2_batch = Some db \<longrightarrow> in_line s tp (batch_next_offset db))"

lemma take_in_line_part:
  assumes "part_ready cs (fs_key_deserializer s) (fs_value_deserializer s) aborted p xs fin" "n \<le> length xs" "n > 0"
    and "is_fetchable (fs_subscription s) (pr_topic_partition p)"
  shows "\<exists>q sub. take_in_line cs True n p d s = Some (Inr n, dict_extend (pr_topic_partition p) (take n xs) d,
      s\<lparr>fs_next_partition_records := Some q, fs_subscription := sub\<rparr>) \<and>
    part_ready cs (fs_key_deserializer s) (fs_value_deserializer s) aborted q (drop n xs) fin \<and> pr_topic_partition q = pr_topic_partition p \<and>
    is_fetchable sub (pr_topic_partition p) \<and>
    position sub (pr_topic_partition p) = Inr (Some \<lparr>om_offset = pr_next_fetch_offset q, om_metadata = [], om_leader_epoch = - 1\<rparr>)"
proof -
  obtain q where q: "take_records cs (fs_key_deserializer s) (fs_value_deserializer s) on_partition_records_drain n (p, fs_subscription s) =
      Some (Inr (take n xs), q, fs_subscription s)" "part_ready cs (fs_key_deserializer s) (fs_value_deserializer s) aborted q (drop n xs) fin"
      "pr_topic_partition q = pr_topic_partition p"
    using take_part [OF assms(1,2), of on_partition_records_drain "fs_subscription s"] by blast
  obtain sub where "set_partition_position (pr_topic_partition p) \<lparr>om_offset = pr_next_fetch_offset q, om_metadata = [], om_leader_epoch = - 1\<rparr>
      (fs_subscription s) = (Inr (), sub)" "is_fetchable sub (pr_topic_partition p)"
      "position sub (pr_topic_partition p) = Inr (Some \<lparr>om_offset = pr_next_fetch_offset q, om_metadata = [], om_leader_epoch = - 1\<rparr>)"
    using set_position_in_line [OF assms(4)] by blast
  then show ?thesis using q assms(2,3) by (auto simp: take_in_line_def f_on_subscription_def Let_def)
qed

lemma take_in_line_rest:
  assumes "part_ready cs (fs_key_deserializer s) (fs_value_deserializer s) aborted p xs fin" "length xs < n"
    and "is_fetchable (fs_subscription s) (pr_topic_partition p)"
  shows "\<exists>q sub. take_in_line cs True n p d s = Some (Inr (length xs), if xs = [] then d else dict_extend (pr_topic_partition p) xs d,
      s\<lparr>fs_next_partition_records := Some q, fs_subscription := sub\<rparr>) \<and> \<not> pr_bool q \<and> offset_after fin q \<and>
    is_fetchable sub (pr_topic_partition p) \<and>
    position sub (pr_topic_partition p) = Inr (Some \<lparr>om_offset = pr_next_fetch_offset q, om_metadata = [], om_leader_epoch = - 1\<rparr>)"
proof -
  obtain q where q: "take_records cs (fs_key_deserializer s) (fs_value_deserializer s) on_partition_records_drain n (p, fs_subscription s) =
      Some (Inr xs, q, on_partition_records_drain q (fs_subscription s))" "\<not> pr_bool q" "offset_after fin q"
    using take_rest [OF assms(1,2), of on_partition_records_drain "fs_subscription s"] by blast
  have "is_fetchable (on_partition_records_drain q (fs_subscription s)) (pr_topic_partition p)"
    using assms(3) by (simp add: is_fetchable_def)
  then obtain sub where "set_partition_position (pr_topic_partition p) \<lparr>om_offset = pr_next_fetch_offset q, om_metadata = [], om_leader_epoch = - 1\<rparr>
      (on_partition_records_drain q (fs_subscription s)) = (Inr (), sub)" "is_fetchable sub (pr_topic_partition p)"
      "position sub (pr_topic_partition p) = Inr (Some \<lparr>om_offset = pr_next_fetch_offset q, om_metadata = [], om_leader_epoch = - 1\<rparr>)"
    using set_position_in_line by blast
  then show ?thesis using q by (auto simp: take_in_line_def f_on_subscription_def Let_def)
qed

lemma append_in_line:
  "in_line s (pr_topic_partition p) (pr_next_fetch_offset p) \<Longrightarrow> append_records cs u n p d s = take_in_line cs u n p d s"
  by (auto simp: append_records_def in_line_def is_fetchable_assigned Let_def)

lemma drain_ready_part:
  assumes "fetcher_ready cs aborted fin tp xs s" "n \<le> length xs" "n > 0"
  shows "\<exists>f' t. drain_fetches cs True n [] f s = Some (None, [(tp, take n xs)], f', t) \<and> fetcher_ready cs aborted fin tp (drop n xs) t"
proof -
  obtain p where p: "fs_next_partition_records s = Some p" "pr_topic_partition p = tp"
      "part_ready cs (fs_key_deserializer s) (fs_value_deserializer s) aborted p xs fin" "in_line s tp (pr_next_fetch_offset p)"
    using assms(1) by (auto simp: fetcher_ready_def)
  have it: "pr_bool p" using p(3) by (auto simp: part_ready_def pr_bool_def)
  obtain q sub where q: "take_in_line cs True n p [] s = Some (Inr n, dict_extend tp (take n xs) [],
      s\<lparr>fs_next_partition_records := Some q, fs_subscription := sub\<rparr>)"
      "part_ready cs (fs_key_deserializer s) (fs_value_deserializer s) aborted q (drop n xs) fin" "pr_topic_partition q = tp"
      "is_fetchable sub tp" "position sub tp = Inr (Some \<lparr>om_offset = pr_next_fetch_offset q, om_metadata = [], om_leader_epoch = - 1\<rparr>)"
    using take_in_line_part [OF p(3) assms(2,3), of "[]"] p(2,4) by (auto simp: in_line_def)
  have "append_records cs True n p [] s = take_in_line cs True n p [] s"
    using p(2,4) by (simp add: append_in_line)
  then have "drain_fetches cs True n [] f s = Some (None, [(tp, take n xs)], (Some tp, pr_next_fetch_offset p),
      s\<lparr>fs_next_partition_records := Some q, fs_subscription := sub\<rparr>)"
    using q(1) p(1,2) it assms(3) by (simp add: drain_fetches.simps dict_extend_def)
  moreover have "fetcher_ready cs aborted fin tp (drop n xs) (s\<lparr>fs_next_partition_records := Some q, fs_subscription := sub\<rparr>)"
    using assms(1) q(2-5) by (simp add: fetcher_ready_def in_line_def)
  ultimately show ?thesis by blast
qed

lemma drain_idle:
  "fs_completed_fetches s = [] \<Longrightarrow> fs_next_partition_records s = Some p \<Longrightarrow> \<not> pr_bool p \<Longrightarrow>
     drain_fetches cs u n d f s = Some (None, d, f, s)"
  by (simp add: drain_fetches.simps)

lemma drain_ready_rest:
  assumes "fetcher_ready cs aborted fin tp xs s" "length xs < n"
  shows "\<exists>f' t. drain_fetches cs True n [] f s = Some (None, if xs = [] then [] else [(tp, xs)], f', t) \<and> fetcher_idle tp fin t"
proof -
  obtain p where p: "fs_next_partition_records s = Some p" "pr_topic_partition p = tp"
      "part_ready cs (fs_key_deserializer s) (fs_value_deserializer s) aborted p xs fin" "in_line s tp (pr_next_fetch_offset p)"
    using assms(1) by (auto simp: fetcher_ready_def)
  have it: "pr_bool p" using p(3) by (auto simp: part_ready_def pr_bool_def)
  obtain q sub where q: "take_in_line cs True n p [] s = Some (Inr (length xs), if xs = [] then [] else dict_extend tp xs [],
      s\<lparr>fs_next_partition_records := Some q, fs_subscription := sub\<rparr>)" "\<not> pr_bool q" "offset_after fin q"
      "is_fetchable sub tp" "position sub tp = Inr (Some \<lparr>om_offset = pr_next_fetch_offset q, om_metadata = [], om_leader_epoch = - 1\<rparr>)"
    using take_in_line_rest [OF p(3) assms(2), of "[]"] p(2,4) by (auto simp: in_line_def)
  let ?t = "s\<lparr>fs_next_partition_records := Some q, fs_subscription := sub\<rparr>"
  have idle: "drain_fetches cs True m d f' ?t = Some (None, d, f', ?t)" for m d f'
    using assms(1) q(2) by (intro drain_idle) (auto simp: fetcher_ready_def)
  have "append_records cs True n p [] s = take_in_line cs True n p [] s"
    using p(2,4) by (simp add: append_in_line)
  then have "drain_fetches cs True n [] f s = Some (None, if xs = [] then [] else [(tp, xs)], (Some tp, pr_next_fetch_offset p), ?t)"
    using q(1) p(1,2) it assms(2) idle by (simp add: drain_fetches.simps [of cs True n "[]" f s] dict_extend_def)
  moreover have "fetcher_idle tp fin ?t"
    using assms(1) q(2-5) by (auto simp: fetcher_ready_def fetcher_idle_def in_line_def offset_after_def)
  ultimately show ?thesis by blast
qed

text \<open>The records of successive calls of \<open>fetched_records\<close>; None when one of them raises or does not return.\<close>

primrec fetch_calls :: "codecs \<Rightarrow> nat list \<Rightarrow> fetcher \<Rightarrow> (drained list \<times> fetcher) option" where
  "fetch_calls cs [] s = Some ([], s)"
| "fetch_calls cs (n # ns) s =
     (case fetched_records cs (Some n) True s of
        Some (Inr (d, _), t) \<Rightarrow> map_option (\<lambda>(ds, u). (d # ds, u)) (fetch_calls cs ns t)
      | _ \<Rightarrow> None)"

definition all_records :: "drained list \<Rightarrow> consumer_record list" where
  "all_records ds = concat (map (\<lambda>d. concat (map snd d)) ds)"

lemma all_records_simps [simp]: "all_records [] = []" "all_records (d # ds) = concat (map snd d) @ all_records ds"
  by (simp_all add: all_records_def)

lemma fetched_records_drain:
  "n > 0 \<Longrightarrow> fs_next_in_line_exception_metadata s = None \<Longrightarrow> drain_fetches cs u n [] (None, - 1) s = Some (None, d, f, t) \<Longrightarrow>
     fetched_records cs (Some n) u s = Some (Inr (d, fs_completed_fetches t \<noteq> []), t)"
  by (cases f) (simp add: fetched_records_def raise_next_in_line_def)

lemma idle_calls:
  assumes "fetcher_idle tp fin s" "\<forall>n \<in> set ns. n > 0"
  shows "\<exists>ds. fetch_calls cs ns s = Some (ds, s) \<and> all_records ds = [] \<and> (\<forall>d \<in> set ds. fst ` set d \<subseteq> {tp})"
  using assms(2)
proof (induction ns)
  case (Cons n ns)
  have "fetched_records cs (Some n) True s = Some (Inr ([], False), s)"
    using assms(1) Cons.prems by (auto simp: fetcher_idle_def fetched_records_drain [OF _ _ drain_idle])
  then show ?case using Cons by auto
qed simp

lemma ready_calls:
  assumes "fetcher_ready cs aborted fin tp xs s" "\<forall>n \<in> set ns. n > 0"
  shows "\<exists>ds t. fetch_calls cs ns s = Some (ds, t) \<and> all_records ds = take (sum_list ns) xs \<and> (\<forall>d \<in> set ds. fst ` set d \<subseteq> {tp}) \<and>
    (length xs < sum_list ns \<longrightarrow> fetcher_idle tp fin t)"
  using assms
proof (induction ns arbitrary: s xs)
  case (Cons n ns)
  have s: "n > 0" "fs_next_in_line_exception_metadata s = None"
    using Cons.prems by (simp_all add: fetcher_ready_def)
  show ?case
  proof (cases "n \<le> length xs")
    case True
    obtain f t where t: "drain_fetches cs True n [] (None, - 1) s = Some (None, [(tp, take n xs)], f, t)" "fetcher_ready cs aborted fin tp (drop n xs) t"
      using drain_ready_part [OF Cons.prems(1) True s(1)] by blast
    obtain ds u where "fetch_calls cs ns t = Some (ds, u)" "all_records ds = take (sum_list ns) (drop n xs)"
        "\<forall>d \<in> set ds. fst ` set d \<subseteq> {tp}" "length (drop n xs) < sum_list ns \<longrightarrow> fetcher_idle tp fin u"
      using Cons.IH [OF t(2)] Cons.prems(2) by auto
    then show ?thesis using fetched_records_drain [OF s t(1)] True by (auto simp: take_add)
  next
    case False
    then obtain f t where t: "drain_fetches cs True n [] (None, - 1) s = Some (None, if xs = [] then [] else [(tp, xs)], f, t)" "fetcher_idle tp fin t"
      using drain_ready_rest [OF Cons.prems(1), of n "(None, - 1)"] by auto
    obtain ds where "fetch_calls cs ns t = Some (ds, t)" "all_records ds = []" "\<forall>d \<in> set ds. fst ` set d \<subseteq> {tp}"
      using idle_calls [OF t(2), of ns cs] Cons.prems(2) by auto
    then show ?thesis using fetched_records_drain [OF s t(1)] False t(2) by auto
  qed
qed simp

text \<open>A response without error that is still at the position of its partition, with its records.\<close>

definition good_fetch :: "completed_fetch \<Rightarrow> (int \<times> int) list \<Rightarrow> memory_records \<Rightarrow> fetcher \<Rightarrow> bool" where
  "good_fetch c aborted records s \<longleftrightarrow>
     (\<exists>hw rest buf ab. cf_partition_data c = VInt 0 # VInt hw # rest \<and> from_end 1 (cf_partition_data c) = Inr (VBytes buf) \<and>
        MemoryRecords buf = Inr records \<and> aborted_of (cf_response_version c) (cf_partition_data c) = Inr ab \<and>
        aborted = (case ab of None \<Rightarrow> [] | Some ts \<Rightarrow> ts)) \<and>
     in_line s (cf_topic_partition c) (cf_fetched_offset c)"

lemma highwater_in_line:
  assumes "in_line s tp off"
  shows "\<exists>sub. (if hw \<ge> 0 then f_on_subscription (on_partition tp (\<lambda>st. Inr (st\<lparr>highwater := Some hw\<rparr>))) else py_return ()) s =
    (Inr (), s\<lparr>fs_subscription := sub\<rparr>) \<and> in_line (s\<lparr>fs_subscription := sub\<rparr>) tp off"
proof (cases "hw \<ge> 0")
  case True
  let ?sub = "snd (on_partition tp (\<lambda>st. Inr (st\<lparr>highwater := Some hw\<rparr>)) (fs_subscription s))"
  show ?thesis
    using assms True
    by (intro exI [of _ ?sub]) (auto simp: f_on_subscription_def on_partition_def in_line_def is_fetchable_def position_def
        tp_is_fetchable_def tp_has_valid_position_def update_conv' split: option.splits)
next
  case False
  then show ?thesis using assms by (intro exI [of _ "fs_subscription s"]) (simp add: py_return_def)
qed

lemma parse_good_fetch:
  assumes "good_fetch c aborted records s" "has_next records"
  shows "\<exists>sub. parse_fetched_data c s = (Inr (Some (PartitionRecords (cf_fetched_offset c) (cf_topic_partition c) records (fs_check_crcs s)
      (fs_isolation_level s) (Some aborted))), s\<lparr>fs_subscription := sub\<rparr>) \<and> in_line (s\<lparr>fs_subscription := sub\<rparr>) (cf_topic_partition c) (cf_fetched_offset c)"
proof -
  let ?tp = "cf_topic_partition c"
  obtain hw rest buf ab where data: "cf_partition_data c = VInt 0 # VInt hw # rest" "from_end 1 (cf_partition_data c) = Inr (VBytes buf)"
      "MemoryRecords buf = Inr records" "aborted_of (cf_response_version c) (cf_partition_data c) = Inr ab"
      "aborted = (case ab of None \<Rightarrow> [] | Some ts \<Rightarrow> ts)" and line: "in_line s ?tp (cf_fetched_offset c)"
    using assms(1) by (auto simp: good_fetch_def)
  obtain sub where sub: "(if hw \<ge> 0 then f_on_subscription (on_partition ?tp (\<lambda>st. Inr (st\<lparr>highwater := Some hw\<rparr>))) else py_return ()) s =
      (Inr (), s\<lparr>fs_subscription := sub\<rparr>)" "in_line (s\<lparr>fs_subscription := sub\<rparr>) ?tp (cf_fetched_offset c)"
    using highwater_in_line [OF line] by blast
  have "PartitionRecords (cf_fetched_offset c) ?tp records check level ab =
      PartitionRecords (cf_fetched_offset c) ?tp records check level (Some aborted)" for check level
    by (simp add: data(5) PartitionRecords_def)
  then have "parse_records c hw s = (Inr (Some (PartitionRecords (cf_fetched_offset c) ?tp records (fs_check_crcs s)
      (fs_isolation_level s) (Some aborted))), s\<lparr>fs_subscription := sub\<rparr>)"
    using data(1-4) line assms(2) sub(1) unfolding parse_records_def in_line_def
    by (auto simp: py_defs Let_def records_of_def)
  then have "parse_fetched_data c s = (Inr (Some (PartitionRecords (cf_fetched_offset c) ?tp records (fs_check_crcs s)
      (fs_isolation_level s) (Some aborted))), s\<lparr>fs_subscription := sub\<rparr>)"
    using line data(1) by (simp add: parse_fetched_data_def parse_by_error_def py_if_def in_line_def)
  then show ?thesis using sub(2) by blast
qed

text \<open>C3. What is fetched is consumed once and in order: a response for a partition, of intact batches with increasing offsets
  and fetched from the position of the partition, is handed out by calls of \<open>fetched_records\<close> with any maximal
  counts as exactly the records from that position on that are visible at the isolation level, those of control batches and, with
  \<open>read_committed\<close>, of aborted transactions left out; when they are used up, the position is after the last batch.\<close>

theorem fetched_records_in_order:
  assumes s: "fs_completed_fetches s = [c]" "fs_next_in_line_exception_metadata s = None" "fs_next_partition_records s = None"
    and c: "good_fetch c aborted records s" "next_batches records bs" "bs \<noteq> []" "in_order [] bs"
      "list_all (intact_batch cs (fs_key_deserializer s) (fs_value_deserializer s) (fs_check_crcs s) (cf_topic_partition c)) bs"
    and ns: "\<forall>n \<in> set ns. n > 0" "ns \<noteq> []"
    and xs: "xs = dropWhile (\<lambda>r. kr_offset r < cf_fetched_offset c)
      (visible_records cs (fs_key_deserializer s) (fs_value_deserializer s) (cf_topic_partition c) (fs_isolation_level s) aborted [] (- 1) bs)"
  shows "\<exists>ds t. fetch_calls cs ns s = Some (ds, t) \<and> all_records ds = take (sum_list ns) xs \<and>
    (\<forall>d \<in> set ds. fst ` set d \<subseteq> {cf_topic_partition c}) \<and>
    (length xs < sum_list ns \<longrightarrow> (\<forall>db. v2_batch (last bs) = Some db \<longrightarrow> in_line t (cf_topic_partition c) (batch_next_offset db)))"
proof -
  let ?tp = "cf_topic_partition c" and ?s = "s\<lparr>fs_completed_fetches := []\<rparr>"
  let ?p = "PartitionRecords (cf_fetched_offset c) ?tp records (fs_check_crcs s) (fs_isolation_level s) (Some aborted)"
  have "has_next records"
    using c(2,3) by (cases rule: next_batches.cases) (auto simp: has_next_def next_batch_def split: option.splits)
  then obtain sub where sub: "parse_fetched_data c ?s = (Inr (Some ?p), ?s\<lparr>fs_subscription := sub\<rparr>)"
      "in_line (?s\<lparr>fs_subscription := sub\<rparr>) ?tp (cf_fetched_offset c)"
    using parse_good_fetch [of c aborted records ?s] c(1) by (auto simp: good_fetch_def in_line_def)
  let ?t = "?s\<lparr>fs_subscription := sub, fs_next_partition_records := Some ?p\<rparr>"
  have ready: "fetcher_ready cs aborted (Some (last bs)) ?tp xs ?t"
    using PartitionRecords_ready [OF c(2,5,4), of aborted "cf_fetched_offset c" "fs_isolation_level s"] s(2) sub(2) c(3)
    by (auto simp: fetcher_ready_def xs in_line_def PartitionRecords_def)
  have step: "drain_fetches cs True n [] f s = drain_fetches cs True n [] (Some ?tp, cf_fetched_offset c) ?t" if "n > 0" for n f
    using that s(1,3) sub(1) by (simp add: drain_fetches.simps [of cs True n "[]" f s])
  have drained: "drain_fetches cs True n [] (None, - 1) s = Some (None, d, f, u)" if "n > 0"
      "drain_fetches cs True n [] (Some ?tp, cf_fetched_offset c) ?t = Some (None, d, f, u)" for n d f u
    using that step by simp
  obtain n ms where ms: "ns = n # ms" "n > 0" using ns by (cases ns) auto
  consider (part) f u where "n \<le> length xs" "drain_fetches cs True n [] (Some ?tp, cf_fetched_offset c) ?t = Some (None, [(?tp, take n xs)], f, u)"
      "fetcher_ready cs aborted (Some (last bs)) ?tp (drop n xs) u"
    | (rest) f u where "length xs < n" "drain_fetches cs True n [] (Some ?tp, cf_fetched_offset c) ?t = Some (None, if xs = [] then [] else [(?tp, xs)], f, u)"
      "fetcher_idle ?tp (Some (last bs)) u"
    using drain_ready_part [OF ready] drain_ready_rest [OF ready] ms(2) by (meson not_le)
  then show ?thesis
  proof cases
    case part
    then show ?thesis
      using fetched_records_drain [OF ms(2) s(2) drained [OF ms(2) part(2)]] ready_calls [OF part(3), of ms] ns(1)
      by (fastforce simp: ms(1) take_add fetcher_idle_def)
  next
    case rest
    then show ?thesis
      using fetched_records_drain [OF ms(2) s(2) drained [OF ms(2) rest(2)]] idle_calls [OF rest(3), of ms cs] ns(1)
      by (fastforce simp: ms(1) fetcher_idle_def)
  qed
qed

section \<open>After an error\<close>

text \<open>A generator that has raised is at its end, but its iterator is still there.\<close>

definition stuck :: "fetcher \<Rightarrow> bool" where
  "stuck s \<longleftrightarrow> (\<exists>p d. fs_next_partition_records s = Some p \<and> pr_record_iterator p = Some (d, Finished) \<and>
     pr_next_inline_exception p = None \<and> in_line s (pr_topic_partition p) (pr_next_fetch_offset p))"

lemma finished_take:
  assumes "pr_record_iterator p = Some (d, Finished)" "pr_next_inline_exception p = None" "n > 0"
  shows "take_records cs kd vd od n (p, s) = Some (Inr [], p, s)"
proof -
  have "iterator_next cs kd vd od (d, Finished) (p, s) = Some ((Inr None, d, Finished), p, s)"
    by (simp add: iterator_next.simps [of cs kd vd od "(d, Finished)"] unpack_records.simps [of cs kd vd od Finished] gen_step_def)
  then have "extend_islice cs kd vd od n (d, Finished) (p, s) = Some (([], None, d, Finished), p, s)"
    using assms(3) by (cases n) simp_all
  then show ?thesis using assms(1,2) by (simp add: take_records_def)
qed

lemma stuck_append:
  assumes "stuck s" "fs_next_partition_records s = Some p" "n > 0"
  shows "\<exists>t. append_records cs u n p d s = Some (Inr 0, d, t) \<and> stuck t"
proof -
  obtain k where p: "pr_record_iterator p = Some (k, Finished)" "pr_next_inline_exception p = None"
      "in_line s (pr_topic_partition p) (pr_next_fetch_offset p)"
    using assms(1,2) by (auto simp: stuck_def)
  obtain sub where sub: "set_partition_position (pr_topic_partition p) \<lparr>om_offset = pr_next_fetch_offset p, om_metadata = [], om_leader_epoch = - 1\<rparr>
      (fs_subscription s) = (Inr (), sub)" "is_fetchable sub (pr_topic_partition p)"
      "position sub (pr_topic_partition p) = Inr (Some \<lparr>om_offset = pr_next_fetch_offset p, om_metadata = [], om_leader_epoch = - 1\<rparr>)"
    using set_position_in_line p(3) unfolding in_line_def by blast
  have "take_records cs (fs_key_deserializer s) (fs_value_deserializer s) on_partition_records_drain n (p, fs_subscription s) =
      Some (Inr [], p, fs_subscription s)"
    by (rule finished_take [OF p(1,2) assms(3)])
  then have "append_records cs u n p d s = Some (Inr 0, d, s\<lparr>fs_next_partition_records := Some p, fs_subscription := sub\<rparr>)"
    using sub(1) append_in_line [OF p(3)]
    by (simp add: take_in_line_def f_on_subscription_def Let_def)
  moreover have "stuck (s\<lparr>fs_next_partition_records := Some p, fs_subscription := sub\<rparr>)"
    using p sub by (auto simp: stuck_def in_line_def)
  ultimately show ?thesis by blast
qed

lemma stuck_drain:
  assumes "stuck s" "n > 0"
  shows "drain_fetches cs u n d f s = None"
proof -
  have "drain_fetches cs u n d f s = Some y \<Longrightarrow> \<not> (stuck s \<and> n > 0)" for y
  proof (rule drain_fetches.raw_induct [of "\<lambda>cs u n d f s y. \<not> (stuck s \<and> n > 0)"])
    fix loop cs u n d f s y
    assume loop: "\<And>cs u n d f s y. loop cs u n d f s = Some y \<Longrightarrow> \<not> (stuck s \<and> 0 < n)"
      and body: "(if n = 0 then Some (None, d, f, s)
        else case case fs_next_partition_records s of None \<Rightarrow> None | Some p \<Rightarrow> if pr_bool p then Some p else None of
            None \<Rightarrow> (case fs_completed_fetches s of
                 [] \<Rightarrow> Some (None, d, f, s)
               | c # rest \<Rightarrow>
                   let fetched' = (Some (cf_topic_partition c), cf_fetched_offset c) in
                   (case parse_fetched_data c (s\<lparr>fs_completed_fetches := rest\<rparr>) of
                      (Inl e, s') \<Rightarrow> Some (Some e, d, fetched', s')
                    | (Inr p, s') \<Rightarrow> loop cs u n d fetched' (s'\<lparr>fs_next_partition_records := p\<rparr>)))
          | Some p \<Rightarrow>
              Option.bind (append_records cs u n p d s) (\<lambda>(r, drained', s').
                let fetched' = (Some (pr_topic_partition p), pr_next_fetch_offset p) in
                case r of
                  Inl e \<Rightarrow> Some (Some e, drained', fetched', s')
                | Inr k \<Rightarrow> loop cs u (n - k) drained' fetched' s')) = Some y"
    show "\<not> (stuck s \<and> 0 < n)"
    proof
      assume stuck: "stuck s \<and> 0 < n"
      then obtain p where p: "fs_next_partition_records s = Some p" "pr_bool p" by (auto simp: stuck_def pr_bool_def)
      obtain t where t: "append_records cs u n p d s = Some (Inr 0, d, t)" "stuck t" using stuck_append stuck p(1) by blast
      then have "loop cs u n d (Some (pr_topic_partition p), pr_next_fetch_offset p) t = Some y"
        using body stuck p by (simp add: Let_def)
      then show False using loop t(2) stuck by blast
    qed
  qed
  then show ?thesis using assms by (cases "drain_fetches cs u n d f s") auto
qed

lemma corrupt_take:
  assumes "next_batch records = (Inr (Some b), r')" "batch_crc_ok b = Inr False" "n > 0"
  shows "take_records cs kd vd od n (PartitionRecords off tp records True level aborted, s) =
    Some (Inl CorruptRecordError, (PartitionRecords off tp records True level aborted)\<lparr>pr_record_iterator := Some (True, Finished)\<rparr>, s)"
proof -
  let ?p = "PartitionRecords off tp records True level aborted"
  have "enter_batch b ?p = (Inl CorruptRecordError, ?p)"
    using assms(2) by (simp add: enter_batch_def py_defs PartitionRecords_def)
  moreover have "generator_error CorruptRecordError = CorruptRecordError"
    by (simp add: generator_error_def issubclass_def error_class_defs builtin_exn_defs)
  ultimately have "unpack_records cs kd vd od (Created records) (?p, s) = Some ((Inl CorruptRecordError, Finished), ?p, s)"
    using assms(1) by (simp add: unpack_records.simps [of cs kd vd od "Created records"] gen_step_def gen_advance_def)
  then have "iterator_next cs kd vd od (True, Created records) (?p, s) = Some ((Inl CorruptRecordError, True, Finished), ?p, s)"
    by (simp add: iterator_next.simps [of cs kd vd od "(True, Created records)"])
  then have "extend_islice cs kd vd od n (True, Created records) (?p, s) = Some (([], Some CorruptRecordError, True, Finished), ?p, s)"
    using assms(3) by (cases n) simp_all
  then show ?thesis by (simp add: take_records_def PartitionRecords_def)
qed

text \<open>C19. A corrupt batch stops the consumer: when the first batch of a response fails its checksum, \<open>fetched_records\<close> raises
  CorruptRecordError as documented, and every later call, with whatever arguments, runs for ever: the iterator of the partition is
  at its end but is not dropped, so that the loop takes nothing from it again and again.\<close>

theorem corrupt_batch_hangs:
  assumes s: "fs_completed_fetches s = [c]" "fs_next_in_line_exception_metadata s = None" "fs_next_partition_records s = None" "fs_check_crcs s"
    and c: "good_fetch c aborted records s" "next_batch records = (Inr (Some b), r')" "batch_crc_ok b = Inr False" and n: "n > 0"
  shows "\<exists>t. fetched_records cs (Some n) u s = Some (Inl CorruptRecordError, t) \<and>
    (\<forall>m u'. fetched_records cs (Some (Suc m)) u' t = None)"
proof -
  let ?tp = "cf_topic_partition c" and ?s = "s\<lparr>fs_completed_fetches := []\<rparr>"
  let ?p = "PartitionRecords (cf_fetched_offset c) ?tp records True (fs_isolation_level s) (Some aborted)"
  have "has_next records" using c(2) by (auto simp: has_next_def next_batch_def split: option.splits)
  then obtain sub where sub: "parse_fetched_data c ?s = (Inr (Some ?p), ?s\<lparr>fs_subscription := sub\<rparr>)"
      "in_line (?s\<lparr>fs_subscription := sub\<rparr>) ?tp (cf_fetched_offset c)"
    using parse_good_fetch [of c aborted records ?s] c(1) s(4) by (auto simp: good_fetch_def in_line_def)
  let ?t = "?s\<lparr>fs_subscription := sub, fs_next_partition_records := Some ?p\<rparr>"
  let ?u = "?s\<lparr>fs_next_partition_records := Some (?p\<lparr>pr_record_iterator := Some (True, Finished)\<rparr>), fs_subscription := sub\<rparr>"
  have "append_records cs u n ?p [] ?t = take_in_line cs u n ?p [] ?t"
    using sub(2) by (intro append_in_line) (simp add: in_line_def)
  then have "append_records cs u n ?p [] ?t = Some (Inl CorruptRecordError, [], ?u)"
    by (simp add: take_in_line_def Let_def corrupt_take [OF c(2,3) n])
  then have "drain_fetches cs u n [] (Some ?tp, cf_fetched_offset c) ?t = Some (Some CorruptRecordError, [], (Some ?tp, cf_fetched_offset c), ?u)"
    using n by (simp add: drain_fetches.simps [of cs u n "[]" _ ?t])
  then have "fetched_records cs (Some n) u s = Some (Inl CorruptRecordError, ?u)"
    using n s sub(1) by (simp add: fetched_records_def raise_next_in_line_def drain_fetches.simps [of cs u n "[]" _ s])
  moreover have "stuck ?u" using sub(2) by (auto simp: stuck_def in_line_def)
  then have "fetched_records cs (Some (Suc m)) u' ?u = None" for m u'
    using s(2) stuck_drain [of ?u "Suc m"] by (simp add: fetched_records_def raise_next_in_line_def)
  ultimately show ?thesis by blast
qed

section \<open>An example\<close>

text \<open>A buffer with one batch, of offsets 3 and 4, whose checksum field is 0, and a fetcher that got it for position 4.\<close>

definition example_batch_bytes :: bytes where
  "example_batch_bytes = [0, 0, 0, 0, 0, 0, 0, 3, 0, 0, 0, 65, 0, 0, 0, 2, 2, 0, 0, 0, 0] @ [0, 0, 0, 0, 0, 1] @
     [0, 0, 0, 0, 0, 0, 3, 232, 0, 0, 0, 0, 0, 0, 3, 232] @ replicate 14 255 @ [0, 0, 0, 2] @
     [14, 0, 0, 0, 1, 2, 7, 0, 14, 0, 0, 2, 1, 2, 8, 0]"

definition example_batch :: default_batch where
  "example_batch = \<lparr>db_buffer = example_batch_bytes, db_header_data = [3, 65, 2, 2, 0, 0, 1, 1000, 1000, - 1, - 1, - 1, 2],
     db_pos = 61, db_num_records = 2, db_next_record_index = 0, db_decompressed = False\<rparr>"

definition example_records :: memory_records where
  "example_records = \<lparr>mr_buffer = example_batch_bytes, mr_pos = 77, mr_next_slice = Some example_batch_bytes, mr_remaining_bytes = None\<rparr>"

definition example_fetch :: completed_fetch where
  "example_fetch = \<lparr>cf_topic_partition = ([116], 0), cf_fetched_offset = 4, cf_response_version = 4,
     cf_partition_data = [VInt 0, VInt 5, VInt 5, VList [], VBytes example_batch_bytes]\<rparr>"

definition example_subscription :: subscription_state where
  "example_subscription = (SubscriptionState ''LATEST'')\<lparr>assignment := [(([116], 0), TopicPartitionState\<lparr>tp_position :=
     Some \<lparr>om_offset = 4, om_metadata = [], om_leader_epoch = - 1\<rparr>\<rparr>)]\<rparr>"

definition example_fetcher :: "bool \<Rightarrow> fetcher" where
  "example_fetcher check = projr (Fetcher None None 1 500 1000 1000 500 check 305000 100 True ''read_committed''
     example_subscription (ClusterMetadata 100 300000 []))"

lemmas example_fetcher_simps = example_fetcher_def Fetcher_def isolation_level_of_def example_fetch_def

lemma example_batches:
  "MemoryRecords example_batch_bytes = Inr example_records"
  "next_batch example_records = (Inr (Some (DefaultBatch example_batch)), example_records\<lparr>mr_next_slice := None, mr_remaining_bytes := Some 0\<rparr>)"
  "next_batch (example_records\<lparr>mr_next_slice := None, mr_remaining_bytes := Some 0\<rparr>) =
     (Inr None, example_records\<lparr>mr_next_slice := None, mr_remaining_bytes := Some 0\<rparr>)"
  "v2_batch (DefaultBatch example_batch) = Some example_batch" "\<not> is_control_batch example_batch" "batch_next_offset example_batch = 5"
  "batch_crc_ok (DefaultBatch example_batch) = Inr False" 
  by code_simp+

lemma example_good: "good_fetch example_fetch [] example_records ((example_fetcher check)\<lparr>fs_completed_fetches := [example_fetch]\<rparr>)"
proof -
  have "aborted_of 4 [VInt 0, VInt 5, VInt 5, VList [], VBytes example_batch_bytes] = Inr (Some [])" by code_simp
  moreover have "is_fetchable example_subscription ([116], 0)" "position example_subscription ([116], 0) =
      Inr (Some \<lparr>om_offset = 4, om_metadata = [], om_leader_epoch = - 1\<rparr>)" by code_simp+
  ultimately show ?thesis
    by (simp add: good_fetch_def in_line_def example_fetcher_simps from_end_def example_batches)
qed

theorem corrupt_batch_hangs_witness:
  "\<exists>t. fetched_records no_codecs (Some 1) True ((example_fetcher True)\<lparr>fs_completed_fetches := [example_fetch]\<rparr>) = Some (Inl CorruptRecordError, t) \<and>
     fetched_records no_codecs (Some 500) True t = None"
proof -
  let ?s = "(example_fetcher True)\<lparr>fs_completed_fetches := [example_fetch]\<rparr>"
  have "\<exists>t. fetched_records no_codecs (Some 1) True ?s = Some (Inl CorruptRecordError, t) \<and>
      (\<forall>m u'. fetched_records no_codecs (Some (Suc m)) u' t = None)"
    by (rule corrupt_batch_hangs [OF _ _ _ _ example_good example_batches(2,7)]) (simp_all add: example_fetcher_simps)
  then obtain t where t: "fetched_records no_codecs (Some 1) True ?s = Some (Inl CorruptRecordError, t)"
    "fetched_records no_codecs (Some (Suc 499)) True t = None" by blast
  then show ?thesis by (intro exI [of _ t] conjI) simp_all
qed

lemma example_intact: "intact_batch no_codecs None None False ([116], 0) (DefaultBatch example_batch)"
proof -
  obtain rs e where rs: "batch_iter no_codecs (DefaultBatch example_batch) = Some (rs, e)"
    unfolding batch_iter_def record_batch.case by (metis surj_pair)
  have "map_option snd (batch_iter no_codecs (DefaultBatch example_batch)) = Some StopIteration" by code_simp
  moreover have "map_option (\<lambda>(rs, e). list_all (\<lambda>r. fx_headers r = [] \<and> (case fx_size_in_bytes r of Inr _ \<Rightarrow> True | Inl _ \<Rightarrow> False)) rs)
      (batch_iter no_codecs (DefaultBatch example_batch)) = Some True" by code_simp
  ultimately have rs': "e = StopIteration" "list_all (\<lambda>r. fx_headers r = [] \<and> (case fx_size_in_bytes r of Inr _ \<Rightarrow> True | Inl _ \<Rightarrow> False)) rs"
    by (simp_all add: rs)
  have "intact_record None None False ([116], 0) r" if "r \<in> set rs" for r
    using rs'(2) that
    by (cases "fx_size_in_bytes r") (auto simp: list_all_iff intact_record_def consumer_record_of_def deserialize_def)
  then show ?thesis using example_batches(4,5) by (simp add: intact_batch_def rs rs'(1))
qed

lemma example_visible: "map kr_offset (visible_records no_codecs None None ([116], 0) READ_COMMITTED [] [] (- 1) [DefaultBatch example_batch]) = [3, 4]"
  by code_simp

theorem fetched_records_in_order_witness:
  "\<exists>ds t. fetch_calls no_codecs [1, 5] ((example_fetcher False)\<lparr>fs_completed_fetches := [example_fetch]\<rparr>) = Some (ds, t) \<and>
     map kr_offset (all_records ds) = [4] \<and> in_line t ([116], 0) 5"
proof -
  let ?s = "(example_fetcher False)\<lparr>fs_completed_fetches := [example_fetch]\<rparr>"
  let ?xs = "visible_records no_codecs None None ([116], 0) READ_COMMITTED [] [] (- 1) [DefaultBatch example_batch]"
  have "next_batches example_records [DefaultBatch example_batch]" by (rule one_batch [OF example_batches(2) no_batch [OF example_batches(3)]])
  moreover have "in_order [] [DefaultBatch example_batch]" by (simp add: later_than_def)
  moreover have "map kr_offset (dropWhile (\<lambda>r. kr_offset r < 4) ?xs) = [4]"
    using example_visible by (auto simp: map_eq_Cons_conv)
  ultimately show ?thesis
    using fetched_records_in_order [OF _ _ _ example_good, of False "[DefaultBatch example_batch]" no_codecs "[1, 5]"]
      example_intact example_batches(4,6) by (fastforce simp: example_fetcher_simps)
qed

end
