(* ===== verification/Fetcher_Invariant.thy ===== *)
theory Fetcher_Invariant
  imports Fetcher_Properties
begin

text \<open>
  The requests of the fetcher: a broker never has more than one fetch request in flight, the fetcher knows which
  brokers have one, and what it asks for is what the consumer needs next.
\<close>

section \<open>What leaves requests alone\<close>

definition same_flight :: "fetcher \<Rightarrow> fetcher \<Rightarrow> bool" where
  "same_flight s t \<longleftrightarrow> fs_pending t = fs_pending s \<and> fs_next_request t = fs_next_request s \<and>
     fs_nodes_with_pending_fetch_requests t = fs_nodes_with_pending_fetch_requests s"

interpretation sf: guarantee same_flight
  by unfold_locales (simp_all add: same_flight_def)

named_theorems flight \<open>operations that leave the requests in flight alone\<close>

lemmas [flight] = sf.g_return sf.g_raise sf.g_lift sf.g_get sf.g_bind sf.g_then sf.g_when sf.g_py_if sf.g_if sf.g_for

lemma flight_set [flight]:
  "(\<And>s. fs_pending (f s) = fs_pending s \<and> fs_next_request (f s) = fs_next_request s \<and>
     fs_nodes_with_pending_fetch_requests (f s) = fs_nodes_with_pending_fetch_requests s) \<Longrightarrow> guarantees same_flight (py_set f)"
  by (rule sf.g_set) (simp add: same_flight_def)

lemma flight_ask [flight]: "guarantees same_flight (f_ask w f)"
  by (simp add: guarantees_def f_ask_def same_flight_def)

lemma flight_subscription [flight]: "guarantees same_flight (f_on_subscription m)"
  by (simp add: guarantees_def f_on_subscription_def same_flight_def split: prod.splits)

lemma flight_cluster [flight]: "guarantees same_flight (f_on_cluster m)"
  by (simp add: guarantees_def f_on_cluster_def same_flight_def split: prod.splits)

lemma flight_suppress [flight]: "guarantees same_flight m \<Longrightarrow> guarantees same_flight (f_suppress m)"
  by (simp add: guarantees_def f_suppress_def)

lemma flight_case_option [flight]:
  "guarantees same_flight m \<Longrightarrow> (\<And>x. guarantees same_flight (f x)) \<Longrightarrow> guarantees same_flight (case a of None \<Rightarrow> m | Some x \<Rightarrow> f x)"
  by (cases a) simp_all

lemma flight_case_prod [flight]: "(\<And>x y. guarantees same_flight (f x y)) \<Longrightarrow> guarantees same_flight (case a of (x, y) \<Rightarrow> f x y)"
  by (cases a) simp

lemma flight_case_sum [flight]:
  "(\<And>x. guarantees same_flight (f x)) \<Longrightarrow> (\<And>x. guarantees same_flight (g x)) \<Longrightarrow> guarantees same_flight (case a of Inl x \<Rightarrow> f x | Inr x \<Rightarrow> g x)"
  by (cases a) simp_all

lemma flight_metadata_update [flight]: "guarantees same_flight request_metadata_update"
  unfolding request_metadata_update_def by (intro flight)

lemma flight_add_fetchable [flight]: "guarantees same_flight (add_fetchable w version tp fetchable)"
  unfolding add_fetchable_def by (intro flight)

lemma flight_collect [flight]: "guarantees same_flight (collect_fetchable w version tps fetchable)"
  by (induction tps arbitrary: fetchable) (simp_all add: flight)

lemma flight_build_session [flight]: "guarantees same_flight (build_session version n ps)"
  by (simp add: guarantees_def build_session_def same_flight_def Let_def split: prod.splits)

lemma flight_build_requests [flight]: "guarantees same_flight (build_requests version nps)"
  by (induction nps) (simp_all add: flight)

lemma flight_create [flight]: "guarantees same_flight (create_fetch_requests w)"
  unfolding create_fetch_requests_def by (intro flight)

lemma flight_fetch_error [flight]: "guarantees same_flight (handle_fetch_error n)"
  unfolding handle_fetch_error_def by (rule flight_set) (simp split: option.splits)

lemma flight_clean [flight]: "guarantees same_flight clean_done_fetch_futures"
  unfolding clean_done_fetch_futures_def by (intro flight) simp

lemma flight_session_accepts [flight]: "guarantees same_flight (session_accepts n r)"
  by (simp add: guarantees_def session_accepts_def same_flight_def split: prod.splits option.splits)

lemma flight_complete_fetch [flight]: "guarantees same_flight (complete_fetch offs version x)"
  unfolding complete_fetch_def by (cases x) (auto intro!: flight)

lemma flight_fetch_response [flight]: "guarantees same_flight (handle_fetch_response n offs r)"
  unfolding handle_fetch_response_def by (intro flight)

lemma flight_parse_records [flight]: "guarantees same_flight (parse_records c hw)"
  unfolding parse_records_def Let_def by (intro flight)

lemma flight_out_of_range [flight]: "guarantees same_flight (offset_out_of_range c)"
  unfolding offset_out_of_range_def Let_def by (intro flight)

lemma flight_parse_by_error [flight]: "guarantees same_flight (parse_by_error c e hw)"
  unfolding parse_by_error_def by (intro flight)

lemma parse_same_flight: "parse_fetched_data c s = (r, t) \<Longrightarrow> same_flight s t"
  using flight_parse_by_error unfolding parse_fetched_data_def guarantees_def
  by (auto simp: same_flight_def split: list.splits pyval.splits prod.splits if_splits) (metis snd_conv)+

lemma flight_reset_offset [flight]: "guarantees same_flight (reset_offset_if_needed tp ts off)"
  unfolding reset_offset_if_needed_def by (intro flight)

lemma flight_complete_offsets [flight]: "guarantees same_flight (complete_offsets w target out)"
  unfolding complete_offsets_def on_reset_success_def on_reset_failure_def on_lookup_success_def on_lookup_failure_def
  by (cases target; cases out) (auto intro!: flight simp: Let_def split: prod.splits if_splits)

lemma flight_group [flight]: "guarantees same_flight (group_list_offset_requests ts by_node)"
  by (induction ts arbitrary: by_node) (auto intro!: flight simp: group_list_offset_request_def split: prod.splits)

section \<open>One fetch per broker\<close>

definition is_fetch :: "fetch_pending \<Rightarrow> bool" where
  "is_fetch p \<longleftrightarrow> (case fp_kind p of FetchRequested _ \<Rightarrow> True | _ \<Rightarrow> False)"

definition fetching_nodes :: "fetcher \<Rightarrow> node_id list" where
  "fetching_nodes s = map fp_node (filter is_fetch (fs_pending s))"

definition flight_inv :: "fetcher \<Rightarrow> bool" where
  "flight_inv s \<longleftrightarrow> distinct (map fp_id (fs_pending s)) \<and> (\<forall>p \<in> set (fs_pending s). fp_id p < fs_next_request s) \<and>
     distinct (fetching_nodes s) \<and> set (fetching_nodes s) = fs_nodes_with_pending_fetch_requests s"

lemma same_flight_inv: "same_flight s t \<Longrightarrow> flight_inv s \<Longrightarrow> flight_inv t"
  by (simp add: same_flight_def flight_inv_def fetching_nodes_def)

lemma flight_keeps: "guarantees same_flight m \<Longrightarrow> keeps flight_inv m"
  by (auto simp: guarantees_def keeps_def intro: same_flight_inv)

lemma added_inv:
  assumes "flight_inv s" "fs_pending t = fs_pending s @ [p]" "fp_id p = fs_next_request s" "fs_next_request t = Suc (fs_next_request s)"
    and "fs_nodes_with_pending_fetch_requests t = (if is_fetch p then insert (fp_node p) else id) (fs_nodes_with_pending_fetch_requests s)"
    and "is_fetch p \<Longrightarrow> fp_node p \<notin> fs_nodes_with_pending_fetch_requests s"
  shows "flight_inv t"
proof -
  have ids: "\<forall>q \<in> set (fs_pending s). fp_id q < fs_next_request s" using assms(1) by (simp add: flight_inv_def)
  then have "fs_next_request s \<notin> fp_id ` set (fs_pending s)" by auto
  moreover have "fetching_nodes t = fetching_nodes s @ (if is_fetch p then [fp_node p] else [])"
    using assms(2) by (simp add: fetching_nodes_def)
  moreover have "distinct (map fp_id (fs_pending s))" "distinct (fetching_nodes s)" "set (fetching_nodes s) = fs_nodes_with_pending_fetch_requests s"
    using assms(1) by (simp_all add: flight_inv_def)
  moreover have "\<forall>q \<in> set (fs_pending t). fp_id q < fs_next_request t" using ids assms(2-4) by (simp add: less_SucI)
  ultimately show ?thesis
    unfolding flight_inv_def using assms(2,3,5,6) by (cases "is_fetch p") simp_all
qed

lemma flight_inv_updates [simp]:
  "flight_inv (s\<lparr>fs_cached_list_offsets_exception := a\<rparr>) = flight_inv s"
  "flight_inv (s\<lparr>fs_fetch_futures := b\<rparr>) = flight_inv s"
  "flight_inv (s\<lparr>fs_offsets_futures := c\<rparr>) = flight_inv s"
  "flight_inv (s\<lparr>fs_subscription := d\<rparr>) = flight_inv s"
  "flight_inv (s\<lparr>fs_cluster := e\<rparr>) = flight_inv s"
  "flight_inv (s\<lparr>fs_next_partition_records := f\<rparr>) = flight_inv s"
  "flight_inv (s\<lparr>fs_next_in_line_exception_metadata := g\<rparr>) = flight_inv s"
  "flight_inv (s\<lparr>fs_completed_fetches := h\<rparr>) = flight_inv s"
  by (simp_all add: flight_inv_def fetching_nodes_def)

lemma send_fetch_inv:
  assumes "flight_inv s" "n \<notin> fs_nodes_with_pending_fetch_requests s" "send_fetch w (n, req, offs) s = (r, t)"
  shows "flight_inv t \<and> fs_nodes_with_pending_fetch_requests t \<subseteq> insert n (fs_nodes_with_pending_fetch_requests s)"
proof (cases "fv_send (w (fs_tick s)) n")
  case None
  then have "fs_pending t = fs_pending s @ [\<lparr>fp_id = fs_next_request s, fp_node = n, fp_request = req, fp_kind = FetchRequested offs\<rparr>]"
    "fs_next_request t = Suc (fs_next_request s)"
    "fs_nodes_with_pending_fetch_requests t = insert n (fs_nodes_with_pending_fetch_requests s)"
    using assms(3) by (auto simp: send_fetch_def py_defs f_ask_def f_add_pending_def)
  then show ?thesis using added_inv [OF assms(1), of t] assms(2) by (simp add: is_fetch_def)
next
  case (Some e)
  then have "fs_pending t = fs_pending s" "fs_next_request t = Suc (fs_next_request s)"
    "fs_nodes_with_pending_fetch_requests t = fs_nodes_with_pending_fetch_requests s"
    using assms(2,3) by (auto simp: send_fetch_def py_defs f_ask_def handle_fetch_error_def clear_pending_fetch_request_def split: option.splits)
  with assms(1) show ?thesis by (simp add: flight_inv_def fetching_nodes_def less_SucI subset_insertI)
qed

lemma send_each_inv:
  assumes "flight_inv s" "distinct (map fst rs)" "set (map fst rs) \<inter> fs_nodes_with_pending_fetch_requests s = {}"
  shows "flight_inv (snd (send_each w rs s))"
  using assms
proof (induction rs arbitrary: s)
  case (Cons r rs)
  obtain n req offs where r: "r = (n, req, offs)" by (cases r)
  obtain x t where t: "send_fetch w r s = (x, t)" by (cases "send_fetch w r s")
  have "flight_inv t" "fs_nodes_with_pending_fetch_requests t \<subseteq> insert n (fs_nodes_with_pending_fetch_requests s)"
    using send_fetch_inv [of s n w req offs x t] Cons.prems t by (auto simp: r)
  moreover have "flight_inv (snd (send_each w rs t))"
    using calculation Cons.prems by (intro Cons.IH) (auto simp: r)
  ultimately show ?case using t by (auto simp: py_bind_def py_return_def split: sum.splits prod.splits)
qed (simp add: py_return_def)

text \<open>Requests are collected for distinct brokers without a fetch in flight.\<close>

definition free_nodes :: "fetcher \<Rightarrow> node_partitions \<Rightarrow> bool" where
  "free_nodes s fb \<longleftrightarrow> distinct (map fst fb) \<and> set (map fst fb) \<inter> fs_nodes_with_pending_fetch_requests s = {}"

lemma add_fetchable_free:
  assumes "free_nodes s fb" "add_fetchable w version tp fb s = (Inr fb', t)"
  shows "free_nodes t fb'"
proof -
  have same: "same_flight s t" using assms(2) flight_add_fetchable [of w version tp fb] by (auto dest: guaranteesD)
  have "fb' = fb \<or> (\<exists>l x. Node l \<notin> fs_nodes_with_pending_fetch_requests s \<and> fb' = AList.update (Node l) x fb)"
    using assms(2) unfolding add_fetchable_def py_bind_Inr py_get_Inr py_lift_Inr
    by (fastforce simp: py_Inr f_ask_def split: option.splits if_splits)
  then show ?thesis
    using assms(1) same by (elim disjE exE conjE) (simp_all add: free_nodes_def same_flight_def distinct_update dom_update)
qed

lemma collect_free:
  assumes "free_nodes s fb" "collect_fetchable w version tps fb s = (Inr fb', t)"
  shows "free_nodes t fb'"
  using assms
proof (induction tps arbitrary: fb s)
  case (Cons tp tps)
  then obtain fb1 u where "add_fetchable w version tp fb s = (Inr fb1, u)" "collect_fetchable w version tps fb1 u = (Inr fb', t)"
    by (auto simp: py_bind_Inr)
  then show ?case using Cons.IH add_fetchable_free [OF Cons.prems(1)] by blast
qed (simp add: py_return_Inr)

lemma build_requests_nodes: "build_requests version nps s = (Inr rs, t) \<Longrightarrow> map fst rs = map fst nps"
  by (induction nps arbitrary: s rs) (auto simp: py_Inr)

lemma create_free:
  assumes "create_fetch_requests w s = (Inr rs, t)"
  shows "distinct (map fst rs) \<and> set (map fst rs) \<inter> fs_nodes_with_pending_fetch_requests t = {} \<and> same_flight s t"
proof -
  obtain version tps fb u v where steps: "collect_fetchable w version tps [] u = (Inr fb, v)" "build_requests version fb v = (Inr rs, t)"
    using assms by (auto simp: create_fetch_requests_def py_Inr)
  have "free_nodes v fb" by (rule collect_free [OF _ steps(1)]) (simp add: free_nodes_def)
  moreover have "same_flight v t" by (rule guaranteesD [OF flight_build_requests steps(2)])
  ultimately show ?thesis
    using build_requests_nodes [OF steps(2)] guaranteesD [OF flight_create assms] by (simp add: free_nodes_def same_flight_def)
qed

lemma send_fetches_inv: "keeps flight_inv (send_fetches w)"
proof (rule keepsI)
  fix s assume inv: "flight_inv s"
  obtain r t where t: "create_fetch_requests w s = (r, t)" by (cases "create_fetch_requests w s")
  have "flight_inv t" using guaranteesD [OF flight_create t] inv by (rule same_flight_inv)
  show "flight_inv (snd (send_fetches w s))"
  proof (cases r)
    case (Inl e)
    then show ?thesis using t \<open>flight_inv t\<close> by (simp add: send_fetches_def py_bind_def)
  next
    case (Inr rs)
    then have "flight_inv (snd (send_each w rs t))"
      using create_free [of w s rs t] t \<open>flight_inv t\<close> by (intro send_each_inv) simp_all
    moreover have "keeps flight_inv (py_then (py_set (\<lambda>s. s\<lparr>fs_fetch_futures := fs_fetch_futures s @ fs\<rparr>))
        (py_then clean_done_fetch_futures (py_return fs)))" for fs
      by (intro flight_keeps flight) simp
    ultimately show ?thesis
      using t Inr by (auto simp: send_fetches_def py_bind_def keeps_def split: sum.splits prod.splits)
  qed
qed

lemma add_offsets_request_inv:
  "keeps flight_inv (py_then (f_add_pending n req (ListOffsetsRequested target))
     (py_set (\<lambda>s. s\<lparr>fs_next_request := Suc (fs_next_request s)\<rparr>)))"
  by (rule keepsI, erule added_inv [where p = "\<lparr>fp_id = fs_next_request s, fp_node = n, fp_request = req, fp_kind = ListOffsetsRequested target\<rparr>" for s])
    (simp_all add: py_defs f_add_pending_def is_fetch_def)

lemma send_list_offsets_inv: "keeps flight_inv (send_list_offsets_request w n tes target)"
  unfolding send_list_offsets_request_def
  by (intro keeps_rules keeps_case_option add_offsets_request_inv) (intro flight_keeps flight)+

lemma reset_offsets_inv: "keeps flight_inv (reset_offsets_if_needed w)"
  unfolding reset_offsets_if_needed_def reset_offsets_async_def reset_offsets_of_node_def case_prod_beta
  by (intro keeps_rules keeps_case_option send_list_offsets_inv) (simp | intro flight_keeps flight)+

text \<open>A delivery takes the request out of flight and, for a fetch, frees the broker.\<close>

lemma suppressed: "guarantees same_flight m \<Longrightarrow> \<exists>t. f_suppress m s = (Inr (), t) \<and> same_flight s t"
  by (simp add: guarantees_def f_suppress_def)

lemma handle_reply_flight:
  assumes "snd (handle_fetch_reply w p reply s) = u"
  shows "fs_pending u = fs_pending s \<and> fs_next_request u = fs_next_request s \<and> fs_nodes_with_pending_fetch_requests u =
    (if is_fetch p then fs_nodes_with_pending_fetch_requests s - {fp_node p} else fs_nodes_with_pending_fetch_requests s)"
proof (cases "fp_kind p")
  case (FetchRequested offs)
  let ?m = "case reply of FetchReply r \<Rightarrow> f_suppress (handle_fetch_response (fp_node p) offs r)
    | FetchFailed e \<Rightarrow> f_suppress (handle_fetch_error (fp_node p)) | ListOffsetsReply _ \<Rightarrow> py_return ()"
  have "\<exists>t. ?m s = (Inr (), t) \<and> same_flight s t"
  proof (cases reply)
    case (FetchReply r)
    then show ?thesis using suppressed [OF flight_fetch_response, of "fp_node p" offs r s] by simp
  next
    case (FetchFailed e)
    then show ?thesis using suppressed [OF flight_fetch_error, of "fp_node p" s] by simp
  qed (simp add: py_return_def sf.R_refl)
  then obtain t where t: "?m s = (Inr (), t)" "same_flight s t" by blast
  have "handle_fetch_reply w p reply s = clear_pending_fetch_request (fp_node p) t"
    unfolding handle_fetch_reply_def FetchRequested py_then_def py_bind_def by (simp add: t(1))
  with assms have "u = t\<lparr>fs_nodes_with_pending_fetch_requests := fs_nodes_with_pending_fetch_requests t - {fp_node p}\<rparr>"
    by (simp add: clear_pending_fetch_request_def py_set_def)
  with t(2) FetchRequested show ?thesis by (simp add: same_flight_def is_fetch_def)
next
  case (ListOffsetsRequested target)
  then have "guarantees same_flight (handle_fetch_reply w p reply)"
    by (cases reply) (auto simp: handle_fetch_reply_def intro!: flight split: sum.splits)
  then show ?thesis using assms ListOffsetsRequested by (auto simp: guarantees_def same_flight_def is_fetch_def)
qed

lemma removed_inv:
  assumes "flight_inv s" "p \<in> set (fs_pending s)" "fs_pending t = filter (\<lambda>q. fp_id q \<noteq> fp_id p) (fs_pending s)"
    and "fs_next_request t = fs_next_request s"
    and "fs_nodes_with_pending_fetch_requests t =
      (if is_fetch p then fs_nodes_with_pending_fetch_requests s - {fp_node p} else fs_nodes_with_pending_fetch_requests s)"
  shows "flight_inv t"
proof -
  have ids: "distinct (map fp_id (fs_pending s))" and nodes: "distinct (fetching_nodes s)"
      "set (fetching_nodes s) = fs_nodes_with_pending_fetch_requests s"
    using assms(1) by (simp_all add: flight_inv_def)
  have only: "q = p" if "q \<in> set (fs_pending s)" "fp_id q = fp_id p" for q
    using ids that assms(2) by (simp add: distinct_map inj_on_def)
  then have removed: "set (fs_pending t) = set (fs_pending s) - {p}" using assms(3) by auto
  have "filter is_fetch (fs_pending t) = filter (\<lambda>q. fp_id q \<noteq> fp_id p) (filter is_fetch (fs_pending s))"
    unfolding assms(3) filter_filter by (intro filter_cong) auto
  then have "distinct (fetching_nodes t)" using nodes(1) unfolding fetching_nodes_def by (simp only: distinct_map_filter)
  moreover have "set (fetching_nodes t) = fs_nodes_with_pending_fetch_requests t"
  proof (cases "is_fetch p")
    case True
    have "inj_on fp_node (set (filter is_fetch (fs_pending s)))"
      using nodes(1) by (simp add: fetching_nodes_def distinct_map)
    then have "fp_node ` ({q \<in> set (fs_pending s). is_fetch q} - {p}) = fp_node ` {q \<in> set (fs_pending s). is_fetch q} - {fp_node p}"
      using True assms(2) by (subst inj_on_image_set_diff [of _ "{q \<in> set (fs_pending s). is_fetch q}"]) auto
    moreover have "{q \<in> set (fs_pending t). is_fetch q} = {q \<in> set (fs_pending s). is_fetch q} - {p}" using removed by auto
    ultimately show ?thesis using nodes(2) True assms(5) by (simp add: fetching_nodes_def)
  next
    case False
    then have "{q \<in> set (fs_pending t). is_fetch q} = {q \<in> set (fs_pending s). is_fetch q}" using removed by auto
    then show ?thesis using nodes(2) False assms(5) by (simp add: fetching_nodes_def)
  qed
  ultimately show ?thesis
    using ids assms(1,4) unfolding flight_inv_def by (simp add: assms(3) distinct_map_filter)
qed

lemma deliver_inv: "keeps flight_inv (f_deliver w d)"
proof (cases d)
  case (DeliverFetch i reply)
  show ?thesis
  proof (rule keepsI)
    fix s assume inv: "flight_inv s"
    show "flight_inv (snd (f_deliver w d s))"
    proof (cases "List.find (\<lambda>p. fp_id p = i) (fs_pending s)")
      case None
      then show ?thesis using inv DeliverFetch by (simp add: f_deliver_def py_defs)
    next
      case (Some p)
      then have p: "p \<in> set (fs_pending s)" "fp_id p = i" by (auto simp: find_Some_iff)
      let ?s = "s\<lparr>fs_pending := filter (\<lambda>q. fp_id q \<noteq> i) (fs_pending s)\<rparr>"
      show ?thesis
      proof (cases "fetch_reply_fits (fp_kind p) reply")
        case True
        then have "snd (f_deliver w d s) = snd (handle_fetch_reply w p reply ?s)"
          using Some DeliverFetch by (simp add: f_deliver_def py_defs)
        then show ?thesis
          using handle_reply_flight [OF refl, of w p reply ?s] p by (intro removed_inv [OF inv p(1)]) simp_all
      next
        case False
        then show ?thesis using Some DeliverFetch inv by (simp add: f_deliver_def py_defs)
      qed
    qed
  qed
next
  case (FetchMetadataUpdate md)
  then show ?thesis by (auto simp: f_deliver_def intro!: flight_keeps flight)
qed

lemma poll_inv: "keeps flight_inv (f_poll w)"
  unfolding f_poll_def by (intro keeps_rules deliver_inv) (intro flight_keeps flight)

lemma send_lookups_inv: "keeps flight_inv (send_list_offsets_requests w ts)"
  unfolding send_list_offsets_requests_def case_prod_beta
  by (intro keeps_rules send_list_offsets_inv) (simp | intro flight_keeps flight)+

lemma keeps_case_result:
  "keeps I m \<Longrightarrow> (\<And>e. keeps I (f e)) \<Longrightarrow> (\<And>x y. keeps I (g x y)) \<Longrightarrow>
     keeps I (case r of None \<Rightarrow> m | Some (Inl e) \<Rightarrow> f e | Some (Inr (x, y)) \<Rightarrow> g x y)"
  by (auto split: option.splits sum.splits)

lemma lookup_inv: "keeps flight_inv (lookup_loop w timer n ts fetched)"
proof (induction n arbitrary: ts fetched)
  case (Suc n)
  have "keeps flight_inv request_metadata_update" by (intro flight_keeps flight)
  with Suc show ?case
    by (auto intro!: keeps_rules keeps_case_result send_lookups_inv poll_inv flight_keeps [OF flight_ask])
qed simp

lemma drain_part_flight: "same_flight s (drain_part p s)"
  by (simp add: drain_part_def same_flight_def split: prod.splits)

lemma append_flight: "append_records cs u n p d s = Some (r, d', t) \<Longrightarrow> same_flight s t"
  using drain_part_flight [of s p] flight_subscription
  by (auto simp: append_records_def take_in_line_def Let_def f_on_subscription_def same_flight_def split: if_splits sum.splits prod.splits)

lemma drain_flight:
  assumes "drain_fetches cs u n d f s = Some y"
  shows "same_flight s (snd (snd (snd y)))"
proof (rule drain_fetches.raw_induct [of "\<lambda>cs u n d f s y. same_flight s (snd (snd (snd y)))", OF _ assms])
  fix loop cs u n d f s y
  assume loop: "\<And>cs u n d f s y. loop cs u n d f s = Some y \<Longrightarrow> same_flight s (snd (snd (snd y)))"
    and body: "(if n = 0 then Some (None, d, f, s)
        else case case fs_next_partition_records s of None \<Rightarrow> None | Some p \<Rightarrow> if pr_bool p then Some p else None of
            None \<Rightarrow> (case fs_completed_fetches s of
                 [] \<Rightarrow> Some (None, d, f, s)
               | c # rest \<Rightarrow>
                   let fetched' = (Some (cf_topic_partition c), cf_fetched_offset c) in
                   (case parse_fetched_data c (s\<lparr>fs_completed_fetches := rest\<rparr>) of
                      (Inl e, s') \<Rightarrow> Some (Some e, d, fetched', s')
                    | (Inr p, s') \<Rightarrow> loop cs u n d fetched' (s'\<lparr>fs_next_partition_records := p\<rparr>)))
          | Some p \<Rightarrow>
              Option.bind (append_records cs u n p d s) (\<lambda>(r, drained', s').
                let fetched' = (Some (pr_topic_partition p), pr_next_fetch_offset p) in
                case r of
                  Inl e \<Rightarrow> Some (Some e, drained', fetched', s')
                | Inr k \<Rightarrow> loop cs u (n - k) drained' fetched' s')) = Some y"
  have parsed: "same_flight s s'" if "parse_fetched_data c (s\<lparr>fs_completed_fetches := rest\<rparr>) = (r, s')" for c rest r s'
    using parse_same_flight [OF that] by (simp add: same_flight_def)
  show "same_flight s (snd (snd (snd y)))"
  proof (cases "n = 0")
    case False
    show ?thesis
    proof (cases "case fs_next_partition_records s of None \<Rightarrow> None | Some p \<Rightarrow> if pr_bool p then Some p else None")
      case None
      then show ?thesis
        using body False parsed
        by (auto simp: Let_def sf.R_refl same_flight_def split: list.splits prod.splits sum.splits dest!: loop)
    next
      case (Some p)
      then obtain r d' t where t: "append_records cs u n p d s = Some (r, d', t)"
        using body False by (cases "append_records cs u n p d s") auto
      then have "same_flight s t" by (rule append_flight)
      then show ?thesis
        using body False Some t by (cases r) (auto simp: Let_def dest: loop intro: sf.R_trans)
    qed
  qed (use body in \<open>auto simp: sf.R_refl\<close>)
qed

lemma fetched_records_inv:
  assumes "flight_inv s" "fetched_records cs m u s = Some (r, t)"
  shows "flight_inv t"
proof -
  obtain x v where v: "raise_next_in_line s = (x, v)" by (cases "raise_next_in_line s")
  then have "same_flight s v" by (auto simp: raise_next_in_line_def same_flight_def split: option.splits prod.splits)
  then have "flight_inv v" using assms(1) by (rule same_flight_inv)
  let ?n = "case m of None \<Rightarrow> fs_max_poll_records s | Some k \<Rightarrow> k"
  show ?thesis
  proof (cases "?n = 0 \<or> isl x")
    case True
    then show ?thesis using assms v \<open>flight_inv v\<close> by (cases x) (auto simp: fetched_records_def Let_def split: if_splits)
  next
    case False
    then obtain exc d f y where y: "drain_fetches cs u ?n [] (None, - 1) v = Some (exc, d, f, y)"
      using assms(2) v by (cases x) (auto simp: fetched_records_def Let_def)
    have "flight_inv y" using drain_flight [OF y] \<open>flight_inv v\<close> by (auto intro: same_flight_inv)
    then show ?thesis
      using assms(2) v False y by (cases x; cases f; cases exc) (auto simp: fetched_records_def Let_def split: if_splits)
  qed
qed

section \<open>All operations\<close>

text \<open>The states a fetcher reaches: its own operations, in any order, and whatever others do meanwhile to the
  subscription and the cluster metadata it shares with them.\<close>

inductive fetcher_reaches :: "codecs \<Rightarrow> fetch_world \<Rightarrow> fetcher \<Rightarrow> fetcher \<Rightarrow> bool" for cs w s0 where
  initially: "fetcher_reaches cs w s0 s0"
| sends: "fetcher_reaches cs w s0 s \<Longrightarrow> fetcher_reaches cs w s0 (snd (send_fetches w s))"
| polls: "fetcher_reaches cs w s0 s \<Longrightarrow> fetcher_reaches cs w s0 (snd (f_poll w s))"
| fetches: "fetcher_reaches cs w s0 s \<Longrightarrow> fetched_records cs m u s = Some (r, t) \<Longrightarrow> fetcher_reaches cs w s0 t"
| resets: "fetcher_reaches cs w s0 s \<Longrightarrow> fetcher_reaches cs w s0 (snd (reset_offsets_if_needed w s))"
| looks_up: "fetcher_reaches cs w s0 s \<Longrightarrow> fetcher_reaches cs w s0 (snd (fetch_offsets_by_times w n ts limit s))"
| asks: "fetcher_reaches cs w s0 s \<Longrightarrow> fetcher_reaches cs w s0 (snd (in_flight_fetches s))"
| closes: "fetcher_reaches cs w s0 s \<Longrightarrow> fetcher_reaches cs w s0 (fetcher_close s)"
| others: "fetcher_reaches cs w s0 s \<Longrightarrow> fetcher_reaches cs w s0 (s\<lparr>fs_subscription := sub, fs_cluster := cl\<rparr>)"

lemma reached_inv: "fetcher_reaches cs w s0 s \<Longrightarrow> flight_inv s0 \<Longrightarrow> flight_inv s"
proof (induction rule: fetcher_reaches.induct)
  case (looks_up s n ts limit)
  have "keeps flight_inv (fetch_offsets_by_times w n ts limit)"
    unfolding fetch_offsets_by_times_def by (intro keeps_rules lookup_inv flight_keeps [OF flight_ask])
  then show ?case using looks_up by (simp add: keeps_def)
next
  case (asks s)
  have "keeps flight_inv in_flight_fetches" unfolding in_flight_fetches_def by (intro flight_keeps flight)
  then show ?case using asks by (simp add: keeps_def)
next
  case (closes s)
  then show ?case using drain_part_flight by (auto simp: fetcher_close_def split: option.splits intro: same_flight_inv)
qed (use send_fetches_inv poll_inv reset_offsets_inv fetched_records_inv in \<open>auto simp: keeps_def\<close>)

text \<open>C8. Whatever is sent, delivered, consumed, reset and looked up, in any order and with any answers: a broker has at
  most one fetch request in flight, and the fetcher holds exactly those brokers back that have one, so that none is
  asked twice at once and none is forgotten.\<close>

theorem one_fetch_per_broker:
  assumes "Fetcher kd vd min_bytes max_wait max_bytes max_partition_bytes max_poll check timeout backoff incremental level sub cl = Inr s0"
    and "fetcher_reaches cs w s0 s"
  shows "distinct (map fp_node (filter is_fetch (fs_pending s))) \<and>
    fp_node ` {p \<in> set (fs_pending s). is_fetch p} = fs_nodes_with_pending_fetch_requests s"
proof -
  have "flight_inv s0" using assms(1) by (auto simp: Fetcher_def flight_inv_def fetching_nodes_def split: option.splits)
  then have "flight_inv s" by (rule reached_inv [OF assms(2)])
  then show ?thesis by (simp add: flight_inv_def fetching_nodes_def)
qed

section \<open>What is asked for\<close>

definition same_needs :: "fetcher \<Rightarrow> fetcher \<Rightarrow> bool" where
  "same_needs s t \<longleftrightarrow> fs_subscription t = fs_subscription s \<and> leader_for_partition (fs_cluster t) = leader_for_partition (fs_cluster s)"

interpretation sn: guarantee same_needs
  by unfold_locales (simp_all add: same_needs_def)

lemma request_update_leaders: "leader_for_partition (snd (request_update c)) = leader_for_partition c"
  by (rule ext) (auto simp: request_update_def leader_for_partition_def Let_def split: option.splits if_splits)

lemma add_fetchable_needs: "guarantees same_needs (add_fetchable w version tp fb)"
proof -
  have "guarantees same_needs (f_ask w f)" for f :: "fetch_view \<Rightarrow> bool"
    by (simp add: guarantees_def f_ask_def same_needs_def)
  moreover have "guarantees same_needs (f_ask w f)" for f :: "fetch_view \<Rightarrow> int"
    by (simp add: guarantees_def f_ask_def same_needs_def)
  moreover have "guarantees same_needs request_metadata_update"
    using request_update_leaders
    by (auto simp: guarantees_def request_metadata_update_def f_on_cluster_def same_needs_def py_defs split: prod.splits sum.splits)
      (metis snd_conv)+
  ultimately show ?thesis
    unfolding add_fetchable_def by (auto intro!: sn.g_rules split: option.splits)
qed

text \<open>A request asks a broker for partitions it leads, each at its position.\<close>

definition needed :: "fetcher \<Rightarrow> nat \<Rightarrow> node_id \<Rightarrow> fetch_partitions \<Rightarrow> bool" where
  "needed s version n ps \<longleftrightarrow> (\<forall>(tp, info) \<in> set ps. \<exists>l pos. n = Node l \<and> leader_for_partition (fs_cluster s) tp = Some l \<and>
     tp \<in> set (fetcher_fetchable_partitions s) \<and> position (fs_subscription s) tp = Inr (Some pos) \<and> fetch_offset_of version info = om_offset pos)"

lemma fetchable_position:
  "tp \<in> set (fetcher_fetchable_partitions s) \<Longrightarrow> distinct (map fst (assignment (fs_subscription s))) \<Longrightarrow>
     \<exists>pos. position (fs_subscription s) tp = Inr (Some pos)"
  by (auto simp: fetcher_fetchable_partitions_def fetchable_partitions_def tp_is_fetchable_def tp_has_valid_position_def position_def Let_def)

lemma fetch_offset_of_info: "fetch_offset_of version (fetch_partition_info version max_bytes tp pos) = om_offset pos"
  by (simp add: fetch_offset_of_def fetch_partition_info_def)

lemma needed_update:
  assumes "needed s version n ps" "n = Node l" "leader_for_partition (fs_cluster s) tp = Some l" "tp \<in> set (fetcher_fetchable_partitions s)"
    "position (fs_subscription s) tp = Inr (Some pos)" "fetch_offset_of version info = om_offset pos"
  shows "needed s version n (AList.update tp info ps)"
  unfolding needed_def
proof clarify
  fix t p i assume "((t, p), i) \<in> set (AList.update tp info ps)"
  then have "((t, p) = tp \<and> i = info) \<or> ((t, p), i) \<in> set ps" by (induction ps) (auto split: if_splits)
  then show "\<exists>l pos. n = Node l \<and> leader_for_partition (fs_cluster s) (t, p) = Some l \<and> (t, p) \<in> set (fetcher_fetchable_partitions s) \<and>
      position (fs_subscription s) (t, p) = Inr (Some pos) \<and> fetch_offset_of version i = om_offset pos"
    using assms by (force simp: needed_def)
qed

lemma add_fetchable_needed:
  assumes "\<forall>(n, ps) \<in> set fb. needed s version n ps" "same_needs s u" "add_fetchable w version tp fb u = (Inr fb', t)"
    and tp: "tp \<in> set (fetcher_fetchable_partitions s)" "distinct (map fst (assignment (fs_subscription s)))"
  shows "\<forall>(n, ps) \<in> set fb'. needed s version n ps"
proof -
  obtain pos where pos: "position (fs_subscription s) tp = Inr (Some pos)" using fetchable_position [OF tp] by blast
  have u: "fs_subscription u = fs_subscription s" "leader_for_partition (fs_cluster u) tp = leader_for_partition (fs_cluster s) tp"
    using assms(2) by (simp_all add: same_needs_def)
  have "fb' = fb \<or> (\<exists>l max_bytes. leader_for_partition (fs_cluster s) tp = Some l \<and> fb' = AList.update (Node l)
      (AList.update tp (fetch_partition_info version max_bytes tp pos) (case map_of fb (Node l) of None \<Rightarrow> [] | Some ps \<Rightarrow> ps)) fb)"
    using assms(3) pos u unfolding add_fetchable_def py_bind_Inr py_get_Inr py_lift_Inr
    by (fastforce simp: py_Inr f_ask_def split: option.splits if_splits)
  moreover have "needed s version (Node l) (AList.update tp (fetch_partition_info version max_bytes tp pos)
      (case map_of fb (Node l) of None \<Rightarrow> [] | Some ps \<Rightarrow> ps))" if "leader_for_partition (fs_cluster s) tp = Some l" for l max_bytes
  proof (rule needed_update [OF _ refl that tp(1) pos fetch_offset_of_info])
    show "needed s version (Node l) (case map_of fb (Node l) of None \<Rightarrow> [] | Some ps \<Rightarrow> ps)"
    proof (cases "map_of fb (Node l)")
      case (Some ps)
      then show ?thesis using assms(1) map_of_SomeD [OF Some] by auto
    qed (simp add: needed_def)
  qed
  moreover have "(n, ps) \<in> set (AList.update k x fb) \<Longrightarrow> (n = k \<and> ps = x) \<or> (n, ps) \<in> set fb" for n ps k x
    by (induction fb) (auto split: if_splits)
  ultimately show ?thesis using assms(1) by fastforce
qed

lemma collect_needed:
  assumes "\<forall>(n, ps) \<in> set fb. needed s version n ps" "same_needs s u" "collect_fetchable w version tps fb u = (Inr fb', t)"
    and "set tps \<subseteq> set (fetcher_fetchable_partitions s)" "distinct (map fst (assignment (fs_subscription s)))"
  shows "\<forall>(n, ps) \<in> set fb'. needed s version n ps"
  using assms(1-4)
proof (induction tps arbitrary: fb u)
  case (Cons tp tps)
  obtain fb1 v where v: "add_fetchable w version tp fb u = (Inr fb1, v)" "collect_fetchable w version tps fb1 v = (Inr fb', t)"
    using Cons.prems(3) by (auto simp: py_bind_Inr)
  have "same_needs s v" using Cons.prems(2) guaranteesD [OF add_fetchable_needs v(1)] by (rule sn.R_trans)
  moreover have "\<forall>(n, ps) \<in> set fb1. needed s version n ps"
    using Cons.prems assms(5) by (intro add_fetchable_needed [OF _ _ v(1)]) auto
  ultimately show ?case using Cons.IH [OF _ _ v(2)] Cons.prems(4) by simp
qed (simp add: py_return_Inr)

lemma build_requests_offsets:
  "build_requests version nps s = (Inr rs, t) \<Longrightarrow>
     map (\<lambda>(n, req, offs). (n, offs)) rs = map (\<lambda>(n, ps). (n, map (\<lambda>(tp, info). (tp, fetch_offset_of version info)) ps)) nps"
  by (induction nps arbitrary: s rs) (auto simp: py_Inr)


section \<open>An example\<close>

definition example_leader :: cluster where
  "example_leader = (ClusterMetadata 100 300000 [])\<lparr>partitions := [([116], [(0, \<lparr>pm_topic = [116], pm_partition = 0, pm_leader = 1,
     pm_leader_epoch = 0, pm_replicas = VList [VInt 1], pm_isr = VList [VInt 1], pm_offline_replicas = VList [], pm_error = 0\<rparr>)])]\<rparr>"

definition example_view :: fetch_view where
  "example_view = \<lparr>fv_now = 0, fv_api_version = (\<lambda>_ _. Inr 4), fv_connected = (\<lambda>_. True), fv_connection_delay = (\<lambda>_. 0),
     fv_throttle_delay = (\<lambda>_. 0), fv_ready = (\<lambda>_. True), fv_send = (\<lambda>_. None), fv_deliveries = (\<lambda>_. [])\<rparr>"

definition example_with_leader :: fetcher where
  "example_with_leader = projr (Fetcher None None 1 500 1000 1000 500 True 305000 100 True ''read_committed'' example_subscription example_leader)"

theorem one_fetch_per_broker_witness:
  "map fp_node (filter is_fetch (fs_pending (snd (send_fetches (\<lambda>_. example_view) example_with_leader)))) = [Node 1] \<and>
   fs_nodes_with_pending_fetch_requests (snd (send_fetches (\<lambda>_. example_view) example_with_leader)) = {Node 1}"
proof -
  let ?t = "snd (send_fetches (\<lambda>_. example_view) example_with_leader)"
  have "Fetcher None None 1 500 1000 1000 500 True 305000 100 True ''read_committed'' example_subscription example_leader = Inr example_with_leader"
    by (simp add: example_with_leader_def Fetcher_def isolation_level_of_def)
  moreover have "fetcher_reaches no_codecs (\<lambda>_. example_view) example_with_leader ?t" by (intro sends initially)
  ultimately have "fp_node ` {p \<in> set (fs_pending ?t). is_fetch p} = fs_nodes_with_pending_fetch_requests ?t"
    using one_fetch_per_broker by blast
  moreover have "map fp_node (filter is_fetch (fs_pending ?t)) = [Node 1]" by code_simp
  then have "fp_node ` {p \<in> set (fs_pending ?t). is_fetch p} = {Node 1}" by (metis list.set_map set_filter list.simps(15) empty_set)
  ultimately show ?thesis using \<open>map _ _ = _\<close> by simp
qed


end
