(* ===== verification/Api_Versions.thy ===== *)
theory Api_Versions
  imports Admin_Messages Client_Interface
begin

text \<open>
  Which versions of the protocol's APIs a broker supports: the table \<^verbatim>\<open>kafka/protocol/broker_api_versions.py\<close>, the guess
  of a broker's release from what it reports (\<open>BrokerConnection._infer_broker_version_from_api_versions\<close> of
  \<^verbatim>\<open>kafka/conn.py\<close>), and the choice of a version both sides speak (\<open>KafkaClient.api_version\<close> of \<^verbatim>\<open>kafka/client_async.py\<close>).
  A release is the list of its numbers, ordered lexicographically as Python orders tuples.
\<close>

type_synonym broker_version = "int list"
type_synonym api_versions = "(int \<times> int \<times> int) list"

definition BROKER_API_VERSIONS :: "(broker_version \<times> api_versions) list" where
  "BROKER_API_VERSIONS = [
    ([0, 8, 0],
     [(0, 0, 0), (1, 0, 0), (2, 0, 0), (3, 0, 0)]),
    ([0, 8, 1],
     [(0, 0, 0), (1, 0, 0), (2, 0, 0), (3, 0, 0), (8, 0, 0), (9, 0, 0)]),
    ([0, 8, 2],
     [(0, 0, 0), (1, 0, 0), (2, 0, 0), (3, 0, 0), (8, 0, 1), (9, 0, 1), (10, 0, 0)]),
    ([0, 9],
     [(0, 0, 1), (1, 0, 1), (2, 0, 0), (3, 0, 0), (8, 0, 2), (9, 0, 1), (10, 0, 0), (11, 0, 0), (12, 0, 0), (13, 0, 0),
      (14, 0, 0), (15, 0, 0), (16, 0, 0)]),
    ([0, 10, 0],
     [(0, 0, 2), (1, 0, 2), (2, 0, 0), (3, 0, 1), (4, 0, 0), (5, 0, 0), (6, 0, 2), (7, 1, 1), (8, 0, 2), (9, 0, 1), (10, 0, 0),
      (11, 0, 0), (12, 0, 0), (13, 0, 0), (14, 0, 0), (15, 0, 0), (16, 0, 0), (17, 0, 0), (18, 0, 0)]),
    ([0, 10, 1],
     [(0, 0, 2), (1, 0, 3), (2, 0, 1), (3, 0, 2), (4, 0, 0), (5, 0, 0), (6, 0, 2), (7, 1, 1), (8, 0, 2), (9, 0, 1), (10, 0, 0),
      (11, 0, 1), (12, 0, 0), (13, 0, 0), (14, 0, 0), (15, 0, 0), (16, 0, 0), (17, 0, 0), (18, 0, 0), (19, 0, 0), (20, 0, 0)]),
    ([0, 10, 2],
     [(0, 0, 2), (1, 0, 3), (2, 0, 1), (3, 0, 2), (4, 0, 0), (5, 0, 0), (6, 0, 3), (7, 1, 1), (8, 0, 2), (9, 0, 2), (10, 0, 0),
      (11, 0, 1), (12, 0, 0), (13, 0, 0), (14, 0, 0), (15, 0, 0), (16, 0, 0), (17, 0, 0), (18, 0, 0), (19, 0, 1), (20, 0, 0)]),
    ([0, 11],
     [(0, 0, 3), (1, 0, 5), (2, 0, 2), (3, 0, 4), (4, 0, 0), (5, 0, 0), (6, 0, 3), (7, 1, 1), (8, 0, 3), (9, 0, 3), (10, 0, 1),
      (11, 0, 2), (12, 0, 1), (13, 0, 1), (14, 0, 1), (15, 0, 1), (16, 0, 1), (17, 0, 0), (18, 0, 1), (19, 0, 2), (20, 0, 1),
      (21, 0, 0), (22, 0, 0), (23, 0, 0), (24, 0, 0), (25, 0, 0), (26, 0, 0), (27, 0, 0), (28, 0, 0), (29, 0, 0), (30, 0, 0),
      (31, 0, 0), (32, 0, 0), (33, 0, 0)]),
    ([1, 0],
     [(0, 0, 5), (1, 0, 6), (2, 0, 2), (3, 0, 5), (4, 0, 1), (5, 0, 0), (6, 0, 4), (7, 0, 1), (8, 0, 3), (9, 0, 3), (10, 0, 1),
      (11, 0, 2), (12, 0, 1), (13, 0, 1), (14, 0, 1), (15, 0, 1), (16, 0, 1), (17, 0, 1), (18, 0, 1), (19, 0, 2), (20, 0, 1),
      (21, 0, 0), (22, 0, 0), (23, 0, 0), (24, 0, 0), (25, 0, 0), (26, 0, 0), (27, 0, 0), (28, 0, 0), (29, 0, 0), (30, 0, 0),
      (31, 0, 0), (32, 0, 0), (33, 0, 0), (34, 0, 0), (35, 0, 0), (36, 0, 0), (37, 0, 0)]),
    ([1, 1],
     [(0, 0, 5), (1, 0, 7), (2, 0, 2), (3, 0, 5), (4, 0, 1), (5, 0, 0), (6, 0, 4), (7, 0, 1), (8, 0, 3), (9, 0, 3), (10, 0, 1),
      (11, 0, 2), (12, 0, 1), (13, 0, 1), (14, 0, 1), (15, 0, 1), (16, 0, 1), (17, 0, 1), (18, 0, 1), (19, 0, 2), (20, 0, 1),
      (21, 0, 0), (22, 0, 0), (23, 0, 0), (24, 0, 0), (25, 0, 0), (26, 0, 0), (27, 0, 0), (28, 0, 0), (29, 0, 0), (30, 0, 0),
      (31, 0, 0), (32, 0, 1), (33, 0, 0), (34, 0, 0), (35, 0, 0), (36, 0, 0), (37, 0, 0), (38, 0, 0), (39, 0, 0), (40, 0, 0),
      (41, 0, 0), (42, 0, 0)]),
    ([2, 0],
     [(0, 0, 6), (1, 0, 8), (2, 0, 3), (3, 0, 6), (4, 0, 1), (5, 0, 0), (6, 0, 4), (7, 0, 1), (8, 0, 4), (9, 0, 4), (10, 0, 2),
      (11, 0, 3), (12, 0, 2), (13, 0, 2), (14, 0, 2), (15, 0, 2), (16, 0, 2), (17, 0, 1), (18, 0, 2), (19, 0, 3), (20, 0, 2),
      (21, 0, 1), (22, 0, 1), (23, 0, 1), (24, 0, 1), (25, 0, 1), (26, 0, 1), (27, 0, 0), (28, 0, 1), (29, 0, 1), (30, 0, 1),
      (31, 0, 1), (32, 0, 2), (33, 0, 1), (34, 0, 1), (35, 0, 1), (36, 0, 0), (37, 0, 1), (38, 0, 1), (39, 0, 1), (40, 0, 1),
      (41, 0, 1), (42, 0, 1)]),
    ([2, 1],
     [(0, 0, 7), (1, 0, 10), (2, 0, 4), (3, 0, 7), (4, 0, 1), (5, 0, 0), (6, 0, 4), (7, 0, 1), (8, 0, 6), (9, 0, 5),
      (10, 0, 2), (11, 0, 3), (12, 0, 2), (13, 0, 2), (14, 0, 2), (15, 0, 2), (16, 0, 2), (17, 0, 1), (18, 0, 2), (19, 0, 3),
      (20, 0, 3), (21, 0, 1), (22, 0, 1), (23, 0, 2), (24, 0, 1), (25, 0, 1), (26, 0, 1), (27, 0, 0), (28, 0, 2), (29, 0, 1),
      (30, 0, 1), (31, 0, 1), (32, 0, 2), (33, 0, 1), (34, 0, 1), (35, 0, 1), (36, 0, 0), (37, 0, 1), (38, 0, 1), (39, 0, 1),
      (40, 0, 1), (41, 0, 1), (42, 0, 1)]),
    ([2, 2],
     [(0, 0, 7), (1, 0, 10), (2, 0, 5), (3, 0, 7), (4, 0, 2), (5, 0, 1), (6, 0, 5), (7, 0, 2), (8, 0, 6), (9, 0, 5),
      (10, 0, 2), (11, 0, 4), (12, 0, 2), (13, 0, 2), (14, 0, 2), (15, 0, 2), (16, 0, 2), (17, 0, 1), (18, 0, 2), (19, 0, 3),
      (20, 0, 3), (21, 0, 1), (22, 0, 1), (23, 0, 2), (24, 0, 1), (25, 0, 1), (26, 0, 1), (27, 0, 0), (28, 0, 2), (29, 0, 1),
      (30, 0, 1), (31, 0, 1), (32, 0, 2), (33, 0, 1), (34, 0, 1), (35, 0, 1), (36, 0, 1), (37, 0, 1), (38, 0, 1), (39, 0, 1),
      (40, 0, 1), (41, 0, 1), (42, 0, 1), (43, 0, 0)]),
    ([2, 3],
     [(0, 0, 7), (1, 0, 11), (2, 0, 5), (3, 0, 8), (4, 0, 2), (5, 0, 1), (6, 0, 5), (7, 0, 2), (8, 0, 7), (9, 0, 5),
      (10, 0, 2), (11, 0, 5), (12, 0, 3), (13, 0, 2), (14, 0, 3), (15, 0, 3), (16, 0, 2), (17, 0, 1), (18, 0, 2), (19, 0, 3),
      (20, 0, 3), (21, 0, 1), (22, 0, 1), (23, 0, 3), (24, 0, 1), (25, 0, 1), (26, 0, 1), (27, 0, 0), (28, 0, 2), (29, 0, 1),
      (30, 0, 1), (31, 0, 1), (32, 0, 2), (33, 0, 1), (34, 0, 1), (35, 0, 1), (36, 0, 1), (37, 0, 1), (38, 0, 1), (39, 0, 1),
      (40, 0, 1), (41, 0, 1), (42, 0, 1), (43, 0, 0), (44, 0, 0)]),
    ([2, 4],
     [(0, 0, 8), (1, 0, 11), (2, 0, 5), (3, 0, 9), (4, 0, 4), (5, 0, 2), (6, 0, 6), (7, 0, 3), (8, 0, 8), (9, 0, 6),
      (10, 0, 3), (11, 0, 6), (12, 0, 4), (13, 0, 4), (14, 0, 4), (15, 0, 5), (16, 0, 3), (17, 0, 1), (18, 0, 3), (19, 0, 5),
      (20, 0, 4), (21, 0, 1), (22, 0, 2), (23, 0, 3), (24, 0, 1), (25, 0, 1), (26, 0, 1), (27, 0, 0), (28, 0, 2), (29, 0, 1),
      (30, 0, 1), (31, 0, 1), (32, 0, 2), (33, 0, 1), (34, 0, 1), (35, 0, 1), (36, 0, 1), (37, 0, 1), (38, 0, 2), (39, 0, 1),
      (40, 0, 1), (41, 0, 1), (42, 0, 2), (43, 0, 2), (44, 0, 1), (45, 0, 0), (46, 0, 0), (47, 0, 0)]),
    ([2, 5],
     [(0, 0, 8), (1, 0, 11), (2, 0, 5), (3, 0, 9), (4, 0, 4), (5, 0, 2), (6, 0, 6), (7, 0, 3), (8, 0, 8), (9, 0, 7),
      (10, 0, 3), (11, 0, 7), (12, 0, 4), (13, 0, 4), (14, 0, 5), (15, 0, 5), (16, 0, 3), (17, 0, 1), (18, 0, 3), (19, 0, 5),
      (20, 0, 4), (21, 0, 1), (22, 0, 3), (23, 0, 3), (24, 0, 1), (25, 0, 1), (26, 0, 1), (27, 0, 0), (28, 0, 3), (29, 0, 2),
      (30, 0, 2), (31, 0, 2), (32, 0, 2), (33, 0, 1), (34, 0, 1), (35, 0, 1), (36, 0, 2), (37, 0, 2), (38, 0, 2), (39, 0, 2),
      (40, 0, 2), (41, 0, 2), (42, 0, 2), (43, 0, 2), (44, 0, 1), (45, 0, 0), (46, 0, 0), (47, 0, 0)]),
    ([2, 6],
     [(0, 0, 8), (1, 0, 11), (2, 0, 5), (3, 0, 9), (4, 0, 4), (5, 0, 3), (6, 0, 6), (7, 0, 3), (8, 0, 8), (9, 0, 7),
      (10, 0, 3), (11, 0, 7), (12, 0, 4), (13, 0, 4), (14, 0, 5), (15, 0, 5), (16, 0, 4), (17, 0, 1), (18, 0, 3), (19, 0, 5),
      (20, 0, 4), (21, 0, 2), (22, 0, 3), (23, 0, 3), (24, 0, 1), (25, 0, 1), (26, 0, 1), (27, 0, 0), (28, 0, 3), (29, 0, 2),
      (30, 0, 2), (31, 0, 2), (32, 0, 3), (33, 0, 1), (34, 0, 1), (35, 0, 2), (36, 0, 2), (37, 0, 2), (38, 0, 2), (39, 0, 2),
      (40, 0, 2), (41, 0, 2), (42, 0, 2), (43, 0, 2), (44, 0, 1), (45, 0, 0), (46, 0, 0), (47, 0, 0), (48, 0, 0), (49, 0, 0)]),
    ([2, 7],
     [(0, 0, 8), (1, 0, 12), (2, 0, 5), (3, 0, 9), (4, 0, 4), (5, 0, 3), (6, 0, 6), (7, 0, 3), (8, 0, 8), (9, 0, 7),
      (10, 0, 3), (11, 0, 7), (12, 0, 4), (13, 0, 4), (14, 0, 5), (15, 0, 5), (16, 0, 4), (17, 0, 1), (18, 0, 3), (19, 0, 6),
      (20, 0, 5), (21, 0, 2), (22, 0, 4), (23, 0, 3), (24, 0, 2), (25, 0, 2), (26, 0, 2), (27, 0, 0), (28, 0, 3), (29, 0, 2),
      (30, 0, 2), (31, 0, 2), (32, 0, 3), (33, 0, 1), (34, 0, 1), (35, 0, 2), (36, 0, 2), (37, 0, 3), (38, 0, 2), (39, 0, 2),
      (40, 0, 2), (41, 0, 2), (42, 0, 2), (43, 0, 2), (44, 0, 1), (45, 0, 0), (46, 0, 0), (47, 0, 0), (48, 0, 0), (49, 0, 0),
      (50, 0, 0), (51, 0, 0), (56, 0, 0), (57, 0, 0)]),
    ([2, 8],
     [(0, 0, 9), (1, 0, 12), (2, 0, 6), (3, 0, 11), (4, 0, 5), (5, 0, 3), (6, 0, 7), (7, 0, 3), (8, 0, 8), (9, 0, 7),
      (10, 0, 3), (11, 0, 7), (12, 0, 4), (13, 0, 4), (14, 0, 5), (15, 0, 5), (16, 0, 4), (17, 0, 1), (18, 0, 3), (19, 0, 7),
      (20, 0, 6), (21, 0, 2), (22, 0, 4), (23, 0, 4), (24, 0, 3), (25, 0, 3), (26, 0, 3), (27, 0, 1), (28, 0, 3), (29, 0, 2),
      (30, 0, 2), (31, 0, 2), (32, 0, 4), (33, 0, 2), (34, 0, 2), (35, 0, 2), (36, 0, 2), (37, 0, 3), (38, 0, 2), (39, 0, 2),
      (40, 0, 2), (41, 0, 2), (42, 0, 2), (43, 0, 2), (44, 0, 1), (45, 0, 0), (46, 0, 0), (47, 0, 0), (48, 0, 1), (49, 0, 1),
      (50, 0, 0), (51, 0, 0), (56, 0, 0), (57, 0, 0), (60, 0, 0), (61, 0, 0)]),
    ([3, 0],
     [(0, 0, 9), (1, 0, 12), (2, 0, 7), (3, 0, 11), (4, 0, 5), (5, 0, 3), (6, 0, 7), (7, 0, 3), (8, 0, 8), (9, 0, 8),
      (10, 0, 4), (11, 0, 7), (12, 0, 4), (13, 0, 4), (14, 0, 5), (15, 0, 5), (16, 0, 4), (17, 0, 1), (18, 0, 3), (19, 0, 7),
      (20, 0, 6), (21, 0, 2), (22, 0, 4), (23, 0, 4), (24, 0, 3), (25, 0, 3), (26, 0, 3), (27, 0, 1), (28, 0, 3), (29, 0, 2),
      (30, 0, 2), (31, 0, 2), (32, 0, 4), (33, 0, 2), (34, 0, 2), (35, 0, 2), (36, 0, 2), (37, 0, 3), (38, 0, 2), (39, 0, 2),
      (40, 0, 2), (41, 0, 2), (42, 0, 2), (43, 0, 2), (44, 0, 1), (45, 0, 0), (46, 0, 0), (47, 0, 0), (48, 0, 1), (49, 0, 1),
      (50, 0, 0), (51, 0, 0), (56, 0, 0), (57, 0, 0), (60, 0, 0), (61, 0, 0), (65, 0, 0), (66, 0, 0), (67, 0, 0)]),
    ([3, 1],
     [(0, 0, 9), (1, 0, 13), (2, 0, 7), (3, 0, 12), (4, 0, 5), (5, 0, 3), (6, 0, 7), (7, 0, 3), (8, 0, 8), (9, 0, 8),
      (10, 0, 4), (11, 0, 7), (12, 0, 4), (13, 0, 4), (14, 0, 5), (15, 0, 5), (16, 0, 4), (17, 0, 1), (18, 0, 3), (19, 0, 7),
      (20, 0, 6), (21, 0, 2), (22, 0, 4), (23, 0, 4), (24, 0, 3), (25, 0, 3), (26, 0, 3), (27, 0, 1), (28, 0, 3), (29, 0, 2),
      (30, 0, 2), (31, 0, 2), (32, 0, 4), (33, 0, 2), (34, 0, 2), (35, 0, 2), (36, 0, 2), (37, 0, 3), (38, 0, 2), (39, 0, 2),
      (40, 0, 2), (41, 0, 2), (42, 0, 2), (43, 0, 2), (44, 0, 1), (45, 0, 0), (46, 0, 0), (47, 0, 0), (48, 0, 1), (49, 0, 1),
      (50, 0, 0), (51, 0, 0), (56, 0, 0), (57, 0, 0), (60, 0, 0), (61, 0, 0), (65, 0, 0), (66, 0, 0), (67, 0, 0)]),
    ([3, 2],
     [(0, 0, 9), (1, 0, 13), (2, 0, 7), (3, 0, 12), (4, 0, 6), (5, 0, 3), (6, 0, 7), (7, 0, 3), (8, 0, 8), (9, 0, 8),
      (10, 0, 4), (11, 0, 9), (12, 0, 4), (13, 0, 5), (14, 0, 5), (15, 0, 5), (16, 0, 4), (17, 0, 1), (18, 0, 3), (19, 0, 7),
      (20, 0, 6), (21, 0, 2), (22, 0, 4), (23, 0, 4), (24, 0, 3), (25, 0, 3), (26, 0, 3), (27, 0, 1), (28, 0, 3), (29, 0, 2),
      (30, 0, 2), (31, 0, 2), (32, 0, 4), (33, 0, 2), (34, 0, 2), (35, 0, 3), (36, 0, 2), (37, 0, 3), (38, 0, 2), (39, 0, 2),
      (40, 0, 2), (41, 0, 2), (42, 0, 2), (43, 0, 2), (44, 0, 1), (45, 0, 0), (46, 0, 0), (47, 0, 0), (48, 0, 1), (49, 0, 1),
      (50, 0, 0), (51, 0, 0), (56, 0, 1), (57, 0, 0), (60, 0, 0), (61, 0, 0), (65, 0, 0), (66, 0, 0), (67, 0, 0)]),
    ([3, 3],
     [(0, 0, 9), (1, 0, 13), (2, 0, 7), (3, 0, 12), (4, 0, 6), (5, 0, 3), (6, 0, 7), (7, 0, 3), (8, 0, 8), (9, 0, 8),
      (10, 0, 4), (11, 0, 9), (12, 0, 4), (13, 0, 5), (14, 0, 5), (15, 0, 5), (16, 0, 4), (17, 0, 1), (18, 0, 3), (19, 0, 7),
      (20, 0, 6), (21, 0, 2), (22, 0, 4), (23, 0, 4), (24, 0, 3), (25, 0, 3), (26, 0, 3), (27, 0, 1), (28, 0, 3), (29, 0, 3),
      (30, 0, 3), (31, 0, 3), (32, 0, 4), (33, 0, 2), (34, 0, 2), (35, 0, 4), (36, 0, 2), (37, 0, 3), (38, 0, 3), (39, 0, 2),
      (40, 0, 2), (41, 0, 3), (42, 0, 2), (43, 0, 2), (44, 0, 1), (45, 0, 0), (46, 0, 0), (47, 0, 0), (48, 0, 1), (49, 0, 1),
      (50, 0, 0), (51, 0, 0), (56, 0, 2), (57, 0, 1), (60, 0, 0), (61, 0, 0), (65, 0, 0), (66, 0, 0), (67, 0, 0)]),
    ([3, 4],
     [(0, 0, 9), (1, 0, 13), (2, 0, 7), (3, 0, 12), (4, 0, 7), (5, 0, 4), (6, 0, 8), (7, 0, 3), (8, 0, 8), (9, 0, 8),
      (10, 0, 4), (11, 0, 9), (12, 0, 4), (13, 0, 5), (14, 0, 5), (15, 0, 5), (16, 0, 4), (17, 0, 1), (18, 0, 3), (19, 0, 7),
      (20, 0, 6), (21, 0, 2), (22, 0, 4), (23, 0, 4), (24, 0, 3), (25, 0, 3), (26, 0, 3), (27, 0, 1), (28, 0, 3), (29, 0, 3),
      (30, 0, 3), (31, 0, 3), (32, 0, 4), (33, 0, 2), (34, 0, 2), (35, 0, 4), (36, 0, 2), (37, 0, 3), (38, 0, 3), (39, 0, 2),
      (40, 0, 2), (41, 0, 3), (42, 0, 2), (43, 0, 2), (44, 0, 1), (45, 0, 0), (46, 0, 0), (47, 0, 0), (48, 0, 1), (49, 0, 1),
      (50, 0, 0), (51, 0, 0), (56, 0, 2), (57, 0, 1), (58, 0, 0), (60, 0, 0), (61, 0, 0), (65, 0, 0), (66, 0, 0), (67, 0, 0)]),
    ([3, 5],
     [(0, 0, 9), (1, 0, 15), (2, 0, 8), (3, 0, 12), (4, 0, 7), (5, 0, 4), (6, 0, 8), (7, 0, 3), (8, 0, 8), (9, 0, 8),
      (10, 0, 4), (11, 0, 9), (12, 0, 4), (13, 0, 5), (14, 0, 5), (15, 0, 5), (16, 0, 4), (17, 0, 1), (18, 0, 3), (19, 0, 7),
      (20, 0, 6), (21, 0, 2), (22, 0, 4), (23, 0, 4), (24, 0, 3), (25, 0, 3), (26, 0, 3), (27, 0, 1), (28, 0, 3), (29, 0, 3),
      (30, 0, 3), (31, 0, 3), (32, 0, 4), (33, 0, 2), (34, 0, 2), (35, 0, 4), (36, 0, 2), (37, 0, 3), (38, 0, 3), (39, 0, 2),
      (40, 0, 2), (41, 0, 3), (42, 0, 2), (43, 0, 2), (44, 0, 1), (45, 0, 0), (46, 0, 0), (47, 0, 0), (48, 0, 1), (49, 0, 1),
      (50, 0, 0), (51, 0, 0), (56, 0, 3), (57, 0, 1), (58, 0, 0), (60, 0, 0), (61, 0, 0), (65, 0, 0), (66, 0, 0), (67, 0, 0)]),
    ([3, 6],
     [(0, 0, 9), (1, 0, 15), (2, 0, 8), (3, 0, 12), (4, 0, 7), (5, 0, 4), (6, 0, 8), (7, 0, 3), (8, 0, 8), (9, 0, 8),
      (10, 0, 4), (11, 0, 9), (12, 0, 4), (13, 0, 5), (14, 0, 5), (15, 0, 5), (16, 0, 4), (17, 0, 1), (18, 0, 3), (19, 0, 7),
      (20, 0, 6), (21, 0, 2), (22, 0, 4), (23, 0, 4), (24, 0, 4), (25, 0, 3), (26, 0, 3), (27, 0, 1), (28, 0, 3), (29, 0, 3),
      (30, 0, 3), (31, 0, 3), (32, 0, 4), (33, 0, 2), (34, 0, 2), (35, 0, 4), (36, 0, 2), (37, 0, 3), (38, 0, 3), (39, 0, 2),
      (40, 0, 2), (41, 0, 3), (42, 0, 2), (43, 0, 2), (44, 0, 1), (45, 0, 0), (46, 0, 0), (47, 0, 0), (48, 0, 1), (49, 0, 1),
      (50, 0, 0), (51, 0, 0), (56, 0, 3), (57, 0, 1), (58, 0, 0), (60, 0, 0), (61, 0, 0), (65, 0, 0), (66, 0, 0), (67, 0, 0)]),
    ([3, 7],
     [(0, 0, 10), (1, 0, 16), (2, 0, 8), (3, 0, 12), (4, 0, 7), (5, 0, 4), (6, 0, 8), (7, 0, 3), (8, 0, 9), (9, 0, 9),
      (10, 0, 4), (11, 0, 9), (12, 0, 4), (13, 0, 5), (14, 0, 5), (15, 0, 5), (16, 0, 4), (17, 0, 1), (18, 0, 3), (19, 0, 7),
      (20, 0, 6), (21, 0, 2), (22, 0, 4), (23, 0, 4), (24, 0, 4), (25, 0, 3), (26, 0, 3), (27, 0, 1), (28, 0, 3), (29, 0, 3),
      (30, 0, 3), (31, 0, 3), (32, 0, 4), (33, 0, 2), (34, 0, 2), (35, 0, 4), (36, 0, 2), (37, 0, 3), (38, 0, 3), (39, 0, 2),
      (40, 0, 2), (41, 0, 3), (42, 0, 2), (43, 0, 2), (44, 0, 1), (45, 0, 0), (46, 0, 0), (47, 0, 0), (48, 0, 1), (49, 0, 1),
      (50, 0, 0), (51, 0, 0), (56, 0, 3), (57, 0, 1), (58, 0, 0), (60, 0, 1), (61, 0, 0), (65, 0, 0), (66, 0, 0), (67, 0, 0),
      (68, 0, 0)]),
    ([3, 8],
     [(0, 0, 11), (1, 0, 16), (2, 0, 8), (3, 0, 12), (4, 0, 7), (5, 0, 4), (6, 0, 8), (7, 0, 3), (8, 0, 9), (9, 0, 9),
      (10, 0, 5), (11, 0, 9), (12, 0, 4), (13, 0, 5), (14, 0, 5), (15, 0, 5), (16, 0, 5), (17, 0, 1), (18, 0, 3), (19, 0, 7),
      (20, 0, 6), (21, 0, 2), (22, 0, 5), (23, 0, 4), (24, 0, 5), (25, 0, 4), (26, 0, 4), (27, 0, 1), (28, 0, 4), (29, 0, 3),
      (30, 0, 3), (31, 0, 3), (32, 0, 4), (33, 0, 2), (34, 0, 2), (35, 0, 4), (36, 0, 2), (37, 0, 3), (38, 0, 3), (39, 0, 2),
      (40, 0, 2), (41, 0, 3), (42, 0, 2), (43, 0, 2), (44, 0, 1), (45, 0, 0), (46, 0, 0), (47, 0, 0), (48, 0, 1), (49, 0, 1),
      (50, 0, 0), (51, 0, 0), (56, 0, 3), (57, 0, 1), (58, 0, 0), (60, 0, 1), (61, 0, 0), (65, 0, 0), (66, 0, 1), (67, 0, 0),
      (68, 0, 0), (69, 0, 0)]),
    ([3, 9],
     [(0, 0, 11), (1, 0, 17), (2, 0, 9), (3, 0, 12), (4, 0, 7), (5, 0, 4), (6, 0, 8), (7, 0, 3), (8, 0, 9), (9, 0, 9),
      (10, 0, 6), (11, 0, 9), (12, 0, 4), (13, 0, 5), (14, 0, 5), (15, 0, 5), (16, 0, 5), (17, 0, 1), (18, 0, 4), (19, 0, 7),
      (20, 0, 6), (21, 0, 2), (22, 0, 5), (23, 0, 4), (24, 0, 5), (25, 0, 4), (26, 0, 4), (27, 0, 1), (28, 0, 4), (29, 0, 3),
      (30, 0, 3), (31, 0, 3), (32, 0, 4), (33, 0, 2), (34, 0, 2), (35, 0, 4), (36, 0, 2), (37, 0, 3), (38, 0, 3), (39, 0, 2),
      (40, 0, 2), (41, 0, 3), (42, 0, 2), (43, 0, 2), (44, 0, 1), (45, 0, 0), (46, 0, 0), (47, 0, 0), (48, 0, 1), (49, 0, 1),
      (50, 0, 0), (51, 0, 0), (56, 0, 3), (57, 0, 1), (58, 0, 0), (60, 0, 1), (61, 0, 0), (65, 0, 0), (66, 0, 1), (67, 0, 0),
      (68, 0, 0), (69, 0, 0)]),
    ([4, 0],
     [(0, 0, 12), (1, 4, 17), (2, 1, 10), (3, 0, 13), (8, 2, 9), (9, 1, 9), (10, 0, 6), (11, 2, 9), (12, 0, 4), (13, 0, 5),
      (14, 0, 5), (15, 0, 6), (16, 0, 5), (17, 0, 1), (18, 0, 4), (19, 2, 7), (20, 1, 6), (21, 0, 2), (22, 0, 5), (23, 2, 4),
      (24, 0, 5), (25, 0, 4), (26, 0, 5), (27, 1, 1), (28, 0, 5), (29, 1, 3), (30, 1, 3), (31, 1, 3), (32, 1, 4), (33, 0, 2),
      (34, 1, 2), (35, 1, 4), (36, 0, 2), (37, 0, 3), (38, 1, 3), (39, 1, 2), (40, 1, 2), (41, 1, 3), (42, 0, 2), (43, 0, 2),
      (44, 0, 1), (45, 0, 0), (46, 0, 0), (47, 0, 0), (48, 0, 1), (49, 0, 1), (50, 0, 0), (51, 0, 0), (55, 0, 2), (57, 0, 2),
      (60, 0, 2), (61, 0, 0), (64, 0, 0), (65, 0, 0), (66, 0, 1), (68, 0, 1), (69, 0, 1), (74, 0, 0), (75, 0, 0), (80, 0, 0),
      (81, 0, 0)])]"

text \<open>Comparison of tuples.\<close>

fun tuple_le :: "int list \<Rightarrow> int list \<Rightarrow> bool" where
  "tuple_le [] ys \<longleftrightarrow> True"
| "tuple_le (x # xs) [] \<longleftrightarrow> False"
| "tuple_le (x # xs) (y # ys) \<longleftrightarrow> x < y \<or> (x = y \<and> tuple_le xs ys)"

definition supports :: "api_versions \<Rightarrow> int \<Rightarrow> int \<Rightarrow> bool" where
  "supports av api_key version =
     (case map_of av api_key of None \<Rightarrow> False | Some (lo, hi) \<Rightarrow> lo \<le> version \<and> version \<le> hi)"

definition version_test_cases :: "(broker_version \<times> request_class) list" where
  "version_test_cases =
    [([2, 6], DescribeClientQuotasRequest ! 0), ([2, 5], DescribeAclsRequest ! 2), ([2, 4], ProduceRequest ! 8),
     ([2, 3], FetchRequest ! 11), ([2, 2], ListOffsetsRequest ! 5), ([2, 1], FetchRequest ! 10), ([2, 0], FetchRequest ! 8),
     ([1, 1], FetchRequest ! 7), ([1, 0], MetadataRequest ! 5), ([0, 11], MetadataRequest ! 4),
     ([0, 10, 2], OffsetFetchRequest ! 2), ([0, 10, 1], MetadataRequest ! 2)]"

definition infer_broker_version :: "api_versions \<Rightarrow> broker_version" where
  "infer_broker_version av =
     (case find (\<lambda>(v, cls). supports av (API_KEY cls) (API_VERSION cls)) version_test_cases of
        None \<Rightarrow> [0, 10, 0]
      | Some (v, _) \<Rightarrow> v)"

text \<open>The version of an operation to use: at most what the library has, the caller allows and the broker supports.\<close>

definition api_version :: "api_versions option \<Rightarrow> request_class list \<Rightarrow> int option \<Rightarrow> int res" where
  "api_version broker operation max_version =
     (let most = (case max_version of None \<Rightarrow> int (length operation) - 1 | Some m \<Rightarrow> min (int (length operation) - 1) m) in
      case operation of
        [] \<Rightarrow> Inl IndexError
      | cls # _ \<Rightarrow>
          (case Option.bind broker (\<lambda>av. map_of av (API_KEY cls)) of
             None \<Rightarrow> Inl IncompatibleBrokerVersion
           | Some (lo, hi) \<Rightarrow> (let version = min most hi in if version < lo then Inl IncompatibleBrokerVersion else Inr version)))"

text \<open>The \<open>api_version\<close> the client is configured with, and its table: exactly, with a zero appended, or the
  latest release known that is not later.\<close>

definition configured_version :: "broker_version \<Rightarrow> (broker_version \<times> api_versions) res" where
  "configured_version v =
     (case map_of BROKER_API_VERSIONS v of
        Some av \<Rightarrow> Inr (v, av)
      | None \<Rightarrow>
          (case map_of BROKER_API_VERSIONS (v @ [0]) of
             Some av \<Rightarrow> Inr (v @ [0], av)
           | None \<Rightarrow>
               (case find (\<lambda>(u, _). tuple_le u v) (rev BROKER_API_VERSIONS) of
                  Some (u, av) \<Rightarrow> Inr (u, av)
                | None \<Rightarrow> Inl UnrecognizedBrokerVersion)))"

section \<open>Properties\<close>

text \<open>The table is in ascending order, so that its reverse is what \<open>sorted(..., reverse=True)\<close> gives.\<close>

lemma broker_versions_ascending: "sorted_wrt (\<lambda>u v. tuple_le u v \<and> u \<noteq> v) (map fst BROKER_API_VERSIONS)"
  by code_simp



text \<open>A version of an operation that the library has, the caller allows and the broker supports.\<close>

definition usable_version :: "api_versions option \<Rightarrow> request_class list \<Rightarrow> int option \<Rightarrow> int \<Rightarrow> bool" where
  "usable_version broker operation max_version v \<longleftrightarrow>
     (\<exists>cls rest av lo hi. operation = cls # rest \<and> broker = Some av \<and> map_of av (API_KEY cls) = Some (lo, hi) \<and>
        lo \<le> v \<and> v \<le> hi \<and> v < int (length operation) \<and> (\<forall>m. max_version = Some m \<longrightarrow> v \<le> m))"

text \<open>C32. The version chosen for a request is the greatest one that the library has, the caller allows and the broker supports,
  and an exception is raised only when there is none: IncompatibleBrokerVersion, unless the operation has no version at all.\<close>

theorem api_version_greatest:
  "(api_version broker operation max_version = Inr v \<longleftrightarrow>
      usable_version broker operation max_version v \<and> (\<forall>u. usable_version broker operation max_version u \<longrightarrow> u \<le> v)) \<and>
   (api_version broker operation max_version = Inl e \<longrightarrow>
      (\<forall>u. \<not> usable_version broker operation max_version u) \<and> e = (if operation = [] then IndexError else IncompatibleBrokerVersion))"
proof (cases operation)
  case (Cons cls rest)
  let ?most = "case max_version of None \<Rightarrow> int (length operation) - 1 | Some m \<Rightarrow> min (int (length operation) - 1) m"
  show ?thesis
  proof (cases "Option.bind broker (\<lambda>av. map_of av (API_KEY cls))")
    case None
    then have "\<not> usable_version broker operation max_version u" for u
      using Cons by (auto simp: usable_version_def Option.bind_eq_None_conv)
    then show ?thesis using None Cons by (auto simp: api_version_def)
  next
    case (Some range)
    obtain lo hi where r: "range = (lo, hi)" by fastforce
    define most where "most = min ?most hi"
    have usable: "usable_version broker operation max_version u \<longleftrightarrow> lo \<le> u \<and> u \<le> most" for u
      using Some r Cons by (auto simp: usable_version_def most_def Option.bind_eq_Some_conv split: option.split)
    have "api_version broker operation max_version = (if most < lo then Inl IncompatibleBrokerVersion else Inr most)"
      using Some r unfolding most_def Cons by (simp add: api_version_def Let_def del: list.size)
    then show ?thesis using Cons unfolding usable by (auto intro: antisym)
  qed
qed (auto simp: api_version_def usable_version_def)

theorem api_version_greatest_witness:
  "usable_version (Some [(1, 4, 11)]) FetchRequest (Some 9) 9 \<and> \<not> usable_version (Some [(1, 4, 11)]) FetchRequest (Some 9) 10 \<and>
   \<not> usable_version (Some [(1, 12, 17)]) FetchRequest (Some 9) 12"
proof -
  have v: "api_version (Some [(1, 4, 11)]) FetchRequest (Some 9) = Inr 9"
    "api_version (Some [(1, 12, 17)]) FetchRequest (Some 9) = Inl IncompatibleBrokerVersion" by code_simp+
  then have "usable_version (Some [(1, 4, 11)]) FetchRequest (Some 9) 9" "\<And>u. usable_version (Some [(1, 4, 11)]) FetchRequest (Some 9) u \<Longrightarrow> u \<le> 9"
    using api_version_greatest [of "Some [(1, 4, 11)]" FetchRequest "Some 9" 9] by blast+
  moreover have "\<not> usable_version (Some [(1, 12, 17)]) FetchRequest (Some 9) 12"
    using v(2) api_version_greatest [of "Some [(1, 12, 17)]" FetchRequest "Some 9"] by blast
  ultimately show ?thesis by force
qed

end
