(* ===== verification/Broker_Connection.thy ===== *)
theory Broker_Connection
  imports Api_Versions Complex_Main
begin

text \<open>
  The class \<open>BrokerConnection\<close> of \<^verbatim>\<open>kafka/conn.py\<close>: one connection to one broker, from opening a socket over the check
  of the broker's API versions and SASL authentication to sending requests, receiving responses and timing out.
  The operating system and the clock are the parameter \<open>conn_world\<close>: every call of a socket function, every DNS
  lookup, every reading of the clock and every answer of the SASL mechanism is taken from the view at the current tick.
  So is what the callback for state changes raises; it does not act on the connection itself.
  Times are rational numbers of milliseconds, a missing limit is None.  A socket is identified by a number.

  The futures of requests live in a store; a future has the callbacks of at most one method of the connection,
  given by its owner.  Callbacks that a user of the connection adds are not part of the state.  A callback that raises
  is logged and dropped.  Callbacks of a success may call \<open>connect\<close> again: the number of such nested calls the
  interpreter allows is an argument, and one more raises RecursionError.
\<close>

section \<open>Exceptions of the operating system\<close>

definition OSError :: exn_class where "OSError = py_subclass ''OSError'' Exception"
definition ConnectionError :: exn_class where "ConnectionError = py_subclass ''ConnectionError'' OSError"
definition TimeoutError :: exn_class where "TimeoutError = py_subclass ''TimeoutError'' OSError"
definition BlockingIOError :: exn_class where "BlockingIOError = py_subclass ''BlockingIOError'' OSError"
definition SSLError :: exn_class where "SSLError = py_subclass ''SSLError'' OSError"
definition SSLEOFError :: exn_class where "SSLEOFError = py_subclass ''SSLEOFError'' SSLError"
definition SSLWantReadError :: exn_class where "SSLWantReadError = py_subclass ''SSLWantReadError'' SSLError"
definition SSLWantWriteError :: exn_class where "SSLWantWriteError = py_subclass ''SSLWantWriteError'' SSLError"
definition SSLZeroReturnError :: exn_class where "SSLZeroReturnError = py_subclass ''SSLZeroReturnError'' SSLError"
definition RecursionError :: exn_class where "RecursionError = py_subclass ''RecursionError'' RuntimeError"

definition is_ssl_want :: "exn_class \<Rightarrow> bool" where
  "is_ssl_want e \<longleftrightarrow> issubclass e SSLWantReadError \<or> issubclass e SSLWantWriteError"

definition is_connection_error :: "exn_class \<Rightarrow> bool" where
  "is_connection_error e \<longleftrightarrow> issubclass e ConnectionError \<or> issubclass e TimeoutError"

section \<open>Data\<close>

datatype conn_status =
  DISCONNECTED | CONNECTING | HANDSHAKE | CONNECTED | AUTHENTICATING | API_VERSIONS_SEND | API_VERSIONS_RECV

datatype address_family = AF_UNSPEC | AF_INET | AF_INET6 | AF_OTHER

type_synonym address = "address_family \<times> nat"

text \<open>The answers of a SASL mechanism: how many exchanges it takes, whether it is done once it has sent its last
  token, its tokens, what it raises on the broker's, and whether it is content in the end.\<close>

record sasl_view =
  sv_rounds :: nat
  sv_done_after_send :: bool
  sv_auth_bytes :: "nat \<Rightarrow> bytes res"
  sv_receive :: "nat \<Rightarrow> bytes \<Rightarrow> unit res"
  sv_is_authenticated :: bool

record conn_view =
  nv_now :: rat
  nv_getaddrinfo :: "address list option"
  nv_socket :: "nat res"
  nv_connect_ex :: int
  nv_ssl_context :: "unit res"
  nv_wrap_socket :: "unit res"
  nv_do_handshake :: "unit res"
  nv_send :: "bytes \<Rightarrow> nat res"
  nv_recv :: "nat \<Rightarrow> bytes res"
  nv_jitter :: rat
  nv_sasl :: sasl_view
  nv_callback :: "conn_status \<Rightarrow> nat option \<Rightarrow> unit res"

type_synonym conn_world = "nat \<Rightarrow> conn_view"

text \<open>Whose callbacks a future has: nobody's of the connection, or those of a check whose own future is given.\<close>

datatype owner = NoOwner | ApiVersionsCheck nat | VersionCheck nat broker_version | SaslHandshakeCheck nat

record conn_future =
  rf_owner :: owner
  rf_result :: "struct_obj option res option"

record conn =
  cn_client_id :: pystr
  cn_software_name :: pystr
  cn_software_version :: pystr
  cn_config_api_version :: "broker_version option"
  cn_security_protocol :: string
  cn_sasl_mechanism :: pystr
  cn_request_timeout_ms :: rat
  cn_reconnect_backoff_ms :: rat
  cn_reconnect_backoff_max_ms :: rat
  cn_max_in_flight :: nat
  cn_sock_chunk_bytes :: nat
  cn_sock_chunk_buffer_count :: nat
  cn_ssl_context :: bool
  cn_state :: conn_status
  cn_sock :: "nat option"
  cn_gai :: "address list"
  cn_failures :: nat
  cn_reconnect_backoff :: rat
  cn_last_attempt :: rat
  cn_protocol :: kafka_protocol
  cn_send_buffer :: bytes
  cn_in_flight :: "(int \<times> nat \<times> rat \<times> rat) list"
  cn_throttle_time :: "rat option"
  cn_api_versions :: "api_versions option"
  cn_api_version :: "broker_version option"
  cn_check_version_idx :: "nat option"
  cn_api_versions_idx :: int
  cn_api_versions_check_timeout :: rat
  cn_api_versions_future :: "nat option"
  cn_sasl_auth_future :: "nat option"
  cn_futures :: "conn_future list"
  cn_version_checks :: "unit res option list"
  cn_sasl_checks :: "unit res option list"
  cn_tick :: nat

section \<open>Asking the world\<close>

definition c_ask :: "conn_world \<Rightarrow> (conn_view \<Rightarrow> 'a) \<Rightarrow> (conn, 'a) py" where
  "c_ask w f s = (Inr (f (w (cn_tick s))), s\<lparr>cn_tick := Suc (cn_tick s)\<rparr>)"

definition c_try :: "conn_world \<Rightarrow> (conn_view \<Rightarrow> 'a res) \<Rightarrow> (conn, 'a) py" where
  "c_try w f = py_bind (c_ask w f) py_lift"

text \<open>\<open>self._sock.f(...)\<close>: there is no attribute of None.\<close>

definition on_sock :: "(conn, 'a) py \<Rightarrow> (conn, 'a) py" where
  "on_sock m = py_if (\<lambda>s. cn_sock s = None) (py_raise AttributeError) m"

text \<open>\<open>try: m except C as e: handler\<close>, the classes \<open>C\<close> given as a predicate.\<close>

definition py_except :: "('s, 'a) py \<Rightarrow> (exn_class \<Rightarrow> bool) \<Rightarrow> (exn_class \<Rightarrow> ('s, 'a) py) \<Rightarrow> ('s, 'a) py" where
  "py_except m caught handler s =
     (case m s of
        (Inl e, t) \<Rightarrow> if caught e then handler e t else (Inl e, t)
      | (Inr a, t) \<Rightarrow> (Inr a, t))"

definition c_suppress :: "(conn, unit) py \<Rightarrow> (conn, unit) py" where
  "c_suppress m s = (Inr (), snd (m s))"

definition on_protocol :: "(kafka_protocol, 'a) py \<Rightarrow> (conn, 'a) py" where
  "on_protocol m s = (case m (cn_protocol s) of (r, p) \<Rightarrow> (r, s\<lparr>cn_protocol := p\<rparr>))"

definition state_change :: "conn_world \<Rightarrow> (conn, unit) py" where
  "state_change w =
     py_bind (py_get (\<lambda>s. (cn_state s, cn_sock s))) (\<lambda>(st, sock). c_try w (\<lambda>v. nv_callback v st sock))"

definition uses_ssl :: "conn \<Rightarrow> bool" where
  "uses_ssl s \<longleftrightarrow> cn_security_protocol s \<in> {''SSL'', ''SASL_SSL''}"

definition uses_sasl :: "conn \<Rightarrow> bool" where
  "uses_sasl s \<longleftrightarrow> cn_security_protocol s \<in> {''SASL_PLAINTEXT'', ''SASL_SSL''}"

definition SECURITY_PROTOCOLS :: "string list" where
  "SECURITY_PROTOCOLS = [''PLAINTEXT'', ''SSL'', ''SASL_PLAINTEXT'', ''SASL_SSL'']"

definition new_protocol :: "pystr \<Rightarrow> broker_version option \<Rightarrow> kafka_protocol" where
  "new_protocol client version = KafkaProtocol [] (Some client) version"

definition BrokerConnection ::
  "pystr \<Rightarrow> pystr \<Rightarrow> pystr \<Rightarrow> broker_version option \<Rightarrow> string \<Rightarrow> pystr \<Rightarrow> rat \<Rightarrow> rat \<Rightarrow> rat \<Rightarrow> rat \<Rightarrow> nat \<Rightarrow> nat \<Rightarrow> nat \<Rightarrow> bool \<Rightarrow> conn res" where
  "BrokerConnection client name version api security mechanism timeout backoff backoff_max check_timeout in_flight chunk count context =
     (if security \<notin> set SECURITY_PROTOCOLS then Inl AssertionError
      else Inr \<lparr>cn_client_id = client, cn_software_name = name, cn_software_version = version, cn_config_api_version = api,
        cn_security_protocol = security, cn_sasl_mechanism = mechanism, cn_request_timeout_ms = timeout,
        cn_reconnect_backoff_ms = backoff, cn_reconnect_backoff_max_ms = backoff_max, cn_max_in_flight = in_flight,
        cn_sock_chunk_bytes = chunk, cn_sock_chunk_buffer_count = count, cn_ssl_context = context,
        cn_state = DISCONNECTED, cn_sock = None, cn_gai = [],
        cn_failures = 0, cn_reconnect_backoff = backoff, cn_last_attempt = 0, cn_protocol = new_protocol client api,
        cn_send_buffer = [], cn_in_flight = [], cn_throttle_time = None, cn_api_versions = None, cn_api_version = None,
        cn_check_version_idx = None, cn_api_versions_idx = 4, cn_api_versions_check_timeout = check_timeout,
        cn_api_versions_future = None, cn_sasl_auth_future = None, cn_futures = [], cn_version_checks = [],
        cn_sasl_checks = [], cn_tick = 0\<rparr>)"

section \<open>States\<close>

definition conn_connected :: "conn \<Rightarrow> bool" where
  "conn_connected s \<longleftrightarrow> cn_state s = CONNECTED"

definition conn_connecting :: "conn \<Rightarrow> bool" where
  "conn_connecting s \<longleftrightarrow> cn_state s \<in> {CONNECTING, HANDSHAKE, AUTHENTICATING, API_VERSIONS_SEND, API_VERSIONS_RECV}"

definition conn_initializing :: "conn \<Rightarrow> bool" where
  "conn_initializing s \<longleftrightarrow> cn_state s \<in> {AUTHENTICATING, API_VERSIONS_SEND, API_VERSIONS_RECV}"

definition conn_disconnected :: "conn \<Rightarrow> bool" where
  "conn_disconnected s \<longleftrightarrow> cn_state s = DISCONNECTED"

definition connect_failed :: "conn \<Rightarrow> bool" where
  "connect_failed s \<longleftrightarrow> conn_disconnected s \<and> cn_last_attempt s \<ge> 0 \<and> cn_gai s = []"

definition can_send_recv :: "conn \<Rightarrow> bool" where
  "can_send_recv s \<longleftrightarrow> conn_connected s \<or> conn_initializing s"

definition connection_delay :: "conn_world \<Rightarrow> (conn, rat option) py" where
  "connection_delay w =
     py_if (\<lambda>s. conn_disconnected s \<or> conn_connecting s)
       (py_if (\<lambda>s. cn_gai s \<noteq> []) (py_return (Some 0))
         (py_bind (c_ask w nv_now) (\<lambda>now. py_get (\<lambda>s. Some (max (cn_reconnect_backoff s - (now - cn_last_attempt s)) 0)))))
       (py_return None)"

definition blacked_out :: "conn_world \<Rightarrow> (conn, bool) py" where
  "blacked_out w =
     py_if conn_disconnected
       (py_bind (connection_delay w) (\<lambda>d. py_return (case d of None \<Rightarrow> True | Some ms \<Rightarrow> ms > 0)))
       (py_return False)"

definition throttle_delay :: "conn_world \<Rightarrow> (conn, rat) py" where
  "throttle_delay w =
     py_bind (py_get cn_throttle_time) (\<lambda>t.
       case t of
         None \<Rightarrow> py_return 0
       | Some t \<Rightarrow>
           py_bind (c_ask w nv_now) (\<lambda>now.
             if t - now > 0 then py_return (t - now)
             else py_then (py_set (\<lambda>s. s\<lparr>cn_throttle_time := None\<rparr>)) (py_return 0)))"

definition throttled :: "conn_world \<Rightarrow> (conn, bool) py" where
  "throttled w = py_if conn_connected (py_bind (throttle_delay w) (\<lambda>d. py_return (d > 0))) (py_return False)"

definition can_send_more :: "conn_world \<Rightarrow> (conn, bool) py" where
  "can_send_more w =
     py_bind (throttle_delay w) (\<lambda>d.
       if d > 0 then py_return False else py_get (\<lambda>s. length (cn_in_flight s) < cn_max_in_flight s))"

definition reset_reconnect_backoff :: "conn \<Rightarrow> conn" where
  "reset_reconnect_backoff s = s\<lparr>cn_failures := 0, cn_reconnect_backoff := cn_reconnect_backoff_ms s\<rparr>"

definition update_reconnect_backoff :: "conn_world \<Rightarrow> (conn, unit) py" where
  "update_reconnect_backoff w =
     py_when (\<lambda>s. cn_gai s = [] \<and> cn_reconnect_backoff_max_ms s > cn_reconnect_backoff_ms s)
       (py_bind (c_ask w nv_jitter) (\<lambda>jitter.
         py_set (\<lambda>s. s\<lparr>cn_failures := Suc (cn_failures s),
           cn_reconnect_backoff := min (cn_reconnect_backoff_ms s * 2 ^ cn_failures s) (cn_reconnect_backoff_max_ms s) * jitter\<rparr>)))"

section \<open>Addresses\<close>

definition is_inet_4_or_6 :: "address \<Rightarrow> bool" where
  "is_inet_4_or_6 gai \<longleftrightarrow> fst gai \<in> {AF_INET, AF_INET6}"

definition dns_lookup :: "address list option \<Rightarrow> address list" where
  "dns_lookup answer = (case answer of None \<Rightarrow> [] | Some gais \<Rightarrow> filter is_inet_4_or_6 gais)"

definition conn_dns_lookup :: "conn_world \<Rightarrow> (conn, bool) py" where
  "conn_dns_lookup w =
     py_bind (c_ask w (\<lambda>v. dns_lookup (nv_getaddrinfo v))) (\<lambda>gais.
       py_then (py_set (\<lambda>s. s\<lparr>cn_gai := gais\<rparr>)) (py_return (gais \<noteq> [])))"

definition next_afi_sockaddr :: "conn_world \<Rightarrow> (conn, address option) py" where
  "next_afi_sockaddr w =
     py_bind (py_if (\<lambda>s. cn_gai s = []) (conn_dns_lookup w) (py_return True)) (\<lambda>found.
       if \<not> found then py_return None
       else py_bind (py_get (\<lambda>s. hd (cn_gai s))) (\<lambda>a.
         py_then (py_set (\<lambda>s. s\<lparr>cn_gai := tl (cn_gai s)\<rparr>)) (py_return (Some a))))"

section \<open>Futures and closing\<close>

definition new_future :: "(conn, nat) py" where
  "new_future s = (Inr (length (cn_futures s)), s\<lparr>cn_futures := cn_futures s @ [\<lparr>rf_owner = NoOwner, rf_result = None\<rparr>]\<rparr>)"

definition new_version_check :: "(conn, nat) py" where
  "new_version_check s = (Inr (length (cn_version_checks s)), s\<lparr>cn_version_checks := cn_version_checks s @ [None]\<rparr>)"

definition new_sasl_check :: "(conn, nat) py" where
  "new_sasl_check s = (Inr (length (cn_sasl_checks s)), s\<lparr>cn_sasl_checks := cn_sasl_checks s @ [None]\<rparr>)"

text \<open>The state of the future of a check, by its number.\<close>

definition check_of :: "unit res option list \<Rightarrow> nat \<Rightarrow> unit res option" where
  "check_of cs j = (if j < length cs then cs ! j else None)"

definition settle_version_check :: "nat \<Rightarrow> unit res \<Rightarrow> (conn, unit) py" where
  "settle_version_check j r =
     py_then (py_assert (\<lambda>s. check_of (cn_version_checks s) j = None))
       (py_set (\<lambda>s. s\<lparr>cn_version_checks := (cn_version_checks s)[j := Some r]\<rparr>))"

definition settle_sasl_check :: "nat \<Rightarrow> unit res \<Rightarrow> (conn, unit) py" where
  "settle_sasl_check j r =
     py_then (py_assert (\<lambda>s. check_of (cn_sasl_checks s) j = None))
       (py_set (\<lambda>s. s\<lparr>cn_sasl_checks := (cn_sasl_checks s)[j := Some r]\<rparr>))"

definition handle_api_versions_failure :: "nat \<Rightarrow> exn_class \<Rightarrow> (conn, unit) py" where
  "handle_api_versions_failure j e =
     py_then (settle_version_check j (Inl e))
       (py_set (\<lambda>s. if cn_api_versions_idx s > 0 then s\<lparr>cn_api_versions_idx := 0\<rparr> else s\<lparr>cn_check_version_idx := Some 0\<rparr>))"

definition handle_check_version_failure :: "nat \<Rightarrow> exn_class \<Rightarrow> (conn, unit) py" where
  "handle_check_version_failure j e =
     py_then (settle_version_check j (Inl e))
       (py_bind (py_get cn_check_version_idx) (\<lambda>idx.
          case idx of
            None \<Rightarrow> py_raise TypeError
          | Some i \<Rightarrow> py_set (\<lambda>s. s\<lparr>cn_check_version_idx := Some (Suc i)\<rparr>)))"

primrec run_errback :: "owner \<Rightarrow> exn_class \<Rightarrow> (conn, unit) py" where
  "run_errback NoOwner e = py_return ()"
| "run_errback (ApiVersionsCheck j) e = handle_api_versions_failure j e"
| "run_errback (VersionCheck j v) e = handle_check_version_failure j e"
| "run_errback (SaslHandshakeCheck j) e = settle_sasl_check j (Inl e)"

definition set_result :: "nat \<Rightarrow> struct_obj option res \<Rightarrow> (conn, unit) py" where
  "set_result i r =
     py_then (py_assert (\<lambda>s. rf_result (cn_futures s ! i) = None))
       (py_set (\<lambda>s. s\<lparr>cn_futures := (cn_futures s)[i := (cn_futures s ! i)\<lparr>rf_result := Some r\<rparr>]\<rparr>))"

definition fail_future :: "nat \<Rightarrow> exn_class \<Rightarrow> (conn, unit) py" where
  "fail_future i e =
     py_then (set_result i (Inl e))
       (py_bind (py_get (\<lambda>s. rf_owner (cn_futures s ! i))) (\<lambda>ow. c_suppress (run_errback ow e)))"

definition reset_connection :: "conn \<Rightarrow> conn" where
  "reset_connection s = s\<lparr>cn_api_versions_future := None, cn_sasl_auth_future := None,
     cn_protocol := new_protocol (cn_client_id s) (cn_config_api_version s), cn_send_buffer := [], cn_in_flight := [],
     cn_state := DISCONNECTED\<rparr>"

text \<open>The socket is forgotten before the callback is told of it and closed after, so the callback is given the old one.\<close>

definition conn_close :: "conn_world \<Rightarrow> exn_class option \<Rightarrow> (conn, unit) py" where
  "conn_close w err =
     py_if conn_disconnected (py_return ())
       (py_then (if err \<noteq> None then update_reconnect_backoff w else py_return ())
         (py_bind (py_get (\<lambda>s. (cn_in_flight s, cn_sock s))) (\<lambda>(ifrs, sock).
            py_then (py_set (\<lambda>s. (reset_connection s)\<lparr>cn_sock := None\<rparr>))
           (py_then (c_try w (\<lambda>v. nv_callback v DISCONNECTED sock))
              (py_for (\<lambda>(_, i, _). fail_future i (case err of None \<Rightarrow> Cancelled | Some e \<Rightarrow> e)) ifrs)))))"

section \<open>Bytes\<close>

text \<open>A socket takes at least one byte of a non-empty buffer, or raises; so a loop makes at most one round per byte.\<close>

definition sent_bytes :: "bytes \<Rightarrow> nat \<Rightarrow> nat" where
  "sent_bytes data k = max 1 (min k (length data))"

definition would_block :: "exn_class \<Rightarrow> bool" where
  "would_block e \<longleftrightarrow> is_ssl_want e \<or> issubclass e BlockingIOError"

definition sock_send :: "conn_world \<Rightarrow> bytes \<Rightarrow> (conn, nat) py" where
  "sock_send w data = on_sock (py_bind (c_try w (\<lambda>v. nv_send v data)) (\<lambda>k. py_return (sent_bytes data k)))"

primrec send_bytes_loop :: "conn_world \<Rightarrow> nat \<Rightarrow> bytes \<Rightarrow> nat \<Rightarrow> (conn, nat) py" where
  "send_bytes_loop w 0 data total_sent = py_return total_sent"
| "send_bytes_loop w (Suc n) data total_sent =
     (if data = [] then py_return total_sent
      else py_bind (py_except (py_bind (sock_send w data) (\<lambda>k. py_return (Some k))) would_block (\<lambda>_. py_return None)) (\<lambda>r.
        case r of
          None \<Rightarrow> py_return total_sent
        | Some k \<Rightarrow> send_bytes_loop w n (drop k data) (total_sent + k)))"

definition conn_send_bytes :: "conn_world \<Rightarrow> bytes \<Rightarrow> (conn, nat) py" where
  "conn_send_bytes w data = send_bytes_loop w (length data) data 0"

primrec send_blocking_loop :: "conn_world \<Rightarrow> nat \<Rightarrow> bytes \<Rightarrow> nat \<Rightarrow> (conn, nat) py" where
  "send_blocking_loop w 0 data total_sent = py_return total_sent"
| "send_blocking_loop w (Suc n) data total_sent =
     (if data = [] then py_return total_sent
      else py_bind (sock_send w data) (\<lambda>k. send_blocking_loop w n (drop k data) (total_sent + k)))"

definition send_bytes_blocking :: "conn_world \<Rightarrow> bytes \<Rightarrow> (conn, nat) py" where
  "send_bytes_blocking w data = on_sock (send_blocking_loop w (length data) data 0)"

definition sock_recv :: "conn_world \<Rightarrow> nat \<Rightarrow> (conn, bytes) py" where
  "sock_recv w n = on_sock (py_bind (c_try w (\<lambda>v. nv_recv v n)) (\<lambda>data. py_return (take n data)))"

primrec recv_blocking_loop :: "conn_world \<Rightarrow> nat \<Rightarrow> nat \<Rightarrow> bytes \<Rightarrow> (conn, bytes) py" where
  "recv_blocking_loop w 0 n data = py_return data"
| "recv_blocking_loop w (Suc k) n data =
     (if length data \<ge> n then py_return data
      else py_bind (sock_recv w (n - length data)) (\<lambda>fragment.
        if fragment = [] then py_raise ConnectionError
        else recv_blocking_loop w k n (data @ fragment)))"

definition recv_bytes_blocking :: "conn_world \<Rightarrow> nat \<Rightarrow> (conn, bytes) py" where
  "recv_bytes_blocking w n = on_sock (recv_blocking_loop w n n [])"

section \<open>Sending requests\<close>

definition send_pending_requests :: "conn_world \<Rightarrow> (conn, bool) py" where
  "send_pending_requests w =
     py_except
       (py_if (\<lambda>s. \<not> can_send_recv s) (py_return False)
         (py_bind (on_protocol send_bytes) (\<lambda>data. py_bind (send_bytes_blocking w data) (\<lambda>_. py_return True))))
       is_connection_error
       (\<lambda>_. py_then (conn_close w (Some KafkaConnectionError)) (py_return False))"

definition send_pending_requests_v2 :: "conn_world \<Rightarrow> (conn, bool) py" where
  "send_pending_requests_v2 w =
     py_except
       (py_if (\<lambda>s. \<not> can_send_recv s) (py_return False)
         (py_then (py_when (\<lambda>s. cn_send_buffer s = [])
                    (py_bind (on_protocol send_bytes) (\<lambda>data. py_set (\<lambda>s. s\<lparr>cn_send_buffer := data\<rparr>))))
         (py_then (py_when (\<lambda>s. cn_send_buffer s \<noteq> [])
                    (py_bind (py_get cn_send_buffer) (\<lambda>buf. py_bind (conn_send_bytes w buf) (\<lambda>total_bytes.
                       py_set (\<lambda>s. s\<lparr>cn_send_buffer := drop total_bytes (cn_send_buffer s)\<rparr>)))))
           (py_get (\<lambda>s. cn_send_buffer s = [])))))
       (\<lambda>e. issubclass e Exception)
       (\<lambda>_. py_then (conn_close w (Some KafkaConnectionError)) (py_return False))"

definition track_request :: "conn_world \<Rightarrow> request \<Rightarrow> nat \<Rightarrow> int \<Rightarrow> rat \<Rightarrow> (conn, unit) py" where
  "track_request w request i cid timeout_ms =
     (if expect_response (rq_class request) (rq_obj request) then
        py_then (py_assert (\<lambda>s. cid \<notin> fst ` set (cn_in_flight s)))
          (py_bind (c_ask w nv_now) (\<lambda>sent_time.
             py_set (\<lambda>s. s\<lparr>cn_in_flight := cn_in_flight s @ [(cid, i, sent_time, sent_time + timeout_ms)]\<rparr>)))
      else set_result i (Inr None))"

text \<open>\<open>_send\<close>: the future of the request, whose failure is not yet listened to.\<close>

definition send_now :: "conn_world \<Rightarrow> request \<Rightarrow> bool \<Rightarrow> rat option \<Rightarrow> (conn, nat) py" where
  "send_now w request blocking timeout =
     py_bind (py_get (\<lambda>s. case timeout of None \<Rightarrow> cn_request_timeout_ms s | Some t \<Rightarrow> if t = 0 then cn_request_timeout_ms s else t)) (\<lambda>timeout_ms.
     py_bind new_future (\<lambda>i.
       py_if (\<lambda>s. \<not> can_send_recv s) (py_then (fail_future i NodeNotReadyError) (py_return i))
         (py_bind (on_protocol (send_request request None)) (\<lambda>cid.
            py_then (track_request w request i cid timeout_ms)
           (py_then (if blocking then py_bind (send_pending_requests w) (\<lambda>_. py_return ()) else py_return ())
              (py_return i))))))"

definition failed_future :: "exn_class \<Rightarrow> (conn, nat) py" where
  "failed_future e = py_bind new_future (\<lambda>i. py_then (fail_future i e) (py_return i))"

definition conn_send :: "conn_world \<Rightarrow> request \<Rightarrow> bool \<Rightarrow> rat option \<Rightarrow> (conn, nat) py" where
  "conn_send w request blocking timeout =
     py_bind (py_get (\<lambda>s. (conn_connecting s, conn_connected s))) (\<lambda>(connecting, connected).
       if connecting then failed_future NodeNotReadyError
       else if \<not> connected then failed_future KafkaConnectionError
       else py_bind (can_send_more w) (\<lambda>more_allowed.
         if \<not> more_allowed then
           py_bind (throttled w) (\<lambda>t. failed_future (if t then ThrottlingQuotaExceededError else TooManyInFlightRequests))
         else send_now w request blocking timeout))"

section \<open>Receiving responses\<close>

definition maybe_throttle :: "conn_world \<Rightarrow> struct_obj \<Rightarrow> (conn, unit) py" where
  "maybe_throttle w response =
     (case map_of (so_dict response) ''throttle_time_ms'' of
        Some (VInt ms) \<Rightarrow>
          if ms = 0 then py_set (\<lambda>s. s\<lparr>cn_throttle_time := None\<rparr>)
          else py_when (\<lambda>s. case cn_config_api_version s of None \<Rightarrow> False | Some v \<Rightarrow> tuple_le [2, 0] v)
            (py_bind (c_ask w nv_now) (\<lambda>now. py_set (\<lambda>s. s\<lparr>cn_throttle_time :=
               Some (max (now + of_int ms) (case cn_throttle_time s of None \<Rightarrow> 0 | Some t \<Rightarrow> t))\<rparr>)))
      | _ \<Rightarrow> py_set (\<lambda>s. s\<lparr>cn_throttle_time := None\<rparr>))"

text \<open>The chunks read, and the error that ends reading; not being able to read more is none.\<close>

primrec recv_chunks :: "conn_world \<Rightarrow> nat \<Rightarrow> bytes \<Rightarrow> (conn, bytes \<times> exn_class option) py" where
  "recv_chunks w 0 recvd = py_return (recvd, None)"
| "recv_chunks w (Suc n) recvd =
     py_bind (py_get cn_sock_chunk_bytes) (\<lambda>chunk.
     py_bind (py_except (py_bind (sock_recv w chunk) (\<lambda>data. py_return (Inr data)))
         (\<lambda>e. would_block e \<or> is_connection_error e)
         (\<lambda>e. py_return (Inl (if is_connection_error e \<and> \<not> is_ssl_want e then Some KafkaConnectionError else None)))) (\<lambda>r.
       case r of
         Inl err \<Rightarrow> py_return (recvd, err)
       | Inr data \<Rightarrow>
           if data = [] then py_return (recvd, Some KafkaConnectionError)
           else recv_chunks w n (recvd @ data)))"

definition recv_responses :: "conn_world \<Rightarrow> (conn, (int \<times> struct_obj) list) py" where
  "recv_responses w =
     py_if (\<lambda>s. \<not> can_send_recv s) (py_return [])
       (py_bind (py_get cn_sock_chunk_buffer_count) (\<lambda>count.
        py_bind (recv_chunks w count []) (\<lambda>(recvd, err).
          case err of
            Some e \<Rightarrow> py_then (conn_close w (Some e)) (py_return [])
          | None \<Rightarrow>
              py_except (on_protocol (receive_bytes recvd)) (\<lambda>e. issubclass e KafkaProtocolError)
                (\<lambda>e. py_then (conn_close w (Some e)) (py_return [])))))"

definition next_ifr_request_timeout_ms :: "conn_world \<Rightarrow> (conn, rat option) py" where
  "next_ifr_request_timeout_ms w =
     py_bind (py_get (\<lambda>s. map (\<lambda>(_, _, _, t). t) (cn_in_flight s))) (\<lambda>ts.
       if ts = [] then py_return None
       else py_bind (c_ask w nv_now) (\<lambda>now. py_return (Some (max 0 (Min (set ts) - now)))))"

definition requests_timed_out :: "conn_world \<Rightarrow> (conn, bool) py" where
  "requests_timed_out w = py_bind (next_ifr_request_timeout_ms w) (\<lambda>t. py_return (t = Some 0))"

definition timed_out_ifrs :: "conn_world \<Rightarrow> (conn, (nat \<times> rat \<times> rat) list) py" where
  "timed_out_ifrs w =
     py_bind (c_ask w nv_now) (\<lambda>now. py_get (\<lambda>s.
       filter (\<lambda>(_, _, t). t \<le> now) (rev (sort_key (\<lambda>(_, _, t). t) (rev (map snd (cn_in_flight s)))))))"

primrec match_responses :: "conn_world \<Rightarrow> (int \<times> struct_obj) list \<Rightarrow> (struct_obj \<times> nat) list \<Rightarrow> (conn, (struct_obj \<times> nat) list) py" where
  "match_responses w [] matched = py_return matched"
| "match_responses w (r # rs) matched =
     py_bind (py_get (\<lambda>s. map_of (cn_in_flight s) (fst r))) (\<lambda>ifr.
       case ifr of
         None \<Rightarrow> py_then (conn_close w (Some KafkaConnectionError)) (py_return [])
       | Some (i, _) \<Rightarrow>
           py_then (py_set (\<lambda>s. s\<lparr>cn_in_flight := AList.delete (fst r) (cn_in_flight s)\<rparr>))
          (py_bind (c_ask w nv_now) (\<lambda>_.
           py_then (maybe_throttle w (snd r)) (match_responses w rs (matched @ [(snd r, i)])))))"

definition conn_recv :: "conn_world \<Rightarrow> (conn, (struct_obj \<times> nat) list) py" where
  "conn_recv w =
     py_bind (recv_responses w) (\<lambda>responses.
     py_bind (if responses = [] then requests_timed_out w else py_return False) (\<lambda>timed_out.
       if timed_out then
         py_bind (timed_out_ifrs w) (\<lambda>ifrs.
           if ifrs = [] then py_raise IndexError
           else py_then (conn_close w (Some RequestTimedOutError)) (py_return []))
       else match_responses w responses []))"

section \<open>Checking the versions of the broker\<close>

text \<open>\<open>obj.name\<close>, \<open>xs[i]\<close> with a negative index counting from the end, and the entries of an ApiVersions response.\<close>

definition so_attr :: "struct_obj \<Rightarrow> string \<Rightarrow> pyval res" where
  "so_attr obj name = (case map_of (so_dict obj) name of None \<Rightarrow> Inl AttributeError | Some v \<Rightarrow> Inr v)"

definition py_nth :: "'a list \<Rightarrow> int \<Rightarrow> 'a res" where
  "py_nth xs i =
     (let j = (if i < 0 then i + int (length xs) else i) in
      if 0 \<le> j \<and> j < int (length xs) then Inr (xs ! nat j) else Inl IndexError)"

definition int_of :: "pyval \<Rightarrow> int res" where
  "int_of v = (case v of VInt i \<Rightarrow> Inr i | _ \<Rightarrow> Inl TypeError)"

definition list_of :: "pyval \<Rightarrow> pyval list res" where
  "list_of v = (case v of VList vs \<Rightarrow> Inr vs | _ \<Rightarrow> Inl TypeError)"

definition api_version_data :: "pyval \<Rightarrow> (int \<times> int \<times> int) res" where
  "api_version_data v = (case v of VTuple (VInt k # VInt lo # VInt hi # _) \<Rightarrow> Inr (k, lo, hi) | _ \<Rightarrow> Inl ValueError)"

definition response_error :: "struct_obj \<Rightarrow> exn_class res" where
  "response_error r = res_map for_code (res_bind (so_attr r ''error_code'') int_of)"

definition response_api_versions :: "struct_obj \<Rightarrow> api_versions res" where
  "response_api_versions r =
     res_bind (res_bind (so_attr r ''api_versions'') list_of) (\<lambda>vs. res_list (map api_version_data vs))"

definition API_VERSIONS_KEY :: int where "API_VERSIONS_KEY = 18"

text \<open>The ApiVersions version to try next, once lowered by one: at most what the broker says it supports.\<close>

definition lower_api_versions_idx :: "int \<Rightarrow> api_versions \<Rightarrow> int" where
  "lower_api_versions_idx idx av =
     (case map_of av API_VERSIONS_KEY of None \<Rightarrow> idx | Some (lo, hi) \<Rightarrow> min idx hi)"

text \<open>In the dictionary made of the entries a later entry for a key replaces an earlier one: looking up takes the last.\<close>

definition handle_api_versions_response :: "conn_world \<Rightarrow> (conn, conn_status) py \<Rightarrow> nat \<Rightarrow> struct_obj \<Rightarrow> (conn, unit) py" where
  "handle_api_versions_response w again j r =
     py_bind (py_lift (response_error r)) (\<lambda>error_type.
       if error_type \<noteq> NoError then
         py_then (settle_version_check j (Inl error_type))
           (if error_type = UnsupportedVersionError then
              py_then (py_set (\<lambda>s. s\<lparr>cn_api_versions_idx := cn_api_versions_idx s - 1\<rparr>))
             (py_bind (py_lift (response_api_versions r)) (\<lambda>av.
              py_then (py_set (\<lambda>s. s\<lparr>cn_api_versions_idx := lower_api_versions_idx (cn_api_versions_idx s) av\<rparr>))
                (py_when (\<lambda>s. cn_api_versions_idx s \<ge> 0)
                  (py_then (py_set (\<lambda>s. s\<lparr>cn_api_versions_future := None, cn_state := API_VERSIONS_SEND\<rparr>)) (state_change w)))))
            else conn_close w (Some error_type))
       else
         py_bind (py_lift (response_api_versions r)) (\<lambda>av.
         py_then (py_set (\<lambda>s. s\<lparr>cn_api_versions := Some (rev av), cn_api_version := Some (infer_broker_version (rev av))\<rparr>))
        (py_then (settle_version_check j (Inr ())) (py_bind again (\<lambda>_. py_return ())))))"

definition handle_check_version_response :: "(conn, conn_status) py \<Rightarrow> nat \<Rightarrow> broker_version \<Rightarrow> (conn, unit) py" where
  "handle_check_version_response again j v =
     py_bind (py_lift (case map_of BROKER_API_VERSIONS v of None \<Rightarrow> Inl KeyError | Some av \<Rightarrow> Inr av)) (\<lambda>av.
       py_then (py_set (\<lambda>s. s\<lparr>cn_api_versions := Some av, cn_api_version := Some v\<rparr>))
      (py_then (settle_version_check j (Inr ())) (py_bind again (\<lambda>_. py_return ()))))"

section \<open>SASL authentication\<close>

definition sasl_handshake_version :: "conn \<Rightarrow> int res" where
  "sasl_handshake_version s =
     (case cn_api_versions s of
        None \<Rightarrow> Inl RuntimeError
      | Some av \<Rightarrow>
          (case map_of av (API_KEY (SaslHandshakeRequest ! 0)) of
             None \<Rightarrow> Inl UnsupportedVersionError
           | Some (lo, hi) \<Rightarrow> if lo > 1 then Inl UnsupportedVersionError else Inr (min hi 1)))"

definition send_sasl_authenticate :: "conn_world \<Rightarrow> bytes \<Rightarrow> (conn, unit) py" where
  "send_sasl_authenticate w token =
     py_bind (py_get sasl_handshake_version) (\<lambda>r.
     py_bind (py_lift r) (\<lambda>version.
       if version = 1 then
         py_bind (py_lift (positional_request SaslAuthenticateRequest 0 [VBytes token])) (\<lambda>request.
         py_bind (send_now w request True None) (\<lambda>_. py_return ()))
       else
         py_except
           (py_bind (py_lift (Int32_encode (VInt (int (length token))))) (\<lambda>size.
            py_bind (send_bytes_blocking w (size @ token)) (\<lambda>_. py_return ())))
           is_connection_error (\<lambda>_. conn_close w (Some KafkaConnectionError))))"

definition recv_sasl_frame :: "conn_world \<Rightarrow> (conn, bytes option) py" where
  "recv_sasl_frame w =
     py_except
       (py_bind (recv_bytes_blocking w 4) (\<lambda>size.
        py_bind (py_lift (Int32_decode size)) (\<lambda>(nbytes, _).
        py_bind (recv_bytes_blocking w (nat nbytes)) (\<lambda>data. py_return (Some (size @ data))))))
       is_connection_error (\<lambda>_. py_then (conn_close w (Some KafkaConnectionError)) (py_return None))"

definition take_sasl_response :: "conn_world \<Rightarrow> bytes \<Rightarrow> (conn, bytes option) py" where
  "take_sasl_response w data =
     py_bind (on_protocol (receive_bytes data)) (\<lambda>responses.
       case responses of
         [(cid, response)] \<Rightarrow>
           py_bind (py_get (\<lambda>s. map_of (cn_in_flight s) cid)) (\<lambda>ifr.
             if ifr = None then py_raise KeyError
             else py_then (py_set (\<lambda>s. s\<lparr>cn_in_flight := AList.delete cid (cn_in_flight s)\<rparr>))
              (py_bind (c_ask w nv_now) (\<lambda>_.
               py_bind (py_lift (response_error response)) (\<lambda>error_type.
                 if error_type \<noteq> NoError then py_then (conn_close w (Some error_type)) (py_return None)
                 else py_bind (py_lift (so_attr response ''auth_bytes'')) (\<lambda>v.
                   py_return (case v of VBytes b \<Rightarrow> Some b | _ \<Rightarrow> None))))))
       | _ \<Rightarrow> py_raise ValueError)"

definition recv_sasl_authenticate :: "conn_world \<Rightarrow> bool \<Rightarrow> (conn, bytes option) py" where
  "recv_sasl_authenticate w is_done =
     py_bind (py_get sasl_handshake_version) (\<lambda>r.
     py_bind (py_lift r) (\<lambda>version.
       if version = 0 \<and> is_done then py_return (Some [])
       else py_bind (recv_sasl_frame w) (\<lambda>frame.
         case frame of
           None \<Rightarrow> py_return None
         | Some data \<Rightarrow> if version = 1 then take_sasl_response w data else py_return (Some (drop 4 data)))))"

text \<open>The exchanges of a mechanism: the given number of them is left, and the given number has been made.\<close>

primrec sasl_exchange :: "conn_world \<Rightarrow> sasl_view \<Rightarrow> nat \<Rightarrow> nat \<Rightarrow> nat \<Rightarrow> (conn, unit) py" where
  "sasl_exchange w sv j 0 k =
     settle_sasl_check j (if sv_is_authenticated sv then Inr () else Inl SaslAuthenticationFailedError)"
| "sasl_exchange w sv j (Suc n) k =
     py_bind (py_lift (sv_auth_bytes sv k)) (\<lambda>send_token.
     py_then (send_sasl_authenticate w send_token)
       (py_if (\<lambda>s. \<not> can_send_recv s) (settle_sasl_check j (Inl KafkaConnectionError))
         (py_bind (recv_sasl_authenticate w (n = 0 \<and> sv_done_after_send sv)) (\<lambda>recv_token.
            case recv_token of
              None \<Rightarrow> settle_sasl_check j (Inl KafkaConnectionError)
            | Some token \<Rightarrow> py_bind (py_lift (sv_receive sv k token)) (\<lambda>_. sasl_exchange w sv j n (Suc k))))))"

definition sasl_authenticate :: "conn_world \<Rightarrow> nat \<Rightarrow> (conn, unit) py" where
  "sasl_authenticate w j = py_bind (c_ask w nv_sasl) (\<lambda>sv. sasl_exchange w sv j (sv_rounds sv) 0)"

definition finish_sasl_handshake :: "conn_world \<Rightarrow> (conn, conn_status) py \<Rightarrow> nat \<Rightarrow> (conn, unit) py" where
  "finish_sasl_handshake w again j =
     py_bind (py_get (\<lambda>s. check_of (cn_sasl_checks s) j)) (\<lambda>r.
       case r of
         None \<Rightarrow> py_raise AssertionError
       | Some (Inl e) \<Rightarrow> conn_close w (Some e)
       | Some (Inr _) \<Rightarrow> py_bind again (\<lambda>_. py_return ()))"

definition handle_sasl_handshake_response :: "conn_world \<Rightarrow> (conn, conn_status) py \<Rightarrow> nat \<Rightarrow> struct_obj \<Rightarrow> (conn, unit) py" where
  "handle_sasl_handshake_response w again j r =
     py_bind (py_lift (response_error r)) (\<lambda>error_type.
       if error_type \<noteq> NoError then py_then (conn_close w (Some error_type)) (settle_sasl_check j (Inl error_type))
       else
         py_bind (py_lift (res_bind (so_attr r ''enabled_mechanisms'') list_of)) (\<lambda>mechanisms.
         py_bind (py_get cn_sasl_mechanism) (\<lambda>mechanism.
         py_then (if VStr mechanism \<notin> set mechanisms then settle_sasl_check j (Inl UnsupportedSaslMechanismError)
                  else sasl_authenticate w j)
           (finish_sasl_handshake w again j))))"

section \<open>Connecting\<close>

primrec run_callback :: "conn_world \<Rightarrow> (conn, conn_status) py \<Rightarrow> owner \<Rightarrow> struct_obj \<Rightarrow> (conn, unit) py" where
  "run_callback w again NoOwner r = py_return ()"
| "run_callback w again (ApiVersionsCheck j) r = handle_api_versions_response w again j r"
| "run_callback w again (VersionCheck j v) r = handle_check_version_response again j v"
| "run_callback w again (SaslHandshakeCheck j) r = handle_sasl_handshake_response w again j r"

text \<open>\<open>future.success(response)\<close>.\<close>

definition succeed_future :: "conn_world \<Rightarrow> (conn, conn_status) py \<Rightarrow> nat \<Rightarrow> struct_obj \<Rightarrow> (conn, unit) py" where
  "succeed_future w again i r =
     py_then (set_result i (Inr (Some r)))
       (py_bind (py_get (\<lambda>s. rf_owner (cn_futures s ! i))) (\<lambda>ow. c_suppress (run_callback w again ow r)))"

text \<open>\<open>response.add_callback(...)\<close> and \<open>response.add_errback(...)\<close>: of a future that is done, the one that applies is called at once.\<close>

definition add_callbacks :: "conn_world \<Rightarrow> (conn, conn_status) py \<Rightarrow> nat \<Rightarrow> owner \<Rightarrow> (conn, unit) py" where
  "add_callbacks w again i ow =
     py_bind (py_get (\<lambda>s. rf_result (cn_futures s ! i))) (\<lambda>result.
       case result of
         None \<Rightarrow> py_set (\<lambda>s. s\<lparr>cn_futures := (cn_futures s)[i := (cn_futures s ! i)\<lparr>rf_owner := ow\<rparr>]\<rparr>)
       | Some (Inl e) \<Rightarrow> c_suppress (run_errback ow e)
       | Some (Inr None) \<Rightarrow> py_return ()
       | Some (Inr (Some r)) \<Rightarrow> c_suppress (run_callback w again ow r))"

definition recv_and_succeed :: "conn_world \<Rightarrow> (conn, conn_status) py \<Rightarrow> (conn, unit) py" where
  "recv_and_succeed w again =
     py_bind (conn_recv w) (\<lambda>rs. py_for (\<lambda>(r, i). succeed_future w again i r) rs)"

text \<open>What a check has come to: without its future, which closing the connection forgets, it has failed.\<close>

definition check_outcome :: "unit res option option \<Rightarrow> bool res" where
  "check_outcome c =
     (case c of
        Some (Some (Inl e)) \<Rightarrow> if issubclass e KafkaConnectionError then Inr False else Inl e
      | Some (Some (Inr _)) \<Rightarrow> Inr True
      | _ \<Rightarrow> Inr False)"

definition default_group :: pystr where "default_group = pystr_of ''kafka-python-default-group''"

definition VERSION_CHECKS :: "(broker_version \<times> request res) list" where
  "VERSION_CHECKS =
    [([0, 9], positional_request ListGroupsRequest 0 []),
     ([0, 8, 2], positional_request FindCoordinatorRequest 0 [VStr default_group]),
     ([0, 8, 1], positional_request OffsetFetchRequest 0 [VStr default_group, VList []]),
     ([0, 8, 0], positional_request MetadataRequest 0 [VList []])]"

definition api_versions_request :: "conn \<Rightarrow> request res" where
  "api_versions_request s =
     res_bind (py_nth ApiVersionsRequest (cn_api_versions_idx s)) (\<lambda>cls.
       res_map (\<lambda>obj. \<lparr>rq_class = cls, rq_obj = obj\<rparr>)
         (Struct_init (SCHEMA cls) []
           (if cn_api_versions_idx s \<ge> 3
            then [(''client_software_name'', VStr (cn_software_name s)), (''client_software_version'', VStr (cn_software_version s)),
                  (''_tagged_fields'', VDict [])]
            else [])))"

text \<open>Sending the request of a check and waiting for its response from then on.\<close>

definition start_version_check :: "conn_world \<Rightarrow> (conn, conn_status) py \<Rightarrow> request \<Rightarrow> (nat \<Rightarrow> owner) \<Rightarrow> (conn, unit) py" where
  "start_version_check w again request ow =
     py_bind new_version_check (\<lambda>j.
     py_then (py_set (\<lambda>s. s\<lparr>cn_api_versions_check_timeout := cn_api_versions_check_timeout s / 2\<rparr>))
    (py_bind (py_get (\<lambda>s. Some (cn_api_versions_check_timeout s))) (\<lambda>timeout.
     py_bind (send_now w request True timeout) (\<lambda>i.
     py_then (add_callbacks w again i (ow j))
    (py_then (py_set (\<lambda>s. s\<lparr>cn_api_versions_future := Some j, cn_state := API_VERSIONS_RECV\<rparr>))
       (state_change w))))))"

definition use_configured_version :: "broker_version \<Rightarrow> (conn, unit) py" where
  "use_configured_version v =
     py_then (py_set (\<lambda>s. s\<lparr>cn_api_version := Some v\<rparr>))
       (case map_of BROKER_API_VERSIONS v of
          None \<Rightarrow> py_raise UnrecognizedBrokerVersion
        | Some av \<Rightarrow> py_set (\<lambda>s. s\<lparr>cn_api_versions := Some av\<rparr>))"

definition await_version_check :: "conn_world \<Rightarrow> (conn, conn_status) py \<Rightarrow> (conn, bool) py" where
  "await_version_check w again =
     py_then (recv_and_succeed w again)
       (py_bind (py_get (\<lambda>s. map_option (check_of (cn_version_checks s)) (cn_api_versions_future s))) (\<lambda>c. py_lift (check_outcome c)))"

definition try_api_versions_check :: "conn_world \<Rightarrow> (conn, conn_status) py \<Rightarrow> (conn, bool) py" where
  "try_api_versions_check w again =
     py_bind (py_get (\<lambda>s. (cn_api_versions_future s, cn_config_api_version s, cn_check_version_idx s, api_versions_request s)))
       (\<lambda>(future, config, idx, request).
          if future \<noteq> None then await_version_check w again
          else case config of
            Some v \<Rightarrow> py_then (use_configured_version v) (py_return True)
          | None \<Rightarrow>
              (case idx of
                 None \<Rightarrow>
                   py_bind (py_lift request) (\<lambda>request.
                   py_then (start_version_check w again request ApiVersionsCheck) (await_version_check w again))
               | Some i \<Rightarrow>
                   if i < length VERSION_CHECKS then
                     py_bind (py_lift (snd (VERSION_CHECKS ! i))) (\<lambda>request.
                     py_then (start_version_check w again request (\<lambda>j. VersionCheck j (fst (VERSION_CHECKS ! i))))
                       (await_version_check w again))
                   else py_then (conn_close w (Some KafkaConnectionError)) (py_return False)))"

definition start_sasl_handshake :: "conn_world \<Rightarrow> (conn, conn_status) py \<Rightarrow> (conn, unit) py" where
  "start_sasl_handshake w again =
     py_bind (py_get sasl_handshake_version) (\<lambda>r.
     py_bind (py_lift (res_bind r (py_nth SaslHandshakeRequest))) (\<lambda>cls.
     py_bind (py_get (\<lambda>s. Struct_init (SCHEMA cls) [VStr (cn_sasl_mechanism s)] [])) (\<lambda>obj.
     py_bind (py_lift obj) (\<lambda>obj.
     py_bind new_sasl_check (\<lambda>j.
     py_bind (send_now w \<lparr>rq_class = cls, rq_obj = obj\<rparr> True None) (\<lambda>i.
     py_then (add_callbacks w again i (SaslHandshakeCheck j)) (py_set (\<lambda>s. s\<lparr>cn_sasl_auth_future := Some j\<rparr>))))))))"

definition try_authenticate :: "conn_world \<Rightarrow> (conn, conn_status) py \<Rightarrow> (conn, bool) py" where
  "try_authenticate w again =
     py_then (py_when (\<lambda>s. cn_sasl_auth_future s = None) (start_sasl_handshake w again))
    (py_then (recv_and_succeed w again)
       (py_bind (py_get (\<lambda>s. map_option (check_of (cn_sasl_checks s)) (cn_sasl_auth_future s))) (\<lambda>c. py_lift (check_outcome c))))"

definition enter_state :: "conn_world \<Rightarrow> conn_status \<Rightarrow> (conn, unit) py" where
  "enter_state w st = py_then (py_set (\<lambda>s. s\<lparr>cn_state := st\<rparr>)) (state_change w)"

definition enter_connected :: "conn_world \<Rightarrow> (conn, unit) py" where
  "enter_connected w = py_then (py_set (\<lambda>s. reset_reconnect_backoff (s\<lparr>cn_state := CONNECTED\<rparr>))) (state_change w)"

text \<open>The branches of \<open>connect\<close>, in order.  The first two may return, which their result says.\<close>

definition open_socket :: "conn_world \<Rightarrow> (conn, bool) py" where
  "open_socket w =
     py_then (py_set (\<lambda>s. s\<lparr>cn_state := CONNECTING\<rparr>))
    (py_bind (c_ask w nv_now) (\<lambda>now.
     py_then (py_set (\<lambda>s. s\<lparr>cn_last_attempt := now\<rparr>))
    (py_bind (next_afi_sockaddr w) (\<lambda>next_lookup.
       if next_lookup = None then py_then (conn_close w (Some KafkaConnectionError)) (py_return True)
       else
         py_then (py_assert (\<lambda>s. cn_sock s = None))
        (py_bind (c_ask w nv_socket) (\<lambda>r.
           case r of
             Inl e \<Rightarrow> if issubclass e OSError then py_then (conn_close w (Some e)) (py_return True) else py_raise e
           | Inr sock \<Rightarrow>
               py_then (py_set (\<lambda>s. s\<lparr>cn_sock := Some sock\<rparr>)) (py_then (state_change w) (py_return False))))))))"

definition connect_open :: "conn_world \<Rightarrow> (conn, bool) py" where
  "connect_open w =
     py_if conn_disconnected
       (py_bind (blacked_out w) (\<lambda>b. if b then py_return False else open_socket w))
       (py_return False)"

definition wrap_ssl :: "conn_world \<Rightarrow> (conn, unit) py" where
  "wrap_ssl w =
     py_then (py_assert uses_ssl)
    (py_then (py_when (\<lambda>s. \<not> cn_ssl_context s)
        (py_then (py_set (\<lambda>s. s\<lparr>cn_ssl_context := True\<rparr>)) (c_try w nv_ssl_context)))
       (py_except (c_try w nv_wrap_socket) (\<lambda>e. issubclass e SSLError) (\<lambda>e. conn_close w (Some e))))"

definition EISCONN :: int where "EISCONN = 106"

definition in_progress :: "int list" where
  "in_progress = [115, 114, 11, 10022]"

definition connect_tcp :: "conn_world \<Rightarrow> (conn, bool) py" where
  "connect_tcp w =
     py_if (\<lambda>s. cn_state s = CONNECTING)
       (py_bind (on_sock (c_ask w nv_connect_ex)) (\<lambda>ret.
          if ret = 0 \<or> ret = EISCONN then
            py_then (py_if uses_ssl (py_then (enter_state w HANDSHAKE) (wrap_ssl w)) (enter_state w API_VERSIONS_SEND)) (py_return False)
          else if ret \<notin> set in_progress then py_then (conn_close w (Some KafkaConnectionError)) (py_return True)
          else py_return False))
       (py_return False)"

definition try_handshake :: "conn_world \<Rightarrow> (conn, bool) py" where
  "try_handshake w =
     py_then (py_assert uses_ssl)
       (py_except (py_then (on_sock (c_try w nv_do_handshake)) (py_return True))
         (\<lambda>e. is_ssl_want e \<or> is_connection_error e \<or> issubclass e SSLZeroReturnError \<or> issubclass e SSLEOFError)
         (\<lambda>e. if is_ssl_want e then py_return False
              else py_then (conn_close w (Some KafkaConnectionError)) (py_return False)))"

definition connect_handshake :: "conn_world \<Rightarrow> (conn, unit) py" where
  "connect_handshake w =
     py_when (\<lambda>s. cn_state s = HANDSHAKE)
       (py_bind (try_handshake w) (\<lambda>ok. if ok then enter_state w API_VERSIONS_SEND else py_return ()))"

definition checking_versions :: "conn \<Rightarrow> bool" where
  "checking_versions s \<longleftrightarrow> cn_state s \<in> {API_VERSIONS_SEND, API_VERSIONS_RECV}"

definition connect_versions :: "conn_world \<Rightarrow> (conn, conn_status) py \<Rightarrow> (conn, unit) py" where
  "connect_versions w again =
     py_when checking_versions
       (py_bind (try_api_versions_check w again) (\<lambda>ok.
          if ok then py_when checking_versions (py_if uses_sasl (enter_state w AUTHENTICATING) (enter_connected w))
          else py_return ()))"

definition connect_authenticate :: "conn_world \<Rightarrow> (conn, conn_status) py \<Rightarrow> (conn, unit) py" where
  "connect_authenticate w again =
     py_when (\<lambda>s. cn_state s = AUTHENTICATING)
       (py_then (py_assert uses_sasl)
         (py_bind (try_authenticate w again) (\<lambda>ok.
            if ok then py_when (\<lambda>s. cn_state s = AUTHENTICATING) (enter_connected w) else py_return ())))"

definition connect_timeout :: "conn_world \<Rightarrow> (conn, unit) py" where
  "connect_timeout w =
     py_when (\<lambda>s. cn_state s \<notin> {CONNECTED, DISCONNECTED})
       (py_bind (c_ask w nv_now) (\<lambda>now.
          py_when (\<lambda>s. now > cn_request_timeout_ms s + cn_last_attempt s) (conn_close w (Some KafkaConnectionError))))"

definition connect_step :: "conn_world \<Rightarrow> (conn, conn_status) py \<Rightarrow> (conn, conn_status) py" where
  "connect_step w again =
     py_bind (connect_open w) (\<lambda>returned.
       if returned then py_get cn_state
       else py_bind (connect_tcp w) (\<lambda>returned.
         if returned then py_get cn_state
         else py_then (connect_handshake w) (py_then (connect_versions w again) (py_then (connect_authenticate w again)
           (py_then (connect_timeout w) (py_get cn_state))))))"

primrec conn_connect :: "conn_world \<Rightarrow> nat \<Rightarrow> (conn, conn_status) py" where
  "conn_connect w 0 = py_raise RecursionError"
| "conn_connect w (Suc n) = connect_step w (conn_connect w n)"

section \<open>Blocking calls\<close>

text \<open>The two nested loops of \<open>connect_blocking\<close>, the flag telling whether the inner one is running and the other
  whether a selector has been opened for the socket; the number bounds the rounds, None saying that it is too small.\<close>

primrec blocking_loop :: "conn_world \<Rightarrow> nat \<Rightarrow> nat \<Rightarrow> rat option \<Rightarrow> bool \<Rightarrow> bool \<Rightarrow> (conn, bool option) py" where
  "blocking_loop w depth 0 until inner selecting = py_return None"
| "blocking_loop w depth (Suc n) until inner selecting =
     (if \<not> inner then
        py_if (\<lambda>s. cn_gai s = []) (py_return (Some False)) (blocking_loop w depth n until True selecting)
      else
        py_bind (c_ask w nv_now) (\<lambda>now.
          if (case until of None \<Rightarrow> False | Some t \<Rightarrow> now \<ge> t) then py_return (Some False)
          else py_bind (conn_connect w depth) (\<lambda>_.
            py_bind (py_get (\<lambda>s. (conn_connected s, conn_connecting s, cn_sock s))) (\<lambda>(connected, connecting, sock).
              if connected then py_return (Some True)
              else if connecting then
                (if \<not> selecting \<and> sock = None then py_raise ValueError else blocking_loop w depth n until True True)
              else blocking_loop w depth n until False False))))"

definition connect_blocking :: "conn_world \<Rightarrow> nat \<Rightarrow> nat \<Rightarrow> rat option \<Rightarrow> (conn, bool option) py" where
  "connect_blocking w depth n timeout =
     py_if conn_connected (py_return (Some True))
       (py_bind (c_ask w nv_now) (\<lambda>now.
        py_bind (conn_dns_lookup w) (\<lambda>_. blocking_loop w depth n (map_option ((+) now) timeout) False False)))"

definition check_version :: "conn_world \<Rightarrow> nat \<Rightarrow> nat \<Rightarrow> rat \<Rightarrow> (conn, broker_version option option) py" where
  "check_version w depth n timeout =
     py_bind (c_ask w nv_now) (\<lambda>start. py_bind (c_ask w nv_now) (\<lambda>now.
     py_bind (connect_blocking w depth n (Some (start + timeout - now))) (\<lambda>r.
       case r of
         None \<Rightarrow> py_return None
       | Some False \<Rightarrow> py_raise NodeNotReadyError
       | Some True \<Rightarrow> py_get (\<lambda>s. Some (cn_api_version s)))))"

definition get_api_versions :: "conn_world \<Rightarrow> nat \<Rightarrow> nat \<Rightarrow> (conn, api_versions option option) py" where
  "get_api_versions w depth n =
     py_if (\<lambda>s. cn_api_versions s = None)
       (py_bind (check_version w depth n 2000) (\<lambda>r. case r of None \<Rightarrow> py_return None | Some _ \<Rightarrow> py_get (\<lambda>s. Some (cn_api_versions s))))
       (py_get (\<lambda>s. Some (cn_api_versions s)))"

end
