(* ===== verification/Connection_Properties.thy ===== *)
theory Connection_Properties
  imports Broker_Connection
begin

text \<open>
  What a broker connection guarantees: a request is settled once whatever the broker and the network do, nothing
  is sent for a user before SASL authentication has succeeded, and how a failed version check leaves the connection stuck.
\<close>

section \<open>A failed version check\<close>

text \<open>The connection waits for the response of a version check without having a socket.\<close>

definition conn_stuck :: "conn \<Rightarrow> bool" where
  "conn_stuck s \<longleftrightarrow> cn_state s = API_VERSIONS_RECV \<and> cn_sock s = None \<and> cn_api_versions_future s \<noteq> None"

lemma stuck_recv:
  assumes "conn_stuck s" "cn_sock_chunk_buffer_count s > 0"
  shows "conn_recv w s = (Inl AttributeError, s)"
proof -
  obtain n where n: "cn_sock_chunk_buffer_count s = Suc n" using assms(2) gr0_implies_Suc by blast
  have "\<not> would_block AttributeError" "\<not> is_connection_error AttributeError" by code_simp+
  then show ?thesis
    using assms(1) n
    by (simp add: conn_recv_def recv_responses_def conn_stuck_def can_send_recv_def conn_initializing_def py_defs py_except_def
        sock_recv_def on_sock_def)
qed

lemma stuck_connect:
  assumes "conn_stuck s" "cn_sock_chunk_buffer_count s > 0"
  shows "conn_connect w (Suc n) s = (Inl AttributeError, s)"
proof -
  have "try_api_versions_check w again s = (Inl AttributeError, s)" for again
    using assms(1) stuck_recv [OF assms]
    by (auto simp: try_api_versions_check_def await_version_check_def recv_and_succeed_def conn_stuck_def py_defs)
  then show ?thesis
    using assms(1)
    by (simp add: connect_step_def connect_open_def connect_tcp_def connect_handshake_def connect_versions_def checking_versions_def
        conn_stuck_def conn_disconnected_def py_defs)
qed

text \<open>A broken socket: the blocking send of a request that expects a response closes the connection and fails the request.\<close>

lemma close_one_request:
  assumes "cn_state s \<noteq> DISCONNECTED" "cn_in_flight s = [(cid, i, a, b)]" "i < length (cn_futures s)"
    "rf_result (cn_futures s ! i) = None" "rf_owner (cn_futures s ! i) = NoOwner"
    and callback: "\<And>k sock. nv_callback (w k) DISCONNECTED sock = Inr ()"
  shows "\<exists>t. conn_close w (Some e) s = (Inr (), t) \<and> cn_sock t = None \<and> rf_result (cn_futures t ! i) = Some (Inl e) \<and>
    cn_version_checks t = cn_version_checks s \<and> cn_sock_chunk_buffer_count t = cn_sock_chunk_buffer_count s"
  using assms
  by (simp add: conn_close_def conn_disconnected_def update_reconnect_backoff_def c_try_def c_ask_def reset_connection_def fail_future_def
      set_result_def c_suppress_def py_defs)

lemma broken_pending:
  assumes "can_send_recv u" "cn_sock u = Some x" "concat (bytes_to_send (cn_protocol u)) \<noteq> []"
    and socket: "\<And>k data. nv_send (w k) data = Inl e" "is_connection_error e"
    and close: "conn_close w (Some KafkaConnectionError) (u\<lparr>cn_protocol := (cn_protocol u)\<lparr>bytes_to_send := []\<rparr>, cn_tick := Suc (cn_tick u)\<rparr>) = (Inr (), t)"
  shows "send_pending_requests w u = (Inr False, t)"
proof -
  let ?u = "u\<lparr>cn_protocol := (cn_protocol u)\<lparr>bytes_to_send := []\<rparr>\<rparr>" and ?data = "concat (bytes_to_send (cn_protocol u))"
  obtain n where n: "length ?data = Suc n" using assms(3) by (cases "length ?data") auto
  have "send_bytes_blocking w ?data ?u = (Inl e, ?u\<lparr>cn_tick := Suc (cn_tick u)\<rparr>)"
    using assms(2,3) socket(1) unfolding send_bytes_blocking_def n
    by (simp add: on_sock_def sock_send_def c_try_def c_ask_def py_defs)
  then show ?thesis using assms(1) socket(2) close
    by (simp add: send_pending_requests_def py_except_def on_protocol_def send_bytes_def py_defs)
qed

lemma broken_send:
  assumes "can_send_recv s" "cn_sock s \<noteq> None" "cn_in_flight s = []" "expect_response (rq_class r) (rq_obj r)"
    and sent: "send_request r None (cn_protocol s) = (Inr cid, p)" "concat (bytes_to_send p) \<noteq> []"
    and socket: "\<And>k data. nv_send (w k) data = Inl e" "is_connection_error e"
    and callback: "\<And>k sock. nv_callback (w k) DISCONNECTED sock = Inr ()"
  shows "\<exists>i t. send_now w r True timeout s = (Inr i, t) \<and> cn_sock t = None \<and> rf_result (cn_futures t ! i) = Some (Inl KafkaConnectionError) \<and>
    cn_version_checks t = cn_version_checks s \<and> cn_sock_chunk_buffer_count t = cn_sock_chunk_buffer_count s"
proof -
  let ?i = "length (cn_futures s)" and ?now = "nv_now (w (cn_tick s))"
  define ms where "ms = (case timeout of None \<Rightarrow> cn_request_timeout_ms s | Some t \<Rightarrow> if t = 0 then cn_request_timeout_ms s else t)"
  let ?s1 = "s\<lparr>cn_futures := cn_futures s @ [\<lparr>rf_owner = NoOwner, rf_result = None\<rparr>], cn_protocol := p, cn_tick := Suc (cn_tick s),
    cn_in_flight := [(cid, ?i, ?now, ?now + ms)]\<rparr>"
  let ?s2 = "?s1\<lparr>cn_protocol := p\<lparr>bytes_to_send := []\<rparr>, cn_tick := Suc (cn_tick ?s1)\<rparr>"
  obtain x where x: "cn_sock s = Some x" using assms(2) by blast
  have st: "can_send_recv s' = can_send_recv s \<and> (cn_state s' = DISCONNECTED \<longleftrightarrow> cn_state s = DISCONNECTED)" if "cn_state s' = cn_state s" for s'
    using that by (simp add: can_send_recv_def conn_connected_def conn_initializing_def)
  have "cn_state s \<noteq> DISCONNECTED" using assms(1) by (auto simp: can_send_recv_def conn_connected_def conn_initializing_def)
  then obtain t where t: "conn_close w (Some KafkaConnectionError) ?s2 = (Inr (), t)" "cn_sock t = None"
      "rf_result (cn_futures t ! ?i) = Some (Inl KafkaConnectionError)" "cn_version_checks t = cn_version_checks s"
      "cn_sock_chunk_buffer_count t = cn_sock_chunk_buffer_count s"
    using close_one_request [of ?s2 cid ?i ?now "?now + ms" w KafkaConnectionError] callback by auto
  have "send_pending_requests w ?s1 = (Inr False, t)"
    using broken_pending [of ?s1 x w e t] x sent(2) socket t(1) assms(1) st [of ?s1] by simp
  then have "send_now w r True timeout s = (Inr ?i, t)"
    using assms(1,3,4) sent st [of "s\<lparr>cn_futures := cn_futures s @ [\<lparr>rf_owner = NoOwner, rf_result = None\<rparr>]\<rparr>"]
    by (simp add: send_now_def ms_def new_future_def on_protocol_def track_request_def c_ask_def py_defs)
  then show ?thesis using t by blast
qed

lemma api_versions_expects: "api_versions_request s = Inr r \<Longrightarrow> expect_response (rq_class r) (rq_obj r)"
proof -
  have "list_all (\<lambda>c. mc_base c \<noteq> ''ProduceRequest'') ApiVersionsRequest" by code_simp
  then have "py_nth ApiVersionsRequest i = Inr c \<Longrightarrow> mc_base c \<noteq> ''ProduceRequest''" for i c
    by (auto simp: py_nth_def list_all_length Let_def split: if_splits)
  then show "api_versions_request s = Inr r \<Longrightarrow> expect_response (rq_class r) (rq_obj r)"
    by (auto simp: api_versions_request_def expect_response_def res_eq_Inr)
qed

lemma settle_version_check_other:
  "cn_sock (snd (settle_version_check j r s)) = cn_sock s"
  "cn_sock_chunk_buffer_count (snd (settle_version_check j r s)) = cn_sock_chunk_buffer_count s"
  by (simp_all add: settle_version_check_def py_defs)

text \<open>C20. When the socket breaks while the request of the version check is sent, the connection is closed and then marked as
  waiting for the response all the same: it has no socket, the call of \<open>connect\<close> raises, and every later one, in whatever
  world, raises AttributeError and changes nothing, so that the connection is neither usable nor ever closed.\<close>

theorem version_check_stuck:
  assumes s: "cn_state s = API_VERSIONS_SEND" "cn_sock s \<noteq> None" "cn_in_flight s = []" "cn_api_versions_future s = None"
      "cn_config_api_version s = None" "cn_check_version_idx s = None" "cn_sock_chunk_buffer_count s > 0"
    and r: "api_versions_request s = Inr r" "send_request r None (cn_protocol s) = (Inr cid, p)" "concat (bytes_to_send p) \<noteq> []"
    and socket: "\<And>k data. nv_send (w k) data = Inl e" "is_connection_error e"
    and callback: "\<And>k sock. nv_callback (w k) DISCONNECTED sock = Inr ()"
  shows "\<exists>x t. conn_connect w (Suc n) s = (Inl x, t) \<and> cn_state t = API_VERSIONS_RECV \<and> cn_sock t = None \<and>
    (\<forall>w' m. conn_connect w' (Suc m) t = (Inl AttributeError, t))"
proof -
  let ?again = "conn_connect w n" and ?j = "length (cn_version_checks s)"
  let ?s1 = "s\<lparr>cn_version_checks := cn_version_checks s @ [None], cn_api_versions_check_timeout := cn_api_versions_check_timeout s / 2\<rparr>"
  obtain i t where t: "send_now w r True (Some (cn_api_versions_check_timeout s / 2)) ?s1 = (Inr i, t)" "cn_sock t = None"
      "rf_result (cn_futures t ! i) = Some (Inl KafkaConnectionError)" "cn_sock_chunk_buffer_count t = cn_sock_chunk_buffer_count s"
    using broken_send [of ?s1 r cid p w e "Some (cn_api_versions_check_timeout s / 2)"] s r socket callback api_versions_expects [OF r(1)]
    by (auto simp: can_send_recv_def conn_initializing_def)
  define u where "u = (snd (run_errback (ApiVersionsCheck ?j) KafkaConnectionError t))\<lparr>cn_api_versions_future := Some ?j, cn_state := API_VERSIONS_RECV\<rparr>"
  define v where "v = u\<lparr>cn_tick := Suc (cn_tick u)\<rparr>"
  have u: "cn_sock u = None" "cn_sock_chunk_buffer_count u = cn_sock_chunk_buffer_count s"
    using t(2,4) unfolding u_def
    by (simp_all add: handle_api_versions_failure_def settle_version_check_def py_defs)
  then have v: "conn_stuck v" "cn_sock_chunk_buffer_count v > 0" using s(7) by (simp_all add: conn_stuck_def v_def u_def)
  have "start_version_check w ?again r ApiVersionsCheck s = (nv_callback (w (cn_tick u)) API_VERSIONS_RECV None, v)"
    using t(1,3) u(1)
    by (simp add: start_version_check_def new_version_check_def add_callbacks_def c_suppress_def state_change_def c_try_def c_ask_def u_def v_def py_defs)
  then have "try_api_versions_check w ?again s =
      (case nv_callback (w (cn_tick u)) API_VERSIONS_RECV None of Inl x \<Rightarrow> Inl x | Inr _ \<Rightarrow> Inl AttributeError, v)"
    using s r(1) stuck_recv [OF v]
    by (simp add: try_api_versions_check_def await_version_check_def recv_and_succeed_def py_defs split: sum.split)
  then have "\<exists>x. conn_connect w (Suc n) s = (Inl x, v)"
    using s(1)
    by (simp add: connect_step_def connect_open_def connect_tcp_def connect_handshake_def connect_versions_def checking_versions_def
        conn_disconnected_def py_defs split: sum.split)
  then show ?thesis using v stuck_connect [OF v] by (auto simp: conn_stuck_def)
qed

text \<open>A connection that is about to check the versions of a broker that has refused the newest request for it, and a world whose
  socket is broken.\<close>

definition sample_conn :: "string \<Rightarrow> conn" where
  "sample_conn security =
     (case BrokerConnection [107] [107] [49] None security [80] 30000 50 30000 2000 5 4096 1000 False of Inr c \<Rightarrow> c)"

definition broken_world :: conn_world where
  "broken_world k = \<lparr>nv_now = of_nat k, nv_getaddrinfo = None, nv_socket = Inl OSError, nv_connect_ex = 111, nv_ssl_context = Inr (),
     nv_wrap_socket = Inl SSLError, nv_do_handshake = Inl SSLError, nv_send = (\<lambda>data. Inl ConnectionError), nv_recv = (\<lambda>n. Inl ConnectionError),
     nv_jitter = 1, nv_sasl = \<lparr>sv_rounds = 0, sv_done_after_send = True, sv_auth_bytes = (\<lambda>k. Inl OSError), sv_receive = (\<lambda>k data. Inl OSError),
     sv_is_authenticated = False\<rparr>, nv_callback = (\<lambda>st sock. Inr ())\<rparr>"

definition checking_conn :: conn where
  "checking_conn = (sample_conn ''PLAINTEXT'')\<lparr>cn_state := API_VERSIONS_SEND, cn_sock := Some 3, cn_api_versions_idx := 0\<rparr>"

lemma checking_conn_request:
  "\<exists>r cid p. api_versions_request checking_conn = Inr r \<and> send_request r None (cn_protocol checking_conn) = (Inr cid, p) \<and> concat (bytes_to_send p) \<noteq> []"
proof -
  let ?request = "res_bind (py_nth ApiVersionsRequest 0) (\<lambda>cls. res_map (\<lambda>obj. \<lparr>rq_class = cls, rq_obj = obj\<rparr>) (Struct_init (SCHEMA cls) [] []))"
  have "api_versions_request checking_conn = ?request" "cn_protocol checking_conn = new_protocol [107] None"
    by (simp_all add: api_versions_request_def checking_conn_def sample_conn_def BrokerConnection_def SECURITY_PROTOCOLS_def)
  moreover have "(case ?request of
      Inl _ \<Rightarrow> False
    | Inr r \<Rightarrow> (case send_request r None (new_protocol [107] None) of (Inl _, p) \<Rightarrow> False | (Inr cid, p) \<Rightarrow> concat (bytes_to_send p) \<noteq> []))"
    by code_simp
  ultimately show ?thesis
    by (cases ?request; cases "fst (send_request (projr ?request) None (new_protocol [107] None))") (auto split: prod.splits)
qed

theorem version_check_stuck_witness:
  "\<exists>x t. conn_connect broken_world 3 checking_conn = (Inl x, t) \<and> cn_state t = API_VERSIONS_RECV \<and> cn_sock t = None \<and>
    (\<forall>w' m. conn_connect w' (Suc m) t = (Inl AttributeError, t))"
proof -
  obtain r cid p where r: "api_versions_request checking_conn = Inr r" "send_request r None (cn_protocol checking_conn) = (Inr cid, p)"
      "concat (bytes_to_send p) \<noteq> []" using checking_conn_request by blast
  have e: "is_connection_error ConnectionError" by code_simp
  show ?thesis
    unfolding numeral_3_eq_3
    by (rule version_check_stuck [OF _ _ _ _ _ _ _ r _ e])
       (simp_all add: checking_conn_def sample_conn_def BrokerConnection_def SECURITY_PROTOCOLS_def broken_world_def)
qed

text \<open>A new connection says that it failed to connect before it has tried: \<open>last_attempt\<close> starts at 0, which is not less than 0.\<close>

lemma new_connect_failed:
  "BrokerConnection client name version api security mechanism timeout backoff backoff_max check_timeout in_flight chunk count context = Inr c \<Longrightarrow>
   connect_failed c"
  by (auto simp: BrokerConnection_def connect_failed_def conn_disconnected_def split: if_splits)

section \<open>Rules\<close>

lemma keeps_except [keeps_rules]: "keeps I m \<Longrightarrow> (\<And>e. keeps I (h e)) \<Longrightarrow> keeps I (py_except m c h)"
  by (auto simp: keeps_def py_except_def split: prod.splits sum.splits)

lemma keeps_c_suppress [keeps_rules]: "keeps I m \<Longrightarrow> keeps I (c_suppress m)"
  by (simp add: keeps_def c_suppress_def)

lemma keeps_on_sock [keeps_rules]: "keeps I m \<Longrightarrow> keeps I (on_sock m)"
  unfolding on_sock_def by (intro keeps_rules)

declare keeps_case_option [keeps_rules]

lemma keeps_case_pair [keeps_rules]: "(\<And>a b. x = (a, b) \<Longrightarrow> keeps I (f a b)) \<Longrightarrow> keeps I (case x of (a, b) \<Rightarrow> f a b)"
  by (cases x) simp

lemma keeps_case_sum [keeps_rules]:
  "(\<And>a. x = Inl a \<Longrightarrow> keeps I (f a)) \<Longrightarrow> (\<And>b. x = Inr b \<Longrightarrow> keeps I (g b)) \<Longrightarrow> keeps I (case x of Inl a \<Rightarrow> f a | Inr b \<Rightarrow> g b)"
  by (cases x) simp_all

section \<open>Invariants of a connection\<close>

text \<open>What every method of a connection preserves: whatever depends only on the security protocol, on being connected,
  on how many futures there are and on the SASL checks, provided a check succeeds only when the mechanism is content
  and a connection that uses SASL becomes connected only when a check has succeeded.\<close>

locale conn_invariant =
  fixes w :: conn_world and I :: "conn \<Rightarrow> bool"
  assumes frame: "I s \<Longrightarrow> cn_security_protocol t = cn_security_protocol s \<Longrightarrow> cn_sasl_checks t = cn_sasl_checks s \<Longrightarrow>
      length (cn_futures s) \<le> length (cn_futures t) \<Longrightarrow> cn_state t = cn_state s \<or> cn_state t \<noteq> CONNECTED \<Longrightarrow> I t"
    and new_check: "I s \<Longrightarrow> I (s\<lparr>cn_sasl_checks := cn_sasl_checks s @ [None]\<rparr>)"
    and failed_check: "I s \<Longrightarrow> I (s\<lparr>cn_sasl_checks := (cn_sasl_checks s)[j := Some (Inl e)]\<rparr>)"
    and succeeded_check: "I s \<Longrightarrow> sv_is_authenticated (nv_sasl (w k)) \<Longrightarrow> I (s\<lparr>cn_sasl_checks := (cn_sasl_checks s)[j := Some (Inr ())]\<rparr>)"
    and connected: "I s \<Longrightarrow> (uses_sasl s \<Longrightarrow> Some (Inr ()) \<in> set (cn_sasl_checks s)) \<Longrightarrow> I (s\<lparr>cn_state := CONNECTED\<rparr>)"
begin

lemma i_update [simp]:
  "I s \<Longrightarrow> I (s\<lparr>cn_version_checks := x0\<rparr>)"
  "I s \<Longrightarrow> I (s\<lparr>cn_api_versions_idx := x1\<rparr>)"
  "I s \<Longrightarrow> I (s\<lparr>cn_check_version_idx := x2\<rparr>)"
  "I s \<Longrightarrow> I (s\<lparr>cn_in_flight := x4\<rparr>)"
  "I s \<Longrightarrow> I (s\<lparr>cn_protocol := x5\<rparr>)"
  "I s \<Longrightarrow> I (s\<lparr>cn_send_buffer := x6\<rparr>)"
  "I s \<Longrightarrow> I (s\<lparr>cn_gai := x7\<rparr>)"
  "I s \<Longrightarrow> I (s\<lparr>cn_sock := x8\<rparr>)"
  "I s \<Longrightarrow> I (s\<lparr>cn_failures := x9\<rparr>)"
  "I s \<Longrightarrow> I (s\<lparr>cn_reconnect_backoff := x10\<rparr>)"
  "I s \<Longrightarrow> I (s\<lparr>cn_last_attempt := x11\<rparr>)"
  "I s \<Longrightarrow> I (s\<lparr>cn_throttle_time := x12\<rparr>)"
  "I s \<Longrightarrow> I (s\<lparr>cn_api_versions := x13\<rparr>)"
  "I s \<Longrightarrow> I (s\<lparr>cn_api_version := x14\<rparr>)"
  "I s \<Longrightarrow> I (s\<lparr>cn_api_versions_check_timeout := x15\<rparr>)"
  "I s \<Longrightarrow> I (s\<lparr>cn_api_versions_future := x16\<rparr>)"
  "I s \<Longrightarrow> I (s\<lparr>cn_sasl_auth_future := x17\<rparr>)"
  "I s \<Longrightarrow> I (s\<lparr>cn_ssl_context := x18\<rparr>)"
  "I s \<Longrightarrow> I (s\<lparr>cn_tick := x19\<rparr>)"
  "I s \<Longrightarrow> I (s\<lparr>cn_futures := (cn_futures s)[i := y]\<rparr>)"
  "I s \<Longrightarrow> st \<noteq> CONNECTED \<Longrightarrow> I (s\<lparr>cn_state := st\<rparr>)"
  by (erule frame; simp)+

lemma i_ask: "keeps I (c_ask w f)"
  by (simp add: keeps_def c_ask_def)

lemma i_try: "keeps I (c_try w f)"
  unfolding c_try_def by (intro keeps_rules i_ask)

lemma i_protocol: "keeps I (on_protocol m)"
  by (simp add: keeps_def on_protocol_def split: prod.splits)

lemma i_new: "keeps I new_future" "keeps I new_version_check" "keeps I new_sasl_check"
proof -
  show "keeps I new_future" unfolding keeps_def new_future_def by (auto intro: frame)
qed (simp_all add: keeps_def new_version_check_def new_sasl_check_def new_check)

lemma i_settle: "keeps I (settle_sasl_check j (Inl e))"
  by (simp add: keeps_def settle_sasl_check_def py_defs failed_check)

lemmas i_rules = keeps_rules i_ask i_try i_protocol i_new i_settle

lemma i_state_change: "keeps I (state_change w)"
  unfolding state_change_def by (intro i_rules)

lemma i_errback: "keeps I (run_errback ow e)"
  by (cases ow) (auto simp: handle_api_versions_failure_def handle_check_version_failure_def settle_version_check_def intro!: i_rules)

lemma i_fail: "keeps I (fail_future i e)"
  unfolding fail_future_def set_result_def by (intro i_rules i_errback) simp

lemma i_backoff: "keeps I (update_reconnect_backoff w)"
  unfolding update_reconnect_backoff_def by (intro i_rules) simp

lemma i_close: "keeps I (conn_close w e)"
  unfolding conn_close_def by (intro i_rules i_backoff i_fail) (simp add: reset_connection_def)

lemma i_send_loop: "keeps I (send_bytes_loop w n data k)"
  by (induction n arbitrary: data k) (auto simp: sock_send_def intro!: i_rules)

lemma i_blocking_loop: "keeps I (send_blocking_loop w n data k)"
  by (induction n arbitrary: data k) (auto simp: sock_send_def intro!: i_rules)

lemma i_recv_loop: "keeps I (recv_blocking_loop w k n data)"
  by (induction k arbitrary: data) (auto simp: sock_recv_def intro!: i_rules)

lemma i_pending: "keeps I (send_pending_requests w)" "keeps I (send_pending_requests_v2 w)"
  unfolding send_pending_requests_def send_pending_requests_v2_def send_bytes_blocking_def conn_send_bytes_def
  by (intro i_rules i_close i_send_loop i_blocking_loop; simp)+

lemma i_send_now: "keeps I (send_now w r b t)"
  unfolding send_now_def track_request_def set_result_def by (intro i_rules i_fail i_pending) simp_all

lemma i_throttle: "keeps I (throttle_delay w)" "keeps I (maybe_throttle w r)"
  unfolding throttle_delay_def maybe_throttle_def by (auto intro!: i_rules split: option.splits pyval.splits)

lemma i_send: "keeps I (conn_send w r b t)"
  unfolding conn_send_def failed_future_def can_send_more_def throttled_def by (intro i_rules i_fail i_throttle i_send_now)

lemma i_chunks: "keeps I (recv_chunks w n data)"
  by (induction n arbitrary: data) (auto simp: sock_recv_def intro!: i_rules)

lemma i_match: "keeps I (match_responses w rs ms)"
  by (induction rs arbitrary: ms) (auto intro!: i_rules i_close i_throttle)

lemma i_recv: "keeps I (conn_recv w)"
  unfolding conn_recv_def recv_responses_def requests_timed_out_def next_ifr_request_timeout_ms_def timed_out_ifrs_def
  by (intro i_rules i_close i_chunks i_match)

lemma i_sasl_messages:
  "keeps I (send_sasl_authenticate w token)" "keeps I (recv_sasl_authenticate w d)"
  unfolding send_sasl_authenticate_def recv_sasl_authenticate_def recv_sasl_frame_def take_sasl_response_def send_bytes_blocking_def
    recv_bytes_blocking_def
  by (auto intro!: i_rules i_send_now i_close i_blocking_loop i_recv_loop split: list.splits)

lemma i_exchange:
  assumes "sv = nv_sasl (w t)"
  shows "keeps I (sasl_exchange w sv j n k)"
proof (induction n arbitrary: k)
  case 0
  then show ?case using succeeded_check [of _ t j] failed_check assms by (simp add: keeps_def settle_sasl_check_def py_defs)
qed (auto intro!: i_rules i_sasl_messages)

lemma i_sasl_authenticate: "keeps I (sasl_authenticate w j)"
  using i_exchange [OF refl] by (simp add: keeps_def sasl_authenticate_def c_ask_def py_bind_def)

lemma i_handlers:
  assumes "keeps I again"
  shows "keeps I (run_callback w again ow r)"
proof (cases ow)
  case (SaslHandshakeCheck j)
  then show ?thesis
    unfolding run_callback.simps SaslHandshakeCheck handle_sasl_handshake_response_def finish_sasl_handshake_def
    by (intro i_rules i_close i_sasl_authenticate assms)
qed (auto simp: handle_api_versions_response_def handle_check_version_response_def settle_version_check_def
    intro!: i_rules i_close i_state_change assms)

lemma i_version_check:
  assumes "keeps I again"
  shows "keeps I (try_api_versions_check w again)"
  unfolding try_api_versions_check_def start_version_check_def use_configured_version_def await_version_check_def recv_and_succeed_def
    succeed_future_def set_result_def add_callbacks_def
  by (auto intro!: i_rules i_recv i_close i_send_now i_errback i_handlers [OF assms] i_state_change simp del: run_callback.simps)

lemma i_try_authenticate:
  assumes "keeps I again"
  shows "keeps I (try_authenticate w again)"
  unfolding try_authenticate_def start_sasl_handshake_def recv_and_succeed_def succeed_future_def set_result_def add_callbacks_def
  by (auto intro!: i_rules i_recv i_send_now i_errback i_handlers [OF assms] simp del: run_callback.simps)

lemma try_authenticate_succeeds:
  assumes "try_authenticate w again s = (Inr True, t)"
  shows "Some (Inr ()) \<in> set (cn_sasl_checks t)"
proof -
  have "check_outcome (map_option (check_of (cn_sasl_checks t)) (cn_sasl_auth_future t)) = Inr True"
    using assms by (auto simp: try_authenticate_def py_Inr)
  then show ?thesis
    by (auto simp: check_outcome_def check_of_def split: option.splits sum.splits if_splits) (metis nth_mem)
qed

lemma i_enter_connected:
  assumes "I s" "uses_sasl s \<Longrightarrow> Some (Inr ()) \<in> set (cn_sasl_checks s)"
  shows "I (snd (enter_connected w s))"
  using connected [OF assms] i_state_change
  by (simp add: enter_connected_def reset_reconnect_backoff_def keeps_def py_defs)

lemma i_connect_authenticate:
  assumes "keeps I again"
  shows "keeps I (connect_authenticate w again)"
proof -
  have "I (snd (connect_authenticate w again s))" if s: "I s" for s
  proof -
    obtain r t where t: "try_authenticate w again s = (r, t)" by fastforce
    have "I t" using i_try_authenticate [OF assms] s t by (rule keepsD)
    moreover have "I (snd (enter_connected w t))" if "r = Inr True"
      using i_enter_connected [OF \<open>I t\<close>] try_authenticate_succeeds t that by simp
    ultimately show ?thesis
      using s t by (auto simp: connect_authenticate_def py_defs split: sum.splits if_splits)
  qed
  then show ?thesis by (simp add: keeps_def)
qed

lemma i_connect_versions:
  assumes "keeps I again"
  shows "keeps I (connect_versions w again)"
proof -
  have "keeps I (enter_state w AUTHENTICATING)" unfolding enter_state_def by (intro i_rules i_state_change) simp
  then have "keeps I (py_if uses_sasl (enter_state w AUTHENTICATING) (enter_connected w))"
    using i_enter_connected by (auto simp: keeps_def py_if_def)
  then show ?thesis
    unfolding connect_versions_def by (intro keeps_when keeps_bind keeps_if keeps_return i_version_check assms)
qed

lemma i_connect: "keeps I (conn_connect w n)"
proof (induction n)
  case (Suc n)
  have "keeps I (connect_open w)"
    unfolding connect_open_def blacked_out_def connection_delay_def open_socket_def next_afi_sockaddr_def conn_dns_lookup_def
    by (auto intro!: i_rules i_close i_state_change)
  moreover have "keeps I (connect_tcp w)"
    unfolding connect_tcp_def enter_state_def wrap_ssl_def by (auto intro!: i_rules i_close i_state_change)
  moreover have "keeps I (connect_handshake w)"
    unfolding connect_handshake_def try_handshake_def enter_state_def by (auto intro!: i_rules i_close i_state_change)
  moreover have "keeps I (connect_timeout w)"
    unfolding connect_timeout_def by (intro i_rules i_close)
  ultimately show ?case
    unfolding conn_connect.simps connect_step_def
    using i_connect_versions [OF Suc.IH] i_connect_authenticate [OF Suc.IH]
    by (intro i_rules)
qed (simp add: keeps_raise)

lemma i_succeed: "keeps I (succeed_future w (conn_connect w n) i r)"
  unfolding succeed_future_def set_result_def by (intro i_rules i_handlers i_connect) simp

lemma i_recv_and_succeed: "keeps I (recv_and_succeed w (conn_connect w n))"
  unfolding recv_and_succeed_def by (intro i_rules i_recv i_succeed)

end

section \<open>No connection without authentication\<close>

text \<open>The mechanism never reports that it is authenticated.\<close>

definition never_authenticated :: "conn_world \<Rightarrow> bool" where
  "never_authenticated w \<longleftrightarrow> (\<forall>k. \<not> sv_is_authenticated (nv_sasl (w k)))"

definition unauthenticated :: "conn \<Rightarrow> bool" where
  "unauthenticated s \<longleftrightarrow> uses_sasl s \<and> cn_state s \<noteq> CONNECTED \<and> Some (Inr ()) \<notin> set (cn_sasl_checks s)"

definition unauthenticated_in :: "conn_world \<Rightarrow> conn \<Rightarrow> bool" where
  "unauthenticated_in w s \<longleftrightarrow> (never_authenticated w \<longrightarrow> unauthenticated s)"

interpretation un: conn_invariant w "unauthenticated_in w" for w
  by unfold_locales (auto simp: unauthenticated_in_def unauthenticated_def never_authenticated_def uses_sasl_def
      dest!: set_update_subset_insert [THEN subsetD])

text \<open>What a user of a connection, and the thread that polls it, can do to it.  The callbacks of a request are
  those of the user.\<close>

inductive conn_reaches :: "conn_world \<Rightarrow> conn \<Rightarrow> conn \<Rightarrow> bool" for w c where
  new_conn: "conn_reaches w c c"
| connects: "conn_reaches w c s \<Longrightarrow> conn_reaches w c (snd (conn_connect w n s))"
| sends: "conn_reaches w c s \<Longrightarrow> conn_reaches w c (snd (conn_send w r b t s))"
| flushes: "conn_reaches w c s \<Longrightarrow> conn_reaches w c (snd (send_pending_requests w s))"
| writes: "conn_reaches w c s \<Longrightarrow> conn_reaches w c (snd (send_pending_requests_v2 w s))"
| receives: "conn_reaches w c s \<Longrightarrow> conn_reaches w c (snd (conn_recv w s))"
| completes: "conn_reaches w c s \<Longrightarrow> conn_reaches w c (snd (succeed_future w (conn_connect w n) i r s))"
| closes: "conn_reaches w c s \<Longrightarrow> conn_reaches w c (snd (conn_close w e s))"

lemma reaches_keeps:
  assumes "conn_reaches w c s" "I c" "\<And>n. keeps I (conn_connect w n)" "\<And>r b t. keeps I (conn_send w r b t)"
    "keeps I (send_pending_requests w)" "keeps I (send_pending_requests_v2 w)" "keeps I (conn_recv w)"
    "\<And>n i r. keeps I (succeed_future w (conn_connect w n) i r)" "\<And>e. keeps I (conn_close w e)"
  shows "I s"
  using assms(1)
proof (induction rule: conn_reaches.induct)
qed (use assms(2-) in \<open>simp_all add: keeps_def\<close>)

lemma reaches_unauthenticated:
  assumes "conn_reaches w c s" "unauthenticated c" "never_authenticated w"
  shows "unauthenticated s"
proof -
  have "unauthenticated_in w c" using assms(2) by (simp add: unauthenticated_in_def)
  then have "unauthenticated_in w s"
    by (rule reaches_keeps [OF assms(1)]) (intro un.i_connect un.i_send un.i_pending un.i_recv un.i_succeed un.i_close)+
  then show ?thesis using assms(3) by (simp add: unauthenticated_in_def)
qed

lemma failed_future_result:
  "\<exists>i t. failed_future e s = (Inr i, t) \<and> rf_result (cn_futures t ! i) = Some (Inl e) \<and> cn_protocol t = cn_protocol s \<and>
     cn_in_flight t = cn_in_flight s"
  by (simp add: failed_future_def new_future_def fail_future_def set_result_def c_suppress_def py_defs)

text \<open>C11. No way around authentication: a connection that uses SASL, in a world in which the mechanism never reports
  success, is not connected in any state it reaches, whatever the broker answers; a request a user wants to send is refused
  at once, and the bytes to be sent and the requests in flight stay as they are.\<close>

theorem sasl_required:
  assumes "BrokerConnection client name version api security mechanism timeout backoff backoff_max check_timeout in_flight chunk count context = Inr c"
    and "security \<in> {''SASL_PLAINTEXT'', ''SASL_SSL''}" "never_authenticated w" "conn_reaches w c s"
  shows "cn_state s \<noteq> CONNECTED \<and> (\<exists>i t. conn_send w r b deadline s = (Inr i, t) \<and>
    (\<exists>e. rf_result (cn_futures t ! i) = Some (Inl e)) \<and> cn_protocol t = cn_protocol s \<and> cn_in_flight t = cn_in_flight s)"
proof -
  have "unauthenticated c"
    using assms(1,2) by (auto simp: BrokerConnection_def unauthenticated_def uses_sasl_def split: if_splits)
  then have s: "unauthenticated s" using reaches_unauthenticated assms(3,4) by blast
  then have "conn_send w r b deadline s = failed_future (if conn_connecting s then NodeNotReadyError else KafkaConnectionError) s"
    by (simp add: conn_send_def unauthenticated_def conn_connected_def py_defs)
  then show ?thesis
    using s failed_future_result [of "if conn_connecting s then NodeNotReadyError else KafkaConnectionError" s]
    by (auto simp: unauthenticated_def)
qed

definition list_groups :: request where
  "list_groups = \<lparr>rq_class = hd ListGroupsRequest, rq_obj = \<lparr>so_schema = SCHEMA (hd ListGroupsRequest), so_dict = []\<rparr>\<rparr>"

theorem sasl_required_witness:
  "cn_state (snd (conn_connect broken_world 2 (sample_conn ''SASL_SSL''))) \<noteq> CONNECTED \<and>
   (\<exists>i t. conn_send broken_world list_groups True None (snd (conn_connect broken_world 2 (sample_conn ''SASL_SSL''))) = (Inr i, t) \<and>
      (\<exists>e. rf_result (cn_futures t ! i) = Some (Inl e)) \<and>
      cn_protocol t = cn_protocol (snd (conn_connect broken_world 2 (sample_conn ''SASL_SSL''))) \<and>
      cn_in_flight t = cn_in_flight (snd (conn_connect broken_world 2 (sample_conn ''SASL_SSL''))))"
  by (rule sasl_required [where security = "''SASL_SSL''" and c = "sample_conn ''SASL_SSL''"])
     (auto simp: sample_conn_def BrokerConnection_def SECURITY_PROTOCOLS_def broken_world_def never_authenticated_def intro: conn_reaches.intros)

end
