(* ===== verification/Connection_Requests.thy ===== *)
theory Connection_Requests
  imports Connection_Properties
begin

text \<open>
  The requests of a connection: each that is handed out is in exactly one place, in flight, received and waiting to be
  completed, or settled; what the broker sends, when sockets break and what is called in which order do not matter.
\<close>

section \<open>The protocol's queue\<close>

lemma read_header_queue:
  "read_header data p = (r, q) \<Longrightarrow> in_flight_requests q = in_flight_requests p \<and> correlation_id q = correlation_id p"
  by (auto simp: read_header_def Let_def split: if_splits sum.splits prod.splits)

lemma read_payload_queue:
  assumes "read_payload data p = (r, q)"
  shows "correlation_id q = correlation_id p \<and>
    (case r of Inr (Some (resp, _)) \<Rightarrow> \<exists>rq. in_flight_requests p = (fst resp, rq) # in_flight_requests q
     | Inr None \<Rightarrow> in_flight_requests q = in_flight_requests p
     | Inl e \<Rightarrow> \<exists>k. in_flight_requests q = drop k (in_flight_requests p))"
proof -
  have "\<exists>k. xs = drop k xs" "\<exists>k. ys = drop k (y # ys)" for xs ys :: "(int \<times> request) list" and y
    by (metis drop0, metis drop_Suc_Cons drop0)
  then show ?thesis
    using assms
    by (auto simp: read_payload_def finish_payload_def process_response_def decode_response_def reset_buffer_def Let_def res_eq_Inr
        split: option.splits if_splits sum.splits prod.splits list.splits)
qed

lemma receive_loop_queue:
  "receive_loop data acc p = (r, q) \<Longrightarrow> correlation_id q = correlation_id p \<and>
     (\<exists>k. in_flight_requests q = drop k (in_flight_requests p) \<and>
       (\<forall>rs. r = Inr rs \<longrightarrow> map fst rs = map fst acc @ map fst (take k (in_flight_requests p))))"
proof (induction data acc p arbitrary: r q rule: receive_loop.induct)
  case (1 data acc p)
  show ?case
  proof (cases "data = []")
    case True
    then show ?thesis using "1.prems" by (auto simp: receive_loop.simps intro: exI [of _ 0])
  next
    case data: False
    obtain h t where h: "read_header data p = (h, t)" by fastforce
    note head = read_header_queue [OF h]
    show ?thesis
    proof (cases h)
      case (Inl e)
      then show ?thesis using "1.prems" data h head by (auto simp: receive_loop.simps [of data] intro: exI [of _ 0])
    next
      case (Inr rest)
      show ?thesis
      proof (cases "receiving t")
        case False
        then have "receive_loop rest acc t = (r, q)"
          using "1.prems" data h Inr by (simp add: receive_loop.simps [of data])
        then show ?thesis using "1.IH"(1) [OF data h [symmetric] Inr False] head by simp
      next
        case True
        obtain b u where b: "read_payload rest t = (b, u)" by fastforce
        note body = read_payload_queue [OF b]
        consider (err) e where "b = Inl e" | (partial) "b = Inr None" | (whole) resp rest' where "b = Inr (Some (resp, rest'))"
          by (metis not_None_eq sum.exhaust surj_pair)
        then show ?thesis
        proof cases
          case err
          then show ?thesis using "1.prems" data h Inr True b body head by (auto simp: receive_loop.simps [of data])
        next
          case partial
          then show ?thesis using "1.prems" data h Inr True b body head by (auto simp: receive_loop.simps [of data] intro: exI [of _ 0])
        next
          case whole
          obtain rq where rq: "in_flight_requests p = (fst resp, rq) # in_flight_requests u" using body head whole by auto
          have loop: "receive_loop rest' (acc @ [resp]) u = (r, q)"
            using "1.prems" data h Inr True b whole by (simp add: receive_loop.simps [of data])
          obtain k where k: "correlation_id q = correlation_id u" "in_flight_requests q = drop k (in_flight_requests u)"
              "\<forall>rs. r = Inr rs \<longrightarrow> map fst rs = map fst (acc @ [resp]) @ map fst (take k (in_flight_requests u))"
            using "1.IH"(2) [OF data h [symmetric] Inr _ b [symmetric] whole refl refl loop] True by blast
          then show ?thesis using body head rq whole by (intro conjI exI [of _ "Suc k"]) auto
        qed
      qed
    qed
  qed
qed

lemma receive_bytes_queue:
  "receive_bytes data p = (r, q) \<Longrightarrow> correlation_id q = correlation_id p \<and>
     (\<exists>k. in_flight_requests q = drop k (in_flight_requests p) \<and> (\<forall>rs. r = Inr rs \<longrightarrow> map fst rs = map fst (take k (in_flight_requests p))))"
  using receive_loop_queue [of data "[]"] by (auto simp: receive_bytes_def)

lemma send_request_queue:
  "send_request rq None p = (r, q) \<Longrightarrow> correlation_id q = (correlation_id p + 1) mod 2 ^ 31 \<and>
     in_flight_requests q = in_flight_requests p @
       (case r of Inr cid \<Rightarrow> if expect_response (rq_class rq) (rq_obj rq) then [(cid, rq)] else [] | Inl _ \<Rightarrow> []) \<and>
     (\<forall>cid. r = Inr cid \<longrightarrow> cid = correlation_id q)"
  by (auto simp: send_request_def next_correlation_id_def py_defs split: prod.splits sum.splits if_splits)

section \<open>The invariant\<close>

definition flying :: "conn \<Rightarrow> nat set" where
  "flying s = (\<lambda>(_, i, _). i) ` set (cn_in_flight s)"

definition settled :: "conn \<Rightarrow> nat \<Rightarrow> bool" where
  "settled s i \<longleftrightarrow> i < length (cn_futures s) \<and> rf_result (cn_futures s ! i) \<noteq> None"

text \<open>Without SASL: requests in flight, and those of a set that were received, are not settled; each correlation id
  the protocol waits for is that of a request in flight; ids are given out in order.\<close>

definition requests_ok :: "nat set \<Rightarrow> conn \<Rightarrow> bool" where
  "requests_ok D s \<longleftrightarrow>
     \<not> uses_sasl s \<and> cn_state s \<noteq> AUTHENTICATING \<and> (\<forall>f \<in> set (cn_futures s). \<forall>j. rf_owner f \<noteq> SaslHandshakeCheck j) \<and>
     (\<forall>i \<in> flying s \<union> D. i < length (cn_futures s) \<and> rf_result (cn_futures s ! i) = None) \<and> flying s \<inter> D = {} \<and>
     distinct (map (\<lambda>(_, i, _). i) (cn_in_flight s)) \<and> distinct (map fst (cn_in_flight s)) \<and>
     (\<forall>cid \<in> fst ` set (cn_in_flight s). cid \<le> correlation_id (cn_protocol s)) \<and>
     0 \<le> correlation_id (cn_protocol s) \<and> correlation_id (cn_protocol s) \<le> int (length (cn_futures s)) \<and>
     distinct (map fst (in_flight_requests (cn_protocol s))) \<and>
     fst ` set (in_flight_requests (cn_protocol s)) \<subseteq> fst ` set (cn_in_flight s) \<and>
     (cn_state s = DISCONNECTED \<longrightarrow> cn_in_flight s = [])"

text \<open>What happens to the requests of an earlier state: a result is final, and one in flight stays so or is settled.\<close>

definition requests_from :: "conn \<Rightarrow> conn \<Rightarrow> bool" where
  "requests_from s0 s \<longleftrightarrow>
     (\<forall>i. settled s0 i \<longrightarrow> settled s i \<and> rf_result (cn_futures s ! i) = rf_result (cn_futures s0 ! i)) \<and>
     (\<forall>i \<in> flying s0. i \<in> flying s \<or> settled s i)"

text \<open>Correlation ids do not wrap around while fewer than \<open>2 ^ 31\<close> futures have been made.\<close>

definition few_requests :: "conn \<Rightarrow> bool" where
  "few_requests s \<longleftrightarrow> int (length (cn_futures s)) < 2 ^ 31"

definition requests_kept :: "nat set \<Rightarrow> conn \<Rightarrow> conn \<Rightarrow> bool" where
  "requests_kept D s0 s \<longleftrightarrow>
     length (cn_futures s0) \<le> length (cn_futures s) \<and> (few_requests s \<longrightarrow> requests_ok D s \<and> requests_from s0 s)"

lemma requests_kept_refl: "requests_ok D s \<Longrightarrow> requests_kept D s s"
  by (simp add: requests_kept_def requests_from_def)

lemma requests_from_trans: "requests_from s t \<Longrightarrow> requests_from t u \<Longrightarrow> requests_from s u"
  unfolding requests_from_def by (metis (no_types, lifting))

lemma requests_kept_trans:
  assumes "requests_kept D s0 s" "few_requests s \<Longrightarrow> requests_ok D s \<Longrightarrow> requests_kept D s t" "length (cn_futures s) \<le> length (cn_futures t)"
  shows "requests_kept D s0 t"
proof -
  have "few_requests t \<Longrightarrow> few_requests s" using assms(3) by (simp add: few_requests_def)
  then show ?thesis
    using assms unfolding requests_kept_def by (auto intro: requests_from_trans order_trans)
qed

text \<open>What the requests depend on.\<close>

lemma requests_same:
  assumes "cn_futures t = cn_futures s" "cn_in_flight t = cn_in_flight s" "cn_security_protocol t = cn_security_protocol s"
    and "correlation_id (cn_protocol t) = correlation_id (cn_protocol s)" "in_flight_requests (cn_protocol t) = in_flight_requests (cn_protocol s)"
    and "cn_state t = cn_state s \<or> cn_state t \<noteq> DISCONNECTED \<and> cn_state t \<noteq> AUTHENTICATING"
  shows "requests_kept D s0 s \<Longrightarrow> requests_kept D s0 t"
  using assms unfolding requests_kept_def requests_ok_def requests_from_def settled_def flying_def few_requests_def uses_sasl_def
  by auto

lemma rk_update [simp]:
  "requests_kept D s0 s \<Longrightarrow> requests_kept D s0 (s\<lparr>cn_version_checks := x0\<rparr>)"
  "requests_kept D s0 s \<Longrightarrow> requests_kept D s0 (s\<lparr>cn_sasl_checks := x1\<rparr>)"
  "requests_kept D s0 s \<Longrightarrow> requests_kept D s0 (s\<lparr>cn_api_versions_idx := x2\<rparr>)"
  "requests_kept D s0 s \<Longrightarrow> requests_kept D s0 (s\<lparr>cn_check_version_idx := x3\<rparr>)"
  "requests_kept D s0 s \<Longrightarrow> requests_kept D s0 (s\<lparr>cn_send_buffer := x4\<rparr>)"
  "requests_kept D s0 s \<Longrightarrow> requests_kept D s0 (s\<lparr>cn_gai := x5\<rparr>)"
  "requests_kept D s0 s \<Longrightarrow> requests_kept D s0 (s\<lparr>cn_sock := x6\<rparr>)"
  "requests_kept D s0 s \<Longrightarrow> requests_kept D s0 (s\<lparr>cn_failures := x7\<rparr>)"
  "requests_kept D s0 s \<Longrightarrow> requests_kept D s0 (s\<lparr>cn_reconnect_backoff := x8\<rparr>)"
  "requests_kept D s0 s \<Longrightarrow> requests_kept D s0 (s\<lparr>cn_last_attempt := x9\<rparr>)"
  "requests_kept D s0 s \<Longrightarrow> requests_kept D s0 (s\<lparr>cn_throttle_time := x10\<rparr>)"
  "requests_kept D s0 s \<Longrightarrow> requests_kept D s0 (s\<lparr>cn_api_versions := x11\<rparr>)"
  "requests_kept D s0 s \<Longrightarrow> requests_kept D s0 (s\<lparr>cn_api_version := x12\<rparr>)"
  "requests_kept D s0 s \<Longrightarrow> requests_kept D s0 (s\<lparr>cn_api_versions_check_timeout := x13\<rparr>)"
  "requests_kept D s0 s \<Longrightarrow> requests_kept D s0 (s\<lparr>cn_api_versions_future := x14\<rparr>)"
  "requests_kept D s0 s \<Longrightarrow> requests_kept D s0 (s\<lparr>cn_sasl_auth_future := x15\<rparr>)"
  "requests_kept D s0 s \<Longrightarrow> requests_kept D s0 (s\<lparr>cn_ssl_context := x16\<rparr>)"
  "requests_kept D s0 s \<Longrightarrow> requests_kept D s0 (s\<lparr>cn_tick := x17\<rparr>)"
  by (rule requests_same; simp)+

lemma rk_update_state [simp]:
  "requests_kept D s0 s \<Longrightarrow> st \<noteq> DISCONNECTED \<Longrightarrow> st \<noteq> AUTHENTICATING \<Longrightarrow> requests_kept D s0 (s\<lparr>cn_state := st\<rparr>)"
  by (rule requests_same; simp)

lemma rk_ask: "keeps (requests_kept D s0) (c_ask w f)"
  by (simp add: keeps_def c_ask_def)

lemma rk_try: "keeps (requests_kept D s0) (c_try w f)"
  unfolding c_try_def by (intro keeps_rules rk_ask)

lemma rk_checks: "keeps (requests_kept D s0) new_version_check" "keeps (requests_kept D s0) (settle_version_check j r)"
  by (simp_all add: keeps_def new_version_check_def settle_version_check_def py_defs)

lemmas rk_rules = keeps_rules rk_ask rk_try rk_checks

lemma rk_state_change: "keeps (requests_kept D s0) (state_change w)"
  unfolding state_change_def by (intro rk_rules)

lemma rk_backoff: "keeps (requests_kept D s0) (update_reconnect_backoff w)"
  unfolding update_reconnect_backoff_def by (intro rk_rules) simp

section \<open>Counting futures\<close>

definition future_count :: "nat \<Rightarrow> conn \<Rightarrow> bool" where
  "future_count n s \<longleftrightarrow> length (cn_futures s) = n"

lemma count_update [simp]:
  "future_count n (s\<lparr>cn_version_checks := x0\<rparr>) = future_count n s"
  "future_count n (s\<lparr>cn_sasl_checks := x1\<rparr>) = future_count n s"
  "future_count n (s\<lparr>cn_api_versions_idx := x2\<rparr>) = future_count n s"
  "future_count n (s\<lparr>cn_check_version_idx := x3\<rparr>) = future_count n s"
  "future_count n (s\<lparr>cn_send_buffer := x4\<rparr>) = future_count n s"
  "future_count n (s\<lparr>cn_gai := x5\<rparr>) = future_count n s"
  "future_count n (s\<lparr>cn_sock := x6\<rparr>) = future_count n s"
  "future_count n (s\<lparr>cn_failures := x7\<rparr>) = future_count n s"
  "future_count n (s\<lparr>cn_reconnect_backoff := x8\<rparr>) = future_count n s"
  "future_count n (s\<lparr>cn_last_attempt := x9\<rparr>) = future_count n s"
  "future_count n (s\<lparr>cn_throttle_time := x10\<rparr>) = future_count n s"
  "future_count n (s\<lparr>cn_api_versions := x11\<rparr>) = future_count n s"
  "future_count n (s\<lparr>cn_api_version := x12\<rparr>) = future_count n s"
  "future_count n (s\<lparr>cn_api_versions_check_timeout := x13\<rparr>) = future_count n s"
  "future_count n (s\<lparr>cn_api_versions_future := x14\<rparr>) = future_count n s"
  "future_count n (s\<lparr>cn_sasl_auth_future := x15\<rparr>) = future_count n s"
  "future_count n (s\<lparr>cn_ssl_context := x16\<rparr>) = future_count n s"
  "future_count n (s\<lparr>cn_tick := x17\<rparr>) = future_count n s"
  "future_count n (s\<lparr>cn_in_flight := x18\<rparr>) = future_count n s"
  "future_count n (s\<lparr>cn_protocol := x19\<rparr>) = future_count n s"
  "future_count n (s\<lparr>cn_state := x20\<rparr>) = future_count n s"
  "future_count n (s\<lparr>cn_futures := (cn_futures s)[i := y]\<rparr>) = future_count n s"
  by (simp_all add: future_count_def)

lemma count_ask: "keeps (future_count n) (c_ask w f)"
  by (simp add: keeps_def c_ask_def)

lemma count_try: "keeps (future_count n) (c_try w f)"
  unfolding c_try_def by (intro keeps_rules count_ask)

lemma count_protocol: "keeps (future_count n) (on_protocol m)"
  by (simp add: keeps_def on_protocol_def split: prod.splits)

lemmas count_rules = keeps_rules count_ask count_try count_protocol

lemma count_fail: "keeps (future_count n) (fail_future i e)"
proof -
  have "keeps (future_count n) (run_errback ow e)" for ow
    by (cases ow) (auto simp: handle_api_versions_failure_def handle_check_version_failure_def settle_version_check_def settle_sasl_check_def
        intro!: count_rules)
  then show ?thesis unfolding fail_future_def set_result_def by (intro count_rules) simp
qed

lemma count_close: "keeps (future_count n) (conn_close w e)"
  unfolding conn_close_def update_reconnect_backoff_def by (intro count_rules count_fail) (simp_all add: reset_connection_def)

lemma count_pending: "keeps (future_count n) (send_pending_requests w)"
proof -
  have "keeps (future_count n) (send_blocking_loop w m data k)" for m data k
    by (induction m arbitrary: data k) (auto simp: sock_send_def intro!: count_rules)
  then show ?thesis unfolding send_pending_requests_def send_bytes_blocking_def by (intro count_rules count_close)
qed

lemma count_throttle: "keeps (future_count n) (maybe_throttle w r)"
  unfolding maybe_throttle_def by (auto intro!: count_rules split: option.splits pyval.splits)

lemma count_match: "keeps (future_count n) (match_responses w rs ms)"
  by (induction rs arbitrary: ms) (auto intro!: count_rules count_close count_throttle)

lemma count_recv: "keeps (future_count n) (conn_recv w)"
proof -
  have "keeps (future_count n) (recv_chunks w m data)" for m data
    by (induction m arbitrary: data) (auto simp: sock_recv_def intro!: count_rules)
  then show ?thesis
    unfolding conn_recv_def recv_responses_def requests_timed_out_def next_ifr_request_timeout_ms_def timed_out_ifrs_def
    by (intro count_rules count_close count_match)
qed

lemma countD: "(\<And>n. keeps (future_count n) m) \<Longrightarrow> m s = (r, t) \<Longrightarrow> length (cn_futures t) = length (cn_futures s)"
  by (metis future_count_def keepsD)

lemma count_backoff: "keeps (future_count n) (update_reconnect_backoff w)"
  unfolding update_reconnect_backoff_def by (intro count_rules) simp

section \<open>Closing\<close>

definition same_queues :: "conn \<Rightarrow> conn \<Rightarrow> bool" where
  "same_queues s t \<longleftrightarrow> cn_in_flight t = cn_in_flight s \<and> cn_security_protocol t = cn_security_protocol s \<and> cn_protocol t = cn_protocol s \<and>
     cn_state t = cn_state s"

lemma errback_frame: "same_queues s (snd (run_errback ow e s)) \<and> cn_futures (snd (run_errback ow e s)) = cn_futures s"
  by (cases ow) (simp_all add: same_queues_def handle_api_versions_failure_def handle_check_version_failure_def settle_version_check_def
      settle_sasl_check_def py_defs split: option.splits)

lemma fail_future_frame:
  assumes "rf_result (cn_futures s ! i) = None"
  shows "\<exists>t. fail_future i e s = (Inr (), t) \<and> same_queues s t \<and>
    cn_futures t = (cn_futures s)[i := (cn_futures s ! i)\<lparr>rf_result := Some (Inl e)\<rparr>]"
proof -
  let ?s = "s\<lparr>cn_futures := (cn_futures s)[i := (cn_futures s ! i)\<lparr>rf_result := Some (Inl e)\<rparr>]\<rparr>"
  have "fail_future i e s = (Inr (), snd (run_errback (rf_owner (cn_futures ?s ! i)) e ?s))"
    using assms by (simp add: fail_future_def set_result_def c_suppress_def py_defs)
  then show ?thesis using errback_frame [of ?s "rf_owner (cn_futures ?s ! i)" e] by (auto simp: same_queues_def)
qed

lemma fail_loop:
  assumes "distinct (map (\<lambda>(_, i, _). i) ifrs)" "\<forall>(_, i, _) \<in> set ifrs. i < length (cn_futures s) \<and> rf_result (cn_futures s ! i) = None"
  shows "\<exists>t. py_for (\<lambda>(_, i, _). fail_future i e) ifrs s = (Inr (), t) \<and> same_queues s t \<and> length (cn_futures t) = length (cn_futures s) \<and>
    (\<forall>i < length (cn_futures s). rf_owner (cn_futures t ! i) = rf_owner (cn_futures s ! i) \<and>
      rf_result (cn_futures t ! i) = (if i \<in> (\<lambda>(_, i, _). i) ` set ifrs then Some (Inl e) else rf_result (cn_futures s ! i)))"
  using assms
proof (induction ifrs arbitrary: s)
  case (Cons x ifrs)
  obtain cid i ts where x: "x = (cid, i, ts)" by (metis surj_pair)
  have i: "i < length (cn_futures s)" "rf_result (cn_futures s ! i) = None" using Cons.prems(2) by (auto simp: x)
  obtain t where t: "fail_future i e s = (Inr (), t)" "same_queues s t"
      "cn_futures t = (cn_futures s)[i := (cn_futures s ! i)\<lparr>rf_result := Some (Inl e)\<rparr>]"
    using fail_future_frame [OF i(2)] by blast
  have "\<forall>(_, k, _) \<in> set ifrs. k < length (cn_futures t) \<and> rf_result (cn_futures t ! k) = None"
    using Cons.prems t(3) by (force simp: x nth_list_update)
  then obtain u where "py_for (\<lambda>(_, i, _). fail_future i e) ifrs t = (Inr (), u)" "same_queues t u" "length (cn_futures u) = length (cn_futures t)"
      "\<forall>i < length (cn_futures t). rf_owner (cn_futures u ! i) = rf_owner (cn_futures t ! i) \<and>
        rf_result (cn_futures u ! i) = (if i \<in> (\<lambda>(_, i, _). i) ` set ifrs then Some (Inl e) else rf_result (cn_futures t ! i))"
    using Cons.IH [of t] Cons.prems(1) by (auto simp: x)
  then show ?case
    using t i by (auto simp: x py_defs same_queues_def nth_list_update split: if_splits)
qed (simp add: py_return_def same_queues_def)

text \<open>The callback for state changes does not raise when the connection is closed.\<close>

definition closes_quietly :: "conn_world \<Rightarrow> bool" where
  "closes_quietly w \<longleftrightarrow> (\<forall>k sock. nv_callback (w k) DISCONNECTED sock = Inr ())"

lemma close_requests_ok:
  assumes "requests_ok D s" "same_queues ((reset_connection s)\<lparr>cn_sock := None, cn_tick := k\<rparr>) t" "length (cn_futures t) = length (cn_futures s)"
    and t: "\<forall>i < length (cn_futures s). rf_owner (cn_futures t ! i) = rf_owner (cn_futures s ! i) \<and>
      rf_result (cn_futures t ! i) = (if i \<in> flying s then Some (Inl e) else rf_result (cn_futures s ! i))"
  shows "requests_ok D t \<and> requests_from s t"
proof
  have queues: "cn_in_flight t = []" "in_flight_requests (cn_protocol t) = []" "correlation_id (cn_protocol t) = 0" "cn_state t = DISCONNECTED"
      "cn_security_protocol t = cn_security_protocol s"
    using assms(2) by (simp_all add: same_queues_def reset_connection_def new_protocol_def KafkaProtocol_def)
  have "\<forall>f \<in> set (cn_futures t). \<forall>j. rf_owner f \<noteq> SaslHandshakeCheck j"
    using assms(1,3) t unfolding requests_ok_def by (metis in_set_conv_nth)
  moreover have "\<forall>i \<in> D. i < length (cn_futures t) \<and> rf_result (cn_futures t ! i) = None"
    using assms(1,3) t by (auto simp: requests_ok_def)
  ultimately show "requests_ok D t"
    using assms(1) queues by (simp add: requests_ok_def flying_def uses_sasl_def)
  show "requests_from s t"
    using assms(1,3) t by (auto simp: requests_from_def settled_def requests_ok_def)
qed

lemma rk_close:
  assumes "closes_quietly w"
  shows "keeps (requests_kept D s0) (conn_close w e)"
proof -
  have "requests_kept D s0 (snd (conn_close w e s))" if s: "requests_kept D s0 s" for s
  proof (cases "conn_disconnected s")
    case False
    let ?e = "case e of None \<Rightarrow> Cancelled | Some e \<Rightarrow> e"
    define s1 where "s1 = snd ((if e \<noteq> None then update_reconnect_backoff w else py_return ()) s)"
    have backoff: "(if e \<noteq> None then update_reconnect_backoff w else py_return ()) s = (Inr (), s1)"
      by (auto simp: s1_def update_reconnect_backoff_def c_ask_def py_defs)
    have s1: "requests_kept D s0 s1" using rk_backoff [of D s0 w] s by (auto simp: s1_def keeps_def py_return_def)
    let ?s2 = "(reset_connection s1)\<lparr>cn_sock := None, cn_tick := Suc (cn_tick s1)\<rparr>"
    have loop: "conn_close w e s = py_for (\<lambda>(_, i, _). fail_future i ?e) (cn_in_flight s1) ?s2"
      using False assms backoff
      by (simp add: conn_close_def c_try_def c_ask_def closes_quietly_def reset_connection_def py_defs)
    show ?thesis
    proof (cases "few_requests s1")
      case True
      then have ok: "requests_ok D s1" using s1 by (simp add: requests_kept_def)
      have "distinct (map (\<lambda>(_, i, _). i) (cn_in_flight s1))" using ok by (simp add: requests_ok_def)
      moreover have "\<forall>i \<in> flying s1. i < length (cn_futures s1) \<and> rf_result (cn_futures s1 ! i) = None"
        using ok by (simp add: requests_ok_def)
      then have "\<forall>(_, i, _) \<in> set (cn_in_flight s1). i < length (cn_futures ?s2) \<and> rf_result (cn_futures ?s2 ! i) = None"
        by (auto simp: flying_def reset_connection_def)
      ultimately obtain t where t: "conn_close w e s = (Inr (), t)" "same_queues ?s2 t" "length (cn_futures t) = length (cn_futures s1)"
          "\<forall>i < length (cn_futures s1). rf_owner (cn_futures t ! i) = rf_owner (cn_futures s1 ! i) \<and>
            rf_result (cn_futures t ! i) = (if i \<in> flying s1 then Some (Inl ?e) else rf_result (cn_futures s1 ! i))"
        unfolding loop using fail_loop [of "cn_in_flight s1" ?s2 ?e] by (auto simp: reset_connection_def flying_def)
      have "requests_ok D t \<and> requests_from s1 t" by (rule close_requests_ok [OF ok t(2-4)])
      then have "requests_kept D s0 t" using t(3) by (intro requests_kept_trans [OF s1]) (simp_all add: requests_kept_def)
      then show ?thesis using t(1) by simp
    next
      case False
      have "length (cn_futures (snd (conn_close w e s))) = length (cn_futures s)" "length (cn_futures s1) = length (cn_futures s)"
        by (rule countD [OF count_close], rule prod.collapse [symmetric])
          (use backoff count_backoff in \<open>auto simp: py_return_def intro: countD split: if_splits\<close>)
      then show ?thesis using False s1 by (auto simp: requests_kept_def few_requests_def)
    qed
  qed (use s in \<open>simp add: conn_close_def py_defs\<close>)
  then show ?thesis by (simp add: keeps_def)
qed

section \<open>Sending\<close>

definition with_future :: "conn \<Rightarrow> conn" where
  "with_future s = s\<lparr>cn_futures := cn_futures s @ [\<lparr>rf_owner = NoOwner, rf_result = None\<rparr>]\<rparr>"

lemma with_future_ok:
  assumes "requests_ok D s"
  shows "requests_ok D (with_future s) \<and> requests_from s (with_future s) \<and> length (cn_futures s) \<notin> flying (with_future s) \<union> D"
proof -
  have fly: "flying (with_future s) = flying s" by (simp add: with_future_def flying_def)
  have "\<forall>i \<in> flying s \<union> D. i < length (cn_futures (with_future s)) \<and> rf_result (cn_futures (with_future s) ! i) = None"
  proof
    fix i assume "i \<in> flying s \<union> D"
    then have "i < length (cn_futures s) \<and> rf_result (cn_futures s ! i) = None" using assms unfolding requests_ok_def by blast
    then show "i < length (cn_futures (with_future s)) \<and> rf_result (cn_futures (with_future s) ! i) = None"
      by (simp add: with_future_def nth_append)
  qed
  then have "requests_ok D (with_future s)"
    using assms fly unfolding requests_ok_def by (simp add: with_future_def uses_sasl_def)
  moreover have "requests_from s (with_future s)"
    by (auto simp: requests_from_def with_future_def settled_def flying_def nth_append)
  moreover have "length (cn_futures s) \<notin> flying (with_future s) \<union> D"
    using assms fly unfolding requests_ok_def by (metis less_irrefl)
  ultimately show ?thesis by blast
qed

lemma protocol_ok:
  assumes "requests_ok D s" "correlation_id (cn_protocol s) \<le> correlation_id p" "correlation_id p \<le> int (length (cn_futures s))"
    "in_flight_requests p = in_flight_requests (cn_protocol s)"
  shows "requests_ok D (s\<lparr>cn_protocol := p\<rparr>) \<and> requests_from s (s\<lparr>cn_protocol := p\<rparr>)"
  using assms by (fastforce simp: requests_ok_def requests_from_def settled_def flying_def uses_sasl_def)

text \<open>Setting the result of a future that is neither in flight nor among those received.\<close>

lemma result_ok:
  assumes "requests_ok D s" "i \<notin> flying s \<union> D" "rf_result (cn_futures s ! i) = None"
    and t: "t = s\<lparr>cn_futures := (cn_futures s)[i := (cn_futures s ! i)\<lparr>rf_result := Some r\<rparr>]\<rparr>"
  shows "requests_ok D t \<and> requests_from s t \<and> (i < length (cn_futures s) \<longrightarrow> settled t i)"
proof -
  have owners: "\<forall>f \<in> set (cn_futures t). \<forall>j. rf_owner f \<noteq> SaslHandshakeCheck j"
  proof (cases "i < length (cn_futures s)")
    case True
    then have "rf_owner (cn_futures s ! i) \<noteq> SaslHandshakeCheck j" for j using assms(1) by (simp add: requests_ok_def)
    then show ?thesis using assms(1) t by (auto simp: requests_ok_def dest!: set_update_subset_insert [THEN subsetD])
  qed (use assms(1) t in \<open>simp add: requests_ok_def list_update_beyond\<close>)
  have fly: "flying t = flying s" using t by (simp add: flying_def)
  have same: "cn_futures t ! k = cn_futures s ! k" if "k \<in> flying s \<union> D" for k
  proof -
    have "k \<noteq> i" using that assms(2) by blast
    then show ?thesis using t by simp
  qed
  have "\<forall>k \<in> flying t \<union> D. k < length (cn_futures t) \<and> rf_result (cn_futures t ! k) = None"
    using assms(1) fly same t unfolding requests_ok_def by simp
  then have "requests_ok D t" using assms(1) owners fly t unfolding requests_ok_def by (simp add: uses_sasl_def)
  moreover have "cn_futures t ! k = cn_futures s ! k" if "settled s k" for k
  proof -
    have "k \<noteq> i" using that assms(3) by (auto simp: settled_def)
    then show ?thesis using t by simp
  qed
  then have "requests_from s t" using fly t by (auto simp: requests_from_def settled_def)
  ultimately show ?thesis using t by (simp add: settled_def)
qed

lemma queued_ok:
  assumes "requests_ok D s" "i < length (cn_futures s)" "rf_result (cn_futures s ! i) = None" "i \<notin> flying s \<union> D" "cn_state s \<noteq> DISCONNECTED"
    and p: "correlation_id p = correlation_id (cn_protocol s) + 1" "correlation_id p \<le> int (length (cn_futures s))"
      "in_flight_requests p = in_flight_requests (cn_protocol s) @ [(correlation_id p, r)]"
    and t: "t = s\<lparr>cn_protocol := p, cn_tick := k, cn_in_flight := cn_in_flight s @ [(correlation_id p, i, a, b)]\<rparr>"
  shows "requests_ok D t \<and> requests_from s t \<and> i \<in> flying t"
proof -
  have fresh: "correlation_id p \<notin> fst ` set (cn_in_flight s)" using assms(1) p(1) by (fastforce simp: requests_ok_def)
  have fly: "flying t = insert i (flying s)" using t by (auto simp: flying_def)
  have "correlation_id p \<notin> fst ` set (in_flight_requests (cn_protocol s))" using fresh assms(1) by (auto simp: requests_ok_def)
  then have "requests_ok D t"
    using assms(1-5) p t fresh fly unfolding requests_ok_def
    by (auto simp: uses_sasl_def flying_def)
  moreover have "requests_from s t" using t fly by (auto simp: requests_from_def settled_def)
  ultimately show ?thesis using fly by simp
qed

lemma rk_pending:
  assumes "closes_quietly w"
  shows "keeps (requests_kept D s0) (send_pending_requests w)" "keeps (requests_kept D s0) (send_pending_requests_v2 w)"
proof -
  have protocol: "keeps (requests_kept D s0) (on_protocol send_bytes)"
    by (auto simp: keeps_def on_protocol_def send_bytes_def py_defs intro: requests_same [rotated -1])
  have loops: "keeps (requests_kept D s0) (send_blocking_loop w n data k)" "keeps (requests_kept D s0) (send_bytes_loop w n data k)" for n data k
    by (induction n arbitrary: data k) (auto simp: sock_send_def intro!: rk_rules)
  show "keeps (requests_kept D s0) (send_pending_requests w)"
    unfolding send_pending_requests_def send_bytes_blocking_def by (intro rk_rules rk_close [OF assms] protocol loops)
  show "keeps (requests_kept D s0) (send_pending_requests_v2 w)"
    unfolding send_pending_requests_v2_def conn_send_bytes_def by (intro rk_rules rk_close [OF assms] protocol loops) simp_all
qed

text \<open>What \<open>_send\<close> does before it writes: the future it returns is settled or in flight.\<close>

lemma failed_future_kept:
  assumes "requests_kept D s0 s" "failed_future e s = (r, t)"
  shows "requests_kept D s0 t \<and> (\<exists>i. r = Inr i \<and> (few_requests t \<longrightarrow> settled t i))"
proof -
  let ?i = "length (cn_futures s)"
  have none: "rf_result (cn_futures (with_future s) ! ?i) = None" by (simp add: with_future_def)
  obtain u where u: "fail_future ?i e (with_future s) = (Inr (), u)" "same_queues (with_future s) u"
      "cn_futures u = (cn_futures (with_future s))[?i := (cn_futures (with_future s) ! ?i)\<lparr>rf_result := Some (Inl e)\<rparr>]"
    using fail_future_frame [OF none] by blast
  have t: "r = Inr ?i" "t = u"
    using assms(2) u(1) by (simp_all add: failed_future_def new_future_def with_future_def py_defs)
  let ?u = "(with_future s)\<lparr>cn_futures := cn_futures u\<rparr>"
  have ok: "requests_ok D ?u \<and> requests_from s ?u \<and> settled ?u ?i" if "requests_ok D s"
  proof -
    note wf = with_future_ok [OF that]
    have "requests_ok D ?u \<and> requests_from (with_future s) ?u \<and> (?i < length (cn_futures (with_future s)) \<longrightarrow> settled ?u ?i)"
      using wf none u(3) by (intro result_ok [where r = "Inl e"]) simp_all
    then show ?thesis using wf requests_from_trans by (simp add: with_future_def) blast
  qed
  have "requests_kept D s0 ?u"
  proof (rule requests_kept_trans [OF assms(1)])
    show "requests_kept D s ?u" if "requests_ok D s" using ok [OF that] u(3) by (simp add: requests_kept_def with_future_def)
  qed (simp add: u(3) with_future_def)
  moreover have "settled u i = settled ?u i" "few_requests u = few_requests ?u" for i by (simp_all add: settled_def few_requests_def)
  moreover have "few_requests ?u \<Longrightarrow> requests_ok D s" using assms(1) u(3) by (simp add: requests_kept_def few_requests_def with_future_def)
  ultimately show ?thesis
    using t u(2) ok requests_same [of u ?u D s0] by (auto simp: same_queues_def)
qed

lemma kept_grown:
  assumes "requests_kept D s0 s" "length (cn_futures t) = Suc (length (cn_futures s))"
    and "few_requests t \<Longrightarrow> requests_ok D s \<Longrightarrow> requests_ok D t \<and> requests_from s t"
  shows "requests_kept D s0 t"
  using assms unfolding requests_kept_def few_requests_def by (auto intro: requests_from_trans)

text \<open>The id of a request is the next one, while there are few.\<close>

lemma next_id:
  assumes "requests_ok D s" "int (Suc (length (cn_futures s))) < 2 ^ 31" "send_request rq None (cn_protocol s) = (r, p)"
  shows "correlation_id p = correlation_id (cn_protocol s) + 1 \<and> correlation_id p \<le> int (Suc (length (cn_futures s))) \<and>
    correlation_id p \<notin> fst ` set (cn_in_flight s)"
proof -
  have c: "0 \<le> correlation_id (cn_protocol s)" "correlation_id (cn_protocol s) \<le> int (length (cn_futures s))"
      "\<forall>cid \<in> fst ` set (cn_in_flight s). cid \<le> correlation_id (cn_protocol s)"
    using assms(1) unfolding requests_ok_def by blast+
  then have "correlation_id p = correlation_id (cn_protocol s) + 1"
    using send_request_queue [OF assms(3)] assms(2) by (simp add: mod_pos_pos_trivial)
  then show ?thesis using c by fastforce
qed

lemma track_kept:
  assumes kept: "requests_kept D s0 s" and st: "cn_state s \<noteq> DISCONNECTED"
    and sent: "send_request rq None (cn_protocol s) = (Inr cid, p)"
    and track: "track_request w rq (length (cn_futures s)) cid ms ((with_future s)\<lparr>cn_protocol := p\<rparr>) = (r, t)"
  shows "requests_kept D s0 t \<and> (r = Inr () \<longrightarrow> few_requests t \<longrightarrow> length (cn_futures s) \<in> flying t \<or> settled t (length (cn_futures s)))"
proof -
  let ?i = "length (cn_futures s)" and ?s1 = "(with_future s)\<lparr>cn_protocol := p\<rparr>"
  have len: "length (cn_futures t) = Suc ?i"
    using track by (auto simp: track_request_def set_result_def with_future_def c_ask_def py_defs split: if_splits)
  have ok: "requests_ok D t \<and> requests_from s t \<and> (r = Inr () \<longrightarrow> ?i \<in> flying t \<or> settled t ?i)" if few: "few_requests t" and s: "requests_ok D s"
  proof -
    note wf = with_future_ok [OF s]
    have "int (Suc ?i) < 2 ^ 31" using few len by (simp add: few_requests_def)
    from next_id [OF s this sent]
    have c: "correlation_id p = correlation_id (cn_protocol s) + 1" "correlation_id p \<le> int (Suc ?i)" "correlation_id p \<notin> fst ` set (cn_in_flight s)"
      by blast+
    note q = send_request_queue [OF sent]
    have simps: "cn_protocol (with_future s) = cn_protocol s" "length (cn_futures (with_future s)) = Suc ?i" "cn_in_flight (with_future s) = cn_in_flight s"
        "cn_state (with_future s) = cn_state s" "cn_futures (with_future s) ! ?i = \<lparr>rf_owner = NoOwner, rf_result = None\<rparr>"
      by (simp_all add: with_future_def)
    show ?thesis
    proof (cases "expect_response (rq_class rq) (rq_obj rq)")
      case True
      let ?now = "nv_now (w (cn_tick ?s1))"
      have t: "t = (with_future s)\<lparr>cn_protocol := p, cn_tick := Suc (cn_tick ?s1),
          cn_in_flight := cn_in_flight (with_future s) @ [(correlation_id p, ?i, ?now, ?now + ms)]\<rparr>"
        using track True c(3) q by (simp add: track_request_def c_ask_def with_future_def py_defs)
      have "requests_ok D t \<and> requests_from (with_future s) t \<and> ?i \<in> flying t"
        using wf c q True simps st by (intro queued_ok [where r = rq, OF _ _ _ _ _ _ _ _ t]) simp_all
      then show ?thesis using wf requests_from_trans by blast
    next
      case False
      have one: "requests_ok D ?s1 \<and> requests_from (with_future s) ?s1"
        using wf c q False simps by (intro protocol_ok) simp_all
      have "t = ?s1\<lparr>cn_futures := (cn_futures ?s1)[?i := (cn_futures ?s1 ! ?i)\<lparr>rf_result := Some (Inr None)\<rparr>]\<rparr>"
        using track False by (simp add: track_request_def set_result_def with_future_def py_defs)
      moreover have "flying ?s1 = flying (with_future s)" by (simp add: flying_def)
      ultimately have "requests_ok D t \<and> requests_from ?s1 t \<and> (?i < length (cn_futures ?s1) \<longrightarrow> settled t ?i)"
        using wf one simps by (intro result_ok [where r = "Inr None"]) simp_all
      then show ?thesis using wf one simps requests_from_trans by (simp del: One_nat_def) blast
    qed
  qed
  have "requests_kept D s0 t" using ok by (intro kept_grown [OF kept len]) blast
  moreover have "few_requests t \<Longrightarrow> requests_ok D s" using kept len by (simp add: requests_kept_def few_requests_def)
  ultimately show ?thesis using ok by blast
qed

lemma send_now_kept:
  assumes quiet: "closes_quietly w" and kept: "requests_kept D s0 s" and send: "send_now w rq b timeout s = (r, t)"
  shows "requests_kept D s0 t \<and> (\<forall>i. r = Inr i \<longrightarrow> few_requests t \<longrightarrow> i \<in> flying t \<or> settled t i)"
proof (cases "can_send_recv s")
  case False
  then have "send_now w rq b timeout s = failed_future NodeNotReadyError s"
    by (simp add: send_now_def failed_future_def new_future_def can_send_recv_def conn_connected_def conn_initializing_def py_defs)
  then show ?thesis using failed_future_kept [OF kept, of NodeNotReadyError r t] send by auto
next
  case True
  define ms where "ms = (case timeout of None \<Rightarrow> cn_request_timeout_ms s | Some t \<Rightarrow> if t = 0 then cn_request_timeout_ms s else t)"
  let ?i = "length (cn_futures s)"
  have st: "cn_state s \<noteq> DISCONNECTED" using True by (auto simp: can_send_recv_def conn_connected_def conn_initializing_def)
  have can: "can_send_recv (with_future s)"
    using True by (simp add: can_send_recv_def conn_connected_def conn_initializing_def with_future_def)
  obtain rc p where p: "send_request rq None (cn_protocol s) = (rc, p)" by fastforce
  show ?thesis
  proof (cases rc)
    case (Inl e)
    have t: "t = (with_future s)\<lparr>cn_protocol := p\<rparr>" "r = Inl e"
      using send p Inl can by (simp_all add: send_now_def new_future_def with_future_def on_protocol_def py_defs)
    have "requests_ok D t \<and> requests_from s t" if few: "few_requests t" and s: "requests_ok D s"
    proof -
      note wf = with_future_ok [OF s]
      have "int (Suc ?i) < 2 ^ 31" using few t(1) by (simp add: few_requests_def with_future_def)
      note c = next_id [OF s this p]
      have "requests_ok D t \<and> requests_from (with_future s) t"
        using wf c send_request_queue [OF p] Inl unfolding t(1) by (intro protocol_ok) (simp_all add: with_future_def)
      then show ?thesis using wf requests_from_trans by blast
    qed
    then have "requests_kept D s0 t" by (intro kept_grown [OF kept]) (simp_all add: t(1) with_future_def)
    then show ?thesis by (simp add: t(2))
  next
    case (Inr cid)
    obtain rt u where u: "track_request w rq ?i cid ms ((with_future s)\<lparr>cn_protocol := p\<rparr>) = (rt, u)" by fastforce
    note track = track_kept [OF kept st p [unfolded Inr] u]
    have rest: "(r, t) = (case rt of Inl e \<Rightarrow> (Inl e, u) | Inr _ \<Rightarrow>
        if b then (case send_pending_requests w u of (Inl e, v) \<Rightarrow> (Inl e, v) | (Inr _, v) \<Rightarrow> (Inr ?i, v)) else (Inr ?i, u))"
      using send p Inr can u
      by (auto simp: send_now_def ms_def new_future_def with_future_def on_protocol_def py_defs split: sum.splits prod.splits if_splits)
    show ?thesis
    proof (cases "rt = Inr () \<and> b")
      case True
      obtain rp v where v: "send_pending_requests w u = (rp, v)" by fastforce
      have "requests_kept D s0 v" using rk_pending(1) [OF quiet] track v by (metis keepsD)
      moreover have "few_requests v \<longrightarrow> ?i \<in> flying v \<or> settled v ?i"
      proof
        assume few: "few_requests v"
        have "requests_kept D u v" if "requests_ok D u" using rk_pending(1) [OF quiet, of D u] requests_kept_refl [OF that] v by (metis keepsD)
        moreover have "few_requests u" "requests_ok D u"
        proof -
          show "few_requests u" using few countD [OF count_pending v] by (simp add: few_requests_def)
          then show "requests_ok D u" using track by (simp add: requests_kept_def)
        qed
        ultimately show "?i \<in> flying v \<or> settled v ?i" using few track True by (auto simp: requests_kept_def requests_from_def)
      qed
      moreover have "t = v" "r = Inr i \<Longrightarrow> i = ?i" for i using rest True v by (auto split: sum.splits)
      ultimately show ?thesis by auto
    next
      case False
      then have "t = u" "r = Inr i \<Longrightarrow> rt = Inr () \<and> i = ?i" for i using rest by (auto split: sum.splits if_splits)
      then show ?thesis using track by auto
    qed
  qed
qed

lemma rk_throttle: "keeps (requests_kept D s0) (throttle_delay w)" "keeps (requests_kept D s0) (maybe_throttle w r)"
  unfolding throttle_delay_def maybe_throttle_def by (auto intro!: rk_rules split: option.splits pyval.splits)

lemma throttle_returns: "\<exists>d u. throttle_delay w s = (Inr d, u)"
  by (cases "cn_throttle_time s") (auto simp: throttle_delay_def c_ask_def py_defs)

lemma more_returns: "\<exists>m u. can_send_more w s = (Inr m, u)"
proof -
  obtain d u where "throttle_delay w s = (Inr d, u)" using throttle_returns by blast
  then show ?thesis by (cases "d > 0") (auto simp: can_send_more_def py_defs)
qed

lemma conn_send_kept:
  assumes "closes_quietly w" "requests_kept D s0 s" "conn_send w rq b timeout s = (r, t)"
  shows "requests_kept D s0 t \<and> (\<forall>i. r = Inr i \<longrightarrow> few_requests t \<longrightarrow> i \<in> flying t \<or> settled t i)"
proof -
  have failed: "requests_kept D s0 t \<and> (\<forall>i. r = Inr i \<longrightarrow> few_requests t \<longrightarrow> i \<in> flying t \<or> settled t i)"
    if "failed_future e u = (r, t)" "requests_kept D s0 u" for e u
    using failed_future_kept [OF that(2,1)] by auto
  show ?thesis
  proof (cases "conn_connecting s \<or> \<not> conn_connected s")
    case True
    then have "\<exists>e. failed_future e s = (r, t)" using assms(3) by (auto simp: conn_send_def py_defs split: if_splits)
    then show ?thesis using failed assms(2) by blast
  next
    case False
    obtain m u where u: "can_send_more w s = (Inr m, u)"
      using more_returns by blast
    have u': "requests_kept D s0 u"
    proof -
      have "keeps (requests_kept D s0) (can_send_more w)" unfolding can_send_more_def by (intro rk_rules rk_throttle)
      then show ?thesis using assms(2) u by (rule keepsD)
    qed
    show ?thesis
    proof (cases m)
      case True
      then have "send_now w rq b timeout u = (r, t)" using assms(3) False u by (simp add: conn_send_def py_defs)
      then show ?thesis using send_now_kept [OF assms(1) u'] by blast
    next
      case m: False
      obtain th v where v: "throttled w u = (Inr th, v)"
        using throttle_returns [of w u] by (cases "conn_connected u") (auto simp: throttled_def py_defs)
      have "requests_kept D s0 v"
      proof -
        have "keeps (requests_kept D s0) (throttled w)" unfolding throttled_def by (intro rk_rules rk_throttle)
        then show ?thesis using u' v by (rule keepsD)
      qed
      moreover have "\<exists>e. failed_future e v = (r, t)" using assms(3) False u m v by (intro exI [of _ "if th then ThrottlingQuotaExceededError else TooManyInFlightRequests"]) (simp add: conn_send_def py_defs)
      ultimately show ?thesis using failed by blast
    qed
  qed
qed

section \<open>Receiving\<close>

text \<open>The responses the protocol returns are answers to requests in flight, which it does not wait for any more.\<close>

definition answers :: "(int \<times> struct_obj) list \<Rightarrow> conn \<Rightarrow> bool" where
  "answers rs s \<longleftrightarrow> distinct (map fst rs) \<and> fst ` set rs \<subseteq> fst ` set (cn_in_flight s) \<and>
     fst ` set rs \<inter> fst ` set (in_flight_requests (cn_protocol s)) = {}"

lemma received_ok:
  assumes "requests_ok D s" "receive_bytes data (cn_protocol s) = (r, p)"
  shows "requests_ok D (s\<lparr>cn_protocol := p\<rparr>) \<and> requests_from s (s\<lparr>cn_protocol := p\<rparr>) \<and> (\<forall>rs. r = Inr rs \<longrightarrow> answers rs (s\<lparr>cn_protocol := p\<rparr>))"
proof -
  obtain k where k: "correlation_id p = correlation_id (cn_protocol s)" "in_flight_requests p = drop k (in_flight_requests (cn_protocol s))"
      "\<And>rs. r = Inr rs \<Longrightarrow> map fst rs = map fst (take k (in_flight_requests (cn_protocol s)))"
    using receive_bytes_queue [OF assms(2)] by blast
  let ?q = "in_flight_requests (cn_protocol s)"
  have q: "distinct (map fst ?q)" "fst ` set ?q \<subseteq> fst ` set (cn_in_flight s)" using assms(1) by (simp_all add: requests_ok_def)
  have "map fst ?q = map fst (take k ?q) @ map fst (drop k ?q)" by (metis append_take_drop_id map_append)
  then have parts: "distinct (map fst (take k ?q))" "distinct (map fst (drop k ?q))" "set (map fst (take k ?q)) \<inter> set (map fst (drop k ?q)) = {}"
      "set (map fst (take k ?q)) \<union> set (map fst (drop k ?q)) = set (map fst ?q)"
    using q(1) by (metis distinct_append, metis distinct_append, metis distinct_append, metis set_append)
  have "requests_ok D (s\<lparr>cn_protocol := p\<rparr>)"
  proof -
    have "fst ` set (in_flight_requests p) \<subseteq> fst ` set (cn_in_flight s)"
      using q(2) image_mono [OF set_drop_subset [of k ?q], of fst] unfolding k(2) by (rule order_trans [rotated])
    then show ?thesis using assms(1) k(1,2) parts(2) unfolding requests_ok_def by (simp add: flying_def uses_sasl_def)
  qed
  moreover have "answers rs (s\<lparr>cn_protocol := p\<rparr>)" if "r = Inr rs" for rs
  proof -
    have "fst ` set rs = set (map fst (take k ?q))" using k(3) [OF that] by (metis list.set_map)
    moreover have "set (map fst (take k ?q)) \<subseteq> fst ` set (cn_in_flight s)" using parts(4) q(2) by (metis Un_upper1 list.set_map order_trans)
    ultimately show ?thesis using k(2) k(3) [OF that] parts(1,3) by (simp add: answers_def)
  qed
  ultimately show ?thesis by (simp add: requests_from_def settled_def flying_def)
qed

lemma recv_responses_kept:
  assumes "closes_quietly w" "requests_kept D s0 s" "recv_responses w s = (r, t)"
  shows "requests_kept D s0 t \<and> (\<forall>rs. r = Inr rs \<longrightarrow> few_requests t \<longrightarrow> answers rs t)"
proof -
  have chunks: "keeps (requests_kept D s0) (recv_chunks w n data)" for n data
    by (induction n arbitrary: data) (auto simp: sock_recv_def intro!: rk_rules)
  have none: "answers [] u" for u by (simp add: answers_def)
  have close: "requests_kept D s0 t \<and> (\<forall>rs. r = Inr rs \<longrightarrow> few_requests t \<longrightarrow> answers rs t)"
    if "py_then (conn_close w e) (py_return []) u = (r, t)" "requests_kept D s0 u" for e u
    using keepsD [OF rk_close [OF assms(1)] that(2)] that(1) none by (auto simp: py_defs split: prod.splits sum.splits)
  show ?thesis
  proof (cases "can_send_recv s")
    case True
    obtain c u where u: "recv_chunks w (cn_sock_chunk_buffer_count s) [] s = (c, u)" by fastforce
    have ku: "requests_kept D s0 u" using keepsD [OF chunks assms(2) u] .
    consider (raised) e where "c = Inl e" | (broken) data e where "c = Inr (data, Some e)" | (read) data where "c = Inr (data, None)"
      by (metis not_None_eq sum.exhaust surj_pair)
    then show ?thesis
    proof cases
      case raised
      then show ?thesis using assms(3) True u ku by (auto simp: recv_responses_def py_defs)
    next
      case broken
      then have "py_then (conn_close w (Some e)) (py_return []) u = (r, t)" using assms(3) True u by (simp add: recv_responses_def py_defs)
      then show ?thesis using close ku by blast
    next
      case read
      obtain rp p where p: "receive_bytes data (cn_protocol u) = (rp, p)" by fastforce
      let ?v = "u\<lparr>cn_protocol := p\<rparr>"
      have ok: "requests_ok D ?v \<and> requests_from u ?v \<and> (\<forall>rs. rp = Inr rs \<longrightarrow> answers rs ?v)" if "requests_ok D u"
        using received_ok [OF that p] .
      have "requests_kept D s0 ?v" by (rule requests_kept_trans [OF ku]) (use ok in \<open>auto simp: requests_kept_def\<close>)
      moreover have "few_requests ?v \<Longrightarrow> requests_ok D u" using ku by (simp add: requests_kept_def few_requests_def)
      moreover have "(r, t) = (rp, ?v) \<or> (\<exists>e. py_then (conn_close w (Some e)) (py_return []) ?v = (r, t))"
        using assms(3) True u read p by (auto simp: recv_responses_def py_except_def on_protocol_def py_defs split: sum.splits if_splits)
      ultimately show ?thesis using close ok by blast
    qed
  qed (use assms none in \<open>auto simp: recv_responses_def py_defs\<close>)
qed

lemma flying_iff: "k \<in> flying s \<longleftrightarrow> (\<exists>c x. (c, k, x) \<in> set (cn_in_flight s))"
  unfolding flying_def by (force simp: image_iff split: prod.splits)

lemma keys_delete: "fst ` set (AList.delete k al) = fst ` set al - {k}"
  by (induction al) auto

lemma popped_ok:
  assumes "requests_ok D s" "map_of (cn_in_flight s) cid = Some (i, ts)" "cid \<notin> fst ` set (in_flight_requests (cn_protocol s))"
    and t: "t = s\<lparr>cn_in_flight := AList.delete cid (cn_in_flight s)\<rparr>"
  shows "requests_ok (insert i D) t \<and> flying t = flying s - {i} \<and> i \<in> flying s"
proof -
  let ?fs = "cn_in_flight s"
  have d: "distinct (map fst ?fs)" "distinct (map (\<lambda>(_, i, _). i) ?fs)" using assms(1) by (simp_all add: requests_ok_def)
  have inj: "inj_on (\<lambda>(_, i, _). i) (set ?fs)" using d(2) by (simp add: distinct_map)
  have mem: "(cid, i, ts) \<in> set ?fs" using assms(2) by (rule map_of_SomeD)
  have "(c, k, x) \<in> set (AList.delete cid ?fs) \<longleftrightarrow> (c, k, x) \<in> set ?fs \<and> c \<noteq> cid" for c k x by (auto simp: AList.delete_eq)
  moreover have "c = cid \<longleftrightarrow> k = i" if "(c, k, x) \<in> set ?fs" for c k x
  proof
    assume "c = cid"
    then show "k = i" using that assms(2) map_of_is_SomeI [OF d(1) that] by simp
  next
    assume "k = i"
    then show "c = cid" using inj_onD [OF inj, of "(c, k, x)" "(cid, i, ts)"] that mem by simp
  qed
  ultimately have "k \<in> flying t \<longleftrightarrow> k \<in> flying s \<and> k \<noteq> i" for k using t unfolding flying_iff by simp blast
  then have fly: "flying t = flying s - {i}" by blast
  have i: "i \<in> flying s" using mem by (force simp: flying_def)
  have "fst ` set (AList.delete cid ?fs) = fst ` set ?fs - {cid}" by (rule keys_delete)
  moreover have "distinct (map fst (AList.delete cid ?fs))" using d(1) by (rule distinct_delete)
  moreover have "distinct (map (\<lambda>(_, i, _). i) (AList.delete cid ?fs))" using d(2) by (simp add: AList.delete_eq distinct_map_filter)
  ultimately have "requests_ok (insert i D) t"
    using assms(1,3) i fly t unfolding requests_ok_def by (auto simp: uses_sasl_def)
  then show ?thesis using fly i by blast
qed

lemma throttle_frame:
  "\<exists>u. maybe_throttle w r s = (Inr (), u) \<and> same_queues s u \<and> cn_futures u = cn_futures s"
proof -
  have "fst (maybe_throttle w r s) = Inr () \<and> same_queues s (snd (maybe_throttle w r s)) \<and> cn_futures (snd (maybe_throttle w r s)) = cn_futures s"
    by (auto simp: maybe_throttle_def c_ask_def same_queues_def py_defs split: option.splits pyval.splits)
  then show ?thesis by (metis prod.collapse)
qed

lemma ok_same: "requests_ok D s \<Longrightarrow> same_queues s t \<Longrightarrow> cn_futures t = cn_futures s \<Longrightarrow> requests_ok D t \<and> flying t = flying s"
  by (simp add: requests_ok_def same_queues_def flying_def uses_sasl_def)

lemma match_ok:
  assumes "requests_ok D s" "answers rs s" "match_responses w rs acc s = (r, t)"
  shows "\<exists>ms. r = Inr (acc @ ms) \<and> distinct (map snd ms) \<and> snd ` set ms \<inter> D = {} \<and> snd ` set ms \<subseteq> flying s \<and>
    cn_futures t = cn_futures s \<and> flying t = flying s - snd ` set ms \<and> requests_ok (D \<union> snd ` set ms) t"
  using assms
proof (induction rs arbitrary: D acc s)
  case (Cons x rs)
  obtain cid resp where x: "x = (cid, resp)" by fastforce
  have cid: "cid \<in> fst ` set (cn_in_flight s)" "cid \<notin> fst ` set (in_flight_requests (cn_protocol s))" "cid \<notin> fst ` set rs"
    using Cons.prems(2) by (auto simp: answers_def x)
  obtain i ts where i: "map_of (cn_in_flight s) cid = Some (i, ts)"
    using cid(1) by (metis map_of_eq_None_iff not_None_eq surj_pair)
  let ?s1 = "s\<lparr>cn_in_flight := AList.delete cid (cn_in_flight s)\<rparr>"
  note pop = popped_ok [OF Cons.prems(1) i cid(2) refl]
  obtain u where u: "maybe_throttle w resp (?s1\<lparr>cn_tick := Suc (cn_tick s)\<rparr>) = (Inr (), u)"
      "same_queues (?s1\<lparr>cn_tick := Suc (cn_tick s)\<rparr>) u" "cn_futures u = cn_futures s"
    using throttle_frame [of w resp "?s1\<lparr>cn_tick := Suc (cn_tick s)\<rparr>"] by auto
  have ok: "requests_ok (insert i D) u" "flying u = flying s - {i}"
    using ok_same [of "insert i D" ?s1 u] pop u(2,3) by (auto simp: same_queues_def)
  have "answers rs u"
    using Cons.prems(2) u(2) cid(3) unfolding answers_def same_queues_def x by (simp add: keys_delete) blast
  moreover have "match_responses w rs (acc @ [(resp, i)]) u = (r, t)"
    using Cons.prems(3) i u(1) by (simp add: x c_ask_def py_defs)
  ultimately obtain ms where ms: "r = Inr ((acc @ [(resp, i)]) @ ms)" "distinct (map snd ms)" "snd ` set ms \<inter> insert i D = {}"
      "snd ` set ms \<subseteq> flying u" "cn_futures t = cn_futures u" "flying t = flying u - snd ` set ms" "requests_ok (insert i D \<union> snd ` set ms) t"
    using Cons.IH [OF ok(1)] by blast
  have "i \<notin> D" using Cons.prems(1) pop by (auto simp: requests_ok_def)
  then show ?case using ms ok pop u(3) by (intro exI [of _ "(resp, i) # ms"]) (auto simp: insert_commute)
qed (auto simp: py_return_def intro!: exI [of _ "[]"])

text \<open>What \<open>recv\<close> returns was in flight and is now among those received.\<close>

definition received :: "nat set \<Rightarrow> conn \<Rightarrow> (struct_obj \<times> nat) list res \<Rightarrow> conn \<Rightarrow> bool" where
  "received D s0 r t \<longleftrightarrow>
     (let E = (case r of Inl _ \<Rightarrow> {} | Inr ms \<Rightarrow> snd ` set ms) in
      (case r of Inl _ \<Rightarrow> True | Inr ms \<Rightarrow> distinct (map snd ms)) \<and> E \<inter> D = {} \<and> requests_ok (D \<union> E) t \<and>
      (\<forall>i. settled s0 i \<longrightarrow> settled t i \<and> rf_result (cn_futures t ! i) = rf_result (cn_futures s0 ! i)) \<and>
      (\<forall>i \<in> flying s0. i \<in> flying t \<or> settled t i \<or> i \<in> E))"

lemma received_none: "requests_ok D t \<Longrightarrow> requests_from s0 t \<Longrightarrow> r = Inr [] \<or> (\<exists>e. r = Inl e) \<Longrightarrow> received D s0 r t"
  by (auto simp: received_def requests_from_def)

lemma received_some:
  assumes "requests_ok D u" "requests_from s0 u" "answers rs u" "match_responses w rs [] u = (r, t)"
  shows "received D s0 r t"
proof -
  obtain ms where "r = Inr ms" "distinct (map snd ms)" "snd ` set ms \<inter> D = {}" "cn_futures t = cn_futures u" "flying t = flying u - snd ` set ms"
      "requests_ok (D \<union> snd ` set ms) t"
    using match_ok [OF assms(1,3,4)] by auto
  then show ?thesis using assms(2) by (auto simp: received_def requests_from_def settled_def)
qed

lemma late_frame:
  "\<exists>l v. (if b then requests_timed_out w else py_return False) u = (Inr l, v) \<and> same_queues u v \<and> cn_futures v = cn_futures u"
  by (cases "b \<and> cn_in_flight u \<noteq> []")
    (auto simp: requests_timed_out_def next_ifr_request_timeout_ms_def c_ask_def same_queues_def py_defs)

lemma conn_recv_kept:
  assumes quiet: "closes_quietly w" and kept: "requests_kept D s0 s" and recv: "conn_recv w s = (r, t)"
  shows "few_requests t \<longrightarrow> received D s0 r t"
proof
  assume few: "few_requests t"
  have len: "length (cn_futures t) = length (cn_futures s)" using countD [OF count_recv recv] .
  have kept_t: "received D s0 r t" if "requests_kept D s0 t" "r = Inr [] \<or> (\<exists>e. r = Inl e)"
    using that few by (intro received_none) (simp_all add: requests_kept_def)
  obtain c u where u: "recv_responses w s = (c, u)" by fastforce
  note ru = recv_responses_kept [OF quiet kept u]
  show "received D s0 r t"
  proof (cases c)
    case (Inl e)
    then have "t = u" "r = Inl e" using recv u by (simp_all add: conn_recv_def py_defs)
    then show ?thesis using kept_t ru by blast
  next
    case (Inr rs)
    let ?late = "if rs = [] then requests_timed_out w else py_return False"
    obtain l v where v: "?late u = (Inr l, v)" "same_queues u v" "cn_futures v = cn_futures u"
      using late_frame by blast
    have kv: "requests_kept D s0 v" using ru v(2,3) requests_same [of v u D s0] by (auto simp: same_queues_def)
    show ?thesis
    proof (cases l)
      case True
      let ?x = "v\<lparr>cn_tick := Suc (cn_tick v)\<rparr>"
      have kx: "requests_kept D s0 ?x" using kv by simp
      have "(\<exists>e. r = Inl e) \<and> t = ?x \<or> py_then (conn_close w (Some RequestTimedOutError)) (py_return []) ?x = (r, t)"
        using recv u Inr v(1) True by (auto simp: conn_recv_def timed_out_ifrs_def c_ask_def py_defs split: if_splits)
      moreover have "received D s0 r t" if "py_then (conn_close w (Some RequestTimedOutError)) (py_return []) ?x = (r, t)"
      proof (rule kept_t)
        show "requests_kept D s0 t" "r = Inr [] \<or> (\<exists>e. r = Inl e)"
          using keepsD [OF rk_close [OF quiet] kx] that by (auto simp: py_defs split: prod.splits sum.splits)
      qed
      ultimately show ?thesis using kept_t kx by blast
    next
      case False
      then have m: "match_responses w rs [] v = (r, t)" using recv u Inr v(1) by (simp add: conn_recv_def py_defs)
      have "few_requests v" "few_requests u"
        using few countD [OF count_match m] v(3) by (simp_all add: few_requests_def)
      then have "requests_ok D v" "requests_from s0 v" "answers rs v"
        using kv ru Inr v(2) by (auto simp: requests_kept_def answers_def same_queues_def)
      then show ?thesis using m by (rule received_some)
    qed
  qed
qed

section \<open>Completing\<close>

lemma ok_subset: "requests_ok D s \<Longrightarrow> E \<subseteq> D \<Longrightarrow> requests_ok E s"
  by (auto simp: requests_ok_def dest: subsetD)

definition at_least :: "nat \<Rightarrow> conn \<Rightarrow> bool" where
  "at_least n s \<longleftrightarrow> n \<le> length (cn_futures s)"

interpretation gr: conn_invariant w "at_least n" for w n
  by unfold_locales (auto simp: at_least_def)

lemma growsD: "(\<And>n. keeps (at_least n) m) \<Longrightarrow> m s = (r, t) \<Longrightarrow> length (cn_futures s) \<le> length (cn_futures t)"
  by (metis at_least_def keepsD order_refl)

lemma rk_callback:
  assumes quiet: "closes_quietly w" and again: "\<And>D s0. keeps (requests_kept D s0) again" and ow: "\<And>j. ow \<noteq> SaslHandshakeCheck j"
  shows "keeps (requests_kept D s0) (run_callback w again ow r)"
  using ow by (cases ow) (auto simp: handle_api_versions_response_def handle_check_version_response_def
      intro!: rk_rules rk_close [OF quiet] rk_state_change again)

lemma succeed_kept:
  assumes quiet: "closes_quietly w" and again: "\<And>D s0. keeps (requests_kept D s0) (conn_connect w n)"
    and ok: "few_requests s \<Longrightarrow> requests_ok (insert i D) s" "i \<notin> D" and t: "succeed_future w (conn_connect w n) i r s = (x, t)"
  shows "requests_kept D s t \<and> (few_requests t \<longrightarrow> x = Inr () \<and> settled t i)"
proof (cases "few_requests s")
  case False
  then have "length (cn_futures s) \<le> length (cn_futures t)" "\<not> few_requests t"
    using growsD [OF gr.i_succeed t] by (simp_all add: few_requests_def)
  then show ?thesis by (simp add: requests_kept_def)
next
  case True
  note oks = ok(1) [OF True]
  let ?f = "cn_futures s ! i" and ?again = "conn_connect w n"
  let ?s1 = "s\<lparr>cn_futures := (cn_futures s)[i := ?f\<lparr>rf_result := Some (Inr (Some r))\<rparr>]\<rparr>"
  have i: "i < length (cn_futures s)" "rf_result ?f = None" "i \<notin> flying s" "\<And>j. rf_owner ?f \<noteq> SaslHandshakeCheck j"
    using oks by (auto simp: requests_ok_def)
  have s1: "requests_ok D ?s1 \<and> requests_from s ?s1 \<and> settled ?s1 i"
    using result_ok [OF ok_subset [OF oks subset_insertI], of i ?s1 "Inr (Some r)"] i ok(2) by auto
  have xt: "x = Inr ()" "t = snd (run_callback w ?again (rf_owner ?f) r ?s1)"
    using t i(1,2) by (auto simp: succeed_future_def set_result_def c_suppress_def py_defs simp del: run_callback.simps)
  have "keeps (requests_kept D ?s1) (run_callback w ?again (rf_owner ?f) r)" by (rule rk_callback [OF quiet again i(4)])
  then have kept: "requests_kept D ?s1 t" using s1 requests_kept_refl [of D ?s1] unfolding xt(2) keeps_def by blast
  then have "requests_kept D s t"
    using s1 requests_from_trans unfolding requests_kept_def by auto
  moreover have "few_requests t \<Longrightarrow> settled t i" using kept s1 by (auto simp: requests_kept_def requests_from_def)
  ultimately show ?thesis using xt(1) by blast
qed

lemma succeed_all_kept:
  assumes quiet: "closes_quietly w" and again: "\<And>D s0. keeps (requests_kept D s0) (conn_connect w n)"
    and ok: "few_requests s \<Longrightarrow> requests_ok (D \<union> snd ` set ms) s" "distinct (map snd ms)" "snd ` set ms \<inter> D = {}"
    and t: "py_for (\<lambda>(r, i). succeed_future w (conn_connect w n) i r) ms s = (x, t)"
  shows "requests_kept D s t \<and> (few_requests t \<longrightarrow> x = Inr () \<and> (\<forall>i \<in> snd ` set ms. settled t i))"
  using ok t
proof (induction ms arbitrary: s)
  case Nil
  then show ?case by (auto simp: py_return_def requests_kept_def requests_from_def)
next
  case (Cons m ms)
  obtain r i where m: "m = (r, i)" by fastforce
  let ?E = "snd ` set ms"
  obtain y u where u: "succeed_future w (conn_connect w n) i r s = (y, u)" by fastforce
  have "few_requests s \<Longrightarrow> requests_ok (insert i (D \<union> ?E)) s" using Cons.prems(1) by (simp add: m)
  moreover have "i \<notin> D \<union> ?E" using Cons.prems(2,3) by (auto simp: m)
  ultimately have su: "requests_kept (D \<union> ?E) s u" "few_requests u \<Longrightarrow> y = Inr () \<and> settled u i"
    using succeed_kept [OF quiet again _ _ u] by blast+
  show ?case
  proof (cases y)
    case (Inl e)
    then have "t = u" using Cons.prems(4) u by (simp add: m py_defs)
    then show ?thesis using su Inl by (auto simp: requests_kept_def)
  next
    case (Inr v)
    then have "py_for (\<lambda>(r, i). succeed_future w (conn_connect w n) i r) ms u = (x, t)" using Cons.prems(4) u by (simp add: m py_defs)
    moreover have "few_requests u \<Longrightarrow> requests_ok (D \<union> ?E) u" using su(1) by (simp add: requests_kept_def)
    ultimately have ut: "requests_kept D u t" "few_requests t \<Longrightarrow> x = Inr () \<and> (\<forall>i \<in> ?E. settled t i)"
      using Cons.IH [of u] Cons.prems(2,3) by (auto simp: m)
    have "few_requests t \<Longrightarrow> few_requests u" using ut(1) by (simp add: requests_kept_def few_requests_def)
    then show ?thesis using su ut requests_from_trans unfolding requests_kept_def by (auto simp: m requests_from_def)
  qed
qed

section \<open>Connecting\<close>

lemma keeps_few:
  assumes "\<And>n. keeps (at_least n) m"
    and "\<And>s. few_requests s \<Longrightarrow> requests_ok D s \<Longrightarrow> requests_kept D s0 s \<Longrightarrow> requests_kept D s0 (snd (m s))"
  shows "keeps (requests_kept D s0) m"
  unfolding keeps_def
proof (intro allI impI)
  fix s assume s: "requests_kept D s0 s"
  have len: "length (cn_futures s) \<le> length (cn_futures (snd (m s)))" using growsD [OF assms(1)] by (metis prod.collapse)
  show "requests_kept D s0 (snd (m s))"
  proof (cases "few_requests s")
    case True
    then show ?thesis using assms(2) s by (auto simp: requests_kept_def)
  next
    case False
    then have "\<not> few_requests (snd (m s))" using len by (simp add: few_requests_def)
    then show ?thesis using s len by (simp add: requests_kept_def)
  qed
qed

lemma rk_send_now: "closes_quietly w \<Longrightarrow> keeps (requests_kept D s0) (send_now w r b t)"
  unfolding keeps_def using send_now_kept by (metis prod.collapse)

lemma owner_kept:
  assumes "requests_kept D s0 s" "\<And>j. ow \<noteq> SaslHandshakeCheck j"
  shows "requests_kept D s0 (s\<lparr>cn_futures := (cn_futures s)[i := (cn_futures s ! i)\<lparr>rf_owner := ow\<rparr>]\<rparr>)"
proof -
  let ?t = "s\<lparr>cn_futures := (cn_futures s)[i := (cn_futures s ! i)\<lparr>rf_owner := ow\<rparr>]\<rparr>"
  have res: "rf_result (cn_futures ?t ! k) = rf_result (cn_futures s ! k)" for k
    by (cases "k = i \<and> i < length (cn_futures s)") (auto simp: nth_list_update list_update_beyond)
  have fly: "flying ?t = flying s" by (simp add: flying_def)
  have set: "settled ?t k = settled s k" for k using res [of k] by (simp add: settled_def)
  have "requests_ok D ?t" if "requests_ok D s"
  proof -
    have "\<forall>f \<in> set (cn_futures ?t). \<forall>j. rf_owner f \<noteq> SaslHandshakeCheck j"
      using that assms(2) by (auto simp: requests_ok_def dest!: set_update_subset_insert [THEN subsetD])
    then show ?thesis using that fly res unfolding requests_ok_def by (simp add: uses_sasl_def)
  qed
  moreover have "requests_from s0 ?t" if "requests_from s0 s" using that res set fly by (simp add: requests_from_def)
  ultimately show ?thesis using assms(1) by (simp add: requests_kept_def few_requests_def)
qed

lemma rk_errback: "(\<And>j. ow \<noteq> SaslHandshakeCheck j) \<Longrightarrow> keeps (requests_kept D s0) (run_errback ow e)"
  by (cases ow) (auto simp: handle_api_versions_failure_def handle_check_version_failure_def intro!: rk_rules)

lemma rk_add_callbacks:
  assumes "closes_quietly w" "\<And>D s0. keeps (requests_kept D s0) again" "\<And>j. ow \<noteq> SaslHandshakeCheck j"
  shows "keeps (requests_kept D s0) (add_callbacks w again i ow)"
  unfolding add_callbacks_def by (intro rk_rules rk_errback rk_callback assms owner_kept)

lemma rk_recv_and_succeed:
  assumes quiet: "closes_quietly w" and again: "\<And>D s0. keeps (requests_kept D s0) (conn_connect w n)"
  shows "keeps (requests_kept D s0) (recv_and_succeed w (conn_connect w n))"
proof (rule keeps_few)
  fix s assume s: "few_requests s" "requests_ok D s" "requests_kept D s0 s"
  obtain r u where u: "conn_recv w s = (r, u)" by fastforce
  have few: "few_requests u" using s(1) countD [OF count_recv u] by (simp add: few_requests_def)
  have got: "received D s r u" using conn_recv_kept [OF quiet requests_kept_refl [OF s(2)] u] few by blast
  have len: "length (cn_futures u) = length (cn_futures s)" using countD [OF count_recv u] .
  have "requests_kept D s (snd (recv_and_succeed w (conn_connect w n) s))"
  proof (cases r)
    case (Inl e)
    then show ?thesis using u got len by (auto simp: recv_and_succeed_def py_defs received_def requests_kept_def requests_from_def)
  next
    case (Inr ms)
    obtain x t where t: "py_for (\<lambda>(r, i). succeed_future w (conn_connect w n) i r) ms u = (x, t)" by fastforce
    have "requests_kept D u t \<and> (few_requests t \<longrightarrow> x = Inr () \<and> (\<forall>i \<in> snd ` set ms. settled t i))"
      using got Inr by (intro succeed_all_kept [OF quiet again _ _ _ t]) (simp_all add: received_def)
    then have "requests_kept D s t"
      using got Inr len by (auto simp: requests_kept_def received_def requests_from_def)
    moreover have "snd (recv_and_succeed w (conn_connect w n) s) = t" using u t Inr by (simp add: recv_and_succeed_def py_defs)
    ultimately show ?thesis by simp
  qed
  then show "requests_kept D s0 (snd (recv_and_succeed w (conn_connect w n) s))"
    by (intro requests_kept_trans [OF s(3)]) (simp_all add: requests_kept_def)
qed (rule gr.i_recv_and_succeed)

lemma rk_version_check:
  assumes quiet: "closes_quietly w" and again: "\<And>D s0. keeps (requests_kept D s0) (conn_connect w n)"
  shows "keeps (requests_kept D s0) (try_api_versions_check w (conn_connect w n))"
  unfolding try_api_versions_check_def start_version_check_def use_configured_version_def await_version_check_def
  by (auto intro!: rk_rules rk_recv_and_succeed [OF quiet again] rk_close [OF quiet] rk_send_now [OF quiet] rk_add_callbacks [OF quiet again]
      rk_state_change)

lemma rk_connect_versions:
  assumes quiet: "closes_quietly w" and again: "\<And>D s0. keeps (requests_kept D s0) (conn_connect w n)"
  shows "keeps (requests_kept D s0) (connect_versions w (conn_connect w n))"
proof -
  have "keeps (requests_kept D s0) (py_if uses_sasl (enter_state w AUTHENTICATING) (enter_connected w))"
  proof (rule keeps_few)
    show "keeps (at_least m) (py_if uses_sasl (enter_state w AUTHENTICATING) (enter_connected w))" for m
      unfolding enter_state_def enter_connected_def state_change_def c_try_def
      by (intro gr.i_rules) (simp_all add: at_least_def reset_reconnect_backoff_def)
    have "keeps (requests_kept D s0) (enter_connected w)"
      unfolding enter_connected_def reset_reconnect_backoff_def by (intro rk_rules rk_state_change) simp
    then show "requests_kept D s0 (snd (py_if uses_sasl (enter_state w AUTHENTICATING) (enter_connected w) s))"
      if "requests_ok D s" "requests_kept D s0 s" for s
      using that by (simp add: requests_ok_def keeps_def py_if_def)
  qed
  then show ?thesis
    unfolding connect_versions_def by (intro keeps_when keeps_bind keeps_if keeps_return rk_version_check [OF quiet again])
qed

lemma rk_connect_authenticate: "keeps (requests_kept D s0) (connect_authenticate w (conn_connect w n))"
proof (rule keeps_few)
  show "keeps (at_least m) (connect_authenticate w (conn_connect w n))" for m by (intro gr.i_connect_authenticate gr.i_connect)
qed (simp add: connect_authenticate_def requests_ok_def py_defs)

lemma rk_connect:
  assumes quiet: "closes_quietly w"
  shows "keeps (requests_kept D s0) (conn_connect w n)"
proof (induction n arbitrary: D s0)
  case (Suc n)
  have "keeps (requests_kept D s0) (connect_open w)"
    unfolding connect_open_def blacked_out_def connection_delay_def open_socket_def next_afi_sockaddr_def conn_dns_lookup_def
    by (auto intro!: rk_rules rk_close [OF quiet] rk_state_change)
  moreover have "keeps (requests_kept D s0) (connect_tcp w)"
    unfolding connect_tcp_def enter_state_def wrap_ssl_def by (auto intro!: rk_rules rk_close [OF quiet] rk_state_change)
  moreover have "keeps (requests_kept D s0) (connect_handshake w)"
    unfolding connect_handshake_def try_handshake_def enter_state_def by (auto intro!: rk_rules rk_close [OF quiet] rk_state_change)
  moreover have "keeps (requests_kept D s0) (connect_timeout w)"
    unfolding connect_timeout_def by (intro rk_rules rk_close [OF quiet])
  ultimately show ?case
    unfolding conn_connect.simps connect_step_def
    using rk_connect_versions [OF quiet Suc.IH] rk_connect_authenticate by (intro rk_rules)
qed (simp add: keeps_raise)

section \<open>Every request is settled once\<close>

text \<open>The states a connection reaches, with the futures \<open>send\<close> has handed out and, of those \<open>recv\<close> has returned, the ones not
  yet completed.  Steps may return or raise.\<close>

inductive conn_run :: "conn_world \<Rightarrow> conn \<Rightarrow> nat set \<Rightarrow> nat set \<Rightarrow> conn \<Rightarrow> bool" for w c where
  run_new: "conn_run w c {} {} c"
| run_connect: "conn_run w c H D s \<Longrightarrow> conn_run w c H D (snd (conn_connect w n s))"
| run_send: "conn_run w c H D s \<Longrightarrow> conn_send w r b t s = (Inr i, s') \<Longrightarrow> conn_run w c (insert i H) D s'"
| run_send_raises: "conn_run w c H D s \<Longrightarrow> conn_send w r b t s = (Inl e, s') \<Longrightarrow> conn_run w c H D s'"
| run_pending: "conn_run w c H D s \<Longrightarrow> conn_run w c H D (snd (send_pending_requests w s))"
| run_pending_v2: "conn_run w c H D s \<Longrightarrow> conn_run w c H D (snd (send_pending_requests_v2 w s))"
| run_recv: "conn_run w c H D s \<Longrightarrow> conn_recv w s = (Inr rs, s') \<Longrightarrow> conn_run w c H (D \<union> snd ` set rs) s'"
| run_recv_raises: "conn_run w c H D s \<Longrightarrow> conn_recv w s = (Inl e, s') \<Longrightarrow> conn_run w c H D s'"
| run_complete: "conn_run w c H D s \<Longrightarrow> i \<in> D \<Longrightarrow> conn_run w c H (D - {i}) (snd (succeed_future w (conn_connect w n) i r s))"
| run_close: "conn_run w c H D s \<Longrightarrow> conn_run w c H D (snd (conn_close w e s))"

text \<open>Each future handed out is settled, in flight or received.\<close>

definition accounted :: "nat set \<Rightarrow> nat set \<Rightarrow> conn \<Rightarrow> bool" where
  "accounted H D s \<longleftrightarrow> (few_requests s \<longrightarrow> requests_ok D s \<and> (\<forall>i \<in> H. settled s i \<or> i \<in> flying s \<or> i \<in> D))"

lemma accounted_kept: "accounted H D s \<Longrightarrow> requests_kept D s t \<Longrightarrow> accounted H D t"
  unfolding accounted_def requests_kept_def requests_from_def few_requests_def by fastforce

lemma accounted_keeps: "accounted H D s \<Longrightarrow> (\<And>s0. keeps (requests_kept D s0) m) \<Longrightarrow> accounted H D (snd (m s))"
  by (rule accounted_kept) (auto simp: keeps_def accounted_def requests_kept_def requests_from_def)

lemma accounted_self: "accounted H D s \<Longrightarrow> requests_kept D s s"
  by (simp add: accounted_def requests_kept_def requests_from_def)

lemma accounted_send:
  assumes "closes_quietly w" "accounted H D s" "conn_send w rq b t s = (r, s')"
  shows "accounted (case r of Inl _ \<Rightarrow> H | Inr i \<Rightarrow> insert i H) D s'"
proof -
  note kept = conn_send_kept [OF assms(1) accounted_self [OF assms(2)] assms(3)]
  have "accounted H D s'" using accounted_kept [OF assms(2)] kept by blast
  then show ?thesis using kept by (cases r) (auto simp: accounted_def)
qed

lemma accounted_recv:
  assumes "closes_quietly w" "accounted H D s" "conn_recv w s = (r, s')"
  shows "accounted H (case r of Inl _ \<Rightarrow> D | Inr rs \<Rightarrow> D \<union> snd ` set rs) s'"
proof -
  have "few_requests s' \<longrightarrow> received D s r s'" using conn_recv_kept [OF assms(1) accounted_self [OF assms(2)] assms(3)] .
  moreover have "few_requests s' = few_requests s" using countD [OF count_recv assms(3)] by (simp add: few_requests_def)
  ultimately show ?thesis using assms(2) by (cases r) (auto simp: accounted_def received_def)
qed

lemma accounted_complete:
  assumes "closes_quietly w" "accounted H D s" "i \<in> D"
  shows "accounted H (D - {i}) (snd (succeed_future w (conn_connect w n) i r s))"
proof -
  obtain x t where t: "succeed_future w (conn_connect w n) i r s = (x, t)" by fastforce
  have "few_requests s \<Longrightarrow> requests_ok (insert i (D - {i})) s" using assms(2,3) by (simp add: accounted_def insert_absorb)
  then have "requests_kept (D - {i}) s t \<and> (few_requests t \<longrightarrow> settled t i)"
    using succeed_kept [OF assms(1) rk_connect [OF assms(1)] _ _ t] by blast
  moreover have "few_requests t \<Longrightarrow> few_requests s" using growsD [OF gr.i_succeed t] by (simp add: few_requests_def)
  ultimately have "few_requests t \<Longrightarrow> requests_ok (D - {i}) t \<and> (\<forall>k \<in> H. settled t k \<or> k \<in> flying t \<or> k \<in> D - {i})"
    using assms(2) unfolding accounted_def requests_kept_def requests_from_def by blast
  then show ?thesis by (simp add: accounted_def t)
qed

lemma run_accounted:
  assumes "conn_run w c H D s" "closes_quietly w" "accounted {} {} c"
  shows "accounted H D s"
  using assms(1)
proof (induction rule: conn_run.induct)
  case (run_connect H D s n)
  then show ?case by (intro accounted_keeps rk_connect assms(2))
next
  case (run_send H D s r b t i s')
  then show ?case using accounted_send [OF assms(2)] by fastforce
next
  case (run_send_raises H D s r b t e s')
  then show ?case using accounted_send [OF assms(2)] by fastforce
next
  case (run_recv H D s rs s')
  then show ?case using accounted_recv [OF assms(2)] by fastforce
next
  case (run_recv_raises H D s e s')
  then show ?case using accounted_recv [OF assms(2)] by fastforce
next
  case (run_complete H D s i n r)
  then show ?case by (intro accounted_complete assms(2))
qed (use assms(2,3) in \<open>auto intro!: accounted_keeps rk_pending rk_close\<close>)

text \<open>C10. Every request is settled, and once: on a connection without SASL, whatever the broker sends, wherever the network breaks and in
  whatever order the connection is used, each future that \<open>send\<close> handed out is exactly one of settled, in flight, or returned
  by \<open>recv\<close> and waiting to be completed; and none is in flight when the connection is disconnected.  So no response
  completes a request twice and no failure forgets one.  The callback for state changes must not raise on
  closing, and fewer than \<open>2 ^ 31\<close> futures may have been made, since correlation ids wrap around.\<close>

theorem requests_settled_once:
  assumes c: "BrokerConnection client name version api security mechanism timeout backoff backoff_max check_timeout in_flight chunk count context = Inr c"
      "security \<in> {''PLAINTEXT'', ''SSL''}"
    and run: "conn_run w c H D s" "\<forall>k sock. nv_callback (w k) DISCONNECTED sock = Inr ()" "length (cn_futures s) < 2 ^ 31"
  shows "(\<forall>i \<in> H. (settled s i \<and> i \<notin> flying s \<and> i \<notin> D) \<or> (\<not> settled s i \<and> i \<in> flying s \<and> i \<notin> D) \<or> (\<not> settled s i \<and> i \<notin> flying s \<and> i \<in> D)) \<and>
    (cn_state s = DISCONNECTED \<longrightarrow> flying s = {})"
proof -
  have "requests_ok {} c"
    using c by (auto simp: BrokerConnection_def requests_ok_def flying_def uses_sasl_def new_protocol_def KafkaProtocol_def split: if_splits)
  then have "accounted {} {} c" by (simp add: accounted_def)
  then have "accounted H D s" using run_accounted [OF run(1)] run(2) by (simp add: closes_quietly_def)
  moreover have "int (length (cn_futures s)) < 2 ^ 31" using run(3) by (metis of_nat_less_iff of_nat_numeral of_nat_power)
  ultimately have s: "requests_ok D s" "\<forall>i \<in> H. settled s i \<or> i \<in> flying s \<or> i \<in> D"
    by (simp_all add: accounted_def few_requests_def)
  have apart: "\<forall>i \<in> flying s \<union> D. \<not> settled s i" "flying s \<inter> D = {}" "cn_state s = DISCONNECTED \<longrightarrow> cn_in_flight s = []"
    using s(1) by (simp_all add: requests_ok_def settled_def)
  have "settled s i \<and> i \<notin> flying s \<and> i \<notin> D \<or> \<not> settled s i \<and> i \<in> flying s \<and> i \<notin> D \<or> \<not> settled s i \<and> i \<notin> flying s \<and> i \<in> D"
    if "i \<in> H" for i using bspec [OF s(2) that] bspec [OF apart(1), of i] apart(2) by blast
  moreover have "cn_state s = DISCONNECTED \<longrightarrow> flying s = {}" using apart(3) by (simp add: flying_def)
  ultimately show ?thesis by simp
qed

text \<open>A broker of a known version: connecting takes one call, and a request is then in flight.\<close>

definition working_world :: conn_world where
  "working_world k = (broken_world k)\<lparr>nv_now := 1000, nv_getaddrinfo := Some [(AF_INET, 1)], nv_socket := Inr 3, nv_connect_ex := 0,
     nv_send := (\<lambda>data. Inr (length data)), nv_recv := (\<lambda>n. Inl BlockingIOError)\<rparr>"

definition known_conn :: conn where
  "known_conn = (case BrokerConnection [107] [107] [49] (Some [2, 6]) ''PLAINTEXT'' [80] 30000 50 30000 2000 5 4096 1000 False of Inr c \<Rightarrow> c)"

lemma known_conn_sends:
  "fst (conn_send working_world list_groups True None (snd (conn_connect working_world 1 known_conn))) = Inr 0"
  by code_simp

theorem requests_settled_once_witness:
  "\<exists>s. conn_run working_world known_conn {0} {} s \<and> \<not> settled s 0 \<and> 0 \<in> flying s \<and>
    (\<forall>i \<in> {0}. (settled s i \<and> i \<notin> flying s \<and> i \<notin> {}) \<or> (\<not> settled s i \<and> i \<in> flying s \<and> i \<notin> {}) \<or> (\<not> settled s i \<and> i \<notin> flying s \<and> i \<in> {})) \<and>
    (cn_state s = DISCONNECTED \<longrightarrow> flying s = {})"
proof -
  define s where "s = snd (conn_send working_world list_groups True None (snd (conn_connect working_world 1 known_conn)))"
  have "conn_send working_world list_groups True None (snd (conn_connect working_world 1 known_conn)) = (Inr 0, s)"
    using known_conn_sends by (simp add: s_def prod_eq_iff)
  then have run: "conn_run working_world known_conn {0} {} s"
    by (rule conn_run.run_send [OF conn_run.run_connect [OF conn_run.run_new]])
  have "length (cn_futures s) = 1 \<and> rf_result (cn_futures s ! 0) = None \<and> (\<lambda>(_, i, _). i) (hd (cn_in_flight s)) = 0 \<and> cn_in_flight s \<noteq> []"
    unfolding s_def by code_simp
  then have s: "length (cn_futures s) = 1" "\<not> settled s 0" "0 \<in> flying s"
    by (auto simp: settled_def flying_def neq_Nil_conv split: prod.splits)
  have known: "BrokerConnection [107] [107] [49] (Some [2, 6]) ''PLAINTEXT'' [80] 30000 50 30000 2000 5 4096 1000 False = Inr known_conn"
    by (simp add: known_conn_def BrokerConnection_def SECURITY_PROTOCOLS_def)
  have "(\<forall>i \<in> {0}. (settled s i \<and> i \<notin> flying s \<and> i \<notin> {}) \<or> (\<not> settled s i \<and> i \<in> flying s \<and> i \<notin> {}) \<or> (\<not> settled s i \<and> i \<notin> flying s \<and> i \<in> {})) \<and>
    (cn_state s = DISCONNECTED \<longrightarrow> flying s = {})"
    by (rule requests_settled_once [OF known _ run]) (simp_all add: working_world_def broken_world_def s)
  then show ?thesis using run s(2,3) by blast
qed

end
